(* ===== verification/Prelude.thy ===== *)
theory Prelude
  imports Main "HOL-Library.Word" "HOL-Library.Sublist" "HOL-Library.Multiset"
begin

text \<open>
  Shared vocabulary of the development: the fact collections, Go's \<open>uint64\<close> and
  \<open>time.Time\<close>, results of fallible calls, and the generic lemmas on lists, words and
  sums that the component theories use.
\<close>

section \<open>Fact collections\<close>

named_theorems field_frames
  \<open>which record fields an operation leaves alone\<close>

named_theorems inversion
  \<open>what a successful call of a fallible operation says about its arguments and result\<close>

section \<open>Machine integers and time\<close>

text \<open>Go's \<open>uint64\<close>: addition wraps around.\<close>

type_synonym u64 = "64 word"

text \<open>
  A \<open>time.Time\<close> is the number of nanoseconds since Go's zero time, so the zero value
  is \<open>0\<close> and \<open>After\<close>, \<open>Before\<close> compare instants. \<open>UTC\<close> changes only the
  location in which the instant is printed.
\<close>

type_synonym time = int

abbreviation is_zero :: "time \<Rightarrow> bool" where
  "is_zero t \<equiv> t = 0"

abbreviation after :: "time \<Rightarrow> time \<Rightarrow> bool" where
  "after t u \<equiv> u < t"

definition utc :: "time \<Rightarrow> time" where
  [simp]: "utc t = t"

text \<open>\<open>t.Truncate(d)\<close> rounds down to a multiple of \<open>d\<close> since the zero time.\<close>

definition truncate_time :: "time \<Rightarrow> int \<Rightarrow> time" where
  "truncate_time t d = (if d \<le> 0 then t else t - t mod d)"

lemma truncate_time_idem [simp]: "truncate_time (truncate_time t d) d = truncate_time t d"
  by (simp add: truncate_time_def minus_mod_eq_mult_div)

lemma u64_add_one_neq [simp]: "(g :: u64) + 1 \<noteq> g"
  by simp

lemma unat_u64_add_one: "(g :: u64) \<noteq> -1 \<Longrightarrow> unat (g + 1) = Suc (unat g)"
  by (metis add.commute add_eq_0_iff2 unatSuc)

lemma u64_less_add_one: "(g :: u64) \<noteq> -1 \<Longrightarrow> g < g + 1"
  by (simp add: word_less_nat_alt unat_u64_add_one)

lemma u64_le_add_one: "(g :: u64) \<noteq> -1 \<Longrightarrow> g \<le> g + 1"
  using u64_less_add_one order.strict_implies_order by blast

lemma unat_numeral_u64 [simp]: "unat (1000000 :: u64) = 1000000"
  by simp

section \<open>Results\<close>

text \<open>
  A Go function returning \<open>(T, error)\<close> is a sum: \<open>Inl\<close> carries the error. The value
  the source returns beside a non-nil error is dropped: no caller in the source reads it.
\<close>

fun is_err :: "'e + 'a \<Rightarrow> bool" where
  "is_err (Inl _) = True"
| "is_err (Inr _) = False"

definition bind_result :: "'e + 'a \<Rightarrow> ('a \<Rightarrow> 'e + 'b) \<Rightarrow> 'e + 'b" where
  "bind_result r f = (case r of Inl e \<Rightarrow> Inl e | Inr x \<Rightarrow> f x)"

lemma bind_result_Inl [simp]: "bind_result (Inl e) f = Inl e"
  by (simp add: bind_result_def)

lemma bind_result_Inr [simp]: "bind_result (Inr x) f = f x"
  by (simp add: bind_result_def)

lemma bind_result_eq_Inr:
  "bind_result r f = Inr y \<longleftrightarrow> (\<exists>x. r = Inr x \<and> f x = Inr y)"
  by (cases r) auto

lemma bind_result_eq_Inl:
  "bind_result r f = Inl e \<longleftrightarrow> r = Inl e \<or> (\<exists>x. r = Inr x \<and> f x = Inl e)"
  by (cases r) auto

section \<open>Lists\<close>

text \<open>The first index a Go \<open>for i := range xs\<close> loop stops at.\<close>

fun find_index :: "('a \<Rightarrow> bool) \<Rightarrow> 'a list \<Rightarrow> nat option" where
  "find_index P [] = None"
| "find_index P (x # xs) = (if P x then Some 0 else map_option Suc (find_index P xs))"

lemma find_index_Some:
  "find_index P xs = Some i \<Longrightarrow> i < length xs \<and> P (xs ! i) \<and> (\<forall>j < i. \<not> P (xs ! j))"
proof (induction xs arbitrary: i)
  case Nil
  then show ?case by simp
next
  case (Cons x xs)
  show ?case
  proof (cases "P x")
    case True
    with Cons.prems show ?thesis by simp
  next
    case False
    with Cons.prems obtain k where k: "find_index P xs = Some k" "i = Suc k"
      by (auto split: option.splits)
    from Cons.IH[OF k(1)] k(2) False show ?thesis
      by (auto simp: less_Suc_eq_0_disj)
  qed
qed

lemma find_index_None: "find_index P xs = None \<longleftrightarrow> (\<forall>x \<in> set xs. \<not> P x)"
  by (induction xs) auto

lemma find_index_cong:
  "length xs = length ys \<Longrightarrow> (\<And>i. i < length xs \<Longrightarrow> P (xs ! i) = Q (ys ! i)) \<Longrightarrow>
   find_index P xs = find_index Q ys"
proof (induction xs ys rule: list_induct2)
  case Nil
  then show ?case by simp
next
  case (Cons x xs y ys)
  have "P x = Q y" using Cons.prems[of 0] by simp
  moreover have "find_index P xs = find_index Q ys"
    using Cons.prems[of "Suc _"] by (intro Cons.IH) auto
  ultimately show ?case by simp
qed

lemma find_eq_find_index: "find P xs = map_option ((!) xs) (find_index P xs)"
  by (induction xs) (auto simp: option.map_comp comp_def)

lemma set_list_update_subset: "set (xs[i := y]) \<subseteq> insert y (set xs)"
  by (rule set_update_subset_insert)

lemma distinct_map_update:
  assumes "distinct (map f xs)" "i < length xs" "f y = f (xs ! i)"
  shows "distinct (map f (xs[i := y]))"
proof -
  have "map f (xs[i := y]) = map f xs"
    using assms(2,3) by (simp add: map_update list_update_same_conv)
  with assms(1) show ?thesis by simp
qed

lemma append_sep_inject:
  "c \<notin> set a \<Longrightarrow> c \<notin> set b \<Longrightarrow> a @ c # xs = b @ c # ys \<longleftrightarrow> a = b \<and> xs = ys"
proof (induction a arbitrary: b)
  case Nil
  then show ?case by (cases b) auto
next
  case (Cons x a)
  then show ?case by (cases b) auto
qed

section \<open>Sorting\<close>

lemma sort_key_unique:
  assumes "mset xs = mset ys" "distinct (map f xs)"
  shows "sort_key f xs = sort_key f ys"
proof -
  have d: "distinct (map f ys)"
    using assms by (metis mset_eq_imp_distinct_iff mset_map)
  have same: "set (sort_key f xs) = set (sort_key f ys)"
    using assms(1) by (metis mset_sort set_mset_mset)
  have dist: "distinct (map f (sort_key f zs))" if "distinct (map f zs)" for zs
    using that by (metis mset_eq_imp_distinct_iff mset_map mset_sort)
  have "inj_on f (set (sort_key f xs) \<union> set (sort_key f ys))"
    using dist[OF assms(2)] same by (simp add: distinct_map)
  then show ?thesis
    using same dist[OF assms(2)] dist[OF d]
    by (intro map_sorted_distinct_set_unique[where f = f]) simp_all
qed

lemma sort_key_idem [simp]: "sort_key f (sort_key f xs) = sort_key f xs"
  by (simp add: sort_key_id_if_sorted)

lemma map_sort_key: "(\<And>x. f (g x) = f x) \<Longrightarrow> map g (sort_key f xs) = sort_key f (map g xs)"
proof (induction xs)
  case Nil
  then show ?case by simp
next
  case (Cons x xs)
  have "map g (insort_key f x ys) = insort_key f (g x) (map g ys)" for ys
    by (induction ys) (auto simp: Cons.prems)
  with Cons show ?case by simp
qed


end
