(* ===== verification/GoText.thy ===== *)
theory GoText
  imports Prelude
begin

text \<open>
  Go strings are byte sequences, so a string of the model is a list of \<open>char\<close>s (bytes).
  This theory models the parts of the standard library the repository's domain code uses:
  \<open>strings.TrimSpace\<close>, \<open>strings.ToLower\<close> on the ASCII range, \<open>hex.DecodeString\<close>, and the
  character classes of its identifier patterns.
\<close>

section \<open>strings.TrimSpace\<close>

text \<open>The UTF-8 encodings of the code points with \<open>unicode.IsSpace\<close>.\<close>

definition space_encodings :: "string list" where
  "space_encodings =
    [[CHR 0x09], [CHR 0x0A], [CHR 0x0B], [CHR 0x0C], [CHR 0x0D], [CHR 0x20],
     [CHR 0xC2, CHR 0x85], [CHR 0xC2, CHR 0xA0],
     [CHR 0xE1, CHR 0x9A, CHR 0x80],
     [CHR 0xE2, CHR 0x80, CHR 0x80], [CHR 0xE2, CHR 0x80, CHR 0x81],
     [CHR 0xE2, CHR 0x80, CHR 0x82], [CHR 0xE2, CHR 0x80, CHR 0x83],
     [CHR 0xE2, CHR 0x80, CHR 0x84], [CHR 0xE2, CHR 0x80, CHR 0x85],
     [CHR 0xE2, CHR 0x80, CHR 0x86], [CHR 0xE2, CHR 0x80, CHR 0x87],
     [CHR 0xE2, CHR 0x80, CHR 0x88], [CHR 0xE2, CHR 0x80, CHR 0x89],
     [CHR 0xE2, CHR 0x80, CHR 0x8A],
     [CHR 0xE2, CHR 0x80, CHR 0xA8], [CHR 0xE2, CHR 0x80, CHR 0xA9],
     [CHR 0xE2, CHR 0x80, CHR 0xAF], [CHR 0xE2, CHR 0x81, CHR 0x9F],
     [CHR 0xE3, CHR 0x80, CHR 0x80]]"

text \<open>The length of the encoding from \<open>encs\<close> a string starts with, \<open>0\<close> for none.\<close>

fun leading_length :: "string list \<Rightarrow> string \<Rightarrow> nat" where
  "leading_length [] s = 0"
| "leading_length (e # es) s =
     (if e \<noteq> [] \<and> take (length e) s = e then length e else leading_length es s)"

function strip_leading :: "string list \<Rightarrow> string \<Rightarrow> string" where
  "strip_leading encs s =
     (if s = [] \<or> leading_length encs s = 0 then s
      else strip_leading encs (drop (leading_length encs s) s))"
  by pat_completeness auto
termination
  by (relation "measure (\<lambda>(encs, s). length s)") auto

declare strip_leading.simps [simp del]

definition trim_left :: "string \<Rightarrow> string" where
  "trim_left s = strip_leading space_encodings s"

definition trim_right :: "string \<Rightarrow> string" where
  "trim_right s = rev (strip_leading (map rev space_encodings) (rev s))"

definition trim_space :: "string \<Rightarrow> string" where
  "trim_space s = trim_right (trim_left s)"

lemma strip_leading_Nil [simp]: "strip_leading encs [] = []"
  by (simp add: strip_leading.simps)

lemma strip_leading_fixed: "leading_length encs s = 0 \<Longrightarrow> strip_leading encs s = s"
  by (simp add: strip_leading.simps)

lemma strip_leading_result: "strip_leading encs s = [] \<or> leading_length encs (strip_leading encs s) = 0"
proof (induction encs s rule: strip_leading.induct)
  case (1 encs s)
  then show ?case
    by (cases "s = [] \<or> leading_length encs s = 0")
      (auto simp: strip_leading.simps[of encs s])
qed

lemma strip_leading_idem [simp]:
  "strip_leading encs (strip_leading encs s) = strip_leading encs s"
  using strip_leading_result[of encs s] strip_leading_fixed by auto

lemma strip_leading_suffix: "suffix (strip_leading encs s) s"
proof (induction encs s rule: strip_leading.induct)
  case (1 encs s)
  show ?case
  proof (cases "s = [] \<or> leading_length encs s = 0")
    case True
    then show ?thesis by (subst strip_leading.simps) auto
  next
    case False
    with 1 have "suffix (strip_leading encs (drop (leading_length encs s) s))
        (drop (leading_length encs s) s)" by simp
    with False show ?thesis
      by (subst strip_leading.simps) (auto intro: suffix_order.trans suffix_drop)
  qed
qed

text \<open>A prefix of a string with no leading space has no leading space either.\<close>

lemma leading_length_prefix: "leading_length encs s = 0 \<Longrightarrow> prefix p s \<Longrightarrow> leading_length encs p = 0"
proof (induction encs)
  case Nil
  then show ?case by simp
next
  case (Cons e es)
  have "take (length e) s = e" if "e \<noteq> []" "take (length e) p = e"
  proof -
    from \<open>prefix p s\<close> obtain q where "s = p @ q" by (auto simp: prefix_def)
    with that(2) show ?thesis by (metis append_eq_conv_conj append_take_drop_id append.assoc)
  qed
  with Cons show ?case by (auto split: if_splits)
qed

lemma trim_right_prefix: "prefix (trim_right s) s"
  unfolding trim_right_def
  using strip_leading_suffix[of "map rev space_encodings" "rev s"]
  by (simp add: suffix_to_prefix)

lemma trim_left_fixed: "leading_length space_encodings s = 0 \<Longrightarrow> trim_left s = s"
  by (simp add: trim_left_def strip_leading_fixed)

lemma trim_left_trim_space: "trim_left (trim_space s) = trim_space s"
proof (cases "trim_left s = []")
  case True
  then show ?thesis by (simp add: trim_space_def trim_right_def trim_left_def)
next
  case False
  then have "leading_length space_encodings (trim_left s) = 0"
    using strip_leading_result[of space_encodings s] by (simp add: trim_left_def)
  then have "leading_length space_encodings (trim_space s) = 0"
    unfolding trim_space_def by (rule leading_length_prefix[OF _ trim_right_prefix])
  then show ?thesis by (rule trim_left_fixed)
qed

lemma trim_right_idem [simp]: "trim_right (trim_right s) = trim_right s"
  by (simp add: trim_right_def)

lemma trim_space_idem [simp]: "trim_space (trim_space s) = trim_space s"
proof -
  have "trim_space (trim_space s) = trim_right (trim_left (trim_space s))"
    by (simp add: trim_space_def)
  also have "\<dots> = trim_right (trim_space s)" by (simp only: trim_left_trim_space)
  also have "\<dots> = trim_space s" by (simp add: trim_space_def)
  finally show ?thesis .
qed

lemma trim_space_Nil [simp]: "trim_space [] = []"
  by (simp add: trim_space_def trim_left_def trim_right_def)

text \<open>\<open>sublist\<close>: trimming only ever removes bytes at the two ends.\<close>

lemma trim_space_sublist: "sublist (trim_space s) s"
proof -
  have "sublist (trim_space s) (trim_left s)"
    unfolding trim_space_def by (rule prefix_imp_sublist[OF trim_right_prefix])
  moreover have "sublist (trim_left s) s"
    unfolding trim_left_def by (rule suffix_imp_sublist[OF strip_leading_suffix])
  ultimately show ?thesis by (rule sublist_order.order.trans)
qed

lemma length_trim_space: "length (trim_space s) \<le> length s"
  using trim_space_sublist sublist_length_le by blast

lemma set_trim_space: "set (trim_space s) \<subseteq> set s"
  using trim_space_sublist set_mono_sublist by blast

lemma trim_space_ne_Nil [dest]: "trim_space s \<noteq> [] \<Longrightarrow> s \<noteq> []"
  by auto

section \<open>Character classes and patterns\<close>

definition in_range :: "char \<Rightarrow> char \<Rightarrow> char \<Rightarrow> bool" where
  "in_range a b c \<longleftrightarrow> (of_char a :: nat) \<le> of_char c \<and> (of_char c :: nat) \<le> of_char b"

definition is_digit :: "char \<Rightarrow> bool" where
  "is_digit c = in_range CHR ''0'' CHR ''9'' c"

definition is_lower :: "char \<Rightarrow> bool" where
  "is_lower c = in_range CHR ''a'' CHR ''z'' c"

definition is_upper :: "char \<Rightarrow> bool" where
  "is_upper c = in_range CHR ''A'' CHR ''Z'' c"

definition is_alnum :: "char \<Rightarrow> bool" where
  "is_alnum c \<longleftrightarrow> is_digit c \<or> is_lower c \<or> is_upper c"

text \<open>The pattern \<open>^H T{0,n}$\<close>: one character of class \<open>H\<close>, then at most \<open>n\<close> of class \<open>T\<close>.\<close>

fun matches_id :: "(char \<Rightarrow> bool) \<Rightarrow> (char \<Rightarrow> bool) \<Rightarrow> nat \<Rightarrow> string \<Rightarrow> bool" where
  "matches_id H T n [] = False"
| "matches_id H T n (c # cs) \<longleftrightarrow> H c \<and> length cs \<le> n \<and> list_all T cs"

lemma matches_id_ne_Nil: "matches_id H T n s \<Longrightarrow> s \<noteq> []"
  by (cases s) auto

lemma matches_id_length: "matches_id H T n s \<Longrightarrow> length s \<le> Suc n"
  by (cases s) auto

section \<open>Hexadecimal digits\<close>

definition is_hex_digit :: "char \<Rightarrow> bool" where
  "is_hex_digit c \<longleftrightarrow> is_digit c \<or> in_range CHR ''a'' CHR ''f'' c \<or> in_range CHR ''A'' CHR ''F'' c"

definition is_lower_hex_digit :: "char \<Rightarrow> bool" where
  "is_lower_hex_digit c \<longleftrightarrow> is_digit c \<or> in_range CHR ''a'' CHR ''f'' c"

text \<open>\<open>hex.DecodeString\<close> succeeds on an even number of hexadecimal digits.\<close>

definition hex_decodable :: "string \<Rightarrow> bool" where
  "hex_decodable s \<longleftrightarrow> even (length s) \<and> list_all is_hex_digit s"

definition has_prefix :: "string \<Rightarrow> string \<Rightarrow> bool" where
  "has_prefix s p \<longleftrightarrow> take (length p) s = p"

definition trim_prefix :: "string \<Rightarrow> string \<Rightarrow> string" where
  "trim_prefix s p = (if has_prefix s p then drop (length p) s else s)"

end
