(* ===== verification/Security.thy ===== *)
theory Security
  imports GoText
begin

text \<open>
  Roles, permissions and the authorization decision of \<open>internal/shared/security/security.go\<close>:
  \<open>Principal.Require\<close> and the role matrix \<open>allowed\<close>. A string type of the source with named
  constants is a datatype with one constructor per constant and one for every other string.
\<close>

datatype Role = RoleOwner | RoleMaintainer | RoleDeveloper | RoleViewer | RoleOther string

fun Role_Valid :: "Role \<Rightarrow> bool" where
  "Role_Valid RoleOwner = True"
| "Role_Valid RoleMaintainer = True"
| "Role_Valid RoleDeveloper = True"
| "Role_Valid RoleViewer = True"
| "Role_Valid _ = False"

datatype Permission =
    PermissionProjectRead
  | PermissionProjectCreate
  | PermissionProjectMemberRead
  | PermissionProjectMemberManage
  | PermissionApplicationRead
  | PermissionApplicationWrite
  | PermissionApplicationRouteRead
  | PermissionApplicationRouteWrite
  | PermissionReleaseRead
  | PermissionReleaseCreate
  | PermissionManagedHostRead
  | PermissionManagedHostWrite
  | PermissionRuntimeTargetRead
  | PermissionRuntimeTargetWrite
  | PermissionRegistryRead
  | PermissionRegistryWrite
  | PermissionEnvironmentRead
  | PermissionEnvironmentWrite
  | PermissionDeploymentRead
  | PermissionDeploymentCreate
  | PermissionDeploymentCancel
  | PermissionDeploymentRollback
  | PermissionAuditRead
  | PermissionRuntimeInventoryRead
  | PermissionHostInventoryRead
  | PermissionSourceRepositoryRead
  | PermissionSourceRepositoryWrite
  | PermissionBuildConfigurationRead
  | PermissionBuildConfigurationWrite
  | PermissionBuildRead
  | PermissionArtifactCreate
  | PermissionArtifactEvidenceRead
  | PermissionSignatureTrustPolicyRead
  | PermissionSignatureTrustPolicyWrite
  | PermissionSignatureVerificationWrite
  | PermissionVulnerabilityScanWrite
  | PermissionVulnerabilityWaiverRead
  | PermissionVulnerabilityWaiverWrite
  | PermissionDeploymentPolicyRead
  | PermissionDeploymentPolicyWrite
  | PermissionBuildTrigger
  | PermissionBuildTriggerManage
  | PermissionAutomaticDeploymentManage
  | PermissionTerminalContainerOpen
  | PermissionTerminalHostOpen
  | PermissionTerminalSessionRead
  | PermissionTerminalSessionTerminate
  | PermissionTerminalPolicyManage
  | PermissionOrganizationManage
  | PermissionOther string

datatype security_error = ErrUnauthenticated | ErrForbidden

record Principal =
  UserID :: string
  OrganizationID :: string
  Email :: string
  PrincipalRole :: Role
  SessionID :: string

definition Principal_Valid :: "Principal \<Rightarrow> bool" where
  "Principal_Valid p \<longleftrightarrow>
     UserID p \<noteq> [] \<and> OrganizationID p \<noteq> [] \<and> SessionID p \<noteq> [] \<and> Role_Valid (PrincipalRole p)"

text \<open>The permission groups of the \<open>switch\<close> in \<open>allowed\<close>, in its order.\<close>

fun allowed_below_owner :: "Role \<Rightarrow> Permission \<Rightarrow> bool" where
  "allowed_below_owner role PermissionProjectRead = (role = RoleMaintainer \<or> role = RoleDeveloper \<or> role = RoleViewer)"
| "allowed_below_owner role PermissionProjectMemberRead = (role = RoleMaintainer \<or> role = RoleDeveloper \<or> role = RoleViewer)"
| "allowed_below_owner role PermissionApplicationRead = (role = RoleMaintainer \<or> role = RoleDeveloper \<or> role = RoleViewer)"
| "allowed_below_owner role PermissionApplicationRouteRead = (role = RoleMaintainer \<or> role = RoleDeveloper \<or> role = RoleViewer)"
| "allowed_below_owner role PermissionReleaseRead = (role = RoleMaintainer \<or> role = RoleDeveloper \<or> role = RoleViewer)"
| "allowed_below_owner role PermissionRuntimeTargetRead = (role = RoleMaintainer \<or> role = RoleDeveloper \<or> role = RoleViewer)"
| "allowed_below_owner role PermissionRegistryRead = (role = RoleMaintainer \<or> role = RoleDeveloper \<or> role = RoleViewer)"
| "allowed_below_owner role PermissionEnvironmentRead = (role = RoleMaintainer \<or> role = RoleDeveloper \<or> role = RoleViewer)"
| "allowed_below_owner role PermissionDeploymentRead = (role = RoleMaintainer \<or> role = RoleDeveloper \<or> role = RoleViewer)"
| "allowed_below_owner role PermissionRuntimeInventoryRead = (role = RoleMaintainer \<or> role = RoleDeveloper \<or> role = RoleViewer)"
| "allowed_below_owner role PermissionSourceRepositoryRead = (role = RoleMaintainer \<or> role = RoleDeveloper \<or> role = RoleViewer)"
| "allowed_below_owner role PermissionBuildConfigurationRead = (role = RoleMaintainer \<or> role = RoleDeveloper \<or> role = RoleViewer)"
| "allowed_below_owner role PermissionBuildRead = (role = RoleMaintainer \<or> role = RoleDeveloper \<or> role = RoleViewer)"
| "allowed_below_owner role PermissionArtifactEvidenceRead = (role = RoleMaintainer \<or> role = RoleDeveloper \<or> role = RoleViewer)"
| "allowed_below_owner role PermissionSignatureTrustPolicyRead = (role = RoleMaintainer \<or> role = RoleDeveloper \<or> role = RoleViewer)"
| "allowed_below_owner role PermissionVulnerabilityWaiverRead = (role = RoleMaintainer \<or> role = RoleDeveloper \<or> role = RoleViewer)"
| "allowed_below_owner role PermissionDeploymentPolicyRead = (role = RoleMaintainer \<or> role = RoleDeveloper \<or> role = RoleViewer)"
| "allowed_below_owner role PermissionManagedHostRead = (role = RoleMaintainer)"
| "allowed_below_owner role PermissionHostInventoryRead = (role = RoleMaintainer)"
| "allowed_below_owner role PermissionApplicationWrite = (role = RoleMaintainer \<or> role = RoleDeveloper)"
| "allowed_below_owner role PermissionReleaseCreate = (role = RoleMaintainer \<or> role = RoleDeveloper)"
| "allowed_below_owner role PermissionArtifactCreate = (role = RoleMaintainer \<or> role = RoleDeveloper)"
| "allowed_below_owner role PermissionDeploymentCreate = (role = RoleMaintainer \<or> role = RoleDeveloper)"
| "allowed_below_owner role PermissionDeploymentCancel = (role = RoleMaintainer \<or> role = RoleDeveloper)"
| "allowed_below_owner role PermissionRuntimeTargetWrite = (role = RoleMaintainer)"
| "allowed_below_owner role PermissionRegistryWrite = (role = RoleMaintainer)"
| "allowed_below_owner role PermissionEnvironmentWrite = (role = RoleMaintainer)"
| "allowed_below_owner role PermissionDeploymentRollback = (role = RoleMaintainer)"
| "allowed_below_owner role PermissionAuditRead = (role = RoleMaintainer)"
| "allowed_below_owner role PermissionApplicationRouteWrite = (role = RoleMaintainer)"
| "allowed_below_owner role PermissionProjectMemberManage = (role = RoleMaintainer)"
| "allowed_below_owner role PermissionSourceRepositoryWrite = (role = RoleMaintainer)"
| "allowed_below_owner role PermissionBuildTriggerManage = (role = RoleMaintainer)"
| "allowed_below_owner role PermissionAutomaticDeploymentManage = (role = RoleMaintainer)"
| "allowed_below_owner role PermissionSignatureTrustPolicyWrite = (role = RoleMaintainer)"
| "allowed_below_owner role PermissionVulnerabilityWaiverWrite = (role = RoleMaintainer)"
| "allowed_below_owner role PermissionDeploymentPolicyWrite = (role = RoleMaintainer)"
| "allowed_below_owner role PermissionBuildConfigurationWrite = (role = RoleMaintainer \<or> role = RoleDeveloper)"
| "allowed_below_owner role PermissionBuildTrigger = (role = RoleMaintainer \<or> role = RoleDeveloper)"
| "allowed_below_owner role PermissionSignatureVerificationWrite = (role = RoleMaintainer \<or> role = RoleDeveloper)"
| "allowed_below_owner role PermissionVulnerabilityScanWrite = (role = RoleMaintainer \<or> role = RoleDeveloper)"
| "allowed_below_owner role PermissionTerminalContainerOpen = (role = RoleMaintainer \<or> role = RoleDeveloper)"
| "allowed_below_owner role PermissionTerminalSessionRead = (role = RoleMaintainer \<or> role = RoleDeveloper)"
| "allowed_below_owner role PermissionTerminalSessionTerminate = (role = RoleMaintainer \<or> role = RoleDeveloper)"
| "allowed_below_owner role PermissionTerminalHostOpen = (role = RoleMaintainer)"
| "allowed_below_owner role PermissionTerminalPolicyManage = (role = RoleMaintainer)"
| "allowed_below_owner role PermissionProjectCreate = False"
| "allowed_below_owner role PermissionOrganizationManage = False"
| "allowed_below_owner role _ = False"

definition allowed :: "Role \<Rightarrow> Permission \<Rightarrow> bool" where
  "allowed role permission \<longleftrightarrow> role = RoleOwner \<or> allowed_below_owner role permission"

definition Principal_Require :: "Principal \<Rightarrow> Permission \<Rightarrow> security_error option" where
  "Principal_Require p permission =
     (if \<not> Principal_Valid p then Some ErrUnauthenticated
      else if allowed (PrincipalRole p) permission then None
      else Some ErrForbidden)"

section \<open>The role hierarchy\<close>

definition role_rank :: "Role \<Rightarrow> nat" where
  "role_rank r = (case r of RoleOwner \<Rightarrow> 4 | RoleMaintainer \<Rightarrow> 3 | RoleDeveloper \<Rightarrow> 2
     | RoleViewer \<Rightarrow> 1 | RoleOther _ \<Rightarrow> 0)"

lemma allowed_viewer_developer: "allowed_below_owner RoleViewer p \<Longrightarrow> allowed_below_owner RoleDeveloper p"
  by (cases p) simp_all

lemma allowed_developer_maintainer:
  "allowed_below_owner RoleDeveloper p \<Longrightarrow> allowed_below_owner RoleMaintainer p"
  by (cases p) simp_all

lemma allowed_other: "\<not> allowed_below_owner (RoleOther s) p"
  by (cases p) simp_all

lemma allowed_mono:
  assumes "role_rank r \<le> role_rank r'" "allowed r p"
  shows "allowed r' p"
  using assms allowed_viewer_developer[of p] allowed_developer_maintainer[of p] allowed_other[of _ p]
  by (cases r; cases r') (auto simp: allowed_def role_rank_def)

lemma Require_None_iff:
  "Principal_Require p permission = None \<longleftrightarrow>
     Principal_Valid p \<and> allowed (PrincipalRole p) permission"
  by (simp add: Principal_Require_def)

lemma Require_Some_iff:
  "Principal_Require p permission \<noteq> None \<longleftrightarrow>
     \<not> Principal_Valid p \<or> \<not> allowed (PrincipalRole p) permission"
  by (simp add: Principal_Require_def)

text \<open>What the viewer, the developer and the maintainer may not do.\<close>

lemma viewer_permissions:
  "allowed RoleViewer p \<longleftrightarrow> p \<in> {
     PermissionProjectRead,
     PermissionProjectMemberRead,
     PermissionApplicationRead,
     PermissionApplicationRouteRead,
     PermissionReleaseRead,
     PermissionRuntimeTargetRead,
     PermissionRegistryRead,
     PermissionEnvironmentRead,
     PermissionDeploymentRead,
     PermissionRuntimeInventoryRead,
     PermissionSourceRepositoryRead,
     PermissionBuildConfigurationRead,
     PermissionBuildRead,
     PermissionArtifactEvidenceRead,
     PermissionSignatureTrustPolicyRead,
     PermissionVulnerabilityWaiverRead,
     PermissionDeploymentPolicyRead}"
  by (cases p) (simp_all add: allowed_def)

end
