(* ===== verification/DeploymentTypes.thy ===== *)
theory DeploymentTypes
  imports Security
begin

text \<open>
  Errors, statuses and categories of the deployment module
  (\<open>internal/modules/deployment/biz/{deployment,execution,admission,retirement,actions}.go\<close>).
\<close>

text \<open>
  \<open>ErrSecurity\<close> embeds the authorization errors; \<open>ErrContext\<close> is a cancelled context,
  \<open>ErrExternal\<close> an error of a collaborator behind an interface (generator, database, gateway).
\<close>

datatype dep_error =
    ErrInvalidApplication
  | ErrInvalidProject
  | ErrInvalidEnvironment
  | ErrInvalidTransition
  | ErrInvalidLease
  | ErrNotClaimable
  | ErrNotFound
  | ErrConflict
  | ErrDuplicateIdempotency
  | ErrLeaseExpired
  | ErrApplicationNotFound
  | ErrEnvironmentNotFound
  | ErrReleaseNotFound
  | ErrRuntimeTargetNotFound
  | ErrRuntimeTargetNotReady
  | ErrReferenceLookup
  | ErrFormalSecurity
  | ErrInvalidRelease
  | ErrInvalidRuntimeTarget
  | ErrInvalidIdempotencyKey
  | ErrIdempotencyMismatch
  | ErrRetryRequiresFailed
  | ErrRollbackRequiresFinal
  | ErrRollbackSameRelease
  | ErrRollbackNotSucceeded
  | ErrInvalidFailure
  | ErrStaleExecution
  | ErrAutomaticDeploymentUnavailable
  | ErrAutomaticDeploymentNotAllowed
  | ErrCutoverConflict
  | ErrExecutionRetryable
  | ErrAdmissionUnavailable
  | ErrAdmissionDenied
  | ErrRetirementUnavailable
  | ErrRetirementPending
  | ErrRetirementTargetRemoved
  | ErrInvalidSlot
  | ErrSecurity security_error
  | ErrContext string
  | ErrExternal string

datatype Status =
    StatusQueued
  | StatusPreparing
  | StatusDeploying
  | StatusCommitting
  | StatusSucceeded
  | StatusFailed
  | StatusCanceling
  | StatusCanceled
  | StatusOther string

datatype Operation = OperationDeploy | OperationRetry | OperationRollback | OperationOther string

datatype TriggerSource = TriggerSourceManual | TriggerSourceAutomatic | TriggerSourceOther string

fun TriggerSource_Valid :: "TriggerSource \<Rightarrow> bool" where
  "TriggerSource_Valid TriggerSourceManual = True"
| "TriggerSource_Valid TriggerSourceAutomatic = True"
| "TriggerSource_Valid _ = False"

text \<open>The empty category of a deployment that has not failed is \<open>FailureOther []\<close>.\<close>

datatype FailureCategory =
    FailureConfiguration
  | FailureCredential
  | FailureTargetUnreachable
  | FailureImagePull
  | FailureRuntime
  | FailureUnsupportedTarget
  | FailureUnknown
  | FailureOther string

abbreviation NoFailure :: FailureCategory where
  "NoFailure \<equiv> FailureOther []"

fun FailureCategory_Valid :: "FailureCategory \<Rightarrow> bool" where
  "FailureCategory_Valid (FailureOther _) = False"
| "FailureCategory_Valid _ = True"

text \<open>
  An error of the runtime boundary: the chain \<open>errors.As\<close> and \<open>errors.Is\<close> walk, outermost
  first, is a list of links. \<open>ExecutionError\<close> is the link \<open>LinkExecution\<close>.
\<close>

datatype error_link = LinkExecution FailureCategory | LinkError dep_error

type_synonym error_chain = "error_link list"

fun as_execution_error :: "error_chain \<Rightarrow> FailureCategory option" where
  "as_execution_error [] = None"
| "as_execution_error (LinkExecution c # _) = Some c"
| "as_execution_error (_ # es) = as_execution_error es"

definition error_is :: "error_chain \<Rightarrow> dep_error \<Rightarrow> bool" where
  "error_is es e \<longleftrightarrow> LinkError e \<in> set es"

definition CategorizeExecutionError :: "error_chain \<Rightarrow> FailureCategory \<Rightarrow> FailureCategory" where
  "CategorizeExecutionError err fallback =
     (case as_execution_error err of
        Some c \<Rightarrow> if FailureCategory_Valid c then c
          else if FailureCategory_Valid fallback then fallback else FailureUnknown
      | None \<Rightarrow> if FailureCategory_Valid fallback then fallback else FailureUnknown)"

lemma CategorizeExecutionError_Valid [simp]:
  "FailureCategory_Valid (CategorizeExecutionError err fallback)"
  by (simp add: CategorizeExecutionError_def split: option.split)

section \<open>Audit actions\<close>

datatype audit_action =
    AuditActionCreate
  | AuditActionAutomatic
  | AuditActionCancel
  | AuditActionRetry
  | AuditActionRollback
  | AuditActionPreparing
  | AuditActionDeploying
  | AuditActionCommitting
  | AuditActionSucceeded
  | AuditActionFailed
  | AuditActionCanceled
  | AuditActionStatusChanged
  | AuditActionRetirementCancel
  | AuditActionResourceRetirementCancel

end
