(* ===== verification/Sha256.thy ===== *)
theory Sha256
  imports GoText
begin

unbundle bit_operations_syntax

text \<open>
  \<open>crypto/sha256.Sum256\<close> and \<open>encoding/hex.EncodeToString\<close>, as the repository uses them to
  derive container names, idempotency keys and evidence digests. Executable on byte strings; the
  component theories only rely on the shape of the digest and on its being a function.
\<close>

type_synonym u32 = "32 word"

definition rotr32 :: "nat \<Rightarrow> u32 \<Rightarrow> u32" where
  "rotr32 n w = drop_bit n w OR push_bit (32 - n) w"

text \<open>
  The constants are the first 32 bits of the fractional parts of the cube roots and square roots of
  the first primes, computed here by integer roots: the conversion to a word drops the integer part.
\<close>

fun int_root :: "nat \<Rightarrow> int \<Rightarrow> nat \<Rightarrow> int \<Rightarrow> int" where
  "int_root k n 0 r = r"
| "int_root k n (Suc b) r = int_root k n b (if (r + 2 ^ b) ^ k \<le> n then r + 2 ^ b else r)"

definition sha_k :: "u32 list" where
  "sha_k = map (\<lambda>p. of_int (int_root 3 (p * 2 ^ 96) 36 0))
    [2, 3, 5, 7, 11, 13, 17, 19, 23, 29, 31, 37, 41, 43, 47, 53,
     59, 61, 67, 71, 73, 79, 83, 89, 97, 101, 103, 107, 109, 113, 127, 131,
     137, 139, 149, 151, 157, 163, 167, 173, 179, 181, 191, 193, 197, 199, 211, 223,
     227, 229, 233, 239, 241, 251, 257, 263, 269, 271, 277, 281, 283, 293, 307, 311]"

definition sha_h0 :: "u32 list" where
  "sha_h0 = map (\<lambda>p. of_int (int_root 2 (p * 2 ^ 64) 36 0)) [2, 3, 5, 7, 11, 13, 17, 19]"

text \<open>Big-endian bytes of a number, \<open>n\<close> of them.\<close>

fun be_bytes :: "nat \<Rightarrow> int \<Rightarrow> int list" where
  "be_bytes 0 v = []"
| "be_bytes (Suc n) v = be_bytes n (v div 256) @ [v mod 256]"

definition sha_pad :: "int list \<Rightarrow> int list" where
  "sha_pad bs = bs @ [128] @ replicate ((119 - length bs mod 64) mod 64) 0 @ be_bytes 8 (8 * int (length bs))"

fun be_words :: "int list \<Rightarrow> u32 list" where
  "be_words (a # b # c # d # rest) =
     of_int (a * 16777216 + b * 65536 + c * 256 + d) # be_words rest"
| "be_words _ = []"

text \<open>The message schedule, kept newest first: it grows by one word per round.\<close>

definition sched_next :: "u32 list \<Rightarrow> u32" where
  "sched_next ws =
     (let w15 = ws ! 14; w2 = ws ! 1;
          s0 = rotr32 7 w15 XOR rotr32 18 w15 XOR drop_bit 3 w15;
          s1 = rotr32 17 w2 XOR rotr32 19 w2 XOR drop_bit 10 w2
      in ws ! 15 + s0 + ws ! 6 + s1)"

fun sched_extend :: "nat \<Rightarrow> u32 list \<Rightarrow> u32 list" where
  "sched_extend 0 ws = ws"
| "sched_extend (Suc n) ws = sched_extend n (sched_next ws # ws)"

fun sha_round :: "u32 list \<Rightarrow> u32 \<times> u32 \<Rightarrow> u32 list" where
  "sha_round [a, b, c, d, e, f, g, h] (k, w) =
     (let s1 = rotr32 6 e XOR rotr32 11 e XOR rotr32 25 e;
          ch = (e AND f) XOR (NOT e AND g);
          t1 = h + s1 + ch + k + w;
          s0 = rotr32 2 a XOR rotr32 13 a XOR rotr32 22 a;
          maj = (a AND b) XOR (a AND c) XOR (b AND c)
      in [t1 + (s0 + maj), a, b, c, d + t1, e, f, g])"
| "sha_round hs _ = hs"

definition sha_block :: "u32 list \<Rightarrow> u32 list \<Rightarrow> u32 list" where
  "sha_block hs ws =
     (let sched = rev (sched_extend 48 (rev ws))
      in map2 (+) hs (foldl sha_round hs (zip sha_k sched)))"

fun sha_blocks :: "nat \<Rightarrow> u32 list \<Rightarrow> u32 list \<Rightarrow> u32 list" where
  "sha_blocks 0 hs ws = hs"
| "sha_blocks (Suc n) hs ws = sha_blocks n (sha_block hs (take 16 ws)) (drop 16 ws)"

definition sha256_sum :: "string \<Rightarrow> int list" where
  "sha256_sum s =
     (let padded = sha_pad (map of_char s)
      in concat (map (be_bytes 4 \<circ> uint)
           (sha_blocks (length padded div 64) sha_h0 (be_words padded))))"

definition hex_digit :: "int \<Rightarrow> char" where
  "hex_digit n = ''0123456789abcdef'' ! nat (n mod 16)"

definition hex_encode :: "int list \<Rightarrow> string" where
  "hex_encode bs = concat (map (\<lambda>b. [hex_digit (b div 16), hex_digit b]) bs)"

definition sha256_hex :: "string \<Rightarrow> string" where
  "sha256_hex s = hex_encode (sha256_sum s)"

section \<open>Shape of a digest\<close>

lemma length_be_bytes [simp]: "length (be_bytes n v) = n"
  by (induction n arbitrary: v) auto

lemma length_sha_round [simp]: "length (sha_round hs kw) = length hs"
  by (cases "(hs, kw)" rule: sha_round.cases) (auto simp: Let_def)

lemma length_foldl_sha_round [simp]: "length (foldl sha_round hs kws) = length hs"
  by (induction kws arbitrary: hs) auto

lemma length_sha_block [simp]: "length (sha_block hs ws) = length hs"
  by (simp add: sha_block_def Let_def)

lemma length_sha_blocks [simp]: "length (sha_blocks n hs ws) = length hs"
  by (induction n arbitrary: hs ws) auto

lemma length_concat_const: "(\<And>x. x \<in> set xs \<Longrightarrow> length (f x) = k) \<Longrightarrow>
  length (concat (map f xs)) = k * length xs"
  by (induction xs) auto

lemma length_sha256_sum [simp]: "length (sha256_sum s) = 32"
  by (simp add: sha256_sum_def Let_def length_concat_const[where k = 4] sha_h0_def)

lemma length_hex_encode [simp]: "length (hex_encode bs) = 2 * length bs"
  by (simp add: hex_encode_def length_concat_const[where k = 2])

lemma length_sha256_hex [simp]: "length (sha256_hex s) = 64"
  by (simp add: sha256_hex_def)

lemma hex_digit_in: "hex_digit n \<in> set ''0123456789abcdef''"
  unfolding hex_digit_def by (rule nth_mem) (simp add: nat_less_iff)

lemma hex_digit_lower: "is_lower_hex_digit (hex_digit n)"
proof -
  have "list_all is_lower_hex_digit ''0123456789abcdef''"
    by (simp add: is_lower_hex_digit_def is_digit_def in_range_def)
  with hex_digit_in[of n] show ?thesis unfolding list_all_iff by blast
qed

lemma lower_hex_is_hex: "is_lower_hex_digit c \<Longrightarrow> is_hex_digit c"
  by (auto simp: is_lower_hex_digit_def is_hex_digit_def)

lemma hex_encode_lower: "list_all is_lower_hex_digit (hex_encode bs)"
  by (auto simp: hex_encode_def list_all_iff hex_digit_lower)

lemma sha256_hex_lower: "list_all is_lower_hex_digit (sha256_hex s)"
  by (simp add: sha256_hex_def hex_encode_lower)

lemma sha256_hex_decodable: "hex_decodable (sha256_hex s)"
  using sha256_hex_lower[of s] lower_hex_is_hex
  by (auto simp: hex_decodable_def list_all_iff)

end
