(* ===== verification/Admission.thy ===== *)
theory Admission
  imports DeploymentTypes Sha256 "HOL-Library.Char_ord" "HOL-Library.List_Lexorder"
    "HOL-Library.Product_Lexorder"
begin

text \<open>
  The immutable admission snapshot of a deployment
  (\<open>internal/modules/deployment/biz/admission.go\<close>): its parts, \<open>Seal\<close>, which orders and
  digests them, and \<open>Validate\<close>, which checks a stored snapshot.
\<close>

section \<open>Data\<close>

datatype AdmissionDecision =
    AdmissionNotConfigured | AdmissionAdmitted | AdmissionAdmittedWithWarning | AdmissionDenied
  | AdmissionDecisionOther string

fun AdmissionDecision_Valid :: "AdmissionDecision \<Rightarrow> bool" where
  "AdmissionDecision_Valid (AdmissionDecisionOther _) = False"
| "AdmissionDecision_Valid _ = True"

datatype AdmissionViolationCode =
    AdmissionPolicyUnavailable
  | AdmissionArtifactUnavailable
  | AdmissionSBOMMissing
  | AdmissionProvenanceMissing
  | AdmissionEvidenceUnavailable
  | AdmissionSignatureMissing
  | AdmissionVulnerabilityMissing
  | AdmissionVulnerabilityStale
  | AdmissionVulnerabilityIntegrity
  | AdmissionVulnerabilityUnknown
  | AdmissionVulnerabilityLimitExceeded
  | AdmissionViolationOther string

fun ViolationCode_Valid :: "AdmissionViolationCode \<Rightarrow> bool" where
  "ViolationCode_Valid (AdmissionViolationOther _) = False"
| "ViolationCode_Valid _ = True"

text \<open>The text of a code, by which \<open>Seal\<close> orders violations of one policy.\<close>

fun code_text :: "AdmissionViolationCode \<Rightarrow> string" where
  "code_text AdmissionPolicyUnavailable = ''policy_unavailable''"
| "code_text AdmissionArtifactUnavailable = ''artifact_unavailable''"
| "code_text AdmissionSBOMMissing = ''sbom_missing''"
| "code_text AdmissionProvenanceMissing = ''provenance_missing''"
| "code_text AdmissionEvidenceUnavailable = ''evidence_unavailable''"
| "code_text AdmissionSignatureMissing = ''signature_missing''"
| "code_text AdmissionVulnerabilityMissing = ''vulnerability_observation_missing''"
| "code_text AdmissionVulnerabilityStale = ''vulnerability_observation_stale''"
| "code_text AdmissionVulnerabilityIntegrity = ''vulnerability_report_integrity''"
| "code_text AdmissionVulnerabilityUnknown = ''vulnerability_severity_unknown''"
| "code_text AdmissionVulnerabilityLimitExceeded = ''vulnerability_severity_exceeded''"
| "code_text (AdmissionViolationOther s) = s"

record AdmissionRequirementsSnapshot =
  RequireSBOM :: bool
  RequireProvenance :: bool
  AllowedSignaturePolicyIDs :: "string list"
  MaximumVulnerabilitySeverity :: string
  MaximumScanAgeSeconds :: int

record AdmissionPolicySnapshot =
  policy_ID :: string
  policy_Version :: u64
  policy_Scope :: string
  policy_EnvironmentID :: string
  policy_Mode :: string
  policy_Requirements :: AdmissionRequirementsSnapshot

record AdmissionEvidenceSnapshot =
  evidence_ID :: string
  evidence_Kind :: string
  evidence_DescriptorDigest :: string
  evidence_ContentDigest :: string

record AdmissionVerificationSnapshot =
  verification_ID :: string
  verification_TrustPolicyID :: string
  verification_TrustPolicyVersion :: u64
  verification_BundleSetDigest :: string

record AdmissionVulnerabilityCounts =
  count_Unknown :: u64
  count_Low :: u64
  count_Medium :: u64
  count_High :: u64
  count_Critical :: u64
  count_Total :: u64

record AdmissionVulnerabilitySnapshot =
  vuln_ObservationID :: string
  vuln_EvidenceID :: string
  vuln_DescriptorDigest :: string
  vuln_ContentDigest :: string
  vuln_Scanner :: string
  vuln_ScannerVersion :: string
  vuln_DatabaseVersion :: u64
  vuln_DatabaseUpdatedAt :: time
  vuln_ScannedAt :: time
  vuln_FreshUntil :: time
  vuln_OriginalCounts :: AdmissionVulnerabilityCounts
  vuln_RemainingCounts :: AdmissionVulnerabilityCounts
  vuln_HighestRemaining :: string

record AdmissionWaiverSnapshot =
  waiver_ID :: string
  waiver_Version :: u64
  waiver_Scope :: string
  waiver_VulnerabilityID :: string
  waiver_ExpiresAt :: time

record AdmissionViolation =
  violation_PolicyID :: string
  violation_Code :: AdmissionViolationCode

record AdmissionSnapshot =
  EvaluatedAt :: time
  EnvironmentStage :: string
  ArtifactID :: string
  SubjectDigest :: string
  Policies :: "AdmissionPolicySnapshot list"
  EvidenceItems :: "AdmissionEvidenceSnapshot list"
  Verifications :: "AdmissionVerificationSnapshot list"
  Vulnerability :: "AdmissionVulnerabilitySnapshot option"
  Waivers :: "AdmissionWaiverSnapshot list"
  Violations :: "AdmissionViolation list"
  Decision :: AdmissionDecision
  EvidenceSetDigest :: string
  EvaluationDigest :: string

definition empty_snapshot :: AdmissionSnapshot where
  "empty_snapshot = \<lparr>EvaluatedAt = 0, EnvironmentStage = [], ArtifactID = [], SubjectDigest = [],
     Policies = [], EvidenceItems = [], Verifications = [], Vulnerability = None, Waivers = [],
     Violations = [], Decision = AdmissionDecisionOther [], EvidenceSetDigest = [],
     EvaluationDigest = []\<rparr>"

record AdmissionRequest =
  req_OrganizationID :: string
  req_ProjectID :: string
  req_ReleaseID :: string
  req_ApplicationID :: string
  req_EnvironmentID :: string

section \<open>Field checks\<close>

definition admission_id_tail :: "char \<Rightarrow> bool" where
  "admission_id_tail c \<longleftrightarrow> is_alnum c \<or> c \<in> set ''._:-''"

definition validAdmissionID :: "string \<Rightarrow> bool" where
  "validAdmissionID value \<longleftrightarrow> matches_id is_alnum admission_id_tail 127 value \<and> trim_space value = value"

definition validAdmissionDigest :: "string \<Rightarrow> bool" where
  "validAdmissionDigest value \<longleftrightarrow>
     length value = 71 \<and> has_prefix value ''sha256:'' \<and> hex_decodable (trim_prefix value ''sha256:'')"

text \<open>The sum is a \<open>uint64\<close> sum: it wraps around.\<close>

definition validAdmissionCounts :: "AdmissionVulnerabilityCounts \<Rightarrow> bool" where
  "validAdmissionCounts c \<longleftrightarrow>
     count_Total c = count_Unknown c + count_Low c + count_Medium c + count_High c + count_Critical c \<and>
     count_Total c \<le> 1000000"

definition validAdmissionSeverity :: "string \<Rightarrow> bool" where
  "validAdmissionSeverity value \<longleftrightarrow>
     value \<in> set [''none'', ''unknown'', ''low'', ''medium'', ''high'', ''critical'']"

definition validAdmissionMaximumSeverity :: "string \<Rightarrow> bool" where
  "validAdmissionMaximumSeverity value \<longleftrightarrow>
     value \<in> set [''none'', ''low'', ''medium'', ''high'', ''critical'']"

definition highestAdmissionSeverity :: "AdmissionVulnerabilityCounts \<Rightarrow> string" where
  "highestAdmissionSeverity c =
     (if 0 < count_Critical c then ''critical''
      else if 0 < count_High c then ''high''
      else if 0 < count_Medium c then ''medium''
      else if 0 < count_Low c then ''low''
      else if 0 < count_Unknown c then ''unknown''
      else ''none'')"

definition valid_policy :: "AdmissionPolicySnapshot \<Rightarrow> bool" where
  "valid_policy p =
     (let r = policy_Requirements p;
          vulnerabilityGate = (MaximumVulnerabilitySeverity r \<noteq> [] \<or> MaximumScanAgeSeconds r \<noteq> 0)
      in \<not> (\<not> validAdmissionID (policy_ID p) \<or> policy_Version p = 0 \<or>
           (policy_Scope p \<noteq> ''project'' \<and> policy_Scope p \<noteq> ''environment'') \<or>
           (policy_Mode p \<noteq> ''advisory'' \<and> policy_Mode p \<noteq> ''enforced'') \<or>
           (policy_Scope p = ''project'' \<and> policy_EnvironmentID p \<noteq> []) \<or>
           (policy_Scope p = ''environment'' \<and> \<not> validAdmissionID (policy_EnvironmentID p)) \<or>
           16 < length (AllowedSignaturePolicyIDs r) \<or>
           vulnerabilityGate \<and>
             (\<not> validAdmissionMaximumSeverity (MaximumVulnerabilitySeverity r) \<or>
              MaximumScanAgeSeconds r < 3600 \<or> MaximumScanAgeSeconds r > 2592000) \<or>
           \<not> RequireSBOM r \<and> \<not> RequireProvenance r \<and>
             AllowedSignaturePolicyIDs r = [] \<and> \<not> vulnerabilityGate)
         \<and> list_all validAdmissionID (AllowedSignaturePolicyIDs r))"

definition valid_evidence :: "AdmissionEvidenceSnapshot \<Rightarrow> bool" where
  "valid_evidence e \<longleftrightarrow> validAdmissionID (evidence_ID e) \<and> evidence_Kind e \<noteq> [] \<and>
     validAdmissionDigest (evidence_DescriptorDigest e) \<and> validAdmissionDigest (evidence_ContentDigest e)"

definition valid_verification :: "AdmissionVerificationSnapshot \<Rightarrow> bool" where
  "valid_verification v \<longleftrightarrow> validAdmissionID (verification_ID v) \<and>
     validAdmissionID (verification_TrustPolicyID v) \<and> verification_TrustPolicyVersion v \<noteq> 0 \<and>
     validAdmissionDigest (verification_BundleSetDigest v)"

definition valid_vulnerability :: "AdmissionVulnerabilitySnapshot \<Rightarrow> bool" where
  "valid_vulnerability v \<longleftrightarrow>
     validAdmissionID (vuln_ObservationID v) \<and> validAdmissionID (vuln_EvidenceID v) \<and>
     validAdmissionDigest (vuln_DescriptorDigest v) \<and> validAdmissionDigest (vuln_ContentDigest v) \<and>
     vuln_Scanner v \<noteq> [] \<and> vuln_ScannerVersion v \<noteq> [] \<and> vuln_DatabaseVersion v \<noteq> 0 \<and>
     \<not> is_zero (vuln_DatabaseUpdatedAt v) \<and> \<not> is_zero (vuln_ScannedAt v) \<and>
     \<not> is_zero (vuln_FreshUntil v) \<and> after (vuln_FreshUntil v) (vuln_ScannedAt v) \<and>
     validAdmissionCounts (vuln_OriginalCounts v) \<and> validAdmissionCounts (vuln_RemainingCounts v) \<and>
     validAdmissionSeverity (vuln_HighestRemaining v) \<and>
     vuln_HighestRemaining v = highestAdmissionSeverity (vuln_RemainingCounts v)"

definition valid_waiver :: "AdmissionWaiverSnapshot \<Rightarrow> bool" where
  "valid_waiver w \<longleftrightarrow> validAdmissionID (waiver_ID w) \<and> waiver_Version w \<noteq> 0 \<and>
     (waiver_Scope w = ''project'' \<or> waiver_Scope w = ''artifact'') \<and>
     trim_space (waiver_VulnerabilityID w) \<noteq> [] \<and> \<not> is_zero (waiver_ExpiresAt w)"

definition valid_violation :: "AdmissionViolation \<Rightarrow> bool" where
  "valid_violation v \<longleftrightarrow> ViolationCode_Valid (violation_Code v) \<and>
     (violation_PolicyID v = [] \<or> validAdmissionID (violation_PolicyID v))"

section \<open>Digests\<close>

text \<open>
  \<open>encoding/json.Marshal\<close> of the two structures is an argument of the model: the digests below
  depend on it only as a function. \<open>None\<close> is its error result. \<open>Validate\<close> ignores the error and
  hashes the empty slice \<open>Marshal\<close> then returns.
\<close>

record admission_json =
  marshal_evidence ::
    "AdmissionEvidenceSnapshot list \<times> AdmissionVerificationSnapshot list \<times>
     AdmissionVulnerabilitySnapshot option \<times> AdmissionWaiverSnapshot list \<Rightarrow> string option"
  marshal_snapshot :: "AdmissionSnapshot \<Rightarrow> string option"

definition digest_text :: "string \<Rightarrow> string" where
  "digest_text content = ''sha256:'' @ sha256_hex content"

definition evidence_content ::
  "admission_json \<Rightarrow> AdmissionSnapshot \<Rightarrow> string option" where
  "evidence_content js s =
     marshal_evidence js (EvidenceItems s, Verifications s, Vulnerability s, Waivers s)"

definition or_empty :: "string option \<Rightarrow> string" where
  "or_empty x = (case x of None \<Rightarrow> [] | Some s \<Rightarrow> s)"

definition digests_match :: "admission_json \<Rightarrow> AdmissionSnapshot \<Rightarrow> bool" where
  "digests_match js s \<longleftrightarrow>
     EvidenceSetDigest s = digest_text (or_empty (evidence_content js s)) \<and>
     EvaluationDigest s = digest_text (or_empty (marshal_snapshot js (s\<lparr>EvaluationDigest := []\<rparr>)))"

section \<open>Validate\<close>

definition valid_header :: "AdmissionSnapshot \<Rightarrow> bool" where
  "valid_header s \<longleftrightarrow>
     \<not> (is_zero (EvaluatedAt s) \<or>
        (EnvironmentStage s \<noteq> ''development'' \<and> EnvironmentStage s \<noteq> ''staging'' \<and>
         EnvironmentStage s \<noteq> ''production'') \<or>
        \<not> AdmissionDecision_Valid (Decision s) \<or> \<not> validAdmissionDigest (EvidenceSetDigest s) \<or>
        \<not> validAdmissionDigest (EvaluationDigest s) \<or>
        2 < length (Policies s) \<or> 8 < length (EvidenceItems s) \<or> 16 < length (Verifications s) \<or>
        10000 < length (Waivers s) \<or> 64 < length (Violations s))"

definition valid_decision :: "AdmissionSnapshot \<Rightarrow> bool" where
  "valid_decision s \<longleftrightarrow>
     \<not> (Decision s = AdmissionNotConfigured \<and> (Policies s \<noteq> [] \<or> Violations s \<noteq> []) \<or>
        Decision s = AdmissionAdmitted \<and> Violations s \<noteq> [] \<or>
        Decision s = AdmissionAdmittedWithWarning \<and> Violations s = [] \<or>
        Decision s = AdmissionDenied \<and> Violations s = [])"

definition valid_subject :: "AdmissionSnapshot \<Rightarrow> bool" where
  "valid_subject s \<longleftrightarrow>
     \<not> (((ArtifactID s = []) \<noteq> (SubjectDigest s = [])) \<or>
        ArtifactID s \<noteq> [] \<and> (\<not> validAdmissionID (ArtifactID s) \<or> \<not> validAdmissionDigest (SubjectDigest s)))"

definition valid_parts :: "AdmissionSnapshot \<Rightarrow> bool" where
  "valid_parts s \<longleftrightarrow>
     list_all valid_policy (Policies s) \<and> list_all valid_evidence (EvidenceItems s) \<and>
     list_all valid_verification (Verifications s) \<and>
     (case Vulnerability s of None \<Rightarrow> True | Some v \<Rightarrow> valid_vulnerability v) \<and>
     list_all valid_waiver (Waivers s) \<and> list_all valid_violation (Violations s)"

definition AdmissionSnapshot_Validate ::
  "admission_json \<Rightarrow> AdmissionSnapshot \<Rightarrow> dep_error option" where
  "AdmissionSnapshot_Validate js s =
     (if valid_header s \<and> valid_decision s \<and> valid_subject s \<and> valid_parts s \<and> digests_match js s
      then None else Some ErrAdmissionUnavailable)"

section \<open>Seal\<close>

definition millisecond :: int where
  "millisecond = 1000000"

definition truncate_vulnerability ::
  "AdmissionVulnerabilitySnapshot \<Rightarrow> AdmissionVulnerabilitySnapshot" where
  "truncate_vulnerability v =
     v\<lparr>vuln_DatabaseUpdatedAt := truncate_time (utc (vuln_DatabaseUpdatedAt v)) millisecond,
       vuln_ScannedAt := truncate_time (utc (vuln_ScannedAt v)) millisecond,
       vuln_FreshUntil := truncate_time (utc (vuln_FreshUntil v)) millisecond\<rparr>"

definition truncate_waiver :: "AdmissionWaiverSnapshot \<Rightarrow> AdmissionWaiverSnapshot" where
  "truncate_waiver w = w\<lparr>waiver_ExpiresAt := truncate_time (utc (waiver_ExpiresAt w)) millisecond\<rparr>"

definition violation_key :: "AdmissionViolation \<Rightarrow> string \<times> string" where
  "violation_key v = (violation_PolicyID v, code_text (violation_Code v))"

text \<open>
  \<open>slices.SortFunc\<close> with a comparison by key: for pairwise different keys the sorted slice is
  unique. Violations compare by policy and then by code, that is, lexicographically.
\<close>

definition sort_violations :: "AdmissionViolation list \<Rightarrow> AdmissionViolation list" where
  "sort_violations vs = sort_key violation_key vs"

definition normalize_snapshot :: "AdmissionSnapshot \<Rightarrow> AdmissionSnapshot" where
  "normalize_snapshot s =
     s\<lparr>EvaluatedAt := truncate_time (utc (EvaluatedAt s)) millisecond,
       Vulnerability := map_option truncate_vulnerability (Vulnerability s),
       Policies := sort_key policy_ID (Policies s),
       EvidenceItems := sort_key evidence_ID (EvidenceItems s),
       Verifications := sort_key verification_ID (Verifications s),
       Waivers := sort_key waiver_ID (map truncate_waiver (Waivers s)),
       Violations := sort_violations (Violations s),
       EvidenceSetDigest := [], EvaluationDigest := []\<rparr>"

definition AdmissionSnapshot_Seal ::
  "admission_json \<Rightarrow> AdmissionSnapshot \<Rightarrow> dep_error + AdmissionSnapshot" where
  "AdmissionSnapshot_Seal js s =
     (let n = normalize_snapshot s in
      case evidence_content js n of
        None \<Rightarrow> Inl ErrAdmissionUnavailable
      | Some content \<Rightarrow>
          (let e = n\<lparr>EvidenceSetDigest := digest_text content\<rparr> in
           case marshal_snapshot js e of
             None \<Rightarrow> Inl ErrAdmissionUnavailable
           | Some evaluation \<Rightarrow>
               (let f = e\<lparr>EvaluationDigest := digest_text evaluation\<rparr> in
                case AdmissionSnapshot_Validate js f of
                  Some err \<Rightarrow> Inl err
                | None \<Rightarrow> Inr f)))"

section \<open>Sealing\<close>

lemma truncate_waiver_ID [field_frames, simp]: "waiver_ID (truncate_waiver w) = waiver_ID w"
  by (simp add: truncate_waiver_def)

lemma truncate_waiver_idem [simp]: "truncate_waiver (truncate_waiver w) = truncate_waiver w"
  by (simp add: truncate_waiver_def)

lemma truncate_vulnerability_idem [simp]:
  "truncate_vulnerability (truncate_vulnerability v) = truncate_vulnerability v"
  by (simp add: truncate_vulnerability_def)

lemma normalize_sealed:
  "normalize_snapshot ((normalize_snapshot s)\<lparr>EvidenceSetDigest := a, EvaluationDigest := b\<rparr>) =
     normalize_snapshot s"
  by (simp add: normalize_snapshot_def sort_violations_def option.map_comp comp_def map_sort_key)

lemma normalize_digests [simp]:
  "EvidenceSetDigest (normalize_snapshot s) = []" "EvaluationDigest (normalize_snapshot s) = []"
  by (simp_all add: normalize_snapshot_def)

lemma evidence_content_digests [simp]:
  "evidence_content js (s\<lparr>EvidenceSetDigest := a\<rparr>) = evidence_content js s"
  "evidence_content js (s\<lparr>EvaluationDigest := b\<rparr>) = evidence_content js s"
  by (simp_all add: evidence_content_def)

lemma Seal_Inr [inversion]:
  assumes "AdmissionSnapshot_Seal js s = Inr f"
  obtains content evaluation where
    "evidence_content js (normalize_snapshot s) = Some content"
    "marshal_snapshot js ((normalize_snapshot s)\<lparr>EvidenceSetDigest := digest_text content\<rparr>) = Some evaluation"
    "f = (normalize_snapshot s)\<lparr>EvidenceSetDigest := digest_text content,
           EvaluationDigest := digest_text evaluation\<rparr>"
    "AdmissionSnapshot_Validate js f = None"
  using assms by (auto simp: AdmissionSnapshot_Seal_def Let_def split: option.splits)

lemma Seal_normalize_cong:
  "normalize_snapshot s = normalize_snapshot t \<Longrightarrow>
   AdmissionSnapshot_Seal js s = AdmissionSnapshot_Seal js t"
  by (simp add: AdmissionSnapshot_Seal_def)

lemma Seal_Validate: "AdmissionSnapshot_Seal js s = Inr f \<Longrightarrow> AdmissionSnapshot_Validate js f = None"
  by (elim Seal_Inr)

lemma Seal_again:
  assumes "AdmissionSnapshot_Seal js s = Inr f"
  shows "AdmissionSnapshot_Seal js f = Inr f"
proof -
  from assms obtain c e where f:
    "f = (normalize_snapshot s)\<lparr>EvidenceSetDigest := c, EvaluationDigest := e\<rparr>"
    by (elim Seal_Inr) blast
  have "normalize_snapshot f = normalize_snapshot s" unfolding f by (rule normalize_sealed)
  then show ?thesis using Seal_normalize_cong assms by metis
qed

definition reordered :: "AdmissionSnapshot \<Rightarrow> AdmissionSnapshot \<Rightarrow> bool" where
  "reordered s t \<longleftrightarrow>
     mset (Policies s) = mset (Policies t) \<and> mset (EvidenceItems s) = mset (EvidenceItems t) \<and>
     mset (Verifications s) = mset (Verifications t) \<and> mset (Waivers s) = mset (Waivers t) \<and>
     mset (Violations s) = mset (Violations t) \<and>
     t = s\<lparr>Policies := Policies t, EvidenceItems := EvidenceItems t, Verifications := Verifications t,
           Waivers := Waivers t, Violations := Violations t\<rparr>"

definition distinct_keys :: "AdmissionSnapshot \<Rightarrow> bool" where
  "distinct_keys s \<longleftrightarrow>
     distinct (map policy_ID (Policies s)) \<and> distinct (map evidence_ID (EvidenceItems s)) \<and>
     distinct (map verification_ID (Verifications s)) \<and> distinct (map waiver_ID (Waivers s)) \<and>
     distinct (map violation_key (Violations s))"

lemma normalize_reordered:
  assumes "reordered s t" "distinct_keys s"
  shows "normalize_snapshot s = normalize_snapshot t"
proof -
  have eq: "t = s\<lparr>Policies := Policies t, EvidenceItems := EvidenceItems t,
      Verifications := Verifications t, Waivers := Waivers t, Violations := Violations t\<rparr>"
    using assms(1) unfolding reordered_def by blast
  have "sort_key policy_ID (Policies s) = sort_key policy_ID (Policies t)"
       "sort_key evidence_ID (EvidenceItems s) = sort_key evidence_ID (EvidenceItems t)"
       "sort_key verification_ID (Verifications s) = sort_key verification_ID (Verifications t)"
       "sort_key violation_key (Violations s) = sort_key violation_key (Violations t)"
    using assms by (auto simp: reordered_def distinct_keys_def intro: sort_key_unique)
  moreover have "sort_key waiver_ID (map truncate_waiver (Waivers s)) =
      sort_key waiver_ID (map truncate_waiver (Waivers t))"
    using assms by (intro sort_key_unique) (auto simp: reordered_def distinct_keys_def comp_def)
  moreover have "EvaluatedAt t = EvaluatedAt s" "Vulnerability t = Vulnerability s"
    "EnvironmentStage t = EnvironmentStage s" "ArtifactID t = ArtifactID s"
    "SubjectDigest t = SubjectDigest s" "Decision t = Decision s"
    using eq[THEN arg_cong, of EvaluatedAt] eq[THEN arg_cong, of Vulnerability]
      eq[THEN arg_cong, of EnvironmentStage] eq[THEN arg_cong, of ArtifactID]
      eq[THEN arg_cong, of SubjectDigest] eq[THEN arg_cong, of Decision]
    by simp_all
  ultimately show ?thesis
    by (simp add: normalize_snapshot_def sort_violations_def)
qed

section \<open>Severity counts\<close>

definition exact_total :: "AdmissionVulnerabilityCounts \<Rightarrow> nat" where
  "exact_total c = unat (count_Unknown c) + unat (count_Low c) + unat (count_Medium c) +
     unat (count_High c) + unat (count_Critical c)"

lemma unat_plus_bounded: "unat (a :: u64) + unat b < 2 ^ 64 \<Longrightarrow> unat (a + b) = unat a + unat b"
  by (simp add: unat_plus_if_size word_size)

lemma validAdmissionCounts_exact:
  assumes "validAdmissionCounts c" "exact_total c < 2 ^ 64"
  shows "unat (count_Total c) = exact_total c \<and> exact_total c \<le> 1000000"
proof -
  have t: "unat (count_Total c) = exact_total c"
    using assms unfolding validAdmissionCounts_def exact_total_def
    by (simp add: unat_plus_bounded)
  moreover have "unat (count_Total c) \<le> 1000000"
    using assms(1) unfolding validAdmissionCounts_def
    by (metis (mono_tags) word_le_nat_alt unat_numeral_u64)
  ultimately show ?thesis by simp
qed

end
