(* ===== verification/LeaseContract.thy ===== *)
theory LeaseContract
  imports GoText
begin

text \<open>
  The contract shared by the three claimable work items of the system (deployments, builds and
  evidence jobs): a worker acquires a lease that carries its name, an expiry and a generation; the
  lease excludes other workers until it expires; each acquisition advances the generation, which
  fences off the previous holder.
\<close>

locale leased_item =
  fixes acquire :: "'w \<Rightarrow> time \<Rightarrow> time \<Rightarrow> 'i \<Rightarrow> 'e + 'i"
    and owner :: "'i \<Rightarrow> 'w"
    and expires :: "'i \<Rightarrow> time"
    and generation :: "'i \<Rightarrow> u64"
    and named :: "'w \<Rightarrow> bool"
    and trim :: "'w \<Rightarrow> 'w"
  assumes acquire_owner: "acquire w now until x = Inr y \<Longrightarrow> owner y = trim w"
    and acquire_named: "acquire w now until x = Inr y \<Longrightarrow> named (trim w)"
    and acquire_expires: "acquire w now until x = Inr y \<Longrightarrow> expires y = until \<and> now < until"
    and acquire_generation: "acquire w now until x = Inr y \<Longrightarrow> generation y = generation x + 1"
    and acquire_exclusive: "named (owner x) \<Longrightarrow> now < expires x \<Longrightarrow> is_err (acquire w now until x)"
begin

definition held :: "'i \<Rightarrow> time \<Rightarrow> bool" where
  "held x now \<longleftrightarrow> named (owner x) \<and> now < expires x"

text \<open>A fence: the worker and generation a holder carries into its side effects.\<close>

definition fence_ok :: "'w \<Rightarrow> u64 \<Rightarrow> time \<Rightarrow> 'i \<Rightarrow> bool" where
  "fence_ok w g now x \<longleftrightarrow> owner x = w \<and> generation x = g \<and> held x now"

lemma acquired_held: "acquire w now until x = Inr y \<Longrightarrow> now \<le> t \<Longrightarrow> t < until \<Longrightarrow> held y t"
  using acquire_owner[of w now until x y] acquire_named[of w now until x y]
    acquire_expires[of w now until x y] unfolding held_def by simp

lemma held_excludes: "held x now \<Longrightarrow> is_err (acquire w now until x)"
  unfolding held_def using acquire_exclusive by blast

lemma second_claim_refused:
  assumes "acquire w now until x = Inr y" "now \<le> t" "t < until"
  shows "is_err (acquire v t until' y)"
  using acquired_held[OF assms] by (rule held_excludes)

lemma acquire_fences_previous:
  assumes "acquire w now until x = Inr y" "generation x = g"
  shows "\<not> fence_ok v g t y"
  using acquire_generation[OF assms(1)] assms(2) unfolding fence_ok_def by auto

lemma acquired_fence_ok:
  assumes "acquire w now until x = Inr y"
  shows "fence_ok (trim w) (generation x + 1) now y"
  using acquire_owner[OF assms] acquire_named[OF assms] acquire_expires[OF assms]
    acquire_generation[OF assms] unfolding fence_ok_def held_def by simp

text \<open>
  A run of acquisitions: the generation counts them. As long as fewer than \<open>2 ^ 64\<close>
  acquisitions happen, no two of them share a generation.
\<close>

fun acquires :: "('w \<times> time \<times> time) list \<Rightarrow> 'i \<Rightarrow> ('e + 'i)" where
  "acquires [] x = Inr x"
| "acquires ((w, now, until) # cs) x =
     (case acquire w now until x of Inl e \<Rightarrow> Inl e | Inr y \<Rightarrow> acquires cs y)"

lemma acquires_generation:
  "acquires cs x = Inr y \<Longrightarrow> generation y = generation x + of_nat (length cs)"
proof (induction cs arbitrary: x)
  case Nil
  then show ?case by simp
next
  case (Cons c cs)
  obtain w now until where c: "c = (w, now, until)" by (cases c)
  from Cons.prems c obtain z where z: "acquire w now until x = Inr z" "acquires cs z = Inr y"
    by (auto split: sum.splits)
  from Cons.IH[OF z(2)] acquire_generation[OF z(1)] show ?case
    by (simp add: add.assoc)
qed

lemma generations_distinct:
  assumes "acquires cs x = Inr y" "cs \<noteq> []" "length cs < 2 ^ 64"
  shows "generation y \<noteq> generation x"
proof -
  have "\<not> (2 :: nat) ^ 64 dvd length cs"
    using assms(2,3) by (auto dest: dvd_imp_le)
  then have "(of_nat (length cs) :: u64) \<noteq> 0"
    by (simp add: word_of_nat_eq_0_iff)
  with acquires_generation[OF assms(1)] show ?thesis by simp
qed

end

end
