(* ===== verification/Deployment.thy ===== *)
theory Deployment
  imports Admission LeaseContract
begin

text \<open>
  The deployment record and its life cycle
  (\<open>internal/modules/deployment/biz/deployment.go\<close>): creation, status transitions, failure,
  cancellation, retry and rollback, and the worker lease. Methods with a pointer receiver return
  the updated record; on an error the source leaves the record as it was.
\<close>

section \<open>Data\<close>

record Lease =
  lease_Owner :: string
  lease_ExpiresAt :: time
  lease_Generation :: u64

definition empty_lease :: Lease where
  "empty_lease = \<lparr>lease_Owner = [], lease_ExpiresAt = 0, lease_Generation = 0\<rparr>"

definition Lease_Active :: "Lease \<Rightarrow> time \<Rightarrow> bool" where
  "Lease_Active l now \<longleftrightarrow> trim_space (lease_Owner l) \<noteq> [] \<and> after (lease_ExpiresAt l) now"

record Deployment =
  dep_ID :: string
  dep_OrganizationID :: string
  dep_ProjectID :: string
  dep_ReleaseID :: string
  dep_ApplicationID :: string
  dep_EnvironmentID :: string
  dep_RuntimeTargetID :: string
  dep_IdempotencyKey :: string
  dep_Operation :: Operation
  dep_TriggerSource :: TriggerSource
  dep_SourceArtifactID :: string
  dep_SourceBuildID :: string
  dep_BuildConfigurationID :: string
  dep_SourceDeploymentID :: string
  dep_Revision :: string
  dep_Status :: Status
  dep_FailureCategory :: FailureCategory
  dep_CutoverSequence :: u64
  dep_CreatedAt :: time
  dep_UpdatedAt :: time
  dep_Version :: u64
  dep_Lease :: Lease
  dep_Admission :: AdmissionSnapshot

definition CutoverScope :: "Deployment \<Rightarrow> string" where
  "CutoverScope d =
     dep_ProjectID d @ [CHR 0x00] @ dep_ApplicationID d @ [CHR 0x00] @
     dep_EnvironmentID d @ [CHR 0x00] @ dep_RuntimeTargetID d"

definition Terminal :: "Deployment \<Rightarrow> bool" where
  "Terminal d \<longleftrightarrow> dep_Status d = StatusSucceeded \<or> dep_Status d = StatusFailed \<or> dep_Status d = StatusCanceled"

section \<open>Creation\<close>

definition New :: "string \<Rightarrow> string \<Rightarrow> string \<Rightarrow> string \<Rightarrow> time \<Rightarrow> dep_error + Deployment" where
  "New applicationID environmentID revision i now =
     (if trim_space applicationID = [] then Inl ErrInvalidApplication
      else if trim_space environmentID = [] then Inl ErrInvalidEnvironment
      else Inr \<lparr>dep_ID = trim_space i, dep_OrganizationID = [], dep_ProjectID = [], dep_ReleaseID = [],
        dep_ApplicationID = trim_space applicationID, dep_EnvironmentID = trim_space environmentID,
        dep_RuntimeTargetID = [], dep_IdempotencyKey = [], dep_Operation = OperationOther [],
        dep_TriggerSource = TriggerSourceOther [], dep_SourceArtifactID = [], dep_SourceBuildID = [],
        dep_BuildConfigurationID = [], dep_SourceDeploymentID = [], dep_Revision = trim_space revision,
        dep_Status = StatusQueued, dep_FailureCategory = NoFailure, dep_CutoverSequence = 0,
        dep_CreatedAt = utc now, dep_UpdatedAt = utc now, dep_Version = 1, dep_Lease = empty_lease,
        dep_Admission = empty_snapshot\<rparr>)"

definition NewFormal ::
  "string \<Rightarrow> string \<Rightarrow> string \<Rightarrow> string \<Rightarrow> string \<Rightarrow> string \<Rightarrow> string \<Rightarrow> time \<Rightarrow> dep_error + Deployment" where
  "NewFormal i projectID releaseID applicationID environmentID runtimeTargetID idempotencyKey now =
     (if trim_space projectID = [] then Inl ErrInvalidProject
      else if trim_space releaseID = [] then Inl ErrInvalidRelease
      else if trim_space runtimeTargetID = [] then Inl ErrInvalidRuntimeTarget
      else if trim_space idempotencyKey = [] \<or> 128 < length (trim_space idempotencyKey)
        then Inl ErrInvalidIdempotencyKey
      else bind_result (New applicationID environmentID [] i now) (\<lambda>item.
        Inr (item\<lparr>dep_ReleaseID := trim_space releaseID, dep_ProjectID := trim_space projectID,
          dep_RuntimeTargetID := trim_space runtimeTargetID,
          dep_IdempotencyKey := trim_space idempotencyKey,
          dep_Operation := OperationDeploy, dep_TriggerSource := TriggerSourceManual\<rparr>)))"

record AutomaticDeploymentInput =
  auto_OrganizationID :: string
  auto_ProjectID :: string
  auto_ReleaseID :: string
  auto_ApplicationID :: string
  auto_EnvironmentID :: string
  auto_RuntimeTargetID :: string
  auto_ArtifactID :: string
  auto_BuildID :: string
  auto_BuildConfigurationID :: string

definition NewAutomatic ::
  "string \<Rightarrow> string \<Rightarrow> AutomaticDeploymentInput \<Rightarrow> time \<Rightarrow> dep_error + Deployment" where
  "NewAutomatic i idempotencyKey input now =
     bind_result
       (NewFormal i (auto_ProjectID input) (auto_ReleaseID input) (auto_ApplicationID input)
          (auto_EnvironmentID input) (auto_RuntimeTargetID input) idempotencyKey now)
       (\<lambda>item.
         if trim_space (auto_OrganizationID input) = [] \<or> trim_space (auto_ArtifactID input) = [] \<or>
            trim_space (auto_BuildID input) = [] \<or> trim_space (auto_BuildConfigurationID input) = []
         then Inl ErrAutomaticDeploymentUnavailable
         else Inr (item\<lparr>dep_OrganizationID := trim_space (auto_OrganizationID input),
           dep_TriggerSource := TriggerSourceAutomatic,
           dep_SourceArtifactID := trim_space (auto_ArtifactID input),
           dep_SourceBuildID := trim_space (auto_BuildID input),
           dep_BuildConfigurationID := trim_space (auto_BuildConfigurationID input)\<rparr>))"

section \<open>Transitions\<close>

definition transition_valid :: "Status \<Rightarrow> Status \<Rightarrow> bool" where
  "transition_valid s nxt \<longleftrightarrow>
     (s = StatusQueued \<and> (nxt = StatusPreparing \<or> nxt = StatusCanceling)) \<or>
     (s = StatusPreparing \<and> (nxt = StatusDeploying \<or> nxt = StatusFailed \<or> nxt = StatusCanceling)) \<or>
     (s = StatusDeploying \<and> (nxt = StatusCommitting \<or> nxt = StatusFailed \<or> nxt = StatusCanceling)) \<or>
     (s = StatusCommitting \<and> nxt = StatusSucceeded) \<or>
     (s = StatusCanceling \<and> nxt = StatusCanceled)"

definition Transition :: "Deployment \<Rightarrow> Status \<Rightarrow> time \<Rightarrow> dep_error + Deployment" where
  "Transition d nxt now =
     (if \<not> transition_valid (dep_Status d) nxt then Inl ErrInvalidTransition
      else
        (let d1 = d\<lparr>dep_Status := nxt, dep_UpdatedAt := utc now,
               dep_FailureCategory := (if nxt = StatusFailed then FailureUnknown else NoFailure)\<rparr>
         in Inr (if Terminal d1 then d1\<lparr>dep_Lease := empty_lease\<rparr> else d1)))"

definition Fail :: "Deployment \<Rightarrow> FailureCategory \<Rightarrow> time \<Rightarrow> dep_error + Deployment" where
  "Fail d category now =
     (if \<not> FailureCategory_Valid category then Inl ErrInvalidFailure
      else bind_result (Transition d StatusFailed now) (\<lambda>d1. Inr (d1\<lparr>dep_FailureCategory := category\<rparr>)))"

definition Cancel :: "Deployment \<Rightarrow> time \<Rightarrow> dep_error + Deployment" where
  "Cancel d now =
     (if Terminal d then Inl ErrInvalidTransition else Transition d StatusCanceling now)"

definition Retry :: "Deployment \<Rightarrow> string \<Rightarrow> string \<Rightarrow> time \<Rightarrow> dep_error + Deployment" where
  "Retry d newID idempotencyKey now =
     (if dep_Status d \<noteq> StatusFailed then Inl ErrRetryRequiresFailed
      else bind_result
        (NewFormal newID (dep_ProjectID d) (dep_ReleaseID d) (dep_ApplicationID d)
           (dep_EnvironmentID d) (dep_RuntimeTargetID d) idempotencyKey now)
        (\<lambda>item. Inr (item\<lparr>dep_Operation := OperationRetry,
           dep_OrganizationID := dep_OrganizationID d, dep_SourceDeploymentID := dep_ID d\<rparr>)))"

definition Rollback ::
  "Deployment \<Rightarrow> string \<Rightarrow> string \<Rightarrow> string \<Rightarrow> time \<Rightarrow> dep_error + Deployment" where
  "Rollback d newID releaseID idempotencyKey now =
     (if \<not> Terminal d then Inl ErrRollbackRequiresFinal
      else if trim_space releaseID = dep_ReleaseID d then Inl ErrRollbackSameRelease
      else bind_result
        (NewFormal newID (dep_ProjectID d) releaseID (dep_ApplicationID d)
           (dep_EnvironmentID d) (dep_RuntimeTargetID d) idempotencyKey now)
        (\<lambda>item. Inr (item\<lparr>dep_Operation := OperationRollback,
           dep_OrganizationID := dep_OrganizationID d, dep_SourceDeploymentID := dep_ID d\<rparr>)))"

section \<open>Leases\<close>

record Claim =
  claim_WorkerID :: string
  claim_Now :: time
  claim_ExpiresAt :: time

definition Claim_Validate :: "Claim \<Rightarrow> dep_error option" where
  "Claim_Validate c =
     (if trim_space (claim_WorkerID c) = [] \<or> is_zero (claim_Now c) \<or>
         \<not> after (claim_ExpiresAt c) (claim_Now c)
      then Some ErrInvalidLease else None)"

fun claimable_status :: "Status \<Rightarrow> bool" where
  "claimable_status StatusQueued = True"
| "claimable_status StatusPreparing = True"
| "claimable_status StatusDeploying = True"
| "claimable_status StatusCommitting = True"
| "claimable_status StatusCanceling = True"
| "claimable_status _ = False"

definition Acquire :: "Claim \<Rightarrow> Deployment \<Rightarrow> dep_error + Deployment" where
  "Acquire c d =
     (case Claim_Validate c of
        Some e \<Rightarrow> Inl e
      | None \<Rightarrow>
          if claimable_status (dep_Status d) then
            (if Lease_Active (dep_Lease d) (claim_Now c) then Inl ErrNotClaimable
             else Inr (d\<lparr>dep_UpdatedAt := utc (claim_Now c),
               dep_Lease := \<lparr>lease_Owner = trim_space (claim_WorkerID c),
                 lease_ExpiresAt = utc (claim_ExpiresAt c),
                 lease_Generation = lease_Generation (dep_Lease d) + 1\<rparr>\<rparr>))
          else Inl ErrNotClaimable)"

definition Renew :: "string \<Rightarrow> time \<Rightarrow> time \<Rightarrow> Deployment \<Rightarrow> dep_error + Deployment" where
  "Renew owner now expiresAt d =
     (if trim_space owner = [] \<or> lease_Owner (dep_Lease d) \<noteq> owner \<or>
         \<not> Lease_Active (dep_Lease d) now \<or> \<not> after expiresAt now
      then Inl ErrInvalidLease
      else Inr (d\<lparr>dep_Lease := (dep_Lease d)\<lparr>lease_ExpiresAt := utc expiresAt\<rparr>\<rparr>))"

section \<open>Inversion of the operations\<close>

lemma Terminal_cong [field_frames]: "dep_Status d = dep_Status e \<Longrightarrow> Terminal d = Terminal e"
  by (simp add: Terminal_def)

lemma Claim_Validate_None [simp]:
  "Claim_Validate c = None \<longleftrightarrow>
     trim_space (claim_WorkerID c) \<noteq> [] \<and> claim_Now c \<noteq> 0 \<and> claim_Now c < claim_ExpiresAt c"
  by (auto simp: Claim_Validate_def)

lemma New_Inr [inversion]:
  "New applicationID environmentID revision i now = Inr d \<Longrightarrow>
     dep_ApplicationID d = trim_space applicationID \<and> trim_space applicationID \<noteq> [] \<and>
     dep_EnvironmentID d = trim_space environmentID \<and> trim_space environmentID \<noteq> [] \<and>
     dep_ID d = trim_space i \<and> dep_Status d = StatusQueued \<and> dep_FailureCategory d = NoFailure \<and>
     dep_Lease d = empty_lease \<and> dep_Version d = 1 \<and> dep_CreatedAt d = now \<and> dep_UpdatedAt d = now"
  by (auto simp: New_def split: if_splits)

lemma NewFormal_Inr [inversion]:
  assumes "NewFormal i p r a e t k now = Inr d"
  shows "dep_ProjectID d = trim_space p \<and> trim_space p \<noteq> [] \<and>
     dep_ReleaseID d = trim_space r \<and> trim_space r \<noteq> [] \<and>
     dep_ApplicationID d = trim_space a \<and> trim_space a \<noteq> [] \<and>
     dep_EnvironmentID d = trim_space e \<and> trim_space e \<noteq> [] \<and>
     dep_RuntimeTargetID d = trim_space t \<and> trim_space t \<noteq> [] \<and>
     dep_IdempotencyKey d = trim_space k \<and> trim_space k \<noteq> [] \<and> length (trim_space k) \<le> 128 \<and>
     dep_ID d = trim_space i \<and> dep_Status d = StatusQueued \<and> dep_FailureCategory d = NoFailure \<and>
     dep_Lease d = empty_lease \<and> dep_Version d = 1 \<and> dep_Operation d = OperationDeploy \<and>
     dep_TriggerSource d = TriggerSourceManual \<and> dep_CreatedAt d = now"
  using assms
  by (auto simp: NewFormal_def New_def bind_result_def split: if_splits sum.splits)

lemma Transition_Inr [inversion]:
  "Transition d nxt now = Inr d' \<longleftrightarrow>
     transition_valid (dep_Status d) nxt \<and>
     d' = d\<lparr>dep_Status := nxt, dep_UpdatedAt := now,
       dep_FailureCategory := (if nxt = StatusFailed then FailureUnknown else NoFailure),
       dep_Lease := (if nxt \<in> {StatusSucceeded, StatusFailed, StatusCanceled}
         then empty_lease else dep_Lease d)\<rparr>"
  by (auto simp: Transition_def Terminal_def Let_def split: if_splits)

lemma Fail_Inr [inversion]:
  "Fail d c now = Inr d' \<longleftrightarrow>
     FailureCategory_Valid c \<and> transition_valid (dep_Status d) StatusFailed \<and>
     d' = d\<lparr>dep_Status := StatusFailed, dep_UpdatedAt := now,
       dep_FailureCategory := c, dep_Lease := empty_lease\<rparr>"
  by (auto simp: Fail_def bind_result_eq_Inr Transition_Inr)

lemma Cancel_Inr [inversion]:
  "Cancel d now = Inr d' \<longleftrightarrow>
     transition_valid (dep_Status d) StatusCanceling \<and>
     d' = d\<lparr>dep_Status := StatusCanceling, dep_UpdatedAt := now, dep_FailureCategory := NoFailure\<rparr>"
  by (auto simp: Cancel_def Transition_Inr Terminal_def transition_valid_def)

lemma Acquire_Inr [inversion]:
  "Acquire c d = Inr d' \<longleftrightarrow>
     Claim_Validate c = None \<and> claimable_status (dep_Status d) \<and>
     \<not> Lease_Active (dep_Lease d) (claim_Now c) \<and>
     d' = d\<lparr>dep_UpdatedAt := claim_Now c,
       dep_Lease := \<lparr>lease_Owner = trim_space (claim_WorkerID c), lease_ExpiresAt = claim_ExpiresAt c,
         lease_Generation = lease_Generation (dep_Lease d) + 1\<rparr>\<rparr>"
  by (auto simp: Acquire_def Claim_Validate_def split: if_splits)

lemma Renew_Inr [inversion]:
  "Renew w now until d = Inr d' \<longleftrightarrow>
     trim_space w \<noteq> [] \<and> lease_Owner (dep_Lease d) = w \<and> Lease_Active (dep_Lease d) now \<and> now < until \<and>
     d' = d\<lparr>dep_Lease := (dep_Lease d)\<lparr>lease_ExpiresAt := until\<rparr>\<rparr>"
  by (auto simp: Renew_def)

section \<open>The well-formedness invariant\<close>

text \<open>
  A stored deployment has a status the source names, carries a valid failure category exactly when
  it has failed, and holds no lease once it is final.
\<close>

definition dep_wf :: "Deployment \<Rightarrow> bool" where
  "dep_wf d \<longleftrightarrow>
     (\<forall>s. dep_Status d \<noteq> StatusOther s) \<and>
     (if dep_Status d = StatusFailed then FailureCategory_Valid (dep_FailureCategory d)
      else dep_FailureCategory d = NoFailure) \<and>
     (Terminal d \<longrightarrow> dep_Lease d = empty_lease)"

lemma dep_wf_NewFormal: "NewFormal i p r a e t k now = Inr d \<Longrightarrow> dep_wf d"
  by (auto dest!: NewFormal_Inr simp: dep_wf_def Terminal_def)

lemma dep_wf_NewAutomatic: "NewAutomatic i k input now = Inr d \<Longrightarrow> dep_wf d"
  by (auto simp: NewAutomatic_def bind_result_eq_Inr dep_wf_def Terminal_def dest!: NewFormal_Inr
      split: if_splits)

lemma dep_wf_Retry: "Retry d i k now = Inr d' \<Longrightarrow> dep_wf d'"
  by (auto simp: Retry_def bind_result_eq_Inr dep_wf_def Terminal_def dest!: NewFormal_Inr
      split: if_splits)

lemma dep_wf_Rollback: "Rollback d i r k now = Inr d' \<Longrightarrow> dep_wf d'"
  by (auto simp: Rollback_def bind_result_eq_Inr dep_wf_def Terminal_def dest!: NewFormal_Inr
      split: if_splits)

lemma dep_wf_Transition: "Transition d nxt now = Inr d' \<Longrightarrow> dep_wf d'"
  by (auto simp: Transition_Inr dep_wf_def Terminal_def transition_valid_def)

lemma dep_wf_Fail: "Fail d c now = Inr d' \<Longrightarrow> dep_wf d'"
  by (auto simp: Fail_Inr dep_wf_def Terminal_def)

lemma dep_wf_Cancel: "Cancel d now = Inr d' \<Longrightarrow> dep_wf d'"
  by (auto simp: Cancel_Inr dep_wf_def Terminal_def)

lemma claimable_not_terminal: "claimable_status (dep_Status d) \<Longrightarrow> \<not> Terminal d"
  by (auto simp: Terminal_def)

lemma dep_wf_Acquire: "Acquire c d = Inr d' \<Longrightarrow> dep_wf d \<Longrightarrow> dep_wf d'"
  by (auto simp: Acquire_Inr dep_wf_def dest!: claimable_not_terminal) (auto simp: Terminal_def)

lemma dep_wf_Renew: "Renew w now until d = Inr d' \<Longrightarrow> dep_wf d \<Longrightarrow> dep_wf d'"
  by (auto simp: Renew_Inr dep_wf_def Lease_Active_def empty_lease_def Terminal_def)

section \<open>The life cycle\<close>

text \<open>One change of status by a worker, a user or a retirement.\<close>

inductive dep_step :: "Deployment \<Rightarrow> Deployment \<Rightarrow> bool" where
  step_transition: "Transition d nxt now = Inr d' \<Longrightarrow> dep_step d d'"
| step_fail: "Fail d c now = Inr d' \<Longrightarrow> dep_step d d'"
| step_cancel: "Cancel d now = Inr d' \<Longrightarrow> dep_step d d'"

inductive_cases dep_step_cases: "dep_step d d'"

text \<open>How many changes of status are still possible.\<close>

fun status_budget :: "Status \<Rightarrow> nat" where
  "status_budget StatusQueued = 4"
| "status_budget StatusPreparing = 3"
| "status_budget StatusDeploying = 2"
| "status_budget StatusCommitting = 1"
| "status_budget StatusCanceling = 1"
| "status_budget _ = 0"

lemma dep_step_valid: "dep_step d d' \<Longrightarrow> transition_valid (dep_Status d) (dep_Status d')"
  by (auto elim!: dep_step_cases simp: Transition_Inr Fail_Inr Cancel_Inr)

lemma dep_step_budget: "dep_step d d' \<Longrightarrow> status_budget (dep_Status d') < status_budget (dep_Status d)"
  by (drule dep_step_valid) (auto simp: transition_valid_def)

lemma dep_step_wf: "dep_step d d' \<Longrightarrow> dep_wf d'"
  by (auto elim!: dep_step_cases intro: dep_wf_Transition dep_wf_Fail dep_wf_Cancel)

fun dep_path :: "Deployment \<Rightarrow> Deployment list \<Rightarrow> bool" where
  "dep_path d [] = True"
| "dep_path d (e # es) \<longleftrightarrow> dep_step d e \<and> dep_path e es"

lemma dep_path_length: "dep_path d es \<Longrightarrow> length es \<le> status_budget (dep_Status d)"
proof (induction es arbitrary: d)
  case Nil
  then show ?case by simp
next
  case (Cons e es)
  then have "length es \<le> status_budget (dep_Status e)" "dep_step d e" by auto
  then show ?case using dep_step_budget by fastforce
qed

text \<open>A status that is not final has a next status: no deployment is stuck.\<close>

lemma dep_progress:
  assumes "dep_wf d" "\<not> Terminal d"
  shows "\<exists>d'. dep_step d d'"
proof -
  obtain nxt where "transition_valid (dep_Status d) nxt"
    using assms by (cases "dep_Status d") (auto simp: dep_wf_def Terminal_def transition_valid_def)
  then have "\<exists>d'. Transition d nxt 0 = Inr d'" by (simp add: Transition_def Let_def)
  then show ?thesis by (auto intro: step_transition)
qed

section \<open>The lease contract\<close>

definition claim_of :: "string \<Rightarrow> time \<Rightarrow> time \<Rightarrow> Claim" where
  "claim_of w now until = \<lparr>claim_WorkerID = w, claim_Now = now, claim_ExpiresAt = until\<rparr>"

definition dep_acquire :: "string \<Rightarrow> time \<Rightarrow> time \<Rightarrow> Deployment \<Rightarrow> dep_error + Deployment" where
  "dep_acquire w now until d = Acquire (claim_of w now until) d"

interpretation dep_lease: leased_item dep_acquire "\<lambda>d. lease_Owner (dep_Lease d)"
  "\<lambda>d. lease_ExpiresAt (dep_Lease d)" "\<lambda>d. lease_Generation (dep_Lease d)"
  "\<lambda>w. trim_space w \<noteq> []" trim_space
proof unfold_locales
  fix w now until and x y :: Deployment
  assume a: "dep_acquire w now until x = Inr y"
  show "lease_Owner (dep_Lease y) = trim_space w"
    "lease_Generation (dep_Lease y) = lease_Generation (dep_Lease x) + 1"
    "trim_space (trim_space w) \<noteq> []"
    "lease_ExpiresAt (dep_Lease y) = until \<and> now < until"
    using a by (auto simp: dep_acquire_def claim_of_def Acquire_Inr)
next
  fix x :: Deployment and w now until
  assume "trim_space (lease_Owner (dep_Lease x)) \<noteq> []" "now < lease_ExpiresAt (dep_Lease x)"
  then show "is_err (dep_acquire w now until x)"
    by (auto simp: dep_acquire_def claim_of_def Acquire_def Lease_Active_def split: option.split)
qed

section \<open>The slot of a deployment\<close>

definition nul_free :: "Deployment \<Rightarrow> bool" where
  "nul_free d \<longleftrightarrow> CHR 0x00 \<notin> set (dep_ProjectID d) \<and> CHR 0x00 \<notin> set (dep_ApplicationID d) \<and>
     CHR 0x00 \<notin> set (dep_EnvironmentID d)"

lemma CutoverScope_inject:
  assumes "nul_free d" "nul_free e"
  shows "CutoverScope d = CutoverScope e \<longleftrightarrow>
     dep_ProjectID d = dep_ProjectID e \<and> dep_ApplicationID d = dep_ApplicationID e \<and>
     dep_EnvironmentID d = dep_EnvironmentID e \<and> dep_RuntimeTargetID d = dep_RuntimeTargetID e"
  using assms unfolding nul_free_def CutoverScope_def
  by (simp add: append_sep_inject)

end
