(* ===== verification/DeploymentRepository.thy ===== *)
theory DeploymentRepository
  imports Deployment
begin

text \<open>
  The deployment repository: the contract the use cases rely on
  (\<open>Repository\<close> in \<open>internal/modules/deployment/biz/deployment.go\<close>) as a locale, and the
  in-memory implementation (\<open>internal/modules/deployment/data/memory.go\<close>) with the invariant
  its operations keep. A method runs under the repository's mutex, so it is one step; an error
  returns before the state changes. A context argument is the error of a cancelled context.
\<close>

type_synonym ctx = "dep_error option"

record MemoryRepository =
  repo_items :: "Deployment list"
  cutoverSequences :: "string \<rightharpoonup> u64"

definition NewMemoryRepository :: MemoryRepository where
  "NewMemoryRepository = \<lparr>repo_items = [], cutoverSequences = Map.empty\<rparr>"

text \<open>Reading a missing key of a Go map gives the zero value.\<close>

definition cutover_counter :: "MemoryRepository \<Rightarrow> string \<Rightarrow> u64" where
  "cutover_counter r scope = (case cutoverSequences r scope of None \<Rightarrow> 0 | Some n \<Rightarrow> n)"

definition with_ctx :: "ctx \<Rightarrow> (dep_error + 'a) \<Rightarrow> dep_error + 'a" where
  "with_ctx ctx r = (case ctx of Some e \<Rightarrow> Inl e | None \<Rightarrow> r)"

lemma with_ctx_simps [simp]: "with_ctx None r = r" "with_ctx (Some e) r = Inl e"
  by (simp_all add: with_ctx_def)

section \<open>Reads\<close>

definition mem_List ::
  "ctx \<Rightarrow> MemoryRepository \<Rightarrow> string \<Rightarrow> string \<Rightarrow> string \<Rightarrow> dep_error + Deployment list" where
  "mem_List ctx r projectID applicationID environmentID =
     with_ctx ctx (Inr (filter (\<lambda>item.
       (projectID = [] \<or> dep_ProjectID item = projectID) \<and>
       (applicationID = [] \<or> dep_ApplicationID item = applicationID) \<and>
       (environmentID = [] \<or> dep_EnvironmentID item = environmentID)) (repo_items r)))"

definition mem_ListForRuntimeTarget ::
  "ctx \<Rightarrow> MemoryRepository \<Rightarrow> string \<Rightarrow> string \<Rightarrow> dep_error + Deployment list" where
  "mem_ListForRuntimeTarget ctx r projectID runtimeTargetID =
     with_ctx ctx (Inr (filter (\<lambda>item.
       dep_ProjectID item = projectID \<and> dep_RuntimeTargetID item = runtimeTargetID) (repo_items r)))"

definition first_item :: "(Deployment \<Rightarrow> bool) \<Rightarrow> MemoryRepository \<Rightarrow> dep_error + Deployment" where
  "first_item P r = (case find P (repo_items r) of Some item \<Rightarrow> Inr item | None \<Rightarrow> Inl ErrNotFound)"

definition mem_GetByIdempotency ::
  "ctx \<Rightarrow> MemoryRepository \<Rightarrow> string \<Rightarrow> string \<Rightarrow> dep_error + Deployment" where
  "mem_GetByIdempotency ctx r projectID key =
     with_ctx ctx (first_item (\<lambda>item. dep_ProjectID item = projectID \<and> dep_IdempotencyKey item = key) r)"

definition mem_Get ::
  "ctx \<Rightarrow> MemoryRepository \<Rightarrow> string \<Rightarrow> string \<Rightarrow> dep_error + Deployment" where
  "mem_Get ctx r projectID deploymentID =
     with_ctx ctx (first_item (\<lambda>item. dep_ProjectID item = projectID \<and> dep_ID item = deploymentID) r)"

definition mem_HasSucceeded ::
  "ctx \<Rightarrow> MemoryRepository \<Rightarrow> string \<Rightarrow> string \<Rightarrow> string \<Rightarrow> string \<Rightarrow> string \<Rightarrow> dep_error + bool" where
  "mem_HasSucceeded ctx r projectID releaseID applicationID environmentID runtimeTargetID =
     with_ctx ctx (Inr (list_ex (\<lambda>item.
       dep_ProjectID item = projectID \<and> dep_ReleaseID item = releaseID \<and>
       dep_ApplicationID item = applicationID \<and> dep_EnvironmentID item = environmentID \<and>
       dep_RuntimeTargetID item = runtimeTargetID \<and> dep_Status item = StatusSucceeded) (repo_items r)))"

section \<open>Create and save\<close>

fun create_conflict :: "Deployment \<Rightarrow> Deployment list \<Rightarrow> dep_error option" where
  "create_conflict item [] = None"
| "create_conflict item (existing # rest) =
     (if dep_ID existing = dep_ID item then Some ErrConflict
      else if dep_IdempotencyKey item \<noteq> [] \<and> dep_ProjectID existing = dep_ProjectID item \<and>
        dep_IdempotencyKey existing = dep_IdempotencyKey item then Some ErrDuplicateIdempotency
      else create_conflict item rest)"

definition mem_Create ::
  "ctx \<Rightarrow> MemoryRepository \<Rightarrow> Deployment \<Rightarrow> dep_error + Deployment \<times> MemoryRepository" where
  "mem_Create ctx r item =
     with_ctx ctx
       (case create_conflict item (repo_items r) of
          Some e \<Rightarrow> Inl e
        | None \<Rightarrow>
            (let versioned = (if dep_Version item = 0 then item\<lparr>dep_Version := 1\<rparr> else item);
                 scope = CutoverScope versioned;
                 sequence = cutover_counter r scope + 1;
                 stored = versioned\<lparr>dep_CutoverSequence := sequence\<rparr>
             in Inr (stored, r\<lparr>repo_items := repo_items r @ [stored],
                  cutoverSequences := (cutoverSequences r)(scope \<mapsto> sequence)\<rparr>)))"

definition mem_Save ::
  "ctx \<Rightarrow> MemoryRepository \<Rightarrow> Deployment \<Rightarrow> u64 \<Rightarrow> dep_error + Deployment \<times> MemoryRepository" where
  "mem_Save ctx r item expectedVersion =
     with_ctx ctx
       (case find_index (\<lambda>x. dep_ID x = dep_ID item \<and> dep_ProjectID x = dep_ProjectID item) (repo_items r) of
          None \<Rightarrow> Inl ErrNotFound
        | Some i \<Rightarrow>
            (if dep_Version (repo_items r ! i) \<noteq> expectedVersion then Inl ErrConflict
             else (let saved = item\<lparr>dep_Version := expectedVersion + 1\<rparr>
                   in Inr (saved, r\<lparr>repo_items := (repo_items r)[i := saved]\<rparr>))))"

section \<open>Claims, leases and fences\<close>

text \<open>
  The claim loop: items with a live lease are skipped, the first other claimable item is taken,
  any other error of \<open>Acquire\<close> ends the loop.
\<close>

fun claim_loop ::
  "Claim \<Rightarrow> Deployment list \<Rightarrow> dep_error + (Deployment \<times> Deployment list) option" where
  "claim_loop claim [] = Inr None"
| "claim_loop claim (item # rest) =
     (let skip = bind_result (claim_loop claim rest)
            (\<lambda>found. Inr (map_option (\<lambda>(taken, items). (taken, item # items)) found)) in
      if \<not> claimable_status (dep_Status item) then skip
      else (case Acquire claim item of
              Inl e \<Rightarrow> if e = ErrNotClaimable then skip else Inl e
            | Inr acquired \<Rightarrow>
                (let taken = acquired\<lparr>dep_Version := dep_Version item + 1\<rparr>
                 in Inr (Some (taken, taken # rest)))))"

definition mem_ClaimNext ::
  "ctx \<Rightarrow> MemoryRepository \<Rightarrow> Claim \<Rightarrow> dep_error + (Deployment option \<times> MemoryRepository)" where
  "mem_ClaimNext ctx r claim =
     with_ctx ctx
       (case Claim_Validate claim of
          Some e \<Rightarrow> Inl e
        | None \<Rightarrow>
            bind_result (claim_loop claim (repo_items r)) (\<lambda>found.
              case found of
                None \<Rightarrow> Inr (None, r)
              | Some (taken, items) \<Rightarrow> Inr (Some taken, r\<lparr>repo_items := items\<rparr>)))"

definition mem_SaveClaimed ::
  "ctx \<Rightarrow> MemoryRepository \<Rightarrow> Deployment \<Rightarrow> u64 \<Rightarrow> string \<Rightarrow> time \<Rightarrow>
     dep_error + Deployment \<times> MemoryRepository" where
  "mem_SaveClaimed ctx r item expectedVersion workerID now =
     with_ctx ctx
       (case find_index (\<lambda>x. dep_ID x = dep_ID item) (repo_items r) of
          None \<Rightarrow> Inl ErrNotFound
        | Some i \<Rightarrow>
            (let current = repo_items r ! i in
             if dep_Version current \<noteq> expectedVersion then Inl ErrConflict
             else if trim_space workerID = [] \<or> lease_Owner (dep_Lease current) \<noteq> workerID then Inl ErrConflict
             else if \<not> Lease_Active (dep_Lease current) now then Inl ErrLeaseExpired
             else if \<not> Terminal item \<and> lease_Owner (dep_Lease item) \<noteq> workerID then Inl ErrConflict
             else (let saved = item\<lparr>dep_Version := dep_Version current + 1\<rparr>
                   in Inr (saved, r\<lparr>repo_items := (repo_items r)[i := saved]\<rparr>))))"

definition mem_RenewLease ::
  "ctx \<Rightarrow> MemoryRepository \<Rightarrow> string \<Rightarrow> string \<Rightarrow> u64 \<Rightarrow> time \<Rightarrow> time \<Rightarrow>
     dep_error + Deployment \<times> MemoryRepository" where
  "mem_RenewLease ctx r deploymentID workerID expectedVersion now expiresAt =
     with_ctx ctx
       (if workerID = [] \<or> \<not> after expiresAt now then Inl ErrInvalidLease
        else case find_index (\<lambda>x. dep_ID x = deploymentID) (repo_items r) of
          None \<Rightarrow> Inl ErrNotFound
        | Some i \<Rightarrow>
            (let item = repo_items r ! i in
             if dep_Version item \<noteq> expectedVersion \<or> lease_Owner (dep_Lease item) \<noteq> workerID \<or>
                \<not> Lease_Active (dep_Lease item) now then Inl ErrConflict
             else (let renewed = item\<lparr>dep_Lease := (dep_Lease item)\<lparr>lease_ExpiresAt := utc expiresAt\<rparr>,
                         dep_UpdatedAt := utc now, dep_Version := dep_Version item + 1\<rparr>
                   in Inr (renewed, r\<lparr>repo_items := (repo_items r)[i := renewed]\<rparr>))))"

definition mem_ValidateFence ::
  "ctx \<Rightarrow> MemoryRepository \<Rightarrow> string \<Rightarrow> string \<Rightarrow> string \<Rightarrow> u64 \<Rightarrow> time \<Rightarrow> dep_error option" where
  "mem_ValidateFence ctx r projectID deploymentID workerID generation now =
     (case ctx of
        Some e \<Rightarrow> Some e
      | None \<Rightarrow>
          (case find (\<lambda>x. dep_ID x = deploymentID \<and> dep_ProjectID x = projectID) (repo_items r) of
             None \<Rightarrow> Some ErrStaleExecution
           | Some item \<Rightarrow>
               (if lease_Owner (dep_Lease item) \<noteq> workerID \<or>
                   lease_Generation (dep_Lease item) \<noteq> generation \<or>
                   \<not> Lease_Active (dep_Lease item) now \<or> Terminal item \<or>
                   cutover_counter r (CutoverScope item) \<noteq> dep_CutoverSequence item
                then Some ErrStaleExecution else None)))"

section \<open>The invariant\<close>

text \<open>
  The immutable part of a stored deployment: no operation of the use cases or of the worker
  changes it after creation.
\<close>

definition dep_refs :: "Deployment \<Rightarrow> string list \<times> Operation \<times> TriggerSource \<times> u64 \<times> time" where
  "dep_refs d =
     ([dep_ID d, dep_OrganizationID d, dep_ProjectID d, dep_ReleaseID d, dep_ApplicationID d,
       dep_EnvironmentID d, dep_RuntimeTargetID d, dep_IdempotencyKey d, dep_SourceArtifactID d,
       dep_SourceBuildID d, dep_BuildConfigurationID d, dep_SourceDeploymentID d, dep_Revision d],
      dep_Operation d, dep_TriggerSource d, dep_CutoverSequence d, dep_CreatedAt d)"

lemma dep_refs_eq:
  assumes "dep_refs d = dep_refs e"
  shows "dep_ID d = dep_ID e" "dep_ProjectID d = dep_ProjectID e"
    "dep_IdempotencyKey d = dep_IdempotencyKey e" "dep_CutoverSequence d = dep_CutoverSequence e"
    "CutoverScope d = CutoverScope e"
  using assms by (simp_all add: dep_refs_def CutoverScope_def)

definition slot_key :: "Deployment \<Rightarrow> string \<times> u64" where
  "slot_key d = (CutoverScope d, dep_CutoverSequence d)"

definition unique_keys :: "Deployment list \<Rightarrow> bool" where
  "unique_keys ds \<longleftrightarrow>
     distinct (map (\<lambda>d. (dep_ProjectID d, dep_IdempotencyKey d))
       (filter (\<lambda>d. dep_IdempotencyKey d \<noteq> []) ds))"

definition repo_inv :: "MemoryRepository \<Rightarrow> bool" where
  "repo_inv r \<longleftrightarrow>
     distinct (map dep_ID (repo_items r)) \<and>
     unique_keys (repo_items r) \<and>
     distinct (map slot_key (repo_items r)) \<and>
     (\<forall>d \<in> set (repo_items r). dep_CutoverSequence d \<le> cutover_counter r (CutoverScope d))"

lemma repo_inv_new: "repo_inv NewMemoryRepository"
  by (simp add: repo_inv_def NewMemoryRepository_def unique_keys_def)

text \<open>What only depends on the immutable parts survives an update that keeps them.\<close>

lemma map_update_same: "i < length xs \<Longrightarrow> f y = f (xs ! i) \<Longrightarrow> map f (xs[i := y]) = map f xs"
  by (simp add: map_update list_update_same_conv)

lemma unique_keys_via_map:
  "unique_keys ds = (let ks = map (\<lambda>d. (dep_ProjectID d, dep_IdempotencyKey d)) ds
                     in distinct (filter (\<lambda>(p, k). k \<noteq> []) ks))"
  by (simp add: unique_keys_def Let_def filter_map comp_def case_prod_unfold)

lemma repo_inv_update:
  assumes "repo_inv r" "i < length (repo_items r)" "dep_refs d = dep_refs (repo_items r ! i)"
  shows "repo_inv (r\<lparr>repo_items := (repo_items r)[i := d]\<rparr>)"
proof -
  note refs = dep_refs_eq[OF assms(3)]
  have "map dep_ID ((repo_items r)[i := d]) = map dep_ID (repo_items r)"
    "map slot_key ((repo_items r)[i := d]) = map slot_key (repo_items r)"
    "map (\<lambda>d. (dep_ProjectID d, dep_IdempotencyKey d)) ((repo_items r)[i := d]) =
     map (\<lambda>d. (dep_ProjectID d, dep_IdempotencyKey d)) (repo_items r)"
    using assms(2) refs by (simp_all add: map_update_same slot_key_def)
  moreover have "dep_CutoverSequence x \<le> cutover_counter r (CutoverScope x)"
    if "x \<in> set ((repo_items r)[i := d])" for x
  proof -
    have "x = d \<or> x \<in> set (repo_items r)" using that set_update_subset_insert by fastforce
    then show ?thesis
      using assms(1,2) refs unfolding repo_inv_def by (metis nth_mem)
  qed
  ultimately show ?thesis
    using assms(1) by (simp add: repo_inv_def unique_keys_via_map cutover_counter_def)
qed

lemma find_SomeD: "find P xs = Some x \<Longrightarrow> x \<in> set xs \<and> P x"
  by (induction xs) (auto split: if_splits)

lemma find_distinct:
  assumes "d \<in> set xs" "P d" "\<And>e. e \<in> set xs \<Longrightarrow> P e \<Longrightarrow> e = d"
  shows "find P xs = Some d"
proof (cases "find P xs")
  case None
  with assms(1,2) show ?thesis by (simp add: find_None_iff)
next
  case (Some e)
  with find_SomeD[OF Some] assms(3) show ?thesis by simp
qed

lemma first_item_Inr: "first_item P r = Inr d \<Longrightarrow> d \<in> set (repo_items r) \<and> P d"
  by (auto simp: first_item_def dest: find_SomeD split: option.splits)

lemma first_item_Inl:
  "first_item P r = Inl e \<longleftrightarrow> e = ErrNotFound \<and> (\<forall>d \<in> set (repo_items r). \<not> P d)"
proof (cases "find P (repo_items r)")
  case None
  then have "\<forall>d \<in> set (repo_items r). \<not> P d" by (simp add: find_None_iff)
  with None show ?thesis by (auto simp: first_item_def)
next
  case (Some d)
  with find_SomeD[OF Some] show ?thesis by (auto simp: first_item_def)
qed

lemma first_item_eq:
  assumes "d \<in> set (repo_items r)" "P d" "\<And>e. e \<in> set (repo_items r) \<Longrightarrow> P e \<Longrightarrow> e = d"
  shows "first_item P r = Inr d"
  using find_distinct[of d "repo_items r" P, OF assms] by (simp add: first_item_def)

lemma repo_inv_id_unique:
  "repo_inv r \<Longrightarrow> d \<in> set (repo_items r) \<Longrightarrow> e \<in> set (repo_items r) \<Longrightarrow> dep_ID d = dep_ID e \<Longrightarrow> d = e"
  unfolding repo_inv_def by (metis distinct_map inj_on_def)

lemma repo_inv_slot_unique:
  "repo_inv r \<Longrightarrow> d \<in> set (repo_items r) \<Longrightarrow> e \<in> set (repo_items r) \<Longrightarrow> slot_key d = slot_key e \<Longrightarrow> d = e"
  unfolding repo_inv_def by (metis distinct_map inj_on_def)

lemma repo_inv_key_unique:
  assumes "repo_inv r" "d \<in> set (repo_items r)" "e \<in> set (repo_items r)"
    "dep_ProjectID d = dep_ProjectID e" "dep_IdempotencyKey d = dep_IdempotencyKey e"
    "dep_IdempotencyKey d \<noteq> []"
  shows "d = e"
proof -
  let ?ks = "filter (\<lambda>d. dep_IdempotencyKey d \<noteq> []) (repo_items r)"
  have "inj_on (\<lambda>d. (dep_ProjectID d, dep_IdempotencyKey d)) (set ?ks)"
    using assms(1) by (simp add: repo_inv_def unique_keys_def distinct_map)
  moreover have "d \<in> set ?ks" "e \<in> set ?ks" using assms by auto
  ultimately show ?thesis using assms(4,5) by (auto dest: inj_onD)
qed

section \<open>Create\<close>

lemma create_conflict_None:
  "create_conflict item ds = None \<longleftrightarrow>
     (\<forall>d \<in> set ds. dep_ID d \<noteq> dep_ID item \<and>
        \<not> (dep_IdempotencyKey item \<noteq> [] \<and> dep_ProjectID d = dep_ProjectID item \<and>
           dep_IdempotencyKey d = dep_IdempotencyKey item))"
  by (induction ds) auto

lemma create_conflict_errors:
  "create_conflict item ds = Some e \<Longrightarrow> e = ErrConflict \<or> e = ErrDuplicateIdempotency"
  by (induction ds) (auto split: if_splits)

lemma Create_Inr [inversion]:
  assumes "mem_Create ctx r item = Inr (d, r')"
  shows "ctx = None" "create_conflict item (repo_items r) = None"
    "d = item\<lparr>dep_Version := (if dep_Version item = 0 then 1 else dep_Version item),
         dep_CutoverSequence := cutover_counter r (CutoverScope item) + 1\<rparr>"
    "repo_items r' = repo_items r @ [d]"
    "cutover_counter r' = (cutover_counter r)
       (CutoverScope item := cutover_counter r (CutoverScope item) + 1)"
  using assms
  by (auto simp: mem_Create_def with_ctx_def Let_def CutoverScope_def cutover_counter_def fun_eq_iff
      split: option.splits if_splits)

lemma Create_CutoverScope:
  "mem_Create ctx r item = Inr (d, r') \<Longrightarrow> CutoverScope d = CutoverScope item"
  by (drule Create_Inr(3)) (simp add: CutoverScope_def)

lemma repo_inv_Create:
  assumes inv: "repo_inv r" and c: "mem_Create ctx r item = Inr (d, r')"
    and room: "cutover_counter r (CutoverScope item) \<noteq> -1"
  shows "repo_inv r'"
proof -
  note C = Create_Inr[OF c]
  note scope = Create_CutoverScope[OF c]
  note less = u64_less_add_one[OF room]
  have id: "dep_ID d = dep_ID item" and pk: "dep_ProjectID d = dep_ProjectID item"
    "dep_IdempotencyKey d = dep_IdempotencyKey item"
    and sq: "dep_CutoverSequence d = cutover_counter r (CutoverScope item) + 1"
    by (simp_all add: C(3))
  have fresh: "\<And>x. x \<in> set (repo_items r) \<Longrightarrow> dep_ID x \<noteq> dep_ID d"
    "\<And>x. x \<in> set (repo_items r) \<Longrightarrow> dep_IdempotencyKey d \<noteq> [] \<Longrightarrow>
       \<not> (dep_ProjectID x = dep_ProjectID d \<and> dep_IdempotencyKey x = dep_IdempotencyKey d)"
    using C(2) id pk by (auto simp: create_conflict_None)
  have old: "x \<in> set (repo_items r) \<Longrightarrow> dep_CutoverSequence x \<le> cutover_counter r (CutoverScope x)" for x
    using inv by (auto simp: repo_inv_def)
  have slot: "slot_key x \<noteq> slot_key d" if "x \<in> set (repo_items r)" for x
  proof
    assume "slot_key x = slot_key d"
    then have "CutoverScope x = CutoverScope item" "dep_CutoverSequence x = dep_CutoverSequence d"
      using scope by (auto simp: slot_key_def)
    with old[OF that] less sq show False by (metis not_le)
  qed
  have "dep_CutoverSequence x \<le> cutover_counter r' (CutoverScope x)" if "x \<in> set (repo_items r')" for x
  proof (cases "x = d")
    case True
    then show ?thesis by (simp add: C(5) scope sq)
  next
    case False
    with that have "x \<in> set (repo_items r)" by (simp add: C(4))
    with old[of x] less show ?thesis by (auto simp: C(5))
  qed
  moreover have "dep_ID d \<notin> dep_ID ` set (repo_items r)" using fresh(1) by force
  moreover have "slot_key d \<notin> slot_key ` set (repo_items r)" using slot by force
  moreover have "(dep_ProjectID d, dep_IdempotencyKey d) \<notin>
      (\<lambda>d. (dep_ProjectID d, dep_IdempotencyKey d)) ` set (repo_items r)"
    if "dep_IdempotencyKey d \<noteq> []"
    using fresh(2)[OF _ that] by force
  then have "unique_keys (repo_items r @ [d])"
    using inv unfolding repo_inv_def unique_keys_def by auto
  ultimately show ?thesis
    using inv unfolding repo_inv_def C(4) by simp
qed

section \<open>Save\<close>

lemma Save_Inr [inversion]:
  assumes "mem_Save ctx r item v = Inr (d, r')"
  obtains i where "ctx = None" "i < length (repo_items r)" "dep_ID (repo_items r ! i) = dep_ID item"
    "dep_ProjectID (repo_items r ! i) = dep_ProjectID item" "dep_Version (repo_items r ! i) = v"
    "d = item\<lparr>dep_Version := v + 1\<rparr>" "r' = r\<lparr>repo_items := (repo_items r)[i := d]\<rparr>"
proof -
  from assms obtain i where i: "ctx = None"
    "find_index (\<lambda>x. dep_ID x = dep_ID item \<and> dep_ProjectID x = dep_ProjectID item) (repo_items r) = Some i"
    "dep_Version (repo_items r ! i) = v" "d = item\<lparr>dep_Version := v + 1\<rparr>"
    "r' = r\<lparr>repo_items := (repo_items r)[i := d]\<rparr>"
    by (auto simp: mem_Save_def with_ctx_def Let_def split: option.splits if_splits)
  with find_index_Some[OF i(2)] that show ?thesis by blast
qed

lemma nth_the_id:
  "repo_inv r \<Longrightarrow> i < length (repo_items r) \<Longrightarrow> e \<in> set (repo_items r) \<Longrightarrow>
   dep_ID (repo_items r ! i) = dep_ID e \<Longrightarrow> repo_items r ! i = e"
  using repo_inv_id_unique nth_mem by blast

lemma repo_inv_Save:
  assumes inv: "repo_inv r" and s: "mem_Save ctx r item v = Inr (d, r')"
    and stored: "e \<in> set (repo_items r)" "dep_refs item = dep_refs e"
  shows "repo_inv r'"
proof -
  obtain i where i: "i < length (repo_items r)" "dep_ID (repo_items r ! i) = dep_ID item"
    "d = item\<lparr>dep_Version := v + 1\<rparr>" "r' = r\<lparr>repo_items := (repo_items r)[i := d]\<rparr>"
    using s by (elim Save_Inr)
  have "repo_items r ! i = e"
    using nth_the_id[OF inv i(1) stored(1)] i(2) dep_refs_eq(1)[OF stored(2)] by simp
  then have "dep_refs d = dep_refs (repo_items r ! i)"
    using stored(2) i(3) by (simp add: dep_refs_def)
  with repo_inv_update[OF inv i(1)] i(4) show ?thesis by simp
qed

lemma Get_stored:
  assumes "repo_inv r" "d \<in> set (repo_items r)"
  shows "mem_Get None r (dep_ProjectID d) (dep_ID d) = Inr d"
proof -
  have "first_item (\<lambda>x. dep_ProjectID x = dep_ProjectID d \<and> dep_ID x = dep_ID d) r = Inr d"
    by (rule first_item_eq) (use assms repo_inv_id_unique in auto)
  then show ?thesis by (simp add: mem_Get_def)
qed

lemma GetByIdempotency_stored:
  assumes "repo_inv r" "d \<in> set (repo_items r)" "dep_IdempotencyKey d \<noteq> []"
  shows "mem_GetByIdempotency None r (dep_ProjectID d) (dep_IdempotencyKey d) = Inr d"
proof -
  have "first_item (\<lambda>x. dep_ProjectID x = dep_ProjectID d \<and> dep_IdempotencyKey x = dep_IdempotencyKey d) r = Inr d"
  proof (rule first_item_eq)
    fix e
    assume "e \<in> set (repo_items r)"
      "dep_ProjectID e = dep_ProjectID d \<and> dep_IdempotencyKey e = dep_IdempotencyKey d"
    then show "e = d" using repo_inv_key_unique[OF assms(1), of e d] assms(2,3) by simp
  qed (use assms in auto)
  then show ?thesis by (simp add: mem_GetByIdempotency_def)
qed

section \<open>Claiming\<close>

text \<open>What a queue promises: the first item that is claimable and not leased is taken.\<close>

definition available :: "time \<Rightarrow> Deployment \<Rightarrow> bool" where
  "available now d \<longleftrightarrow> claimable_status (dep_Status d) \<and> \<not> Lease_Active (dep_Lease d) now"

definition claimed :: "Claim \<Rightarrow> Deployment \<Rightarrow> Deployment" where
  "claimed c d = d\<lparr>dep_UpdatedAt := claim_Now c, dep_Version := dep_Version d + 1,
     dep_Lease := \<lparr>lease_Owner = trim_space (claim_WorkerID c), lease_ExpiresAt = claim_ExpiresAt c,
       lease_Generation = lease_Generation (dep_Lease d) + 1\<rparr>\<rparr>"

definition claim_first :: "Claim \<Rightarrow> Deployment list \<Rightarrow> (Deployment \<times> Deployment list) option" where
  "claim_first c ds = map_option (\<lambda>i. (claimed c (ds ! i), ds[i := claimed c (ds ! i)]))
     (find_index (available (claim_Now c)) ds)"

lemma Acquire_available:
  assumes "Claim_Validate c = None" "available (claim_Now c) d"
  shows "Acquire c d = Inr ((claimed c d)\<lparr>dep_Version := dep_Version d\<rparr>)"
  using assms by (simp add: Acquire_Inr available_def claimed_def)

lemma Acquire_unavailable:
  assumes "Claim_Validate c = None" "\<not> available (claim_Now c) d"
  shows "Acquire c d = Inl ErrNotClaimable"
  using assms by (auto simp: Acquire_def available_def Claim_Validate_def)

lemma claim_first_Cons:
  "claim_first c (d # ds) =
     (if available (claim_Now c) d then Some (claimed c d, claimed c d # ds)
      else map_option (\<lambda>(t, is). (t, d # is)) (claim_first c ds))"
  by (simp add: claim_first_def option.map_comp comp_def)

lemma claim_loop_first:
  assumes "Claim_Validate c = None"
  shows "claim_loop c ds = Inr (claim_first c ds)"
proof (induction ds)
  case Nil
  then show ?case by (simp add: claim_first_def)
next
  case (Cons d ds)
  show ?case
  proof (cases "available (claim_Now c) d")
    case True
    then have "claimable_status (dep_Status d)" by (simp add: available_def)
    with True Acquire_available[OF assms True] show ?thesis
      by (simp add: claim_first_Cons Let_def) (simp add: claimed_def)
  next
    case False
    then show ?thesis
      using Acquire_unavailable[OF assms False] Cons.IH by (simp add: claim_first_Cons Let_def)
  qed
qed

declare claim_loop.simps [simp del]

lemma ClaimNext_eq:
  "Claim_Validate c = None \<Longrightarrow>
   mem_ClaimNext None r c = Inr (case claim_first c (repo_items r) of
      None \<Rightarrow> (None, r) | Some (t, is) \<Rightarrow> (Some t, r\<lparr>repo_items := is\<rparr>))"
  by (simp add: mem_ClaimNext_def claim_loop_first split: option.split)

lemma ClaimNext_Some [inversion]:
  assumes "mem_ClaimNext ctx r c = Inr (Some d, r')"
  obtains i where "ctx = None" "Claim_Validate c = None" "i < length (repo_items r)"
    "available (claim_Now c) (repo_items r ! i)"
    "\<And>j. j < i \<Longrightarrow> \<not> available (claim_Now c) (repo_items r ! j)"
    "d = claimed c (repo_items r ! i)" "r' = r\<lparr>repo_items := (repo_items r)[i := d]\<rparr>"
proof -
  have ctx: "ctx = None" and v: "Claim_Validate c = None"
    using assms by (auto simp: mem_ClaimNext_def with_ctx_def split: option.splits)
  with assms obtain i where i: "find_index (available (claim_Now c)) (repo_items r) = Some i"
    "d = claimed c (repo_items r ! i)" "r' = r\<lparr>repo_items := (repo_items r)[i := d]\<rparr>"
    by (auto simp: ClaimNext_eq claim_first_def split: option.splits)
  with find_index_Some[OF i(1)] that ctx v show ?thesis by blast
qed

lemma ClaimNext_None [inversion]:
  "mem_ClaimNext ctx r c = Inr (None, r') \<Longrightarrow>
     r' = r \<and> (\<forall>d \<in> set (repo_items r). \<not> available (claim_Now c) d)"
proof -
  assume a: "mem_ClaimNext ctx r c = Inr (None, r')"
  then have ctx: "ctx = None" and v: "Claim_Validate c = None"
    by (auto simp: mem_ClaimNext_def with_ctx_def split: option.splits)
  have "claim_first c (repo_items r) = None \<and> r' = r"
    using a ctx ClaimNext_eq[OF v] by (auto split: option.splits)
  then show ?thesis by (simp add: claim_first_def find_index_None)
qed

lemma claimed_refs [field_frames]: "dep_refs (claimed c d) = dep_refs d"
  by (simp add: dep_refs_def claimed_def)

lemma dep_wf_claimed: "available now d \<Longrightarrow> dep_wf d \<Longrightarrow> dep_wf (claimed c d)"
  by (cases "dep_Status d") (auto simp: available_def dep_wf_def claimed_def Terminal_def)

section \<open>Saving and renewing under a lease\<close>

lemma SaveClaimed_Inr [inversion]:
  assumes "mem_SaveClaimed ctx r item v w now = Inr (d, r')"
  obtains i where "ctx = None" "i < length (repo_items r)" "dep_ID (repo_items r ! i) = dep_ID item"
    "dep_Version (repo_items r ! i) = v" "lease_Owner (dep_Lease (repo_items r ! i)) = w"
    "Lease_Active (dep_Lease (repo_items r ! i)) now"
    "Terminal item \<or> lease_Owner (dep_Lease item) = w"
    "d = item\<lparr>dep_Version := v + 1\<rparr>" "r' = r\<lparr>repo_items := (repo_items r)[i := d]\<rparr>"
proof -
  from assms obtain i where i: "ctx = None" "find_index (\<lambda>x. dep_ID x = dep_ID item) (repo_items r) = Some i"
    "dep_Version (repo_items r ! i) = v" "lease_Owner (dep_Lease (repo_items r ! i)) = w"
    "Lease_Active (dep_Lease (repo_items r ! i)) now"
    "Terminal item \<or> lease_Owner (dep_Lease item) = w"
    "d = item\<lparr>dep_Version := v + 1\<rparr>" "r' = r\<lparr>repo_items := (repo_items r)[i := d]\<rparr>"
    by (auto simp: mem_SaveClaimed_def with_ctx_def Let_def split: option.splits if_splits)
  with find_index_Some[OF i(2)] that show ?thesis by blast
qed

lemma RenewLease_Inr [inversion]:
  assumes "mem_RenewLease ctx r k w v now until = Inr (d, r')"
  obtains i where "ctx = None" "i < length (repo_items r)" "dep_ID (repo_items r ! i) = k"
    "dep_Version (repo_items r ! i) = v" "lease_Owner (dep_Lease (repo_items r ! i)) = w"
    "Lease_Active (dep_Lease (repo_items r ! i)) now" "now < until"
    "d = (repo_items r ! i)\<lparr>dep_Lease := (dep_Lease (repo_items r ! i))\<lparr>lease_ExpiresAt := until\<rparr>,
       dep_UpdatedAt := now, dep_Version := v + 1\<rparr>"
    "r' = r\<lparr>repo_items := (repo_items r)[i := d]\<rparr>"
proof -
  from assms obtain i where i: "ctx = None" "find_index (\<lambda>x. dep_ID x = k) (repo_items r) = Some i"
    "dep_Version (repo_items r ! i) = v" "lease_Owner (dep_Lease (repo_items r ! i)) = w"
    "Lease_Active (dep_Lease (repo_items r ! i)) now" "now < until"
    "d = (repo_items r ! i)\<lparr>dep_Lease := (dep_Lease (repo_items r ! i))\<lparr>lease_ExpiresAt := until\<rparr>,
       dep_UpdatedAt := now, dep_Version := v + 1\<rparr>"
    "r' = r\<lparr>repo_items := (repo_items r)[i := d]\<rparr>"
    by (auto simp: mem_RenewLease_def with_ctx_def Let_def split: option.splits if_splits)
  with find_index_Some[OF i(2)] that show ?thesis by blast
qed

section \<open>Fences\<close>

lemma ValidateFence_None [inversion]:
  assumes "mem_ValidateFence ctx r p k w g now = None"
  obtains d where "d \<in> set (repo_items r)" "dep_ID d = k" "dep_ProjectID d = p"
    "lease_Owner (dep_Lease d) = w" "lease_Generation (dep_Lease d) = g"
    "Lease_Active (dep_Lease d) now" "\<not> Terminal d"
    "cutover_counter r (CutoverScope d) = dep_CutoverSequence d"
proof -
  from assms obtain d where d:
    "find (\<lambda>x. dep_ID x = k \<and> dep_ProjectID x = p) (repo_items r) = Some d"
    "lease_Owner (dep_Lease d) = w" "lease_Generation (dep_Lease d) = g"
    "Lease_Active (dep_Lease d) now" "\<not> Terminal d"
    "cutover_counter r (CutoverScope d) = dep_CutoverSequence d"
    by (auto simp: mem_ValidateFence_def split: option.splits if_splits)
  with find_SomeD[OF d(1)] that show ?thesis by blast
qed

text \<open>
  Two executions whose fences are valid for the same slot, whenever each was checked against the
  same state, are one and the same execution.
\<close>

lemma fence_exclusive:
  assumes inv: "repo_inv r"
    and f1: "mem_ValidateFence c1 r p1 k1 w1 g1 t1 = None"
    and f2: "mem_ValidateFence c2 r p2 k2 w2 g2 t2 = None"
    and d1: "d1 \<in> set (repo_items r)" "dep_ID d1 = k1"
    and d2: "d2 \<in> set (repo_items r)" "dep_ID d2 = k2"
    and slot: "CutoverScope d1 = CutoverScope d2"
  shows "k1 = k2 \<and> w1 = w2 \<and> g1 = g2"
proof -
  from f1 obtain x where x: "x \<in> set (repo_items r)" "dep_ID x = k1" "lease_Owner (dep_Lease x) = w1"
    "lease_Generation (dep_Lease x) = g1" "cutover_counter r (CutoverScope x) = dep_CutoverSequence x"
    by (elim ValidateFence_None)
  from f2 obtain y where y: "y \<in> set (repo_items r)" "dep_ID y = k2" "lease_Owner (dep_Lease y) = w2"
    "lease_Generation (dep_Lease y) = g2" "cutover_counter r (CutoverScope y) = dep_CutoverSequence y"
    by (elim ValidateFence_None)
  have "x = d1" "y = d2"
    using repo_inv_id_unique[OF inv] x(1,2) y(1,2) d1 d2 by blast+
  then have "slot_key x = slot_key y" using x(5) y(5) slot by (simp add: slot_key_def)
  then have "x = y" using repo_inv_slot_unique[OF inv x(1) y(1)] by blast
  then show ?thesis using x y by blast
qed

end
