(* ===== verification/DeploymentQueue.thy ===== *)
theory DeploymentQueue
  imports DeploymentRepository
begin

text \<open>
  The repository over time. First the store contract that the use cases are written against
  (optimistic versions, one deployment per idempotency key) as a locale, interpreted on the
  in-memory repository. Then the interleavings of users, retirements and workers as a step
  relation over the repository, its invariant, and what a stale fence means along a run.
\<close>

section \<open>The store contract\<close>

locale deployment_store =
  fixes get :: "'r \<Rightarrow> string \<Rightarrow> string \<Rightarrow> dep_error + Deployment"
    and by_key :: "'r \<Rightarrow> string \<Rightarrow> string \<Rightarrow> dep_error + Deployment"
    and create :: "'r \<Rightarrow> Deployment \<Rightarrow> dep_error + Deployment \<times> 'r"
    and save :: "'r \<Rightarrow> Deployment \<Rightarrow> u64 \<Rightarrow> dep_error + Deployment \<times> 'r"
    and inv :: "'r \<Rightarrow> bool"
    and room :: "'r \<Rightarrow> Deployment \<Rightarrow> bool"
  assumes create_inv: "inv r \<Longrightarrow> room r d \<Longrightarrow> create r d = Inr (x, r') \<Longrightarrow> inv r'"
    and create_refs: "create r d = Inr (x, r') \<Longrightarrow>
      dep_ID x = dep_ID d \<and> dep_ProjectID x = dep_ProjectID d \<and> dep_IdempotencyKey x = dep_IdempotencyKey d"
    and create_get: "inv r \<Longrightarrow> room r d \<Longrightarrow> create r d = Inr (x, r') \<Longrightarrow>
      get r' (dep_ProjectID x) (dep_ID x) = Inr x"
    and create_by_key: "inv r \<Longrightarrow> room r d \<Longrightarrow> create r d = Inr (x, r') \<Longrightarrow> dep_IdempotencyKey x \<noteq> [] \<Longrightarrow>
      by_key r' (dep_ProjectID x) (dep_IdempotencyKey x) = Inr x"
    and create_keeps: "inv r \<Longrightarrow> room r d \<Longrightarrow> create r d = Inr (x, r') \<Longrightarrow> get r p i = Inr y \<Longrightarrow>
      get r' p i = Inr y"
    and create_fresh: "by_key r (dep_ProjectID d) (dep_IdempotencyKey d) = Inr y \<Longrightarrow>
      dep_IdempotencyKey d \<noteq> [] \<Longrightarrow> is_err (create r d)"
    and save_version: "save r d v = Inr (x, r') \<Longrightarrow> x = d\<lparr>dep_Version := v + 1\<rparr>"
    and save_get: "inv r \<Longrightarrow> save r d v = Inr (x, r') \<Longrightarrow> get r' (dep_ProjectID d) (dep_ID d) = Inr x"
    and save_stale: "get r (dep_ProjectID d) (dep_ID d) = Inr y \<Longrightarrow> dep_Version y \<noteq> v \<Longrightarrow>
      save r d v = Inl ErrConflict"
begin

text \<open>Two writers that read the same version cannot both save: no update is lost.\<close>

lemma no_lost_update:
  assumes "inv r" "save r d v = Inr (x, r')" "dep_ID e = dep_ID d" "dep_ProjectID e = dep_ProjectID d"
  shows "save r' e v = Inl ErrConflict"
proof -
  have "get r' (dep_ProjectID e) (dep_ID e) = Inr x" "dep_Version x \<noteq> v"
    using save_get[OF assms(1,2)] save_version[OF assms(2)] assms(3,4) by simp_all
  then show ?thesis by (rule save_stale)
qed

text \<open>A key is used once: a second creation under it is refused.\<close>

lemma key_used_once:
  assumes "inv r" "room r d" "create r d = Inr (x, r')" "dep_IdempotencyKey d \<noteq> []"
    "dep_ProjectID e = dep_ProjectID d" "dep_IdempotencyKey e = dep_IdempotencyKey d"
  shows "is_err (create r' e)"
  using create_by_key[OF assms(1-3)] create_refs[OF assms(3)] assms(4-6) create_fresh[of r' e x]
  by simp

end

lemma create_conflict_hit:
  "d \<in> set ds \<Longrightarrow> dep_ProjectID d = dep_ProjectID item \<Longrightarrow>
   dep_IdempotencyKey d = dep_IdempotencyKey item \<Longrightarrow> dep_IdempotencyKey item \<noteq> [] \<Longrightarrow>
   create_conflict item ds \<noteq> None"
  by (auto simp: create_conflict_None)

lemma Get_Inr [inversion]:
  "mem_Get ctx r p i = Inr d \<Longrightarrow> ctx = None \<and> d \<in> set (repo_items r) \<and> dep_ProjectID d = p \<and> dep_ID d = i"
  by (auto simp: mem_Get_def with_ctx_def dest: first_item_Inr split: option.splits)

lemma GetByIdempotency_Inr [inversion]:
  "mem_GetByIdempotency ctx r p k = Inr d \<Longrightarrow>
     ctx = None \<and> d \<in> set (repo_items r) \<and> dep_ProjectID d = p \<and> dep_IdempotencyKey d = k"
  by (auto simp: mem_GetByIdempotency_def with_ctx_def dest: first_item_Inr split: option.splits)

text \<open>
  \<open>Save\<close> finds the item by project and id. In a repository whose ids are unique, what it writes is
  what a later \<open>Get\<close> reads.
\<close>

lemma Save_Get:
  assumes inv: "repo_inv r" and s: "mem_Save None r d v = Inr (x, r')"
  shows "mem_Get None r' (dep_ProjectID d) (dep_ID d) = Inr x"
proof -
  obtain i where i: "i < length (repo_items r)" "dep_ID (repo_items r ! i) = dep_ID d"
    "dep_ProjectID (repo_items r ! i) = dep_ProjectID d"
    "x = d\<lparr>dep_Version := v + 1\<rparr>" "r' = r\<lparr>repo_items := (repo_items r)[i := x]\<rparr>"
    using s by (elim Save_Inr)
  have ids: "distinct (map dep_ID ((repo_items r)[i := x]))"
    using inv i(1,2,4) by (intro distinct_map_update) (auto simp: repo_inv_def)
  have x: "x \<in> set ((repo_items r)[i := x])" using i(1) by (rule set_update_memI)
  have "first_item (\<lambda>y. dep_ProjectID y = dep_ProjectID d \<and> dep_ID y = dep_ID d) r' = Inr x"
  proof (rule first_item_eq)
    fix e
    assume "e \<in> set (repo_items r')" "dep_ProjectID e = dep_ProjectID d \<and> dep_ID e = dep_ID d"
    then have "e \<in> set ((repo_items r)[i := x])" "dep_ID e = dep_ID x" using i(4,5) by auto
    with ids x show "e = x" by (auto simp only: distinct_map dest: inj_onD)
  qed (use x i(4,5) in auto)
  then show ?thesis by (simp add: mem_Get_def)
qed

lemma Save_stale:
  assumes "mem_Get None r (dep_ProjectID d) (dep_ID d) = Inr y" "dep_Version y \<noteq> v"
  shows "mem_Save None r d v = Inl ErrConflict"
proof -
  let ?P = "\<lambda>x. dep_ID x = dep_ID d \<and> dep_ProjectID x = dep_ProjectID d"
  have "find ?P (repo_items r) = Some y"
    using assms(1) by (auto simp: mem_Get_def first_item_def conj_commute split: option.splits)
  then obtain i where "find_index ?P (repo_items r) = Some i" "repo_items r ! i = y"
    by (auto simp: find_eq_find_index)
  with assms(2) show ?thesis by (simp add: mem_Save_def)
qed

interpretation mem_store: deployment_store "mem_Get None" "mem_GetByIdempotency None" "mem_Create None"
  "mem_Save None" repo_inv "\<lambda>r d. cutover_counter r (CutoverScope d) \<noteq> -1"
proof unfold_locales
  fix r r' d x
  assume a: "repo_inv r" "cutover_counter r (CutoverScope d) \<noteq> -1" "mem_Create None r d = Inr (x, r')"
  show i: "repo_inv r'" using repo_inv_Create a by blast
  have m: "x \<in> set (repo_items r')" using Create_Inr(4)[OF a(3)] by simp
  show "mem_Get None r' (dep_ProjectID x) (dep_ID x) = Inr x" by (rule Get_stored[OF i m])
  show "mem_GetByIdempotency None r' (dep_ProjectID x) (dep_IdempotencyKey x) = Inr x"
    if "dep_IdempotencyKey x \<noteq> []" by (rule GetByIdempotency_stored[OF i m that])
  show "mem_Get None r' p k = Inr y" if "mem_Get None r p k = Inr y" for p k y
  proof -
    from Get_Inr[OF that] have "y \<in> set (repo_items r')" "dep_ProjectID y = p" "dep_ID y = k"
      using Create_Inr(4)[OF a(3)] by auto
    with Get_stored[OF i] show ?thesis by blast
  qed
next
  fix r r' d x
  assume a: "mem_Create None r d = Inr (x, r')"
  show "dep_ID x = dep_ID d \<and> dep_ProjectID x = dep_ProjectID d \<and>
      dep_IdempotencyKey x = dep_IdempotencyKey d"
    using Create_Inr(3)[OF a] by simp
next
  fix r and d y :: Deployment
  assume a: "mem_GetByIdempotency None r (dep_ProjectID d) (dep_IdempotencyKey d) = Inr y"
    "dep_IdempotencyKey d \<noteq> []"
  have "create_conflict d (repo_items r) \<noteq> None"
    using GetByIdempotency_Inr[OF a(1)] a(2) by (intro create_conflict_hit[of y]) auto
  then show "is_err (mem_Create None r d)" by (auto simp: mem_Create_def)
next
  fix r r' d v x
  assume "mem_Save None r d v = Inr (x, r')"
  then show "x = d\<lparr>dep_Version := v + 1\<rparr>" by (elim Save_Inr)
qed (use Save_Get Save_stale in blast)+

section \<open>Interleavings\<close>

text \<open>
  What users, retirements and workers do to the repository. A worker writes the item it holds,
  which is the stored one at the version it carries (each write advances the version); before an
  intermediate status it renews its lease. The bounds on the two counters exclude only runs of
  \<open>2 ^ 64\<close> creations in a slot or claims of one deployment.
\<close>

inductive repo_step :: "MemoryRepository \<Rightarrow> MemoryRepository \<Rightarrow> bool" where
  rs_create: "mem_Create None r item = Inr (d, r') \<Longrightarrow> dep_wf item \<Longrightarrow>
     cutover_counter r (CutoverScope item) \<noteq> -1 \<Longrightarrow> repo_step r r'"
| rs_cancel: "e \<in> set (repo_items r) \<Longrightarrow> Cancel e now = Inr item \<Longrightarrow>
     mem_Save None r item (dep_Version e) = Inr (d, r') \<Longrightarrow> repo_step r r'"
| rs_claim: "mem_ClaimNext None r c = Inr (Some d, r') \<Longrightarrow>
     (\<And>e. e \<in> set (repo_items r) \<Longrightarrow> lease_Generation (dep_Lease e) \<noteq> -1) \<Longrightarrow> repo_step r r'"
| rs_renew: "mem_RenewLease None r k w v now until = Inr (d, r') \<Longrightarrow> repo_step r r'"
| rs_advance: "e \<in> set (repo_items r) \<Longrightarrow>
     renewed = e \<or> Renew w now until e = Inr renewed \<Longrightarrow> Transition renewed nxt now = Inr item \<Longrightarrow>
     mem_SaveClaimed None r item (dep_Version e) w now = Inr (d, r') \<Longrightarrow> repo_step r r'"
| rs_fail: "e \<in> set (repo_items r) \<Longrightarrow> Fail e c now = Inr item \<Longrightarrow>
     mem_SaveClaimed None r item (dep_Version e) w now = Inr (d, r') \<Longrightarrow> repo_step r r'"

inductive_cases repo_step_cases: "repo_step r r'"

definition repo_ok :: "MemoryRepository \<Rightarrow> bool" where
  "repo_ok r \<longleftrightarrow> repo_inv r \<and> (\<forall>d \<in> set (repo_items r). dep_wf d)"

text \<open>
  Every step creates one item or replaces one item by another with the same references that is at
  least as far: final items stay final, the lease generation does not go back while it runs.
\<close>

definition dep_le :: "Deployment \<Rightarrow> Deployment \<Rightarrow> bool" where
  "dep_le d e \<longleftrightarrow> dep_refs d = dep_refs e \<and> dep_wf e \<and> (Terminal d \<longrightarrow> Terminal e) \<and>
     (\<not> Terminal e \<longrightarrow> lease_Generation (dep_Lease d) \<le> lease_Generation (dep_Lease e))"

lemma dep_le_refl [simp]: "dep_wf d \<Longrightarrow> dep_le d d"
  by (simp add: dep_le_def)

lemma dep_wf_version [simp]: "dep_wf (d\<lparr>dep_Version := v\<rparr>) = dep_wf d"
  by (simp add: dep_wf_def Terminal_def)

lemma Terminal_version [simp]: "Terminal (d\<lparr>dep_Version := v\<rparr>) = Terminal d"
  by (simp add: Terminal_def)

lemma dep_refs_version [simp]: "dep_refs (d\<lparr>dep_Version := v\<rparr>) = dep_refs d"
  by (simp add: dep_refs_def)

lemma Transition_refs [field_frames]: "Transition d nxt now = Inr e \<Longrightarrow> dep_refs e = dep_refs d"
  by (auto simp: Transition_Inr dep_refs_def)

lemma Fail_refs [field_frames]: "Fail d c now = Inr e \<Longrightarrow> dep_refs e = dep_refs d"
  by (auto simp: Fail_Inr dep_refs_def)

lemma Cancel_refs [field_frames]: "Cancel d now = Inr e \<Longrightarrow> dep_refs e = dep_refs d"
  by (auto simp: Cancel_Inr dep_refs_def)

lemma Renew_refs [field_frames]: "Renew w now until d = Inr e \<Longrightarrow> dep_refs e = dep_refs d"
  by (auto simp: Renew_Inr dep_refs_def)

lemma Transition_le: "Transition d nxt now = Inr e \<Longrightarrow> dep_le d e"
  using dep_wf_Transition[of d nxt now e] Transition_refs[of d nxt now e]
  by (auto simp: dep_le_def Transition_Inr Terminal_def transition_valid_def)

lemma Fail_le: "Fail d c now = Inr e \<Longrightarrow> dep_le d e"
  using dep_wf_Fail[of d c now e] Fail_refs[of d c now e]
  by (auto simp: dep_le_def Fail_Inr Terminal_def transition_valid_def)

lemma Cancel_le: "Cancel d now = Inr e \<Longrightarrow> dep_le d e"
  using dep_wf_Cancel[of d now e] Cancel_refs[of d now e]
  by (auto simp: dep_le_def Cancel_Inr Terminal_def transition_valid_def)

lemma Renew_le: "Renew w now until d = Inr e \<Longrightarrow> dep_wf d \<Longrightarrow> dep_le d e"
  using dep_wf_Renew[of w now until d e] Renew_refs[of w now until d e]
  by (auto simp: dep_le_def Renew_Inr Terminal_def)

lemma dep_le_trans: "dep_le a b \<Longrightarrow> dep_le b c \<Longrightarrow> dep_le a c"
  unfolding dep_le_def using order.trans by (metis (no_types))

lemma claimed_le:
  assumes "available now d" "dep_wf d" "lease_Generation (dep_Lease d) \<noteq> -1"
  shows "dep_le d (claimed c d)"
  using assms dep_wf_claimed[OF assms(1,2)] u64_le_add_one[OF assms(3)]
  by (auto simp: dep_le_def claimed_refs) (auto simp: claimed_def Terminal_def)

inductive repo_change :: "MemoryRepository \<Rightarrow> MemoryRepository \<Rightarrow> bool" where
  rc_create: "mem_Create None r item = Inr (d, r') \<Longrightarrow> dep_wf item \<Longrightarrow>
     cutover_counter r (CutoverScope item) \<noteq> -1 \<Longrightarrow> repo_change r r'"
| rc_update: "i < length (repo_items r) \<Longrightarrow> dep_le (repo_items r ! i) d \<Longrightarrow>
     repo_change r (r\<lparr>repo_items := (repo_items r)[i := d]\<rparr>)"

lemma repo_step_change:
  assumes "repo_step r r'" "repo_ok r"
  shows "repo_change r r'"
proof -
  have inv: "repo_inv r" and wf: "\<And>d. d \<in> set (repo_items r) \<Longrightarrow> dep_wf d"
    using assms(2) by (auto simp: repo_ok_def)
  have upd: "repo_change r (r\<lparr>repo_items := (repo_items r)[i := d]\<rparr>)"
    if "e \<in> set (repo_items r)" "dep_le e item" "i < length (repo_items r)"
      "dep_ID (repo_items r ! i) = dep_ID item" "d = item\<lparr>dep_Version := v\<rparr>" for e item i d v
  proof (rule rc_update[OF that(3)])
    have "dep_refs e = dep_refs item" using that(2) by (simp add: dep_le_def)
    then have "dep_ID item = dep_ID e" by (rule dep_refs_eq(1)[symmetric])
    then have "repo_items r ! i = e" using nth_the_id[OF inv that(3,1)] that(4) by simp
    with that(2,5) show "dep_le (repo_items r ! i) d" by (simp add: dep_le_def)
  qed
  from assms(1) show ?thesis
  proof cases
    case (rs_create item d)
    then show ?thesis by (rule rc_create)
  next
    case (rs_cancel e now item d)
    from rs_cancel(3) show ?thesis
      by (elim Save_Inr) (use upd[OF rs_cancel(1) Cancel_le[OF rs_cancel(2)]] in blast)
  next
    case (rs_claim c d)
    from rs_claim(1) obtain i where i: "i < length (repo_items r)" "available (claim_Now c) (repo_items r ! i)"
      "d = claimed c (repo_items r ! i)" "r' = r\<lparr>repo_items := (repo_items r)[i := d]\<rparr>"
      by (elim ClaimNext_Some)
    then show ?thesis
      using claimed_le[OF i(2)] wf rs_claim(2) by (auto intro: rc_update)
  next
    case (rs_renew k w v now until d)
    from rs_renew obtain i where i: "i < length (repo_items r)"
      "d = (repo_items r ! i)\<lparr>dep_Lease := (dep_Lease (repo_items r ! i))\<lparr>lease_ExpiresAt := until\<rparr>,
         dep_UpdatedAt := now, dep_Version := v + 1\<rparr>"
      "Lease_Active (dep_Lease (repo_items r ! i)) now"
      "r' = r\<lparr>repo_items := (repo_items r)[i := d]\<rparr>"
      by (elim RenewLease_Inr)
    have "dep_wf (repo_items r ! i)" using wf i(1) by simp
    then have "dep_le (repo_items r ! i) d"
      using i(2,3) by (auto simp: dep_le_def dep_refs_def dep_wf_def Terminal_def Lease_Active_def empty_lease_def)
    then show ?thesis using i(1,4) rc_update by simp
  next
    case (rs_advance e renewed w now until nxt item d)
    have "dep_le e renewed" using rs_advance(1,2) Renew_le wf by auto
    then have le: "dep_le e item" using Transition_le[OF rs_advance(3)] dep_le_trans by blast
    from rs_advance(4) show ?thesis
      by (elim SaveClaimed_Inr) (use upd[OF rs_advance(1) le] in blast)
  next
    case (rs_fail e c now item w d)
    from rs_fail(3) show ?thesis
      by (elim SaveClaimed_Inr) (use upd[OF rs_fail(1) Fail_le[OF rs_fail(2)]] in blast)
  qed
qed

lemma repo_ok_new: "repo_ok NewMemoryRepository"
  by (simp add: repo_ok_def repo_inv_new) (simp add: NewMemoryRepository_def)

lemma repo_ok_change: "repo_change r r' \<Longrightarrow> repo_ok r \<Longrightarrow> repo_ok r'"
proof (induction rule: repo_change.induct)
  case (rc_create r item d r')
  have "dep_wf d" using rc_create(2) Create_Inr(3)[OF rc_create(1)]
    by (simp add: dep_wf_def Terminal_def)
  then show ?case
    using rc_create Create_Inr(4)[OF rc_create(1)] repo_inv_Create[OF _ rc_create(1,3)]
    by (auto simp: repo_ok_def)
next
  case (rc_update i r d)
  have "\<forall>x \<in> set ((repo_items r)[i := d]). dep_wf x"
    using rc_update set_update_subset_insert[of "repo_items r" i d]
    by (auto simp: repo_ok_def dep_le_def)
  then show ?case
    using rc_update repo_inv_update[of r i d] by (auto simp: repo_ok_def dep_le_def)
qed

inductive repo_reachable :: "MemoryRepository \<Rightarrow> MemoryRepository \<Rightarrow> bool" where
  reach_here: "repo_reachable r r"
| reach_step: "repo_reachable r s \<Longrightarrow> repo_step s t \<Longrightarrow> repo_reachable r t"

lemma repo_reachable_ok: "repo_reachable r s \<Longrightarrow> repo_ok r \<Longrightarrow> repo_ok s"
  by (induction rule: repo_reachable.induct) (auto intro: repo_ok_change repo_step_change)

section \<open>Stale fences stay stale\<close>

text \<open>
  A fence (deployment and generation) is superseded when the deployment is final, has been claimed
  again, or a newer deployment has been created in its slot.
\<close>

definition superseded :: "string \<Rightarrow> u64 \<Rightarrow> MemoryRepository \<Rightarrow> bool" where
  "superseded k g r \<longleftrightarrow> (\<exists>d \<in> set (repo_items r). dep_ID d = k \<and>
     (Terminal d \<or> g < lease_Generation (dep_Lease d) \<or>
      dep_CutoverSequence d < cutover_counter r (CutoverScope d)))"

lemma superseded_fence:
  assumes "repo_ok r" "superseded k g r"
  shows "mem_ValidateFence ctx r p k w g now \<noteq> None"
proof
  assume "mem_ValidateFence ctx r p k w g now = None"
  then obtain d where d: "d \<in> set (repo_items r)" "dep_ID d = k" "lease_Generation (dep_Lease d) = g"
    "\<not> Terminal d" "cutover_counter r (CutoverScope d) = dep_CutoverSequence d"
    by (elim ValidateFence_None)
  from assms(2) obtain e where e: "e \<in> set (repo_items r)" "dep_ID e = k"
    "Terminal e \<or> g < lease_Generation (dep_Lease e) \<or>
     dep_CutoverSequence e < cutover_counter r (CutoverScope e)"
    by (auto simp: superseded_def)
  have "e = d" using repo_inv_id_unique[of r e d] assms(1) d e by (simp add: repo_ok_def)
  with d e show False by auto
qed

lemma superseded_change: "repo_change r r' \<Longrightarrow> superseded k g r \<Longrightarrow> repo_ok r \<Longrightarrow> superseded k g r'"
proof (induction rule: repo_change.induct)
  case (rc_create r item d r')
  have "cutover_counter r s \<le> cutover_counter r' s" for s
    using u64_le_add_one[OF rc_create(3)] by (simp add: Create_Inr(5)[OF rc_create(1)])
  with rc_create.prems(1) show ?case
    unfolding superseded_def Create_Inr(4)[OF rc_create(1)]
    by (metis Un_iff order_less_le_trans set_append)
next
  case (rc_update i r d)
  from rc_update.prems obtain e where e: "e \<in> set (repo_items r)" "dep_ID e = k"
    "Terminal e \<or> g < lease_Generation (dep_Lease e) \<or>
     dep_CutoverSequence e < cutover_counter r (CutoverScope e)"
    by (auto simp: superseded_def)
  from e(1) obtain j where j: "j < length (repo_items r)" "repo_items r ! j = e"
    by (auto simp: in_set_conv_nth)
  let ?x = "(repo_items r)[i := d] ! j"
  have le: "dep_le e ?x"
    using rc_update e(1) j by (cases "i = j") (auto simp: repo_ok_def)
  then have refs: "dep_ID ?x = k" "dep_CutoverSequence ?x = dep_CutoverSequence e"
    "CutoverScope ?x = CutoverScope e"
    using e(2) dep_refs_eq[of e ?x] by (auto simp: dep_le_def)
  have "Terminal ?x \<or> g < lease_Generation (dep_Lease ?x) \<or>
      dep_CutoverSequence ?x < cutover_counter r (CutoverScope ?x)"
    using e(3) le refs unfolding dep_le_def by (metis order_less_le_trans)
  moreover have "?x \<in> set ((repo_items r)[i := d])" using j(1) by simp
  ultimately show ?case
    using refs(1) by (auto simp: superseded_def cutover_counter_def)
qed

lemma superseded_forever:
  "repo_reachable r s \<Longrightarrow> repo_ok r \<Longrightarrow> superseded k g r \<Longrightarrow> superseded k g s"
  by (induction rule: repo_reachable.induct)
    (auto intro: superseded_change repo_step_change repo_reachable_ok)

lemma claim_supersedes:
  assumes "repo_ok r" "mem_ClaimNext None r c = Inr (Some d, r')"
    "e \<in> set (repo_items r)" "dep_ID e = dep_ID d" "lease_Generation (dep_Lease e) \<noteq> -1"
  shows "superseded (dep_ID d) (lease_Generation (dep_Lease e)) r'"
proof -
  obtain i where i: "i < length (repo_items r)" "d = claimed c (repo_items r ! i)"
    "r' = r\<lparr>repo_items := (repo_items r)[i := d]\<rparr>"
    using assms(2) by (elim ClaimNext_Some)
  have "dep_ID (repo_items r ! i) = dep_ID e" using i(2) assms(4) by (simp add: claimed_def)
  then have "repo_items r ! i = e"
    using nth_the_id[of r i e] assms(1,3) i(1) by (simp add: repo_ok_def)
  then have "lease_Generation (dep_Lease e) < lease_Generation (dep_Lease d)"
    using i(2) u64_less_add_one[OF assms(5)] by (simp add: claimed_def)
  moreover have "d \<in> set (repo_items r')" using i(1,3) by (simp add: set_update_memI)
  ultimately show ?thesis by (auto simp: superseded_def)
qed

lemma create_supersedes:
  assumes "repo_ok r" "mem_Create None r item = Inr (d, r')"
    "cutover_counter r (CutoverScope item) \<noteq> -1"
    "e \<in> set (repo_items r)" "CutoverScope e = CutoverScope item"
  shows "superseded (dep_ID e) g r'"
proof -
  have "dep_CutoverSequence e \<le> cutover_counter r (CutoverScope e)"
    using assms(1,4) by (auto simp: repo_ok_def repo_inv_def)
  then have "dep_CutoverSequence e < cutover_counter r' (CutoverScope e)"
    using Create_Inr(5)[OF assms(2)] u64_less_add_one[OF assms(3)] assms(5) by simp
  moreover have "e \<in> set (repo_items r')" using Create_Inr(4)[OF assms(2)] assms(4) by simp
  ultimately show ?thesis by (auto simp: superseded_def)
qed

end
