(* ===== verification/Effects.thy ===== *)
theory Effects
  imports Prelude
begin

text \<open>
  Calls that read and change state and may fail: a state-passing function returning an error or a
  value beside the new state. An error keeps the effects that came before it, as in the source;
  only a transaction takes them back.
\<close>

type_synonym ('s, 'e, 'a) op = "'s \<Rightarrow> ('e + 'a) \<times> 's"

definition op_return :: "'a \<Rightarrow> ('s, 'e, 'a) op" where
  "op_return x = (\<lambda>s. (Inr x, s))"

definition op_fail :: "'e \<Rightarrow> ('s, 'e, 'a) op" where
  "op_fail e = (\<lambda>s. (Inl e, s))"

definition op_bind :: "('s, 'e, 'a) op \<Rightarrow> ('a \<Rightarrow> ('s, 'e, 'b) op) \<Rightarrow> ('s, 'e, 'b) op" where
  "op_bind m f = (\<lambda>s. case m s of (Inl e, t) \<Rightarrow> (Inl e, t) | (Inr x, t) \<Rightarrow> f x t)"

text \<open>A result that does not depend on the state, and the early return on a non-nil error.\<close>

definition op_lift :: "'e + 'a \<Rightarrow> ('s, 'e, 'a) op" where
  "op_lift r = (\<lambda>s. (r, s))"

definition op_check :: "'e option \<Rightarrow> ('s, 'e, unit) op" where
  "op_check e = (\<lambda>s. (case e of None \<Rightarrow> Inr () | Some x \<Rightarrow> Inl x, s))"

definition op_guard :: "bool \<Rightarrow> 'e \<Rightarrow> ('s, 'e, unit) op" where
  "op_guard b e = op_check (if b then None else Some e)"

definition op_read :: "('s \<Rightarrow> 'e + 'a) \<Rightarrow> ('s, 'e, 'a) op" where
  "op_read f = (\<lambda>s. (f s, s))"

text \<open>
  A transaction manager: the pass-through one of \<open>internal/shared/transaction\<close>, which calls the body with nothing
  around it, and the client of the database (\<open>internal/platform/mongo/client.go\<close>). The driver's session takes the
  effects of a failed body back and reports whether the commit succeeded; a commit that reports an error is taken
  not to have happened, repetitions inside the driver are not modelled, and the client wraps an error without
  changing what it is.
\<close>

datatype 'e manager = ManagerPassthrough | ManagerDatabase "'e option"

definition Passthrough_WithinTransaction :: "('s, 'e, 'a) op \<Rightarrow> ('s, 'e, 'a) op" where
  [simp]: "Passthrough_WithinTransaction body s = body s"

definition Client_WithinTransaction :: "'e option \<Rightarrow> ('s, 'e, 'a) op \<Rightarrow> ('s, 'e, 'a) op" where
  [simp]: "Client_WithinTransaction commit_error body s =
     (case body s of
        (Inl e, _) \<Rightarrow> (Inl e, s)
      | (Inr x, t) \<Rightarrow> (case commit_error of None \<Rightarrow> (Inr x, t) | Some e \<Rightarrow> (Inl e, s)))"

fun WithinTransaction :: "'e manager \<Rightarrow> ('s, 'e, 'a) op \<Rightarrow> ('s, 'e, 'a) op" where
  "WithinTransaction ManagerPassthrough body s = Passthrough_WithinTransaction body s"
| "WithinTransaction (ManagerDatabase commit_error) body s = Client_WithinTransaction commit_error body s"

section \<open>Results of composed calls\<close>

lemma op_bind_Inr:
  "op_bind m f s = (Inr y, u) \<longleftrightarrow> (\<exists>x t. m s = (Inr x, t) \<and> f x t = (Inr y, u))"
  by (auto simp: op_bind_def split: prod.splits sum.splits)

lemma op_bind_Inl:
  "op_bind m f s = (Inl e, u) \<longleftrightarrow>
     m s = (Inl e, u) \<or> (\<exists>x t. m s = (Inr x, t) \<and> f x t = (Inl e, u))"
  by (auto simp: op_bind_def split: prod.splits sum.splits)

lemma op_bind_InrE:
  assumes "op_bind m f s = (Inr y, u)"
  obtains x t where "m s = (Inr x, t)" "f x t = (Inr y, u)"
  using assms by (auto simp: op_bind_Inr)

lemma op_return_eq [simp]: "op_return x s = (r, t) \<longleftrightarrow> r = Inr x \<and> t = s"
  by (auto simp: op_return_def)

lemma op_fail_eq [simp]: "op_fail e s = (r, t) \<longleftrightarrow> r = Inl e \<and> t = s"
  by (auto simp: op_fail_def)

lemma op_lift_eq [simp]: "op_lift v s = (r, t) \<longleftrightarrow> v = r \<and> t = s"
  by (auto simp: op_lift_def)

lemma op_read_eq [simp]: "op_read f s = (r, t) \<longleftrightarrow> f s = r \<and> t = s"
  by (auto simp: op_read_def)

lemma op_check_Inr [simp]: "op_check e s = (Inr u, t) \<longleftrightarrow> e = None \<and> t = s"
  by (auto simp: op_check_def split: option.splits)

lemma op_check_Inl [simp]: "op_check e s = (Inl x, t) \<longleftrightarrow> e = Some x \<and> t = s"
  by (auto simp: op_check_def split: option.splits)

lemma op_guard_Inr [simp]: "op_guard b e s = (Inr u, t) \<longleftrightarrow> b \<and> t = s"
  by (auto simp: op_guard_def)

lemma op_guard_Inl [simp]: "op_guard b e s = (Inl x, t) \<longleftrightarrow> \<not> b \<and> x = e \<and> t = s"
  by (auto simp: op_guard_def)

lemmas op_inversion = op_bind_Inr op_bind_Inl

lemma WithinTransaction_Inr [inversion]:
  "WithinTransaction m body s = (Inr x, t) \<Longrightarrow> body s = (Inr x, t)"
  by (cases m) (auto split: prod.splits sum.splits option.splits)

lemma WithinTransaction_rollback:
  "WithinTransaction (ManagerDatabase c) body s = (Inl e, t) \<Longrightarrow> t = s"
  by (auto split: prod.splits sum.splits option.splits)

section \<open>Frames\<close>

text \<open>
  \<open>op_keeps f m\<close>: whatever \<open>m\<close> returns, the observation \<open>f\<close> of the state is unchanged;
  \<open>op_atomic f m\<close>: it is unchanged whenever \<open>m\<close> fails.
\<close>

definition op_keeps :: "('s \<Rightarrow> 'o) \<Rightarrow> ('s, 'e, 'a) op \<Rightarrow> bool" where
  "op_keeps f m \<longleftrightarrow> (\<forall>s. f (snd (m s)) = f s)"

definition op_atomic :: "('s \<Rightarrow> 'o) \<Rightarrow> ('s, 'e, 'a) op \<Rightarrow> bool" where
  "op_atomic f m \<longleftrightarrow> (\<forall>s e t. m s = (Inl e, t) \<longrightarrow> f t = f s)"

lemma op_keepsD: "op_keeps f m \<Longrightarrow> m s = (r, t) \<Longrightarrow> f t = f s"
  by (metis op_keeps_def snd_conv)

lemma op_atomicD: "op_atomic f m \<Longrightarrow> m s = (Inl e, t) \<Longrightarrow> f t = f s"
  by (simp add: op_atomic_def)

lemma op_keeps_simple [simp]:
  "op_keeps f (op_return x)" "op_keeps f (op_fail e)" "op_keeps f (op_lift r)"
  "op_keeps f (op_check c)" "op_keeps f (op_guard b e)" "op_keeps f (op_read g)"
  by (simp_all add: op_keeps_def op_return_def op_fail_def op_lift_def op_check_def op_guard_def op_read_def)

lemma op_keeps_bind: "op_keeps f m \<Longrightarrow> (\<And>x. op_keeps f (g x)) \<Longrightarrow> op_keeps f (op_bind m g)"
  unfolding op_keeps_def op_bind_def by (auto split: prod.splits sum.splits) (metis snd_conv)+

lemma op_keeps_atomic: "op_keeps f m \<Longrightarrow> op_atomic f m"
  unfolding op_atomic_def by (auto dest: op_keepsD)

lemma op_atomic_simple [simp]:
  "op_atomic f (op_return x)" "op_atomic f (op_fail e)" "op_atomic f (op_lift r)"
  "op_atomic f (op_check c)" "op_atomic f (op_guard b e)" "op_atomic f (op_read g)"
  by (simp_all add: op_keeps_atomic)

lemma op_atomic_bind: "op_keeps f m \<Longrightarrow> (\<And>x. op_atomic f (g x)) \<Longrightarrow> op_atomic f (op_bind m g)"
  unfolding op_atomic_def by (auto simp: op_bind_Inl dest: op_keepsD)

lemma op_atomic_transaction: "op_atomic f (WithinTransaction (ManagerDatabase c) body)"
  unfolding op_atomic_def using WithinTransaction_rollback by metis

end
