(* ===== verification/DeploymentUseCase.thy ===== *)
theory DeploymentUseCase
  imports DeploymentQueue Effects
begin

text \<open>
  The deployment use cases (\<open>internal/modules/deployment/biz/usecase.go\<close>) over the in-memory
  repository and an audit log. Collaborators behind interfaces (reference lookups, admission
  evaluation, the audit recorder's failures, the id generator and the clock) are the fields of an
  environment, \<open>None\<close> where the source's interface value is nil.
\<close>

section \<open>State and environment\<close>

record AuditEvent =
  ev_ID :: string
  ev_OrganizationID :: string
  ev_ProjectID :: string
  ev_ActorID :: string
  ev_Action :: audit_action
  ev_ResourceType :: string
  ev_ResourceID :: string
  ev_RequestID :: string
  ev_CreatedAt :: time

text \<open>
  \<open>w_ids\<close> and \<open>w_ticks\<close> count the calls of the id generator and of the clock, so that
  successive calls may answer differently.
\<close>

record world =
  w_repo :: MemoryRepository
  w_audit :: "AuditEvent list"
  w_ids :: nat
  w_ticks :: nat

record references =
  ref_ValidateProject :: "string \<Rightarrow> string \<Rightarrow> dep_error option"
  ref_Validate :: "string \<Rightarrow> string \<Rightarrow> string \<Rightarrow> string \<Rightarrow> string \<Rightarrow> dep_error option"

record env =
  env_ctx :: ctx
  env_newID :: "nat \<Rightarrow> dep_error + string"
  env_now :: "nat \<Rightarrow> time"
  env_formal :: "references option"
  env_automatic :: "references option"
  env_transaction :: "dep_error manager option"
  env_audit :: "(AuditEvent \<Rightarrow> dep_error option) option"
  env_admission :: "(AdmissionRequest \<Rightarrow> dep_error + AdmissionSnapshot) option"
  env_fence :: "(string \<Rightarrow> string \<Rightarrow> string \<Rightarrow> dep_error + bool) option"
  env_json :: admission_json

type_synonym 'a call = "(world, dep_error, 'a) op"

definition newID :: "env \<Rightarrow> string call" where
  "newID env w = (env_newID env (w_ids w), w\<lparr>w_ids := Suc (w_ids w)\<rparr>)"

definition now_call :: "env \<Rightarrow> time call" where
  "now_call env w = (Inr (env_now env (w_ticks w)), w\<lparr>w_ticks := Suc (w_ticks w)\<rparr>)"

definition repo_read :: "(MemoryRepository \<Rightarrow> dep_error + 'a) \<Rightarrow> 'a call" where
  "repo_read f = op_read (\<lambda>w. f (w_repo w))"

definition repo_write :: "(MemoryRepository \<Rightarrow> dep_error + 'a \<times> MemoryRepository) \<Rightarrow> 'a call" where
  "repo_write f w = (case f (w_repo w) of Inl e \<Rightarrow> (Inl e, w) | Inr (x, r) \<Rightarrow> (Inr x, w\<lparr>w_repo := r\<rparr>))"

definition record_audit :: "(AuditEvent \<Rightarrow> dep_error option) \<Rightarrow> AuditEvent \<Rightarrow> unit call" where
  "record_audit recorder ev w =
     (case recorder ev of Some e \<Rightarrow> (Inl e, w) | None \<Rightarrow> (Inr (), w\<lparr>w_audit := w_audit w @ [ev]\<rparr>))"

definition require_permission :: "Principal \<Rightarrow> Permission \<Rightarrow> unit call" where
  "require_permission p permission = op_check (map_option ErrSecurity (Principal_Require p permission))"

definition audit_event ::
  "string \<Rightarrow> Principal \<Rightarrow> string \<Rightarrow> audit_action \<Rightarrow> string \<Rightarrow> string \<Rightarrow> time \<Rightarrow> AuditEvent" where
  "audit_event auditID actor projectID action resourceID requestID now =
     \<lparr>ev_ID = auditID, ev_OrganizationID = OrganizationID actor, ev_ProjectID = projectID,
       ev_ActorID = UserID actor, ev_Action = action, ev_ResourceType = ''deployment'',
       ev_ResourceID = resourceID, ev_RequestID = requestID, ev_CreatedAt = now\<rparr>"

section \<open>Replay, admission and persistence\<close>

definition same_intent :: "Deployment \<Rightarrow> Deployment \<Rightarrow> bool" where
  "same_intent existing intent \<longleftrightarrow>
     dep_ReleaseID existing = dep_ReleaseID intent \<and> dep_ApplicationID existing = dep_ApplicationID intent \<and>
     dep_EnvironmentID existing = dep_EnvironmentID intent \<and>
     dep_RuntimeTargetID existing = dep_RuntimeTargetID intent \<and>
     dep_Operation existing = dep_Operation intent \<and> dep_TriggerSource existing = dep_TriggerSource intent \<and>
     dep_SourceArtifactID existing = dep_SourceArtifactID intent \<and>
     dep_SourceBuildID existing = dep_SourceBuildID intent \<and>
     dep_BuildConfigurationID existing = dep_BuildConfigurationID intent \<and>
     dep_SourceDeploymentID existing = dep_SourceDeploymentID intent"

definition findReplay :: "env \<Rightarrow> Deployment \<Rightarrow> Deployment option call" where
  "findReplay env intent =
     repo_read (\<lambda>r.
       case mem_GetByIdempotency (env_ctx env) r (dep_ProjectID intent) (dep_IdempotencyKey intent) of
         Inl e \<Rightarrow> if e = ErrNotFound then Inr None else Inl e
       | Inr existing \<Rightarrow>
           if same_intent existing intent then Inr (Some existing) else Inl ErrIdempotencyMismatch)"

definition evaluateAdmission :: "env \<Rightarrow> Deployment \<Rightarrow> Deployment call" where
  "evaluateAdmission env item =
     (case env_admission env of
        None \<Rightarrow> op_fail ErrAdmissionUnavailable
      | Some evaluate \<Rightarrow>
          op_bind (op_lift (evaluate \<lparr>req_OrganizationID = dep_OrganizationID item,
              req_ProjectID = dep_ProjectID item, req_ReleaseID = dep_ReleaseID item,
              req_ApplicationID = dep_ApplicationID item, req_EnvironmentID = dep_EnvironmentID item\<rparr>))
            (\<lambda>snapshot.
              if AdmissionSnapshot_Validate (env_json env) snapshot \<noteq> None \<or> Decision snapshot = AdmissionDenied
              then op_fail ErrAdmissionUnavailable
              else op_return (item\<lparr>dep_Admission := snapshot\<rparr>)))"

definition persist_body ::
  "env \<Rightarrow> (AuditEvent \<Rightarrow> dep_error option) \<Rightarrow> Deployment \<Rightarrow> (string \<Rightarrow> AuditEvent) \<Rightarrow> Deployment call" where
  "persist_body env recorder item event =
     (case env_fence env of
        None \<Rightarrow> op_fail ErrReferenceLookup
      | Some fence \<Rightarrow>
          op_bind (op_lift (fence (dep_ProjectID item) (dep_ApplicationID item) (dep_EnvironmentID item)))
            (\<lambda>active.
              if \<not> active then op_fail ErrApplicationNotFound
              else op_bind (repo_write (\<lambda>r. mem_Create (env_ctx env) r item))
                (\<lambda>created. op_bind (record_audit recorder (event (dep_ID created)))
                  (\<lambda>_. op_return created))))"

text \<open>
  \<open>persistFormal\<close>: a lost race for the idempotency key (the transaction answers
  \<open>ErrDuplicateIdempotency\<close>) is resolved to the winner's deployment.
\<close>

definition resolve_duplicate :: "env \<Rightarrow> Deployment \<Rightarrow> Deployment call \<Rightarrow> Deployment call" where
  "resolve_duplicate env item m w =
     (case m w of
        (Inr created, w1) \<Rightarrow> (Inr created, w1)
      | (Inl e, w1) \<Rightarrow>
          (if e = ErrDuplicateIdempotency then
             op_bind (findReplay env item) (\<lambda>replayed.
               case replayed of Some existing \<Rightarrow> op_return existing | None \<Rightarrow> op_fail e) w1
           else (Inl e, w1)))"

definition persistFormal ::
  "env \<Rightarrow> dep_error manager \<Rightarrow> (AuditEvent \<Rightarrow> dep_error option) \<Rightarrow> Principal \<Rightarrow> Deployment \<Rightarrow> string \<Rightarrow>
     audit_action \<Rightarrow> Deployment call" where
  "persistFormal env manager recorder actor item requestID action =
     op_bind (newID env) (\<lambda>auditID.
     op_bind (now_call env) (\<lambda>now.
     resolve_duplicate env item (WithinTransaction manager
       (persist_body env recorder item
         (\<lambda>i. audit_event auditID actor (dep_ProjectID item) action i requestID (utc now))))))"

section \<open>Operations\<close>

text \<open>The configuration checks several operations share: transaction manager and audit recorder.\<close>

definition with_security ::
  "env \<Rightarrow> (dep_error manager \<Rightarrow> (AuditEvent \<Rightarrow> dep_error option) \<Rightarrow> 'a call) \<Rightarrow> 'a call" where
  "with_security env f =
     (case (env_transaction env, env_audit env) of
        (Some manager, Some recorder) \<Rightarrow> f manager recorder
      | _ \<Rightarrow> op_fail ErrFormalSecurity)"

definition with_references :: "references option \<Rightarrow> dep_error \<Rightarrow> (references \<Rightarrow> 'a call) \<Rightarrow> 'a call" where
  "with_references refs e f = (case refs of None \<Rightarrow> op_fail e | Some r \<Rightarrow> f r)"

text \<open>The common tail: replay, else reference checks, admission and persistence.\<close>

definition replay_or :: "env \<Rightarrow> Deployment \<Rightarrow> Deployment call \<Rightarrow> Deployment call" where
  "replay_or env item continue =
     op_bind (findReplay env item) (\<lambda>replayed.
       case replayed of Some existing \<Rightarrow> op_return existing | None \<Rightarrow> continue)"

definition validate_references :: "references \<Rightarrow> Deployment \<Rightarrow> unit call" where
  "validate_references refs item =
     op_check (ref_Validate refs (dep_ProjectID item) (dep_ReleaseID item) (dep_ApplicationID item)
       (dep_EnvironmentID item) (dep_RuntimeTargetID item))"

definition CreateFormal ::
  "env \<Rightarrow> Principal \<Rightarrow> string \<Rightarrow> string \<Rightarrow> string \<Rightarrow> string \<Rightarrow> string \<Rightarrow> string \<Rightarrow> string \<Rightarrow> Deployment call" where
  "CreateFormal env actor projectID releaseID applicationID environmentID runtimeTargetID
      idempotencyKey requestID =
     op_bind (require_permission actor PermissionDeploymentCreate) (\<lambda>_.
     with_security env (\<lambda>manager recorder.
     op_bind (newID env) (\<lambda>i.
     op_bind (now_call env) (\<lambda>now.
     op_bind (op_lift (NewFormal i projectID releaseID applicationID environmentID runtimeTargetID
       idempotencyKey now)) (\<lambda>formal.
     (let item = formal\<lparr>dep_OrganizationID := OrganizationID actor\<rparr> in
      with_references (env_formal env) ErrReferenceLookup (\<lambda>refs.
      op_bind (op_check (ref_ValidateProject refs (OrganizationID actor) (dep_ProjectID item))) (\<lambda>_.
      replay_or env item (
      op_bind (validate_references refs item) (\<lambda>_.
      op_bind (evaluateAdmission env item) (\<lambda>admitted.
      persistFormal env manager recorder actor admitted requestID AuditActionCreate)))))))))))"

definition automatic_key :: "AutomaticDeploymentInput \<Rightarrow> string" where
  "automatic_key input = ''auto:'' @ sha256_hex
     (auto_ArtifactID input @ [CHR 0x00] @ auto_EnvironmentID input @ [CHR 0x00] @ auto_RuntimeTargetID input)"

definition automatic_principal :: "string \<Rightarrow> Principal" where
  "automatic_principal organizationID =
     \<lparr>UserID = ''system:auto-deployment'', OrganizationID = organizationID, Email = [],
       PrincipalRole = RoleMaintainer, SessionID = ''system:auto-deployment''\<rparr>"

definition CreateAutomatic :: "env \<Rightarrow> AutomaticDeploymentInput \<Rightarrow> Deployment call" where
  "CreateAutomatic env input =
     with_references (env_automatic env) ErrAutomaticDeploymentUnavailable (\<lambda>refs.
     with_security env (\<lambda>manager recorder.
     op_bind (newID env) (\<lambda>i.
     op_bind (now_call env) (\<lambda>now.
     op_bind (op_lift (NewAutomatic i (automatic_key input) input now)) (\<lambda>item.
     op_bind (op_check (ref_ValidateProject refs (dep_OrganizationID item) (dep_ProjectID item))) (\<lambda>_.
     replay_or env item (
     op_bind (validate_references refs item) (\<lambda>_.
     op_bind (evaluateAdmission env item) (\<lambda>admitted.
     persistFormal env manager recorder (automatic_principal (dep_OrganizationID admitted)) admitted
       (''artifact:'' @ dep_SourceArtifactID admitted) AuditActionAutomatic)))))))))"

definition ListFormal :: "env \<Rightarrow> Principal \<Rightarrow> string \<Rightarrow> string \<Rightarrow> string \<Rightarrow> Deployment list call" where
  "ListFormal env actor projectID applicationID environmentID =
     op_bind (require_permission actor PermissionDeploymentRead) (\<lambda>_.
     with_references (env_formal env) ErrReferenceLookup (\<lambda>refs.
     op_bind (op_check (ref_ValidateProject refs (OrganizationID actor) projectID)) (\<lambda>_.
     repo_read (\<lambda>r. mem_List (env_ctx env) r projectID applicationID environmentID))))"

definition GetFormal :: "env \<Rightarrow> Principal \<Rightarrow> string \<Rightarrow> string \<Rightarrow> Deployment call" where
  "GetFormal env actor projectID deploymentID =
     op_bind (require_permission actor PermissionDeploymentRead) (\<lambda>_.
     with_references (env_formal env) ErrReferenceLookup (\<lambda>refs.
     op_bind (op_check (ref_ValidateProject refs (OrganizationID actor) projectID)) (\<lambda>_.
     repo_read (\<lambda>r. mem_Get (env_ctx env) r projectID deploymentID))))"

definition CancelFormal :: "env \<Rightarrow> Principal \<Rightarrow> string \<Rightarrow> string \<Rightarrow> string \<Rightarrow> Deployment call" where
  "CancelFormal env actor projectID deploymentID requestID =
     op_bind (require_permission actor PermissionDeploymentCancel) (\<lambda>_.
     with_references (env_formal env) ErrReferenceLookup (\<lambda>refs.
     with_security env (\<lambda>manager recorder.
     op_bind (op_check (ref_ValidateProject refs (OrganizationID actor) projectID)) (\<lambda>_.
     op_bind (repo_read (\<lambda>r. mem_Get (env_ctx env) r projectID deploymentID)) (\<lambda>item.
     op_bind (now_call env) (\<lambda>now.
     op_bind (op_lift (Cancel item (utc now))) (\<lambda>canceled.
     op_bind (newID env) (\<lambda>auditID.
     WithinTransaction manager (
       op_bind (repo_write (\<lambda>r. mem_Save (env_ctx env) r canceled (dep_Version item))) (\<lambda>saved.
       op_bind (record_audit recorder
         (audit_event auditID actor projectID AuditActionCancel (dep_ID saved) requestID (utc now)))
       (\<lambda>_. op_return saved)))))))))))"

definition derive ::
  "audit_action \<Rightarrow> Deployment \<Rightarrow> string \<Rightarrow> string \<Rightarrow> string \<Rightarrow> time \<Rightarrow> dep_error + Deployment" where
  "derive action source i releaseID idempotencyKey now =
     (if action = AuditActionRetry then Retry source i idempotencyKey now
      else if action = AuditActionRollback then Rollback source i releaseID idempotencyKey now
      else Inl ErrInvalidTransition)"

definition require_succeeded :: "env \<Rightarrow> Deployment \<Rightarrow> unit call" where
  "require_succeeded env item =
     op_bind (repo_read (\<lambda>r. mem_HasSucceeded (env_ctx env) r (dep_ProjectID item) (dep_ReleaseID item)
       (dep_ApplicationID item) (dep_EnvironmentID item) (dep_RuntimeTargetID item)))
     (\<lambda>succeeded. op_guard succeeded ErrRollbackNotSucceeded)"

definition createDerivedFormal ::
  "env \<Rightarrow> Principal \<Rightarrow> string \<Rightarrow> string \<Rightarrow> string \<Rightarrow> string \<Rightarrow> string \<Rightarrow> audit_action \<Rightarrow> Deployment call" where
  "createDerivedFormal env actor projectID sourceDeploymentID releaseID idempotencyKey requestID action =
     with_references (env_formal env) ErrReferenceLookup (\<lambda>refs.
     with_security env (\<lambda>manager recorder.
     op_bind (op_check (ref_ValidateProject refs (OrganizationID actor) projectID)) (\<lambda>_.
     op_bind (repo_read (\<lambda>r. mem_Get (env_ctx env) r projectID sourceDeploymentID)) (\<lambda>source.
     op_bind (newID env) (\<lambda>i.
     op_bind (now_call env) (\<lambda>now.
     op_bind (op_lift (derive action source i releaseID idempotencyKey now)) (\<lambda>item.
     replay_or env item (
     op_bind (validate_references refs item) (\<lambda>_.
     op_bind (if action = AuditActionRollback then require_succeeded env item else op_return ()) (\<lambda>_.
     op_bind (evaluateAdmission env item) (\<lambda>admitted.
     persistFormal env manager recorder actor admitted requestID action)))))))))))"

definition RetryFormal ::
  "env \<Rightarrow> Principal \<Rightarrow> string \<Rightarrow> string \<Rightarrow> string \<Rightarrow> string \<Rightarrow> Deployment call" where
  "RetryFormal env actor projectID sourceDeploymentID idempotencyKey requestID =
     op_bind (require_permission actor PermissionDeploymentCreate) (\<lambda>_.
     createDerivedFormal env actor projectID sourceDeploymentID [] idempotencyKey requestID AuditActionRetry)"

definition RollbackFormal ::
  "env \<Rightarrow> Principal \<Rightarrow> string \<Rightarrow> string \<Rightarrow> string \<Rightarrow> string \<Rightarrow> string \<Rightarrow> Deployment call" where
  "RollbackFormal env actor projectID sourceDeploymentID releaseID idempotencyKey requestID =
     op_bind (require_permission actor PermissionDeploymentRollback) (\<lambda>_.
     createDerivedFormal env actor projectID sourceDeploymentID releaseID idempotencyKey requestID
       AuditActionRollback)"

section \<open>What is stored\<close>

text \<open>The lasting part of the state: deployments and audit events, not the call counters.\<close>

definition stored :: "world \<Rightarrow> MemoryRepository \<times> AuditEvent list" where
  "stored w = (w_repo w, w_audit w)"

lemma newID_keeps [simp]: "op_keeps stored (newID env)"
  by (simp add: op_keeps_def newID_def stored_def)

lemma now_keeps [simp]: "op_keeps stored (now_call env)"
  by (simp add: op_keeps_def now_call_def stored_def)

lemma findReplay_keeps [simp]: "op_keeps stored (findReplay env item)"
  by (simp add: findReplay_def repo_read_def)

lemma validate_references_keeps [simp]: "op_keeps stored (validate_references refs item)"
  by (simp add: validate_references_def)

lemma require_permission_keeps [simp]: "op_keeps stored (require_permission p q)"
  by (simp add: require_permission_def)

lemma repo_read_keeps [simp]: "op_keeps stored (repo_read f)"
  by (simp add: repo_read_def)

lemma require_succeeded_keeps [simp]: "op_keeps stored (require_succeeded env item)"
  by (simp add: require_succeeded_def op_keeps_bind)

lemma evaluateAdmission_keeps [simp]: "op_keeps stored (evaluateAdmission env item)"
  unfolding evaluateAdmission_def by (auto split: option.splits intro!: op_keeps_bind)

lemma replay_or_atomic: "op_atomic stored m \<Longrightarrow> op_atomic stored (replay_or env item m)"
  unfolding replay_or_def by (auto split: option.splits intro!: op_atomic_bind)

lemma with_references_atomic:
  "(\<And>r. refs = Some r \<Longrightarrow> op_atomic stored (f r)) \<Longrightarrow> op_atomic stored (with_references refs e f)"
  unfolding with_references_def by (auto split: option.splits intro!: op_atomic_bind)

lemma with_security_atomic:
  "(\<And>m r. env_transaction env = Some m \<Longrightarrow> op_atomic stored (f m r)) \<Longrightarrow>
   op_atomic stored (with_security env f)"
  unfolding with_security_def by (auto split: option.splits intro!: op_atomic_bind)

lemma resolve_duplicate_atomic: "op_atomic stored m \<Longrightarrow> op_atomic stored (resolve_duplicate env item m)"
  unfolding op_atomic_def resolve_duplicate_def
  by (auto simp: op_bind_Inl findReplay_def repo_read_def split: prod.splits sum.splits if_splits option.splits)

lemma persistFormal_atomic:
  "op_atomic stored (persistFormal env (ManagerDatabase c) recorder actor item requestID action)"
  unfolding persistFormal_def
  by (intro op_atomic_bind newID_keeps now_keeps resolve_duplicate_atomic op_atomic_transaction)

lemmas use_case_frames =
  op_atomic_bind with_references_atomic with_security_atomic replay_or_atomic
  persistFormal_atomic op_atomic_transaction

lemma Create_atomic:
  assumes "env_transaction env = Some (ManagerDatabase c)"
  shows "op_atomic stored (CreateFormal env actor p r a e t k q)"
    "op_atomic stored (CreateAutomatic env input)"
  unfolding CreateFormal_def CreateAutomatic_def Let_def using assms
  by (auto intro!: use_case_frames)

lemma CancelFormal_atomic:
  "env_transaction env = Some (ManagerDatabase c) \<Longrightarrow> op_atomic stored (CancelFormal env actor p i q)"
  unfolding CancelFormal_def by (auto intro!: use_case_frames)

lemma createDerivedFormal_atomic:
  "env_transaction env = Some (ManagerDatabase c) \<Longrightarrow>
   op_atomic stored (createDerivedFormal env actor p i rel k q act)"
  unfolding createDerivedFormal_def by (auto intro!: use_case_frames)

lemma Derived_atomic:
  assumes "env_transaction env = Some (ManagerDatabase c)"
  shows "op_atomic stored (RetryFormal env actor p i k q)"
    "op_atomic stored (RollbackFormal env actor p i rel k q)"
  unfolding RetryFormal_def RollbackFormal_def using createDerivedFormal_atomic[OF assms]
  by (auto intro!: use_case_frames)

section \<open>Outcomes\<close>

text \<open>
  The two ways a creation succeeds. Replayed: nothing is written and the key's deployment, which
  agrees with the intent, is answered. Recorded: exactly one deployment and one audit event.
\<close>

definition replayed :: "env \<Rightarrow> Deployment \<Rightarrow> Deployment \<Rightarrow> world \<Rightarrow> world \<Rightarrow> bool" where
  "replayed env intent d w w' \<longleftrightarrow>
     stored w' = stored w \<and> same_intent d intent \<and>
     mem_GetByIdempotency (env_ctx env) (w_repo w) (dep_ProjectID intent) (dep_IdempotencyKey intent) = Inr d"

definition recorded ::
  "env \<Rightarrow> Principal \<Rightarrow> audit_action \<Rightarrow> string \<Rightarrow> Deployment \<Rightarrow> Deployment \<Rightarrow> world \<Rightarrow> world \<Rightarrow> bool" where
  "recorded env actor action requestID item d w w' \<longleftrightarrow>
     mem_Create (env_ctx env) (w_repo w) item = Inr (d, w_repo w') \<and>
     (\<exists>i now. w_audit w' = w_audit w @
        [audit_event i actor (dep_ProjectID item) action (dep_ID d) requestID now])"

definition admits :: "env \<Rightarrow> Deployment \<Rightarrow> AdmissionSnapshot \<Rightarrow> bool" where
  "admits env item snapshot \<longleftrightarrow>
     (\<exists>evaluate. env_admission env = Some evaluate \<and>
        evaluate \<lparr>req_OrganizationID = dep_OrganizationID item, req_ProjectID = dep_ProjectID item,
          req_ReleaseID = dep_ReleaseID item, req_ApplicationID = dep_ApplicationID item,
          req_EnvironmentID = dep_EnvironmentID item\<rparr> = Inr snapshot) \<and>
     AdmissionSnapshot_Validate (env_json env) snapshot = None \<and> Decision snapshot \<noteq> AdmissionDenied"

lemma evaluateAdmission_Inr [inversion]:
  "evaluateAdmission env item w = (Inr admitted, w') \<Longrightarrow>
     w' = w \<and> (\<exists>snapshot. admits env item snapshot \<and> admitted = item\<lparr>dep_Admission := snapshot\<rparr>)"
  by (cases "env_admission env")
     (auto simp: evaluateAdmission_def admits_def op_bind_Inr split: if_splits intro!: exI[where x = "dep_Admission admitted"])

lemma findReplay_Some [inversion]:
  "findReplay env item w = (Inr (Some d), w') \<Longrightarrow> w' = w \<and> replayed env item d w w'"
  by (auto simp: findReplay_def repo_read_def replayed_def split: sum.splits if_splits)

lemma replayed_stored: "stored w1 = stored w \<Longrightarrow> replayed env item d w1 w' \<longleftrightarrow> replayed env item d w w'"
  by (auto simp: replayed_def stored_def)

lemma recorded_stored:
  "stored w1 = stored w \<Longrightarrow>
   recorded env actor action q item d w1 w' \<longleftrightarrow> recorded env actor action q item d w w'"
  by (auto simp: recorded_def stored_def)

lemma persist_body_Inr [inversion]:
  "persist_body env recorder item event w = (Inr d, w') \<Longrightarrow>
     mem_Create (env_ctx env) (w_repo w) item = Inr (d, w_repo w') \<and>
     w_audit w' = w_audit w @ [event (dep_ID d)] \<and>
     (\<exists>fence. env_fence env = Some fence \<and>
        fence (dep_ProjectID item) (dep_ApplicationID item) (dep_EnvironmentID item) = Inr True)"
  by (auto simp: persist_body_def op_bind_Inr repo_write_def record_audit_def
      split: option.splits sum.splits if_splits)

lemma replayed_admission [simp]:
  "replayed env (item\<lparr>dep_Admission := s\<rparr>) d w w' = replayed env item d w w'"
  by (simp add: replayed_def same_intent_def)

lemma resolve_duplicate_Inr [inversion]:
  assumes "resolve_duplicate env item (WithinTransaction (ManagerDatabase c) body) w = (Inr d, w')"
  shows "replayed env item d w w' \<or> body w = (Inr d, w')"
proof (cases "fst (WithinTransaction (ManagerDatabase c) body w)")
  case (Inl e)
  then have t: "WithinTransaction (ManagerDatabase c) body w = (Inl e, w)"
    using WithinTransaction_rollback by (metis prod.collapse)
  show ?thesis
    using assms unfolding resolve_duplicate_def t
    by (auto simp: op_bind_Inr split: if_splits option.splits dest!: findReplay_Some)
next
  case (Inr x)
  then obtain w1 where t: "WithinTransaction (ManagerDatabase c) body w = (Inr x, w1)"
    by (metis prod.collapse)
  show ?thesis
    using assms WithinTransaction_Inr[OF t] unfolding resolve_duplicate_def t by simp
qed

lemma newID_Inr: "newID env w = (Inr i, w') \<Longrightarrow> stored w' = stored w"
  and now_call_Inr: "now_call env w = (Inr n, w') \<Longrightarrow> stored w' = stored w"
  and validate_references_Inr: "validate_references refs item w = (Inr u, w') \<Longrightarrow> w' = w"
  by (auto simp: newID_def now_call_def stored_def validate_references_def)

lemma persistFormal_Inr [inversion]:
  assumes "persistFormal env (ManagerDatabase c) recorder actor item q action w = (Inr d, w')"
  shows "replayed env item d w w' \<or> recorded env actor action q item d w w'"
proof -
  obtain i now w1 where w1: "stored w1 = stored w" and
    run: "resolve_duplicate env item (WithinTransaction (ManagerDatabase c)
        (persist_body env recorder item
          (\<lambda>k. audit_event i actor (dep_ProjectID item) action k q (utc now)))) w1 = (Inr d, w')"
    using assms unfolding persistFormal_def
    by (auto elim!: op_bind_InrE dest!: newID_Inr now_call_Inr simp del: utc_def)
  from resolve_duplicate_Inr[OF run] show ?thesis
  proof
    assume "replayed env item d w1 w'"
    then show ?thesis using replayed_stored[OF w1] by blast
  next
    assume "persist_body env recorder item
        (\<lambda>k. audit_event i actor (dep_ProjectID item) action k q (utc now)) w1 = (Inr d, w')"
    then have "recorded env actor action q item d w1 w'"
      unfolding recorded_def by (blast dest: persist_body_Inr)
    then show ?thesis using recorded_stored[OF w1] by blast
  qed
qed

text \<open>
  \<open>accepted\<close>: the intent was replayed, or recorded with an admission snapshot that was evaluated
  for it, is valid and is not a denial.
\<close>

definition accepted ::
  "env \<Rightarrow> Principal \<Rightarrow> audit_action \<Rightarrow> string \<Rightarrow> Deployment \<Rightarrow> Deployment \<Rightarrow> world \<Rightarrow> world \<Rightarrow> bool" where
  "accepted env actor action requestID item d w w' \<longleftrightarrow>
     replayed env item d w w' \<or>
     (\<exists>s. admits env item s \<and>
        recorded env actor action requestID (item\<lparr>dep_Admission := s\<rparr>) d w w')"

lemma accepted_stored:
  "stored w1 = stored w \<Longrightarrow>
   accepted env actor action q item d w1 w' \<longleftrightarrow> accepted env actor action q item d w w'"
  unfolding accepted_def using replayed_stored[of w1 w] recorded_stored[of w1 w] by blast

lemma admitted_Inr:
  assumes run: "op_bind (evaluateAdmission env item) (\<lambda>admitted.
      persistFormal env (ManagerDatabase c) recorder (actor admitted) admitted (q admitted) action) w =
      (Inr d, w')"
    and "\<And>s. actor (item\<lparr>dep_Admission := s\<rparr>) = actor item" "\<And>s. q (item\<lparr>dep_Admission := s\<rparr>) = q item"
  shows "accepted env (actor item) action (q item) item d w w'"
  using run
proof (rule op_bind_InrE)
  fix admitted w1
  assume "evaluateAdmission env item w = (Inr admitted, w1)"
    and p: "persistFormal env (ManagerDatabase c) recorder (actor admitted) admitted (q admitted) action w1 =
      (Inr d, w')"
  then obtain s where "w1 = w" "admits env item s" "admitted = item\<lparr>dep_Admission := s\<rparr>"
    using evaluateAdmission_Inr by blast
  with persistFormal_Inr[OF p] assms(2,3) show ?thesis by (auto simp: accepted_def)
qed

lemma replay_or_Inr [inversion]:
  assumes "replay_or env item m w = (Inr d, w')"
  shows "replayed env item d w w' \<or> (\<exists>w1. stored w1 = stored w \<and> m w1 = (Inr d, w'))"
  using assms op_keepsD[OF findReplay_keeps] unfolding replay_or_def op_bind_Inr
  by (auto split: option.splits dest!: findReplay_Some)

lemma with_references_Inr [inversion]:
  "with_references refs e f w = (Inr d, w') \<Longrightarrow> \<exists>r. refs = Some r \<and> f r w = (Inr d, w')"
  by (auto simp: with_references_def split: option.splits)

lemma with_security_Inr [inversion]:
  "with_security env f w = (Inr d, w') \<Longrightarrow>
     \<exists>m r. env_transaction env = Some m \<and> env_audit env = Some r \<and> f m r w = (Inr d, w')"
  by (auto simp: with_security_def split: option.splits)

lemma require_permission_Inr [simp]:
  "require_permission p q w = (Inr u, w') \<longleftrightarrow> Principal_Require p q = None \<and> w' = w"
  by (auto simp: require_permission_def)

lemma keeps_Inr: "op_keeps stored m \<Longrightarrow> m w = (Inr x, w') \<Longrightarrow> stored w' = stored w"
  by (rule op_keepsD)

lemma replay_or_accepted:
  assumes run: "replay_or env item m w = (Inr d, w')"
    and "\<And>w1. stored w1 = stored w \<Longrightarrow> m w1 = (Inr d, w') \<Longrightarrow> accepted env actor action q item d w1 w'"
  shows "accepted env actor action q item d w w'"
  using replay_or_Inr[OF run]
proof (elim disjE exE conjE)
  assume "replayed env item d w w'"
  then show ?thesis by (simp add: accepted_def)
next
  fix w1
  assume "stored w1 = stored w" "m w1 = (Inr d, w')"
  then show ?thesis using assms(2) accepted_stored by blast
qed

lemma submit_Inr:
  assumes run: "op_bind (validate_references refs item) (\<lambda>_. op_bind (evaluateAdmission env item) (\<lambda>admitted.
      persistFormal env (ManagerDatabase c) recorder (actor admitted) admitted (q admitted) action)) w =
      (Inr d, w')"
    and "\<And>s. actor (item\<lparr>dep_Admission := s\<rparr>) = actor item" "\<And>s. q (item\<lparr>dep_Admission := s\<rparr>) = q item"
  shows "accepted env (actor item) action (q item) item d w w'"
  using run
proof (rule op_bind_InrE)
  fix u w1
  assume "validate_references refs item w = (Inr u, w1)"
    and "op_bind (evaluateAdmission env item) (\<lambda>admitted.
      persistFormal env (ManagerDatabase c) recorder (actor admitted) admitted (q admitted) action) w1 =
      (Inr d, w')"
  then show ?thesis using validate_references_Inr admitted_Inr assms(2,3) by blast
qed

lemma CreateFormal_Inr:
  assumes "CreateFormal env actor p r a e t k q w = (Inr d, w')"
    and "env_transaction env = Some (ManagerDatabase c)"
  shows "Principal_Require actor PermissionDeploymentCreate = None"
    and "\<exists>i now formal. NewFormal i p r a e t k now = Inr formal \<and>
      accepted env actor AuditActionCreate q (formal\<lparr>dep_OrganizationID := OrganizationID actor\<rparr>) d w w'"
proof -
  show "Principal_Require actor PermissionDeploymentCreate = None"
    using assms(1) by (auto simp: CreateFormal_def elim!: op_bind_InrE)
  obtain i now formal refs recorder w1 where
    s: "stored w1 = stored w" and f: "NewFormal i p r a e t k now = Inr formal" and
    run: "replay_or env (formal\<lparr>dep_OrganizationID := OrganizationID actor\<rparr>)
      (op_bind (validate_references refs (formal\<lparr>dep_OrganizationID := OrganizationID actor\<rparr>)) (\<lambda>_.
       op_bind (evaluateAdmission env (formal\<lparr>dep_OrganizationID := OrganizationID actor\<rparr>)) (\<lambda>admitted.
       persistFormal env (ManagerDatabase c) recorder actor admitted q AuditActionCreate))) w1 = (Inr d, w')"
    using assms unfolding CreateFormal_def Let_def
    by (auto elim!: op_bind_InrE dest!: with_references_Inr with_security_Inr newID_Inr now_call_Inr)
  have "accepted env actor AuditActionCreate q (formal\<lparr>dep_OrganizationID := OrganizationID actor\<rparr>) d w1 w'"
    by (rule replay_or_accepted[OF run]) (rule submit_Inr, auto)
  with s f show "\<exists>i now formal. NewFormal i p r a e t k now = Inr formal \<and>
      accepted env actor AuditActionCreate q (formal\<lparr>dep_OrganizationID := OrganizationID actor\<rparr>) d w w'"
    using accepted_stored by blast
qed

lemma CreateAutomatic_Inr:
  assumes "CreateAutomatic env input w = (Inr d, w')"
    and "env_transaction env = Some (ManagerDatabase c)"
  shows "\<exists>i now item. NewAutomatic i (automatic_key input) input now = Inr item \<and>
      accepted env (automatic_principal (dep_OrganizationID item)) AuditActionAutomatic
        (''artifact:'' @ dep_SourceArtifactID item) item d w w'"
proof -
  obtain i now item refs recorder w1 where
    s: "stored w1 = stored w" and f: "NewAutomatic i (automatic_key input) input now = Inr item" and
    run: "replay_or env item
      (op_bind (validate_references refs item) (\<lambda>_. op_bind (evaluateAdmission env item) (\<lambda>admitted.
       persistFormal env (ManagerDatabase c) recorder (automatic_principal (dep_OrganizationID admitted))
         admitted (''artifact:'' @ dep_SourceArtifactID admitted) AuditActionAutomatic))) w1 = (Inr d, w')"
    using assms unfolding CreateAutomatic_def
    by (auto elim!: op_bind_InrE dest!: with_references_Inr with_security_Inr newID_Inr now_call_Inr)
  have "accepted env (automatic_principal (dep_OrganizationID item)) AuditActionAutomatic
        (''artifact:'' @ dep_SourceArtifactID item) item d w1 w'"
    by (rule replay_or_accepted[OF run])
       (rule submit_Inr[where actor = "\<lambda>x. automatic_principal (dep_OrganizationID x)"
          and q = "\<lambda>x. ''artifact:'' @ dep_SourceArtifactID x"], auto)
  with s f show ?thesis using accepted_stored by blast
qed

lemma require_succeeded_Inr [simp]:
  "require_succeeded env item w = (Inr u, w') \<longleftrightarrow> w' = w \<and>
     mem_HasSucceeded (env_ctx env) (w_repo w) (dep_ProjectID item) (dep_ReleaseID item)
       (dep_ApplicationID item) (dep_EnvironmentID item) (dep_RuntimeTargetID item) = Inr True"
  by (auto simp: require_succeeded_def repo_read_def op_bind_Inr)

lemma createDerivedFormal_Inr:
  assumes "createDerivedFormal env actor p source_id rel k q action w = (Inr d, w')"
    and "env_transaction env = Some (ManagerDatabase c)"
  shows "\<exists>source i now item.
      mem_Get (env_ctx env) (w_repo w) p source_id = Inr source \<and>
      derive action source i rel k now = Inr item \<and>
      accepted env actor action q item d w w' \<and>
      (action = AuditActionRollback \<longrightarrow> replayed env item d w w' \<or>
         mem_HasSucceeded (env_ctx env) (w_repo w) (dep_ProjectID item) (dep_ReleaseID item)
           (dep_ApplicationID item) (dep_EnvironmentID item) (dep_RuntimeTargetID item) = Inr True)"
proof -
  obtain source i now item refs recorder w1 where
    g: "mem_Get (env_ctx env) (w_repo w) p source_id = Inr source" and
    s: "stored w1 = stored w" and f: "derive action source i rel k now = Inr item" and
    run: "replay_or env item
      (op_bind (validate_references refs item) (\<lambda>_.
       op_bind (if action = AuditActionRollback then require_succeeded env item else op_return ()) (\<lambda>_.
       op_bind (evaluateAdmission env item) (\<lambda>admitted.
       persistFormal env (ManagerDatabase c) recorder actor admitted q action)))) w1 = (Inr d, w')"
    using assms unfolding createDerivedFormal_def
    by (auto simp: repo_read_def elim!: op_bind_InrE
        dest!: with_references_Inr with_security_Inr newID_Inr now_call_Inr)
  have r: "w_repo w1 = w_repo w" using s by (simp add: stored_def)
  from replay_or_Inr[OF run] show ?thesis
  proof (elim disjE exE conjE)
    assume "replayed env item d w1 w'"
    then have "replayed env item d w w'" using replayed_stored[OF s] by blast
    with g f show ?thesis unfolding accepted_def by blast
  next
    fix w2
    assume s2: "stored w2 = stored w1" and
      b: "op_bind (validate_references refs item) (\<lambda>_.
       op_bind (if action = AuditActionRollback then require_succeeded env item else op_return ()) (\<lambda>_.
       op_bind (evaluateAdmission env item) (\<lambda>admitted.
       persistFormal env (ManagerDatabase c) recorder actor admitted q action))) w2 = (Inr d, w')"
    obtain u w2' where v: "validate_references refs item w2 = (Inr u, w2')" and
      b': "op_bind (if action = AuditActionRollback then require_succeeded env item else op_return ()) (\<lambda>_.
       op_bind (evaluateAdmission env item) (\<lambda>admitted.
       persistFormal env (ManagerDatabase c) recorder actor admitted q action)) w2' = (Inr d, w')"
      using b by (rule op_bind_InrE)
    obtain u' w3 where
      w3: "(if action = AuditActionRollback then require_succeeded env item else op_return ()) w2 = (Inr u', w3)"
      and t: "op_bind (evaluateAdmission env item) (\<lambda>admitted.
       persistFormal env (ManagerDatabase c) recorder actor admitted q action) w3 = (Inr d, w')"
      using b' validate_references_Inr[OF v] by (auto elim: op_bind_InrE)
    have "w3 = w2" using w3 by (auto split: if_splits)
    with admitted_Inr[OF t] have a: "accepted env actor action q item d w w'"
      using accepted_stored[OF s2] accepted_stored[OF s] by auto
    have "w_repo w2 = w_repo w" using s2 r by (simp add: stored_def)
    with w3 g f a show ?thesis by (auto split: if_splits)
  qed
qed

lemma CancelFormal_Inr:
  assumes "CancelFormal env actor p i q w = (Inr d, w')"
    and "env_transaction env = Some m"
  shows "Principal_Require actor PermissionDeploymentCancel = None"
    and "\<exists>item now canceled a.
      mem_Get (env_ctx env) (w_repo w) p i = Inr item \<and> Cancel item now = Inr canceled \<and>
      mem_Save (env_ctx env) (w_repo w) canceled (dep_Version item) = Inr (d, w_repo w') \<and>
      w_audit w' = w_audit w @ [audit_event a actor p AuditActionCancel (dep_ID d) q now]"
proof -
  show "Principal_Require actor PermissionDeploymentCancel = None"
    using assms(1) by (auto simp: CancelFormal_def elim!: op_bind_InrE)
  obtain item now canceled a recorder w1 where
    s: "stored w1 = stored w" and g: "mem_Get (env_ctx env) (w_repo w) p i = Inr item"
    and cn: "Cancel item now = Inr canceled" and
    run: "WithinTransaction m (
       op_bind (repo_write (\<lambda>r. mem_Save (env_ctx env) r canceled (dep_Version item))) (\<lambda>saved.
       op_bind (record_audit recorder (audit_event a actor p AuditActionCancel (dep_ID saved) q now))
       (\<lambda>_. op_return saved))) w1 = (Inr d, w')"
    using assms unfolding CancelFormal_def
    by (auto simp: repo_read_def elim!: op_bind_InrE
        dest!: with_references_Inr with_security_Inr newID_Inr now_call_Inr)
  from WithinTransaction_Inr[OF run]
  have "mem_Save (env_ctx env) (w_repo w1) canceled (dep_Version item) = Inr (d, w_repo w') \<and>
      w_audit w' = w_audit w1 @ [audit_event a actor p AuditActionCancel (dep_ID d) q now]"
    by (auto elim!: op_bind_InrE simp: repo_write_def record_audit_def split: sum.splits option.splits)
  with s g cn show "\<exists>item now canceled a.
      mem_Get (env_ctx env) (w_repo w) p i = Inr item \<and> Cancel item now = Inr canceled \<and>
      mem_Save (env_ctx env) (w_repo w) canceled (dep_Version item) = Inr (d, w_repo w') \<and>
      w_audit w' = w_audit w @ [audit_event a actor p AuditActionCancel (dep_ID d) q now]"
    unfolding stored_def by fastforce
qed

end
