(* ===== verification/DeploymentAudit.thy ===== *)
theory DeploymentAudit
  imports DeploymentUseCase
begin

text \<open>
  The deployment use cases over time: any sequence of calls against a database transaction manager.
  Each call leaves the stored state alone, adds one deployment with its audit event, or cancels one
  deployment with its audit event. Hence the audit trail lists exactly the created deployments, and
  every call refines a step of the repository.
\<close>

section \<open>Steps\<close>

inductive use_step :: "env \<Rightarrow> world \<Rightarrow> world \<Rightarrow> bool" for env where
  us_create: "CreateFormal env actor p r a e t k q w = (res, w') \<Longrightarrow> use_step env w w'"
| us_automatic: "CreateAutomatic env input w = (res, w') \<Longrightarrow> use_step env w w'"
| us_retry: "RetryFormal env actor p i k q w = (res, w') \<Longrightarrow> use_step env w w'"
| us_rollback: "RollbackFormal env actor p i rel k q w = (res, w') \<Longrightarrow> use_step env w w'"
| us_cancel: "CancelFormal env actor p i q w = (res, w') \<Longrightarrow> use_step env w w'"
| us_get: "GetFormal env actor p i w = (got, w') \<Longrightarrow> use_step env w w'"
| us_list: "ListFormal env actor p a e w = (listed, w') \<Longrightarrow> use_step env w w'"

inductive use_effect :: "env \<Rightarrow> world \<Rightarrow> world \<Rightarrow> bool" for env where
  ue_none: "stored w' = stored w \<Longrightarrow> use_effect env w w'"
| ue_create: "recorded env actor action q item d w w' \<Longrightarrow> action \<noteq> AuditActionCancel \<Longrightarrow>
     dep_wf item \<Longrightarrow> use_effect env w w'"
| ue_cancel: "mem_Get (env_ctx env) (w_repo w) p i = Inr item \<Longrightarrow> Cancel item now = Inr canceled \<Longrightarrow>
     mem_Save (env_ctx env) (w_repo w) canceled (dep_Version item) = Inr (d, w_repo w') \<Longrightarrow>
     w_audit w' = w_audit w @ [audit_event a actor p AuditActionCancel (dep_ID d) q now] \<Longrightarrow>
     use_effect env w w'"

lemma dep_wf_admission [simp]: "dep_wf (d\<lparr>dep_Admission := s\<rparr>) = dep_wf d"
  by (simp add: dep_wf_def Terminal_def)

lemma dep_wf_organization [simp]: "dep_wf (d\<lparr>dep_OrganizationID := s\<rparr>) = dep_wf d"
  by (simp add: dep_wf_def Terminal_def)

lemma dep_wf_derive: "derive action source i rel k now = Inr item \<Longrightarrow> dep_wf item"
  by (auto simp: derive_def intro: dep_wf_Retry dep_wf_Rollback split: if_splits)

lemma accepted_effect:
  "accepted env actor action q item d w w' \<Longrightarrow> action \<noteq> AuditActionCancel \<Longrightarrow> dep_wf item \<Longrightarrow>
   use_effect env w w'"
  by (auto simp: accepted_def replayed_def intro: ue_none ue_create)

lemma derived_effect:
  assumes "createDerivedFormal env actor p i rel k q action w = (res, w')"
    "action \<noteq> AuditActionCancel" "env_transaction env = Some (ManagerDatabase c)"
  shows "use_effect env w w'"
proof (cases res)
  case (Inl e)
  then show ?thesis
    using assms op_atomicD[OF createDerivedFormal_atomic[OF assms(3)]] by (blast intro: ue_none)
next
  case (Inr d)
  then show ?thesis
    using createDerivedFormal_Inr[of env actor p i rel k q action w d w'] assms
    by (auto dest: dep_wf_derive intro: accepted_effect)
qed

lemma permission_then:
  "op_bind (require_permission p perm) (\<lambda>_. f) w = (res, w') \<Longrightarrow>
     f w = (res, w') \<or> w' = w"
  by (auto simp: op_bind_def require_permission_def op_check_def split: option.splits)

lemma use_step_effect:
  assumes "use_step env w w'" and db: "env_transaction env = Some (ManagerDatabase c)"
  shows "use_effect env w w'"
  using assms(1)
proof cases
  case (us_create actor p r a e t k q res)
  show ?thesis
  proof (cases res)
    case (Inl x)
    then show ?thesis using us_create op_atomicD[OF Create_atomic(1)[OF db]] by (blast intro: ue_none)
  next
    case (Inr d)
    then show ?thesis
      using CreateFormal_Inr(2)[OF _ db] us_create by (fastforce dest: dep_wf_NewFormal intro: accepted_effect)
  qed
next
  case (us_automatic input res)
  show ?thesis
  proof (cases res)
    case (Inl x)
    then show ?thesis using us_automatic op_atomicD[OF Create_atomic(2)[OF db]] by (blast intro: ue_none)
  next
    case (Inr d)
    then show ?thesis
      using CreateAutomatic_Inr[OF _ db] us_automatic
      by (fastforce dest: dep_wf_NewAutomatic intro: accepted_effect)
  qed
next
  case (us_retry actor p i k q res)
  then show ?thesis
    unfolding RetryFormal_def using permission_then derived_effect[OF _ _ db] ue_none by blast
next
  case (us_rollback actor p i rel k q res)
  then show ?thesis
    unfolding RollbackFormal_def using permission_then derived_effect[OF _ _ db] ue_none by blast
next
  case (us_cancel actor p i q res)
  show ?thesis
  proof (cases res)
    case (Inl x)
    then show ?thesis using us_cancel op_atomicD[OF CancelFormal_atomic[OF db]] by (blast intro: ue_none)
  next
    case (Inr d)
    then show ?thesis
      using CancelFormal_Inr(2)[OF _ db] us_cancel by (blast intro: ue_cancel)
  qed
next
  case (us_get actor p i got)
  have "op_keeps stored (GetFormal env actor p i)"
    unfolding GetFormal_def with_references_def by (auto split: option.splits intro!: op_keeps_bind)
  with us_get show ?thesis by (blast dest: op_keepsD intro: ue_none)
next
  case (us_list actor p a e listed)
  have "op_keeps stored (ListFormal env actor p a e)"
    unfolding ListFormal_def with_references_def by (auto split: option.splits intro!: op_keeps_bind)
  with us_list show ?thesis by (blast dest: op_keepsD intro: ue_none)
qed

section \<open>The audit trail\<close>

definition creations :: "AuditEvent list \<Rightarrow> (string \<times> string) list" where
  "creations events = map (\<lambda>ev. (ev_ProjectID ev, ev_ResourceID ev))
     (filter (\<lambda>ev. ev_Action ev \<noteq> AuditActionCancel) events)"

definition trail :: "world \<Rightarrow> bool" where
  "trail w \<longleftrightarrow> creations (w_audit w) = map (\<lambda>d. (dep_ProjectID d, dep_ID d)) (repo_items (w_repo w))"

inductive use_reachable :: "env \<Rightarrow> world \<Rightarrow> world \<Rightarrow> bool" for env w where
  use_here: "use_reachable env w w"
| use_next: "use_reachable env w w1 \<Longrightarrow> use_step env w1 w2 \<Longrightarrow> use_reachable env w w2"

lemma Cancel_ids: "Cancel d now = Inr e \<Longrightarrow> dep_ID e = dep_ID d \<and> dep_ProjectID e = dep_ProjectID d"
  using Cancel_refs by (metis dep_refs_eq(1,2))

lemma trail_effect: "use_effect env w w' \<Longrightarrow> trail w \<Longrightarrow> trail w'"
proof (induction rule: use_effect.induct)
  case (ue_none w' w)
  then show ?case by (simp add: trail_def stored_def)
next
  case (ue_create actor action q item d w w')
  then obtain i now where
    c: "mem_Create (env_ctx env) (w_repo w) item = Inr (d, w_repo w')" and
    a: "w_audit w' = w_audit w @ [audit_event i actor (dep_ProjectID item) action (dep_ID d) q now]"
    by (auto simp: recorded_def)
  have "dep_ProjectID d = dep_ProjectID item" by (simp add: Create_Inr(3)[OF c])
  with ue_create.hyps(2) ue_create.prems a Create_Inr(4)[OF c] show ?case
    by (simp add: trail_def creations_def audit_event_def)
next
  case (ue_cancel w p i item now canceled d w' a actor q)
  from ue_cancel.hyps(3) obtain j where j: "j < length (repo_items (w_repo w))"
    "dep_ID (repo_items (w_repo w) ! j) = dep_ID canceled"
    "dep_ProjectID (repo_items (w_repo w) ! j) = dep_ProjectID canceled"
    "d = canceled\<lparr>dep_Version := dep_Version item + 1\<rparr>"
    "w_repo w' = (w_repo w)\<lparr>repo_items := (repo_items (w_repo w))[j := d]\<rparr>"
    by (elim Save_Inr)
  have "map (\<lambda>d. (dep_ProjectID d, dep_ID d)) (repo_items (w_repo w')) =
      map (\<lambda>d. (dep_ProjectID d, dep_ID d)) (repo_items (w_repo w))"
    using j by (simp add: map_update_same)
  with ue_cancel.prems ue_cancel.hyps(4) show ?case
    by (simp add: trail_def creations_def audit_event_def)
qed

lemma trail_reachable:
  "use_reachable env w w' \<Longrightarrow> env_transaction env = Some (ManagerDatabase c) \<Longrightarrow> trail w \<Longrightarrow> trail w'"
  by (induction rule: use_reachable.induct) (auto intro: trail_effect use_step_effect)

section \<open>Refinement of the repository's steps\<close>

lemma use_step_repo:
  assumes "use_step env w w'" "env_transaction env = Some (ManagerDatabase c)"
    and room: "\<And>s. cutover_counter (w_repo w) s \<noteq> -1"
  shows "w_repo w' = w_repo w \<or> repo_step (w_repo w) (w_repo w')"
  using use_step_effect[OF assms(1,2)]
proof cases
  case ue_none
  then show ?thesis by (simp add: stored_def)
next
  case (ue_create actor action q item d)
  then have c: "mem_Create (env_ctx env) (w_repo w) item = Inr (d, w_repo w')" by (simp add: recorded_def)
  with Create_Inr(1)[OF c] show ?thesis using rs_create[OF _ ue_create(3) room] by auto
next
  case (ue_cancel p i item now canceled d a actor q)
  from Get_Inr[OF ue_cancel(1)] have "env_ctx env = None" "item \<in> set (repo_items (w_repo w))" by auto
  with ue_cancel show ?thesis using rs_cancel by auto
qed

section \<open>Keys\<close>

lemma recorded_fresh:
  assumes "recorded env actor action q item d w w'" "dep_IdempotencyKey item \<noteq> []"
  shows "is_err (mem_GetByIdempotency (env_ctx env) (w_repo w) (dep_ProjectID item) (dep_IdempotencyKey item))"
proof (rule ccontr)
  assume "\<not> ?thesis"
  then obtain x where
    "mem_GetByIdempotency (env_ctx env) (w_repo w) (dep_ProjectID item) (dep_IdempotencyKey item) = Inr x"
    by (cases "mem_GetByIdempotency (env_ctx env) (w_repo w) (dep_ProjectID item) (dep_IdempotencyKey item)")
      auto
  from GetByIdempotency_Inr[OF this] have "create_conflict item (repo_items (w_repo w)) \<noteq> None"
    using assms(2) by (intro create_conflict_hit[of x]) auto
  moreover have "mem_Create (env_ctx env) (w_repo w) item = Inr (d, w_repo w')"
    using assms(1) by (simp add: recorded_def)
  ultimately show False using Create_Inr(2) by fastforce
qed

text \<open>Under a key in use a creation answers the key's deployment and writes nothing, or fails.\<close>

lemma accepted_key_in_use:
  assumes "accepted env actor action q item d w w'" "dep_IdempotencyKey item \<noteq> []"
    and "mem_GetByIdempotency (env_ctx env) (w_repo w) (dep_ProjectID item) (dep_IdempotencyKey item) = Inr x"
  shows "d = x \<and> stored w' = stored w \<and> same_intent x item"
  using assms(1) unfolding accepted_def
proof
  assume "replayed env item d w w'"
  with assms(3) show ?thesis by (auto simp: replayed_def)
next
  assume "\<exists>s. admits env item s \<and> recorded env actor action q (item\<lparr>dep_Admission := s\<rparr>) d w w'"
  then show ?thesis using recorded_fresh assms(2,3) by fastforce
qed

lemma same_intent_refl [simp]: "same_intent d d"
  by (simp add: same_intent_def)

text \<open>After a creation its key answers what it returned.\<close>

lemma accepted_key_bound:
  assumes "accepted env actor action q item d w w'" "dep_IdempotencyKey item \<noteq> []"
  shows "mem_GetByIdempotency (env_ctx env) (w_repo w') (dep_ProjectID item) (dep_IdempotencyKey item) = Inr d"
    "same_intent d item"
proof -
  have "mem_GetByIdempotency (env_ctx env) (w_repo w') (dep_ProjectID item) (dep_IdempotencyKey item) = Inr d
    \<and> same_intent d item"
    using assms(1) unfolding accepted_def
  proof
    assume "replayed env item d w w'"
    then show ?thesis by (simp add: replayed_def stored_def)
  next
    assume "\<exists>s. admits env item s \<and> recorded env actor action q (item\<lparr>dep_Admission := s\<rparr>) d w w'"
    then obtain s where
      c: "mem_Create (env_ctx env) (w_repo w) (item\<lparr>dep_Admission := s\<rparr>) = Inr (d, w_repo w')"
      by (auto simp: recorded_def)
    note d = Create_Inr(3)[OF c]
    have "\<forall>x \<in> set (repo_items (w_repo w)).
        \<not> (dep_ProjectID x = dep_ProjectID item \<and> dep_IdempotencyKey x = dep_IdempotencyKey item)"
      using Create_Inr(2)[OF c] assms(2) by (auto simp: create_conflict_None)
    then have "find (\<lambda>x. dep_ProjectID x = dep_ProjectID item \<and> dep_IdempotencyKey x = dep_IdempotencyKey item)
        (repo_items (w_repo w')) = Some d"
      using d unfolding Create_Inr(4)[OF c] by (intro find_distinct) auto
    moreover have "same_intent d item" using d by (simp add: same_intent_def)
    ultimately show ?thesis
      using Create_Inr(1)[OF c] by (simp add: mem_GetByIdempotency_def first_item_def)
  qed
  then show "mem_GetByIdempotency (env_ctx env) (w_repo w') (dep_ProjectID item) (dep_IdempotencyKey item) = Inr d"
    "same_intent d item" by auto
qed

lemma replay_or_hit:
  assumes "mem_GetByIdempotency (env_ctx env) (w_repo w) (dep_ProjectID item) (dep_IdempotencyKey item) = Inr d"
    "same_intent d item"
  shows "replay_or env item m w = (Inr d, w)"
  using assms by (simp add: replay_or_def findReplay_def repo_read_def op_bind_def op_read_def op_return_def)

end
