(* ===== verification/DeploymentSamples.thy ===== *)
theory DeploymentSamples
  imports DeploymentAudit
begin

text \<open>
  A concrete environment and concrete worlds, on which the properties of the deployment use cases
  are applied: a database transaction manager, an admission service that seals an empty policy
  decision, and an audit recorder that is down for cancellations.
\<close>

definition sample_json :: admission_json where
  "sample_json = \<lparr>marshal_evidence = \<lambda>_. Some ''{}'', marshal_snapshot = \<lambda>_. Some ''{}''\<rparr>"

definition sample_base :: AdmissionSnapshot where
  "sample_base = empty_snapshot\<lparr>EvaluatedAt := 5000000, EnvironmentStage := ''development'',
     Decision := AdmissionNotConfigured\<rparr>"

definition sample_snapshot :: AdmissionSnapshot where
  "sample_snapshot = sample_base\<lparr>EvidenceSetDigest := digest_text ''{}'', EvaluationDigest := digest_text ''{}''\<rparr>"

definition sample_owner :: Principal where
  "sample_owner = \<lparr>UserID = ''u'', OrganizationID = ''o'', Email = ''e'', PrincipalRole = RoleOwner,
     SessionID = ''s''\<rparr>"

definition sample_refs :: references where
  "sample_refs = \<lparr>ref_ValidateProject = \<lambda>_ _. None, ref_Validate = \<lambda>_ _ _ _ _. None\<rparr>"

definition sample_env :: env where
  "sample_env = \<lparr>env_ctx = None, env_newID = \<lambda>n. Inr (replicate (Suc n) CHR ''i''),
     env_now = \<lambda>n. int n + 1000, env_formal = Some sample_refs, env_automatic = Some sample_refs,
     env_transaction = Some (ManagerDatabase None),
     env_audit = Some (\<lambda>ev. if ev_Action ev = AuditActionCancel then Some (ErrContext ''down'') else None),
     env_admission = Some (\<lambda>_. Inr sample_snapshot), env_fence = Some (\<lambda>_ _ _. Inr True),
     env_json = sample_json\<rparr>"

definition sample_start :: world where
  "sample_start = \<lparr>w_repo = NewMemoryRepository, w_audit = [], w_ids = 0, w_ticks = 0\<rparr>"

definition sample_create :: "world \<Rightarrow> (dep_error + Deployment) \<times> world" where
  "sample_create = CreateFormal sample_env sample_owner ''p'' ''r'' ''a'' ''e'' ''t'' ''k'' ''q''"

definition sample_deployment :: Deployment where
  "sample_deployment = \<lparr>dep_ID = ''i'', dep_OrganizationID = ''o'', dep_ProjectID = ''p'', dep_ReleaseID = ''r'',
     dep_ApplicationID = ''a'', dep_EnvironmentID = ''e'', dep_RuntimeTargetID = ''t'',
     dep_IdempotencyKey = ''k'', dep_Operation = OperationDeploy, dep_TriggerSource = TriggerSourceManual,
     dep_SourceArtifactID = [], dep_SourceBuildID = [], dep_BuildConfigurationID = [],
     dep_SourceDeploymentID = [], dep_Revision = [], dep_Status = StatusQueued,
     dep_FailureCategory = NoFailure, dep_CutoverSequence = 1, dep_CreatedAt = 1000, dep_UpdatedAt = 1000,
     dep_Version = 1, dep_Lease = empty_lease, dep_Admission = sample_snapshot\<rparr>"

definition sample_world :: world where
  "sample_world = \<lparr>w_repo = \<lparr>repo_items = [sample_deployment],
       cutoverSequences = [CutoverScope sample_deployment \<mapsto> 1]\<rparr>,
     w_audit = [audit_event ''ii'' sample_owner ''p'' AuditActionCreate ''i'' ''q'' 1001],
     w_ids = 2, w_ticks = 2\<rparr>"

lemma sample_digest: "validAdmissionDigest (digest_text x)"
  using sha256_hex_decodable by (simp add: validAdmissionDigest_def digest_text_def has_prefix_def trim_prefix_def)

lemma sample_snapshot_valid [simp]: "AdmissionSnapshot_Validate sample_json sample_snapshot = None"
  by (simp add: AdmissionSnapshot_Validate_def sample_json_def sample_snapshot_def sample_base_def
      empty_snapshot_def valid_header_def valid_decision_def valid_subject_def valid_parts_def
      digests_match_def evidence_content_def or_empty_def sample_digest)

lemma sample_env_simps [simp]:
  "env_ctx sample_env = None" "env_newID sample_env n = Inr (replicate (Suc n) CHR ''i'')"
  "env_now sample_env n = int n + 1000" "env_formal sample_env = Some sample_refs"
  "env_transaction sample_env = Some (ManagerDatabase None)"
  "env_json sample_env = sample_json" "env_fence sample_env = Some (\<lambda>_ _ _. Inr True)"
  "env_admission sample_env = Some (\<lambda>_. Inr sample_snapshot)"
  by (simp_all add: sample_env_def)

lemma sample_refs_simps [simp]:
  "ref_ValidateProject sample_refs a b = None" "ref_Validate sample_refs a b c d e = None"
  by (simp_all add: sample_refs_def)

lemma sample_allowed [simp]: "Principal_Require sample_owner p = None"
  by (simp add: Principal_Require_def sample_owner_def Principal_Valid_def allowed_def)

lemma sample_ids [simp]: "UserID sample_owner = ''u''" "OrganizationID sample_owner = ''o''"
  by (simp_all add: sample_owner_def)

lemma sample_audit [simp]: "env_audit sample_env =
    Some (\<lambda>ev. if ev_Action ev = AuditActionCancel then Some (ErrContext ''down'') else None)"
  by (simp add: sample_env_def)

lemma sample_trim [simp]:
  "trim_space ''p'' = ''p''" "trim_space ''r'' = ''r''" "trim_space ''a'' = ''a''" "trim_space ''e'' = ''e''"
  "trim_space ''t'' = ''t''" "trim_space ''k'' = ''k''" "trim_space ''i'' = ''i''" "trim_space [] = []"
  by code_simp+

lemmas run_simps = op_bind_def op_return_def op_fail_def op_check_def op_guard_def op_lift_def op_read_def
  require_permission_def with_security_def with_references_def newID_def now_call_def replay_or_def
  findReplay_def repo_read_def repo_write_def validate_references_def evaluateAdmission_def
  persistFormal_def resolve_duplicate_def persist_body_def record_audit_def

lemma sample_not_denied [simp]: "Decision sample_snapshot \<noteq> AdmissionDenied"
  by (simp add: sample_snapshot_def sample_base_def)

lemma sample_Create_eval:
  "mem_Create None NewMemoryRepository d = (let stored = d\<lparr>dep_Version := (if dep_Version d = 0 then 1 else dep_Version d),
     dep_CutoverSequence := 1\<rparr> in Inr (stored, \<lparr>repo_items = [stored], cutoverSequences = [CutoverScope d \<mapsto> 1]\<rparr>))"
  by (simp add: mem_Create_def NewMemoryRepository_def Let_def cutover_counter_def CutoverScope_def)

lemma sample_created: "sample_create sample_start = (Inr sample_deployment, sample_world)"
proof -
  have [simp]: "mem_GetByIdempotency None NewMemoryRepository x y = Inl ErrNotFound" for x y
    by (simp add: mem_GetByIdempotency_def first_item_def NewMemoryRepository_def)
  show ?thesis
    by (simp add: sample_create_def CreateFormal_def run_simps sample_start_def NewFormal_def New_def Let_def
        sample_Create_eval audit_event_def sample_world_def sample_deployment_def CutoverScope_def)
qed

end
