(* ===== verification/DeploymentProperties.thy ===== *)
theory DeploymentProperties
  imports DeploymentSamples
begin

text \<open>
  The properties of the deployment core: the use cases, the repository under all interleavings, the
  state machine and its leases. Each applies the lemmas of the component theories, with a witness on
  concrete data where it has hypotheses.
\<close>

section \<open>Creation\<close>

lemma NewFormal_same:
  "NewFormal i p r a e t k now = Inr f \<Longrightarrow>
   NewFormal j p r a e t k now' =
     Inr (f\<lparr>dep_ID := trim_space j, dep_CreatedAt := utc now', dep_UpdatedAt := utc now'\<rparr>)"
  by (auto simp: NewFormal_def New_def bind_result_eq_Inr split: if_splits)

lemma NewFormal_key: "NewFormal i p r a e t k now = Inr f \<Longrightarrow>
    dep_IdempotencyKey f \<noteq> [] \<and> dep_IdempotencyKey f = trim_space k \<and> dep_ProjectID f = trim_space p"
  by (auto simp: NewFormal_def New_def bind_result_eq_Inr split: if_splits)

lemma CreateFormal_conditions:
  assumes "CreateFormal env actor p r a e t k q w = (Inr d, w')"
    and "env_transaction env = Some (ManagerDatabase c)"
  obtains i now formal refs recorder where
    "Principal_Require actor PermissionDeploymentCreate = None" "env_formal env = Some refs"
    "env_audit env = Some recorder" "NewFormal i p r a e t k now = Inr formal"
    "ref_ValidateProject refs (OrganizationID actor) (dep_ProjectID formal) = None"
proof -
  have "\<exists>i now formal refs recorder. Principal_Require actor PermissionDeploymentCreate = None \<and>
    env_formal env = Some refs \<and> env_audit env = Some recorder \<and> NewFormal i p r a e t k now = Inr formal \<and>
    ref_ValidateProject refs (OrganizationID actor) (dep_ProjectID formal) = None"
    using assms unfolding CreateFormal_def Let_def
    by (auto elim!: op_bind_InrE dest!: with_references_Inr with_security_Inr newID_Inr now_call_Inr) blast
  then show ?thesis using that by blast
qed

lemma CreateFormal_repeat:
  assumes first: "CreateFormal env actor p r a e t k q w = (Inr d, w1)"
    and db: "env_transaction env = Some (ManagerDatabase c)"
    and key: "env_newID env (w_ids w1) = Inr j"
  shows "\<exists>w2. CreateFormal env actor p r a e t k q' w1 = (Inr d, w2) \<and> stored w2 = stored w1"
proof -
  obtain i now formal refs recorder where c:
    "Principal_Require actor PermissionDeploymentCreate = None" "env_formal env = Some refs"
    "env_audit env = Some recorder" "NewFormal i p r a e t k now = Inr formal"
    "ref_ValidateProject refs (OrganizationID actor) (dep_ProjectID formal) = None"
    using first db by (rule CreateFormal_conditions)
  obtain i1 now1 formal1 where f1: "NewFormal i1 p r a e t k now1 = Inr formal1" and
    acc: "accepted env actor AuditActionCreate q (formal1\<lparr>dep_OrganizationID := OrganizationID actor\<rparr>) d w w1"
    using CreateFormal_Inr(2)[OF first db] by blast
  define w2 where "w2 = w1\<lparr>w_ids := Suc (w_ids w1), w_ticks := Suc (w_ticks w1)\<rparr>"
  define item where "item = formal1\<lparr>dep_ID := trim_space j, dep_CreatedAt := utc (env_now env (w_ticks w1)),
    dep_UpdatedAt := utc (env_now env (w_ticks w1)), dep_OrganizationID := OrganizationID actor\<rparr>"
  have f2: "NewFormal j p r a e t k (env_now env (w_ticks w1)) = Inr (formal1\<lparr>dep_ID := trim_space j,
      dep_CreatedAt := utc (env_now env (w_ticks w1)), dep_UpdatedAt := utc (env_now env (w_ticks w1))\<rparr>)"
    by (rule NewFormal_same[OF f1])
  have bound: "mem_GetByIdempotency (env_ctx env) (w_repo w2) (dep_ProjectID item) (dep_IdempotencyKey item) = Inr d"
    "same_intent d item"
    using accepted_key_bound[OF acc] NewFormal_key[OF f1] by (auto simp: w2_def item_def same_intent_def)
  have vp: "ref_ValidateProject refs (OrganizationID actor) (dep_ProjectID formal1) = None"
    using c(5) NewFormal_key[OF f1] NewFormal_key[OF c(4)] by simp
  have "CreateFormal env actor p r a e t k q' w1 = (Inr d, w2)"
    using c(1-3) db key f2 vp replay_or_hit[OF bound]
    by (simp add: CreateFormal_def op_bind_def require_permission_def op_check_def with_security_def
        with_references_def newID_def now_call_def op_lift_def w2_def item_def Let_def)
  moreover have "stored w2 = stored w1" by (simp add: w2_def stored_def)
  ultimately show ?thesis by blast
qed

text \<open>
  C7: with the transaction manager of the database, over any sequence of use case calls from an empty
  repository and trail, successful or failing, the audit trail holds exactly one creation event per deployment,
  in the order of creation: no deployment without its event, no event without its deployment.
\<close>

theorem audit_trail_exact:
  assumes "env_transaction env = Some (ManagerDatabase c)"
    and "w_repo w0 = NewMemoryRepository" "w_audit w0 = []"
    and "use_reachable env w0 w"
  shows "creations (w_audit w) = map (\<lambda>d. (dep_ProjectID d, dep_ID d)) (repo_items (w_repo w))"
proof -
  have "trail w0" using assms(2,3) by (simp add: trail_def creations_def NewMemoryRepository_def)
  with trail_reachable[OF assms(4,1)] show ?thesis by (simp add: trail_def)
qed

theorem audit_trail_exact_witness:
  "creations (w_audit sample_world) = [(''p'', ''i'')]"
proof -
  have "use_reachable sample_env sample_start sample_world"
    using sample_created use_next[OF use_here us_create] by (simp add: sample_create_def)
  from audit_trail_exact[OF _ _ _ this] show ?thesis
    by (simp add: sample_start_def) (simp add: sample_world_def sample_deployment_def)
qed

text \<open>
  C8: submitting the same creation again answers the deployment of the first call and writes
  nothing, whatever the request id and the state of the clock and of the admission service.
\<close>

theorem create_idempotent:
  assumes "CreateFormal env actor p r a e t k q w = (Inr d, w1)"
    and "env_transaction env = Some (ManagerDatabase c)" "env_newID env (w_ids w1) = Inr j"
  shows "\<exists>w2. CreateFormal env actor p r a e t k q' w1 = (Inr d, w2) \<and> stored w2 = stored w1"
  using assms by (rule CreateFormal_repeat)

theorem create_idempotent_witness:
  "\<exists>w2. sample_create sample_world = (Inr sample_deployment, w2) \<and> stored w2 = stored sample_world"
  using create_idempotent[of sample_env sample_owner "''p''" "''r''" "''a''" "''e''" "''t''" "''k''" "''q''"
      sample_start sample_deployment sample_world None "''iii''" "''q''"] sample_created
  by (simp add: sample_create_def) (simp add: sample_world_def eval_nat_numeral)

text \<open>
  C22: a created deployment was permitted to its creator, and is either the stored answer of an
  earlier request with the same intent, nothing being written, or is stored once with one audit
  event, carrying a valid admission snapshot that is not a denial.
\<close>

theorem create_outcome:
  assumes "env_transaction env = Some (ManagerDatabase c)"
    and "CreateFormal env actor p r a e t k q w = (Inr d, w')"
  shows "Principal_Require actor PermissionDeploymentCreate = None \<and>
    (stored w' = stored w \<and>
       mem_GetByIdempotency (env_ctx env) (w_repo w) (trim_space p) (trim_space k) = Inr d \<or>
     repo_items (w_repo w') = repo_items (w_repo w) @ [d] \<and>
       (\<exists>ev. w_audit w' = w_audit w @ [ev] \<and> ev_ResourceID ev = dep_ID d \<and> ev_ActorID ev = UserID actor \<and>
          ev_Action ev = AuditActionCreate \<and> ev_RequestID ev = q) \<and>
       AdmissionSnapshot_Validate (env_json env) (dep_Admission d) = None \<and>
       Decision (dep_Admission d) \<noteq> AdmissionDenied)"
proof -
  obtain i now formal where f: "NewFormal i p r a e t k now = Inr formal" and
    acc: "accepted env actor AuditActionCreate q (formal\<lparr>dep_OrganizationID := OrganizationID actor\<rparr>) d w w'"
    using CreateFormal_Inr(2)[OF assms(2,1)] by blast
  from acc NewFormal_key[OF f] CreateFormal_Inr(1)[OF assms(2,1)] show ?thesis
    unfolding accepted_def
    by (auto simp: replayed_def recorded_def audit_event_def admits_def dest: Create_Inr(3,4))
qed

theorem create_outcome_witness:
  "Principal_Require sample_owner PermissionDeploymentCreate = None \<and>
    (stored sample_world = stored sample_start \<and>
       mem_GetByIdempotency (env_ctx sample_env) (w_repo sample_start) (trim_space ''p'') (trim_space ''k'') =
         Inr sample_deployment \<or>
     repo_items (w_repo sample_world) = repo_items (w_repo sample_start) @ [sample_deployment] \<and>
       (\<exists>ev. w_audit sample_world = w_audit sample_start @ [ev] \<and> ev_ResourceID ev = dep_ID sample_deployment \<and>
          ev_ActorID ev = UserID sample_owner \<and>
          ev_Action ev = AuditActionCreate \<and> ev_RequestID ev = ''q'') \<and>
       AdmissionSnapshot_Validate (env_json sample_env) (dep_Admission sample_deployment) = None \<and>
       Decision (dep_Admission sample_deployment) \<noteq> AdmissionDenied)"
  by (rule create_outcome[of sample_env None sample_owner "''p''" "''r''" "''a''" "''e''" "''t''" "''k''" "''q''"])
     (use sample_created in \<open>simp_all add: sample_create_def\<close>)

text \<open>
  C23: with the transaction manager of the database, a failed call of any use case leaves deployments and audit
  events as they were, also when the failure is the audit recorder's or the commit's, after the deployment was
  written (a commit that reports an error has not happened). (\<open>Passthrough\<close> rolls nothing back: with it a failing recorder leaves the deployment stored.)
\<close>

theorem failed_call_changes_nothing:
  assumes "env_transaction env = Some (ManagerDatabase c)"
    and "CreateFormal env actor p r a e t k q w = (Inl x, w') \<or> CreateAutomatic env input w = (Inl x, w') \<or>
      RetryFormal env actor p i k q w = (Inl x, w') \<or> RollbackFormal env actor p i rel k q w = (Inl x, w') \<or>
      CancelFormal env actor p i q w = (Inl x, w')"
  shows "w_repo w' = w_repo w \<and> w_audit w' = w_audit w"
proof -
  have "stored w' = stored w"
    using assms(2) op_atomicD[OF Create_atomic(1)[OF assms(1)]] op_atomicD[OF Create_atomic(2)[OF assms(1)]]
      op_atomicD[OF Derived_atomic(1)[OF assms(1)]] op_atomicD[OF Derived_atomic(2)[OF assms(1)]]
      op_atomicD[OF CancelFormal_atomic[OF assms(1)]] by (elim disjE) auto
  then show ?thesis by (simp add: stored_def)
qed

theorem failed_call_changes_nothing_witness:
  "\<exists>w'. CancelFormal sample_env sample_owner ''p'' ''i'' ''q'' sample_world = (Inl (ErrContext ''down''), w') \<and>
     w_repo w' = w_repo sample_world \<and> w_audit w' = w_audit sample_world"
proof -
  have "\<exists>w'. CancelFormal sample_env sample_owner ''p'' ''i'' ''q'' sample_world = (Inl (ErrContext ''down''), w')"
    by (simp add: CancelFormal_def run_simps sample_world_def sample_deployment_def mem_Get_def first_item_def
        Cancel_def Terminal_def Transition_def transition_valid_def mem_Save_def Let_def audit_event_def)
  then show ?thesis
    using failed_call_changes_nothing[of sample_env None sample_owner "''p''" _ _ _ _ _ "''q''" sample_world]
    by (metis sample_env_simps(5))
qed

text \<open>
  Under an idempotency key that is in use, no creation, retry or rollback stores anything: what
  succeeds answers the deployment of the key.
\<close>

theorem key_in_use:
  assumes "env_transaction env = Some (ManagerDatabase c)"
    and "mem_GetByIdempotency (env_ctx env) (w_repo w) (trim_space p) (trim_space k) = Inr x"
    and "CreateFormal env actor p r a e t k q w = (Inr d, w')"
  shows "d = x \<and> stored w' = stored w \<and> dep_ReleaseID x = trim_space r"
proof -
  obtain i now formal where f: "NewFormal i p r a e t k now = Inr formal" and
    acc: "accepted env actor AuditActionCreate q (formal\<lparr>dep_OrganizationID := OrganizationID actor\<rparr>) d w w'"
    using CreateFormal_Inr(2)[OF assms(3,1)] by blast
  from accepted_key_in_use[OF acc] NewFormal_key[OF f] NewFormal_Inr[OF f] assms(2) show ?thesis
    by (simp add: same_intent_def)
qed

theorem key_in_use_witness:
  "\<exists>w'. sample_create sample_world = (Inr sample_deployment, w') \<and> stored w' = stored sample_world"
proof -
  have g: "mem_GetByIdempotency (env_ctx sample_env) (w_repo sample_world) (trim_space ''p'') (trim_space ''k'') =
      Inr sample_deployment"
    by (simp add: mem_GetByIdempotency_def first_item_def sample_world_def sample_deployment_def)
  have "env_newID sample_env (w_ids sample_world) = Inr (replicate (Suc (w_ids sample_world)) CHR ''i'')"
    by simp
  then obtain w' where w': "sample_create sample_world = (Inr sample_deployment, w')"
    using CreateFormal_repeat[of sample_env sample_owner "''p''" "''r''" "''a''" "''e''" "''t''" "''k''" "''q''"
      sample_start sample_deployment sample_world None _ "''q''"] sample_created
    by (auto simp: sample_create_def)
  from key_in_use[OF _ g] w' show ?thesis by (auto simp: sample_create_def)
qed

section \<open>Derived deployments and cancellation\<close>

text \<open>
  A rollback needs the rollback permission and a final source deployment of another release; it
  only starts (rather than replaying an earlier request) when the release to return to has succeeded
  before in the same application, environment and runtime target.
\<close>

theorem rollback_requires_success:
  assumes "env_transaction env = Some (ManagerDatabase c)"
    and "RollbackFormal env actor p i rel k q w = (Inr d, w')"
  shows "Principal_Require actor PermissionDeploymentRollback = None \<and>
    (\<exists>source \<in> set (repo_items (w_repo w)). dep_ID source = i \<and> dep_ProjectID source = p \<and> Terminal source \<and>
       dep_ReleaseID source \<noteq> trim_space rel \<and> dep_SourceDeploymentID d = i \<and>
       dep_Operation d = OperationRollback \<and> dep_ReleaseID d = trim_space rel \<and>
       (stored w' = stored w \<or>
        (\<exists>s \<in> set (repo_items (w_repo w)). dep_Status s = StatusSucceeded \<and> dep_ReleaseID s = trim_space rel \<and>
           dep_ApplicationID s = dep_ApplicationID d \<and> dep_EnvironmentID s = dep_EnvironmentID d \<and>
           dep_RuntimeTargetID s = dep_RuntimeTargetID d)))"
proof -
  have perm: "Principal_Require actor PermissionDeploymentRollback = None"
    and run: "createDerivedFormal env actor p i rel k q AuditActionRollback w = (Inr d, w')"
    using assms(2) by (auto simp: RollbackFormal_def elim!: op_bind_InrE)
  obtain source j now item where
    g: "mem_Get (env_ctx env) (w_repo w) p i = Inr source" and
    dv: "derive AuditActionRollback source j rel k now = Inr item" and
    acc: "accepted env actor AuditActionRollback q item d w w'" and
    suc: "replayed env item d w w' \<or>
         mem_HasSucceeded (env_ctx env) (w_repo w) (dep_ProjectID item) (dep_ReleaseID item)
           (dep_ApplicationID item) (dep_EnvironmentID item) (dep_RuntimeTargetID item) = Inr True"
    using createDerivedFormal_Inr[OF run assms(1)] by blast
  from Get_Inr[OF g] have src: "env_ctx env = None" "source \<in> set (repo_items (w_repo w))" "dep_ProjectID source = p"
    "dep_ID source = i" by auto
  from dv have t: "Terminal source" "dep_ReleaseID source \<noteq> trim_space rel" "dep_SourceDeploymentID item = dep_ID source"
    "dep_Operation item = OperationRollback" "dep_ReleaseID item = trim_space rel" "dep_IdempotencyKey item \<noteq> []"
    by (auto simp: derive_def Rollback_def bind_result_eq_Inr dest!: NewFormal_Inr split: if_splits)
  have same: "same_intent d item" by (rule accepted_key_bound(2)[OF acc t(6)])
  have "stored w' = stored w \<or>
      (\<exists>s \<in> set (repo_items (w_repo w)). dep_Status s = StatusSucceeded \<and> dep_ReleaseID s = trim_space rel \<and>
           dep_ApplicationID s = dep_ApplicationID d \<and> dep_EnvironmentID s = dep_EnvironmentID d \<and>
           dep_RuntimeTargetID s = dep_RuntimeTargetID d)"
    using suc same t(5) src(1)
    by (auto simp: replayed_def mem_HasSucceeded_def list_ex_iff same_intent_def)
  with perm src t same show ?thesis by (auto simp: same_intent_def)
qed

definition rollback_source :: Deployment where
  "rollback_source = sample_deployment\<lparr>dep_Status := StatusFailed, dep_FailureCategory := FailureUnknown\<rparr>"

definition rollback_goal :: Deployment where
  "rollback_goal = sample_deployment\<lparr>dep_ID := ''g'', dep_IdempotencyKey := ''kg'', dep_ReleaseID := ''r0'',
     dep_Status := StatusSucceeded, dep_CutoverSequence := 0\<rparr>"

definition rollback_world :: world where
  "rollback_world = sample_world\<lparr>w_repo := (w_repo sample_world)\<lparr>repo_items := [rollback_goal, rollback_source]\<rparr>\<rparr>"

lemma rollback_trim [simp]: "trim_space ''r0'' = ''r0''" "trim_space ''kr'' = ''kr''" "trim_space ''iii'' = ''iii''"
  by code_simp+

theorem rollback_requires_success_witness:
  "\<exists>d w'. RollbackFormal sample_env sample_owner ''p'' ''i'' ''r0'' ''kr'' ''q'' rollback_world = (Inr d, w') \<and>
     dep_ReleaseID d = ''r0'' \<and> dep_SourceDeploymentID d = ''i''"
proof -
  have r: "w_ids rollback_world = 2" "w_ticks rollback_world = 2" "w_audit rollback_world = w_audit sample_world"
    "repo_items (w_repo rollback_world) = [rollback_goal, rollback_source]"
    by (simp_all add: rollback_world_def sample_world_def)
  have "\<exists>d w'. RollbackFormal sample_env sample_owner ''p'' ''i'' ''r0'' ''kr'' ''q'' rollback_world = (Inr d, w')"
    by (simp add: RollbackFormal_def createDerivedFormal_def run_simps r mem_Get_def first_item_def
        rollback_goal_def rollback_source_def sample_deployment_def derive_def Rollback_def Terminal_def
        NewFormal_def New_def mem_GetByIdempotency_def require_succeeded_def mem_HasSucceeded_def
        mem_Create_def Let_def eval_nat_numeral audit_event_def)
  then obtain d w' where
    w': "RollbackFormal sample_env sample_owner ''p'' ''i'' ''r0'' ''kr'' ''q'' rollback_world = (Inr d, w')" by blast
  from rollback_requires_success[OF _ this] show ?thesis using w' by auto
qed

text \<open>
  A cancellation needs its permission; it moves one stored deployment that is not final to
  canceling, under a new version, and adds one audit event.
\<close>

theorem cancel_outcome:
  assumes "env_transaction env = Some m"
    and "CancelFormal env actor p i q w = (Inr d, w')"
  shows "Principal_Require actor PermissionDeploymentCancel = None \<and>
    (\<exists>old ev k. k < length (repo_items (w_repo w)) \<and> old \<in> set (repo_items (w_repo w)) \<and> dep_ID old = i \<and>
       dep_ProjectID old = p \<and> \<not> Terminal old \<and> dep_Status old \<noteq> StatusCommitting \<and>
       dep_Status d = StatusCanceling \<and>
       d = old\<lparr>dep_Status := StatusCanceling, dep_FailureCategory := NoFailure,
              dep_UpdatedAt := dep_UpdatedAt d, dep_Version := dep_Version old + 1\<rparr> \<and>
       repo_items (w_repo w') = (repo_items (w_repo w))[k := d] \<and>
       w_audit w' = w_audit w @ [ev] \<and> ev_Action ev = AuditActionCancel \<and> ev_ResourceID ev = i \<and>
       ev_ActorID ev = UserID actor)"
proof -
  obtain item now canceled a where
    g: "mem_Get (env_ctx env) (w_repo w) p i = Inr item" and cn: "Cancel item now = Inr canceled" and
    sv: "mem_Save (env_ctx env) (w_repo w) canceled (dep_Version item) = Inr (d, w_repo w')" and
    au: "w_audit w' = w_audit w @ [audit_event a actor p AuditActionCancel (dep_ID d) q now]"
    using CancelFormal_Inr(2)[OF assms(2,1)] by blast
  obtain k where k: "k < length (repo_items (w_repo w))" "d = canceled\<lparr>dep_Version := dep_Version item + 1\<rparr>"
    "w_repo w' = (w_repo w)\<lparr>repo_items := (repo_items (w_repo w))[k := d]\<rparr>"
    using sv by (elim Save_Inr)
  have old: "item \<in> set (repo_items (w_repo w))" "dep_ID item = i" "dep_ProjectID item = p"
    using Get_Inr[OF g] by auto
  have cd: "\<not> Terminal item" "dep_Status item \<noteq> StatusCommitting"
    "d = item\<lparr>dep_Status := StatusCanceling, dep_FailureCategory := NoFailure,
              dep_UpdatedAt := dep_UpdatedAt d, dep_Version := dep_Version item + 1\<rparr>" "dep_ID d = i" "dep_Status d = StatusCanceling"
    using cn k(2) old(2) by (auto simp: Cancel_Inr transition_valid_def Terminal_def)
  show ?thesis
    using CancelFormal_Inr(1)[OF assms(2,1)] old cd k au
    by (intro conjI exI[of _ item] exI[of _ "audit_event a actor p AuditActionCancel (dep_ID d) q now"] exI[of _ k])
       (auto simp: audit_event_def)
qed

definition quiet_env :: env where
  "quiet_env = sample_env\<lparr>env_audit := Some (\<lambda>_. None)\<rparr>"

theorem cancel_outcome_witness:
  "\<exists>d w'. CancelFormal quiet_env sample_owner ''p'' ''i'' ''q'' sample_world = (Inr d, w') \<and>
     dep_Status d = StatusCanceling"
proof -
  have "\<exists>d w'. CancelFormal quiet_env sample_owner ''p'' ''i'' ''q'' sample_world = (Inr d, w')"
    by (simp add: CancelFormal_def quiet_env_def run_simps sample_world_def sample_deployment_def mem_Get_def
        first_item_def Cancel_def Terminal_def Transition_def transition_valid_def mem_Save_def Let_def)
  then obtain d w' where w': "CancelFormal quiet_env sample_owner ''p'' ''i'' ''q'' sample_world = (Inr d, w')"
    by blast
  have "env_transaction quiet_env = Some (ManagerDatabase None)" by (simp add: quiet_env_def)
  from cancel_outcome[OF this w'] have "dep_Status d = StatusCanceling" by blast
  with w' show ?thesis by blast
qed

section \<open>The repository under interleavings\<close>

text \<open>
  C24: every call of a use case, whatever its outcome, refines at most one step of the repository's
  step relation, in which the worker's operations interleave.
\<close>

theorem use_cases_refine_repository:
  assumes "env_transaction env = Some (ManagerDatabase c)"
    and "\<And>s. cutover_counter (w_repo w) s \<noteq> -1" and "use_step env w w'"
  shows "w_repo w' = w_repo w \<or> repo_step (w_repo w) (w_repo w')"
  using use_step_repo[OF assms(3,1,2)] .

theorem use_cases_refine_repository_witness:
  "repo_step NewMemoryRepository (w_repo sample_world)"
proof -
  have "use_step sample_env sample_start sample_world"
    using sample_created us_create by (simp add: sample_create_def)
  from use_cases_refine_repository[OF _ _ this, of None]
  have "w_repo sample_world = w_repo sample_start \<or> repo_step (w_repo sample_start) (w_repo sample_world)"
    by (simp add: sample_start_def NewMemoryRepository_def cutover_counter_def)
  then show ?thesis by (simp add: sample_start_def NewMemoryRepository_def sample_world_def)
qed

text \<open>
  C25: in every reachable repository deployments have distinct ids, non-empty idempotency keys are
  unique in their project, no two deployments share a place in the cutover order of a slot, none is
  ahead of its slot's counter, and leases and failure categories agree with the status.
\<close>

theorem repository_invariant:
  assumes "repo_reachable NewMemoryRepository r"
  shows "distinct (map dep_ID (repo_items r)) \<and>
    distinct (map (\<lambda>d. (dep_ProjectID d, dep_IdempotencyKey d))
      (filter (\<lambda>d. dep_IdempotencyKey d \<noteq> []) (repo_items r))) \<and>
    distinct (map (\<lambda>d. (CutoverScope d, dep_CutoverSequence d)) (repo_items r)) \<and>
    (\<forall>d \<in> set (repo_items r). dep_CutoverSequence d \<le> cutover_counter r (CutoverScope d) \<and> dep_wf d)"
  using repo_reachable_ok[OF assms repo_ok_new]
  by (simp add: repo_ok_def repo_inv_def unique_keys_def slot_key_def[abs_def])

lemma sample_reachable: "repo_reachable NewMemoryRepository (w_repo sample_world)"
proof -
  have "use_step sample_env sample_start sample_world"
    using sample_created us_create by (simp add: sample_create_def)
  from use_step_repo[OF this, of None] show ?thesis
    by (auto simp: sample_start_def NewMemoryRepository_def cutover_counter_def sample_world_def
        intro: reach_step[OF reach_here])
qed

theorem repository_invariant_witness:
  "dep_wf sample_deployment \<and>
   dep_CutoverSequence sample_deployment \<le> cutover_counter (w_repo sample_world) (CutoverScope sample_deployment)"
  using repository_invariant[OF sample_reachable] by (simp add: sample_world_def)

lemma refused_fence:
  "repo_ok r \<Longrightarrow> superseded k g r \<Longrightarrow> mem_ValidateFence None r p k w g now = Some ErrStaleExecution"
  using superseded_fence[of r k g None p w now]
  by (auto simp: mem_ValidateFence_def split: option.splits if_splits)

lemma sample_ok: "repo_ok (w_repo sample_world)"
  using repo_reachable_ok[OF sample_reachable repo_ok_new] .

definition sample_claim :: Claim where
  "sample_claim = \<lparr>claim_WorkerID = ''w'', claim_Now = 2000, claim_ExpiresAt = 3000\<rparr>"

lemma sample_items [simp]: "repo_items (w_repo sample_world) = [sample_deployment]"
  by (simp add: sample_world_def)

lemma sample_available [simp]: "available 2000 sample_deployment"
  by (simp add: available_def sample_deployment_def Lease_Active_def empty_lease_def)

lemma sample_trim_w [simp]: "trim_space ''w'' = ''w''"
  by code_simp

lemma sample_claimed:
  "mem_ClaimNext None (w_repo sample_world) sample_claim =
     Inr (Some (claimed sample_claim sample_deployment),
       (w_repo sample_world)\<lparr>repo_items := [claimed sample_claim sample_deployment]\<rparr>)"
  by (subst ClaimNext_eq) (simp_all add: sample_claim_def claim_first_def)

lemma sample_generation [simp]: "lease_Generation (dep_Lease sample_deployment) = 0"
  by (simp add: sample_deployment_def empty_lease_def)

text \<open>
  C2: once a deployment has been claimed again, the fence of its previous execution is refused at
  every later point of the run, whatever users and workers do.
\<close>

theorem takeover_fences_forever:
  assumes "repo_ok r" "mem_ClaimNext None r c = Inr (Some d, r')" "repo_reachable r' s"
    and "\<And>x. x \<in> set (repo_items r) \<Longrightarrow> lease_Generation (dep_Lease x) \<noteq> -1"
    and "e \<in> set (repo_items r)" "dep_ID e = dep_ID d"
  shows "mem_ValidateFence None s p (dep_ID d) v (lease_Generation (dep_Lease e)) now = Some ErrStaleExecution"
proof -
  have "repo_step r r'" using assms(2,4) by (rule rs_claim)
  then have ok: "repo_ok r'" using assms(1) repo_ok_change repo_step_change by blast
  have "superseded (dep_ID d) (lease_Generation (dep_Lease e)) s"
    using superseded_forever[OF assms(3) ok] claim_supersedes[OF assms(1,2,5,6) assms(4)[OF assms(5)]] by blast
  from refused_fence[OF repo_reachable_ok[OF assms(3) ok] this] show ?thesis .
qed

theorem takeover_fences_forever_witness:
  "mem_ValidateFence None ((w_repo sample_world)\<lparr>repo_items := [claimed sample_claim sample_deployment]\<rparr>)
     ''p'' ''i'' ''old'' 0 2500 = Some ErrStaleExecution"
proof -
  have "dep_ID (claimed sample_claim sample_deployment) = ''i''" "dep_ID sample_deployment = ''i''"
    by (simp_all add: claimed_def sample_deployment_def)
  with takeover_fences_forever[OF sample_ok sample_claimed reach_here, of sample_deployment "''p''" "''old''" 2500]
  show ?thesis by simp
qed

text \<open>
  C3: once a newer deployment has been created in its slot (project, application, environment and
  runtime target), a deployment's fences, of whatever generation, are refused at every later point.
\<close>

theorem newer_deployment_fences_forever:
  assumes "repo_ok r" "mem_Create None r item = Inr (d, r')" "dep_wf item"
    and "cutover_counter r (CutoverScope item) \<noteq> -1" "repo_reachable r' s"
    and "e \<in> set (repo_items r)" "CutoverScope e = CutoverScope item"
  shows "mem_ValidateFence None s p (dep_ID e) v g now = Some ErrStaleExecution"
proof -
  have "repo_step r r'" using assms(2-4) by (rule rs_create)
  then have ok: "repo_ok r'" using assms(1) repo_ok_change repo_step_change by blast
  have "superseded (dep_ID e) g s"
    using superseded_forever[OF assms(5) ok] create_supersedes[OF assms(1,2,4,6,7)] by blast
  from refused_fence[OF repo_reachable_ok[OF assms(5) ok] this] show ?thesis .
qed

theorem newer_deployment_fences_forever_witness:
  "\<exists>d r'. mem_Create None (w_repo sample_world) rollback_goal = Inr (d, r') \<and>
     mem_ValidateFence None r' ''p'' ''i'' ''w'' 0 2500 = Some ErrStaleExecution"
proof -
  have s: "CutoverScope sample_deployment = CutoverScope rollback_goal" "dep_ID sample_deployment = ''i''"
    by (simp_all add: CutoverScope_def rollback_goal_def sample_deployment_def)
  have "\<exists>d r'. mem_Create None (w_repo sample_world) rollback_goal = Inr (d, r')"
    by (simp add: mem_Create_def rollback_goal_def sample_deployment_def Let_def)
  then obtain d r' where c: "mem_Create None (w_repo sample_world) rollback_goal = Inr (d, r')" by blast
  have "dep_wf rollback_goal"
    by (simp add: dep_wf_def rollback_goal_def sample_deployment_def Terminal_def)
  moreover have "cutover_counter (w_repo sample_world) (CutoverScope rollback_goal) \<noteq> -1"
    using s by (simp add: cutover_counter_def sample_world_def)
  ultimately show ?thesis
    using newer_deployment_fences_forever[OF sample_ok c _ _ reach_here, of sample_deployment "''p''" "''w''" 0 2500]
      s c by auto
qed

text \<open>
  C1: at any moment at most one execution may act on a slot: two fences that are accepted in the
  same state belong to the same deployment, worker and generation.
\<close>

theorem single_execution_per_slot:
  assumes "repo_ok r" "d1 \<in> set (repo_items r)" "d2 \<in> set (repo_items r)"
    and "CutoverScope d1 = CutoverScope d2"
    and "mem_ValidateFence None r p1 (dep_ID d1) w1 g1 t1 = None"
    and "mem_ValidateFence None r p2 (dep_ID d2) w2 g2 t2 = None"
  shows "dep_ID d1 = dep_ID d2 \<and> w1 = w2 \<and> g1 = g2"
  using fence_exclusive[OF _ assms(5,6,2) refl assms(3) refl assms(4)] assms(1)
  by (simp add: repo_ok_def)

theorem single_execution_per_slot_witness:
  "\<exists>r. repo_ok r \<and> mem_ValidateFence None r ''p'' ''i'' ''w'' 1 2500 = None \<and>
     (\<forall>w g t. mem_ValidateFence None r ''p'' ''i'' w g t = None \<longrightarrow> w = ''w'' \<and> g = 1)"
proof -
  let ?d = "claimed sample_claim sample_deployment"
  let ?r = "(w_repo sample_world)\<lparr>repo_items := [?d]\<rparr>"
  have "repo_step (w_repo sample_world) ?r" using sample_claimed by (rule rs_claim) simp
  then have ok: "repo_ok ?r" using sample_ok repo_ok_change repo_step_change by blast
  have f: "mem_ValidateFence None ?r ''p'' ''i'' ''w'' 1 2500 = None"
    by (simp add: mem_ValidateFence_def claimed_def sample_claim_def sample_deployment_def Lease_Active_def
        Terminal_def cutover_counter_def sample_world_def CutoverScope_def empty_lease_def)
  have i: "dep_ID ?d = ''i''" by (simp add: claimed_def sample_deployment_def)
  have "w = ''w'' \<and> g = 1" if "mem_ValidateFence None ?r ''p'' ''i'' w g t = None" for w g t
    using single_execution_per_slot[OF ok, of ?d ?d "''p''" w g t "''p''" "''w''" 1 2500] that f i by simp
  with ok f show ?thesis by blast
qed

text \<open>
  A claim takes the first deployment in creation order that is claimable and not leased, and
  only that one changes: it gets the worker's lease, the next generation and the next version. With
  no such deployment the claim answers none and changes nothing.
\<close>

theorem claim_takes_first_available:
  assumes "Claim_Validate c = None"
  shows "mem_ClaimNext None r c =
    (case find_index (\<lambda>d. claimable_status (dep_Status d) \<and> \<not> Lease_Active (dep_Lease d) (claim_Now c))
        (repo_items r) of
       None \<Rightarrow> Inr (None, r)
     | Some i \<Rightarrow>
         (let d = (repo_items r ! i)\<lparr>dep_UpdatedAt := claim_Now c, dep_Version := dep_Version (repo_items r ! i) + 1,
            dep_Lease := \<lparr>lease_Owner = trim_space (claim_WorkerID c), lease_ExpiresAt = claim_ExpiresAt c,
              lease_Generation = lease_Generation (dep_Lease (repo_items r ! i)) + 1\<rparr>\<rparr>
          in Inr (Some d, r\<lparr>repo_items := (repo_items r)[i := d]\<rparr>)))"
  using ClaimNext_eq[OF assms, of r]
  by (auto simp: claim_first_def available_def[abs_def] claimed_def Let_def split: option.splits)

theorem claim_takes_first_available_witness:
  "\<exists>d r'. mem_ClaimNext None (w_repo rollback_world) sample_claim = Inr (None, w_repo rollback_world) \<and>
     mem_ClaimNext None (w_repo sample_world) sample_claim = Inr (Some d, r') \<and> dep_ID d = ''i''"
proof -
  have v: "Claim_Validate sample_claim = None" by (simp add: sample_claim_def)
  have "mem_ClaimNext None (w_repo rollback_world) sample_claim = Inr (None, w_repo rollback_world)"
    by (simp add: claim_takes_first_available[OF v] rollback_world_def rollback_goal_def rollback_source_def)
  moreover have "\<exists>r'. mem_ClaimNext None (w_repo sample_world) sample_claim =
      Inr (Some (claimed sample_claim sample_deployment), r')"
    using sample_claimed by blast
  ultimately show ?thesis by (auto simp: claimed_def sample_deployment_def)
qed

text \<open>
  C26: of two writers that read the same version of a deployment, at most one saves: the second is
  refused with a conflict, so no update is lost.
\<close>

theorem no_update_is_lost:
  assumes "repo_ok r" "mem_Save None r d v = Inr (x, r')" "dep_ID e = dep_ID d" "dep_ProjectID e = dep_ProjectID d"
  shows "mem_Save None r' e v = Inl ErrConflict"
  using assms(1) mem_store.no_lost_update[OF _ assms(2-4)] by (simp add: repo_ok_def)

theorem no_update_is_lost_witness:
  "\<exists>x r'. mem_Save None (w_repo sample_world) sample_deployment 1 = Inr (x, r') \<and>
     mem_Save None r' sample_deployment 1 = Inl ErrConflict"
proof -
  have "\<exists>x r'. mem_Save None (w_repo sample_world) sample_deployment 1 = Inr (x, r')"
    by (simp add: mem_Save_def sample_deployment_def Let_def)
  then obtain x r' where s: "mem_Save None (w_repo sample_world) sample_deployment 1 = Inr (x, r')" by blast
  from no_update_is_lost[OF sample_ok s refl refl] s show ?thesis by blast
qed

section \<open>The state machine and its leases\<close>

text \<open>
  C27: a deployment changes status at most four times, along the edges of the transition table, and
  is never stuck before it is final: a run that cannot be continued has ended in a final status.
\<close>

theorem lifecycle_ends:
  assumes "dep_wf d" "dep_path d es"
  shows "length es \<le> 4 \<and> (Terminal (last (d # es)) \<or> (\<exists>e. dep_step (last (d # es)) e))"
proof -
  have wf: "dep_wf (last (d # es))" using assms
  proof (induction es arbitrary: d)
    case (Cons e es)
    then show ?case using dep_step_wf[of d e] by auto
  qed simp
  have "status_budget (dep_Status d) \<le> 4" by (cases "dep_Status d") auto
  then have "length es \<le> 4" using dep_path_length[OF assms(2)] by linarith
  then show ?thesis using dep_progress[OF wf] by blast
qed

theorem lifecycle_ends_witness:
  "\<exists>e. dep_path sample_deployment [e] \<and> (Terminal e \<or> (\<exists>e'. dep_step e e'))"
proof -
  have "\<exists>e. Transition sample_deployment StatusPreparing 1 = Inr e"
    by (simp add: Transition_def transition_valid_def sample_deployment_def Let_def)
  then obtain e where "dep_path sample_deployment [e]" by (auto intro: step_transition)
  moreover have "dep_wf sample_deployment"
    by (simp add: dep_wf_def sample_deployment_def Terminal_def)
  ultimately show ?thesis using lifecycle_ends[of sample_deployment "[e]"] by auto
qed

text \<open>
  An acquired deployment cannot be acquired by anyone before the lease expires, not even by its
  holder, and each acquisition gives it a lease generation that differs from the last one.
\<close>

theorem lease_excludes_until_expiry:
  assumes "Acquire c d = Inr d1" "claim_Now c \<le> claim_Now c2" "claim_Now c2 < claim_ExpiresAt c"
  shows "is_err (Acquire c2 d1) \<and> lease_Generation (dep_Lease d1) = lease_Generation (dep_Lease d) + 1"
proof -
  have c: "claim_of (claim_WorkerID c) (claim_Now c) (claim_ExpiresAt c) = c" for c
    by (simp add: claim_of_def)
  have a: "dep_acquire (claim_WorkerID c) (claim_Now c) (claim_ExpiresAt c) d = Inr d1"
    using assms(1) by (simp add: dep_acquire_def c)
  from dep_lease.second_claim_refused[OF a assms(2,3), of "claim_WorkerID c2" "claim_ExpiresAt c2"]
  show ?thesis using dep_lease.acquire_generation[OF a] by (simp add: dep_acquire_def c)
qed

theorem lease_excludes_until_expiry_witness:
  "\<exists>d1. Acquire sample_claim sample_deployment = Inr d1 \<and> is_err (Acquire sample_claim d1)"
proof -
  have "\<exists>d1. Acquire sample_claim sample_deployment = Inr d1"
    using sample_available by (simp add: Acquire_Inr available_def sample_claim_def)
  then obtain d1 where a: "Acquire sample_claim sample_deployment = Inr d1" by blast
  from lease_excludes_until_expiry[OF a, of sample_claim] a show ?thesis
    by (auto simp: sample_claim_def)
qed

end
