(* ===== verification/AdmissionProperties.thy ===== *)
theory AdmissionProperties
  imports DeploymentSamples
begin

text \<open>
  The properties of the admission snapshot (sealing, canonical order, severity counts) and of the
  role hierarchy.
\<close>

lemma sample_snapshot_simps [simp]:
  "Policies sample_base = []" "EvidenceItems sample_base = []" "Verifications sample_base = []"
  "Vulnerability sample_base = None" "Waivers sample_base = []" "Violations sample_base = []"
  by (simp_all add: sample_base_def empty_snapshot_def)

lemma normalize_sample: "normalize_snapshot sample_base = sample_base"
  by (simp add: normalize_snapshot_def sort_violations_def)
     (simp add: sample_base_def empty_snapshot_def truncate_time_def millisecond_def)

lemma sample_sealed: "AdmissionSnapshot_Seal sample_json sample_base = Inr sample_snapshot"
proof -
  have "evidence_content sample_json s = Some ''{}''" "marshal_snapshot sample_json s = Some ''{}''" for s
    by (simp_all add: evidence_content_def sample_json_def)
  then show ?thesis
    by (simp add: AdmissionSnapshot_Seal_def normalize_sample Let_def sample_snapshot_def[symmetric])
qed

text \<open>
  What sealing returns is valid, and sealing it again returns it unchanged: its times, order and
  digests are final.
\<close>

theorem sealed_is_valid_and_final:
  assumes "AdmissionSnapshot_Seal js s = Inr f"
  shows "AdmissionSnapshot_Validate js f = None \<and> AdmissionSnapshot_Seal js f = Inr f"
  using Seal_Validate[OF assms] Seal_again[OF assms] by simp

theorem sealed_is_valid_and_final_witness:
  "AdmissionSnapshot_Seal sample_json sample_snapshot = Inr sample_snapshot"
  using sealed_is_valid_and_final[OF sample_sealed] by simp

text \<open>
  The order in which policies, evidence, verifications, waivers and violations were collected does
  not matter: two snapshots that hold the same ones, in any order, seal to the same snapshot and hence
  to the same digests.
\<close>

theorem seal_ignores_order:
  assumes "reordered s t" "distinct_keys s"
  shows "AdmissionSnapshot_Seal js s = AdmissionSnapshot_Seal js t"
  by (rule Seal_normalize_cong[OF normalize_reordered[OF assms]])

definition sample_evidence :: "string \<Rightarrow> AdmissionEvidenceSnapshot" where
  "sample_evidence i = \<lparr>evidence_ID = i, evidence_Kind = ''sbom'', evidence_DescriptorDigest = digest_text i,
     evidence_ContentDigest = digest_text i\<rparr>"

theorem seal_ignores_order_witness:
  "AdmissionSnapshot_Seal sample_json (sample_base\<lparr>EvidenceItems := [sample_evidence ''e1'', sample_evidence ''e2'']\<rparr>) =
   AdmissionSnapshot_Seal sample_json (sample_base\<lparr>EvidenceItems := [sample_evidence ''e2'', sample_evidence ''e1'']\<rparr>)"
  by (rule seal_ignores_order) (simp_all add: reordered_def distinct_keys_def sample_evidence_def)

text \<open>
  Where the severity counts of a snapshot do not overflow 64 bits, accepted counts are consistent:
  the total is the sum of the five severities and at most one million.
\<close>

theorem counts_consistent:
  assumes "validAdmissionCounts c"
    and "unat (count_Unknown c) + unat (count_Low c) + unat (count_Medium c) + unat (count_High c) +
      unat (count_Critical c) < 2 ^ 64"
  shows "unat (count_Total c) = unat (count_Unknown c) + unat (count_Low c) + unat (count_Medium c) +
      unat (count_High c) + unat (count_Critical c) \<and> unat (count_Total c) \<le> 1000000"
  using validAdmissionCounts_exact[OF assms(1)] assms(2) unfolding exact_total_def by auto

theorem counts_consistent_witness:
  "unat (count_Total \<lparr>count_Unknown = 1, count_Low = 1, count_Medium = 1, count_High = 1,
     count_Critical = 1, count_Total = 5\<rparr>) \<le> 1000000"
  using counts_consistent[of "\<lparr>count_Unknown = 1, count_Low = 1, count_Medium = 1, count_High = 1,
     count_Critical = 1, count_Total = 5\<rparr>"] by (simp add: validAdmissionCounts_def)

text \<open>
  Without that bound the check is fooled by the wrap-around of its \<open>uint64\<close> sum: counts of
  \<open>2 ^ 63\<close> high and \<open>2 ^ 63\<close> critical vulnerabilities are accepted with a total of zero.
\<close>

lemma counts_wrap_around:
  "\<exists>c. validAdmissionCounts c \<and> count_Total c = 0 \<and> unat (count_Critical c) = 2 ^ 63 \<and>
     unat (count_High c) = 2 ^ 63"
proof -
  let ?c = "\<lparr>count_Unknown = 0, count_Low = 0, count_Medium = 0,
    count_High = 0x8000000000000000, count_Critical = 0x8000000000000000, count_Total = 0\<rparr>"
  have "validAdmissionCounts ?c" by (simp add: validAdmissionCounts_def)
  then show ?thesis by (intro exI[of _ ?c]) simp
qed

section \<open>Authorization\<close>

text \<open>
  \<open>Require\<close> grants a permission only to a valid principal, and the roles form a hierarchy:
  whatever a role may do, every higher role may do (viewer, developer, maintainer, owner).
\<close>

theorem permissions_grow_with_role:
  assumes "Principal_Require p perm = None" "role_rank (PrincipalRole p) \<le> role_rank r"
  shows "Principal_Valid p \<and> Principal_Require (p\<lparr>PrincipalRole := r\<rparr>) perm = None"
proof -
  have v: "Principal_Valid p" "allowed (PrincipalRole p) perm" using assms(1) by (simp_all add: Require_None_iff)
  then have "allowed r perm" using allowed_mono[OF assms(2)] by blast
  moreover from v(1) assms(2) have "Principal_Valid (p\<lparr>PrincipalRole := r\<rparr>)"
    by (cases r; cases "PrincipalRole p") (auto simp: Principal_Valid_def role_rank_def)
  ultimately show ?thesis using v(1) by (simp add: Require_None_iff)
qed

theorem permissions_grow_with_role_witness:
  "Principal_Require (sample_owner\<lparr>PrincipalRole := RoleDeveloper\<rparr>) PermissionDeploymentCreate = None \<and>
   Principal_Require (sample_owner\<lparr>PrincipalRole := RoleMaintainer\<rparr>) PermissionDeploymentCreate = None"
proof -
  have d: "Principal_Require (sample_owner\<lparr>PrincipalRole := RoleDeveloper\<rparr>) PermissionDeploymentCreate = None"
    by (simp add: Principal_Require_def Principal_Valid_def sample_owner_def allowed_def)
  with permissions_grow_with_role[OF d, of RoleMaintainer] show ?thesis by (simp add: role_rank_def)
qed

end
