(* ===== verification/StateFile.thy ===== *)
theory StateFile
  imports GoText
begin

text \<open>
  What the two state files of the agent share (\<open>internal/agent/runtime/state_file.go\<close>): how a
  replacement of the file can end, and the pieces of JSON text the size checks count.
\<close>

section \<open>Replacing the file\<close>

text \<open>
  \<open>replaceRestrictedStateFile\<close> writes a temporary file, renames it over the state file and syncs
  the directory. It fails before the rename (the file keeps its content) or after it (the file
  has the new content although an error is returned).
\<close>

datatype write_outcome = WriteOk | WriteFailed | WriteUnsynced

section \<open>JSON text\<close>

text \<open>A decimal number of at most twenty digits, which a \<open>uint64\<close> has.\<close>

fun decimal_fuel :: "nat \<Rightarrow> nat \<Rightarrow> string" where
  "decimal_fuel 0 n = []"
| "decimal_fuel (Suc f) n =
     (if n < 10 then [''0123456789'' ! n] else decimal_fuel f (n div 10) @ [''0123456789'' ! (n mod 10)])"

definition decimal :: "u64 \<Rightarrow> string" where
  "decimal w = decimal_fuel 20 (unat w)"

definition quoted :: "string \<Rightarrow> string" where
  "quoted s = [CHR 0x22] @ s @ [CHR 0x22]"

fun comma_separated :: "string list \<Rightarrow> string" where
  "comma_separated [] = []"
| "comma_separated [s] = s"
| "comma_separated (s # ss) = s @ '','' @ comma_separated ss"

lemma decimal_fuel_length: "length (decimal_fuel f n) \<le> f"
proof (induction f arbitrary: n)
  case (Suc f)
  then show ?case using Suc[of "n div 10"] by simp
qed simp

lemma comma_separated_length:
  "(\<And>s. s \<in> set ss \<Longrightarrow> length s \<le> k) \<Longrightarrow> length (comma_separated ss) \<le> length ss * (k + 1)"
  by (induction ss rule: comma_separated.induct) fastforce+

end
