(* ===== verification/CutoverStore.thy ===== *)
theory CutoverStore
  imports StateFile "HOL-Library.Char_ord" "HOL-Library.List_Lexorder"
begin

text \<open>
  The Agent's cutover watermark store (\<open>internal/agent/runtime/cutover_store.go\<close>): per container
  name the highest deployment sequence seen and whether it was cancelled, kept in memory and in
  one state file. The file is replaced by \<open>replaceRestrictedStateFile\<close>
  (\<open>internal/agent/runtime/state_file.go\<close>), whose possible outcomes are an argument of every
  operation. The file's content is the decoded document: the text that \<open>encoding/json\<close> writes for
  it is modelled for the size check.
\<close>

datatype cut_error = ErrInvalidCutoverStore | ErrCutoverStoreFull | ErrCutoverStoreConflict | ErrStateFile

record cutoverWatermark =
  wm_deploymentID :: string
  wm_sequence :: u64
  wm_canceled :: bool

record cutoverStoreEntryDocument =
  doc_ContainerName :: string
  doc_DeploymentID :: string
  doc_Sequence :: u64
  doc_Canceled :: bool

record cutoverStoreDocument =
  doc_Version :: int
  doc_Entries :: "cutoverStoreEntryDocument list"

definition cutoverStoreVersion :: int where
  "cutoverStoreVersion = 1"

definition maximumCutoverStoreBytes :: nat where
  "maximumCutoverStoreBytes = 4 * 1024 * 1024"

text \<open>
  A state file that is missing, one that is refused (mode, read error), one that does not decode
  strictly, and one that holds a document.
\<close>

datatype cutover_file = FileMissing | FileRefused | FileUndecodable | FileDocument cutoverStoreDocument

type_synonym watermarks = "string \<rightharpoonup> cutoverWatermark"

record FileCutoverStore =
  cs_maximum :: nat
  cs_entries :: watermarks
  cs_file :: cutover_file

section \<open>Checks\<close>

definition container_tail :: "char \<Rightarrow> bool" where
  "container_tail c \<longleftrightarrow> is_lower c \<or> is_digit c \<or> c \<in> set ''_.-''"

definition cutoverContainerNameRule :: "string \<Rightarrow> bool" where
  "cutoverContainerNameRule s = matches_id (\<lambda>c. is_lower c \<or> is_digit c) container_tail 127 s"

definition deployment_id_tail :: "char \<Rightarrow> bool" where
  "deployment_id_tail c \<longleftrightarrow> is_alnum c \<or> c \<in> set ''_.-''"

definition cutoverDeploymentIDRule :: "string \<Rightarrow> bool" where
  "cutoverDeploymentIDRule s = matches_id is_alnum deployment_id_tail 127 s"

definition validCutoverEntry :: "string \<Rightarrow> string \<Rightarrow> u64 \<Rightarrow> bool" where
  "validCutoverEntry containerName deploymentID sequence \<longleftrightarrow>
     0 < sequence \<and> cutoverContainerNameRule containerName \<and> cutoverDeploymentIDRule deploymentID"

section \<open>The document\<close>

definition entry_document :: "string \<Rightarrow> cutoverWatermark \<Rightarrow> cutoverStoreEntryDocument" where
  "entry_document n w = \<lparr>doc_ContainerName = n, doc_DeploymentID = wm_deploymentID w,
     doc_Sequence = wm_sequence w, doc_Canceled = wm_canceled w\<rparr>"

definition document_of :: "watermarks \<Rightarrow> cutoverStoreDocument" where
  "document_of m = \<lparr>doc_Version = cutoverStoreVersion,
     doc_Entries = map (\<lambda>n. entry_document n (the (m n))) (sorted_list_of_set (dom m))\<rparr>"

text \<open>
  The JSON text of a document. Its strings match the patterns above, so nothing is escaped, and
  \<open>canceled\<close> is left out when false.
\<close>

definition json_entry :: "cutoverStoreEntryDocument \<Rightarrow> string" where
  "json_entry e =
     ''{'' @ quoted ''container_name'' @ '':'' @ quoted (doc_ContainerName e) @ '','' @
     quoted ''deployment_id'' @ '':'' @ quoted (doc_DeploymentID e) @ '','' @
     quoted ''sequence'' @ '':'' @ decimal (doc_Sequence e) @
     (if doc_Canceled e then '','' @ quoted ''canceled'' @ '':true'' else []) @ ''}''"

definition json_document :: "cutoverStoreDocument \<Rightarrow> string" where
  "json_document d =
     ''{'' @ quoted ''version'' @ '':1,'' @ quoted ''entries'' @ '':['' @
     comma_separated (map json_entry (doc_Entries d)) @ '']}''"

section \<open>Loading\<close>

fun load_entries ::
  "cutoverStoreEntryDocument list \<Rightarrow> watermarks \<Rightarrow> watermarks option" where
  "load_entries [] m = Some m"
| "load_entries (e # es) m =
     (if \<not> validCutoverEntry (doc_ContainerName e) (doc_DeploymentID e) (doc_Sequence e) then None
      else if m (doc_ContainerName e) \<noteq> None then None
      else load_entries es (m(doc_ContainerName e \<mapsto>
        \<lparr>wm_deploymentID = doc_DeploymentID e, wm_sequence = doc_Sequence e, wm_canceled = doc_Canceled e\<rparr>)))"

definition cs_load :: "nat \<Rightarrow> cutover_file \<Rightarrow> cut_error + watermarks" where
  "cs_load maximum file =
     (case file of
        FileMissing \<Rightarrow> Inr Map.empty
      | FileRefused \<Rightarrow> Inl ErrStateFile
      | FileUndecodable \<Rightarrow> Inl ErrInvalidCutoverStore
      | FileDocument d \<Rightarrow>
          (if maximumCutoverStoreBytes < length (json_document d) then Inl ErrInvalidCutoverStore
           else if doc_Version d \<noteq> cutoverStoreVersion \<or> maximum < length (doc_Entries d)
             then Inl ErrInvalidCutoverStore
           else (case load_entries (doc_Entries d) Map.empty of
                   None \<Rightarrow> Inl ErrInvalidCutoverStore
                 | Some m \<Rightarrow> Inr m)))"

text \<open>
  \<open>NewFileCutoverStore\<close>: \<open>directory\<close> is the error of \<open>prepareStateDirectory\<close> for the
  state directory, if any.
\<close>

definition NewFileCutoverStore :: "cut_error option \<Rightarrow> nat \<Rightarrow> cutover_file \<Rightarrow> cut_error + FileCutoverStore" where
  "NewFileCutoverStore directory maximum file =
     (if maximum < 1 \<or> 65536 < maximum then Inl ErrInvalidCutoverStore
      else (case directory of
              Some e \<Rightarrow> Inl e
            | None \<Rightarrow>
                (case cs_load maximum file of
                   Inl e \<Rightarrow> Inl e
                 | Inr m \<Rightarrow> Inr \<lparr>cs_maximum = maximum, cs_entries = m, cs_file = file\<rparr>)))"

section \<open>Persisting\<close>

definition cs_persistLocked :: "write_outcome \<Rightarrow> FileCutoverStore \<Rightarrow> cut_error option \<times> FileCutoverStore" where
  "cs_persistLocked io s =
     (let d = document_of (cs_entries s) in
      if maximumCutoverStoreBytes < length (json_document d) then (Some ErrCutoverStoreFull, s)
      else (case io of
              WriteOk \<Rightarrow> (None, s\<lparr>cs_file := FileDocument d\<rparr>)
            | WriteFailed \<Rightarrow> (Some ErrStateFile, s)
            | WriteUnsynced \<Rightarrow> (Some ErrStateFile, s\<lparr>cs_file := FileDocument d\<rparr>)))"

text \<open>Write \<open>m\<close> through to the file, and put the previous entries back on an error.\<close>

definition write_through ::
  "write_outcome \<Rightarrow> FileCutoverStore \<Rightarrow> watermarks \<Rightarrow> 'a \<Rightarrow> (cut_error + 'a) \<times> FileCutoverStore" where
  "write_through io s m ok =
     (case cs_persistLocked io (s\<lparr>cs_entries := m\<rparr>) of
        (None, s') \<Rightarrow> (Inr ok, s')
      | (Some e, s') \<Rightarrow> (Inl e, s'\<lparr>cs_entries := cs_entries s\<rparr>))"

section \<open>Operations\<close>

definition entry_count :: "FileCutoverStore \<Rightarrow> nat" where
  "entry_count s = card (dom (cs_entries s))"

definition cs_Observe ::
  "write_outcome \<Rightarrow> string \<Rightarrow> string \<Rightarrow> u64 \<Rightarrow> FileCutoverStore \<Rightarrow> (cut_error + bool) \<times> FileCutoverStore" where
  "cs_Observe io containerName deploymentID sequence s =
     (if \<not> validCutoverEntry containerName deploymentID sequence then (Inl ErrInvalidCutoverStore, s)
      else
        (let updated = (cs_entries s)(containerName \<mapsto>
               \<lparr>wm_deploymentID = deploymentID, wm_sequence = sequence, wm_canceled = False\<rparr>)
         in case cs_entries s containerName of
              Some current \<Rightarrow>
                (if sequence < wm_sequence current \<or>
                    (sequence = wm_sequence current \<and> deploymentID \<noteq> wm_deploymentID current)
                 then (Inr True, s)
                 else if sequence = wm_sequence current then (Inr (wm_canceled current), s)
                 else write_through io s updated False)
            | None \<Rightarrow>
                (if cs_maximum s \<le> entry_count s then (Inl ErrCutoverStoreFull, s)
                 else write_through io s updated False)))"

definition cs_Cancel ::
  "write_outcome \<Rightarrow> string \<Rightarrow> string \<Rightarrow> u64 \<Rightarrow> FileCutoverStore \<Rightarrow> (cut_error + unit) \<times> FileCutoverStore" where
  "cs_Cancel io containerName deploymentID sequence s =
     (if \<not> validCutoverEntry containerName deploymentID sequence then (Inl ErrInvalidCutoverStore, s)
      else
        (let updated = (cs_entries s)(containerName \<mapsto>
               \<lparr>wm_deploymentID = deploymentID, wm_sequence = sequence, wm_canceled = True\<rparr>)
         in case cs_entries s containerName of
              Some current \<Rightarrow>
                (if sequence < wm_sequence current \<or>
                    (sequence = wm_sequence current \<and> wm_deploymentID current \<noteq> deploymentID)
                 then (Inr (), s)
                 else if sequence = wm_sequence current \<and> wm_canceled current then (Inr (), s)
                 else write_through io s updated ())
            | None \<Rightarrow>
                (if cs_maximum s \<le> entry_count s then (Inl ErrCutoverStoreFull, s)
                 else write_through io s updated ())))"

definition cs_Release ::
  "write_outcome \<Rightarrow> string \<Rightarrow> string \<Rightarrow> u64 \<Rightarrow> FileCutoverStore \<Rightarrow> (cut_error + bool) \<times> FileCutoverStore" where
  "cs_Release io containerName deploymentID sequence s =
     (if \<not> validCutoverEntry containerName deploymentID sequence then (Inl ErrInvalidCutoverStore, s)
      else case cs_entries s containerName of
        None \<Rightarrow> (Inr False, s)
      | Some current \<Rightarrow>
          (if wm_deploymentID current \<noteq> deploymentID \<or> wm_sequence current \<noteq> sequence
           then (Inl ErrCutoverStoreConflict, s)
           else write_through io s ((cs_entries s)(containerName := None)) True))"

definition cs_ProtectsRemoval ::
  "string \<Rightarrow> string \<Rightarrow> u64 \<Rightarrow> FileCutoverStore \<Rightarrow> cut_error option" where
  "cs_ProtectsRemoval containerName deploymentID sequence s =
     (if \<not> validCutoverEntry containerName deploymentID sequence then Some ErrInvalidCutoverStore
      else case cs_entries s containerName of
        None \<Rightarrow> Some ErrCutoverStoreConflict
      | Some current \<Rightarrow>
          (if wm_sequence current < sequence \<or>
              (wm_sequence current = sequence \<and> wm_deploymentID current \<noteq> deploymentID)
           then Some ErrCutoverStoreConflict else None))"

section \<open>The gate contract\<close>

text \<open>
  When a watermark turns a command away, and when one watermark is at least as strict as another.
\<close>

definition rejects :: "cutoverWatermark option \<Rightarrow> string \<Rightarrow> u64 \<Rightarrow> bool" where
  "rejects w d q \<longleftrightarrow> (case w of None \<Rightarrow> False
     | Some c \<Rightarrow> q < wm_sequence c \<or> (q = wm_sequence c \<and> (d \<noteq> wm_deploymentID c \<or> wm_canceled c)))"

definition covers :: "cutoverWatermark option \<Rightarrow> cutoverWatermark option \<Rightarrow> bool" where
  "covers v w \<longleftrightarrow> (case v of None \<Rightarrow> True
     | Some a \<Rightarrow> (case w of None \<Rightarrow> False
         | Some b \<Rightarrow> wm_sequence a < wm_sequence b \<or>
             (wm_sequence a = wm_sequence b \<and> wm_deploymentID a = wm_deploymentID b \<and>
              (wm_canceled a \<longrightarrow> wm_canceled b))))"

lemma covers_refl [simp]: "covers w w"
  by (simp add: covers_def split: option.split)

lemma covers_None [simp]: "covers None w"
  by (simp add: covers_def)

lemma covers_trans: "covers u v \<Longrightarrow> covers v w \<Longrightarrow> covers u w"
  by (auto simp: covers_def split: option.splits)

lemma rejects_covers: "covers v w \<Longrightarrow> rejects v d q \<Longrightarrow> rejects w d q"
  by (auto simp: covers_def rejects_def split: option.splits)

text \<open>
  What the deployment runtime relies on: a command is admitted only by raising or keeping the
  watermark of its slot, a cancelled one is turned away from then on, and no answer lowers any
  watermark. \<open>'o\<close> is what the environment chooses per operation.
\<close>

locale cutover_gate =
  fixes observe :: "'o \<Rightarrow> string \<Rightarrow> string \<Rightarrow> u64 \<Rightarrow> 's \<Rightarrow> ('e + bool) \<times> 's"
    and cancel :: "'o \<Rightarrow> string \<Rightarrow> string \<Rightarrow> u64 \<Rightarrow> 's \<Rightarrow> ('e + unit) \<times> 's"
    and release :: "'o \<Rightarrow> string \<Rightarrow> string \<Rightarrow> u64 \<Rightarrow> 's \<Rightarrow> ('e + bool) \<times> 's"
    and mark :: "'s \<Rightarrow> watermarks"
  assumes observe_stale: "observe io n d q s = (Inr True, t) \<Longrightarrow> rejects (mark s n) d q"
    and observe_admitted: "observe io n d q s = (Inr False, t) \<Longrightarrow>
      mark t n = Some \<lparr>wm_deploymentID = d, wm_sequence = q, wm_canceled = False\<rparr>"
    and observe_rejected: "rejects (mark s n) d q \<Longrightarrow> fst (observe io n d q s) \<noteq> Inr False"
    and observe_covers: "observe io n d q s = (r, t) \<Longrightarrow> covers (mark s m) (mark t m)"
    and cancel_rejects: "cancel io n d q s = (Inr u, t) \<Longrightarrow> rejects (mark t n) d q"
    and cancel_covers: "cancel io n d q s = (v, t) \<Longrightarrow> covers (mark s m) (mark t m)"
    and release_other: "release io k d q s = (r, t) \<Longrightarrow> k \<noteq> m \<Longrightarrow> mark t m = mark s m"
begin

text \<open>\<open>moves n s t\<close>: any operations, except a release of the slot \<open>n\<close> itself.\<close>

inductive moves :: "string \<Rightarrow> 's \<Rightarrow> 's \<Rightarrow> bool" for n where
  still: "moves n s s"
| observed: "moves n s t \<Longrightarrow> observe io k d q t = (r, u) \<Longrightarrow> moves n s u"
| canceled: "moves n s t \<Longrightarrow> cancel io k d q t = (v, u) \<Longrightarrow> moves n s u"
| released: "moves n s t \<Longrightarrow> release io k d q t = (r, u) \<Longrightarrow> k \<noteq> n \<Longrightarrow> moves n s u"

lemma moves_covers: "moves n s t \<Longrightarrow> covers (mark s n) (mark t n)"
proof (induction rule: moves.induct)
  case (released s t io k d q r u)
  then show ?case using release_other[of io k d q t r u n] by simp
qed (auto intro: covers_trans observe_covers cancel_covers)

lemma rejected_forever:
  "rejects (mark s n) d q \<Longrightarrow> moves n s t \<Longrightarrow> fst (observe io n d q t) \<noteq> Inr False"
  using rejects_covers moves_covers observe_rejected by blast

text \<open>A cancelled execution is never admitted again.\<close>

lemma canceled_forever:
  "cancel io n d q s = (Inr u, t) \<Longrightarrow> moves n t t' \<Longrightarrow> fst (observe io' n d q t') \<noteq> Inr False"
  using rejected_forever cancel_rejects by blast

text \<open>Admitted commands of a slot are ordered by sequence, and a sequence has one deployment.\<close>

lemma admitted_ordered:
  assumes "observe io n d q s = (Inr False, t)" "moves n t t'" "observe io' n e p t' = (Inr False, u)"
  shows "q < p \<or> (q = p \<and> d = e)"
proof -
  have "covers (mark t n) (mark u n)"
    using moves_covers[OF assms(2)] observe_covers[OF assms(3)] covers_trans by blast
  then show ?thesis
    using observe_admitted[OF assms(1)] observe_admitted[OF assms(3)] by (simp add: covers_def)
qed

end

section \<open>The store keeps the contract\<close>

lemma persistLocked_cases:
  "cs_persistLocked io s = (None, t) \<Longrightarrow> t = s\<lparr>cs_file := FileDocument (document_of (cs_entries s))\<rparr>"
  "cs_persistLocked io s = (Some e, t) \<Longrightarrow> cs_entries t = cs_entries s \<and> cs_maximum t = cs_maximum s"
  by (auto simp: cs_persistLocked_def Let_def split: if_splits write_outcome.splits)

lemma write_through_Inr:
  "write_through io s m ok = (Inr x, t) \<Longrightarrow>
     x = ok \<and> t = s\<lparr>cs_entries := m, cs_file := FileDocument (document_of m)\<rparr>"
  by (auto simp: write_through_def dest!: persistLocked_cases(1) split: prod.splits option.splits)

lemma write_through_Inl:
  "write_through io s m ok = (Inl e, t) \<Longrightarrow> cs_entries t = cs_entries s \<and> cs_maximum t = cs_maximum s"
  by (auto simp: write_through_def dest: persistLocked_cases(2) split: prod.splits option.splits)

text \<open>Every operation leaves the entries alone or replaces those of one container, on success only.\<close>

lemma write_through_entries:
  assumes "write_through io s m ok = (r, t)"
  shows "cs_entries t = (if is_err r then cs_entries s else m)" "cs_maximum t = cs_maximum s"
  using assms by (cases r; auto dest: write_through_Inr write_through_Inl)+

lemma Observe_entries:
  "cs_Observe io n d q s = (r, t) \<Longrightarrow>
     cs_maximum t = cs_maximum s \<and>
     (cs_entries t = cs_entries s \<or>
      (r = Inr False \<and> \<not> rejects (cs_entries s n) d q \<and> validCutoverEntry n d q \<and>
       (cs_entries s n = None \<longrightarrow> entry_count s < cs_maximum s) \<and>
       cs_entries t = (cs_entries s)
         (n \<mapsto> \<lparr>wm_deploymentID = d, wm_sequence = q, wm_canceled = False\<rparr>)))"
  by (cases r) (auto simp: cs_Observe_def Let_def rejects_def dest!: write_through_Inr write_through_Inl
      split: if_splits option.splits)

lemma Cancel_entries:
  "cs_Cancel io n d q s = (r, t) \<Longrightarrow>
     cs_maximum t = cs_maximum s \<and>
     (cs_entries t = cs_entries s \<or>
      (r = Inr () \<and> \<not> rejects (cs_entries s n) d q \<and> validCutoverEntry n d q \<and>
       (cs_entries s n = None \<longrightarrow> entry_count s < cs_maximum s) \<and>
       cs_entries t = (cs_entries s)
         (n \<mapsto> \<lparr>wm_deploymentID = d, wm_sequence = q, wm_canceled = True\<rparr>)))"
  by (cases r) (auto simp: cs_Cancel_def Let_def rejects_def dest!: write_through_Inr write_through_Inl
      split: if_splits option.splits)

lemma Release_entries:
  "cs_Release io n d q s = (r, t) \<Longrightarrow>
     cs_maximum t = cs_maximum s \<and>
     (cs_entries t = cs_entries s \<or>
      (r = Inr True \<and> (\<exists>c. cs_entries s n = Some c \<and> wm_deploymentID c = d \<and> wm_sequence c = q) \<and>
       cs_entries t = (cs_entries s)(n := None)))"
  by (cases r) (auto simp: cs_Release_def dest!: write_through_Inr write_through_Inl
      split: if_splits option.splits)

lemma covers_new:
  "\<not> rejects w d q \<Longrightarrow> covers w (Some \<lparr>wm_deploymentID = d, wm_sequence = q, wm_canceled = b\<rparr>)"
  by (auto simp: rejects_def covers_def split: option.splits)

lemma cs_Cancel_Inr [inversion]:
  "cs_Cancel io n d q s = (Inr u, t) \<Longrightarrow>
     (t = s \<and> rejects (cs_entries s n) d q) \<or>
     cs_entries t n = Some \<lparr>wm_deploymentID = d, wm_sequence = q, wm_canceled = True\<rparr>"
  by (cases "cs_entries s n")
    (auto simp: cs_Cancel_def Let_def rejects_def dest!: write_through_Inr split: if_splits)

interpretation file_gate: cutover_gate cs_Observe cs_Cancel cs_Release cs_entries
proof unfold_locales
  fix io n d q s t
  show "rejects (cs_entries s n) d q" if "cs_Observe io n d q s = (Inr True, t)"
    using that by (auto simp: cs_Observe_def Let_def rejects_def dest!: write_through_Inr
        split: if_splits option.splits)
  show "cs_entries t n = Some \<lparr>wm_deploymentID = d, wm_sequence = q, wm_canceled = False\<rparr>"
    if "cs_Observe io n d q s = (Inr False, t)"
    using that by (auto simp: cs_Observe_def Let_def dest!: write_through_Inr
        split: if_splits option.splits)
  show "fst (cs_Observe io n d q s) \<noteq> Inr False" if "rejects (cs_entries s n) d q"
    using that by (auto simp: cs_Observe_def Let_def rejects_def split: option.splits)
  show "covers (cs_entries s m) (cs_entries t m)" if "cs_Observe io n d q s = (r, t)" for r m
    using Observe_entries[OF that] covers_new by auto
  show "rejects (cs_entries t n) d q" if "cs_Cancel io n d q s = (Inr u, t)" for u
    using cs_Cancel_Inr[OF that] by (auto simp: rejects_def)
  show "covers (cs_entries s m) (cs_entries t m)" if "cs_Cancel io n d q s = (v, t)" for v m
    using Cancel_entries[OF that] covers_new by auto
  show "cs_entries t m = cs_entries s m" if "cs_Release io k d q s = (r, t)" "k \<noteq> m" for r k m
    using Release_entries[OF that(1)] that(2) by auto
qed

section \<open>Invariant and restart\<close>

definition entries_ok :: "nat \<Rightarrow> watermarks \<Rightarrow> bool" where
  "entries_ok maximum m \<longleftrightarrow> finite (dom m) \<and> card (dom m) \<le> maximum \<and>
     (\<forall>n w. m n = Some w \<longrightarrow> validCutoverEntry n (wm_deploymentID w) (wm_sequence w))"

definition store_ok :: "FileCutoverStore \<Rightarrow> bool" where
  "store_ok s \<longleftrightarrow> 1 \<le> cs_maximum s \<and> cs_maximum s \<le> 65536 \<and> entries_ok (cs_maximum s) (cs_entries s)"

text \<open>The file holds what the memory holds.\<close>

definition synced :: "FileCutoverStore \<Rightarrow> bool" where
  "synced s \<longleftrightarrow> cs_load (cs_maximum s) (cs_file s) = Inr (cs_entries s)"

lemma entries_ok_insert:
  assumes "entries_ok k m" "validCutoverEntry n (wm_deploymentID w) (wm_sequence w)"
    "m n = None \<longrightarrow> card (dom m) < k"
  shows "entries_ok k (m(n \<mapsto> w))"
  using assms by (cases "n \<in> dom m")
    (auto simp: entries_ok_def card_insert_if insert_absorb domIff simp flip: not_None_eq)

lemma entries_ok_delete: "entries_ok k m \<Longrightarrow> entries_ok k (m(n := None))"
  using card_Diff1_le[of "dom m" n] by (auto simp: entries_ok_def)

lemma load_entries_ok:
  "load_entries es m = Some m' \<Longrightarrow> entries_ok k m \<Longrightarrow> entries_ok (k + length es) m'"
proof (induction es arbitrary: m k)
  case Nil
  then show ?case by simp
next
  case (Cons e es)
  let ?m = "m(doc_ContainerName e \<mapsto> \<lparr>wm_deploymentID = doc_DeploymentID e,
      wm_sequence = doc_Sequence e, wm_canceled = doc_Canceled e\<rparr>)"
  from Cons.prems have v: "validCutoverEntry (doc_ContainerName e) (doc_DeploymentID e) (doc_Sequence e)"
    and l: "load_entries es ?m = Some m'" by (auto split: if_splits)
  have "entries_ok (Suc k) ?m"
  proof (rule entries_ok_insert)
    show "entries_ok (Suc k) m" using Cons.prems(2) by (auto simp: entries_ok_def)
  qed (use v Cons.prems(2) in \<open>auto simp: entries_ok_def\<close>)
  from Cons.IH[OF l this] show ?case by simp
qed

lemma load_ok:
  assumes "cs_load k f = Inr m"
  shows "entries_ok k m"
proof (cases f)
  case FileMissing
  with assms show ?thesis by (auto simp: cs_load_def entries_ok_def)
next
  case (FileDocument d)
  with assms have "load_entries (doc_Entries d) Map.empty = Some m" "length (doc_Entries d) \<le> k"
    by (auto simp: cs_load_def split: if_splits option.splits)
  with load_entries_ok[of "doc_Entries d" Map.empty m 0] show ?thesis
    by (auto simp: entries_ok_def)
qed (use assms in \<open>auto simp: cs_load_def\<close>)

lemma NewFileCutoverStore_ok:
  "NewFileCutoverStore directory k file = Inr s \<Longrightarrow> store_ok s \<and> synced s \<and> cs_file s = file"
  by (auto simp: NewFileCutoverStore_def store_ok_def synced_def dest: load_ok
      split: if_splits sum.splits option.splits)

lemma watermark_eta [simp]:
  "\<lparr>wm_deploymentID = wm_deploymentID w, wm_sequence = wm_sequence w, wm_canceled = wm_canceled w\<rparr> = w"
  by simp

text \<open>Reading a document back gives the entries it was made from.\<close>

lemma load_document_entries:
  assumes "distinct ns" "set ns \<subseteq> dom m" "set ns \<inter> dom acc = {}"
    "\<forall>n w. m n = Some w \<longrightarrow> validCutoverEntry n (wm_deploymentID w) (wm_sequence w)"
  shows "load_entries (map (\<lambda>n. entry_document n (the (m n))) ns) acc = Some (acc ++ m |` set ns)"
  using assms(1-3)
proof (induction ns arbitrary: acc)
  case Nil
  then show ?case by simp
next
  case (Cons n ns)
  then obtain w where w: "m n = Some w" by auto
  have "load_entries (map (\<lambda>n. entry_document n (the (m n))) ns) (acc(n \<mapsto> w)) =
      Some (acc(n \<mapsto> w) ++ m |` set ns)"
    using Cons.prems by (intro Cons.IH) (auto split: if_splits)
  moreover have "acc(n \<mapsto> w) ++ m |` set ns = acc ++ m |` set (n # ns)"
    using w Cons.prems(1) by (auto simp: fun_eq_iff map_add_def restrict_map_def split: option.split)
  ultimately show ?case
    using Cons.prems w assms(4) by (auto simp: entry_document_def)
qed

lemma load_document_of:
  assumes "entries_ok k m" "length (json_document (document_of m)) \<le> maximumCutoverStoreBytes"
  shows "cs_load k (FileDocument (document_of m)) = Inr m"
proof -
  have fin: "finite (dom m)" using assms(1) by (simp add: entries_ok_def)
  have "load_entries (doc_Entries (document_of m)) Map.empty = Some (Map.empty ++ m |` set (sorted_list_of_set (dom m)))"
    unfolding document_of_def
    using assms(1) fin by (simp add: load_document_entries entries_ok_def)
  moreover have "m |` set (sorted_list_of_set (dom m)) = m"
    using fin by (auto simp: fun_eq_iff restrict_map_def domIff simp flip: not_None_eq)
  ultimately show ?thesis
    using assms fin by (simp add: cs_load_def document_of_def entries_ok_def length_sorted_list_of_set)
qed

section \<open>Write outcomes\<close>

text \<open>
  An operation that fails before the rename leaves the store as it was, and one that succeeds
  leaves file and memory equal. After an unsynced write the memory is unchanged and the file holds
  the new entries.
\<close>

definition commit :: "write_outcome \<Rightarrow> FileCutoverStore \<Rightarrow> watermarks \<Rightarrow> bool \<times> FileCutoverStore" where
  "commit io s m =
     (case cs_persistLocked io (s\<lparr>cs_entries := m\<rparr>) of
        (None, s') \<Rightarrow> (False, s')
      | (Some e, s') \<Rightarrow> (True, s'\<lparr>cs_entries := cs_entries s\<rparr>))"

lemma write_through_commit: "write_through io s m ok = (r, t) \<Longrightarrow> commit io s m = (is_err r, t)"
  by (auto simp: write_through_def commit_def split: prod.splits option.splits)

lemma commit_synced:
  assumes "commit io s m = (err, t)" "entries_ok (cs_maximum s) m" "synced s" "io \<noteq> WriteUnsynced"
  shows "synced t \<and> (err \<longrightarrow> t = s)"
proof (cases err)
  case True
  then have "t = s"
    using assms(1,4)
    by (auto simp: commit_def cs_persistLocked_def Let_def split: if_splits write_outcome.splits)
  with True assms(3) show ?thesis by simp
next
  case False
  then have "t = s\<lparr>cs_entries := m, cs_file := FileDocument (document_of m)\<rparr>"
    "length (json_document (document_of m)) \<le> maximumCutoverStoreBytes"
    using assms(1) by (auto simp: commit_def cs_persistLocked_def Let_def
        split: if_splits write_outcome.splits)
  with load_document_of[OF assms(2)] False show ?thesis by (simp add: synced_def)
qed

lemma commit_ok:
  assumes "commit io s m = (err, t)" "entries_ok (cs_maximum s) m" "store_ok s"
  shows "store_ok t"
  using assms by (auto simp: commit_def cs_persistLocked_def Let_def store_ok_def
      split: if_splits write_outcome.splits)

lemma Observe_write:
  "cs_Observe io n d q s = (r, t) \<Longrightarrow> t = s \<or>
     (commit io s ((cs_entries s)(n \<mapsto>
        \<lparr>wm_deploymentID = d, wm_sequence = q, wm_canceled = False\<rparr>)) = (is_err r, t) \<and>
      validCutoverEntry n d q \<and> (cs_entries s n = None \<longrightarrow> entry_count s < cs_maximum s))"
  by (auto simp: cs_Observe_def Let_def dest!: write_through_commit split: if_splits option.splits)

lemma Cancel_write:
  "cs_Cancel io n d q s = (r, t) \<Longrightarrow> t = s \<or>
     (commit io s ((cs_entries s)(n \<mapsto>
        \<lparr>wm_deploymentID = d, wm_sequence = q, wm_canceled = True\<rparr>)) = (is_err r, t) \<and>
      validCutoverEntry n d q \<and> (cs_entries s n = None \<longrightarrow> entry_count s < cs_maximum s))"
  by (auto simp: cs_Cancel_def Let_def dest!: write_through_commit split: if_splits option.splits)

lemma Release_write:
  "cs_Release io n d q s = (r, t) \<Longrightarrow> t = s \<or>
     commit io s ((cs_entries s)(n := None)) = (is_err r, t)"
  by (auto simp: cs_Release_def dest!: write_through_commit split: if_splits option.splits)

datatype gate_op = OpObserve string string u64 | OpCancel string string u64 | OpRelease string string u64

text \<open>One operation with its write outcome: whether it returned an error, and the store after it.\<close>

fun run_op :: "write_outcome \<Rightarrow> gate_op \<Rightarrow> FileCutoverStore \<Rightarrow> bool \<times> FileCutoverStore" where
  "run_op io (OpObserve n d q) s = (case cs_Observe io n d q s of (r, t) \<Rightarrow> (is_err r, t))"
| "run_op io (OpCancel n d q) s = (case cs_Cancel io n d q s of (r, t) \<Rightarrow> (is_err r, t))"
| "run_op io (OpRelease n d q) s = (case cs_Release io n d q s of (r, t) \<Rightarrow> (is_err r, t))"

lemma run_op_commit:
  assumes "run_op io p s = (err, t)" "store_ok s"
  shows "t = s \<or> (\<exists>m. commit io s m = (err, t) \<and> entries_ok (cs_maximum s) m)"
proof -
  have ok: "entries_ok (cs_maximum s) (cs_entries s)" using assms(2) by (simp add: store_ok_def)
  have ins: "entries_ok (cs_maximum s) ((cs_entries s)(n \<mapsto> w))"
    if "validCutoverEntry n (wm_deploymentID w) (wm_sequence w)"
      "cs_entries s n = None \<longrightarrow> entry_count s < cs_maximum s" for n w
    using entries_ok_insert[OF ok that(1)] that(2) by (simp add: entry_count_def)
  show ?thesis
  proof (cases p)
    case (OpObserve n d q)
    with assms(1) obtain r where r: "cs_Observe io n d q s = (r, t)" "err = is_err r"
      by (auto split: prod.splits)
    from Observe_write[OF r(1)] show ?thesis using r(2) ins by auto
  next
    case (OpCancel n d q)
    with assms(1) obtain r where r: "cs_Cancel io n d q s = (r, t)" "err = is_err r"
      by (auto split: prod.splits)
    from Cancel_write[OF r(1)] show ?thesis using r(2) ins by auto
  next
    case (OpRelease n d q)
    with assms(1) obtain r where r: "cs_Release io n d q s = (r, t)" "err = is_err r"
      by (auto split: prod.splits)
    from Release_write[OF r(1)] show ?thesis using r(2) entries_ok_delete[OF ok, of n] by blast
  qed
qed

lemma run_op_ok: "run_op io p s = (err, t) \<Longrightarrow> store_ok s \<Longrightarrow> store_ok t"
  using run_op_commit commit_ok by blast

lemma run_op_synced:
  assumes "run_op io p s = (err, t)" "store_ok s" "synced s" "io \<noteq> WriteUnsynced"
  shows "synced t"
  using run_op_commit[OF assms(1,2)] commit_synced[OF _ _ assms(3,4)] assms(3) by blast

lemma run_op_error:
  assumes "run_op io p s = (True, t)" "store_ok s" "synced s" "io \<noteq> WriteUnsynced"
  shows "t = s"
  using run_op_commit[OF assms(1,2)] commit_synced[OF _ _ assms(3,4)] by blast

text \<open>A run of operations, each with the outcome of its write.\<close>

fun run_ops :: "(write_outcome \<times> gate_op) list \<Rightarrow> FileCutoverStore \<Rightarrow> FileCutoverStore" where
  "run_ops [] s = s"
| "run_ops ((io, p) # ps) s = run_ops ps (snd (run_op io p s))"

lemma run_ops_ok: "store_ok s \<Longrightarrow> store_ok (run_ops ps s)"
proof (induction ps arbitrary: s)
  case (Cons a ps)
  obtain io p where a: "a = (io, p)" by (cases a)
  have "store_ok (snd (run_op io p s))" using run_op_ok[of io p s] Cons.prems by (metis prod.collapse)
  with Cons.IH a show ?case by simp
qed simp

lemma run_op_maximum: "cs_maximum (snd (run_op io p s)) = cs_maximum s"
  by (cases p) (auto split: prod.splits dest: Observe_entries Cancel_entries Release_entries)

lemma run_ops_maximum: "cs_maximum (run_ops ps s) = cs_maximum s"
  by (induction ps s rule: run_ops.induct) (simp_all add: run_op_maximum)

lemma run_ops_synced:
  "store_ok s \<Longrightarrow> synced s \<Longrightarrow> (\<forall>(io, p) \<in> set ps. io \<noteq> WriteUnsynced) \<Longrightarrow> synced (run_ops ps s)"
proof (induction ps arbitrary: s)
  case (Cons a ps)
  obtain io p where a: "a = (io, p)" by (cases a)
  have "store_ok (snd (run_op io p s))" "synced (snd (run_op io p s))"
    using run_op_ok[of io p s] run_op_synced[of io p s] Cons.prems a by (auto simp: prod_eq_iff)
  with Cons a show ?case by simp
qed simp


text \<open>A run without a release of the slot \<open>n\<close> is a sequence of moves of that slot.\<close>

definition keeps_slot :: "string \<Rightarrow> (write_outcome \<times> gate_op) list \<Rightarrow> bool" where
  "keeps_slot n ps \<longleftrightarrow> (\<forall>(io, p) \<in> set ps. \<forall>d q. p \<noteq> OpRelease n d q)"

lemma moves_append:
  "file_gate.moves n t u \<Longrightarrow> file_gate.moves n s t \<Longrightarrow> file_gate.moves n s u"
  by (induction rule: file_gate.moves.induct) (auto intro: file_gate.moves.intros)

lemma run_op_moves:
  assumes "\<And>d q. p \<noteq> OpRelease n d q"
  shows "file_gate.moves n s (snd (run_op io p s))"
proof (cases p)
  case (OpObserve k d q)
  then show ?thesis
    by (auto split: prod.splits intro: file_gate.moves.observed[OF file_gate.moves.still])
next
  case (OpCancel k d q)
  then show ?thesis
    by (auto split: prod.splits intro: file_gate.moves.canceled[OF file_gate.moves.still])
next
  case (OpRelease k d q)
  with assms have "k \<noteq> n" by auto
  with OpRelease show ?thesis
    by (auto split: prod.splits intro: file_gate.moves.released[OF file_gate.moves.still])
qed

lemma run_ops_moves: "keeps_slot n ps \<Longrightarrow> file_gate.moves n s (run_ops ps s)"
proof (induction ps arbitrary: s)
  case Nil
  then show ?case by (simp add: file_gate.moves.still)
next
  case (Cons a ps)
  obtain io p where a: "a = (io, p)" by (cases a)
  have "file_gate.moves n s (snd (run_op io p s))"
    using Cons.prems a by (intro run_op_moves) (auto simp: keeps_slot_def)
  moreover have "file_gate.moves n (snd (run_op io p s)) (run_ops ps (snd (run_op io p s)))"
    using Cons.prems by (intro Cons.IH) (auto simp: keeps_slot_def)
  ultimately show ?case using a moves_append by auto
qed

text \<open>What a positive answer of \<open>ProtectsRemoval\<close> guarantees.\<close>

lemma ProtectsRemoval_rejects:
  assumes "cs_ProtectsRemoval n d q s = None" "p < q \<or> (p = q \<and> e \<noteq> d)"
  shows "rejects (cs_entries s n) e p"
  using assms by (auto simp: cs_ProtectsRemoval_def rejects_def split: option.splits if_splits)

end
