(* ===== verification/AgentProperties.thy ===== *)
theory AgentProperties
  imports CutoverStore
begin

text \<open>
  The properties of the agent's cutover store: the order of admitted executions in a slot, durable
  cancellation, restart, and what its errors mean.
\<close>

definition sample_store :: FileCutoverStore where
  "sample_store = \<lparr>cs_maximum = 2, cs_entries = Map.empty, cs_file = FileMissing\<rparr>"

lemma sample_valid [simp]: "validCutoverEntry ''owndock-x'' ''d1'' 1" "validCutoverEntry ''owndock-x'' ''d2'' 2"
  by code_simp+

lemma NewFileCutoverStore_sample: "NewFileCutoverStore None 2 FileMissing = Inr sample_store"
  by (simp add: NewFileCutoverStore_def cs_load_def sample_store_def)

text \<open>
  C33: the executions admitted to a slot are ordered while the slot is not released in between: whatever else
  happened, an execution admitted later has a higher sequence, or is the same execution again.
\<close>

theorem admissions_ordered:
  assumes "cs_Observe io n d q s = (Inr False, t)" "keeps_slot n ps"
    and "cs_Observe io' n e p (run_ops ps t) = (Inr False, u)"
  shows "q < p \<or> (q = p \<and> d = e)"
  by (rule file_gate.admitted_ordered[OF assms(1) run_ops_moves[OF assms(2)] assms(3)])

lemma singleton_document_length:
  "length (json_document (document_of [n \<mapsto> w])) \<le> 160 + length n + length (wm_deploymentID w)"
  using decimal_fuel_length[of 20 "unat (wm_sequence w)"]
  by (simp add: document_of_def json_document_def entry_document_def json_entry_def quoted_def decimal_def)

lemma singleton_document_small [simp]:
  "length n + length (wm_deploymentID w) \<le> 300 \<Longrightarrow>
   \<not> maximumCutoverStoreBytes < length (json_document (document_of [n \<mapsto> w]))"
  using singleton_document_length[of n w] by (simp add: maximumCutoverStoreBytes_def)

lemma empty_document_small [simp]:
  "\<not> maximumCutoverStoreBytes < length (json_document (document_of Map.empty))"
  by (simp add: document_of_def json_document_def quoted_def maximumCutoverStoreBytes_def)

definition sample_mark :: cutoverWatermark where
  "sample_mark = \<lparr>wm_deploymentID = ''d1'', wm_sequence = 1, wm_canceled = False\<rparr>"

definition sample_held :: FileCutoverStore where
  "sample_held = \<lparr>cs_maximum = 2, cs_entries = [''owndock-x'' \<mapsto> sample_mark],
     cs_file = FileDocument (document_of [''owndock-x'' \<mapsto> sample_mark])\<rparr>"

lemma sample_observed: "cs_Observe WriteOk ''owndock-x'' ''d1'' 1 sample_store = (Inr False, sample_held)"
  by (simp add: cs_Observe_def sample_store_def entry_count_def write_through_def cs_persistLocked_def Let_def
      sample_held_def sample_mark_def)

theorem admissions_ordered_witness:
  "\<exists>u. cs_Observe WriteOk ''owndock-x'' ''d2'' 2 sample_held = (Inr False, u) \<and> (1 :: u64) < 2"
proof -
  have "\<exists>u. cs_Observe WriteOk ''owndock-x'' ''d2'' 2 sample_held = (Inr False, u)"
    by (simp add: cs_Observe_def sample_held_def sample_mark_def write_through_def cs_persistLocked_def Let_def)
  then obtain u where u: "cs_Observe WriteOk ''owndock-x'' ''d2'' 2 (run_ops [] sample_held) = (Inr False, u)"
    by auto
  have "keeps_slot ''owndock-x'' []" by (simp add: keeps_slot_def)
  from admissions_ordered[OF sample_observed this u] u show ?thesis by auto
qed

text \<open>
  C34: a cancelled execution is never admitted again, whatever commands, cancellations, write failures
  and releases of other slots follow, as long as its own slot is not released.
\<close>

theorem canceled_never_admitted:
  assumes "cs_Cancel io n d q s = (Inr (), t)" "keeps_slot n ps"
  shows "fst (cs_Observe io' n d q (run_ops ps t)) \<noteq> Inr False"
  by (rule file_gate.canceled_forever[OF assms(1) run_ops_moves[OF assms(2)]])

theorem canceled_never_admitted_witness:
  "\<exists>t. cs_Cancel WriteOk ''owndock-x'' ''d1'' 1 sample_held = (Inr (), t) \<and>
     fst (cs_Observe WriteOk ''owndock-x'' ''d1'' 1
       (run_ops [(WriteFailed, OpObserve ''owndock-x'' ''d2'' 2)] t)) \<noteq> Inr False"
proof -
  have "\<exists>t. cs_Cancel WriteOk ''owndock-x'' ''d1'' 1 sample_held = (Inr (), t)"
    by (simp add: cs_Cancel_def sample_held_def sample_mark_def write_through_def cs_persistLocked_def Let_def)
  then obtain t where t: "cs_Cancel WriteOk ''owndock-x'' ''d1'' 1 sample_held = (Inr (), t)" by blast
  have "keeps_slot ''owndock-x'' [(WriteFailed, OpObserve ''owndock-x'' ''d2'' 2)]"
    by (simp add: keeps_slot_def)
  from canceled_never_admitted[OF t this] t show ?thesis by blast
qed

text \<open>
  C35: restart: after any run of operations whose writes each took effect or failed as a whole (none replaced the
  file and then failed to sync its directory), a new store opened on the file has the watermarks the old one
  had in memory. The excluded write does lose a watermark (\<open>failed_release_loses_watermark\<close>).
\<close>

theorem restart_restores_watermarks:
  assumes "NewFileCutoverStore None k file = Inr s" "\<forall>(io, p) \<in> set ps. io \<noteq> WriteUnsynced"
  shows "NewFileCutoverStore None k (cs_file (run_ops ps s)) = Inr (run_ops ps s)"
proof -
  have "\<exists>m. s = \<lparr>cs_maximum = k, cs_entries = m, cs_file = file\<rparr>"
    using assms(1) by (auto simp: NewFileCutoverStore_def split: if_splits sum.splits)
  then have s: "store_ok s" "synced s" "cs_maximum s = k"
    using NewFileCutoverStore_ok[OF assms(1)] by auto
  have m: "cs_maximum (run_ops ps s) = k" using run_ops_maximum[of ps s] s(3) by simp
  have "store_ok (run_ops ps s)" "synced (run_ops ps s)"
    using run_ops_ok[OF s(1)] run_ops_synced[OF s(1,2) assms(2)] by auto
  then show ?thesis
    using m by (auto simp: NewFileCutoverStore_def synced_def store_ok_def)
qed

theorem restart_restores_watermarks_witness:
  "NewFileCutoverStore None 2 (cs_file sample_held) = Inr sample_held"
proof -
  have "run_ops [(WriteOk, OpObserve ''owndock-x'' ''d1'' 1)] sample_store = sample_held"
    by (simp add: sample_observed)
  with restart_restores_watermarks[OF NewFileCutoverStore_sample,
      of "[(WriteOk, OpObserve ''owndock-x'' ''d1'' 1)]"]
  show ?thesis by simp
qed

text \<open>
  What \<open>ProtectsRemoval\<close> promises: once it agrees to the removal of an execution, every older
  execution, and every other execution of the same sequence, is turned away for as long as the slot
  is not released.
\<close>

theorem removal_is_protected:
  assumes "cs_ProtectsRemoval n d q s = None" "p < q \<or> (p = q \<and> e \<noteq> d)" "keeps_slot n ps"
  shows "fst (cs_Observe io n e p (run_ops ps s)) \<noteq> Inr False"
  by (rule file_gate.rejected_forever[OF ProtectsRemoval_rejects[OF assms(1,2)] run_ops_moves[OF assms(3)]])

theorem removal_is_protected_witness:
  "cs_ProtectsRemoval ''owndock-x'' ''d1'' 1 sample_held = None \<and>
   fst (cs_Observe WriteOk ''owndock-x'' ''d2'' 1 (run_ops [] sample_held)) \<noteq> Inr False"
proof -
  have p: "cs_ProtectsRemoval ''owndock-x'' ''d1'' 1 sample_held = None"
    by (simp add: cs_ProtectsRemoval_def sample_held_def sample_mark_def)
  from removal_is_protected[OF p, of 1 "''d2''" "[]" WriteOk] p show ?thesis by (simp add: keeps_slot_def)
qed

text \<open>
  The watermark does not turn away a delayed command of the removed execution itself: with an
  uncancelled watermark of that execution the removal is agreed to, and the command is admitted.
\<close>

lemma removal_admits_own_command:
  "cs_ProtectsRemoval ''owndock-x'' ''d1'' 1 sample_held = None \<and>
   cs_Observe WriteOk ''owndock-x'' ''d1'' 1 sample_held = (Inr False, sample_held)"
  by (simp add: cs_ProtectsRemoval_def cs_Observe_def sample_held_def sample_mark_def)

text \<open>
  An error of an operation need not mean that nothing happened: when the directory cannot be
  synced after the rename, a release reports an error and keeps its watermark in memory, while the
  file has lost it, so that a restarted agent no longer knows the slot.
\<close>

lemma failed_release_loses_watermark:
  "\<exists>t. cs_Release WriteUnsynced ''owndock-x'' ''d1'' 1 sample_held = (Inl ErrStateFile, t) \<and>
     cs_entries t = cs_entries sample_held \<and>
     NewFileCutoverStore None 2 (cs_file t) = Inr (t\<lparr>cs_entries := Map.empty\<rparr>)"
proof -
  have "cs_load 2 (FileDocument (document_of Map.empty)) = Inr Map.empty"
    by (rule load_document_of) (simp_all add: entries_ok_def document_of_def json_document_def quoted_def
        maximumCutoverStoreBytes_def)
  then show ?thesis
    by (simp add: cs_Release_def sample_held_def sample_mark_def write_through_def cs_persistLocked_def Let_def
        NewFileCutoverStore_def)
qed

end
