(* ===== verification/WireEncoding.thy ===== *)
theory WireEncoding
  imports Sha256
begin

text \<open>
  The length-prefixed encoding that the agent protocol hashes (\<open>writeFingerprint...\<close> in
  \<open>internal/shared/agentprotocol/command.go\<close>), and the contract that makes it unambiguous: an
  encoding is self-delimiting when an encoded value can be read off the front of any byte string in
  one way only. The contract is a locale, interpreted on each primitive of the source, and closed
  under lists with a count in front.
\<close>

section \<open>The contract\<close>

locale self_delimiting =
  fixes enc :: "'a \<Rightarrow> string" and ok :: "'a \<Rightarrow> bool"
  assumes split: "ok x \<Longrightarrow> ok y \<Longrightarrow> enc x @ s = enc y @ t \<Longrightarrow> x = y \<and> s = t"
begin

lemma enc_inject: "ok x \<Longrightarrow> ok y \<Longrightarrow> enc x = enc y \<Longrightarrow> x = y"
  using split[of x y "[]" "[]"] by simp

lemma enc_same: "ok x \<Longrightarrow> ok y \<Longrightarrow> enc x @ s = enc y @ t \<longleftrightarrow> x = y \<and> s = t"
  using split[of x y s t] by auto

text \<open>Any number of encoded values one after the other, when their number is known.\<close>

lemma concat_split:
  "length xs = length ys \<Longrightarrow> \<forall>x \<in> set xs. ok x \<Longrightarrow> \<forall>y \<in> set ys. ok y \<Longrightarrow>
   concat (map enc xs) @ s = concat (map enc ys) @ t \<Longrightarrow> xs = ys \<and> s = t"
proof (induction xs ys rule: list_induct2)
  case (Cons x xs y ys)
  have "enc x @ (concat (map enc xs) @ s) = enc y @ (concat (map enc ys) @ t)"
    using Cons.prems(3) by simp
  then have "x = y" "concat (map enc xs) @ s = concat (map enc ys) @ t"
    using split[of x y] Cons.prems(1,2) by auto
  with Cons show ?case by auto
qed simp

end

section \<open>Numbers\<close>

lemma be_bytes_range: "b \<in> set (be_bytes n v) \<Longrightarrow> 0 \<le> b \<and> b < 256"
  by (induction n arbitrary: v) auto

lemma be_bytes_inject:
  "be_bytes n v = be_bytes n w \<Longrightarrow> 0 \<le> v \<Longrightarrow> 0 \<le> w \<Longrightarrow> v < 256 ^ n \<Longrightarrow> w < 256 ^ n \<Longrightarrow> v = w"
proof (induction n arbitrary: v w)
  case (Suc n)
  have "be_bytes n (v div 256) = be_bytes n (w div 256)" "v mod 256 = w mod 256"
    using Suc.prems(1) by simp_all
  moreover have "x div 256 < p" if "x < 256 * p" for x p :: int using that by presburger
  then have "v div 256 < 256 ^ n" "w div 256 < 256 ^ n" using Suc.prems(4,5) by simp_all
  ultimately have "v div 256 = w div 256" using Suc.IH Suc.prems(2,3) by (simp add: pos_imp_zdiv_nonneg_iff)
  with \<open>v mod 256 = w mod 256\<close> show ?case by (metis div_mult_mod_eq)
qed simp

text \<open>\<open>binary.BigEndian.PutUint64\<close>.\<close>

definition be_uint64 :: "u64 \<Rightarrow> string" where
  "be_uint64 w = map (\<lambda>b. char_of (nat b)) (be_bytes 8 (uint w))"

lemma length_be_uint64 [simp]: "length (be_uint64 w) = 8"
  by (simp add: be_uint64_def)

lemma char_of_byte_inject:
  "0 \<le> a \<Longrightarrow> a < 256 \<Longrightarrow> 0 \<le> b \<Longrightarrow> b < 256 \<Longrightarrow> (char_of (nat a) :: char) = char_of (nat b) \<longleftrightarrow> a = b"
  by (auto simp: char_of_eq_iff take_bit_nat_eq_self nat_less_iff)

lemma be_uint64_inject: "be_uint64 v = be_uint64 w \<longleftrightarrow> v = w"
proof
  assume e: "be_uint64 v = be_uint64 w"
  have "inj_on (\<lambda>b. char_of (nat b) :: char) {b. 0 \<le> b \<and> b < 256}"
    by (auto intro!: inj_onI simp: char_of_byte_inject)
  then have "be_bytes 8 (uint v) = be_bytes 8 (uint w)"
    using e be_bytes_range unfolding be_uint64_def
    by (intro map_inj_on[of "\<lambda>b. char_of (nat b) :: char"]) (auto intro: inj_on_subset)
  moreover have "uint u < 256 ^ 8" for u :: u64 using uint_bounded[of u] by simp
  ultimately have "uint v = uint w" by (intro be_bytes_inject) auto
  then show "v = w" using word_uint_eq_iff by blast
qed simp

definition write_uint64 :: "u64 \<Rightarrow> string" where
  "write_uint64 w = be_uint64 w"

definition write_int64 :: "int \<Rightarrow> string" where
  "write_int64 i = write_uint64 (of_int i)"

definition write_bool :: "bool \<Rightarrow> string" where
  "write_bool b = write_uint64 (if b then 1 else 0)"

definition write_bytes :: "string \<Rightarrow> string" where
  "write_bytes s = write_uint64 (of_nat (length s)) @ s"

text \<open>A Go slice is shorter than \<open>2 ^ 63\<close>, and an \<open>int64\<close> is in its range.\<close>

definition go_length :: "nat \<Rightarrow> bool" where
  "go_length n \<longleftrightarrow> n < 2 ^ 63"

definition go_int64 :: "int \<Rightarrow> bool" where
  "go_int64 i \<longleftrightarrow> - (2 ^ 63) \<le> i \<and> i < 2 ^ 63"

interpretation enc_uint64: self_delimiting write_uint64 "\<lambda>_. True"
  by unfold_locales (simp add: write_uint64_def be_uint64_inject append_eq_append_conv)

lemma of_nat_length_inject:
  "go_length m \<Longrightarrow> go_length n \<Longrightarrow> (of_nat m :: u64) = of_nat n \<longleftrightarrow> m = n"
  by (simp add: go_length_def word_of_nat_eq_iff take_bit_nat_eq_self)

lemma of_int_inject64: "go_int64 i \<Longrightarrow> go_int64 j \<Longrightarrow> (of_int i :: u64) = of_int j \<longleftrightarrow> i = j"
proof -
  assume a: "go_int64 i" "go_int64 j"
  have "(of_int i :: u64) = of_int j \<longleftrightarrow> signed_take_bit 63 i = signed_take_bit 63 j"
    by (simp add: word_of_int_eq_iff signed_take_bit_eq_iff_take_bit_eq)
  also have "\<dots> \<longleftrightarrow> i = j"
    using a by (simp add: go_int64_def signed_take_bit_int_eq_self)
  finally show ?thesis .
qed

interpretation enc_int64: self_delimiting write_int64 go_int64
proof unfold_locales
  fix x y :: int and s t :: string
  assume "go_int64 x" "go_int64 y" "write_int64 x @ s = write_int64 y @ t"
  then show "x = y \<and> s = t"
    unfolding write_int64_def
    using enc_uint64.split[where x = "of_int x" and y = "of_int y" and s = s and t = t] of_int_inject64[of x y] by simp
qed

interpretation enc_bool: self_delimiting write_bool "\<lambda>_. True"
proof unfold_locales
  fix x y s t
  assume "write_bool x @ s = write_bool y @ t"
  then have "(if x then 1 else 0 :: u64) = (if y then 1 else 0)" "s = t"
    unfolding write_bool_def using enc_uint64.split by blast+
  then show "x = y \<and> s = t" by (auto split: if_splits)
qed

interpretation enc_bytes: self_delimiting write_bytes "\<lambda>s. go_length (length s)"
proof unfold_locales
  fix x y s t
  assume g: "go_length (length x)" "go_length (length y)" and e: "write_bytes x @ s = write_bytes y @ t"
  from e have "(of_nat (length x) :: u64) = of_nat (length y)" "x @ s = y @ t"
    unfolding write_bytes_def using enc_uint64.split by (metis append_assoc)+
  with g show "x = y \<and> s = t" by (simp add: of_nat_length_inject)
qed

section \<open>Lists and pairs\<close>

definition write_list :: "('a \<Rightarrow> string) \<Rightarrow> 'a list \<Rightarrow> string" where
  "write_list enc xs = write_uint64 (of_nat (length xs)) @ concat (map enc xs)"

definition list_ok :: "('a \<Rightarrow> bool) \<Rightarrow> 'a list \<Rightarrow> bool" where
  "list_ok ok xs \<longleftrightarrow> go_length (length xs) \<and> (\<forall>x \<in> set xs. ok x)"

context self_delimiting begin

lemma list_delimiting: "self_delimiting (write_list enc) (list_ok ok)"
proof
  fix xs ys s t
  assume l: "list_ok ok xs" "list_ok ok ys" and e: "write_list enc xs @ s = write_list enc ys @ t"
  from e have n: "(of_nat (length xs) :: u64) = of_nat (length ys)"
    and c: "concat (map enc xs) @ s = concat (map enc ys) @ t"
    unfolding write_list_def using enc_uint64.split by (metis append_assoc)+
  have "length xs = length ys" using n l by (simp add: list_ok_def of_nat_length_inject)
  from concat_split[OF this _ _ c] l show "xs = ys \<and> s = t" by (simp add: list_ok_def)
qed

end

lemmas enc_strings_delimiting = enc_bytes.list_delimiting

interpretation enc_strings: self_delimiting "write_list write_bytes" "list_ok (\<lambda>s. go_length (length s))"
  by (rule enc_strings_delimiting)

lemmas enc_split = enc_uint64.enc_same[simplified] enc_int64.enc_same enc_bool.enc_same[simplified]
  enc_bytes.enc_same enc_strings.enc_same

end
