(* ===== verification/TextRules.thy ===== *)
theory TextRules
  imports GoText "HOL-Library.Char_ord" "HOL-Library.List_Lexorder"
begin

text \<open>
  More of Go's text packages, as the domain code uses them: \<open>strings.Split\<close>, \<open>strings.HasSuffix\<close>,
  \<open>strings.Contains\<close>, the runes with \<open>unicode.IsSpace\<close> and \<open>unicode.IsControl\<close>, and \<open>path.Clean\<close>
  with a reference semantics of path components as a walk through directories.
\<close>

section \<open>Substrings and separators\<close>

definition has_suffix :: "string \<Rightarrow> string \<Rightarrow> bool" where
  "has_suffix s p \<longleftrightarrow> length p \<le> length s \<and> drop (length s - length p) s = p"

fun contains :: "string \<Rightarrow> string \<Rightarrow> bool" where
  "contains [] p \<longleftrightarrow> p = []"
| "contains (c # cs) p \<longleftrightarrow> has_prefix (c # cs) p \<or> contains cs p"

lemma has_prefix_prefix: "has_prefix s p \<longleftrightarrow> prefix p s"
  by (auto simp: has_prefix_def prefix_def) (metis append_take_drop_id)

lemma contains_sublist: "contains s p \<longleftrightarrow> sublist p s"
  by (induction s) (auto simp: has_prefix_prefix sublist_Cons_right)

text \<open>\<open>strings.Split\<close> with a one-character separator, and \<open>strings.Join\<close>.\<close>

fun split_char :: "char \<Rightarrow> string \<Rightarrow> string list" where
  "split_char c [] = [[]]"
| "split_char c (x # xs) =
     (if x = c then [] # split_char c xs
      else (case split_char c xs of [] \<Rightarrow> [[x]] | w # ws \<Rightarrow> (x # w) # ws))"

fun join_char :: "char \<Rightarrow> string list \<Rightarrow> string" where
  "join_char c [] = []"
| "join_char c [w] = w"
| "join_char c (w # v # ws) = w @ c # join_char c (v # ws)"

lemma split_char_ne [simp]: "split_char c s \<noteq> []"
  by (induction s) (auto split: list.splits)

lemma split_char_free: "c \<notin> set w \<Longrightarrow> split_char c w = [w]"
  by (induction w) auto

lemma split_char_append: "c \<notin> set w \<Longrightarrow> split_char c (w @ c # s) = w # split_char c s"
  by (induction w) auto

lemma split_join: "ws \<noteq> [] \<Longrightarrow> \<forall>w \<in> set ws. c \<notin> set w \<Longrightarrow> split_char c (join_char c ws) = ws"
  by (induction c ws rule: join_char.induct) (auto simp: split_char_free split_char_append)

lemma split_char_no_sep: "w \<in> set (split_char c s) \<Longrightarrow> c \<notin> set w"
  by (induction s arbitrary: w) (auto split: if_splits list.splits)

lemma join_split: "join_char c (split_char c s) = s"
proof (induction s)
  case (Cons x xs)
  obtain w ws where w: "split_char c xs = w # ws" using split_char_ne by (cases "split_char c xs") auto
  with Cons show ?case by (cases ws) auto
qed simp

lemma join_char_append:
  "vs \<noteq> [] \<Longrightarrow> ws \<noteq> [] \<Longrightarrow> join_char c (vs @ ws) = join_char c vs @ c # join_char c ws"
proof (induction c vs rule: join_char.induct)
  case (2 c w)
  then show ?case by (cases ws) auto
qed auto

section \<open>Runes\<close>

text \<open>
  A control character is one byte below \<open>0x20\<close>, \<open>0x7F\<close>, or the two-byte encoding of a rune from
  \<open>0x80\<close> to \<open>0x9F\<close>. The lead byte of the latter never occurs inside another rune, so decoding
  finds it wherever the two bytes stand together; \<open>space_encodings\<close> likewise.
\<close>

fun has_control :: "string \<Rightarrow> bool" where
  "has_control [] = False"
| "has_control (c # cs) \<longleftrightarrow>
     (of_char c :: nat) < 32 \<or> c = CHR 0x7F \<or>
     (c = CHR 0xC2 \<and> cs \<noteq> [] \<and> in_range CHR 0x80 CHR 0x9F (hd cs)) \<or> has_control cs"

definition has_space :: "string \<Rightarrow> bool" where
  "has_space s \<longleftrightarrow> list_ex (contains s) space_encodings"

section \<open>path.Clean\<close>

text \<open>The components kept so far, last first.\<close>

definition clean_step :: "bool \<Rightarrow> string list \<Rightarrow> string \<Rightarrow> string list" where
  "clean_step rooted stack w =
     (if w = [] \<or> w = ''.'' then stack
      else if w = ''..'' then
        (case stack of
           [] \<Rightarrow> if rooted then [] else [''..'']
         | t # rest \<Rightarrow> if t = ''..'' then ''..'' # stack else rest)
      else w # stack)"

definition path_clean :: "string \<Rightarrow> string" where
  "path_clean s =
     (let rooted = has_prefix s ''/'';
          ws = rev (foldl (clean_step rooted) [] (split_char CHR ''/'' s))
      in if rooted then CHR ''/'' # join_char CHR ''/'' ws
         else if ws = [] then ''.'' else join_char CHR ''/'' ws)"

text \<open>A component that names an entry of a directory.\<close>

definition plain :: "string \<Rightarrow> bool" where
  "plain w \<longleftrightarrow> w \<noteq> [] \<and> w \<noteq> ''.'' \<and> w \<noteq> ''..'' \<and> CHR ''/'' \<notin> set w"

definition clean_form :: "string list \<Rightarrow> bool" where
  "clean_form ws \<longleftrightarrow> (\<exists>k names. ws = replicate k ''..'' @ names \<and> (\<forall>w \<in> set names. plain w))"

lemma clean_form_replicate [simp]: "clean_form (replicate k ''..'')"
  unfolding clean_form_def by (rule exI[of _ k], rule exI[of _ "[]"]) simp

lemma clean_form_snoc:
  assumes "clean_form ws" "plain w"
  shows "clean_form (ws @ [w])"
proof -
  obtain k names where "ws = replicate k ''..'' @ names" "\<forall>w \<in> set names. plain w"
    using assms(1) unfolding clean_form_def by blast
  with assms(2) have "ws @ [w] = replicate k ''..'' @ (names @ [w]) \<and> (\<forall>w \<in> set (names @ [w]). plain w)"
    by auto
  then show ?thesis unfolding clean_form_def by blast
qed

lemma clean_step_form:
  assumes "clean_form (rev stack)" "CHR ''/'' \<notin> set w"
  shows "clean_form (rev (clean_step False stack w))"
proof -
  obtain k names where kn: "rev stack = replicate k ''..'' @ names" "\<forall>w \<in> set names. plain w"
    using assms(1) unfolding clean_form_def by blast
  consider (same) "w = [] \<or> w = ''.''" | (up) "w = ''..''" | (name) "plain w"
    using assms(2) unfolding plain_def by blast
  then show ?thesis
  proof cases
    case same
    with assms(1) show ?thesis by (auto simp: clean_step_def)
  next
    case up
    show ?thesis
    proof (cases names rule: rev_cases)
      case Nil
      then have "stack = replicate k ''..''"
        using kn(1) rev_swap[of stack] by simp
      then have "clean_step False stack w = replicate (Suc k) ''..''"
        using up by (cases k) (simp_all add: clean_step_def)
      then show ?thesis by (simp only: rev_replicate clean_form_replicate)
    next
      case (snoc front t)
      then have "stack = t # rev (replicate k ''..'' @ front)"
        using kn(1) rev_swap[of stack] by simp
      moreover have "t \<noteq> ''..''" using kn(2) snoc by (simp add: plain_def)
      ultimately have "rev (clean_step False stack w) = replicate k ''..'' @ front"
        using up by (simp add: clean_step_def)
      then show ?thesis unfolding clean_form_def using kn(2) snoc by fastforce
    qed
  next
    case name
    then have "clean_step False stack w = w # stack" by (simp add: clean_step_def plain_def)
    then show ?thesis using clean_form_snoc[OF assms(1) name] by simp
  qed
qed

lemma clean_fold_form:
  "clean_form (rev stack) \<Longrightarrow> \<forall>w \<in> set ws. CHR ''/'' \<notin> set w \<Longrightarrow>
   clean_form (rev (foldl (clean_step False) stack ws))"
  by (induction ws arbitrary: stack) (auto simp: clean_step_form)

lemma clean_form_no_sep:
  assumes "clean_form ws" "w \<in> set ws"
  shows "CHR ''/'' \<notin> set w"
proof -
  obtain k names where "ws = replicate k ''..'' @ names" and names: "\<forall>w \<in> set names. plain w"
    using assms(1) unfolding clean_form_def by blast
  with assms(2) have "w = ''..'' \<or> w \<in> set names" by (simp split: if_splits) blast
  then show ?thesis
  proof
    assume "w \<in> set names"
    with names show ?thesis by (simp add: plain_def)
  qed simp
qed

text \<open>A relative path that \<open>path.Clean\<close> leaves alone, is not the root and does not begin with
  \<open>..\<close> consists of plain components.\<close>

lemma clean_relative_plain:
  assumes "path_clean s = s" "\<not> has_prefix s ''/''" "s \<noteq> ''.''" "s \<noteq> ''..''" "\<not> has_prefix s ''../''"
  shows "\<forall>w \<in> set (split_char CHR ''/'' s). plain w"
proof -
  let ?ws = "rev (foldl (clean_step False) [] (split_char CHR ''/'' s))"
  have form: "clean_form ?ws"
    by (rule clean_fold_form) (auto dest: split_char_no_sep simp: clean_form_def)
  have ne: "?ws \<noteq> []" and s: "s = join_char CHR ''/'' ?ws"
    using assms(1,2,3) unfolding path_clean_def Let_def by (auto split: if_splits)
  have sp: "split_char CHR ''/'' s = ?ws"
    using split_join[OF ne] clean_form_no_sep[OF form] s by metis
  obtain k names where kn: "?ws = replicate k ''..'' @ names" "\<forall>w \<in> set names. plain w"
    using form unfolding clean_form_def by blast
  have "k = 0"
  proof (rule ccontr)
    assume "k \<noteq> 0"
    then obtain j where "?ws = ''..'' # (replicate j ''..'' @ names)" using kn(1) by (cases k) auto
    then obtain vs where vs: "?ws = ''..'' # vs" by blast
    then have "s = ''..'' \<or> has_prefix s ''../''"
      using s by (cases vs) (auto simp: has_prefix_def)
    with assms(4,5) show False by blast
  qed
  with kn sp show ?thesis by simp
qed

section \<open>Walking through directories\<close>

text \<open>
  What the components of a path do, from a directory given by its distance from a root: \<open>None\<close> when
  they leave the root.
\<close>

fun walk :: "string list \<Rightarrow> string list \<Rightarrow> string list option" where
  "walk dir [] = Some dir"
| "walk dir (w # ws) =
     (if w = [] \<or> w = ''.'' then walk dir ws
      else if w = ''..'' then (if dir = [] then None else walk (butlast dir) ws)
      else walk (dir @ [w]) ws)"

lemma walk_plain: "\<forall>w \<in> set ws. plain w \<Longrightarrow> walk dir ws = Some (dir @ ws)"
  by (induction ws arbitrary: dir) (auto simp: plain_def)

end
