(* ===== verification/IngressCommand.thy ===== *)
theory IngressCommand
  imports WireEncoding TextRules
begin

text \<open>
  The typed ingress configuration an agent is sent
  (\<open>internal/shared/agentprotocol/ingress.go\<close>): routes, their validity, the digest over the
  canonical order, and the backend alias derived from a deployment's id.
\<close>

type_synonym port_number = "16 word"

datatype protocol_error = ErrCommandInvalid | ErrResultInvalid

datatype IngressTLSMode = IngressTLSAutomatic | IngressTLSDisabled | IngressTLSOther string

fun tls_text :: "IngressTLSMode \<Rightarrow> string" where
  "tls_text IngressTLSAutomatic = ''automatic''"
| "tls_text IngressTLSDisabled = ''disabled''"
| "tls_text (IngressTLSOther s) = s"

record IngressRoute =
  route_ID :: string
  route_Revision :: u64
  route_DeploymentID :: string
  route_CutoverSequence :: u64
  route_RuntimeTargetID :: string
  route_Hostname :: string
  route_BackendAlias :: string
  route_BackendPort :: port_number
  route_TLSMode :: IngressTLSMode

record IngressCommand =
  ing_HostRevision :: u64
  ing_ConfigDigest :: string
  ing_Routes :: "IngressRoute list"
  ing_ProbeRouteIDs :: "string list"

definition MaxIngressRoutes :: nat where
  "MaxIngressRoutes = 128"

section \<open>Identifiers\<close>

text \<open>
  \<open>validIdentifier\<close> (in \<open>command.go\<close>) ranges over runes; a byte of a non-ASCII rune is refused
  either way.
\<close>

definition identifier_char :: "char \<Rightarrow> bool" where
  "identifier_char c \<longleftrightarrow> is_lower c \<or> is_upper c \<or> is_digit c \<or> c = CHR ''-'' \<or> c = CHR ''_'' \<or> c = CHR ''.''"

definition validIdentifier :: "string \<Rightarrow> bool" where
  "validIdentifier value \<longleftrightarrow>
     \<not> (value = [] \<or> 128 < length value \<or> value = ''.'' \<or> value = ''..'' \<or> hd value = CHR ''.'')
     \<and> list_all identifier_char value"

section \<open>Host names\<close>

definition digit_value :: "char \<Rightarrow> nat" where
  "digit_value c = of_char c - 48"

definition decimal_value :: "string \<Rightarrow> nat" where
  "decimal_value s = foldl (\<lambda>n c. 10 * n + digit_value c) 0 s"

text \<open>
  \<open>net.ParseIP\<close> on a string without a colon succeeds on dotted decimal IPv4: four fields of at most
  255 without leading zeros.
\<close>

definition ipv4_field :: "string \<Rightarrow> bool" where
  "ipv4_field f \<longleftrightarrow> f \<noteq> [] \<and> list_all is_digit f \<and> (1 < length f \<longrightarrow> hd f \<noteq> CHR ''0'') \<and>
     length f \<le> 3 \<and> decimal_value f \<le> 255"

definition parses_as_ipv4 :: "string \<Rightarrow> bool" where
  "parses_as_ipv4 s \<longleftrightarrow> (let fs = split_char CHR ''.'' s in length fs = 4 \<and> list_all ipv4_field fs)"

definition label_edge :: "char \<Rightarrow> bool" where
  "label_edge c \<longleftrightarrow> is_lower c \<or> is_digit c"

definition ingressHostnameLabel :: "string \<Rightarrow> bool" where
  "ingressHostnameLabel s \<longleftrightarrow> s \<noteq> [] \<and> length s \<le> 63 \<and> label_edge (hd s) \<and> label_edge (last s) \<and>
     list_all (\<lambda>c. label_edge c \<or> c = CHR ''-'') s"

text \<open>
  \<open>value != strings.ToLower(value)\<close>: an upper-case ASCII letter. A character beyond ASCII that
  \<open>ToLower\<close> changes is refused by the label pattern.
\<close>

definition validIngressHostname :: "string \<Rightarrow> bool" where
  "validIngressHostname value \<longleftrightarrow>
     \<not> (value = [] \<or> 253 < length value \<or> list_ex is_upper value \<or> has_suffix value ''.'' \<or>
        CHR '':'' \<in> set value \<or> parses_as_ipv4 value) \<and>
     (let labels = split_char CHR ''.'' value in
      \<not> (length labels < 2 \<or> value = ''localhost'' \<or> has_suffix value ''.localhost'' \<or>
         has_suffix value ''.local'' \<or> has_suffix value ''.internal'' \<or> has_suffix value ''.home.arpa'') \<and>
      list_all ingressHostnameLabel labels)"

section \<open>Routes\<close>

definition ingress_alias_tail :: "char \<Rightarrow> bool" where
  "ingress_alias_tail c \<longleftrightarrow> is_lower c \<or> is_digit c \<or> c \<in> set ''_.-''"

definition ingressBackendAlias :: "string \<Rightarrow> bool" where
  "ingressBackendAlias s = matches_id label_edge ingress_alias_tail 127 s"

definition ingressDigest :: "string \<Rightarrow> bool" where
  "ingressDigest s \<longleftrightarrow> has_prefix s ''sha256:'' \<and> length (drop 7 s) = 64 \<and> list_all is_lower_hex_digit (drop 7 s)"

definition DeploymentBackendAlias :: "string \<Rightarrow> protocol_error + string" where
  "DeploymentBackendAlias deploymentID =
     (if \<not> validIdentifier deploymentID then Inl ErrCommandInvalid
      else Inr (''deployment-'' @ hex_encode (take 12 (sha256_sum deploymentID))))"

definition validIngressRoute :: "IngressRoute \<Rightarrow> bool" where
  "validIngressRoute r \<longleftrightarrow>
     validIdentifier (route_ID r) \<and> 0 < route_Revision r \<and> validIdentifier (route_DeploymentID r) \<and>
     0 < route_CutoverSequence r \<and> validIdentifier (route_RuntimeTargetID r) \<and>
     validIngressHostname (route_Hostname r) \<and> ingressBackendAlias (route_BackendAlias r) \<and>
     DeploymentBackendAlias (route_DeploymentID r) = Inr (route_BackendAlias r) \<and> 0 < route_BackendPort r \<and>
     (route_TLSMode r = IngressTLSAutomatic \<or> route_TLSMode r = IngressTLSDisabled)"

definition writeIngressRouteFingerprint :: "IngressRoute \<Rightarrow> string" where
  "writeIngressRouteFingerprint r =
     write_bytes (route_ID r) @ write_uint64 (route_Revision r) @ write_bytes (route_DeploymentID r) @
     write_uint64 (route_CutoverSequence r) @ write_bytes (route_RuntimeTargetID r) @
     write_bytes (route_Hostname r) @ write_bytes (route_BackendAlias r) @
     write_uint64 (ucast (route_BackendPort r)) @ write_bytes (tls_text (route_TLSMode r))"

text \<open>The loop of \<open>IngressConfigDigest\<close> over the sorted routes: what it hashes, unless a route is refused.\<close>

fun config_routes :: "IngressRoute list \<Rightarrow> string set \<Rightarrow> string option" where
  "config_routes [] seen = Some []"
| "config_routes (r # rs) seen =
     (if \<not> validIngressRoute r then None
      else if route_ID r \<in> seen then None
      else map_option ((@) (writeIngressRouteFingerprint r)) (config_routes rs (insert (route_ID r) seen)))"

definition config_content :: "u64 \<Rightarrow> IngressRoute list \<Rightarrow> string option" where
  "config_content hostRevision routes =
     (let canonical = sort_key route_ID routes in
      map_option (\<lambda>body. write_bytes ''owndock-ingress-config-v1'' @ write_uint64 hostRevision @
          write_uint64 (of_nat (length canonical)) @ body)
        (config_routes canonical {}))"

definition IngressConfigDigest :: "u64 \<Rightarrow> IngressRoute list \<Rightarrow> protocol_error + string" where
  "IngressConfigDigest hostRevision routes =
     (if hostRevision = 0 \<or> MaxIngressRoutes < length routes then Inl ErrCommandInvalid
      else (case config_content hostRevision routes of
        None \<Rightarrow> Inl ErrCommandInvalid
      | Some content \<Rightarrow> Inr (''sha256:'' @ sha256_hex content)))"

definition IngressRouteSpecDigest :: "IngressRoute \<Rightarrow> protocol_error + string" where
  "IngressRouteSpecDigest r =
     (if \<not> validIngressRoute r then Inl ErrCommandInvalid
      else Inr (''sha256:'' @ sha256_hex (write_bytes ''owndock-ingress-route-spec-v1'' @
        write_bytes (route_ID r) @ write_bytes (route_RuntimeTargetID r) @ write_bytes (route_Hostname r) @
        write_uint64 (ucast (route_BackendPort r)) @ write_bytes (tls_text (route_TLSMode r)))))"

section \<open>The command\<close>

text \<open>The loop over the routes: identifiers strictly ascending, host names pairwise different.\<close>

fun valid_routes :: "IngressRoute list \<Rightarrow> string \<Rightarrow> string set \<Rightarrow> bool" where
  "valid_routes [] previousID hostnames = True"
| "valid_routes (r # rs) previousID hostnames \<longleftrightarrow>
     validIngressRoute r \<and> previousID < route_ID r \<and> route_Hostname r \<notin> hostnames \<and>
     valid_routes rs (route_ID r) (insert (route_Hostname r) hostnames)"

fun valid_probes :: "string list \<Rightarrow> string \<Rightarrow> string set \<Rightarrow> bool" where
  "valid_probes [] previousID routeIDs = True"
| "valid_probes (i # is) previousID routeIDs \<longleftrightarrow>
     validIdentifier i \<and> previousID < i \<and> i \<in> routeIDs \<and> valid_probes is i routeIDs"

definition validIngressCommand :: "IngressCommand \<Rightarrow> bool" where
  "validIngressCommand c \<longleftrightarrow>
     \<not> (ing_HostRevision c = 0 \<or> MaxIngressRoutes < length (ing_Routes c) \<or>
        \<not> ingressDigest (ing_ConfigDigest c)) \<and>
     valid_routes (ing_Routes c) [] {} \<and>
     length (ing_ProbeRouteIDs c) \<le> MaxIngressRoutes \<and>
     valid_probes (ing_ProbeRouteIDs c) [] (set (map route_ID (ing_Routes c))) \<and>
     IngressConfigDigest (ing_HostRevision c) (ing_Routes c) = Inr (ing_ConfigDigest c)"

section \<open>Canonical order\<close>

lemma config_routes_Some:
  "config_routes rs seen = Some body \<longleftrightarrow>
     (\<forall>r \<in> set rs. validIngressRoute r \<and> route_ID r \<notin> seen) \<and> distinct (map route_ID rs) \<and>
     body = concat (map writeIngressRouteFingerprint rs)"
proof (induction rs arbitrary: seen body)
  case (Cons r rs)
  have "config_routes (r # rs) seen = Some body \<longleftrightarrow> validIngressRoute r \<and> route_ID r \<notin> seen \<and>
      (\<exists>rest. config_routes rs (insert (route_ID r) seen) = Some rest \<and>
        body = writeIngressRouteFingerprint r @ rest)" by auto
  also have "\<dots> \<longleftrightarrow> validIngressRoute r \<and> route_ID r \<notin> seen \<and>
      (\<forall>x \<in> set rs. validIngressRoute x \<and> route_ID x \<notin> insert (route_ID r) seen) \<and>
      distinct (map route_ID rs) \<and>
      body = writeIngressRouteFingerprint r @ concat (map writeIngressRouteFingerprint rs)"
    by (auto simp only: Cons.IH)
  also have "\<dots> \<longleftrightarrow> (\<forall>x \<in> set (r # rs). validIngressRoute x \<and> route_ID x \<notin> seen) \<and>
      distinct (map route_ID (r # rs)) \<and> body = concat (map writeIngressRouteFingerprint (r # rs))"
    by (force simp: image_iff)
  finally show ?case .
qed auto

lemma config_routes_None:
  "config_routes rs seen = None \<longleftrightarrow>
     \<not> ((\<forall>r \<in> set rs. validIngressRoute r \<and> route_ID r \<notin> seen) \<and> distinct (map route_ID rs))"
  using config_routes_Some[of rs seen] by (cases "config_routes rs seen") auto

lemma mset_map_distinct: "mset xs = mset ys \<Longrightarrow> distinct (map f xs) \<longleftrightarrow> distinct (map f ys)"
  by (metis mset_map mset_eq_imp_distinct_iff)

lemma config_content_perm:
  assumes "mset rs = mset rs'"
  shows "config_content v rs = config_content v rs'"
proof (cases "distinct (map route_ID rs)")
  case True
  then have "sort_key route_ID rs = sort_key route_ID rs'" by (rule sort_key_unique[OF assms])
  then show ?thesis by (simp add: config_content_def)
next
  case False
  have "\<not> distinct (map route_ID (sort_key route_ID rs))"
    using False mset_map_distinct[of rs "sort_key route_ID rs" route_ID] by simp
  moreover have "\<not> distinct (map route_ID (sort_key route_ID rs'))"
    using False mset_map_distinct[of rs "sort_key route_ID rs'" route_ID] assms by simp
  ultimately have "config_routes (sort_key route_ID rs) {} = None" "config_routes (sort_key route_ID rs') {} = None"
    by (simp_all add: config_routes_None)
  then show ?thesis by (simp add: config_content_def Let_def)
qed

lemma IngressConfigDigest_perm:
  "mset rs = mset rs' \<Longrightarrow> IngressConfigDigest v rs = IngressConfigDigest v rs'"
  using config_content_perm[of rs rs' v] by (metis size_mset IngressConfigDigest_def)


section \<open>What a valid command guarantees\<close>

lemma valid_routes_distinct:
  "valid_routes rs previousID hostnames \<Longrightarrow>
     sorted_wrt (<) (map route_ID rs) \<and> (\<forall>r \<in> set rs. validIngressRoute r \<and> previousID < route_ID r) \<and>
     distinct (map route_Hostname rs) \<and> set (map route_Hostname rs) \<inter> hostnames = {}"
proof (induction rs arbitrary: previousID hostnames)
  case (Cons r rs)
  then have "valid_routes rs (route_ID r) (insert (route_Hostname r) hostnames)" "validIngressRoute r"
    "previousID < route_ID r" "route_Hostname r \<notin> hostnames" by auto
  with Cons.IH[OF this(1)] show ?case by auto
qed simp

lemma valid_probes_ok:
  "valid_probes is previousID ids \<Longrightarrow> sorted_wrt (<) is \<and> set is \<subseteq> ids \<and> (\<forall>i \<in> set is. previousID < i)"
proof (induction "is" arbitrary: previousID)
  case (Cons i js)
  then have "sorted_wrt (<) js \<and> set js \<subseteq> ids \<and> (\<forall>j \<in> set js. i < j)" "previousID < i" "i \<in> ids"
    by auto
  then show ?case by (auto intro: order_less_trans)
qed simp

section \<open>The encoding of a route\<close>

definition route_sized :: "IngressRoute \<Rightarrow> bool" where
  "route_sized r \<longleftrightarrow> go_length (length (route_ID r)) \<and> go_length (length (route_DeploymentID r)) \<and>
     go_length (length (route_RuntimeTargetID r)) \<and> go_length (length (route_Hostname r)) \<and>
     go_length (length (route_BackendAlias r)) \<and>
     (route_TLSMode r = IngressTLSAutomatic \<or> route_TLSMode r = IngressTLSDisabled)"

lemma validIdentifier_length: "validIdentifier s \<Longrightarrow> go_length (length s)"
  by (simp add: validIdentifier_def go_length_def)

lemma route_sized_valid: "validIngressRoute r \<Longrightarrow> route_sized r"
  using validIdentifier_length[of "route_ID r"] validIdentifier_length[of "route_DeploymentID r"]
    validIdentifier_length[of "route_RuntimeTargetID r"] matches_id_length[of label_edge ingress_alias_tail 127 "route_BackendAlias r"]
  by (auto simp: validIngressRoute_def route_sized_def validIngressHostname_def ingressBackendAlias_def go_length_def)

lemma tls_text_inject:
  "a = IngressTLSAutomatic \<or> a = IngressTLSDisabled \<Longrightarrow> b = IngressTLSAutomatic \<or> b = IngressTLSDisabled \<Longrightarrow>
   tls_text a = tls_text b \<longleftrightarrow> a = b"
  by auto

lemma ucast_u16_inject: "(ucast (a :: 16 word) :: u64) = ucast b \<longleftrightarrow> a = b"
proof
  assume "(ucast a :: u64) = ucast b"
  then have "unat (ucast a :: u64) = unat (ucast b :: u64)" by simp
  moreover have "unat (ucast c :: u64) = unat c" for c :: "16 word"
    using unsigned_less[of c, where 'a = nat] by (simp add: unsigned_ucast_eq take_bit_nat_eq_self)
  ultimately have "unat a = unat b" by simp
  then show "a = b" by (rule word_unat_eq_iff[THEN iffD2])
qed simp

interpretation enc_route: self_delimiting writeIngressRouteFingerprint route_sized
proof unfold_locales
  fix x y s t
  assume a: "route_sized x" "route_sized y"
    and e: "writeIngressRouteFingerprint x @ s = writeIngressRouteFingerprint y @ t"
  have tl: "go_length (length (tls_text (route_TLSMode r)))" if "route_sized r" for r
    using that by (auto simp: route_sized_def go_length_def)
  show "x = y \<and> s = t"
    using e a tl[OF a(1)] tl[OF a(2)] unfolding writeIngressRouteFingerprint_def
    by (auto simp: enc_split route_sized_def ucast_u16_inject tls_text_inject intro: IngressRoute.equality)
qed

interpretation enc_routes: self_delimiting "write_list writeIngressRouteFingerprint" "list_ok route_sized"
  by (rule enc_route.list_delimiting)

end
