(* ===== verification/RuntimeSpec.thy ===== *)
theory RuntimeSpec
  imports GoText
begin

text \<open>
  The runtime specification of a deployment (\<open>internal/shared/runtimespec/spec.go\<close>): ports,
  environment keys, resource limits and the health check, with the normalisation that fills in
  defaults and refuses what is out of bounds. \<open>None\<close> stands for the only error, \<open>ErrInvalid\<close>.
  A nil and an empty slice are both the empty list.
\<close>

type_synonym u16 = "16 word"

record Port =
  port_Name :: string
  port_ContainerPort :: u16
  port_Protocol :: string

record Resources =
  CPUMilli :: int
  MemoryBytes :: int

record HealthCheck =
  hc_Command :: "string list"
  hc_IntervalSeconds :: int
  hc_TimeoutSeconds :: int
  hc_Retries :: int
  hc_StartPeriodSeconds :: int

record Spec =
  spec_Ports :: "Port list"
  spec_EnvironmentKeys :: "string list"
  spec_Resources :: Resources
  spec_HealthCheck :: "HealthCheck option"

definition DefaultCPUMilli :: int where
  "DefaultCPUMilli = 500"

definition DefaultMemoryBytes :: int where
  "DefaultMemoryBytes = 256 * 1024 * 1024"

definition zero_resources :: Resources where
  "zero_resources = \<lparr>CPUMilli = 0, MemoryBytes = 0\<rparr>"

section \<open>Names\<close>

definition env_name_head :: "char \<Rightarrow> bool" where
  "env_name_head c \<longleftrightarrow> is_lower c \<or> is_upper c \<or> c = CHR ''_''"

definition env_name_tail :: "char \<Rightarrow> bool" where
  "env_name_tail c \<longleftrightarrow> is_alnum c \<or> c = CHR ''_''"

text \<open>The pattern has no bound on the length.\<close>

fun environmentNameRule :: "string \<Rightarrow> bool" where
  "environmentNameRule [] = False"
| "environmentNameRule (c # cs) \<longleftrightarrow> env_name_head c \<and> list_all env_name_tail cs"

definition port_name_tail :: "char \<Rightarrow> bool" where
  "port_name_tail c \<longleftrightarrow> is_lower c \<or> is_digit c \<or> c = CHR ''-''"

definition portNameRule :: "string \<Rightarrow> bool" where
  "portNameRule s = matches_id is_lower port_name_tail 30 s"

text \<open>
  \<open>strings.ToLower\<close> on ASCII letters. Beyond ASCII it differs, but no other character is mapped to a
  letter of the two protocol names, the only results that are accepted.
\<close>

definition lower_char :: "char \<Rightarrow> char" where
  "lower_char c = (if is_upper c then char_of ((of_char c :: nat) + 32) else c)"

definition to_lower :: "string \<Rightarrow> string" where
  "to_lower s = map lower_char s"

section \<open>Normalize\<close>

definition normalize_port :: "Port \<Rightarrow> Port" where
  "normalize_port p =
     (let protocol = to_lower (trim_space (port_Protocol p))
      in p\<lparr>port_Name := trim_space (port_Name p),
           port_Protocol := (if protocol = [] then ''tcp'' else protocol)\<rparr>)"

text \<open>The loop over the ports, with the names and numbers seen so far.\<close>

fun normalize_ports :: "Port list \<Rightarrow> string set \<Rightarrow> u16 set \<Rightarrow> Port list option" where
  "normalize_ports [] names numbers = Some []"
| "normalize_ports (p # ps) names numbers =
     (let q = normalize_port p in
      if \<not> portNameRule (port_Name q) \<or> port_ContainerPort q = 0 \<or>
         (port_Protocol q \<noteq> ''tcp'' \<and> port_Protocol q \<noteq> ''udp'') then None
      else if port_Name q \<in> names then None
      else if port_ContainerPort q \<in> numbers then None
      else map_option ((#) q)
        (normalize_ports ps (insert (port_Name q) names) (insert (port_ContainerPort q) numbers)))"

fun normalize_keys :: "string list \<Rightarrow> string set \<Rightarrow> string list option" where
  "normalize_keys [] seen = Some []"
| "normalize_keys (k # ks) seen =
     (let name = trim_space k in
      if \<not> environmentNameRule name then None
      else if name \<in> seen then None
      else map_option ((#) name) (normalize_keys ks (insert name seen)))"

definition normalize_resources :: "Resources \<Rightarrow> Resources option" where
  "normalize_resources r =
     (let cpu = (if CPUMilli r = 0 then DefaultCPUMilli else CPUMilli r);
          memory = (if MemoryBytes r = 0 then DefaultMemoryBytes else MemoryBytes r)
      in if cpu < 10 \<or> cpu > 64000 \<or> memory < 16 * 1024 * 1024 \<or> memory > 1024 * 1024 * 1024 * 1024
         then None else Some \<lparr>CPUMilli = cpu, MemoryBytes = memory\<rparr>)"

definition or_default :: "int \<Rightarrow> int \<Rightarrow> int" where
  "or_default value d = (if value = 0 then d else value)"

definition normalize_health :: "HealthCheck \<Rightarrow> HealthCheck option" where
  "normalize_health h =
     (let command = map trim_space (hc_Command h);
          interval = or_default (hc_IntervalSeconds h) 30;
          timeout = or_default (hc_TimeoutSeconds h) 5;
          retries = or_default (hc_Retries h) 3;
          start = hc_StartPeriodSeconds h
      in if hc_Command h = [] \<or> 32 < length (hc_Command h) then None
         else if list_ex (\<lambda>s. s = [] \<or> 1024 < length s) command then None
         else if interval < 1 \<or> interval > 300 \<or> timeout < 1 \<or> timeout > 60 \<or>
                 retries < 1 \<or> retries > 10 \<or> start < 0 \<or> start > 600 then None
         else Some \<lparr>hc_Command = command, hc_IntervalSeconds = interval, hc_TimeoutSeconds = timeout,
           hc_Retries = retries, hc_StartPeriodSeconds = start\<rparr>)"

definition Normalize :: "Spec \<Rightarrow> Spec option" where
  "Normalize s =
     (if 16 < length (spec_Ports s) \<or> 100 < length (spec_EnvironmentKeys s) then None
      else (case normalize_ports (spec_Ports s) {} {} of
        None \<Rightarrow> None
      | Some ports \<Rightarrow> (case normalize_keys (spec_EnvironmentKeys s) {} of
          None \<Rightarrow> None
        | Some keys \<Rightarrow> (case normalize_resources (spec_Resources s) of
            None \<Rightarrow> None
          | Some resources \<Rightarrow> (case spec_HealthCheck s of
              None \<Rightarrow> Some \<lparr>spec_Ports = ports, spec_EnvironmentKeys = keys, spec_Resources = resources,
                spec_HealthCheck = None\<rparr>
            | Some h \<Rightarrow> (case normalize_health h of
                None \<Rightarrow> None
              | Some health \<Rightarrow> Some \<lparr>spec_Ports = ports, spec_EnvironmentKeys = keys,
                  spec_Resources = resources, spec_HealthCheck = Some health\<rparr>))))))"

section \<open>Bindings\<close>

text \<open>A Go map of variables as a partial function.\<close>

fun bind_keys :: "string list \<Rightarrow> (string \<rightharpoonup> string) \<Rightarrow> string list option" where
  "bind_keys [] variables = Some []"
| "bind_keys (name # names) variables =
     (case variables name of
        None \<Rightarrow> None
      | Some value \<Rightarrow> map_option ((#) (name @ ''='' @ value)) (bind_keys names variables))"

definition ValidateBindings :: "Spec \<Rightarrow> (string \<rightharpoonup> string) \<Rightarrow> string list option" where
  "ValidateBindings s variables = bind_keys (spec_EnvironmentKeys s) variables"

text \<open>
  \<open>NormalizeVariables\<close> ranges over the map in an order that Go leaves open: the list gives the order
  of the range, the result is again a map.
\<close>

fun normalize_variables :: "(string \<times> string) list \<Rightarrow> (string \<rightharpoonup> string) \<Rightarrow> (string \<rightharpoonup> string) option" where
  "normalize_variables [] acc = Some acc"
| "normalize_variables ((k, value) # rest) acc =
     (let name = trim_space k in
      if \<not> environmentNameRule name \<or> 4096 < length value then None
      else if acc name \<noteq> None then None
      else normalize_variables rest (acc(name \<mapsto> value)))"

definition NormalizeVariables :: "(string \<times> string) list \<Rightarrow> (string \<rightharpoonup> string) option" where
  "NormalizeVariables variables =
     (if 100 < length variables then None else normalize_variables variables Map.empty)"

section \<open>Normalisation is a projection\<close>

lemma lower_char_idem [simp]: "lower_char (lower_char c) = lower_char c"
proof (cases "is_upper c")
  case True
  let ?n = "of_char c :: nat"
  have n: "65 \<le> ?n" "?n \<le> 90" using True by (auto simp: is_upper_def in_range_def)
  then have "(of_char (char_of (?n + 32) :: char) :: nat) = ?n + 32" by simp
  then have "\<not> is_upper (char_of (?n + 32))" using n by (simp add: is_upper_def in_range_def)
  with True show ?thesis by (simp add: lower_char_def)
next
  case False
  then show ?thesis by (simp add: lower_char_def)
qed

lemma to_lower_idem [simp]: "to_lower (to_lower s) = to_lower s"
  by (simp add: to_lower_def)

lemma protocol_fixed [simp]:
  "to_lower (trim_space ''tcp'') = ''tcp''" "to_lower (trim_space ''udp'') = ''udp''"
  by code_simp+

lemma normalize_port_fixed:
  "port_Protocol (normalize_port p) = ''tcp'' \<or> port_Protocol (normalize_port p) = ''udp'' \<Longrightarrow>
   normalize_port (normalize_port p) = normalize_port p"
  by (auto simp: normalize_port_def Let_def split: if_splits)

lemma normalize_ports_idem:
  "normalize_ports ps names numbers = Some qs \<Longrightarrow> normalize_ports qs names numbers = Some qs"
proof (induction ps arbitrary: names numbers qs)
  case (Cons p ps)
  let ?q = "normalize_port p"
  from Cons.prems obtain rs where
    rs: "normalize_ports ps (insert (port_Name ?q) names) (insert (port_ContainerPort ?q) numbers) = Some rs"
    "qs = ?q # rs" and ok: "portNameRule (port_Name ?q)" "port_ContainerPort ?q \<noteq> 0"
      "port_Protocol ?q = ''tcp'' \<or> port_Protocol ?q = ''udp''" "port_Name ?q \<notin> names"
      "port_ContainerPort ?q \<notin> numbers"
    by (auto simp: Let_def split: if_splits)
  have fixed: "normalize_port ?q = ?q" using ok(3) by (rule normalize_port_fixed)
  have "normalize_ports (?q # rs) names numbers = Some (?q # rs)"
    using ok Cons.IH[OF rs(1)] by (simp only: normalize_ports.simps Let_def fixed) simp
  with rs(2) show ?case by simp
qed simp

lemma normalize_keys_idem: "normalize_keys ks seen = Some ns \<Longrightarrow> normalize_keys ns seen = Some ns"
  by (induction ks arbitrary: seen ns) (auto simp: Let_def split: if_splits)

lemma normalize_resources_idem: "normalize_resources r = Some r' \<Longrightarrow> normalize_resources r' = Some r'"
  by (auto simp: normalize_resources_def Let_def split: if_splits)

definition health_ok :: "HealthCheck \<Rightarrow> bool" where
  "health_ok h \<longleftrightarrow> hc_Command h \<noteq> [] \<and> length (hc_Command h) \<le> 32 \<and>
     (\<forall>s \<in> set (hc_Command h). s \<noteq> [] \<and> length s \<le> 1024) \<and>
     1 \<le> hc_IntervalSeconds h \<and> hc_IntervalSeconds h \<le> 300 \<and> 1 \<le> hc_TimeoutSeconds h \<and>
     hc_TimeoutSeconds h \<le> 60 \<and> 1 \<le> hc_Retries h \<and> hc_Retries h \<le> 10 \<and>
     0 \<le> hc_StartPeriodSeconds h \<and> hc_StartPeriodSeconds h \<le> 600"

lemma normalize_health_Some:
  assumes "normalize_health h = Some h'"
  shows "health_ok h' \<and> map trim_space (hc_Command h') = hc_Command h'"
proof -
  have "\<not> list_ex (\<lambda>s. s = [] \<or> 1024 < length s) (map trim_space (hc_Command h))"
    "hc_Command h \<noteq> []" "length (hc_Command h) \<le> 32"
    "hc_Command h' = map trim_space (hc_Command h)"
    "1 \<le> hc_IntervalSeconds h' \<and> hc_IntervalSeconds h' \<le> 300 \<and> 1 \<le> hc_TimeoutSeconds h' \<and>
     hc_TimeoutSeconds h' \<le> 60 \<and> 1 \<le> hc_Retries h' \<and> hc_Retries h' \<le> 10 \<and>
     0 \<le> hc_StartPeriodSeconds h' \<and> hc_StartPeriodSeconds h' \<le> 600"
    using assms unfolding normalize_health_def Let_def by (simp_all split: if_split_asm) auto
  then show ?thesis by (auto simp: health_ok_def list_ex_iff)
qed

lemma normalize_health_fixed:
  assumes "health_ok h" "map trim_space (hc_Command h) = hc_Command h"
  shows "normalize_health h = Some h"
proof -
  have "\<not> list_ex (\<lambda>s. s = [] \<or> 1024 < length s) (hc_Command h)"
    using assms(1) by (auto simp: health_ok_def list_ex_iff)
  moreover have "or_default (hc_IntervalSeconds h) 30 = hc_IntervalSeconds h"
    "or_default (hc_TimeoutSeconds h) 5 = hc_TimeoutSeconds h" "or_default (hc_Retries h) 3 = hc_Retries h"
    using assms(1) by (auto simp: health_ok_def or_default_def)
  ultimately show ?thesis
    using assms unfolding normalize_health_def Let_def by (simp add: health_ok_def)
qed

lemma normalize_health_idem: "normalize_health h = Some h' \<Longrightarrow> normalize_health h' = Some h'"
  using normalize_health_Some normalize_health_fixed by blast

lemma normalize_ports_length: "normalize_ports ps names numbers = Some qs \<Longrightarrow> length qs = length ps"
  by (induction ps arbitrary: names numbers qs) (auto simp: Let_def split: if_splits)

lemma normalize_keys_length: "normalize_keys ks seen = Some ns \<Longrightarrow> length ns = length ks"
  by (induction ks arbitrary: seen ns) (auto simp: Let_def split: if_splits)

lemma Normalize_Some:
  assumes "Normalize s = Some s'"
  shows "length (spec_Ports s) \<le> 16 \<and> length (spec_EnvironmentKeys s) \<le> 100 \<and>
     normalize_ports (spec_Ports s) {} {} = Some (spec_Ports s') \<and>
     normalize_keys (spec_EnvironmentKeys s) {} = Some (spec_EnvironmentKeys s') \<and>
     normalize_resources (spec_Resources s) = Some (spec_Resources s') \<and>
     spec_HealthCheck s' = Option.bind (spec_HealthCheck s) normalize_health \<and>
     (spec_HealthCheck s \<noteq> None \<longrightarrow> spec_HealthCheck s' \<noteq> None)"
  using assms by (auto simp: Normalize_def split: option.split_asm if_split_asm)

lemma Normalize_fixed:
  assumes "length (spec_Ports s) \<le> 16" "length (spec_EnvironmentKeys s) \<le> 100"
    and "normalize_ports (spec_Ports s) {} {} = Some (spec_Ports s)"
    and "normalize_keys (spec_EnvironmentKeys s) {} = Some (spec_EnvironmentKeys s)"
    and "normalize_resources (spec_Resources s) = Some (spec_Resources s)"
    and "\<And>h. spec_HealthCheck s = Some h \<Longrightarrow> normalize_health h = Some h"
  shows "Normalize s = Some s"
  using assms by (cases "spec_HealthCheck s") (simp_all add: Normalize_def)

lemma Normalize_idem:
  assumes "Normalize s = Some s'"
  shows "Normalize s' = Some s'"
proof (rule Normalize_fixed)
  note n = Normalize_Some[OF assms]
  show "length (spec_Ports s') \<le> 16" "length (spec_EnvironmentKeys s') \<le> 100"
    using n normalize_ports_length normalize_keys_length by fastforce+
  show "normalize_ports (spec_Ports s') {} {} = Some (spec_Ports s')" using n normalize_ports_idem by blast
  show "normalize_keys (spec_EnvironmentKeys s') {} = Some (spec_EnvironmentKeys s')" using n normalize_keys_idem by blast
  show "normalize_resources (spec_Resources s') = Some (spec_Resources s')" using n normalize_resources_idem by blast
  show "normalize_health h = Some h" if "spec_HealthCheck s' = Some h" for h
    using n that normalize_health_idem by (cases "spec_HealthCheck s") auto
qed

section \<open>What a normalised specification guarantees\<close>

lemma normalize_ports_distinct:
  "normalize_ports ps names numbers = Some qs \<Longrightarrow>
     distinct (map port_Name qs) \<and> distinct (map port_ContainerPort qs) \<and>
     set (map port_Name qs) \<inter> names = {} \<and> set (map port_ContainerPort qs) \<inter> numbers = {} \<and>
     (\<forall>q \<in> set qs. portNameRule (port_Name q) \<and> port_ContainerPort q \<noteq> 0 \<and>
        (port_Protocol q = ''tcp'' \<or> port_Protocol q = ''udp''))"
proof (induction ps arbitrary: names numbers qs)
  case (Cons p ps)
  let ?q = "normalize_port p"
  from Cons.prems obtain rs where
    rs: "normalize_ports ps (insert (port_Name ?q) names) (insert (port_ContainerPort ?q) numbers) = Some rs"
    "qs = ?q # rs" and ok: "portNameRule (port_Name ?q)" "port_ContainerPort ?q \<noteq> 0"
      "port_Protocol ?q = ''tcp'' \<or> port_Protocol ?q = ''udp''" "port_Name ?q \<notin> names"
      "port_ContainerPort ?q \<notin> numbers"
    by (auto simp: Let_def split: if_splits)
  from Cons.IH[OF rs(1)] rs(2) ok show ?case by auto
qed simp

lemma normalize_keys_distinct:
  "normalize_keys ks seen = Some ns \<Longrightarrow>
     distinct ns \<and> set ns \<inter> seen = {} \<and> (\<forall>n \<in> set ns. environmentNameRule n)"
proof (induction ks arbitrary: seen ns)
  case (Cons k ks)
  from Cons.prems obtain ms where
    ms: "normalize_keys ks (insert (trim_space k) seen) = Some ms" "ns = trim_space k # ms"
    and ok: "environmentNameRule (trim_space k)" "trim_space k \<notin> seen"
    by (auto simp: Let_def split: if_splits)
  from Cons.IH[OF ms(1)] ms(2) ok show ?case by auto
qed simp

lemma normalize_resources_ok:
  "normalize_resources r = Some r' \<Longrightarrow> 10 \<le> CPUMilli r' \<and> CPUMilli r' \<le> 64000 \<and>
     16777216 \<le> MemoryBytes r' \<and> MemoryBytes r' \<le> 1099511627776"
  by (auto simp: normalize_resources_def Let_def split: if_splits)

lemma Normalize_parts:
  assumes "Normalize s = Some t"
  shows "normalize_ports (spec_Ports s) {} {} = Some (spec_Ports t)"
    "normalize_keys (spec_EnvironmentKeys s) {} = Some (spec_EnvironmentKeys t)"
    "normalize_resources (spec_Resources s) = Some (spec_Resources t)"
    "\<And>h. spec_HealthCheck t = Some h \<Longrightarrow> health_ok h"
    "length (spec_Ports t) \<le> 16" "length (spec_EnvironmentKeys t) \<le> 100"
  using assms
  by (auto simp: Normalize_def normalize_ports_length normalize_keys_length
      dest: normalize_health_Some split: option.splits if_splits)

text \<open>Every key of a specification is bound, in order, or the bindings are refused.\<close>

lemma bind_keys_Some:
  "bind_keys ks variables = Some bs \<longleftrightarrow>
     set ks \<subseteq> dom variables \<and> bs = map (\<lambda>k. k @ ''='' @ the (variables k)) ks"
  by (induction ks arbitrary: bs) (auto split: option.splits)

end
