(* ===== verification/AgentProtocol.thy ===== *)
theory AgentProtocol
  imports IngressCommand RuntimeSpec
begin

text \<open>
  The commands a server sends to an agent and the results it returns
  (\<open>internal/shared/agentprotocol/command.go\<close>): their validity per kind, the fingerprint that
  identifies a command in the agent's durable result cache, and the shape of results. The inventory
  chunk type and its checks (\<open>internal/shared/runtimeinventory\<close>), the image reference parser (a
  third-party package) and the size of the JSON document are arguments of the model.
\<close>

section \<open>Kinds\<close>

datatype AgentCommandKind =
    AgentCommandRuntimeProbe
  | AgentCommandDeploymentPrepare
  | AgentCommandDeploymentStage
  | AgentCommandDeploymentActivate
  | AgentCommandDeploymentRetire
  | AgentCommandDeploymentCancel
  | AgentCommandRuntimeRemove
  | AgentCommandCutoverRelease
  | AgentCommandInventoryPrepare
  | AgentCommandInventoryChunk
  | AgentCommandInventoryRelease
  | AgentCommandInventoryEvents
  | AgentCommandIngressPrepare
  | AgentCommandIngressCommit
  | AgentCommandIngressAbort
  | AgentCommandOther string

fun Kind_Valid :: "AgentCommandKind \<Rightarrow> bool" where
  "Kind_Valid (AgentCommandOther s) = False"
| "Kind_Valid _ = True"

fun kind_text :: "AgentCommandKind \<Rightarrow> string" where
  "kind_text AgentCommandRuntimeProbe = ''runtime.probe''"
| "kind_text AgentCommandDeploymentPrepare = ''deployment.prepare''"
| "kind_text AgentCommandDeploymentStage = ''deployment.stage''"
| "kind_text AgentCommandDeploymentActivate = ''deployment.activate''"
| "kind_text AgentCommandDeploymentRetire = ''deployment.retire''"
| "kind_text AgentCommandDeploymentCancel = ''deployment.cancel''"
| "kind_text AgentCommandRuntimeRemove = ''deployment.runtime.remove''"
| "kind_text AgentCommandCutoverRelease = ''deployment.cutover.release''"
| "kind_text AgentCommandInventoryPrepare = ''runtime.inventory.prepare''"
| "kind_text AgentCommandInventoryChunk = ''runtime.inventory.chunk''"
| "kind_text AgentCommandInventoryRelease = ''runtime.inventory.release''"
| "kind_text AgentCommandInventoryEvents = ''runtime.inventory.events''"
| "kind_text AgentCommandIngressPrepare = ''ingress.prepare''"
| "kind_text AgentCommandIngressCommit = ''ingress.commit''"
| "kind_text AgentCommandIngressAbort = ''ingress.abort''"
| "kind_text (AgentCommandOther s) = s"

fun DurableResult :: "AgentCommandKind \<Rightarrow> bool" where
  "DurableResult AgentCommandInventoryPrepare = False"
| "DurableResult AgentCommandInventoryChunk = False"
| "DurableResult AgentCommandInventoryRelease = False"
| "DurableResult AgentCommandInventoryEvents = False"
| "DurableResult AgentCommandIngressPrepare = False"
| "DurableResult AgentCommandIngressCommit = False"
| "DurableResult AgentCommandIngressAbort = False"
| "DurableResult k = Kind_Valid k"

section \<open>Commands\<close>

record RuntimeInventoryCommand =
  inv_RuntimeTargetID :: string
  inv_ObservationID :: string
  inv_MaxChunkBytes :: int
  inv_ChunkIndex :: int
  inv_EventSince :: time
  inv_EventWaitSeconds :: int

record CutoverCommand =
  cut_DeploymentID :: string
  cut_CutoverSequence :: u64
  cut_RuntimeTargetID :: string
  cut_ContainerName :: string

record DeploymentCommand =
  dc_DeploymentID :: string
  dc_WorkerID :: string
  dc_FencingToken :: u64
  dc_CutoverSequence :: u64
  dc_RuntimeTargetID :: string
  dc_ContainerName :: string
  dc_ProjectID :: string
  dc_ApplicationID :: string
  dc_EnvironmentID :: string
  dc_ImageDigest :: string
  dc_RegistryAuthorization :: string
  dc_RuntimeSpec :: Spec
  dc_Environment :: "string list"
  dc_ManagedIngress :: bool

record AgentCommand =
  cmd_ID :: string
  cmd_Kind :: AgentCommandKind
  cmd_Deadline :: time
  cmd_RuntimeProbe :: "string option"
  cmd_Deployment :: "DeploymentCommand option"
  cmd_Cutover :: "CutoverCommand option"
  cmd_Inventory :: "RuntimeInventoryCommand option"
  cmd_Ingress :: "IngressCommand option"

text \<open>
  What third-party and other code decides: \<open>reference.ParseNormalizedNamed\<close> with the digest's
  algorithm and validity, where there is one, and the familiar form; and the size of
  \<open>json.Marshal\<close> of the command document, \<open>None\<close> for an error.
\<close>

record parsed_image =
  img_Digest :: "(string \<times> bool) option"
  img_Familiar :: string

record protocol_env =
  env_parse_image :: "string \<Rightarrow> parsed_image option"
  env_document_bytes :: "AgentCommand \<Rightarrow> nat option"

definition maximumCommandDocumentBytes :: nat where
  "maximumCommandDocumentBytes = 60 * 1024"

definition DefaultChunkBytes :: int where
  "DefaultChunkBytes = 48 * 1024"

definition MaxChunks :: int where
  "MaxChunks = 10000"

section \<open>Validity\<close>

definition container_name_tail :: "char \<Rightarrow> bool" where
  "container_name_tail c \<longleftrightarrow> is_lower c \<or> is_digit c \<or> c \<in> set ''_.-''"

definition containerNameRule :: "string \<Rightarrow> bool" where
  "containerNameRule s = matches_id (\<lambda>c. is_lower c \<or> is_digit c) container_name_tail 127 s"

definition validErrorCode :: "string \<Rightarrow> bool" where
  "validErrorCode value \<longleftrightarrow>
     \<not> (value = [] \<or> 64 < length value \<or> trim_space value \<noteq> value) \<and>
     list_all (\<lambda>c. is_lower c \<or> is_digit c \<or> c = CHR ''_'') value"

definition validImageDigest :: "protocol_env \<Rightarrow> string \<Rightarrow> bool" where
  "validImageDigest env value =
     (case env_parse_image env (trim_space value) of
        None \<Rightarrow> False
      | Some named \<Rightarrow>
          (case img_Digest named of
             None \<Rightarrow> False
           | Some (algorithm, valid) \<Rightarrow> algorithm = ''sha256'' \<and> valid \<and> img_Familiar named = value))"

text \<open>The name before the first equals sign, if there is one.\<close>

fun cut_equals :: "string \<Rightarrow> string \<times> bool" where
  "cut_equals [] = ([], False)"
| "cut_equals (c # cs) =
     (if c = CHR ''='' then ([], True) else (case cut_equals cs of (n, found) \<Rightarrow> (c # n, found)))"

fun matches_names :: "string list \<Rightarrow> string set \<Rightarrow> string set option" where
  "matches_names [] expected = Some expected"
| "matches_names (v # vs) expected =
     (let name = fst (cut_equals v) in
      if name \<notin> expected then None else matches_names vs (expected - {name}))"

definition environmentMatchesSpec :: "string list \<Rightarrow> string list \<Rightarrow> bool" where
  "environmentMatchesSpec values names \<longleftrightarrow>
     length values = length names \<and> matches_names values (set names) = Some {}"

definition validNormalizedRuntimeSpec :: "Spec \<Rightarrow> bool" where
  "validNormalizedRuntimeSpec spec \<longleftrightarrow> Normalize spec = Some spec"

definition zeroRuntimeSpec :: "Spec \<Rightarrow> bool" where
  "zeroRuntimeSpec spec \<longleftrightarrow> spec_Ports spec = [] \<and> spec_EnvironmentKeys spec = [] \<and>
     spec_Resources spec = zero_resources \<and> spec_HealthCheck spec = None"

fun valid_environment_loop :: "string list \<Rightarrow> nat \<Rightarrow> string set \<Rightarrow> bool" where
  "valid_environment_loop [] bytes seen = True"
| "valid_environment_loop (v # vs) bytes seen =
     (let bytes' = bytes + length v; (name, found) = cut_equals v in
      \<not> (4096 < length v \<or> 24 * 1024 < bytes' \<or> CHR 0x00 \<in> set v) \<and>
      found \<and> environmentNameRule name \<and> name \<notin> seen \<and>
      valid_environment_loop vs bytes' (insert name seen))"

definition validEnvironment :: "string list \<Rightarrow> bool" where
  "validEnvironment values \<longleftrightarrow> length values \<le> 100 \<and> valid_environment_loop values 0 {}"

definition validCutoverCommand :: "CutoverCommand \<Rightarrow> bool" where
  "validCutoverCommand c \<longleftrightarrow> validIdentifier (cut_DeploymentID c) \<and> 0 < cut_CutoverSequence c \<and>
     validIdentifier (cut_RuntimeTargetID c) \<and> containerNameRule (cut_ContainerName c)"

definition validInventoryCommand :: "AgentCommandKind \<Rightarrow> RuntimeInventoryCommand \<Rightarrow> bool" where
  "validInventoryCommand kind c \<longleftrightarrow>
     validIdentifier (inv_RuntimeTargetID c) \<and>
     (case kind of
        AgentCommandInventoryPrepare \<Rightarrow>
          validIdentifier (inv_ObservationID c) \<and> inv_MaxChunkBytes c \<ge> 4 * 1024 \<and>
          inv_MaxChunkBytes c \<le> DefaultChunkBytes \<and> inv_ChunkIndex c = 0 \<and> is_zero (inv_EventSince c) \<and>
          inv_EventWaitSeconds c = 0
      | AgentCommandInventoryChunk \<Rightarrow>
          validIdentifier (inv_ObservationID c) \<and> inv_MaxChunkBytes c \<ge> 4 * 1024 \<and>
          inv_MaxChunkBytes c \<le> DefaultChunkBytes \<and> inv_ChunkIndex c \<ge> 0 \<and> inv_ChunkIndex c < MaxChunks \<and>
          is_zero (inv_EventSince c) \<and> inv_EventWaitSeconds c = 0
      | AgentCommandInventoryRelease \<Rightarrow>
          validIdentifier (inv_ObservationID c) \<and> inv_MaxChunkBytes c = 0 \<and> inv_ChunkIndex c = 0 \<and>
          is_zero (inv_EventSince c) \<and> inv_EventWaitSeconds c = 0
      | AgentCommandInventoryEvents \<Rightarrow>
          inv_ObservationID c = [] \<and> inv_MaxChunkBytes c = 0 \<and> inv_ChunkIndex c = 0 \<and>
          inv_EventWaitSeconds c \<ge> 1 \<and> inv_EventWaitSeconds c \<le> 10
      | _ \<Rightarrow> False)"

definition validDeploymentCommand :: "protocol_env \<Rightarrow> AgentCommandKind \<Rightarrow> DeploymentCommand \<Rightarrow> bool" where
  "validDeploymentCommand env kind c \<longleftrightarrow>
     \<not> (\<not> validIdentifier (dc_DeploymentID c) \<or> \<not> validIdentifier (dc_WorkerID c) \<or>
        dc_FencingToken c = 0 \<or> dc_CutoverSequence c = 0 \<or> \<not> validIdentifier (dc_RuntimeTargetID c) \<or>
        \<not> containerNameRule (dc_ContainerName c)) \<and>
     (case kind of
        AgentCommandDeploymentPrepare \<Rightarrow>
          validImageDigest env (dc_ImageDigest c) \<and> length (dc_RegistryAuthorization c) \<le> 16 * 1024 \<and>
          dc_ProjectID c = [] \<and> dc_ApplicationID c = [] \<and> dc_EnvironmentID c = [] \<and>
          zeroRuntimeSpec (dc_RuntimeSpec c) \<and> dc_Environment c = [] \<and> \<not> dc_ManagedIngress c
      | AgentCommandDeploymentStage \<Rightarrow>
          validIdentifier (dc_ProjectID c) \<and> validIdentifier (dc_ApplicationID c) \<and>
          validIdentifier (dc_EnvironmentID c) \<and> validImageDigest env (dc_ImageDigest c) \<and>
          dc_RegistryAuthorization c = [] \<and> validNormalizedRuntimeSpec (dc_RuntimeSpec c) \<and>
          validEnvironment (dc_Environment c) \<and>
          environmentMatchesSpec (dc_Environment c) (spec_EnvironmentKeys (dc_RuntimeSpec c))
      | _ \<Rightarrow>
          (kind = AgentCommandDeploymentActivate \<or> kind = AgentCommandDeploymentRetire \<or>
           kind = AgentCommandDeploymentCancel) \<and>
          dc_ProjectID c = [] \<and> dc_ApplicationID c = [] \<and> dc_EnvironmentID c = [] \<and> dc_ImageDigest c = [] \<and>
          dc_RegistryAuthorization c = [] \<and> zeroRuntimeSpec (dc_RuntimeSpec c) \<and> dc_Environment c = [] \<and>
          \<not> dc_ManagedIngress c)"

text \<open>Exactly the payload of the kind is present, and it is valid.\<close>

definition deployment_kinds :: "AgentCommandKind list" where
  "deployment_kinds = [AgentCommandDeploymentPrepare, AgentCommandDeploymentStage,
     AgentCommandDeploymentActivate, AgentCommandDeploymentRetire, AgentCommandDeploymentCancel]"

definition cutover_kinds :: "AgentCommandKind list" where
  "cutover_kinds = [AgentCommandRuntimeRemove, AgentCommandCutoverRelease]"

definition inventory_kinds :: "AgentCommandKind list" where
  "inventory_kinds = [AgentCommandInventoryPrepare, AgentCommandInventoryChunk,
     AgentCommandInventoryRelease, AgentCommandInventoryEvents]"

definition ingress_kinds :: "AgentCommandKind list" where
  "ingress_kinds = [AgentCommandIngressPrepare, AgentCommandIngressCommit, AgentCommandIngressAbort]"

definition payload_is :: "('a \<Rightarrow> bool) \<Rightarrow> 'a option \<Rightarrow> bool" where
  "payload_is ok x = (case x of None \<Rightarrow> False | Some v \<Rightarrow> ok v)"

definition valid_payload :: "protocol_env \<Rightarrow> AgentCommand \<Rightarrow> bool" where
  "valid_payload env c =
     (if cmd_Kind c = AgentCommandRuntimeProbe then
        cmd_Deployment c = None \<and> cmd_Cutover c = None \<and> cmd_Inventory c = None \<and> cmd_Ingress c = None \<and>
        payload_is validIdentifier (cmd_RuntimeProbe c)
      else if cmd_Kind c \<in> set deployment_kinds then
        cmd_RuntimeProbe c = None \<and> cmd_Cutover c = None \<and> cmd_Inventory c = None \<and> cmd_Ingress c = None \<and>
        payload_is (validDeploymentCommand env (cmd_Kind c)) (cmd_Deployment c)
      else if cmd_Kind c \<in> set cutover_kinds then
        cmd_RuntimeProbe c = None \<and> cmd_Deployment c = None \<and> cmd_Inventory c = None \<and> cmd_Ingress c = None \<and>
        payload_is validCutoverCommand (cmd_Cutover c)
      else if cmd_Kind c \<in> set inventory_kinds then
        cmd_RuntimeProbe c = None \<and> cmd_Deployment c = None \<and> cmd_Cutover c = None \<and> cmd_Ingress c = None \<and>
        payload_is (validInventoryCommand (cmd_Kind c)) (cmd_Inventory c)
      else if cmd_Kind c \<in> set ingress_kinds then
        cmd_RuntimeProbe c = None \<and> cmd_Deployment c = None \<and> cmd_Cutover c = None \<and> cmd_Inventory c = None \<and>
        payload_is validIngressCommand (cmd_Ingress c)
      else False)"

definition AgentCommand_Validate :: "protocol_env \<Rightarrow> AgentCommand \<Rightarrow> protocol_error option" where
  "AgentCommand_Validate env c =
     (if \<not> validIdentifier (cmd_ID c) \<or> is_zero (cmd_Deadline c) \<or> \<not> Kind_Valid (cmd_Kind c) \<or>
         \<not> valid_payload env c then Some ErrCommandInvalid
      else (case env_document_bytes env c of
        None \<Rightarrow> Some ErrCommandInvalid
      | Some n \<Rightarrow> if maximumCommandDocumentBytes < n then Some ErrCommandInvalid else None))"

section \<open>Fingerprints\<close>

definition write_port :: "Port \<Rightarrow> string" where
  "write_port p = write_bytes (port_Name p) @ write_uint64 (ucast (port_ContainerPort p)) @
     write_bytes (port_Protocol p)"

definition write_health :: "HealthCheck option \<Rightarrow> string" where
  "write_health h =
     (case h of
        None \<Rightarrow> write_uint64 0
      | Some hc \<Rightarrow> write_uint64 1 @ write_list write_bytes (hc_Command hc) @ write_int64 (hc_IntervalSeconds hc) @
          write_int64 (hc_TimeoutSeconds hc) @ write_int64 (hc_Retries hc) @ write_int64 (hc_StartPeriodSeconds hc))"

definition writeRuntimeSpecFingerprint :: "Spec \<Rightarrow> string" where
  "writeRuntimeSpecFingerprint spec =
     write_list write_port (spec_Ports spec) @ write_list write_bytes (spec_EnvironmentKeys spec) @
     write_int64 (CPUMilli (spec_Resources spec)) @ write_int64 (MemoryBytes (spec_Resources spec)) @
     write_health (spec_HealthCheck spec)"

text \<open>
  \<open>Time.Unix\<close> and \<open>Time.Nanosecond\<close> of a time counted in nanoseconds from the zero time, which is
  \<open>62135596800\<close> seconds before the Unix epoch; \<open>UnixNano\<close> wraps in 64 bits.
\<close>

definition unix_epoch :: int where
  "unix_epoch = 62135596800"

definition unix_seconds :: "time \<Rightarrow> int" where
  "unix_seconds t = t div 1000000000 - unix_epoch"

definition nanosecond :: "time \<Rightarrow> int" where
  "nanosecond t = t mod 1000000000"

definition unix_nano :: "time \<Rightarrow> int" where
  "unix_nano t = t - unix_epoch * 1000000000"

definition write_deployment :: "DeploymentCommand \<Rightarrow> string" where
  "write_deployment d =
     write_bytes (dc_DeploymentID d) @ write_bytes (dc_WorkerID d) @ write_uint64 (dc_FencingToken d) @
     write_uint64 (dc_CutoverSequence d) @ write_bytes (dc_RuntimeTargetID d) @ write_bytes (dc_ContainerName d) @
     write_bytes (dc_ProjectID d) @ write_bytes (dc_ApplicationID d) @ write_bytes (dc_EnvironmentID d) @
     write_bytes (dc_ImageDigest d) @ write_bytes (dc_RegistryAuthorization d) @
     writeRuntimeSpecFingerprint (dc_RuntimeSpec d) @ write_list write_bytes (dc_Environment d) @
     write_bool (dc_ManagedIngress d)"

definition write_cutover :: "CutoverCommand \<Rightarrow> string" where
  "write_cutover c = write_bytes (cut_DeploymentID c) @ write_uint64 (cut_CutoverSequence c) @
     write_bytes (cut_RuntimeTargetID c) @ write_bytes (cut_ContainerName c)"

definition write_inventory :: "RuntimeInventoryCommand \<Rightarrow> string" where
  "write_inventory i = write_bytes (inv_RuntimeTargetID i) @ write_bytes (inv_ObservationID i) @
     write_int64 (inv_MaxChunkBytes i) @ write_int64 (inv_ChunkIndex i) @
     write_int64 (unix_nano (inv_EventSince i)) @ write_int64 (inv_EventWaitSeconds i)"

definition write_ingress :: "IngressCommand \<Rightarrow> string" where
  "write_ingress g = write_uint64 (ing_HostRevision g) @ write_bytes (ing_ConfigDigest g) @
     write_list writeIngressRouteFingerprint (ing_Routes g) @ write_list write_bytes (ing_ProbeRouteIDs g)"

definition write_optional :: "('a \<Rightarrow> string) \<Rightarrow> 'a option \<Rightarrow> string" where
  "write_optional enc x = (case x of None \<Rightarrow> [] | Some v \<Rightarrow> enc v)"

text \<open>Everything \<open>Fingerprint\<close> writes to the hasher.\<close>

definition fingerprint_content :: "AgentCommand \<Rightarrow> string" where
  "fingerprint_content c =
     write_bytes ''owndock-agent-command-v1'' @ write_bytes (cmd_ID c) @ write_bytes (kind_text (cmd_Kind c)) @
     write_int64 (unix_seconds (cmd_Deadline c)) @ write_int64 (nanosecond (cmd_Deadline c)) @
     write_optional write_bytes (cmd_RuntimeProbe c) @ write_optional write_deployment (cmd_Deployment c) @
     write_optional write_cutover (cmd_Cutover c) @ write_optional write_inventory (cmd_Inventory c) @
     write_optional write_ingress (cmd_Ingress c)"

text \<open>The 32 bytes of the digest.\<close>

definition Fingerprint :: "protocol_env \<Rightarrow> AgentCommand \<Rightarrow> protocol_error + int list" where
  "Fingerprint env c =
     (case AgentCommand_Validate env c of
        Some e \<Rightarrow> Inl e
      | None \<Rightarrow> Inr (sha256_sum (fingerprint_content c)))"

definition AgentCommand_Equivalent :: "protocol_env \<Rightarrow> AgentCommand \<Rightarrow> AgentCommand \<Rightarrow> bool" where
  "AgentCommand_Equivalent env c d =
     (case (Fingerprint env c, Fingerprint env d) of
        (Inr left, Inr right) \<Rightarrow> left = right
      | _ \<Rightarrow> False)"

section \<open>Results\<close>

datatype AgentCommandStatus = AgentCommandSucceeded | AgentCommandFailed | AgentCommandStatusOther string

datatype RuntimeProbeStatus =
    RuntimeProbeReady | RuntimeProbeUnreachable | RuntimeProbeUnsupported | RuntimeProbeOther string

fun RuntimeProbeStatus_Valid :: "RuntimeProbeStatus \<Rightarrow> bool" where
  "RuntimeProbeStatus_Valid (RuntimeProbeOther s) = False"
| "RuntimeProbeStatus_Valid _ = True"

record IngressResult =
  ingr_HostRevision :: u64
  ingr_ConfigDigest :: string

text \<open>
  Events and chunks of the runtime inventory, with the checks the result validation calls.
\<close>

record ('c, 'e) inventory_checks =
  chunk_Index :: "'c \<Rightarrow> int"
  chunk_Validate :: "int \<Rightarrow> 'c \<Rightarrow> bool"
  event_Validate :: "'e \<Rightarrow> bool"

record 'e RuntimeInventoryManifest =
  man_ObservationID :: string
  man_SchemaVersion :: int
  man_ExpectedChunks :: int
  man_ExpectedResources :: int
  man_RetentionSeconds :: int
  man_Events :: "'e list"
  man_EventsTruncated :: bool

record 'e EventBatch =
  batch_Events :: "'e list"
  batch_Truncated :: bool

record ('c, 'e) RuntimeInventoryResult =
  invr_Manifest :: "'e RuntimeInventoryManifest option"
  invr_Chunk :: "'c option"
  invr_Events :: "'e EventBatch option"

record ('c, 'e) AgentCommandResult =
  res_CommandID :: string
  res_Status :: AgentCommandStatus
  res_ErrorCode :: string
  res_RuntimeProbe :: "RuntimeProbeStatus option"
  res_Inventory :: "('c, 'e) RuntimeInventoryResult option"
  res_Ingress :: "IngressResult option"

definition MaxEventsPerWindow :: nat where
  "MaxEventsPerWindow = 64"

definition MaxChunkBytes :: int where
  "MaxChunkBytes = 512 * 1024"

definition valid_events :: "('c, 'e) inventory_checks \<Rightarrow> 'e list \<Rightarrow> bool \<Rightarrow> bool" where
  "valid_events checks events truncated \<longleftrightarrow>
     \<not> (MaxEventsPerWindow < length events \<or> truncated \<and> length events \<noteq> MaxEventsPerWindow) \<and>
     list_all (event_Validate checks) events"

definition EventBatch_valid :: "('c, 'e) inventory_checks \<Rightarrow> 'e EventBatch \<Rightarrow> bool" where
  "EventBatch_valid checks b = valid_events checks (batch_Events b) (batch_Truncated b)"

definition validInventoryManifest ::
  "('c, 'e) inventory_checks \<Rightarrow> 'e RuntimeInventoryManifest option \<Rightarrow> bool" where
  "validInventoryManifest checks value =
     (case value of
        None \<Rightarrow> False
      | Some m \<Rightarrow>
          valid_events checks (man_Events m) (man_EventsTruncated m) \<and> validIdentifier (man_ObservationID m) \<and>
          man_SchemaVersion m = 1 \<and> man_ExpectedChunks m \<ge> 0 \<and> man_ExpectedChunks m \<le> MaxChunks \<and>
          man_ExpectedResources m \<ge> 0 \<and> man_ExpectedResources m \<le> 100000 \<and>
          ((man_ExpectedResources m = 0) = (man_ExpectedChunks m = 0)) \<and>
          man_ExpectedResources m \<le> man_ExpectedChunks m * 500 \<and>
          man_RetentionSeconds m \<ge> 1 \<and> man_RetentionSeconds m \<le> 3600)"

text \<open>The shape of a successful result, per kind.\<close>

definition valid_success :: "('c, 'e) inventory_checks \<Rightarrow> AgentCommandKind \<Rightarrow> ('c, 'e) AgentCommandResult \<Rightarrow> bool" where
  "valid_success checks kind r =
     (let probe = res_RuntimeProbe r; inventory = res_Inventory r; ingress = res_Ingress r
      in case kind of
        AgentCommandRuntimeProbe \<Rightarrow>
          inventory = None \<and> ingress = None \<and>
          (case probe of None \<Rightarrow> False | Some status \<Rightarrow> RuntimeProbeStatus_Valid status)
      | AgentCommandInventoryPrepare \<Rightarrow>
          probe = None \<and> ingress = None \<and>
          (case inventory of None \<Rightarrow> False | Some i \<Rightarrow> validInventoryManifest checks (invr_Manifest i) \<and>
             invr_Chunk i = None \<and> invr_Events i = None)
      | AgentCommandInventoryChunk \<Rightarrow>
          probe = None \<and> ingress = None \<and>
          (case inventory of None \<Rightarrow> False | Some i \<Rightarrow> invr_Manifest i = None \<and> invr_Events i = None \<and>
             (case invr_Chunk i of None \<Rightarrow> False | Some c \<Rightarrow> chunk_Validate checks MaxChunkBytes c))
      | AgentCommandInventoryEvents \<Rightarrow>
          probe = None \<and> ingress = None \<and>
          (case inventory of None \<Rightarrow> False | Some i \<Rightarrow> invr_Manifest i = None \<and> invr_Chunk i = None \<and>
             (case invr_Events i of None \<Rightarrow> False | Some b \<Rightarrow> EventBatch_valid checks b))
      | AgentCommandOther _ \<Rightarrow> False
      | _ \<Rightarrow>
          if kind \<in> set ingress_kinds then
            probe = None \<and> inventory = None \<and>
            (case ingress of None \<Rightarrow> False | Some g \<Rightarrow> ingr_HostRevision g \<noteq> 0 \<and> ingressDigest (ingr_ConfigDigest g))
          else probe = None \<and> inventory = None \<and> ingress = None)"

definition ValidateShape ::
  "('c, 'e) inventory_checks \<Rightarrow> AgentCommandKind \<Rightarrow> ('c, 'e) AgentCommandResult \<Rightarrow> protocol_error option" where
  "ValidateShape checks kind r =
     (if \<not> validIdentifier (res_CommandID r) \<or> \<not> Kind_Valid kind then Some ErrResultInvalid
      else (case res_Status r of
        AgentCommandSucceeded \<Rightarrow>
          if res_ErrorCode r = [] \<and> valid_success checks kind r then None else Some ErrResultInvalid
      | AgentCommandFailed \<Rightarrow>
          if validErrorCode (res_ErrorCode r) \<and> res_RuntimeProbe r = None \<and> res_Inventory r = None \<and>
            res_Ingress r = None then None else Some ErrResultInvalid
      | AgentCommandStatusOther _ \<Rightarrow> Some ErrResultInvalid))"

text \<open>What a successful result must repeat from its command.\<close>

definition result_matches ::
  "('c, 'e) inventory_checks \<Rightarrow> AgentCommand \<Rightarrow> ('c, 'e) AgentCommandResult \<Rightarrow> bool" where
  "result_matches checks c r \<longleftrightarrow>
     (case cmd_Ingress c of
        None \<Rightarrow> True
      | Some g \<Rightarrow> (case res_Ingress r of
          None \<Rightarrow> False
        | Some x \<Rightarrow> ingr_HostRevision x = ing_HostRevision g \<and> ingr_ConfigDigest x = ing_ConfigDigest g)) \<and>
     (case (cmd_Inventory c, res_Inventory r) of
        (Some i, Some x) \<Rightarrow>
          (case cmd_Kind c of
             AgentCommandInventoryPrepare \<Rightarrow>
               (case invr_Manifest x of None \<Rightarrow> True | Some m \<Rightarrow> man_ObservationID m = inv_ObservationID i)
           | AgentCommandInventoryChunk \<Rightarrow>
               (case invr_Chunk x of None \<Rightarrow> True | Some k \<Rightarrow> chunk_Index checks k = inv_ChunkIndex i \<and>
                  chunk_Validate checks (inv_MaxChunkBytes i) k)
           | AgentCommandInventoryEvents \<Rightarrow>
               (case invr_Events x of None \<Rightarrow> True | Some b \<Rightarrow> EventBatch_valid checks b)
           | _ \<Rightarrow> True)
      | _ \<Rightarrow> True)"

definition Result_Validate ::
  "protocol_env \<Rightarrow> ('c, 'e) inventory_checks \<Rightarrow> AgentCommand \<Rightarrow> ('c, 'e) AgentCommandResult \<Rightarrow>
     protocol_error option" where
  "Result_Validate env checks c r =
     (if AgentCommand_Validate env c \<noteq> None \<or> res_CommandID r \<noteq> cmd_ID c then Some ErrResultInvalid
      else (case ValidateShape checks (cmd_Kind c) r of
        Some e \<Rightarrow> Some e
      | None \<Rightarrow>
          if res_Status r \<noteq> AgentCommandSucceeded then None
          else if result_matches checks c r then None else Some ErrResultInvalid))"

definition Result_Equivalent :: "('c, 'e) AgentCommandResult \<Rightarrow> ('c, 'e) AgentCommandResult \<Rightarrow> bool" where
  "Result_Equivalent r s \<longleftrightarrow>
     \<not> (res_CommandID r \<noteq> res_CommandID s \<or> res_Status r \<noteq> res_Status s \<or> res_ErrorCode r \<noteq> res_ErrorCode s) \<and>
     (case (res_RuntimeProbe r, res_RuntimeProbe s) of
        (None, None) \<Rightarrow> res_Inventory r = res_Inventory s \<and> res_Ingress r = res_Ingress s
      | (Some a, Some b) \<Rightarrow> a = b
      | _ \<Rightarrow> False)"

end
