(* ===== verification/AgentFingerprint.thy ===== *)
theory AgentFingerprint
  imports AgentProtocol
begin

text \<open>
  The fingerprint identifies a command: what \<open>Fingerprint\<close> feeds to SHA-256 determines the command, so
  that two different valid commands share a fingerprint only through a collision of the hash. Every
  part of the encoding is shown self-delimiting, by interpreting the contract of theory WireEncoding.
\<close>

section \<open>Go's ranges\<close>

text \<open>
  Lengths below \<open>2 ^ 63\<close> and integers in 64 bits, which the types of the source guarantee.
\<close>

definition port_sized :: "Port \<Rightarrow> bool" where
  "port_sized p \<longleftrightarrow> go_length (length (port_Name p)) \<and> go_length (length (port_Protocol p))"

definition health_sized :: "HealthCheck option \<Rightarrow> bool" where
  "health_sized h \<longleftrightarrow>
     (case h of
        None \<Rightarrow> True
      | Some hc \<Rightarrow> list_ok (\<lambda>s. go_length (length s)) (hc_Command hc) \<and> go_int64 (hc_IntervalSeconds hc) \<and>
          go_int64 (hc_TimeoutSeconds hc) \<and> go_int64 (hc_Retries hc) \<and> go_int64 (hc_StartPeriodSeconds hc))"

definition spec_sized :: "Spec \<Rightarrow> bool" where
  "spec_sized s \<longleftrightarrow>
     list_ok port_sized (spec_Ports s) \<and> list_ok (\<lambda>x. go_length (length x)) (spec_EnvironmentKeys s) \<and>
     go_int64 (CPUMilli (spec_Resources s)) \<and> go_int64 (MemoryBytes (spec_Resources s)) \<and>
     health_sized (spec_HealthCheck s)"

definition deployment_sized :: "DeploymentCommand \<Rightarrow> bool" where
  "deployment_sized d \<longleftrightarrow>
     go_length (length (dc_DeploymentID d)) \<and> go_length (length (dc_WorkerID d)) \<and>
     go_length (length (dc_RuntimeTargetID d)) \<and> go_length (length (dc_ContainerName d)) \<and>
     go_length (length (dc_ProjectID d)) \<and> go_length (length (dc_ApplicationID d)) \<and>
     go_length (length (dc_EnvironmentID d)) \<and> go_length (length (dc_ImageDigest d)) \<and>
     go_length (length (dc_RegistryAuthorization d)) \<and> spec_sized (dc_RuntimeSpec d) \<and>
     list_ok (\<lambda>x. go_length (length x)) (dc_Environment d)"

definition cutover_sized :: "CutoverCommand \<Rightarrow> bool" where
  "cutover_sized c \<longleftrightarrow> go_length (length (cut_DeploymentID c)) \<and> go_length (length (cut_RuntimeTargetID c)) \<and>
     go_length (length (cut_ContainerName c))"

text \<open>
  \<open>UnixNano\<close> does not overflow from 1970 to 2262; the zero time overflows to a negative number.
\<close>

definition since_sized :: "time \<Rightarrow> bool" where
  "since_sized t \<longleftrightarrow> is_zero t \<or> (0 \<le> unix_nano t \<and> unix_nano t < 2 ^ 63)"

definition inventory_sized :: "RuntimeInventoryCommand \<Rightarrow> bool" where
  "inventory_sized i \<longleftrightarrow> go_length (length (inv_RuntimeTargetID i)) \<and> go_length (length (inv_ObservationID i)) \<and>
     go_int64 (inv_MaxChunkBytes i) \<and> go_int64 (inv_ChunkIndex i) \<and> since_sized (inv_EventSince i) \<and>
     go_int64 (inv_EventWaitSeconds i)"

definition ingress_sized :: "IngressCommand \<Rightarrow> bool" where
  "ingress_sized g \<longleftrightarrow> go_length (length (ing_ConfigDigest g)) \<and> list_ok route_sized (ing_Routes g) \<and>
     list_ok (\<lambda>x. go_length (length x)) (ing_ProbeRouteIDs g)"

definition optional_sized :: "('a \<Rightarrow> bool) \<Rightarrow> 'a option \<Rightarrow> bool" where
  "optional_sized ok x = (case x of None \<Rightarrow> True | Some v \<Rightarrow> ok v)"

definition command_sized :: "AgentCommand \<Rightarrow> bool" where
  "command_sized c \<longleftrightarrow>
     go_length (length (cmd_ID c)) \<and> go_int64 (unix_seconds (cmd_Deadline c)) \<and>
     optional_sized (\<lambda>t. go_length (length t)) (cmd_RuntimeProbe c) \<and>
     optional_sized deployment_sized (cmd_Deployment c) \<and> optional_sized cutover_sized (cmd_Cutover c) \<and>
     optional_sized inventory_sized (cmd_Inventory c) \<and> optional_sized ingress_sized (cmd_Ingress c)"

section \<open>Every part is self-delimiting\<close>

interpretation enc_port: self_delimiting write_port port_sized
  by unfold_locales
    (auto simp: write_port_def port_sized_def enc_split ucast_u16_inject intro: Port.equality)

interpretation enc_ports: self_delimiting "write_list write_port" "list_ok port_sized"
  by (rule enc_port.list_delimiting)

interpretation enc_health: self_delimiting write_health health_sized
proof unfold_locales
  fix x y s t
  assume "health_sized x" "health_sized y" "write_health x @ s = write_health y @ t"
  then show "x = y \<and> s = t"
    by (auto simp: write_health_def health_sized_def enc_split split: option.splits intro: HealthCheck.equality)
qed

interpretation enc_spec: self_delimiting writeRuntimeSpecFingerprint spec_sized
proof unfold_locales
  fix x y s t
  assume a: "spec_sized x" "spec_sized y"
    and e: "writeRuntimeSpecFingerprint x @ s = writeRuntimeSpecFingerprint y @ t"
  have "spec_Ports x = spec_Ports y \<and> spec_EnvironmentKeys x = spec_EnvironmentKeys y \<and>
      CPUMilli (spec_Resources x) = CPUMilli (spec_Resources y) \<and>
      MemoryBytes (spec_Resources x) = MemoryBytes (spec_Resources y) \<and>
      spec_HealthCheck x = spec_HealthCheck y \<and> s = t"
    using e a by (simp add: writeRuntimeSpecFingerprint_def spec_sized_def enc_split enc_ports.enc_same enc_health.enc_same)
  then show "x = y \<and> s = t" by (auto intro: Spec.equality Resources.equality)
qed

interpretation enc_deployment: self_delimiting write_deployment deployment_sized
proof unfold_locales
  fix x y s t
  assume a: "deployment_sized x" "deployment_sized y" and e: "write_deployment x @ s = write_deployment y @ t"
  from e a show "x = y \<and> s = t"
    unfolding write_deployment_def deployment_sized_def
    by (auto simp: enc_split enc_spec.enc_same intro: DeploymentCommand.equality)
qed

interpretation enc_cutover: self_delimiting write_cutover cutover_sized
  by unfold_locales (auto simp: write_cutover_def cutover_sized_def enc_split intro: CutoverCommand.equality)

lemma since_inject:
  assumes "since_sized a" "since_sized b" "(of_int (unix_nano a) :: u64) = of_int (unix_nano b)"
  shows "a = b"
proof -
  have m: "unix_nano a mod 2 ^ 64 = unix_nano b mod 2 ^ 64"
    using assms(3) by (simp add: word_of_int_eq_iff take_bit_eq_mod)
  have z: "unix_nano 0 mod 2 ^ 64 = 11651379494838206464" by (simp add: unix_nano_def unix_epoch_def)
  have "unix_nano a = unix_nano b"
    using m z assms(1,2) unfolding since_sized_def by (elim disjE) (auto simp: mod_pos_pos_trivial)
  then show ?thesis by (simp add: unix_nano_def)
qed

interpretation enc_inventory: self_delimiting write_inventory inventory_sized
proof unfold_locales
  fix x y s t
  assume a: "inventory_sized x" "inventory_sized y" and e: "write_inventory x @ s = write_inventory y @ t"
  have "inv_RuntimeTargetID x = inv_RuntimeTargetID y \<and> inv_ObservationID x = inv_ObservationID y \<and>
      inv_MaxChunkBytes x = inv_MaxChunkBytes y \<and> inv_ChunkIndex x = inv_ChunkIndex y \<and>
      (of_int (unix_nano (inv_EventSince x)) :: u64) = of_int (unix_nano (inv_EventSince y)) \<and>
      inv_EventWaitSeconds x = inv_EventWaitSeconds y \<and> s = t"
    using e a unfolding write_inventory_def inventory_sized_def write_int64_def[of "unix_nano _"]
    by (auto simp: enc_split)
  then show "x = y \<and> s = t"
    using since_inject a by (auto simp: inventory_sized_def intro: RuntimeInventoryCommand.equality)
qed

interpretation enc_ingress: self_delimiting write_ingress ingress_sized
  by unfold_locales
    (auto simp: write_ingress_def ingress_sized_def enc_split enc_routes.enc_same intro: IngressCommand.equality)

section \<open>The whole command\<close>

lemma kind_text_inject: "Kind_Valid j \<Longrightarrow> Kind_Valid k \<Longrightarrow> kind_text j = kind_text k \<longleftrightarrow> j = k"
  by (cases j; cases k) simp_all

lemma kind_text_length: "Kind_Valid k \<Longrightarrow> go_length (length (kind_text k))"
  by (cases k) (simp_all add: go_length_def)

text \<open>Which payload a valid command carries depends on its kind only.\<close>

definition has_payload :: "AgentCommand \<Rightarrow> bool list" where
  "has_payload c = [cmd_RuntimeProbe c \<noteq> None, cmd_Deployment c \<noteq> None, cmd_Cutover c \<noteq> None,
     cmd_Inventory c \<noteq> None, cmd_Ingress c \<noteq> None]"

definition kind_payload :: "AgentCommandKind \<Rightarrow> bool list" where
  "kind_payload k =
     (if k = AgentCommandRuntimeProbe then [True, False, False, False, False]
      else if k \<in> set deployment_kinds then [False, True, False, False, False]
      else if k \<in> set cutover_kinds then [False, False, True, False, False]
      else if k \<in> set inventory_kinds then [False, False, False, True, False]
      else [False, False, False, False, True])"

lemma payload_is_present: "payload_is ok x \<Longrightarrow> \<exists>v. x = Some v"
  by (cases x) (simp_all add: payload_is_def)

lemma valid_payload_present:
  assumes "valid_payload env c"
  shows "has_payload c = kind_payload (cmd_Kind c)"
proof -
  let ?k = "cmd_Kind c"
  consider "?k = AgentCommandRuntimeProbe" | "?k \<noteq> AgentCommandRuntimeProbe" "?k \<in> set deployment_kinds"
    | "?k \<noteq> AgentCommandRuntimeProbe" "?k \<notin> set deployment_kinds" "?k \<in> set cutover_kinds"
    | "?k \<noteq> AgentCommandRuntimeProbe" "?k \<notin> set deployment_kinds" "?k \<notin> set cutover_kinds"
      "?k \<in> set inventory_kinds"
    | "?k \<noteq> AgentCommandRuntimeProbe" "?k \<notin> set deployment_kinds" "?k \<notin> set cutover_kinds"
      "?k \<notin> set inventory_kinds" by blast
  then show ?thesis
    by cases (use assms in \<open>auto simp: valid_payload_def has_payload_def kind_payload_def
        dest!: payload_is_present split: if_split_asm\<close>)
qed

lemma optional_split:
  assumes "self_delimiting enc ok" "optional_sized ok x" "optional_sized ok y" "(x \<noteq> None) = (y \<noteq> None)"
    "write_optional enc x @ s = write_optional enc y @ t"
  shows "x = y \<and> s = t"
proof (cases x)
  case None
  with assms(4) have "y = None" by simp
  with None assms(5) show ?thesis by (simp add: write_optional_def)
next
  case (Some a)
  with assms(4) obtain b where b: "y = Some b" by auto
  have "ok a" "ok b" "enc a @ s = enc b @ t"
    using assms(2,3,5) Some b by (simp_all add: optional_sized_def write_optional_def)
  then have "a = b \<and> s = t" by (rule self_delimiting.split[OF assms(1)])
  with Some b show ?thesis by simp
qed

lemma AgentCommand_Validate_None [simp]:
  "AgentCommand_Validate env c = None \<longleftrightarrow>
     validIdentifier (cmd_ID c) \<and> cmd_Deadline c \<noteq> 0 \<and> Kind_Valid (cmd_Kind c) \<and> valid_payload env c \<and>
     (\<exists>n. env_document_bytes env c = Some n \<and> n \<le> maximumCommandDocumentBytes)"
  by (auto simp: AgentCommand_Validate_def split: option.splits)

lemma fingerprint_content_inject:
  assumes v: "AgentCommand_Validate env c = None" "AgentCommand_Validate env d = None"
    and z: "command_sized c" "command_sized d"
    and e: "fingerprint_content c = fingerprint_content d"
  shows "c = d"
proof -
  let ?rest = "\<lambda>c. write_optional write_bytes (cmd_RuntimeProbe c) @ write_optional write_deployment (cmd_Deployment c) @
     write_optional write_cutover (cmd_Cutover c) @ write_optional write_inventory (cmd_Inventory c) @
     write_optional write_ingress (cmd_Ingress c)"
  have n: "go_int64 (nanosecond x)" for x
  proof -
    have "0 \<le> x mod 1000000000" "x mod 1000000000 < 1000000000" by simp_all
    then show ?thesis unfolding nanosecond_def go_int64_def by (simp; intro conjI; linarith)
  qed
  have head: "cmd_ID c = cmd_ID d \<and> kind_text (cmd_Kind c) = kind_text (cmd_Kind d) \<and>
      unix_seconds (cmd_Deadline c) = unix_seconds (cmd_Deadline d) \<and>
      nanosecond (cmd_Deadline c) = nanosecond (cmd_Deadline d) \<and> ?rest c = ?rest d"
    using e v z n kind_text_length[of "cmd_Kind c"] kind_text_length[of "cmd_Kind d"]
    unfolding fingerprint_content_def command_sized_def by (simp add: enc_split)
  have kind: "cmd_Kind c = cmd_Kind d" using head v kind_text_inject by auto
  have dl: "cmd_Deadline c = cmd_Deadline d"
    using head by (simp add: unix_seconds_def nanosecond_def) (metis div_mult_mod_eq)
  have p: "has_payload c = has_payload d" using kind v valid_payload_present[of env c] valid_payload_present[of env d] by simp
  note o = optional_split[OF enc_bytes.self_delimiting_axioms]
    optional_split[OF enc_deployment.self_delimiting_axioms] optional_split[OF enc_cutover.self_delimiting_axioms]
    optional_split[OF enc_inventory.self_delimiting_axioms]
  have r1: "cmd_RuntimeProbe c = cmd_RuntimeProbe d \<and> write_optional write_deployment (cmd_Deployment c) @
     write_optional write_cutover (cmd_Cutover c) @ write_optional write_inventory (cmd_Inventory c) @
     write_optional write_ingress (cmd_Ingress c) = write_optional write_deployment (cmd_Deployment d) @
     write_optional write_cutover (cmd_Cutover d) @ write_optional write_inventory (cmd_Inventory d) @
     write_optional write_ingress (cmd_Ingress d)"
    using head z p by (intro o(1)) (auto simp: command_sized_def has_payload_def)
  then have r2: "cmd_Deployment c = cmd_Deployment d \<and>
     write_optional write_cutover (cmd_Cutover c) @ write_optional write_inventory (cmd_Inventory c) @
     write_optional write_ingress (cmd_Ingress c) =
     write_optional write_cutover (cmd_Cutover d) @ write_optional write_inventory (cmd_Inventory d) @
     write_optional write_ingress (cmd_Ingress d)"
    using z p by (intro o(2)) (auto simp: command_sized_def has_payload_def)
  then have r3: "cmd_Cutover c = cmd_Cutover d \<and> write_optional write_inventory (cmd_Inventory c) @
     write_optional write_ingress (cmd_Ingress c) = write_optional write_inventory (cmd_Inventory d) @
     write_optional write_ingress (cmd_Ingress d)"
    using z p by (intro o(3)) (auto simp: command_sized_def has_payload_def)
  then have r4: "cmd_Inventory c = cmd_Inventory d \<and>
     write_optional write_ingress (cmd_Ingress c) = write_optional write_ingress (cmd_Ingress d)"
    using z p by (intro o(4)) (auto simp: command_sized_def has_payload_def)
  then have "cmd_Ingress c = cmd_Ingress d \<and> ([] :: string) = []"
    using z p by (intro optional_split[OF enc_ingress.self_delimiting_axioms])
      (auto simp: command_sized_def has_payload_def)
  with head kind dl r1 r2 r3 r4 show ?thesis by (auto intro: AgentCommand.equality)
qed

lemma Fingerprint_collision:
  assumes "Fingerprint env c = Inr f" "Fingerprint env d = Inr f" "command_sized c" "command_sized d" "c \<noteq> d"
  shows "fingerprint_content c \<noteq> fingerprint_content d \<and>
    sha256_sum (fingerprint_content c) = sha256_sum (fingerprint_content d)"
  using assms fingerprint_content_inject[of env c d]
  by (auto simp: Fingerprint_def split: option.splits)

end
