(* ===== verification/ResultCache.thy ===== *)
theory ResultCache
  imports AgentFingerprint StateFile
begin

text \<open>
  The agent's durable cache of command results (\<open>internal/agent/runtime/result_cache.go\<close>): it
  answers a command that was delivered twice with the recorded result instead of running it again.
  Entries live in memory and in one state file, in the order of their arrival; the oldest is evicted.
  The file's content is its decoded document; the JSON text is modelled for its length.
\<close>

datatype cache_error = ErrInvalidResultCache | CacheProtocol protocol_error | CacheStateFile

record ('c, 'e) resultCacheEntry =
  entry_fingerprint :: "int list"
  entry_kind :: AgentCommandKind
  entry_result :: "('c, 'e) AgentCommandResult"

record resultCacheResultDocument =
  rdoc_CommandID :: string
  rdoc_Status :: AgentCommandStatus
  rdoc_ErrorCode :: string
  rdoc_RuntimeProbe :: "RuntimeProbeStatus option"

record resultCacheEntryDocument =
  edoc_Kind :: AgentCommandKind
  edoc_CommandFingerprint :: string
  edoc_Result :: resultCacheResultDocument

record resultCacheDocument =
  cdoc_Version :: int
  cdoc_Entries :: "resultCacheEntryDocument list"

record resultCacheEntryDocumentV1 =
  v1_CommandID :: string
  v1_Kind :: AgentCommandKind
  v1_Deadline :: time
  v1_RuntimeTargetID :: string
  v1_Status :: AgentCommandStatus
  v1_ErrorCode :: string
  v1_RuntimeStatus :: "RuntimeProbeStatus option"

text \<open>
  The state file: missing, refused by \<open>readRestrictedStateFile\<close>, without a usable header, or with
  the version 1 or version 2 document that decodes strictly from it. \<open>v1_RuntimeStatus\<close> is
  \<open>None\<close> for the empty string.
\<close>

datatype cache_file =
    CacheMissing | CacheRefused | CacheUndecodable
  | CacheV1 "resultCacheEntryDocumentV1 list"
  | CacheV2 resultCacheDocument

record ('c, 'e) FileResultCache =
  rc_maximum :: nat
  rc_entries :: "string \<rightharpoonup> ('c, 'e) resultCacheEntry"
  rc_order :: "string list"
  rc_file :: cache_file

definition resultCacheVersion :: int where
  "resultCacheVersion = 2"

definition maximumResultCacheBytes :: nat where
  "maximumResultCacheBytes = 4 * 1024 * 1024"

text \<open>The parameters of a cache: what the protocol and the inventory checks depend on.\<close>

record ('c, 'e) cache_env =
  ce_protocol :: protocol_env
  ce_checks :: "('c, 'e) inventory_checks"

section \<open>Documents\<close>

definition newResultCacheResultDocument :: "('c, 'e) AgentCommandResult \<Rightarrow> resultCacheResultDocument" where
  "newResultCacheResultDocument r =
     \<lparr>rdoc_CommandID = res_CommandID r, rdoc_Status = res_Status r, rdoc_ErrorCode = res_ErrorCode r,
       rdoc_RuntimeProbe = res_RuntimeProbe r\<rparr>"

definition result_domain :: "resultCacheResultDocument \<Rightarrow> ('c, 'e) AgentCommandResult" where
  "result_domain d =
     \<lparr>res_CommandID = rdoc_CommandID d, res_Status = rdoc_Status d, res_ErrorCode = rdoc_ErrorCode d,
       res_RuntimeProbe = rdoc_RuntimeProbe d, res_Inventory = None, res_Ingress = None\<rparr>"

definition v1_command :: "resultCacheEntryDocumentV1 \<Rightarrow> AgentCommand" where
  "v1_command d =
     \<lparr>cmd_ID = v1_CommandID d, cmd_Kind = v1_Kind d, cmd_Deadline = utc (v1_Deadline d),
       cmd_RuntimeProbe = (if v1_RuntimeTargetID d \<noteq> [] then Some (v1_RuntimeTargetID d) else None),
       cmd_Deployment = None, cmd_Cutover = None, cmd_Inventory = None, cmd_Ingress = None\<rparr>"

definition v1_result :: "resultCacheEntryDocumentV1 \<Rightarrow> ('c, 'e) AgentCommandResult" where
  "v1_result d =
     \<lparr>res_CommandID = v1_CommandID d, res_Status = v1_Status d, res_ErrorCode = v1_ErrorCode d,
       res_RuntimeProbe = v1_RuntimeStatus d, res_Inventory = None, res_Ingress = None\<rparr>"

text \<open>\<open>hex.DecodeString\<close>.\<close>

definition hex_value :: "char \<Rightarrow> int" where
  "hex_value c =
     (if is_digit c then int (of_char c) - 48
      else if in_range CHR ''a'' CHR ''f'' c then int (of_char c) - 87
      else int (of_char c) - 55)"

fun hex_pairs :: "string \<Rightarrow> int list" where
  "hex_pairs (a # b # rest) = (16 * hex_value a + hex_value b) # hex_pairs rest"
| "hex_pairs _ = []"

definition hex_decode :: "string \<Rightarrow> int list option" where
  "hex_decode s = (if hex_decodable s then Some (hex_pairs s) else None)"

section \<open>Loading\<close>

type_synonym ('c, 'e) loaded = "(string \<rightharpoonup> ('c, 'e) resultCacheEntry) \<times> string list"

fun load_v2 ::
  "('c, 'e) cache_env \<Rightarrow> resultCacheEntryDocument list \<Rightarrow> ('c, 'e) loaded \<Rightarrow> ('c, 'e) loaded option" where
  "load_v2 env [] acc = Some acc"
| "load_v2 env (d # ds) (entries, order) =
     (let result = result_domain (edoc_Result d) in
      if \<not> Kind_Valid (edoc_Kind d) \<or> ValidateShape (ce_checks env) (edoc_Kind d) result \<noteq> None then None
      else (case hex_decode (edoc_CommandFingerprint d) of
        None \<Rightarrow> None
      | Some fingerprint \<Rightarrow>
          (if length fingerprint \<noteq> 32 then None
           else if entries (res_CommandID result) \<noteq> None then None
           else load_v2 env ds (entries(res_CommandID result \<mapsto> \<lparr>entry_fingerprint = fingerprint,
                  entry_kind = edoc_Kind d, entry_result = result\<rparr>), order @ [res_CommandID result]))))"

fun load_v1 ::
  "('c, 'e) cache_env \<Rightarrow> resultCacheEntryDocumentV1 list \<Rightarrow> ('c, 'e) loaded \<Rightarrow> ('c, 'e) loaded option" where
  "load_v1 env [] acc = Some acc"
| "load_v1 env (d # ds) (entries, order) =
     (let command = v1_command d; result = v1_result d in
      case Fingerprint (ce_protocol env) command of
        Inl _ \<Rightarrow> None
      | Inr fingerprint \<Rightarrow>
          (if Result_Validate (ce_protocol env) (ce_checks env) command result \<noteq> None then None
           else if entries (cmd_ID command) \<noteq> None then None
           else load_v1 env ds (entries(cmd_ID command \<mapsto> \<lparr>entry_fingerprint = fingerprint,
                  entry_kind = cmd_Kind command, entry_result = result\<rparr>), order @ [cmd_ID command])))"

definition loaded_or_invalid :: "'a option \<Rightarrow> cache_error + 'a" where
  "loaded_or_invalid x = (case x of None \<Rightarrow> Inl ErrInvalidResultCache | Some v \<Rightarrow> Inr v)"

definition rc_load :: "('c, 'e) cache_env \<Rightarrow> nat \<Rightarrow> cache_file \<Rightarrow> cache_error + ('c, 'e) loaded" where
  "rc_load env maximum file =
     (case file of
        CacheMissing \<Rightarrow> Inr (Map.empty, [])
      | CacheRefused \<Rightarrow> Inl CacheStateFile
      | CacheUndecodable \<Rightarrow> Inl ErrInvalidResultCache
      | CacheV1 ds \<Rightarrow>
          if maximum < length ds then Inl ErrInvalidResultCache
          else loaded_or_invalid (load_v1 env ds (Map.empty, []))
      | CacheV2 d \<Rightarrow>
          if cdoc_Version d \<noteq> resultCacheVersion \<or> maximum < length (cdoc_Entries d) then Inl ErrInvalidResultCache
          else loaded_or_invalid (load_v2 env (cdoc_Entries d) (Map.empty, [])))"

definition NewFileResultCache ::
  "('c, 'e) cache_env \<Rightarrow> cache_error option \<Rightarrow> nat \<Rightarrow> cache_file \<Rightarrow> cache_error + ('c, 'e) FileResultCache" where
  "NewFileResultCache env directory maximum file =
     (if maximum < 1 \<or> 4096 < maximum then Inl ErrInvalidResultCache
      else (case directory of
        Some e \<Rightarrow> Inl e
      | None \<Rightarrow>
          (case rc_load env maximum file of
             Inl e \<Rightarrow> Inl e
           | Inr (entries, order) \<Rightarrow>
               Inr \<lparr>rc_maximum = maximum, rc_entries = entries, rc_order = order, rc_file = file\<rparr>)))"

section \<open>Persisting\<close>

text \<open>Reading a missing key of the Go map gives the zero entry; the invariant below excludes it.\<close>

definition zero_entry :: "('c, 'e) resultCacheEntry" where
  "zero_entry = \<lparr>entry_fingerprint = replicate 32 0, entry_kind = AgentCommandOther [],
     entry_result = \<lparr>res_CommandID = [], res_Status = AgentCommandStatusOther [], res_ErrorCode = [],
       res_RuntimeProbe = None, res_Inventory = None, res_Ingress = None\<rparr>\<rparr>"

definition entry_at :: "(string \<rightharpoonup> ('c, 'e) resultCacheEntry) \<Rightarrow> string \<Rightarrow> ('c, 'e) resultCacheEntry" where
  "entry_at entries commandID = (case entries commandID of None \<Rightarrow> zero_entry | Some e \<Rightarrow> e)"

definition cache_entry_document :: "('c, 'e) resultCacheEntry \<Rightarrow> resultCacheEntryDocument" where
  "cache_entry_document e = \<lparr>edoc_Kind = entry_kind e, edoc_CommandFingerprint = hex_encode (entry_fingerprint e),
     edoc_Result = newResultCacheResultDocument (entry_result e)\<rparr>"

definition cache_document ::
  "(string \<rightharpoonup> ('c, 'e) resultCacheEntry) \<Rightarrow> string list \<Rightarrow> resultCacheDocument" where
  "cache_document entries order = \<lparr>cdoc_Version = resultCacheVersion,
     cdoc_Entries = map (\<lambda>i. cache_entry_document (entry_at entries i)) order\<rparr>"

definition rc_persistLocked ::
  "write_outcome \<Rightarrow> ('c, 'e) FileResultCache \<Rightarrow> cache_error option \<times> ('c, 'e) FileResultCache" where
  "rc_persistLocked io c =
     (let d = cache_document (rc_entries c) (rc_order c) in
      case io of
        WriteOk \<Rightarrow> (None, c\<lparr>rc_file := CacheV2 d\<rparr>)
      | WriteFailed \<Rightarrow> (Some CacheStateFile, c)
      | WriteUnsynced \<Rightarrow> (Some CacheStateFile, c\<lparr>rc_file := CacheV2 d\<rparr>))"

section \<open>Operations\<close>

definition rc_Lookup ::
  "('c, 'e) cache_env \<Rightarrow> ('c, 'e) FileResultCache \<Rightarrow> AgentCommand \<Rightarrow>
     cache_error + ('c, 'e) AgentCommandResult option" where
  "rc_Lookup env c command =
     (if \<not> DurableResult (cmd_Kind command) then
        (case AgentCommand_Validate (ce_protocol env) command of
           Some e \<Rightarrow> Inl (CacheProtocol e)
         | None \<Rightarrow> Inr None)
      else (case Fingerprint (ce_protocol env) command of
        Inl e \<Rightarrow> Inl (CacheProtocol e)
      | Inr fingerprint \<Rightarrow>
          (case rc_entries c (cmd_ID command) of
             None \<Rightarrow> Inr None
           | Some entry \<Rightarrow>
               (if entry_kind entry \<noteq> cmd_Kind command \<or> entry_fingerprint entry \<noteq> fingerprint
                then Inl (CacheProtocol ErrCommandInvalid)
                else Inr (Some (entry_result entry))))))"

text \<open>Append an entry and evict the oldest one when there are too many: the evicted id, if any.\<close>

definition rc_insert ::
  "('c, 'e) FileResultCache \<Rightarrow> string \<Rightarrow> ('c, 'e) resultCacheEntry \<Rightarrow>
     (string \<times> ('c, 'e) resultCacheEntry) option \<times> ('c, 'e) FileResultCache" where
  "rc_insert c commandID entry =
     (let entries = (rc_entries c)(commandID \<mapsto> entry); order = rc_order c @ [commandID] in
      if rc_maximum c < length order then
        (Some (hd order, entry_at entries (hd order)),
         c\<lparr>rc_entries := entries(hd order := None), rc_order := tl order\<rparr>)
      else (None, c\<lparr>rc_entries := entries, rc_order := order\<rparr>))"

text \<open>Put back what an insertion changed.\<close>

definition rc_restore ::
  "(string \<times> ('c, 'e) resultCacheEntry) option \<Rightarrow> string \<Rightarrow> ('c, 'e) FileResultCache \<Rightarrow> ('c, 'e) FileResultCache" where
  "rc_restore evicted commandID c =
     (let entries = (rc_entries c)(commandID := None); order = butlast (rc_order c) in
      case evicted of
        None \<Rightarrow> c\<lparr>rc_entries := entries, rc_order := order\<rparr>
      | Some (evictedID, entry) \<Rightarrow> c\<lparr>rc_entries := entries(evictedID \<mapsto> entry), rc_order := evictedID # order\<rparr>)"

definition rc_Store ::
  "('c, 'e) cache_env \<Rightarrow> write_outcome \<Rightarrow> AgentCommand \<Rightarrow> ('c, 'e) AgentCommandResult \<Rightarrow> ('c, 'e) FileResultCache \<Rightarrow>
     cache_error option \<times> ('c, 'e) FileResultCache" where
  "rc_Store env io command result c =
     (if \<not> DurableResult (cmd_Kind command) then (Some ErrInvalidResultCache, c)
      else (case Result_Validate (ce_protocol env) (ce_checks env) command result of
        Some e \<Rightarrow> (Some (CacheProtocol e), c)
      | None \<Rightarrow>
          (case Fingerprint (ce_protocol env) command of
             Inl e \<Rightarrow> (Some (CacheProtocol e), c)
           | Inr fingerprint \<Rightarrow>
               (case rc_entries c (cmd_ID command) of
                  Some entry \<Rightarrow>
                    (if entry_kind entry \<noteq> cmd_Kind command \<or> entry_fingerprint entry \<noteq> fingerprint
                     then (Some (CacheProtocol ErrCommandInvalid), c)
                     else if \<not> Result_Equivalent (entry_result entry) result
                     then (Some (CacheProtocol ErrResultInvalid), c)
                     else (None, c))
                | None \<Rightarrow>
                    (case rc_insert c (cmd_ID command) \<lparr>entry_fingerprint = fingerprint,
                         entry_kind = cmd_Kind command, entry_result = result\<rparr> of
                       (evicted, c1) \<Rightarrow>
                         (case rc_persistLocked io c1 of
                            (None, c2) \<Rightarrow> (None, c2)
                          | (Some e, c2) \<Rightarrow> (Some e, rc_restore evicted (cmd_ID command) c2)))))))"

section \<open>Invariant\<close>

definition fingerprint_ok :: "int list \<Rightarrow> bool" where
  "fingerprint_ok f \<longleftrightarrow> length f = 32 \<and> (\<forall>b \<in> set f. 0 \<le> b \<and> b < 256)"

definition entry_ok :: "('c, 'e) cache_env \<Rightarrow> string \<Rightarrow> ('c, 'e) resultCacheEntry \<Rightarrow> bool" where
  "entry_ok env i e \<longleftrightarrow> res_CommandID (entry_result e) = i \<and> Kind_Valid (entry_kind e) \<and>
     ValidateShape (ce_checks env) (entry_kind e) (entry_result e) = None \<and>
     res_Inventory (entry_result e) = None \<and> res_Ingress (entry_result e) = None \<and>
     fingerprint_ok (entry_fingerprint e)"

definition loaded_ok :: "('c, 'e) cache_env \<Rightarrow> ('c, 'e) loaded \<Rightarrow> bool" where
  "loaded_ok env l \<longleftrightarrow> distinct (snd l) \<and> set (snd l) = dom (fst l) \<and>
     (\<forall>i e. fst l i = Some e \<longrightarrow> entry_ok env i e)"

definition cache_ok :: "('c, 'e) cache_env \<Rightarrow> ('c, 'e) FileResultCache \<Rightarrow> bool" where
  "cache_ok env c \<longleftrightarrow> 1 \<le> rc_maximum c \<and> rc_maximum c \<le> 4096 \<and> length (rc_order c) \<le> rc_maximum c \<and>
     loaded_ok env (rc_entries c, rc_order c)"

lemma hex_value_range: "is_hex_digit c \<Longrightarrow> 0 \<le> hex_value c \<and> hex_value c < 16"
  by (auto simp: hex_value_def is_hex_digit_def is_digit_def in_range_def)

lemma hex_pairs_range:
  "list_all is_hex_digit s \<Longrightarrow> b \<in> set (hex_pairs s) \<Longrightarrow> 0 \<le> b \<and> b < 256"
proof (induction s rule: hex_pairs.induct)
  case (1 a b' rest)
  then show ?case using hex_value_range[of a] hex_value_range[of b'] by auto
qed auto

lemma hex_decode_ok: "hex_decode s = Some f \<Longrightarrow> length f = 32 \<Longrightarrow> fingerprint_ok f"
  using hex_pairs_range by (auto simp: hex_decode_def fingerprint_ok_def hex_decodable_def split: if_splits)

lemma hex_value_digit:
  assumes "0 \<le> n" "n < 16"
  shows "hex_value (hex_digit n) = n"
proof -
  have all: "list_all (\<lambda>k. hex_value (hex_digit k) = k) [0..15]" by code_simp
  have "n \<in> set [0..15]" using assms by simp
  then show ?thesis using all by (simp only: list_all_iff)
qed

lemma hex_digit_mod: "hex_digit (n mod 16) = hex_digit n"
  by (simp add: hex_digit_def)

lemma hex_pairs_encode: "\<forall>b \<in> set bs. 0 \<le> b \<and> b < 256 \<Longrightarrow> hex_pairs (hex_encode bs) = bs"
proof (induction bs)
  case (Cons b bs)
  then have "0 \<le> b" "b < 256" by auto
  then have "hex_value (hex_digit (b div 16)) = b div 16" "hex_value (hex_digit (b mod 16)) = b mod 16"
    by (auto intro!: hex_value_digit simp: pos_imp_zdiv_nonneg_iff)
  with Cons show ?case by (simp add: hex_encode_def hex_digit_mod)
qed (simp add: hex_encode_def)

lemma hex_decode_encode: "fingerprint_ok f \<Longrightarrow> hex_decode (hex_encode f) = Some f"
  using hex_encode_lower[of f] lower_hex_is_hex
  by (auto simp: hex_decode_def hex_decodable_def fingerprint_ok_def hex_pairs_encode list_all_iff)

lemma sha256_sum_range: "b \<in> set (sha256_sum s) \<Longrightarrow> 0 \<le> b \<and> b < 256"
  using be_bytes_range by (auto simp: sha256_sum_def Let_def)

lemma Fingerprint_ok: "Fingerprint env c = Inr f \<Longrightarrow> fingerprint_ok f"
  using sha256_sum_range by (auto simp: Fingerprint_def fingerprint_ok_def split: option.splits)

section \<open>Loading keeps the invariant\<close>

lemma loaded_ok_append:
  assumes "loaded_ok env (entries, order)" "entries i = None" "entry_ok env i e"
  shows "loaded_ok env (entries(i \<mapsto> e), order @ [i])"
  using assms by (auto simp: loaded_ok_def)

lemma result_domain_simps [simp]:
  "res_Inventory (result_domain d) = None" "res_Ingress (result_domain d) = None"
  "res_CommandID (result_domain d) = rdoc_CommandID d"
  by (simp_all add: result_domain_def)

lemma load_v2_ok:
  fixes env :: "('c, 'e) cache_env"
  shows "load_v2 env ds acc = Some l \<Longrightarrow> loaded_ok env acc \<Longrightarrow>
     loaded_ok env l \<and> length (snd l) = length (snd acc) + length ds"
proof (induction env ds acc rule: load_v2.induct)
  case (2 env d ds entries order)
  let ?r = "result_domain (edoc_Result d) :: ('c, 'e) AgentCommandResult"
  from 2(2) obtain f where f: "hex_decode (edoc_CommandFingerprint d) = Some f" "length f = 32"
    and ok: "Kind_Valid (edoc_Kind d)" "ValidateShape (ce_checks env) (edoc_Kind d) ?r = None"
    "entries (res_CommandID ?r) = None"
    and rest: "load_v2 env ds (entries(res_CommandID ?r \<mapsto> \<lparr>entry_fingerprint = f,
                  entry_kind = edoc_Kind d, entry_result = ?r\<rparr>), order @ [res_CommandID ?r]) = Some l"
    by (auto simp: Let_def split: if_splits option.splits)
  have "loaded_ok env (entries(res_CommandID ?r \<mapsto> \<lparr>entry_fingerprint = f,
                  entry_kind = edoc_Kind d, entry_result = ?r\<rparr>), order @ [res_CommandID ?r])"
    by (rule loaded_ok_append[OF 2(3) ok(3)]) (use ok f hex_decode_ok in \<open>auto simp: entry_ok_def\<close>)
  with 2(1)[OF refl _ f(1) _ _ rest] ok f(2) show ?case by simp
qed auto

lemma Result_Validate_shape:
  "Result_Validate env checks c r = None \<Longrightarrow>
     AgentCommand_Validate env c = None \<and> res_CommandID r = cmd_ID c \<and> ValidateShape checks (cmd_Kind c) r = None"
  by (auto simp: Result_Validate_def split: if_splits option.splits)

lemma v1_simps [simp]:
  "res_Inventory (v1_result d) = None" "res_Ingress (v1_result d) = None"
  "res_CommandID (v1_result d) = v1_CommandID d" "cmd_ID (v1_command d) = v1_CommandID d"
  by (simp_all add: v1_result_def v1_command_def)

lemma load_v1_ok:
  fixes env :: "('c, 'e) cache_env"
  shows "load_v1 env ds acc = Some l \<Longrightarrow> loaded_ok env acc \<Longrightarrow>
     loaded_ok env l \<and> length (snd l) = length (snd acc) + length ds"
proof (induction env ds acc rule: load_v1.induct)
  case (2 env d ds entries order)
  let ?c = "v1_command d" and ?r = "v1_result d :: ('c, 'e) AgentCommandResult"
  from 2(2) obtain f where f: "Fingerprint (ce_protocol env) ?c = Inr f"
    and ok: "Result_Validate (ce_protocol env) (ce_checks env) ?c ?r = None" "entries (cmd_ID ?c) = None"
    and rest: "load_v1 env ds (entries(cmd_ID ?c \<mapsto> \<lparr>entry_fingerprint = f,
                  entry_kind = cmd_Kind ?c, entry_result = ?r\<rparr>), order @ [cmd_ID ?c]) = Some l"
    by (auto simp: Let_def split: if_splits sum.splits)
  have "Kind_Valid (cmd_Kind ?c)" using Result_Validate_shape[OF ok(1)] by (simp)
  then have "loaded_ok env (entries(cmd_ID ?c \<mapsto> \<lparr>entry_fingerprint = f,
                  entry_kind = cmd_Kind ?c, entry_result = ?r\<rparr>), order @ [cmd_ID ?c])"
    using Result_Validate_shape[OF ok(1)] Fingerprint_ok[OF f]
    by (intro loaded_ok_append[OF 2(3) ok(2)]) (auto simp: entry_ok_def)
  with 2(1)[OF refl refl f _ _ rest] ok show ?case by simp
qed auto

lemma loaded_ok_empty [simp]: "loaded_ok env (Map.empty, [])"
  by (simp add: loaded_ok_def)

lemma rc_load_ok:
  "rc_load env k file = Inr l \<Longrightarrow> loaded_ok env l \<and> length (snd l) \<le> k"
  by (auto simp: rc_load_def loaded_or_invalid_def dest: load_v1_ok load_v2_ok
      split: cache_file.splits if_splits option.splits)

lemma NewFileResultCache_ok:
  "NewFileResultCache env directory k file = Inr c \<Longrightarrow> cache_ok env c \<and> rc_file c = file \<and> rc_maximum c = k"
  by (auto simp: NewFileResultCache_def cache_ok_def dest!: rc_load_ok split: if_splits option.splits sum.splits)

section \<open>The round trip of the document\<close>

lemma result_domain_document:
  "res_Inventory r = None \<Longrightarrow> res_Ingress r = None \<Longrightarrow> result_domain (newResultCacheResultDocument r) = r"
  by (simp add: result_domain_def newResultCacheResultDocument_def)

lemma load_v2_document:
  assumes "distinct order" "\<forall>i \<in> set order. \<exists>e. entries i = Some e \<and> entry_ok env i e"
    "\<forall>i \<in> set order. acc i = None"
  shows "load_v2 env (map (\<lambda>i. cache_entry_document (entry_at entries i)) order) (acc, done) =
    Some (acc ++ entries |` set order, done @ order)"
  using assms
proof (induction order arbitrary: acc "done")
  case (Cons i order)
  then obtain e where e: "entries i = Some e" "entry_ok env i e" by auto
  have r: "result_domain (edoc_Result (cache_entry_document e)) = entry_result e"
    using e(2) result_domain_document by (auto simp: cache_entry_document_def entry_ok_def)
  have d: "hex_decode (edoc_CommandFingerprint (cache_entry_document e)) = Some (entry_fingerprint e)"
    "edoc_Kind (cache_entry_document e) = entry_kind e" "length (entry_fingerprint e) = 32"
    using e(2) hex_decode_encode by (auto simp: cache_entry_document_def entry_ok_def fingerprint_ok_def)
  have i: "res_CommandID (entry_result e) = i" using e(2) by (simp add: entry_ok_def)
  have "load_v2 env (map (\<lambda>i. cache_entry_document (entry_at entries i)) order) (acc(i \<mapsto> e), done @ [i]) =
      Some (acc(i \<mapsto> e) ++ entries |` set order, (done @ [i]) @ order)"
    using Cons.prems by (intro Cons.IH) auto
  moreover have "acc(i \<mapsto> e) ++ entries |` set order = acc ++ entries |` set (i # order)"
    using Cons.prems(1) e(1) by (auto simp: fun_eq_iff map_add_def restrict_map_def split: option.split)
  moreover have eta: "\<lparr>entry_fingerprint = entry_fingerprint e, entry_kind = entry_kind e,
      entry_result = entry_result e\<rparr> = e" by simp
  moreover have "entry_at entries i = e" using e(1) by (simp add: entry_at_def)
  moreover have "Kind_Valid (entry_kind e)" "ValidateShape (ce_checks env) (entry_kind e) (entry_result e) = None"
    using e(2) by (simp_all add: entry_ok_def)
  moreover have "load_v2 env (cache_entry_document e # ds) (acc, done) =
      load_v2 env ds (acc(i \<mapsto> \<lparr>entry_fingerprint = entry_fingerprint e,
      entry_kind = entry_kind e, entry_result = entry_result e\<rparr>), done @ [i])" for ds
    using Cons.prems(3) r d i calculation by (simp add: Let_def)
  ultimately have "load_v2 env (cache_entry_document e # map (\<lambda>i. cache_entry_document (entry_at entries i)) order)
      (acc, done) = Some (acc ++ entries |` set (i # order), done @ i # order)"
    by (simp only: eta) simp
  with \<open>entry_at entries i = e\<close> show ?case by simp
qed simp

lemma cache_document_load:
  assumes "loaded_ok env (entries, order)" "length order \<le> k"
  shows "rc_load env k (CacheV2 (cache_document entries order)) = Inr (entries, order)"
proof -
  have "load_v2 env (map (\<lambda>i. cache_entry_document (entry_at entries i)) order) (Map.empty, []) =
      Some (Map.empty ++ entries |` set order, [] @ order)"
    by (rule load_v2_document) (use assms(1) in \<open>auto simp: loaded_ok_def\<close>)
  moreover have "entries |` set order = entries"
    using assms(1) by (auto simp: loaded_ok_def fun_eq_iff restrict_map_def simp flip: not_None_eq)
  ultimately show ?thesis
    using assms(2) by (simp add: rc_load_def cache_document_def loaded_or_invalid_def resultCacheVersion_def)
qed

section \<open>Storing\<close>

definition cache_synced :: "('c, 'e) cache_env \<Rightarrow> ('c, 'e) FileResultCache \<Rightarrow> bool" where
  "cache_synced env c \<longleftrightarrow> rc_load env (rc_maximum c) (rc_file c) = Inr (rc_entries c, rc_order c)"

lemma rc_insert_ok:
  assumes c: "cache_ok env c" and i: "rc_entries c i = None" "entry_ok env i e"
    and ins: "rc_insert c i e = (evicted, c1)"
  shows "cache_ok env c1 \<and> rc_entries c1 i = Some e \<and> rc_order c1 = (if rc_maximum c < Suc (length (rc_order c))
      then tl (rc_order c @ [i]) else rc_order c @ [i]) \<and> rc_maximum c1 = rc_maximum c \<and> rc_file c1 = rc_file c \<and>
    rc_entries (rc_restore evicted i c1) = rc_entries c \<and> rc_order (rc_restore evicted i c1) = rc_order c"
proof -
  have l: "loaded_ok env (rc_entries c, rc_order c)" and len: "length (rc_order c) \<le> rc_maximum c"
    "1 \<le> rc_maximum c" using c by (auto simp: cache_ok_def)
  have l': "loaded_ok env ((rc_entries c)(i \<mapsto> e), rc_order c @ [i])"
    by (rule loaded_ok_append[OF l i])
  show ?thesis
  proof (cases "rc_maximum c < Suc (length (rc_order c))")
    case False
    with ins have e: "evicted = None"
      "c1 = c\<lparr>rc_entries := (rc_entries c)(i \<mapsto> e), rc_order := rc_order c @ [i]\<rparr>"
      by (auto simp: rc_insert_def Let_def)
    have "(rc_entries c)(i := None) = rc_entries c" using i(1) by (simp add: fun_eq_iff)
    then show ?thesis
      using e False l' c by (simp add: cache_ok_def rc_restore_def Let_def)
  next
    case True
    then have "rc_order c \<noteq> []" using len by auto
    then obtain o1 os where o: "rc_order c = o1 # os" by (cases "rc_order c") auto
    then have "o1 \<in> dom (rc_entries c)" using l by (auto simp: loaded_ok_def)
    then obtain x where x: "rc_entries c o1 = Some x" by blast
    with i(1) have ne: "o1 \<noteq> i" by auto
    from ins True o x ne have e: "evicted = Some (o1, x)"
      "c1 = c\<lparr>rc_entries := (rc_entries c)(i \<mapsto> e, o1 := None), rc_order := os @ [i]\<rparr>"
      by (auto simp: rc_insert_def Let_def entry_at_def)
    have "loaded_ok env ((rc_entries c)(i \<mapsto> e, o1 := None), os @ [i])"
      using l' o ne by (auto simp: loaded_ok_def)
    moreover have "(rc_entries c)(i \<mapsto> e, o1 := None, i := None, o1 \<mapsto> x) = rc_entries c"
      using i(1) x ne by (auto simp: fun_eq_iff)
    ultimately show ?thesis
      using e True o ne c len by (simp add: cache_ok_def rc_restore_def Let_def)
  qed
qed

lemma persistLocked_result:
  "rc_persistLocked io c = (r, c') \<Longrightarrow>
     (r = None \<longleftrightarrow> io = WriteOk) \<and> (r \<noteq> None \<longrightarrow> r = Some CacheStateFile) \<and>
     c' = c\<lparr>rc_file := (if io = WriteFailed then rc_file c else CacheV2 (cache_document (rc_entries c) (rc_order c)))\<rparr>"
  by (cases io) (auto simp: rc_persistLocked_def Let_def)

lemma rc_restore_file [simp]:
  "rc_restore ev i (c\<lparr>rc_file := f\<rparr>) = (rc_restore ev i c)\<lparr>rc_file := f\<rparr>"
  by (auto simp: rc_restore_def Let_def split: option.split)

lemma rc_restore_max [simp]: "rc_maximum (rc_restore ev i c) = rc_maximum c"
  by (auto simp: rc_restore_def Let_def split: option.split)

lemma rc_restore_same_file: "rc_file (rc_restore ev i c) = rc_file c"
  by (auto simp: rc_restore_def Let_def split: option.split)

lemma new_entry_ok:
  assumes "DurableResult (cmd_Kind command)"
    "Result_Validate (ce_protocol env) (ce_checks env) command result = None"
    "Fingerprint (ce_protocol env) command = Inr f"
  shows "entry_ok env (cmd_ID command) \<lparr>entry_fingerprint = f, entry_kind = cmd_Kind command, entry_result = result\<rparr>"
proof -
  note v = Result_Validate_shape[OF assms(2)]
  have "res_Inventory result = None \<and> res_Ingress result = None"
    using v assms(1) by (cases "cmd_Kind command")
      (auto simp: ValidateShape_def valid_success_def Let_def ingress_kinds_def
        split: if_splits AgentCommandStatus.splits)
  with v Fingerprint_ok[OF assms(3)] show ?thesis by (simp add: entry_ok_def)
qed

text \<open>
  The three ways a store ends: refused, already recorded, or recorded with the outcome of the write.
\<close>

lemma rc_Store_cases:
  assumes "rc_Store env io command result c = (r, c')" "cache_ok env c"
  obtains (refused) e where "r = Some e" "c' = c"
  | (known) f entry where "r = None" "c' = c" "Fingerprint (ce_protocol env) command = Inr f"
      "rc_entries c (cmd_ID command) = Some entry" "entry_kind entry = cmd_Kind command"
      "entry_fingerprint entry = f" "Result_Equivalent (entry_result entry) result"
  | (written) f evicted c1 where "Fingerprint (ce_protocol env) command = Inr f"
      "rc_entries c (cmd_ID command) = None" "DurableResult (cmd_Kind command)"
      "rc_insert c (cmd_ID command) \<lparr>entry_fingerprint = f, entry_kind = cmd_Kind command,
         entry_result = result\<rparr> = (evicted, c1)"
      "entry_ok env (cmd_ID command) \<lparr>entry_fingerprint = f, entry_kind = cmd_Kind command, entry_result = result\<rparr>"
      "io = WriteOk \<longrightarrow> r = None \<and> c' = c1\<lparr>rc_file := CacheV2 (cache_document (rc_entries c1) (rc_order c1))\<rparr>"
      "io = WriteFailed \<longrightarrow> r = Some CacheStateFile \<and> c' = c"
      "io = WriteUnsynced \<longrightarrow> r = Some CacheStateFile \<and>
         c' = c\<lparr>rc_file := CacheV2 (cache_document (rc_entries c1) (rc_order c1))\<rparr>"
proof -
  show ?thesis
  proof (cases "\<exists>e. r = Some e \<and> c' = c \<or> (\<exists>f entry. r = None \<and> c' = c \<and>
      Fingerprint (ce_protocol env) command = Inr f \<and> rc_entries c (cmd_ID command) = Some entry \<and>
      entry_kind entry = cmd_Kind command \<and> entry_fingerprint entry = f \<and>
      Result_Equivalent (entry_result entry) result)")
    case True
    then show ?thesis using refused known by blast
  next
    case False
    with assms(1) obtain f where d: "DurableResult (cmd_Kind command)"
      "Result_Validate (ce_protocol env) (ce_checks env) command result = None"
      and f: "Fingerprint (ce_protocol env) command = Inr f" and n: "rc_entries c (cmd_ID command) = None"
      by (auto simp: rc_Store_def split: if_splits option.splits sum.splits)
    let ?e = "\<lparr>entry_fingerprint = f, entry_kind = cmd_Kind command, entry_result = result\<rparr>"
    have ok: "entry_ok env (cmd_ID command) ?e" by (rule new_entry_ok[OF d f])
    obtain evicted c1 where ins: "rc_insert c (cmd_ID command) ?e = (evicted, c1)" by fastforce
    obtain x c2 where p: "rc_persistLocked io c1 = (x, c2)" by fastforce
    note P = persistLocked_result[OF p] and I = rc_insert_ok[OF assms(2) n ok ins]
    have res: "(r, c') = (case x of None \<Rightarrow> (None, c2) | Some e \<Rightarrow> (Some e, rc_restore evicted (cmd_ID command) c2))"
      using assms(1) d f n ins p by (auto simp: rc_Store_def split: option.split)
    have undone: "rc_restore evicted (cmd_ID command) c1 = c"
      using I rc_restore_max[of evicted "cmd_ID command" c1] rc_restore_same_file[of evicted "cmd_ID command" c1]
      by (intro FileResultCache.equality) simp_all
    have same: "rc_file c1 = rc_file c" using I by blast
    have "x = (if io = WriteOk then None else Some CacheStateFile)" using P by (cases io) auto
    then have io: "io = WriteOk \<Longrightarrow> r = None \<and> c' = c2"
      "io \<noteq> WriteOk \<Longrightarrow> r = Some CacheStateFile \<and> c' = rc_restore evicted (cmd_ID command) c2"
      using res by (auto split: if_splits)
    have c2: "c2 = c1\<lparr>rc_file := (if io = WriteFailed then rc_file c
        else CacheV2 (cache_document (rc_entries c1) (rc_order c1)))\<rparr>" using P same by simp
    have undo: "rc_restore evicted (cmd_ID command) (c1\<lparr>rc_file := g\<rparr>) = c\<lparr>rc_file := g\<rparr>" for g
      by (simp only: rc_restore_file undone)
    have keep: "c\<lparr>rc_file := rc_file c\<rparr> = c" by simp
    show ?thesis
    proof (rule written[OF f n d(1) ins ok])
      show "io = WriteOk \<longrightarrow> r = None \<and> c' = c1\<lparr>rc_file := CacheV2 (cache_document (rc_entries c1) (rc_order c1))\<rparr>"
        using io(1) c2 by (simp del: not_None_eq)
      show "io = WriteFailed \<longrightarrow> r = Some CacheStateFile \<and> c' = c"
        using io(2) unfolding c2 undo by (auto simp: keep)
      show "io = WriteUnsynced \<longrightarrow> r = Some CacheStateFile \<and>
         c' = c\<lparr>rc_file := CacheV2 (cache_document (rc_entries c1) (rc_order c1))\<rparr>"
        using io(2) unfolding c2 undo by simp
    qed
  qed
qed

lemma rc_Store_ok:
  assumes "rc_Store env io command result c = (r, c')" "cache_ok env c"
  shows "cache_ok env c'"
  using assms
proof (cases rule: rc_Store_cases)
  case (written f evicted c1)
  note I = rc_insert_ok[OF assms(2) written(2,5,4)]
  show ?thesis using written(6-8) I assms(2) by (cases io) (auto simp: cache_ok_def)
qed (use assms(2) in auto)

lemma rc_Store_synced:
  assumes "rc_Store env io command result c = (r, c')" "cache_ok env c" "cache_synced env c" "io \<noteq> WriteUnsynced"
  shows "cache_synced env c'"
  using assms(1,2)
proof (cases rule: rc_Store_cases)
  case (written f evicted c1)
  note I = rc_insert_ok[OF assms(2) written(2,5,4)]
  show ?thesis
  proof (cases io)
    case WriteOk
    have "loaded_ok env (rc_entries c1, rc_order c1)" "length (rc_order c1) \<le> rc_maximum c1"
      using I by (auto simp: cache_ok_def)
    from cache_document_load[OF this] WriteOk written(6) show ?thesis by (simp add: cache_synced_def)
  qed (use written assms(3,4) in auto)
qed (use assms(3) in auto)

lemma rc_Store_error:
  assumes "rc_Store env io command result c = (Some e, c')" "cache_ok env c"
  shows "rc_entries c' = rc_entries c \<and> rc_order c' = rc_order c \<and> (io \<noteq> WriteUnsynced \<longrightarrow> c' = c)"
  using assms
proof (cases rule: rc_Store_cases)
  case (written f evicted c1)
  then show ?thesis by (cases io) auto
qed auto

lemma rc_Store_maximum:
  assumes "rc_Store env io command result c = (r, c')" "cache_ok env c"
  shows "rc_maximum c' = rc_maximum c"
  using assms
proof (cases rule: rc_Store_cases)
  case (written f evicted c1)
  then show ?thesis using rc_insert_ok[OF assms(2) written(2,5,4)] by (cases io) auto
qed auto

lemma rc_Store_Lookup:
  assumes "rc_Store env io command result c = (None, c')" "cache_ok env c"
  shows "\<exists>recorded. rc_Lookup env c' command = Inr (Some recorded) \<and> Result_Equivalent recorded result"
proof -
  have d: "DurableResult (cmd_Kind command)" using assms(1) by (auto simp: rc_Store_def split: if_splits)
  show ?thesis using assms
  proof (cases rule: rc_Store_cases)
    case (known f entry)
    then show ?thesis using d by (simp add: rc_Lookup_def)
  next
    case (written f evicted c1)
    note I = rc_insert_ok[OF assms(2) written(2,5,4)]
    have "io = WriteOk" using written(7,8) by (cases io) auto
    moreover have "Result_Equivalent result result"
      by (auto simp: Result_Equivalent_def split: option.split)
    ultimately show ?thesis using I written(1,6) d by (simp add: rc_Lookup_def)
  qed simp
qed

section \<open>The size of the file\<close>

definition result_json :: "resultCacheResultDocument \<Rightarrow> string" where
  "result_json d =
     ''{'' @ quoted ''command_id'' @ '':'' @ quoted (rdoc_CommandID d) @ '','' @ quoted ''status'' @ '':'' @
     quoted (case rdoc_Status d of AgentCommandSucceeded \<Rightarrow> ''succeeded'' | AgentCommandFailed \<Rightarrow> ''failed''
       | AgentCommandStatusOther s \<Rightarrow> s) @
     (if rdoc_ErrorCode d = [] then [] else '','' @ quoted ''error_code'' @ '':'' @ quoted (rdoc_ErrorCode d)) @
     (case rdoc_RuntimeProbe d of
        None \<Rightarrow> []
      | Some status \<Rightarrow> '','' @ quoted ''runtime_probe'' @ '':{'' @ quoted ''status'' @ '':'' @
          quoted (case status of RuntimeProbeReady \<Rightarrow> ''ready'' | RuntimeProbeUnreachable \<Rightarrow> ''unreachable''
            | RuntimeProbeUnsupported \<Rightarrow> ''unsupported'' | RuntimeProbeOther s \<Rightarrow> s) @ ''}'') @ ''}''"

definition cache_entry_json :: "resultCacheEntryDocument \<Rightarrow> string" where
  "cache_entry_json d =
     ''{'' @ quoted ''kind'' @ '':'' @ quoted (kind_text (edoc_Kind d)) @ '','' @ quoted ''command_fingerprint'' @ '':'' @
     quoted (edoc_CommandFingerprint d) @ '','' @ quoted ''result'' @ '':'' @ result_json (edoc_Result d) @ ''}''"

definition cache_json :: "resultCacheDocument \<Rightarrow> string" where
  "cache_json d = ''{'' @ quoted ''version'' @ '':2,'' @ quoted ''entries'' @ '':['' @
     comma_separated (map cache_entry_json (cdoc_Entries d)) @ '']}''"

lemma length_quoted [simp]: "length (quoted s) = length s + 2"
  by (simp add: quoted_def)

lemma kind_text_short: "Kind_Valid k \<Longrightarrow> length (kind_text k) \<le> 26"
  by (cases k) simp_all

lemma entry_json_short:
  assumes "entry_ok env i e"
  shows "length (cache_entry_json (cache_entry_document e)) \<le> 500"
proof -
  let ?r = "entry_result e"
  have r: "ValidateShape (ce_checks env) (entry_kind e) ?r = None" "Kind_Valid (entry_kind e)"
    and f: "length (entry_fingerprint e) = 32"
    using assms by (auto simp: entry_ok_def fingerprint_ok_def)
  have id: "length (res_CommandID ?r) \<le> 128"
    using r by (auto simp: ValidateShape_def validIdentifier_def split: if_splits)
  have code: "length (res_ErrorCode ?r) \<le> 64"
    using r by (auto simp: ValidateShape_def validErrorCode_def split: if_splits AgentCommandStatus.splits)
  have status: "length (case res_Status ?r of AgentCommandSucceeded \<Rightarrow> ''succeeded'' | AgentCommandFailed \<Rightarrow> ''failed''
       | AgentCommandStatusOther s \<Rightarrow> s) \<le> 9"
    using r by (auto simp: ValidateShape_def split: if_splits AgentCommandStatus.splits)
  have "res_Status ?r = AgentCommandSucceeded \<and> valid_success (ce_checks env) (entry_kind e) ?r \<or>
      res_RuntimeProbe ?r = None"
    using r by (auto simp: ValidateShape_def split: if_splits AgentCommandStatus.splits)
  then have "case res_RuntimeProbe ?r of None \<Rightarrow> True | Some st \<Rightarrow> RuntimeProbeStatus_Valid st"
    by (cases "entry_kind e") (auto simp: valid_success_def Let_def split: if_splits option.splits)
  then have probe: "length (case res_RuntimeProbe ?r of
        None \<Rightarrow> []
      | Some st \<Rightarrow> '','' @ quoted ''runtime_probe'' @ '':{'' @ quoted ''status'' @ '':'' @
          quoted (case st of RuntimeProbeReady \<Rightarrow> ''ready'' | RuntimeProbeUnreachable \<Rightarrow> ''unreachable''
            | RuntimeProbeUnsupported \<Rightarrow> ''unsupported'' | RuntimeProbeOther s \<Rightarrow> s) @ ''}'') \<le> 60"
    by (auto split: option.splits RuntimeProbeStatus.splits)
  show ?thesis
    using id code status probe f kind_text_short[OF r(2)]
    by (simp add: cache_entry_json_def cache_entry_document_def result_json_def newResultCacheResultDocument_def)
qed

lemma cache_json_short:
  assumes "cache_ok env c"
  shows "length (cache_json (cache_document (rc_entries c) (rc_order c))) \<le> maximumResultCacheBytes"
proof -
  let ?ds = "map (\<lambda>i. cache_entry_json (cache_entry_document (entry_at (rc_entries c) i))) (rc_order c)"
  have short: "length s \<le> 500" if "s \<in> set ?ds" for s
  proof -
    from that obtain i where i: "i \<in> set (rc_order c)"
      "s = cache_entry_json (cache_entry_document (entry_at (rc_entries c) i))" by auto
    then obtain e where e: "rc_entries c i = Some e" "entry_ok env i e"
      using assms by (auto simp: cache_ok_def loaded_ok_def)
    then show ?thesis using entry_json_short[OF e(2)] i(2) by (simp add: entry_at_def)
  qed
  from comma_separated_length[of ?ds 500, OF short] have "length (comma_separated ?ds) \<le> length (rc_order c) * 501" by simp
  moreover have "length (rc_order c) \<le> 4096" using assms by (auto simp: cache_ok_def)
  ultimately show ?thesis
    by (simp add: cache_json_def cache_document_def maximumResultCacheBytes_def comp_def)
qed

end
