(* ===== verification/ProtocolProperties.thy ===== *)
theory ProtocolProperties
  imports ResultCache
begin

text \<open>
  The properties of the agent protocol and of the result cache: canonical runtime specifications,
  fingerprints that identify commands, order-independent ingress digests, and a cache that answers a
  command that was delivered twice, across restarts and failed writes.
\<close>

section \<open>Runtime specifications\<close>

text \<open>
  What \<open>Normalize\<close> returns is final and well formed: normalising again changes nothing, port
  names, port numbers and environment keys are pairwise different and well spelled, and the health
  check is within its bounds.
\<close>

theorem normalized_spec_canonical:
  assumes "Normalize s = Some t"
  shows "Normalize t = Some t \<and>
    distinct (map port_Name (spec_Ports t)) \<and> distinct (map port_ContainerPort (spec_Ports t)) \<and>
    distinct (spec_EnvironmentKeys t) \<and>
    length (spec_Ports t) \<le> 16 \<and> length (spec_EnvironmentKeys t) \<le> 100 \<and>
    (\<forall>h. spec_HealthCheck t = Some h \<longrightarrow> health_ok h)"
proof -
  note p = Normalize_parts[OF assms]
  show ?thesis
    using Normalize_idem[OF assms] normalize_ports_distinct[OF p(1)] normalize_keys_distinct[OF p(2)] p(4-6)
    by auto
qed

definition sample_spec :: Spec where
  "sample_spec = \<lparr>spec_Ports = [\<lparr>port_Name = ''web'', port_ContainerPort = 80, port_Protocol = ''TCP''\<rparr>],
     spec_EnvironmentKeys = ['' A ''],
     spec_Resources = \<lparr>CPUMilli = 0, MemoryBytes = 0\<rparr>, spec_HealthCheck = None\<rparr>"

definition sample_normalized :: Spec where
  "sample_normalized = \<lparr>spec_Ports = [\<lparr>port_Name = ''web'', port_ContainerPort = 80, port_Protocol = ''tcp''\<rparr>],
     spec_EnvironmentKeys = [''A''],
     spec_Resources = \<lparr>CPUMilli = 500, MemoryBytes = 268435456\<rparr>, spec_HealthCheck = None\<rparr>"

theorem normalized_spec_canonical_witness:
  "Normalize sample_spec = Some sample_normalized \<and> Normalize sample_normalized = Some sample_normalized"
proof -
  have n: "Normalize sample_spec = Some sample_normalized" by code_simp
  with normalized_spec_canonical[OF n] show ?thesis by simp
qed

section \<open>Fingerprints\<close>

text \<open>
  C31: two different valid commands whose lengths and numbers fit their 64-bit fields, and whose event time is
  zero or in the range of \<open>UnixNano\<close> (1970 to 2262), hash different contents: every field of every payload
  enters the fingerprint unambiguously. Hence they have the same fingerprint only where these contents are a
  collision of SHA-256. Outside that range the event time does not enter unambiguously (below).
\<close>

theorem fingerprint_identifies_command:
  assumes "AgentCommand_Validate env c = None" "AgentCommand_Validate env d = None"
    "command_sized c" "command_sized d" "c \<noteq> d"
  shows "fingerprint_content c \<noteq> fingerprint_content d \<and>
    (Fingerprint env c = Fingerprint env d \<longrightarrow>
       sha256_sum (fingerprint_content c) = sha256_sum (fingerprint_content d))"
  using fingerprint_content_inject[OF assms(1-4)] assms(5)
  by (auto simp: Fingerprint_def assms(1,2))

definition sample_protocol :: protocol_env where
  "sample_protocol = \<lparr>env_parse_image = \<lambda>_. None, env_document_bytes = \<lambda>_. Some 200\<rparr>"

definition sample_probe :: AgentCommand where
  "sample_probe = \<lparr>cmd_ID = ''c1'', cmd_Kind = AgentCommandRuntimeProbe, cmd_Deadline = 1000,
     cmd_RuntimeProbe = Some ''t1'', cmd_Deployment = None, cmd_Cutover = None, cmd_Inventory = None,
     cmd_Ingress = None\<rparr>"

lemma sample_identifiers [simp]:
  "validIdentifier ''c1''" "validIdentifier ''t1''" "validIdentifier ''r1''" "validIdentifier ''d1''"
  by code_simp+

lemma sample_probe_valid [simp]: "AgentCommand_Validate sample_protocol sample_probe = None"
  by (simp add: sample_probe_def sample_protocol_def valid_payload_def payload_is_def
      maximumCommandDocumentBytes_def)

lemma sample_probe_fingerprint:
  "Fingerprint sample_protocol sample_probe = Inr (sha256_sum (fingerprint_content sample_probe))"
  by (simp add: Fingerprint_def)

lemma sample_probe_sized: "command_sized sample_probe"
  by (simp add: command_sized_def sample_probe_def go_length_def go_int64_def unix_seconds_def unix_epoch_def
      optional_sized_def)

lemma sample_later_ok [simp]:
  "AgentCommand_Validate sample_protocol (sample_probe\<lparr>cmd_Deadline := 2000\<rparr>) = None"
  "command_sized (sample_probe\<lparr>cmd_Deadline := 2000\<rparr>)"
  by (simp_all add: sample_probe_def sample_protocol_def valid_payload_def payload_is_def command_sized_def
      maximumCommandDocumentBytes_def go_length_def go_int64_def unix_seconds_def unix_epoch_def optional_sized_def)

theorem fingerprint_identifies_command_witness:
  "fingerprint_content sample_probe \<noteq> fingerprint_content (sample_probe\<lparr>cmd_Deadline := 2000\<rparr>)"
proof -
  have "sample_probe \<noteq> sample_probe\<lparr>cmd_Deadline := 2000\<rparr>" by (simp add: sample_probe_def)
  from fingerprint_identifies_command[OF sample_probe_valid sample_later_ok(1) sample_probe_sized
      sample_later_ok(2) this] show ?thesis by blast
qed

text \<open>
  \<open>Validate\<close> does not bound the time from which events are asked for, and its nanoseconds are taken as 64
  bits: two valid commands whose times are \<open>2 ^ 64\<close> nanoseconds (584 years) apart have one fingerprint.
\<close>

definition sample_events :: "time \<Rightarrow> AgentCommand" where
  "sample_events t = \<lparr>cmd_ID = ''c1'', cmd_Kind = AgentCommandInventoryEvents, cmd_Deadline = 1000,
     cmd_RuntimeProbe = None, cmd_Deployment = None, cmd_Cutover = None,
     cmd_Inventory = Some \<lparr>inv_RuntimeTargetID = ''t1'', inv_ObservationID = [], inv_MaxChunkBytes = 0,
       inv_ChunkIndex = 0, inv_EventSince = t, inv_EventWaitSeconds = 5\<rparr>, cmd_Ingress = None\<rparr>"

text \<open>The first of January 2000, in nanoseconds since the year 1.\<close>

definition sample_since :: time where
  "sample_since = 63082281600 * 1000000000"

lemma sample_events_valid: "AgentCommand_Validate sample_protocol (sample_events t) = None"
  by (simp add: sample_events_def sample_protocol_def valid_payload_def payload_is_def validInventoryCommand_def
      inventory_kinds_def cutover_kinds_def deployment_kinds_def maximumCommandDocumentBytes_def)

lemma event_time_wraps:
  "Fingerprint sample_protocol (sample_events sample_since) =
     Fingerprint sample_protocol (sample_events (sample_since + 2 ^ 64))"
  "sample_events sample_since \<noteq> sample_events (sample_since + 2 ^ 64)"
proof -
  have "(of_int (unix_nano (sample_since + 2 ^ 64)) :: u64) = of_int (unix_nano sample_since)"
    by (simp add: unix_nano_def unix_epoch_def sample_since_def)
  then have "fingerprint_content (sample_events (sample_since + 2 ^ 64)) = fingerprint_content (sample_events sample_since)"
    by (simp add: fingerprint_content_def sample_events_def write_optional_def write_inventory_def write_int64_def)
  then show "Fingerprint sample_protocol (sample_events sample_since) =
     Fingerprint sample_protocol (sample_events (sample_since + 2 ^ 64))"
    by (simp add: Fingerprint_def sample_events_valid)
  show "sample_events sample_since \<noteq> sample_events (sample_since + 2 ^ 64)" by (simp add: sample_events_def)
qed

section \<open>Ingress configurations\<close>

text \<open>
  The digest of an ingress configuration does not depend on the order in which its routes are
  listed: any permutation of the routes has the same digest, or is refused as well.
\<close>

theorem ingress_digest_ignores_order:
  assumes "mset routes = mset others"
  shows "IngressConfigDigest revision routes = IngressConfigDigest revision others"
  by (rule IngressConfigDigest_perm[OF assms])

definition sample_route :: "string \<Rightarrow> string \<Rightarrow> IngressRoute" where
  "sample_route i host = \<lparr>route_ID = i, route_Revision = 1, route_DeploymentID = ''d1'',
     route_CutoverSequence = 1, route_RuntimeTargetID = ''t1'', route_Hostname = host,
     route_BackendAlias = ''deployment-'' @ hex_encode (take 12 (sha256_sum ''d1'')), route_BackendPort = 8080,
     route_TLSMode = IngressTLSAutomatic\<rparr>"

theorem ingress_digest_ignores_order_witness:
  "IngressConfigDigest 3 [sample_route ''r1'' ''a.example.com'', sample_route ''r2'' ''b.example.com''] =
   IngressConfigDigest 3 [sample_route ''r2'' ''b.example.com'', sample_route ''r1'' ''a.example.com'']"
  by (rule ingress_digest_ignores_order) simp

text \<open>
  A valid ingress command routes every host name at most once, lists its routes by ascending
  identifier, names a backend for each that belongs to the deployment, probes only routes it lists,
  and carries the digest of exactly these routes.
\<close>

theorem valid_ingress_command_consistent:
  assumes "validIngressCommand c"
  shows "0 < ing_HostRevision c \<and>
    sorted_wrt (<) (map route_ID (ing_Routes c)) \<and> distinct (map route_Hostname (ing_Routes c)) \<and>
    (\<forall>r \<in> set (ing_Routes c). DeploymentBackendAlias (route_DeploymentID r) = Inr (route_BackendAlias r)) \<and>
    set (ing_ProbeRouteIDs c) \<subseteq> route_ID ` set (ing_Routes c) \<and> distinct (ing_ProbeRouteIDs c) \<and>
    IngressConfigDigest (ing_HostRevision c) (ing_Routes c) = Inr (ing_ConfigDigest c)"
proof -
  have v: "valid_routes (ing_Routes c) [] {}"
    "valid_probes (ing_ProbeRouteIDs c) [] (set (map route_ID (ing_Routes c)))"
    "IngressConfigDigest (ing_HostRevision c) (ing_Routes c) = Inr (ing_ConfigDigest c)" "ing_HostRevision c \<noteq> 0"
    using assms by (auto simp: validIngressCommand_def)
  have "distinct (ing_ProbeRouteIDs c)"
    using valid_probes_ok[OF v(2)] by (simp add: strict_sorted_iff)
  with valid_routes_distinct[OF v(1)] valid_probes_ok[OF v(2)] v show ?thesis
    by (auto simp: validIngressRoute_def word_neq_0_conv)
qed

definition sample_ingress :: IngressCommand where
  "sample_ingress = \<lparr>ing_HostRevision = 3,
     ing_ConfigDigest = ''sha256:'' @ sha256_hex (write_bytes ''owndock-ingress-config-v1'' @ write_uint64 3 @
       write_uint64 1 @ writeIngressRouteFingerprint (sample_route ''r1'' ''a.example.com'')),
     ing_Routes = [sample_route ''r1'' ''a.example.com''], ing_ProbeRouteIDs = [''r1'']\<rparr>"

lemma sample_alias: "ingressBackendAlias (''deployment-'' @ hex_encode (take 12 (sha256_sum x)))"
proof -
  have "list_all ingress_alias_tail (hex_encode bs)" for bs
    using hex_encode_lower[of bs]
    by (auto simp: list_all_iff is_lower_hex_digit_def ingress_alias_tail_def is_lower_def in_range_def)
  then show ?thesis
    by (simp add: ingressBackendAlias_def label_edge_def ingress_alias_tail_def is_lower_def
        is_digit_def in_range_def)
qed

lemma sample_route_valid: "validIngressRoute (sample_route ''r1'' ''a.example.com'')"
proof -
  have "validIngressHostname ''a.example.com''" by code_simp
  then show ?thesis
    by (simp add: validIngressRoute_def sample_route_def sample_alias[of "''d1''", simplified] DeploymentBackendAlias_def)
qed

lemma sample_ingress_valid: "validIngressCommand sample_ingress"
proof -
  have d: "ingressDigest (''sha256:'' @ sha256_hex x)" for x
    using sha256_hex_lower[of x] by (simp add: ingressDigest_def has_prefix_def)
  have "route_ID (sample_route ''r1'' h) = ''r1''" for h by (simp add: sample_route_def)
  with d sample_route_valid show ?thesis
    by (simp add: validIngressCommand_def sample_ingress_def IngressConfigDigest_def config_content_def Let_def
        MaxIngressRoutes_def)
qed

theorem valid_ingress_command_consistent_witness:
  "IngressConfigDigest (ing_HostRevision sample_ingress) (ing_Routes sample_ingress) =
     Inr (ing_ConfigDigest sample_ingress) \<and> ing_Routes sample_ingress \<noteq> []"
  using valid_ingress_command_consistent[OF sample_ingress_valid] by (simp add: sample_ingress_def)

section \<open>The result cache\<close>

text \<open>A run of the cache: attempts to store, each with the outcome of its write.\<close>

type_synonym ('c, 'e) attempt = "write_outcome \<times> AgentCommand \<times> ('c, 'e) AgentCommandResult"

definition run_stores ::
  "('c, 'e) cache_env \<Rightarrow> ('c, 'e) attempt list \<Rightarrow> ('c, 'e) FileResultCache \<Rightarrow> ('c, 'e) FileResultCache" where
  "run_stores env attempts c = fold (\<lambda>(io, command, result) c. snd (rc_Store env io command result c)) attempts c"

lemma run_stores_ok: "cache_ok env c \<Longrightarrow> cache_ok env (run_stores env attempts c)"
proof (induction attempts arbitrary: c)
  case (Cons a attempts)
  obtain io command result where a: "a = (io, command, result)" by (cases a)
  have "cache_ok env (snd (rc_Store env io command result c))"
    using rc_Store_ok[OF _ Cons.prems, of io command result] by (metis prod.collapse)
  with Cons.IH show ?case by (simp add: run_stores_def a)
qed (simp add: run_stores_def)

lemma run_stores_synced:
  "cache_ok env c \<Longrightarrow> cache_synced env c \<Longrightarrow> \<forall>(io, _) \<in> set attempts. io \<noteq> WriteUnsynced \<Longrightarrow>
     cache_synced env (run_stores env attempts c)"
proof (induction attempts arbitrary: c)
  case (Cons a attempts)
  obtain io command result where a: "a = (io, command, result)" by (cases a)
  obtain r c' where s: "rc_Store env io command result c = (r, c')" by fastforce
  have "cache_ok env c'" "cache_synced env c'"
    using rc_Store_ok[OF s Cons.prems(1)] rc_Store_synced[OF s Cons.prems(1,2)] Cons.prems(3) a by auto
  with Cons.IH[of c'] Cons.prems(3) show ?case by (simp add: run_stores_def a s)
qed (simp add: run_stores_def)

lemma run_stores_maximum: "cache_ok env c \<Longrightarrow> rc_maximum (run_stores env attempts c) = rc_maximum c"
proof (induction attempts arbitrary: c)
  case (Cons a attempts)
  obtain io command result where a: "a = (io, command, result)" by (cases a)
  obtain r c' where s: "rc_Store env io command result c = (r, c')" by fastforce
  from rc_Store_maximum[OF s Cons.prems] rc_Store_ok[OF s Cons.prems] Cons.IH[of c'] show ?case
    by (simp add: run_stores_def a s)
qed (simp add: run_stores_def)

text \<open>
  C28: a stored result survives a restart: after any run of attempts whose writes each took effect or failed as
  a whole (none replaced the file and then failed to sync its directory), a result that was stored is what a
  cache opened on the file answers for its command, up to the repetition of an equivalent result. The
  excluded write does lose a result (\<open>unsynced_store_loses_result\<close>).
\<close>

theorem stored_result_survives_restart:
  assumes "NewFileResultCache env None k file = Inr c"
    "\<forall>(io, _) \<in> set attempts. io \<noteq> WriteUnsynced" "io \<noteq> WriteUnsynced"
    "rc_Store env io command result (run_stores env attempts c) = (None, c')"
  shows "\<exists>reopened recorded. NewFileResultCache env None k (rc_file c') = Inr reopened \<and>
    rc_Lookup env reopened command = Inr (Some recorded) \<and> Result_Equivalent recorded result"
proof -
  have c: "cache_ok env c" "rc_file c = file" "rc_maximum c = k" using NewFileResultCache_ok[OF assms(1)] by auto
  have "cache_synced env c"
    using assms(1) by (auto simp: NewFileResultCache_def cache_synced_def split: if_splits sum.splits)
  with c assms(2) have r: "cache_ok env (run_stores env attempts c)" "cache_synced env (run_stores env attempts c)"
    using run_stores_ok run_stores_synced by blast+
  have s: "cache_ok env c'" "cache_synced env c'" "rc_maximum c' = k"
    using rc_Store_ok[OF assms(4) r(1)] rc_Store_synced[OF assms(4) r assms(3)]
      rc_Store_maximum[OF assms(4) r(1)] run_stores_maximum[OF c(1), of attempts] c(3) by auto
  then have "NewFileResultCache env None k (rc_file c') = Inr c'"
    by (auto simp: NewFileResultCache_def cache_synced_def cache_ok_def)
  with rc_Store_Lookup[OF assms(4) r(1)] show ?thesis by blast
qed

definition sample_cache_env :: "(unit, unit) cache_env" where
  "sample_cache_env = \<lparr>ce_protocol = sample_protocol,
     ce_checks = \<lparr>chunk_Index = \<lambda>_. 0, chunk_Validate = \<lambda>_ _. True, event_Validate = \<lambda>_. True\<rparr>\<rparr>"

definition sample_result :: "(unit, unit) AgentCommandResult" where
  "sample_result = \<lparr>res_CommandID = ''c1'', res_Status = AgentCommandSucceeded, res_ErrorCode = [],
     res_RuntimeProbe = Some RuntimeProbeReady, res_Inventory = None, res_Ingress = None\<rparr>"

definition sample_cache :: "(unit, unit) FileResultCache" where
  "sample_cache = \<lparr>rc_maximum = 1, rc_entries = Map.empty, rc_order = [], rc_file = CacheMissing\<rparr>"

lemma sample_cache_opens: "NewFileResultCache sample_cache_env None 1 CacheMissing = Inr sample_cache"
  by (simp add: NewFileResultCache_def rc_load_def sample_cache_def)

lemma sample_cache_ok: "cache_ok sample_cache_env sample_cache"
  using NewFileResultCache_ok[OF sample_cache_opens] by simp

lemma sample_result_valid:
  "Result_Validate (ce_protocol sample_cache_env) (ce_checks sample_cache_env) sample_probe sample_result = None"
  by (simp add: Result_Validate_def sample_cache_env_def ValidateShape_def sample_result_def)
     (simp add: sample_probe_def valid_success_def result_matches_def)

lemma sample_probe_id [simp]: "cmd_ID sample_probe = ''c1''" "cmd_Kind sample_probe = AgentCommandRuntimeProbe"
  by (simp_all add: sample_probe_def)

lemma sample_store_fingerprint:
  "Fingerprint (ce_protocol sample_cache_env) sample_probe = Inr (sha256_sum (fingerprint_content sample_probe))"
  using sample_probe_fingerprint by (simp add: sample_cache_env_def)

lemma sample_cache_free [simp]: "rc_entries sample_cache i = None"
  by (simp add: sample_cache_def)

lemma sample_stored: "\<exists>c'. rc_Store sample_cache_env WriteOk sample_probe sample_result sample_cache = (None, c')"
  using sample_result_valid sample_store_fingerprint
  by (simp add: rc_Store_def) (simp add: sample_cache_def rc_insert_def rc_persistLocked_def Let_def)

theorem stored_result_survives_restart_witness:
  "\<exists>c' reopened recorded.
    rc_Store sample_cache_env WriteOk sample_probe sample_result sample_cache = (None, c') \<and>
    NewFileResultCache sample_cache_env None 1 (rc_file c') = Inr reopened \<and>
    rc_Lookup sample_cache_env reopened sample_probe = Inr (Some recorded) \<and>
    Result_Equivalent recorded sample_result"
proof -
  obtain c' where s: "rc_Store sample_cache_env WriteOk sample_probe sample_result sample_cache = (None, c')"
    using sample_stored by blast
  then have s': "rc_Store sample_cache_env WriteOk sample_probe sample_result
      (run_stores sample_cache_env [] sample_cache) = (None, c')" by (simp add: run_stores_def)
  from stored_result_survives_restart[OF sample_cache_opens _ _ s'] s show ?thesis by auto
qed

text \<open>
  When the directory cannot be synced after the rename, a store reports an error and takes back in memory what
  it inserted and evicted, while the file keeps it: the evicted result is still answered, and storing it again
  succeeds without a write, but a restarted agent has lost it.
\<close>

definition sample_other :: AgentCommand where
  "sample_other = sample_probe\<lparr>cmd_ID := ''d1''\<rparr>"

definition sample_other_result :: "(unit, unit) AgentCommandResult" where
  "sample_other_result = sample_result\<lparr>res_CommandID := ''d1''\<rparr>"

lemma sample_other_valid:
  "AgentCommand_Validate sample_protocol sample_other = None"
  "Result_Validate (ce_protocol sample_cache_env) (ce_checks sample_cache_env) sample_other sample_other_result = None"
  by (simp_all add: Result_Validate_def ValidateShape_def valid_success_def result_matches_def sample_other_def
      sample_other_result_def sample_result_def sample_probe_def sample_cache_env_def sample_protocol_def
      valid_payload_def payload_is_def maximumCommandDocumentBytes_def)

lemma unsynced_store_loses_result:
  "\<exists>s t lost.
     rc_Store sample_cache_env WriteOk sample_probe sample_result sample_cache = (None, s) \<and>
     rc_Store sample_cache_env WriteUnsynced sample_other sample_other_result s = (Some CacheStateFile, t) \<and>
     rc_Store sample_cache_env WriteOk sample_probe sample_result t = (None, t) \<and>
     NewFileResultCache sample_cache_env None 1 (rc_file t) = Inr lost \<and>
     rc_Lookup sample_cache_env lost sample_probe = Inr None"
proof -
  define first :: "(unit, unit) resultCacheEntry" where "first = \<lparr>entry_fingerprint = sha256_sum (fingerprint_content sample_probe),
    entry_kind = AgentCommandRuntimeProbe, entry_result = sample_result\<rparr>"
  define second :: "(unit, unit) resultCacheEntry" where "second = \<lparr>entry_fingerprint = sha256_sum (fingerprint_content sample_other),
    entry_kind = AgentCommandRuntimeProbe, entry_result = sample_other_result\<rparr>"
  define s where "s = sample_cache\<lparr>rc_entries := [''c1'' \<mapsto> first], rc_order := [''c1''],
    rc_file := CacheV2 (cache_document [''c1'' \<mapsto> first] [''c1''])\<rparr>"
  define t where "t = s\<lparr>rc_file := CacheV2 (cache_document [''d1'' \<mapsto> second] [''d1''])\<rparr>"
  have other: "Fingerprint (ce_protocol sample_cache_env) sample_other = Inr (sha256_sum (fingerprint_content sample_other))"
    unfolding Fingerprint_def sample_cache_env_def cache_env.select_convs sample_other_valid(1) by simp
  have id: "cmd_ID sample_other = ''d1''" "cmd_Kind sample_other = AgentCommandRuntimeProbe" by (simp_all add: sample_other_def)
  have stored: "rc_Store sample_cache_env WriteOk sample_probe sample_result sample_cache = (None, s)"
    using sample_result_valid sample_store_fingerprint
    by (simp add: rc_Store_def) (simp add: s_def first_def sample_cache_def rc_insert_def rc_persistLocked_def Let_def)
  have unsynced: "rc_Store sample_cache_env WriteUnsynced sample_other sample_other_result s = (Some CacheStateFile, t)"
    using sample_other_valid(2) other
    by (simp add: rc_Store_def id s_def)
      (simp add: t_def s_def second_def sample_cache_def rc_insert_def rc_persistLocked_def rc_restore_def Let_def
        entry_at_def id fun_eq_iff)
  have "Result_Equivalent sample_result sample_result" by (simp add: Result_Equivalent_def split: option.split)
  then have again: "rc_Store sample_cache_env WriteOk sample_probe sample_result t = (None, t)"
    using sample_result_valid sample_store_fingerprint by (simp add: rc_Store_def t_def s_def first_def)
  have "entry_ok sample_cache_env ''d1'' second"
    using new_entry_ok[OF _ sample_other_valid(2) other] by (simp add: id second_def)
  then have "rc_load sample_cache_env 1 (rc_file t) = Inr ([''d1'' \<mapsto> second], [''d1''])"
    unfolding t_def by (simp add: cache_document_load loaded_ok_def)
  then have "NewFileResultCache sample_cache_env None 1 (rc_file t) =
      Inr (t\<lparr>rc_entries := [''d1'' \<mapsto> second], rc_order := [''d1'']\<rparr>)"
    by (simp add: NewFileResultCache_def) (simp add: t_def s_def sample_cache_def)
  moreover have "rc_Lookup sample_cache_env (t\<lparr>rc_entries := [''d1'' \<mapsto> second], rc_order := [''d1'']\<rparr>) sample_probe = Inr None"
    using sample_store_fingerprint by (simp add: rc_Lookup_def)
  ultimately show ?thesis using stored unsynced again by blast
qed

text \<open>
  C29: an attempt to store that returns an error changes nothing in memory, the eviction of the oldest
  entry included, and nothing in the file either unless the directory could not be synced after it was
  replaced.
\<close>

theorem failed_store_restores_cache:
  assumes "rc_Store env io command result c = (Some e, c')" "cache_ok env c"
  shows "rc_entries c' = rc_entries c \<and> rc_order c' = rc_order c \<and> (io \<noteq> WriteUnsynced \<longrightarrow> c' = c)"
  by (rule rc_Store_error[OF assms])

theorem failed_store_restores_cache_witness:
  "\<exists>e c'. rc_Store sample_cache_env WriteFailed sample_probe sample_result sample_cache = (Some e, c') \<and>
     c' = sample_cache"
proof -
  have "\<exists>e c'. rc_Store sample_cache_env WriteFailed sample_probe sample_result sample_cache = (Some e, c')"
    using sample_result_valid sample_store_fingerprint
    by (simp add: rc_Store_def) (simp add: sample_cache_def rc_insert_def rc_persistLocked_def Let_def)
  then obtain e c' where "rc_Store sample_cache_env WriteFailed sample_probe sample_result sample_cache = (Some e, c')"
    by blast
  with failed_store_restores_cache[OF this sample_cache_ok] show ?thesis by auto
qed

text \<open>Where a recorded entry comes from: the attempt that recorded it.\<close>

definition recorded_by ::
  "('c, 'e) cache_env \<Rightarrow> ('c, 'e) FileResultCache \<Rightarrow> ('c, 'e) attempt list \<Rightarrow> string \<Rightarrow> ('c, 'e) resultCacheEntry \<Rightarrow> bool" where
  "recorded_by env c attempts i e \<longleftrightarrow> (\<exists>earlier io command result later.
     attempts = earlier @ (io, command, result) # later \<and> cmd_ID command = i \<and>
     fst (rc_Store env io command result (run_stores env earlier c)) = None \<and>
     Fingerprint (ce_protocol env) command = Inr (entry_fingerprint e) \<and> entry_result e = result)"

lemma recorded_by_snoc: "recorded_by env c attempts i e \<Longrightarrow> recorded_by env c (attempts @ [a]) i e"
  unfolding recorded_by_def by (metis append_Cons append_assoc)

lemma rc_insert_entries:
  "rc_insert c i e = (evicted, c1) \<Longrightarrow> rc_entries c1 k = Some x \<Longrightarrow> (k = i \<and> x = e) \<or> rc_entries c k = Some x"
  by (auto simp: rc_insert_def Let_def split: if_splits)

lemma rc_Store_entries:
  assumes "rc_Store env io command result c = (r, c')" "cache_ok env c" "rc_entries c' i = Some e"
  shows "rc_entries c i = Some e \<or> cmd_ID command = i \<and> r = None \<and>
     Fingerprint (ce_protocol env) command = Inr (entry_fingerprint e) \<and> entry_result e = result"
  using assms(1,2)
proof (cases rule: rc_Store_cases)
  case (written f evicted c1)
  show ?thesis
  proof (cases io)
    case WriteOk
    with written(6) assms(3) have "rc_entries c1 i = Some e" "r = None" by simp_all
    with rc_insert_entries[OF written(4)] written(1) show ?thesis by fastforce
  qed (use written assms(3) in auto)
qed (use assms(3) in auto)

lemma run_stores_entries:
  assumes "cache_ok env c" "rc_entries c i = None" "rc_entries (run_stores env attempts c) i = Some e"
  shows "recorded_by env c attempts i e"
  using assms(3)
proof (induction attempts rule: rev_induct)
  case (snoc a attempts)
  obtain io command result where a: "a = (io, command, result)" by (cases a)
  obtain r c' where s: "rc_Store env io command result (run_stores env attempts c) = (r, c')" by fastforce
  with snoc.prems a have "rc_entries c' i = Some e" by (simp add: run_stores_def)
  from rc_Store_entries[OF s run_stores_ok[OF assms(1)] this] show ?case
  proof
    assume "rc_entries (run_stores env attempts c) i = Some e"
    from recorded_by_snoc[OF snoc.IH[OF this]] show ?thesis .
  next
    assume "cmd_ID command = i \<and> r = None \<and> Fingerprint (ce_protocol env) command = Inr (entry_fingerprint e) \<and>
      entry_result e = result"
    with s a show ?thesis
      unfolding recorded_by_def
      by (intro exI[of _ attempts] exI[of _ io] exI[of _ command] exI[of _ result] exI[of _ "[]"]) simp
  qed
qed (use assms(2) in \<open>simp add: run_stores_def\<close>)

text \<open>
  C30: the cache answers a command only with the result of that very command: after any run of attempts
  on a cache that has no record under the identifier, whatever it finds was stored, successfully, by one of
  the attempts as the valid result of a command, and that command is the one asked for, or the two are a
  collision of SHA-256. (Lengths and numbers fit their 64-bit fields and event times the range of
  \<open>UnixNano\<close>, as above.)
\<close>

theorem lookup_answers_same_command:
  assumes "cache_ok env start" "rc_entries start (cmd_ID d) = None"
    "rc_Lookup env (run_stores env attempts start) d = Inr (Some found)"
    "command_sized d" "\<forall>(_, c, _) \<in> set attempts. command_sized c"
  shows "\<exists>earlier io c later. attempts = earlier @ (io, c, found) # later \<and>
    fst (rc_Store env io c found (run_stores env earlier start)) = None \<and> cmd_ID c = cmd_ID d \<and>
    Result_Validate (ce_protocol env) (ce_checks env) c found = None \<and>
    (c = d \<or> fingerprint_content c \<noteq> fingerprint_content d \<and>
       sha256_sum (fingerprint_content c) = sha256_sum (fingerprint_content d))"
proof -
  from assms(3) obtain entry where entry: "rc_entries (run_stores env attempts start) (cmd_ID d) = Some entry"
    "Fingerprint (ce_protocol env) d = Inr (entry_fingerprint entry)" "found = entry_result entry"
    by (auto simp: rc_Lookup_def split: if_splits sum.splits option.splits)
  from run_stores_entries[OF assms(1,2) entry(1)] entry(3) obtain earlier io c later where
    c: "attempts = earlier @ (io, c, found) # later" "cmd_ID c = cmd_ID d"
      "fst (rc_Store env io c found (run_stores env earlier start)) = None"
      "Fingerprint (ce_protocol env) c = Inr (entry_fingerprint entry)"
    unfolding recorded_by_def by blast
  have "Result_Validate (ce_protocol env) (ce_checks env) c found = None"
    using c(3) by (auto simp: rc_Store_def split: if_splits option.splits)
  moreover have "command_sized c" using assms(5) c(1) by auto
  ultimately show ?thesis using c Fingerprint_collision[OF c(4) entry(2) _ assms(4)] by blast
qed

theorem lookup_answers_same_command_witness:
  "\<exists>found. rc_Lookup sample_cache_env
      (run_stores sample_cache_env [(WriteOk, sample_probe, sample_result)] sample_cache) sample_probe = Inr (Some found) \<and>
     found = sample_result"
proof -
  let ?attempts = "[(WriteOk, sample_probe, sample_result)]"
  obtain t where s: "rc_Store sample_cache_env WriteOk sample_probe sample_result sample_cache = (None, t)"
    using sample_stored by blast
  then have run: "run_stores sample_cache_env ?attempts sample_cache = t" by (simp add: run_stores_def)
  obtain found where "rc_Lookup sample_cache_env t sample_probe = Inr (Some found)"
    using rc_Store_Lookup[OF s sample_cache_ok] by blast
  then have l: "rc_Lookup sample_cache_env (run_stores sample_cache_env ?attempts sample_cache) sample_probe = Inr (Some found)"
    using run by simp
  from lookup_answers_same_command[OF sample_cache_ok sample_cache_free l sample_probe_sized] sample_probe_sized
  obtain earlier io c later where "?attempts = earlier @ (io, c, found) # later" by auto
  then have "found = sample_result" by (cases earlier) auto
  with l show ?thesis by blast
qed

text \<open>
  C32: however many results were stored, the text of the state file stays below the size that the next
  start accepts.
\<close>

theorem cache_file_stays_readable:
  assumes "NewFileResultCache env None k file = Inr c"
  shows "let c' = run_stores env attempts c in
    length (cache_json (cache_document (rc_entries c') (rc_order c'))) \<le> maximumResultCacheBytes"
  unfolding Let_def
  by (rule cache_json_short[OF run_stores_ok[OF conjunct1[OF NewFileResultCache_ok[OF assms]]]])

theorem cache_file_stays_readable_witness:
  "length (cache_json (cache_document (rc_entries sample_cache) (rc_order sample_cache))) \<le> maximumResultCacheBytes"
  using cache_file_stays_readable[OF sample_cache_opens, of "[]"] by (simp add: run_stores_def)

end
