(* ===== verification/DeploymentWorker.thy ===== *)
theory DeploymentWorker
  imports DeploymentUseCase
begin

text \<open>
  The deployment worker (\<open>internal/modules/deployment/worker/runner.go\<close>): it claims one deployment,
  runs the executor's steps under a renewed lease and saves each status with its audit event. Other
  processes act on the same repository between the worker's accesses: what they do before the
  \<open>n\<close>-th access is a field of the runner's environment, and so are the executor, the clock and the
  context. A step of the executor ends after some heartbeats; one that never ends has no model.
\<close>

section \<open>State and environment\<close>

datatype phase = PhasePrepare | PhaseDeploy | PhaseCommit | PhaseCancel

fun phase_status :: "phase \<Rightarrow> Status" where
  "phase_status PhasePrepare = StatusPreparing"
| "phase_status PhaseDeploy = StatusDeploying"
| "phase_status PhaseCommit = StatusCommitting"
| "phase_status PhaseCancel = StatusCanceling"

text \<open>
  The worker's errors: a renewal that failed (joined with its cause), an error of the repository or
  the transaction, an error of a step that leaves the deployment as it is, and a step that failed the
  deployment, with its safe category and the error of saving the failure, if any.
\<close>

datatype worker_error =
    WorkerLeaseRenewal dep_error
  | WorkerRepo dep_error
  | WorkerExecution error_chain
  | WorkerFailed string FailureCategory error_chain "worker_error option"
  | WorkerCancel error_chain
  | ErrIncompleteAudit
  | ErrMissingRepository
  | ErrMissingExecutor
  | ErrInvalidWorkerID
  | ErrInvalidLeaseTimeout
  | ErrMissingClock

text \<open>
  How a running step ends: the executor returns, or the context is done (\<open>ctx.Err()\<close>).
\<close>

datatype step_end = StepResult "error_chain option" | StepDone string

record step_run =
  sr_beats :: nat
  sr_end :: step_end

record wworld =
  ww_world :: world
  ww_turn :: nat
  ww_ticks :: nat
  ww_ids :: nat
  ww_calls :: "(phase \<times> Deployment \<times> MemoryRepository) list"

record runner =
  rn_workerID :: string
  rn_leaseDuration :: int
  rn_now :: "nat \<Rightarrow> time"
  rn_transaction :: "worker_error manager option"
  rn_audit :: "(AuditEvent \<Rightarrow> dep_error option) option"
  rn_newID :: "(nat \<Rightarrow> dep_error + string) option"
  rn_commit :: "(Deployment \<Rightarrow> dep_error option) option"
  rn_execute :: "nat \<Rightarrow> phase \<Rightarrow> Deployment \<Rightarrow> step_run"
  rn_others :: "nat \<Rightarrow> world \<Rightarrow> world"
  rn_ctx :: "nat \<Rightarrow> ctx"

type_synonym 'a wop = "(wworld, worker_error, 'a) op"

definition NewRunner ::
  "bool \<Rightarrow> bool \<Rightarrow> string \<Rightarrow> int \<Rightarrow> bool \<Rightarrow> runner \<Rightarrow> worker_error + runner" where
  "NewRunner repo executor workerID leaseDuration clock rn =
     (if \<not> repo then Inl ErrMissingRepository
      else if \<not> executor then Inl ErrMissingExecutor
      else if trim_space workerID = [] then Inl ErrInvalidWorkerID
      else if leaseDuration \<le> 0 then Inl ErrInvalidLeaseTimeout
      else if \<not> clock then Inl ErrMissingClock
      else Inr (rn\<lparr>rn_workerID := trim_space workerID, rn_leaseDuration := leaseDuration,
        rn_transaction := None, rn_audit := None, rn_newID := None, rn_commit := None\<rparr>))"

definition WithAudit ::
  "worker_error manager option \<Rightarrow> (AuditEvent \<Rightarrow> dep_error option) option \<Rightarrow>
     (nat \<Rightarrow> dep_error + string) option \<Rightarrow> runner \<Rightarrow> runner" where
  "WithAudit manager recorder generator rn =
     rn\<lparr>rn_transaction := manager, rn_audit := recorder, rn_newID := generator\<rparr>"

section \<open>Accesses\<close>

definition interfere :: "runner \<Rightarrow> wworld \<Rightarrow> wworld" where
  "interfere rn s = s\<lparr>ww_world := rn_others rn (ww_turn s) (ww_world s), ww_turn := Suc (ww_turn s)\<rparr>"

text \<open>A call of the repository without interference (inside a transaction), and with it.\<close>

definition apply_repo ::
  "(dep_error \<Rightarrow> worker_error) \<Rightarrow> (MemoryRepository \<Rightarrow> dep_error + 'a \<times> MemoryRepository) \<Rightarrow> 'a wop" where
  "apply_repo wrap f s =
     (case f (w_repo (ww_world s)) of
        Inl e \<Rightarrow> (Inl (wrap e), s)
      | Inr (x, r) \<Rightarrow> (Inr x, s\<lparr>ww_world := (ww_world s)\<lparr>w_repo := r\<rparr>\<rparr>))"

definition shared ::
  "runner \<Rightarrow> (dep_error \<Rightarrow> worker_error) \<Rightarrow>
     (ctx \<Rightarrow> MemoryRepository \<Rightarrow> dep_error + 'a \<times> MemoryRepository) \<Rightarrow> 'a wop" where
  "shared rn wrap f s = apply_repo wrap (f (rn_ctx rn (ww_turn s))) (interfere rn s)"

definition worker_now :: "runner \<Rightarrow> time wop" where
  "worker_now rn s = (Inr (rn_now rn (ww_ticks s)), s\<lparr>ww_ticks := Suc (ww_ticks s)\<rparr>)"

definition worker_newID :: "(nat \<Rightarrow> dep_error + string) \<Rightarrow> string wop" where
  "worker_newID gen s =
     (case gen (ww_ids s) of Inl e \<Rightarrow> Inl (WorkerRepo e) | Inr i \<Rightarrow> Inr i, s\<lparr>ww_ids := Suc (ww_ids s)\<rparr>)"

definition worker_record :: "(AuditEvent \<Rightarrow> dep_error option) \<Rightarrow> AuditEvent \<Rightarrow> unit wop" where
  "worker_record recorder ev s =
     (case recorder ev of
        Some e \<Rightarrow> (Inl (WorkerRepo e), s)
      | None \<Rightarrow> (Inr (), s\<lparr>ww_world := (ww_world s)\<lparr>w_audit := w_audit (ww_world s) @ [ev]\<rparr>\<rparr>))"

section \<open>Saving a state\<close>

definition worker_event :: "runner \<Rightarrow> string \<Rightarrow> Deployment \<Rightarrow> audit_action \<Rightarrow> time \<Rightarrow> AuditEvent" where
  "worker_event rn auditID item action now =
     \<lparr>ev_ID = auditID, ev_OrganizationID = dep_OrganizationID item, ev_ProjectID = dep_ProjectID item,
       ev_ActorID = ''system:'' @ rn_workerID rn, ev_Action = action, ev_ResourceType = ''deployment'',
       ev_ResourceID = dep_ID item, ev_RequestID = [], ev_CreatedAt = now\<rparr>"

definition save_body ::
  "runner \<Rightarrow> ctx \<Rightarrow> (AuditEvent \<Rightarrow> dep_error option) \<Rightarrow> Deployment \<Rightarrow> u64 \<Rightarrow> time \<Rightarrow> audit_action \<Rightarrow> string \<Rightarrow>
     Deployment wop" where
  "save_body rn ctx recorder item expectedVersion now action auditID =
     op_bind (apply_repo WorkerRepo (\<lambda>r. mem_SaveClaimed ctx r item expectedVersion (rn_workerID rn) now)) (\<lambda>saved.
     op_bind (case rn_commit rn of
         Some commit \<Rightarrow> if action = AuditActionCommitting then op_check (map_option WorkerRepo (commit saved))
           else op_return ()
       | None \<Rightarrow> op_return ()) (\<lambda>_.
     op_bind (worker_record recorder (worker_event rn auditID item action now)) (\<lambda>_.
     op_return saved)))"

definition saveState ::
  "runner \<Rightarrow> Deployment \<Rightarrow> u64 \<Rightarrow> time \<Rightarrow> audit_action \<Rightarrow> Deployment wop" where
  "saveState rn item expectedVersion now action =
     (case (rn_transaction rn, rn_audit rn, rn_newID rn) of
        (None, None, None) \<Rightarrow>
          if action = AuditActionCommitting \<and> rn_commit rn \<noteq> None then op_fail ErrIncompleteAudit
          else shared rn WorkerRepo (\<lambda>ctx r. mem_SaveClaimed ctx r item expectedVersion (rn_workerID rn) now)
      | (Some manager, Some recorder, Some gen) \<Rightarrow>
          op_bind (worker_newID gen) (\<lambda>auditID s.
            WithinTransaction manager
              (save_body rn (rn_ctx rn (ww_turn s)) recorder item expectedVersion now action auditID)
              (interfere rn s))
      | _ \<Rightarrow> op_fail ErrIncompleteAudit)"

fun auditAction :: "Status \<Rightarrow> audit_action" where
  "auditAction StatusPreparing = AuditActionPreparing"
| "auditAction StatusDeploying = AuditActionDeploying"
| "auditAction StatusCommitting = AuditActionCommitting"
| "auditAction StatusSucceeded = AuditActionSucceeded"
| "auditAction StatusCanceled = AuditActionCanceled"
| "auditAction _ = AuditActionStatusChanged"

definition failureFallback :: "string \<Rightarrow> FailureCategory" where
  "failureFallback step = (if step = ''prepare'' then FailureConfiguration else FailureRuntime)"

definition lift_dep :: "dep_error + 'a \<Rightarrow> 'a wop" where
  "lift_dep r = op_lift (case r of Inl e \<Rightarrow> Inl (WorkerRepo e) | Inr x \<Rightarrow> Inr x)"

definition advance :: "runner \<Rightarrow> Deployment \<Rightarrow> Status \<Rightarrow> Deployment wop" where
  "advance rn item nxt =
     op_bind (worker_now rn) (\<lambda>now.
     op_bind (if nxt \<noteq> StatusSucceeded
              then lift_dep (Renew (rn_workerID rn) now (now + rn_leaseDuration rn) item)
              else op_return item) (\<lambda>renewed.
     op_bind (lift_dep (Transition renewed nxt now)) (\<lambda>moved.
     saveState rn moved (dep_Version item) now (auditAction nxt))))"

definition runner_fail :: "runner \<Rightarrow> Deployment \<Rightarrow> string \<Rightarrow> error_chain \<Rightarrow> unit wop" where
  "runner_fail rn item step cause =
     op_bind (worker_now rn) (\<lambda>now.
       let category = CategorizeExecutionError cause (failureFallback step) in
       case Fail item category now of
         Inl e \<Rightarrow> op_fail (WorkerFailed step category cause (Some (WorkerRepo e)))
       | Inr failed \<Rightarrow> (\<lambda>s.
           case saveState rn failed (dep_Version item) now AuditActionFailed s of
             (Inl e, t) \<Rightarrow> (Inl (WorkerFailed step category cause (Some e)), t)
           | (Inr _, t) \<Rightarrow> (Inl (WorkerFailed step category cause None), t)))"

section \<open>Running a step\<close>

definition runner_renew :: "runner \<Rightarrow> (dep_error \<Rightarrow> worker_error) \<Rightarrow> Deployment \<Rightarrow> Deployment wop" where
  "runner_renew rn wrap item =
     op_bind (worker_now rn) (\<lambda>now.
       shared rn wrap (\<lambda>ctx r. mem_RenewLease ctx r (dep_ID item) (rn_workerID rn) (dep_Version item) now
         (now + rn_leaseDuration rn)))"

fun run_beats :: "runner \<Rightarrow> nat \<Rightarrow> Deployment \<Rightarrow> Deployment wop" where
  "run_beats rn 0 item = op_return item"
| "run_beats rn (Suc n) item = op_bind (runner_renew rn WorkerLeaseRenewal item) (run_beats rn n)"

fun step_error :: "step_end \<Rightarrow> error_chain option" where
  "step_error (StepResult e) = e"
| "step_error (StepDone message) = Some [LinkError (ErrContext message)]"

text \<open>The executor is called on the renewed item; the call is recorded with the repository it saw.\<close>

definition start_call :: "phase \<Rightarrow> Deployment \<Rightarrow> wworld \<Rightarrow> wworld" where
  "start_call p item s = s\<lparr>ww_calls := ww_calls s @ [(p, item, w_repo (ww_world s))]\<rparr>"

definition runStep :: "runner \<Rightarrow> phase \<Rightarrow> Deployment \<Rightarrow> (Deployment \<times> error_chain option) wop" where
  "runStep rn p item =
     op_bind (runner_renew rn WorkerLeaseRenewal item) (\<lambda>leased s.
       let run = rn_execute rn (length (ww_calls s)) p leased in
       op_bind (run_beats rn (sr_beats run) leased) (\<lambda>latest.
         op_return (latest, step_error (sr_end run))) (start_call p leased s))"

definition is_context_error :: "error_chain \<Rightarrow> bool" where
  "is_context_error es = list_ex (\<lambda>l. case l of LinkError (ErrContext _) \<Rightarrow> True | _ \<Rightarrow> False) es"

section \<open>One run\<close>

definition stage_queued :: "runner \<Rightarrow> Deployment \<Rightarrow> Deployment wop" where
  "stage_queued rn item =
     (if dep_Status item = StatusQueued then advance rn item StatusPreparing else op_return item)"

definition then_advance :: "runner \<Rightarrow> Status \<Rightarrow> (Deployment \<Rightarrow> error_chain \<Rightarrow> unit wop) \<Rightarrow>
     Deployment \<times> error_chain option \<Rightarrow> Deployment wop" where
  "then_advance rn nxt onError outcome =
     (case outcome of
        (item, None) \<Rightarrow> advance rn item nxt
      | (item, Some e) \<Rightarrow> op_bind (onError item e) (\<lambda>_. op_return item))"

definition stage_preparing :: "runner \<Rightarrow> Deployment \<Rightarrow> Deployment wop" where
  "stage_preparing rn item =
     (if dep_Status item = StatusPreparing then
        op_bind (runStep rn PhasePrepare item) (then_advance rn StatusDeploying (\<lambda>held e.
          if is_context_error e then op_fail (WorkerExecution e) else runner_fail rn held ''prepare'' e))
      else op_return item)"

definition stage_deploying :: "runner \<Rightarrow> Deployment \<Rightarrow> Deployment wop" where
  "stage_deploying rn item =
     (if dep_Status item = StatusDeploying then
        op_bind (runStep rn PhaseDeploy item) (then_advance rn StatusCommitting (\<lambda>held e.
          if is_context_error e then op_fail (WorkerExecution e)
          else if error_is e ErrExecutionRetryable then op_fail (WorkerExecution e)
          else runner_fail rn held ''deploy'' e))
      else op_return item)"

text \<open>The last two stages drop what \<open>advance\<close> returns and keep the item of the step.\<close>

definition stage_committing :: "runner \<Rightarrow> Deployment \<Rightarrow> Deployment wop" where
  "stage_committing rn item =
     (if dep_Status item = StatusCommitting then
        op_bind (runStep rn PhaseCommit item) (\<lambda>(held, e).
        op_bind (then_advance rn StatusSucceeded (\<lambda>_ e. op_fail (WorkerExecution e)) (held, e)) (\<lambda>_.
        op_return held))
      else op_return item)"

definition stage_canceling :: "runner \<Rightarrow> Deployment \<Rightarrow> Deployment wop" where
  "stage_canceling rn item =
     (if dep_Status item = StatusCanceling then
        op_bind (runStep rn PhaseCancel item) (\<lambda>(held, e).
        op_bind (then_advance rn StatusCanceled (\<lambda>_ e.
            if is_context_error e then op_fail (WorkerExecution e) else op_fail (WorkerCancel e)) (held, e)) (\<lambda>_.
        op_return held))
      else op_return item)"

definition RunOnce :: "runner \<Rightarrow> unit wop" where
  "RunOnce rn =
     op_bind (worker_now rn) (\<lambda>now.
     op_bind (shared rn WorkerRepo (\<lambda>ctx r. mem_ClaimNext ctx r
         \<lparr>claim_WorkerID = rn_workerID rn, claim_Now = now, claim_ExpiresAt = now + rn_leaseDuration rn\<rparr>))
       (\<lambda>found. case found of
          None \<Rightarrow> op_return ()
        | Some item \<Rightarrow>
            op_bind (stage_queued rn item) (\<lambda>item.
            op_bind (stage_preparing rn item) (\<lambda>item.
            op_bind (stage_deploying rn item) (\<lambda>item.
            op_bind (stage_committing rn item) (\<lambda>item.
            op_bind (stage_canceling rn item) (\<lambda>_.
            op_return ())))))))"

section \<open>What other writers owe the worker\<close>

text \<open>
  Every write gives the written deployment another version. The worker relies on it: a version it
  still finds is the item it holds.
\<close>

definition changed_versions :: "MemoryRepository \<Rightarrow> MemoryRepository \<Rightarrow> bool" where
  "changed_versions r s \<longleftrightarrow> (\<forall>d \<in> set (repo_items r). \<forall>e \<in> set (repo_items s).
     dep_ID e = dep_ID d \<longrightarrow> dep_Version e = dep_Version d \<longrightarrow> e = d)"

lemma changed_versions_refl: "repo_inv r \<Longrightarrow> changed_versions r r"
  using repo_inv_id_unique unfolding changed_versions_def by blast

lemma changed_versions_update:
  assumes inv: "repo_inv r" and i: "i < length (repo_items r)" "dep_ID d = dep_ID (repo_items r ! i)"
    "dep_Version d = dep_Version (repo_items r ! i) + 1"
  shows "changed_versions r (r\<lparr>repo_items := (repo_items r)[i := d]\<rparr>)"
  unfolding changed_versions_def
proof (intro ballI impI)
  fix x e
  assume x: "x \<in> set (repo_items r)" and e: "e \<in> set (repo_items (r\<lparr>repo_items := (repo_items r)[i := d]\<rparr>))"
    and same: "dep_ID e = dep_ID x" "dep_Version e = dep_Version x"
  from e have "e = d \<or> e \<in> set (repo_items r)" using set_update_subset_insert by fastforce
  then show "e = x"
  proof
    assume "e = d"
    then have "repo_items r ! i = x" using nth_the_id[OF inv i(1) x] i(2) same(1) by simp
    with \<open>e = d\<close> i(3) same(2) show ?thesis by simp
  qed (use repo_inv_id_unique[OF inv _ x] same in blast)
qed

lemma repo_step_versions:
  assumes "repo_step r s" "repo_ok r"
  shows "changed_versions r s"
proof -
  have inv: "repo_inv r" using assms(2) by (simp add: repo_ok_def)
  note upd = changed_versions_update[OF inv]
  have moved: "changed_versions r s"
    if "e \<in> set (repo_items r)" "dep_refs item = dep_refs e" "i < length (repo_items r)"
      "dep_ID (repo_items r ! i) = dep_ID item" "dep_Version (repo_items r ! i) = dep_Version e"
      "s = r\<lparr>repo_items := (repo_items r)[i := item\<lparr>dep_Version := dep_Version e + 1\<rparr>]\<rparr>" for e item i
    unfolding that(6) by (rule upd) (use that in simp_all)
  from assms(1) show ?thesis
  proof cases
    case (rs_create item d)
    have "create_conflict item (repo_items r) = None" "repo_items s = repo_items r @ [d]" "dep_ID d = dep_ID item"
      using Create_Inr(2-4)[OF rs_create(1)] by simp_all
    then show ?thesis
      using repo_inv_id_unique[OF inv] by (auto simp: changed_versions_def create_conflict_None)
  next
    case (rs_cancel e now item d)
    from rs_cancel(3) Cancel_refs[OF rs_cancel(2)] moved[OF rs_cancel(1)] show ?thesis
      by (elim Save_Inr) blast
  next
    case (rs_claim c d)
    from rs_claim(1) show ?thesis
      by (elim ClaimNext_Some) (simp add: upd claimed_def)
  next
    case (rs_renew k w v now until d)
    then show ?thesis by (elim RenewLease_Inr) (simp add: upd)
  next
    case (rs_advance e renewed w now until nxt item d)
    have "dep_refs item = dep_refs e"
      using rs_advance(2) Renew_refs Transition_refs[OF rs_advance(3)] by auto
    with rs_advance(4) moved[OF rs_advance(1)] show ?thesis by (elim SaveClaimed_Inr) blast
  next
    case (rs_fail e c now item w d)
    from rs_fail(3) Fail_refs[OF rs_fail(2)] moved[OF rs_fail(1)] show ?thesis by (elim SaveClaimed_Inr) blast
  qed
qed

text \<open>
  The rely condition on the other processes: they take steps of the repository, and whatever they
  write has another version. A single step satisfies it (\<open>repo_step_versions\<close>).
\<close>

definition fair :: "runner \<Rightarrow> bool" where
  "fair rn \<longleftrightarrow> (\<forall>n w. repo_ok (w_repo w) \<longrightarrow>
     repo_reachable (w_repo w) (w_repo (rn_others rn n w)) \<and>
     changed_versions (w_repo w) (w_repo (rn_others rn n w)))"

lemma repo_reachable_trans: "repo_reachable s t \<Longrightarrow> repo_reachable r s \<Longrightarrow> repo_reachable r t"
  by (induction rule: repo_reachable.induct) (auto intro: reach_step)

section \<open>The invariant of a run\<close>

abbreviation repo_of :: "wworld \<Rightarrow> MemoryRepository" where
  "repo_of s \<equiv> w_repo (ww_world s)"

abbreviation in_store :: "Deployment \<Rightarrow> wworld \<Rightarrow> bool" where
  "in_store d s \<equiv> d \<in> set (repo_items (repo_of s))"

definition call_ok :: "runner \<Rightarrow> MemoryRepository \<Rightarrow> phase \<times> Deployment \<times> MemoryRepository \<Rightarrow> bool" where
  "call_ok rn r0 c = (case c of (p, d, r) \<Rightarrow> repo_reachable r0 r \<and> d \<in> set (repo_items r) \<and>
     dep_Status d = phase_status p \<and> lease_Owner (dep_Lease d) = rn_workerID rn)"

definition run_inv :: "runner \<Rightarrow> MemoryRepository \<Rightarrow> wworld \<Rightarrow> bool" where
  "run_inv rn r0 s \<longleftrightarrow> repo_reachable r0 (repo_of s) \<and> (\<forall>c \<in> set (ww_calls s). call_ok rn r0 c)"

definition guarded ::
  "runner \<Rightarrow> MemoryRepository \<Rightarrow> (wworld \<Rightarrow> bool) \<Rightarrow> 'a wop \<Rightarrow> ('a \<Rightarrow> wworld \<Rightarrow> bool) \<Rightarrow> bool" where
  "guarded rn r0 P m Q \<longleftrightarrow> (\<forall>s x t. run_inv rn r0 s \<longrightarrow> P s \<longrightarrow> m s = (x, t) \<longrightarrow>
     run_inv rn r0 t \<and> (\<forall>v. x = Inr v \<longrightarrow> Q v t))"

lemma guardedI:
  "(\<And>s x t. run_inv rn r0 s \<Longrightarrow> P s \<Longrightarrow> m s = (x, t) \<Longrightarrow> run_inv rn r0 t \<and> (\<forall>v. x = Inr v \<longrightarrow> Q v t)) \<Longrightarrow>
     guarded rn r0 P m Q"
  by (auto simp: guarded_def)

lemma guardedD:
  "guarded rn r0 P m Q \<Longrightarrow> run_inv rn r0 s \<Longrightarrow> P s \<Longrightarrow> m s = (x, t) \<Longrightarrow>
     run_inv rn r0 t \<and> (\<forall>v. x = Inr v \<longrightarrow> Q v t)"
  by (auto simp: guarded_def)

lemma guarded_bind:
  assumes "guarded rn r0 P m Q" "\<And>v. guarded rn r0 (Q v) (f v) R"
  shows "guarded rn r0 P (op_bind m f) R"
proof (rule guardedI)
  fix s x t
  assume a: "run_inv rn r0 s" "P s" "op_bind m f s = (x, t)"
  obtain y u where m: "m s = (y, u)" by fastforce
  note g = guardedD[OF assms(1) a(1,2) m]
  show "run_inv rn r0 t \<and> (\<forall>v. x = Inr v \<longrightarrow> R v t)"
  proof (cases y)
    case (Inl e)
    with a(3) m g show ?thesis by (auto simp: op_bind_def)
  next
    case (Inr v)
    with a(3) m have "f v u = (x, t)" by (simp add: op_bind_def)
    from guardedD[OF assms(2) _ _ this] g Inr show ?thesis by blast
  qed
qed

lemma guarded_same:
  assumes "\<And>s. run_inv rn r0 s \<Longrightarrow> P s \<Longrightarrow> snd (m s) = s"
    "\<And>s v. run_inv rn r0 s \<Longrightarrow> P s \<Longrightarrow> fst (m s) = Inr v \<Longrightarrow> Q v s"
  shows "guarded rn r0 P m Q"
proof (rule guardedI)
  fix s x t
  assume a: "run_inv rn r0 s" "P s" "m s = (x, t)"
  then have "t = s" using assms(1)[OF a(1,2)] by simp
  with a assms(2)[OF a(1,2)] show "run_inv rn r0 t \<and> (\<forall>v. x = Inr v \<longrightarrow> Q v t)" by simp
qed

lemma guarded_return: "(\<And>s. run_inv rn r0 s \<Longrightarrow> P s \<Longrightarrow> Q v s) \<Longrightarrow> guarded rn r0 P (op_return v) Q"
  by (rule guarded_same) (auto simp: op_return_def)

lemma guarded_fail [simp]: "guarded rn r0 P (op_fail e) Q"
  by (rule guarded_same) (auto simp: op_fail_def)

text \<open>A fact of the precondition that does not depend on the state becomes an assumption.\<close>

lemma guarded_pure: "(R \<Longrightarrow> guarded rn r0 P m Q) \<Longrightarrow> guarded rn r0 (\<lambda>s. P s \<and> R) m Q"
  by (cases R) (auto simp: guarded_def)

lemma guarded_weaken:
  "guarded rn r0 P m Q \<Longrightarrow> (\<And>s. P' s \<Longrightarrow> P s) \<Longrightarrow> (\<And>v s. Q v s \<Longrightarrow> Q' v s) \<Longrightarrow> guarded rn r0 P' m Q'"
  by (auto simp: guarded_def)

text \<open>The clock and the id generator leave the repository and the calls alone.\<close>

lemma run_inv_ticks [simp]: "run_inv rn r0 (s\<lparr>ww_ticks := n\<rparr>) = run_inv rn r0 s"
  "run_inv rn r0 (s\<lparr>ww_ids := n\<rparr>) = run_inv rn r0 s"
  by (simp_all add: run_inv_def)

lemma guarded_now: "guarded rn r0 (in_store d) (worker_now rn) (\<lambda>_. in_store d)"
  by (rule guardedI) (auto simp: worker_now_def)

lemma guarded_newID: "guarded rn r0 (in_store d) (worker_newID gen) (\<lambda>_. in_store d)"
  by (rule guardedI) (auto simp: worker_newID_def)

lemma guarded_lift:
  "(\<And>v. r = Inr v \<Longrightarrow> Q v) \<Longrightarrow> guarded rn r0 P (lift_dep r) (\<lambda>v s. P s \<and> Q v)"
  by (rule guarded_same) (auto simp: lift_dep_def op_lift_def split: sum.splits)

section \<open>Interference\<close>

lemma run_inv_interfere:
  assumes "fair rn" "repo_ok r0" "run_inv rn r0 s"
  shows "run_inv rn r0 (interfere rn s) \<and> changed_versions (repo_of s) (repo_of (interfere rn s)) \<and>
    repo_ok (repo_of (interfere rn s))"
proof -
  have ok: "repo_ok (repo_of s)" using repo_reachable_ok assms(2,3) by (auto simp: run_inv_def)
  with assms(1) have f: "repo_reachable (repo_of s) (repo_of (interfere rn s))"
    "changed_versions (repo_of s) (repo_of (interfere rn s))"
    by (auto simp: fair_def interfere_def)
  then show ?thesis
    using assms(3) repo_reachable_trans[OF f(1)] repo_reachable_ok[OF f(1) ok]
    by (auto simp: run_inv_def interfere_def)
qed

lemma run_inv_repo:
  assumes "run_inv rn r0 s" "repo_step (repo_of s) r"
  shows "run_inv rn r0 (s\<lparr>ww_world := (ww_world s)\<lparr>w_repo := r\<rparr>\<rparr>)"
  using assms by (auto simp: run_inv_def intro: reach_step)

lemma held_item:
  assumes "changed_versions r s" "d \<in> set (repo_items r)" "i < length (repo_items s)"
    "dep_ID (repo_items s ! i) = dep_ID d" "dep_Version (repo_items s ! i) = dep_Version d"
  shows "repo_items s ! i = d"
  using assms unfolding changed_versions_def by (meson nth_mem)

text \<open>What the worker saves is its held item moved along the life cycle.\<close>

definition worker_move :: "runner \<Rightarrow> Deployment \<Rightarrow> time \<Rightarrow> Deployment \<Rightarrow> bool" where
  "worker_move rn d now item \<longleftrightarrow>
     (\<exists>renewed until nxt. (renewed = d \<or> Renew (rn_workerID rn) now until d = Inr renewed) \<and>
        Transition renewed nxt now = Inr item) \<or>
     (\<exists>c. Fail d c now = Inr item)"

lemma worker_move_refs: "worker_move rn d now item \<Longrightarrow> dep_refs item = dep_refs d"
  unfolding worker_move_def using Transition_refs Renew_refs Fail_refs by metis

lemma SaveClaimed_step:
  assumes "mem_SaveClaimed ctx r item (dep_Version d) (rn_workerID rn) now = Inr (saved, r')"
    "worker_move rn d now item" "d \<in> set (repo_items r)"
  shows "repo_step r r'"
proof -
  have "ctx = None" using assms(1) by (elim SaveClaimed_Inr)
  with assms show ?thesis
    unfolding worker_move_def by (auto intro: rs_advance rs_fail)
qed

lemma interfered_save:
  assumes f: "fair rn" "repo_ok r0" "run_inv rn r0 s" "in_store d s" and m: "worker_move rn d now item"
    and sv: "mem_SaveClaimed ctx (repo_of (interfere rn s)) item (dep_Version d) (rn_workerID rn) now = Inr (saved, r')"
  shows "repo_step (repo_of (interfere rn s)) r' \<and> saved \<in> set (repo_items r') \<and>
    saved = item\<lparr>dep_Version := dep_Version d + 1\<rparr>"
proof -
  note I = run_inv_interfere[OF f(1-3)]
  obtain i where i: "i < length (repo_items (repo_of (interfere rn s)))"
    "dep_ID (repo_items (repo_of (interfere rn s)) ! i) = dep_ID item"
    "dep_Version (repo_items (repo_of (interfere rn s)) ! i) = dep_Version d"
    "saved = item\<lparr>dep_Version := dep_Version d + 1\<rparr>"
    "r' = (repo_of (interfere rn s))\<lparr>repo_items := (repo_items (repo_of (interfere rn s)))[i := saved]\<rparr>"
    using sv by (elim SaveClaimed_Inr)
  have "dep_ID item = dep_ID d" using dep_refs_eq(1)[OF worker_move_refs[OF m]] .
  then have "repo_items (repo_of (interfere rn s)) ! i = d"
    using held_item[OF _ f(4) i(1)] I i(2,3) by simp
  then have "d \<in> set (repo_items (repo_of (interfere rn s)))" using i(1) by (metis nth_mem)
  from SaveClaimed_step[OF sv m this] i show ?thesis by (simp add: set_update_memI)
qed

section \<open>The worker's operations keep the invariant\<close>

lemma guarded_shared:
  assumes "fair rn" "repo_ok r0"
    and "\<And>s ctx v r'. run_inv rn r0 s \<Longrightarrow> in_store d s \<Longrightarrow> f ctx (repo_of (interfere rn s)) = Inr (v, r') \<Longrightarrow>
      repo_step (repo_of (interfere rn s)) r' \<and> v \<in> set (repo_items r') \<and> Q v"
  shows "guarded rn r0 (in_store d) (shared rn wrap f) (\<lambda>v s. in_store v s \<and> Q v)"
proof (rule guardedI)
  fix s x t
  assume a: "run_inv rn r0 s" "in_store d s" "shared rn wrap f s = (x, t)"
  note I = run_inv_interfere[OF assms(1,2) a(1)]
  show "run_inv rn r0 t \<and> (\<forall>v. x = Inr v \<longrightarrow> in_store v t \<and> Q v)"
  proof (cases "f (rn_ctx rn (ww_turn s)) (repo_of (interfere rn s))")
    case (Inl e)
    with a(3) I show ?thesis by (auto simp: shared_def apply_repo_def)
  next
    case (Inr vr)
    obtain v r' where vr: "vr = (v, r')" by (cases vr)
    with Inr have "f (rn_ctx rn (ww_turn s)) (repo_of (interfere rn s)) = Inr (v, r')" by simp
    from assms(3)[OF a(1,2) this] have st: "repo_step (repo_of (interfere rn s)) r'" "v \<in> set (repo_items r')" "Q v"
      by blast+
    have "x = Inr v" "t = (interfere rn s)\<lparr>ww_world := (ww_world (interfere rn s))\<lparr>w_repo := r'\<rparr>\<rparr>"
      using a(3) Inr vr by (auto simp: shared_def apply_repo_def)
    with run_inv_repo[OF conjunct1[OF I] st(1)] st show ?thesis by simp
  qed
qed

lemma guarded_renew:
  assumes "fair rn" "repo_ok r0"
  shows "guarded rn r0 (in_store d) (runner_renew rn wrap d) (\<lambda>v s. in_store v s \<and>
    (dep_Status v = dep_Status d \<and> lease_Owner (dep_Lease v) = rn_workerID rn))"
  unfolding runner_renew_def
proof (rule guarded_bind[OF guarded_now])
  fix now
  show "guarded rn r0 (in_store d) (shared rn wrap (\<lambda>ctx r. mem_RenewLease ctx r (dep_ID d) (rn_workerID rn)
      (dep_Version d) now (now + rn_leaseDuration rn))) (\<lambda>v s. in_store v s \<and>
    (dep_Status v = dep_Status d \<and> lease_Owner (dep_Lease v) = rn_workerID rn))"
  proof (rule guarded_shared[OF assms])
    fix s :: wworld and ctx v r'
    assume a: "run_inv rn r0 s" "in_store d s" and rn: "mem_RenewLease ctx (repo_of (interfere rn s)) (dep_ID d)
      (rn_workerID rn) (dep_Version d) now (now + rn_leaseDuration rn) = Inr (v, r')"
    note I = run_inv_interfere[OF assms a(1)]
    obtain i where i: "ctx = None" "i < length (repo_items (repo_of (interfere rn s)))"
      "dep_ID (repo_items (repo_of (interfere rn s)) ! i) = dep_ID d"
      "dep_Version (repo_items (repo_of (interfere rn s)) ! i) = dep_Version d"
      "lease_Owner (dep_Lease (repo_items (repo_of (interfere rn s)) ! i)) = rn_workerID rn"
      "v = (repo_items (repo_of (interfere rn s)) ! i)\<lparr>dep_Lease := (dep_Lease (repo_items (repo_of (interfere rn s)) ! i))
         \<lparr>lease_ExpiresAt := now + rn_leaseDuration rn\<rparr>, dep_UpdatedAt := now, dep_Version := dep_Version d + 1\<rparr>"
      "r' = (repo_of (interfere rn s))\<lparr>repo_items := (repo_items (repo_of (interfere rn s)))[i := v]\<rparr>"
      using rn by (elim RenewLease_Inr)
    have "repo_items (repo_of (interfere rn s)) ! i = d" using held_item[OF _ a(2) i(2)] I i(3,4) by blast
    with i rn show "repo_step (repo_of (interfere rn s)) r' \<and> v \<in> set (repo_items r') \<and>
        dep_Status v = dep_Status d \<and> lease_Owner (dep_Lease v) = rn_workerID rn"
      by (auto simp: set_update_memI intro: rs_renew)
  qed
qed

text \<open>The transaction: a failed body leaves what the other processes did, or what was saved before.\<close>

lemma save_body_repo:
  assumes "save_body rn ctx recorder item v now action auditID s = (x, t)"
  shows "ww_calls t = ww_calls s \<and> (repo_of t = repo_of s \<and> is_err x \<or> (\<exists>saved.
    mem_SaveClaimed ctx (repo_of s) item v (rn_workerID rn) now = Inr (saved, repo_of t) \<and>
    (\<forall>y. x = Inr y \<longrightarrow> y = saved)))"
  using assms
  by (auto simp: save_body_def op_bind_def apply_repo_def worker_record_def op_check_def op_return_def
      split: sum.splits option.splits if_splits prod.splits)

lemma guarded_transaction:
  assumes "fair rn" "repo_ok r0" "worker_move rn d now item"
  shows "guarded rn r0 (in_store d) (\<lambda>s. WithinTransaction m
      (save_body rn (rn_ctx rn (ww_turn s)) recorder item (dep_Version d) now action auditID) (interfere rn s))
    (\<lambda>v s. in_store v s \<and> v = item\<lparr>dep_Version := dep_Version d + 1\<rparr>)"
proof (rule guardedI)
  fix s t :: wworld and x
  let ?body = "save_body rn (rn_ctx rn (ww_turn s)) recorder item (dep_Version d) now action auditID"
  assume a: "run_inv rn r0 s" "in_store d s" and w: "WithinTransaction m ?body (interfere rn s) = (x, t)"
  note I = run_inv_interfere[OF assms(1,2) a(1)]
  obtain y u where b: "?body (interfere rn s) = (y, u)" by fastforce
  note B = save_body_repo[OF b]
  have inv: "run_inv rn r0 u \<and> (\<forall>v. y = Inr v \<longrightarrow> in_store v u \<and> v = item\<lparr>dep_Version := dep_Version d + 1\<rparr>)"
  proof (cases "repo_of u = repo_of (interfere rn s) \<and> is_err y")
    case True
    with B I show ?thesis by (auto simp: run_inv_def)
  next
    case False
    with B obtain saved where "mem_SaveClaimed (rn_ctx rn (ww_turn s)) (repo_of (interfere rn s)) item (dep_Version d)
      (rn_workerID rn) now = Inr (saved, repo_of u)" "\<forall>v. y = Inr v \<longrightarrow> v = saved" by blast
    moreover from interfered_save[OF assms(1,2) a assms(3) this(1)]
    have "repo_step (repo_of (interfere rn s)) (repo_of u)" "in_store saved u"
      "saved = item\<lparr>dep_Version := dep_Version d + 1\<rparr>" by blast+
    ultimately show ?thesis using I B by (auto simp: run_inv_def intro: reach_step)
  qed
  have "(x, t) = (y, u) \<or> (is_err x \<and> t = interfere rn s)"
    using w b by (cases m) (auto split: prod.splits sum.splits option.splits)
  with inv I show "run_inv rn r0 t \<and> (\<forall>v. x = Inr v \<longrightarrow> in_store v t \<and> v = item\<lparr>dep_Version := dep_Version d + 1\<rparr>)"
    by auto
qed

lemma guarded_saveState:
  assumes "fair rn" "repo_ok r0" "worker_move rn d now item"
  shows "guarded rn r0 (in_store d) (saveState rn item (dep_Version d) now action)
    (\<lambda>v s. in_store v s \<and> v = item\<lparr>dep_Version := dep_Version d + 1\<rparr>)"
proof -
  have sh: "guarded rn r0 (in_store d) (shared rn WorkerRepo
      (\<lambda>ctx r. mem_SaveClaimed ctx r item (dep_Version d) (rn_workerID rn) now))
    (\<lambda>v s. in_store v s \<and> v = item\<lparr>dep_Version := dep_Version d + 1\<rparr>)"
    by (rule guarded_shared[OF assms(1,2)]) (use interfered_save[OF assms(1,2) _ _ assms(3)] in blast)
  show ?thesis
    unfolding saveState_def
    by (auto split: option.split intro: sh guarded_bind[OF guarded_newID] guarded_transaction[OF assms])
qed

lemma guarded_advance:
  assumes "fair rn" "repo_ok r0"
  shows "guarded rn r0 (in_store d) (advance rn d nxt) (\<lambda>v s. in_store v s \<and> dep_Status v = nxt)"
  unfolding advance_def
proof (rule guarded_bind[OF guarded_now])
  fix now
  let ?renewed = "if nxt \<noteq> StatusSucceeded
    then lift_dep (Renew (rn_workerID rn) now (now + rn_leaseDuration rn) d) else op_return d"
  let ?Q = "\<lambda>v. v = d \<or> Renew (rn_workerID rn) now (now + rn_leaseDuration rn) d = Inr v"
  have r: "guarded rn r0 (in_store d) ?renewed (\<lambda>v s. in_store d s \<and> ?Q v)"
    by (auto intro: guarded_lift[where Q = ?Q] guarded_return)
  show "guarded rn r0 (in_store d) (op_bind ?renewed (\<lambda>renewed. op_bind (lift_dep (Transition renewed nxt now))
      (\<lambda>moved. saveState rn moved (dep_Version d) now (auditAction nxt)))) (\<lambda>v s. in_store v s \<and> dep_Status v = nxt)"
  proof (rule guarded_bind[OF r])
    fix renewed
    have t: "guarded rn r0 (\<lambda>s. in_store d s \<and> ?Q renewed) (lift_dep (Transition renewed nxt now))
        (\<lambda>v s. (in_store d s \<and> ?Q renewed) \<and> Transition renewed nxt now = Inr v)"
      by (rule guarded_lift)
    show "guarded rn r0 (\<lambda>s. in_store d s \<and> ?Q renewed) (op_bind (lift_dep (Transition renewed nxt now))
        (\<lambda>moved. saveState rn moved (dep_Version d) now (auditAction nxt))) (\<lambda>v s. in_store v s \<and> dep_Status v = nxt)"
    proof (rule guarded_bind[OF t])
      fix moved
      have "guarded rn r0 (\<lambda>s. in_store d s \<and> (?Q renewed \<and> Transition renewed nxt now = Inr moved))
        (saveState rn moved (dep_Version d) now (auditAction nxt)) (\<lambda>v s. in_store v s \<and> dep_Status v = nxt)"
      proof (rule guarded_pure, elim conjE)
        assume q: "?Q renewed" and tr: "Transition renewed nxt now = Inr moved"
        then have m: "worker_move rn d now moved" unfolding worker_move_def by blast
        have "dep_Status moved = nxt" using tr by (simp add: Transition_Inr)
        then show "guarded rn r0 (in_store d) (saveState rn moved (dep_Version d) now (auditAction nxt))
            (\<lambda>v s. in_store v s \<and> dep_Status v = nxt)"
          by (intro guarded_weaken[OF guarded_saveState[OF assms m]]) auto
      qed
      then show "guarded rn r0 (\<lambda>s. (in_store d s \<and> ?Q renewed) \<and> Transition renewed nxt now = Inr moved)
        (saveState rn moved (dep_Version d) now (auditAction nxt)) (\<lambda>v s. in_store v s \<and> dep_Status v = nxt)"
        by (rule guarded_weaken) auto
    qed
  qed
qed

lemma guarded_runner_fail:
  assumes "fair rn" "repo_ok r0"
  shows "guarded rn r0 (in_store d) (runner_fail rn d step cause) (\<lambda>_ _. False)"
  unfolding runner_fail_def
proof (rule guarded_bind[OF guarded_now], unfold Let_def)
  fix now
  let ?c = "CategorizeExecutionError cause (failureFallback step)"
  show "guarded rn r0 (in_store d) (case Fail d ?c now of
      Inl e \<Rightarrow> op_fail (WorkerFailed step ?c cause (Some (WorkerRepo e)))
    | Inr failed \<Rightarrow> (\<lambda>s. case saveState rn failed (dep_Version d) now AuditActionFailed s of
         (Inl e, t) \<Rightarrow> (Inl (WorkerFailed step ?c cause (Some e)), t)
       | (Inr _, t) \<Rightarrow> (Inl (WorkerFailed step ?c cause None), t))) (\<lambda>_ _. False)"
  proof (cases "Fail d ?c now")
    case (Inr failed)
    then have m: "worker_move rn d now failed" unfolding worker_move_def by blast
    show ?thesis
      unfolding Inr sum.case
    proof (rule guardedI)
      fix s x t
      assume a: "run_inv rn r0 s" "in_store d s" and x: "(case saveState rn failed (dep_Version d) now AuditActionFailed s of
         (Inl e, t) \<Rightarrow> (Inl (WorkerFailed step ?c cause (Some e)), t)
       | (Inr _, t) \<Rightarrow> (Inl (WorkerFailed step ?c cause None), t)) = (x, t)"
      obtain y u where y: "saveState rn failed (dep_Version d) now AuditActionFailed s = (y, u)" by fastforce
      have "t = u \<and> is_err x" using x y by (cases y) auto
      moreover from guardedD[OF guarded_saveState[OF assms m] a y] have "run_inv rn r0 u" by blast
      ultimately show "run_inv rn r0 t \<and> (\<forall>v. x = Inr v \<longrightarrow> False)" by (cases x) auto
    qed
  qed simp
qed

lemma guarded_beats:
  assumes "fair rn" "repo_ok r0"
  shows "guarded rn r0 (in_store d) (run_beats rn n d) (\<lambda>v s. in_store v s \<and> dep_Status v = dep_Status d)"
proof (induction n arbitrary: d)
  case 0
  show ?case by (auto intro: guarded_return)
next
  case (Suc n)
  show ?case
    unfolding run_beats.simps
  proof (rule guarded_bind[OF guarded_renew[OF assms]], rule guarded_pure)
    fix v :: Deployment
    assume "dep_Status v = dep_Status d \<and> lease_Owner (dep_Lease v) = rn_workerID rn"
    then show "guarded rn r0 (in_store v) (run_beats rn n v) (\<lambda>w s. in_store w s \<and> dep_Status w = dep_Status d)"
      by (intro guarded_weaken[OF Suc.IH]) auto
  qed
qed

lemma guarded_runStep:
  assumes "fair rn" "repo_ok r0" "dep_Status d = phase_status p"
  shows "guarded rn r0 (in_store d) (runStep rn p d) (\<lambda>v s. in_store (fst v) s \<and> dep_Status (fst v) = dep_Status d)"
  unfolding runStep_def
proof (rule guarded_bind[OF guarded_renew[OF assms(1,2)]], rule guardedI)
  fix v and s :: wworld and x t
  let ?run = "rn_execute rn (length (ww_calls s)) p v"
  assume a: "run_inv rn r0 s" "in_store v s \<and> dep_Status v = dep_Status d \<and> lease_Owner (dep_Lease v) = rn_workerID rn"
    and e: "(let run = ?run in op_bind (run_beats rn (sr_beats run) v) (\<lambda>latest.
      op_return (latest, step_error (sr_end run))) (start_call p v s)) = (x, t)"
  have inv: "run_inv rn r0 (start_call p v s)"
    using a assms(3) by (auto simp: run_inv_def start_call_def call_ok_def)
  have held: "in_store v (start_call p v s)" using a by (simp add: start_call_def)
  have g: "guarded rn r0 (in_store v) (op_bind (run_beats rn (sr_beats ?run) v)
      (\<lambda>latest. op_return (latest, step_error (sr_end ?run))))
      (\<lambda>w u. in_store (fst w) u \<and> dep_Status (fst w) = dep_Status v)"
    by (rule guarded_bind[OF guarded_beats[OF assms(1,2)]]) (auto intro: guarded_return)
  from e have "op_bind (run_beats rn (sr_beats ?run) v) (\<lambda>latest. op_return (latest, step_error (sr_end ?run)))
      (start_call p v s) = (x, t)" by (simp only: Let_def)
  from guardedD[OF g inv held this] a(2)
  show "run_inv rn r0 t \<and> (\<forall>w. x = Inr w \<longrightarrow> in_store (fst w) t \<and> dep_Status (fst w) = dep_Status d)"
    by simp
qed

lemma guarded_then_advance:
  assumes "fair rn" "repo_ok r0"
    and "\<And>held e. guarded rn r0 (in_store held) (onError held e) (\<lambda>_ _. False)"
  shows "guarded rn r0 (in_store (fst outcome)) (then_advance rn nxt onError outcome) in_store"
proof (cases outcome)
  case (Pair held e)
  show ?thesis
  proof (cases e)
    case None
    then show ?thesis
      using Pair by (auto simp: then_advance_def intro: guarded_weaken[OF guarded_advance[OF assms(1,2)]])
  next
    case (Some c)
    have "guarded rn r0 (in_store held) (op_bind (onError held c) (\<lambda>_. op_return held)) in_store"
      by (rule guarded_bind[OF assms(3)]) (simp add: guarded_return)
    with Some Pair show ?thesis by (simp add: then_advance_def)
  qed
qed

lemma guarded_step_then:
  assumes "fair rn" "repo_ok r0" "dep_Status d = phase_status p"
    and "\<And>held e. guarded rn r0 (in_store held) (onError held e) (\<lambda>_ _. False)"
  shows "guarded rn r0 (in_store d) (op_bind (runStep rn p d) (then_advance rn nxt onError)) in_store"
proof (rule guarded_bind[OF guarded_runStep[OF assms(1-3)]])
  fix v :: "Deployment \<times> error_chain option"
  show "guarded rn r0 (\<lambda>s. in_store (fst v) s \<and> dep_Status (fst v) = dep_Status d) (then_advance rn nxt onError v) in_store"
    by (rule guarded_weaken[OF guarded_then_advance[OF assms(1,2,4)]]) simp_all
qed

text \<open>The last two stages keep the item of the step, which only a canceling stage would look at.\<close>

lemma guarded_step_drop:
  assumes "fair rn" "repo_ok r0" "dep_Status d = phase_status p"
    and "\<And>held e. guarded rn r0 (in_store held) (onError held e) (\<lambda>_ _. False)"
  shows "guarded rn r0 (in_store d) (op_bind (runStep rn p d) (\<lambda>(held, e).
    op_bind (then_advance rn nxt onError (held, e)) (\<lambda>_. op_return held)))
    (\<lambda>v _. dep_Status v = phase_status p)"
proof (rule guarded_bind[OF guarded_runStep[OF assms(1-3)]], rule guarded_pure)
  fix v :: "Deployment \<times> error_chain option"
  assume "dep_Status (fst v) = dep_Status d"
  then have "dep_Status (fst v) = phase_status p" using assms(3) by simp
  moreover have "guarded rn r0 (in_store (fst v)) (op_bind (then_advance rn nxt onError v) (\<lambda>_. op_return (fst v)))
      (\<lambda>w _. w = fst v)"
    by (rule guarded_bind[OF guarded_then_advance[OF assms(1,2,4)]]) (simp add: guarded_return)
  ultimately show "guarded rn r0 (in_store (fst v)) (case v of (held, e) \<Rightarrow>
      op_bind (then_advance rn nxt onError (held, e)) (\<lambda>_. op_return held)) (\<lambda>v _. dep_Status v = phase_status p)"
    by (cases v) (auto elim: guarded_weaken)
qed

lemma guarded_stages:
  assumes "fair rn" "repo_ok r0"
  shows "guarded rn r0 (in_store d) (stage_queued rn d) in_store"
    "guarded rn r0 (in_store d) (stage_preparing rn d) in_store"
    "guarded rn r0 (in_store d) (stage_deploying rn d) in_store"
    "guarded rn r0 (in_store d) (stage_committing rn d)
      (\<lambda>v s. in_store v s \<or> dep_Status v = StatusCommitting)"
    "guarded rn r0 (\<lambda>s. in_store d s \<or> dep_Status d = StatusCommitting) (stage_canceling rn d) (\<lambda>_ _. True)"
proof -
  have f: "guarded rn r0 (in_store h) (if b then op_fail x else runner_fail rn h step e) (\<lambda>_ _. False)" for h b x step e
    by (simp add: guarded_runner_fail[OF assms])
  have f2: "guarded rn r0 (in_store h) (if b then op_fail x else if c then op_fail y else runner_fail rn h step e)
      (\<lambda>_ _. False)" for h b x c y step e
    by (simp add: guarded_runner_fail[OF assms])
  show "guarded rn r0 (in_store d) (stage_queued rn d) in_store"
    by (auto simp: stage_queued_def intro: guarded_return guarded_weaken[OF guarded_advance[OF assms]])
  show "guarded rn r0 (in_store d) (stage_preparing rn d) in_store"
    by (auto simp: stage_preparing_def intro!: guarded_return guarded_step_then[OF assms] f)
  show "guarded rn r0 (in_store d) (stage_deploying rn d) in_store"
    by (auto simp: stage_deploying_def intro!: guarded_return guarded_step_then[OF assms] f2)
  show "guarded rn r0 (in_store d) (stage_committing rn d) (\<lambda>v s. in_store v s \<or> dep_Status v = StatusCommitting)"
    by (auto simp: stage_committing_def intro!: guarded_return guarded_weaken[OF guarded_step_drop[OF assms]])
  show "guarded rn r0 (\<lambda>s. in_store d s \<or> dep_Status d = StatusCommitting) (stage_canceling rn d) (\<lambda>_ _. True)"
    by (auto simp: stage_canceling_def intro!: guarded_return guarded_weaken[OF guarded_step_drop[OF assms]])
qed

text \<open>
  The claim starts a new generation, which must not have run out: the other counters of the
  development are bounded in the same way.
\<close>

lemma RunOnce_inv:
  assumes f: "fair rn" "repo_ok r0" and s: "run_inv rn r0 s"
    and room: "\<And>e. in_store e (interfere rn s) \<Longrightarrow> lease_Generation (dep_Lease e) \<noteq> -1"
    and run: "RunOnce rn s = (x, t)"
  shows "run_inv rn r0 t"
proof -
  let ?claim = "\<lambda>ctx r. mem_ClaimNext ctx r \<lparr>claim_WorkerID = rn_workerID rn, claim_Now = rn_now rn (ww_ticks s),
    claim_ExpiresAt = rn_now rn (ww_ticks s) + rn_leaseDuration rn\<rparr>"
  let ?u = "interfere rn (s\<lparr>ww_ticks := Suc (ww_ticks s)\<rparr>)"
  have s1: "run_inv rn r0 (s\<lparr>ww_ticks := Suc (ww_ticks s)\<rparr>)" using s by simp
  have same: "repo_of ?u = repo_of (interfere rn s)" by (simp add: interfere_def)
  note I = run_inv_interfere[OF f s1]
  let ?rest = "\<lambda>item. op_bind (stage_queued rn item) (\<lambda>item. op_bind (stage_preparing rn item) (\<lambda>item.
    op_bind (stage_deploying rn item) (\<lambda>item. op_bind (stage_committing rn item) (\<lambda>item.
    op_bind (stage_canceling rn item) (\<lambda>_. op_return ())))))"
  have rest: "guarded rn r0 (in_store d) (?rest d) (\<lambda>_ _. True)" for d
    by (rule guarded_bind[OF guarded_stages(1)[OF f]], rule guarded_bind[OF guarded_stages(2)[OF f]],
        rule guarded_bind[OF guarded_stages(3)[OF f]], rule guarded_bind[OF guarded_stages(4)[OF f]],
        rule guarded_bind[OF guarded_stages(5)[OF f]], rule guarded_return) simp
  have r: "RunOnce rn s = (case ?claim (rn_ctx rn (ww_turn s)) (repo_of ?u) of
      Inl e \<Rightarrow> (Inl (WorkerRepo e), ?u)
    | Inr (found, r) \<Rightarrow> (case found of None \<Rightarrow> op_return () | Some item \<Rightarrow> ?rest item)
        (?u\<lparr>ww_world := (ww_world ?u)\<lparr>w_repo := r\<rparr>\<rparr>))"
    by (auto simp: RunOnce_def op_bind_def worker_now_def shared_def apply_repo_def split: sum.splits)
  show ?thesis
  proof (cases "?claim (rn_ctx rn (ww_turn s)) (repo_of ?u)")
    case (Inl e)
    with r run I show ?thesis by simp
  next
    case (Inr fr)
    obtain found r' where fr: "fr = (found, r')" by (cases fr)
    show ?thesis
    proof (cases found)
      case None
      then have "r' = repo_of ?u" using Inr fr ClaimNext_None by blast
      with r Inr fr None have "RunOnce rn s = op_return () ?u" by simp
      then have "t = ?u" using run by (simp add: op_return_def)
      with I show ?thesis by simp
    next
      case (Some d)
      with Inr fr have c: "?claim (rn_ctx rn (ww_turn s)) (repo_of ?u) = Inr (Some d, r')" by simp
      then have ctx: "rn_ctx rn (ww_turn s) = None" and d: "d \<in> set (repo_items r')"
        by (elim ClaimNext_Some; simp add: set_update_memI)+
      have "repo_step (repo_of ?u) r'"
        by (rule rs_claim[OF c[unfolded ctx]]) (use room same in auto)
      with run_inv_repo[OF conjunct1[OF I]] have "run_inv rn r0 (?u\<lparr>ww_world := (ww_world ?u)\<lparr>w_repo := r'\<rparr>\<rparr>)"
        by blast
      moreover have "?rest d (?u\<lparr>ww_world := (ww_world ?u)\<lparr>w_repo := r'\<rparr>\<rparr>) = (x, t)"
        using r run c by simp
      ultimately show ?thesis using guardedD[OF rest] d by simp
    qed
  qed
qed

end
