(* ===== verification/WorkerProperties.thy ===== *)
theory WorkerProperties
  imports DeploymentProperties DeploymentWorker
begin

text \<open>
  The properties of the deployment worker: it acts only under its lease and in the right status
  whatever other processes do, a status and its audit event are saved together, and undisturbed runs
  bring a claimed deployment to its end.
\<close>

section \<open>Under interference\<close>

text \<open>
  C4: whatever other processes do between its accesses, a run of the worker only takes steps of the
  repository, and it calls the executor only with the deployment that is stored at that moment, leased
  to this worker and in the status that the call is for.
\<close>

theorem worker_acts_under_its_lease:
  assumes "fair rn" "repo_ok (repo_of s)" "ww_calls s = []"
    and "\<And>e. e \<in> set (repo_items (repo_of (interfere rn s))) \<Longrightarrow> lease_Generation (dep_Lease e) \<noteq> -1"
    and "RunOnce rn s = (x, t)"
  shows "repo_reachable (repo_of s) (repo_of t) \<and> (\<forall>(p, d, r) \<in> set (ww_calls t).
    repo_reachable (repo_of s) r \<and> d \<in> set (repo_items r) \<and> dep_Status d = phase_status p \<and>
    lease_Owner (dep_Lease d) = rn_workerID rn)"
proof -
  have "run_inv rn (repo_of s) s" using assms(3) by (simp add: run_inv_def reach_here)
  from RunOnce_inv[OF assms(1,2) this assms(4,5)] show ?thesis
    by (auto simp: run_inv_def call_ok_def)
qed

text \<open>
  C6: where the worker runs with a database transaction, a saved status and its audit event are written
  together, with the status saved over the version the worker held, or neither is written.
\<close>

theorem worker_status_has_its_event:
  assumes "rn_transaction rn = Some (ManagerDatabase c)" "rn_audit rn = Some recorder" "rn_newID rn = Some gen"
    and "saveState rn item v now action s = (x, t)"
  shows "(\<exists>saved auditID ctx. x = Inr saved \<and>
      mem_SaveClaimed ctx (repo_of (interfere rn s)) item v (rn_workerID rn) now = Inr (saved, repo_of t) \<and>
      w_audit (ww_world t) = w_audit (ww_world (interfere rn s)) @ [worker_event rn auditID item action now]) \<or>
    (is_err x \<and> (ww_world t = ww_world (interfere rn s) \<or> ww_world t = ww_world s))"
proof (cases "gen (ww_ids s)")
  case (Inl e)
  with assms show ?thesis by (auto simp: saveState_def op_bind_def worker_newID_def)
next
  case (Inr i)
  let ?s = "interfere rn (s\<lparr>ww_ids := Suc (ww_ids s)\<rparr>)"
  have w: "ww_world ?s = ww_world (interfere rn s)" by (simp add: interfere_def)
  from assms Inr have "WithinTransaction (ManagerDatabase c)
      (save_body rn (rn_ctx rn (ww_turn s)) recorder item v now action i) ?s = (x, t)"
    by (simp add: saveState_def op_bind_def worker_newID_def)
  then show ?thesis
    using w
    by (auto simp: save_body_def op_bind_def apply_repo_def worker_record_def op_check_def op_return_def
        split: sum.splits option.splits if_splits prod.splits)
qed

section \<open>Undisturbed\<close>

text \<open>
  A run without interference, failures or cancellation: every step of the executor succeeds after some
  heartbeats, and successive readings of the clock are less than a lease apart.
\<close>

definition undisturbed :: "runner \<Rightarrow> bool" where
  "undisturbed rn \<longleftrightarrow> (\<forall>n w. rn_others rn n w = w) \<and> (\<forall>n. rn_ctx rn n = None) \<and>
     rn_transaction rn = Some (ManagerDatabase None) \<and>
     (\<exists>recorder. rn_audit rn = Some recorder \<and> (\<forall>ev. recorder ev = None)) \<and>
     (\<exists>gen. rn_newID rn = Some gen \<and> (\<forall>n. \<exists>i. gen n = Inr i)) \<and>
     (\<forall>commit d. rn_commit rn = Some commit \<longrightarrow> commit d = None) \<and>
     (\<forall>n p d. sr_end (rn_execute rn n p d) = StepResult None) \<and>
     (\<forall>n. rn_now rn n \<noteq> 0 \<and> rn_now rn (Suc n) < rn_now rn n + rn_leaseDuration rn) \<and>
     0 < rn_leaseDuration rn \<and> rn_workerID rn \<noteq> [] \<and> trim_space (rn_workerID rn) = rn_workerID rn"

definition worker_trail :: "wworld \<Rightarrow> (audit_action \<times> string) list" where
  "worker_trail s = map (\<lambda>ev. (ev_Action ev, ev_ResourceID ev)) (w_audit (ww_world s))"

definition ready :: "runner \<Rightarrow> Deployment \<Rightarrow> wworld \<Rightarrow> bool" where
  "ready rn d s \<longleftrightarrow> repo_inv (repo_of s) \<and> in_store d s \<and> lease_Owner (dep_Lease d) = rn_workerID rn \<and>
     rn_now rn (ww_ticks s) < lease_ExpiresAt (dep_Lease d)"

lemma find_id:
  assumes "repo_inv r" "d \<in> set (repo_items r)"
  obtains i where "find_index (\<lambda>x. dep_ID x = dep_ID d) (repo_items r) = Some i"
    "i < length (repo_items r)" "repo_items r ! i = d"
proof -
  obtain i where i: "find_index (\<lambda>x. dep_ID x = dep_ID d) (repo_items r) = Some i"
    using assms(2) by (cases "find_index (\<lambda>x. dep_ID x = dep_ID d) (repo_items r)") (auto simp: find_index_None)
  with find_index_Some[OF i] nth_the_id[OF assms(1) _ assms(2)] that show ?thesis by blast
qed

lemma interfere_undisturbed: "undisturbed rn \<Longrightarrow> ww_world (interfere rn s) = ww_world s \<and>
    ww_ticks (interfere rn s) = ww_ticks s \<and> ww_calls (interfere rn s) = ww_calls s"
  by (simp add: undisturbed_def interfere_def)

lemma renew_ready:
  assumes u: "undisturbed rn" and r: "ready rn d s"
  shows "\<exists>d' t. runner_renew rn wrap d s = (Inr d', t) \<and> ready rn d' t \<and> dep_Status d' = dep_Status d \<and>
    dep_ID d' = dep_ID d \<and> worker_trail t = worker_trail s"
proof -
  let ?now = "rn_now rn (ww_ticks s)"
  let ?d = "d\<lparr>dep_Lease := (dep_Lease d)\<lparr>lease_ExpiresAt := ?now + rn_leaseDuration rn\<rparr>, dep_UpdatedAt := ?now,
    dep_Version := dep_Version d + 1\<rparr>"
  from r have inv: "repo_inv (repo_of s)" "in_store d s" by (simp_all add: ready_def)
  obtain i where i: "find_index (\<lambda>x. dep_ID x = dep_ID d) (repo_items (repo_of s)) = Some i"
    "i < length (repo_items (repo_of s))" "repo_items (repo_of s) ! i = d" by (rule find_id[OF inv])
  let ?r = "(repo_of s)\<lparr>repo_items := (repo_items (repo_of s))[i := ?d]\<rparr>"
  have ctx: "rn_ctx rn n = None" for n using u by (simp add: undisturbed_def)
  have "mem_RenewLease None (repo_of s) (dep_ID d) (rn_workerID rn) (dep_Version d) ?now (?now + rn_leaseDuration rn) =
      Inr (?d, ?r)"
    using u r i by (simp add: mem_RenewLease_def ready_def undisturbed_def Lease_Active_def Let_def)
  moreover define t where "t = (interfere rn (s\<lparr>ww_ticks := Suc (ww_ticks s)\<rparr>))
      \<lparr>ww_world := (ww_world s)\<lparr>w_repo := ?r\<rparr>\<rparr>"
  ultimately have e: "runner_renew rn wrap d s = (Inr ?d, t)"
    using interfere_undisturbed[OF u]
    by (simp add: runner_renew_def op_bind_def worker_now_def shared_def apply_repo_def ctx)
  have "repo_inv ?r" by (rule repo_inv_update[OF inv(1) i(2)]) (simp add: i(3) dep_refs_def)
  moreover have "?d \<in> set (repo_items ?r)" using i(2) by (simp add: set_update_memI)
  moreover have "rn_now rn (Suc (ww_ticks s)) < ?now + rn_leaseDuration rn" using u by (simp add: undisturbed_def)
  ultimately have "ready rn ?d t" "worker_trail t = worker_trail s"
    using r interfere_undisturbed[OF u, of "s\<lparr>ww_ticks := Suc (ww_ticks s)\<rparr>"]
    by (simp_all add: ready_def worker_trail_def t_def)
  with e show ?thesis by (intro exI[of _ ?d] exI[of _ t]) simp
qed

lemma save_ready:
  assumes u: "undisturbed rn" and inv: "repo_inv (repo_of s)" "in_store d s"
    and l: "lease_Owner (dep_Lease d) = rn_workerID rn" "now < lease_ExpiresAt (dep_Lease d)"
    and item: "dep_refs item = dep_refs d" "Terminal item \<or> lease_Owner (dep_Lease item) = rn_workerID rn"
  shows "\<exists>t. saveState rn item (dep_Version d) now action s = (Inr (item\<lparr>dep_Version := dep_Version d + 1\<rparr>), t) \<and>
    repo_inv (repo_of t) \<and> in_store (item\<lparr>dep_Version := dep_Version d + 1\<rparr>) t \<and>
    worker_trail t = worker_trail s @ [(action, dep_ID d)] \<and> ww_ticks t = ww_ticks s"
proof -
  let ?d = "item\<lparr>dep_Version := dep_Version d + 1\<rparr>"
  obtain i where i: "find_index (\<lambda>x. dep_ID x = dep_ID d) (repo_items (repo_of s)) = Some i"
    "i < length (repo_items (repo_of s))" "repo_items (repo_of s) ! i = d" by (rule find_id[OF inv])
  let ?r = "(repo_of s)\<lparr>repo_items := (repo_items (repo_of s))[i := ?d]\<rparr>"
  have id: "dep_ID item = dep_ID d" using dep_refs_eq(1)[OF item(1)] .
  have sv: "mem_SaveClaimed None (repo_of s) item (dep_Version d) (rn_workerID rn) now = Inr (?d, ?r)"
    using u i l item(2) id
    by (auto simp: mem_SaveClaimed_def Let_def Lease_Active_def undisturbed_def)
  obtain recorder gen where cfg: "rn_transaction rn = Some (ManagerDatabase None)" "rn_audit rn = Some recorder"
    "rn_newID rn = Some gen" "\<And>ev. recorder ev = None" "\<And>n. \<exists>i. gen n = Inr i" "\<And>n. rn_ctx rn n = None"
    using u by (auto simp: undisturbed_def)
  obtain auditID where g: "gen (ww_ids s) = Inr auditID" using cfg(5) by blast
  have commit: "(case rn_commit rn of None \<Rightarrow> op_return ()
      | Some commit \<Rightarrow> if action = AuditActionCommitting then op_check (map_option WorkerRepo (commit ?d)) else op_return ()) w =
    (Inr (), w)" for w :: wworld
    using u by (auto simp: undisturbed_def op_check_def op_return_def split: option.split)
  have I: "ww_world (interfere rn (s\<lparr>ww_ids := k\<rparr>)) = ww_world s" "ww_ticks (interfere rn (s\<lparr>ww_ids := k\<rparr>)) = ww_ticks s" for k
    using interfere_undisturbed[OF u, of "s\<lparr>ww_ids := k\<rparr>"] by simp_all
  define t where "t = (interfere rn (s\<lparr>ww_ids := Suc (ww_ids s)\<rparr>))\<lparr>ww_world := (ww_world s)\<lparr>w_repo := ?r,
      w_audit := w_audit (ww_world s) @ [worker_event rn auditID item action now]\<rparr>\<rparr>"
  have e: "saveState rn item (dep_Version d) now action s = (Inr ?d, t)"
    using cfg g sv by (simp add: saveState_def op_bind_def worker_newID_def save_body_def apply_repo_def commit I
        worker_record_def op_return_def t_def)
  have "repo_inv ?r"
    by (rule repo_inv_update[OF inv(1) i(2)]) (use item(1) in \<open>simp add: i(3)\<close>)
  moreover have "?d \<in> set (repo_items ?r)" using i(2) by (simp add: set_update_memI)
  ultimately show ?thesis
    using id I e by (intro exI[of _ t]) (simp add: worker_trail_def worker_event_def t_def)
qed

lemma advance_ready:
  assumes u: "undisturbed rn" and r: "ready rn d s" and v: "transition_valid (dep_Status d) nxt" "nxt \<noteq> StatusFailed"
  shows "\<exists>d' t. advance rn d nxt s = (Inr d', t) \<and> dep_Status d' = nxt \<and> dep_ID d' = dep_ID d \<and> in_store d' t \<and>
    worker_trail t = worker_trail s @ [(auditAction nxt, dep_ID d)] \<and>
    (nxt \<noteq> StatusSucceeded \<and> nxt \<noteq> StatusCanceled \<longrightarrow> ready rn d' t)"
proof -
  let ?now = "rn_now rn (ww_ticks s)" and ?s = "s\<lparr>ww_ticks := Suc (ww_ticks s)\<rparr>"
  let ?final = "nxt = StatusSucceeded \<or> nxt = StatusCanceled"
  let ?renewed = "if nxt \<noteq> StatusSucceeded
    then d\<lparr>dep_Lease := (dep_Lease d)\<lparr>lease_ExpiresAt := ?now + rn_leaseDuration rn\<rparr>\<rparr> else d"
  let ?item = "?renewed\<lparr>dep_Status := nxt, dep_UpdatedAt := ?now, dep_FailureCategory := NoFailure,
    dep_Lease := (if ?final then empty_lease else dep_Lease ?renewed)\<rparr>"
  have inv: "repo_inv (repo_of ?s)" "in_store d ?s" and l: "lease_Owner (dep_Lease d) = rn_workerID rn"
    "?now < lease_ExpiresAt (dep_Lease d)" using r by (simp_all add: ready_def)
  have rn: "Renew (rn_workerID rn) ?now (?now + rn_leaseDuration rn) d = Inr
      (d\<lparr>dep_Lease := (dep_Lease d)\<lparr>lease_ExpiresAt := ?now + rn_leaseDuration rn\<rparr>\<rparr>)"
    using u l by (auto simp: Renew_Inr Lease_Active_def undisturbed_def)
  have tr: "Transition ?renewed nxt ?now = Inr ?item"
    using v by (auto simp: Transition_Inr)
  have item: "dep_refs ?item = dep_refs d" "Terminal ?item \<or> lease_Owner (dep_Lease ?item) = rn_workerID rn"
    using l by (auto simp: dep_refs_def Terminal_def)
  from save_ready[OF u inv l item, of "auditAction nxt"] obtain t where
    t: "saveState rn ?item (dep_Version d) ?now (auditAction nxt) ?s = (Inr (?item\<lparr>dep_Version := dep_Version d + 1\<rparr>), t)"
    "repo_inv (repo_of t)" "in_store (?item\<lparr>dep_Version := dep_Version d + 1\<rparr>) t"
    "worker_trail t = worker_trail ?s @ [(auditAction nxt, dep_ID d)]" "ww_ticks t = ww_ticks ?s" by blast
  have e: "advance rn d nxt s = (Inr (?item\<lparr>dep_Version := dep_Version d + 1\<rparr>), t)"
    using t(1) rn tr by (cases "nxt = StatusSucceeded")
      (simp_all add: advance_def op_bind_def worker_now_def lift_dep_def op_lift_def op_return_def)
  have "rn_now rn (Suc (ww_ticks s)) < ?now + rn_leaseDuration rn" using u by (simp add: undisturbed_def)
  then have "?final \<or> ready rn (?item\<lparr>dep_Version := dep_Version d + 1\<rparr>) t"
    using t(2,3,5) l by (auto simp: ready_def)
  with t e show ?thesis
    by (intro exI[of _ "?item\<lparr>dep_Version := dep_Version d + 1\<rparr>"] exI[of _ t]) (auto simp: worker_trail_def)
qed

lemma beats_ready:
  assumes u: "undisturbed rn"
  shows "ready rn d s \<Longrightarrow> \<exists>d' t. run_beats rn n d s = (Inr d', t) \<and> ready rn d' t \<and>
    dep_Status d' = dep_Status d \<and> dep_ID d' = dep_ID d \<and> worker_trail t = worker_trail s"
proof (induction n arbitrary: d s)
  case (Suc n)
  from renew_ready[OF u Suc.prems, of WorkerLeaseRenewal] obtain d1 s1 where
    r: "runner_renew rn WorkerLeaseRenewal d s = (Inr d1, s1)" "ready rn d1 s1" "dep_Status d1 = dep_Status d"
      "dep_ID d1 = dep_ID d" "worker_trail s1 = worker_trail s" by blast
  from Suc.IH[OF r(2)] r show ?case by (auto simp: op_bind_def)
qed (simp add: op_return_def)

lemma runStep_ready:
  assumes u: "undisturbed rn" and r: "ready rn d s"
  shows "\<exists>d' t. runStep rn p d s = (Inr (d', None), t) \<and> ready rn d' t \<and>
    dep_Status d' = dep_Status d \<and> dep_ID d' = dep_ID d \<and> worker_trail t = worker_trail s"
proof -
  from renew_ready[OF u r, of WorkerLeaseRenewal] obtain d1 s1 where
    r1: "runner_renew rn WorkerLeaseRenewal d s = (Inr d1, s1)" "ready rn d1 s1" "dep_Status d1 = dep_Status d"
      "dep_ID d1 = dep_ID d" "worker_trail s1 = worker_trail s" by blast
  have "ready rn d1 (start_call p d1 s1)" "worker_trail (start_call p d1 s1) = worker_trail s1"
    using r1(2) by (simp_all add: ready_def start_call_def worker_trail_def)
  moreover have "sr_end (rn_execute rn n p d1) = StepResult None" for n using u by (simp add: undisturbed_def)
  ultimately show ?thesis
    using r1 beats_ready[OF u, of d1 "start_call p d1 s1" "sr_beats (rn_execute rn (length (ww_calls s1)) p d1)"]
    by (auto simp: runStep_def op_bind_def Let_def op_return_def)
qed

text \<open>The stages from one status on.\<close>

definition from_committing :: "runner \<Rightarrow> Deployment \<Rightarrow> unit wop" where
  "from_committing rn d = op_bind (stage_committing rn d) (\<lambda>d. op_bind (stage_canceling rn d) (\<lambda>_. op_return ()))"

definition from_deploying :: "runner \<Rightarrow> Deployment \<Rightarrow> unit wop" where
  "from_deploying rn d = op_bind (stage_deploying rn d) (from_committing rn)"

definition from_preparing :: "runner \<Rightarrow> Deployment \<Rightarrow> unit wop" where
  "from_preparing rn d = op_bind (stage_preparing rn d) (from_deploying rn)"

definition from_queued :: "runner \<Rightarrow> Deployment \<Rightarrow> unit wop" where
  "from_queued rn d = op_bind (stage_queued rn d) (from_preparing rn)"

lemma RunOnce_from:
  "RunOnce rn = op_bind (worker_now rn) (\<lambda>now. op_bind (shared rn WorkerRepo (\<lambda>ctx r. mem_ClaimNext ctx r
       \<lparr>claim_WorkerID = rn_workerID rn, claim_Now = now, claim_ExpiresAt = now + rn_leaseDuration rn\<rparr>))
     (\<lambda>found. case found of None \<Rightarrow> op_return () | Some item \<Rightarrow> from_queued rn item))"
  unfolding RunOnce_def from_queued_def from_preparing_def[abs_def] from_deploying_def[abs_def]
    from_committing_def[abs_def] ..

definition finishes :: "unit wop \<Rightarrow> Deployment \<Rightarrow> wworld \<Rightarrow> Status \<Rightarrow> audit_action list \<Rightarrow> bool" where
  "finishes m d s final actions \<longleftrightarrow> (\<exists>e t. m s = (Inr (), t) \<and> in_store e t \<and> dep_ID e = dep_ID d \<and>
     dep_Status e = final \<and> worker_trail t = worker_trail s @ map (\<lambda>a. (a, dep_ID d)) actions)"

lemma skip_stages [simp]:
  "dep_Status d \<noteq> StatusQueued \<Longrightarrow> from_queued rn d = from_preparing rn d"
  "dep_Status d \<noteq> StatusPreparing \<Longrightarrow> from_preparing rn d = from_deploying rn d"
  "dep_Status d \<noteq> StatusDeploying \<Longrightarrow> from_deploying rn d = from_committing rn d"
  by (simp_all add: from_queued_def stage_queued_def from_preparing_def stage_preparing_def
      from_deploying_def stage_deploying_def op_bind_def op_return_def fun_eq_iff)

lemma finishes_committing:
  assumes u: "undisturbed rn" and r: "ready rn d s" and st: "dep_Status d = StatusCommitting"
  shows "finishes (from_committing rn d) d s StatusSucceeded [AuditActionSucceeded]"
proof -
  from runStep_ready[OF u r, of PhaseCommit] obtain h s1 where h: "runStep rn PhaseCommit d s = (Inr (h, None), s1)"
    "ready rn h s1" "dep_Status h = dep_Status d" "dep_ID h = dep_ID d" "worker_trail s1 = worker_trail s" by blast
  have "transition_valid (dep_Status h) StatusSucceeded" using h(3) st by (simp add: transition_valid_def)
  from advance_ready[OF u h(2) this] obtain e t where e: "advance rn h StatusSucceeded s1 = (Inr e, t)"
    "dep_Status e = StatusSucceeded" "dep_ID e = dep_ID h" "in_store e t"
    "worker_trail t = worker_trail s1 @ [(AuditActionSucceeded, dep_ID h)]" by auto
  have "from_committing rn d s = (Inr (), t)"
    using st h(1,3) e(1) by (simp add: from_committing_def stage_committing_def op_bind_def then_advance_def
        op_return_def stage_canceling_def)
  with e h show ?thesis by (auto simp: finishes_def)
qed

lemma finishes_canceling:
  assumes u: "undisturbed rn" and r: "ready rn d s" and st: "dep_Status d = StatusCanceling"
  shows "finishes (from_committing rn d) d s StatusCanceled [AuditActionCanceled]"
proof -
  from runStep_ready[OF u r, of PhaseCancel] obtain h s1 where h: "runStep rn PhaseCancel d s = (Inr (h, None), s1)"
    "ready rn h s1" "dep_Status h = dep_Status d" "dep_ID h = dep_ID d" "worker_trail s1 = worker_trail s" by blast
  have "transition_valid (dep_Status h) StatusCanceled" using h(3) st by (simp add: transition_valid_def)
  from advance_ready[OF u h(2) this] obtain e t where e: "advance rn h StatusCanceled s1 = (Inr e, t)"
    "dep_Status e = StatusCanceled" "dep_ID e = dep_ID h" "in_store e t"
    "worker_trail t = worker_trail s1 @ [(AuditActionCanceled, dep_ID h)]" by auto
  have "from_committing rn d s = (Inr (), t)"
    using st h(1,3) e(1) by (simp add: from_committing_def stage_committing_def op_bind_def then_advance_def
        op_return_def stage_canceling_def)
  with e h show ?thesis by (auto simp: finishes_def)
qed

text \<open>A step and a change of status that is not the last, followed by a run that finishes.\<close>

lemma finishes_step:
  assumes u: "undisturbed rn" and r: "ready rn d s"
    and m: "m = op_bind (runStep rn p d) (then_advance rn nxt onError)"
    and v: "transition_valid (dep_Status d) nxt" "nxt \<noteq> StatusFailed" "nxt \<noteq> StatusSucceeded" "nxt \<noteq> StatusCanceled"
    and rest: "\<And>e t. ready rn e t \<Longrightarrow> dep_Status e = nxt \<Longrightarrow> finishes (rest e) e t final actions"
  shows "finishes (op_bind m rest) d s final (auditAction nxt # actions)"
proof -
  from runStep_ready[OF u r, of p] obtain h s1 where h: "runStep rn p d s = (Inr (h, None), s1)"
    "ready rn h s1" "dep_Status h = dep_Status d" "dep_ID h = dep_ID d" "worker_trail s1 = worker_trail s" by blast
  from advance_ready[OF u h(2), of nxt] v h(3) obtain e t where e: "advance rn h nxt s1 = (Inr e, t)"
    "dep_Status e = nxt" "dep_ID e = dep_ID h" "ready rn e t"
    "worker_trail t = worker_trail s1 @ [(auditAction nxt, dep_ID h)]" by auto
  have "op_bind m rest s = rest e t" unfolding m using h(1) e(1) by (simp add: op_bind_def then_advance_def)
  with rest[OF e(4,2)] e h show ?thesis by (auto simp: finishes_def)
qed

lemma finishes_deploying:
  assumes u: "undisturbed rn" and r: "ready rn d s" and st: "dep_Status d = StatusDeploying"
  shows "finishes (from_deploying rn d) d s StatusSucceeded [AuditActionCommitting, AuditActionSucceeded]"
  unfolding from_deploying_def
  using finishes_step[OF u r, of "stage_deploying rn d" PhaseDeploy StatusCommitting] finishes_committing[OF u] st
  by (simp add: stage_deploying_def transition_valid_def)

lemma finishes_preparing:
  assumes u: "undisturbed rn" and r: "ready rn d s" and st: "dep_Status d = StatusPreparing"
  shows "finishes (from_preparing rn d) d s StatusSucceeded
    [AuditActionDeploying, AuditActionCommitting, AuditActionSucceeded]"
  unfolding from_preparing_def
  using finishes_step[OF u r, of "stage_preparing rn d" PhasePrepare StatusDeploying] finishes_deploying[OF u] st
  by (simp add: stage_preparing_def transition_valid_def)

lemma finishes_queued:
  assumes u: "undisturbed rn" and r: "ready rn d s" and st: "dep_Status d = StatusQueued"
  shows "finishes (from_queued rn d) d s StatusSucceeded
    [AuditActionPreparing, AuditActionDeploying, AuditActionCommitting, AuditActionSucceeded]"
proof -
  from advance_ready[OF u r, of StatusPreparing] st obtain e t where e: "advance rn d StatusPreparing s = (Inr e, t)"
    "dep_Status e = StatusPreparing" "dep_ID e = dep_ID d" "ready rn e t"
    "worker_trail t = worker_trail s @ [(AuditActionPreparing, dep_ID d)]" by (auto simp: transition_valid_def)
  have "from_queued rn d s = from_preparing rn e t"
    using e(1) st by (simp add: from_queued_def stage_queued_def op_bind_def)
  with finishes_preparing[OF u e(4,2)] e show ?thesis by (auto simp: finishes_def)
qed

text \<open>What is left to do from a claimable status.\<close>

fun remaining_actions :: "Status \<Rightarrow> audit_action list" where
  "remaining_actions StatusQueued = [AuditActionPreparing, AuditActionDeploying, AuditActionCommitting, AuditActionSucceeded]"
| "remaining_actions StatusPreparing = [AuditActionDeploying, AuditActionCommitting, AuditActionSucceeded]"
| "remaining_actions StatusDeploying = [AuditActionCommitting, AuditActionSucceeded]"
| "remaining_actions StatusCommitting = [AuditActionSucceeded]"
| "remaining_actions StatusCanceling = [AuditActionCanceled]"
| "remaining_actions _ = []"

lemma finishes_claimable:
  assumes u: "undisturbed rn" and r: "ready rn d s" and st: "claimable_status (dep_Status d)"
  shows "finishes (from_queued rn d) d s
    (if dep_Status d = StatusCanceling then StatusCanceled else StatusSucceeded) (remaining_actions (dep_Status d))"
  using st finishes_queued[OF u r] finishes_preparing[OF u r] finishes_deploying[OF u r]
    finishes_committing[OF u r] finishes_canceling[OF u r]
  by (cases "dep_Status d") simp_all

text \<open>
  C5: undisturbed, one run of the worker brings the first available deployment to its end: a
  cancellation is carried out, any other deployment succeeds, however many heartbeats its steps take,
  and the audit log gains one event for each status it still had to pass, in order.
\<close>

theorem undisturbed_run_finishes:
  assumes u: "undisturbed rn" and inv: "repo_inv (repo_of s)"
    and i: "i < length (repo_items (repo_of s))" "available (rn_now rn (ww_ticks s)) (repo_items (repo_of s) ! i)"
    and first: "\<And>j. j < i \<Longrightarrow> \<not> available (rn_now rn (ww_ticks s)) (repo_items (repo_of s) ! j)"
  shows "\<exists>e t. RunOnce rn s = (Inr (), t) \<and> e \<in> set (repo_items (repo_of t)) \<and>
    dep_ID e = dep_ID (repo_items (repo_of s) ! i) \<and>
    dep_Status e = (if dep_Status (repo_items (repo_of s) ! i) = StatusCanceling then StatusCanceled else StatusSucceeded) \<and>
    worker_trail t = worker_trail s @ map (\<lambda>a. (a, dep_ID e)) (remaining_actions (dep_Status (repo_items (repo_of s) ! i)))"
proof -
  let ?d = "repo_items (repo_of s) ! i" and ?now = "rn_now rn (ww_ticks s)"
  define c where "c = \<lparr>claim_WorkerID = rn_workerID rn, claim_Now = ?now, claim_ExpiresAt = ?now + rn_leaseDuration rn\<rparr>"
  let ?r = "(repo_of s)\<lparr>repo_items := (repo_items (repo_of s))[i := claimed c ?d]\<rparr>"
  have "find_index (available ?now) (repo_items (repo_of s)) = Some i"
  proof (cases "find_index (available ?now) (repo_items (repo_of s))")
    case None
    with i show ?thesis by (auto simp: find_index_None)
  next
    case (Some j)
    with find_index_Some[OF Some] i(2) first show ?thesis by (metis linorder_neqE_nat)
  qed
  moreover have "Claim_Validate c = None" "rn_ctx rn (ww_turn s) = None" using u by (simp_all add: c_def undisturbed_def)
  ultimately have cl: "mem_ClaimNext (rn_ctx rn (ww_turn s)) (repo_of s) c = Inr (Some (claimed c ?d), ?r)"
    by (simp add: ClaimNext_eq claim_first_def c_def)
  define t where "t = (interfere rn (s\<lparr>ww_ticks := Suc (ww_ticks s)\<rparr>))\<lparr>ww_world := (ww_world s)\<lparr>w_repo := ?r\<rparr>\<rparr>"
  note I = interfere_undisturbed[OF u, of "s\<lparr>ww_ticks := Suc (ww_ticks s)\<rparr>"]
  have "repo_inv ?r" by (rule repo_inv_update[OF inv i(1) claimed_refs])
  moreover have "rn_now rn (Suc (ww_ticks s)) < ?now + rn_leaseDuration rn" "trim_space (rn_workerID rn) = rn_workerID rn"
    using u by (simp_all add: undisturbed_def)
  ultimately have r: "ready rn (claimed c ?d) t"
    using I i(1) by (simp add: ready_def t_def claimed_def c_def set_update_memI)
  have "claimable_status (dep_Status (claimed c ?d))" using i(2) by (simp add: available_def claimed_def)
  from finishes_claimable[OF u r this] obtain e v where "from_queued rn (claimed c ?d) t = (Inr (), v)"
    "in_store e v" "dep_ID e = dep_ID (claimed c ?d)"
    "dep_Status e = (if dep_Status (claimed c ?d) = StatusCanceling then StatusCanceled else StatusSucceeded)"
    "worker_trail v = worker_trail t @ map (\<lambda>a. (a, dep_ID (claimed c ?d))) (remaining_actions (dep_Status (claimed c ?d)))"
    by (auto simp: finishes_def)
  moreover have "RunOnce rn s = from_queued rn (claimed c ?d) t"
    using cl I by (simp add: RunOnce_from op_bind_def worker_now_def shared_def apply_repo_def t_def c_def)
  moreover have "worker_trail t = worker_trail s" by (simp add: worker_trail_def t_def)
  ultimately show ?thesis by (intro exI[of _ e] exI[of _ v]) (simp add: claimed_def)
qed

section \<open>A sample run\<close>

text \<open>A worker whose steps take two heartbeats each, over the repository with one queued deployment.\<close>

definition sample_runner :: runner where
  "sample_runner = \<lparr>rn_workerID = ''w'', rn_leaseDuration = 1000, rn_now = (\<lambda>n. int n + 2000),
     rn_transaction = Some (ManagerDatabase None), rn_audit = Some (\<lambda>_. None),
     rn_newID = Some (\<lambda>n. Inr (replicate (Suc n) CHR ''j'')), rn_commit = None,
     rn_execute = (\<lambda>_ _ _. \<lparr>sr_beats = 2, sr_end = StepResult None\<rparr>),
     rn_others = (\<lambda>_ w. w), rn_ctx = (\<lambda>_. None)\<rparr>"

definition sample_wworld :: wworld where
  "sample_wworld = \<lparr>ww_world = sample_world, ww_turn = 0, ww_ticks = 0, ww_ids = 0, ww_calls = []\<rparr>"

lemma sample_undisturbed: "undisturbed sample_runner"
  by (simp add: undisturbed_def sample_runner_def)

theorem undisturbed_run_finishes_witness:
  "\<exists>e t. RunOnce sample_runner sample_wworld = (Inr (), t) \<and> e \<in> set (repo_items (repo_of t)) \<and>
     dep_ID e = ''i'' \<and> dep_Status e = StatusSucceeded"
proof -
  have "repo_inv (repo_of sample_wworld)" using sample_ok by (simp add: repo_ok_def sample_wworld_def)
  from undisturbed_run_finishes[OF sample_undisturbed this, of 0] show ?thesis
    using sample_available by (simp add: sample_wworld_def sample_runner_def)
      (auto simp: sample_deployment_def)
qed

text \<open>
  For the run under interference a user cancels the deployment while the worker prepares it: before the
  fourth access of the worker.
\<close>

definition sample_disturbed :: runner where
  "sample_disturbed = sample_runner\<lparr>rn_others := (\<lambda>n w. if n = 3
     then (case repo_items (w_repo w) of
         [d] \<Rightarrow> (case Cancel d 2500 of
             Inr e \<Rightarrow> (case mem_Save None (w_repo w) e (dep_Version d) of Inr (_, r) \<Rightarrow> w\<lparr>w_repo := r\<rparr> | Inl _ \<Rightarrow> w)
           | Inl _ \<Rightarrow> w)
       | _ \<Rightarrow> w)
     else w)\<rparr>"

lemma fair_step:
  assumes "\<And>n w. repo_ok (w_repo w) \<Longrightarrow> w_repo (rn_others rn n w) = w_repo w \<or>
      repo_step (w_repo w) (w_repo (rn_others rn n w))"
  shows "fair rn"
  unfolding fair_def
proof (intro allI impI)
  fix n and w :: world
  assume ok: "repo_ok (w_repo w)"
  then have inv: "repo_inv (w_repo w)" by (simp add: repo_ok_def)
  show "repo_reachable (w_repo w) (w_repo (rn_others rn n w)) \<and> changed_versions (w_repo w) (w_repo (rn_others rn n w))"
    using assms[OF ok, of n] repo_step_versions[OF _ ok] changed_versions_refl[OF inv]
    by (auto intro: reach_here reach_step)
qed

lemma sample_fair: "fair sample_disturbed"
proof (rule fair_step)
  fix n and w :: world
  show "w_repo (rn_others sample_disturbed n w) = w_repo w \<or> repo_step (w_repo w) (w_repo (rn_others sample_disturbed n w))"
    by (auto simp: sample_disturbed_def sample_runner_def split: list.splits sum.splits intro: rs_cancel)
qed

theorem worker_acts_under_its_lease_witness:
  "\<exists>x t. RunOnce sample_disturbed sample_wworld = (x, t) \<and>
     repo_reachable (repo_of sample_wworld) (repo_of t) \<and>
     (\<forall>(p, d, r) \<in> set (ww_calls t). lease_Owner (dep_Lease d) = ''w'')"
proof -
  obtain x t where r: "RunOnce sample_disturbed sample_wworld = (x, t)" by fastforce
  have g: "lease_Generation (dep_Lease e) \<noteq> -1" if "e \<in> set (repo_items (repo_of (interfere sample_disturbed sample_wworld)))" for e
    using that by (simp add: interfere_def sample_wworld_def sample_disturbed_def sample_runner_def)
  have "repo_ok (repo_of sample_wworld)" "ww_calls sample_wworld = []" "rn_workerID sample_disturbed = ''w''"
    using sample_ok by (simp_all add: sample_wworld_def sample_disturbed_def sample_runner_def)
  with worker_acts_under_its_lease[OF sample_fair this(1,2) g r] r show ?thesis by fastforce
qed

theorem worker_status_has_its_event_witness:
  "\<exists>x t. saveState sample_runner sample_deployment 1 5 AuditActionPreparing sample_wworld = (x, t) \<and>
     (ww_world t = ww_world sample_wworld \<or> w_audit (ww_world t) \<noteq> w_audit (ww_world sample_wworld))"
proof -
  obtain x t where r: "saveState sample_runner sample_deployment 1 5 AuditActionPreparing sample_wworld = (x, t)"
    by fastforce
  have c: "rn_transaction sample_runner = Some (ManagerDatabase None)" "rn_audit sample_runner = Some (\<lambda>_. None)"
    "rn_newID sample_runner = Some (\<lambda>n. Inr (replicate (Suc n) CHR ''j''))"
    and w: "ww_world (interfere sample_runner sample_wworld) = ww_world sample_wworld"
    by (simp_all add: sample_runner_def interfere_def)
  from worker_status_has_its_event[OF c r] r w show ?thesis by auto
qed

end
