(* ===== verification/BuildRules.thy ===== *)
theory BuildRules
  imports TextRules LeaseContract
begin

text \<open>
  The build module's errors and its rules for names, repository paths and Git references
  (\<open>internal/modules/build/biz/{source,build_configuration,build_execution,checkout}.go\<close>).
\<close>

datatype build_error =
    ErrDuplicateName
  | ErrNotFound
  | ErrInvalidCredential
  | ErrInvalidSourceRepository
  | ErrCredentialProtocolMismatch
  | ErrInvalidBuildConfiguration
  | ErrAutomaticDeploymentDenied
  | ErrVersionConflict
  | ErrRegistryMismatch
  | ErrInvalidBuild
  | ErrRevisionNotFound
  | ErrRevisionMismatch
  | ErrRevisionResolveUnavailable
  | ErrDuplicateIdempotency
  | ErrIdempotencyMismatch
  | ErrInvalidBuildTrigger
  | ErrInvalidBuildTriggerToken
  | ErrBuildTriggerRevoked
  | ErrBuildTriggerRateLimited
  | ErrWebhookRateLimited
  | ErrInvalidBuildHook
  | ErrInvalidWebhook
  | ErrInvalidWebhookSignature
  | ErrWebhookSecretUnavailable
  | ErrDuplicateWebhookDelivery
  | ErrInvalidBuildTransition
  | ErrInvalidBuildLease
  | ErrBuildNotClaimable
  | ErrBuildLeaseExpired
  | ErrInvalidBuildFailure
  | ErrBuildRetryRequiresFailed
  | ErrInvalidArtifact
  | ErrDuplicateArtifact
  | ErrArtifactReleaseUnavailable
  | ErrArtifactAlreadyReleased
  | ErrArtifactRegistryAuthentication
  | ErrArtifactRegistryUnavailable
  | ErrArtifactRegistryIntegrity
  | ErrInvalidBuildExecution
  | ErrBuildKitUnavailable
  | ErrBuildExecutionFailed
  | ErrBuildNetworkDenied
  | ErrBuildResourceLimit
  | ErrRegistryAuthentication
  | ErrRegistryPushFailed
  | ErrInvalidBuildOutput
  | ErrRegistrySecretUnavailable
  | ErrCheckoutAuthentication
  | ErrCheckoutUnreachable
  | ErrCheckoutRevision
  | ErrCheckoutResourceLimit
  | ErrCheckoutFailed

section \<open>Names\<close>

definition build_identifier_tail :: "char \<Rightarrow> bool" where
  "build_identifier_tail c \<longleftrightarrow> is_alnum c \<or> c \<in> set ''._:-''"

text \<open>The pattern of the identifiers of this module.\<close>

definition build_validIdentifier :: "string \<Rightarrow> bool" where
  "build_validIdentifier value \<longleftrightarrow> matches_id is_alnum build_identifier_tail 127 value"

definition hasUnsafeText :: "string \<Rightarrow> bool" where
  "hasUnsafeText value \<longleftrightarrow> has_control value"

definition validName :: "string \<Rightarrow> bool" where
  "validName value \<longleftrightarrow> value \<noteq> [] \<and> length value \<le> 100 \<and> \<not> hasUnsafeText value"

definition base64_char :: "char \<Rightarrow> bool" where
  "base64_char c \<longleftrightarrow> is_alnum c \<or> c \<in> set ''+/''"

definition validSSHFingerprint :: "string \<Rightarrow> bool" where
  "validSSHFingerprint value \<longleftrightarrow>
     has_prefix value ''SHA256:'' \<and> length value = 50 \<and> list_all base64_char (drop 7 value)"

definition commitSHAPattern :: "string \<Rightarrow> bool" where
  "commitSHAPattern value \<longleftrightarrow> length value = 40 \<and> list_all is_lower_hex_digit value"

section \<open>Git references\<close>

definition validGitBranch :: "string \<Rightarrow> bool" where
  "validGitBranch value \<longleftrightarrow>
     \<not> (value = [] \<or> 255 < length value \<or> value = ''@'' \<or> has_prefix value ''.'' \<or>
        has_suffix value ''.'' \<or> has_prefix value ''refs/'' \<or> has_prefix value ''/'' \<or>
        has_suffix value ''/'' \<or> has_suffix value ''.lock'' \<or> contains value ''..'' \<or>
        contains value [CHR ''@'', CHR 0x7B] \<or> contains value ''//'') \<and>
     \<not> (has_space value \<or> has_control value \<or>
        list_ex (\<lambda>c. c \<in> set [CHR ''~'', CHR ''^'', CHR '':'', CHR ''?'', CHR ''*'', CHR ''['', CHR 0x5C]) value) \<and>
     list_all (\<lambda>component. \<not> (component = [] \<or> has_prefix component ''.'' \<or> has_suffix component ''.lock''))
       (split_char CHR ''/'' value)"

text \<open>The part of a full reference below \<open>refs/heads/\<close> or \<open>refs/tags/\<close>.\<close>

definition short_ref :: "string \<Rightarrow> string option" where
  "short_ref value =
     (if has_prefix value ''refs/heads/'' then Some (trim_prefix value ''refs/heads/'')
      else if has_prefix value ''refs/tags/'' then Some (trim_prefix value ''refs/tags/'')
      else None)"

fun collect_refs :: "string list \<Rightarrow> string set \<Rightarrow> string list option" where
  "collect_refs [] unique = Some []"
| "collect_refs (v # vs) unique =
     (let value = trim_space v in
      case short_ref value of
        None \<Rightarrow> None
      | Some short \<Rightarrow>
          if \<not> validGitBranch short then None
          else if value \<in> unique then None
          else map_option ((#) value) (collect_refs vs (insert value unique)))"

definition normalizeAllowedRefs :: "string list \<Rightarrow> string list option" where
  "normalizeAllowedRefs values =
     (if values = [] \<or> 32 < length values then None
      else map_option sort (collect_refs values {}))"

definition validExactRef :: "string \<Rightarrow> bool" where
  "validExactRef value \<longleftrightarrow> normalizeAllowedRefs [value] \<noteq> None"

definition valid_ref :: "string \<Rightarrow> bool" where
  "valid_ref value \<longleftrightarrow> trim_space value = value \<and> (\<exists>short. short_ref value = Some short \<and> validGitBranch short)"

text \<open>What the loop checks of one value.\<close>

lemma valid_ref_step:
  "valid_ref (trim_space v) \<longleftrightarrow>
     (case short_ref (trim_space v) of None \<Rightarrow> False | Some short \<Rightarrow> validGitBranch short)"
  unfolding valid_ref_def by (auto split: option.splits)

lemma collect_refs_step:
  "collect_refs (v # vs) unique =
     (if valid_ref (trim_space v) \<and> trim_space v \<notin> unique
      then map_option ((#) (trim_space v)) (collect_refs vs (insert (trim_space v) unique)) else None)"
  unfolding collect_refs.simps Let_def valid_ref_step by (cases "short_ref (trim_space v)") simp_all

lemma collect_refs_Some:
  "collect_refs vs unique = Some rs \<longleftrightarrow>
     rs = map trim_space vs \<and> distinct rs \<and> set rs \<inter> unique = {} \<and> (\<forall>r \<in> set rs. valid_ref r)"
proof (induction vs arbitrary: unique rs)
  case (Cons v vs)
  have "collect_refs (v # vs) unique = Some rs \<longleftrightarrow>
      valid_ref (trim_space v) \<and> trim_space v \<notin> unique \<and>
      (\<exists>qs. rs = trim_space v # qs \<and> collect_refs vs (insert (trim_space v) unique) = Some qs)"
    unfolding collect_refs_step by (simp add: map_option_eq_Some) blast
  then show ?case unfolding Cons.IH by (cases rs) auto
qed auto

lemma normalizeAllowedRefs_Some:
  "normalizeAllowedRefs values = Some rs \<longleftrightarrow>
     values \<noteq> [] \<and> length values \<le> 32 \<and> rs = sort (map trim_space values) \<and>
     distinct (map trim_space values) \<and> (\<forall>r \<in> set rs. valid_ref r)"
  by (auto simp: normalizeAllowedRefs_def collect_refs_Some)

lemma valid_ref_trimmed: "valid_ref r \<Longrightarrow> trim_space r = r"
  by (simp add: valid_ref_def)

lemma trimmed_refs: "\<forall>r \<in> set rs. valid_ref r \<Longrightarrow> map trim_space rs = rs"
  by (simp add: map_idI valid_ref_trimmed)

lemma normalizeAllowedRefs_idem:
  assumes "normalizeAllowedRefs values = Some rs"
  shows "normalizeAllowedRefs rs = Some rs"
proof -
  from assms have rs: "values \<noteq> []" "length values \<le> 32" "rs = sort (map trim_space values)"
    "distinct (map trim_space values)" "\<forall>r \<in> set rs. valid_ref r"
    by (auto simp: normalizeAllowedRefs_Some)
  have "length rs = length values" "distinct rs" "sort rs = rs"
    using rs(3,4) by (simp_all add: sort_key_id_if_sorted)
  then have "rs \<noteq> []" "length rs \<le> 32" using rs(1,2) by auto
  then show ?thesis
    using rs(5) \<open>distinct rs\<close> \<open>sort rs = rs\<close> by (simp add: normalizeAllowedRefs_Some trimmed_refs)
qed

section \<open>Repository paths\<close>

text \<open>
  \<open>None\<close> stands for a false second result; no caller reads the first one then. The source's test for
  an empty value after the trimming cannot succeed at its last use.
\<close>

definition safeRepositoryPath :: "string \<Rightarrow> bool \<Rightarrow> string option" where
  "safeRepositoryPath v allowRoot =
     (let trimmed = trim_space v;
          value = (if trimmed = [] \<and> allowRoot then ''.'' else trimmed);
          cleaned = path_clean value
      in if value = [] \<or> 255 < length value \<or> CHR 0x5C \<in> set value \<or> CHR 0x00 \<in> set value \<or>
            has_prefix value ''/'' then None
         else if cleaned = ''..'' \<or> has_prefix cleaned ''../'' \<or> (\<not> allowRoot \<and> cleaned = ''.'') then None
         else if cleaned = value \<or> value = [] then Some cleaned else None)"

definition pathWithinContext :: "string \<Rightarrow> string \<Rightarrow> bool" where
  "pathWithinContext contextPath filePath \<longleftrightarrow>
     contextPath = ''.'' \<or> filePath = contextPath \<or> has_prefix filePath (contextPath @ ''/'')"

text \<open>The entries a canonical path names below the root of the checkout.\<close>

definition path_entries :: "string \<Rightarrow> string list" where
  "path_entries p = (if p = ''.'' then [] else split_char CHR ''/'' p)"

lemma safeRepositoryPath_Some:
  assumes "safeRepositoryPath v root = Some p"
  shows "path_clean p = p" "\<not> has_prefix p ''/''" "p \<noteq> ''..''" "\<not> has_prefix p ''../''"
    "root \<or> p \<noteq> ''.''" "p \<noteq> []" "length p \<le> 255" "CHR 0x5C \<notin> set p" "CHR 0x00 \<notin> set p"
  using assms unfolding safeRepositoryPath_def Let_def by (auto split: if_splits)

lemma trim_space_dot: "trim_space ''.'' = ''.''"
  by code_simp

lemma safeRepositoryPath_trimmed: "safeRepositoryPath v root = Some p \<Longrightarrow> trim_space p = p"
  unfolding safeRepositoryPath_def Let_def
  by (auto split: if_splits simp: trim_space_dot simp del: trim_space_ne_Nil)

lemma safeRepositoryPath_fixed:
  assumes "safeRepositoryPath v root = Some p"
  shows "safeRepositoryPath p root = Some p"
proof -
  note s = safeRepositoryPath_Some[OF assms]
  show ?thesis
    unfolding safeRepositoryPath_def Let_def safeRepositoryPath_trimmed[OF assms]
    using s by simp
qed

lemma safe_path_plain:
  assumes "safeRepositoryPath v root = Some p"
  shows "\<forall>w \<in> set (path_entries p). plain w"
  using clean_relative_plain[of p] safeRepositoryPath_Some[OF assms]
  by (auto simp: path_entries_def)

lemma join_path_entries: "p \<noteq> ''.'' \<Longrightarrow> join_char CHR ''/'' (path_entries p) = p"
  by (simp add: path_entries_def join_split)

lemma path_entries_ne: "p \<noteq> ''.'' \<Longrightarrow> path_entries p \<noteq> []"
  by (simp add: path_entries_def)

text \<open>An accepted path, followed from any directory of the checkout, never leaves that directory.\<close>

lemma safe_path_walk:
  "safeRepositoryPath v root = Some p \<Longrightarrow> walk dir (split_char CHR ''/'' p) = Some (dir @ path_entries p)"
proof (cases "p = ''.''")
  case True
  then show ?thesis by (simp add: path_entries_def)
next
  case False
  assume "safeRepositoryPath v root = Some p"
  from walk_plain[OF safe_path_plain[OF this]] False show ?thesis by (simp add: path_entries_def)
qed

lemma context_prefix:
  assumes "safeRepositoryPath c True = Some cp" "safeRepositoryPath f False = Some fp"
  shows "pathWithinContext cp fp \<longleftrightarrow> prefix (path_entries cp) (path_entries fp)"
proof (cases "cp = ''.''")
  case True
  then show ?thesis by (simp add: pathWithinContext_def path_entries_def)
next
  case False
  have fp: "fp \<noteq> ''.''" using safeRepositoryPath_Some(5)[OF assms(2)] by simp
  note cj = join_path_entries[OF False] and fj = join_path_entries[OF fp]
  have "pathWithinContext cp fp \<longleftrightarrow> fp = cp \<or> prefix (cp @ ''/'') fp"
    using False by (simp add: pathWithinContext_def has_prefix_prefix)
  also have "\<dots> \<longleftrightarrow> prefix (path_entries cp) (path_entries fp)"
  proof
    assume "fp = cp \<or> prefix (cp @ ''/'') fp"
    then show "prefix (path_entries cp) (path_entries fp)"
    proof
      assume "prefix (cp @ ''/'') fp"
      then obtain r where "fp = cp @ CHR ''/'' # r" by (auto simp: prefix_def)
      then have "fp = join_char CHR ''/'' (path_entries cp @ split_char CHR ''/'' r)"
        by (simp add: join_char_append path_entries_ne[OF False] cj join_split)
      moreover have "\<forall>w \<in> set (path_entries cp @ split_char CHR ''/'' r). CHR ''/'' \<notin> set w"
        using safe_path_plain[OF assms(1)] by (auto simp: plain_def dest: split_char_no_sep)
      ultimately have "path_entries fp = path_entries cp @ split_char CHR ''/'' r"
        using fp split_join[of "path_entries cp @ split_char CHR ''/'' r" "CHR ''/''"]
        by (simp add: path_entries_def)
      then show ?thesis by simp
    qed simp
  next
    assume "prefix (path_entries cp) (path_entries fp)"
    then obtain rest where r: "path_entries fp = path_entries cp @ rest" by (auto simp: prefix_def)
    show "fp = cp \<or> prefix (cp @ ''/'') fp"
    proof (cases "rest = []")
      case True
      with r cj fj show ?thesis by simp
    next
      case ne: False
      have "fp = join_char CHR ''/'' (path_entries cp @ rest)" using fj r by simp
      also have "\<dots> = cp @ CHR ''/'' # join_char CHR ''/'' rest"
        using join_char_append[OF path_entries_ne[OF False] ne] cj by simp
      finally show ?thesis by simp
    qed
  qed
  finally show ?thesis .
qed

end
