(* ===== verification/BuildConfiguration.thy ===== *)
theory BuildConfiguration
  imports BuildRules RuntimeSpec
begin

text \<open>
  Build configurations (\<open>internal/modules/build/biz/build_configuration.go\<close>): defaults, changes and
  the normalisation every version passes. \<open>reference.ParseNormalizedNamed\<close> is a third-party parser,
  an argument of the model. Names it accepts are ASCII, so \<open>to_lower\<close> is \<open>strings.ToLower\<close> there.
\<close>

section \<open>Automatic deployments\<close>

record AutomaticDeploymentRule =
  rule_EnvironmentID :: string
  rule_RuntimeTargetID :: string

definition MaximumAutomaticDeployments :: nat where
  "MaximumAutomaticDeployments = 8"

definition trim_rule :: "AutomaticDeploymentRule \<Rightarrow> AutomaticDeploymentRule" where
  "trim_rule r = \<lparr>rule_EnvironmentID = trim_space (rule_EnvironmentID r),
     rule_RuntimeTargetID = trim_space (rule_RuntimeTargetID r)\<rparr>"

text \<open>The key of a rule in the set of the rules seen, and the order the rules are sorted by.\<close>

definition rule_key :: "AutomaticDeploymentRule \<Rightarrow> string" where
  "rule_key r = rule_EnvironmentID r @ [CHR 0x00] @ rule_RuntimeTargetID r"

definition rule_order :: "AutomaticDeploymentRule \<Rightarrow> string list" where
  "rule_order r = [rule_EnvironmentID r, rule_RuntimeTargetID r]"

definition valid_rule :: "AutomaticDeploymentRule \<Rightarrow> bool" where
  "valid_rule r \<longleftrightarrow> build_validIdentifier (rule_EnvironmentID r) \<and> build_validIdentifier (rule_RuntimeTargetID r)"

fun collect_rules :: "AutomaticDeploymentRule list \<Rightarrow> string set \<Rightarrow> AutomaticDeploymentRule list option" where
  "collect_rules [] seen = Some []"
| "collect_rules (r # rs) seen =
     (let rule = trim_rule r in
      if \<not> valid_rule rule then None
      else if rule_key rule \<in> seen then None
      else map_option ((#) rule) (collect_rules rs (insert (rule_key rule) seen)))"

definition normalizeAutomaticDeployments ::
  "AutomaticDeploymentRule list \<Rightarrow> AutomaticDeploymentRule list option" where
  "normalizeAutomaticDeployments values =
     (if MaximumAutomaticDeployments < length values then None
      else map_option (sort_key rule_order) (collect_rules values {}))"

section \<open>Data\<close>

datatype BuildPlatform = BuildPlatformLinuxAMD64 | BuildPlatformLinuxARM64 | BuildPlatformOther string

fun BuildPlatform_Valid :: "BuildPlatform \<Rightarrow> bool" where
  "BuildPlatform_Valid (BuildPlatformOther _) = False"
| "BuildPlatform_Valid _ = True"

record BuildResources =
  br_CPUMilli :: int
  br_MemoryBytes :: int
  br_DiskBytes :: int

definition withDefaults :: "BuildResources \<Rightarrow> BuildResources" where
  "withDefaults r =
     (if r = \<lparr>br_CPUMilli = 0, br_MemoryBytes = 0, br_DiskBytes = 0\<rparr>
      then \<lparr>br_CPUMilli = 2000, br_MemoryBytes = 2 * 1024 * 1024 * 1024,
        br_DiskBytes = 10 * 1024 * 1024 * 1024\<rparr>
      else r)"

definition BuildResources_valid :: "BuildResources \<Rightarrow> bool" where
  "BuildResources_valid r \<longleftrightarrow>
     br_CPUMilli r \<ge> 100 \<and> br_CPUMilli r \<le> 16000 \<and>
     br_MemoryBytes r \<ge> 128 * 1024 * 1024 \<and> br_MemoryBytes r \<le> 32 * 1024 * 1024 * 1024 \<and>
     br_DiskBytes r \<ge> 1024 * 1024 * 1024 \<and> br_DiskBytes r \<le> 200 * 1024 * 1024 * 1024"

record BuildConfiguration =
  cfg_ID :: string
  cfg_ProjectID :: string
  cfg_ApplicationID :: string
  cfg_Name :: string
  cfg_SourceRepositoryID :: string
  cfg_DockerfilePath :: string
  cfg_ContextPath :: string
  cfg_AllowedRefs :: "string list"
  cfg_RegistryCredentialID :: string
  cfg_ImageRepository :: string
  cfg_TargetPlatform :: BuildPlatform
  cfg_Resources :: BuildResources
  cfg_TimeoutSeconds :: int
  cfg_MaxConcurrency :: int
  cfg_AutoCreateRelease :: bool
  cfg_ReleaseRuntimeSpec :: Spec
  cfg_AutomaticDeployments :: "AutomaticDeploymentRule list"
  cfg_Version :: u64
  cfg_CreatedBy :: string
  cfg_UpdatedBy :: string
  cfg_CreatedAt :: time
  cfg_UpdatedAt :: time

record BuildConfigurationPatch =
  patch_Name :: "string option"
  patch_SourceRepositoryID :: "string option"
  patch_DockerfilePath :: "string option"
  patch_ContextPath :: "string option"
  patch_AllowedRefs :: "string list option"
  patch_RegistryCredentialID :: "string option"
  patch_ImageRepository :: "string option"
  patch_TargetPlatform :: "BuildPlatform option"
  patch_Resources :: "BuildResources option"
  patch_TimeoutSeconds :: "int option"
  patch_MaxConcurrency :: "int option"
  patch_AutoCreateRelease :: "bool option"
  patch_ReleaseRuntimeSpec :: "Spec option"
  patch_AutomaticDeployments :: "AutomaticDeploymentRule list option"

definition Patch_Empty :: "BuildConfigurationPatch \<Rightarrow> bool" where
  "Patch_Empty p \<longleftrightarrow> patch_Name p = None \<and> patch_SourceRepositoryID p = None \<and>
     patch_DockerfilePath p = None \<and> patch_ContextPath p = None \<and> patch_AllowedRefs p = None \<and>
     patch_RegistryCredentialID p = None \<and> patch_ImageRepository p = None \<and>
     patch_TargetPlatform p = None \<and> patch_Resources p = None \<and> patch_TimeoutSeconds p = None \<and>
     patch_MaxConcurrency p = None \<and> patch_AutoCreateRelease p = None \<and>
     patch_ReleaseRuntimeSpec p = None \<and> patch_AutomaticDeployments p = None"

section \<open>Image repositories\<close>

text \<open>A parsed reference: its name, the registry, whether it is a name only, and digest algorithm and text.\<close>

record image_name =
  in_Name :: string
  in_Domain :: string
  in_NameOnly :: bool
  in_Canonical :: "(string \<times> string) option"

type_synonym reference_parser = "string \<Rightarrow> image_name option"

definition normalizeImageRepository :: "reference_parser \<Rightarrow> string \<Rightarrow> string option" where
  "normalizeImageRepository parse value =
     (case parse (trim_space value) of
        None \<Rightarrow> None
      | Some named \<Rightarrow> if in_NameOnly named then Some (to_lower (in_Name named)) else None)"

definition ImageRepositoryRegistry :: "reference_parser \<Rightarrow> string \<Rightarrow> build_error + string" where
  "ImageRepositoryRegistry parse value =
     (case parse (trim_space value) of
        None \<Rightarrow> Inl ErrInvalidBuildConfiguration
      | Some named \<Rightarrow> if in_NameOnly named then Inr (to_lower (in_Domain named))
          else Inl ErrInvalidBuildConfiguration)"

section \<open>Normalisation\<close>

definition trim_configuration :: "BuildConfiguration \<Rightarrow> BuildConfiguration" where
  "trim_configuration c = c\<lparr>
     cfg_ID := trim_space (cfg_ID c), cfg_ProjectID := trim_space (cfg_ProjectID c),
     cfg_ApplicationID := trim_space (cfg_ApplicationID c), cfg_Name := trim_space (cfg_Name c),
     cfg_SourceRepositoryID := trim_space (cfg_SourceRepositoryID c),
     cfg_RegistryCredentialID := trim_space (cfg_RegistryCredentialID c),
     cfg_CreatedBy := trim_space (cfg_CreatedBy c), cfg_UpdatedBy := trim_space (cfg_UpdatedBy c)\<rparr>"

definition valid_identity :: "BuildConfiguration \<Rightarrow> bool" where
  "valid_identity c \<longleftrightarrow>
     \<not> (\<not> build_validIdentifier (cfg_ID c) \<or> \<not> build_validIdentifier (cfg_ProjectID c) \<or>
        \<not> build_validIdentifier (cfg_ApplicationID c) \<or> \<not> build_validIdentifier (cfg_SourceRepositoryID c) \<or>
        \<not> build_validIdentifier (cfg_RegistryCredentialID c) \<or> \<not> build_validIdentifier (cfg_CreatedBy c) \<or>
        \<not> build_validIdentifier (cfg_UpdatedBy c) \<or> \<not> validName (cfg_Name c) \<or>
        cfg_Version c = 0 \<or> is_zero (cfg_CreatedAt c) \<or> is_zero (cfg_UpdatedAt c))"

definition valid_limits :: "BuildConfiguration \<Rightarrow> bool" where
  "valid_limits c \<longleftrightarrow>
     \<not> (\<not> BuildPlatform_Valid (cfg_TargetPlatform c) \<or> \<not> BuildResources_valid (cfg_Resources c) \<or>
        cfg_TimeoutSeconds c < 60 \<or> cfg_TimeoutSeconds c > 2 * 60 * 60 \<or>
        cfg_MaxConcurrency c < 1 \<or> cfg_MaxConcurrency c > 4)"

text \<open>The fields the rest of the normalisation replaces, with their checks in the source's order.\<close>

definition normalize_content :: "reference_parser \<Rightarrow> BuildConfiguration \<Rightarrow> BuildConfiguration option" where
  "normalize_content parse c =
     Option.bind (safeRepositoryPath (cfg_ContextPath c) True) (\<lambda>contextPath.
     Option.bind (safeRepositoryPath (cfg_DockerfilePath c) False) (\<lambda>dockerfilePath.
     if \<not> pathWithinContext contextPath dockerfilePath then None else
     Option.bind (normalizeAllowedRefs (cfg_AllowedRefs c)) (\<lambda>refs.
     Option.bind (normalizeImageRepository parse (cfg_ImageRepository c)) (\<lambda>img.
     if \<not> valid_limits c then None else
     Option.bind (normalizeAutomaticDeployments (cfg_AutomaticDeployments c)) (\<lambda>rules.
     if rules \<noteq> [] \<and> \<not> cfg_AutoCreateRelease c then None else
     Option.bind (Normalize (cfg_ReleaseRuntimeSpec c)) (\<lambda>spec.
     Some (c\<lparr>cfg_ContextPath := contextPath, cfg_DockerfilePath := dockerfilePath,
       cfg_AllowedRefs := refs, cfg_ImageRepository := img, cfg_AutomaticDeployments := rules,
       cfg_ReleaseRuntimeSpec := spec, cfg_CreatedAt := utc (cfg_CreatedAt c),
       cfg_UpdatedAt := utc (cfg_UpdatedAt c)\<rparr>)))))))"

definition normalizeBuildConfiguration ::
  "reference_parser \<Rightarrow> BuildConfiguration \<Rightarrow> build_error + BuildConfiguration" where
  "normalizeBuildConfiguration parse item =
     (let c = trim_configuration item in
      if \<not> valid_identity c then Inl ErrInvalidBuildConfiguration
      else (case normalize_content parse c of
              None \<Rightarrow> Inl ErrInvalidBuildConfiguration
            | Some d \<Rightarrow> Inr d))"

section \<open>Creation and changes\<close>

definition NewBuildConfigurationWithDeliverySpec ::
  "reference_parser \<Rightarrow> string \<Rightarrow> string \<Rightarrow> string \<Rightarrow> string \<Rightarrow> string \<Rightarrow> string \<Rightarrow> string \<Rightarrow> string list \<Rightarrow>
     string \<Rightarrow> string \<Rightarrow> BuildPlatform \<Rightarrow> BuildResources \<Rightarrow> int \<Rightarrow> int \<Rightarrow> bool \<Rightarrow> Spec \<Rightarrow>
     AutomaticDeploymentRule list \<Rightarrow> string \<Rightarrow> time \<Rightarrow> build_error + BuildConfiguration" where
  "NewBuildConfigurationWithDeliverySpec parse i projectID applicationID name sourceRepositoryID
     dockerfilePath contextPath allowedRefs registryCredentialID imageRepository targetPlatform
     resources timeoutSeconds maxConcurrency autoCreateRelease releaseRuntimeSpec
     automaticDeployments createdBy now =
     normalizeBuildConfiguration parse \<lparr>
       cfg_ID = i, cfg_ProjectID = projectID, cfg_ApplicationID = applicationID, cfg_Name = name,
       cfg_SourceRepositoryID = sourceRepositoryID,
       cfg_DockerfilePath = (if trim_space dockerfilePath = [] then ''Dockerfile'' else dockerfilePath),
       cfg_ContextPath = (if trim_space contextPath = [] then ''.'' else contextPath),
       cfg_AllowedRefs = allowedRefs, cfg_RegistryCredentialID = registryCredentialID,
       cfg_ImageRepository = imageRepository,
       cfg_TargetPlatform = (if targetPlatform = BuildPlatformOther [] then BuildPlatformLinuxAMD64
         else targetPlatform),
       cfg_Resources = withDefaults resources,
       cfg_TimeoutSeconds = (if timeoutSeconds = 0 then 30 * 60 else timeoutSeconds),
       cfg_MaxConcurrency = (if maxConcurrency = 0 then 1 else maxConcurrency),
       cfg_AutoCreateRelease = autoCreateRelease, cfg_ReleaseRuntimeSpec = releaseRuntimeSpec,
       cfg_AutomaticDeployments = automaticDeployments, cfg_Version = 1,
       cfg_CreatedBy = createdBy, cfg_UpdatedBy = createdBy, cfg_CreatedAt = now, cfg_UpdatedAt = now\<rparr>"

text \<open>The two other constructors pass an empty runtime specification and no automatic deployment.\<close>

definition empty_spec :: Spec where
  "empty_spec = \<lparr>spec_Ports = [], spec_EnvironmentKeys = [], spec_Resources = zero_resources, spec_HealthCheck = None\<rparr>"

definition NewBuildConfigurationWithReleaseSpec ::
  "reference_parser \<Rightarrow> string \<Rightarrow> string \<Rightarrow> string \<Rightarrow> string \<Rightarrow> string \<Rightarrow> string \<Rightarrow> string \<Rightarrow> string list \<Rightarrow>
     string \<Rightarrow> string \<Rightarrow> BuildPlatform \<Rightarrow> BuildResources \<Rightarrow> int \<Rightarrow> int \<Rightarrow> bool \<Rightarrow> Spec \<Rightarrow> string \<Rightarrow> time \<Rightarrow>
     build_error + BuildConfiguration" where
  "NewBuildConfigurationWithReleaseSpec parse i projectID applicationID name sourceRepositoryID
     dockerfilePath contextPath allowedRefs registryCredentialID imageRepository targetPlatform
     resources timeoutSeconds maxConcurrency autoCreateRelease releaseRuntimeSpec createdBy now =
     NewBuildConfigurationWithDeliverySpec parse i projectID applicationID name sourceRepositoryID
       dockerfilePath contextPath allowedRefs registryCredentialID imageRepository targetPlatform
       resources timeoutSeconds maxConcurrency autoCreateRelease releaseRuntimeSpec [] createdBy now"

definition NewBuildConfiguration ::
  "reference_parser \<Rightarrow> string \<Rightarrow> string \<Rightarrow> string \<Rightarrow> string \<Rightarrow> string \<Rightarrow> string \<Rightarrow> string \<Rightarrow> string list \<Rightarrow>
     string \<Rightarrow> string \<Rightarrow> BuildPlatform \<Rightarrow> BuildResources \<Rightarrow> int \<Rightarrow> int \<Rightarrow> bool \<Rightarrow> string \<Rightarrow> time \<Rightarrow>
     build_error + BuildConfiguration" where
  "NewBuildConfiguration parse i projectID applicationID name sourceRepositoryID
     dockerfilePath contextPath allowedRefs registryCredentialID imageRepository targetPlatform
     resources timeoutSeconds maxConcurrency autoCreateRelease createdBy now =
     NewBuildConfigurationWithReleaseSpec parse i projectID applicationID name sourceRepositoryID
       dockerfilePath contextPath allowedRefs registryCredentialID imageRepository targetPlatform
       resources timeoutSeconds maxConcurrency autoCreateRelease empty_spec createdBy now"

definition or_current :: "'a option \<Rightarrow> 'a \<Rightarrow> 'a" where
  "or_current p current = (case p of Some x \<Rightarrow> x | None \<Rightarrow> current)"

definition Configuration_Apply ::
  "reference_parser \<Rightarrow> BuildConfiguration \<Rightarrow> BuildConfigurationPatch \<Rightarrow> string \<Rightarrow> time \<Rightarrow>
     build_error + BuildConfiguration" where
  "Configuration_Apply parse c p updatedBy now =
     normalizeBuildConfiguration parse (c\<lparr>
       cfg_Name := or_current (patch_Name p) (cfg_Name c),
       cfg_SourceRepositoryID := or_current (patch_SourceRepositoryID p) (cfg_SourceRepositoryID c),
       cfg_DockerfilePath := or_current (patch_DockerfilePath p) (cfg_DockerfilePath c),
       cfg_ContextPath := or_current (patch_ContextPath p) (cfg_ContextPath c),
       cfg_AllowedRefs := or_current (patch_AllowedRefs p) (cfg_AllowedRefs c),
       cfg_RegistryCredentialID := or_current (patch_RegistryCredentialID p) (cfg_RegistryCredentialID c),
       cfg_ImageRepository := or_current (patch_ImageRepository p) (cfg_ImageRepository c),
       cfg_TargetPlatform := or_current (patch_TargetPlatform p) (cfg_TargetPlatform c),
       cfg_Resources := or_current (patch_Resources p) (cfg_Resources c),
       cfg_TimeoutSeconds := or_current (patch_TimeoutSeconds p) (cfg_TimeoutSeconds c),
       cfg_MaxConcurrency := or_current (patch_MaxConcurrency p) (cfg_MaxConcurrency c),
       cfg_AutoCreateRelease := or_current (patch_AutoCreateRelease p) (cfg_AutoCreateRelease c),
       cfg_ReleaseRuntimeSpec := or_current (patch_ReleaseRuntimeSpec p) (cfg_ReleaseRuntimeSpec c),
       cfg_AutomaticDeployments := or_current (patch_AutomaticDeployments p) (cfg_AutomaticDeployments c),
       cfg_UpdatedBy := updatedBy, cfg_UpdatedAt := now, cfg_Version := cfg_Version c + 1\<rparr>)"

section \<open>Normalised rules\<close>

lemma trim_rule_idem [simp]: "trim_rule (trim_rule r) = trim_rule r"
  by (simp add: trim_rule_def)

lemma identifier_no_nul: "build_validIdentifier s \<Longrightarrow> CHR 0x00 \<notin> set s"
  by (cases s) (auto simp: build_validIdentifier_def build_identifier_tail_def is_alnum_def is_digit_def
      is_lower_def is_upper_def in_range_def list_all_iff)

lemma rule_key_inject:
  assumes "valid_rule r" "valid_rule s" "rule_key r = rule_key s"
  shows "rule_order r = rule_order s"
proof -
  have "CHR 0x00 \<notin> set (rule_EnvironmentID r)" "CHR 0x00 \<notin> set (rule_EnvironmentID s)"
    using assms(1,2) by (simp_all add: valid_rule_def identifier_no_nul)
  with assms(3) show ?thesis by (simp add: rule_key_def rule_order_def append_sep_inject)
qed

lemma collect_rules_Some:
  "collect_rules vs seen = Some rs \<longleftrightarrow>
     rs = map trim_rule vs \<and> distinct (map rule_key rs) \<and> rule_key ` set rs \<inter> seen = {} \<and>
     (\<forall>r \<in> set rs. valid_rule r)"
proof (induction vs arbitrary: seen rs)
  case (Cons v vs)
  have "collect_rules (v # vs) seen = Some rs \<longleftrightarrow>
      valid_rule (trim_rule v) \<and> rule_key (trim_rule v) \<notin> seen \<and>
      (\<exists>qs. rs = trim_rule v # qs \<and> collect_rules vs (insert (rule_key (trim_rule v)) seen) = Some qs)"
    unfolding collect_rules.simps Let_def by (simp add: map_option_eq_Some) blast
  then show ?case unfolding Cons.IH by (cases rs) auto
qed auto

lemma rule_key_order: "rule_order r = rule_order s \<Longrightarrow> r = s"
  by (simp add: rule_order_def)

lemma normalizeAutomaticDeployments_Some:
  assumes "normalizeAutomaticDeployments vs = Some rs"
  shows "length rs \<le> MaximumAutomaticDeployments" "sorted (map rule_order rs)" "distinct rs"
    "\<forall>r \<in> set rs. valid_rule r \<and> trim_rule r = r" "normalizeAutomaticDeployments rs = Some rs"
proof -
  let ?q = "map trim_rule vs"
  from assms have n: "length vs \<le> MaximumAutomaticDeployments" and rs: "rs = sort_key rule_order ?q"
    and q: "distinct (map rule_key ?q)" "\<forall>r \<in> set ?q. valid_rule r"
    by (auto simp: normalizeAutomaticDeployments_def collect_rules_Some split: if_splits)
  show len: "length rs \<le> MaximumAutomaticDeployments" using n rs by simp
  show "sorted (map rule_order rs)" using rs by simp
  have "distinct ?q" using q(1) distinct_map by blast
  then show "distinct rs" using rs by simp
  show all: "\<forall>r \<in> set rs. valid_rule r \<and> trim_rule r = r" using q(2) rs by auto
  have "map trim_rule rs = rs" using all by (simp add: map_idI)
  moreover have "distinct (map rule_key rs)"
    using q(1) rs by (metis mset_eq_imp_distinct_iff mset_map mset_sort)
  ultimately have "collect_rules rs {} = Some rs" using all by (simp add: collect_rules_Some)
  then show "normalizeAutomaticDeployments rs = Some rs"
    using len rs by (simp add: normalizeAutomaticDeployments_def)
qed

section \<open>Normalised configurations\<close>

text \<open>
  What the client relies on of the parser: the lower-case name of a parsed reference has no
  surrounding space and is parsed to the same name.
\<close>

definition names_reparse :: "reference_parser \<Rightarrow> bool" where
  "names_reparse parse \<longleftrightarrow> (\<forall>v n. parse v = Some n \<longrightarrow> in_NameOnly n \<longrightarrow>
     trim_space (to_lower (in_Name n)) = to_lower (in_Name n) \<and>
     (\<exists>m. parse (to_lower (in_Name n)) = Some m \<and> in_NameOnly m \<and> to_lower (in_Name m) = to_lower (in_Name n)))"

lemma normalizeImageRepository_idem:
  assumes "names_reparse parse" "normalizeImageRepository parse v = Some img"
  shows "normalizeImageRepository parse img = Some img"
proof -
  from assms(2) obtain n where n: "parse (trim_space v) = Some n" "in_NameOnly n" "img = to_lower (in_Name n)"
    by (auto simp: normalizeImageRepository_def split: option.splits if_splits)
  with assms(1) obtain m where "trim_space img = img" "parse img = Some m" "in_NameOnly m"
    "to_lower (in_Name m) = img"
    unfolding names_reparse_def by blast
  then show ?thesis by (simp add: normalizeImageRepository_def)
qed

lemma refused_eq_Some: "(if b then None else x) = Some y \<longleftrightarrow> \<not> b \<and> x = Some y"
  by simp

lemma normalize_content_Some:
  "normalize_content parse c = Some d \<longleftrightarrow>
     (\<exists>contextPath dockerfilePath refs img rules spec.
        safeRepositoryPath (cfg_ContextPath c) True = Some contextPath \<and>
        safeRepositoryPath (cfg_DockerfilePath c) False = Some dockerfilePath \<and>
        pathWithinContext contextPath dockerfilePath \<and>
        normalizeAllowedRefs (cfg_AllowedRefs c) = Some refs \<and>
        normalizeImageRepository parse (cfg_ImageRepository c) = Some img \<and>
        valid_limits c \<and> normalizeAutomaticDeployments (cfg_AutomaticDeployments c) = Some rules \<and>
        (rules = [] \<or> cfg_AutoCreateRelease c) \<and> Normalize (cfg_ReleaseRuntimeSpec c) = Some spec \<and>
        d = c\<lparr>cfg_ContextPath := contextPath, cfg_DockerfilePath := dockerfilePath,
          cfg_AllowedRefs := refs, cfg_ImageRepository := img, cfg_AutomaticDeployments := rules,
          cfg_ReleaseRuntimeSpec := spec\<rparr>)"
  unfolding normalize_content_def bind_eq_Some_conv refused_eq_Some utc_def by auto

lemma normalizeBuildConfiguration_Inr:
  "normalizeBuildConfiguration parse item = Inr d \<longleftrightarrow>
     valid_identity (trim_configuration item) \<and> normalize_content parse (trim_configuration item) = Some d"
  by (auto simp: normalizeBuildConfiguration_def Let_def split: option.splits)

text \<open>A record of the configurations the module stores and builds from.\<close>

definition normalized_configuration :: "reference_parser \<Rightarrow> BuildConfiguration \<Rightarrow> bool" where
  "normalized_configuration parse c \<longleftrightarrow>
     trim_configuration c = c \<and> valid_identity c \<and> valid_limits c \<and>
     safeRepositoryPath (cfg_ContextPath c) True = Some (cfg_ContextPath c) \<and>
     safeRepositoryPath (cfg_DockerfilePath c) False = Some (cfg_DockerfilePath c) \<and>
     pathWithinContext (cfg_ContextPath c) (cfg_DockerfilePath c) \<and>
     normalizeAllowedRefs (cfg_AllowedRefs c) = Some (cfg_AllowedRefs c) \<and>
     normalizeImageRepository parse (cfg_ImageRepository c) = Some (cfg_ImageRepository c) \<and>
     normalizeAutomaticDeployments (cfg_AutomaticDeployments c) = Some (cfg_AutomaticDeployments c) \<and>
     (cfg_AutomaticDeployments c = [] \<or> cfg_AutoCreateRelease c) \<and>
     Normalize (cfg_ReleaseRuntimeSpec c) = Some (cfg_ReleaseRuntimeSpec c)"

lemma trim_configuration_idem [simp]: "trim_configuration (trim_configuration c) = trim_configuration c"
  by (simp add: trim_configuration_def)

lemma normalizeBuildConfiguration_normalized:
  assumes "names_reparse parse" "normalizeBuildConfiguration parse item = Inr d"
  shows "normalized_configuration parse d"
proof -
  let ?c = "trim_configuration item"
  from assms(2) have ident: "valid_identity ?c" and content: "normalize_content parse ?c = Some d"
    by (simp_all add: normalizeBuildConfiguration_Inr)
  from content obtain contextPath dockerfilePath refs img rules spec where
    cp: "safeRepositoryPath (cfg_ContextPath ?c) True = Some contextPath"
    and dp: "safeRepositoryPath (cfg_DockerfilePath ?c) False = Some dockerfilePath"
    and "within": "pathWithinContext contextPath dockerfilePath"
    and refs: "normalizeAllowedRefs (cfg_AllowedRefs ?c) = Some refs"
    and img: "normalizeImageRepository parse (cfg_ImageRepository ?c) = Some img"
    and limits: "valid_limits ?c"
    and rules: "normalizeAutomaticDeployments (cfg_AutomaticDeployments ?c) = Some rules"
    and releases: "rules = [] \<or> cfg_AutoCreateRelease ?c"
    and spec: "Normalize (cfg_ReleaseRuntimeSpec ?c) = Some spec"
    and d: "d = ?c\<lparr>cfg_ContextPath := contextPath, cfg_DockerfilePath := dockerfilePath,
          cfg_AllowedRefs := refs, cfg_ImageRepository := img, cfg_AutomaticDeployments := rules,
          cfg_ReleaseRuntimeSpec := spec\<rparr>"
    unfolding normalize_content_Some by blast
  have "trim_configuration d = d" "valid_identity d" "valid_limits d"
    using ident limits unfolding d by (simp_all add: trim_configuration_def valid_identity_def valid_limits_def)
  then show ?thesis
    using safeRepositoryPath_fixed[OF cp] safeRepositoryPath_fixed[OF dp] "within"
      normalizeAllowedRefs_idem[OF refs] normalizeImageRepository_idem[OF assms(1) img]
      normalizeAutomaticDeployments_Some(5)[OF rules] releases Normalize_idem[OF spec]
    unfolding normalized_configuration_def d by simp
qed

lemma normalized_configuration_fixed:
  "normalized_configuration parse c \<Longrightarrow> normalizeBuildConfiguration parse c = Inr c"
  unfolding normalizeBuildConfiguration_Inr normalize_content_Some normalized_configuration_def by simp

end
