(* ===== verification/Build.thy ===== *)
theory Build
  imports BuildConfiguration
begin

text \<open>
  A build and its life cycle (\<open>internal/modules/build/biz/build.go\<close>): creation from a configuration
  and a revision, status changes, failure, cancellation, retry, the pushed image, and the worker
  lease with the queue's claims.
\<close>

section \<open>Statuses and categories\<close>

datatype BuildStatus =
    BuildStatusQueued
  | BuildStatusCheckingOut
  | BuildStatusBuilding
  | BuildStatusPushing
  | BuildStatusSucceeded
  | BuildStatusFailed
  | BuildStatusCanceling
  | BuildStatusCanceled
  | BuildStatusOther string

text \<open>The empty category of a build that has not failed is \<open>BuildFailureOther []\<close>.\<close>

datatype BuildFailureCategory =
    BuildFailureRepositoryAuthentication
  | BuildFailureRepositoryUnreachable
  | BuildFailureRevisionNotFound
  | BuildFailureCheckout
  | BuildFailureConfiguration
  | BuildFailureResourceLimit
  | BuildFailureNetworkPolicy
  | BuildFailureBuild
  | BuildFailureRegistryAuthentication
  | BuildFailureRegistryPush
  | BuildFailureCanceled
  | BuildFailureUnknown
  | BuildFailureOther string

fun BuildFailureCategory_Valid :: "BuildFailureCategory \<Rightarrow> bool" where
  "BuildFailureCategory_Valid (BuildFailureOther _) = False"
| "BuildFailureCategory_Valid _ = True"

datatype BuildTriggerSource =
    BuildTriggerSourceManual
  | BuildTriggerSourceTriggerAPI
  | BuildTriggerSourceWebhook
  | BuildTriggerSourceRetry
  | BuildTriggerSourceOther string

fun BuildTriggerSource_Valid :: "BuildTriggerSource \<Rightarrow> bool" where
  "BuildTriggerSource_Valid (BuildTriggerSourceOther _) = False"
| "BuildTriggerSource_Valid _ = True"

section \<open>Data\<close>

record BuildLease =
  blease_Owner :: string
  blease_ExpiresAt :: time
  blease_Generation :: u64

definition empty_build_lease :: BuildLease where
  "empty_build_lease = \<lparr>blease_Owner = [], blease_ExpiresAt = 0, blease_Generation = 0\<rparr>"

definition BuildLease_Active :: "BuildLease \<Rightarrow> time \<Rightarrow> bool" where
  "BuildLease_Active l now \<longleftrightarrow> trim_space (blease_Owner l) \<noteq> [] \<and> after (blease_ExpiresAt l) now"

record BuildClaim =
  bclaim_WorkerID :: string
  bclaim_Now :: time
  bclaim_ExpiresAt :: time
  bclaim_Statuses :: "BuildStatus list"

fun open_status :: "BuildStatus \<Rightarrow> bool" where
  "open_status BuildStatusQueued = True"
| "open_status BuildStatusCheckingOut = True"
| "open_status BuildStatusBuilding = True"
| "open_status BuildStatusPushing = True"
| "open_status BuildStatusCanceling = True"
| "open_status _ = False"

text \<open>The loop over the statuses refuses a closed one and a duplicate.\<close>

fun claim_statuses_ok :: "BuildStatus list \<Rightarrow> BuildStatus set \<Rightarrow> bool" where
  "claim_statuses_ok [] seen = True"
| "claim_statuses_ok (s # ss) seen \<longleftrightarrow> open_status s \<and> s \<notin> seen \<and> claim_statuses_ok ss (insert s seen)"

definition BuildClaim_Validate :: "BuildClaim \<Rightarrow> build_error option" where
  "BuildClaim_Validate c =
     (if \<not> build_validIdentifier (trim_space (bclaim_WorkerID c)) \<or> is_zero (bclaim_Now c) \<or>
         \<not> after (bclaim_ExpiresAt c) (bclaim_Now c) then Some ErrInvalidBuildLease
      else if \<not> claim_statuses_ok (bclaim_Statuses c) {} then Some ErrInvalidBuildLease
      else None)"

text \<open>The first cancellation moves to the front; what stood before it keeps its order.\<close>

definition ClaimableStatuses :: "BuildClaim \<Rightarrow> BuildStatus list" where
  "ClaimableStatuses c =
     (if bclaim_Statuses c = []
      then [BuildStatusCanceling, BuildStatusQueued, BuildStatusCheckingOut, BuildStatusBuilding, BuildStatusPushing]
      else (case find_index (\<lambda>s. s = BuildStatusCanceling) (bclaim_Statuses c) of
          None \<Rightarrow> bclaim_Statuses c
        | Some i \<Rightarrow> BuildStatusCanceling # take i (bclaim_Statuses c) @ drop (Suc i) (bclaim_Statuses c)))"

record SourceRevision =
  rev_SourceRepositoryID :: string
  rev_Ref :: string
  rev_CommitSHA :: string

text \<open>
  \<open>strings.ToLower\<close> maps no character outside ASCII to a hexadecimal digit, so \<open>to_lower\<close> decides the
  pattern as the source does.
\<close>

definition NewSourceRevision :: "string \<Rightarrow> string \<Rightarrow> string \<Rightarrow> build_error + SourceRevision" where
  "NewSourceRevision sourceRepositoryID ref commitSHA =
     (let s = trim_space sourceRepositoryID; r = trim_space ref; c = to_lower (trim_space commitSHA) in
      if \<not> build_validIdentifier s \<or> \<not> validExactRef r \<or> \<not> commitSHAPattern c then Inl ErrInvalidBuild
      else Inr \<lparr>rev_SourceRepositoryID = s, rev_Ref = r, rev_CommitSHA = c\<rparr>)"

record BuildConfigurationSnapshot =
  snap_ConfigurationID :: string
  snap_ConfigurationVersion :: u64
  snap_SourceRepositoryID :: string
  snap_DockerfilePath :: string
  snap_ContextPath :: string
  snap_AllowedRefs :: "string list"
  snap_RegistryCredentialID :: string
  snap_ImageRepository :: string
  snap_TargetPlatform :: BuildPlatform
  snap_Resources :: BuildResources
  snap_TimeoutSeconds :: int
  snap_MaxConcurrency :: int
  snap_AutoCreateRelease :: bool
  snap_ReleaseRuntimeSpec :: Spec
  snap_AutomaticDeployments :: "AutomaticDeploymentRule list"

definition Snapshot :: "BuildConfiguration \<Rightarrow> BuildConfigurationSnapshot" where
  "Snapshot c =
     \<lparr>snap_ConfigurationID = cfg_ID c, snap_ConfigurationVersion = cfg_Version c,
       snap_SourceRepositoryID = cfg_SourceRepositoryID c, snap_DockerfilePath = cfg_DockerfilePath c,
       snap_ContextPath = cfg_ContextPath c, snap_AllowedRefs = cfg_AllowedRefs c,
       snap_RegistryCredentialID = cfg_RegistryCredentialID c,
       snap_ImageRepository = cfg_ImageRepository c, snap_TargetPlatform = cfg_TargetPlatform c,
       snap_Resources = cfg_Resources c, snap_TimeoutSeconds = cfg_TimeoutSeconds c,
       snap_MaxConcurrency = cfg_MaxConcurrency c, snap_AutoCreateRelease = cfg_AutoCreateRelease c,
       snap_ReleaseRuntimeSpec = cfg_ReleaseRuntimeSpec c,
       snap_AutomaticDeployments = cfg_AutomaticDeployments c\<rparr>"

record Build =
  bld_ID :: string
  bld_OrganizationID :: string
  bld_ProjectID :: string
  bld_ApplicationID :: string
  bld_BuildConfigurationID :: string
  bld_Revision :: SourceRevision
  bld_Configuration :: BuildConfigurationSnapshot
  bld_TriggerSource :: BuildTriggerSource
  bld_TriggerID :: string
  bld_IdempotencyKey :: string
  bld_Status :: BuildStatus
  bld_FailureCategory :: BuildFailureCategory
  bld_Version :: u64
  bld_TriggeredBy :: string
  bld_SourceBuildID :: string
  bld_ImageDigest :: string
  bld_ArtifactID :: string
  bld_Lease :: BuildLease
  bld_CreatedAt :: time
  bld_UpdatedAt :: time
  bld_StartedAt :: time
  bld_FinishedAt :: time

section \<open>Creation\<close>

definition NewBuild ::
  "reference_parser \<Rightarrow> string \<Rightarrow> string \<Rightarrow> string \<Rightarrow> string \<Rightarrow> BuildConfiguration \<Rightarrow> SourceRevision \<Rightarrow>
     BuildTriggerSource \<Rightarrow> string \<Rightarrow> string \<Rightarrow> string \<Rightarrow> time \<Rightarrow> build_error + Build" where
  "NewBuild parse i organizationID projectID applicationID configuration revision triggerSource
     triggerID idempotencyKey triggeredBy now =
     (let bid = trim_space i; org = trim_space organizationID; project = trim_space projectID;
          application = trim_space applicationID; key = trim_space idempotencyKey;
          trigger = trim_space triggerID; user = trim_space triggeredBy
      in (case (normalizeBuildConfiguration parse configuration,
                NewSourceRevision (rev_SourceRepositoryID revision) (rev_Ref revision) (rev_CommitSHA revision)) of
            (Inr c, Inr r) \<Rightarrow>
              if \<not> build_validIdentifier bid \<or> \<not> build_validIdentifier org \<or>
                 \<not> build_validIdentifier project \<or> \<not> build_validIdentifier application \<or>
                 \<not> build_validIdentifier key \<or> \<not> build_validIdentifier user \<or>
                 \<not> BuildTriggerSource_Valid triggerSource \<or> triggerSource = BuildTriggerSourceRetry \<or>
                 (triggerSource = BuildTriggerSourceManual \<and> trigger \<noteq> []) \<or>
                 (triggerSource \<noteq> BuildTriggerSourceManual \<and> \<not> build_validIdentifier trigger) \<or>
                 is_zero now \<or> cfg_ProjectID c \<noteq> project \<or> cfg_ApplicationID c \<noteq> application \<or>
                 cfg_ID c = [] \<or> cfg_Version c = 0 \<or>
                 rev_SourceRepositoryID r \<noteq> cfg_SourceRepositoryID c
              then Inl ErrInvalidBuild
              else Inr \<lparr>bld_ID = bid, bld_OrganizationID = org, bld_ProjectID = project,
                bld_ApplicationID = application, bld_BuildConfigurationID = cfg_ID c,
                bld_Revision = r, bld_Configuration = Snapshot c, bld_TriggerSource = triggerSource,
                bld_TriggerID = trigger, bld_IdempotencyKey = key, bld_Status = BuildStatusQueued,
                bld_FailureCategory = BuildFailureOther [], bld_Version = 1, bld_TriggeredBy = user,
                bld_SourceBuildID = [], bld_ImageDigest = [], bld_ArtifactID = [],
                bld_Lease = empty_build_lease, bld_CreatedAt = utc now, bld_UpdatedAt = utc now,
                bld_StartedAt = 0, bld_FinishedAt = 0\<rparr>
          | _ \<Rightarrow> Inl ErrInvalidBuild))"

text \<open>The stored commit is hexadecimal, so the ASCII lower case decides as the source does.\<close>

definition MatchesTrigger ::
  "Build \<Rightarrow> string \<Rightarrow> string \<Rightarrow> string \<Rightarrow> string \<Rightarrow> string \<Rightarrow> BuildTriggerSource \<Rightarrow> bool" where
  "MatchesTrigger b applicationID configurationID ref expectedCommitSHA triggerID source \<longleftrightarrow>
     (let expected = to_lower (trim_space expectedCommitSHA) in
      bld_ApplicationID b = trim_space applicationID \<and>
      bld_BuildConfigurationID b = trim_space configurationID \<and>
      rev_Ref (bld_Revision b) = trim_space ref \<and> bld_TriggerSource b = source \<and>
      bld_TriggerID b = trim_space triggerID \<and>
      (expected = [] \<or> rev_CommitSHA (bld_Revision b) = expected))"

section \<open>Transitions\<close>

definition Build_Terminal :: "Build \<Rightarrow> bool" where
  "Build_Terminal b \<longleftrightarrow> bld_Status b = BuildStatusSucceeded \<or> bld_Status b = BuildStatusFailed \<or>
     bld_Status b = BuildStatusCanceled"

definition Build_Acquire :: "BuildClaim \<Rightarrow> Build \<Rightarrow> build_error + Build" where
  "Build_Acquire claim b =
     (case BuildClaim_Validate claim of
        Some e \<Rightarrow> Inl e
      | None \<Rightarrow>
          if open_status (bld_Status b) then
            (if BuildLease_Active (bld_Lease b) (bclaim_Now claim) then Inl ErrBuildNotClaimable
             else Inr (b\<lparr>bld_Lease := \<lparr>blease_Owner = trim_space (bclaim_WorkerID claim),
                 blease_ExpiresAt = utc (bclaim_ExpiresAt claim),
                 blease_Generation = blease_Generation (bld_Lease b) + 1\<rparr>,
               bld_UpdatedAt := utc (bclaim_Now claim)\<rparr>))
          else Inl ErrBuildNotClaimable)"

definition Build_Renew :: "string \<Rightarrow> u64 \<Rightarrow> time \<Rightarrow> time \<Rightarrow> Build \<Rightarrow> build_error + Build" where
  "Build_Renew owner generation now expiresAt b =
     (if trim_space owner = [] \<or> blease_Owner (bld_Lease b) \<noteq> trim_space owner \<or>
         blease_Generation (bld_Lease b) \<noteq> generation \<or> \<not> BuildLease_Active (bld_Lease b) now \<or>
         \<not> after expiresAt now
      then Inl ErrInvalidBuildLease
      else Inr (b\<lparr>bld_Lease := (bld_Lease b)\<lparr>blease_ExpiresAt := utc expiresAt\<rparr>, bld_UpdatedAt := utc now\<rparr>))"

definition build_transition_valid :: "BuildStatus \<Rightarrow> BuildStatus \<Rightarrow> bool" where
  "build_transition_valid s nxt \<longleftrightarrow>
     (s = BuildStatusQueued \<and> (nxt = BuildStatusCheckingOut \<or> nxt = BuildStatusCanceling)) \<or>
     (s = BuildStatusCheckingOut \<and> (nxt = BuildStatusBuilding \<or> nxt = BuildStatusFailed \<or> nxt = BuildStatusCanceling)) \<or>
     (s = BuildStatusBuilding \<and> (nxt = BuildStatusPushing \<or> nxt = BuildStatusFailed \<or> nxt = BuildStatusCanceling)) \<or>
     (s = BuildStatusPushing \<and> (nxt = BuildStatusSucceeded \<or> nxt = BuildStatusFailed \<or> nxt = BuildStatusCanceling)) \<or>
     (s = BuildStatusCanceling \<and> nxt = BuildStatusCanceled)"

definition Build_Transition :: "Build \<Rightarrow> BuildStatus \<Rightarrow> time \<Rightarrow> build_error + Build" where
  "Build_Transition b nxt now =
     (if \<not> build_transition_valid (bld_Status b) nxt \<or> is_zero now then Inl ErrInvalidBuildTransition
      else
        (let b1 = b\<lparr>bld_Status := nxt, bld_UpdatedAt := utc now\<rparr>;
             b2 = (if nxt = BuildStatusCheckingOut \<and> is_zero (bld_StartedAt b1)
                   then b1\<lparr>bld_StartedAt := utc now\<rparr> else b1);
             b3 = (if nxt \<noteq> BuildStatusFailed then b2\<lparr>bld_FailureCategory := BuildFailureOther []\<rparr> else b2)
         in Inr (if Build_Terminal b3 then b3\<lparr>bld_FinishedAt := utc now, bld_Lease := empty_build_lease\<rparr>
                 else b3)))"

definition Build_Fail :: "Build \<Rightarrow> BuildFailureCategory \<Rightarrow> time \<Rightarrow> build_error + Build" where
  "Build_Fail b category now =
     (if \<not> BuildFailureCategory_Valid category then Inl ErrInvalidBuildFailure
      else bind_result (Build_Transition b BuildStatusFailed now)
        (\<lambda>b1. Inr (b1\<lparr>bld_FailureCategory := category\<rparr>)))"

definition RecordPushedImage :: "reference_parser \<Rightarrow> Build \<Rightarrow> string \<Rightarrow> time \<Rightarrow> build_error + Build" where
  "RecordPushedImage parse b value now =
     (if bld_Status b \<noteq> BuildStatusPushing \<or> is_zero now \<or> bld_ImageDigest b \<noteq> []
      then Inl ErrInvalidBuildOutput
      else (case parse (trim_space value) of
          None \<Rightarrow> Inl ErrInvalidBuildOutput
        | Some named \<Rightarrow>
            if in_Name named \<noteq> snap_ImageRepository (bld_Configuration b) then Inl ErrInvalidBuildOutput
            else (case in_Canonical named of
                None \<Rightarrow> Inl ErrInvalidBuildOutput
              | Some (algorithm, canonical) \<Rightarrow>
                  if algorithm \<noteq> ''sha256'' then Inl ErrInvalidBuildOutput
                  else Inr (b\<lparr>bld_ImageDigest := canonical, bld_UpdatedAt := utc now\<rparr>))))"

definition Build_Cancel :: "Build \<Rightarrow> time \<Rightarrow> build_error + Build" where
  "Build_Cancel b now =
     (if bld_Status b = BuildStatusCanceling then Inr b
      else if Build_Terminal b then Inl ErrInvalidBuildTransition
      else Build_Transition b BuildStatusCanceling now)"

definition Build_Retry :: "Build \<Rightarrow> string \<Rightarrow> string \<Rightarrow> string \<Rightarrow> time \<Rightarrow> build_error + Build" where
  "Build_Retry b newID idempotencyKey triggeredBy now =
     (let i = trim_space newID; key = trim_space idempotencyKey; user = trim_space triggeredBy in
      if bld_Status b \<noteq> BuildStatusFailed then Inl ErrBuildRetryRequiresFailed
      else if \<not> build_validIdentifier i \<or> \<not> build_validIdentifier key \<or> \<not> build_validIdentifier user \<or>
              is_zero now then Inl ErrInvalidBuild
      else Inr \<lparr>bld_ID = i, bld_OrganizationID = bld_OrganizationID b, bld_ProjectID = bld_ProjectID b,
        bld_ApplicationID = bld_ApplicationID b, bld_BuildConfigurationID = bld_BuildConfigurationID b,
        bld_Revision = bld_Revision b, bld_Configuration = bld_Configuration b,
        bld_TriggerSource = BuildTriggerSourceRetry, bld_TriggerID = [], bld_IdempotencyKey = key,
        bld_Status = BuildStatusQueued, bld_FailureCategory = BuildFailureOther [], bld_Version = 1,
        bld_TriggeredBy = user, bld_SourceBuildID = bld_ID b, bld_ImageDigest = [], bld_ArtifactID = [],
        bld_Lease = empty_build_lease, bld_CreatedAt = utc now, bld_UpdatedAt = utc now,
        bld_StartedAt = 0, bld_FinishedAt = 0\<rparr>)"

definition MatchesRetry :: "Build \<Rightarrow> string \<Rightarrow> bool" where
  "MatchesRetry b sourceBuildID \<longleftrightarrow>
     bld_TriggerSource b = BuildTriggerSourceRetry \<and> bld_SourceBuildID b = trim_space sourceBuildID"

section \<open>Inversion of the operations\<close>

lemma BuildClaim_Validate_None:
  "BuildClaim_Validate c = None \<longleftrightarrow>
     build_validIdentifier (trim_space (bclaim_WorkerID c)) \<and> bclaim_Now c \<noteq> 0 \<and>
     bclaim_Now c < bclaim_ExpiresAt c \<and> claim_statuses_ok (bclaim_Statuses c) {}"
  by (auto simp: BuildClaim_Validate_def)

lemma Build_Acquire_Inr [inversion]:
  "Build_Acquire c b = Inr b' \<longleftrightarrow>
     BuildClaim_Validate c = None \<and> open_status (bld_Status b) \<and>
     \<not> BuildLease_Active (bld_Lease b) (bclaim_Now c) \<and>
     b' = b\<lparr>bld_Lease := \<lparr>blease_Owner = trim_space (bclaim_WorkerID c),
         blease_ExpiresAt = bclaim_ExpiresAt c, blease_Generation = blease_Generation (bld_Lease b) + 1\<rparr>,
       bld_UpdatedAt := bclaim_Now c\<rparr>"
  by (auto simp: Build_Acquire_def split: option.splits if_splits)

lemma Build_Renew_Inr [inversion]:
  "Build_Renew owner g now until b = Inr b' \<longleftrightarrow>
     trim_space owner \<noteq> [] \<and> blease_Owner (bld_Lease b) = trim_space owner \<and>
     blease_Generation (bld_Lease b) = g \<and> BuildLease_Active (bld_Lease b) now \<and> now < until \<and>
     b' = b\<lparr>bld_Lease := (bld_Lease b)\<lparr>blease_ExpiresAt := until\<rparr>, bld_UpdatedAt := now\<rparr>"
  by (auto simp: Build_Renew_def)

lemma build_failed_from: "build_transition_valid s BuildStatusFailed \<Longrightarrow> open_status s"
  by (cases s) (auto simp: build_transition_valid_def)

lemma Build_Transition_Inr [inversion]:
  "Build_Transition b nxt now = Inr b' \<longleftrightarrow>
     build_transition_valid (bld_Status b) nxt \<and> now \<noteq> 0 \<and>
     b' = b\<lparr>bld_Status := nxt, bld_UpdatedAt := now,
       bld_StartedAt := (if nxt = BuildStatusCheckingOut \<and> bld_StartedAt b = 0 then now else bld_StartedAt b),
       bld_FailureCategory := (if nxt = BuildStatusFailed then bld_FailureCategory b else BuildFailureOther []),
       bld_FinishedAt := (if nxt \<in> {BuildStatusSucceeded, BuildStatusFailed, BuildStatusCanceled}
         then now else bld_FinishedAt b),
       bld_Lease := (if nxt \<in> {BuildStatusSucceeded, BuildStatusFailed, BuildStatusCanceled}
         then empty_build_lease else bld_Lease b)\<rparr>"
  by (auto simp: Build_Transition_def Build_Terminal_def Let_def)

lemma Build_Fail_Inr [inversion]:
  "Build_Fail b category now = Inr b' \<longleftrightarrow>
     BuildFailureCategory_Valid category \<and> build_transition_valid (bld_Status b) BuildStatusFailed \<and> now \<noteq> 0 \<and>
     b' = b\<lparr>bld_Status := BuildStatusFailed, bld_UpdatedAt := now, bld_FailureCategory := category,
       bld_FinishedAt := now, bld_Lease := empty_build_lease\<rparr>"
  by (auto simp: Build_Fail_def bind_result_eq_Inr Build_Transition_Inr)

lemma RecordPushedImage_Inr [inversion]:
  "RecordPushedImage parse b value now = Inr b' \<longleftrightarrow>
     bld_Status b = BuildStatusPushing \<and> now \<noteq> 0 \<and> bld_ImageDigest b = [] \<and>
     (\<exists>named canonical. parse (trim_space value) = Some named \<and>
        in_Name named = snap_ImageRepository (bld_Configuration b) \<and>
        in_Canonical named = Some (''sha256'', canonical) \<and>
        b' = b\<lparr>bld_ImageDigest := canonical, bld_UpdatedAt := now\<rparr>)"
  by (auto simp: RecordPushedImage_def split: option.splits prod.splits if_splits)

lemma Build_Cancel_Inr [inversion]:
  "Build_Cancel b now = Inr b' \<longleftrightarrow>
     (bld_Status b = BuildStatusCanceling \<and> b' = b) \<or>
     (bld_Status b \<noteq> BuildStatusCanceling \<and> \<not> Build_Terminal b \<and> Build_Transition b BuildStatusCanceling now = Inr b')"
  by (auto simp: Build_Cancel_def)

section \<open>The lease contract\<close>

definition build_acquire :: "string \<Rightarrow> time \<Rightarrow> time \<Rightarrow> Build \<Rightarrow> build_error + Build" where
  "build_acquire w now until b =
     Build_Acquire \<lparr>bclaim_WorkerID = w, bclaim_Now = now, bclaim_ExpiresAt = until, bclaim_Statuses = []\<rparr> b"

lemma identifier_ne: "build_validIdentifier s \<Longrightarrow> s \<noteq> []"
  unfolding build_validIdentifier_def by (rule matches_id_ne_Nil)

interpretation build_lease: leased_item build_acquire "\<lambda>b. blease_Owner (bld_Lease b)"
  "\<lambda>b. blease_ExpiresAt (bld_Lease b)" "\<lambda>b. blease_Generation (bld_Lease b)"
  "\<lambda>w. trim_space w \<noteq> []" trim_space
proof unfold_locales
  fix w now until and x y :: Build
  assume a: "build_acquire w now until x = Inr y"
  show "blease_Owner (bld_Lease y) = trim_space w"
    "blease_Generation (bld_Lease y) = blease_Generation (bld_Lease x) + 1"
    "trim_space (trim_space w) \<noteq> []"
    "blease_ExpiresAt (bld_Lease y) = until \<and> now < until"
    using a by (auto simp: build_acquire_def Build_Acquire_Inr BuildClaim_Validate_None dest: identifier_ne)
next
  fix x :: Build and w now until
  assume "trim_space (blease_Owner (bld_Lease x)) \<noteq> []" "now < blease_ExpiresAt (bld_Lease x)"
  then show "is_err (build_acquire w now until x)"
    by (auto simp: build_acquire_def Build_Acquire_def BuildLease_Active_def split: option.split)
qed

section \<open>Claims\<close>

lemma claim_statuses_ok_iff:
  "claim_statuses_ok ss seen \<longleftrightarrow> distinct ss \<and> set ss \<inter> seen = {} \<and> (\<forall>s \<in> set ss. open_status s)"
  by (induction ss arbitrary: seen) auto

text \<open>The order a claim searches the statuses in: the same statuses, cancellations first.\<close>

lemma ClaimableStatuses_set:
  assumes "bclaim_Statuses c \<noteq> []"
  shows "mset (ClaimableStatuses c) = mset (bclaim_Statuses c)"
proof (cases "find_index (\<lambda>s. s = BuildStatusCanceling) (bclaim_Statuses c)")
  case None
  then show ?thesis using assms by (simp add: ClaimableStatuses_def)
next
  case (Some i)
  then have i: "i < length (bclaim_Statuses c)" "bclaim_Statuses c ! i = BuildStatusCanceling"
    using find_index_Some by fastforce+
  have "mset (bclaim_Statuses c) =
      mset (take i (bclaim_Statuses c) @ bclaim_Statuses c ! i # drop (Suc i) (bclaim_Statuses c))"
    using id_take_nth_drop[OF i(1)] by simp
  then show ?thesis using assms Some i(2) by (simp add: ClaimableStatuses_def)
qed

lemma ClaimableStatuses_cancel_first:
  assumes "BuildStatusCanceling \<in> set (ClaimableStatuses c)"
  shows "hd (ClaimableStatuses c) = BuildStatusCanceling"
proof (cases "find_index (\<lambda>s. s = BuildStatusCanceling) (bclaim_Statuses c)")
  case None
  then have "BuildStatusCanceling \<notin> set (bclaim_Statuses c)" by (auto simp: find_index_None)
  with assms None show ?thesis by (simp add: ClaimableStatuses_def split: if_splits)
qed (simp add: ClaimableStatuses_def)

section \<open>The life of a build\<close>

text \<open>One call on a build: by a worker that claims, renews, advances, fails or records the image, or by
  a user who cancels.\<close>

inductive build_step :: "reference_parser \<Rightarrow> Build \<Rightarrow> Build \<Rightarrow> bool" for parse where
  bs_acquire: "Build_Acquire c b = Inr b' \<Longrightarrow> build_step parse b b'"
| bs_renew: "Build_Renew owner g now until b = Inr b' \<Longrightarrow> build_step parse b b'"
| bs_transition: "Build_Transition b nxt now = Inr b' \<Longrightarrow> build_step parse b b'"
| bs_fail: "Build_Fail b category now = Inr b' \<Longrightarrow> build_step parse b b'"
| bs_push: "RecordPushedImage parse b v now = Inr b' \<Longrightarrow> build_step parse b b'"
| bs_cancel: "Build_Cancel b now = Inr b' \<Longrightarrow> build_step parse b b'"

inductive_cases build_step_cases: "build_step parse b b'"

text \<open>What identifies a build and says what it builds.\<close>

definition build_core :: "Build \<Rightarrow> string list \<times> SourceRevision \<times> BuildConfigurationSnapshot \<times> BuildTriggerSource" where
  "build_core b =
     ([bld_ID b, bld_OrganizationID b, bld_ProjectID b, bld_ApplicationID b, bld_BuildConfigurationID b,
       bld_TriggerID b, bld_IdempotencyKey b, bld_TriggeredBy b, bld_SourceBuildID b],
      bld_Revision b, bld_Configuration b, bld_TriggerSource b)"

text \<open>The image of a build: absent until the push, then one digest of the configured repository.\<close>

definition image_of :: "reference_parser \<Rightarrow> string \<Rightarrow> string \<Rightarrow> bool" where
  "image_of parse repository canonical \<longleftrightarrow>
     (\<exists>v named. parse v = Some named \<and> in_Name named = repository \<and>
        in_Canonical named = Some (''sha256'', canonical))"

definition image_ok :: "reference_parser \<Rightarrow> Build \<Rightarrow> bool" where
  "image_ok parse b \<longleftrightarrow> bld_ImageDigest b = [] \<or>
     (bld_Status b \<notin> {BuildStatusQueued, BuildStatusCheckingOut, BuildStatusBuilding} \<and>
      image_of parse (snap_ImageRepository (bld_Configuration b)) (bld_ImageDigest b))"

definition build_wf :: "reference_parser \<Rightarrow> Build \<Rightarrow> bool" where
  "build_wf parse b \<longleftrightarrow>
     (\<forall>s. bld_Status b \<noteq> BuildStatusOther s) \<and>
     (bld_Status b \<noteq> BuildStatusFailed \<longrightarrow> bld_FailureCategory b = BuildFailureOther []) \<and>
     (Build_Terminal b \<longleftrightarrow> bld_FinishedAt b \<noteq> 0) \<and> (Build_Terminal b \<longrightarrow> bld_Lease b = empty_build_lease) \<and>
     (bld_Status b \<in> {BuildStatusCheckingOut, BuildStatusBuilding, BuildStatusPushing, BuildStatusSucceeded,
        BuildStatusFailed} \<longrightarrow> bld_StartedAt b \<noteq> 0) \<and> image_ok parse b"

lemma build_step_core: "build_step parse b b' \<Longrightarrow> build_core b' = build_core b"
  by (elim build_step_cases; force simp: build_core_def inversion)

lemma open_not_terminal: "open_status (bld_Status b) \<Longrightarrow> \<not> Build_Terminal b"
  by (auto simp: Build_Terminal_def)

text \<open>The allowed edges one by one: the tests on the two statuses then evaluate.\<close>

lemma build_edge_cases:
  assumes "build_transition_valid s nxt"
  obtains "s = BuildStatusQueued" "nxt = BuildStatusCheckingOut" | "s = BuildStatusQueued" "nxt = BuildStatusCanceling"
  | "s = BuildStatusCheckingOut" "nxt = BuildStatusBuilding" | "s = BuildStatusCheckingOut" "nxt = BuildStatusFailed"
  | "s = BuildStatusCheckingOut" "nxt = BuildStatusCanceling" | "s = BuildStatusBuilding" "nxt = BuildStatusPushing"
  | "s = BuildStatusBuilding" "nxt = BuildStatusFailed" | "s = BuildStatusBuilding" "nxt = BuildStatusCanceling"
  | "s = BuildStatusPushing" "nxt = BuildStatusSucceeded" | "s = BuildStatusPushing" "nxt = BuildStatusFailed"
  | "s = BuildStatusPushing" "nxt = BuildStatusCanceling" | "s = BuildStatusCanceling" "nxt = BuildStatusCanceled"
  using assms unfolding build_transition_valid_def by (elim disjE conjE; simp only:)

lemma Build_Transition_wf:
  assumes "build_wf parse b" "Build_Transition b nxt now = Inr b'"
  shows "build_wf parse b'"
proof -
  note t = assms(2)[unfolded Build_Transition_Inr]
  from t have "build_transition_valid (bld_Status b) nxt" by simp
  then show ?thesis
    by (cases rule: build_edge_cases)
      (use assms(1) t in \<open>simp_all add: build_wf_def Build_Terminal_def image_ok_def\<close>)
qed

lemma Build_Fail_wf:
  assumes "build_wf parse b" "Build_Fail b c now = Inr b'"
  shows "build_wf parse b'"
proof -
  note t = assms(2)[unfolded Build_Fail_Inr]
  from t have "build_transition_valid (bld_Status b) BuildStatusFailed" by simp
  then show ?thesis
    by (cases rule: build_edge_cases)
      (use assms(1) t in \<open>simp_all add: build_wf_def Build_Terminal_def image_ok_def\<close>)
qed

lemma active_not_terminal:
  assumes "build_wf parse b" "BuildLease_Active (bld_Lease b) now"
  shows "\<not> Build_Terminal b"
proof
  assume "Build_Terminal b"
  with assms(1) have "bld_Lease b = empty_build_lease" by (simp add: build_wf_def)
  with assms(2) show False by (simp add: BuildLease_Active_def empty_build_lease_def)
qed

lemma Build_Renew_wf:
  assumes "build_wf parse b" "Build_Renew w g now until b = Inr b'"
  shows "build_wf parse b'"
proof -
  note t = assms(2)[unfolded Build_Renew_Inr]
  then have "\<not> Build_Terminal b" using active_not_terminal[OF assms(1)] by blast
  with assms(1) t show ?thesis by (simp add: build_wf_def Build_Terminal_def image_ok_def)
qed

lemma Build_Acquire_wf:
  assumes "build_wf parse b" "Build_Acquire c b = Inr b'"
  shows "build_wf parse b'"
proof -
  note t = assms(2)[unfolded Build_Acquire_Inr]
  then have "\<not> Build_Terminal b" using open_not_terminal by blast
  with assms(1) t show ?thesis by (simp add: build_wf_def Build_Terminal_def image_ok_def)
qed

lemma RecordPushedImage_image:
  assumes "RecordPushedImage parse b v now = Inr b'"
  shows "\<exists>canonical. image_of parse (snap_ImageRepository (bld_Configuration b)) canonical \<and>
     bld_Status b = BuildStatusPushing \<and> b' = b\<lparr>bld_ImageDigest := canonical, bld_UpdatedAt := now\<rparr>"
  using assms unfolding RecordPushedImage_Inr image_of_def by blast

lemma RecordPushedImage_wf:
  assumes "build_wf parse b" "RecordPushedImage parse b v now = Inr b'"
  shows "build_wf parse b'"
proof -
  from RecordPushedImage_image[OF assms(2)] obtain canonical where
    img: "image_of parse (snap_ImageRepository (bld_Configuration b)) canonical"
    and st: "bld_Status b = BuildStatusPushing"
    and b': "b' = b\<lparr>bld_ImageDigest := canonical, bld_UpdatedAt := now\<rparr>" by blast
  from assms(1) st have "bld_FinishedAt b = 0" by (simp add: build_wf_def Build_Terminal_def)
  with assms(1) st img show ?thesis unfolding b' by (simp add: build_wf_def Build_Terminal_def image_ok_def)
qed

lemma build_step_wf: "build_wf parse b \<Longrightarrow> build_step parse b b' \<Longrightarrow> build_wf parse b'"
  by (elim build_step_cases)
    (auto simp: Build_Cancel_Inr simp del: Build_Transition_Inr
      dest: Build_Transition_wf Build_Fail_wf Build_Renew_wf Build_Acquire_wf RecordPushedImage_wf)

text \<open>A recorded digest and a start time stay; an ended build takes no further step.\<close>

lemma build_step_keeps:
  "build_step parse b b' \<Longrightarrow> bld_ImageDigest b \<noteq> [] \<Longrightarrow> bld_ImageDigest b' = bld_ImageDigest b"
  by (elim build_step_cases; force simp: inversion)

lemma build_transition_open: "build_transition_valid s nxt \<Longrightarrow> open_status s"
  by (auto elim: build_edge_cases)

lemma not_terminal_open: "build_wf parse b \<Longrightarrow> \<not> Build_Terminal b \<Longrightarrow> open_status (bld_Status b)"
  by (cases "bld_Status b") (simp_all add: build_wf_def Build_Terminal_def)

lemma build_step_open:
  assumes "build_step parse b b'" "build_wf parse b"
    and "bld_Status b \<noteq> BuildStatusCanceling"
  shows "open_status (bld_Status b)"
  using assms(1)
proof cases
  case (bs_renew owner g now until)
  then have "BuildLease_Active (bld_Lease b) now" by (simp add: Build_Renew_Inr)
  then show ?thesis by (intro not_terminal_open[OF assms(2)] active_not_terminal[OF assms(2)])
next
  case (bs_cancel now)
  then show ?thesis using assms(3) not_terminal_open[OF assms(2)] by (simp add: Build_Cancel_Inr)
qed (use build_transition_open in \<open>auto simp: inversion\<close>)

fun build_rank :: "BuildStatus \<Rightarrow> nat" where
  "build_rank BuildStatusQueued = 0"
| "build_rank BuildStatusCheckingOut = 1"
| "build_rank BuildStatusBuilding = 2"
| "build_rank BuildStatusPushing = 3"
| "build_rank BuildStatusCanceling = 4"
| "build_rank _ = 5"

text \<open>A status that is left is never entered again.\<close>

lemma build_step_rank:
  "build_step parse b b' \<Longrightarrow> bld_Status b' = bld_Status b \<or> build_rank (bld_Status b) < build_rank (bld_Status b')"
  by (elim build_step_cases) (auto simp: inversion build_transition_valid_def)

lemma NewBuild_Inr:
  assumes "NewBuild parse i org p a c r src trigger key user now = Inr b"
  shows "\<exists>d. normalizeBuildConfiguration parse c = Inr d \<and> bld_Configuration b = Snapshot d \<and>
     bld_BuildConfigurationID b = cfg_ID d \<and> bld_ProjectID b = cfg_ProjectID d \<and>
     bld_ApplicationID b = cfg_ApplicationID d \<and>
     NewSourceRevision (rev_SourceRepositoryID r) (rev_Ref r) (rev_CommitSHA r) = Inr (bld_Revision b) \<and>
     rev_SourceRepositoryID (bld_Revision b) = cfg_SourceRepositoryID d \<and>
     build_validIdentifier (bld_ID b) \<and> build_validIdentifier (bld_ProjectID b) \<and>
     trim_space (bld_ID b) = bld_ID b \<and> trim_space (bld_ProjectID b) = bld_ProjectID b \<and>
     bld_Status b = BuildStatusQueued \<and> bld_FailureCategory b = BuildFailureOther [] \<and>
     bld_Lease b = empty_build_lease \<and> bld_FinishedAt b = 0 \<and> bld_ImageDigest b = [] \<and> bld_Version b = 1 \<and>
     (bld_TriggerSource b = BuildTriggerSourceManual \<longleftrightarrow> bld_TriggerID b = [])"
  using assms unfolding NewBuild_def Let_def
  by (auto split: sum.splits if_splits dest: identifier_ne)

lemma NewBuild_wf: "NewBuild parse i org p a c r src trigger key user now = Inr b \<Longrightarrow> build_wf parse b"
  by (drule NewBuild_Inr) (auto simp: build_wf_def Build_Terminal_def image_ok_def)

lemma Build_Retry_wf: "Build_Retry b i key user now = Inr b' \<Longrightarrow> build_wf parse b'"
  by (auto simp: Build_Retry_def Let_def build_wf_def Build_Terminal_def image_ok_def split: if_splits)

lemma build_steps_wf: "(build_step parse)\<^sup>*\<^sup>* b b' \<Longrightarrow> build_wf parse b \<Longrightarrow> build_wf parse b'"
  by (induction rule: rtranclp_induct) (auto intro: build_step_wf)

lemma build_steps_core: "(build_step parse)\<^sup>*\<^sup>* b b' \<Longrightarrow> build_core b' = build_core b"
  by (induction rule: rtranclp_induct) (auto dest: build_step_core)

lemma build_steps_digest:
  "(build_step parse)\<^sup>*\<^sup>* b b' \<Longrightarrow> bld_ImageDigest b \<noteq> [] \<Longrightarrow> bld_ImageDigest b' = bld_ImageDigest b"
  by (induction rule: rtranclp_induct) (auto dest: build_step_keeps)

lemma build_steps_ended:
  "(build_step parse)\<^sup>*\<^sup>* b b' \<Longrightarrow> build_wf parse b \<Longrightarrow> Build_Terminal b \<Longrightarrow> b' = b"
proof (induction rule: converse_rtranclp_induct)
  case (step b c)
  from \<open>Build_Terminal b\<close> have "bld_Status b \<noteq> BuildStatusCanceling" by (auto simp: Build_Terminal_def)
  with step show ?case using build_step_open open_not_terminal by blast
qed simp

end
