(* ===== verification/BuildSource.thy ===== *)
theory BuildSource
  imports Build
begin

text \<open>
  Source repositories and their credentials, and the requests a worker hands to the checkout and the
  image builder (\<open>internal/modules/build/biz/{source,checkout,build_execution}.go\<close>,
  \<open>internal/shared/secretref/secretref.go\<close>, \<open>internal/shared/registryauth/mode.go\<close>).
  \<open>url.ParseRequestURI\<close> and \<open>net.ParseIP\<close> are arguments of the model.
\<close>

section \<open>Secret references\<close>

definition secret_alias_char :: "char \<Rightarrow> bool" where
  "secret_alias_char c \<longleftrightarrow> is_lower c \<or> is_digit c"

definition Alias :: "string \<Rightarrow> string option" where
  "Alias ref =
     (if \<not> has_prefix ref ''secret://'' then None
      else (let alias = trim_prefix ref ''secret://'' in
        if matches_id secret_alias_char (\<lambda>c. secret_alias_char c \<or> c = CHR ''-'') 62 alias then Some alias
        else None))"

section \<open>Data\<close>

datatype CredentialType = CredentialTypeSSHDeployKey | CredentialTypeHTTPSAccessToken | CredentialTypeOther string

fun CredentialType_Valid :: "CredentialType \<Rightarrow> bool" where
  "CredentialType_Valid (CredentialTypeOther _) = False"
| "CredentialType_Valid _ = True"

datatype RepositoryProtocol = RepositoryProtocolHTTPS | RepositoryProtocolSSH

record RepositoryCredential =
  cred_ID :: string
  cred_ProjectID :: string
  cred_Name :: string
  cred_Type :: CredentialType
  cred_Username :: string
  cred_SecretRef :: string
  cred_PublicKeyFingerprint :: string
  cred_Version :: u64
  cred_CreatedBy :: string
  cred_CreatedAt :: time

record CredentialSummary =
  sum_ID :: string
  sum_ProjectID :: string
  sum_Name :: string
  sum_Type :: CredentialType
  sum_Username :: string
  sum_SecretConfigured :: bool
  sum_PublicKeyFingerprint :: string
  sum_Version :: u64
  sum_CreatedBy :: string
  sum_CreatedAt :: time

definition Credential_Summary :: "RepositoryCredential \<Rightarrow> CredentialSummary" where
  "Credential_Summary c =
     \<lparr>sum_ID = cred_ID c, sum_ProjectID = cred_ProjectID c, sum_Name = cred_Name c, sum_Type = cred_Type c,
       sum_Username = cred_Username c, sum_SecretConfigured = (cred_SecretRef c \<noteq> []),
       sum_PublicKeyFingerprint = cred_PublicKeyFingerprint c, sum_Version = cred_Version c,
       sum_CreatedBy = cred_CreatedBy c, sum_CreatedAt = cred_CreatedAt c\<rparr>"

datatype SourceRepositoryStatus =
    SourceRepositoryStatusPending
  | SourceRepositoryStatusReady
  | SourceRepositoryStatusUnreachable
  | SourceRepositoryStatusAuthenticationError
  | SourceRepositoryStatusHostKeyMismatch
  | SourceRepositoryStatusReferenceNotFound
  | SourceRepositoryStatusOther string

fun ValidProbeResult :: "SourceRepositoryStatus \<Rightarrow> bool" where
  "ValidProbeResult SourceRepositoryStatusPending = False"
| "ValidProbeResult (SourceRepositoryStatusOther _) = False"
| "ValidProbeResult _ = True"

record SourceRepository =
  src_ID :: string
  src_ProjectID :: string
  src_Name :: string
  src_RepositoryURL :: string
  src_Protocol :: RepositoryProtocol
  src_DefaultBranch :: string
  src_CredentialID :: string
  src_SSHHostKeyFingerprint :: string
  src_Status :: SourceRepositoryStatus
  src_LastProbedAt :: time
  src_CreatedBy :: string
  src_CreatedAt :: time
  src_UpdatedAt :: time

section \<open>Repository addresses\<close>

record parsed_url =
  url_Scheme :: string
  url_User :: "(string \<times> bool) option"
  url_Host :: string
  url_Hostname :: string
  url_Port :: string
  url_Path :: string
  url_RawQuery :: string
  url_Fragment :: string

record url_library =
  ul_parse :: "string \<Rightarrow> parsed_url option"
  ul_is_ip :: "string \<Rightarrow> bool"

text \<open>\<open>strconv.Atoi\<close>: an optional sign and digits, in the range of 64 bits.\<close>

definition digits_value :: "string \<Rightarrow> int" where
  "digits_value s = foldl (\<lambda>n c. 10 * n + (of_char c - 48)) 0 s"

definition atoi :: "string \<Rightarrow> int option" where
  "atoi s =
     (let negative = has_prefix s ''-'';
          digits = (if negative \<or> has_prefix s ''+'' then tl s else s);
          n = (if negative then - digits_value digits else digits_value digits)
      in if digits = [] \<or> \<not> list_all is_digit digits \<or> n < - (2 ^ 63) \<or> n \<ge> 2 ^ 63 then None else Some n)"

definition validRepositoryPath :: "string \<Rightarrow> bool" where
  "validRepositoryPath v \<longleftrightarrow>
     (let value = trim_space v in
      value \<noteq> [] \<and> value \<noteq> ''/'' \<and> \<not> has_prefix value ''-'' \<and> \<not> contains value ''..'' \<and>
      \<not> list_ex (\<lambda>c. c \<in> set [CHR 0x00, CHR 0x0D, CHR 0x0A]) value)"

text \<open>
  The pattern \<open>user@host:path\<close>: neither of the first two groups contains its separator, so the
  submatches are what stands before the first \<open>@\<close>, before the next colon, and the rest.
\<close>

definition scp_user_char :: "char \<Rightarrow> bool" where
  "scp_user_char c \<longleftrightarrow> is_alnum c \<or> c \<in> set ''._-''"

definition scp_host_char :: "char \<Rightarrow> bool" where
  "scp_host_char c \<longleftrightarrow> is_alnum c \<or> c \<in> set ''.-''"

definition scpRepositoryPattern :: "string \<Rightarrow> (string \<times> string) option" where
  "scpRepositoryPattern value =
     (let user = takeWhile (\<lambda>c. c \<noteq> CHR ''@'') value;
          rest = drop (Suc (length user)) value;
          host = takeWhile (\<lambda>c. c \<noteq> CHR '':'') rest;
          path = drop (Suc (length host)) rest
      in if length user < length value \<and> length host < length rest \<and> user \<noteq> [] \<and> host \<noteq> [] \<and> path \<noteq> [] \<and>
            list_all scp_user_char user \<and> list_all scp_host_char host \<and> CHR 0x0A \<notin> set path
         then Some (host, path) else None)"

definition validateRepositoryURL :: "url_library \<Rightarrow> string \<Rightarrow> build_error + RepositoryProtocol" where
  "validateRepositoryURL lib value =
     (if value = [] \<or> 2048 < length value \<or> hasUnsafeText value \<or>
         list_ex (\<lambda>c. c \<in> set [CHR '' '', CHR 0x09, CHR 0x0D, CHR 0x0A, CHR 0x5C]) value
      then Inl ErrInvalidSourceRepository
      else (case scpRepositoryPattern value of
        Some (host, path) \<Rightarrow>
          if host = [] \<or> \<not> validRepositoryPath path then Inl ErrInvalidSourceRepository
          else Inr RepositoryProtocolSSH
      | None \<Rightarrow> (case ul_parse lib value of
          None \<Rightarrow> Inl ErrInvalidSourceRepository
        | Some u \<Rightarrow>
            if url_Host u = [] \<or> url_Hostname u = [] \<or> url_RawQuery u \<noteq> [] \<or> url_Fragment u \<noteq> [] \<or>
               \<not> validRepositoryPath (url_Path u) then Inl ErrInvalidSourceRepository
            else if url_Port u \<noteq> [] \<and> (case atoi (url_Port u) of None \<Rightarrow> True | Some n \<Rightarrow> n < 1 \<or> n > 65535)
            then Inl ErrInvalidSourceRepository
            else if \<not> ul_is_ip lib (url_Hostname u) \<and> contains (url_Hostname u) ''_''
            then Inl ErrInvalidSourceRepository
            else if to_lower (url_Scheme u) = ''https'' then
              (if url_Scheme u \<noteq> ''https'' \<or> url_User u \<noteq> None then Inl ErrInvalidSourceRepository
               else Inr RepositoryProtocolHTTPS)
            else if to_lower (url_Scheme u) = ''ssh'' then
              (case url_User u of
                 None \<Rightarrow> Inl ErrInvalidSourceRepository
               | Some (user, passwordSet) \<Rightarrow>
                   if url_Scheme u \<noteq> ''ssh'' \<or> user = [] then Inl ErrInvalidSourceRepository
                   else if passwordSet then Inl ErrInvalidSourceRepository
                   else Inr RepositoryProtocolSSH)
            else Inl ErrInvalidSourceRepository)))"

section \<open>Creation\<close>

definition NewRepositoryCredential ::
  "string \<Rightarrow> string \<Rightarrow> string \<Rightarrow> CredentialType \<Rightarrow> string \<Rightarrow> string \<Rightarrow> string \<Rightarrow> string \<Rightarrow> time \<Rightarrow>
     build_error + RepositoryCredential" where
  "NewRepositoryCredential i p n credentialType u secret fingerprint creator now =
     (let cid = trim_space i; projectID = trim_space p; name = trim_space n; username = trim_space u;
          secretReference = trim_space secret; publicKeyFingerprint = trim_space fingerprint;
          createdBy = trim_space creator
      in if \<not> build_validIdentifier cid \<or> \<not> build_validIdentifier projectID \<or>
            \<not> build_validIdentifier createdBy \<or> \<not> validName name \<or>
            \<not> CredentialType_Valid credentialType \<or> is_zero now then Inl ErrInvalidCredential
         else if Alias secretReference = None then Inl ErrInvalidCredential
         else if credentialType = CredentialTypeSSHDeployKey \<and>
            (username \<noteq> [] \<or> \<not> validSSHFingerprint publicKeyFingerprint) then Inl ErrInvalidCredential
         else if credentialType = CredentialTypeHTTPSAccessToken \<and>
            (publicKeyFingerprint \<noteq> [] \<or> 128 < length username \<or> hasUnsafeText username)
         then Inl ErrInvalidCredential
         else Inr \<lparr>cred_ID = cid, cred_ProjectID = projectID, cred_Name = name, cred_Type = credentialType,
           cred_Username = username, cred_SecretRef = secretReference,
           cred_PublicKeyFingerprint = publicKeyFingerprint, cred_Version = 1, cred_CreatedBy = createdBy,
           cred_CreatedAt = utc now\<rparr>)"

definition NewSourceRepository ::
  "url_library \<Rightarrow> string \<Rightarrow> string \<Rightarrow> string \<Rightarrow> string \<Rightarrow> string \<Rightarrow> string \<Rightarrow> string \<Rightarrow> string \<Rightarrow> time \<Rightarrow>
     build_error + SourceRepository" where
  "NewSourceRepository lib i p n url branch credential fingerprint creator now =
     (let sid = trim_space i; projectID = trim_space p; name = trim_space n; repositoryURL = trim_space url;
          defaultBranch = trim_space branch; credentialID = trim_space credential;
          hostKey = trim_space fingerprint; createdBy = trim_space creator
      in (case validateRepositoryURL lib repositoryURL of
            Inl e \<Rightarrow> Inl ErrInvalidSourceRepository
          | Inr protocol \<Rightarrow>
              if \<not> build_validIdentifier sid \<or> \<not> build_validIdentifier projectID \<or>
                 \<not> build_validIdentifier createdBy \<or> \<not> validName name \<or> \<not> validGitBranch defaultBranch \<or>
                 is_zero now \<or> (credentialID \<noteq> [] \<and> \<not> build_validIdentifier credentialID)
              then Inl ErrInvalidSourceRepository
              else if protocol = RepositoryProtocolSSH \<and> \<not> validSSHFingerprint hostKey
              then Inl ErrInvalidSourceRepository
              else if protocol = RepositoryProtocolHTTPS \<and> hostKey \<noteq> [] then Inl ErrInvalidSourceRepository
              else Inr \<lparr>src_ID = sid, src_ProjectID = projectID, src_Name = name,
                src_RepositoryURL = repositoryURL, src_Protocol = protocol,
                src_DefaultBranch = defaultBranch, src_CredentialID = credentialID,
                src_SSHHostKeyFingerprint = hostKey, src_Status = SourceRepositoryStatusPending,
                src_LastProbedAt = 0, src_CreatedBy = createdBy, src_CreatedAt = utc now,
                src_UpdatedAt = utc now\<rparr>))"

definition CredentialSupportsProtocol :: "RepositoryCredential \<Rightarrow> RepositoryProtocol \<Rightarrow> bool" where
  "CredentialSupportsProtocol c protocol \<longleftrightarrow>
     (cred_Type c = CredentialTypeSSHDeployKey \<and> protocol = RepositoryProtocolSSH) \<or>
     (cred_Type c = CredentialTypeHTTPSAccessToken \<and> protocol = RepositoryProtocolHTTPS)"

section \<open>Requests of the worker\<close>

record CheckoutRequest =
  chk_Source :: SourceRepository
  chk_Credential :: "RepositoryCredential option"
  chk_Revision :: SourceRevision
  chk_Destination :: string

definition CheckoutRequest_Validate :: "url_library \<Rightarrow> CheckoutRequest \<Rightarrow> build_error option" where
  "CheckoutRequest_Validate lib r =
     (let source = chk_Source r in
      if trim_space (chk_Destination r) = [] \<or> src_ID source = [] \<or> src_ProjectID source = [] \<or>
         rev_SourceRepositoryID (chk_Revision r) \<noteq> src_ID source \<or>
         \<not> commitSHAPattern (rev_CommitSHA (chk_Revision r)) \<or> \<not> validExactRef (rev_Ref (chk_Revision r)) \<or>
         validateRepositoryURL lib (trim_space (src_RepositoryURL source)) \<noteq> Inr (src_Protocol source)
      then Some ErrCheckoutFailed
      else if src_CredentialID source = [] then
        (if chk_Credential r \<noteq> None \<or> src_Protocol source = RepositoryProtocolSSH
         then Some ErrCheckoutAuthentication else None)
      else (case chk_Credential r of
          None \<Rightarrow> Some ErrCheckoutAuthentication
        | Some c \<Rightarrow>
            if cred_ID c \<noteq> src_CredentialID source \<or> cred_ProjectID c \<noteq> src_ProjectID source \<or>
               \<not> CredentialSupportsProtocol c (src_Protocol source)
            then Some ErrCheckoutAuthentication else None))"

datatype registry_mode = ModeAnonymous | ModeBasic | ModeOther string

fun registry_mode_Valid :: "registry_mode \<Rightarrow> bool" where
  "registry_mode_Valid (ModeOther _) = False"
| "registry_mode_Valid _ = True"

record BuildRegistryCredential =
  reg_ID :: string
  reg_ProjectID :: string
  reg_Server :: string
  reg_AuthenticationMode :: registry_mode
  reg_Username :: string
  reg_PasswordRef :: string

definition RegistryCredential_Validate ::
  "BuildRegistryCredential \<Rightarrow> string \<Rightarrow> string \<Rightarrow> build_error option" where
  "RegistryCredential_Validate c projectID credentialID =
     (if trim_space (reg_ID c) \<noteq> trim_space credentialID \<or>
         trim_space (reg_ProjectID c) \<noteq> trim_space projectID \<or> trim_space (reg_Server c) = [] \<or>
         \<not> registry_mode_Valid (reg_AuthenticationMode c) then Some ErrInvalidBuildExecution
      else (case reg_AuthenticationMode c of
          ModeAnonymous \<Rightarrow>
            if trim_space (reg_Username c) \<noteq> [] \<or> trim_space (reg_PasswordRef c) \<noteq> []
            then Some ErrInvalidBuildExecution else None
        | ModeBasic \<Rightarrow>
            (let username = trim_space (reg_Username c) in
             if username = [] \<or> username \<noteq> reg_Username c \<or> 255 < length username \<or>
                list_ex (\<lambda>x. x \<in> set [CHR '':'', CHR 0x0D, CHR 0x0A, CHR 0x00]) username \<or>
                trim_space (reg_PasswordRef c) = [] then Some ErrInvalidBuildExecution else None)
        | ModeOther _ \<Rightarrow> None))"

record BuildExecutionRequest =
  exe_BuildID :: string
  exe_ProjectID :: string
  exe_Generation :: u64
  exe_Workspace :: string
  exe_Configuration :: BuildConfigurationSnapshot
  exe_Credential :: BuildRegistryCredential

definition ExecutionRequest_Validate :: "reference_parser \<Rightarrow> BuildExecutionRequest \<Rightarrow> build_error option" where
  "ExecutionRequest_Validate parse r =
     (let c = exe_Configuration r in
      case (safeRepositoryPath (snap_ContextPath c) True, safeRepositoryPath (snap_DockerfilePath c) False,
            normalizeImageRepository parse (snap_ImageRepository c)) of
        (Some contextPath, Some dockerfilePath, Some imageRepository) \<Rightarrow>
          if \<not> build_validIdentifier (trim_space (exe_BuildID r)) \<or>
             \<not> build_validIdentifier (trim_space (exe_ProjectID r)) \<or> exe_Generation r = 0 \<or>
             trim_space (exe_Workspace r) = [] \<or> \<not> build_validIdentifier (snap_ConfigurationID c) \<or>
             snap_ConfigurationVersion c = 0 \<or> \<not> build_validIdentifier (snap_SourceRepositoryID c) \<or>
             \<not> build_validIdentifier (snap_RegistryCredentialID c) \<or> contextPath \<noteq> snap_ContextPath c \<or>
             dockerfilePath \<noteq> snap_DockerfilePath c \<or> \<not> pathWithinContext contextPath dockerfilePath \<or>
             imageRepository \<noteq> snap_ImageRepository c \<or> \<not> BuildPlatform_Valid (snap_TargetPlatform c) \<or>
             \<not> BuildResources_valid (snap_Resources c) \<or> snap_TimeoutSeconds c < 60 \<or>
             snap_TimeoutSeconds c > 2 * 60 * 60 \<or>
             RegistryCredential_Validate (exe_Credential r) (exe_ProjectID r) (snap_RegistryCredentialID c) \<noteq> None
          then Some ErrInvalidBuildExecution
          else (case ImageRepositoryRegistry parse (snap_ImageRepository c) of
              Inl _ \<Rightarrow> Some ErrInvalidBuildExecution
            | Inr registry \<Rightarrow>
                if registry \<noteq> trim_space (reg_Server (exe_Credential r)) then Some ErrInvalidBuildExecution
                else None)
      | _ \<Rightarrow> Some ErrInvalidBuildExecution)"

section \<open>A stored build can be executed\<close>

text \<open>What a worker adds to a build to execute it.\<close>

definition request_of :: "Build \<Rightarrow> u64 \<Rightarrow> string \<Rightarrow> BuildRegistryCredential \<Rightarrow> BuildExecutionRequest" where
  "request_of b generation workspace credential =
     \<lparr>exe_BuildID = bld_ID b, exe_ProjectID = bld_ProjectID b, exe_Generation = generation,
       exe_Workspace = workspace, exe_Configuration = bld_Configuration b, exe_Credential = credential\<rparr>"

lemma snapshot_executable:
  assumes "normalized_configuration parse d" "bld_Configuration b = Snapshot d"
    and "build_validIdentifier (bld_ID b)" "build_validIdentifier (bld_ProjectID b)"
    and "trim_space (bld_ID b) = bld_ID b" "trim_space (bld_ProjectID b) = bld_ProjectID b"
  shows "ExecutionRequest_Validate parse (request_of b g workspace credential) = None \<longleftrightarrow>
     g \<noteq> 0 \<and> trim_space workspace \<noteq> [] \<and>
     RegistryCredential_Validate credential (bld_ProjectID b) (cfg_RegistryCredentialID d) = None \<and>
     ImageRepositoryRegistry parse (cfg_ImageRepository d) = Inr (trim_space (reg_Server credential))"
proof -
  have ident: "build_validIdentifier (cfg_ID d)" "cfg_Version d \<noteq> 0"
      "build_validIdentifier (cfg_SourceRepositoryID d)" "build_validIdentifier (cfg_RegistryCredentialID d)"
    and limits: "BuildPlatform_Valid (cfg_TargetPlatform d)" "BuildResources_valid (cfg_Resources d)"
      "\<not> cfg_TimeoutSeconds d < 60" "\<not> cfg_TimeoutSeconds d > 2 * 60 * 60"
    and paths: "safeRepositoryPath (cfg_ContextPath d) True = Some (cfg_ContextPath d)"
      "safeRepositoryPath (cfg_DockerfilePath d) False = Some (cfg_DockerfilePath d)"
      "pathWithinContext (cfg_ContextPath d) (cfg_DockerfilePath d)"
      "normalizeImageRepository parse (cfg_ImageRepository d) = Some (cfg_ImageRepository d)"
    using assms(1) unfolding normalized_configuration_def valid_identity_def valid_limits_def by simp_all
  show ?thesis
    unfolding ExecutionRequest_Validate_def request_of_def assms(2) Snapshot_def Let_def
    using ident limits paths assms(3-6) by (simp split: sum.split)
qed

section \<open>Checkouts\<close>

text \<open>Where a checkout is admitted, its address has the protocol of the credential it presents.\<close>

lemma admitted_checkout:
  assumes "CheckoutRequest_Validate lib r = None"
  shows "rev_SourceRepositoryID (chk_Revision r) = src_ID (chk_Source r) \<and>
     commitSHAPattern (rev_CommitSHA (chk_Revision r)) \<and>
     (case chk_Credential r of
        None \<Rightarrow> src_CredentialID (chk_Source r) = [] \<and> src_Protocol (chk_Source r) = RepositoryProtocolHTTPS
      | Some c \<Rightarrow> cred_ID c = src_CredentialID (chk_Source r) \<and> cred_ProjectID c = src_ProjectID (chk_Source r) \<and>
          CredentialSupportsProtocol c (src_Protocol (chk_Source r)))"
  using assms unfolding CheckoutRequest_Validate_def Let_def
  by (cases "src_Protocol (chk_Source r)") (auto split: if_splits option.splits)

end
