(* ===== verification/BuildTriggers.thy ===== *)
theory BuildTriggers
  imports BuildSource
begin

text \<open>
  What starts a build from outside and what it writes about itself
  (\<open>internal/modules/build/biz/{build_trigger,build_hook,build_log}.go\<close>): automation tokens and
  webhooks, both bound to a configuration and its references and both revocable, and the log's
  entries and queries.
\<close>

section \<open>Automation tokens\<close>

datatype BuildTriggerStatus = BuildTriggerStatusActive | BuildTriggerStatusRevoked | BuildTriggerStatusOther string

record BuildTrigger =
  trig_ID :: string
  trig_OrganizationID :: string
  trig_ProjectID :: string
  trig_ApplicationID :: string
  trig_BuildConfigurationID :: string
  trig_Name :: string
  trig_AllowedRefs :: "string list"
  trig_TokenHash :: string
  trig_Status :: BuildTriggerStatus
  trig_Version :: u64
  trig_CreatedBy :: string
  trig_CreatedAt :: time
  trig_RevokedBy :: string
  trig_RevokedAt :: time

definition containsString :: "string list \<Rightarrow> string \<Rightarrow> bool" where
  "containsString values wanted \<longleftrightarrow> list_ex (\<lambda>value. value = wanted) values"

text \<open>
  \<open>strings.ToLower\<close> maps no character outside ASCII to a hexadecimal digit, so the lower case of
  ASCII letters accepts the same hashes.
\<close>

definition NewBuildTrigger ::
  "string \<Rightarrow> string \<Rightarrow> string \<Rightarrow> string \<Rightarrow> string \<Rightarrow> string \<Rightarrow> string list \<Rightarrow> string \<Rightarrow> string \<Rightarrow> time \<Rightarrow>
     build_error + BuildTrigger" where
  "NewBuildTrigger i organizationID projectID applicationID configurationID n allowedRefs hash createdBy now =
     (let name = trim_space n; tokenHash = to_lower (trim_space hash) in
      case normalizeAllowedRefs allowedRefs of
        None \<Rightarrow> Inl ErrInvalidBuildTrigger
      | Some refs \<Rightarrow>
          if \<not> build_validIdentifier (trim_space i) \<or> \<not> build_validIdentifier (trim_space organizationID) \<or>
             \<not> build_validIdentifier (trim_space projectID) \<or> \<not> build_validIdentifier (trim_space applicationID) \<or>
             \<not> build_validIdentifier (trim_space configurationID) \<or> \<not> build_validIdentifier (trim_space createdBy) \<or>
             length name < 2 \<or> 80 < length name \<or> length tokenHash \<noteq> 64 \<or> is_zero now
          then Inl ErrInvalidBuildTrigger
          else if \<not> hex_decodable tokenHash then Inl ErrInvalidBuildTrigger
          else Inr \<lparr>trig_ID = trim_space i, trig_OrganizationID = trim_space organizationID,
            trig_ProjectID = trim_space projectID, trig_ApplicationID = trim_space applicationID,
            trig_BuildConfigurationID = trim_space configurationID, trig_Name = name, trig_AllowedRefs = refs,
            trig_TokenHash = tokenHash, trig_Status = BuildTriggerStatusActive, trig_Version = 1,
            trig_CreatedBy = trim_space createdBy, trig_CreatedAt = utc now, trig_RevokedBy = [],
            trig_RevokedAt = 0\<rparr>)"

definition Trigger_AllowsRef :: "BuildTrigger \<Rightarrow> string \<Rightarrow> bool" where
  "Trigger_AllowsRef t ref \<longleftrightarrow>
     trig_Status t = BuildTriggerStatusActive \<and> containsString (trig_AllowedRefs t) (trim_space ref)"

definition nibble :: "char \<Rightarrow> nat" where
  "nibble c =
     (if is_digit c then of_char c - 48 else if is_lower c then of_char c - 87 else of_char c - 55)"

fun hex_bytes :: "string \<Rightarrow> nat list" where
  "hex_bytes (a # b # s) = (16 * nibble a + nibble b) # hex_bytes s"
| "hex_bytes _ = []"

definition hex_DecodeString :: "string \<Rightarrow> nat list option" where
  "hex_DecodeString s = (if hex_decodable s then Some (hex_bytes s) else None)"

definition MatchesToken :: "BuildTrigger \<Rightarrow> string \<Rightarrow> bool" where
  "MatchesToken t hash \<longleftrightarrow>
     (case (hex_DecodeString (trig_TokenHash t), hex_DecodeString (to_lower (trim_space hash))) of
        (Some expected, Some actual) \<Rightarrow> length expected = 32 \<and> length actual = 32 \<and> expected = actual
      | _ \<Rightarrow> False)"

definition Trigger_Revoke :: "BuildTrigger \<Rightarrow> string \<Rightarrow> time \<Rightarrow> build_error + BuildTrigger" where
  "Trigger_Revoke t user now =
     (let userID = trim_space user in
      if trig_Status t \<noteq> BuildTriggerStatusActive \<or> \<not> build_validIdentifier userID \<or> is_zero now
      then Inl ErrInvalidBuildTrigger
      else Inr (t\<lparr>trig_Status := BuildTriggerStatusRevoked, trig_Version := trig_Version t + 1,
        trig_RevokedBy := userID, trig_RevokedAt := utc now\<rparr>))"

section \<open>Webhooks\<close>

datatype WebhookProvider =
    WebhookProviderGitHub
  | WebhookProviderGitLab
  | WebhookProviderGitea
  | WebhookProviderForgejo
  | WebhookProviderOther string

fun WebhookProvider_Valid :: "WebhookProvider \<Rightarrow> bool" where
  "WebhookProvider_Valid (WebhookProviderOther _) = False"
| "WebhookProvider_Valid _ = True"

datatype BuildHookStatus = BuildHookStatusActive | BuildHookStatusRevoked | BuildHookStatusOther string

record BuildHook =
  hook_ID :: string
  hook_OrganizationID :: string
  hook_ProjectID :: string
  hook_ApplicationID :: string
  hook_BuildConfigurationID :: string
  hook_Name :: string
  hook_Provider :: WebhookProvider
  hook_AllowedRefs :: "string list"
  hook_SecretRef :: string
  hook_Status :: BuildHookStatus
  hook_Version :: u64
  hook_CreatedBy :: string
  hook_CreatedAt :: time
  hook_RevokedBy :: string
  hook_RevokedAt :: time

record BuildHookSummary =
  hsum_ID :: string
  hsum_ProjectID :: string
  hsum_ApplicationID :: string
  hsum_BuildConfigurationID :: string
  hsum_Name :: string
  hsum_Provider :: WebhookProvider
  hsum_AllowedRefs :: "string list"
  hsum_SecretConfigured :: bool
  hsum_Status :: BuildHookStatus
  hsum_Version :: u64
  hsum_CreatedBy :: string
  hsum_CreatedAt :: time
  hsum_RevokedBy :: string
  hsum_RevokedAt :: time

definition Hook_Summary :: "BuildHook \<Rightarrow> BuildHookSummary" where
  "Hook_Summary h =
     \<lparr>hsum_ID = hook_ID h, hsum_ProjectID = hook_ProjectID h, hsum_ApplicationID = hook_ApplicationID h,
       hsum_BuildConfigurationID = hook_BuildConfigurationID h, hsum_Name = hook_Name h,
       hsum_Provider = hook_Provider h, hsum_AllowedRefs = hook_AllowedRefs h,
       hsum_SecretConfigured = (hook_SecretRef h \<noteq> []), hsum_Status = hook_Status h,
       hsum_Version = hook_Version h, hsum_CreatedBy = hook_CreatedBy h, hsum_CreatedAt = hook_CreatedAt h,
       hsum_RevokedBy = hook_RevokedBy h, hsum_RevokedAt = hook_RevokedAt h\<rparr>"

definition NewBuildHook ::
  "string \<Rightarrow> string \<Rightarrow> string \<Rightarrow> string \<Rightarrow> string \<Rightarrow> string \<Rightarrow> WebhookProvider \<Rightarrow> string list \<Rightarrow> string \<Rightarrow>
     string \<Rightarrow> time \<Rightarrow> build_error + BuildHook" where
  "NewBuildHook i organizationID projectID applicationID configurationID n provider allowedRefs secret
     createdBy now =
     (let name = trim_space n; secretReference = trim_space secret in
      case normalizeAllowedRefs allowedRefs of
        None \<Rightarrow> Inl ErrInvalidBuildHook
      | Some refs \<Rightarrow>
          if \<not> build_validIdentifier (trim_space i) \<or> \<not> build_validIdentifier (trim_space organizationID) \<or>
             \<not> build_validIdentifier (trim_space projectID) \<or> \<not> build_validIdentifier (trim_space applicationID) \<or>
             \<not> build_validIdentifier (trim_space configurationID) \<or> \<not> build_validIdentifier (trim_space createdBy) \<or>
             length name < 2 \<or> 80 < length name \<or> \<not> WebhookProvider_Valid provider \<or> is_zero now
          then Inl ErrInvalidBuildHook
          else if Alias secretReference = None then Inl ErrInvalidBuildHook
          else Inr \<lparr>hook_ID = trim_space i, hook_OrganizationID = trim_space organizationID,
            hook_ProjectID = trim_space projectID, hook_ApplicationID = trim_space applicationID,
            hook_BuildConfigurationID = trim_space configurationID, hook_Name = name,
            hook_Provider = provider, hook_AllowedRefs = refs, hook_SecretRef = secretReference,
            hook_Status = BuildHookStatusActive, hook_Version = 1, hook_CreatedBy = trim_space createdBy,
            hook_CreatedAt = utc now, hook_RevokedBy = [], hook_RevokedAt = 0\<rparr>)"

definition Hook_AllowsRef :: "BuildHook \<Rightarrow> string \<Rightarrow> bool" where
  "Hook_AllowsRef h ref \<longleftrightarrow>
     hook_Status h = BuildHookStatusActive \<and> containsString (hook_AllowedRefs h) (trim_space ref)"

definition Hook_Revoke :: "BuildHook \<Rightarrow> string \<Rightarrow> time \<Rightarrow> build_error + BuildHook" where
  "Hook_Revoke h user now =
     (let userID = trim_space user in
      if hook_Status h \<noteq> BuildHookStatusActive \<or> \<not> build_validIdentifier userID \<or> is_zero now
      then Inl ErrInvalidBuildHook
      else Inr (h\<lparr>hook_Status := BuildHookStatusRevoked, hook_Version := hook_Version h + 1,
        hook_RevokedBy := userID, hook_RevokedAt := utc now\<rparr>))"

section \<open>Logs\<close>

datatype BuildLogStage =
    BuildLogStageSystem
  | BuildLogStageCheckout
  | BuildLogStageBuild
  | BuildLogStagePush
  | BuildLogStageRelease
  | BuildLogStageOther string

fun BuildLogStage_Valid :: "BuildLogStage \<Rightarrow> bool" where
  "BuildLogStage_Valid (BuildLogStageOther _) = False"
| "BuildLogStage_Valid _ = True"

datatype log_error = ErrInvalidBuildLog | ErrInvalidBuildLogQuery | ErrBuildLogsUnavailable

record BuildLogAppend =
  log_BuildID :: string
  log_ProjectID :: string
  log_Stage :: BuildLogStage
  log_Message :: string
  log_CreatedAt :: time

definition BuildLogAppend_Validate :: "BuildLogAppend \<Rightarrow> log_error option" where
  "BuildLogAppend_Validate a =
     (if \<not> build_validIdentifier (trim_space (log_BuildID a)) \<or>
         \<not> build_validIdentifier (trim_space (log_ProjectID a)) \<or> \<not> BuildLogStage_Valid (log_Stage a) \<or>
         trim_space (log_Message a) = [] \<or> is_zero (log_CreatedAt a)
      then Some ErrInvalidBuildLog else None)"

record BuildLogQuery =
  query_AfterSequence :: u64
  query_Limit :: int

definition BuildLogQuery_Normalize :: "BuildLogQuery \<Rightarrow> log_error + BuildLogQuery" where
  "BuildLogQuery_Normalize q =
     (let limit = (if query_Limit q = 0 then 100 else query_Limit q) in
      if limit < 1 \<or> limit > 200 then Inl ErrInvalidBuildLogQuery else Inr (q\<lparr>query_Limit := limit\<rparr>))"

section \<open>Tokens and references\<close>

lemma to_lower_hex: "list_all is_hex_digit s \<Longrightarrow> list_all is_lower_hex_digit (to_lower s)"
proof (induction s)
  case (Cons c s)
  have "is_lower_hex_digit (lower_char c)" if h: "is_hex_digit c"
  proof (cases "is_upper c")
    case True
    let ?n = "of_char c :: nat"
    have n: "65 \<le> ?n" "?n \<le> 70"
      using True h by (auto simp: is_hex_digit_def is_upper_def is_digit_def in_range_def)
    then have "(of_char (char_of (?n + 32) :: char) :: nat) = ?n + 32" by simp
    with n True show ?thesis
      by (simp add: lower_char_def is_lower_hex_digit_def is_digit_def in_range_def)
  next
    case False
    with h show ?thesis
      by (auto simp: lower_char_def is_hex_digit_def is_lower_hex_digit_def is_upper_def is_digit_def in_range_def)
  qed
  with Cons show ?case by (simp add: to_lower_def)
qed (simp add: to_lower_def)

text \<open>A lower-case hexadecimal digit is the only one of its value.\<close>

lemma lower_hex_code:
  assumes "is_lower_hex_digit a"
  obtains n :: nat where "of_char a = n" "nibble a = (if n \<le> 57 then n - 48 else n - 87)"
    "48 \<le> n" "n \<le> 57 \<or> 97 \<le> n" "n \<le> 102"
  using assms that[of "of_char a"]
  unfolding is_lower_hex_digit_def nibble_def is_digit_def is_lower_def in_range_def
  by (auto split: if_splits)

lemma nibble_inject:
  assumes "is_lower_hex_digit a" "is_lower_hex_digit b" "nibble a = nibble b"
  shows "a = b"
proof -
  obtain n where n: "of_char a = (n :: nat)" "nibble a = (if n \<le> 57 then n - 48 else n - 87)"
    "48 \<le> n" "n \<le> 57 \<or> 97 \<le> n" "n \<le> 102" using lower_hex_code[OF assms(1)] .
  obtain m where m: "of_char b = (m :: nat)" "nibble b = (if m \<le> 57 then m - 48 else m - 87)"
    "48 \<le> m" "m \<le> 57 \<or> 97 \<le> m" "m \<le> 102" using lower_hex_code[OF assms(2)] .
  have "n = m" using n(2-5) m(2-5) assms(3) by (simp split: if_splits)
  with n(1) m(1) have "(of_char a :: nat) = of_char b" by simp
  then show ?thesis by (simp only: of_char_eq_iff)
qed

lemma nibble_less:
  assumes "is_lower_hex_digit a"
  shows "nibble a < 16"
proof -
  obtain n where "of_char a = (n :: nat)" "nibble a = (if n \<le> 57 then n - 48 else n - 87)"
    "48 \<le> n" "n \<le> 57 \<or> 97 \<le> n" "n \<le> 102" using lower_hex_code[OF assms] .
  then show ?thesis by (simp split: if_splits)
qed

lemma hex_bytes_inject:
  "list_all is_lower_hex_digit s \<Longrightarrow> list_all is_lower_hex_digit t \<Longrightarrow> length s = length t \<Longrightarrow>
   even (length s) \<Longrightarrow> hex_bytes s = hex_bytes t \<Longrightarrow> s = t"
proof (induction s arbitrary: t rule: hex_bytes.induct)
  case (1 a b s)
  from 1(4) obtain c d u where t: "t = c # d # u" by (cases t rule: hex_bytes.cases) auto
  from 1(6) t have eq: "16 * nibble a + nibble b = 16 * nibble c + nibble d" "hex_bytes s = hex_bytes u" by auto
  have "nibble b < 16" "nibble d < 16" using 1(2,3) t by (simp_all add: nibble_less)
  with eq(1) have digits: "nibble a = nibble c" by linarith
  with eq(1) have "nibble b = nibble d" by linarith
  with digits have "a = c" "b = d" using 1(2,3) t by (simp_all add: nibble_inject)
  moreover have "s = u" using 1(1)[of u] 1(2-5) t eq(2) by simp
  ultimately show ?case using t by simp
qed auto

lemma lower_hex_decodable: "list_all is_lower_hex_digit s \<Longrightarrow> list_all is_hex_digit s"
  by (auto simp: list_all_iff is_hex_digit_def is_lower_hex_digit_def)

lemma length_hex_bytes: "even (length s) \<Longrightarrow> length (hex_bytes s) = length s div 2"
  by (induction s rule: hex_bytes.induct) auto

lemma lower_hex_not_upper: "is_lower_hex_digit c \<Longrightarrow> lower_char c = c"
  by (auto simp: is_lower_hex_digit_def is_digit_def in_range_def lower_char_def is_upper_def)

text \<open>
  A token authenticates with a created trigger exactly when its hash, written in either case, is the
  stored one.
\<close>

lemma MatchesToken_iff:
  assumes "NewBuildTrigger i org p a c n refs hash user now = Inr t"
  shows "MatchesToken t h \<longleftrightarrow> to_lower (trim_space h) = trig_TokenHash t"
proof -
  have dec: "hex_decodable (trig_TokenHash t)" and len: "length (trig_TokenHash t) = 64"
    and low: "trig_TokenHash t = to_lower (trim_space hash)"
    using assms unfolding NewBuildTrigger_def Let_def by (auto split: option.splits if_splits)
  have lower: "list_all is_lower_hex_digit (trig_TokenHash t)"
    using to_lower_hex[of "trig_TokenHash t"] dec low by (simp add: hex_decodable_def)
  show ?thesis
  proof
    assume m: "MatchesToken t h"
    let ?h = "to_lower (trim_space h)"
    from m have h: "hex_decodable ?h" "length (hex_bytes ?h) = 32" "hex_bytes (trig_TokenHash t) = hex_bytes ?h"
      using dec by (auto simp: MatchesToken_def hex_DecodeString_def split: if_splits)
    have "list_all is_lower_hex_digit ?h"
      using to_lower_hex[of ?h] h(1) by (simp add: hex_decodable_def)
    moreover have "length ?h = 64" using h(1,2) length_hex_bytes[of ?h] by (auto simp: hex_decodable_def)
    ultimately show "?h = trig_TokenHash t"
      using hex_bytes_inject[OF lower] len h(3) by simp
  next
    assume "to_lower (trim_space h) = trig_TokenHash t"
    then show "MatchesToken t h"
      using dec len length_hex_bytes[of "trig_TokenHash t"] by (simp add: MatchesToken_def hex_DecodeString_def)
  qed
qed

text \<open>Revocation is final, and a revoked trigger or webhook starts nothing.\<close>

lemma Trigger_Revoke_final:
  assumes "Trigger_Revoke t user now = Inr u"
  shows "\<not> Trigger_AllowsRef u ref" "is_err (Trigger_Revoke u user2 now2)"
    "trig_TokenHash u = trig_TokenHash t" "trig_AllowedRefs u = trig_AllowedRefs t"
  using assms by (auto simp: Trigger_Revoke_def Trigger_AllowsRef_def Let_def split: if_splits)

lemma Hook_Revoke_final:
  assumes "Hook_Revoke h user now = Inr g"
  shows "\<not> Hook_AllowsRef g ref" "is_err (Hook_Revoke g user2 now2)"
  using assms by (auto simp: Hook_Revoke_def Hook_AllowsRef_def Let_def split: if_splits)

text \<open>The references a trigger admits are full references in the form a configuration stores.\<close>

lemma Trigger_AllowsRef_valid:
  assumes "NewBuildTrigger i org p a c n refs hash user now = Inr t" "Trigger_AllowsRef t ref"
  shows "valid_ref (trim_space ref) \<and> trim_space ref \<in> trim_space ` set refs"
proof -
  from assms(1) have "normalizeAllowedRefs refs = Some (trig_AllowedRefs t)"
    unfolding NewBuildTrigger_def Let_def by (auto split: option.splits if_splits)
  then have "trig_AllowedRefs t = sort (map trim_space refs)" "\<forall>r \<in> set (trig_AllowedRefs t). valid_ref r"
    unfolding normalizeAllowedRefs_Some by blast+
  with assms(2) show ?thesis
    by (auto simp: Trigger_AllowsRef_def containsString_def list_ex_iff)
qed

end
