(* ===== verification/BuildArtifact.thy ===== *)
theory BuildArtifact
  imports BuildTriggers
begin

text \<open>
  Artifacts, the immutable image a build or an external producer delivers, and their coordination
  with releases (\<open>internal/modules/build/biz/artifact.go\<close>).
\<close>

section \<open>UTF-8\<close>

definition continuation :: "char \<Rightarrow> bool" where
  "continuation c \<longleftrightarrow> in_range CHR 0x80 CHR 0xBF c"

text \<open>The second byte that may follow a lead byte of three or four.\<close>

definition second_byte :: "char \<Rightarrow> char \<Rightarrow> bool" where
  "second_byte a b \<longleftrightarrow>
     (if a = CHR 0xE0 then in_range CHR 0xA0 CHR 0xBF b
      else if a = CHR 0xED then in_range CHR 0x80 CHR 0x9F b
      else if a = CHR 0xF0 then in_range CHR 0x90 CHR 0xBF b
      else if a = CHR 0xF4 then in_range CHR 0x80 CHR 0x8F b
      else continuation b)"

fun utf8_valid :: "string \<Rightarrow> bool" where
  "utf8_valid [] = True"
| "utf8_valid (a # s) =
     (if (of_char a :: nat) < 128 then utf8_valid s
      else if in_range CHR 0xC2 CHR 0xDF a then
        (case s of b # t \<Rightarrow> continuation b \<and> utf8_valid t | _ \<Rightarrow> False)
      else if in_range CHR 0xE0 CHR 0xEF a then
        (case s of b # c # t \<Rightarrow> second_byte a b \<and> continuation c \<and> utf8_valid t | _ \<Rightarrow> False)
      else if in_range CHR 0xF0 CHR 0xF4 a then
        (case s of b # c # d # t \<Rightarrow> second_byte a b \<and> continuation c \<and> continuation d \<and> utf8_valid t
         | _ \<Rightarrow> False)
      else False)"

section \<open>Data\<close>

datatype ArtifactReleaseStatus =
    ArtifactReleaseAvailable
  | ArtifactReleasePending
  | ArtifactReleaseCreated
  | ArtifactReleaseSkipped
  | ArtifactReleaseOther string

fun ArtifactReleaseStatus_Valid :: "ArtifactReleaseStatus \<Rightarrow> bool" where
  "ArtifactReleaseStatus_Valid (ArtifactReleaseOther _) = False"
| "ArtifactReleaseStatus_Valid _ = True"

datatype ArtifactOrigin = ArtifactOriginOwnDockBuild | ArtifactOriginExternal | ArtifactOriginOther string

datatype ArtifactProducerVerification =
    ArtifactProducerVerified | ArtifactProducerDeclared | ArtifactProducerOther string

record Artifact =
  art_ID :: string
  art_OrganizationID :: string
  art_ProjectID :: string
  art_ApplicationID :: string
  art_Origin :: ArtifactOrigin
  art_Producer :: string
  art_ProducerVerification :: ArtifactProducerVerification
  art_RegistrationKey :: string
  art_BuildID :: string
  art_BuildConfigurationID :: string
  art_RegistryCredentialID :: string
  art_ImageRepository :: string
  art_ImageDigest :: string
  art_TargetPlatform :: BuildPlatform
  art_ReleaseRuntimeSpec :: Spec
  art_AutomaticDeployments :: "AutomaticDeploymentRule list"
  art_ReleaseStatus :: ArtifactReleaseStatus
  art_ReleaseID :: string
  art_Version :: u64
  art_CreatedAt :: time
  art_ReleasedAt :: time

section \<open>Creation\<close>

text \<open>A reference with a SHA-256 digest: its name and its canonical text.\<close>

definition sha256_reference :: "reference_parser \<Rightarrow> string \<Rightarrow> (string \<times> string) option" where
  "sha256_reference parse value =
     (case parse (trim_space value) of
        None \<Rightarrow> None
      | Some named \<Rightarrow> (case in_Canonical named of
          None \<Rightarrow> None
        | Some (algorithm, canonical) \<Rightarrow>
            if algorithm = ''sha256'' then Some (in_Name named, canonical) else None))"

definition NewArtifact :: "reference_parser \<Rightarrow> string \<Rightarrow> Build \<Rightarrow> time \<Rightarrow> build_error + Artifact" where
  "NewArtifact parse i b now =
     (let aid = trim_space i; c = bld_Configuration b in
      if \<not> build_validIdentifier aid \<or> \<not> build_validIdentifier (bld_ID b) \<or>
         \<not> build_validIdentifier (bld_OrganizationID b) \<or> \<not> build_validIdentifier (bld_ProjectID b) \<or>
         \<not> build_validIdentifier (bld_ApplicationID b) \<or> \<not> build_validIdentifier (bld_BuildConfigurationID b) \<or>
         \<not> build_validIdentifier (snap_RegistryCredentialID c) \<or> bld_Status b \<noteq> BuildStatusPushing \<or>
         trim_space (bld_ImageDigest b) = [] \<or> \<not> BuildPlatform_Valid (snap_TargetPlatform c) \<or> is_zero now
      then Inl ErrInvalidArtifact
      else (case sha256_reference parse (bld_ImageDigest b) of
          None \<Rightarrow> Inl ErrInvalidArtifact
        | Some (name, canonical) \<Rightarrow>
            if name \<noteq> snap_ImageRepository c then Inl ErrInvalidArtifact
            else (case Normalize (snap_ReleaseRuntimeSpec c) of
                None \<Rightarrow> Inl ErrInvalidArtifact
              | Some spec \<Rightarrow> Inr \<lparr>art_ID = aid, art_OrganizationID = bld_OrganizationID b,
                  art_ProjectID = bld_ProjectID b, art_ApplicationID = bld_ApplicationID b,
                  art_Origin = ArtifactOriginOwnDockBuild, art_Producer = ''owndock-build-worker'',
                  art_ProducerVerification = ArtifactProducerVerified, art_RegistrationKey = [],
                  art_BuildID = bld_ID b, art_BuildConfigurationID = bld_BuildConfigurationID b,
                  art_RegistryCredentialID = snap_RegistryCredentialID c, art_ImageRepository = name,
                  art_ImageDigest = canonical, art_TargetPlatform = snap_TargetPlatform c,
                  art_ReleaseRuntimeSpec = spec, art_AutomaticDeployments = snap_AutomaticDeployments c,
                  art_ReleaseStatus = (if snap_AutoCreateRelease c then ArtifactReleasePending
                    else ArtifactReleaseAvailable),
                  art_ReleaseID = [], art_Version = 1, art_CreatedAt = utc now, art_ReleasedAt = 0\<rparr>)))"

record ExternalArtifactInput =
  ext_ID :: string
  ext_OrganizationID :: string
  ext_ProjectID :: string
  ext_ApplicationID :: string
  ext_RegistryCredentialID :: string
  ext_ImageDigest :: string
  ext_TargetPlatform :: BuildPlatform
  ext_Producer :: string
  ext_RegistrationKey :: string
  ext_ReleaseRuntimeSpec :: Spec
  ext_CreatedAt :: time

text \<open>In valid UTF-8 the runes below \<open>0x80\<close> are the bytes below \<open>0x80\<close>.\<close>

definition validArtifactProducer :: "string \<Rightarrow> bool" where
  "validArtifactProducer value \<longleftrightarrow>
     \<not> (value = [] \<or> 200 < length value \<or> trim_space value \<noteq> value \<or> \<not> utf8_valid value) \<and>
     list_all (\<lambda>c. \<not> ((of_char c :: nat) < 32 \<or> c = CHR 0x7F)) value"

definition NewExternalArtifact ::
  "reference_parser \<Rightarrow> ExternalArtifactInput \<Rightarrow> build_error + Artifact" where
  "NewExternalArtifact parse input =
     (case (sha256_reference parse (ext_ImageDigest input), Normalize (ext_ReleaseRuntimeSpec input)) of
        (Some (name, canonical), Some spec) \<Rightarrow>
          let item = \<lparr>art_ID = trim_space (ext_ID input),
            art_OrganizationID = trim_space (ext_OrganizationID input),
            art_ProjectID = trim_space (ext_ProjectID input),
            art_ApplicationID = trim_space (ext_ApplicationID input),
            art_Origin = ArtifactOriginExternal, art_Producer = trim_space (ext_Producer input),
            art_ProducerVerification = ArtifactProducerDeclared,
            art_RegistrationKey = trim_space (ext_RegistrationKey input), art_BuildID = [],
            art_BuildConfigurationID = [],
            art_RegistryCredentialID = trim_space (ext_RegistryCredentialID input),
            art_ImageRepository = name, art_ImageDigest = canonical,
            art_TargetPlatform = ext_TargetPlatform input, art_ReleaseRuntimeSpec = spec,
            art_AutomaticDeployments = [], art_ReleaseStatus = ArtifactReleaseAvailable,
            art_ReleaseID = [], art_Version = 1, art_CreatedAt = utc (ext_CreatedAt input),
            art_ReleasedAt = 0\<rparr>
          in if \<not> build_validIdentifier (art_ID item) \<or> \<not> build_validIdentifier (art_OrganizationID item) \<or>
                \<not> build_validIdentifier (art_ProjectID item) \<or> \<not> build_validIdentifier (art_ApplicationID item) \<or>
                \<not> build_validIdentifier (art_RegistryCredentialID item) \<or>
                \<not> build_validIdentifier (art_RegistrationKey item) \<or> \<not> validArtifactProducer (art_Producer item) \<or>
                \<not> BuildPlatform_Valid (art_TargetPlatform item) \<or> is_zero (art_CreatedAt item)
             then Inl ErrInvalidArtifact else Inr item
      | _ \<Rightarrow> Inl ErrInvalidArtifact)"

definition MatchesExternal :: "reference_parser \<Rightarrow> Artifact \<Rightarrow> ExternalArtifactInput \<Rightarrow> bool" where
  "MatchesExternal parse a input \<longleftrightarrow>
     (case NewExternalArtifact parse (input\<lparr>ext_ID := art_ID a, ext_CreatedAt := art_CreatedAt a\<rparr>) of
        Inl _ \<Rightarrow> False
      | Inr candidate \<Rightarrow>
          art_Origin a = ArtifactOriginExternal \<and> art_OrganizationID a = art_OrganizationID candidate \<and>
          art_ProjectID a = art_ProjectID candidate \<and> art_ApplicationID a = art_ApplicationID candidate \<and>
          art_RegistryCredentialID a = art_RegistryCredentialID candidate \<and>
          art_ImageDigest a = art_ImageDigest candidate \<and> art_TargetPlatform a = art_TargetPlatform candidate \<and>
          art_Producer a = art_Producer candidate \<and> art_ProducerVerification a = ArtifactProducerDeclared \<and>
          art_RegistrationKey a = art_RegistrationKey candidate \<and>
          art_ReleaseRuntimeSpec a = art_ReleaseRuntimeSpec candidate)"

section \<open>Releases\<close>

definition MarkReleaseCreated :: "Artifact \<Rightarrow> string \<Rightarrow> time \<Rightarrow> build_error + Artifact" where
  "MarkReleaseCreated a release now =
     (let releaseID = trim_space release in
      if \<not> build_validIdentifier releaseID \<or> is_zero now then Inl ErrInvalidArtifact
      else if art_ReleaseStatus a = ArtifactReleaseCreated then
        (if art_ReleaseID a = releaseID then Inr a else Inl ErrArtifactAlreadyReleased)
      else if art_ReleaseStatus a \<noteq> ArtifactReleasePending \<and> art_ReleaseStatus a \<noteq> ArtifactReleaseAvailable
      then Inl ErrInvalidArtifact
      else Inr (a\<lparr>art_ReleaseStatus := ArtifactReleaseCreated, art_ReleaseID := releaseID,
        art_ReleasedAt := utc now\<rparr>))"

definition SkipPendingRelease :: "Artifact \<Rightarrow> build_error + Artifact" where
  "SkipPendingRelease a =
     (if art_ReleaseStatus a = ArtifactReleaseSkipped then Inr a
      else if art_ReleaseStatus a \<noteq> ArtifactReleasePending then Inl ErrInvalidArtifact
      else Inr (a\<lparr>art_ReleaseStatus := ArtifactReleaseSkipped, art_ReleaseID := []\<rparr>))"

section \<open>What an artifact keeps\<close>

inductive artifact_step :: "Artifact \<Rightarrow> Artifact \<Rightarrow> bool" where
  as_created: "MarkReleaseCreated a release now = Inr b \<Longrightarrow> artifact_step a b"
| as_skipped: "SkipPendingRelease a = Inr b \<Longrightarrow> artifact_step a b"

inductive_cases artifact_step_cases: "artifact_step a b"

text \<open>Only the three coordination fields change.\<close>

lemma artifact_step_content:
  "artifact_step a b \<Longrightarrow>
     b = a\<lparr>art_ReleaseStatus := art_ReleaseStatus b, art_ReleaseID := art_ReleaseID b,
       art_ReleasedAt := art_ReleasedAt b\<rparr>"
  by (elim artifact_step_cases)
    (auto simp: MarkReleaseCreated_def SkipPendingRelease_def Let_def split: if_splits)

text \<open>A decision about the release is final: the same release again changes nothing.\<close>

lemma artifact_step_decided:
  assumes "artifact_step a b" "art_ReleaseStatus a = ArtifactReleaseCreated \<or> art_ReleaseStatus a = ArtifactReleaseSkipped"
  shows "b = a"
  using assms by (elim artifact_step_cases)
    (auto simp: MarkReleaseCreated_def SkipPendingRelease_def Let_def split: if_splits)

lemma MarkReleaseCreated_Inr:
  assumes "MarkReleaseCreated a r now = Inr b"
  shows "build_validIdentifier (trim_space r) \<and> art_ReleaseStatus b = ArtifactReleaseCreated \<and>
     art_ReleaseID b = trim_space r"
  using assms unfolding MarkReleaseCreated_def Let_def by (simp split: if_splits) auto

lemma MarkReleaseCreated_repeat:
  assumes "MarkReleaseCreated a r now = Inr b"
  shows "MarkReleaseCreated b r later = (if later = 0 then Inl ErrInvalidArtifact else Inr b)"
    and "trim_space q \<noteq> trim_space r \<Longrightarrow> is_err (MarkReleaseCreated b q later)"
  using MarkReleaseCreated_Inr[OF assms] by (simp_all add: MarkReleaseCreated_def Let_def)

lemma sha256_reference_image:
  assumes "sha256_reference parse v = Some (name, canonical)"
  shows "image_of parse name canonical"
proof -
  obtain named where n: "parse (trim_space v) = Some named"
    using assms by (cases "parse (trim_space v)") (simp_all add: sha256_reference_def)
  obtain algorithm canon where c: "in_Canonical named = Some (algorithm, canon)"
    using assms n by (cases "in_Canonical named") (auto simp: sha256_reference_def)
  have "algorithm = ''sha256'' \<and> in_Name named = name \<and> canon = canonical"
    using assms by (cases "algorithm = ''sha256''") (simp_all add: sha256_reference_def n c)
  with n c show ?thesis unfolding image_of_def by blast
qed

lemma NewArtifact_image:
  assumes "NewArtifact parse i b now = Inr a"
  shows "image_of parse (snap_ImageRepository (bld_Configuration b)) (art_ImageDigest a) \<and>
     art_ImageRepository a = snap_ImageRepository (bld_Configuration b) \<and> art_BuildID a = bld_ID b \<and>
     art_ProjectID a = bld_ProjectID b"
  using assms unfolding NewArtifact_def Let_def
  by (auto split: if_splits option.splits prod.splits dest: sha256_reference_image)

text \<open>Registering the same external image again is recognised, another one is not.\<close>

definition same_registration :: "Artifact \<Rightarrow> Artifact \<Rightarrow> bool" where
  "same_registration a b \<longleftrightarrow>
     a\<lparr>art_ID := art_ID b, art_ImageRepository := art_ImageRepository b, art_CreatedAt := art_CreatedAt b\<rparr> = b"

lemma NewExternalArtifact_identity:
  assumes "NewExternalArtifact parse input = Inr a"
  shows "art_ID a = trim_space (ext_ID input) \<and> art_CreatedAt a = ext_CreatedAt input \<and>
     build_validIdentifier (art_ID a) \<and> art_CreatedAt a \<noteq> 0 \<and> trim_space (art_ID a) = art_ID a"
  using assms unfolding NewExternalArtifact_def Let_def
  by (auto split: option.splits prod.splits if_splits)

lemma NewExternalArtifact_restamp:
  assumes "NewExternalArtifact parse input = Inr b" "build_validIdentifier i" "trim_space i = i" "t \<noteq> 0"
  shows "NewExternalArtifact parse (input\<lparr>ext_ID := i, ext_CreatedAt := t\<rparr>) =
     Inr (b\<lparr>art_ID := i, art_CreatedAt := t\<rparr>)"
proof -
  from assms(1) obtain name canonical spec where
    p: "sha256_reference parse (ext_ImageDigest input) = Some (name, canonical)"
       "Normalize (ext_ReleaseRuntimeSpec input) = Some spec"
    unfolding NewExternalArtifact_def by (auto split: option.splits prod.splits)
  show ?thesis
    using assms unfolding NewExternalArtifact_def Let_def p by (auto simp: p split: if_splits)
qed

lemma MatchesExternal_iff:
  assumes a: "NewExternalArtifact parse input1 = Inr a" and b: "NewExternalArtifact parse input2 = Inr b"
  shows "MatchesExternal parse a input2 \<longleftrightarrow> same_registration a b"
proof -
  have external: "art_Origin x = ArtifactOriginExternal \<and> art_ProducerVerification x = ArtifactProducerDeclared \<and>
      art_BuildID x = [] \<and> art_BuildConfigurationID x = [] \<and> art_AutomaticDeployments x = [] \<and>
      art_ReleaseStatus x = ArtifactReleaseAvailable \<and> art_ReleaseID x = [] \<and> art_Version x = 1 \<and>
      art_ReleasedAt x = 0" if "NewExternalArtifact parse input = Inr x" for input and x :: Artifact
    using that unfolding NewExternalArtifact_def Let_def by (auto split: option.splits prod.splits if_splits)
  note i = NewExternalArtifact_identity[OF a]
  have r: "NewExternalArtifact parse (input2\<lparr>ext_ID := art_ID a, ext_CreatedAt := art_CreatedAt a\<rparr>) =
      Inr (b\<lparr>art_ID := art_ID a, art_CreatedAt := art_CreatedAt a\<rparr>)"
    using i by (intro NewExternalArtifact_restamp[OF b]) auto
  show ?thesis
    using external[OF a] external[OF b] unfolding MatchesExternal_def r same_registration_def
    by (cases a; cases b) auto
qed

end
