(* ===== verification/BuildProperties.thy ===== *)
theory BuildProperties
  imports BuildArtifact
begin

text \<open>
  The properties of the build module: what a stored build may reach in a checkout, what its life
  keeps, when a worker may execute it, and which requests are recognised as repetitions.
\<close>

section \<open>A concrete build\<close>

definition sample_image :: string where
  "sample_image = ''registry.example.com/team/app''"

definition sample_pushed :: string where
  "sample_pushed = ''registry.example.com/team/app@sha256:0''"

definition sample_reference :: reference_parser where
  "sample_reference v =
     (if v = sample_image then
        Some \<lparr>in_Name = sample_image, in_Domain = ''registry.example.com'', in_NameOnly = True, in_Canonical = None\<rparr>
      else if v = sample_pushed then
        Some \<lparr>in_Name = sample_image, in_Domain = ''registry.example.com'', in_NameOnly = False,
          in_Canonical = Some (''sha256'', sample_pushed)\<rparr>
      else None)"

definition sample_release_spec :: Spec where
  "sample_release_spec = \<lparr>spec_Ports = [], spec_EnvironmentKeys = [], spec_Resources = zero_resources, spec_HealthCheck = None\<rparr>"

definition sample_configuration :: BuildConfiguration where
  "sample_configuration = \<lparr>cfg_ID = ''cfg'', cfg_ProjectID = ''prj'', cfg_ApplicationID = ''app'',
     cfg_Name = ''main'', cfg_SourceRepositoryID = ''src'', cfg_DockerfilePath = ''service/Dockerfile'',
     cfg_ContextPath = ''service'', cfg_AllowedRefs = [''refs/heads/main''],
     cfg_RegistryCredentialID = ''reg'', cfg_ImageRepository = sample_image,
     cfg_TargetPlatform = BuildPlatformLinuxAMD64,
     cfg_Resources = \<lparr>br_CPUMilli = 2000, br_MemoryBytes = 2147483648, br_DiskBytes = 10737418240\<rparr>,
     cfg_TimeoutSeconds = 1800, cfg_MaxConcurrency = 1, cfg_AutoCreateRelease = True,
     cfg_ReleaseRuntimeSpec = sample_release_spec,
     cfg_AutomaticDeployments = [\<lparr>rule_EnvironmentID = ''env'', rule_RuntimeTargetID = ''target''\<rparr>],
     cfg_Version = 1, cfg_CreatedBy = ''user'', cfg_UpdatedBy = ''user'', cfg_CreatedAt = 1, cfg_UpdatedAt = 1\<rparr>"

definition sample_revision :: SourceRevision where
  "sample_revision = \<lparr>rev_SourceRepositoryID = ''src'', rev_Ref = ''refs/heads/main'',
     rev_CommitSHA = replicate 40 CHR ''a''\<rparr>"

definition sample_new_build :: "build_error + Build" where
  "sample_new_build = NewBuild sample_reference ''b1'' ''org'' ''prj'' ''app'' sample_configuration sample_revision
     BuildTriggerSourceManual [] ''key'' ''user'' 5"

lemma not_err_Inr: "\<not> is_err r \<Longrightarrow> \<exists>x. r = Inr x"
  by (cases r) auto

lemma sample_new_build_ok: "\<not> is_err sample_new_build"
  by code_simp

lemma names_reparse_sample: "names_reparse sample_reference"
proof -
  have "trim_space (to_lower sample_image) = to_lower sample_image" "to_lower sample_image = sample_image"
    by code_simp+
  then show ?thesis by (auto simp: names_reparse_def sample_reference_def split: if_splits)
qed

section \<open>Paths\<close>

lemma built_paths:
  assumes "NewBuild parse i org p a c r src trigger key user now = Inr b"
  shows "\<exists>v w. safeRepositoryPath v True = Some (snap_ContextPath (bld_Configuration b)) \<and>
     safeRepositoryPath w False = Some (snap_DockerfilePath (bld_Configuration b)) \<and>
     pathWithinContext (snap_ContextPath (bld_Configuration b)) (snap_DockerfilePath (bld_Configuration b))"
proof -
  from NewBuild_Inr[OF assms] obtain d where d: "normalizeBuildConfiguration parse c = Inr d"
    "bld_Configuration b = Snapshot d" by blast
  from d(1) obtain e where "normalize_content parse e = Some d" by (auto simp: normalizeBuildConfiguration_Inr)
  then obtain v w where "safeRepositoryPath v True = Some (cfg_ContextPath d)"
    "safeRepositoryPath w False = Some (cfg_DockerfilePath d)"
    "pathWithinContext (cfg_ContextPath d) (cfg_DockerfilePath d)"
    unfolding normalize_content_Some by force
  then show ?thesis unfolding d(2) Snapshot_def by auto
qed

text \<open>
  C37: whatever steps a build has taken since its creation, its build context and its Dockerfile,
  followed component by component from any directory a checkout is placed in, stay below that
  directory, and the Dockerfile is a proper entry below the context.
\<close>

theorem build_stays_in_checkout:
  assumes "NewBuild parse i org p a c r src trigger key user now = Inr b" "(build_step parse)\<^sup>*\<^sup>* b b'"
  shows "\<exists>ctx rest. walk dir (split_char CHR ''/'' (snap_ContextPath (bld_Configuration b'))) = Some (dir @ ctx) \<and>
     walk dir (split_char CHR ''/'' (snap_DockerfilePath (bld_Configuration b'))) = Some (dir @ ctx @ rest) \<and>
     ctx @ rest \<noteq> [] \<and> (\<forall>w \<in> set (ctx @ rest). plain w)"
proof -
  from build_steps_core[OF assms(2)] have same: "bld_Configuration b' = bld_Configuration b"
    by (simp add: build_core_def)
  obtain v w where paths: "safeRepositoryPath v True = Some (snap_ContextPath (bld_Configuration b))"
    "safeRepositoryPath w False = Some (snap_DockerfilePath (bld_Configuration b))"
    "pathWithinContext (snap_ContextPath (bld_Configuration b)) (snap_DockerfilePath (bld_Configuration b))"
    using built_paths[OF assms(1)] by blast
  then obtain rest where f: "path_entries (snap_DockerfilePath (bld_Configuration b)) =
      path_entries (snap_ContextPath (bld_Configuration b)) @ rest"
    using context_prefix[OF paths(1,2)] by (auto simp: prefix_def)
  have "snap_DockerfilePath (bld_Configuration b) \<noteq> ''.''"
    using safeRepositoryPath_Some(5)[OF paths(2)] by simp
  then have "path_entries (snap_DockerfilePath (bld_Configuration b)) \<noteq> []" by (rule path_entries_ne)
  then show ?thesis
    using safe_path_walk[OF paths(1), of dir] safe_path_walk[OF paths(2), of dir] safe_path_plain[OF paths(2)]
    unfolding same f by blast
qed

theorem build_stays_in_checkout_witness:
  "\<exists>b ctx rest. sample_new_build = Inr b \<and>
     walk [''tmp''] (split_char CHR ''/'' (snap_DockerfilePath (bld_Configuration b))) = Some ([''tmp''] @ ctx @ rest)"
proof -
  obtain b where b: "sample_new_build = Inr b" using not_err_Inr[OF sample_new_build_ok] by blast
  from build_stays_in_checkout[OF b[unfolded sample_new_build_def] rtranclp.rtrancl_refl, of "[''tmp'']"]
  show ?thesis using b by blast
qed

section \<open>Configurations\<close>

text \<open>
  A stored build configuration is final: what normalisation returns it returns again, and the
  parts it holds are canonical on their own. A change of a stored configuration advances its version
  and keeps what identifies it.
\<close>

theorem configuration_is_canonical:
  assumes "names_reparse parse" "normalizeBuildConfiguration parse c = Inr d"
  shows "normalizeBuildConfiguration parse d = Inr d \<and> normalized_configuration parse d \<and>
     sorted (cfg_AllowedRefs d) \<and> distinct (cfg_AllowedRefs d) \<and> (\<forall>r \<in> set (cfg_AllowedRefs d). valid_ref r) \<and>
     distinct (cfg_AutomaticDeployments d) \<and>
     (Configuration_Apply parse d patch user now = Inr e \<longrightarrow>
        normalized_configuration parse e \<and> cfg_Version e = cfg_Version d + 1 \<and> cfg_ID e = cfg_ID d \<and>
        cfg_ProjectID e = cfg_ProjectID d \<and> cfg_ApplicationID e = cfg_ApplicationID d \<and>
        cfg_CreatedBy e = cfg_CreatedBy d \<and> cfg_CreatedAt e = cfg_CreatedAt d)"
proof -
  note n = normalizeBuildConfiguration_normalized[OF assms]
  then have refs: "normalizeAllowedRefs (cfg_AllowedRefs d) = Some (cfg_AllowedRefs d)"
    and rules: "normalizeAutomaticDeployments (cfg_AutomaticDeployments d) = Some (cfg_AutomaticDeployments d)"
    and trimmed: "trim_configuration d = d"
    by (simp_all add: normalized_configuration_def)
  have refs': "sorted (cfg_AllowedRefs d) \<and> distinct (cfg_AllowedRefs d) \<and> (\<forall>r \<in> set (cfg_AllowedRefs d). valid_ref r)"
    using refs unfolding normalizeAllowedRefs_Some by (metis distinct_sort sorted_sort)
  have applied: "normalized_configuration parse e \<and> cfg_Version e = cfg_Version d + 1 \<and> cfg_ID e = cfg_ID d \<and>
        cfg_ProjectID e = cfg_ProjectID d \<and> cfg_ApplicationID e = cfg_ApplicationID d \<and>
        cfg_CreatedBy e = cfg_CreatedBy d \<and> cfg_CreatedAt e = cfg_CreatedAt d"
    if "Configuration_Apply parse d patch user now = Inr e"
  proof -
    note a = that[unfolded Configuration_Apply_def]
    from trimmed have "trim_space (cfg_ID d) = cfg_ID d" "trim_space (cfg_ProjectID d) = cfg_ProjectID d"
      "trim_space (cfg_ApplicationID d) = cfg_ApplicationID d" "trim_space (cfg_CreatedBy d) = cfg_CreatedBy d"
      by (cases d, simp add: trim_configuration_def)+
    then show ?thesis
      using normalizeBuildConfiguration_normalized[OF assms(1) a] a
      unfolding normalizeBuildConfiguration_Inr normalize_content_Some trim_configuration_def by auto
  qed
  show ?thesis
    using normalized_configuration_fixed[OF n] n refs' normalizeAutomaticDeployments_Some(3)[OF rules] applied
    by blast
qed

definition refs_patch :: BuildConfigurationPatch where
  "refs_patch = \<lparr>patch_Name = None, patch_SourceRepositoryID = None, patch_DockerfilePath = None,
     patch_ContextPath = None, patch_AllowedRefs = Some [''refs/tags/v1'', '' refs/heads/main ''],
     patch_RegistryCredentialID = None, patch_ImageRepository = None, patch_TargetPlatform = None,
     patch_Resources = None, patch_TimeoutSeconds = None, patch_MaxConcurrency = None,
     patch_AutoCreateRelease = None, patch_ReleaseRuntimeSpec = None, patch_AutomaticDeployments = None\<rparr>"

lemma sample_configuration_ok: "\<not> is_err (normalizeBuildConfiguration sample_reference sample_configuration)"
  by code_simp

theorem configuration_is_canonical_witness:
  "\<exists>d. normalizeBuildConfiguration sample_reference sample_configuration = Inr d \<and>
     normalizeBuildConfiguration sample_reference d = Inr d \<and> sorted (cfg_AllowedRefs d)"
proof -
  obtain d where d: "normalizeBuildConfiguration sample_reference sample_configuration = Inr d"
    using not_err_Inr[OF sample_configuration_ok] by blast
  from configuration_is_canonical[OF names_reparse_sample d, of refs_patch "''user''" 7 d] d
  show ?thesis by blast
qed

section \<open>The life of a build\<close>

text \<open>How a build comes into being: from a configuration, or as the retry of a failed one.\<close>

definition born :: "reference_parser \<Rightarrow> Build \<Rightarrow> bool" where
  "born parse b \<longleftrightarrow>
     (\<exists>i org p a c r src trigger key user now. NewBuild parse i org p a c r src trigger key user now = Inr b) \<or>
     (\<exists>old i key user now. Build_Retry old i key user now = Inr b)"

lemma born_wf: "born parse b \<Longrightarrow> build_wf parse b"
  unfolding born_def using NewBuild_wf Build_Retry_wf by blast

lemma build_steps_rank:
  "(build_step parse)\<^sup>*\<^sup>* b b' \<Longrightarrow>
   bld_Status b' = bld_Status b \<or> build_rank (bld_Status b) < build_rank (bld_Status b')"
  by (induction rule: rtranclp_induct) (auto dest: build_step_rank)

text \<open>
  C36: through any steps of workers and users a build keeps its identity, its revision and its
  configuration; a status it has left never comes back; the image digest, once recorded, stays and
  names the configured repository; and a build that has ended has no lease and changes no more.
\<close>

theorem build_keeps_its_promise:
  assumes "born parse b" "(build_step parse)\<^sup>*\<^sup>* b b'" "(build_step parse)\<^sup>*\<^sup>* b' b''"
  shows "build_wf parse b'' \<and> build_core b'' = build_core b \<and>
     (bld_Status b'' = bld_Status b' \<or> build_rank (bld_Status b') < build_rank (bld_Status b'')) \<and>
     (bld_ImageDigest b' \<noteq> [] \<longrightarrow> bld_ImageDigest b'' = bld_ImageDigest b' \<and>
        image_of parse (snap_ImageRepository (bld_Configuration b)) (bld_ImageDigest b'')) \<and>
     (Build_Terminal b' \<longrightarrow> b'' = b' \<and> bld_Lease b' = empty_build_lease)"
proof -
  have all: "(build_step parse)\<^sup>*\<^sup>* b b''" using assms(2,3) by (rule rtranclp_trans)
  note wf = build_steps_wf[OF all born_wf[OF assms(1)]] and wf' = build_steps_wf[OF assms(2) born_wf[OF assms(1)]]
  note core = build_steps_core[OF all]
  have img: "bld_ImageDigest b'' = bld_ImageDigest b' \<and>
      image_of parse (snap_ImageRepository (bld_Configuration b)) (bld_ImageDigest b'')"
    if d: "bld_ImageDigest b' \<noteq> []"
  proof -
    note same = build_steps_digest[OF assms(3) d]
    have "bld_ImageDigest b'' \<noteq> []" using d same by simp
    then have "image_of parse (snap_ImageRepository (bld_Configuration b'')) (bld_ImageDigest b'')"
      using wf by (simp add: build_wf_def image_ok_def)
    then show ?thesis using same core by (simp add: build_core_def)
  qed
  have ended: "b'' = b' \<and> bld_Lease b' = empty_build_lease" if t: "Build_Terminal b'"
    using build_steps_ended[OF assms(3) wf' t] wf' t by (simp add: build_wf_def)
  show ?thesis using wf core build_steps_rank[OF assms(3)] img ended by blast
qed

definition sample_build_claim :: BuildClaim where
  "sample_build_claim = \<lparr>bclaim_WorkerID = ''worker'', bclaim_Now = 6, bclaim_ExpiresAt = 100, bclaim_Statuses = []\<rparr>"

text \<open>The sample build is claimed, checked out, built, pushed and published.\<close>

definition sample_run :: "build_error + Build list" where
  "sample_run =
     bind_result sample_new_build (\<lambda>b0.
     bind_result (Build_Acquire sample_build_claim b0) (\<lambda>b1.
     bind_result (Build_Transition b1 BuildStatusCheckingOut 7) (\<lambda>b2.
     bind_result (Build_Transition b2 BuildStatusBuilding 8) (\<lambda>b3.
     bind_result (Build_Transition b3 BuildStatusPushing 9) (\<lambda>b4.
     bind_result (RecordPushedImage sample_reference b4 sample_pushed 10) (\<lambda>b5.
     bind_result (Build_Transition b5 BuildStatusSucceeded 11) (\<lambda>b6. Inr [b0, b5, b6])))))))"

lemma sample_run_ok: "\<not> is_err sample_run"
  by code_simp

theorem build_keeps_its_promise_witness:
  "\<exists>b b' b''. sample_run = Inr [b, b', b''] \<and> bld_ImageDigest b' = sample_pushed \<and> bld_ImageDigest b'' = sample_pushed"
proof -
  obtain bs where run: "sample_run = Inr bs" using not_err_Inr[OF sample_run_ok] by blast
  then obtain b0 b1 b2 b3 b4 b5 b6 where s: "sample_new_build = Inr b0"
    "Build_Acquire sample_build_claim b0 = Inr b1" "Build_Transition b1 BuildStatusCheckingOut 7 = Inr b2"
    "Build_Transition b2 BuildStatusBuilding 8 = Inr b3" "Build_Transition b3 BuildStatusPushing 9 = Inr b4"
    "RecordPushedImage sample_reference b4 sample_pushed 10 = Inr b5"
    "Build_Transition b5 BuildStatusSucceeded 11 = Inr b6" "bs = [b0, b5, b6]"
    unfolding sample_run_def bind_result_eq_Inr by blast
  have step: "build_step sample_reference b0 b1" "build_step sample_reference b1 b2"
    "build_step sample_reference b2 b3" "build_step sample_reference b3 b4" "build_step sample_reference b4 b5"
    "build_step sample_reference b5 b6"
    using s by (auto intro: build_step.intros)
  then have steps: "(build_step sample_reference)\<^sup>*\<^sup>* b0 b5" "(build_step sample_reference)\<^sup>*\<^sup>* b5 b6"
    by (meson converse_rtranclp_into_rtranclp rtranclp.rtrancl_refl)+
  have born: "born sample_reference b0" using s(1) unfolding born_def sample_new_build_def by blast
  have digest: "bld_ImageDigest b5 = sample_pushed"
    using s(6) by (auto simp: RecordPushedImage_Inr sample_reference_def split: if_splits)
  then have "bld_ImageDigest b5 \<noteq> []" by (simp add: sample_pushed_def)
  with build_keeps_its_promise[OF born steps] digest run s(8) show ?thesis by auto
qed

section \<open>Execution\<close>

text \<open>
  The worker's executor refuses no stored build for its configuration: at every point of its life
  the request is valid exactly when the worker gives a generation, a workspace and a credential of
  the build's project for the registry of its image.
\<close>

theorem stored_build_is_executable:
  assumes "names_reparse parse" "NewBuild parse i org p a c r src trigger key user now = Inr b"
    and "(build_step parse)\<^sup>*\<^sup>* b b'"
  shows "ExecutionRequest_Validate parse (request_of b' g workspace credential) = None \<longleftrightarrow>
     g \<noteq> 0 \<and> trim_space workspace \<noteq> [] \<and>
     RegistryCredential_Validate credential (bld_ProjectID b)
       (snap_RegistryCredentialID (bld_Configuration b)) = None \<and>
     ImageRepositoryRegistry parse (snap_ImageRepository (bld_Configuration b)) =
       Inr (trim_space (reg_Server credential))"
proof -
  from NewBuild_Inr[OF assms(2)] obtain d where d: "normalizeBuildConfiguration parse c = Inr d"
      "bld_Configuration b = Snapshot d" "build_validIdentifier (bld_ID b)" "build_validIdentifier (bld_ProjectID b)"
      "trim_space (bld_ID b) = bld_ID b" "trim_space (bld_ProjectID b) = bld_ProjectID b" by blast
  from build_steps_core[OF assms(3)] have core: "bld_ID b' = bld_ID b" "bld_ProjectID b' = bld_ProjectID b"
      "bld_Configuration b' = bld_Configuration b" by (simp_all add: build_core_def)
  have same: "request_of b' g workspace credential = request_of b g workspace credential"
    by (simp add: request_of_def core)
  show ?thesis
    unfolding same
    using snapshot_executable[OF normalizeBuildConfiguration_normalized[OF assms(1) d(1)] d(2-6)] d(2)
    by (simp add: Snapshot_def)
qed

definition sample_registry_credential :: BuildRegistryCredential where
  "sample_registry_credential = \<lparr>reg_ID = ''reg'', reg_ProjectID = ''prj'', reg_Server = ''registry.example.com'',
     reg_AuthenticationMode = ModeAnonymous, reg_Username = [], reg_PasswordRef = []\<rparr>"

lemma sample_request_ok:
  "(case sample_new_build of Inl _ \<Rightarrow> False | Inr b \<Rightarrow>
     ExecutionRequest_Validate sample_reference (request_of b 1 ''/tmp/b1'' sample_registry_credential) = None)"
  by code_simp

theorem stored_build_is_executable_witness:
  "\<exists>b. sample_new_build = Inr b \<and>
     ImageRepositoryRegistry sample_reference (snap_ImageRepository (bld_Configuration b)) = Inr ''registry.example.com''"
proof -
  obtain b where b: "sample_new_build = Inr b" using not_err_Inr[OF sample_new_build_ok] by blast
  have server: "trim_space (reg_Server sample_registry_credential) = ''registry.example.com''" by code_simp
  have "ExecutionRequest_Validate sample_reference (request_of b 1 ''/tmp/b1'' sample_registry_credential) = None"
    using sample_request_ok by (simp only: b sum.case)
  with stored_build_is_executable[OF names_reparse_sample b[unfolded sample_new_build_def] rtranclp.rtrancl_refl,
      of 1 "''/tmp/b1''" sample_registry_credential]
  have "ImageRepositoryRegistry sample_reference (snap_ImageRepository (bld_Configuration b)) =
      Inr (trim_space (reg_Server sample_registry_credential))" by blast
  then show ?thesis unfolding server using b by blast
qed

end
