(* ===== verification/InventoryTransport.thy ===== *)
theory InventoryTransport
  imports AgentProtocol
begin

text \<open>
  What a runtime collector sends to the server
  (\<open>internal/shared/runtimeinventory/{model,chunk,event}.go\<close>): resources and their validity, the split
  of a snapshot into bounded chunks, and the events of a window. \<open>net.ParseIP\<close>, \<open>net.ParseCIDR\<close>,
  \<open>net.ParseMAC\<close> and the length of \<open>json.Marshal\<close>'s output are arguments of the model. A Go map is
  the list of its entries in the order of the range.
\<close>

section \<open>Data\<close>

datatype Kind = KindContainer | KindImage | KindNetwork | KindVolume | KindOther string

fun Inventory_Kind_Valid :: "Kind \<Rightarrow> bool" where
  "Inventory_Kind_Valid (KindOther _) = False"
| "Inventory_Kind_Valid _ = True"

fun inventory_kind_text :: "Kind \<Rightarrow> string" where
  "inventory_kind_text KindContainer = ''container''"
| "inventory_kind_text KindImage = ''image''"
| "inventory_kind_text KindNetwork = ''network''"
| "inventory_kind_text KindVolume = ''volume''"
| "inventory_kind_text (KindOther s) = s"

record ContainerSummary =
  con_ImageReference :: string
  con_ImageDigest :: string
  con_State :: string
  con_Health :: string
  con_CreatedAt :: time

record ImageSummary =
  isum_RepoTags :: "string list"
  isum_RepoDigests :: "string list"
  isum_SizeBytes :: int
  isum_CreatedAt :: time

record IPAMConfig =
  ipam_Subnet :: string
  ipam_IPRange :: string
  ipam_Gateway :: string

record NetworkSummary =
  net_Driver :: string
  net_Scope :: string
  net_Internal :: bool
  net_Attachable :: bool
  net_Ingress :: bool
  net_EnableIPv4 :: bool
  net_EnableIPv6 :: bool
  net_IPAM :: "IPAMConfig list"

record VolumeSummary =
  vol_Driver :: string
  vol_Scope :: string
  vol_InUse :: bool
  vol_UsageKnown :: bool
  vol_CreatedAt :: time

record InventoryPort =
  iport_ContainerPort :: u16
  iport_HostIP :: string
  iport_HostPort :: u16
  iport_Protocol :: string

record InventoryMount =
  mount_Name :: string
  mount_Type :: string
  mount_Destination :: string
  mount_ReadOnly :: bool

record NetworkAttachment =
  att_NetworkID :: string
  att_Name :: string
  att_IPAddress :: string
  att_Gateway :: string
  att_MAC :: string

record InventoryResource =
  ires_Kind :: Kind
  ires_RuntimeID :: string
  ires_Name :: string
  ires_Container :: "ContainerSummary option"
  ires_Image :: "ImageSummary option"
  ires_Network :: "NetworkSummary option"
  ires_Volume :: "VolumeSummary option"
  ires_Labels :: "(string \<times> string) list"
  ires_Ports :: "InventoryPort list"
  ires_Mounts :: "InventoryMount list"
  ires_Networks :: "NetworkAttachment list"
  ires_ObservedAt :: time
  ires_SchemaVersion :: int

record net_library =
  nl_ParseIP :: "string \<Rightarrow> bool"
  nl_ParseCIDR :: "string \<Rightarrow> bool"
  nl_ParseMAC :: "string \<Rightarrow> bool"

datatype inventory_error = ErrInvalidResource | ErrInvalidChunk | ErrSnapshotTooLarge | ErrEncodeInventory

section \<open>Validity\<close>

definition SchemaVersion :: int where
  "SchemaVersion = 1"

definition inventory_validOptionalText :: "string \<Rightarrow> nat \<Rightarrow> bool" where
  "inventory_validOptionalText value maximum \<longleftrightarrow> length value \<le> maximum \<and> CHR 0x00 \<notin> set value"

definition inventory_validText :: "string \<Rightarrow> nat \<Rightarrow> bool" where
  "inventory_validText value maximum \<longleftrightarrow>
     trim_space value \<noteq> [] \<and> inventory_validOptionalText (trim_space value) maximum"

definition label_value_char :: "char \<Rightarrow> bool" where
  "label_value_char c \<longleftrightarrow> is_alnum c \<or> c \<in> set ''._:-''"

definition ownershipLabelValue :: "string \<Rightarrow> bool" where
  "ownershipLabelValue value \<longleftrightarrow> matches_id is_alnum label_value_char 159 value"

definition AllowedLabel :: "string \<Rightarrow> bool" where
  "AllowedLabel key \<longleftrightarrow> key = ''net.owndock.project_id'' \<or> key = ''net.owndock.application_id'' \<or>
     key = ''net.owndock.deployment_id''"

text \<open>An address field that may be empty.\<close>

definition optional_field :: "(string \<Rightarrow> bool) \<Rightarrow> string \<Rightarrow> bool" where
  "optional_field ok value \<longleftrightarrow> \<not> (value \<noteq> [] \<and> \<not> ok value)"

definition valid_inventory_port :: "net_library \<Rightarrow> InventoryPort \<Rightarrow> bool" where
  "valid_inventory_port lib p \<longleftrightarrow>
     iport_ContainerPort p \<noteq> 0 \<and> iport_Protocol p \<in> set [''tcp'', ''udp'', ''sctp''] \<and>
     optional_field (nl_ParseIP lib) (iport_HostIP p)"

definition valid_inventory_mount :: "InventoryMount \<Rightarrow> bool" where
  "valid_inventory_mount m \<longleftrightarrow>
     (let destination = trim_space (mount_Destination m) in
      mount_Type m \<in> set [''bind'', ''volume'', ''tmpfs''] \<and> inventory_validOptionalText (mount_Name m) 128 \<and>
      has_prefix destination ''/'' \<and> path_clean destination = destination \<and> length destination \<le> 512)"

definition valid_attachment :: "net_library \<Rightarrow> NetworkAttachment \<Rightarrow> bool" where
  "valid_attachment lib n \<longleftrightarrow>
     inventory_validText (att_Name n) 256 \<and> inventory_validOptionalText (att_NetworkID n) 256 \<and>
     optional_field (nl_ParseIP lib) (att_IPAddress n) \<and> optional_field (nl_ParseIP lib) (att_Gateway n) \<and>
     optional_field (nl_ParseMAC lib) (att_MAC n)"

definition valid_ipam :: "net_library \<Rightarrow> IPAMConfig \<Rightarrow> bool" where
  "valid_ipam lib i \<longleftrightarrow>
     list_all (optional_field (nl_ParseCIDR lib)) [ipam_Subnet i, ipam_IPRange i] \<and>
     optional_field (nl_ParseIP lib) (ipam_Gateway i)"

text \<open>\<open>validateSummary\<close>; a missing summary of the kind has been refused before.\<close>

definition validateSummary :: "net_library \<Rightarrow> InventoryResource \<Rightarrow> bool" where
  "validateSummary lib r =
     (case ires_Kind r of
        KindContainer \<Rightarrow> (case ires_Container r of None \<Rightarrow> False | Some c \<Rightarrow>
          inventory_validOptionalText (con_ImageReference c) 512 \<and>
          inventory_validOptionalText (con_ImageDigest c) 512 \<and>
          inventory_validOptionalText (con_State c) 64 \<and> inventory_validOptionalText (con_Health c) 64)
      | KindImage \<Rightarrow> (case ires_Image r of None \<Rightarrow> False | Some i \<Rightarrow>
          isum_SizeBytes i \<ge> 0 \<and> length (isum_RepoTags i) \<le> 128 \<and> length (isum_RepoDigests i) \<le> 128 \<and>
          list_all (\<lambda>value. inventory_validText value 512 \<and> \<not> contains value ''://'')
            (isum_RepoTags i @ isum_RepoDigests i))
      | KindNetwork \<Rightarrow> (case ires_Network r of None \<Rightarrow> False | Some n \<Rightarrow>
          inventory_validOptionalText (net_Driver n) 128 \<and> inventory_validOptionalText (net_Scope n) 64 \<and>
          length (net_IPAM n) \<le> 64 \<and> list_all (valid_ipam lib) (net_IPAM n))
      | KindVolume \<Rightarrow> (case ires_Volume r of None \<Rightarrow> False | Some v \<Rightarrow>
          inventory_validOptionalText (vol_Driver v) 128 \<and> inventory_validOptionalText (vol_Scope v) 64)
      | KindOther _ \<Rightarrow> True)"

definition one_summary :: "InventoryResource \<Rightarrow> bool" where
  "one_summary r \<longleftrightarrow>
     length (filter id [ires_Container r \<noteq> None, ires_Image r \<noteq> None, ires_Network r \<noteq> None,
       ires_Volume r \<noteq> None]) = 1 \<and>
     (ires_Kind r = KindContainer) = (ires_Container r \<noteq> None) \<and>
     (ires_Kind r = KindImage) = (ires_Image r \<noteq> None) \<and>
     (ires_Kind r = KindNetwork) = (ires_Network r \<noteq> None) \<and>
     (ires_Kind r = KindVolume) = (ires_Volume r \<noteq> None)"

definition Resource_Validate :: "net_library \<Rightarrow> InventoryResource \<Rightarrow> bool" where
  "Resource_Validate lib r \<longleftrightarrow>
     \<not> (\<not> Inventory_Kind_Valid (ires_Kind r) \<or> \<not> inventory_validText (ires_RuntimeID r) 512 \<or>
        \<not> inventory_validText (ires_Name r) 256 \<or> is_zero (ires_ObservedAt r) \<or>
        ires_SchemaVersion r \<noteq> SchemaVersion) \<and>
     one_summary r \<and> length (ires_Labels r) \<le> 16 \<and> length (ires_Ports r) \<le> 128 \<and>
     length (ires_Mounts r) \<le> 128 \<and> length (ires_Networks r) \<le> 64 \<and>
     list_all (\<lambda>(key, value). AllowedLabel key \<and> ownershipLabelValue value) (ires_Labels r) \<and>
     list_all (valid_inventory_port lib) (ires_Ports r) \<and> list_all valid_inventory_mount (ires_Mounts r) \<and>
     list_all (valid_attachment lib) (ires_Networks r) \<and> validateSummary lib r"

section \<open>Chunks\<close>

record InventoryChunk =
  chk_SchemaVersion :: int
  chk_Index :: int
  chk_Resources :: "InventoryResource list"

record inventory_encoding =
  enc_resource :: "InventoryResource \<Rightarrow> nat option"
  enc_chunk :: "InventoryChunk \<Rightarrow> nat option"

definition MaxResources :: nat where
  "MaxResources = 100000"

definition MaxResourcesPerChunk :: nat where
  "MaxResourcesPerChunk = 500"

definition MaxSnapshotBytes :: int where
  "MaxSnapshotBytes = 64 * 1024 * 1024"

definition chunkEnvelopeBytes :: "inventory_encoding \<Rightarrow> int \<Rightarrow> int" where
  "chunkEnvelopeBytes enc i =
     (case enc_chunk enc \<lparr>chk_SchemaVersion = SchemaVersion, chk_Index = i, chk_Resources = []\<rparr> of
        Some n \<Rightarrow> int n | None \<Rightarrow> 0) - 2"

definition resource_key :: "InventoryResource \<Rightarrow> string" where
  "resource_key r = inventory_kind_text (ires_Kind r) @ [CHR 0x00] @ ires_RuntimeID r"

text \<open>The first loop: every resource is validated, new and encoded; the used is bounded.\<close>

fun encode_resources ::
  "net_library \<Rightarrow> inventory_encoding \<Rightarrow> InventoryResource list \<Rightarrow> string set \<Rightarrow> int \<Rightarrow>
     inventory_error + (InventoryResource \<times> nat) list" where
  "encode_resources lib enc [] seen used = Inr []"
| "encode_resources lib enc (r # rs) seen used =
     (if \<not> Resource_Validate lib r then Inl ErrInvalidResource
      else if resource_key r \<in> seen then Inl ErrInvalidResource
      else (case enc_resource enc r of
          None \<Rightarrow> Inl ErrEncodeInventory
        | Some n \<Rightarrow>
            if used + int n > MaxSnapshotBytes then Inl ErrSnapshotTooLarge
            else (case encode_resources lib enc rs (insert (resource_key r) seen) (used + int n) of
                Inl e \<Rightarrow> Inl e
              | Inr items \<Rightarrow> Inr ((r, n) # items))))"

text \<open>The size the code computes for a chunk of the first items, separators included.\<close>

definition chunk_size :: "inventory_encoding \<Rightarrow> int \<Rightarrow> nat list \<Rightarrow> int" where
  "chunk_size enc i sizes = chunkEnvelopeBytes enc i + int (sum_list sizes) + (int (length sizes) - 1)"

text \<open>The inner loop extends the chunk while the next item fits.\<close>

fun extend_chunk :: "(nat \<Rightarrow> bool) \<Rightarrow> nat \<Rightarrow> nat \<Rightarrow> nat" where
  "extend_chunk fits k 0 = k"
| "extend_chunk fits k (Suc m) = (if fits (Suc k) then extend_chunk fits (Suc k) m else k)"

definition chunk_length :: "inventory_encoding \<Rightarrow> int \<Rightarrow> int \<Rightarrow> nat \<Rightarrow> nat list \<Rightarrow> nat" where
  "chunk_length enc i maxBytes maxItems sizes =
     extend_chunk (\<lambda>k. chunk_size enc i (take k sizes) \<le> maxBytes) 0 (min maxItems (length sizes))"

lemma extend_bounds: "k \<le> extend_chunk fits k m \<and> extend_chunk fits k m \<le> k + m"
proof (induction m arbitrary: k)
  case (Suc m)
  show ?case using Suc.IH[of "Suc k"] by auto
qed simp

function split_items ::
  "inventory_encoding \<Rightarrow> int \<Rightarrow> nat \<Rightarrow> nat \<Rightarrow> (InventoryResource \<times> nat) list \<Rightarrow>
     inventory_error + InventoryChunk list" where
  "split_items enc maxBytes maxItems i items =
     (if items = [] then Inr []
      else
        (let k = chunk_length enc (int i) maxBytes maxItems (map snd items) in
         if k = 0 then Inl ErrSnapshotTooLarge
         else
           (let c = \<lparr>chk_SchemaVersion = SchemaVersion, chk_Index = int i, chk_Resources = map fst (take k items)\<rparr>
            in case enc_chunk enc c of
                None \<Rightarrow> Inl ErrEncodeInventory
              | Some n \<Rightarrow>
                  if int n > maxBytes then Inl ErrSnapshotTooLarge
                  else if int (Suc i) > MaxChunks then Inl ErrSnapshotTooLarge
                  else (case split_items enc maxBytes maxItems (Suc i) (drop k items) of
                      Inl e \<Rightarrow> Inl e
                    | Inr cs \<Rightarrow> Inr (c # cs)))))"
  by pat_completeness auto
termination
  by (relation "measure (\<lambda>(enc, maxBytes, maxItems, i, items). length items)") auto

declare split_items.simps [simp del]

definition Split ::
  "net_library \<Rightarrow> inventory_encoding \<Rightarrow> InventoryResource list \<Rightarrow> int \<Rightarrow> int \<Rightarrow>
     inventory_error + InventoryChunk list" where
  "Split lib enc resources maxBytes maxItems =
     (if MaxResources < length resources then Inl ErrSnapshotTooLarge
      else if resources = [] then Inr []
      else if maxBytes \<le> 0 \<or> maxBytes > MaxChunkBytes \<or> maxItems \<le> 0 \<or> maxItems > int MaxResourcesPerChunk
      then Inl ErrInvalidChunk
      else (case encode_resources lib enc resources {} 0 of
          Inl e \<Rightarrow> Inl e
        | Inr items \<Rightarrow> split_items enc maxBytes (nat maxItems) 0 items))"

definition Chunk_Validate :: "net_library \<Rightarrow> inventory_encoding \<Rightarrow> int \<Rightarrow> InventoryChunk \<Rightarrow> bool" where
  "Chunk_Validate lib enc maxBytes c \<longleftrightarrow>
     \<not> (chk_SchemaVersion c \<noteq> SchemaVersion \<or> chk_Index c < 0 \<or> chk_Resources c = [] \<or>
        MaxResourcesPerChunk < length (chk_Resources c) \<or> maxBytes \<le> 0 \<or> maxBytes > MaxChunkBytes) \<and>
     list_all (Resource_Validate lib) (chk_Resources c) \<and>
     (case enc_chunk enc c of None \<Rightarrow> False | Some n \<Rightarrow> int n \<le> maxBytes)"

section \<open>Events\<close>

datatype EventAction =
    EventActionCreate
  | EventActionUpdate
  | EventActionStart
  | EventActionStop
  | EventActionDestroy
  | EventActionConnect
  | EventActionDisconnect
  | EventActionMount
  | EventActionUnmount
  | EventActionDelete
  | EventActionOther string

fun EventAction_Valid :: "EventAction \<Rightarrow> bool" where
  "EventAction_Valid (EventActionOther _) = False"
| "EventAction_Valid _ = True"

record InventoryEvent =
  iev_Kind :: Kind
  iev_RuntimeID :: string
  iev_Action :: EventAction
  iev_OccurredAt :: time

definition Event_Validate :: "InventoryEvent \<Rightarrow> bool" where
  "Event_Validate e \<longleftrightarrow> Inventory_Kind_Valid (iev_Kind e) \<and> inventory_validText (iev_RuntimeID e) 512 \<and>
     EventAction_Valid (iev_Action e) \<and> \<not> is_zero (iev_OccurredAt e)"

definition CursorAt :: "InventoryEvent EventBatch \<Rightarrow> time \<Rightarrow> time" where
  "CursorAt b previous =
     foldl (\<lambda>cursor e. if after (iev_OccurredAt e) cursor then utc (iev_OccurredAt e) else cursor)
       (utc previous) (batch_Events b)"

text \<open>The checks the protocol makes of a result, on these chunks and events.\<close>

definition transport_checks ::
  "net_library \<Rightarrow> inventory_encoding \<Rightarrow> (InventoryChunk, InventoryEvent) inventory_checks" where
  "transport_checks lib enc =
     \<lparr>chunk_Index = chk_Index, chunk_Validate = Chunk_Validate lib enc, event_Validate = Event_Validate\<rparr>"

section \<open>What Split delivers\<close>

lemma encode_resources_Inr:
  "encode_resources lib enc rs seen used = Inr items \<Longrightarrow>
     map fst items = rs \<and> list_all (Resource_Validate lib) rs \<and>
     (\<forall>(r, n) \<in> set items. enc_resource enc r = Some n) \<and>
     distinct (map resource_key rs) \<and> set (map resource_key rs) \<inter> seen = {} \<and>
     (rs \<noteq> [] \<longrightarrow> used + int (sum_list (map snd items)) \<le> MaxSnapshotBytes)"
proof (induction rs arbitrary: seen used items)
  case (Cons r rs)
  from Cons.prems obtain n rest where
    ok: "Resource_Validate lib r" "resource_key r \<notin> seen" "enc_resource enc r = Some n"
      "\<not> used + int n > MaxSnapshotBytes"
    and rest: "encode_resources lib enc rs (insert (resource_key r) seen) (used + int n) = Inr rest"
      "items = (r, n) # rest"
    by (auto split: if_splits option.splits sum.splits)
  from Cons.IH[OF rest(1)] ok rest(2) show ?case by (cases "rs = []") auto
qed simp

lemma chunk_length_le:
  "chunk_length enc i maxBytes maxItems sizes \<le> maxItems \<and> chunk_length enc i maxBytes maxItems sizes \<le> length sizes"
  using extend_bounds[of 0 "\<lambda>k. chunk_size enc i (take k sizes) \<le> maxBytes" "min maxItems (length sizes)"]
  by (auto simp: chunk_length_def)

text \<open>The chunks carry the items in order, numbered from the given index, each within the limits.\<close>

lemma split_items_Inr:
  "split_items enc maxBytes maxItems i items = Inr cs \<Longrightarrow>
     concat (map chk_Resources cs) = map fst items \<and>
     map chk_Index cs = map int [i ..< i + length cs] \<and>
     (\<forall>c \<in> set cs. chk_SchemaVersion c = SchemaVersion \<and> chk_Resources c \<noteq> [] \<and>
        length (chk_Resources c) \<le> maxItems \<and> (\<exists>n. enc_chunk enc c = Some n \<and> int n \<le> maxBytes)) \<and>
     (cs \<noteq> [] \<longrightarrow> int (i + length cs) \<le> MaxChunks)"
proof (induction enc maxBytes maxItems i items arbitrary: cs rule: split_items.induct)
  case (1 enc maxBytes maxItems i items)
  show ?case
  proof (cases "items = []")
    case True
    with 1 show ?thesis by (simp add: split_items.simps)
  next
    case False
    let ?k = "chunk_length enc (int i) maxBytes maxItems (map snd items)"
    let ?c = "\<lparr>chk_SchemaVersion = SchemaVersion, chk_Index = int i, chk_Resources = map fst (take ?k items)\<rparr>"
    from 1 False obtain n ds where
      k: "?k \<noteq> 0" and n: "enc_chunk enc ?c = Some n" "\<not> int n > maxBytes" "\<not> int (Suc i) > MaxChunks"
      and ds: "split_items enc maxBytes maxItems (Suc i) (drop ?k items) = Inr ds" "cs = ?c # ds"
      by (subst (asm) split_items.simps) (auto simp: Let_def split: if_splits option.splits sum.splits)
    have IH: "concat (map chk_Resources ds) = map fst (drop ?k items) \<and>
        map chk_Index ds = map int [Suc i ..< Suc i + length ds] \<and>
        (\<forall>c \<in> set ds. chk_SchemaVersion c = SchemaVersion \<and> chk_Resources c \<noteq> [] \<and>
          length (chk_Resources c) \<le> maxItems \<and> (\<exists>n. enc_chunk enc c = Some n \<and> int n \<le> maxBytes)) \<and>
        (ds \<noteq> [] \<longrightarrow> int (Suc i + length ds) \<le> MaxChunks)"
      by (rule "1.IH"[OF False refl k refl n(1) _ _ ds(1)]) (use n in auto)
    have ne: "take ?k items \<noteq> []" using k False by (cases items) auto
    have len: "length (take ?k items) \<le> maxItems"
      using chunk_length_le[of enc "int i" maxBytes maxItems "map snd items"] by simp
    have "map fst (take ?k items) @ map fst (drop ?k items) = map fst items"
      by (metis append_take_drop_id map_append)
    then have order: "concat (map chk_Resources cs) = map fst items" using IH ds(2) by simp
    have "map chk_Index cs = int i # map int [Suc i ..< Suc i + length ds]" using IH ds(2) by simp
    also have "\<dots> = map int [i ..< Suc i + length ds]" by (subst upt_conv_Cons[of i "Suc i + length ds"]) simp_all
    finally have idx: "map chk_Index cs = map int [i ..< i + length cs]" using ds(2) by simp
    have count: "int (i + length cs) \<le> MaxChunks" using IH n(3) ds(2) by (cases "ds = []") simp_all
    have "\<forall>c \<in> set cs. chk_SchemaVersion c = SchemaVersion \<and> chk_Resources c \<noteq> [] \<and>
        length (chk_Resources c) \<le> maxItems \<and> (\<exists>n. enc_chunk enc c = Some n \<and> int n \<le> maxBytes)"
      using IH n(1,2) ds(2) ne len by simp
    with order idx count show ?thesis by blast
  qed
qed

lemma Max_insert_max: "finite S \<Longrightarrow> Max (insert (max t a) S) = Max (insert t (insert (a :: int) S))"
  by (cases "S = {}") (simp_all add: max.assoc)

text \<open>The cursor is the latest of the previous cursor and the events of the window.\<close>

lemma CursorAt_Max: "CursorAt b previous = Max (insert previous (iev_OccurredAt ` set (batch_Events b)))"
proof -
  have "foldl (\<lambda>cursor e. if after (iev_OccurredAt e) cursor then utc (iev_OccurredAt e) else cursor) t es =
      Max (insert t (iev_OccurredAt ` set es))" for t and es :: "InventoryEvent list"
  proof (induction es arbitrary: t)
    case (Cons e es)
    have "(if after (iev_OccurredAt e) t then utc (iev_OccurredAt e) else t) = max t (iev_OccurredAt e)"
      by (simp add: max_def)
    with Cons.IH[of "max t (iev_OccurredAt e)"] show ?case by (simp only: foldl_Cons) (simp add: Max_insert_max)
  qed simp
  then show ?thesis by (simp add: CursorAt_def)
qed

section \<open>When Split succeeds\<close>

text \<open>
  What the code relies on of \<open>json.Marshal\<close>: a chunk is its envelope with the encodings of its
  resources between the brackets, separated by commas.
\<close>

definition joins_encodings :: "inventory_encoding \<Rightarrow> bool" where
  "joins_encodings enc \<longleftrightarrow> (\<forall>i rs sizes. map (enc_resource enc) rs = map Some sizes \<longrightarrow> rs \<noteq> [] \<longrightarrow>
     enc_chunk enc \<lparr>chk_SchemaVersion = SchemaVersion, chk_Index = i, chk_Resources = rs\<rparr> =
       Some (nat (chunk_size enc i sizes)) \<and> chunk_size enc i sizes \<ge> 0)"

lemma extend_fits: "fits k \<Longrightarrow> fits (extend_chunk fits k m)"
  by (induction m arbitrary: k) auto

lemma extend_progress:
  assumes "fits (Suc 0)" "0 < m"
  shows "extend_chunk fits 0 m \<noteq> 0 \<and> fits (extend_chunk fits 0 m)"
proof -
  obtain j where "m = Suc j" using assms(2) by (cases m) auto
  then have e: "extend_chunk fits 0 m = extend_chunk fits (Suc 0) j" using assms(1) by simp
  show ?thesis using extend_fits[where fits = fits and k = "Suc 0" and m = j] assms(1) extend_bounds[of "Suc 0" fits j] unfolding e by auto
qed

text \<open>A chunk takes items as long as they fit: it is full, or all are taken, or the next is too large.\<close>

lemma extend_maximal:
  "extend_chunk fits k m < k + m \<Longrightarrow> \<not> fits (Suc (extend_chunk fits k m))"
  by (induction m arbitrary: k) auto

lemma encoded_items:
  "\<forall>(r, n) \<in> set items. enc_resource enc r = Some n \<Longrightarrow>
   map (enc_resource enc) (map fst items) = map Some (map snd items)"
  by (induction items) auto

lemma split_items_succeeds:
  assumes "joins_encodings enc" "0 < maxItems"
    and "\<forall>(r, n) \<in> set items. enc_resource enc r = Some n"
    and "\<forall>(r, n) \<in> set items. \<forall>j. 0 \<le> j \<longrightarrow> j < MaxChunks \<longrightarrow> chunk_size enc j [n] \<le> maxBytes"
    and "int (i + length items) \<le> MaxChunks"
  shows "\<exists>cs. split_items enc maxBytes maxItems i items = Inr cs"
  using assms(3-5)
proof (induction "length items" arbitrary: i items rule: less_induct)
  case less
  show ?case
  proof (cases items)
    case Nil
    then show ?thesis by (simp add: split_items.simps)
  next
    case (Cons item rest)
    let ?sizes = "map snd items"
    let ?k = "chunk_length enc (int i) maxBytes maxItems ?sizes"
    let ?c = "\<lparr>chk_SchemaVersion = SchemaVersion, chk_Index = int i, chk_Resources = map fst (take ?k items)\<rparr>"
    have i: "int (Suc i) \<le> MaxChunks" using less.prems(3) Cons by simp
    obtain r n where item: "item = (r, n)" by (cases item)
    have "chunk_size enc (int i) [n] \<le> maxBytes" using less.prems(2) Cons item i by auto
    then have k: "?k \<noteq> 0" "chunk_size enc (int i) (take ?k ?sizes) \<le> maxBytes"
      using extend_progress[of "\<lambda>k. chunk_size enc (int i) (take k ?sizes) \<le> maxBytes" "min maxItems (length ?sizes)"]
        assms(2) Cons item by (auto simp: chunk_length_def)
    have "\<forall>(r, n) \<in> set (take ?k items). enc_resource enc r = Some n"
      using less.prems(1) by (auto dest: in_set_takeD)
    from encoded_items[OF this] have "map (enc_resource enc) (map fst (take ?k items)) = map Some (take ?k ?sizes)"
      by (simp add: take_map)
    moreover have "map fst (take ?k items) \<noteq> []" using k(1) Cons by simp
    ultimately have enc: "enc_chunk enc ?c = Some (nat (chunk_size enc (int i) (take ?k ?sizes)))"
        "chunk_size enc (int i) (take ?k ?sizes) \<ge> 0"
      using assms(1) unfolding joins_encodings_def by blast+
    have "\<exists>cs. split_items enc maxBytes maxItems (Suc i) (drop ?k items) = Inr cs"
    proof (rule less.hyps)
      show "length (drop ?k items) < length items" using k(1) Cons by simp
      show "\<forall>(r, n) \<in> set (drop ?k items). enc_resource enc r = Some n"
        using less.prems(1) by (auto dest: in_set_dropD)
      show "\<forall>(r, n) \<in> set (drop ?k items). \<forall>j. 0 \<le> j \<longrightarrow> j < MaxChunks \<longrightarrow> chunk_size enc j [n] \<le> maxBytes"
        using less.prems(2) by (auto dest: in_set_dropD)
      show "int (Suc i + length (drop ?k items)) \<le> MaxChunks" using less.prems(3) k(1) Cons by simp
    qed
    then obtain ds where "split_items enc maxBytes maxItems (Suc i) (drop ?k items) = Inr ds" by blast
    then have "split_items enc maxBytes maxItems i items = Inr (?c # ds)"
      using k enc i Cons by (subst split_items.simps) (simp add: Let_def)
    then show ?thesis by blast
  qed
qed

lemma encode_resources_succeeds:
  assumes "\<forall>r \<in> set rs. Resource_Validate lib r \<and> enc_resource enc r \<noteq> None"
    and "distinct (map resource_key rs)" "set (map resource_key rs) \<inter> seen = {}"
    and "used + int (sum_list (map (\<lambda>r. the (enc_resource enc r)) rs)) \<le> MaxSnapshotBytes"
  shows "\<exists>items. encode_resources lib enc rs seen used = Inr items"
  using assms
proof (induction rs arbitrary: seen used)
  case (Cons r rs)
  then obtain n where n: "enc_resource enc r = Some n" by auto
  have "\<exists>items. encode_resources lib enc rs (insert (resource_key r) seen) (used + int n) = Inr items"
    using Cons.prems n by (intro Cons.IH) auto
  with Cons.prems n show ?case by (auto split: sum.split)
qed simp

end
