(* ===== verification/InventoryDomain.thy ===== *)
theory InventoryDomain
  imports InventoryTransport Sha256
begin

text \<open>
  The server's view of an inventory (\<open>internal/modules/runtimeinventory/biz/inventory.go\<close>):
  observations, the domain resources with their validity, the digest of a chunk and the current state
  of an object; and the projection of the transport resources
  (\<open>internal/modules/runtimeinventory/data/projection.go\<close>). The JSON text of a chunk and the letters and
  digits of a lower-cased key are arguments of the model.
\<close>

section \<open>Observations\<close>

definition inventory_validID :: "string \<Rightarrow> bool" where
  "inventory_validID value = inventory_validText value 160"

definition validRuntimeID :: "string \<Rightarrow> bool" where
  "validRuntimeID value = inventory_validText value 512"

datatype ObservationStatus = ObservationOpen | ObservationComplete

record Observation =
  obs_ID :: string
  obs_OrganizationID :: string
  obs_ManagedHostID :: string
  obs_RuntimeTargetID :: string
  obs_ExpectedChunks :: int
  obs_ExpectedResources :: int
  obs_ReceivedChunks :: int
  obs_ReceivedResources :: int
  obs_Status :: ObservationStatus
  obs_StartedAt :: time
  obs_CompletedAt :: time

datatype domain_error = ErrInvalidObservation | ErrDomainResource | ErrDomainChunk

definition NewObservation ::
  "string \<Rightarrow> string \<Rightarrow> string \<Rightarrow> string \<Rightarrow> int \<Rightarrow> int \<Rightarrow> time \<Rightarrow> domain_error + Observation" where
  "NewObservation i organizationID managedHostID runtimeTargetID expectedChunks expectedResources startedAt =
     (if \<not> inventory_validID i \<or> \<not> inventory_validID organizationID \<or> \<not> inventory_validID managedHostID \<or>
         \<not> inventory_validID runtimeTargetID \<or> is_zero startedAt \<or>
         expectedChunks < 0 \<or> expectedChunks > 10000 \<or> expectedResources < 0 \<or> expectedResources > 100000 \<or>
         (expectedResources = 0 \<and> expectedChunks \<noteq> 0) \<or> (expectedResources > 0 \<and> expectedChunks = 0) \<or>
         expectedResources > expectedChunks * int MaxResourcesPerChunk
      then Inl ErrInvalidObservation
      else Inr \<lparr>obs_ID = trim_space i, obs_OrganizationID = trim_space organizationID,
        obs_ManagedHostID = trim_space managedHostID, obs_RuntimeTargetID = trim_space runtimeTargetID,
        obs_ExpectedChunks = expectedChunks, obs_ExpectedResources = expectedResources,
        obs_ReceivedChunks = 0, obs_ReceivedResources = 0, obs_Status = ObservationOpen,
        obs_StartedAt = utc startedAt, obs_CompletedAt = 0\<rparr>)"

section \<open>Resources\<close>

record DomainContainer = ContainerSummary +
  con_ExitCode :: int
  con_OOMKilled :: bool
  con_StartedAt :: time

record DomainImage = ImageSummary +
  isum_OS :: string
  isum_Architecture :: string

record DomainPort = InventoryPort +
  iport_Name :: string

record DomainAttachment = NetworkAttachment +
  att_Driver :: string

record DomainResource =
  dres_ObservationID :: string
  dres_OrganizationID :: string
  dres_ManagedHostID :: string
  dres_RuntimeTargetID :: string
  dres_Kind :: Kind
  dres_RuntimeID :: string
  dres_Name :: string
  dres_Managed :: bool
  dres_ProjectID :: string
  dres_DeploymentID :: string
  dres_Container :: "DomainContainer option"
  dres_Image :: "DomainImage option"
  dres_Network :: "NetworkSummary option"
  dres_Volume :: "VolumeSummary option"
  dres_Labels :: "(string \<times> string) list"
  dres_Attributes :: "(string \<times> string) list"
  dres_Ports :: "DomainPort list"
  dres_Mounts :: "InventoryMount list"
  dres_Networks :: "DomainAttachment list"
  dres_ObservedAt :: time
  dres_SchemaVersion :: int

definition NewResource ::
  "Observation \<Rightarrow> Kind \<Rightarrow> string \<Rightarrow> string \<Rightarrow> time \<Rightarrow> domain_error + DomainResource" where
  "NewResource ob kind runtimeID name observedAt =
     (if obs_Status ob \<noteq> ObservationOpen \<or> \<not> Inventory_Kind_Valid kind \<or> \<not> validRuntimeID runtimeID \<or>
         \<not> inventory_validText name 256 \<or> is_zero observedAt then Inl ErrDomainResource
      else Inr \<lparr>dres_ObservationID = obs_ID ob, dres_OrganizationID = obs_OrganizationID ob,
        dres_ManagedHostID = obs_ManagedHostID ob, dres_RuntimeTargetID = obs_RuntimeTargetID ob,
        dres_Kind = kind, dres_RuntimeID = trim_space runtimeID, dres_Name = trim_space name,
        dres_Managed = False, dres_ProjectID = [], dres_DeploymentID = [], dres_Container = None,
        dres_Image = None, dres_Network = None, dres_Volume = None, dres_Labels = [], dres_Attributes = [],
        dres_Ports = [], dres_Mounts = [], dres_Networks = [], dres_ObservedAt = utc observedAt,
        dres_SchemaVersion = SchemaVersion\<rparr>)"

text \<open>
  \<open>forbiddenMetadataKey\<close> searches the letters and digits of the lower-cased key: the argument stands
  for that text, which needs the Unicode tables.
\<close>

definition forbidden_words :: "string list" where
  "forbidden_words = [''authorization'', ''credential'', ''env'', ''environment'', ''password'', ''passwd'',
     ''privatekey'', ''registryauth'', ''secret'', ''token'']"

definition forbiddenMetadataKey :: "(string \<Rightarrow> string) \<Rightarrow> string \<Rightarrow> bool" where
  "forbiddenMetadataKey letters value \<longleftrightarrow> list_ex (contains (letters value)) forbidden_words"

definition validateMetadata ::
  "(string \<Rightarrow> string) \<Rightarrow> (string \<times> string) list \<Rightarrow> nat \<Rightarrow> nat \<Rightarrow> nat \<Rightarrow> bool" where
  "validateMetadata letters values maxEntries maxKeyLength maxValueLength \<longleftrightarrow>
     length values \<le> maxEntries \<and>
     list_all (\<lambda>(key, value). inventory_validText key maxKeyLength \<and>
       inventory_validOptionalText value maxValueLength \<and> \<not> forbiddenMetadataKey letters key) values"

text \<open>\<open>strings.ToLower\<close> yields these three words from ASCII letters only.\<close>

definition domain_port_ok :: "net_library \<Rightarrow> DomainPort \<Rightarrow> bool" where
  "domain_port_ok lib p \<longleftrightarrow>
     iport_ContainerPort p \<noteq> 0 \<and> inventory_validOptionalText (iport_Name p) 64 \<and>
     to_lower (trim_space (iport_Protocol p)) \<in> set [''tcp'', ''udp'', ''sctp''] \<and>
     optional_field (nl_ParseIP lib) (iport_HostIP p)"

definition domain_mount_ok :: "InventoryMount \<Rightarrow> bool" where
  "domain_mount_ok m \<longleftrightarrow>
     (let destination = trim_space (mount_Destination m) in
      inventory_validOptionalText (mount_Name m) 128 \<and> mount_Type m \<in> set [''bind'', ''volume'', ''tmpfs''] \<and>
      destination \<noteq> [] \<and> has_prefix destination ''/'' \<and> path_clean destination = destination \<and>
      length destination \<le> 512)"

definition domain_attachment_ok :: "net_library \<Rightarrow> DomainAttachment \<Rightarrow> bool" where
  "domain_attachment_ok lib n \<longleftrightarrow>
     inventory_validOptionalText (att_NetworkID n) 256 \<and> inventory_validOptionalText (att_Name n) 256 \<and>
     inventory_validOptionalText (att_Driver n) 128 \<and>
     list_all (optional_field (nl_ParseIP lib)) [att_IPAddress n, att_Gateway n] \<and>
     optional_field (nl_ParseMAC lib) (att_MAC n)"

definition domain_summary_ok :: "net_library \<Rightarrow> DomainResource \<Rightarrow> bool" where
  "domain_summary_ok lib r =
     (case dres_Kind r of
        KindContainer \<Rightarrow> (case dres_Container r of None \<Rightarrow> False | Some c \<Rightarrow>
          inventory_validOptionalText (con_ImageReference c) 512 \<and>
          inventory_validOptionalText (con_ImageDigest c) 512 \<and>
          inventory_validOptionalText (con_State c) 64 \<and> inventory_validOptionalText (con_Health c) 64)
      | KindImage \<Rightarrow> (case dres_Image r of None \<Rightarrow> False | Some i \<Rightarrow>
          isum_SizeBytes i \<ge> 0 \<and> inventory_validOptionalText (isum_OS i) 64 \<and>
          inventory_validOptionalText (isum_Architecture i) 64 \<and>
          length (isum_RepoTags i) \<le> 128 \<and> length (isum_RepoDigests i) \<le> 128 \<and>
          list_all (\<lambda>value. inventory_validText value 512 \<and> \<not> contains value ''://'')
            (isum_RepoTags i @ isum_RepoDigests i))
      | KindNetwork \<Rightarrow> (case dres_Network r of None \<Rightarrow> False | Some n \<Rightarrow>
          inventory_validOptionalText (net_Driver n) 128 \<and> inventory_validOptionalText (net_Scope n) 64 \<and>
          length (net_IPAM n) \<le> 64 \<and> list_all (valid_ipam lib) (net_IPAM n))
      | KindVolume \<Rightarrow> (case dres_Volume r of None \<Rightarrow> False | Some v \<Rightarrow>
          inventory_validOptionalText (vol_Driver v) 128 \<and> inventory_validOptionalText (vol_Scope v) 64)
      | KindOther _ \<Rightarrow> True)"

definition domain_one_summary :: "DomainResource \<Rightarrow> bool" where
  "domain_one_summary r \<longleftrightarrow>
     length (filter id [dres_Container r \<noteq> None, dres_Image r \<noteq> None, dres_Network r \<noteq> None,
       dres_Volume r \<noteq> None]) = 1 \<and>
     (dres_Kind r = KindContainer) = (dres_Container r \<noteq> None) \<and>
     (dres_Kind r = KindImage) = (dres_Image r \<noteq> None) \<and>
     (dres_Kind r = KindNetwork) = (dres_Network r \<noteq> None) \<and>
     (dres_Kind r = KindVolume) = (dres_Volume r \<noteq> None)"

definition Domain_Validate :: "net_library \<Rightarrow> (string \<Rightarrow> string) \<Rightarrow> DomainResource \<Rightarrow> bool" where
  "Domain_Validate lib letters r \<longleftrightarrow>
     inventory_validID (dres_ObservationID r) \<and> inventory_validID (dres_OrganizationID r) \<and>
     inventory_validID (dres_ManagedHostID r) \<and> inventory_validID (dres_RuntimeTargetID r) \<and>
     Inventory_Kind_Valid (dres_Kind r) \<and> validRuntimeID (dres_RuntimeID r) \<and>
     inventory_validText (dres_Name r) 256 \<and> \<not> is_zero (dres_ObservedAt r) \<and>
     dres_SchemaVersion r = SchemaVersion \<and>
     (dres_Managed r \<longrightarrow> inventory_validID (dres_ProjectID r)) \<and>
     \<not> (dres_DeploymentID r \<noteq> [] \<and>
        (dres_Kind r \<noteq> KindContainer \<or> \<not> dres_Managed r \<or> \<not> inventory_validID (dres_DeploymentID r))) \<and>
     domain_one_summary r \<and> validateMetadata letters (dres_Labels r) 64 128 512 \<and>
     validateMetadata letters (dres_Attributes r) 64 128 1024 \<and>
     length (dres_Ports r) \<le> 128 \<and> length (dres_Mounts r) \<le> 128 \<and> length (dres_Networks r) \<le> 64 \<and>
     list_all (domain_port_ok lib) (dres_Ports r) \<and> list_all domain_mount_ok (dres_Mounts r) \<and>
     list_all (domain_attachment_ok lib) (dres_Networks r) \<and> domain_summary_ok lib r"

section \<open>Chunks\<close>

record DomainChunk =
  dchk_ObservationID :: string
  dchk_Index :: int
  dchk_Digest :: string
  dchk_Resources :: "DomainResource list"

text \<open>What the environment decides: the parsers, the key letters, and the JSON text of a chunk.\<close>

record domain_env =
  de_net :: net_library
  de_letters :: "string \<Rightarrow> string"
  de_json :: "int \<Rightarrow> DomainResource list \<Rightarrow> string option"

definition chunkDigest :: "domain_env \<Rightarrow> int \<Rightarrow> DomainResource list \<Rightarrow> string option" where
  "chunkDigest env index resources = map_option sha256_hex (de_json env index resources)"

definition domain_key :: "DomainResource \<Rightarrow> string" where
  "domain_key r = inventory_kind_text (dres_Kind r) @ [CHR 0x00] @ dres_RuntimeID r"

definition belongs_to :: "Observation \<Rightarrow> DomainResource \<Rightarrow> bool" where
  "belongs_to ob r \<longleftrightarrow> dres_ObservationID r = obs_ID ob \<and> dres_OrganizationID r = obs_OrganizationID ob \<and>
     dres_ManagedHostID r = obs_ManagedHostID ob \<and> dres_RuntimeTargetID r = obs_RuntimeTargetID ob"

fun chunk_resources_ok :: "domain_env \<Rightarrow> Observation \<Rightarrow> DomainResource list \<Rightarrow> string set \<Rightarrow> bool" where
  "chunk_resources_ok env ob [] seen = True"
| "chunk_resources_ok env ob (r # rs) seen \<longleftrightarrow>
     Domain_Validate (de_net env) (de_letters env) r \<and> belongs_to ob r \<and> domain_key r \<notin> seen \<and>
     chunk_resources_ok env ob rs (insert (domain_key r) seen)"

definition NewChunk :: "domain_env \<Rightarrow> Observation \<Rightarrow> int \<Rightarrow> DomainResource list \<Rightarrow> domain_error + DomainChunk" where
  "NewChunk env ob index resources =
     (if obs_Status ob \<noteq> ObservationOpen \<or> index < 0 \<or> index \<ge> obs_ExpectedChunks ob \<or> resources = [] \<or>
         MaxResourcesPerChunk < length resources then Inl ErrDomainChunk
      else if \<not> chunk_resources_ok env ob resources {} then Inl ErrDomainChunk
      else (case chunkDigest env index resources of
          None \<Rightarrow> Inl ErrDomainChunk
        | Some digest \<Rightarrow> Inr \<lparr>dchk_ObservationID = obs_ID ob, dchk_Index = index, dchk_Digest = digest,
            dchk_Resources = resources\<rparr>))"

definition DomainChunk_Validate :: "domain_env \<Rightarrow> DomainChunk \<Rightarrow> bool" where
  "DomainChunk_Validate env c \<longleftrightarrow>
     \<not> (\<not> inventory_validID (dchk_ObservationID c) \<or> dchk_Index c < 0 \<or> dchk_Resources c = [] \<or>
        MaxResourcesPerChunk < length (dchk_Resources c) \<or> length (dchk_Digest c) \<noteq> 32 * 2) \<and>
     hex_decodable (dchk_Digest c) \<and> chunkDigest env (dchk_Index c) (dchk_Resources c) = Some (dchk_Digest c) \<and>
     list_all (\<lambda>r. dres_ObservationID r = dchk_ObservationID c \<and> Domain_Validate (de_net env) (de_letters env) r)
       (dchk_Resources c)"

section \<open>States\<close>

datatype Presence = PresencePresent | PresenceAbsent | PresenceOther string

fun Presence_Valid :: "Presence \<Rightarrow> bool" where
  "Presence_Valid (PresenceOther _) = False"
| "Presence_Valid _ = True"

record State = DomainResource +
  st_Presence :: Presence
  st_FirstSeenAt :: time
  st_LastSeenAt :: time
  st_AbsentAt :: time
  st_ReconciledAt :: time
  st_Generation :: u64

definition State_Validate :: "domain_env \<Rightarrow> State \<Rightarrow> bool" where
  "State_Validate env s \<longleftrightarrow>
     \<not> (\<not> Domain_Validate (de_net env) (de_letters env) (DomainResource.truncate s) \<or>
        \<not> Presence_Valid (st_Presence s) \<or> is_zero (st_FirstSeenAt s) \<or> st_LastSeenAt s < st_FirstSeenAt s \<or>
        st_ReconciledAt s < st_LastSeenAt s \<or> st_Generation s = 0) \<and>
     \<not> ((st_Presence s = PresencePresent \<and> \<not> is_zero (st_AbsentAt s)) \<or>
        (st_Presence s = PresenceAbsent \<and>
          (is_zero (st_AbsentAt s) \<or> st_AbsentAt s < st_LastSeenAt s \<or> st_ReconciledAt s < st_AbsentAt s)))"

section \<open>Projection\<close>

definition projectContainer :: "ContainerSummary option \<Rightarrow> DomainContainer option" where
  "projectContainer = map_option (\<lambda>v. \<lparr>con_ImageReference = con_ImageReference v,
     con_ImageDigest = con_ImageDigest v, con_State = con_State v, con_Health = con_Health v,
     con_CreatedAt = con_CreatedAt v, con_ExitCode = 0, con_OOMKilled = False, con_StartedAt = 0\<rparr>)"

definition projectImage :: "ImageSummary option \<Rightarrow> DomainImage option" where
  "projectImage = map_option (\<lambda>v. \<lparr>isum_RepoTags = isum_RepoTags v, isum_RepoDigests = isum_RepoDigests v,
     isum_SizeBytes = isum_SizeBytes v, isum_CreatedAt = isum_CreatedAt v, isum_OS = [], isum_Architecture = []\<rparr>)"

definition project_port :: "InventoryPort \<Rightarrow> DomainPort" where
  "project_port p = \<lparr>iport_ContainerPort = iport_ContainerPort p, iport_HostIP = iport_HostIP p,
     iport_HostPort = iport_HostPort p, iport_Protocol = iport_Protocol p, iport_Name = []\<rparr>"

definition project_attachment :: "NetworkAttachment \<Rightarrow> DomainAttachment" where
  "project_attachment n = \<lparr>att_NetworkID = att_NetworkID n, att_Name = att_Name n,
     att_IPAddress = att_IPAddress n, att_Gateway = att_Gateway n, att_MAC = att_MAC n, att_Driver = []\<rparr>"

text \<open>\<open>projectKind\<close> keeps the four kinds; network and volume summaries have the same fields on both sides.\<close>

fun projectKind :: "Kind \<Rightarrow> Kind" where
  "projectKind (KindOther _) = KindOther []"
| "projectKind k = k"

definition project_resource ::
  "domain_env \<Rightarrow> Observation \<Rightarrow> InventoryResource \<Rightarrow> domain_error + DomainResource" where
  "project_resource env ob item =
     (if \<not> Resource_Validate (de_net env) item then Inl ErrDomainResource
      else bind_result (NewResource ob (projectKind (ires_Kind item)) (ires_RuntimeID item) (ires_Name item)
          (ires_ObservedAt item)) (\<lambda>resource.
        let full = resource\<lparr>dres_Container := projectContainer (ires_Container item),
              dres_Image := projectImage (ires_Image item), dres_Network := ires_Network item,
              dres_Volume := ires_Volume item, dres_Labels := ires_Labels item,
              dres_Ports := map project_port (ires_Ports item), dres_Mounts := ires_Mounts item,
              dres_Networks := map project_attachment (ires_Networks item)\<rparr>
        in if Domain_Validate (de_net env) (de_letters env) full then Inr full else Inl ErrDomainResource))"

fun ProjectResources ::
  "domain_env \<Rightarrow> Observation \<Rightarrow> InventoryResource list \<Rightarrow> domain_error + DomainResource list" where
  "ProjectResources env ob [] = Inr []"
| "ProjectResources env ob (item # items) =
     bind_result (project_resource env ob item) (\<lambda>r.
     bind_result (ProjectResources env ob items) (\<lambda>rs. Inr (r # rs)))"

end
