(* ===== verification/InventoryProperties.thy ===== *)
theory InventoryProperties
  imports InventoryDomain
begin

text \<open>
  What the two ends of an inventory transfer owe each other: every snapshot the collector can split
  arrives at the server complete, in order and valid.
\<close>

section \<open>One resource\<close>

text \<open>
  What the code relies on of \<open>unicode\<close>: in an ASCII text the letters and digits of the lower case are
  the alphanumeric characters, in lower case.
\<close>

definition letters_of_ascii :: "(string \<Rightarrow> string) \<Rightarrow> bool" where
  "letters_of_ascii letters \<longleftrightarrow>
     (\<forall>s. list_all (\<lambda>c. (of_char c :: nat) < 128) s \<longrightarrow> letters s = filter is_alnum (to_lower s))"

lemma allowed_label_metadata:
  assumes "letters_of_ascii letters" "AllowedLabel key"
  shows "inventory_validText key 128 \<and> \<not> forbiddenMetadataKey letters key"
proof -
  have ascii: "list_all (\<lambda>c. (of_char c :: nat) < 128) key" using assms(2) by (auto simp: AllowedLabel_def)
  then have "letters key = filter is_alnum (to_lower key)" using assms(1) by (simp add: letters_of_ascii_def)
  moreover have "\<not> list_ex (contains (filter is_alnum (to_lower k))) forbidden_words \<and> inventory_validText k 128"
    if "k \<in> set [''net.owndock.project_id'', ''net.owndock.application_id'', ''net.owndock.deployment_id'']" for k
    using that by (simp only: list.set insert_iff empty_iff) (elim disjE; (simp only:)?; code_simp)
  ultimately show ?thesis using assms(2) by (auto simp: forbiddenMetadataKey_def AllowedLabel_def)
qed

lemma label_value_metadata: "ownershipLabelValue value \<Longrightarrow> inventory_validOptionalText value 512"
proof -
  assume v: "ownershipLabelValue value"
  then have "length value \<le> 160" using matches_id_length unfolding ownershipLabelValue_def by fastforce
  moreover have "CHR 0x00 \<notin> set value"
    using v by (cases "value") (auto simp: ownershipLabelValue_def label_value_char_def is_alnum_def is_digit_def
      is_lower_def is_upper_def in_range_def list_all_iff)
  ultimately show ?thesis by (simp add: inventory_validOptionalText_def)
qed

lemma labels_metadata:
  assumes "letters_of_ascii letters" "length labels \<le> 16"
    and "list_all (\<lambda>(key, value). AllowedLabel key \<and> ownershipLabelValue value) labels"
  shows "validateMetadata letters labels 64 128 512"
  using assms(2,3) allowed_label_metadata[OF assms(1)] label_value_metadata
  unfolding validateMetadata_def list_all_iff by fastforce

lemma protocols_fixed:
  "p \<in> set [''tcp'', ''udp'', ''sctp''] \<Longrightarrow> to_lower (trim_space p) = p"
proof -
  have "to_lower (trim_space ''tcp'') = ''tcp''" "to_lower (trim_space ''udp'') = ''udp''"
    "to_lower (trim_space ''sctp'') = ''sctp''" by code_simp+
  then show "p \<in> set [''tcp'', ''udp'', ''sctp''] \<Longrightarrow> to_lower (trim_space p) = p" by auto
qed

lemma project_port_ok: "valid_inventory_port lib p \<Longrightarrow> domain_port_ok lib (project_port p)"
  using protocols_fixed[of "iport_Protocol p"]
  by (simp add: valid_inventory_port_def domain_port_ok_def project_port_def inventory_validOptionalText_def)

lemma mount_ok: "valid_inventory_mount m \<Longrightarrow> domain_mount_ok m"
  by (auto simp: valid_inventory_mount_def domain_mount_ok_def Let_def has_prefix_def)

lemma project_attachment_ok:
  assumes "valid_attachment lib n" "trim_space (att_Name n) = att_Name n"
  shows "domain_attachment_ok lib (project_attachment n)"
  using assms by (simp add: valid_attachment_def domain_attachment_ok_def project_attachment_def
      inventory_validText_def inventory_validOptionalText_def)

text \<open>What the container runtime guarantees of its names: no surrounding white space.\<close>

definition trimmed_names :: "InventoryResource \<Rightarrow> bool" where
  "trimmed_names r \<longleftrightarrow> trim_space (ires_RuntimeID r) = ires_RuntimeID r \<and>
     (\<forall>n \<in> set (ires_Networks r). trim_space (att_Name n) = att_Name n)"

lemma projectContainer_None [simp]: "projectContainer c = None \<longleftrightarrow> c = None"
  by (simp add: projectContainer_def)

lemma projectImage_None [simp]: "projectImage c = None \<longleftrightarrow> c = None"
  by (simp add: projectImage_def)

definition open_for :: "Observation \<Rightarrow> bool" where
  "open_for ob \<longleftrightarrow> obs_Status ob = ObservationOpen \<and> inventory_validID (obs_ID ob) \<and>
     inventory_validID (obs_OrganizationID ob) \<and> inventory_validID (obs_ManagedHostID ob) \<and>
     inventory_validID (obs_RuntimeTargetID ob)"

text \<open>The identity a resource keeps on its way.\<close>

definition sent_identity :: "InventoryResource \<Rightarrow> Kind \<times> string \<times> string \<times> time" where
  "sent_identity r = (ires_Kind r, ires_RuntimeID r, trim_space (ires_Name r), ires_ObservedAt r)"

definition stored_identity :: "DomainResource \<Rightarrow> Kind \<times> string \<times> string \<times> time" where
  "stored_identity r = (dres_Kind r, dres_RuntimeID r, dres_Name r, dres_ObservedAt r)"

lemma projectKind_valid: "Inventory_Kind_Valid k \<Longrightarrow> projectKind k = k"
  by (cases k) auto

lemma validText_trim: "inventory_validText (trim_space v) n = inventory_validText v n"
  by (simp add: inventory_validText_def)

lemma project_summary_ok:
  assumes "validateSummary lib item" "dres_Kind r = ires_Kind item"
    and "dres_Container r = projectContainer (ires_Container item)" "dres_Image r = projectImage (ires_Image item)"
    and "dres_Network r = ires_Network item" "dres_Volume r = ires_Volume item"
  shows "domain_summary_ok lib r"
proof (cases "ires_Kind item")
  case KindContainer
  with assms(1) obtain c where "ires_Container item = Some c" by (auto simp: validateSummary_def split: option.splits)
  with assms KindContainer show ?thesis
    by (simp add: validateSummary_def domain_summary_ok_def projectContainer_def)
next
  case KindImage
  with assms(1) obtain c where "ires_Image item = Some c" by (auto simp: validateSummary_def split: option.splits)
  with assms KindImage show ?thesis
    by (simp add: validateSummary_def domain_summary_ok_def projectImage_def inventory_validOptionalText_def)
qed (use assms in \<open>simp_all add: validateSummary_def domain_summary_ok_def\<close>)

lemma project_resource_ok:
  assumes "Resource_Validate (de_net env) item" "trimmed_names item" "open_for ob" "letters_of_ascii (de_letters env)"
  shows "\<exists>r. project_resource env ob item = Inr r \<and> Domain_Validate (de_net env) (de_letters env) r \<and>
     belongs_to ob r \<and> stored_identity r = sent_identity item"
proof -
  note v = assms(1)[unfolded Resource_Validate_def]
  then have kind: "projectKind (ires_Kind item) = ires_Kind item" by (simp add: projectKind_valid)
  from v assms(3) obtain r0 where r0: "NewResource ob (ires_Kind item) (ires_RuntimeID item) (ires_Name item)
      (ires_ObservedAt item) = Inr r0" by (simp add: NewResource_def open_for_def validRuntimeID_def)
  then have r0': "r0 = \<lparr>dres_ObservationID = obs_ID ob, dres_OrganizationID = obs_OrganizationID ob,
        dres_ManagedHostID = obs_ManagedHostID ob, dres_RuntimeTargetID = obs_RuntimeTargetID ob,
        dres_Kind = ires_Kind item, dres_RuntimeID = ires_RuntimeID item, dres_Name = trim_space (ires_Name item),
        dres_Managed = False, dres_ProjectID = [], dres_DeploymentID = [], dres_Container = None,
        dres_Image = None, dres_Network = None, dres_Volume = None, dres_Labels = [], dres_Attributes = [],
        dres_Ports = [], dres_Mounts = [], dres_Networks = [], dres_ObservedAt = ires_ObservedAt item,
        dres_SchemaVersion = SchemaVersion\<rparr>"
    using assms(2) by (simp add: NewResource_def trimmed_names_def split: if_splits)
  define full where "full = r0\<lparr>dres_Container := projectContainer (ires_Container item),
              dres_Image := projectImage (ires_Image item), dres_Network := ires_Network item,
              dres_Volume := ires_Volume item, dres_Labels := ires_Labels item,
              dres_Ports := map project_port (ires_Ports item), dres_Mounts := ires_Mounts item,
              dres_Networks := map project_attachment (ires_Networks item)\<rparr>"
  have "validateMetadata (de_letters env) (ires_Labels item) 64 128 512"
    using v by (intro labels_metadata[OF assms(4)]) simp_all
  moreover have "validateMetadata (de_letters env) [] 64 128 1024" by (simp add: validateMetadata_def)
  moreover have "list_all (domain_port_ok (de_net env)) (map project_port (ires_Ports item))"
    using v project_port_ok by (auto simp: list_all_iff)
  moreover have "list_all domain_mount_ok (ires_Mounts item)" using v mount_ok by (auto simp: list_all_iff)
  moreover have "list_all (domain_attachment_ok (de_net env)) (map project_attachment (ires_Networks item))"
    using v assms(2) project_attachment_ok by (auto simp: list_all_iff trimmed_names_def)
  moreover have "domain_summary_ok (de_net env) full"
    using v by (intro project_summary_ok[of _ item]) (simp_all add: full_def r0')
  moreover have "domain_one_summary full"
    using v by (simp add: full_def r0' domain_one_summary_def one_summary_def)
  ultimately have "Domain_Validate (de_net env) (de_letters env) full"
    using v assms(3) by (simp add: Domain_Validate_def full_def r0' open_for_def validRuntimeID_def validText_trim)
  moreover have "project_resource env ob item = (if Domain_Validate (de_net env) (de_letters env) full
      then Inr full else Inl ErrDomainResource)"
    using assms(1) kind r0 by (simp add: project_resource_def full_def Let_def)
  ultimately show ?thesis
    by (auto simp: full_def r0' belongs_to_def stored_identity_def sent_identity_def)
qed

section \<open>One chunk\<close>

text \<open>The server's side of a chunk: the resources are projected and the domain chunk is built.\<close>

definition receive_chunk :: "domain_env \<Rightarrow> Observation \<Rightarrow> InventoryChunk \<Rightarrow> domain_error + DomainChunk" where
  "receive_chunk env ob c =
     bind_result (ProjectResources env ob (chk_Resources c)) (NewChunk env ob (chk_Index c))"

lemma stored_key: "stored_identity r = sent_identity item \<Longrightarrow> trimmed_names item \<Longrightarrow> domain_key r = resource_key item"
  by (simp add: stored_identity_def sent_identity_def domain_key_def resource_key_def)

lemma project_resources_ok:
  assumes "list_all (Resource_Validate (de_net env)) items" "list_all trimmed_names items" "open_for ob"
    "letters_of_ascii (de_letters env)"
  shows "\<exists>rs. ProjectResources env ob items = Inr rs \<and>
     list_all (\<lambda>r. Domain_Validate (de_net env) (de_letters env) r \<and> belongs_to ob r) rs \<and>
     map stored_identity rs = map sent_identity items \<and> map domain_key rs = map resource_key items"
  using assms(1,2)
proof (induction items)
  case (Cons item items)
  from Cons.prems project_resource_ok[of env item ob] assms(3,4) obtain r where
    r: "project_resource env ob item = Inr r" "Domain_Validate (de_net env) (de_letters env) r" "belongs_to ob r"
      "stored_identity r = sent_identity item" by auto
  with Cons stored_key[OF r(4)] show ?case by auto
qed simp

lemma chunk_resources_distinct:
  "list_all (\<lambda>r. Domain_Validate (de_net env) (de_letters env) r \<and> belongs_to ob r) rs \<Longrightarrow>
   distinct (map domain_key rs) \<Longrightarrow> set (map domain_key rs) \<inter> seen = {} \<Longrightarrow> chunk_resources_ok env ob rs seen"
  by (induction rs arbitrary: seen) auto

lemma receive_chunk_ok:
  assumes "Chunk_Validate (de_net env) enc maxBytes c" "list_all trimmed_names (chk_Resources c)"
    and "distinct (map resource_key (chk_Resources c))" "open_for ob" "letters_of_ascii (de_letters env)"
    and "\<forall>i rs. de_json env i rs \<noteq> None" "chk_Index c < obs_ExpectedChunks ob"
  shows "\<exists>dc. receive_chunk env ob c = Inr dc \<and> DomainChunk_Validate env dc \<and> dchk_Index dc = chk_Index c \<and>
     map stored_identity (dchk_Resources dc) = map sent_identity (chk_Resources c)"
proof -
  note v = assms(1)[unfolded Chunk_Validate_def]
  then obtain rs where rs: "ProjectResources env ob (chk_Resources c) = Inr rs"
      "list_all (\<lambda>r. Domain_Validate (de_net env) (de_letters env) r \<and> belongs_to ob r) rs"
      "map stored_identity rs = map sent_identity (chk_Resources c)"
      "map domain_key rs = map resource_key (chk_Resources c)"
    using project_resources_ok[OF _ assms(2,4,5)] by blast
  have len: "length rs = length (chk_Resources c)" using rs(3) by (metis length_map)
  obtain body where body: "de_json env (chk_Index c) rs = Some body" using assms(6) by auto
  have ok: "chunk_resources_ok env ob rs {}"
    using rs(2,4) assms(3) by (intro chunk_resources_distinct) simp_all
  define dc where "dc = \<lparr>dchk_ObservationID = obs_ID ob, dchk_Index = chk_Index c,
    dchk_Digest = sha256_hex body, dchk_Resources = rs\<rparr>"
  have "NewChunk env ob (chk_Index c) rs = Inr dc"
    using v len ok body assms(4,7) by (auto simp: NewChunk_def dc_def chunkDigest_def open_for_def)
  moreover have "DomainChunk_Validate env dc"
    using v len body rs(2) assms(4) sha256_hex_decodable
    by (auto simp: DomainChunk_Validate_def dc_def chunkDigest_def open_for_def list_all_iff belongs_to_def)
  ultimately show ?thesis using rs(1,3) by (simp add: receive_chunk_def dc_def)
qed

section \<open>The whole snapshot\<close>

lemma split_chunks:
  assumes "Split lib enc rs maxBytes maxItems = Inr cs"
  shows "list_all (Chunk_Validate lib enc maxBytes) cs \<and> concat (map chk_Resources cs) = rs \<and>
     map chk_Index cs = map int [0 ..< length cs] \<and> int (length cs) \<le> MaxChunks \<and>
     distinct (map resource_key rs) \<and> length rs \<le> MaxResources \<and> length rs \<le> length cs * MaxResourcesPerChunk \<and>
     (rs = [] \<longleftrightarrow> cs = [])"
proof (cases "rs = []")
  case True
  with assms show ?thesis by (simp add: Split_def MaxChunks_def)
next
  case False
  with assms obtain items where
    lim: "length rs \<le> MaxResources" "maxBytes > 0" "maxBytes \<le> MaxChunkBytes" "maxItems > 0"
      "maxItems \<le> int MaxResourcesPerChunk"
    and items: "encode_resources lib enc rs {} 0 = Inr items"
      "split_items enc maxBytes (nat maxItems) 0 items = Inr cs"
    by (auto simp: Split_def split: if_splits sum.splits)
  note e = encode_resources_Inr[OF items(1)] and c = split_items_Inr[OF items(2)]
  have order: "concat (map chk_Resources cs) = rs" using e c by simp
  have small: "length (chk_Resources c') \<le> MaxResourcesPerChunk" if "c' \<in> set cs" for c'
    using c that lim(4,5) by fastforce
  have valid: "Resource_Validate lib r" if "c' \<in> set cs" "r \<in> set (chk_Resources c')" for c' r
  proof -
    have "r \<in> set (concat (map chk_Resources cs))" using that by auto
    then show ?thesis using e order by (simp add: list_all_iff)
  qed
  have index: "chk_Index c' \<ge> 0" if "c' \<in> set cs" for c'
  proof -
    have "chk_Index c' \<in> set (map chk_Index cs)" using that by simp
    then show ?thesis using c by auto
  qed
  have "list_all (Chunk_Validate lib enc maxBytes) cs"
    unfolding list_all_iff
  proof
    fix c' assume c': "c' \<in> set cs"
    with c obtain n where "enc_chunk enc c' = Some n" "int n \<le> maxBytes" by blast
    with c c' lim small[OF c'] valid[OF c'] index[OF c'] show "Chunk_Validate lib enc maxBytes c'"
      by (simp add: Chunk_Validate_def list_all_iff)
  qed
  moreover have "length rs \<le> length cs * MaxResourcesPerChunk"
  proof -
    have "length (concat (map chk_Resources ds)) \<le> length ds * MaxResourcesPerChunk"
      if "set ds \<subseteq> set cs" for ds
      using that by (induction ds) (auto dest: small)
    then show ?thesis using order by blast
  qed
  moreover have "cs \<noteq> []" using order False by auto
  ultimately show ?thesis using order e c lim(1) False by simp
qed

lemma distinct_parts: "distinct (map f (concat (map g cs))) \<Longrightarrow> c \<in> set cs \<Longrightarrow> distinct (map f (g c))"
  by (induction cs) auto

lemma receive_chunks:
  assumes "\<forall>c \<in> set cs. \<exists>dc. receive_chunk env ob c = Inr dc \<and> DomainChunk_Validate env dc \<and>
      dchk_Index dc = chk_Index c \<and> map stored_identity (dchk_Resources dc) = map sent_identity (chk_Resources c)"
  shows "\<exists>dcs. map (receive_chunk env ob) cs = map Inr dcs \<and> list_all (DomainChunk_Validate env) dcs \<and>
     map dchk_Index dcs = map chk_Index cs \<and>
     map stored_identity (concat (map dchk_Resources dcs)) = map sent_identity (concat (map chk_Resources cs))"
  using assms
proof (induction cs)
  case (Cons c cs)
  then obtain dc dcs where "receive_chunk env ob c = Inr dc \<and> DomainChunk_Validate env dc \<and>
      dchk_Index dc = chk_Index c \<and> map stored_identity (dchk_Resources dc) = map sent_identity (chk_Resources c)"
    and "map (receive_chunk env ob) cs = map Inr dcs \<and> list_all (DomainChunk_Validate env) dcs \<and>
      map dchk_Index dcs = map chk_Index cs \<and>
      map stored_identity (concat (map dchk_Resources dcs)) = map sent_identity (concat (map chk_Resources cs))"
    by auto
  then show ?case by (intro exI[of _ "dc # dcs"]) simp
qed simp

lemma new_observation_ok:
  assumes "list_all inventory_validID [i, organization, host, target]" "\<not> is_zero t"
    and "int n \<le> 10000" "int m \<le> 100000" "int m \<le> int n * int MaxResourcesPerChunk" "m = 0 \<longleftrightarrow> n = 0"
  shows "\<exists>ob. NewObservation i organization host target (int n) (int m) t = Inr ob \<and> open_for ob \<and>
     obs_ExpectedChunks ob = int n"
proof -
  have "inventory_validID (trim_space v) = inventory_validID v" for v
    by (simp add: inventory_validID_def validText_trim)
  with assms show ?thesis by (cases "n = 0") (simp_all add: NewObservation_def open_for_def)
qed

text \<open>
  C40: A snapshot the collector can split is delivered: the counts it announces open an observation, every
  chunk it sends is valid for the server's limit, is projected and accepted by the observation as a
  valid domain chunk under its own index, and the chunks together hold exactly the resources of the
  snapshot, in order and with their kinds, names, runtime IDs and times. What is assumed: the two
  ends parse addresses alike, names and runtime IDs carry no surrounding white space, and the JSON encoding of
  a chunk does not fail.
\<close>

theorem snapshot_is_delivered:
  assumes "Split (de_net env) enc rs maxBytes maxItems = Inr cs" "list_all trimmed_names rs"
    and "letters_of_ascii (de_letters env)" "\<forall>i drs. de_json env i drs \<noteq> None"
    and "list_all inventory_validID [i, organization, host, target]" "\<not> is_zero t"
  shows "\<exists>ob dcs. NewObservation i organization host target (int (length cs)) (int (length rs)) t = Inr ob \<and>
     list_all (Chunk_Validate (de_net env) enc maxBytes) cs \<and>
     map (receive_chunk env ob) cs = map Inr dcs \<and> list_all (DomainChunk_Validate env) dcs \<and>
     map dchk_Index dcs = map int [0 ..< nat (obs_ExpectedChunks ob)] \<and>
     map stored_identity (concat (map dchk_Resources dcs)) = map sent_identity rs"
proof -
  note s = split_chunks[OF assms(1)]
  have keys: "distinct (map resource_key (concat (map chk_Resources cs)))" using s by simp
  have "int (length cs) \<le> 10000" "int (length rs) \<le> 100000" "length rs = 0 \<longleftrightarrow> length cs = 0"
    using s by (simp_all add: MaxChunks_def MaxResources_def)
  moreover have "int (length rs) \<le> int (length cs) * int MaxResourcesPerChunk"
    using s by (metis of_nat_le_iff of_nat_mult)
  ultimately obtain ob where
    ob: "NewObservation i organization host target (int (length cs)) (int (length rs)) t = Inr ob"
    and parts: "open_for ob" "obs_ExpectedChunks ob = int (length cs)"
    using new_observation_ok[OF assms(5,6), of "length cs" "length rs"] by blast
  have "\<exists>dc. receive_chunk env ob c = Inr dc \<and> DomainChunk_Validate env dc \<and> dchk_Index dc = chk_Index c \<and>
      map stored_identity (dchk_Resources dc) = map sent_identity (chk_Resources c)" if c: "c \<in> set cs" for c
  proof (rule receive_chunk_ok)
    show "Chunk_Validate (de_net env) enc maxBytes c" using s c by (simp add: list_all_iff)
    have "set (chk_Resources c) \<subseteq> set rs" using s c by auto
    then show "list_all trimmed_names (chk_Resources c)" using assms(2) by (auto simp: list_all_iff)
    show "distinct (map resource_key (chk_Resources c))" by (rule distinct_parts[OF keys c])
    have "chk_Index c \<in> set (map chk_Index cs)" using c by simp
    then show "chk_Index c < obs_ExpectedChunks ob" using s parts(2) by auto
  qed (use assms parts in simp_all)
  from receive_chunks[of cs env ob] this obtain dcs where
    "map (receive_chunk env ob) cs = map Inr dcs \<and> list_all (DomainChunk_Validate env) dcs \<and>
     map dchk_Index dcs = map chk_Index cs \<and>
     map stored_identity (concat (map dchk_Resources dcs)) = map sent_identity (concat (map chk_Resources cs))"
    by blast
  with ob s parts(2) show ?thesis by (intro exI[of _ ob] exI[of _ dcs]) simp
qed

definition sample_net :: net_library where
  "sample_net = \<lparr>nl_ParseIP = (\<lambda>_. True), nl_ParseCIDR = (\<lambda>_. True), nl_ParseMAC = (\<lambda>_. True)\<rparr>"

definition sample_domain_env :: domain_env where
  "sample_domain_env = \<lparr>de_net = sample_net, de_letters = (\<lambda>s. filter is_alnum (to_lower s)),
     de_json = (\<lambda>_ _. Some ''{}'')\<rparr>"

definition sample_encoding :: inventory_encoding where
  "sample_encoding = \<lparr>enc_resource = (\<lambda>_. Some 10),
     enc_chunk = (\<lambda>c. Some (if chk_Resources c = [] then 40 else 37 + 11 * length (chk_Resources c)))\<rparr>"

definition sample_network :: InventoryResource where
  "sample_network = \<lparr>ires_Kind = KindNetwork, ires_RuntimeID = ''net1'', ires_Name = ''front'',
     ires_Container = None, ires_Image = None,
     ires_Network = Some \<lparr>net_Driver = ''bridge'', net_Scope = ''local'', net_Internal = False,
       net_Attachable = False, net_Ingress = False, net_EnableIPv4 = True, net_EnableIPv6 = False,
       net_IPAM = [\<lparr>ipam_Subnet = ''10.0.0.0/24'', ipam_IPRange = [], ipam_Gateway = ''10.0.0.1''\<rparr>]\<rparr>,
     ires_Volume = None, ires_Labels = [(''net.owndock.project_id'', ''p1'')], ires_Ports = [],
     ires_Mounts = [], ires_Networks = [], ires_ObservedAt = 7, ires_SchemaVersion = 1\<rparr>"

definition sample_container :: InventoryResource where
  "sample_container = sample_network\<lparr>ires_Kind := KindContainer, ires_RuntimeID := ''c1'', ires_Network := None,
     ires_Container := Some \<lparr>con_ImageReference = ''web'', con_ImageDigest = [], con_State = ''running'',
       con_Health = [], con_CreatedAt = 3\<rparr>,
     ires_Ports := [\<lparr>iport_ContainerPort = 80, iport_HostIP = [], iport_HostPort = 8080, iport_Protocol = ''tcp''\<rparr>],
     ires_Mounts := [\<lparr>mount_Name = ''data'', mount_Type = ''volume'', mount_Destination = ''/data'', mount_ReadOnly = False\<rparr>],
     ires_Networks := [\<lparr>att_NetworkID = ''net1'', att_Name = ''front'', att_IPAddress = ''10.0.0.2'',
       att_Gateway = [], att_MAC = []\<rparr>]\<rparr>"

definition sample_chunks :: "InventoryChunk list" where
  "sample_chunks = [\<lparr>chk_SchemaVersion = 1, chk_Index = 0, chk_Resources = [sample_network]\<rparr>,
     \<lparr>chk_SchemaVersion = 1, chk_Index = 1, chk_Resources = [sample_container]\<rparr>]"

lemma sample_split:
  "Split (de_net sample_domain_env) sample_encoding [sample_network, sample_container] 55 5 = Inr sample_chunks"
proof -
  let ?items = "[(sample_network, 10), (sample_container, 10)]"
  have "encode_resources sample_net sample_encoding [sample_network, sample_container] {} 0 = Inr ?items"
    by code_simp
  moreover have "split_items sample_encoding 55 (nat 5) 0 ?items = Inr sample_chunks" by code_simp
  ultimately show ?thesis
    by (simp add: Split_def MaxResources_def MaxResourcesPerChunk_def MaxChunkBytes_def sample_domain_env_def)
qed

lemma snapshot_is_delivered_witness:
  "\<exists>ob dcs. NewObservation ''o1'' ''org'' ''host'' ''target'' (int (length sample_chunks)) 2 9 = Inr ob \<and>
     map (receive_chunk sample_domain_env ob) sample_chunks = map Inr dcs \<and>
     map stored_identity (concat (map dchk_Resources dcs)) =
       [(KindNetwork, ''net1'', ''front'', 7), (KindContainer, ''c1'', ''front'', 7)]"
proof -
  have ids: "list_all inventory_validID [''o1'', ''org'', ''host'', ''target'']" by code_simp
  have names: "list_all trimmed_names [sample_network, sample_container]" by code_simp
  have sent: "map sent_identity [sample_network, sample_container] =
      [(KindNetwork, ''net1'', ''front'', 7), (KindContainer, ''c1'', ''front'', 7)]" by code_simp
  have env: "letters_of_ascii (de_letters sample_domain_env)" "\<forall>i drs. de_json sample_domain_env i drs \<noteq> None"
    by (simp_all add: letters_of_ascii_def sample_domain_env_def)
  have t: "\<not> is_zero 9" by simp
  from snapshot_is_delivered[OF sample_split names env ids t] show ?thesis unfolding sent by auto
qed

end
