(* ===== verification/SupplyRules.thy ===== *)
theory SupplyRules
  imports BuildConfiguration Sha256 Security
begin

text \<open>
  The supply chain module's rules and evidence records
  (\<open>internal/modules/supplychain/biz/{evidence,verification,signing,sbom}.go\<close>). What its libraries
  decide is an argument: the digest parser of go-digest, \<open>mime.ParseMediaType\<close>, \<open>url.Parse\<close> and
  \<open>url.ParseRequestURI\<close>, the image reference parser, and \<open>strings.ToUpper\<close>, \<open>strings.ToLower\<close> with
  their Unicode tables.
\<close>

record url_parts =
  url_Scheme :: string
  url_Host :: string
  url_Hostname :: string
  url_Opaque :: string
  url_Path :: string
  url_HasUser :: bool
  url_RawQuery :: string
  url_Fragment :: string
  url_String :: string

record supply_library =
  sl_reference :: reference_parser
  sl_digest :: "string \<Rightarrow> bool"
  sl_media_type :: "string \<Rightarrow> string option"
  sl_url :: "string \<Rightarrow> url_parts option"
  sl_request_uri :: "string \<Rightarrow> url_parts option"
  sl_upper :: "string \<Rightarrow> string"
  sl_lower :: "string \<Rightarrow> string"

datatype supply_error =
    ErrInvalidEvidence
  | ErrEvidenceNotFound
  | ErrEvidenceDuplicate
  | ErrUnavailable
  | ErrInvalidEvidenceJob
  | ErrEvidenceJobNotClaimable
  | ErrEvidenceLeaseExpired
  | ErrInvalidSignatureTrust
  | ErrSignatureVerification
  | ErrInvalidSignatureTrustPolicy
  | ErrSignatureTrustPolicyConflict
  | ErrInvalidSigningKey
  | ErrInvalidSigningProfile
  | ErrSigningProfileConflict
  | ErrInvalidVulnerabilityReport
  | ErrVulnerabilityReportSize
  | ErrVulnerabilityDatabase
  | ErrInvalidVulnerabilityWaiver
  | ErrVulnerabilityWaiverConflict
  | ErrInvalidDeploymentPolicy
  | ErrDeploymentPolicyConflict
  | ErrInvalidSignatureVerificationRequest
  | ErrInvalidVulnerabilityScanRequest
  | ErrSupplyRegistryAuthentication
  | ErrSBOMTooLarge
  | ErrSBOMImageTooLarge
  | ErrProvenanceGeneration
  | ErrProvenanceTooLarge
  | ErrInvalidProvenance
  | ErrSupplySecurity security_error
  | ErrSupplyContext string

section \<open>Field rules\<close>

definition supply_id_tail :: "char \<Rightarrow> bool" where
  "supply_id_tail c \<longleftrightarrow> is_alnum c \<or> c \<in> set ''._:-''"

definition supply_validID :: "string \<Rightarrow> bool" where
  "supply_validID value \<longleftrightarrow> matches_id is_alnum supply_id_tail 127 value \<and> trim_space value = value"

definition validDigest :: "supply_library \<Rightarrow> string \<Rightarrow> bool" where
  "validDigest lib value = sl_digest lib value"

definition validMediaType :: "supply_library \<Rightarrow> string \<Rightarrow> bool" where
  "validMediaType lib value \<longleftrightarrow>
     value \<noteq> [] \<and> length value \<le> 255 \<and> sl_media_type lib value = Some value"

definition validText :: "string \<Rightarrow> nat \<Rightarrow> bool" where
  "validText value maximum \<longleftrightarrow> value \<noteq> [] \<and> length value \<le> maximum \<and> trim_space value = value"

definition validPredicateType :: "supply_library \<Rightarrow> string \<Rightarrow> bool" where
  "validPredicateType lib value \<longleftrightarrow>
     value = [] \<or>
     \<not> (512 < length value \<or> trim_space value \<noteq> value) \<and>
     (case sl_request_uri lib value of None \<Rightarrow> False
      | Some parsed \<Rightarrow> url_Scheme parsed \<noteq> [] \<and> url_Scheme parsed = ''https'' \<and> url_Host parsed \<noteq> [])"

definition validRepository :: "supply_library \<Rightarrow> string \<Rightarrow> bool" where
  "validRepository lib value \<longleftrightarrow>
     \<not> (value = [] \<or> 255 < length value) \<and>
     (case sl_reference lib value of None \<Rightarrow> False
      | Some named \<Rightarrow> in_Name named = value \<and> in_NameOnly named)"

section \<open>Evidence\<close>

datatype EvidenceKind =
    EvidenceKindSBOM
  | EvidenceKindProvenance
  | EvidenceKindSignature
  | EvidenceKindVulnerabilityReport
  | EvidenceKindOther string

fun EvidenceKind_Valid :: "EvidenceKind \<Rightarrow> bool" where
  "EvidenceKind_Valid (EvidenceKindOther _) = False"
| "EvidenceKind_Valid _ = True"

fun evidence_kind_text :: "EvidenceKind \<Rightarrow> string" where
  "evidence_kind_text EvidenceKindSBOM = ''sbom''"
| "evidence_kind_text EvidenceKindProvenance = ''provenance''"
| "evidence_kind_text EvidenceKindSignature = ''signature''"
| "evidence_kind_text EvidenceKindVulnerabilityReport = ''vulnerability_report''"
| "evidence_kind_text (EvidenceKindOther s) = s"

datatype VerificationStatus =
  VerificationUnverified | VerificationVerified | VerificationRejected | VerificationOther string

fun VerificationStatus_Valid :: "VerificationStatus \<Rightarrow> bool" where
  "VerificationStatus_Valid (VerificationOther _) = False"
| "VerificationStatus_Valid _ = True"

record Evidence =
  evd_ID :: string
  evd_OrganizationID :: string
  evd_ProjectID :: string
  evd_ArtifactID :: string
  evd_SubjectDigest :: string
  evd_Kind :: EvidenceKind
  evd_MediaType :: string
  evd_FormatVersion :: string
  evd_PredicateType :: string
  evd_Producer :: string
  evd_RegistryRepository :: string
  evd_DescriptorDigest :: string
  evd_VerificationStatus :: VerificationStatus
  evd_CreatedAt :: time

definition CycloneDXJSONMediaType :: string where
  "CycloneDXJSONMediaType = ''application/vnd.cyclonedx+json''"

definition CycloneDXVersion16 :: string where
  "CycloneDXVersion16 = ''1.6''"

definition SLSAProvenanceMediaType :: string where
  "SLSAProvenanceMediaType = ''application/vnd.in-toto+json''"

definition SLSAProvenanceFormatVersion :: string where
  "SLSAProvenanceFormatVersion = ''1''"

definition SLSAProvenancePredicateV1 :: string where
  "SLSAProvenancePredicateV1 = ''https://slsa.dev/provenance/v1''"

definition TrivyReportMediaType :: string where
  "TrivyReportMediaType = ''application/vnd.aquasec.trivy.report+json''"

definition TrivyReportFormatVersion :: string where
  "TrivyReportFormatVersion = ''2''"

fun validEvidenceKindMetadata :: "Evidence \<Rightarrow> bool" where
  "validEvidenceKindMetadata e =
     (case evd_Kind e of
        EvidenceKindSBOM \<Rightarrow> evd_MediaType e = CycloneDXJSONMediaType \<and>
          evd_FormatVersion e = CycloneDXVersion16 \<and> evd_PredicateType e = []
      | EvidenceKindProvenance \<Rightarrow> evd_MediaType e = SLSAProvenanceMediaType \<and>
          evd_FormatVersion e = SLSAProvenanceFormatVersion \<and>
          evd_PredicateType e = SLSAProvenancePredicateV1
      | EvidenceKindVulnerabilityReport \<Rightarrow> evd_MediaType e = TrivyReportMediaType \<and>
          evd_FormatVersion e = TrivyReportFormatVersion \<and> evd_PredicateType e = []
      | _ \<Rightarrow> evd_PredicateType e = [])"

text \<open>The input record has the fields of the result; all texts are trimmed first.\<close>

definition NewEvidence :: "supply_library \<Rightarrow> Evidence \<Rightarrow> supply_error + Evidence" where
  "NewEvidence lib input =
     (let item = \<lparr>evd_ID = trim_space (evd_ID input), evd_OrganizationID = trim_space (evd_OrganizationID input),
        evd_ProjectID = trim_space (evd_ProjectID input), evd_ArtifactID = trim_space (evd_ArtifactID input),
        evd_SubjectDigest = trim_space (evd_SubjectDigest input), evd_Kind = evd_Kind input,
        evd_MediaType = trim_space (evd_MediaType input), evd_FormatVersion = trim_space (evd_FormatVersion input),
        evd_PredicateType = trim_space (evd_PredicateType input), evd_Producer = trim_space (evd_Producer input),
        evd_RegistryRepository = trim_space (evd_RegistryRepository input),
        evd_DescriptorDigest = trim_space (evd_DescriptorDigest input),
        evd_VerificationStatus = evd_VerificationStatus input, evd_CreatedAt = utc (evd_CreatedAt input)\<rparr>
      in if \<not> supply_validID (evd_ID item) \<or> \<not> supply_validID (evd_OrganizationID item) \<or>
            \<not> supply_validID (evd_ProjectID item) \<or> \<not> supply_validID (evd_ArtifactID item) \<or>
            \<not> EvidenceKind_Valid (evd_Kind item) \<or> \<not> VerificationStatus_Valid (evd_VerificationStatus item) \<or>
            is_zero (evd_CreatedAt item) \<or> \<not> validDigest lib (evd_SubjectDigest item) \<or>
            \<not> validDigest lib (evd_DescriptorDigest item) \<or> \<not> validMediaType lib (evd_MediaType item) \<or>
            \<not> validText (evd_FormatVersion item) 64 \<or> \<not> validText (evd_Producer item) 200 \<or>
            \<not> validPredicateType lib (evd_PredicateType item) \<or> \<not> validEvidenceKindMetadata item \<or>
            \<not> validRepository lib (evd_RegistryRepository item)
         then Inl ErrInvalidEvidence else Inr item)"

record ArtifactSubject =
  sub_ID :: string
  sub_OrganizationID :: string
  sub_ProjectID :: string
  sub_SubjectDigest :: string
  sub_RegistryRepository :: string
  sub_RegistryCredentialID :: string

record EvidenceContent =
  ec_Content :: string
  ec_MediaType :: string
  ec_Digest :: string

text \<open>The address of an artifact's bytes.\<close>

definition CanonicalSubject :: "string \<Rightarrow> string \<Rightarrow> string" where
  "CanonicalSubject repository digest = trim_space repository @ ''@'' @ trim_space digest"

record EvidenceRequest =
  er_ProjectID :: string
  er_RegistryCredentialID :: string
  er_RegistryRepository :: string
  er_SubjectDigest :: string
  er_FormatVersion :: string

definition request_subject_ok :: "supply_library \<Rightarrow> EvidenceRequest \<Rightarrow> bool" where
  "request_subject_ok lib r \<longleftrightarrow>
     supply_validID (trim_space (er_ProjectID r)) \<and> supply_validID (trim_space (er_RegistryCredentialID r)) \<and>
     validRepository lib (trim_space (er_RegistryRepository r)) \<and>
     validDigest lib (trim_space (er_SubjectDigest r))"

definition SBOMRequest_Validate :: "supply_library \<Rightarrow> EvidenceRequest \<Rightarrow> supply_error option" where
  "SBOMRequest_Validate lib r =
     (if \<not> request_subject_ok lib r \<or> er_FormatVersion r \<noteq> CycloneDXVersion16
      then Some ErrInvalidEvidenceJob else None)"

definition VulnerabilityScanRequest_Validate :: "supply_library \<Rightarrow> EvidenceRequest \<Rightarrow> supply_error option" where
  "VulnerabilityScanRequest_Validate lib r =
     (if \<not> request_subject_ok lib r \<or> er_FormatVersion r \<noteq> TrivyReportFormatVersion
      then Some ErrInvalidEvidenceJob else None)"

end
