(* ===== verification/VulnerabilityReport.thy ===== *)
theory VulnerabilityReport
  imports SupplyRules
begin

text \<open>
  Vulnerability reports (\<open>internal/modules/supplychain/biz/vulnerability.go\<close> and
  \<open>data/trivy_report.go\<close>): severity counts, the scanner's database, observations, and the check of a
  scanner's report, whose decoded JSON is an argument of the model.
\<close>

section \<open>Severities and counts\<close>

datatype VulnerabilitySeverity =
    SeverityNone
  | SeverityUnknown
  | SeverityLow
  | SeverityMedium
  | SeverityHigh
  | SeverityCritical
  | SeverityOther string

fun Severity_Valid :: "VulnerabilitySeverity \<Rightarrow> bool" where
  "Severity_Valid (SeverityOther _) = False"
| "Severity_Valid _ = True"

fun severity_text :: "VulnerabilitySeverity \<Rightarrow> string" where
  "severity_text SeverityNone = ''none''"
| "severity_text SeverityUnknown = ''unknown''"
| "severity_text SeverityLow = ''low''"
| "severity_text SeverityMedium = ''medium''"
| "severity_text SeverityHigh = ''high''"
| "severity_text SeverityCritical = ''critical''"
| "severity_text (SeverityOther s) = s"

record VulnerabilityCounts =
  vc_Unknown :: u64
  vc_Low :: u64
  vc_Medium :: u64
  vc_High :: u64
  vc_Critical :: u64
  vc_Total :: u64
  vc_Fixable :: u64

definition zero_counts :: VulnerabilityCounts where
  "zero_counts = \<lparr>vc_Unknown = 0, vc_Low = 0, vc_Medium = 0, vc_High = 0, vc_Critical = 0, vc_Total = 0,
     vc_Fixable = 0\<rparr>"

definition Counts_Validate :: "VulnerabilityCounts \<Rightarrow> supply_error option" where
  "Counts_Validate c =
     (if vc_Total c \<noteq> vc_Unknown c + vc_Low c + vc_Medium c + vc_High c + vc_Critical c \<or>
         vc_Fixable c > vc_Total c \<or> vc_Total c > 1000000
      then Some ErrInvalidVulnerabilityReport else None)"

definition HighestSeverity :: "VulnerabilityCounts \<Rightarrow> VulnerabilitySeverity" where
  "HighestSeverity c =
     (if vc_Critical c > 0 then SeverityCritical
      else if vc_High c > 0 then SeverityHigh
      else if vc_Medium c > 0 then SeverityMedium
      else if vc_Low c > 0 then SeverityLow
      else if vc_Unknown c > 0 then SeverityUnknown
      else SeverityNone)"

record VulnerabilityDatabase =
  vdb_SchemaVersion :: u64
  vdb_UpdatedAt :: time
  vdb_DownloadedAt :: time
  vdb_NextUpdate :: time

definition Database_Validate :: "VulnerabilityDatabase \<Rightarrow> supply_error option" where
  "Database_Validate d =
     (if vdb_SchemaVersion d = 0 \<or> vdb_SchemaVersion d > 1024 \<or> is_zero (vdb_UpdatedAt d) \<or>
         is_zero (vdb_DownloadedAt d) \<or> vdb_DownloadedAt d < vdb_UpdatedAt d \<or>
         is_zero (vdb_NextUpdate d) \<or> \<not> after (vdb_NextUpdate d) (vdb_UpdatedAt d)
      then Some ErrVulnerabilityDatabase else None)"

definition Database_Equal :: "VulnerabilityDatabase \<Rightarrow> VulnerabilityDatabase \<Rightarrow> bool" where
  "Database_Equal d other \<longleftrightarrow> vdb_SchemaVersion d = vdb_SchemaVersion other \<and>
     vdb_UpdatedAt d = vdb_UpdatedAt other \<and> vdb_DownloadedAt d = vdb_DownloadedAt other \<and>
     vdb_NextUpdate d = vdb_NextUpdate other"

section \<open>Reports and observations\<close>

definition MaximumVulnerabilityReportSize :: int where
  "MaximumVulnerabilityReportSize = 16 * 1024 * 1024"

record VulnerabilityReport =
  vr_Content :: string
  vr_MediaType :: string
  vr_FormatVersion :: string
  vr_ContentDigest :: string
  vr_ScannerVersion :: string
  vr_Database :: VulnerabilityDatabase
  vr_ScannedAt :: time
  vr_Counts :: VulnerabilityCounts
  vr_HighestSeverity :: VulnerabilitySeverity

definition NewVulnerabilityReport ::
  "string \<Rightarrow> int \<Rightarrow> string \<Rightarrow> VulnerabilityDatabase \<Rightarrow> time \<Rightarrow> VulnerabilityCounts \<Rightarrow>
     supply_error + VulnerabilityReport" where
  "NewVulnerabilityReport content maximumBytes scannerVersion database scannedAt counts =
     (if maximumBytes \<le> 0 \<or> maximumBytes > MaximumVulnerabilityReportSize \<or> content = [] \<or>
         int (length content) > maximumBytes then Inl ErrVulnerabilityReportSize
      else if trim_space scannerVersion = [] \<or> 64 < length scannerVersion \<or>
         trim_space scannerVersion \<noteq> scannerVersion \<or> Database_Validate database \<noteq> None
      then Inl ErrVulnerabilityDatabase
      else if is_zero scannedAt \<or> Counts_Validate counts \<noteq> None then Inl ErrInvalidVulnerabilityReport
      else Inr \<lparr>vr_Content = content, vr_MediaType = TrivyReportMediaType,
        vr_FormatVersion = TrivyReportFormatVersion, vr_ContentDigest = ''sha256:'' @ sha256_hex content,
        vr_ScannerVersion = scannerVersion, vr_Database = database, vr_ScannedAt = utc scannedAt,
        vr_Counts = counts, vr_HighestSeverity = HighestSeverity counts\<rparr>)"

record VulnerabilityObservation =
  vo_ID :: string
  vo_OrganizationID :: string
  vo_ProjectID :: string
  vo_ArtifactID :: string
  vo_SubjectDigest :: string
  vo_EvidenceID :: string
  vo_DescriptorDigest :: string
  vo_Scanner :: string
  vo_ScannerVersion :: string
  vo_Database :: VulnerabilityDatabase
  vo_ScannedAt :: time
  vo_FreshUntil :: time
  vo_Counts :: VulnerabilityCounts
  vo_HighestSeverity :: VulnerabilitySeverity

definition NewVulnerabilityObservation ::
  "supply_library \<Rightarrow> VulnerabilityObservation \<Rightarrow> supply_error + VulnerabilityObservation" where
  "NewVulnerabilityObservation lib input =
     (let item = input\<lparr>vo_ID := trim_space (vo_ID input),
        vo_OrganizationID := trim_space (vo_OrganizationID input),
        vo_ProjectID := trim_space (vo_ProjectID input), vo_ArtifactID := trim_space (vo_ArtifactID input),
        vo_EvidenceID := trim_space (vo_EvidenceID input), vo_SubjectDigest := trim_space (vo_SubjectDigest input),
        vo_DescriptorDigest := trim_space (vo_DescriptorDigest input), vo_Scanner := trim_space (vo_Scanner input),
        vo_ScannerVersion := trim_space (vo_ScannerVersion input)\<rparr>
      in if \<not> supply_validID (vo_ID item) \<or> \<not> supply_validID (vo_OrganizationID item) \<or>
            \<not> supply_validID (vo_ProjectID item) \<or> \<not> supply_validID (vo_ArtifactID item) \<or>
            \<not> supply_validID (vo_EvidenceID item) \<or> \<not> validDigest lib (vo_SubjectDigest item) \<or>
            \<not> validDigest lib (vo_DescriptorDigest item) \<or> \<not> validText (vo_Scanner item) 64 \<or>
            \<not> validText (vo_ScannerVersion item) 64 \<or> Database_Validate (vo_Database item) \<noteq> None \<or>
            is_zero (vo_ScannedAt item) \<or> is_zero (vo_FreshUntil item) \<or>
            Counts_Validate (vo_Counts item) \<noteq> None \<or> \<not> Severity_Valid (vo_HighestSeverity item) \<or>
            vo_HighestSeverity item \<noteq> HighestSeverity (vo_Counts item)
         then Inl ErrInvalidVulnerabilityReport else Inr item)"

definition Observation_Stale :: "VulnerabilityObservation \<Rightarrow> time \<Rightarrow> bool" where
  "Observation_Stale ob now \<longleftrightarrow> is_zero now \<or> \<not> utc now < vo_FreshUntil ob"

definition VulnerabilityObservationID :: "string \<Rightarrow> string \<Rightarrow> supply_error + string" where
  "VulnerabilityObservationID artifactID scanner =
     (let artifact = trim_space artifactID; name = trim_space scanner
      in if \<not> supply_validID artifact \<or> \<not> validText name 64 then Inl ErrInvalidVulnerabilityReport
         else Inr (''vulnerability-observation-'' @ sha256_hex (artifact @ [CHR 0x00] @ name)))"

section \<open>The scanner's report\<close>

record TrivyFinding =
  tf_VulnerabilityID :: string
  tf_Severity :: string
  tf_FixedVersion :: string

record TrivyReport =
  tr_SchemaVersion :: u64
  tr_CreatedAt :: time
  tr_ArtifactName :: string
  tr_Results :: "TrivyFinding list list"

text \<open>The counter the \<open>switch\<close> on the upper-case severity selects.\<close>

definition count_severity :: "string \<Rightarrow> VulnerabilityCounts \<Rightarrow> VulnerabilityCounts option" where
  "count_severity severity c =
     (if severity = ''UNKNOWN'' then Some (c\<lparr>vc_Unknown := vc_Unknown c + 1\<rparr>)
      else if severity = ''LOW'' then Some (c\<lparr>vc_Low := vc_Low c + 1\<rparr>)
      else if severity = ''MEDIUM'' then Some (c\<lparr>vc_Medium := vc_Medium c + 1\<rparr>)
      else if severity = ''HIGH'' then Some (c\<lparr>vc_High := vc_High c + 1\<rparr>)
      else if severity = ''CRITICAL'' then Some (c\<lparr>vc_Critical := vc_Critical c + 1\<rparr>)
      else None)"

definition count_total :: "bool \<Rightarrow> VulnerabilityCounts \<Rightarrow> VulnerabilityCounts" where
  "count_total fixable c =
     (let d = c\<lparr>vc_Total := vc_Total c + 1\<rparr> in if fixable then d\<lparr>vc_Fixable := vc_Fixable d + 1\<rparr> else d)"

definition fixable :: "TrivyFinding \<Rightarrow> bool" where
  "fixable f \<longleftrightarrow> trim_space (tf_FixedVersion f) \<noteq> []"

fun count_findings ::
  "supply_library \<Rightarrow> TrivyFinding list \<Rightarrow> VulnerabilityCounts \<Rightarrow> supply_error + VulnerabilityCounts" where
  "count_findings lib [] c = Inr c"
| "count_findings lib (f # fs) c =
     (if tf_VulnerabilityID f \<noteq> trim_space (tf_VulnerabilityID f) \<or> tf_VulnerabilityID f = [] \<or>
         256 < length (tf_VulnerabilityID f) then Inl ErrInvalidVulnerabilityReport
      else (case count_severity (sl_upper lib (trim_space (tf_Severity f))) c of
          None \<Rightarrow> Inl ErrInvalidVulnerabilityReport
        | Some d \<Rightarrow> count_findings lib fs (count_total (fixable f) d)))"

fun count_results ::
  "supply_library \<Rightarrow> TrivyFinding list list \<Rightarrow> VulnerabilityCounts \<Rightarrow> supply_error + VulnerabilityCounts" where
  "count_results lib [] c = Inr c"
| "count_results lib (r # rs) c =
     (if int (length r) > 1000000 \<or> vc_Total c > 1000000 - of_nat (length r) then Inl ErrInvalidVulnerabilityReport
      else bind_result (count_findings lib r c) (count_results lib rs))"

definition parseTrivyV2Report ::
  "supply_library \<Rightarrow> (string \<Rightarrow> TrivyReport option) \<Rightarrow> string \<Rightarrow> int \<Rightarrow> string \<Rightarrow>
     supply_error + TrivyReport \<times> VulnerabilityCounts" where
  "parseTrivyV2Report lib decode content maximumBytes canonicalSubject =
     (if maximumBytes \<le> 0 \<or> maximumBytes > MaximumVulnerabilityReportSize \<or> int (length content) > maximumBytes
      then Inl ErrVulnerabilityReportSize
      else (case decode content of
          None \<Rightarrow> Inl ErrInvalidVulnerabilityReport
        | Some document \<Rightarrow>
            if tr_SchemaVersion document \<noteq> 2 \<or> is_zero (tr_CreatedAt document) \<or>
               tr_ArtifactName document \<noteq> canonicalSubject \<or> int (length (tr_Results document)) > 100000
            then Inl ErrInvalidVulnerabilityReport
            else bind_result (count_results lib (tr_Results document) zero_counts) (\<lambda>counts.
              Inr (document, counts))))"

definition newTrivyV2Report ::
  "supply_library \<Rightarrow> (string \<Rightarrow> TrivyReport option) \<Rightarrow> string \<Rightarrow> int \<Rightarrow> string \<Rightarrow> string \<Rightarrow>
     VulnerabilityDatabase \<Rightarrow> supply_error + VulnerabilityReport" where
  "newTrivyV2Report lib decode content maximumBytes canonicalSubject scannerVersion database =
     bind_result (parseTrivyV2Report lib decode content maximumBytes canonicalSubject) (\<lambda>(document, counts).
       NewVulnerabilityReport content maximumBytes scannerVersion database (tr_CreatedAt document) counts)"

section \<open>What the counts say\<close>

lemma unat_of_nat_u64: "n \<le> 1000000 \<Longrightarrow> unat (of_nat n :: u64) = n"
  by (rule of_nat_inverse[OF refl]) simp

text \<open>The findings of one severity.\<close>

definition having :: "(TrivyFinding \<Rightarrow> string) \<Rightarrow> string \<Rightarrow> TrivyFinding list \<Rightarrow> nat" where
  "having sev s fs = length (filter (\<lambda>f. sev f = s) fs)"

lemma having_simps [simp]:
  "having sev s [] = 0"
  "having sev s (f # fs) = (if sev f = s then Suc (having sev s fs) else having sev s fs)"
  "having sev s (fs @ gs) = having sev s fs + having sev s gs"
  by (simp_all add: having_def)

definition counts_of :: "(TrivyFinding \<Rightarrow> string) \<Rightarrow> TrivyFinding list \<Rightarrow> VulnerabilityCounts" where
  "counts_of sev fs = \<lparr>vc_Unknown = of_nat (having sev ''UNKNOWN'' fs), vc_Low = of_nat (having sev ''LOW'' fs),
     vc_Medium = of_nat (having sev ''MEDIUM'' fs), vc_High = of_nat (having sev ''HIGH'' fs),
     vc_Critical = of_nat (having sev ''CRITICAL'' fs), vc_Total = of_nat (length fs),
     vc_Fixable = of_nat (length (filter fixable fs))\<rparr>"

definition graded :: "string \<Rightarrow> bool" where
  "graded s \<longleftrightarrow> s \<in> {''UNKNOWN'', ''LOW'', ''MEDIUM'', ''HIGH'', ''CRITICAL''}"

lemma counts_of_Nil [simp]: "counts_of sev [] = zero_counts"
  by (simp add: counts_of_def zero_counts_def)

text \<open>One more finding of a known severity moves exactly its counter and the totals.\<close>

lemma count_severity_counts_of:
  "count_severity (sev f) (counts_of sev fs) = Some d \<Longrightarrow>
   count_total (fixable f) d = counts_of sev (fs @ [f]) \<and> graded (sev f)"
  by (auto simp: count_severity_def count_total_def counts_of_def graded_def Let_def split: if_splits)

lemma graded_total:
  "list_all (\<lambda>f. graded (sev f)) fs \<longleftrightarrow>
     having sev ''UNKNOWN'' fs + having sev ''LOW'' fs + having sev ''MEDIUM'' fs + having sev ''HIGH'' fs +
       having sev ''CRITICAL'' fs = length fs"
proof (induction fs)
  case (Cons f fs)
  have "having sev ''UNKNOWN'' fs + having sev ''LOW'' fs + having sev ''MEDIUM'' fs + having sev ''HIGH'' fs +
      having sev ''CRITICAL'' fs \<le> length fs"
    by (induction fs) auto
  with Cons show ?case by (auto simp: graded_def)
qed simp

definition report_severity :: "supply_library \<Rightarrow> TrivyFinding \<Rightarrow> string" where
  "report_severity lib f = sl_upper lib (trim_space (tf_Severity f))"

lemma count_findings_counts_of:
  "count_findings lib fs (counts_of (report_severity lib) gs) = Inr d \<Longrightarrow>
   d = counts_of (report_severity lib) (gs @ fs) \<and> list_all (\<lambda>f. graded (report_severity lib f)) fs"
proof (induction fs arbitrary: gs d)
  case (Cons f fs)
  from Cons.prems obtain e where e: "count_severity (report_severity lib f) (counts_of (report_severity lib) gs) = Some e"
    and d: "count_findings lib fs (count_total (fixable f) e) = Inr d"
    by (auto simp: report_severity_def[symmetric] split: if_splits option.splits)
  note step = count_severity_counts_of[OF e]
  with d have "count_findings lib fs (counts_of (report_severity lib) (gs @ [f])) = Inr d" by simp
  from Cons.IH[OF this] step show ?case by simp
qed simp

lemma count_results_counts_of:
  assumes "count_results lib rs (counts_of (report_severity lib) gs) = Inr d"
    and "length gs \<le> 1000000"
  shows "d = counts_of (report_severity lib) (gs @ concat rs) \<and>
     list_all (\<lambda>f. graded (report_severity lib f)) (concat rs) \<and> length (gs @ concat rs) \<le> 1000000"
  using assms
proof (induction rs arbitrary: gs d)
  case (Cons r rs)
  from Cons.prems(1) obtain e where small: "length r \<le> 1000000"
      "\<not> (of_nat (length gs) :: u64) > 1000000 - of_nat (length r)"
    and e: "count_findings lib r (counts_of (report_severity lib) gs) = Inr e"
    and d: "count_results lib rs e = Inr d"
    by (auto simp: bind_result_eq_Inr counts_of_def split: if_splits)
  have "unat (1000000 - of_nat (length r) :: u64) = 1000000 - length r"
    using small(1) by (simp add: unat_sub_if' unat_of_nat_u64 word_le_nat_alt)
  then have len: "length (gs @ r) \<le> 1000000"
    using small Cons.prems(2) by (simp add: word_le_nat_alt not_less unat_of_nat_u64)
  note f = count_findings_counts_of[OF e]
  from Cons.IH[of "gs @ r" d] d f len show ?case by simp
qed simp

lemma parseTrivy_Inr:
  assumes "parseTrivyV2Report lib decode content n subject = Inr (document, counts)"
  shows "decode content = Some document \<and> counts = counts_of (report_severity lib) (concat (tr_Results document)) \<and>
     list_all (\<lambda>f. graded (report_severity lib f)) (concat (tr_Results document)) \<and>
     length (concat (tr_Results document)) \<le> 1000000 \<and> tr_ArtifactName document = subject"
proof -
  from assms have d: "decode content = Some document" "tr_ArtifactName document = subject"
    "count_results lib (tr_Results document) (counts_of (report_severity lib) []) = Inr counts"
    by (auto simp: parseTrivyV2Report_def bind_result_eq_Inr split: if_splits option.splits)
  from count_results_counts_of[OF d(3)] d show ?thesis by simp
qed

text \<open>A count is positive exactly when a finding has its severity.\<close>

lemma having_positive:
  "length fs \<le> 1000000 \<Longrightarrow> (of_nat (having sev s fs) :: u64) > 0 \<longleftrightarrow> (\<exists>f \<in> set fs. sev f = s)"
proof -
  assume len: "length fs \<le> 1000000"
  have "having sev s fs \<le> length fs" by (simp add: having_def)
  then have "unat (of_nat (having sev s fs) :: u64) = having sev s fs" using len by (simp add: unat_of_nat_u64)
  then have "(of_nat (having sev s fs) :: u64) > 0 \<longleftrightarrow> having sev s fs > 0"
    by (simp add: word_less_nat_alt)
  also have "\<dots> \<longleftrightarrow> (\<exists>f \<in> set fs. sev f = s)" by (auto simp: having_def filter_empty_conv)
  finally show ?thesis .
qed

end
