(* ===== verification/SupplyPolicy.thy ===== *)
theory SupplyPolicy
  imports VulnerabilityReport
begin

text \<open>
  Deployment policies and vulnerability waivers
  (\<open>internal/modules/supplychain/biz/{deployment_policy,vulnerability_waiver}.go\<close>): their canonical
  form, the mode a policy takes in an environment, the state of a waiver, and queries.
\<close>

section \<open>Deployment policies\<close>

definition second :: int where
  "second = 1000000000"

definition hour :: int where
  "hour = 3600 * second"

definition MinimumDeploymentPolicyScanAge :: int where
  "MinimumDeploymentPolicyScanAge = hour"

definition MaximumDeploymentPolicyScanAge :: int where
  "MaximumDeploymentPolicyScanAge = 30 * 24 * hour"

datatype DeploymentPolicyScope = PolicyScopeProject | PolicyScopeEnvironment | PolicyScopeOther string

fun PolicyScope_Valid :: "DeploymentPolicyScope \<Rightarrow> bool" where
  "PolicyScope_Valid (PolicyScopeOther _) = False"
| "PolicyScope_Valid _ = True"

fun policy_scope_text :: "DeploymentPolicyScope \<Rightarrow> string" where
  "policy_scope_text PolicyScopeProject = ''project''"
| "policy_scope_text PolicyScopeEnvironment = ''environment''"
| "policy_scope_text (PolicyScopeOther s) = s"

datatype DeploymentPolicyMode = DeploymentPolicyAdvisory | DeploymentPolicyEnforced | PolicyModeOther string

fun PolicyMode_Valid :: "DeploymentPolicyMode \<Rightarrow> bool" where
  "PolicyMode_Valid (PolicyModeOther _) = False"
| "PolicyMode_Valid _ = True"

fun policy_mode_text :: "DeploymentPolicyMode \<Rightarrow> string" where
  "policy_mode_text DeploymentPolicyAdvisory = ''advisory''"
| "policy_mode_text DeploymentPolicyEnforced = ''enforced''"
| "policy_mode_text (PolicyModeOther s) = s"

record DeploymentPolicyRequirements =
  dpr_RequireSBOM :: bool
  dpr_RequireProvenance :: bool
  dpr_AllowedSignaturePolicyIDs :: "string list"
  dpr_MaximumVulnerabilitySeverity :: VulnerabilitySeverity
  dpr_MaximumScanAge :: int

text \<open>The empty text is no severity: \<open>SeverityOther []\<close>.\<close>

definition vulnerability_gate :: "DeploymentPolicyRequirements \<Rightarrow> bool" where
  "vulnerability_gate r \<longleftrightarrow> dpr_MaximumVulnerabilitySeverity r \<noteq> SeverityOther [] \<or> dpr_MaximumScanAge r \<noteq> 0"

lemma vulnerability_gate_ids [simp]:
  "vulnerability_gate (r\<lparr>dpr_AllowedSignaturePolicyIDs := ids\<rparr>) = vulnerability_gate r"
  by (simp add: vulnerability_gate_def)

definition normalizeDeploymentPolicyRequirements ::
  "DeploymentPolicyRequirements \<Rightarrow> supply_error + DeploymentPolicyRequirements" where
  "normalizeDeploymentPolicyRequirements input =
     (let trimmed = map trim_space (dpr_AllowedSignaturePolicyIDs input)
      in if \<not> list_all supply_validID trimmed then Inl ErrInvalidDeploymentPolicy
         else
           (let ids = remdups_adj (sort trimmed); r = input\<lparr>dpr_AllowedSignaturePolicyIDs := ids\<rparr>
            in if 16 < length ids then Inl ErrInvalidDeploymentPolicy
               else if vulnerability_gate r \<and>
                 (\<not> Severity_Valid (dpr_MaximumVulnerabilitySeverity r) \<or>
                  dpr_MaximumVulnerabilitySeverity r = SeverityUnknown \<or>
                  dpr_MaximumScanAge r < MinimumDeploymentPolicyScanAge \<or>
                  dpr_MaximumScanAge r > MaximumDeploymentPolicyScanAge)
               then Inl ErrInvalidDeploymentPolicy
               else if \<not> dpr_RequireSBOM r \<and> \<not> dpr_RequireProvenance r \<and> ids = [] \<and> \<not> vulnerability_gate r
               then Inl ErrInvalidDeploymentPolicy
               else Inr r))"

record DeploymentPolicy =
  dp_ID :: string
  dp_OrganizationID :: string
  dp_ProjectID :: string
  dp_Name :: string
  dp_Scope :: DeploymentPolicyScope
  dp_EnvironmentID :: string
  dp_Mode :: DeploymentPolicyMode
  dp_Requirements :: DeploymentPolicyRequirements
  dp_Enabled :: bool
  dp_Version :: u64
  dp_CreatedBy :: string
  dp_UpdatedBy :: string
  dp_CreatedAt :: time
  dp_UpdatedAt :: time

definition NewDeploymentPolicy :: "DeploymentPolicy \<Rightarrow> supply_error + DeploymentPolicy" where
  "NewDeploymentPolicy input =
     bind_result (normalizeDeploymentPolicyRequirements (dp_Requirements input)) (\<lambda>requirements.
       let item = \<lparr>dp_ID = trim_space (dp_ID input), dp_OrganizationID = trim_space (dp_OrganizationID input),
             dp_ProjectID = trim_space (dp_ProjectID input), dp_Name = trim_space (dp_Name input),
             dp_Scope = dp_Scope input, dp_EnvironmentID = trim_space (dp_EnvironmentID input),
             dp_Mode = dp_Mode input, dp_Requirements = requirements, dp_Enabled = dp_Enabled input,
             dp_Version = dp_Version input, dp_CreatedBy = trim_space (dp_CreatedBy input),
             dp_UpdatedBy = trim_space (dp_UpdatedBy input), dp_CreatedAt = utc (dp_CreatedAt input),
             dp_UpdatedAt = utc (dp_UpdatedAt input)\<rparr>
       in if \<not> supply_validID (dp_ID item) \<or> \<not> supply_validID (dp_OrganizationID item) \<or>
             \<not> supply_validID (dp_ProjectID item) \<or> \<not> validText (dp_Name item) 100 \<or>
             \<not> PolicyScope_Valid (dp_Scope item) \<or> \<not> PolicyMode_Valid (dp_Mode item) \<or>
             dp_Version item = 0 \<or> \<not> supply_validID (dp_CreatedBy item) \<or>
             \<not> supply_validID (dp_UpdatedBy item) \<or> is_zero (dp_CreatedAt item) \<or>
             is_zero (dp_UpdatedAt item) \<or> dp_UpdatedAt item < dp_CreatedAt item
          then Inl ErrInvalidDeploymentPolicy
          else if dp_Scope item = PolicyScopeProject then
            (if dp_EnvironmentID item \<noteq> [] then Inl ErrInvalidDeploymentPolicy else Inr item)
          else if \<not> supply_validID (dp_EnvironmentID item) then Inl ErrInvalidDeploymentPolicy
          else Inr item)"

text \<open>\<open>None\<close>: the policy is disabled.\<close>

definition EffectiveMode :: "DeploymentPolicy \<Rightarrow> string \<Rightarrow> supply_error + DeploymentPolicyMode option" where
  "EffectiveMode p environmentStage =
     (if \<not> dp_Enabled p then Inr None
      else if trim_space environmentStage = ''development'' then Inr (Some DeploymentPolicyAdvisory)
      else if trim_space environmentStage = ''staging'' then Inr (Some (dp_Mode p))
      else if trim_space environmentStage = ''production'' then Inr (Some DeploymentPolicyEnforced)
      else Inl ErrInvalidDeploymentPolicy)"

section \<open>Waivers\<close>

definition MinimumVulnerabilityWaiverDuration :: int where
  "MinimumVulnerabilityWaiverDuration = hour"

definition MaximumVulnerabilityWaiverDuration :: int where
  "MaximumVulnerabilityWaiverDuration = 180 * 24 * hour"

definition vulnerability_head :: "char \<Rightarrow> bool" where
  "vulnerability_head c \<longleftrightarrow> is_upper c \<or> is_digit c"

definition vulnerability_tail :: "char \<Rightarrow> bool" where
  "vulnerability_tail c \<longleftrightarrow> is_upper c \<or> is_digit c \<or> c \<in> set ''._:+-''"

definition vulnerabilityIdentifierPattern :: "string \<Rightarrow> bool" where
  "vulnerabilityIdentifierPattern value \<longleftrightarrow>
     2 \<le> length value \<and> matches_id vulnerability_head vulnerability_tail 127 value"

datatype VulnerabilityWaiverScope = WaiverScopeProject | WaiverScopeArtifact | WaiverScopeOther string

fun WaiverScope_Valid :: "VulnerabilityWaiverScope \<Rightarrow> bool" where
  "WaiverScope_Valid (WaiverScopeOther _) = False"
| "WaiverScope_Valid _ = True"

fun waiver_scope_text :: "VulnerabilityWaiverScope \<Rightarrow> string" where
  "waiver_scope_text WaiverScopeProject = ''project''"
| "waiver_scope_text WaiverScopeArtifact = ''artifact''"
| "waiver_scope_text (WaiverScopeOther s) = s"

datatype VulnerabilityWaiverStatus = WaiverActive | WaiverExpired | WaiverRevoked

record VulnerabilityWaiver =
  vw_ID :: string
  vw_OrganizationID :: string
  vw_ProjectID :: string
  vw_Scope :: VulnerabilityWaiverScope
  vw_ArtifactID :: string
  vw_SubjectDigest :: string
  vw_VulnerabilityID :: string
  vw_Reason :: string
  vw_ApprovedBy :: string
  vw_ExpiresAt :: time
  vw_Version :: u64
  vw_CreatedAt :: time
  vw_RevokedAt :: time
  vw_RevokedBy :: string
  vw_RevocationReason :: string

definition NewVulnerabilityWaiver ::
  "supply_library \<Rightarrow> VulnerabilityWaiver \<Rightarrow> supply_error + VulnerabilityWaiver" where
  "NewVulnerabilityWaiver lib input =
     (let item = \<lparr>vw_ID = trim_space (vw_ID input), vw_OrganizationID = trim_space (vw_OrganizationID input),
        vw_ProjectID = trim_space (vw_ProjectID input), vw_Scope = vw_Scope input,
        vw_ArtifactID = trim_space (vw_ArtifactID input), vw_SubjectDigest = trim_space (vw_SubjectDigest input),
        vw_VulnerabilityID = sl_upper lib (trim_space (vw_VulnerabilityID input)),
        vw_Reason = trim_space (vw_Reason input), vw_ApprovedBy = trim_space (vw_ApprovedBy input),
        vw_ExpiresAt = utc (vw_ExpiresAt input), vw_Version = vw_Version input,
        vw_CreatedAt = utc (vw_CreatedAt input), vw_RevokedAt = utc (vw_RevokedAt input),
        vw_RevokedBy = trim_space (vw_RevokedBy input),
        vw_RevocationReason = trim_space (vw_RevocationReason input)\<rparr>;
      revoked = (\<not> is_zero (vw_RevokedAt item) \<or> vw_RevokedBy item \<noteq> [] \<or> vw_RevocationReason item \<noteq> [])
      in if \<not> supply_validID (vw_ID item) \<or> \<not> supply_validID (vw_OrganizationID item) \<or>
            \<not> supply_validID (vw_ProjectID item) \<or> \<not> WaiverScope_Valid (vw_Scope item) \<or>
            \<not> vulnerabilityIdentifierPattern (vw_VulnerabilityID item) \<or> \<not> validText (vw_Reason item) 1000 \<or>
            \<not> supply_validID (vw_ApprovedBy item) \<or> vw_Version item = 0 \<or> is_zero (vw_CreatedAt item) \<or>
            is_zero (vw_ExpiresAt item) \<or>
            vw_ExpiresAt item < vw_CreatedAt item + MinimumVulnerabilityWaiverDuration \<or>
            after (vw_ExpiresAt item) (vw_CreatedAt item + MaximumVulnerabilityWaiverDuration)
         then Inl ErrInvalidVulnerabilityWaiver
         else if vw_Scope item = WaiverScopeProject \<and> (vw_ArtifactID item \<noteq> [] \<or> vw_SubjectDigest item \<noteq> [])
         then Inl ErrInvalidVulnerabilityWaiver
         else if vw_Scope item \<noteq> WaiverScopeProject \<and>
            (\<not> supply_validID (vw_ArtifactID item) \<or> \<not> validDigest lib (vw_SubjectDigest item))
         then Inl ErrInvalidVulnerabilityWaiver
         else if \<not> revoked then (if vw_Version item \<noteq> 1 then Inl ErrInvalidVulnerabilityWaiver else Inr item)
         else if vw_Version item \<noteq> 2 \<or> is_zero (vw_RevokedAt item) \<or> vw_RevokedAt item < vw_CreatedAt item \<or>
            \<not> supply_validID (vw_RevokedBy item) \<or> \<not> validText (vw_RevocationReason item) 1000
         then Inl ErrInvalidVulnerabilityWaiver
         else Inr item)"

definition Waiver_Status :: "VulnerabilityWaiver \<Rightarrow> time \<Rightarrow> VulnerabilityWaiverStatus" where
  "Waiver_Status w now =
     (if \<not> is_zero (vw_RevokedAt w) then WaiverRevoked
      else if is_zero now \<or> \<not> utc now < vw_ExpiresAt w then WaiverExpired
      else WaiverActive)"

record VulnerabilityWaiverQuery =
  vq_Limit :: int
  vq_Cursor :: string
  vq_VulnerabilityID :: string
  vq_Scope :: VulnerabilityWaiverScope
  vq_ArtifactID :: string
  vq_ActiveOnly :: bool
  vq_ActiveAt :: time

definition WaiverQuery_Normalize ::
  "supply_library \<Rightarrow> VulnerabilityWaiverQuery \<Rightarrow> time \<Rightarrow> supply_error + VulnerabilityWaiverQuery" where
  "WaiverQuery_Normalize lib q0 now =
     (let q = q0\<lparr>vq_Cursor := trim_space (vq_Cursor q0), vq_ArtifactID := trim_space (vq_ArtifactID q0),
            vq_VulnerabilityID := sl_upper lib (trim_space (vq_VulnerabilityID q0)),
            vq_Limit := (if vq_Limit q0 = 0 then 50 else vq_Limit q0)\<rparr>
      in if vq_Limit q < 1 \<or> vq_Limit q > 100 \<or> 2048 < length (vq_Cursor q) \<or>
            (vq_VulnerabilityID q \<noteq> [] \<and> \<not> vulnerabilityIdentifierPattern (vq_VulnerabilityID q)) \<or>
            (vq_Scope q \<noteq> WaiverScopeOther [] \<and> \<not> WaiverScope_Valid (vq_Scope q)) \<or>
            (vq_ArtifactID q \<noteq> [] \<and> \<not> supply_validID (vq_ArtifactID q))
         then Inl ErrInvalidVulnerabilityWaiver
         else if vq_Scope q = WaiverScopeProject \<and> vq_ArtifactID q \<noteq> [] then Inl ErrInvalidVulnerabilityWaiver
         else if vq_ActiveOnly q then
           (if is_zero now then Inl ErrInvalidVulnerabilityWaiver else Inr (q\<lparr>vq_ActiveAt := utc now\<rparr>))
         else Inr (q\<lparr>vq_ActiveAt := 0\<rparr>))"

section \<open>Stored policies are final\<close>

definition requirements_ok :: "DeploymentPolicyRequirements \<Rightarrow> bool" where
  "requirements_ok r \<longleftrightarrow>
     length (dpr_AllowedSignaturePolicyIDs r) \<le> 16 \<and>
     (vulnerability_gate r \<longrightarrow> Severity_Valid (dpr_MaximumVulnerabilitySeverity r) \<and>
        dpr_MaximumVulnerabilitySeverity r \<noteq> SeverityUnknown \<and>
        MinimumDeploymentPolicyScanAge \<le> dpr_MaximumScanAge r \<and>
        dpr_MaximumScanAge r \<le> MaximumDeploymentPolicyScanAge) \<and>
     (dpr_RequireSBOM r \<or> dpr_RequireProvenance r \<or> dpr_AllowedSignaturePolicyIDs r \<noteq> [] \<or> vulnerability_gate r)"

definition canonical_ids :: "string list \<Rightarrow> string list" where
  "canonical_ids xs = remdups_adj (sort (map trim_space xs))"

lemma normalize_requirements_eq:
  "normalizeDeploymentPolicyRequirements input =
     (let r = input\<lparr>dpr_AllowedSignaturePolicyIDs := canonical_ids (dpr_AllowedSignaturePolicyIDs input)\<rparr>
      in if list_all supply_validID (map trim_space (dpr_AllowedSignaturePolicyIDs input)) \<and> requirements_ok r
         then Inr r else Inl ErrInvalidDeploymentPolicy)"
proof -
  define r where "r = input\<lparr>dpr_AllowedSignaturePolicyIDs := canonical_ids (dpr_AllowedSignaturePolicyIDs input)\<rparr>"
  have "normalizeDeploymentPolicyRequirements input =
     (if \<not> list_all supply_validID (map trim_space (dpr_AllowedSignaturePolicyIDs input))
      then Inl ErrInvalidDeploymentPolicy
      else if 16 < length (dpr_AllowedSignaturePolicyIDs r) then Inl ErrInvalidDeploymentPolicy
      else if vulnerability_gate r \<and>
        (\<not> Severity_Valid (dpr_MaximumVulnerabilitySeverity r) \<or>
         dpr_MaximumVulnerabilitySeverity r = SeverityUnknown \<or>
         dpr_MaximumScanAge r < MinimumDeploymentPolicyScanAge \<or>
         dpr_MaximumScanAge r > MaximumDeploymentPolicyScanAge)
      then Inl ErrInvalidDeploymentPolicy
      else if \<not> dpr_RequireSBOM r \<and> \<not> dpr_RequireProvenance r \<and> dpr_AllowedSignaturePolicyIDs r = [] \<and>
        \<not> vulnerability_gate r
      then Inl ErrInvalidDeploymentPolicy
      else Inr r)"
    unfolding normalizeDeploymentPolicyRequirements_def Let_def r_def canonical_ids_def[symmetric]
    by (cases "canonical_ids (dpr_AllowedSignaturePolicyIDs input)") (simp_all, blast+)
  then show ?thesis unfolding r_def[symmetric] Let_def requirements_ok_def by auto
qed

lemma requirements_Inr [inversion]:
  assumes "normalizeDeploymentPolicyRequirements input = Inr r"
  shows "r = input\<lparr>dpr_AllowedSignaturePolicyIDs := canonical_ids (dpr_AllowedSignaturePolicyIDs input)\<rparr> \<and>
     list_all supply_validID (map trim_space (dpr_AllowedSignaturePolicyIDs input)) \<and> requirements_ok r"
  using assms unfolding normalize_requirements_eq Let_def by (simp split: if_split_asm)

lemma canonical_ids_idem:
  assumes "list_all supply_validID (map trim_space xs)"
  shows "canonical_ids (canonical_ids xs) = canonical_ids xs \<and>
    list_all supply_validID (map trim_space (canonical_ids xs))"
proof -
  let ?ids = "canonical_ids xs"
  have sub: "set ?ids = set (map trim_space xs)" by (simp add: canonical_ids_def)
  then have trimmed: "map trim_space ?ids = ?ids" by (auto intro!: map_idI)
  have "sorted ?ids" unfolding canonical_ids_def by (rule sorted_remdups_adj[OF sorted_sort])
  then have "remdups_adj (sort ?ids) = ?ids"
    by (simp add: sort_key_id_if_sorted) (simp add: canonical_ids_def distinct_adj_altdef[symmetric])
  then have "canonical_ids ?ids = ?ids" unfolding canonical_ids_def[of ?ids] trimmed .
  moreover have "list_all supply_validID ?ids" using assms sub by (simp add: list_all_iff)
  ultimately show ?thesis unfolding trimmed by simp
qed

lemma requirements_idem:
  assumes "normalizeDeploymentPolicyRequirements input = Inr r"
  shows "normalizeDeploymentPolicyRequirements r = Inr r"
proof -
  note n = requirements_Inr[OF assms]
  have ids: "dpr_AllowedSignaturePolicyIDs r = canonical_ids (dpr_AllowedSignaturePolicyIDs input)" using n by simp
  have "list_all supply_validID (map trim_space (dpr_AllowedSignaturePolicyIDs input))" using n by simp
  note c = canonical_ids_idem[OF this]
  have "requirements_ok r" using n by blast
  then show ?thesis unfolding normalize_requirements_eq Let_def ids c using c by (simp add: ids[symmetric])
qed

text \<open>The severity gate is all or nothing.\<close>

lemma requirements_gate:
  "normalizeDeploymentPolicyRequirements input = Inr r \<Longrightarrow>
   vulnerability_gate r \<longleftrightarrow> dpr_MaximumVulnerabilitySeverity r \<noteq> SeverityOther []"
  using requirements_Inr[of input r] by (auto simp: vulnerability_gate_def requirements_ok_def)

end
