(* ===== verification/SupplyTrust.thy ===== *)
theory SupplyTrust
  imports SupplyRules
begin

text \<open>
  Signatures (\<open>internal/modules/supplychain/biz/{signature,trust_policy,signing,signing_profile,
  verification}.go\<close>): trust policies and their snapshots, signing keys and profiles, the record of
  a verification. PEM and X.509 are arguments of the model: the decoding of a block, the parsed key, its
  canonical encoding.
\<close>

section \<open>Trust\<close>

datatype public_key = EcdsaKey bool | RsaKey nat | Ed25519Key nat | UnsupportedKey

text \<open>\<open>EcdsaKey True\<close>: the curve is P-256 or P-384; the other arguments are lengths in bits and bytes.\<close>

record key_library =
  kl_pem_decode :: "string \<Rightarrow> (string \<times> string \<times> string) option"
  kl_parse :: "string \<Rightarrow> public_key option"
  kl_marshal :: "string \<Rightarrow> string option"
  kl_pem_encode :: "string \<Rightarrow> string"

fun supportedSignaturePublicKey :: "public_key \<Rightarrow> bool" where
  "supportedSignaturePublicKey (EcdsaKey known) = known"
| "supportedSignaturePublicKey (RsaKey bits) \<longleftrightarrow> 2048 \<le> bits \<and> bits \<le> 8192"
| "supportedSignaturePublicKey (Ed25519Key n) \<longleftrightarrow> n = 32"
| "supportedSignaturePublicKey UnsupportedKey = False"

text \<open>\<open>kl_marshal\<close> takes the bytes of the block to the canonical bytes of the key they encode.\<close>

definition NormalizeSignaturePublicKey :: "key_library \<Rightarrow> string \<Rightarrow> supply_error + string \<times> string" where
  "NormalizeSignaturePublicKey kl value =
     (case kl_pem_decode kl value of
        None \<Rightarrow> Inl ErrInvalidSignatureTrust
      | Some (label, bytes, rest) \<Rightarrow>
          if label \<noteq> ''PUBLIC KEY'' \<or> trim_space rest \<noteq> [] then Inl ErrInvalidSignatureTrust
          else (case kl_parse kl bytes of
              None \<Rightarrow> Inl ErrInvalidSignatureTrust
            | Some key \<Rightarrow>
                if \<not> supportedSignaturePublicKey key then Inl ErrInvalidSignatureTrust
                else (case kl_marshal kl bytes of
                    None \<Rightarrow> Inl ErrInvalidSignatureTrust
                  | Some canonical \<Rightarrow>
                      Inr (kl_pem_encode kl canonical, ''sha256:'' @ sha256_hex canonical))))"

datatype SignatureTrustMode = SignatureTrustPublicKey | SignatureTrustKeyless | TrustModeOther string

fun TrustMode_Valid :: "SignatureTrustMode \<Rightarrow> bool" where
  "TrustMode_Valid (TrustModeOther _) = False"
| "TrustMode_Valid _ = True"

record SignatureTrustMaterial =
  stm_Mode :: SignatureTrustMode
  stm_PublicKeyPEM :: string
  stm_TrustedRootJSON :: string
  stm_CertificateIdentity :: string
  stm_OIDCIssuer :: string

text \<open>An issuer is an \<open>https\<close> address with a host and nothing but a path.\<close>

definition plain_https :: "url_parts \<Rightarrow> bool" where
  "plain_https u \<longleftrightarrow> url_Scheme u = ''https'' \<and> url_Host u \<noteq> [] \<and> \<not> url_HasUser u \<and>
     url_RawQuery u = [] \<and> url_Fragment u = []"

definition issuer_ok :: "supply_library \<Rightarrow> string \<Rightarrow> bool" where
  "issuer_ok lib value = (case sl_url lib value of None \<Rightarrow> False | Some u \<Rightarrow> plain_https u)"

definition TrustMaterial_Validate ::
  "supply_library \<Rightarrow> key_library \<Rightarrow> (string \<Rightarrow> bool) \<Rightarrow> SignatureTrustMaterial \<Rightarrow> supply_error option" where
  "TrustMaterial_Validate lib kl json_valid m =
     (case stm_Mode m of
        SignatureTrustPublicKey \<Rightarrow>
          if length (stm_PublicKeyPEM m) < 64 \<or> 64 * 1024 < length (stm_PublicKeyPEM m) \<or>
             stm_TrustedRootJSON m \<noteq> [] \<or> stm_CertificateIdentity m \<noteq> [] \<or> stm_OIDCIssuer m \<noteq> []
          then Some ErrInvalidSignatureTrust
          else (case NormalizeSignaturePublicKey kl (stm_PublicKeyPEM m) of Inl e \<Rightarrow> Some e | Inr _ \<Rightarrow> None)
      | SignatureTrustKeyless \<Rightarrow>
          (let identity = trim_space (stm_CertificateIdentity m); issuer = trim_space (stm_OIDCIssuer m)
           in if stm_PublicKeyPEM m \<noteq> [] \<or> length (stm_TrustedRootJSON m) < 64 \<or>
                 4 * 1024 * 1024 < length (stm_TrustedRootJSON m) \<or> \<not> json_valid (stm_TrustedRootJSON m) \<or>
                 identity = [] \<or> identity \<noteq> stm_CertificateIdentity m \<or> 1024 < length identity \<or>
                 issuer \<noteq> stm_OIDCIssuer m \<or> 2048 < length issuer \<or> \<not> issuer_ok lib issuer
              then Some ErrInvalidSignatureTrust else None)
      | TrustModeOther _ \<Rightarrow> Some ErrInvalidSignatureTrust)"

definition TrustMaterial_Fingerprint :: "key_library \<Rightarrow> SignatureTrustMaterial \<Rightarrow> string" where
  "TrustMaterial_Fingerprint kl m =
     (if stm_Mode m = SignatureTrustPublicKey then
        (case NormalizeSignaturePublicKey kl (stm_PublicKeyPEM m) of Inl _ \<Rightarrow> [] | Inr (_, fingerprint) \<Rightarrow> fingerprint)
      else ''sha256:'' @ sha256_hex (stm_TrustedRootJSON m))"

record SignatureTrustPolicy =
  tp_ID :: string
  tp_OrganizationID :: string
  tp_ProjectID :: string
  tp_Name :: string
  tp_Mode :: SignatureTrustMode
  tp_PublicKeyPEM :: string
  tp_PublicKeyFingerprint :: string
  tp_TrustedRootID :: string
  tp_TrustedRootHash :: string
  tp_CertificateIdentity :: string
  tp_OIDCIssuer :: string
  tp_Enabled :: bool
  tp_Version :: u64
  tp_CreatedAt :: time
  tp_UpdatedAt :: time

text \<open>The input is a policy without its fingerprint, which the constructor computes.\<close>

definition trust_material ::
  "supply_library \<Rightarrow> key_library \<Rightarrow> string \<Rightarrow> SignatureTrustPolicy \<Rightarrow> supply_error + SignatureTrustPolicy" where
  "trust_material lib kl pem item =
     (case tp_Mode item of
        SignatureTrustPublicKey \<Rightarrow>
          (case NormalizeSignaturePublicKey kl pem of
             Inl _ \<Rightarrow> Inl ErrInvalidSignatureTrustPolicy
           | Inr (canonical, fingerprint) \<Rightarrow>
               if tp_TrustedRootID item \<noteq> [] \<or> tp_TrustedRootHash item \<noteq> [] \<or>
                  tp_CertificateIdentity item \<noteq> [] \<or> tp_OIDCIssuer item \<noteq> []
               then Inl ErrInvalidSignatureTrustPolicy
               else Inr (item\<lparr>tp_PublicKeyPEM := canonical, tp_PublicKeyFingerprint := fingerprint\<rparr>))
      | SignatureTrustKeyless \<Rightarrow>
          if pem \<noteq> [] \<or> \<not> supply_validID (tp_TrustedRootID item) \<or> \<not> validDigest lib (tp_TrustedRootHash item) \<or>
             \<not> validText (tp_CertificateIdentity item) 1024 \<or>
             (case sl_url lib (tp_OIDCIssuer item) of None \<Rightarrow> True
              | Some u \<Rightarrow> \<not> plain_https u \<or> url_String u \<noteq> tp_OIDCIssuer item)
          then Inl ErrInvalidSignatureTrustPolicy else Inr item
      | TrustModeOther _ \<Rightarrow> Inl ErrInvalidSignatureTrustPolicy)"

definition NewSignatureTrustPolicy ::
  "supply_library \<Rightarrow> key_library \<Rightarrow> SignatureTrustPolicy \<Rightarrow> supply_error + SignatureTrustPolicy" where
  "NewSignatureTrustPolicy lib kl input =
     bind_result (trust_material lib kl (tp_PublicKeyPEM input)
       \<lparr>tp_ID = trim_space (tp_ID input), tp_OrganizationID = trim_space (tp_OrganizationID input),
         tp_ProjectID = trim_space (tp_ProjectID input), tp_Name = trim_space (tp_Name input),
         tp_Mode = tp_Mode input, tp_PublicKeyPEM = [], tp_PublicKeyFingerprint = [],
         tp_TrustedRootID = trim_space (tp_TrustedRootID input),
         tp_TrustedRootHash = trim_space (tp_TrustedRootHash input),
         tp_CertificateIdentity = trim_space (tp_CertificateIdentity input),
         tp_OIDCIssuer = trim_space (tp_OIDCIssuer input), tp_Enabled = tp_Enabled input,
         tp_Version = tp_Version input, tp_CreatedAt = utc (tp_CreatedAt input),
         tp_UpdatedAt = utc (tp_UpdatedAt input)\<rparr>)
       (\<lambda>item. if \<not> supply_validID (tp_ID item) \<or> \<not> supply_validID (tp_OrganizationID item) \<or>
             \<not> supply_validID (tp_ProjectID item) \<or> \<not> validText (tp_Name item) 100 \<or> tp_Version item = 0 \<or>
             is_zero (tp_CreatedAt item) \<or> is_zero (tp_UpdatedAt item) \<or> tp_UpdatedAt item < tp_CreatedAt item
          then Inl ErrInvalidSignatureTrustPolicy else Inr item)"

record SignatureTrustSnapshot =
  sts_PolicyID :: string
  sts_PolicyVersion :: u64
  sts_Mode :: SignatureTrustMode
  sts_PublicKeyPEM :: string
  sts_PublicKeyFingerprint :: string
  sts_TrustedRootID :: string
  sts_TrustedRootHash :: string
  sts_CertificateIdentity :: string
  sts_OIDCIssuer :: string

definition empty_trust_snapshot :: SignatureTrustSnapshot where
  "empty_trust_snapshot = \<lparr>sts_PolicyID = [], sts_PolicyVersion = 0, sts_Mode = TrustModeOther [],
     sts_PublicKeyPEM = [], sts_PublicKeyFingerprint = [], sts_TrustedRootID = [], sts_TrustedRootHash = [],
     sts_CertificateIdentity = [], sts_OIDCIssuer = []\<rparr>"

definition TrustPolicy_Snapshot ::
  "supply_library \<Rightarrow> key_library \<Rightarrow> SignatureTrustPolicy \<Rightarrow> supply_error + SignatureTrustSnapshot" where
  "TrustPolicy_Snapshot lib kl p =
     (case NewSignatureTrustPolicy lib kl p of
        Inl _ \<Rightarrow> Inl ErrInvalidSignatureTrustPolicy
      | Inr n \<Rightarrow>
          if \<not> tp_Enabled n then Inl ErrInvalidSignatureTrustPolicy
          else Inr \<lparr>sts_PolicyID = tp_ID n, sts_PolicyVersion = tp_Version n, sts_Mode = tp_Mode n,
            sts_PublicKeyPEM = tp_PublicKeyPEM n, sts_PublicKeyFingerprint = tp_PublicKeyFingerprint n,
            sts_TrustedRootID = tp_TrustedRootID n, sts_TrustedRootHash = tp_TrustedRootHash n,
            sts_CertificateIdentity = tp_CertificateIdentity n, sts_OIDCIssuer = tp_OIDCIssuer n\<rparr>)"

text \<open>The policy a snapshot is checked as; \<open>time.Unix(1, 0)\<close> is not Go's zero time.\<close>

definition unix_one :: time where
  "unix_one = 62135596801 * 1000000000"

definition snapshot_policy :: "SignatureTrustSnapshot \<Rightarrow> SignatureTrustPolicy" where
  "snapshot_policy s = \<lparr>tp_ID = sts_PolicyID s, tp_OrganizationID = ''snapshot-organization'',
     tp_ProjectID = ''snapshot-project'', tp_Name = ''snapshot'', tp_Mode = sts_Mode s,
     tp_PublicKeyPEM = sts_PublicKeyPEM s, tp_PublicKeyFingerprint = [], tp_TrustedRootID = sts_TrustedRootID s,
     tp_TrustedRootHash = sts_TrustedRootHash s, tp_CertificateIdentity = sts_CertificateIdentity s,
     tp_OIDCIssuer = sts_OIDCIssuer s, tp_Enabled = True, tp_Version = sts_PolicyVersion s,
     tp_CreatedAt = unix_one, tp_UpdatedAt = unix_one\<rparr>"

definition TrustSnapshot_Validate ::
  "supply_library \<Rightarrow> key_library \<Rightarrow> SignatureTrustSnapshot \<Rightarrow> supply_error option" where
  "TrustSnapshot_Validate lib kl s =
     (if \<not> supply_validID (sts_PolicyID s) \<or> sts_PolicyVersion s = 0 then Some ErrInvalidSignatureTrustPolicy
      else (case NewSignatureTrustPolicy lib kl (snapshot_policy s) of
          Inl _ \<Rightarrow> Some ErrInvalidSignatureTrustPolicy
        | Inr item \<Rightarrow> if tp_PublicKeyFingerprint item \<noteq> sts_PublicKeyFingerprint s
            then Some ErrInvalidSignatureTrustPolicy else None))"

section \<open>Signing\<close>

datatype SigningKeyProvider =
  SigningKeyAWSKMS | SigningKeyGCPKMS | SigningKeyAzureKMS | SigningKeyVault | SigningKeyKubernetes
| SigningKeyOther string

fun SigningKeyProvider_Valid :: "SigningKeyProvider \<Rightarrow> bool" where
  "SigningKeyProvider_Valid (SigningKeyOther _) = False"
| "SigningKeyProvider_Valid _ = True"

definition signing_provider :: "string \<Rightarrow> SigningKeyProvider option" where
  "signing_provider scheme =
     map_of [(''awskms'', SigningKeyAWSKMS), (''gcpkms'', SigningKeyGCPKMS), (''azurekms'', SigningKeyAzureKMS),
       (''hashivault'', SigningKeyVault), (''k8s'', SigningKeyKubernetes)] scheme"

definition ParseSigningKeyReference :: "supply_library \<Rightarrow> string \<Rightarrow> supply_error + SigningKeyProvider" where
  "ParseSigningKeyReference lib value0 =
     (let value = trim_space value0
      in if value = [] \<or> 2048 < length value \<or>
            list_ex (\<lambda>c. c \<in> set [CHR 0x0D, CHR 0x0A, CHR 0x00]) value then Inl ErrInvalidSigningKey
         else (case sl_url lib value of
             None \<Rightarrow> Inl ErrInvalidSigningKey
           | Some u \<Rightarrow>
               if url_HasUser u \<or> url_RawQuery u \<noteq> [] \<or> url_Fragment u \<noteq> [] \<or> url_Scheme u = [] \<or>
                  (url_Host u = [] \<and> url_Opaque u = [] \<and> url_Path u = []) then Inl ErrInvalidSigningKey
               else (case signing_provider (sl_lower lib (url_Scheme u)) of
                   None \<Rightarrow> Inl ErrInvalidSigningKey
                 | Some provider \<Rightarrow> Inr provider)))"

definition SigningKeyReferenceFingerprint :: "string \<Rightarrow> string" where
  "SigningKeyReferenceFingerprint value = ''sha256:'' @ sha256_hex (trim_space value)"

record SignatureSigningProfile =
  sp_ID :: string
  sp_OrganizationID :: string
  sp_ProjectID :: string
  sp_Name :: string
  sp_Provider :: SigningKeyProvider
  sp_KeyReference :: string
  sp_KeyReferenceFingerprint :: string
  sp_TrustPolicyID :: string
  sp_Enabled :: bool
  sp_Version :: u64
  sp_CreatedAt :: time
  sp_UpdatedAt :: time

text \<open>The input is a profile without provider and fingerprint, which the constructor computes.\<close>

definition NewSignatureSigningProfile ::
  "supply_library \<Rightarrow> SignatureSigningProfile \<Rightarrow> supply_error + SignatureSigningProfile" where
  "NewSignatureSigningProfile lib input =
     (case ParseSigningKeyReference lib (sp_KeyReference input) of
        Inl _ \<Rightarrow> Inl ErrInvalidSigningProfile
      | Inr provider \<Rightarrow>
          (let item = \<lparr>sp_ID = trim_space (sp_ID input), sp_OrganizationID = trim_space (sp_OrganizationID input),
             sp_ProjectID = trim_space (sp_ProjectID input), sp_Name = trim_space (sp_Name input),
             sp_Provider = provider, sp_KeyReference = trim_space (sp_KeyReference input),
             sp_KeyReferenceFingerprint = SigningKeyReferenceFingerprint (sp_KeyReference input),
             sp_TrustPolicyID = trim_space (sp_TrustPolicyID input), sp_Enabled = sp_Enabled input,
             sp_Version = sp_Version input, sp_CreatedAt = utc (sp_CreatedAt input),
             sp_UpdatedAt = utc (sp_UpdatedAt input)\<rparr>
           in if \<not> supply_validID (sp_ID item) \<or> \<not> supply_validID (sp_OrganizationID item) \<or>
                 \<not> supply_validID (sp_ProjectID item) \<or> \<not> validText (sp_Name item) 100 \<or>
                 \<not> supply_validID (sp_TrustPolicyID item) \<or> sp_Version item = 0 \<or>
                 is_zero (sp_CreatedAt item) \<or> is_zero (sp_UpdatedAt item) \<or>
                 sp_UpdatedAt item < sp_CreatedAt item
              then Inl ErrInvalidSigningProfile else Inr item))"

record SignatureSigningSnapshot =
  sss_ProfileID :: string
  sss_ProfileVersion :: u64
  sss_Provider :: SigningKeyProvider
  sss_KeyReference :: string
  sss_KeyReferenceFingerprint :: string
  sss_TrustPolicyID :: string

definition empty_signing_snapshot :: SignatureSigningSnapshot where
  "empty_signing_snapshot = \<lparr>sss_ProfileID = [], sss_ProfileVersion = 0, sss_Provider = SigningKeyOther [],
     sss_KeyReference = [], sss_KeyReferenceFingerprint = [], sss_TrustPolicyID = []\<rparr>"

definition SigningSnapshot_Validate :: "supply_library \<Rightarrow> SignatureSigningSnapshot \<Rightarrow> supply_error option" where
  "SigningSnapshot_Validate lib s =
     (case ParseSigningKeyReference lib (sss_KeyReference s) of
        Inl _ \<Rightarrow> Some ErrInvalidSigningProfile
      | Inr provider \<Rightarrow>
          if \<not> supply_validID (sss_ProfileID s) \<or> sss_ProfileVersion s = 0 \<or> provider \<noteq> sss_Provider s \<or>
             SigningKeyReferenceFingerprint (sss_KeyReference s) \<noteq> sss_KeyReferenceFingerprint s \<or>
             \<not> supply_validID (sss_TrustPolicyID s)
          then Some ErrInvalidSigningProfile else None)"

definition SigningProfile_Snapshot ::
  "supply_library \<Rightarrow> SignatureSigningProfile \<Rightarrow> supply_error + SignatureSigningSnapshot" where
  "SigningProfile_Snapshot lib p =
     (case NewSignatureSigningProfile lib p of
        Inl _ \<Rightarrow> Inl ErrInvalidSigningProfile
      | Inr item \<Rightarrow>
          if \<not> sp_Enabled item then Inl ErrInvalidSigningProfile
          else Inr \<lparr>sss_ProfileID = sp_ID item, sss_ProfileVersion = sp_Version item,
            sss_Provider = sp_Provider item, sss_KeyReference = sp_KeyReference item,
            sss_KeyReferenceFingerprint = sp_KeyReferenceFingerprint item,
            sss_TrustPolicyID = sp_TrustPolicyID item\<rparr>)"

section \<open>Verifications\<close>

record EvidenceVerification =
  ev_ver_ID :: string
  ev_ver_OrganizationID :: string
  ev_ver_ProjectID :: string
  ev_ver_ArtifactID :: string
  ev_ver_SubjectDigest :: string
  ev_ver_PolicyID :: string
  ev_ver_PolicyVersion :: u64
  ev_ver_SigningProfileID :: string
  ev_ver_SigningProfileVersion :: u64
  ev_ver_SigningKeyProvider :: SigningKeyProvider
  ev_ver_SigningKeyFingerprint :: string
  ev_ver_TrustMode :: SignatureTrustMode
  ev_ver_TrustRootHash :: string
  ev_ver_SignerIdentity :: string
  ev_ver_OIDCIssuer :: string
  ev_ver_BundleSetDigest :: string
  ev_ver_Verifier :: string
  ev_ver_VerifierVersion :: string
  ev_ver_VerificationStatus :: VerificationStatus
  ev_ver_CreatedAt :: time

definition signing_empty :: "EvidenceVerification \<Rightarrow> bool" where
  "signing_empty v \<longleftrightarrow> ev_ver_SigningProfileID v = [] \<and> ev_ver_SigningProfileVersion v = 0 \<and>
     ev_ver_SigningKeyProvider v = SigningKeyOther [] \<and> ev_ver_SigningKeyFingerprint v = []"

definition signing_complete :: "supply_library \<Rightarrow> EvidenceVerification \<Rightarrow> bool" where
  "signing_complete lib v \<longleftrightarrow> supply_validID (ev_ver_SigningProfileID v) \<and> ev_ver_SigningProfileVersion v > 0 \<and>
     SigningKeyProvider_Valid (ev_ver_SigningKeyProvider v) \<and> validDigest lib (ev_ver_SigningKeyFingerprint v)"

definition identity_valid :: "supply_library \<Rightarrow> EvidenceVerification \<Rightarrow> bool" where
  "identity_valid lib v \<longleftrightarrow>
     (ev_ver_TrustMode v = SignatureTrustPublicKey \<and> ev_ver_SignerIdentity v = [] \<and> ev_ver_OIDCIssuer v = []) \<or>
     (ev_ver_TrustMode v = SignatureTrustKeyless \<and> validText (ev_ver_SignerIdentity v) 1024 \<and>
      validText (ev_ver_OIDCIssuer v) 2048 \<and> issuer_ok lib (ev_ver_OIDCIssuer v))"

definition NewEvidenceVerification ::
  "supply_library \<Rightarrow> EvidenceVerification \<Rightarrow> supply_error + EvidenceVerification" where
  "NewEvidenceVerification lib input =
     (let v = input\<lparr>ev_ver_ID := trim_space (ev_ver_ID input),
        ev_ver_OrganizationID := trim_space (ev_ver_OrganizationID input),
        ev_ver_ProjectID := trim_space (ev_ver_ProjectID input),
        ev_ver_ArtifactID := trim_space (ev_ver_ArtifactID input),
        ev_ver_SubjectDigest := trim_space (ev_ver_SubjectDigest input),
        ev_ver_PolicyID := trim_space (ev_ver_PolicyID input),
        ev_ver_TrustRootHash := trim_space (ev_ver_TrustRootHash input),
        ev_ver_SignerIdentity := trim_space (ev_ver_SignerIdentity input),
        ev_ver_OIDCIssuer := trim_space (ev_ver_OIDCIssuer input),
        ev_ver_BundleSetDigest := trim_space (ev_ver_BundleSetDigest input),
        ev_ver_Verifier := trim_space (ev_ver_Verifier input),
        ev_ver_VerifierVersion := trim_space (ev_ver_VerifierVersion input)\<rparr>
      in if \<not> supply_validID (ev_ver_ID v) \<or> \<not> supply_validID (ev_ver_OrganizationID v) \<or>
            \<not> supply_validID (ev_ver_ProjectID v) \<or> \<not> supply_validID (ev_ver_ArtifactID v) \<or>
            \<not> validDigest lib (ev_ver_SubjectDigest v) \<or> \<not> supply_validID (ev_ver_PolicyID v) \<or>
            ev_ver_PolicyVersion v = 0 \<or> \<not> TrustMode_Valid (ev_ver_TrustMode v) \<or>
            \<not> validDigest lib (ev_ver_TrustRootHash v) \<or> \<not> validDigest lib (ev_ver_BundleSetDigest v) \<or>
            ev_ver_Verifier v \<noteq> ''cosign'' \<or> ev_ver_VerifierVersion v \<noteq> ''3.0.6'' \<or>
            ev_ver_VerificationStatus v \<noteq> VerificationVerified \<or> \<not> identity_valid lib v \<or>
            \<not> (signing_empty v \<or> signing_complete lib v) \<or> is_zero (ev_ver_CreatedAt v)
         then Inl ErrSignatureVerification else Inr v)"

section \<open>Snapshots of stored policies are valid\<close>

text \<open>What the code relies on of the encodings: what is encoded canonically parses back to the same key.\<close>

definition keys_reparse :: "key_library \<Rightarrow> bool" where
  "keys_reparse kl \<longleftrightarrow> (\<forall>bytes key canonical. kl_parse kl bytes = Some key \<longrightarrow> kl_marshal kl bytes = Some canonical \<longrightarrow>
     kl_pem_decode kl (kl_pem_encode kl canonical) = Some (''PUBLIC KEY'', canonical, []) \<and>
     kl_parse kl canonical = Some key \<and> kl_marshal kl canonical = Some canonical)"

lemma NormalizeSignaturePublicKey_idem:
  assumes "keys_reparse kl" "NormalizeSignaturePublicKey kl pem = Inr (canonical, fingerprint)"
  shows "NormalizeSignaturePublicKey kl canonical = Inr (canonical, fingerprint)"
proof -
  from assms(2) obtain bytes key der where k: "kl_parse kl bytes = Some key" "supportedSignaturePublicKey key"
    "kl_marshal kl bytes = Some der" "canonical = kl_pem_encode kl der" "fingerprint = ''sha256:'' @ sha256_hex der"
    unfolding NormalizeSignaturePublicKey_def by (simp split: option.split_asm if_split_asm prod.split_asm)
  with assms(1) have "kl_pem_decode kl canonical = Some (''PUBLIC KEY'', der, [])" "kl_parse kl der = Some key"
    "kl_marshal kl der = Some der" unfolding keys_reparse_def by blast+
  with k show ?thesis by (simp add: NormalizeSignaturePublicKey_def)
qed

lemma trust_material_again:
  assumes "keys_reparse kl" "trust_material lib kl pem item = Inr n"
    and that: "tp_PublicKeyPEM item = []"
  shows "trust_material lib kl (tp_PublicKeyPEM n) (item'\<lparr>tp_Mode := tp_Mode n,
      tp_TrustedRootID := tp_TrustedRootID n, tp_TrustedRootHash := tp_TrustedRootHash n,
      tp_CertificateIdentity := tp_CertificateIdentity n, tp_OIDCIssuer := tp_OIDCIssuer n\<rparr>) =
    Inr (item'\<lparr>tp_Mode := tp_Mode n, tp_TrustedRootID := tp_TrustedRootID n,
      tp_TrustedRootHash := tp_TrustedRootHash n, tp_CertificateIdentity := tp_CertificateIdentity n,
      tp_OIDCIssuer := tp_OIDCIssuer n,
      tp_PublicKeyPEM := (if tp_Mode n = SignatureTrustPublicKey then tp_PublicKeyPEM n else tp_PublicKeyPEM item'),
      tp_PublicKeyFingerprint := (if tp_Mode n = SignatureTrustPublicKey then tp_PublicKeyFingerprint n
        else tp_PublicKeyFingerprint item')\<rparr>)"
proof (cases "tp_Mode item")
  case SignatureTrustPublicKey
  with assms(2) obtain canonical fingerprint where
    k: "NormalizeSignaturePublicKey kl pem = Inr (canonical, fingerprint)"
    and n: "n = item\<lparr>tp_PublicKeyPEM := canonical, tp_PublicKeyFingerprint := fingerprint\<rparr>"
      "tp_TrustedRootID item = [] \<and> tp_TrustedRootHash item = [] \<and> tp_CertificateIdentity item = [] \<and>
       tp_OIDCIssuer item = []"
    by (auto simp: trust_material_def split: sum.splits if_splits)
  from NormalizeSignaturePublicKey_idem[OF assms(1) k] n SignatureTrustPublicKey show ?thesis
    by (simp add: trust_material_def)
next
  case SignatureTrustKeyless
  with assms(2) that show ?thesis
    by (simp add: trust_material_def split: if_split_asm option.split_asm)
next
  case (TrustModeOther x)
  with assms(2) show ?thesis by (simp add: trust_material_def)
qed

text \<open>A scheduled verification carries a snapshot that is valid when the worker checks it.\<close>

lemma TrustPolicy_Snapshot_valid:
  assumes "keys_reparse kl" "TrustPolicy_Snapshot lib kl p = Inr s"
  shows "TrustSnapshot_Validate lib kl s = None"
proof -
  from assms(2) obtain n where n: "NewSignatureTrustPolicy lib kl p = Inr n"
    and s: "s = \<lparr>sts_PolicyID = tp_ID n, sts_PolicyVersion = tp_Version n, sts_Mode = tp_Mode n,
            sts_PublicKeyPEM = tp_PublicKeyPEM n, sts_PublicKeyFingerprint = tp_PublicKeyFingerprint n,
            sts_TrustedRootID = tp_TrustedRootID n, sts_TrustedRootHash = tp_TrustedRootHash n,
            sts_CertificateIdentity = tp_CertificateIdentity n, sts_OIDCIssuer = tp_OIDCIssuer n\<rparr>"
    by (auto simp: TrustPolicy_Snapshot_def split: sum.splits if_splits)
  from n obtain item where item: "trust_material lib kl (tp_PublicKeyPEM p) item = Inr n" "tp_PublicKeyPEM item = []"
    and valid: "supply_validID (tp_ID n)" "tp_Version n \<noteq> 0"
    and trimmed: "trim_space (tp_TrustedRootID item) = tp_TrustedRootID item"
      "trim_space (tp_TrustedRootHash item) = tp_TrustedRootHash item"
      "trim_space (tp_CertificateIdentity item) = tp_CertificateIdentity item"
      "trim_space (tp_OIDCIssuer item) = tp_OIDCIssuer item" "tp_PublicKeyFingerprint item = []"
    unfolding NewSignatureTrustPolicy_def bind_result_eq_Inr by (auto split: if_split_asm)
  have same: "tp_TrustedRootID n = tp_TrustedRootID item" "tp_TrustedRootHash n = tp_TrustedRootHash item"
    "tp_CertificateIdentity n = tp_CertificateIdentity item" "tp_OIDCIssuer n = tp_OIDCIssuer item"
    "tp_Mode n \<noteq> SignatureTrustPublicKey \<Longrightarrow> tp_PublicKeyFingerprint n = []"
    using item trimmed(5)
    by (auto simp: trust_material_def split: SignatureTrustMode.splits sum.splits if_splits option.splits)
  note again = trust_material_again[OF assms(1) item]
  define q where "q = \<lparr>tp_ID = trim_space (tp_ID n), tp_OrganizationID = ''snapshot-organization'',
     tp_ProjectID = ''snapshot-project'', tp_Name = ''snapshot'', tp_Mode = tp_Mode n, tp_PublicKeyPEM = [],
     tp_PublicKeyFingerprint = [], tp_TrustedRootID = tp_TrustedRootID n, tp_TrustedRootHash = tp_TrustedRootHash n,
     tp_CertificateIdentity = tp_CertificateIdentity n, tp_OIDCIssuer = tp_OIDCIssuer n, tp_Enabled = True,
     tp_Version = tp_Version n, tp_CreatedAt = unix_one, tp_UpdatedAt = unix_one\<rparr>"
  have fixed: "trim_space ''snapshot-organization'' = ''snapshot-organization''"
    "trim_space ''snapshot-project'' = ''snapshot-project''" "trim_space ''snapshot'' = ''snapshot''"
    "supply_validID ''snapshot-organization''" "supply_validID ''snapshot-project''" "validText ''snapshot'' 100"
    by code_simp+
  have "trust_material lib kl (tp_PublicKeyPEM n) q = Inr (q\<lparr>
      tp_PublicKeyPEM := (if tp_Mode n = SignatureTrustPublicKey then tp_PublicKeyPEM n else []),
      tp_PublicKeyFingerprint := (if tp_Mode n = SignatureTrustPublicKey then tp_PublicKeyFingerprint n else [])\<rparr>)"
    using again[of q] by (simp add: q_def)
  then have "NewSignatureTrustPolicy lib kl (snapshot_policy s) = Inr (q\<lparr>
      tp_PublicKeyPEM := (if tp_Mode n = SignatureTrustPublicKey then tp_PublicKeyPEM n else []),
      tp_PublicKeyFingerprint := (if tp_Mode n = SignatureTrustPublicKey then tp_PublicKeyFingerprint n else [])\<rparr>)"
    using valid trimmed same fixed
    by (simp add: NewSignatureTrustPolicy_def snapshot_policy_def s q_def unix_one_def supply_validID_def)
  then show ?thesis using valid same(5) by (simp add: TrustSnapshot_Validate_def s)
qed

end
