(* ===== verification/DeploymentAdmission.thy ===== *)
theory DeploymentAdmission
  imports SupplyPolicy SupplyTrust Admission "HOL-Library.AList"
begin

text \<open>
  The admission evaluator of deployments
  (\<open>internal/modules/supplychain/data/deployment_admission.go\<close>): which policies apply in an
  environment, the evidence, signatures and vulnerabilities of the artifact against their requirements, and the
  sealed decision. The repositories it reads are arguments of the model, \<open>None\<close> for an error.
\<close>

record admission_sources =
  as_stage :: "string \<Rightarrow> string \<Rightarrow> string option"
  as_release_artifact :: "string \<Rightarrow> string \<Rightarrow> string \<Rightarrow> string option"
  as_artifact :: "string \<Rightarrow> string \<Rightarrow> string \<Rightarrow> ArtifactSubject option"
  as_policies :: "string \<Rightarrow> string \<Rightarrow> DeploymentPolicy list option"
  as_evidence :: "string \<Rightarrow> string \<Rightarrow> Evidence list option"
  as_content :: "ArtifactSubject \<Rightarrow> Evidence \<Rightarrow> EvidenceContent option"
  as_verifications :: "string \<Rightarrow> string \<Rightarrow> EvidenceVerification list option"
  as_trust_policy :: "string \<Rightarrow> string \<Rightarrow> SignatureTrustPolicy option"
  as_observation :: "string \<Rightarrow> string \<Rightarrow> VulnerabilityObservation option"
  as_waivers :: "string \<Rightarrow> string \<Rightarrow> string \<Rightarrow> string \<Rightarrow> time \<Rightarrow> VulnerabilityWaiver list option"
  as_decode :: "string \<Rightarrow> TrivyReport option"
  as_library :: supply_library
  as_json :: admission_json
  as_now :: time

section \<open>Policies in effect\<close>

text \<open>Go's division of a duration truncates.\<close>

definition whole_seconds :: "int \<Rightarrow> int" where
  "whole_seconds d = sgn d * (\<bar>d\<bar> div second)"

definition deploymentPolicyAdmissionSnapshot ::
  "DeploymentPolicy \<Rightarrow> DeploymentPolicyMode \<Rightarrow> AdmissionPolicySnapshot" where
  "deploymentPolicyAdmissionSnapshot p mode =
     (let r = dp_Requirements p in
      \<lparr>policy_ID = dp_ID p, policy_Version = dp_Version p, policy_Scope = policy_scope_text (dp_Scope p),
        policy_EnvironmentID = dp_EnvironmentID p, policy_Mode = policy_mode_text mode,
        policy_Requirements = \<lparr>RequireSBOM = dpr_RequireSBOM r, RequireProvenance = dpr_RequireProvenance r,
          AllowedSignaturePolicyIDs = dpr_AllowedSignaturePolicyIDs r,
          MaximumVulnerabilitySeverity = severity_text (dpr_MaximumVulnerabilitySeverity r),
          MaximumScanAgeSeconds = whole_seconds (dpr_MaximumScanAge r)\<rparr>\<rparr>)"

definition skipped_policy :: "AdmissionRequest \<Rightarrow> DeploymentPolicy \<Rightarrow> bool" where
  "skipped_policy req p \<longleftrightarrow> \<not> dp_Enabled p \<or>
     (dp_Scope p = PolicyScopeEnvironment \<and> dp_EnvironmentID p \<noteq> req_EnvironmentID req)"

text \<open>The policies in effect with their modes; \<open>None\<close> where the evaluation is abandoned.\<close>

fun effective_policies ::
  "AdmissionRequest \<Rightarrow> string \<Rightarrow> DeploymentPolicy list \<Rightarrow> (DeploymentPolicy \<times> DeploymentPolicyMode) list option" where
  "effective_policies req stage [] = Some []"
| "effective_policies req stage (p # ps) =
     (if skipped_policy req p then effective_policies req stage ps
      else (case EffectiveMode p stage of
          Inl _ \<Rightarrow> None
        | Inr None \<Rightarrow> None
        | Inr (Some mode) \<Rightarrow> map_option (\<lambda>rest. (p, mode) # rest) (effective_policies req stage ps)))"

text \<open>A Go map from policy ids to modes: a later entry replaces an earlier one.\<close>

definition effective_modes :: "(DeploymentPolicy \<times> DeploymentPolicyMode) list \<Rightarrow> string \<Rightarrow> DeploymentPolicyMode option" where
  "effective_modes eff = map_of (rev (map (\<lambda>(p, mode). (dp_ID p, mode)) eff))"

section \<open>Capturing evidence\<close>

record capture =
  cap_snapshot :: AdmissionSnapshot
  cap_evidence :: "string set"
  cap_verifications :: "string set"

definition add_violation :: "string \<Rightarrow> AdmissionViolationCode \<Rightarrow> AdmissionSnapshot \<Rightarrow> AdmissionSnapshot" where
  "add_violation policyID code s =
     s\<lparr>Violations := Violations s @ [\<lparr>violation_PolicyID = policyID, violation_Code = code\<rparr>]\<rparr>"

definition captureEvidence :: "Evidence \<Rightarrow> string \<Rightarrow> capture \<Rightarrow> capture" where
  "captureEvidence item contentDigest c =
     (if evd_ID item \<in> cap_evidence c then c
      else c\<lparr>cap_evidence := insert (evd_ID item) (cap_evidence c),
        cap_snapshot := (cap_snapshot c)\<lparr>EvidenceItems := EvidenceItems (cap_snapshot c) @
          [\<lparr>evidence_ID = evd_ID item, evidence_Kind = evidence_kind_text (evd_Kind item),
            evidence_DescriptorDigest = evd_DescriptorDigest item, evidence_ContentDigest = contentDigest\<rparr>]\<rparr>\<rparr>)"

definition of_kind :: "ArtifactSubject \<Rightarrow> EvidenceKind \<Rightarrow> Evidence \<Rightarrow> bool" where
  "of_kind subject kind item \<longleftrightarrow>
     \<not> (evd_Kind item \<noteq> kind \<or> evd_ArtifactID item \<noteq> sub_ID subject \<or>
        evd_SubjectDigest item \<noteq> sub_SubjectDigest subject)"

text \<open>The first readable item, and whether one before it could not be read.\<close>

fun first_readable ::
  "(Evidence \<Rightarrow> bool) \<Rightarrow> (Evidence \<Rightarrow> EvidenceContent option) \<Rightarrow> bool \<Rightarrow> Evidence list \<Rightarrow>
     (Evidence \<times> EvidenceContent) option \<times> bool" where
  "first_readable match read unavailable [] = (None, unavailable)"
| "first_readable match read unavailable (item # items) =
     (if \<not> match item then first_readable match read unavailable items
      else (case read item of
          None \<Rightarrow> first_readable match read True items
        | Some content \<Rightarrow> (Some (item, content), unavailable)))"

definition captureKind ::
  "admission_sources \<Rightarrow> ArtifactSubject \<Rightarrow> Evidence list \<Rightarrow> EvidenceKind \<Rightarrow> capture \<Rightarrow> (bool \<times> bool) \<times> capture" where
  "captureKind src subject items kind c =
     (case first_readable (of_kind subject kind) (as_content src subject) False (rev items) of
        (None, unavailable) \<Rightarrow> ((False, unavailable), c)
      | (Some (item, content), unavailable) \<Rightarrow>
          ((True, unavailable), captureEvidence item (ec_Digest content) c))"

definition verifies :: "ArtifactSubject \<Rightarrow> SignatureTrustPolicy \<Rightarrow> EvidenceVerification \<Rightarrow> bool" where
  "verifies subject policy v \<longleftrightarrow>
     \<not> (ev_ver_ArtifactID v \<noteq> sub_ID subject \<or> ev_ver_SubjectDigest v \<noteq> sub_SubjectDigest subject \<or>
        ev_ver_PolicyID v \<noteq> tp_ID policy \<or> ev_ver_PolicyVersion v \<noteq> tp_Version policy \<or>
        ev_ver_VerificationStatus v \<noteq> VerificationVerified)"

definition captureVerification :: "EvidenceVerification \<Rightarrow> capture \<Rightarrow> capture" where
  "captureVerification v c =
     (if ev_ver_ID v \<in> cap_verifications c then c
      else c\<lparr>cap_verifications := insert (ev_ver_ID v) (cap_verifications c),
        cap_snapshot := (cap_snapshot c)\<lparr>Verifications := Verifications (cap_snapshot c) @
          [\<lparr>verification_ID = ev_ver_ID v, verification_TrustPolicyID = ev_ver_PolicyID v,
            verification_TrustPolicyVersion = ev_ver_PolicyVersion v,
            verification_BundleSetDigest = ev_ver_BundleSetDigest v\<rparr>]\<rparr>\<rparr>)"

fun signature_scan ::
  "admission_sources \<Rightarrow> ArtifactSubject \<Rightarrow> string \<Rightarrow> EvidenceVerification list \<Rightarrow> string list \<Rightarrow>
     EvidenceVerification option" where
  "signature_scan src subject organizationID verifications [] = None"
| "signature_scan src subject organizationID verifications (policyID # ids) =
     (case as_trust_policy src (sub_ProjectID subject) policyID of
        None \<Rightarrow> signature_scan src subject organizationID verifications ids
      | Some policy \<Rightarrow>
          if \<not> tp_Enabled policy \<or> tp_OrganizationID policy \<noteq> organizationID
          then signature_scan src subject organizationID verifications ids
          else (case find (verifies subject policy) (rev verifications) of
              None \<Rightarrow> signature_scan src subject organizationID verifications ids
            | Some v \<Rightarrow> Some v))"

definition captureSignature ::
  "admission_sources \<Rightarrow> ArtifactSubject \<Rightarrow> string \<Rightarrow> string list \<Rightarrow> capture \<Rightarrow> bool \<times> capture" where
  "captureSignature src subject organizationID allowedPolicyIDs c =
     (case as_verifications src (sub_ProjectID subject) (sub_ID subject) of
        None \<Rightarrow> (False, c)
      | Some verifications \<Rightarrow>
          (case signature_scan src subject organizationID verifications allowedPolicyIDs of
             None \<Rightarrow> (False, c)
           | Some v \<Rightarrow> (True, captureVerification v c)))"

section \<open>Vulnerabilities\<close>

definition incrementVulnerabilityCounts :: "supply_library \<Rightarrow> TrivyFinding \<Rightarrow> VulnerabilityCounts \<Rightarrow> VulnerabilityCounts" where
  "incrementVulnerabilityCounts lib f counts =
     count_total (fixable f)
       (case count_severity (sl_upper lib (tf_Severity f)) counts of None \<Rightarrow> counts | Some d \<Rightarrow> d)"

definition admissionCounts :: "VulnerabilityCounts \<Rightarrow> AdmissionVulnerabilityCounts" where
  "admissionCounts c = \<lparr>count_Unknown = vc_Unknown c, count_Low = vc_Low c, count_Medium = vc_Medium c,
     count_High = vc_High c, count_Critical = vc_Critical c, count_Total = vc_Total c\<rparr>"

text \<open>A Go map answers zero for a severity it does not have.\<close>

fun severity_rank :: "VulnerabilitySeverity \<Rightarrow> nat" where
  "severity_rank SeverityNone = 0"
| "severity_rank SeverityLow = 1"
| "severity_rank SeverityMedium = 2"
| "severity_rank SeverityHigh = 3"
| "severity_rank SeverityCritical = 4"
| "severity_rank SeverityUnknown = 5"
| "severity_rank (SeverityOther _) = 0"

definition vulnerabilitySeverityExceeds :: "VulnerabilitySeverity \<Rightarrow> VulnerabilitySeverity \<Rightarrow> bool" where
  "vulnerabilitySeverityExceeds actual maximum \<longleftrightarrow> severity_rank actual > severity_rank maximum"

text \<open>The severity of a text: the conversion of a string to the type.\<close>

definition severity_of :: "string \<Rightarrow> VulnerabilitySeverity" where
  "severity_of s =
     (case find (\<lambda>v. severity_text v = s)
        [SeverityNone, SeverityUnknown, SeverityLow, SeverityMedium, SeverityHigh, SeverityCritical] of
        Some v \<Rightarrow> v | None \<Rightarrow> SeverityOther s)"

definition gated :: "AdmissionPolicySnapshot \<Rightarrow> bool" where
  "gated p \<longleftrightarrow> MaximumVulnerabilitySeverity (policy_Requirements p) \<noteq> []"

definition addVulnerabilityViolation :: "AdmissionViolationCode \<Rightarrow> AdmissionSnapshot \<Rightarrow> AdmissionSnapshot" where
  "addVulnerabilityViolation code s =
     foldl (\<lambda>t p. if gated p then add_violation (policy_ID p) code t else t) s (Policies s)"

text \<open>The last waiver of a finding wins; the waivers applied are kept by their ids.\<close>

definition waiver_by_finding :: "VulnerabilityWaiver list \<Rightarrow> string \<Rightarrow> VulnerabilityWaiver option" where
  "waiver_by_finding waivers = map_of (rev (map (\<lambda>w. (vw_VulnerabilityID w, w)) waivers))"

definition waiver_of :: "supply_library \<Rightarrow> VulnerabilityWaiver list \<Rightarrow> TrivyFinding \<Rightarrow> VulnerabilityWaiver option" where
  "waiver_of lib waivers f = waiver_by_finding waivers (sl_upper lib (tf_VulnerabilityID f))"

definition apply_finding ::
  "supply_library \<Rightarrow> VulnerabilityWaiver list \<Rightarrow> VulnerabilityCounts \<times> (string \<times> VulnerabilityWaiver) list \<Rightarrow>
     TrivyFinding \<Rightarrow> VulnerabilityCounts \<times> (string \<times> VulnerabilityWaiver) list" where
  "apply_finding lib waivers acc f =
     (case waiver_of lib waivers f of
        Some w \<Rightarrow> (fst acc, AList.update (vw_ID w) w (snd acc))
      | None \<Rightarrow> (incrementVulnerabilityCounts lib f (fst acc), snd acc))"

definition waiver_snapshot :: "VulnerabilityWaiver \<Rightarrow> AdmissionWaiverSnapshot" where
  "waiver_snapshot w = \<lparr>waiver_ID = vw_ID w, waiver_Version = vw_Version w,
     waiver_Scope = waiver_scope_text (vw_Scope w), waiver_VulnerabilityID = vw_VulnerabilityID w,
     waiver_ExpiresAt = vw_ExpiresAt w\<rparr>"

definition vulnerability_snapshot ::
  "VulnerabilityObservation \<Rightarrow> Evidence \<Rightarrow> string \<Rightarrow> VulnerabilityCounts \<Rightarrow> AdmissionVulnerabilitySnapshot" where
  "vulnerability_snapshot ob evidence contentDigest remaining =
     \<lparr>vuln_ObservationID = vo_ID ob, vuln_EvidenceID = evd_ID evidence,
       vuln_DescriptorDigest = evd_DescriptorDigest evidence, vuln_ContentDigest = contentDigest,
       vuln_Scanner = vo_Scanner ob, vuln_ScannerVersion = vo_ScannerVersion ob,
       vuln_DatabaseVersion = vdb_SchemaVersion (vo_Database ob),
       vuln_DatabaseUpdatedAt = vdb_UpdatedAt (vo_Database ob), vuln_ScannedAt = vo_ScannedAt ob,
       vuln_FreshUntil = vo_FreshUntil ob, vuln_OriginalCounts = admissionCounts (vo_Counts ob),
       vuln_RemainingCounts = admissionCounts remaining,
       vuln_HighestRemaining = severity_text (HighestSeverity remaining)\<rparr>"

definition scan_deadline :: "VulnerabilityObservation \<Rightarrow> AdmissionPolicySnapshot \<Rightarrow> time" where
  "scan_deadline ob p =
     (let deadline = vo_ScannedAt ob + MaximumScanAgeSeconds (policy_Requirements p) * second
      in if vo_FreshUntil ob < deadline then vo_FreshUntil ob else deadline)"

text \<open>The violation a gated policy finds in the remaining counts, if any.\<close>

definition vulnerability_verdict ::
  "VulnerabilityObservation \<Rightarrow> VulnerabilityCounts \<Rightarrow> time \<Rightarrow> AdmissionPolicySnapshot \<Rightarrow> AdmissionViolationCode option" where
  "vulnerability_verdict ob remaining now p =
     (if \<not> gated p then None
      else if \<not> now < scan_deadline ob p then Some AdmissionVulnerabilityStale
      else if vc_Unknown remaining > 0 then Some AdmissionVulnerabilityUnknown
      else if vulnerabilitySeverityExceeds (HighestSeverity remaining)
        (severity_of (MaximumVulnerabilitySeverity (policy_Requirements p)))
      then Some AdmissionVulnerabilityLimitExceeded
      else None)"

definition add_verdict :: "(AdmissionPolicySnapshot \<Rightarrow> AdmissionViolationCode option) \<Rightarrow> AdmissionPolicySnapshot \<Rightarrow>
     AdmissionSnapshot \<Rightarrow> AdmissionSnapshot" where
  "add_verdict verdict p s = (case verdict p of None \<Rightarrow> s | Some code \<Rightarrow> add_violation (policy_ID p) code s)"

definition report_evidence :: "ArtifactSubject \<Rightarrow> VulnerabilityObservation \<Rightarrow> Evidence \<Rightarrow> bool" where
  "report_evidence subject ob candidate \<longleftrightarrow>
     evd_ID candidate = vo_EvidenceID ob \<and> evd_Kind candidate = EvidenceKindVulnerabilityReport \<and>
     evd_DescriptorDigest candidate = vo_DescriptorDigest ob \<and>
     evd_SubjectDigest candidate = sub_SubjectDigest subject"

text \<open>An evidence without id counts as none.\<close>

definition find_report :: "ArtifactSubject \<Rightarrow> VulnerabilityObservation \<Rightarrow> Evidence list \<Rightarrow> Evidence option" where
  "find_report subject ob items =
     (case find (report_evidence subject ob) items of
        None \<Rightarrow> None | Some e \<Rightarrow> if evd_ID e = [] then None else Some e)"

text \<open>The report behind an observation: its content, the decoded findings, and the waivers in force.\<close>

definition checked_report ::
  "admission_sources \<Rightarrow> ArtifactSubject \<Rightarrow> Evidence list \<Rightarrow> VulnerabilityObservation \<Rightarrow> time \<Rightarrow>
     (Evidence \<times> EvidenceContent \<times> TrivyReport) option" where
  "checked_report src subject items ob now =
     (case find_report subject ob items of
        None \<Rightarrow> None
      | Some evidence \<Rightarrow>
          (case as_content src subject evidence of
             None \<Rightarrow> None
           | Some content \<Rightarrow>
               (case parseTrivyV2Report (as_library src) (as_decode src) (ec_Content content)
                   MaximumVulnerabilityReportSize
                   (sub_RegistryRepository subject @ ''@'' @ sub_SubjectDigest subject) of
                  Inl _ \<Rightarrow> None
                | Inr (document, counts) \<Rightarrow>
                    if counts \<noteq> vo_Counts ob \<or> tr_CreatedAt document \<noteq> vo_ScannedAt ob \<or>
                       after (vo_ScannedAt ob) (now + 5 * 60 * second) then None
                    else Some (evidence, content, document))))"

definition evaluateVulnerabilities ::
  "admission_sources \<Rightarrow> AdmissionRequest \<Rightarrow> ArtifactSubject \<Rightarrow> Evidence list \<Rightarrow> time \<Rightarrow> capture \<Rightarrow> capture" where
  "evaluateVulnerabilities src req subject items now c =
     (let violation = (\<lambda>code d. d\<lparr>cap_snapshot := addVulnerabilityViolation code (cap_snapshot d)\<rparr>) in
      case as_observation src (req_ProjectID req) (sub_ID subject) of
        None \<Rightarrow> violation AdmissionVulnerabilityMissing c
      | Some ob \<Rightarrow>
          if vo_SubjectDigest ob \<noteq> sub_SubjectDigest subject then violation AdmissionVulnerabilityMissing c
          else (case checked_report src subject items ob now of
              None \<Rightarrow> violation AdmissionVulnerabilityIntegrity c
            | Some (evidence, content, document) \<Rightarrow>
                (let d = captureEvidence evidence (ec_Digest content) c in
                 case as_waivers src (req_OrganizationID req) (req_ProjectID req) (sub_ID subject)
                     (sub_SubjectDigest subject) now of
                   None \<Rightarrow> violation AdmissionVulnerabilityIntegrity d
                 | Some waivers \<Rightarrow>
                     (let (remaining, applied) = foldl (apply_finding (as_library src) waivers) (zero_counts, [])
                            (concat (tr_Results document));
                          s = cap_snapshot d;
                          t = s\<lparr>Waivers := Waivers s @ map (waiver_snapshot \<circ> snd) applied,
                                Vulnerability := Some (vulnerability_snapshot ob evidence (ec_Digest content) remaining)\<rparr>
                      in d\<lparr>cap_snapshot :=
                           foldl (\<lambda>u p. add_verdict (vulnerability_verdict ob remaining now) p u) t (Policies t)\<rparr>))))"

section \<open>The evaluation\<close>

definition sealAdmission :: "admission_sources \<Rightarrow> AdmissionSnapshot \<Rightarrow> bool \<Rightarrow> dep_error + AdmissionSnapshot" where
  "sealAdmission src s blocking =
     (let d = s\<lparr>Decision := (if blocking then AdmissionDenied
            else if Violations s \<noteq> [] then AdmissionAdmittedWithWarning else AdmissionAdmitted)\<rparr>
      in case AdmissionSnapshot_Seal (as_json src) d of
          Inl _ \<Rightarrow> Inl ErrAdmissionUnavailable
        | Inr sealed \<Rightarrow> if blocking then Inl ErrAdmissionDenied else Inr sealed)"

definition finishAdmission ::
  "admission_sources \<Rightarrow> AdmissionSnapshot \<Rightarrow> (string \<Rightarrow> DeploymentPolicyMode option) \<Rightarrow>
     dep_error + AdmissionSnapshot" where
  "finishAdmission src s modes =
     sealAdmission src s (list_ex (\<lambda>v. modes (violation_PolicyID v) = Some DeploymentPolicyEnforced) (Violations s))"

text \<open>The keys of the map in the order of the policies; \<open>Seal\<close> orders the violations.\<close>

definition addPolicyViolation ::
  "(DeploymentPolicy \<times> DeploymentPolicyMode) list \<Rightarrow> AdmissionViolationCode \<Rightarrow> AdmissionSnapshot \<Rightarrow> AdmissionSnapshot" where
  "addPolicyViolation eff code s =
     foldl (\<lambda>t i. add_violation i code t) s (remdups (map (\<lambda>(p, _). dp_ID p) eff))"

definition missing_code :: "bool \<Rightarrow> AdmissionViolationCode \<Rightarrow> AdmissionViolationCode" where
  "missing_code unavailable code = (if unavailable then AdmissionEvidenceUnavailable else code)"

definition add_to :: "string \<Rightarrow> AdmissionViolationCode \<Rightarrow> capture \<Rightarrow> capture" where
  "add_to policyID code c = c\<lparr>cap_snapshot := add_violation policyID code (cap_snapshot c)\<rparr>"

definition check_kind ::
  "admission_sources \<Rightarrow> ArtifactSubject \<Rightarrow> Evidence list \<Rightarrow> string \<Rightarrow> bool \<Rightarrow> EvidenceKind \<Rightarrow>
     AdmissionViolationCode \<Rightarrow> capture \<Rightarrow> capture" where
  "check_kind src subject items policyID required kind code c =
     (if \<not> required then c
      else (case captureKind src subject items kind c of
          ((found, unavailable), d) \<Rightarrow> if found then d else add_to policyID (missing_code unavailable code) d))"

definition check_policy ::
  "admission_sources \<Rightarrow> AdmissionRequest \<Rightarrow> ArtifactSubject \<Rightarrow> Evidence list \<Rightarrow> capture \<Rightarrow>
     AdmissionPolicySnapshot \<Rightarrow> capture" where
  "check_policy src req subject items c0 p =
     (let r = policy_Requirements p;
          c1 = check_kind src subject items (policy_ID p) (RequireSBOM r) EvidenceKindSBOM AdmissionSBOMMissing c0;
          c2 = check_kind src subject items (policy_ID p) (RequireProvenance r) EvidenceKindProvenance
            AdmissionProvenanceMissing c1
      in if AllowedSignaturePolicyIDs r = [] then c2
         else (case captureSignature src subject (req_OrganizationID req) (AllowedSignaturePolicyIDs r) c2 of
             (found, c3) \<Rightarrow> if found then c3 else add_to (policy_ID p) AdmissionSignatureMissing c3))"

definition evaluate_subject ::
  "admission_sources \<Rightarrow> AdmissionRequest \<Rightarrow> ArtifactSubject \<Rightarrow> Evidence list \<Rightarrow> time \<Rightarrow>
     AdmissionSnapshot \<Rightarrow> AdmissionSnapshot" where
  "evaluate_subject src req subject items now s =
     (let c = foldl (check_policy src req subject items)
            \<lparr>cap_snapshot = s, cap_evidence = {}, cap_verifications = {}\<rparr> (Policies s)
      in cap_snapshot (if list_ex gated (Policies s)
           then evaluateVulnerabilities src req subject items now c else c))"

definition start_snapshot :: "time \<Rightarrow> string \<Rightarrow> AdmissionSnapshot" where
  "start_snapshot now stage = empty_snapshot\<lparr>EvaluatedAt := now, EnvironmentStage := stage\<rparr>"

definition EvaluateAdmission :: "admission_sources \<Rightarrow> AdmissionRequest \<Rightarrow> dep_error + AdmissionSnapshot" where
  "EvaluateAdmission src req =
     (let now = utc (as_now src) in
      case as_stage src (req_ProjectID req) (req_EnvironmentID req) of
        None \<Rightarrow> Inl ErrAdmissionUnavailable
      | Some stage \<Rightarrow>
          if is_zero now then Inl ErrAdmissionUnavailable
          else
            (let s0 = start_snapshot now stage in
             case as_policies src (req_OrganizationID req) (req_ProjectID req) of
               None \<Rightarrow> sealAdmission src (add_violation [] AdmissionPolicyUnavailable s0) (stage \<noteq> ''development'')
             | Some policies \<Rightarrow>
                 (case effective_policies req stage policies of
                    None \<Rightarrow> Inl ErrAdmissionUnavailable
                  | Some eff \<Rightarrow>
                      (let s1 = s0\<lparr>Policies := map (\<lambda>(p, mode). deploymentPolicyAdmissionSnapshot p mode) eff\<rparr>;
                           modes = effective_modes eff;
                           artifact_missing = finishAdmission src
                             (addPolicyViolation eff AdmissionArtifactUnavailable s1) modes
                       in if eff = [] then AdmissionSnapshot_Seal (as_json src) (s1\<lparr>Decision := AdmissionNotConfigured\<rparr>)
                          else (case as_release_artifact src (req_ProjectID req) (req_ApplicationID req) (req_ReleaseID req) of
                              None \<Rightarrow> artifact_missing
                            | Some artifactID \<Rightarrow>
                                if trim_space artifactID = [] then artifact_missing
                                else (case as_artifact src (req_OrganizationID req) (req_ProjectID req) artifactID of
                                    None \<Rightarrow> artifact_missing
                                  | Some subject \<Rightarrow>
                                      (let s2 = s1\<lparr>ArtifactID := sub_ID subject,
                                             SubjectDigest := sub_SubjectDigest subject\<rparr> in
                                       case as_evidence src (req_ProjectID req) (sub_ID subject) of
                                         None \<Rightarrow> finishAdmission src
                                           (addPolicyViolation eff AdmissionEvidenceUnavailable s2) modes
                                       | Some items \<Rightarrow>
                                           finishAdmission src (evaluate_subject src req subject items now s2) modes)))))))"

end
