(* ===== verification/PolicyEnforcement.thy ===== *)
theory PolicyEnforcement
  imports DeploymentAdmission
begin

text \<open>
  What a deployment policy demands, stated without the evaluator, and that the evaluator decides by it: the
  ids of the violations it collects are exactly those of the policies in effect that are not met.
\<close>

section \<open>Requirements\<close>

definition kind_met :: "admission_sources \<Rightarrow> ArtifactSubject \<Rightarrow> Evidence list \<Rightarrow> EvidenceKind \<Rightarrow> bool" where
  "kind_met src subject items kind \<longleftrightarrow>
     (\<exists>e \<in> set items. of_kind subject kind e \<and> as_content src subject e \<noteq> None)"

definition signature_met :: "admission_sources \<Rightarrow> ArtifactSubject \<Rightarrow> string \<Rightarrow> string list \<Rightarrow> bool" where
  "signature_met src subject organizationID ids \<longleftrightarrow>
     (\<exists>vs. as_verifications src (sub_ProjectID subject) (sub_ID subject) = Some vs \<and>
        (\<exists>i \<in> set ids. \<exists>tp. as_trust_policy src (sub_ProjectID subject) i = Some tp \<and> tp_Enabled tp \<and>
           tp_OrganizationID tp = organizationID \<and> (\<exists>v \<in> set vs. verifies subject tp v)))"

definition raw_severity :: "supply_library \<Rightarrow> TrivyFinding \<Rightarrow> string" where
  "raw_severity lib f = sl_upper lib (tf_Severity f)"

text \<open>A known severity, at most the given one.\<close>

definition severity_allowed :: "VulnerabilitySeverity \<Rightarrow> string \<Rightarrow> bool" where
  "severity_allowed maximum s \<longleftrightarrow>
     (s = ''LOW'' \<and> 1 \<le> severity_rank maximum) \<or> (s = ''MEDIUM'' \<and> 2 \<le> severity_rank maximum) \<or>
     (s = ''HIGH'' \<and> 3 \<le> severity_rank maximum) \<or> (s = ''CRITICAL'' \<and> 4 \<le> severity_rank maximum)"

text \<open>
  The latest observation is of this artifact and agrees with its report, which is fresh; every finding of
  the report is waived or of an allowed severity.
\<close>

definition vulnerabilities_met ::
  "admission_sources \<Rightarrow> AdmissionRequest \<Rightarrow> ArtifactSubject \<Rightarrow> Evidence list \<Rightarrow> VulnerabilitySeverity \<Rightarrow>
     int \<Rightarrow> bool" where
  "vulnerabilities_met src req subject items maximum age \<longleftrightarrow>
     (\<exists>ob evidence content document waivers.
        as_observation src (req_ProjectID req) (sub_ID subject) = Some ob \<and>
        vo_SubjectDigest ob = sub_SubjectDigest subject \<and>
        checked_report src subject items ob (as_now src) = Some (evidence, content, document) \<and>
        as_waivers src (req_OrganizationID req) (req_ProjectID req) (sub_ID subject) (sub_SubjectDigest subject)
          (as_now src) = Some waivers \<and>
        as_now src < vo_FreshUntil ob \<and> as_now src < vo_ScannedAt ob + age * second \<and>
        (\<forall>f \<in> set (concat (tr_Results document)). waiver_of (as_library src) waivers f \<noteq> None \<or>
           severity_allowed maximum (raw_severity (as_library src) f)))"

definition requirements_met ::
  "admission_sources \<Rightarrow> AdmissionRequest \<Rightarrow> ArtifactSubject \<Rightarrow> Evidence list \<Rightarrow> DeploymentPolicyRequirements \<Rightarrow> bool" where
  "requirements_met src req subject items r \<longleftrightarrow>
     (dpr_RequireSBOM r \<longrightarrow> kind_met src subject items EvidenceKindSBOM) \<and>
     (dpr_RequireProvenance r \<longrightarrow> kind_met src subject items EvidenceKindProvenance) \<and>
     (dpr_AllowedSignaturePolicyIDs r \<noteq> [] \<longrightarrow>
        signature_met src subject (req_OrganizationID req) (dpr_AllowedSignaturePolicyIDs r)) \<and>
     (vulnerability_gate r \<longrightarrow> vulnerabilities_met src req subject items (dpr_MaximumVulnerabilitySeverity r)
        (whole_seconds (dpr_MaximumScanAge r)))"

text \<open>The artifact of the release is known, and it meets the requirements.\<close>

definition policy_met :: "admission_sources \<Rightarrow> AdmissionRequest \<Rightarrow> DeploymentPolicy \<Rightarrow> bool" where
  "policy_met src req p \<longleftrightarrow>
     (\<exists>artifactID subject items.
        as_release_artifact src (req_ProjectID req) (req_ApplicationID req) (req_ReleaseID req) = Some artifactID \<and>
        trim_space artifactID \<noteq> [] \<and>
        as_artifact src (req_OrganizationID req) (req_ProjectID req) artifactID = Some subject \<and>
        as_evidence src (req_ProjectID req) (sub_ID subject) = Some items \<and>
        requirements_met src req subject items (dp_Requirements p))"

section \<open>Scans\<close>

lemma first_readable_Some:
  "(\<exists>e \<in> set items. match e \<and> read e \<noteq> None) \<longleftrightarrow> fst (first_readable match read u items) \<noteq> None"
  by (induction items arbitrary: u) (auto split: option.splits)

lemma signature_scan_Some:
  "signature_scan src subject org vs ids \<noteq> None \<longleftrightarrow>
     (\<exists>i \<in> set ids. \<exists>tp. as_trust_policy src (sub_ProjectID subject) i = Some tp \<and> tp_Enabled tp \<and>
        tp_OrganizationID tp = org \<and> (\<exists>v \<in> set vs. verifies subject tp v))"
proof (induction ids)
  case (Cons i ids)
  show ?case
  proof (cases "as_trust_policy src (sub_ProjectID subject) i")
    case (Some tp)
    have f: "find (verifies subject tp) (rev vs) = None \<longleftrightarrow> (\<forall>v \<in> set vs. \<not> verifies subject tp v)"
      by (auto simp: find_None_iff)
    show ?thesis
    proof (cases "\<not> tp_Enabled tp \<or> tp_OrganizationID tp \<noteq> org")
      case True
      with Cons.IH Some show ?thesis by auto
    next
      case False
      with Cons.IH Some f show ?thesis by (cases "find (verifies subject tp) (rev vs)") auto
    qed
  qed (use Cons.IH in simp)
qed simp

section \<open>Violations\<close>

definition violated :: "AdmissionSnapshot \<Rightarrow> string set" where
  "violated s = violation_PolicyID ` set (Violations s)"

lemma violated_add [simp]: "violated (add_violation i code s) = insert i (violated s)"
  by (auto simp: violated_def add_violation_def)

lemma Policies_add [simp]: "Policies (add_violation i code s) = Policies s"
  by (simp add: add_violation_def)

lemma captureEvidence_frame [simp]:
  "violated (cap_snapshot (captureEvidence e d c)) = violated (cap_snapshot c)"
  "Policies (cap_snapshot (captureEvidence e d c)) = Policies (cap_snapshot c)"
  "Vulnerability (cap_snapshot (captureEvidence e d c)) = Vulnerability (cap_snapshot c)"
  by (simp_all add: captureEvidence_def violated_def)

lemma captureVerification_frame [simp]:
  "violated (cap_snapshot (captureVerification v c)) = violated (cap_snapshot c)"
  "Policies (cap_snapshot (captureVerification v c)) = Policies (cap_snapshot c)"
  by (simp_all add: captureVerification_def violated_def)

lemma add_to_frame [simp]:
  "violated (cap_snapshot (add_to i code c)) = insert i (violated (cap_snapshot c))"
  "Policies (cap_snapshot (add_to i code c)) = Policies (cap_snapshot c)"
  by (simp_all add: add_to_def)

lemma check_kind_violated:
  "violated (cap_snapshot (check_kind src subject items i required kind code c)) =
     violated (cap_snapshot c) \<union> (if required \<and> \<not> kind_met src subject items kind then {i} else {}) \<and>
   Policies (cap_snapshot (check_kind src subject items i required kind code c)) = Policies (cap_snapshot c)"
proof -
  let ?scan = "first_readable (of_kind subject kind) (as_content src subject) False (rev items)"
  have met: "kind_met src subject items kind \<longleftrightarrow> fst ?scan \<noteq> None"
    unfolding kind_met_def first_readable_Some[symmetric] by simp
  show ?thesis
    by (cases ?scan; cases "fst ?scan") (auto simp: check_kind_def captureKind_def met)
qed

definition evidence_met :: "admission_sources \<Rightarrow> AdmissionRequest \<Rightarrow> ArtifactSubject \<Rightarrow> Evidence list \<Rightarrow>
     AdmissionRequirementsSnapshot \<Rightarrow> bool" where
  "evidence_met src req subject items r \<longleftrightarrow>
     (RequireSBOM r \<longrightarrow> kind_met src subject items EvidenceKindSBOM) \<and>
     (RequireProvenance r \<longrightarrow> kind_met src subject items EvidenceKindProvenance) \<and>
     (AllowedSignaturePolicyIDs r \<noteq> [] \<longrightarrow>
        signature_met src subject (req_OrganizationID req) (AllowedSignaturePolicyIDs r))"

lemma captureSignature_result:
  "fst (captureSignature src subject org ids c) = signature_met src subject org ids \<and>
   violated (cap_snapshot (snd (captureSignature src subject org ids c))) = violated (cap_snapshot c) \<and>
   Policies (cap_snapshot (snd (captureSignature src subject org ids c))) = Policies (cap_snapshot c)"
proof (cases "as_verifications src (sub_ProjectID subject) (sub_ID subject)")
  case (Some vs)
  then have "signature_met src subject org ids \<longleftrightarrow> signature_scan src subject org vs ids \<noteq> None"
    unfolding signature_scan_Some by (simp add: signature_met_def)
  with Some show ?thesis
    by (cases "signature_scan src subject org vs ids") (auto simp: captureSignature_def)
qed (simp add: captureSignature_def signature_met_def)

lemma check_policy_violated:
  "violated (cap_snapshot (check_policy src req subject items c p)) =
     violated (cap_snapshot c) \<union>
       (if evidence_met src req subject items (policy_Requirements p) then {} else {policy_ID p}) \<and>
   Policies (cap_snapshot (check_policy src req subject items c p)) = Policies (cap_snapshot c)"
proof -
  let ?r = "policy_Requirements p" and ?i = "policy_ID p"
  define c2 where "c2 = check_kind src subject items ?i (RequireProvenance ?r) EvidenceKindProvenance
    AdmissionProvenanceMissing (check_kind src subject items ?i (RequireSBOM ?r) EvidenceKindSBOM AdmissionSBOMMissing c)"
  have c2: "violated (cap_snapshot c2) = violated (cap_snapshot c) \<union>
      (if (RequireSBOM ?r \<longrightarrow> kind_met src subject items EvidenceKindSBOM) \<and>
          (RequireProvenance ?r \<longrightarrow> kind_met src subject items EvidenceKindProvenance) then {} else {?i})"
    "Policies (cap_snapshot c2) = Policies (cap_snapshot c)"
    by (simp_all add: c2_def check_kind_violated)
  show ?thesis
  proof (cases "AllowedSignaturePolicyIDs ?r = []")
    case True
    with c2 show ?thesis by (simp add: check_policy_def Let_def c2_def[symmetric] evidence_met_def)
  next
    case False
    let ?sig = "captureSignature src subject (req_OrganizationID req) (AllowedSignaturePolicyIDs ?r) c2"
    obtain found c3 where sig: "?sig = (found, c3)" by (cases ?sig)
    have "check_policy src req subject items c p = (if found then c3 else add_to ?i AdmissionSignatureMissing c3)"
      using False by (simp add: check_policy_def Let_def c2_def[symmetric] sig)
    with False c2 captureSignature_result[of src subject "req_OrganizationID req" "AllowedSignaturePolicyIDs ?r" c2]
    show ?thesis by (simp add: sig evidence_met_def)
  qed
qed

lemma check_policies_violated:
  "violated (cap_snapshot (foldl (check_policy src req subject items) c ps)) =
     violated (cap_snapshot c) \<union>
       {policy_ID p | p. p \<in> set ps \<and> \<not> evidence_met src req subject items (policy_Requirements p)} \<and>
   Policies (cap_snapshot (foldl (check_policy src req subject items) c ps)) = Policies (cap_snapshot c)"
  by (induction ps arbitrary: c) (auto simp: check_policy_violated)

lemma addVulnerabilityViolation_violated [simp]:
  "violated (addVulnerabilityViolation code s) = violated s \<union> policy_ID ` {p \<in> set (Policies s). gated p}"
proof -
  have "violated (foldl (\<lambda>t p. if gated p then add_violation (policy_ID p) code t else t) s ps) =
      violated s \<union> policy_ID ` {p \<in> set ps. gated p}" for ps
    by (induction ps arbitrary: s) auto
  then show ?thesis by (simp add: addVulnerabilityViolation_def)
qed

lemma add_verdict_violated:
  "violated (foldl (\<lambda>u p. add_verdict verdict p u) s ps) = violated s \<union> policy_ID ` {p \<in> set ps. verdict p \<noteq> None}"
  by (induction ps arbitrary: s) (auto simp: add_verdict_def split: option.splits)

lemma add_verdict_frame:
  "Vulnerability (foldl (\<lambda>u p. add_verdict verdict p u) s ps) = Vulnerability s"
  by (induction ps arbitrary: s) (auto simp: add_verdict_def add_violation_def split: option.splits)

section \<open>Remaining vulnerabilities\<close>

definition unwaived :: "supply_library \<Rightarrow> VulnerabilityWaiver list \<Rightarrow> TrivyFinding list \<Rightarrow> TrivyFinding list" where
  "unwaived lib waivers = filter (\<lambda>f. waiver_of lib waivers f = None)"

lemma increment_counts_of:
  "incrementVulnerabilityCounts lib f (counts_of (raw_severity lib) fs) = counts_of (raw_severity lib) (fs @ [f])"
proof (cases "count_severity (raw_severity lib f) (counts_of (raw_severity lib) fs)")
  case None
  then have "\<not> graded (raw_severity lib f)" by (auto simp: count_severity_def graded_def split: if_splits)
  with None show ?thesis
    by (auto simp: incrementVulnerabilityCounts_def raw_severity_def[symmetric] count_total_def counts_of_def
        graded_def Let_def)
next
  case (Some d)
  with count_severity_counts_of[OF Some] show ?thesis
    by (simp add: incrementVulnerabilityCounts_def raw_severity_def[symmetric])
qed

lemma remaining_counts:
  "fst (foldl (apply_finding lib waivers) (zero_counts, acc) fs) = counts_of (raw_severity lib) (unwaived lib waivers fs)"
proof -
  have "fst (foldl (apply_finding lib waivers) (counts_of (raw_severity lib) gs, acc) fs) =
      counts_of (raw_severity lib) (gs @ unwaived lib waivers fs)" for gs
  proof (induction fs arbitrary: gs acc)
    case (Cons f fs)
    then show ?case
      by (cases "waiver_of lib waivers f") (simp_all add: apply_finding_def unwaived_def increment_counts_of)
  qed (simp add: unwaived_def)
  from this[of "[]"] show ?thesis by simp
qed

text \<open>
  Sealing accepts counts that add up only, so a severity the counting does not know makes the evaluation
  unavailable.
\<close>

lemma valid_counts_graded:
  assumes "validAdmissionCounts (admissionCounts (counts_of sev fs))" "length fs \<le> 1000000"
  shows "list_all (\<lambda>f. graded (sev f)) fs"
proof -
  let ?sum = "having sev ''UNKNOWN'' fs + having sev ''LOW'' fs + having sev ''MEDIUM'' fs + having sev ''HIGH'' fs +
      having sev ''CRITICAL'' fs"
  have "?sum \<le> length fs" by (induction fs) auto
  then have small: "?sum \<le> 1000000" using assms(2) by simp
  have "(of_nat (length fs) :: u64) = of_nat ?sum"
    using assms(1) by (simp add: validAdmissionCounts_def admissionCounts_def counts_of_def)
  then have "unat (of_nat (length fs) :: u64) = unat (of_nat ?sum :: u64)" by simp
  then have "length fs = ?sum" unfolding unat_of_nat_u64[OF assms(2)] unat_of_nat_u64[OF small] .
  then show ?thesis unfolding graded_total by simp
qed

lemma highest_allowed:
  assumes "list_all (\<lambda>f. graded (sev f)) fs" "length fs \<le> 1000000"
  shows "\<not> vc_Unknown (counts_of sev fs) > 0 \<and>
       severity_rank (HighestSeverity (counts_of sev fs)) \<le> severity_rank maximum \<longleftrightarrow>
     (\<forall>f \<in> set fs. severity_allowed maximum (sev f))"
proof -
  note pos = having_positive[OF assms(2), of sev]
  have g: "sev f \<in> {''UNKNOWN'', ''LOW'', ''MEDIUM'', ''HIGH'', ''CRITICAL''}" if "f \<in> set fs" for f
    using assms(1) that by (simp add: list_all_iff graded_def)
  show ?thesis
  proof (cases "\<exists>f \<in> set fs. sev f = ''UNKNOWN''")
    case True
    then obtain f where f: "f \<in> set fs" "sev f = ''UNKNOWN''" by blast
    then have "\<not> severity_allowed maximum (sev f)" by (simp add: severity_allowed_def)
    moreover have "vc_Unknown (counts_of sev fs) > 0" using f pos[of "''UNKNOWN''"] by (auto simp: counts_of_def)
    ultimately show ?thesis using f(1) by blast
  next
    case False
    have rank: "severity_rank (HighestSeverity (counts_of sev fs)) \<le> k \<longleftrightarrow>
        (\<forall>f \<in> set fs. (sev f = ''LOW'' \<longrightarrow> 1 \<le> k) \<and> (sev f = ''MEDIUM'' \<longrightarrow> 2 \<le> k) \<and>
          (sev f = ''HIGH'' \<longrightarrow> 3 \<le> k) \<and> (sev f = ''CRITICAL'' \<longrightarrow> 4 \<le> k))" for k
      using False by (auto simp: HighestSeverity_def counts_of_def pos)
    show ?thesis
      using False g unfolding rank by (auto simp: counts_of_def pos severity_allowed_def)
  qed
qed

definition snapshot_vulnerabilities_met ::
  "admission_sources \<Rightarrow> AdmissionRequest \<Rightarrow> ArtifactSubject \<Rightarrow> Evidence list \<Rightarrow> AdmissionPolicySnapshot \<Rightarrow> bool" where
  "snapshot_vulnerabilities_met src req subject items q \<longleftrightarrow>
     vulnerabilities_met src req subject items (severity_of (MaximumVulnerabilitySeverity (policy_Requirements q)))
       (MaximumScanAgeSeconds (policy_Requirements q))"

lemma verdict_None:
  assumes "list_all (\<lambda>f. graded (sev f)) fs" "length fs \<le> 1000000"
  shows "vulnerability_verdict ob (counts_of sev fs) now q = None \<longleftrightarrow>
     (gated q \<longrightarrow> now < vo_FreshUntil ob \<and>
        now < vo_ScannedAt ob + MaximumScanAgeSeconds (policy_Requirements q) * second \<and>
        (\<forall>f \<in> set fs. severity_allowed (severity_of (MaximumVulnerabilitySeverity (policy_Requirements q))) (sev f)))"
  using highest_allowed[OF assms, of "severity_of (MaximumVulnerabilitySeverity (policy_Requirements q))"]
  by (auto simp: vulnerability_verdict_def scan_deadline_def vulnerabilitySeverityExceeds_def Let_def not_le)

text \<open>A report that is accepted has a bounded number of findings.\<close>

lemma checked_report_bound:
  "checked_report src subject items ob now = Some (evidence, content, document) \<Longrightarrow>
   length (concat (tr_Results document)) \<le> 1000000"
  by (auto simp: checked_report_def dest: parseTrivy_Inr split: option.splits sum.splits if_splits)

definition sealable :: "AdmissionSnapshot \<Rightarrow> bool" where
  "sealable s \<longleftrightarrow> (\<forall>v. Vulnerability s = Some v \<longrightarrow> validAdmissionCounts (vuln_RemainingCounts v))"

lemma evaluateVulnerabilities_violated:
  assumes "sealable (cap_snapshot (evaluateVulnerabilities src req subject items (as_now src) c))"
  shows "violated (cap_snapshot (evaluateVulnerabilities src req subject items (as_now src) c)) =
     violated (cap_snapshot c) \<union>
       policy_ID ` {q \<in> set (Policies (cap_snapshot c)). gated q \<and> \<not> snapshot_vulnerabilities_met src req subject items q}"
proof (cases "\<exists>ob. as_observation src (req_ProjectID req) (sub_ID subject) = Some ob \<and>
    vo_SubjectDigest ob = sub_SubjectDigest subject")
  case False
  then have "\<not> snapshot_vulnerabilities_met src req subject items q" for q
    by (auto simp: snapshot_vulnerabilities_met_def vulnerabilities_met_def)
  with False show ?thesis
    by (cases "as_observation src (req_ProjectID req) (sub_ID subject)") (auto simp: evaluateVulnerabilities_def)
next
  case True
  then obtain ob where ob: "as_observation src (req_ProjectID req) (sub_ID subject) = Some ob"
    "vo_SubjectDigest ob = sub_SubjectDigest subject" by blast
  show ?thesis
  proof (cases "checked_report src subject items ob (as_now src)")
    case None
    with ob have "\<not> snapshot_vulnerabilities_met src req subject items q" for q
      by (simp add: snapshot_vulnerabilities_met_def vulnerabilities_met_def)
    with None ob show ?thesis by (auto simp: evaluateVulnerabilities_def)
  next
    case (Some triple)
    obtain evidence content document where t: "triple = (evidence, content, document)" by (cases triple)
    note report = Some[unfolded t]
    show ?thesis
    proof (cases "as_waivers src (req_OrganizationID req) (req_ProjectID req) (sub_ID subject)
        (sub_SubjectDigest subject) (as_now src)")
      case None
      with ob report have "\<not> snapshot_vulnerabilities_met src req subject items q" for q
        by (simp add: snapshot_vulnerabilities_met_def vulnerabilities_met_def)
      with None ob report show ?thesis by (auto simp: evaluateVulnerabilities_def Let_def)
    next
      case (Some waivers)
      let ?lib = "as_library src" and ?fs = "concat (tr_Results document)"
      let ?us = "unwaived ?lib waivers ?fs"
      obtain remaining applied where
        fold: "foldl (apply_finding ?lib waivers) (zero_counts, []) ?fs = (remaining, applied)" by fastforce
      have remaining: "remaining = counts_of (raw_severity ?lib) ?us"
        using remaining_counts[of ?lib waivers "[]" ?fs] by (simp add: fold)
      define t where "t = (cap_snapshot (captureEvidence evidence (ec_Digest content) c))
        \<lparr>Waivers := Waivers (cap_snapshot (captureEvidence evidence (ec_Digest content) c)) @
            map (waiver_snapshot \<circ> snd) applied,
          Vulnerability := Some (vulnerability_snapshot ob evidence (ec_Digest content) remaining)\<rparr>"
      have tt: "violated t = violated (cap_snapshot c)" "Policies t = Policies (cap_snapshot c)"
        "Vulnerability t = Some (vulnerability_snapshot ob evidence (ec_Digest content) remaining)"
        using captureEvidence_frame[of evidence "ec_Digest content" c] by (simp_all add: t_def violated_def)
      have result: "cap_snapshot (evaluateVulnerabilities src req subject items (as_now src) c) =
          foldl (\<lambda>u p. add_verdict (vulnerability_verdict ob remaining (as_now src)) p u) t (Policies t)"
        using ob report Some fold by (simp add: evaluateVulnerabilities_def Let_def t_def)
      have len: "length ?us \<le> 1000000"
        unfolding unwaived_def by (rule le_trans[OF length_filter_le checked_report_bound[OF report]])
      have "validAdmissionCounts (admissionCounts remaining)"
        using assms by (simp add: result sealable_def add_verdict_frame tt(3) vulnerability_snapshot_def)
      note graded = valid_counts_graded[OF this[unfolded remaining] len]
      have "vulnerability_verdict ob remaining (as_now src) q \<noteq> None \<longleftrightarrow>
          gated q \<and> \<not> snapshot_vulnerabilities_met src req subject items q" for q
        unfolding remaining verdict_None[OF graded len] snapshot_vulnerabilities_met_def vulnerabilities_met_def
        using ob report Some by (auto simp: unwaived_def)
      then show ?thesis unfolding result add_verdict_violated tt by simp
    qed
  qed
qed

section \<open>The evaluation of an artifact\<close>

definition snapshot_met :: "admission_sources \<Rightarrow> AdmissionRequest \<Rightarrow> ArtifactSubject \<Rightarrow> Evidence list \<Rightarrow>
     AdmissionPolicySnapshot \<Rightarrow> bool" where
  "snapshot_met src req subject items q \<longleftrightarrow> evidence_met src req subject items (policy_Requirements q) \<and>
     (gated q \<longrightarrow> snapshot_vulnerabilities_met src req subject items q)"

lemma evaluate_subject_violated:
  assumes "sealable (evaluate_subject src req subject items (as_now src) s)"
  shows "violated (evaluate_subject src req subject items (as_now src) s) =
     violated s \<union> policy_ID ` {q \<in> set (Policies s). \<not> snapshot_met src req subject items q}"
proof -
  let ?start = "\<lparr>cap_snapshot = s, cap_evidence = {}, cap_verifications = {}\<rparr>"
  define c where "c = foldl (check_policy src req subject items) ?start (Policies s)"
  have c: "violated (cap_snapshot c) = violated s \<union>
        {policy_ID q | q. q \<in> set (Policies s) \<and> \<not> evidence_met src req subject items (policy_Requirements q)}"
      "Policies (cap_snapshot c) = Policies s"
    using check_policies_violated[of src req subject items ?start "Policies s"] by (simp_all add: c_def)
  show ?thesis
  proof (cases "list_ex gated (Policies s)")
    case True
    then have e: "evaluate_subject src req subject items (as_now src) s =
        cap_snapshot (evaluateVulnerabilities src req subject items (as_now src) c)"
      by (simp add: evaluate_subject_def c_def)
    have "sealable (cap_snapshot (evaluateVulnerabilities src req subject items (as_now src) c))"
      using assms unfolding e .
    from evaluateVulnerabilities_violated[OF this] show ?thesis
      unfolding e c by (auto simp: snapshot_met_def)
  next
    case False
    then have "evaluate_subject src req subject items (as_now src) s = cap_snapshot c"
      by (simp add: evaluate_subject_def c_def)
    with False c show ?thesis by (auto simp: snapshot_met_def list_ex_iff)
  qed
qed

text \<open>Stored policies were built by the constructor.\<close>

definition stored_policy :: "DeploymentPolicy \<Rightarrow> bool" where
  "stored_policy p \<longleftrightarrow> NewDeploymentPolicy p = Inr p"

lemma severity_of_text: "Severity_Valid v \<Longrightarrow> severity_of (severity_text v) = v"
  by (cases v) (simp_all add: severity_of_def)

lemma NewDeploymentPolicy_requirements:
  "NewDeploymentPolicy input = Inr p \<Longrightarrow>
   normalizeDeploymentPolicyRequirements (dp_Requirements input) = Inr (dp_Requirements p)"
  by (auto simp: NewDeploymentPolicy_def bind_result_eq_Inr Let_def split: if_splits)

lemma stored_policy_met:
  assumes "stored_policy p"
  shows "snapshot_met src req subject items (deploymentPolicyAdmissionSnapshot p mode) \<longleftrightarrow>
     requirements_met src req subject items (dp_Requirements p)"
proof -
  let ?r = "dp_Requirements p"
  have n: "normalizeDeploymentPolicyRequirements ?r = Inr ?r"
    using NewDeploymentPolicy_requirements assms unfolding stored_policy_def by blast
  have gate: "vulnerability_gate ?r \<longleftrightarrow> dpr_MaximumVulnerabilitySeverity ?r \<noteq> SeverityOther []"
    by (rule requirements_gate[OF n])
  have valid: "Severity_Valid (dpr_MaximumVulnerabilitySeverity ?r)" if "vulnerability_gate ?r"
    using requirements_Inr[OF n] that by (simp add: requirements_ok_def)
  have "gated (deploymentPolicyAdmissionSnapshot p mode) \<longleftrightarrow> vulnerability_gate ?r"
    unfolding gate by (cases "dpr_MaximumVulnerabilitySeverity ?r")
      (simp_all add: gated_def deploymentPolicyAdmissionSnapshot_def Let_def)
  then show ?thesis
    using valid severity_of_text
    by (auto simp: snapshot_met_def requirements_met_def evidence_met_def snapshot_vulnerabilities_met_def
        deploymentPolicyAdmissionSnapshot_def Let_def)
qed

section \<open>Policies in effect\<close>

lemma effective_policies_Some:
  "effective_policies req stage ps = Some eff \<Longrightarrow>
   set eff = {(p, mode). p \<in> set ps \<and> \<not> skipped_policy req p \<and> EffectiveMode p stage = Inr (Some mode)} \<and>
   (\<forall>p \<in> set ps. \<not> skipped_policy req p \<longrightarrow> p \<in> fst ` set eff) \<and>
   (distinct (map dp_ID ps) \<longrightarrow> distinct (map (dp_ID \<circ> fst) eff)) \<and> fst ` set eff \<subseteq> set ps"
proof (induction ps arbitrary: eff)
  case (Cons p ps)
  show ?case
  proof (cases "skipped_policy req p")
    case True
    with Cons show ?thesis by auto
  next
    case False
    with Cons.prems obtain mode rest where
      m: "EffectiveMode p stage = Inr (Some mode)" "effective_policies req stage ps = Some rest" "eff = (p, mode) # rest"
      by (auto split: sum.splits option.splits)
    from Cons.IH[OF m(2)] False m(1,3) show ?thesis by (auto simp: image_iff)
  qed
qed simp

lemma effective_modes_Some:
  assumes "distinct (map (dp_ID \<circ> fst) eff)"
  shows "effective_modes eff i = Some mode \<longleftrightarrow> (\<exists>p. (p, mode) \<in> set eff \<and> dp_ID p = i)"
proof -
  have "distinct (map fst (rev (map (\<lambda>(p, mode). (dp_ID p, mode)) eff)))"
    using assms by (simp add: rev_map[symmetric] comp_def case_prod_unfold)
  then have "effective_modes eff i = Some mode \<longleftrightarrow> (i, mode) \<in> set (rev (map (\<lambda>(p, mode). (dp_ID p, mode)) eff))"
    unfolding effective_modes_def by (rule map_of_eq_Some_iff)
  then show ?thesis by auto
qed

section \<open>Decisions\<close>

lemma addPolicyViolation_violated:
  "violated (addPolicyViolation eff code s) = violated s \<union> dp_ID ` fst ` set eff"
proof -
  have "violated (foldl (\<lambda>t i. add_violation i code t) s is') = violated s \<union> set is'" for is'
    by (induction is' arbitrary: s) auto
  then show ?thesis by (auto simp: addPolicyViolation_def image_iff split: prod.splits) force
qed

lemma Seal_sealable:
  assumes "AdmissionSnapshot_Seal js (s\<lparr>Decision := d\<rparr>) = Inr t"
  shows "sealable s \<and> Decision t = d"
proof -
  from assms obtain content evaluation where
    t: "t = (normalize_snapshot (s\<lparr>Decision := d\<rparr>))\<lparr>EvidenceSetDigest := digest_text content,
           EvaluationDigest := digest_text evaluation\<rparr>"
    and v: "AdmissionSnapshot_Validate js t = None" by (elim Seal_Inr) blast
  have vuln: "Vulnerability t = map_option truncate_vulnerability (Vulnerability s)" and dec: "Decision t = d"
    by (simp_all add: t normalize_snapshot_def)
  have "valid_parts t" using v by (simp add: AdmissionSnapshot_Validate_def split: if_splits)
  then have "sealable s"
    unfolding sealable_def valid_parts_def vuln
    by (auto simp: valid_vulnerability_def truncate_vulnerability_def)
  with dec show ?thesis by simp
qed

lemma finish_Inr:
  assumes "finishAdmission src s modes = Inr t"
  shows "sealable s \<and> (\<forall>i \<in> violated s. modes i \<noteq> Some DeploymentPolicyEnforced) \<and>
     Decision t = (if Violations s = [] then AdmissionAdmitted else AdmissionAdmittedWithWarning)"
proof -
  let ?b = "list_ex (\<lambda>v. modes (violation_PolicyID v) = Some DeploymentPolicyEnforced) (Violations s)"
  from assms have b: "\<not> ?b"
    and seal: "AdmissionSnapshot_Seal (as_json src) (s\<lparr>Decision := (if Violations s = [] then AdmissionAdmitted
        else AdmissionAdmittedWithWarning)\<rparr>) = Inr t"
    by (auto simp: finishAdmission_def sealAdmission_def Let_def split: sum.splits if_splits)
  from b Seal_sealable[OF seal] show ?thesis by (auto simp: violated_def list_ex_iff)
qed

lemma finish_denied:
  assumes "finishAdmission src s modes = Inl ErrAdmissionDenied"
  shows "sealable s \<and> (\<exists>i \<in> violated s. modes i = Some DeploymentPolicyEnforced)"
proof -
  let ?b = "list_ex (\<lambda>v. modes (violation_PolicyID v) = Some DeploymentPolicyEnforced) (Violations s)"
  from assms obtain t where b: "?b" and seal: "AdmissionSnapshot_Seal (as_json src) (s\<lparr>Decision := AdmissionDenied\<rparr>) = Inr t"
    by (auto simp: finishAdmission_def sealAdmission_def Let_def split: sum.splits if_splits)
  from b Seal_sealable[OF seal] show ?thesis by (auto simp: violated_def list_ex_iff)
qed

lemma Violations_Nil: "Violations s = [] \<longleftrightarrow> violated s = {}"
  by (simp add: violated_def)

text \<open>Where a policy is in effect, the evaluation ends by deciding on exactly the policies not met.\<close>

lemma EvaluateAdmission_finish:
  assumes "as_stage src (req_ProjectID req) (req_EnvironmentID req) = Some stage" "\<not> is_zero (as_now src)"
    and "as_policies src (req_OrganizationID req) (req_ProjectID req) = Some policies"
    and "effective_policies req stage policies = Some eff" "eff \<noteq> []" "\<forall>p \<in> set policies. stored_policy p"
  obtains s where "EvaluateAdmission src req = finishAdmission src s (effective_modes eff)"
    "sealable s \<Longrightarrow> violated s = dp_ID ` {p \<in> fst ` set eff. \<not> policy_met src req p}"
proof -
  define s1 where "s1 = (start_snapshot (as_now src) stage)\<lparr>Policies :=
    map (\<lambda>(p, mode). deploymentPolicyAdmissionSnapshot p mode) eff\<rparr>"
  have clean: "violated s1 = {}" by (simp add: s1_def start_snapshot_def empty_snapshot_def violated_def)
  have all: "dp_ID ` {p \<in> fst ` set eff. \<not> policy_met src req p} = dp_ID ` fst ` set eff"
    if "\<And>p. \<not> policy_met src req p" using that by auto
  note E = EvaluateAdmission_def Let_def assms(1-4) option.case utc_def s1_def[symmetric]
  let ?release = "as_release_artifact src (req_ProjectID req) (req_ApplicationID req) (req_ReleaseID req)"
  show ?thesis
  proof (cases "\<exists>a subject. ?release = Some a \<and> trim_space a \<noteq> [] \<and>
      as_artifact src (req_OrganizationID req) (req_ProjectID req) a = Some subject")
    case False
    then have "\<And>p. \<not> policy_met src req p" by (auto simp: policy_met_def)
    moreover have "EvaluateAdmission src req =
        finishAdmission src (addPolicyViolation eff AdmissionArtifactUnavailable s1) (effective_modes eff)"
      using False assms(2,5) unfolding E by (auto split: option.split)
    ultimately show ?thesis using that all addPolicyViolation_violated[of eff _ s1] clean by simp
  next
    case True
    then obtain a subject where a: "?release = Some a" "trim_space a \<noteq> []"
      "as_artifact src (req_OrganizationID req) (req_ProjectID req) a = Some subject" by blast
    define s2 where "s2 = s1\<lparr>ArtifactID := sub_ID subject, SubjectDigest := sub_SubjectDigest subject\<rparr>"
    have clean2: "violated s2 = {}" using clean by (simp add: s2_def violated_def)
    show ?thesis
    proof (cases "as_evidence src (req_ProjectID req) (sub_ID subject)")
      case None
      with a have "\<And>p. \<not> policy_met src req p" by (auto simp: policy_met_def)
      moreover have "EvaluateAdmission src req =
          finishAdmission src (addPolicyViolation eff AdmissionEvidenceUnavailable s2) (effective_modes eff)"
        using a None assms(2,5) unfolding E by (simp add: s2_def)
      ultimately show ?thesis using that all addPolicyViolation_violated[of eff _ s2] clean2 by simp
    next
      case (Some items)
      let ?t = "evaluate_subject src req subject items (as_now src) s2"
      have e: "EvaluateAdmission src req = finishAdmission src ?t (effective_modes eff)"
        using a Some assms(2,5) unfolding E by (simp add: s2_def)
      have met: "policy_met src req p \<longleftrightarrow> requirements_met src req subject items (dp_Requirements p)" for p
        using a Some by (simp add: policy_met_def)
      have sub: "fst ` set eff \<subseteq> set policies" using effective_policies_Some[OF assms(4)] by blast
      have "policy_ID ` {q \<in> set (Policies s2). \<not> snapshot_met src req subject items q} =
          dp_ID ` {p \<in> fst ` set eff. \<not> policy_met src req p}"
      proof -
        have "set (Policies s2) = (\<lambda>(p, mode). deploymentPolicyAdmissionSnapshot p mode) ` set eff"
          by (simp add: s2_def s1_def)
        moreover have "snapshot_met src req subject items (deploymentPolicyAdmissionSnapshot p mode) \<longleftrightarrow> policy_met src req p"
          "policy_ID (deploymentPolicyAdmissionSnapshot p mode) = dp_ID p" if "(p, mode) \<in> set eff" for p mode
          using stored_policy_met sub assms(6) that unfolding met
          by (auto simp: deploymentPolicyAdmissionSnapshot_def Let_def)
        ultimately show ?thesis by (auto simp: image_iff) force+
      qed
      with that[OF e] evaluate_subject_violated[of src req subject items s2] clean2 show ?thesis by simp
    qed
  qed
qed

end
