(* ===== verification/SupplyProperties.thy ===== *)
theory SupplyProperties
  imports PolicyEnforcement DeploymentSamples
begin

text \<open>
  What the admission evaluator guarantees: it decides by the policies alone, and a deployment created in
  production meets all of them. The samples below are a production environment with an enforced policy
  that demands a bill of materials, and an artifact that has one.
\<close>

section \<open>Decisions\<close>

lemma Seal_error: "AdmissionSnapshot_Seal js s = Inl err \<Longrightarrow> err = ErrAdmissionUnavailable"
  by (auto simp: AdmissionSnapshot_Seal_def AdmissionSnapshot_Validate_def Let_def split: option.splits if_splits)


lemma EvaluateAdmission_started:
  assumes "as_stage src (req_ProjectID req) (req_EnvironmentID req) = Some stage"
    and "as_policies src (req_OrganizationID req) (req_ProjectID req) = Some policies"
    and "EvaluateAdmission src req \<noteq> Inl ErrAdmissionUnavailable"
  obtains eff where "\<not> is_zero (as_now src)" "effective_policies req stage policies = Some eff"
  using assms by (auto simp: EvaluateAdmission_def Let_def utc_def split: if_splits option.splits)

lemma EvaluateAdmission_no_policy:
  assumes "as_stage src (req_ProjectID req) (req_EnvironmentID req) = Some stage"
    and "as_policies src (req_OrganizationID req) (req_ProjectID req) = Some policies"
    and "\<forall>p \<in> set policies. skipped_policy req p"
  shows "EvaluateAdmission src req = Inr s \<Longrightarrow> Decision s = AdmissionNotConfigured"
    and "EvaluateAdmission src req = Inl err \<Longrightarrow> err = ErrAdmissionUnavailable"
proof -
  have none: "effective_policies req stage policies = Some []"
    using assms(3) by (induction policies) auto
  have seal: "EvaluateAdmission src req = (if is_zero (as_now src) then Inl ErrAdmissionUnavailable
      else AdmissionSnapshot_Seal (as_json src) ((start_snapshot (as_now src) stage)\<lparr>Policies := [],
        Decision := AdmissionNotConfigured\<rparr>))"
    using assms(1,2) none by (simp add: EvaluateAdmission_def Let_def utc_def)
  show "EvaluateAdmission src req = Inr s \<Longrightarrow> Decision s = AdmissionNotConfigured"
    unfolding seal using Seal_sealable by (auto split: if_split_asm)
  show "EvaluateAdmission src req = Inl err \<Longrightarrow> err = ErrAdmissionUnavailable"
    unfolding seal using Seal_error by (auto split: if_split_asm)
qed

definition missed_policies :: "admission_sources \<Rightarrow> AdmissionRequest \<Rightarrow> DeploymentPolicy list \<Rightarrow> DeploymentPolicy set" where
  "missed_policies src req policies = {p \<in> set policies. \<not> skipped_policy req p \<and> \<not> policy_met src req p}"

lemma EvaluateAdmission_missed:
  assumes "as_stage src (req_ProjectID req) (req_EnvironmentID req) = Some stage"
    and "as_policies src (req_OrganizationID req) (req_ProjectID req) = Some policies"
    and "\<forall>p \<in> set policies. stored_policy p" "distinct (map dp_ID policies)"
    and "EvaluateAdmission src req \<noteq> Inl ErrAdmissionUnavailable" "\<not> (\<forall>p \<in> set policies. skipped_policy req p)"
  obtains t modes where "EvaluateAdmission src req = finishAdmission src t modes"
    "sealable t \<Longrightarrow> violated t = dp_ID ` missed_policies src req policies"
    "\<And>p. p \<in> set policies \<Longrightarrow> \<not> skipped_policy req p \<Longrightarrow>
       modes (dp_ID p) = Some DeploymentPolicyEnforced \<longleftrightarrow> EffectiveMode p stage = Inr (Some DeploymentPolicyEnforced)"
proof -
  obtain eff where start: "\<not> is_zero (as_now src)" "effective_policies req stage policies = Some eff"
    using EvaluateAdmission_started[OF assms(1,2,5)] .
  note in_force = effective_policies_Some[OF start(2)]
  from in_force have members: "(p, mode) \<in> set eff \<longleftrightarrow>
      p \<in> set policies \<and> \<not> skipped_policy req p \<and> EffectiveMode p stage = Inr (Some mode)" for p mode by simp
  from in_force have every: "p \<in> fst ` set eff \<longleftrightarrow> p \<in> set policies \<and> \<not> skipped_policy req p" for p
    using members by auto
  have "eff \<noteq> []" using assms(6) every by auto
  note decided = EvaluateAdmission_finish[OF assms(1) start(1) assms(2) start(2) this assms(3)]
  obtain t where t: "EvaluateAdmission src req = finishAdmission src t (effective_modes eff)"
    and missed: "sealable t \<Longrightarrow> violated t = dp_ID ` {p \<in> fst ` set eff. \<not> policy_met src req p}"
    by (rule decided, rule that) auto
  have "{p \<in> fst ` set eff. \<not> policy_met src req p} = missed_policies src req policies"
    by (auto simp: missed_policies_def every)
  note missed' = missed[unfolded this]
  have "distinct (map (dp_ID \<circ> fst) eff)" using in_force assms(4) by blast
  note modes = effective_modes_Some[OF this]
  have unique: "p = q" if "p \<in> set policies" "q \<in> set policies" "dp_ID p = dp_ID q" for p q
    using assms(4) that by (auto simp: distinct_map dest: inj_onD)
  have "effective_modes eff (dp_ID p) = Some m \<longleftrightarrow> EffectiveMode p stage = Inr (Some m)"
    if "p \<in> set policies" "\<not> skipped_policy req p" for p m
    unfolding modes members using that unique by auto
  from that[OF t missed' this] show ?thesis by blast
qed

lemma EvaluateAdmission_decided:
  assumes "as_stage src (req_ProjectID req) (req_EnvironmentID req) = Some stage"
    and "as_policies src (req_OrganizationID req) (req_ProjectID req) = Some policies"
    and "\<forall>p \<in> set policies. stored_policy p" "distinct (map dp_ID policies)"
    and "EvaluateAdmission src req = Inr s"
  shows "Decision s = (if \<forall>p \<in> set policies. skipped_policy req p then AdmissionNotConfigured
      else if missed_policies src req policies = {} then AdmissionAdmitted else AdmissionAdmittedWithWarning)"
    and "\<forall>p \<in> missed_policies src req policies. EffectiveMode p stage \<noteq> Inr (Some DeploymentPolicyEnforced)"
proof -
  have "Decision s = (if \<forall>p \<in> set policies. skipped_policy req p then AdmissionNotConfigured
      else if missed_policies src req policies = {} then AdmissionAdmitted else AdmissionAdmittedWithWarning) \<and>
    (\<forall>p \<in> missed_policies src req policies. EffectiveMode p stage \<noteq> Inr (Some DeploymentPolicyEnforced))"
  proof (cases "\<forall>p \<in> set policies. skipped_policy req p")
    case True
    from EvaluateAdmission_no_policy(1)[OF assms(1,2) True assms(5)] have "Decision s = AdmissionNotConfigured" .
    then show ?thesis using True by (auto simp: missed_policies_def)
  next
    case False
    obtain t modes where t: "EvaluateAdmission src req = finishAdmission src t modes"
      and v: "sealable t \<Longrightarrow> violated t = dp_ID ` missed_policies src req policies"
      and m: "\<And>p. p \<in> set policies \<Longrightarrow> \<not> skipped_policy req p \<Longrightarrow>
        modes (dp_ID p) = Some DeploymentPolicyEnforced \<longleftrightarrow> EffectiveMode p stage = Inr (Some DeploymentPolicyEnforced)"
      by (rule EvaluateAdmission_missed[OF assms(1-4) _ False]) (simp_all add: assms(5))
    note f = finish_Inr[OF assms(5)[unfolded t]]
    then show ?thesis
      using False v m by (simp add: Violations_Nil) (auto simp: missed_policies_def)
  qed
  then show "Decision s = (if \<forall>p \<in> set policies. skipped_policy req p then AdmissionNotConfigured
      else if missed_policies src req policies = {} then AdmissionAdmitted else AdmissionAdmittedWithWarning)"
    and "\<forall>p \<in> missed_policies src req policies. EffectiveMode p stage \<noteq> Inr (Some DeploymentPolicyEnforced)"
    by blast+
qed


section \<open>A production environment\<close>

definition sample_policy :: DeploymentPolicy where
  "sample_policy = \<lparr>dp_ID = ''p1'', dp_OrganizationID = ''o'', dp_ProjectID = ''p'', dp_Name = ''n'',
     dp_Scope = PolicyScopeEnvironment, dp_EnvironmentID = ''e'', dp_Mode = DeploymentPolicyAdvisory,
     dp_Requirements = \<lparr>dpr_RequireSBOM = True, dpr_RequireProvenance = False, dpr_AllowedSignaturePolicyIDs = [],
       dpr_MaximumVulnerabilitySeverity = SeverityOther [], dpr_MaximumScanAge = 0\<rparr>,
     dp_Enabled = True, dp_Version = 1, dp_CreatedBy = ''u'', dp_UpdatedBy = ''u'', dp_CreatedAt = 10, dp_UpdatedAt = 10\<rparr>"

definition sample_digest_text :: string where
  "sample_digest_text = digest_text ''{}''"

definition sample_subject :: ArtifactSubject where
  "sample_subject = \<lparr>sub_ID = ''art'', sub_OrganizationID = ''o'', sub_ProjectID = ''p'',
     sub_SubjectDigest = sample_digest_text, sub_RegistryRepository = ''r'', sub_RegistryCredentialID = ''c''\<rparr>"

definition sample_sbom :: Evidence where
  "sample_sbom = \<lparr>evd_ID = ''b'', evd_OrganizationID = ''o'', evd_ProjectID = ''p'', evd_ArtifactID = ''art'',
     evd_SubjectDigest = sample_digest_text, evd_Kind = EvidenceKindSBOM, evd_MediaType = ''m'', evd_FormatVersion = ''1.6'',
     evd_PredicateType = [], evd_Producer = ''s'', evd_RegistryRepository = ''r'',
     evd_DescriptorDigest = sample_digest_text, evd_VerificationStatus = VerificationUnverified, evd_CreatedAt = 10\<rparr>"

definition sample_library :: supply_library where
  "sample_library = \<lparr>sl_reference = \<lambda>_. None, sl_digest = \<lambda>_. True, sl_media_type = Some, sl_url = \<lambda>_. None,
     sl_request_uri = \<lambda>_. None, sl_upper = id, sl_lower = id\<rparr>"

text \<open>The stored evidence is the argument.\<close>

definition sample_sources :: "Evidence list \<Rightarrow> admission_sources" where
  "sample_sources items = \<lparr>as_stage = \<lambda>_ _. Some ''production'', as_release_artifact = \<lambda>_ _ _. Some ''art'',
     as_artifact = \<lambda>_ _ _. Some sample_subject, as_policies = \<lambda>_ _. Some [sample_policy],
     as_evidence = \<lambda>_ _. Some items,
     as_content = \<lambda>_ _. Some \<lparr>ec_Content = ''{}'', ec_MediaType = ''m'', ec_Digest = sample_digest_text\<rparr>,
     as_verifications = \<lambda>_ _. None, as_trust_policy = \<lambda>_ _. None, as_observation = \<lambda>_ _. None,
     as_waivers = \<lambda>_ _ _ _ _. None, as_decode = \<lambda>_. None, as_library = sample_library, as_json = sample_json,
     as_now = 5000000\<rparr>"

definition sample_request :: AdmissionRequest where
  "sample_request = \<lparr>req_OrganizationID = ''o'', req_ProjectID = ''p'', req_ReleaseID = ''r'', req_ApplicationID = ''a'',
     req_EnvironmentID = ''e''\<rparr>"

lemma sample_policy_stored: "stored_policy sample_policy"
  by code_simp

lemma sample_policy_in_force:
  "\<not> skipped_policy sample_request sample_policy"
  "EffectiveMode sample_policy ''production'' = Inr (Some DeploymentPolicyEnforced)"
  by code_simp+

definition sample_policy_snapshot :: AdmissionPolicySnapshot where
  "sample_policy_snapshot =
     \<lparr>policy_ID = ''p1'', policy_Version = 1, policy_Scope = ''environment'', policy_EnvironmentID = ''e'',
       policy_Mode = ''enforced'', policy_Requirements = \<lparr>RequireSBOM = True, RequireProvenance = False,
         AllowedSignaturePolicyIDs = [], MaximumVulnerabilitySeverity = [], MaximumScanAgeSeconds = 0\<rparr>\<rparr>"

definition sample_unchecked :: AdmissionSnapshot where
  "sample_unchecked = empty_snapshot\<lparr>EvaluatedAt := 5000000, EnvironmentStage := ''production'',
     Policies := [sample_policy_snapshot], ArtifactID := ''art'', SubjectDigest := sample_digest_text\<rparr>"

lemma sample_policy_snapshot:
  "deploymentPolicyAdmissionSnapshot sample_policy DeploymentPolicyEnforced = sample_policy_snapshot"
  by code_simp

lemma sample_policy_ID: "dp_ID sample_policy = ''p1''"
  by (simp add: sample_policy_def)

lemma sample_sources_simps [simp]:
  "as_stage (sample_sources items) a b = Some ''production''"
  "as_release_artifact (sample_sources items) a b c = Some ''art''"
  "as_artifact (sample_sources items) a b c = Some sample_subject"
  "as_policies (sample_sources items) a b = Some [sample_policy]"
  "as_evidence (sample_sources items) a b = Some items"
  "as_content (sample_sources items) sub e =
     Some \<lparr>ec_Content = ''{}'', ec_MediaType = ''m'', ec_Digest = sample_digest_text\<rparr>"
  "as_json (sample_sources items) = sample_json" "as_now (sample_sources items) = 5000000"
  by (simp_all add: sample_sources_def)

lemma sample_trim_art: "trim_space ''art'' = ''art''"
  by code_simp

lemma sample_ids_valid: "validAdmissionID ''art''" "validAdmissionID ''p1''" "validAdmissionID ''b''" "validAdmissionID ''e''"
  by code_simp+

lemma sample_digest_valid [simp]: "validAdmissionDigest sample_digest_text"
  by (simp add: sample_digest_text_def sample_digest)

lemma sample_digest_text_ne [simp]: "sample_digest_text \<noteq> []"
  by (simp add: sample_digest_text_def digest_text_def)

lemma sample_evaluation:
  "EvaluateAdmission (sample_sources items) sample_request =
     finishAdmission (sample_sources items)
       (evaluate_subject (sample_sources items) sample_request sample_subject items 5000000 sample_unchecked)
       [''p1'' \<mapsto> DeploymentPolicyEnforced]"
  using sample_policy_in_force
  by (simp add: EvaluateAdmission_def Let_def utc_def sample_trim_art effective_modes_def start_snapshot_def
      sample_policy_snapshot sample_policy_ID sample_unchecked_def sample_subject_def)

lemmas sample_checks = evaluate_subject_def check_policy_def check_kind_def captureKind_def captureEvidence_def
  Let_def gated_def add_to_def missing_code_def

lemma sample_of_kind: "of_kind sample_subject EvidenceKindSBOM sample_sbom"
  by (simp add: of_kind_def sample_subject_def sample_sbom_def)

lemma sample_checked:
  "evaluate_subject (sample_sources []) sample_request sample_subject [] 5000000 sample_unchecked =
     add_violation ''p1'' AdmissionSBOMMissing sample_unchecked"
  "evaluate_subject (sample_sources [sample_sbom]) sample_request sample_subject [sample_sbom] 5000000 sample_unchecked =
     sample_unchecked\<lparr>EvidenceItems := [\<lparr>evidence_ID = ''b'', evidence_Kind = ''sbom'',
       evidence_DescriptorDigest = sample_digest_text, evidence_ContentDigest = sample_digest_text\<rparr>]\<rparr>"
proof -
  have p: "Policies sample_unchecked = [sample_policy_snapshot]" "EvidenceItems sample_unchecked = []"
    by (simp_all add: sample_unchecked_def empty_snapshot_def)
  have r: "RequireSBOM (policy_Requirements sample_policy_snapshot)"
    "\<not> RequireProvenance (policy_Requirements sample_policy_snapshot)"
    "AllowedSignaturePolicyIDs (policy_Requirements sample_policy_snapshot) = []"
    "MaximumVulnerabilitySeverity (policy_Requirements sample_policy_snapshot) = []"
    "policy_ID sample_policy_snapshot = ''p1''"
    by (simp_all add: sample_policy_snapshot_def)
  show "evaluate_subject (sample_sources []) sample_request sample_subject [] 5000000 sample_unchecked =
     add_violation ''p1'' AdmissionSBOMMissing sample_unchecked"
    by (simp add: sample_checks p r)
  show "evaluate_subject (sample_sources [sample_sbom]) sample_request sample_subject [sample_sbom] 5000000
      sample_unchecked = sample_unchecked\<lparr>EvidenceItems := [\<lparr>evidence_ID = ''b'', evidence_Kind = ''sbom'',
       evidence_DescriptorDigest = sample_digest_text, evidence_ContentDigest = sample_digest_text\<rparr>]\<rparr>"
    by (simp add: sample_checks p r sample_of_kind) (simp add: sample_sbom_def)
qed

lemma sample_valid_policy: "valid_policy sample_policy_snapshot"
  by code_simp

lemmas sample_sealing = AdmissionSnapshot_Seal_def normalize_snapshot_def sort_violations_def truncate_time_def utc_def
  AdmissionSnapshot_Validate_def valid_header_def valid_decision_def valid_subject_def
  valid_parts_def digests_match_def or_empty_def valid_evidence_def valid_violation_def
  sample_json_def sample_ids_valid evidence_content_def sample_digest millisecond_def sample_valid_policy

lemma sample_admitted:
  "\<exists>s. EvaluateAdmission (sample_sources [sample_sbom]) sample_request = Inr s \<and> Decision s = AdmissionAdmitted"
  unfolding sample_evaluation sample_checked
  by (simp add: finishAdmission_def sealAdmission_def sample_unchecked_def empty_snapshot_def)
    (simp add: sample_sealing Let_def)


lemma EvaluateAdmission_valid:
  "EvaluateAdmission (sample_sources [sample_sbom]) sample_request = Inr s \<Longrightarrow>
   AdmissionSnapshot_Validate sample_json s = None"
  unfolding sample_evaluation
  by (auto simp: finishAdmission_def sealAdmission_def Let_def split: sum.splits if_splits elim: Seal_Inr)



section \<open>Deployments and policies\<close>

definition request_of :: "Deployment \<Rightarrow> AdmissionRequest" where
  "request_of d = \<lparr>req_OrganizationID = dep_OrganizationID d, req_ProjectID = dep_ProjectID d,
     req_ReleaseID = dep_ReleaseID d, req_ApplicationID = dep_ApplicationID d, req_EnvironmentID = dep_EnvironmentID d\<rparr>"

lemma accepted_admitted:
  assumes "env_admission env = Some evaluate" "accepted env actor action q item d w w'" "stored w' \<noteq> stored w"
  shows "\<exists>s. evaluate (request_of d) = Inr s \<and> dep_Admission d = s \<and> Decision s \<noteq> AdmissionDenied"
proof -
  obtain s where s: "admits env item s" "recorded env actor action q (item\<lparr>dep_Admission := s\<rparr>) d w w'"
    using assms(2,3) by (auto simp: accepted_def replayed_def)
  from s(2) have "request_of d = request_of item" "dep_Admission d = s"
    by (auto simp: recorded_def request_of_def dest!: Create_Inr(3))
  with s(1) assms(1) show ?thesis by (auto simp: admits_def request_of_def)
qed

text \<open>The calls that store a deployment.\<close>

inductive stores_deployment :: "env \<Rightarrow> world \<Rightarrow> Deployment \<Rightarrow> world \<Rightarrow> bool" for env w where
  sd_create: "CreateFormal env actor p r a e t k q w = (Inr d, w') \<Longrightarrow> stores_deployment env w d w'"
| sd_automatic: "CreateAutomatic env input w = (Inr d, w') \<Longrightarrow> stores_deployment env w d w'"
| sd_retry: "RetryFormal env actor p i k q w = (Inr d, w') \<Longrightarrow> stores_deployment env w d w'"
| sd_rollback: "RollbackFormal env actor p i rel k q w = (Inr d, w') \<Longrightarrow> stores_deployment env w d w'"

lemma permission_Inr:
  "op_bind (require_permission actor perm) (\<lambda>_. f) w = (Inr d, w') \<Longrightarrow> f w = (Inr d, w')"
  by (auto simp: op_bind_def require_permission_def op_check_def split: option.splits)

lemma stored_deployment_accepted:
  assumes "stores_deployment env w d w'" and db: "env_transaction env = Some (ManagerDatabase c)"
  shows "\<exists>actor action q item. accepted env actor action q item d w w'"
  using assms(1)
proof cases
  case sd_create
  then show ?thesis using CreateFormal_Inr(2)[OF _ db] by blast
next
  case sd_automatic
  then show ?thesis using CreateAutomatic_Inr[OF _ db] by blast
next
  case (sd_retry actor p i k q)
  then have "createDerivedFormal env actor p i [] k q AuditActionRetry w = (Inr d, w')"
    unfolding RetryFormal_def by (rule permission_Inr)
  from createDerivedFormal_Inr[OF this db] show ?thesis by blast
next
  case (sd_rollback actor p i rel k q)
  then have "createDerivedFormal env actor p i rel k q AuditActionRollback w = (Inr d, w')"
    unfolding RollbackFormal_def by (rule permission_Inr)
  from createDerivedFormal_Inr[OF this db] show ?thesis by blast
qed

lemma unreadable_policies:
  assumes "as_stage src (req_ProjectID req) (req_EnvironmentID req) = Some stage" "stage \<noteq> ''development''"
    and "as_policies src (req_OrganizationID req) (req_ProjectID req) = None"
  shows "EvaluateAdmission src req \<noteq> Inr s"
  using assms by (auto simp: EvaluateAdmission_def Let_def sealAdmission_def split: sum.splits)

text \<open>
  C9: with the database's transactions, a deployment newly stored in a production environment, by a creation, an
  automatic creation, a retry or a rollback, meets every policy of its project that is enabled and applies there,
  whatever mode the policy was given; where the policies could not be read, nothing is stored. The policies are as
  their constructor makes them, each under an ID of its own.
\<close>

theorem production_meets_policies:
  assumes "env_transaction env = Some (ManagerDatabase c)" "env_admission env = Some (EvaluateAdmission src)"
    and "stores_deployment env w d w'" "stored w' \<noteq> stored w"
    and "as_stage src (dep_ProjectID d) (dep_EnvironmentID d) = Some ''production''"
    and "\<And>ps. as_policies src (dep_OrganizationID d) (dep_ProjectID d) = Some ps \<Longrightarrow>
      (\<forall>x \<in> set ps. stored_policy x) \<and> distinct (map dp_ID ps)"
  shows "\<exists>ps. as_policies src (dep_OrganizationID d) (dep_ProjectID d) = Some ps \<and>
     (\<forall>x \<in> set ps. dp_Enabled x \<and>
        (dp_Scope x = PolicyScopeEnvironment \<longrightarrow> dp_EnvironmentID x = dep_EnvironmentID d) \<longrightarrow>
        policy_met src (request_of d) x)"
proof -
  obtain s where s: "EvaluateAdmission src (request_of d) = Inr s"
    using stored_deployment_accepted[OF assms(3,1)] accepted_admitted[OF assms(2) _ assms(4)] by blast
  have stage: "as_stage src (req_ProjectID (request_of d)) (req_EnvironmentID (request_of d)) = Some ''production''"
    using assms(5) by (simp add: request_of_def)
  obtain ps where ps: "as_policies src (req_OrganizationID (request_of d)) (req_ProjectID (request_of d)) = Some ps"
    using unreadable_policies[OF stage] s by (cases "as_policies src (req_OrganizationID (request_of d))
        (req_ProjectID (request_of d))") auto
  have known: "as_policies src (dep_OrganizationID d) (dep_ProjectID d) = Some ps"
    using ps by (simp add: request_of_def)
  have prod: "trim_space ''production'' = ''production''" by code_simp
  have mode: "EffectiveMode x ''production'' = Inr (Some DeploymentPolicyEnforced)" if "dp_Enabled x" for x
    using that by (simp add: EffectiveMode_def prod)
  have "\<forall>x \<in> set ps. \<not> skipped_policy (request_of d) x \<longrightarrow> policy_met src (request_of d) x"
    using EvaluateAdmission_decided(2)[OF stage ps _ _ s] assms(6)[OF known] mode
    by (auto simp: skipped_policy_def missed_policies_def)
  then show ?thesis using known by (auto simp: skipped_policy_def request_of_def)
qed

text \<open>The sample use case in the sample production environment.\<close>

definition production_env :: env where
  "production_env = sample_env\<lparr>env_admission := Some (EvaluateAdmission (sample_sources [sample_sbom]))\<rparr>"

lemma production_env_simps [simp]:
  "env_ctx production_env = None" "env_newID production_env n = Inr (replicate (Suc n) CHR ''i'')"
  "env_now production_env n = int n + 1000" "env_formal production_env = Some sample_refs"
  "env_transaction production_env = Some (ManagerDatabase None)"
  "env_json production_env = sample_json" "env_fence production_env = Some (\<lambda>_ _ _. Inr True)"
  "env_admission production_env = Some (EvaluateAdmission (sample_sources [sample_sbom]))"
  "env_audit production_env = env_audit sample_env"
  by (simp_all add: production_env_def)

lemma production_created:
  "\<exists>d w'. CreateFormal production_env sample_owner ''p'' ''r'' ''a'' ''e'' ''t'' ''k'' ''q'' sample_start = (Inr d, w') \<and>
     stored w' \<noteq> stored sample_start \<and> request_of d = sample_request"
proof -
  have [simp]: "mem_GetByIdempotency None NewMemoryRepository x y = Inl ErrNotFound" for x y
    by (simp add: mem_GetByIdempotency_def first_item_def NewMemoryRepository_def)
  obtain s where s: "EvaluateAdmission (sample_sources [sample_sbom]) sample_request = Inr s" "Decision s = AdmissionAdmitted"
    using sample_admitted by blast
  have v: "AdmissionSnapshot_Validate sample_json s = None"
    using s(1) EvaluateAdmission_valid by fastforce
  show ?thesis
    by (simp add: CreateFormal_def run_simps sample_start_def NewFormal_def New_def Let_def
        sample_Create_eval audit_event_def CutoverScope_def s(1)[unfolded sample_request_def] s(2) v stored_def
        request_of_def sample_request_def)
qed

theorem production_meets_policies_witness:
  "\<exists>d. request_of d = sample_request \<and> policy_met (sample_sources [sample_sbom]) (request_of d) sample_policy"
proof -
  obtain d w' where d: "CreateFormal production_env sample_owner ''p'' ''r'' ''a'' ''e'' ''t'' ''k'' ''q'' sample_start = (Inr d, w')"
    "stored w' \<noteq> stored sample_start" "request_of d = sample_request"
    using production_created by blast
  have e: "dep_EnvironmentID d = ''e''" using d(3) by (simp add: request_of_def sample_request_def)
  have "\<exists>ps. as_policies (sample_sources [sample_sbom]) (dep_OrganizationID d) (dep_ProjectID d) = Some ps \<and>
     (\<forall>x \<in> set ps. dp_Enabled x \<and>
        (dp_Scope x = PolicyScopeEnvironment \<longrightarrow> dp_EnvironmentID x = dep_EnvironmentID d) \<longrightarrow>
        policy_met (sample_sources [sample_sbom]) (request_of d) x)"
    by (rule production_meets_policies[OF _ _ sd_create[OF d(1)] d(2)]) (use sample_policy_stored in auto)
  with d(3) e show ?thesis by (auto simp: sample_policy_def)
qed

text \<open>
  The report parser trims a severity before it counts it, the evaluator does not: a finding of severity
  \<open>HIGH\<close> after a blank is accepted in the report, and the counts that remain do not add up, so that the
  admission is unavailable.
\<close>

lemma increment_does_not_trim:
  "let f = \<lparr>tf_VulnerabilityID = ''C'', tf_Severity = '' HIGH'', tf_FixedVersion = []\<rparr> in
     count_findings sample_library [f] zero_counts = Inr (zero_counts\<lparr>vc_High := 1, vc_Total := 1\<rparr>) \<and>
     incrementVulnerabilityCounts sample_library f zero_counts = zero_counts\<lparr>vc_Total := 1\<rparr> \<and>
     \<not> validAdmissionCounts (admissionCounts (incrementVulnerabilityCounts sample_library f zero_counts))"
  by code_simp

end
