(* ===== verification/EvidenceJob.thy ===== *)
theory EvidenceJob
  imports SupplyTrust LeaseContract
begin

text \<open>
  The jobs of the evidence worker (\<open>internal/modules/supplychain/biz/{job,provenance,signing_profile}.go\<close>):
  the recipe a provenance document is made from, the life cycle of a job and its lease, and what holds of a
  job over any steps of its holders.
\<close>

section \<open>Provenance recipes\<close>

text \<open>\<open>strings.LastIndex\<close>.\<close>

definition last_index :: "string \<Rightarrow> string \<Rightarrow> nat option" where
  "last_index s p = find (\<lambda>i. has_prefix (drop i s) p) (rev [0..<Suc (length s)])"

definition validDigestPinnedImage :: "string \<Rightarrow> bool" where
  "validDigestPinnedImage value =
     (let marker = ''@sha256:'' in
      case last_index value marker of
        None \<Rightarrow> False
      | Some i \<Rightarrow>
          if i = 0 \<or> length (drop (i + length marker) value) \<noteq> 64 then False
          else hex_decodable (drop (i + length marker) value))"

definition validRelativeBuildPath :: "string \<Rightarrow> bool \<Rightarrow> bool" where
  "validRelativeBuildPath value allowDot =
     (if value = ''.'' then allowDot
      else value \<noteq> [] \<and> length value \<le> 1024 \<and> trim_space value = value \<and> \<not> has_prefix value ''/'' \<and>
        \<not> contains value ''..'' \<and> \<not> list_ex (\<lambda>c. c \<in> set [CHR 0x5C, CHR 0x00, CHR 0x0D, CHR 0x0A]) value)"

definition validProvenanceURI :: "supply_library \<Rightarrow> string \<Rightarrow> string list \<Rightarrow> bool" where
  "validProvenanceURI lib value schemes =
     (if value = [] \<or> 2048 < length value \<or> trim_space value \<noteq> value then False
      else (case sl_request_uri lib value of
          None \<Rightarrow> False
        | Some u \<Rightarrow>
            if url_Scheme u = [] \<or> url_Host u = [] \<or> url_Hostname u = [] \<or> url_HasUser u \<or>
               url_RawQuery u \<noteq> [] \<or> url_Fragment u \<noteq> [] then False
            else url_Scheme u \<in> set schemes))"

record ProvenanceRecipe =
  pr_BuildID :: string
  pr_ApplicationID :: string
  pr_SourceURI :: string
  pr_SourceRef :: string
  pr_CommitSHA :: string
  pr_ConfigurationID :: string
  pr_ConfigurationVersion :: u64
  pr_DockerfilePath :: string
  pr_ContextPath :: string
  pr_TargetPlatform :: string
  pr_CPUMilli :: int
  pr_MemoryBytes :: int
  pr_DiskBytes :: int
  pr_TimeoutSeconds :: int
  pr_BuilderID :: string
  pr_BuilderVersion :: string
  pr_BuilderCommit :: string
  pr_BuildKitVersion :: string
  pr_BuildKitImage :: string
  pr_FrontendImage :: string
  pr_StartedAt :: time
  pr_FinishedAt :: time

definition empty_recipe :: ProvenanceRecipe where
  "empty_recipe = \<lparr>pr_BuildID = [], pr_ApplicationID = [], pr_SourceURI = [], pr_SourceRef = [], pr_CommitSHA = [],
     pr_ConfigurationID = [], pr_ConfigurationVersion = 0, pr_DockerfilePath = [], pr_ContextPath = [],
     pr_TargetPlatform = [], pr_CPUMilli = 0, pr_MemoryBytes = 0, pr_DiskBytes = 0, pr_TimeoutSeconds = 0,
     pr_BuilderID = [], pr_BuilderVersion = [], pr_BuilderCommit = [], pr_BuildKitVersion = [],
     pr_BuildKitImage = [], pr_FrontendImage = [], pr_StartedAt = 0, pr_FinishedAt = 0\<rparr>"

definition OwnDockBuildKitBuilderIDV1 :: string where
  "OwnDockBuildKitBuilderIDV1 = ''https://owndock.net/builders/buildkit/v1''"

definition Recipe_Validate :: "supply_library \<Rightarrow> ProvenanceRecipe \<Rightarrow> supply_error option" where
  "Recipe_Validate lib r =
     (if \<not> supply_validID (trim_space (pr_BuildID r)) \<or> \<not> supply_validID (trim_space (pr_ApplicationID r)) \<or>
         \<not> validProvenanceURI lib (pr_SourceURI r) [''git+https'', ''git+ssh''] \<or>
         \<not> validText (trim_space (pr_SourceRef r)) 512 \<or> \<not> commitSHAPattern (pr_CommitSHA r) \<or>
         \<not> supply_validID (trim_space (pr_ConfigurationID r)) \<or> pr_ConfigurationVersion r = 0 \<or>
         \<not> validRelativeBuildPath (pr_DockerfilePath r) False \<or> \<not> validRelativeBuildPath (pr_ContextPath r) True \<or>
         (pr_TargetPlatform r \<noteq> ''linux/amd64'' \<and> pr_TargetPlatform r \<noteq> ''linux/arm64'') \<or>
         pr_CPUMilli r < 100 \<or> pr_CPUMilli r > 16000 \<or>
         pr_MemoryBytes r < 128 * 1024 * 1024 \<or> pr_MemoryBytes r > 32 * 1024 * 1024 * 1024 \<or>
         pr_DiskBytes r < 1024 * 1024 * 1024 \<or> pr_DiskBytes r > 200 * 1024 * 1024 * 1024 \<or>
         pr_TimeoutSeconds r < 60 \<or> pr_TimeoutSeconds r > 2 * 60 * 60 \<or>
         pr_BuilderID r \<noteq> OwnDockBuildKitBuilderIDV1 \<or>
         \<not> validText (trim_space (pr_BuilderVersion r)) 128 \<or> \<not> validText (trim_space (pr_BuilderCommit r)) 128 \<or>
         \<not> validText (trim_space (pr_BuildKitVersion r)) 128 \<or>
         \<not> validDigestPinnedImage (pr_BuildKitImage r) \<or> \<not> validDigestPinnedImage (pr_FrontendImage r) \<or>
         is_zero (pr_StartedAt r) \<or> is_zero (pr_FinishedAt r) \<or> pr_FinishedAt r < pr_StartedAt r
      then Some ErrInvalidEvidenceJob else None)"

section \<open>Jobs\<close>

datatype EvidenceJobStatus =
    EvidenceJobQueued | EvidenceJobGenerating | EvidenceJobPublishing | EvidenceJobVerifying
  | EvidenceJobSucceeded | EvidenceJobFailed | EvidenceJobStatusOther string

fun JobStatus_Valid :: "EvidenceJobStatus \<Rightarrow> bool" where
  "JobStatus_Valid (EvidenceJobStatusOther _) = False"
| "JobStatus_Valid _ = True"

text \<open>\<open>JobFailureOther []\<close> is no failure.\<close>

datatype EvidenceJobFailure =
    EvidenceJobFailureImagePull | EvidenceJobFailureResourceLimit | EvidenceJobFailureGeneration
  | EvidenceJobFailureRegistryPublish | EvidenceJobFailureSignatureTrust | EvidenceJobFailureSignatureVerify
  | EvidenceJobFailureSignatureSign | EvidenceJobFailureUnknown | JobFailureOther string

fun JobFailure_Valid :: "EvidenceJobFailure \<Rightarrow> bool" where
  "JobFailure_Valid (JobFailureOther _) = False"
| "JobFailure_Valid _ = True"

datatype SignatureJobOperation = SignatureOperationVerify | SignatureOperationSignAndVerify | OperationOther string

fun SignatureOperation_Valid :: "SignatureJobOperation \<Rightarrow> bool" where
  "SignatureOperation_Valid (OperationOther _) = False"
| "SignatureOperation_Valid _ = True"

record EvidenceLease =
  elease_Owner :: string
  elease_ExpiresAt :: time
  elease_Generation :: u64

definition empty_elease :: EvidenceLease where
  "empty_elease = \<lparr>elease_Owner = [], elease_ExpiresAt = 0, elease_Generation = 0\<rparr>"

definition EvidenceLease_Active :: "EvidenceLease \<Rightarrow> time \<Rightarrow> bool" where
  "EvidenceLease_Active l now \<longleftrightarrow> supply_validID (trim_space (elease_Owner l)) \<and> after (elease_ExpiresAt l) now"

record EvidenceClaim =
  eclaim_WorkerID :: string
  eclaim_Now :: time
  eclaim_ExpiresAt :: time
  eclaim_Kinds :: "EvidenceKind list"

text \<open>Every kind is valid and none repeats.\<close>

fun claim_kinds_ok :: "EvidenceKind list \<Rightarrow> EvidenceKind set \<Rightarrow> bool" where
  "claim_kinds_ok [] seen \<longleftrightarrow> True"
| "claim_kinds_ok (k # ks) seen \<longleftrightarrow> EvidenceKind_Valid k \<and> k \<notin> seen \<and> claim_kinds_ok ks (insert k seen)"

definition EvidenceClaim_Validate :: "EvidenceClaim \<Rightarrow> supply_error option" where
  "EvidenceClaim_Validate c =
     (if \<not> supply_validID (trim_space (eclaim_WorkerID c)) \<or> is_zero (eclaim_Now c) \<or>
         \<not> after (eclaim_ExpiresAt c) (eclaim_Now c) then Some ErrInvalidEvidenceJob
      else if \<not> claim_kinds_ok (eclaim_Kinds c) {} then Some ErrInvalidEvidenceJob else None)"

record EvidenceJob =
  ej_ID :: string
  ej_OrganizationID :: string
  ej_ProjectID :: string
  ej_ArtifactID :: string
  ej_SubjectDigest :: string
  ej_RegistryRepository :: string
  ej_RegistryCredentialID :: string
  ej_Kind :: EvidenceKind
  ej_FormatVersion :: string
  ej_Producer :: string
  ej_Provenance :: ProvenanceRecipe
  ej_Signature :: SignatureTrustSnapshot
  ej_SignatureOperation :: SignatureJobOperation
  ej_Signing :: SignatureSigningSnapshot
  ej_IdempotencyKey :: string
  ej_Status :: EvidenceJobStatus
  ej_Failure :: EvidenceJobFailure
  ej_Version :: u64
  ej_Lease :: EvidenceLease
  ej_CreatedAt :: time
  ej_UpdatedAt :: time
  ej_StartedAt :: time
  ej_FinishedAt :: time

text \<open>The parsers a job is checked with.\<close>

record job_library =
  jl_supply :: supply_library
  jl_keys :: key_library

definition CosignSignatureFormatV03 :: string where
  "CosignSignatureFormatV03 = ''sigstore-bundle-0.3''"

definition PinnedTrivyVersion :: string where
  "PinnedTrivyVersion = ''0.74.0''"

definition lease_none :: "EvidenceLease \<Rightarrow> bool" where
  "lease_none l \<longleftrightarrow> elease_Owner l = [] \<and> is_zero (elease_ExpiresAt l) \<and> elease_Generation l = 0"

definition lease_complete :: "EvidenceLease \<Rightarrow> bool" where
  "lease_complete l \<longleftrightarrow> supply_validID (elease_Owner l) \<and> \<not> is_zero (elease_ExpiresAt l) \<and> elease_Generation l > 0"

definition provenance_ok :: "job_library \<Rightarrow> EvidenceJob \<Rightarrow> bool" where
  "provenance_ok lib j \<longleftrightarrow>
     ej_Kind j = EvidenceKindProvenance \<and> ej_FormatVersion j = SLSAProvenanceFormatVersion \<and>
       Recipe_Validate (jl_supply lib) (ej_Provenance j) = None \<or>
     ej_Kind j \<noteq> EvidenceKindProvenance \<and> ej_Provenance j = empty_recipe"

definition signature_ok :: "job_library \<Rightarrow> EvidenceJob \<Rightarrow> bool" where
  "signature_ok lib j \<longleftrightarrow>
     ej_Kind j = EvidenceKindSignature \<and> ej_FormatVersion j = CosignSignatureFormatV03 \<and>
       TrustSnapshot_Validate (jl_supply lib) (jl_keys lib) (ej_Signature j) = None \<and>
       SignatureOperation_Valid (ej_SignatureOperation j) \<and>
       (ej_SignatureOperation j = SignatureOperationVerify \<and> ej_Signing j = empty_signing_snapshot \<or>
        ej_SignatureOperation j = SignatureOperationSignAndVerify \<and>
          SigningSnapshot_Validate (jl_supply lib) (ej_Signing j) = None \<and>
          sss_TrustPolicyID (ej_Signing j) = sts_PolicyID (ej_Signature j) \<and>
          sts_Mode (ej_Signature j) = SignatureTrustPublicKey) \<or>
     ej_Kind j \<noteq> EvidenceKindSignature \<and> ej_Signature j = empty_trust_snapshot \<and>
       ej_SignatureOperation j = OperationOther [] \<and> ej_Signing j = empty_signing_snapshot"

definition vulnerability_ok :: "EvidenceJob \<Rightarrow> bool" where
  "vulnerability_ok j \<longleftrightarrow>
     ej_Kind j \<noteq> EvidenceKindVulnerabilityReport \<or>
     ej_FormatVersion j = TrivyReportFormatVersion \<and> ej_Producer j = ''trivy/'' @ PinnedTrivyVersion"

text \<open>What a job is about: every field but its status, failure, version, lease and times.\<close>

definition job_subject_ok :: "job_library \<Rightarrow> EvidenceJob \<Rightarrow> bool" where
  "job_subject_ok lib j \<longleftrightarrow>
     supply_validID (ej_ID j) \<and> supply_validID (ej_OrganizationID j) \<and> supply_validID (ej_ProjectID j) \<and>
     supply_validID (ej_ArtifactID j) \<and> validDigest (jl_supply lib) (ej_SubjectDigest j) \<and>
     validRepository (jl_supply lib) (ej_RegistryRepository j) \<and> supply_validID (ej_RegistryCredentialID j) \<and>
     EvidenceKind_Valid (ej_Kind j) \<and> validText (ej_FormatVersion j) 64 \<and> validText (ej_Producer j) 200 \<and>
     provenance_ok lib j \<and> signature_ok lib j \<and> vulnerability_ok j \<and> supply_validID (ej_IdempotencyKey j)"

definition job_common_ok :: "EvidenceJob \<Rightarrow> bool" where
  "job_common_ok j \<longleftrightarrow>
     JobStatus_Valid (ej_Status j) \<and> ej_Version j > 0 \<and> \<not> is_zero (ej_CreatedAt j) \<and> \<not> is_zero (ej_UpdatedAt j) \<and>
     \<not> ej_UpdatedAt j < ej_CreatedAt j \<and> (lease_none (ej_Lease j) \<or> lease_complete (ej_Lease j))"

definition job_status_ok :: "EvidenceJob \<Rightarrow> bool" where
  "job_status_ok j \<longleftrightarrow>
     (case ej_Status j of
        EvidenceJobQueued \<Rightarrow>
          is_zero (ej_StartedAt j) \<and> is_zero (ej_FinishedAt j) \<and> ej_Failure j = JobFailureOther []
      | EvidenceJobSucceeded \<Rightarrow>
          \<not> is_zero (ej_StartedAt j) \<and> \<not> is_zero (ej_FinishedAt j) \<and> ej_Failure j = JobFailureOther [] \<and>
          lease_none (ej_Lease j)
      | EvidenceJobFailed \<Rightarrow>
          \<not> is_zero (ej_StartedAt j) \<and> \<not> is_zero (ej_FinishedAt j) \<and> JobFailure_Valid (ej_Failure j) \<and>
          lease_none (ej_Lease j)
      | EvidenceJobStatusOther _ \<Rightarrow> True
      | _ \<Rightarrow>
          \<not> is_zero (ej_StartedAt j) \<and> is_zero (ej_FinishedAt j) \<and> ej_Failure j = JobFailureOther [] \<and>
          lease_complete (ej_Lease j))"

definition EvidenceJob_Validate :: "job_library \<Rightarrow> EvidenceJob \<Rightarrow> supply_error option" where
  "EvidenceJob_Validate lib j =
     (if \<not> (job_subject_ok lib j \<and> job_common_ok j) then Some ErrInvalidEvidenceJob
      else if \<not> job_status_ok j then Some ErrInvalidEvidenceJob else None)"

text \<open>The input is a job; its status, version, lease, failure and later times are the constructor's.\<close>

definition NewEvidenceJob :: "job_library \<Rightarrow> EvidenceJob \<Rightarrow> supply_error + EvidenceJob" where
  "NewEvidenceJob lib input =
     (let now = utc (ej_CreatedAt input);
          item = \<lparr>ej_ID = trim_space (ej_ID input), ej_OrganizationID = trim_space (ej_OrganizationID input),
            ej_ProjectID = trim_space (ej_ProjectID input), ej_ArtifactID = trim_space (ej_ArtifactID input),
            ej_SubjectDigest = trim_space (ej_SubjectDigest input),
            ej_RegistryRepository = trim_space (ej_RegistryRepository input),
            ej_RegistryCredentialID = trim_space (ej_RegistryCredentialID input), ej_Kind = ej_Kind input,
            ej_FormatVersion = trim_space (ej_FormatVersion input), ej_Producer = trim_space (ej_Producer input),
            ej_Provenance = ej_Provenance input, ej_Signature = ej_Signature input,
            ej_SignatureOperation = (if ej_Kind input = EvidenceKindSignature \<and>
                ej_SignatureOperation input = OperationOther [] then SignatureOperationVerify
              else ej_SignatureOperation input),
            ej_Signing = ej_Signing input,
            ej_IdempotencyKey = (if trim_space (ej_IdempotencyKey input) = [] then trim_space (ej_ID input)
              else trim_space (ej_IdempotencyKey input)),
            ej_Status = EvidenceJobQueued, ej_Failure = JobFailureOther [], ej_Version = 1, ej_Lease = empty_elease,
            ej_CreatedAt = now, ej_UpdatedAt = now, ej_StartedAt = 0, ej_FinishedAt = 0\<rparr>
      in case EvidenceJob_Validate lib item of Some err \<Rightarrow> Inl err | None \<Rightarrow> Inr item)"

definition Job_Terminal :: "EvidenceJob \<Rightarrow> bool" where
  "Job_Terminal j \<longleftrightarrow> ej_Status j = EvidenceJobSucceeded \<or> ej_Status j = EvidenceJobFailed"

definition Job_Acquire :: "EvidenceJob \<Rightarrow> EvidenceClaim \<Rightarrow> supply_error + EvidenceJob" where
  "Job_Acquire j c =
     (case EvidenceClaim_Validate c of
        Some err \<Rightarrow> Inl err
      | None \<Rightarrow>
          if Job_Terminal j \<or> EvidenceLease_Active (ej_Lease j) (eclaim_Now c) then Inl ErrEvidenceJobNotClaimable
          else Inr (j\<lparr>ej_Lease := \<lparr>elease_Owner = trim_space (eclaim_WorkerID c),
                 elease_ExpiresAt = utc (eclaim_ExpiresAt c),
                 elease_Generation = elease_Generation (ej_Lease j) + 1\<rparr>,
               ej_UpdatedAt := utc (eclaim_Now c)\<rparr>))"

definition Job_Renew ::
  "EvidenceJob \<Rightarrow> string \<Rightarrow> u64 \<Rightarrow> time \<Rightarrow> time \<Rightarrow> supply_error + EvidenceJob" where
  "Job_Renew j owner generation now expiresAt =
     (if elease_Owner (ej_Lease j) \<noteq> trim_space owner \<or> elease_Generation (ej_Lease j) \<noteq> generation \<or>
         \<not> EvidenceLease_Active (ej_Lease j) now \<or> \<not> after expiresAt now then Inl ErrEvidenceLeaseExpired
      else Inr (j\<lparr>ej_Lease := (ej_Lease j)\<lparr>elease_ExpiresAt := utc expiresAt\<rparr>, ej_UpdatedAt := utc now\<rparr>))"

fun job_edge :: "EvidenceJobStatus \<Rightarrow> EvidenceJobStatus \<Rightarrow> bool" where
  "job_edge EvidenceJobQueued t \<longleftrightarrow> t = EvidenceJobGenerating \<or> t = EvidenceJobVerifying"
| "job_edge EvidenceJobGenerating t \<longleftrightarrow> t = EvidenceJobPublishing \<or> t = EvidenceJobFailed"
| "job_edge EvidenceJobPublishing t \<longleftrightarrow> t = EvidenceJobSucceeded \<or> t = EvidenceJobFailed"
| "job_edge EvidenceJobVerifying t \<longleftrightarrow> t = EvidenceJobSucceeded \<or> t = EvidenceJobFailed"
| "job_edge _ t \<longleftrightarrow> False"

definition Job_Transition :: "EvidenceJob \<Rightarrow> EvidenceJobStatus \<Rightarrow> time \<Rightarrow> supply_error + EvidenceJob" where
  "Job_Transition j next_status now =
     (if \<not> job_edge (ej_Status j) next_status \<or> is_zero now then Inl ErrInvalidEvidenceJob
      else
        (let a = j\<lparr>ej_Status := next_status, ej_UpdatedAt := utc now\<rparr>;
             b = (if (next_status = EvidenceJobGenerating \<or> next_status = EvidenceJobVerifying) \<and>
                    is_zero (ej_StartedAt a) then a\<lparr>ej_StartedAt := utc now\<rparr> else a);
             c = (if next_status \<noteq> EvidenceJobFailed then b\<lparr>ej_Failure := JobFailureOther []\<rparr> else b)
         in Inr (if Job_Terminal c then c\<lparr>ej_FinishedAt := utc now, ej_Lease := empty_elease\<rparr> else c)))"

definition Job_Fail :: "EvidenceJob \<Rightarrow> EvidenceJobFailure \<Rightarrow> time \<Rightarrow> supply_error + EvidenceJob" where
  "Job_Fail j failure now =
     (if \<not> JobFailure_Valid failure then Inl ErrInvalidEvidenceJob
      else bind_result (Job_Transition j EvidenceJobFailed now) (\<lambda>k. Inr (k\<lparr>ej_Failure := failure\<rparr>)))"

section \<open>The life of a job\<close>

text \<open>What a job is about; nobody changes it.\<close>

definition job_core :: "EvidenceJob \<Rightarrow> EvidenceJob" where
  "job_core j = j\<lparr>ej_Status := EvidenceJobQueued, ej_Failure := JobFailureOther [], ej_Version := 0,
     ej_Lease := empty_elease, ej_UpdatedAt := 0, ej_StartedAt := 0, ej_FinishedAt := 0\<rparr>"

lemma job_core_update [simp]:
  "job_core (j\<lparr>ej_Status := a\<rparr>) = job_core j" "job_core (j\<lparr>ej_Failure := b\<rparr>) = job_core j"
  "job_core (j\<lparr>ej_Version := v\<rparr>) = job_core j" "job_core (j\<lparr>ej_Lease := l\<rparr>) = job_core j"
  "job_core (j\<lparr>ej_UpdatedAt := t\<rparr>) = job_core j" "job_core (j\<lparr>ej_StartedAt := t\<rparr>) = job_core j"
  "job_core (j\<lparr>ej_FinishedAt := t\<rparr>) = job_core j"
  by (simp_all add: job_core_def)

lemma job_subject_ok_core: "job_subject_ok lib j \<longleftrightarrow> job_subject_ok lib (job_core j)"
  by (simp add: job_subject_ok_def provenance_ok_def signature_ok_def vulnerability_ok_def job_core_def)

lemma job_core_fields:
  assumes "job_core k = job_core j"
  shows "ej_ID k = ej_ID j" "ej_OrganizationID k = ej_OrganizationID j" "ej_ProjectID k = ej_ProjectID j"
    "ej_ArtifactID k = ej_ArtifactID j" "ej_SubjectDigest k = ej_SubjectDigest j" "ej_Kind k = ej_Kind j"
    "ej_RegistryRepository k = ej_RegistryRepository j" "ej_RegistryCredentialID k = ej_RegistryCredentialID j"
    "ej_FormatVersion k = ej_FormatVersion j" "ej_Producer k = ej_Producer j" "ej_Signature k = ej_Signature j"
    "ej_SignatureOperation k = ej_SignatureOperation j" "ej_Signing k = ej_Signing j" "ej_CreatedAt k = ej_CreatedAt j"
    "ej_Provenance k = ej_Provenance j"
  using arg_cong[OF assms, of ej_ID] arg_cong[OF assms, of ej_OrganizationID]
    arg_cong[OF assms, of ej_ProjectID] arg_cong[OF assms, of ej_ArtifactID]
    arg_cong[OF assms, of ej_SubjectDigest] arg_cong[OF assms, of ej_Kind]
    arg_cong[OF assms, of ej_RegistryRepository] arg_cong[OF assms, of ej_RegistryCredentialID]
    arg_cong[OF assms, of ej_FormatVersion] arg_cong[OF assms, of ej_Producer]
    arg_cong[OF assms, of ej_Signature] arg_cong[OF assms, of ej_SignatureOperation]
    arg_cong[OF assms, of ej_Signing] arg_cong[OF assms, of ej_CreatedAt]
    arg_cong[OF assms, of ej_Provenance]
  by (simp_all add: job_core_def)

fun job_rank :: "EvidenceJobStatus \<Rightarrow> nat" where
  "job_rank EvidenceJobQueued = 0"
| "job_rank EvidenceJobGenerating = 1"
| "job_rank EvidenceJobVerifying = 2"
| "job_rank EvidenceJobPublishing = 2"
| "job_rank _ = 3"

lemma job_edge_rank: "job_edge s t \<Longrightarrow> job_rank s < job_rank t \<and> JobStatus_Valid t \<and> t \<noteq> EvidenceJobQueued"
  by (cases s) auto

lemma Validate_iff:
  "EvidenceJob_Validate lib j = None \<longleftrightarrow> job_subject_ok lib j \<and> job_common_ok j \<and> job_status_ok j"
  by (auto simp: EvidenceJob_Validate_def)

lemma NewEvidenceJob_valid:
  "NewEvidenceJob lib input = Inr j \<Longrightarrow> EvidenceJob_Validate lib j = None \<and> ej_Status j = EvidenceJobQueued"
  by (auto simp: NewEvidenceJob_def Let_def split: option.splits)

text \<open>
  The steps of a job: what its holders do at times after its creation, the version the queue counts, and
  acquisitions that do not wrap the generation around. A holder has a complete lease.
\<close>

inductive job_step :: "EvidenceJob \<Rightarrow> EvidenceJob \<Rightarrow> bool" where
  step_acquire: "Job_Acquire j c = Inr k \<Longrightarrow> 0 < eclaim_Now c \<Longrightarrow> ej_CreatedAt j \<le> eclaim_Now c \<Longrightarrow>
    elease_Generation (ej_Lease j) + 1 \<noteq> 0 \<Longrightarrow> job_step j k"
| step_renew: "Job_Renew j w g now t = Inr k \<Longrightarrow> 0 < now \<Longrightarrow> ej_CreatedAt j \<le> now \<Longrightarrow> job_step j k"
| step_transition: "Job_Transition j s now = Inr k \<Longrightarrow> s \<noteq> EvidenceJobFailed \<Longrightarrow> ej_CreatedAt j \<le> now \<Longrightarrow>
    lease_complete (ej_Lease j) \<Longrightarrow> job_step j k"
| step_fail: "Job_Fail j f now = Inr k \<Longrightarrow> ej_CreatedAt j \<le> now \<Longrightarrow> lease_complete (ej_Lease j) \<Longrightarrow> job_step j k"
| step_version: "0 < v \<Longrightarrow> job_step j (j\<lparr>ej_Version := v\<rparr>)"

lemma Job_Acquire_Inr:
  "Job_Acquire j c = Inr k \<longleftrightarrow> EvidenceClaim_Validate c = None \<and> \<not> Job_Terminal j \<and>
     \<not> EvidenceLease_Active (ej_Lease j) (eclaim_Now c) \<and>
     k = j\<lparr>ej_Lease := \<lparr>elease_Owner = trim_space (eclaim_WorkerID c), elease_ExpiresAt = eclaim_ExpiresAt c,
            elease_Generation = elease_Generation (ej_Lease j) + 1\<rparr>, ej_UpdatedAt := eclaim_Now c\<rparr>"
  by (auto simp: Job_Acquire_def utc_def split: option.split)

lemma EvidenceClaim_Validate_None:
  "EvidenceClaim_Validate c = None \<longleftrightarrow> supply_validID (trim_space (eclaim_WorkerID c)) \<and> \<not> is_zero (eclaim_Now c) \<and>
     eclaim_Now c < eclaim_ExpiresAt c \<and> claim_kinds_ok (eclaim_Kinds c) {}"
  by (auto simp: EvidenceClaim_Validate_def)

lemma Job_Transition_Inr:
  "Job_Transition j s now = Inr k \<longleftrightarrow> job_edge (ej_Status j) s \<and> \<not> is_zero now \<and>
     k = (if s = EvidenceJobSucceeded \<or> s = EvidenceJobFailed
       then j\<lparr>ej_Status := s, ej_UpdatedAt := now, ej_FinishedAt := now, ej_Lease := empty_elease,
         ej_Failure := (if s = EvidenceJobFailed then ej_Failure j else JobFailureOther [])\<rparr>
       else j\<lparr>ej_Status := s, ej_UpdatedAt := now, ej_Failure := JobFailureOther [],
         ej_StartedAt := (if (s = EvidenceJobGenerating \<or> s = EvidenceJobVerifying) \<and> is_zero (ej_StartedAt j) then now
           else ej_StartedAt j)\<rparr>)"
  by (auto simp: Job_Transition_def Let_def utc_def Job_Terminal_def)

lemma Job_Fail_Inr:
  "Job_Fail j f now = Inr k \<longleftrightarrow> JobFailure_Valid f \<and> job_edge (ej_Status j) EvidenceJobFailed \<and> \<not> is_zero now \<and>
     k = j\<lparr>ej_Status := EvidenceJobFailed, ej_UpdatedAt := now, ej_FinishedAt := now, ej_Lease := empty_elease,
       ej_Failure := f\<rparr>"
  by (auto simp: Job_Fail_def Job_Transition_Inr bind_result_eq_Inr)

lemma Job_Renew_Inr:
  "Job_Renew j w g now t = Inr k \<longleftrightarrow> elease_Owner (ej_Lease j) = trim_space w \<and> elease_Generation (ej_Lease j) = g \<and>
     EvidenceLease_Active (ej_Lease j) now \<and> now < t \<and>
     k = j\<lparr>ej_Lease := (ej_Lease j)\<lparr>elease_ExpiresAt := t\<rparr>, ej_UpdatedAt := now\<rparr>"
  by (auto simp: Job_Renew_def utc_def)

lemma supply_validID_ne: "supply_validID s \<Longrightarrow> s \<noteq> []"
  unfolding supply_validID_def by (blast dest: matches_id_ne_Nil)

lemma elease_cases: "\<not> (lease_none l \<and> lease_complete l)"
  unfolding lease_none_def lease_complete_def by auto

lemma job_step_valid:
  assumes "job_step j k" "EvidenceJob_Validate lib j = None"
  shows "EvidenceJob_Validate lib k = None"
proof -
  note v = assms(2)[unfolded Validate_iff]
  have core: "job_core k = job_core j"
    using assms(1) by cases (auto simp: Job_Acquire_Inr Job_Renew_Inr Job_Transition_Inr Job_Fail_Inr)
  then have "job_subject_ok lib k" using v job_subject_ok_core by metis
  moreover have "job_common_ok k \<and> job_status_ok k"
    using assms(1)
  proof cases
    case (step_acquire c)
    then have "lease_complete (ej_Lease k)" "ej_Status j \<noteq> EvidenceJobSucceeded" "ej_Status j \<noteq> EvidenceJobFailed"
      by (auto simp: Job_Acquire_Inr EvidenceClaim_Validate_None lease_complete_def Job_Terminal_def word_gt_0)
    with step_acquire v show ?thesis
      by (auto simp: Job_Acquire_Inr job_common_ok_def job_status_ok_def split: EvidenceJobStatus.split)
  next
    case (step_renew w g now t)
    then have "lease_complete (ej_Lease j)" "lease_complete (ej_Lease k)"
      using v elease_cases by (auto simp: Job_Renew_Inr job_common_ok_def lease_complete_def lease_none_def
          EvidenceLease_Active_def dest: supply_validID_ne)
    with step_renew v show ?thesis
      using elease_cases by (auto simp: Job_Renew_Inr job_common_ok_def job_status_ok_def split: EvidenceJobStatus.splits)
  next
    case (step_transition s now)
    then show ?thesis using v
      by (cases "ej_Status j") (auto simp: Job_Transition_Inr job_common_ok_def job_status_ok_def
          lease_none_def empty_elease_def split: if_splits)
  next
    case (step_fail f now)
    then show ?thesis using v
      by (cases "ej_Status j") (auto simp: Job_Fail_Inr job_common_ok_def job_status_ok_def
          lease_none_def empty_elease_def)
  next
    case (step_version v)
    with v show ?thesis by (auto simp: job_common_ok_def job_status_ok_def split: EvidenceJobStatus.splits)
  qed
  ultimately show ?thesis by (simp add: Validate_iff)
qed

lemma job_step_progress:
  assumes "job_step j k" "EvidenceJob_Validate lib j = None"
  shows "job_core k = job_core j \<and> (ej_Status k = ej_Status j \<or> job_rank (ej_Status j) < job_rank (ej_Status k)) \<and>
     (Job_Terminal j \<longrightarrow> k\<lparr>ej_Version := ej_Version j\<rparr> = j)"
proof -
  have no: "\<not> Job_Terminal j" if "lease_complete (ej_Lease j)"
    using that assms(2)[unfolded Validate_iff] elease_cases
    by (auto simp: Job_Terminal_def job_status_ok_def)
  have renewed: "lease_complete (ej_Lease j)" if "EvidenceLease_Active (ej_Lease j) now" for now
    using that assms(2)[unfolded Validate_iff]
    by (auto simp: EvidenceLease_Active_def job_common_ok_def lease_none_def dest: supply_validID_ne)
  show ?thesis
    using assms(1) by cases (auto simp: Job_Acquire_Inr Job_Renew_Inr Job_Transition_Inr Job_Fail_Inr
        dest: job_edge_rank renewed no)
qed

lemma job_steps_keep:
  assumes "job_step\<^sup>*\<^sup>* j k" "EvidenceJob_Validate lib j = None"
  shows "EvidenceJob_Validate lib k = None \<and> job_core k = job_core j \<and>
     (ej_Status k = ej_Status j \<or> job_rank (ej_Status j) < job_rank (ej_Status k)) \<and>
     (Job_Terminal j \<longrightarrow> k\<lparr>ej_Version := ej_Version j\<rparr> = j)"
  using assms(1)
proof (induction rule: rtranclp_induct)
  case base
  with assms(2) show ?case by simp
next
  case (step k l)
  from step.IH have valid: "EvidenceJob_Validate lib k = None" by blast
  note next_step = job_step_progress[OF step.hyps(2) valid] job_step_valid[OF step.hyps(2) valid]
  have "l\<lparr>ej_Version := ej_Version j\<rparr> = j" if "Job_Terminal j"
  proof -
    have kj: "k\<lparr>ej_Version := ej_Version j\<rparr> = j" using step.IH that by blast
    then have "ej_Status k = ej_Status j" by (auto dest: arg_cong[of _ _ ej_Status])
    then have "l\<lparr>ej_Version := ej_Version k\<rparr> = k" using next_step(1) that by (auto simp: Job_Terminal_def)
    then have "l\<lparr>ej_Version := ej_Version k\<rparr>\<lparr>ej_Version := ej_Version j\<rparr> = k\<lparr>ej_Version := ej_Version j\<rparr>" by simp
    then show ?thesis using kj by simp
  qed
  with next_step step.IH show ?case by auto
qed

section \<open>The lease of a job\<close>

definition job_acquire :: "string \<Rightarrow> time \<Rightarrow> time \<Rightarrow> EvidenceJob \<Rightarrow> supply_error + EvidenceJob" where
  "job_acquire w now until j =
     Job_Acquire j \<lparr>eclaim_WorkerID = w, eclaim_Now = now, eclaim_ExpiresAt = until, eclaim_Kinds = []\<rparr>"

interpretation job_lease: leased_item job_acquire "\<lambda>j. elease_Owner (ej_Lease j)"
  "\<lambda>j. elease_ExpiresAt (ej_Lease j)" "\<lambda>j. elease_Generation (ej_Lease j)"
  "\<lambda>w. supply_validID (trim_space w)" trim_space
proof unfold_locales
  fix w now until and x y :: EvidenceJob
  assume a: "job_acquire w now until x = Inr y"
  show "elease_Owner (ej_Lease y) = trim_space w" "supply_validID (trim_space (trim_space w))"
    "elease_ExpiresAt (ej_Lease y) = until \<and> now < until"
    "elease_Generation (ej_Lease y) = elease_Generation (ej_Lease x) + 1"
    using a by (auto simp: job_acquire_def Job_Acquire_Inr EvidenceClaim_Validate_None)
next
  fix x :: EvidenceJob and w now until
  assume "supply_validID (trim_space (elease_Owner (ej_Lease x)))" "now < elease_ExpiresAt (ej_Lease x)"
  then show "is_err (job_acquire w now until x)"
    by (auto simp: job_acquire_def Job_Acquire_def EvidenceLease_Active_def split: option.split)
qed

end
