(* ===== verification/TraceSafety.thy ===== *)
theory TraceSafety
  imports Effects
begin

text \<open>
  Programs that ask an arbitrary environment and act on its answers: the state is the list of the calls made
  so far, each with its answer, and an answer may depend on all earlier calls. A call is allowed by what is
  known from earlier ones; the rules below follow a program through its calls and show that it makes no call
  that is not. The phases of a run say in which order kinds of calls come.
\<close>

definition ask :: "('ev list \<Rightarrow> 'r) \<Rightarrow> ('r \<Rightarrow> 'ev) \<Rightarrow> ('ev list, 'e, 'r) op" where
  "ask answer ev = (\<lambda>tr. (Inr (answer tr), tr @ [ev (answer tr)]))"

text \<open>A call whose answer is an error or a value: the error ends the program.\<close>

definition ask_or_fail :: "('ev list \<Rightarrow> 'e + 'r) \<Rightarrow> ('e + 'r \<Rightarrow> 'ev) \<Rightarrow> ('ev list, 'e, 'r) op" where
  "ask_or_fail answer ev = op_bind (ask answer ev) op_lift"

text \<open>A call whose error the program looks at.\<close>

definition op_try :: "('s, 'x, 'a) op \<Rightarrow> ('s, 'e, 'x + 'a) op" where
  "op_try m = (\<lambda>s. case m s of (r, t) \<Rightarrow> (Inr r, t))"

lemma op_try_eq [simp]: "op_try m s = (q, t) \<longleftrightarrow> (\<exists>r. q = Inr r \<and> m s = (r, t))"
  by (auto simp: op_try_def split: prod.split)

lemma op_try_ask: "op_try (ask_or_fail answer ev) = ask answer ev"
  by (auto simp: op_try_def ask_or_fail_def ask_def op_bind_def op_lift_def)

section \<open>The phases of a run\<close>

text \<open>The calls a program adds to the trace satisfy \<open>P\<close>.\<close>

definition adds :: "('ev \<Rightarrow> bool) \<Rightarrow> ('ev list, 'e, 'a) op \<Rightarrow> bool" where
  "adds P m \<longleftrightarrow> (\<forall>tr. \<exists>new. snd (m tr) = tr @ new \<and> list_all P new)"

lemma addsD: "adds P m \<Longrightarrow> m tr = (r, t) \<Longrightarrow> \<exists>new. t = tr @ new \<and> list_all P new"
  by (metis adds_def snd_conv)

lemma adds_simple [simp]:
  "adds P (op_return x)" "adds P (op_fail e)" "adds P (op_lift r)" "adds P (op_check c)" "adds P (op_read f)"
  by (simp_all add: adds_def op_return_def op_fail_def op_lift_def op_check_def op_read_def)

lemma adds_ask: "(\<And>r. P (ev r)) \<Longrightarrow> adds P (ask answer ev)"
  by (auto simp: adds_def ask_def)

lemma adds_ask_or_fail: "(\<And>r. P (ev r)) \<Longrightarrow> adds P (ask_or_fail answer ev)"
  by (auto simp: adds_def ask_or_fail_def op_bind_def ask_def op_lift_def split: sum.split)

lemma adds_bind:
  assumes "adds P m" "\<And>x. adds P (f x)"
  shows "adds P (op_bind m f)"
  unfolding adds_def
proof
  fix tr
  obtain r t where m: "m tr = (r, t)" by fastforce
  from addsD[OF assms(1) m] obtain new where new: "t = tr @ new" "list_all P new" by blast
  show "\<exists>new. snd (op_bind m f tr) = tr @ new \<and> list_all P new"
  proof (cases r)
    case (Inr x)
    obtain more where "snd (f x t) = t @ more" "list_all P more" using assms(2) by (auto simp: adds_def)
    with m new Inr show ?thesis by (intro exI[of _ "new @ more"]) (simp add: op_bind_def)
  qed (use m new in \<open>simp add: op_bind_def\<close>)
qed

text \<open>The calls a program adds come in three phases.\<close>

definition phased :: "('ev \<Rightarrow> bool) \<Rightarrow> ('ev \<Rightarrow> bool) \<Rightarrow> ('ev \<Rightarrow> bool) \<Rightarrow> ('ev list, 'e, 'a) op \<Rightarrow> bool" where
  "phased P Q R m \<longleftrightarrow> (\<forall>tr. \<exists>a b c. snd (m tr) = tr @ a @ b @ c \<and> list_all P a \<and> list_all Q b \<and> list_all R c)"

lemma phasedI:
  "adds P m \<Longrightarrow> phased P Q R m" "adds Q m \<Longrightarrow> phased P Q R m" "adds R m \<Longrightarrow> phased P Q R m"
  unfolding adds_def phased_def by (metis append_Nil append_Nil2 list.pred_inject(1))+

lemma phased_bind_first:
  assumes "adds P m" "\<And>x. phased P Q R (f x)"
  shows "phased P Q R (op_bind m f)"
  unfolding phased_def
proof
  fix tr
  obtain r t where m: "m tr = (r, t)" by fastforce
  from addsD[OF assms(1) m] obtain new where new: "t = tr @ new" "list_all P new" by blast
  show "\<exists>a b c. snd (op_bind m f tr) = tr @ a @ b @ c \<and> list_all P a \<and> list_all Q b \<and> list_all R c"
  proof (cases r)
    case (Inl e)
    with m new show ?thesis by (intro exI[of _ new] exI[of _ "[]"]) (simp add: op_bind_def)
  next
    case (Inr x)
    obtain a b c where "snd (f x t) = t @ a @ b @ c" "list_all P a" "list_all Q b" "list_all R c"
      using assms(2) unfolding phased_def by metis
    with m new Inr show ?thesis
      by (intro exI[of _ "new @ a"] exI[of _ b] exI[of _ c]) (simp add: op_bind_def)
  qed
qed

lemma phased_bind_second:
  assumes "adds Q m" "\<And>x. adds R (f x)"
  shows "phased P Q R (op_bind m f)"
  unfolding phased_def
proof
  fix tr
  obtain r t where m: "m tr = (r, t)" by fastforce
  from addsD[OF assms(1) m] obtain new where new: "t = tr @ new" "list_all Q new" by blast
  show "\<exists>a b c. snd (op_bind m f tr) = tr @ a @ b @ c \<and> list_all P a \<and> list_all Q b \<and> list_all R c"
  proof (cases r)
    case (Inl e)
    with m new show ?thesis by (intro exI[of _ "[]"] exI[of _ new]) (simp add: op_bind_def)
  next
    case (Inr x)
    obtain more where "snd (f x t) = t @ more" "list_all R more" using assms(2) by (auto simp: adds_def)
    with m new Inr show ?thesis
      by (intro exI[of _ "[]"] exI[of _ new] exI[of _ more]) (simp add: op_bind_def)
  qed
qed

text \<open>An event that is in one phase only splits the run within that phase.\<close>

lemma split_after: "x @ e # z = a @ w \<Longrightarrow> e \<notin> set a \<Longrightarrow> \<exists>u. x = a @ u \<and> w = u @ e # z"
  by (induction a arbitrary: x) (auto simp: append_eq_Cons_conv Cons_eq_append_conv)

lemma split_before: "u @ e # z = b @ c \<Longrightarrow> e \<notin> set c \<Longrightarrow> \<exists>v. b = u @ e # v \<and> z = v @ c"
  by (induction u arbitrary: b) (auto simp: append_eq_Cons_conv Cons_eq_append_conv)

section \<open>Allowed calls\<close>

locale trace_safety =
  fixes allowed :: "'ev set \<Rightarrow> 'ev \<Rightarrow> bool"
  assumes allowed_mono: "allowed A ev \<Longrightarrow> A \<subseteq> B \<Longrightarrow> allowed B ev"
begin

definition safe :: "'ev list \<Rightarrow> bool" where
  "safe tr \<longleftrightarrow> (\<forall>n < length tr. allowed (set (take n tr)) (tr ! n))"

lemma safe_Nil [simp]: "safe []"
  by (simp add: safe_def)

lemma safe_snoc: "safe (tr @ [ev]) \<longleftrightarrow> safe tr \<and> allowed (set tr) ev"
  by (auto simp: safe_def nth_append less_Suc_eq)

lemma safe_event:
  assumes "safe tr" "tr = pre @ ev # post"
  shows "allowed (set pre) ev"
  using assms by (auto simp: safe_def dest: spec[of _ "length pre"])

text \<open>
  From a safe trace with the events \<open>F\<close>, the program ends in a safe trace; its result and the events then
  known satisfy \<open>Q\<close>.
\<close>

definition triple :: "'ev set \<Rightarrow> ('ev list, 'e, 'a) op \<Rightarrow> ('a \<Rightarrow> 'ev set \<Rightarrow> bool) \<Rightarrow> bool" where
  "triple F m Q \<longleftrightarrow> (\<forall>tr r t. safe tr \<longrightarrow> F \<subseteq> set tr \<longrightarrow> m tr = (r, t) \<longrightarrow>
     safe t \<and> F \<subseteq> set t \<and> (\<forall>x. r = Inr x \<longrightarrow> Q x (set t)))"

lemma tripleD:
  assumes "triple F m Q" "safe tr" "F \<subseteq> set tr" "m tr = (r, t)"
  shows "safe t" "F \<subseteq> set t" "r = Inr x \<Longrightarrow> Q x (set t)"
  using assms unfolding triple_def by blast+

lemma triple_safe:
  assumes "triple {} m Q" "m [] = (r, tr)"
  shows "safe tr"
  using tripleD(1)[OF assms(1) _ _ assms(2)] by simp

lemma triple_bind:
  assumes "triple F m Q" "\<And>x G. F \<subseteq> G \<Longrightarrow> Q x G \<Longrightarrow> triple G (f x) R"
  shows "triple F (op_bind m f) R"
  unfolding triple_def
proof (intro allI impI)
  fix tr r u
  assume tr: "safe tr" "F \<subseteq> set tr" and run: "op_bind m f tr = (r, u)"
  obtain q t where m: "m tr = (q, t)" by fastforce
  note first = tripleD[OF assms(1) tr m]
  show "safe u \<and> F \<subseteq> set u \<and> (\<forall>x. r = Inr x \<longrightarrow> R x (set u))"
  proof (cases q)
    case (Inl e)
    with run m first(1,2) show ?thesis by (auto simp: op_bind_def)
  next
    case (Inr x)
    with run m have f: "f x t = (r, u)" by (simp add: op_bind_def)
    note second = tripleD[OF assms(2)[OF first(2) first(3)[OF Inr]] first(1) subset_refl f]
    from second first(2) show ?thesis by blast
  qed
qed

lemma triple_conseq:
  assumes "triple F m Q" "\<And>x G. F \<subseteq> G \<Longrightarrow> Q x G \<Longrightarrow> R x G"
  shows "triple F m R"
  unfolding triple_def
proof (intro allI impI)
  fix tr r t
  assume "safe tr" "F \<subseteq> set tr" "m tr = (r, t)"
  from tripleD[OF assms(1) this] assms(2)
  show "safe t \<and> F \<subseteq> set t \<and> (\<forall>x. r = Inr x \<longrightarrow> R x (set t))" by simp
qed

lemma triple_weaken: "triple F m Q \<Longrightarrow> triple F m (\<lambda>_ _. True)"
  by (erule triple_conseq) simp

lemma triple_return: "triple F (op_return x) (\<lambda>y _. y = x)"
  by (simp add: triple_def op_return_def)

lemma triple_fail: "triple F (op_fail e) Q"
  by (simp add: triple_def op_fail_def)

lemma triple_lift: "triple F (op_lift r) (\<lambda>x _. r = Inr x)"
  by (cases r) (simp_all add: triple_def op_lift_def)

lemma triple_read: "triple F (op_read f) (\<lambda>x _. \<exists>tr. f tr = Inr x)"
  by (auto simp: triple_def op_read_def)

lemma triple_check: "triple F (op_check c) (\<lambda>_ _. c = None)"
  by (cases c) (simp_all add: triple_def op_check_def)

lemma triple_ask:
  assumes "\<And>r. allowed F (ev r)"
  shows "triple F (ask answer ev) (\<lambda>r G. ev r \<in> G \<and> (\<exists>tr. r = answer tr))"
  unfolding triple_def ask_def using assms by (auto simp: safe_snoc intro: allowed_mono)

lemma triple_try: "triple F m Q \<Longrightarrow> triple F (op_try m) (\<lambda>r G. \<forall>x. r = Inr x \<longrightarrow> Q x G)"
  unfolding triple_def op_try_eq by blast

lemma triple_ask_or_fail:
  assumes "\<And>r. allowed F (ev r)"
  shows "triple F (ask_or_fail answer ev) (\<lambda>x G. ev (Inr x) \<in> G \<and> (\<exists>tr. answer tr = Inr x))"
  unfolding ask_or_fail_def
proof (rule triple_bind[OF triple_ask, of F ev answer])
  fix r G
  assume r: "ev r \<in> G \<and> (\<exists>tr. r = answer tr)"
  show "triple G (op_lift r) (\<lambda>x G. ev (Inr x) \<in> G \<and> (\<exists>tr. answer tr = Inr x))"
    using r by (cases r) (auto simp: triple_def op_lift_def eq_commute)
qed (rule assms)

end

end
