(* ===== verification/EvidenceWorker.thy ===== *)
theory EvidenceWorker
  imports EvidenceJob TraceSafety VulnerabilityReport
begin

text \<open>
  The evidence worker (\<open>internal/modules/supplychain/worker/{controller,runner}.go\<close>): one run claims a job,
  makes its evidence and publishes it under the lease. The queue, the clock, the generators, scanners, signers
  and registries answer arbitrarily; an error is the chain of the errors it wraps.
\<close>

section \<open>Requests and answers\<close>

type_synonym chain = "supply_error list"

type_synonym 'a answer = "chain + 'a"

record SBOMDocument =
  doc_Content :: string
  doc_MediaType :: string
  doc_FormatVersion :: string
  doc_PredicateType :: string
  doc_ContentDigest :: string

record ProvenanceRequest =
  prq_RegistryRepository :: string
  prq_SubjectDigest :: string
  prq_Recipe :: ProvenanceRecipe

record 'd publication =
  pub_ProjectID :: string
  pub_RegistryCredentialID :: string
  pub_RegistryRepository :: string
  pub_SubjectDigest :: string
  pub_Document :: 'd
  pub_CreatedAt :: time

record PublishedDescriptor =
  pd_Digest :: string
  pd_MediaType :: string

record SignatureSigningRequest =
  ssr_ProjectID :: string
  ssr_ProfileID :: string
  ssr_RegistryCredentialID :: string
  ssr_RegistryRepository :: string
  ssr_SubjectDigest :: string
  ssr_KeyReference :: string

record SignatureSigningResult =
  ssr_Provider :: SigningKeyProvider
  ssr_KeyReferenceFingerprint :: string

record SignatureVerificationRequest =
  svr_ProjectID :: string
  svr_RegistryCredentialID :: string
  svr_RegistryRepository :: string
  svr_SubjectDigest :: string
  svr_Trust :: SignatureTrustMaterial

record SignatureVerificationResult =
  svr_TrustMode :: SignatureTrustMode
  svr_TrustRootHash :: string
  svr_SignerIdentity :: string
  svr_OIDCIssuer :: string
  svr_BundleSetDigest :: string
  svr_VerifierVersion :: string

text \<open>A write under a lease: the expected version, the worker, the generation and the time.\<close>

record fence =
  fence_Version :: u64
  fence_WorkerID :: string
  fence_Generation :: u64
  fence_Now :: time

datatype evidence_event =
    EvClock time
  | EvID "string answer"
  | EvClaim EvidenceClaim "EvidenceJob option answer"
  | EvRenew string fence time "EvidenceJob answer"
  | EvSave EvidenceJob fence "EvidenceJob answer"
  | EvFence string string u64 time "chain option"
  | EvPublishEvidence EvidenceJob Evidence fence "unit answer"
  | EvPublishVerification EvidenceJob EvidenceVerification fence "unit answer"
  | EvPublishObservation EvidenceJob Evidence VulnerabilityObservation fence "unit answer"
  | EvSBOM EvidenceRequest "SBOMDocument answer"
  | EvSBOMPublished "SBOMDocument publication" "PublishedDescriptor answer"
  | EvProvenance ProvenanceRequest "SBOMDocument answer"
  | EvProvenancePublished "SBOMDocument publication" "PublishedDescriptor answer"
  | EvScan EvidenceRequest "VulnerabilityReport answer"
  | EvReportPublished "VulnerabilityReport publication" "PublishedDescriptor answer"
  | EvSign SignatureSigningRequest "SignatureSigningResult answer"
  | EvTrust SignatureTrustSnapshot "SignatureTrustMaterial answer"
  | EvVerify SignatureVerificationRequest "SignatureVerificationResult answer"

type_synonym trace = "evidence_event list"

record evidence_env =
  ee_now :: "trace \<Rightarrow> time"
  ee_newID :: "trace \<Rightarrow> string answer"
  ee_claim :: "EvidenceClaim \<Rightarrow> trace \<Rightarrow> EvidenceJob option answer"
  ee_renew :: "string \<Rightarrow> fence \<Rightarrow> time \<Rightarrow> trace \<Rightarrow> EvidenceJob answer"
  ee_save :: "EvidenceJob \<Rightarrow> fence \<Rightarrow> trace \<Rightarrow> EvidenceJob answer"
  ee_fence :: "string \<Rightarrow> string \<Rightarrow> u64 \<Rightarrow> time \<Rightarrow> trace \<Rightarrow> chain option"
  ee_publish :: "EvidenceJob \<Rightarrow> trace \<Rightarrow> unit answer"
  ee_sbom :: "EvidenceRequest \<Rightarrow> trace \<Rightarrow> SBOMDocument answer"
  ee_publish_sbom :: "SBOMDocument publication \<Rightarrow> trace \<Rightarrow> PublishedDescriptor answer"
  ee_provenance :: "ProvenanceRequest \<Rightarrow> trace \<Rightarrow> SBOMDocument answer"
  ee_publish_provenance :: "SBOMDocument publication \<Rightarrow> trace \<Rightarrow> PublishedDescriptor answer"
  ee_scan :: "EvidenceRequest \<Rightarrow> trace \<Rightarrow> VulnerabilityReport answer"
  ee_publish_report :: "VulnerabilityReport publication \<Rightarrow> trace \<Rightarrow> PublishedDescriptor answer"
  ee_sign :: "SignatureSigningRequest \<Rightarrow> trace \<Rightarrow> SignatureSigningResult answer"
  ee_trust :: "SignatureTrustSnapshot \<Rightarrow> trace \<Rightarrow> SignatureTrustMaterial answer"
  ee_verify :: "SignatureVerificationRequest \<Rightarrow> trace \<Rightarrow> SignatureVerificationResult answer"
  ee_beats :: "trace \<Rightarrow> nat"
  ee_done :: "trace \<Rightarrow> chain option"
  ee_cause :: "trace \<Rightarrow> chain option"

text \<open>
  A runner and its controller; an adapter that is not configured is absent. \<open>er_observations\<close>: the queue
  publishes observations too.
\<close>

record evidence_runner =
  er_workerID :: string
  er_lease :: int
  er_hasProvenance :: bool
  er_hasSignatures :: bool
  er_hasSigner :: bool
  er_hasScanner :: bool
  er_freshness :: int
  er_observations :: bool
  er_library :: job_library

type_synonym 'a eop = "(trace, chain, 'a) op"

section \<open>The controller\<close>

definition clock :: "evidence_env \<Rightarrow> time eop" where
  "clock env = ask (ee_now env) EvClock"

definition newEvidenceID :: "evidence_env \<Rightarrow> string eop" where
  "newEvidenceID env = ask_or_fail (ee_newID env) EvID"

text \<open>The kinds a runner claims: \<open>NewRunner\<close> and \<open>refreshClaimKinds\<close>.\<close>

definition claim_kinds :: "evidence_runner \<Rightarrow> EvidenceKind list" where
  "claim_kinds rn = [EvidenceKindSBOM] @ (if er_hasProvenance rn then [EvidenceKindProvenance] else []) @
     (if er_hasSignatures rn then [EvidenceKindSignature] else []) @
     (if er_hasScanner rn then [EvidenceKindVulnerabilityReport] else [])"

definition controller_Claim :: "evidence_env \<Rightarrow> evidence_runner \<Rightarrow> EvidenceJob option eop" where
  "controller_Claim env rn =
     op_bind (clock env) (\<lambda>now.
       let c = \<lparr>eclaim_WorkerID = trim_space (er_workerID rn), eclaim_Now = now, eclaim_ExpiresAt = now + er_lease rn,
            eclaim_Kinds = claim_kinds rn\<rparr>
       in ask_or_fail (ee_claim env c) (EvClaim c))"

definition job_fence :: "evidence_runner \<Rightarrow> EvidenceJob \<Rightarrow> time \<Rightarrow> fence" where
  "job_fence rn j now = \<lparr>fence_Version = ej_Version j, fence_WorkerID = trim_space (er_workerID rn),
     fence_Generation = elease_Generation (ej_Lease j), fence_Now = now\<rparr>"

text \<open>The answer is returned: the heartbeat loop decides what an error means.\<close>

definition controller_Heartbeat :: "evidence_env \<Rightarrow> evidence_runner \<Rightarrow> EvidenceJob \<Rightarrow> EvidenceJob answer eop" where
  "controller_Heartbeat env rn j =
     op_bind (clock env) (\<lambda>now.
       ask (ee_renew env (ej_ID j) (job_fence rn j now) (now + er_lease rn))
         (EvRenew (ej_ID j) (job_fence rn j now) (now + er_lease rn)))"

definition lift_error :: "supply_error + 'a \<Rightarrow> 'a eop" where
  "lift_error r = op_lift (case r of Inl e \<Rightarrow> Inl [e] | Inr x \<Rightarrow> Inr x)"

definition controller_Advance ::
  "evidence_env \<Rightarrow> evidence_runner \<Rightarrow> EvidenceJob \<Rightarrow> EvidenceJobStatus \<Rightarrow> EvidenceJob eop" where
  "controller_Advance env rn j next_status =
     op_bind (clock env) (\<lambda>now.
     op_bind (lift_error (Job_Transition j next_status now)) (\<lambda>k.
       ask_or_fail (ee_save env k (job_fence rn j now)) (EvSave k (job_fence rn j now))))"

definition controller_Fail ::
  "evidence_env \<Rightarrow> evidence_runner \<Rightarrow> EvidenceJob \<Rightarrow> EvidenceJobFailure \<Rightarrow> EvidenceJob eop" where
  "controller_Fail env rn j failure =
     op_bind (clock env) (\<lambda>now.
     op_bind (lift_error (Job_Fail j failure now)) (\<lambda>k.
       ask_or_fail (ee_save env k (job_fence rn j now)) (EvSave k (job_fence rn j now))))"

definition controller_ValidateFence :: "evidence_env \<Rightarrow> evidence_runner \<Rightarrow> EvidenceJob \<Rightarrow> unit eop" where
  "controller_ValidateFence env rn j =
     op_bind (clock env) (\<lambda>now.
     op_bind (ask (ee_fence env (ej_ID j) (trim_space (er_workerID rn)) (elease_Generation (ej_Lease j)) now)
         (EvFence (ej_ID j) (trim_space (er_workerID rn)) (elease_Generation (ej_Lease j)) now)) op_check)"

text \<open>Publishing completes the job and writes its result in one step of the queue.\<close>

definition controller_Publish ::
  "evidence_env \<Rightarrow> evidence_runner \<Rightarrow> EvidenceJob \<Rightarrow> (EvidenceJob \<Rightarrow> fence \<Rightarrow> unit answer \<Rightarrow> evidence_event) \<Rightarrow> unit eop" where
  "controller_Publish env rn j ev =
     op_bind (clock env) (\<lambda>now.
     op_bind (lift_error (Job_Transition j EvidenceJobSucceeded now)) (\<lambda>k.
       ask_or_fail (ee_publish env k) (ev k (job_fence rn j now))))"

section \<open>The runner\<close>

fun heartbeats :: "evidence_env \<Rightarrow> evidence_runner \<Rightarrow> nat \<Rightarrow> EvidenceJob \<Rightarrow> (EvidenceJob \<times> chain option) eop" where
  "heartbeats env rn 0 item = op_read (\<lambda>tr. Inr (item, ee_done env tr))"
| "heartbeats env rn (Suc n) item =
     op_bind (controller_Heartbeat env rn item) (\<lambda>r. case r of
         Inl e \<Rightarrow> op_return (item, Some e)
       | Inr updated \<Rightarrow> heartbeats env rn n updated)"

text \<open>
  The operation runs beside the heartbeats: as many as the environment lets happen before the answer, a
  failed one, or the end of the context is seen.
\<close>

definition withHeartbeat ::
  "evidence_env \<Rightarrow> evidence_runner \<Rightarrow> EvidenceJob \<Rightarrow> (trace \<Rightarrow> 'r answer) \<Rightarrow> ('r answer \<Rightarrow> evidence_event) \<Rightarrow>
     (EvidenceJob \<times> 'r answer) eop" where
  "withHeartbeat env rn item answer ev =
     op_bind (ask answer ev) (\<lambda>r.
     op_bind (op_read (\<lambda>tr. Inr (ee_beats env tr))) (\<lambda>n.
     op_bind (heartbeats env rn n item) (\<lambda>(latest, stop).
       op_return (latest, case stop of Some e \<Rightarrow> Inl e | None \<Rightarrow> r))))"

definition recordFailure :: "evidence_env \<Rightarrow> evidence_runner \<Rightarrow> EvidenceJob \<Rightarrow> EvidenceJobFailure \<Rightarrow> unit eop" where
  "recordFailure env rn item failure =
     op_bind (op_read (\<lambda>tr. Inr (ee_cause env tr))) (\<lambda>cause. case cause of
         Some e \<Rightarrow> op_fail e
       | None \<Rightarrow> op_bind (controller_Fail env rn item failure) (\<lambda>_. op_return ()))"

definition categorizeSBOMGeneration :: "chain \<Rightarrow> EvidenceJobFailure" where
  "categorizeSBOMGeneration e =
     (if ErrSBOMTooLarge \<in> set e \<or> ErrSBOMImageTooLarge \<in> set e then EvidenceJobFailureResourceLimit
      else EvidenceJobFailureGeneration)"

definition categorizeProvenanceGeneration :: "chain \<Rightarrow> EvidenceJobFailure" where
  "categorizeProvenanceGeneration e =
     (if ErrProvenanceTooLarge \<in> set e then EvidenceJobFailureResourceLimit else EvidenceJobFailureGeneration)"

definition validPublishedDescriptor :: "evidence_runner \<Rightarrow> PublishedDescriptor \<Rightarrow> bool" where
  "validPublishedDescriptor rn d \<longleftrightarrow>
     sl_digest (jl_supply (er_library rn)) (trim_space (pd_Digest d)) \<and>
     pd_MediaType d = ''application/vnd.oci.image.manifest.v1+json''"

definition to_publishing :: "evidence_env \<Rightarrow> evidence_runner \<Rightarrow> EvidenceJob \<Rightarrow> EvidenceJob eop" where
  "to_publishing env rn item =
     (if ej_Status item = EvidenceJobGenerating then controller_Advance env rn item EvidenceJobPublishing
      else op_return item)"

definition job_request :: "EvidenceJob \<Rightarrow> EvidenceRequest" where
  "job_request j = \<lparr>er_ProjectID = ej_ProjectID j, er_RegistryCredentialID = ej_RegistryCredentialID j,
     er_RegistryRepository = ej_RegistryRepository j, er_SubjectDigest = ej_SubjectDigest j,
     er_FormatVersion = ej_FormatVersion j\<rparr>"

definition job_publication :: "EvidenceJob \<Rightarrow> 'd \<Rightarrow> 'd publication" where
  "job_publication j document = \<lparr>pub_ProjectID = ej_ProjectID j, pub_RegistryCredentialID = ej_RegistryCredentialID j,
     pub_RegistryRepository = ej_RegistryRepository j, pub_SubjectDigest = ej_SubjectDigest j,
     pub_Document = document, pub_CreatedAt = ej_CreatedAt j\<rparr>"

definition job_evidence ::
  "EvidenceJob \<Rightarrow> string \<Rightarrow> string \<Rightarrow> string \<Rightarrow> string \<Rightarrow> string \<Rightarrow> time \<Rightarrow> Evidence" where
  "job_evidence j i mediaType formatVersion predicateType descriptor now =
     \<lparr>evd_ID = i, evd_OrganizationID = ej_OrganizationID j, evd_ProjectID = ej_ProjectID j,
       evd_ArtifactID = ej_ArtifactID j, evd_SubjectDigest = ej_SubjectDigest j, evd_Kind = ej_Kind j,
       evd_MediaType = mediaType, evd_FormatVersion = formatVersion, evd_PredicateType = predicateType,
       evd_Producer = ej_Producer j, evd_RegistryRepository = ej_RegistryRepository j,
       evd_DescriptorDigest = descriptor, evd_VerificationStatus = VerificationUnverified, evd_CreatedAt = now\<rparr>"

text \<open>The common end of bills of materials and provenance: upload the document, then index it as evidence.\<close>

definition index_document ::
  "evidence_env \<Rightarrow> evidence_runner \<Rightarrow> EvidenceJob \<Rightarrow> SBOMDocument \<Rightarrow> string \<Rightarrow> PublishedDescriptor \<Rightarrow> unit eop" where
  "index_document env rn item document predicate d =
     (if \<not> validPublishedDescriptor rn d then recordFailure env rn item EvidenceJobFailureRegistryPublish
      else
        op_bind (newEvidenceID env) (\<lambda>i.
        op_bind (clock env) (\<lambda>now.
          case NewEvidence (jl_supply (er_library rn)) (job_evidence item i (doc_MediaType document)
              (doc_FormatVersion document) predicate (pd_Digest d) now) of
            Inl _ \<Rightarrow> recordFailure env rn item EvidenceJobFailureRegistryPublish
          | Inr e \<Rightarrow> controller_Publish env rn item (\<lambda>k. EvPublishEvidence k e))))"

definition publish_document ::
  "evidence_env \<Rightarrow> evidence_runner \<Rightarrow> EvidenceJob \<Rightarrow>
     (SBOMDocument publication \<Rightarrow> trace \<Rightarrow> PublishedDescriptor answer) \<Rightarrow>
     (SBOMDocument publication \<Rightarrow> PublishedDescriptor answer \<Rightarrow> evidence_event) \<Rightarrow> SBOMDocument \<Rightarrow> string \<Rightarrow> unit eop" where
  "publish_document env rn item0 upload ev document predicate =
     op_bind (controller_ValidateFence env rn item0) (\<lambda>_.
     op_bind (to_publishing env rn item0) (\<lambda>item1.
     op_bind (withHeartbeat env rn item1 (upload (job_publication item1 document)) (ev (job_publication item1 document)))
       (\<lambda>(item2, published). case published of
         Inl _ \<Rightarrow> recordFailure env rn item2 EvidenceJobFailureRegistryPublish
       | Inr d \<Rightarrow> index_document env rn item2 document predicate d)))"

definition runSBOM :: "evidence_env \<Rightarrow> evidence_runner \<Rightarrow> EvidenceJob \<Rightarrow> unit eop" where
  "runSBOM env rn item0 =
     op_bind (withHeartbeat env rn item0 (ee_sbom env (job_request item0)) (EvSBOM (job_request item0)))
       (\<lambda>(item1, generated). case generated of
         Inl e \<Rightarrow> recordFailure env rn item1 (categorizeSBOMGeneration e)
       | Inr document \<Rightarrow> publish_document env rn item1 (ee_publish_sbom env) EvSBOMPublished document [])"

definition provenance_request :: "EvidenceJob \<Rightarrow> ProvenanceRequest" where
  "provenance_request j = \<lparr>prq_RegistryRepository = ej_RegistryRepository j, prq_SubjectDigest = ej_SubjectDigest j,
     prq_Recipe = ej_Provenance j\<rparr>"

definition runProvenance :: "evidence_env \<Rightarrow> evidence_runner \<Rightarrow> EvidenceJob \<Rightarrow> unit eop" where
  "runProvenance env rn item0 =
     (if \<not> er_hasProvenance rn then recordFailure env rn item0 EvidenceJobFailureGeneration
      else
        op_bind (withHeartbeat env rn item0 (ee_provenance env (provenance_request item0))
            (EvProvenance (provenance_request item0)))
          (\<lambda>(item1, generated). case generated of
            Inl e \<Rightarrow> recordFailure env rn item1 (categorizeProvenanceGeneration e)
          | Inr document \<Rightarrow> publish_document env rn item1 (ee_publish_provenance env) EvProvenancePublished document
              (doc_PredicateType document)))"

text \<open>What a scan of this job's artifact is observed as, once its report is indexed.\<close>

definition job_observation ::
  "evidence_runner \<Rightarrow> EvidenceJob \<Rightarrow> VulnerabilityReport \<Rightarrow> Evidence \<Rightarrow> string \<Rightarrow> VulnerabilityObservation" where
  "job_observation rn j report e i =
     \<lparr>vo_ID = i, vo_OrganizationID = ej_OrganizationID j, vo_ProjectID = ej_ProjectID j,
       vo_ArtifactID = ej_ArtifactID j, vo_SubjectDigest = ej_SubjectDigest j, vo_EvidenceID = evd_ID e,
       vo_DescriptorDigest = evd_DescriptorDigest e, vo_Scanner = ''trivy'', vo_ScannerVersion = vr_ScannerVersion report,
       vo_Database = vr_Database report, vo_ScannedAt = vr_ScannedAt report,
       vo_FreshUntil = (if vdb_NextUpdate (vr_Database report) < vr_ScannedAt report + er_freshness rn
         then vdb_NextUpdate (vr_Database report) else vr_ScannedAt report + er_freshness rn),
       vo_Counts = vr_Counts report, vo_HighestSeverity = vr_HighestSeverity report\<rparr>"

definition publish_observation ::
  "evidence_env \<Rightarrow> evidence_runner \<Rightarrow> EvidenceJob \<Rightarrow> VulnerabilityReport \<Rightarrow> PublishedDescriptor \<Rightarrow> unit eop" where
  "publish_observation env rn item report d =
     (if \<not> validPublishedDescriptor rn d then recordFailure env rn item EvidenceJobFailureRegistryPublish
      else
     op_bind (newEvidenceID env) (\<lambda>i.
     op_bind (clock env) (\<lambda>now.
       case NewEvidence (jl_supply (er_library rn)) (job_evidence item i (vr_MediaType report)
           (vr_FormatVersion report) [] (pd_Digest d) now) of
         Inl _ \<Rightarrow> recordFailure env rn item EvidenceJobFailureRegistryPublish
       | Inr e \<Rightarrow>
           (case VulnerabilityObservationID (ej_ArtifactID item) ''trivy'' of
              Inl _ \<Rightarrow> recordFailure env rn item EvidenceJobFailureGeneration
            | Inr oi \<Rightarrow>
                (case NewVulnerabilityObservation (jl_supply (er_library rn)) (job_observation rn item report e oi) of
                   Inl _ \<Rightarrow> recordFailure env rn item EvidenceJobFailureGeneration
                 | Inr ob \<Rightarrow>
                     if \<not> er_observations rn then op_fail [ErrUnavailable]
                     else controller_Publish env rn item (\<lambda>k. EvPublishObservation k e ob))))))"

definition categorizeScan :: "chain \<Rightarrow> EvidenceJobFailure" where
  "categorizeScan e =
     (if ErrVulnerabilityReportSize \<in> set e then EvidenceJobFailureResourceLimit
      else if ErrSupplyRegistryAuthentication \<in> set e then EvidenceJobFailureImagePull
      else EvidenceJobFailureGeneration)"

definition runVulnerabilityScan :: "evidence_env \<Rightarrow> evidence_runner \<Rightarrow> EvidenceJob \<Rightarrow> unit eop" where
  "runVulnerabilityScan env rn item0 =
     (if \<not> er_hasScanner rn \<or> er_freshness rn = 0 then recordFailure env rn item0 EvidenceJobFailureGeneration
      else
        op_bind (withHeartbeat env rn item0 (ee_scan env (job_request item0)) (EvScan (job_request item0)))
          (\<lambda>(item1, scanned). case scanned of
            Inl e \<Rightarrow> recordFailure env rn item1 (categorizeScan e)
          | Inr report \<Rightarrow>
              op_bind (controller_ValidateFence env rn item1) (\<lambda>_.
              op_bind (to_publishing env rn item1) (\<lambda>item2.
              op_bind (withHeartbeat env rn item2 (ee_publish_report env (job_publication item2 report))
                  (EvReportPublished (job_publication item2 report)))
                (\<lambda>(item3, published). case published of
                  Inl _ \<Rightarrow> recordFailure env rn item3 EvidenceJobFailureRegistryPublish
                | Inr d \<Rightarrow> publish_observation env rn item3 report d)))))"

definition signing_request :: "EvidenceJob \<Rightarrow> SignatureSigningRequest" where
  "signing_request j = \<lparr>ssr_ProjectID = ej_ProjectID j, ssr_ProfileID = sss_ProfileID (ej_Signing j),
     ssr_RegistryCredentialID = ej_RegistryCredentialID j, ssr_RegistryRepository = ej_RegistryRepository j,
     ssr_SubjectDigest = ej_SubjectDigest j, ssr_KeyReference = sss_KeyReference (ej_Signing j)\<rparr>"

definition verification_request :: "EvidenceJob \<Rightarrow> SignatureTrustMaterial \<Rightarrow> SignatureVerificationRequest" where
  "verification_request j trust = \<lparr>svr_ProjectID = ej_ProjectID j, svr_RegistryCredentialID = ej_RegistryCredentialID j,
     svr_RegistryRepository = ej_RegistryRepository j, svr_SubjectDigest = ej_SubjectDigest j, svr_Trust = trust\<rparr>"

definition empty_signing_result :: SignatureSigningResult where
  "empty_signing_result = \<lparr>ssr_Provider = SigningKeyOther [], ssr_KeyReferenceFingerprint = []\<rparr>"

definition signed_by :: "SignatureSigningSnapshot \<Rightarrow> SignatureSigningResult \<Rightarrow> bool" where
  "signed_by s r \<longleftrightarrow> ssr_Provider r = sss_Provider s \<and> ssr_KeyReferenceFingerprint r = sss_KeyReferenceFingerprint s"

definition expectedTrustHash :: "SignatureTrustSnapshot \<Rightarrow> string" where
  "expectedTrustHash s = (if sts_Mode s = SignatureTrustPublicKey then sts_PublicKeyFingerprint s else sts_TrustedRootHash s)"

definition verified_as :: "SignatureTrustSnapshot \<Rightarrow> SignatureVerificationResult \<Rightarrow> bool" where
  "verified_as s r \<longleftrightarrow> svr_TrustMode r = sts_Mode s \<and> svr_TrustRootHash r = expectedTrustHash s \<and>
     svr_SignerIdentity r = sts_CertificateIdentity s \<and> svr_OIDCIssuer r = sts_OIDCIssuer s"

text \<open>The signing step: the result of the signer, empty where nothing is signed; \<open>None\<close> for a failure.\<close>

definition sign_step ::
  "evidence_env \<Rightarrow> evidence_runner \<Rightarrow> EvidenceJob \<Rightarrow> (EvidenceJob \<times> SignatureSigningResult option) eop" where
  "sign_step env rn item0 =
     (if ej_SignatureOperation item0 \<noteq> SignatureOperationSignAndVerify then op_return (item0, Some empty_signing_result)
      else if \<not> er_hasSigner rn then op_return (item0, None)
      else
        op_bind (withHeartbeat env rn item0 (ee_sign env (signing_request item0)) (EvSign (signing_request item0)))
          (\<lambda>(item1, sresult). case sresult of
            Inl _ \<Rightarrow> op_return (item1, None)
          | Inr r \<Rightarrow>
              if \<not> signed_by (ej_Signing item1) r then op_return (item1, None)
              else op_bind (controller_ValidateFence env rn item1) (\<lambda>_. op_return (item1, Some r))))"

definition job_verification ::
  "EvidenceJob \<Rightarrow> SignatureSigningResult \<Rightarrow> SignatureVerificationResult \<Rightarrow> string \<Rightarrow> time \<Rightarrow> EvidenceVerification" where
  "job_verification j sresult r i now =
     \<lparr>ev_ver_ID = i, ev_ver_OrganizationID = ej_OrganizationID j, ev_ver_ProjectID = ej_ProjectID j,
       ev_ver_ArtifactID = ej_ArtifactID j, ev_ver_SubjectDigest = ej_SubjectDigest j,
       ev_ver_PolicyID = sts_PolicyID (ej_Signature j), ev_ver_PolicyVersion = sts_PolicyVersion (ej_Signature j),
       ev_ver_SigningProfileID = sss_ProfileID (ej_Signing j),
       ev_ver_SigningProfileVersion = sss_ProfileVersion (ej_Signing j),
       ev_ver_SigningKeyProvider = ssr_Provider sresult,
       ev_ver_SigningKeyFingerprint = ssr_KeyReferenceFingerprint sresult,
       ev_ver_TrustMode = svr_TrustMode r, ev_ver_TrustRootHash = svr_TrustRootHash r,
       ev_ver_SignerIdentity = svr_SignerIdentity r, ev_ver_OIDCIssuer = svr_OIDCIssuer r,
       ev_ver_BundleSetDigest = svr_BundleSetDigest r, ev_ver_Verifier = ''cosign'',
       ev_ver_VerifierVersion = svr_VerifierVersion r, ev_ver_VerificationStatus = VerificationVerified,
       ev_ver_CreatedAt = now\<rparr>"

definition publish_verification ::
  "evidence_env \<Rightarrow> evidence_runner \<Rightarrow> EvidenceJob \<Rightarrow> SignatureSigningResult \<Rightarrow> SignatureVerificationResult \<Rightarrow> unit eop" where
  "publish_verification env rn item sresult r =
     (if \<not> verified_as (ej_Signature item) r then recordFailure env rn item EvidenceJobFailureSignatureVerify
      else
     op_bind (controller_ValidateFence env rn item) (\<lambda>_.
     op_bind (newEvidenceID env) (\<lambda>i.
     op_bind (clock env) (\<lambda>now.
       case NewEvidenceVerification (jl_supply (er_library rn)) (job_verification item sresult r i now) of
         Inl _ \<Rightarrow> recordFailure env rn item EvidenceJobFailureSignatureVerify
       | Inr v \<Rightarrow> controller_Publish env rn item (\<lambda>k. EvPublishVerification k v)))))"

definition verify_signature ::
  "evidence_env \<Rightarrow> evidence_runner \<Rightarrow> EvidenceJob \<Rightarrow> SignatureSigningResult \<Rightarrow> unit eop" where
  "verify_signature env rn item0 sresult =
     op_bind (ask (ee_trust env (ej_Signature item0)) (EvTrust (ej_Signature item0))) (\<lambda>resolved. case resolved of
       Inl _ \<Rightarrow> recordFailure env rn item0 EvidenceJobFailureSignatureTrust
     | Inr trust \<Rightarrow>
         op_bind (withHeartbeat env rn item0 (ee_verify env (verification_request item0 trust))
             (EvVerify (verification_request item0 trust)))
           (\<lambda>(item1, verified). case verified of
             Inl e \<Rightarrow> recordFailure env rn item1
               (if ErrSupplyRegistryAuthentication \<in> set e then EvidenceJobFailureImagePull
                else EvidenceJobFailureSignatureVerify)
           | Inr r \<Rightarrow> publish_verification env rn item1 sresult r))"

definition runSignature :: "evidence_env \<Rightarrow> evidence_runner \<Rightarrow> EvidenceJob \<Rightarrow> unit eop" where
  "runSignature env rn item0 =
     (if \<not> er_hasSignatures rn \<or> ej_Status item0 \<noteq> EvidenceJobVerifying
      then recordFailure env rn item0 EvidenceJobFailureSignatureTrust
      else
        op_bind (sign_step env rn item0) (\<lambda>(item1, signing). case signing of
          None \<Rightarrow> recordFailure env rn item1 EvidenceJobFailureSignatureSign
        | Some sresult \<Rightarrow> verify_signature env rn item1 sresult))"

definition run_kind :: "evidence_env \<Rightarrow> evidence_runner \<Rightarrow> EvidenceJob \<Rightarrow> unit eop" where
  "run_kind env rn item =
     (case ej_Kind item of
        EvidenceKindSBOM \<Rightarrow> runSBOM env rn item
      | EvidenceKindProvenance \<Rightarrow> runProvenance env rn item
      | EvidenceKindSignature \<Rightarrow> runSignature env rn item
      | EvidenceKindVulnerabilityReport \<Rightarrow> runVulnerabilityScan env rn item
      | EvidenceKindOther _ \<Rightarrow> op_fail [ErrInvalidEvidenceJob])"

definition start_job :: "evidence_env \<Rightarrow> evidence_runner \<Rightarrow> EvidenceJob \<Rightarrow> EvidenceJob eop" where
  "start_job env rn item =
     (if ej_Status item = EvidenceJobQueued
      then controller_Advance env rn item
        (if ej_Kind item = EvidenceKindSignature then EvidenceJobVerifying else EvidenceJobGenerating)
      else op_return item)"

definition RunEvidence :: "evidence_env \<Rightarrow> evidence_runner \<Rightarrow> unit eop" where
  "RunEvidence env rn =
     op_bind (controller_Claim env rn) (\<lambda>claimed. case claimed of
       None \<Rightarrow> op_return ()
     | Some item0 \<Rightarrow>
         op_bind (start_job env rn item0) (\<lambda>item.
           if ej_Status item \<noteq> EvidenceJobGenerating \<and> ej_Status item \<noteq> EvidenceJobPublishing \<and>
              ej_Status item \<noteq> EvidenceJobVerifying
           then op_fail [ErrInvalidEvidenceJob]
           else run_kind env rn item))"

end
