(* ===== verification/EvidenceSafety.thy ===== *)
theory EvidenceSafety
  imports EvidenceWorker
begin

text \<open>
  What the evidence worker never does, whatever its environment answers: it publishes evidence,
  observations and verifications only from answers it has received for the very job it completes, and in which
  order: what it makes it has made before the lease is checked, and it uploads after that.
\<close>

section \<open>Allowed calls\<close>

definition fenced :: "evidence_runner \<Rightarrow> EvidenceJob \<Rightarrow> evidence_event set \<Rightarrow> bool" where
  "fenced rn j A \<longleftrightarrow> (\<exists>g t. EvFence (ej_ID j) (trim_space (er_workerID rn)) g t None \<in> A)"

text \<open>A document was made for the job, and a registry answered with the descriptor of its upload.\<close>

definition document_made :: "EvidenceJob \<Rightarrow> SBOMDocument \<Rightarrow> string \<Rightarrow> PublishedDescriptor \<Rightarrow> evidence_event set \<Rightarrow> bool" where
  "document_made j document predicate d A \<longleftrightarrow>
     ej_Kind j = EvidenceKindSBOM \<and> EvSBOM (job_request j) (Inr document) \<in> A \<and>
       EvSBOMPublished (job_publication j document) (Inr d) \<in> A \<and> predicate = [] \<or>
     ej_Kind j = EvidenceKindProvenance \<and> EvProvenance (provenance_request j) (Inr document) \<in> A \<and>
       EvProvenancePublished (job_publication j document) (Inr d) \<in> A \<and> predicate = doc_PredicateType document"

definition evidence_earned :: "evidence_runner \<Rightarrow> evidence_event set \<Rightarrow> EvidenceJob \<Rightarrow> Evidence \<Rightarrow> bool" where
  "evidence_earned rn A j e \<longleftrightarrow>
     (\<exists>document predicate d i now. document_made j document predicate d A \<and> validPublishedDescriptor rn d \<and>
        NewEvidence (jl_supply (er_library rn))
          (job_evidence j i (doc_MediaType document) (doc_FormatVersion document) predicate (pd_Digest d) now) = Inr e)"

definition observation_earned ::
  "evidence_runner \<Rightarrow> evidence_event set \<Rightarrow> EvidenceJob \<Rightarrow> Evidence \<Rightarrow> VulnerabilityObservation \<Rightarrow> bool" where
  "observation_earned rn A j e ob \<longleftrightarrow>
     (\<exists>report d i now oi. EvScan (job_request j) (Inr report) \<in> A \<and>
        EvReportPublished (job_publication j report) (Inr d) \<in> A \<and> validPublishedDescriptor rn d \<and>
        NewEvidence (jl_supply (er_library rn))
          (job_evidence j i (vr_MediaType report) (vr_FormatVersion report) [] (pd_Digest d) now) = Inr e \<and>
        NewVulnerabilityObservation (jl_supply (er_library rn)) (job_observation rn j report e oi) = Inr ob)"

text \<open>
  The trust material of the job's frozen policy was resolved, the artifact was verified against it with
  the result the policy demands, and where the job signs, the signer used the frozen key.
\<close>

definition verification_earned :: "evidence_runner \<Rightarrow> evidence_event set \<Rightarrow> EvidenceJob \<Rightarrow> EvidenceVerification \<Rightarrow> bool" where
  "verification_earned rn A j v \<longleftrightarrow>
     (\<exists>trust r signing i now. EvTrust (ej_Signature j) (Inr trust) \<in> A \<and>
        EvVerify (verification_request j trust) (Inr r) \<in> A \<and> verified_as (ej_Signature j) r \<and>
        (ej_SignatureOperation j = SignatureOperationSignAndVerify \<longrightarrow>
           EvSign (signing_request j) (Inr signing) \<in> A \<and> signed_by (ej_Signing j) signing) \<and>
        NewEvidenceVerification (jl_supply (er_library rn)) (job_verification j signing r i now) = Inr v)"

fun evidence_allowed :: "evidence_runner \<Rightarrow> evidence_event set \<Rightarrow> evidence_event \<Rightarrow> bool" where
  "evidence_allowed rn A (EvSave j f _) \<longleftrightarrow> ej_Status j \<noteq> EvidenceJobSucceeded"
| "evidence_allowed rn A (EvPublishEvidence j e f _) \<longleftrightarrow>
     ej_Status j = EvidenceJobSucceeded \<and> fenced rn j A \<and> evidence_earned rn A j e"
| "evidence_allowed rn A (EvPublishObservation j e ob f _) \<longleftrightarrow>
     ej_Status j = EvidenceJobSucceeded \<and> fenced rn j A \<and> observation_earned rn A j e ob"
| "evidence_allowed rn A (EvPublishVerification j v f _) \<longleftrightarrow>
     ej_Status j = EvidenceJobSucceeded \<and> fenced rn j A \<and> verification_earned rn A j v"
| "evidence_allowed rn A _ \<longleftrightarrow> True"

lemma earned_mono:
  assumes "A \<subseteq> B"
  shows "fenced rn j A \<Longrightarrow> fenced rn j B" "evidence_earned rn A j e \<Longrightarrow> evidence_earned rn B j e"
    "observation_earned rn A j e ob \<Longrightarrow> observation_earned rn B j e ob"
    "verification_earned rn A j v \<Longrightarrow> verification_earned rn B j v"
  using assms unfolding fenced_def evidence_earned_def document_made_def observation_earned_def
    verification_earned_def by blast+

interpretation runs: trace_safety "evidence_allowed rn" for rn
proof unfold_locales
  fix A B ev
  assume "evidence_allowed rn A ev" "A \<subseteq> B"
  then show "evidence_allowed rn B ev" by (cases ev) (auto intro: earned_mono)
qed

section \<open>The queue keeps what a job is about\<close>

definition keeps_jobs :: "evidence_env \<Rightarrow> (string \<Rightarrow> EvidenceJob) \<Rightarrow> bool" where
  "keeps_jobs env cores \<longleftrightarrow>
     (\<forall>c tr j. ee_claim env c tr = Inr (Some j) \<longrightarrow> job_core j = cores (ej_ID j)) \<and>
     (\<forall>i f t tr j. ee_renew env i f t tr = Inr j \<longrightarrow> ej_ID j = i \<and> job_core j = cores i) \<and>
     (\<forall>k f tr j. ee_save env k f tr = Inr j \<longrightarrow> job_core j = job_core k)"

text \<open>A job the queue knows: nothing of what it is about has changed.\<close>

definition queued_job :: "(string \<Rightarrow> EvidenceJob) \<Rightarrow> EvidenceJob \<Rightarrow> bool" where
  "queued_job cores j \<longleftrightarrow> job_core j = cores (ej_ID j)"

lemma queued_job_cong: "job_core k = job_core j \<Longrightarrow> queued_job cores j \<Longrightarrow> queued_job cores k"
  using job_core_fields(1)[of k j] by (simp add: queued_job_def)

lemma requests_cong:
  assumes "job_core k = job_core j"
  shows "job_request k = job_request j" "job_publication k d = job_publication j d"
    "provenance_request k = provenance_request j" "verification_request k m = verification_request j m"
    "signing_request k = signing_request j" "job_evidence k i a b c e t = job_evidence j i a b c e t"
    "job_observation rn k report ev oi = job_observation rn j report ev oi"
    "job_verification k s r i t = job_verification j s r i t"
  using job_core_fields[OF assms]
  by (simp_all add: job_request_def job_publication_def provenance_request_def verification_request_def
      signing_request_def job_evidence_def job_observation_def job_verification_def)

lemma earned_cong:
  assumes "job_core k = job_core j"
  shows "fenced rn k A \<longleftrightarrow> fenced rn j A" "evidence_earned rn A k e \<longleftrightarrow> evidence_earned rn A j e"
    "observation_earned rn A k e ob \<longleftrightarrow> observation_earned rn A j e ob"
    "verification_earned rn A k v \<longleftrightarrow> verification_earned rn A j v"
  by (simp_all add: fenced_def evidence_earned_def document_made_def observation_earned_def verification_earned_def
      requests_cong[OF assms] job_core_fields[OF assms])

section \<open>The controller's calls\<close>

lemma clock_triple: "runs.triple rn F (clock env) (\<lambda>now G. EvClock now \<in> G)"
  unfolding clock_def by (rule runs.triple_conseq[OF runs.triple_ask]) auto

lemma newEvidenceID_triple: "runs.triple rn F (newEvidenceID env) (\<lambda>_ _. True)"
  unfolding newEvidenceID_def by (rule runs.triple_weaken[OF runs.triple_ask_or_fail]) simp

lemma lift_error_triple: "runs.triple rn F (lift_error r) (\<lambda>x _. r = Inr x)"
  unfolding lift_error_def by (rule runs.triple_conseq[OF runs.triple_lift]) (auto split: sum.splits)

lemma transition_core:
  "Job_Transition j s now = Inr k \<Longrightarrow> job_core k = job_core j \<and> ej_Status k = s"
  by (auto simp: Job_Transition_Inr)

lemma fail_core: "Job_Fail j f now = Inr k \<Longrightarrow> job_core k = job_core j \<and> ej_Status k = EvidenceJobFailed"
  by (auto simp: Job_Fail_Inr)

lemma claim_triple:
  assumes "keeps_jobs env cores"
  shows "runs.triple rn F (controller_Claim env rn) (\<lambda>r _. \<forall>j. r = Some j \<longrightarrow> queued_job cores j)"
  unfolding controller_Claim_def Let_def
  by (rule runs.triple_bind[OF clock_triple], rule runs.triple_conseq[OF runs.triple_ask_or_fail])
    (use assms in \<open>auto simp: keeps_jobs_def queued_job_def\<close>)

lemma advance_triple:
  assumes "keeps_jobs env cores" "s \<noteq> EvidenceJobSucceeded"
  shows "runs.triple rn F (controller_Advance env rn j s) (\<lambda>k _. job_core k = job_core j)"
  unfolding controller_Advance_def
proof (rule runs.triple_bind[OF clock_triple], rule runs.triple_bind[OF lift_error_triple])
  fix now k G
  assume "Job_Transition j s now = Inr k"
  note k = transition_core[OF this]
  show "runs.triple rn G (ask_or_fail (ee_save env k (job_fence rn j now)) (EvSave k (job_fence rn j now)))
      (\<lambda>k _. job_core k = job_core j)"
    by (rule runs.triple_conseq[OF runs.triple_ask_or_fail]) (use k assms in \<open>auto simp: keeps_jobs_def\<close>)
qed

lemma fail_triple: "runs.triple rn F (controller_Fail env rn j f) (\<lambda>_ _. True)"
  unfolding controller_Fail_def
proof (rule runs.triple_bind[OF clock_triple], rule runs.triple_bind[OF lift_error_triple])
  fix now k G
  assume "Job_Fail j f now = Inr k"
  note k = fail_core[OF this]
  show "runs.triple rn G (ask_or_fail (ee_save env k (job_fence rn j now)) (EvSave k (job_fence rn j now))) (\<lambda>_ _. True)"
    by (rule runs.triple_weaken[OF runs.triple_ask_or_fail]) (use k in simp)
qed

lemma recordFailure_triple: "runs.triple rn F (recordFailure env rn j f) (\<lambda>_ _. True)"
  unfolding recordFailure_def
  by (rule runs.triple_bind[OF runs.triple_read])
    (auto split: option.split intro!: runs.triple_fail runs.triple_bind[OF fail_triple]
      runs.triple_weaken[OF runs.triple_return])

lemma fence_triple: "runs.triple rn F (controller_ValidateFence env rn j) (\<lambda>_ G. fenced rn j G)"
  unfolding controller_ValidateFence_def
proof (rule runs.triple_bind[OF clock_triple], rule runs.triple_bind[OF runs.triple_ask], simp)
  fix now c G
  assume c: "EvFence (ej_ID j) (trim_space (er_workerID rn)) (elease_Generation (ej_Lease j)) now c \<in> G \<and>
    (\<exists>tr. c = ee_fence env (ej_ID j) (trim_space (er_workerID rn)) (elease_Generation (ej_Lease j)) now tr)"
  show "runs.triple rn G (op_check c) (\<lambda>_ G. fenced rn j G)"
    by (rule runs.triple_conseq[OF runs.triple_check]) (use c in \<open>auto simp: fenced_def\<close>)
qed

lemma renew_triple:
  assumes "keeps_jobs env cores" "queued_job cores j"
  shows "runs.triple rn F (controller_Heartbeat env rn j) (\<lambda>r _. \<forall>k. r = Inr k \<longrightarrow> job_core k = job_core j)"
  unfolding controller_Heartbeat_def
  by (rule runs.triple_bind[OF clock_triple], rule runs.triple_conseq[OF runs.triple_ask])
    (use assms in \<open>auto simp: keeps_jobs_def queued_job_def\<close>)

lemma heartbeats_triple:
  assumes "keeps_jobs env cores" "queued_job cores j"
  shows "runs.triple rn F (heartbeats env rn n j) (\<lambda>p _. job_core (fst p) = job_core j)"
  using assms(2)
proof (induction n arbitrary: j F)
  case 0
  show ?case by (simp add: runs.triple_def)
next
  case (Suc n)
  show ?case
    unfolding heartbeats.simps
  proof (rule runs.triple_bind[OF renew_triple[OF assms(1) Suc.prems]])
    fix r :: "EvidenceJob answer" and G
    assume r: "\<forall>k. r = Inr k \<longrightarrow> job_core k = job_core j"
    show "runs.triple rn G (case r of Inl e \<Rightarrow> op_return (j, Some e) | Inr k \<Rightarrow> heartbeats env rn n k)
        (\<lambda>p _. job_core (fst p) = job_core j)"
    proof (cases r)
      case (Inl e)
      then show ?thesis by (simp add: runs.triple_def op_return_def)
    next
      case (Inr k)
      with r have k: "job_core k = job_core j" by simp
      from Suc.IH[OF queued_job_cong[OF k Suc.prems]] k Inr show ?thesis by simp
    qed
  qed
qed

text \<open>An answer that is used was received.\<close>

lemma withHeartbeat_triple:
  assumes "keeps_jobs env cores" "queued_job cores j" "\<And>r. evidence_allowed rn F (ev r)"
  shows "runs.triple rn F (withHeartbeat env rn j answer ev)
     (\<lambda>p G. job_core (fst p) = job_core j \<and> queued_job cores (fst p) \<and> (\<forall>x. snd p = Inr x \<longrightarrow> ev (Inr x) \<in> G))"
  unfolding withHeartbeat_def
proof (rule runs.triple_bind[OF runs.triple_ask[OF assms(3)]], rule runs.triple_bind[OF runs.triple_read])
  fix r G n H
  assume "ev r \<in> G \<and> (\<exists>tr. r = answer tr)" "G \<subseteq> H"
  then have r: "ev r \<in> H" by blast
  show "runs.triple rn H (op_bind (heartbeats env rn n j)
      (\<lambda>(latest, stop). op_return (latest, case stop of Some e \<Rightarrow> Inl e | None \<Rightarrow> r)))
      (\<lambda>p G. job_core (fst p) = job_core j \<and> queued_job cores (fst p) \<and> (\<forall>x. snd p = Inr x \<longrightarrow> ev (Inr x) \<in> G))"
  proof (rule runs.triple_bind[OF heartbeats_triple[OF assms(1,2)]])
    fix p :: "EvidenceJob \<times> chain option" and K
    assume p: "H \<subseteq> K" "job_core (fst p) = job_core j"
    note q = queued_job_cong[OF p(2) assms(2)]
    obtain latest stop where [simp]: "p = (latest, stop)" by (cases p)
    show "runs.triple rn K (case p of (latest, stop) \<Rightarrow> op_return (latest, case stop of Some e \<Rightarrow> Inl e | None \<Rightarrow> r))
        (\<lambda>p G. job_core (fst p) = job_core j \<and> queued_job cores (fst p) \<and> (\<forall>x. snd p = Inr x \<longrightarrow> ev (Inr x) \<in> G))"
      unfolding \<open>p = _\<close> prod.case
      by (rule runs.triple_conseq[OF runs.triple_return]) (use p q r in \<open>auto split: option.splits\<close>)
  qed
qed

section \<open>Runs\<close>

text \<open>Every end of a run is a failure recorded, or a publication that is earned.\<close>

lemma publish_triple:
  assumes "\<And>k f r. job_core k = job_core j \<Longrightarrow> ej_Status k = EvidenceJobSucceeded \<Longrightarrow> evidence_allowed rn F (ev k f r)"
  shows "runs.triple rn F (controller_Publish env rn j ev) (\<lambda>_ _. True)"
  unfolding controller_Publish_def
proof (rule runs.triple_bind[OF clock_triple], rule runs.triple_bind[OF lift_error_triple])
  fix now k G H
  assume "F \<subseteq> G" "G \<subseteq> H" "Job_Transition j EvidenceJobSucceeded now = Inr k"
  with transition_core[OF this(3)] assms
  have "evidence_allowed rn H (ev k f r)" for f r
    using runs.allowed_mono[of rn F "ev k f r" H] by blast
  then show "runs.triple rn H (ask_or_fail (ee_publish env k) (ev k (job_fence rn j now))) (\<lambda>_ _. True)"
    by (rule runs.triple_weaken[OF runs.triple_ask_or_fail])
qed

lemma to_publishing_triple:
  assumes "keeps_jobs env cores"
  shows "runs.triple rn F (to_publishing env rn j) (\<lambda>k _. job_core k = job_core j)"
proof (cases "ej_Status j = EvidenceJobGenerating")
  case True
  then show ?thesis by (simp add: to_publishing_def advance_triple[OF assms])
next
  case False
  then show ?thesis
    by (simp add: to_publishing_def) (rule runs.triple_conseq[OF runs.triple_return], simp)
qed

lemma index_document_triple:
  assumes "fenced rn j F" "document_made j document predicate d F" "job_core k = job_core j"
  shows "runs.triple rn F (index_document env rn k document predicate d) (\<lambda>_ _. True)"
proof (cases "validPublishedDescriptor rn d")
  case valid: True
  have "runs.triple rn F (op_bind (newEvidenceID env) (\<lambda>i. op_bind (clock env) (\<lambda>now.
      case NewEvidence (jl_supply (er_library rn)) (job_evidence k i (doc_MediaType document)
          (doc_FormatVersion document) predicate (pd_Digest d) now) of
        Inl _ \<Rightarrow> recordFailure env rn k EvidenceJobFailureRegistryPublish
      | Inr e \<Rightarrow> controller_Publish env rn k (\<lambda>k. EvPublishEvidence k e)))) (\<lambda>_ _. True)"
  proof (rule runs.triple_bind[OF newEvidenceID_triple], rule runs.triple_bind[OF clock_triple])
    fix i G now H
    assume "F \<subseteq> G" "G \<subseteq> H"
    then have F: "F \<subseteq> H" by blast
    let ?new = "NewEvidence (jl_supply (er_library rn)) (job_evidence k i (doc_MediaType document)
          (doc_FormatVersion document) predicate (pd_Digest d) now)"
    show "runs.triple rn H (case ?new of Inl _ \<Rightarrow> recordFailure env rn k EvidenceJobFailureRegistryPublish
        | Inr e \<Rightarrow> controller_Publish env rn k (\<lambda>k. EvPublishEvidence k e)) (\<lambda>_ _. True)"
    proof (cases ?new)
      case (Inr e)
      then have "evidence_earned rn F j e"
        using assms(2) valid unfolding evidence_earned_def requests_cong[OF assms(3)] by blast
      then have earned: "evidence_earned rn H j e" "fenced rn j H" using earned_mono[OF F] assms(1) by blast+
      show ?thesis unfolding Inr sum.case
      proof (rule publish_triple)
        fix l f r
        assume l: "job_core l = job_core k" "ej_Status l = EvidenceJobSucceeded"
        then have "job_core l = job_core j" using assms(3) by simp
        from earned_cong[OF this] earned l(2) show "evidence_allowed rn H (EvPublishEvidence l e f r)" by simp
      qed
    qed (simp add: recordFailure_triple)
  qed
  with valid show ?thesis by (simp add: index_document_def)
qed (simp add: index_document_def recordFailure_triple)

text \<open>An operation beside heartbeats, its failure, and its answer.\<close>

lemma heartbeat_case:
  assumes "keeps_jobs env cores" "queued_job cores j" "\<And>r A. evidence_allowed rn A (ev r)"
    and "\<And>k e G. job_core k = job_core j \<Longrightarrow> queued_job cores k \<Longrightarrow> runs.triple rn G (failed k e) Q"
    and "\<And>k x G. F \<subseteq> G \<Longrightarrow> job_core k = job_core j \<Longrightarrow> queued_job cores k \<Longrightarrow> ev (Inr x) \<in> G \<Longrightarrow> runs.triple rn G (answered k x) Q"
  shows "runs.triple rn F (op_bind (withHeartbeat env rn j answer ev)
     (\<lambda>(k, r). case r of Inl e \<Rightarrow> failed k e | Inr x \<Rightarrow> answered k x)) Q"
proof (rule runs.triple_bind[OF withHeartbeat_triple[OF assms(1-3)]])
  fix p :: "EvidenceJob \<times> 'a answer" and G
  assume G: "F \<subseteq> G" and p: "job_core (fst p) = job_core j \<and> queued_job cores (fst p) \<and>
    (\<forall>x. snd p = Inr x \<longrightarrow> ev (Inr x) \<in> G)"
  obtain k r where [simp]: "p = (k, r)" by (cases p)
  show "runs.triple rn G (case p of (k, r) \<Rightarrow> (case r of Inl e \<Rightarrow> failed k e | Inr x \<Rightarrow> answered k x)) Q"
    using assms(4) assms(5)[OF G] p by (cases r) simp_all
qed

lemma publish_document_triple:
  assumes "keeps_jobs env cores" "queued_job cores j" "\<And>q r A. evidence_allowed rn A (ev q r)"
    and made: "\<And>d G. F \<subseteq> G \<Longrightarrow> ev (job_publication j document) (Inr d) \<in> G \<Longrightarrow> document_made j document predicate d G"
  shows "runs.triple rn F (publish_document env rn j upload ev document predicate) (\<lambda>_ _. True)"
  unfolding publish_document_def
proof (rule runs.triple_bind[OF fence_triple], rule runs.triple_bind[OF to_publishing_triple[OF assms(1)]],
    rule heartbeat_case[OF assms(1) queued_job_cong[OF _ assms(2)] assms(3) recordFailure_triple])
  fix G H k l d K
  assume F: "F \<subseteq> G" "G \<subseteq> H" "fenced rn j G" "H \<subseteq> K" and k: "job_core k = job_core j"
    and l: "job_core l = job_core k" "ev (job_publication k document) (Inr d) \<in> K"
  show "runs.triple rn K (index_document env rn l document predicate d) (\<lambda>_ _. True)"
  proof (rule index_document_triple)
    show "fenced rn j K" using earned_mono(1)[OF _ F(3)] F by blast
    show "document_made j document predicate d K"
      using l(2) F by (intro made) (auto simp: requests_cong[OF k])
    show "job_core l = job_core j" using l k by simp
  qed
qed

lemma runSBOM_triple:
  assumes "keeps_jobs env cores" "queued_job cores j" "ej_Kind j = EvidenceKindSBOM"
  shows "runs.triple rn F (runSBOM env rn j) (\<lambda>_ _. True)"
  unfolding runSBOM_def
proof (rule heartbeat_case[OF assms(1,2) _ recordFailure_triple])
  fix k document G
  assume k: "job_core k = job_core j" "queued_job cores k" and made: "EvSBOM (job_request j) (Inr document) \<in> G"
  show "runs.triple rn G (publish_document env rn k (ee_publish_sbom env) EvSBOMPublished document []) (\<lambda>_ _. True)"
    by (rule publish_document_triple[OF assms(1) k(2)])
      (use made k assms(3) in \<open>auto simp: document_made_def requests_cong[OF k(1)] job_core_fields[OF k(1)]\<close>)
qed simp

lemma runProvenance_triple:
  assumes "keeps_jobs env cores" "queued_job cores j" "ej_Kind j = EvidenceKindProvenance"
  shows "runs.triple rn F (runProvenance env rn j) (\<lambda>_ _. True)"
proof (cases "er_hasProvenance rn")
  case True
  have "runs.triple rn F (op_bind (withHeartbeat env rn j (ee_provenance env (provenance_request j))
      (EvProvenance (provenance_request j))) (\<lambda>(k, r). case r of
        Inl e \<Rightarrow> recordFailure env rn k (categorizeProvenanceGeneration e)
      | Inr document \<Rightarrow> publish_document env rn k (ee_publish_provenance env) EvProvenancePublished document
          (doc_PredicateType document))) (\<lambda>_ _. True)"
  proof (rule heartbeat_case[OF assms(1,2) _ recordFailure_triple])
    fix k document G
    assume k: "job_core k = job_core j" "queued_job cores k"
      and made: "EvProvenance (provenance_request j) (Inr document) \<in> G"
    show "runs.triple rn G (publish_document env rn k (ee_publish_provenance env) EvProvenancePublished document
        (doc_PredicateType document)) (\<lambda>_ _. True)"
      by (rule publish_document_triple[OF assms(1) k(2)])
        (use made k assms(3) in \<open>auto simp: document_made_def requests_cong[OF k(1)] job_core_fields[OF k(1)]\<close>)
  qed simp
  with True show ?thesis by (simp add: runProvenance_def)
qed (simp add: runProvenance_def recordFailure_triple)

lemma publish_observation_triple:
  assumes "fenced rn j F" "EvScan (job_request j) (Inr report) \<in> F"
    "EvReportPublished (job_publication j report) (Inr d) \<in> F" "job_core k = job_core j"
  shows "runs.triple rn F (publish_observation env rn k report d) (\<lambda>_ _. True)"
proof (cases "validPublishedDescriptor rn d")
  case valid: True
  show ?thesis
  proof (simp only: publish_observation_def valid not_True_eq_False if_False,
      rule runs.triple_bind[OF newEvidenceID_triple], rule runs.triple_bind[OF clock_triple])
    fix i G now H
    assume "F \<subseteq> G" "G \<subseteq> H"
    then have F: "F \<subseteq> H" by blast
    have published: "runs.triple rn H (controller_Publish env rn k (\<lambda>k. EvPublishObservation k e ob)) (\<lambda>_ _. True)"
      if "NewEvidence (jl_supply (er_library rn)) (job_evidence k i (vr_MediaType report) (vr_FormatVersion report) []
            (pd_Digest d) now) = Inr e"
        "NewVulnerabilityObservation (jl_supply (er_library rn)) (job_observation rn k report e oi) = Inr ob" for e ob oi
    proof -
      have "observation_earned rn F j e ob"
        using assms(2,3) valid that unfolding observation_earned_def requests_cong[OF assms(4)] by blast
      then have earned: "observation_earned rn H j e ob" "fenced rn j H" using earned_mono[OF F] assms(1) by blast+
      show ?thesis
      proof (rule publish_triple)
        fix l f r
        assume l: "job_core l = job_core k" "ej_Status l = EvidenceJobSucceeded"
        then have "job_core l = job_core j" using assms(4) by simp
        from earned_cong[OF this] earned l(2) show "evidence_allowed rn H (EvPublishObservation l e ob f r)" by simp
      qed
    qed
    show "runs.triple rn H (case NewEvidence (jl_supply (er_library rn)) (job_evidence k i (vr_MediaType report)
           (vr_FormatVersion report) [] (pd_Digest d) now) of
         Inl _ \<Rightarrow> recordFailure env rn k EvidenceJobFailureRegistryPublish
       | Inr e \<Rightarrow>
           (case VulnerabilityObservationID (ej_ArtifactID k) ''trivy'' of
              Inl _ \<Rightarrow> recordFailure env rn k EvidenceJobFailureGeneration
            | Inr oi \<Rightarrow>
                (case NewVulnerabilityObservation (jl_supply (er_library rn)) (job_observation rn k report e oi) of
                   Inl _ \<Rightarrow> recordFailure env rn k EvidenceJobFailureGeneration
                 | Inr ob \<Rightarrow>
                     if \<not> er_observations rn then op_fail [ErrUnavailable]
                     else controller_Publish env rn k (\<lambda>k. EvPublishObservation k e ob)))) (\<lambda>_ _. True)"
      by (auto split: sum.split intro: recordFailure_triple runs.triple_fail published)
  qed
qed (simp add: publish_observation_def recordFailure_triple)

lemma runVulnerabilityScan_triple:
  assumes "keeps_jobs env cores" "queued_job cores j"
  shows "runs.triple rn F (runVulnerabilityScan env rn j) (\<lambda>_ _. True)"
proof (cases "\<not> er_hasScanner rn \<or> er_freshness rn = 0")
  case False
  show ?thesis
    unfolding runVulnerabilityScan_def if_not_P[OF False]
  proof (rule heartbeat_case[OF assms _ recordFailure_triple], simp, rule runs.triple_bind[OF fence_triple],
      rule runs.triple_bind[OF to_publishing_triple[OF assms(1)]], rule heartbeat_case[OF assms(1) _ _ recordFailure_triple])
    fix a report G H K b
    assume a: "job_core a = job_core j" "queued_job cores a" "job_core b = job_core a"
    then show "queued_job cores b" by (blast intro: queued_job_cong)
  next
    fix a report G H K b c d L
    assume "G \<subseteq> H" "H \<subseteq> K" "K \<subseteq> L" "fenced rn a H" "EvScan (job_request j) (Inr report) \<in> G"
      and a: "job_core a = job_core j" "job_core b = job_core a" "job_core c = job_core b"
      and d: "EvReportPublished (job_publication b report) (Inr d) \<in> L"
    then have "fenced rn j L" "EvScan (job_request j) (Inr report) \<in> L"
      using earned_mono(1)[of H L rn a] earned_cong(1)[OF a(1)] by blast+
    moreover have "job_publication b report = job_publication j report" using a by (intro requests_cong) simp
    ultimately show "runs.triple rn L (publish_observation env rn c report d) (\<lambda>_ _. True)"
      by (intro publish_observation_triple) (use d a in auto)
  qed simp
qed (simp add: runVulnerabilityScan_def recordFailure_triple)

text \<open>What is known of the signer's answer.\<close>

definition signing_done :: "EvidenceJob \<Rightarrow> SignatureSigningResult \<Rightarrow> evidence_event set \<Rightarrow> bool" where
  "signing_done j r A \<longleftrightarrow> (ej_SignatureOperation j = SignatureOperationSignAndVerify \<longrightarrow>
     EvSign (signing_request j) (Inr r) \<in> A \<and> signed_by (ej_Signing j) r)"

lemma sign_step_triple:
  assumes "keeps_jobs env cores" "queued_job cores j"
  shows "runs.triple rn F (sign_step env rn j) (\<lambda>p G. job_core (fst p) = job_core j \<and> queued_job cores (fst p) \<and>
     (\<forall>r. snd p = Some r \<longrightarrow> signing_done j r G))"
proof (cases "ej_SignatureOperation j = SignatureOperationSignAndVerify \<and> er_hasSigner rn")
  case False
  then show ?thesis using assms(2)
    by (auto simp: sign_step_def signing_done_def intro!: runs.triple_conseq[OF runs.triple_return])
next
  case True
  show ?thesis
  proof (simp only: sign_step_def True simp_thms if_False, rule heartbeat_case[OF assms])
    fix k e G
    assume k: "job_core k = job_core j" "queued_job cores k"
    show "runs.triple rn G (op_return (k, None)) (\<lambda>p G. job_core (fst p) = job_core j \<and> queued_job cores (fst p) \<and>
        (\<forall>r. snd p = Some r \<longrightarrow> signing_done j r G))"
      by (rule runs.triple_conseq[OF runs.triple_return]) (use k in simp)
  next
    fix k r G
    assume k: "job_core k = job_core j" "queued_job cores k" and r: "EvSign (signing_request j) (Inr r) \<in> G"
    show "runs.triple rn G (if \<not> signed_by (ej_Signing k) r then op_return (k, None)
        else op_bind (controller_ValidateFence env rn k) (\<lambda>_. op_return (k, Some r)))
        (\<lambda>p G. job_core (fst p) = job_core j \<and> queued_job cores (fst p) \<and> (\<forall>r. snd p = Some r \<longrightarrow> signing_done j r G))"
      using k r by (auto simp: signing_done_def job_core_fields[OF k(1)]
          intro!: runs.triple_bind[OF fence_triple] runs.triple_conseq[OF runs.triple_return])
  qed simp
qed

lemma publish_verification_triple:
  assumes "EvTrust (ej_Signature j) (Inr trust) \<in> F" "EvVerify (verification_request j trust) (Inr r) \<in> F"
    "signing_done j sr F" "job_core k = job_core j"
  shows "runs.triple rn F (publish_verification env rn k sr r) (\<lambda>_ _. True)"
proof (cases "verified_as (ej_Signature k) r")
  case verified: True
  show ?thesis
  proof (simp only: publish_verification_def verified not_True_eq_False if_False, rule runs.triple_bind[OF fence_triple],
      rule runs.triple_bind[OF newEvidenceID_triple], rule runs.triple_bind[OF clock_triple])
    fix G H i K now
    assume F: "F \<subseteq> G" "G \<subseteq> H" "H \<subseteq> K" and fence: "fenced rn k G"
    let ?new = "NewEvidenceVerification (jl_supply (er_library rn)) (job_verification k sr r i now)"
    have sub: "F \<subseteq> K" "G \<subseteq> K" using F by blast+
    show "runs.triple rn K (case ?new of Inl _ \<Rightarrow> recordFailure env rn k EvidenceJobFailureSignatureVerify
        | Inr v \<Rightarrow> controller_Publish env rn k (\<lambda>k. EvPublishVerification k v)) (\<lambda>_ _. True)"
    proof (cases ?new)
      case (Inr v)
      then have "verification_earned rn F j v"
        using assms(1-3) verified unfolding verification_earned_def signing_done_def requests_cong[OF assms(4)]
          job_core_fields[OF assms(4)] by blast
      then have earned: "verification_earned rn K j v" "fenced rn j K"
        using earned_mono(4)[OF sub(1)] earned_mono(1)[OF sub(2)] fence earned_cong(1)[OF assms(4)] by blast+
      show ?thesis unfolding Inr sum.case
      proof (rule publish_triple)
        fix l f a
        assume l: "job_core l = job_core k" "ej_Status l = EvidenceJobSucceeded"
        then have "job_core l = job_core j" using assms(4) by simp
        from earned_cong[OF this] earned l(2) show "evidence_allowed rn K (EvPublishVerification l v f a)" by simp
      qed
    qed (simp add: recordFailure_triple)
  qed
qed (simp add: publish_verification_def recordFailure_triple)

lemma signing_done_cong:
  assumes "job_core k = job_core j"
  shows "signing_done k r A \<longleftrightarrow> signing_done j r A"
  by (simp add: signing_done_def requests_cong[OF assms] job_core_fields[OF assms])

lemma verify_triple:
  assumes "keeps_jobs env cores" "queued_job cores j" "signing_done j sr F"
  shows "runs.triple rn F (verify_signature env rn j sr) (\<lambda>_ _. True)"
  unfolding verify_signature_def
proof (rule runs.triple_bind[OF runs.triple_ask], simp)
  fix resolved :: "SignatureTrustMaterial answer" and G
  assume G: "F \<subseteq> G" and t: "EvTrust (ej_Signature j) resolved \<in> G \<and> (\<exists>tr. resolved = ee_trust env (ej_Signature j) tr)"
  have "runs.triple rn G (op_bind (withHeartbeat env rn j (ee_verify env (verification_request j trust))
      (EvVerify (verification_request j trust))) (\<lambda>(k, verified). case verified of
        Inl e \<Rightarrow> recordFailure env rn k
          (if ErrSupplyRegistryAuthentication \<in> set e then EvidenceJobFailureImagePull
           else EvidenceJobFailureSignatureVerify)
      | Inr r \<Rightarrow> publish_verification env rn k sr r)) (\<lambda>_ _. True)" if trust: "resolved = Inr trust" for trust
  proof (rule heartbeat_case[OF assms(1,2) _ recordFailure_triple])
    fix k r H
    assume H: "G \<subseteq> H" and k: "job_core k = job_core j" and r: "EvVerify (verification_request j trust) (Inr r) \<in> H"
    have sign: "signing_done j sr H" using assms(3) G H unfolding signing_done_def by blast
    have known: "EvTrust (ej_Signature j) (Inr trust) \<in> H" using t H trust by auto
    show "runs.triple rn H (publish_verification env rn k sr r) (\<lambda>_ _. True)"
      by (rule publish_verification_triple[OF known r sign k])
  qed simp
  then show "runs.triple rn G (case resolved of
       Inl _ \<Rightarrow> recordFailure env rn j EvidenceJobFailureSignatureTrust
     | Inr trust \<Rightarrow>
         op_bind (withHeartbeat env rn j (ee_verify env (verification_request j trust))
             (EvVerify (verification_request j trust)))
           (\<lambda>(k, verified). case verified of
             Inl e \<Rightarrow> recordFailure env rn k
               (if ErrSupplyRegistryAuthentication \<in> set e then EvidenceJobFailureImagePull
                else EvidenceJobFailureSignatureVerify)
           | Inr r \<Rightarrow> publish_verification env rn k sr r)) (\<lambda>_ _. True)"
    by (cases resolved) (simp_all add: recordFailure_triple)
qed

lemma runSignature_triple:
  assumes "keeps_jobs env cores" "queued_job cores j"
  shows "runs.triple rn F (runSignature env rn j) (\<lambda>_ _. True)"
proof (cases "\<not> er_hasSignatures rn \<or> ej_Status j \<noteq> EvidenceJobVerifying")
  case False
  show ?thesis
    unfolding runSignature_def if_not_P[OF False]
  proof (rule runs.triple_bind[OF sign_step_triple[OF assms]])
    fix p :: "EvidenceJob \<times> SignatureSigningResult option" and G
    assume p: "job_core (fst p) = job_core j \<and> queued_job cores (fst p) \<and> (\<forall>r. snd p = Some r \<longrightarrow> signing_done j r G)"
    obtain k signing where [simp]: "p = (k, signing)" by (cases p)
    show "runs.triple rn G (case p of (k, signing) \<Rightarrow> (case signing of
          None \<Rightarrow> recordFailure env rn k EvidenceJobFailureSignatureSign
        | Some sr \<Rightarrow> verify_signature env rn k sr)) (\<lambda>_ _. True)"
      using p signing_done_cong[of k j]
      by (cases signing) (simp_all add: recordFailure_triple verify_triple[OF assms(1)])
  qed
qed (simp add: runSignature_def recordFailure_triple)

lemma RunEvidence_triple:
  assumes "keeps_jobs env cores"
  shows "runs.triple rn F (RunEvidence env rn) (\<lambda>_ _. True)"
  unfolding RunEvidence_def
proof (rule runs.triple_bind[OF claim_triple[OF assms]])
  fix claimed :: "EvidenceJob option" and G
  assume claimed: "\<forall>j. claimed = Some j \<longrightarrow> queued_job cores j"
  have "runs.triple rn G (op_bind (start_job env rn j) (\<lambda>item.
      if ej_Status item \<noteq> EvidenceJobGenerating \<and> ej_Status item \<noteq> EvidenceJobPublishing \<and>
         ej_Status item \<noteq> EvidenceJobVerifying
      then op_fail [ErrInvalidEvidenceJob] else run_kind env rn item)) (\<lambda>_ _. True)" if j: "claimed = Some j" for j
  proof -
    have "runs.triple rn G (start_job env rn j) (\<lambda>k _. job_core k = job_core j)"
      using advance_triple[OF assms] by (auto simp: start_job_def intro!: runs.triple_conseq[OF runs.triple_return])
    then show ?thesis
    proof (rule runs.triple_bind)
      fix k H
      assume k: "job_core k = job_core j"
      then have "queued_job cores k" using claimed j queued_job_cong by blast
      then show "runs.triple rn H (if ej_Status k \<noteq> EvidenceJobGenerating \<and> ej_Status k \<noteq> EvidenceJobPublishing \<and>
          ej_Status k \<noteq> EvidenceJobVerifying then op_fail [ErrInvalidEvidenceJob] else run_kind env rn k) (\<lambda>_ _. True)"
        using runSBOM_triple[OF assms] runProvenance_triple[OF assms] runSignature_triple[OF assms]
          runVulnerabilityScan_triple[OF assms]
        by (auto simp: run_kind_def intro: runs.triple_fail split: EvidenceKind.split)
    qed
  qed
  then show "runs.triple rn G (case claimed of None \<Rightarrow> op_return ()
     | Some j \<Rightarrow> op_bind (start_job env rn j) (\<lambda>item.
           if ej_Status item \<noteq> EvidenceJobGenerating \<and> ej_Status item \<noteq> EvidenceJobPublishing \<and>
              ej_Status item \<noteq> EvidenceJobVerifying
           then op_fail [ErrInvalidEvidenceJob]
           else run_kind env rn item)) (\<lambda>_ _. True)"
    by (cases claimed) (simp_all add: runs.triple_weaken[OF runs.triple_return])
qed

section \<open>The order of a run\<close>

text \<open>
  Documents and reports are made, then the lease is checked, then they are uploaded: no check comes before a
  document is made, and none is made once the lease was checked.
\<close>

fun makes :: "evidence_event \<Rightarrow> bool" where
  "makes (EvSBOM _ _) \<longleftrightarrow> True"
| "makes (EvProvenance _ _) \<longleftrightarrow> True"
| "makes (EvScan _ _) \<longleftrightarrow> True"
| "makes _ \<longleftrightarrow> False"

fun uploads :: "evidence_event \<Rightarrow> bool" where
  "uploads (EvSBOMPublished _ _) \<longleftrightarrow> True"
| "uploads (EvProvenancePublished _ _) \<longleftrightarrow> True"
| "uploads (EvReportPublished _ _) \<longleftrightarrow> True"
| "uploads _ \<longleftrightarrow> False"

fun checks_lease :: "evidence_event \<Rightarrow> bool" where
  "checks_lease (EvFence _ _ _ _ _) \<longleftrightarrow> True"
| "checks_lease _ \<longleftrightarrow> False"

abbreviation making :: "evidence_event \<Rightarrow> bool" where
  "making ev \<equiv> \<not> uploads ev \<and> \<not> checks_lease ev"

abbreviation validating :: "evidence_event \<Rightarrow> bool" where
  "validating ev \<equiv> \<not> makes ev \<and> \<not> uploads ev"

abbreviation uploading :: "evidence_event \<Rightarrow> bool" where
  "uploading ev \<equiv> \<not> makes ev \<and> \<not> checks_lease ev"

abbreviation in_order :: "'a eop \<Rightarrow> bool" where
  "in_order \<equiv> phased making validating uploading"

text \<open>Calls that belong to every phase.\<close>

definition neutral :: "(evidence_event \<Rightarrow> bool) \<Rightarrow> bool" where
  "neutral P \<longleftrightarrow> (\<forall>ev. \<not> makes ev \<longrightarrow> \<not> uploads ev \<longrightarrow> \<not> checks_lease ev \<longrightarrow> P ev)"

lemma neutral_phases [simp]: "neutral making" "neutral validating" "neutral uploading"
  by (simp_all add: neutral_def)

lemma adds_neutral:
  assumes "neutral P"
  shows "adds P (clock env)" "adds P (newEvidenceID env)" "adds P (lift_error r)" "adds P (controller_Claim env rn)"
    "adds P (controller_Advance env rn j s)" "adds P (controller_Fail env rn j f)" "adds P (controller_Heartbeat env rn j)"
    "adds P (recordFailure env rn j f)" "adds P (to_publishing env rn j)" "adds P (start_job env rn j)"
  using assms unfolding clock_def newEvidenceID_def lift_error_def controller_Claim_def controller_Advance_def
    controller_Fail_def controller_Heartbeat_def recordFailure_def to_publishing_def start_job_def Let_def neutral_def
  by (auto intro!: adds_bind adds_ask adds_ask_or_fail split: option.split)

lemma adds_heartbeats: "neutral P \<Longrightarrow> adds P (heartbeats env rn n j)"
  by (induction n arbitrary: j) (auto intro!: adds_bind adds_neutral split: sum.split)

lemma adds_withHeartbeat:
  "neutral P \<Longrightarrow> (\<And>r. P (ev r)) \<Longrightarrow> adds P (withHeartbeat env rn j answer ev)"
  unfolding withHeartbeat_def by (auto intro!: adds_bind adds_ask adds_ask_or_fail adds_heartbeats)

lemma adds_fence: "adds validating (controller_ValidateFence env rn j)"
  unfolding controller_ValidateFence_def by (auto intro!: adds_bind adds_ask adds_ask_or_fail adds_neutral)

lemma adds_publish:
  "neutral P \<Longrightarrow> (\<And>k f r. P (ev k f r)) \<Longrightarrow> adds P (controller_Publish env rn j ev)"
  unfolding controller_Publish_def by (auto intro!: adds_bind adds_ask adds_ask_or_fail adds_neutral)

lemma adds_index_document: "adds uploading (index_document env rn j document predicate d)"
  unfolding index_document_def by (auto intro!: adds_bind adds_neutral adds_publish split: sum.split)

lemma adds_publish_observation: "adds uploading (publish_observation env rn j report d)"
  unfolding publish_observation_def by (auto intro!: adds_bind adds_neutral adds_publish split: sum.split)

lemma adds_failed_or:
  "neutral P \<Longrightarrow> (\<And>x. adds P (f x)) \<Longrightarrow>
     adds P (case r of Inl e \<Rightarrow> recordFailure env rn j (g e) | Inr x \<Rightarrow> f x)"
  by (cases r) (simp_all add: adds_neutral)

lemma publish_document_in_order:
  assumes "\<And>q r. uploading (ev q r)"
  shows "in_order (publish_document env rn j upload ev document predicate)"
  unfolding publish_document_def
  by (rule phased_bind_second[OF adds_fence], rule adds_bind[OF adds_neutral(9)], simp,
      rule adds_bind[OF adds_withHeartbeat])
    (use assms in \<open>auto intro!: adds_failed_or adds_index_document\<close>)

lemma phased_failed_or:
  "(\<And>x. in_order (f x)) \<Longrightarrow> in_order (case r of Inl e \<Rightarrow> recordFailure env rn j (g e) | Inr x \<Rightarrow> f x)"
  by (cases r) (simp_all add: phasedI(1) adds_neutral)

lemma made_then:
  assumes "\<And>r. making (ev r)" "\<And>k x. in_order (f k x)"
  shows "in_order (op_bind (withHeartbeat env rn j answer ev)
     (\<lambda>(k, made). case made of Inl e \<Rightarrow> recordFailure env rn k (g e) | Inr x \<Rightarrow> f k x))"
  by (rule phased_bind_first[OF adds_withHeartbeat]) (use assms in \<open>auto intro!: phased_failed_or\<close>)

lemma runSBOM_in_order: "in_order (runSBOM env rn j)"
  unfolding runSBOM_def by (auto intro!: made_then publish_document_in_order)

lemma runProvenance_in_order: "in_order (runProvenance env rn j)"
  unfolding runProvenance_def
  by (auto intro!: made_then publish_document_in_order phasedI(1)[OF adds_neutral(8)])

lemma runVulnerabilityScan_in_order: "in_order (runVulnerabilityScan env rn j)"
proof -
  have "in_order (op_bind (controller_ValidateFence env rn k) (\<lambda>_. op_bind (to_publishing env rn k) (\<lambda>l.
      op_bind (withHeartbeat env rn l (ee_publish_report env (job_publication l report))
          (EvReportPublished (job_publication l report)))
        (\<lambda>(m, published). case published of
          Inl _ \<Rightarrow> recordFailure env rn m EvidenceJobFailureRegistryPublish
        | Inr d \<Rightarrow> publish_observation env rn m report d))))" for k report
    by (rule phased_bind_second[OF adds_fence], rule adds_bind[OF adds_neutral(9)], simp,
        rule adds_bind[OF adds_withHeartbeat])
      (auto intro!: adds_failed_or adds_publish_observation)
  then show ?thesis
    unfolding runVulnerabilityScan_def by (auto intro!: made_then phasedI(1)[OF adds_neutral(8)])
qed

lemma runSignature_in_order: "in_order (runSignature env rn j)"
proof (rule phasedI(2))
  have "adds validating (sign_step env rn j)"
    unfolding sign_step_def
    by (auto intro!: adds_bind adds_withHeartbeat adds_fence split: sum.split)
  moreover have "adds validating (publish_verification env rn k sr r)" for k sr r
    unfolding publish_verification_def
    by (auto intro!: adds_bind adds_neutral adds_fence adds_publish split: sum.split)
  then have "adds validating (verify_signature env rn k sr)" for k sr
    unfolding verify_signature_def
    by (auto intro!: adds_bind adds_ask adds_ask_or_fail adds_withHeartbeat adds_neutral split: sum.split)
  ultimately show "adds validating (runSignature env rn j)"
    unfolding runSignature_def by (auto intro!: adds_bind adds_neutral split: option.split)
qed

lemma RunEvidence_in_order: "in_order (RunEvidence env rn)"
proof -
  have "in_order (run_kind env rn j)" for j
    unfolding run_kind_def
    by (auto intro: runSBOM_in_order runProvenance_in_order runSignature_in_order runVulnerabilityScan_in_order
        phasedI(1) split: EvidenceKind.split)
  then show ?thesis
    unfolding RunEvidence_def
    by (auto intro!: phased_bind_first adds_neutral phasedI(1)[OF adds_simple(1)] phasedI(1)[OF adds_simple(2)]
        split: option.split)
qed

text \<open>
  The lease of the job was found held at a point of the run after which nothing was made, and before which
  nothing was uploaded.
\<close>

definition fenced_between :: "evidence_runner \<Rightarrow> EvidenceJob \<Rightarrow> trace \<Rightarrow> bool" where
  "fenced_between rn j pre \<longleftrightarrow> (\<exists>x g t y. pre = x @ EvFence (ej_ID j) (trim_space (er_workerID rn)) g t None # y \<and>
     list_all (\<lambda>ev. \<not> uploads ev) x \<and> list_all (\<lambda>ev. \<not> makes ev) y)"

lemma fenced_in_order:
  assumes "RunEvidence env rn [] = (r, pre @ post)" "fenced rn j (set pre)"
  shows "fenced_between rn j pre"
proof -
  from RunEvidence_in_order[of env rn, unfolded phased_def, rule_format, of "[]"] obtain a b c
    where run: "pre @ post = a @ b @ c"
    and a: "list_all making a" and b: "list_all validating b" and c: "list_all uploading c"
    using assms(1) by auto
  from assms(2) obtain g t where "EvFence (ej_ID j) (trim_space (er_workerID rn)) g t None \<in> set pre"
    unfolding fenced_def by blast
  then obtain x y where pre: "pre = x @ EvFence (ej_ID j) (trim_space (er_workerID rn)) g t None # y"
    by (blast dest: split_list)
  let ?f = "EvFence (ej_ID j) (trim_space (er_workerID rn)) g t None"
  have run: "x @ ?f # (y @ post) = a @ b @ c" using run pre by simp
  have "?f \<notin> set a" "?f \<notin> set c" using a c by (auto simp: list_all_iff)
  from split_after[OF run this(1)] obtain u where u: "x = a @ u" "b @ c = u @ ?f # (y @ post)" by blast
  from split_before[OF u(2)[symmetric] \<open>?f \<notin> set c\<close>] obtain v where v: "b = u @ ?f # v" "y @ post = v @ c" by blast
  have "list_all (\<lambda>ev. \<not> uploads ev) x" using u(1) v(1) a b by (auto simp: list_all_iff)
  moreover have "list_all (\<lambda>ev. \<not> makes ev) (v @ c)" using v(1) b c by (auto simp: list_all_iff)
  then have "list_all (\<lambda>ev. \<not> makes ev) y" using v(2) by (metis list_all_append)
  ultimately show ?thesis unfolding fenced_between_def using pre by blast
qed

end
