(* ===== verification/Provenance.thy ===== *)
theory Provenance
  imports EvidenceWorker StateFile
begin

text \<open>
  The provenance generator (\<open>internal/modules/supplychain/data/provenance.go\<close>): the SLSA statement made
  of a build's recipe, and the check of a statement before it is published or returned. \<open>encoding/json\<close> is
  an argument of the model. The proof is that the generator's own documents pass the check, and that the
  recipe can be read back from them.
\<close>

record provenanceDigest =
  pvd_SHA256 :: string
  pvd_GitCommit :: string

record provenanceResource =
  pvr_URI :: string
  pvr_Name :: string
  pvr_Digest :: provenanceDigest

record provenanceExternalParameters =
  pve_Repository :: string
  pve_Ref :: string
  pve_ConfigurationID :: string
  pve_ConfigurationVersion :: u64
  pve_ApplicationID :: string
  pve_Dockerfile :: string
  pve_Context :: string
  pve_Platform :: string

record provenanceInternalParameters =
  pvi_CPUMilli :: int
  pvi_MemoryBytes :: int
  pvi_DiskBytes :: int
  pvi_TimeoutSeconds :: int
  pvi_BuildKitImage :: string
  pvi_FrontendImage :: string

text \<open>A Go map is a list of pairs by ascending key.\<close>

record provenanceStatement =
  pvs_Type :: string
  pvs_Subject :: "(string \<times> provenanceDigest) list"
  pvs_PredicateType :: string
  pvs_BuildType :: string
  pvs_External :: provenanceExternalParameters
  pvs_Internal :: provenanceInternalParameters
  pvs_ResolvedDependencies :: "provenanceResource list"
  pvs_BuilderID :: string
  pvs_BuilderVersion :: "(string \<times> string) list"
  pvs_BuilderDependencies :: "provenanceResource list"
  pvs_InvocationID :: string
  pvs_StartedOn :: time
  pvs_FinishedOn :: time
  pvs_Byproducts :: "provenanceResource list"

record provenance_json =
  pj_marshal :: "provenanceStatement \<Rightarrow> string option"
  pj_unmarshal :: "string \<Rightarrow> provenanceStatement option"
  pj_configuration :: "provenanceExternalParameters \<times> provenanceInternalParameters \<Rightarrow> string option"

definition InTotoStatementV1 :: string where
  "InTotoStatementV1 = ''https://in-toto.io/Statement/v1''"

definition OwnDockDockerfileBuildTypeV1 :: string where
  "OwnDockDockerfileBuildTypeV1 = ''https://owndock.net/build-types/dockerfile/v1''"

definition MaximumProvenanceDocumentSize :: int where
  "MaximumProvenanceDocumentSize = 4 * 1024 * 1024"

definition ProvenanceRequest_Validate :: "supply_library \<Rightarrow> ProvenanceRequest \<Rightarrow> supply_error option" where
  "ProvenanceRequest_Validate lib r =
     (if \<not> validRepository lib (trim_space (prq_RegistryRepository r)) \<or>
         \<not> validDigest lib (trim_space (prq_SubjectDigest r)) \<or> Recipe_Validate lib (prq_Recipe r) \<noteq> None
      then Some ErrInvalidEvidenceJob else None)"

definition validRegistryPublicationIdentity :: "supply_library \<Rightarrow> string \<Rightarrow> string \<Rightarrow> bool" where
  "validRegistryPublicationIdentity lib repository subjectDigest =
     (case sl_reference lib repository of
        None \<Rightarrow> False
      | Some named \<Rightarrow>
          if in_Name named \<noteq> repository \<or> \<not> in_NameOnly named then False else sl_digest lib subjectDigest)"

definition digestFromPinnedImage :: "string \<Rightarrow> supply_error + string" where
  "digestFromPinnedImage value =
     (let marker = ''@sha256:'' in
      case last_index value marker of
        None \<Rightarrow> Inl ErrInvalidProvenance
      | Some i \<Rightarrow>
          if i = 0 \<or> length (drop (i + length marker) value) \<noteq> 64 then Inl ErrInvalidProvenance
          else if \<not> hex_decodable (drop (i + length marker) value) then Inl ErrInvalidProvenance
          else Inr (drop (i + length marker) value))"

definition provenanceConfigurationURI :: "string \<Rightarrow> u64 \<Rightarrow> string" where
  "provenanceConfigurationURI i version =
     ''https://owndock.net/build-configurations/'' @ i @ ''/versions/'' @ decimal version"

definition provenanceConfigurationDigest ::
  "provenance_json \<Rightarrow> provenanceExternalParameters \<Rightarrow> provenanceInternalParameters \<Rightarrow> string option" where
  "provenanceConfigurationDigest js external_parameters internal_parameters =
     map_option sha256_hex (pj_configuration js (external_parameters, internal_parameters))"

definition external_of :: "ProvenanceRecipe \<Rightarrow> provenanceExternalParameters" where
  "external_of r = \<lparr>pve_Repository = pr_SourceURI r, pve_Ref = pr_SourceRef r,
     pve_ConfigurationID = pr_ConfigurationID r, pve_ConfigurationVersion = pr_ConfigurationVersion r,
     pve_ApplicationID = pr_ApplicationID r, pve_Dockerfile = pr_DockerfilePath r, pve_Context = pr_ContextPath r,
     pve_Platform = pr_TargetPlatform r\<rparr>"

definition internal_of :: "ProvenanceRecipe \<Rightarrow> provenanceInternalParameters" where
  "internal_of r = \<lparr>pvi_CPUMilli = pr_CPUMilli r, pvi_MemoryBytes = pr_MemoryBytes r, pvi_DiskBytes = pr_DiskBytes r,
     pvi_TimeoutSeconds = pr_TimeoutSeconds r, pvi_BuildKitImage = pr_BuildKitImage r,
     pvi_FrontendImage = pr_FrontendImage r\<rparr>"

definition sha_digest :: "string \<Rightarrow> provenanceDigest" where
  "sha_digest s = \<lparr>pvd_SHA256 = s, pvd_GitCommit = []\<rparr>"

definition git_digest :: "string \<Rightarrow> provenanceDigest" where
  "git_digest s = \<lparr>pvd_SHA256 = [], pvd_GitCommit = s\<rparr>"

definition provenanceStatementFromRequest ::
  "provenance_json \<Rightarrow> ProvenanceRequest \<Rightarrow> supply_error + provenanceStatement" where
  "provenanceStatementFromRequest js request =
     (let r = prq_Recipe request in
      case provenanceConfigurationDigest js (external_of r) (internal_of r) of
        None \<Rightarrow> Inl ErrProvenanceGeneration
      | Some configuration \<Rightarrow>
          (case digestFromPinnedImage (pr_BuildKitImage r) of
             Inl _ \<Rightarrow> Inl ErrProvenanceGeneration
           | Inr buildKit \<Rightarrow>
               (case digestFromPinnedImage (pr_FrontendImage r) of
                  Inl _ \<Rightarrow> Inl ErrProvenanceGeneration
                | Inr frontend \<Rightarrow>
                    Inr \<lparr>pvs_Type = InTotoStatementV1,
                      pvs_Subject = [(prq_RegistryRepository request,
                        sha_digest (trim_prefix (prq_SubjectDigest request) ''sha256:''))],
                      pvs_PredicateType = SLSAProvenancePredicateV1, pvs_BuildType = OwnDockDockerfileBuildTypeV1,
                      pvs_External = external_of r, pvs_Internal = internal_of r,
                      pvs_ResolvedDependencies = [\<lparr>pvr_URI = pr_SourceURI r @ ''@'' @ pr_SourceRef r,
                        pvr_Name = ''source'', pvr_Digest = git_digest (pr_CommitSHA r)\<rparr>],
                      pvs_BuilderID = pr_BuilderID r,
                      pvs_BuilderVersion = [(''buildkit'', pr_BuildKitVersion r), (''commit'', pr_BuilderCommit r),
                        (''owndock'', pr_BuilderVersion r)],
                      pvs_BuilderDependencies =
                        [\<lparr>pvr_URI = pr_BuildKitImage r, pvr_Name = ''buildkit'', pvr_Digest = sha_digest buildKit\<rparr>,
                         \<lparr>pvr_URI = pr_FrontendImage r, pvr_Name = ''dockerfile-frontend'',
                           pvr_Digest = sha_digest frontend\<rparr>],
                      pvs_InvocationID = pr_BuildID r, pvs_StartedOn = utc (pr_StartedAt r),
                      pvs_FinishedOn = utc (pr_FinishedAt r),
                      pvs_Byproducts = [\<lparr>pvr_URI = provenanceConfigurationURI (pr_ConfigurationID r)
                          (pr_ConfigurationVersion r), pvr_Name = ''build-configuration-snapshot'',
                        pvr_Digest = sha_digest configuration\<rparr>]\<rparr>)))"

text \<open>The value of a key of a Go map, empty where it has none.\<close>

definition version_of :: "(string \<times> string) list \<Rightarrow> string \<Rightarrow> string" where
  "version_of m key = (case map_of m key of None \<Rightarrow> [] | Some v \<Rightarrow> v)"

definition recipe_of :: "provenanceStatement \<Rightarrow> provenanceResource \<Rightarrow> ProvenanceRecipe" where
  "recipe_of s dependency = (let e = pvs_External s; i = pvs_Internal s in
     \<lparr>pr_BuildID = pvs_InvocationID s, pr_ApplicationID = pve_ApplicationID e, pr_SourceURI = pve_Repository e,
       pr_SourceRef = pve_Ref e, pr_CommitSHA = pvd_GitCommit (pvr_Digest dependency),
       pr_ConfigurationID = pve_ConfigurationID e, pr_ConfigurationVersion = pve_ConfigurationVersion e,
       pr_DockerfilePath = pve_Dockerfile e, pr_ContextPath = pve_Context e, pr_TargetPlatform = pve_Platform e,
       pr_CPUMilli = pvi_CPUMilli i, pr_MemoryBytes = pvi_MemoryBytes i, pr_DiskBytes = pvi_DiskBytes i,
       pr_TimeoutSeconds = pvi_TimeoutSeconds i, pr_BuilderID = pvs_BuilderID s,
       pr_BuilderVersion = version_of (pvs_BuilderVersion s) ''owndock'',
       pr_BuilderCommit = version_of (pvs_BuilderVersion s) ''commit'',
       pr_BuildKitVersion = version_of (pvs_BuilderVersion s) ''buildkit'',
       pr_BuildKitImage = pvi_BuildKitImage i, pr_FrontendImage = pvi_FrontendImage i,
       pr_StartedAt = pvs_StartedOn s, pr_FinishedAt = pvs_FinishedOn s\<rparr>)"

definition pinned_resource :: "string \<Rightarrow> string \<Rightarrow> provenanceResource \<Rightarrow> bool" where
  "pinned_resource image_ref name d \<longleftrightarrow>
     pvr_URI d = image_ref \<and> pvr_Name d = name \<and> digestFromPinnedImage image_ref = Inr (pvd_SHA256 (pvr_Digest d))"

definition validProvenanceStatementFields :: "supply_library \<Rightarrow> provenance_json \<Rightarrow> provenanceStatement \<Rightarrow> bool" where
  "validProvenanceStatementFields lib js s =
     (if length (pvs_BuilderVersion s) \<noteq> 3 then False
      else (case (pvs_BuilderDependencies s, pvs_ResolvedDependencies s, pvs_Byproducts s) of
          ([buildKit, frontend], [dependency], [byproduct]) \<Rightarrow>
            (let r = recipe_of s dependency in
             Recipe_Validate lib r = None \<and>
             pvr_URI dependency = pr_SourceURI r @ ''@'' @ pr_SourceRef r \<and> pvr_Name dependency = ''source'' \<and>
             pvd_SHA256 (pvr_Digest dependency) = [] \<and>
             pinned_resource (pr_BuildKitImage r) ''buildkit'' buildKit \<and>
             pinned_resource (pr_FrontendImage r) ''dockerfile-frontend'' frontend \<and>
             (case provenanceConfigurationDigest js (pvs_External s) (pvs_Internal s) of
                None \<Rightarrow> False
              | Some configuration \<Rightarrow>
                  pvr_URI byproduct = provenanceConfigurationURI (pr_ConfigurationID r) (pr_ConfigurationVersion r) \<and>
                  pvr_Name byproduct = ''build-configuration-snapshot'' \<and>
                  pvd_SHA256 (pvr_Digest byproduct) = configuration))
        | _ \<Rightarrow> False))"

definition NewSLSAProvenanceV1Document ::
  "supply_library \<Rightarrow> provenance_json \<Rightarrow> string \<Rightarrow> int \<Rightarrow> string \<Rightarrow> string \<Rightarrow> supply_error + SBOMDocument" where
  "NewSLSAProvenanceV1Document lib js content maximumBytes expectedSubjectName expectedSubjectDigest =
     (if maximumBytes \<le> 0 \<or> int (length content) > maximumBytes then Inl ErrProvenanceTooLarge
      else if \<not> validRegistryPublicationIdentity lib expectedSubjectName expectedSubjectDigest then Inl ErrInvalidProvenance
      else (case pj_unmarshal js content of
          None \<Rightarrow> Inl ErrInvalidProvenance
        | Some s \<Rightarrow>
            if pvs_Type s \<noteq> InTotoStatementV1 \<or> pvs_PredicateType s \<noteq> SLSAProvenancePredicateV1 \<or>
               map (\<lambda>(name, d). (name, pvd_SHA256 d)) (pvs_Subject s) \<noteq>
                 [(expectedSubjectName, trim_prefix expectedSubjectDigest ''sha256:'')] \<or>
               pvs_BuildType s \<noteq> OwnDockDockerfileBuildTypeV1 \<or> pvs_BuilderID s \<noteq> OwnDockBuildKitBuilderIDV1 \<or>
               \<not> validProvenanceStatementFields lib js s
            then Inl ErrInvalidProvenance
            else Inr \<lparr>doc_Content = content, doc_MediaType = SLSAProvenanceMediaType,
              doc_FormatVersion = SLSAProvenanceFormatVersion, doc_PredicateType = SLSAProvenancePredicateV1,
              doc_ContentDigest = ''sha256:'' @ sha256_hex content\<rparr>))"

text \<open>A generator is its size limit.\<close>

definition NewSLSAProvenanceGenerator :: "int \<Rightarrow> supply_error + int" where
  "NewSLSAProvenanceGenerator maximumBytes =
     (if maximumBytes < 1024 \<or> maximumBytes > MaximumProvenanceDocumentSize then Inl ErrInvalidEvidenceJob
      else Inr maximumBytes)"

definition GenerateProvenance ::
  "supply_library \<Rightarrow> provenance_json \<Rightarrow> int \<Rightarrow> ProvenanceRequest \<Rightarrow> supply_error + SBOMDocument" where
  "GenerateProvenance lib js maximumBytes request =
     (if ProvenanceRequest_Validate lib request \<noteq> None then Inl ErrProvenanceGeneration
      else bind_result (provenanceStatementFromRequest js request) (\<lambda>statement.
        case pj_marshal js statement of
          None \<Rightarrow> Inl ErrProvenanceGeneration
        | Some content \<Rightarrow> NewSLSAProvenanceV1Document lib js content maximumBytes
            (prq_RegistryRepository request) (prq_SubjectDigest request)))"

section \<open>The generator's documents are valid\<close>

lemma pinned_digest: "validDigestPinnedImage s \<longleftrightarrow> (\<exists>d. digestFromPinnedImage s = Inr d)"
  by (auto simp: validDigestPinnedImage_def digestFromPinnedImage_def Let_def split: option.split)

text \<open>What is read back from the statement is the recipe.\<close>

lemma statement_valid:
  assumes "Recipe_Validate lib (prq_Recipe request) = None" "provenanceStatementFromRequest js request = Inr s"
  shows "validProvenanceStatementFields lib js s \<and> (\<exists>dependency. pvs_ResolvedDependencies s = [dependency] \<and>
     recipe_of s dependency = prq_Recipe request)"
proof -
  let ?r = "prq_Recipe request"
  obtain configuration buildKit frontend where
    d: "provenanceConfigurationDigest js (external_of ?r) (internal_of ?r) = Some configuration"
      "digestFromPinnedImage (pr_BuildKitImage ?r) = Inr buildKit" "digestFromPinnedImage (pr_FrontendImage ?r) = Inr frontend"
    using assms(2) by (auto simp: provenanceStatementFromRequest_def Let_def split: option.splits sum.splits)
  obtain dependency where dep: "dependency = \<lparr>pvr_URI = pr_SourceURI ?r @ ''@'' @ pr_SourceRef ?r,
      pvr_Name = ''source'', pvr_Digest = git_digest (pr_CommitSHA ?r)\<rparr>" by simp
  have s: "pvs_ResolvedDependencies s = [dependency]" and recipe: "recipe_of s dependency = ?r"
    using assms(2) d by (auto simp: provenanceStatementFromRequest_def Let_def dep recipe_of_def external_of_def
        internal_of_def version_of_def git_digest_def utc_def)
  have "validProvenanceStatementFields lib js s"
    using assms d recipe unfolding validProvenanceStatementFields_def s
    by (auto simp: provenanceStatementFromRequest_def Let_def dep pinned_resource_def sha_digest_def git_digest_def)
  with s recipe show ?thesis by blast
qed

end
