(* ===== verification/EvidenceProperties.thy ===== *)
theory EvidenceProperties
  imports EvidenceSafety Provenance
begin

text \<open>
  The properties of evidence jobs and their worker. The samples are a bill of materials job and a
  signature job, and a worker in an environment that answers every call, renewing its lease once during
  each operation.
\<close>

section \<open>Samples\<close>

definition sample_job_library :: job_library where
  "sample_job_library = \<lparr>jl_supply = \<lparr>sl_reference = \<lambda>s. Some \<lparr>in_Name = s, in_Domain = ''d'', in_NameOnly = True,
       in_Canonical = None\<rparr>, sl_digest = \<lambda>s. s \<noteq> [], sl_media_type = Some,
     sl_url = \<lambda>_. None, sl_request_uri = \<lambda>_. None, sl_upper = id, sl_lower = id\<rparr>,
     jl_keys = \<lparr>kl_pem_decode = \<lambda>_. None, kl_parse = \<lambda>_. None, kl_marshal = \<lambda>_. None, kl_pem_encode = id\<rparr>\<rparr>"

definition sample_sbom_job :: EvidenceJob where
  "sample_sbom_job = \<lparr>ej_ID = ''j'', ej_OrganizationID = ''o'', ej_ProjectID = ''p'', ej_ArtifactID = ''a'',
     ej_SubjectDigest = ''d'', ej_RegistryRepository = ''r'', ej_RegistryCredentialID = ''c'',
     ej_Kind = EvidenceKindSBOM, ej_FormatVersion = ''1.6'', ej_Producer = ''syft'', ej_Provenance = empty_recipe,
     ej_Signature = empty_trust_snapshot, ej_SignatureOperation = OperationOther [], ej_Signing = empty_signing_snapshot,
     ej_IdempotencyKey = ''j'', ej_Status = EvidenceJobQueued, ej_Failure = JobFailureOther [], ej_Version = 1,
     ej_Lease = empty_elease, ej_CreatedAt = 5, ej_UpdatedAt = 5, ej_StartedAt = 0, ej_FinishedAt = 0\<rparr>"

definition sample_signature_job :: EvidenceJob where
  "sample_signature_job = sample_sbom_job\<lparr>ej_Kind := EvidenceKindSignature,
     ej_Signature := empty_trust_snapshot\<lparr>sts_PolicyID := ''t'', sts_PolicyVersion := 2,
       sts_Mode := SignatureTrustPublicKey, sts_PublicKeyFingerprint := ''f''\<rparr>,
     ej_SignatureOperation := SignatureOperationVerify,
     ej_Lease := \<lparr>elease_Owner = ''w'', elease_ExpiresAt = 100, elease_Generation = 1\<rparr>\<rparr>"

definition sample_evidence_env :: evidence_env where
  "sample_evidence_env = \<lparr>ee_now = \<lambda>tr. 10 + int (length tr), ee_newID = \<lambda>_. Inr ''v'',
     ee_claim = \<lambda>_ _. Inr (Some sample_signature_job),
     ee_renew = \<lambda>i f _ _. Inr (sample_signature_job\<lparr>ej_ID := i, ej_Status := EvidenceJobVerifying, ej_Version := fence_Version f + 1\<rparr>),
     ee_save = \<lambda>k f _. Inr (k\<lparr>ej_Version := fence_Version f + 1\<rparr>), ee_fence = \<lambda>_ _ _ _ _. None,
     ee_publish = \<lambda>_ _. Inr (), ee_sbom = \<lambda>_ _. Inl [], ee_publish_sbom = \<lambda>_ _. Inl [],
     ee_provenance = \<lambda>_ _. Inl [], ee_publish_provenance = \<lambda>_ _. Inl [], ee_scan = \<lambda>_ _. Inl [],
     ee_publish_report = \<lambda>_ _. Inl [], ee_sign = \<lambda>_ _. Inl [],
     ee_trust = \<lambda>_ _. Inr \<lparr>stm_Mode = SignatureTrustPublicKey, stm_PublicKeyPEM = ''k'', stm_TrustedRootJSON = [],
       stm_CertificateIdentity = [], stm_OIDCIssuer = []\<rparr>,
     ee_verify = \<lambda>_ _. Inr \<lparr>svr_TrustMode = SignatureTrustPublicKey, svr_TrustRootHash = ''f'', svr_SignerIdentity = [],
       svr_OIDCIssuer = [], svr_BundleSetDigest = ''b'', svr_VerifierVersion = ''3.0.6''\<rparr>,
     ee_beats = \<lambda>_. 1, ee_done = \<lambda>_. None, ee_cause = \<lambda>_. None\<rparr>"

definition sample_evidence_runner :: evidence_runner where
  "sample_evidence_runner = \<lparr>er_workerID = ''w'', er_lease = 60, er_hasProvenance = False, er_hasSignatures = True,
     er_hasSigner = False, er_hasScanner = False, er_freshness = 0, er_observations = False,
     er_library = sample_job_library\<rparr>"

lemma sample_evidence_run:
  "case RunEvidence sample_evidence_env sample_evidence_runner [] of (r, tr) \<Rightarrow>
     r = Inr () \<and> tr \<noteq> [] \<and> (case last tr of EvPublishVerification _ _ _ _ \<Rightarrow> True | _ \<Rightarrow> False)"
  by code_simp

lemma run_allowed:
  assumes "keeps_jobs env cores" "RunEvidence env rn [] = (r, tr)" "tr = pre @ ev # post"
  shows "evidence_allowed rn (set pre) ev"
  using runs.safe_event[OF runs.triple_safe[OF RunEvidence_triple[OF assms(1)] assms(2)] assms(3)] .

lemma sample_keeps_jobs: "keeps_jobs sample_evidence_env (\<lambda>i. job_core (sample_signature_job\<lparr>ej_ID := i\<rparr>))"
  by (auto simp: keeps_jobs_def sample_evidence_env_def)

section \<open>Jobs\<close>







section \<open>The worker\<close>

text \<open>
  C11: whatever its environment answers, the worker indexes a verification only after the trust
  material of the job's frozen policy was resolved, the artifact of the job was verified against it with the
  mode, key, identity and issuer of that policy, the signer, where the job signs, used the frozen key, and
  the lease was found held; the verification says exactly this.
\<close>

theorem verified_means_checked:
  assumes "keeps_jobs env cores" "RunEvidence env rn [] = (r, tr)" "tr = pre @ EvPublishVerification j v f a # post"
  shows "\<exists>trust result signing g t.
     EvTrust (ej_Signature j) (Inr trust) \<in> set pre \<and>
     EvVerify (verification_request j trust) (Inr result) \<in> set pre \<and> verified_as (ej_Signature j) result \<and>
     (ej_SignatureOperation j = SignatureOperationSignAndVerify \<longrightarrow>
        EvSign (signing_request j) (Inr signing) \<in> set pre \<and> signed_by (ej_Signing j) signing) \<and>
     EvFence (ej_ID j) (trim_space (er_workerID rn)) g t None \<in> set pre \<and>
     ev_ver_ArtifactID v = trim_space (ej_ArtifactID j) \<and> ev_ver_SubjectDigest v = trim_space (ej_SubjectDigest j) \<and>
     ev_ver_PolicyID v = trim_space (sts_PolicyID (ej_Signature j)) \<and>
     ev_ver_PolicyVersion v = sts_PolicyVersion (ej_Signature j) \<and>
     ev_ver_BundleSetDigest v = trim_space (svr_BundleSetDigest result) \<and> ej_Status j = EvidenceJobSucceeded"
proof -
  have "evidence_allowed rn (set pre) (EvPublishVerification j v f a)" by (rule run_allowed[OF assms])
  then obtain trust result signing i now where
    e: "EvTrust (ej_Signature j) (Inr trust) \<in> set pre" "EvVerify (verification_request j trust) (Inr result) \<in> set pre"
      "verified_as (ej_Signature j) result" "ej_SignatureOperation j = SignatureOperationSignAndVerify \<longrightarrow>
        EvSign (signing_request j) (Inr signing) \<in> set pre \<and> signed_by (ej_Signing j) signing"
    and new: "NewEvidenceVerification (jl_supply (er_library rn)) (job_verification j signing result i now) = Inr v"
    and f: "fenced rn j (set pre)" "ej_Status j = EvidenceJobSucceeded"
    unfolding evidence_allowed.simps verification_earned_def by blast
  from f(1) obtain g t where "EvFence (ej_ID j) (trim_space (er_workerID rn)) g t None \<in> set pre"
    by (auto simp: fenced_def)
  moreover have "ev_ver_ArtifactID v = trim_space (ej_ArtifactID j) \<and> ev_ver_SubjectDigest v = trim_space (ej_SubjectDigest j) \<and>
     ev_ver_PolicyID v = trim_space (sts_PolicyID (ej_Signature j)) \<and>
     ev_ver_PolicyVersion v = sts_PolicyVersion (ej_Signature j) \<and>
     ev_ver_BundleSetDigest v = trim_space (svr_BundleSetDigest result)"
    using new by (auto simp: NewEvidenceVerification_def Let_def job_verification_def split: if_split_asm)
  ultimately show ?thesis using e f(2) by blast
qed

theorem verified_means_checked_witness:
  "\<exists>pre j v f a trust result.
     snd (RunEvidence sample_evidence_env sample_evidence_runner []) = pre @ [EvPublishVerification j v f a] \<and>
     EvTrust (ej_Signature j) (Inr trust) \<in> set pre \<and>
     EvVerify (verification_request j trust) (Inr result) \<in> set pre \<and> verified_as (ej_Signature j) result"
proof -
  obtain r tr where run: "RunEvidence sample_evidence_env sample_evidence_runner [] = (r, tr)" by fastforce
  with sample_evidence_run obtain j v f a where "tr \<noteq> []" "last tr = EvPublishVerification j v f a"
    by (auto split: evidence_event.splits)
  then have tr: "tr = butlast tr @ EvPublishVerification j v f a # []" using append_butlast_last_id by metis
  from verified_means_checked[OF sample_keeps_jobs run tr] tr show ?thesis unfolding run snd_conv by blast
qed

text \<open>
  C12: every call of a run is allowed: the worker indexes evidence and observations only from the
  document or report it received for this very job and uploaded; between the two, once the document was made
  and before it was uploaded, the lease of the job was found held; and it never saves a job as succeeded but
  together with its result.
\<close>

theorem evidence_is_earned:
  assumes "keeps_jobs env cores" "RunEvidence env rn [] = (r, tr)" "tr = pre @ ev # post"
  shows "(case ev of
      EvPublishEvidence j e _ _ \<Rightarrow> ej_Status j = EvidenceJobSucceeded \<and> fenced_between rn j pre \<and>
        evidence_earned rn (set pre) j e
    | EvPublishObservation j e ob _ _ \<Rightarrow> ej_Status j = EvidenceJobSucceeded \<and> fenced_between rn j pre \<and>
        observation_earned rn (set pre) j e ob
    | EvSave j _ _ \<Rightarrow> ej_Status j \<noteq> EvidenceJobSucceeded
    | _ \<Rightarrow> True)"
proof -
  have "RunEvidence env rn [] = (r, pre @ ev # post)" using assms(2,3) by simp
  note fenced_in_order[OF this]
  with run_allowed[OF assms] show ?thesis by (cases ev) simp_all
qed

definition sample_sbom_env :: evidence_env where
  "sample_sbom_env = sample_evidence_env\<lparr>
     ee_claim := \<lambda>_ _. Inr (Some (sample_sbom_job\<lparr>ej_Lease := \<lparr>elease_Owner = ''w'', elease_ExpiresAt = 100,
       elease_Generation = 1\<rparr>\<rparr>)),
     ee_renew := \<lambda>i f _ _. Inr (sample_sbom_job\<lparr>ej_ID := i, ej_Status := (if fence_Version f < 3 then EvidenceJobGenerating
       else EvidenceJobPublishing), ej_Version := fence_Version f + 1\<rparr>),
     ee_sbom := \<lambda>_ _. Inr \<lparr>doc_Content = ''{}'', doc_MediaType = ''application/vnd.cyclonedx+json'', doc_FormatVersion = ''1.6'',
       doc_PredicateType = [], doc_ContentDigest = ''d''\<rparr>,
     ee_publish_sbom := \<lambda>_ _. Inr \<lparr>pd_Digest = ''d'', pd_MediaType = ''application/vnd.oci.image.manifest.v1+json''\<rparr>\<rparr>"

lemma sample_sbom_run:
  "case RunEvidence sample_sbom_env sample_evidence_runner [] of (r, tr) \<Rightarrow>
     r = Inr () \<and> tr \<noteq> [] \<and> (case last tr of EvPublishEvidence _ _ _ _ \<Rightarrow> True | _ \<Rightarrow> False)"
  by code_simp

theorem evidence_is_earned_witness:
  "\<exists>pre j e f a. snd (RunEvidence sample_sbom_env sample_evidence_runner []) = pre @ [EvPublishEvidence j e f a] \<and>
     ej_Status j = EvidenceJobSucceeded \<and> fenced_between sample_evidence_runner j pre \<and>
     evidence_earned sample_evidence_runner (set pre) j e"
proof -
  obtain r tr where run: "RunEvidence sample_sbom_env sample_evidence_runner [] = (r, tr)" by fastforce
  with sample_sbom_run obtain j e f a where "tr \<noteq> []" "last tr = EvPublishEvidence j e f a"
    by (auto split: evidence_event.splits)
  then have tr: "tr = butlast tr @ EvPublishEvidence j e f a # []" using append_butlast_last_id by metis
  have "keeps_jobs sample_sbom_env (\<lambda>i. job_core (sample_sbom_job\<lparr>ej_ID := i\<rparr>))"
    by (auto simp: keeps_jobs_def sample_sbom_env_def sample_evidence_env_def)
  from evidence_is_earned[OF this run tr] tr show ?thesis
    unfolding run snd_conv evidence_event.case by blast
qed

section \<open>Provenance\<close>

text \<open>
  What the code relies on of \<open>encoding/json\<close>: parameters always have a JSON text, and the text of the
  request's statement reads back (as it does where every string of the recipe is valid UTF-8).
\<close>

definition json_faithful :: "provenance_json \<Rightarrow> ProvenanceRequest \<Rightarrow> bool" where
  "json_faithful js q \<longleftrightarrow> (\<forall>c. pj_configuration js c \<noteq> None) \<and>
     (\<forall>s content. provenanceStatementFromRequest js q = Inr s \<longrightarrow> pj_marshal js s = Some content \<longrightarrow>
        pj_unmarshal js content = Some s)"

text \<open>
  C39: from a valid request the generator makes a document unless its statement has no JSON text or
  is too large, and it says which; the document passes the check that guards publishing and reading, and the
  very recipe of the build can be read back from it.
\<close>

theorem provenance_round_trip:
  assumes "json_faithful js q" "ProvenanceRequest_Validate lib q = None"
    and "validRegistryPublicationIdentity lib (prq_RegistryRepository q) (prq_SubjectDigest q)"
    and "NewSLSAProvenanceGenerator n = Inr m"
  shows "\<exists>s. provenanceStatementFromRequest js q = Inr s \<and>
     (case pj_marshal js s of
        None \<Rightarrow> GenerateProvenance lib js m q = Inl ErrProvenanceGeneration
      | Some content \<Rightarrow>
          if int (length content) > m then GenerateProvenance lib js m q = Inl ErrProvenanceTooLarge
          else \<exists>doc dependency. GenerateProvenance lib js m q = Inr doc \<and> doc_Content doc = content \<and>
            NewSLSAProvenanceV1Document lib js content m (prq_RegistryRepository q) (prq_SubjectDigest q) = Inr doc \<and>
            pj_unmarshal js content = Some s \<and> pvs_ResolvedDependencies s = [dependency] \<and>
            recipe_of s dependency = prq_Recipe q)"
proof -
  from assms(2) have recipe: "Recipe_Validate lib (prq_Recipe q) = None"
    by (simp add: ProvenanceRequest_Validate_def split: if_split_asm)
  then have "validDigestPinnedImage (pr_BuildKitImage (prq_Recipe q))" "validDigestPinnedImage (pr_FrontendImage (prq_Recipe q))"
    and builder: "pr_BuilderID (prq_Recipe q) = OwnDockBuildKitBuilderIDV1"
    by (simp_all add: Recipe_Validate_def split: if_split_asm)
  then obtain a b where "digestFromPinnedImage (pr_BuildKitImage (prq_Recipe q)) = Inr a"
    "digestFromPinnedImage (pr_FrontendImage (prq_Recipe q)) = Inr b" by (auto simp: pinned_digest)
  moreover obtain c where "pj_configuration js (external_of (prq_Recipe q), internal_of (prq_Recipe q)) = Some c"
    using assms(1) unfolding json_faithful_def by fast
  ultimately obtain s where s: "provenanceStatementFromRequest js q = Inr s"
    and head: "pvs_Type s = InTotoStatementV1" "pvs_PredicateType s = SLSAProvenancePredicateV1"
      "map (\<lambda>(name, d). (name, pvd_SHA256 d)) (pvs_Subject s) =
         [(prq_RegistryRepository q, trim_prefix (prq_SubjectDigest q) ''sha256:'')]"
      "pvs_BuildType s = OwnDockDockerfileBuildTypeV1" "pvs_BuilderID s = OwnDockBuildKitBuilderIDV1"
    using builder by (simp add: provenanceStatementFromRequest_def provenanceConfigurationDigest_def Let_def sha_digest_def)
  from statement_valid[OF recipe s] obtain dependency where
    valid: "validProvenanceStatementFields lib js s" "pvs_ResolvedDependencies s = [dependency]"
      "recipe_of s dependency = prq_Recipe q" by blast
  have m: "0 < m" using assms(4) by (simp add: NewSLSAProvenanceGenerator_def split: if_split_asm)
  have run: "GenerateProvenance lib js m q = (case pj_marshal js s of None \<Rightarrow> Inl ErrProvenanceGeneration
      | Some content \<Rightarrow> NewSLSAProvenanceV1Document lib js content m (prq_RegistryRepository q) (prq_SubjectDigest q))"
    using assms(2) s by (simp add: GenerateProvenance_def)
  show ?thesis
  proof (intro exI[of _ s] conjI s)
    show "case pj_marshal js s of
        None \<Rightarrow> GenerateProvenance lib js m q = Inl ErrProvenanceGeneration
      | Some content \<Rightarrow>
          if int (length content) > m then GenerateProvenance lib js m q = Inl ErrProvenanceTooLarge
          else \<exists>doc dependency. GenerateProvenance lib js m q = Inr doc \<and> doc_Content doc = content \<and>
            NewSLSAProvenanceV1Document lib js content m (prq_RegistryRepository q) (prq_SubjectDigest q) = Inr doc \<and>
            pj_unmarshal js content = Some s \<and> pvs_ResolvedDependencies s = [dependency] \<and>
            recipe_of s dependency = prq_Recipe q"
    proof (cases "pj_marshal js s")
      case (Some content)
      then have read: "pj_unmarshal js content = Some s" using assms(1) s by (simp add: json_faithful_def)
      have "NewSLSAProvenanceV1Document lib js content m (prq_RegistryRepository q) (prq_SubjectDigest q) =
          (if int (length content) > m then Inl ErrProvenanceTooLarge
           else Inr \<lparr>doc_Content = content, doc_MediaType = SLSAProvenanceMediaType,
              doc_FormatVersion = SLSAProvenanceFormatVersion, doc_PredicateType = SLSAProvenancePredicateV1,
              doc_ContentDigest = ''sha256:'' @ sha256_hex content\<rparr>)"
        using m assms(3) read head valid(1) by (simp add: NewSLSAProvenanceV1Document_def)
      then show ?thesis using run Some read valid(2,3) by simp
    qed (simp add: run)
  qed
qed

definition sample_recipe :: ProvenanceRecipe where
  "sample_recipe = \<lparr>pr_BuildID = ''b'', pr_ApplicationID = ''a'', pr_SourceURI = ''git+https://h/r'', pr_SourceRef = ''refs/heads/main'',
     pr_CommitSHA = replicate 40 CHR ''a'', pr_ConfigurationID = ''c'', pr_ConfigurationVersion = 3,
     pr_DockerfilePath = ''Dockerfile'', pr_ContextPath = ''.'', pr_TargetPlatform = ''linux/amd64'', pr_CPUMilli = 1000,
     pr_MemoryBytes = 2147483648, pr_DiskBytes = 2147483648, pr_TimeoutSeconds = 600,
     pr_BuilderID = OwnDockBuildKitBuilderIDV1, pr_BuilderVersion = ''1'', pr_BuilderCommit = ''2'', pr_BuildKitVersion = ''3'',
     pr_BuildKitImage = ''i@sha256:'' @ replicate 64 CHR ''b'', pr_FrontendImage = ''f@sha256:'' @ replicate 64 CHR ''c'',
     pr_StartedAt = 10, pr_FinishedAt = 20\<rparr>"

definition sample_provenance_library :: supply_library where
  "sample_provenance_library = (jl_supply sample_job_library)\<lparr>sl_request_uri := \<lambda>s. Some \<lparr>url_Scheme = ''git+https'',
     url_Host = ''h'', url_Hostname = ''h'', url_Opaque = [], url_Path = ''/r'', url_HasUser = False, url_RawQuery = [],
     url_Fragment = [], url_String = s\<rparr>\<rparr>"

definition sample_provenance_request :: ProvenanceRequest where
  "sample_provenance_request = \<lparr>prq_RegistryRepository = ''r'', prq_SubjectDigest = ''sha256:d'', prq_Recipe = sample_recipe\<rparr>"

text \<open>A JSON package with one text, that of the sample's statement.\<close>

definition sample_statement :: provenanceStatement where
  "sample_statement = (case provenanceStatementFromRequest
       \<lparr>pj_marshal = \<lambda>_. None, pj_unmarshal = \<lambda>_. None, pj_configuration = \<lambda>_. Some ''{}''\<rparr> sample_provenance_request of
     Inr s \<Rightarrow> s | Inl _ \<Rightarrow> undefined)"

definition sample_provenance_json :: provenance_json where
  "sample_provenance_json = \<lparr>pj_marshal = \<lambda>s. if s = sample_statement then Some ''{}'' else None,
     pj_unmarshal = \<lambda>c. if c = ''{}'' then Some sample_statement else None, pj_configuration = \<lambda>_. Some ''{}''\<rparr>"

lemma sample_provenance_valid: "ProvenanceRequest_Validate sample_provenance_library sample_provenance_request = None"
  by code_simp

lemma sample_identity_valid: "validRegistryPublicationIdentity sample_provenance_library ''r'' ''sha256:d''"
  by code_simp

theorem provenance_round_trip_witness:
  "\<exists>doc dependency. GenerateProvenance sample_provenance_library sample_provenance_json 2048 sample_provenance_request = Inr doc \<and>
     pj_unmarshal sample_provenance_json (doc_Content doc) = Some sample_statement \<and>
     pvs_ResolvedDependencies sample_statement = [dependency] \<and> recipe_of sample_statement dependency = sample_recipe"
proof -
  have faithful: "json_faithful sample_provenance_json sample_provenance_request"
    by (simp add: json_faithful_def sample_provenance_json_def)
  have same: "provenanceStatementFromRequest sample_provenance_json sample_provenance_request =
      provenanceStatementFromRequest \<lparr>pj_marshal = \<lambda>_. None, pj_unmarshal = \<lambda>_. None,
        pj_configuration = \<lambda>_. Some ''{}''\<rparr> sample_provenance_request"
    by (simp add: provenanceStatementFromRequest_def provenanceConfigurationDigest_def sample_provenance_json_def)
  have generator: "NewSLSAProvenanceGenerator 2048 = Inr 2048"
    by (simp add: NewSLSAProvenanceGenerator_def MaximumProvenanceDocumentSize_def)
  have fields: "prq_RegistryRepository sample_provenance_request = ''r''"
    "prq_SubjectDigest sample_provenance_request = ''sha256:d''" "prq_Recipe sample_provenance_request = sample_recipe"
    by (simp_all add: sample_provenance_request_def)
  from provenance_round_trip[OF faithful sample_provenance_valid _ generator, unfolded fields] sample_identity_valid
  obtain s where s: "provenanceStatementFromRequest sample_provenance_json sample_provenance_request = Inr s"
    and result: "case pj_marshal sample_provenance_json s of
        None \<Rightarrow> GenerateProvenance sample_provenance_library sample_provenance_json 2048 sample_provenance_request =
          Inl ErrProvenanceGeneration
      | Some content \<Rightarrow>
          if int (length content) > 2048 then GenerateProvenance sample_provenance_library sample_provenance_json 2048
            sample_provenance_request = Inl ErrProvenanceTooLarge
          else \<exists>doc dependency. GenerateProvenance sample_provenance_library sample_provenance_json 2048
              sample_provenance_request = Inr doc \<and> doc_Content doc = content \<and>
            NewSLSAProvenanceV1Document sample_provenance_library sample_provenance_json content 2048 ''r'' ''sha256:d'' = Inr doc \<and>
            pj_unmarshal sample_provenance_json content = Some s \<and> pvs_ResolvedDependencies s = [dependency] \<and>
            recipe_of s dependency = sample_recipe" by blast
  have "s = sample_statement" using s same by (simp add: sample_statement_def)
  with result show ?thesis by (auto simp: sample_provenance_json_def)
qed

end
