(* ===== verification/DockerEngine.thy ===== *)
theory DockerEngine
  imports AgentProtocol CutoverStore TraceSafety
begin

text \<open>
  What the agent's deployment executor uses of the Docker engine (\<open>dockerDeploymentEngine\<close> of
  \<open>internal/agent/runtime/docker_deployment.go\<close>), as an argument over an arbitrary state, and what it reads
  off a container: its owner by labels, and whether it is ready.
\<close>

section \<open>The engine\<close>

text \<open>\<open>cerrdefs.IsNotFound\<close> is all the code asks of an error.\<close>

datatype engine_error = EngineNotFound | EngineFailed

datatype context_error = ContextCanceled | ContextDeadlineExceeded

record container_state =
  cst_Running :: bool
  cst_Dead :: bool
  cst_Status :: string
  cst_Health :: "string option"

text \<open>An inspected container; without a configuration it has no labels.\<close>

record inspected =
  ct_ID :: string
  ct_Labels :: "(string \<rightharpoonup> string) option"
  ct_State :: "container_state option"

record network_info =
  net_Name :: string
  net_Driver :: string
  net_Scope :: string
  net_Ingress :: bool
  net_ConfigOnly :: bool

record health_config =
  hcf_Test :: "string list"
  hcf_Interval :: int
  hcf_Timeout :: int
  hcf_Retries :: int
  hcf_StartPeriod :: int

record create_options =
  co_Name :: string
  co_Image :: string
  co_Env :: "string list"
  co_ExposedPorts :: "(u16 \<times> string) set"
  co_Labels :: "string \<rightharpoonup> string"
  co_Health :: "health_config option"
  co_NanoCPUs :: int
  co_Memory :: int
  co_Networks :: "(string \<times> string list) list"

text \<open>
  \<open>de_polls\<close> is how often the poll timer fires before the context ends, \<open>de_ctx\<close> the context's error once
  it has ended, \<open>de_open\<close> whether a client could be made. Waiting for a pull is part of the pull.
\<close>

record 's docker_engine =
  de_open :: "'s \<Rightarrow> bool"
  de_ping :: "('s, engine_error, unit) op"
  de_image_inspect :: "string \<Rightarrow> ('s, engine_error, unit) op"
  de_image_pull :: "string \<Rightarrow> string \<Rightarrow> ('s, engine_error, unit) op"
  de_inspect :: "string \<Rightarrow> ('s, engine_error, inspected) op"
  de_create :: "create_options \<Rightarrow> ('s, engine_error, string) op"
  de_start :: "string \<Rightarrow> ('s, engine_error, unit) op"
  de_remove :: "string \<Rightarrow> ('s, engine_error, unit) op"
  de_rename :: "string \<Rightarrow> string \<Rightarrow> ('s, engine_error, unit) op"
  de_network :: "string \<Rightarrow> ('s, engine_error, network_info) op"
  de_polls :: "'s \<Rightarrow> nat"
  de_ctx :: "'s \<Rightarrow> context_error option"

section \<open>Labels\<close>

definition deploymentLabel :: string where
  "deploymentLabel = ''net.owndock.deployment_id''"

definition fencingLabel :: string where
  "fencingLabel = ''net.owndock.fencing_token''"

definition cutoverSequenceLabel :: string where
  "cutoverSequenceLabel = ''net.owndock.cutover_sequence''"

definition projectLabel :: string where
  "projectLabel = ''net.owndock.project_id''"

definition applicationLabel :: string where
  "applicationLabel = ''net.owndock.application_id''"

definition environmentLabel :: string where
  "environmentLabel = ''net.owndock.environment_id''"

text \<open>The value of a label of a container, empty where it has none.\<close>

definition container_label :: "(string \<rightharpoonup> string) option \<Rightarrow> string \<Rightarrow> string" where
  "container_label labels key =
     (case labels of None \<Rightarrow> [] | Some m \<Rightarrow> (case m key of None \<Rightarrow> [] | Some v \<Rightarrow> v))"

text \<open>
  \<open>strconv.ParseUint(s, 10, 64)\<close> with its error dropped: zero for text that is not a number, the largest
  value for a number that does not fit.
\<close>

fun parse_digits :: "string \<Rightarrow> nat \<Rightarrow> u64" where
  "parse_digits [] n = of_nat n"
| "parse_digits (c # cs) n =
     (if \<not> is_digit c then 0
      else if 2 ^ 64 \<le> 10 * n + digit_value c then - 1
      else parse_digits cs (10 * n + digit_value c))"

definition parse_uint :: "string \<Rightarrow> u64" where
  "parse_uint s = (if s = [] then 0 else parse_digits s 0)"

definition managed_labels :: "(string \<rightharpoonup> string) option \<Rightarrow> bool" where
  "managed_labels labels \<longleftrightarrow> labels \<noteq> None \<and> container_label labels deploymentLabel \<noteq> []"

definition managedContainer :: "inspected \<Rightarrow> bool" where
  "managedContainer c \<longleftrightarrow> managed_labels (ct_Labels c)"

definition fencingToken :: "inspected \<Rightarrow> u64" where
  "fencingToken c = parse_uint (container_label (ct_Labels c) fencingLabel)"

definition cutoverSequence :: "inspected \<Rightarrow> u64" where
  "cutoverSequence c = parse_uint (container_label (ct_Labels c) cutoverSequenceLabel)"

definition ownsExecution :: "inspected \<Rightarrow> DeploymentCommand \<Rightarrow> bool" where
  "ownsExecution c d \<longleftrightarrow>
     managedContainer c \<and> container_label (ct_Labels c) deploymentLabel = dc_DeploymentID d \<and>
     fencingToken c = dc_FencingToken d \<and> cutoverSequence c = dc_CutoverSequence d"

definition hasNewerFence :: "inspected \<Rightarrow> DeploymentCommand \<Rightarrow> bool" where
  "hasNewerFence c d =
     (if \<not> managedContainer c then False
      else if dc_CutoverSequence d < cutoverSequence c then True
      else if cutoverSequence c = dc_CutoverSequence d \<and>
        container_label (ct_Labels c) deploymentLabel \<noteq> dc_DeploymentID d then True
      else cutoverSequence c = dc_CutoverSequence d \<and>
        container_label (ct_Labels c) deploymentLabel = dc_DeploymentID d \<and> dc_FencingToken d < fencingToken c)"

section \<open>Names\<close>

text \<open>\<open>%x\<close> of the first six bytes of the digest.\<close>

definition executionNamePart :: "string \<Rightarrow> string" where
  "executionNamePart deploymentID = take 12 (sha256_hex deploymentID)"

definition candidateContainerName :: "DeploymentCommand \<Rightarrow> string" where
  "candidateContainerName d = dc_ContainerName d @ ''-candidate-'' @ executionNamePart (dc_DeploymentID d) @ ''-'' @
     decimal (dc_FencingToken d)"

definition previousContainerName :: "DeploymentCommand \<Rightarrow> string" where
  "previousContainerName d = dc_ContainerName d @ ''-previous-'' @ executionNamePart (dc_DeploymentID d) @ ''-'' @
     decimal (dc_FencingToken d)"

section \<open>Creation\<close>

definition second :: int where
  "second = 1000000000"

definition execution_labels :: "DeploymentCommand \<Rightarrow> string \<rightharpoonup> string" where
  "execution_labels d = [deploymentLabel \<mapsto> dc_DeploymentID d, fencingLabel \<mapsto> decimal (dc_FencingToken d),
     cutoverSequenceLabel \<mapsto> decimal (dc_CutoverSequence d), projectLabel \<mapsto> dc_ProjectID d,
     applicationLabel \<mapsto> dc_ApplicationID d, environmentLabel \<mapsto> dc_EnvironmentID d]"

definition ManagedIngressNetwork :: string where
  "ManagedIngressNetwork = ''owndock-ingress''"

text \<open>The error of the alias is dropped, which leaves the empty text.\<close>

definition dockerCreateOptions :: "DeploymentCommand \<Rightarrow> string \<Rightarrow> create_options" where
  "dockerCreateOptions d name = (let spec = dc_RuntimeSpec d in
     \<lparr>co_Name = name, co_Image = dc_ImageDigest d, co_Env = dc_Environment d,
       co_ExposedPorts = set (map (\<lambda>p. (port_ContainerPort p, port_Protocol p)) (spec_Ports spec)),
       co_Labels = execution_labels d,
       co_Health = map_option (\<lambda>h. \<lparr>hcf_Test = ''CMD'' # hc_Command h, hcf_Interval = hc_IntervalSeconds h * second,
         hcf_Timeout = hc_TimeoutSeconds h * second, hcf_Retries = hc_Retries h,
         hcf_StartPeriod = hc_StartPeriodSeconds h * second\<rparr>) (spec_HealthCheck spec),
       co_NanoCPUs = CPUMilli (spec_Resources spec) * 1000000, co_Memory = MemoryBytes (spec_Resources spec),
       co_Networks = (if dc_ManagedIngress d
         then [(ManagedIngressNetwork, [case DeploymentBackendAlias (dc_DeploymentID d) of Inl _ \<Rightarrow> [] | Inr a \<Rightarrow> a])]
         else [])\<rparr>)"

section \<open>What the labels say\<close>

lemma digit_of_nth: "n < 10 \<Longrightarrow> is_digit (''0123456789'' ! n) \<and> digit_value (''0123456789'' ! n) = n"
  by (auto simp: less_Suc_eq numeral_eq_Suc is_digit_def in_range_def digit_value_def)

lemma parse_digits_append:
  assumes "list_all is_digit xs" "foldl (\<lambda>n c. 10 * n + digit_value c) n xs < 2 ^ 64"
  shows "parse_digits (xs @ ys) n = parse_digits ys (foldl (\<lambda>n c. 10 * n + digit_value c) n xs)"
  using assms
proof (induction xs arbitrary: n)
  case (Cons c cs)
  have grows: "m \<le> foldl (\<lambda>n c. 10 * n + digit_value c) m ds" for m ds
  proof (induction ds arbitrary: m)
    case (Cons a ds)
    show ?case using Cons[of "10 * m + digit_value a"] by simp
  qed simp
  have "10 * n + digit_value c < 2 ^ 64"
    using Cons.prems(2) grows[of "10 * n + digit_value c" cs] by simp
  then show ?case using Cons by simp
qed simp

lemma decimal_fuel_digits:
  "n < 10 ^ f \<Longrightarrow> 0 < f \<Longrightarrow> list_all is_digit (decimal_fuel f n) \<and> decimal_fuel f n \<noteq> [] \<and>
     foldl (\<lambda>n c. 10 * n + digit_value c) 0 (decimal_fuel f n) = n"
proof (induction f arbitrary: n)
  case (Suc f)
  show ?case
  proof (cases "n < 10")
    case False
    with Suc.prems have "0 < f" "n div 10 < 10 ^ f" by (cases f; auto)+
    from Suc.IH[OF this(2,1)] False show ?thesis
      using digit_of_nth[of "n mod 10"] by simp
  qed (use digit_of_nth[of n] in simp)
qed simp

lemma parse_decimal [simp]: "parse_uint (decimal w) = w"
proof -
  have w: "unat w < 2 ^ 64" using unsigned_less[of w, where 'a = nat] by simp
  from this have "unat w < 10 ^ 20" by simp
  from decimal_fuel_digits[OF this] have d: "list_all is_digit (decimal w)" "decimal w \<noteq> []"
    "foldl (\<lambda>n c. 10 * n + digit_value c) 0 (decimal w) = unat w" by (simp_all add: decimal_def)
  then show ?thesis
    using parse_digits_append[of "decimal w" 0 "[]"] w by (simp add: parse_uint_def)
qed

text \<open>A container made for an execution is owned by it, and a container has one owner.\<close>

lemma created_is_owned:
  assumes "dc_DeploymentID d \<noteq> []" "ct_Labels c = Some (execution_labels d)"
  shows "ownsExecution c d"
  using assms by (simp add: ownsExecution_def managedContainer_def managed_labels_def fencingToken_def cutoverSequence_def
      container_label_def execution_labels_def deploymentLabel_def fencingLabel_def cutoverSequenceLabel_def
      projectLabel_def applicationLabel_def environmentLabel_def)

lemma owned_not_newer: "ownsExecution c d \<Longrightarrow> \<not> hasNewerFence c d"
  by (simp add: ownsExecution_def hasNewerFence_def)

lemma owns_labels: "ct_Labels b = ct_Labels c \<Longrightarrow> ownsExecution b d \<longleftrightarrow> ownsExecution c d"
  by (simp add: ownsExecution_def managedContainer_def fencingToken_def cutoverSequence_def)

end
