(* ===== verification/DockerDeployment.thy ===== *)
theory DockerDeployment
  imports DockerEngine ResultCache
begin

text \<open>
  The agent's deployment executor (\<open>internal/agent/runtime/docker_deployment.go\<close>): every handler of a
  deployment command over an arbitrary engine, and the gate of the cutover store before it. A handler's error
  is a code the agent reports or any other error.
\<close>

section \<open>Errors and results\<close>

datatype deploy_error = DeploymentError string | OtherDeployError

type_synonym ('s, 'a) dop = "('s, deploy_error, 'a) op"

definition coded :: "string \<Rightarrow> ('s, 'a) dop" where
  "coded code = op_fail (DeploymentError code)"

definition deploymentResult :: "string \<Rightarrow> string \<Rightarrow> ('c, 'e) AgentCommandResult" where
  "deploymentResult commandID errorCode = \<lparr>res_CommandID = commandID,
     res_Status = (if errorCode = [] then AgentCommandSucceeded else AgentCommandFailed), res_ErrorCode = errorCode,
     res_RuntimeProbe = None, res_Inventory = None, res_Ingress = None\<rparr>"

section \<open>Removing containers\<close>

definition inspectContainer :: "'s docker_engine \<Rightarrow> string \<Rightarrow> ('s, engine_error + inspected) dop" where
  "inspectContainer eng name = op_try (de_inspect eng name)"

text \<open>The cleanups have a time limit of their own and drop every error.\<close>

definition removeOwnedContainer :: "'s docker_engine \<Rightarrow> DeploymentCommand \<Rightarrow> string \<Rightarrow> ('s, unit) dop" where
  "removeOwnedContainer eng d containerID =
     op_bind (inspectContainer eng containerID) (\<lambda>current. case current of
       Inl _ \<Rightarrow> op_return ()
     | Inr c \<Rightarrow>
         if \<not> ownsExecution c d then op_return ()
         else op_bind (op_try (de_remove eng containerID)) (\<lambda>_. op_return ()))"

definition removeNamedOwnedCandidate :: "'s docker_engine \<Rightarrow> DeploymentCommand \<Rightarrow> ('s, unit) dop" where
  "removeNamedOwnedCandidate eng d =
     op_bind (inspectContainer eng (candidateContainerName d)) (\<lambda>candidate. case candidate of
       Inl _ \<Rightarrow> op_return ()
     | Inr c \<Rightarrow> if ownsExecution c d then removeOwnedContainer eng d (ct_ID c) else op_return ())"

text \<open>A container that is not found counts as removed.\<close>

definition remove_strict :: "'s docker_engine \<Rightarrow> string \<Rightarrow> ('s, unit) dop" where
  "remove_strict eng containerID =
     op_bind (op_try (de_remove eng containerID)) (\<lambda>removed.
       if removed = Inl EngineFailed then coded ''runtime_error'' else op_return ())"

definition removeOwnedContainerStrict ::
  "'s docker_engine \<Rightarrow> DeploymentCommand \<Rightarrow> inspected \<Rightarrow> ('s, unit) dop" where
  "removeOwnedContainerStrict eng d current =
     (if \<not> ownsExecution current d then coded ''runtime_conflict'' else remove_strict eng (ct_ID current))"

definition removeManagedContainerStrict :: "'s docker_engine \<Rightarrow> string \<Rightarrow> ('s, unit) dop" where
  "removeManagedContainerStrict eng containerName =
     op_bind (inspectContainer eng containerName) (\<lambda>current. case current of
       Inl EngineNotFound \<Rightarrow> op_return ()
     | Inl EngineFailed \<Rightarrow> coded ''runtime_error''
     | Inr c \<Rightarrow> if \<not> managedContainer c then coded ''runtime_conflict'' else remove_strict eng (ct_ID c))"

definition restorePrevious :: "'s docker_engine \<Rightarrow> DeploymentCommand \<Rightarrow> string \<Rightarrow> ('s, unit) dop" where
  "restorePrevious eng d previousID =
     (if previousID = [] then op_return ()
      else op_bind (op_try (de_rename eng previousID (dc_ContainerName d))) (\<lambda>_. op_return ()))"

section \<open>Preparing\<close>

definition prepareDeployment :: "'s docker_engine \<Rightarrow> DeploymentCommand \<Rightarrow> ('s, unit) dop" where
  "prepareDeployment eng d =
     op_bind (op_try (de_ping eng)) (\<lambda>pinged. case pinged of
       Inl _ \<Rightarrow> coded ''target_unreachable''
     | Inr _ \<Rightarrow>
         op_bind (op_try (de_image_inspect eng (dc_ImageDigest d))) (\<lambda>image_found. case image_found of
           Inr _ \<Rightarrow> op_return ()
         | Inl EngineFailed \<Rightarrow> coded ''runtime_error''
         | Inl EngineNotFound \<Rightarrow>
             op_bind (op_try (de_image_pull eng (dc_ImageDigest d) (dc_RegistryAuthorization d))) (\<lambda>pulled. case pulled of
               Inl _ \<Rightarrow> coded ''image_pull''
             | Inr _ \<Rightarrow> op_return ())))"

section \<open>Staging\<close>

text \<open>Whether a container is ready (\<open>True\<close>), will never be (\<open>False\<close>), or has to be polled again.\<close>

definition readiness :: "bool \<Rightarrow> container_state option \<Rightarrow> bool option" where
  "readiness checked state =
     (case state of
        None \<Rightarrow> Some False
      | Some st \<Rightarrow>
          if cst_Dead st \<or> (\<not> cst_Running st \<and> cst_Status st \<noteq> ''created'') then Some False
          else if \<not> cst_Running st then None
          else if \<not> checked then Some True
          else if cst_Health st = Some ''healthy'' then Some True
          else if cst_Health st = Some ''unhealthy'' then Some False else None)"

fun wait_polls :: "'s docker_engine \<Rightarrow> bool \<Rightarrow> string \<Rightarrow> nat \<Rightarrow> ('s, unit) dop" where
  "wait_polls eng checked containerID n =
     op_bind (inspectContainer eng containerID) (\<lambda>current. case current of
       Inl _ \<Rightarrow> op_fail OtherDeployError
     | Inr c \<Rightarrow>
         (case readiness checked (ct_State c) of
            Some True \<Rightarrow> op_return ()
          | Some False \<Rightarrow> op_fail OtherDeployError
          | None \<Rightarrow> (case n of 0 \<Rightarrow> op_fail OtherDeployError | Suc m \<Rightarrow> wait_polls eng checked containerID m)))"

declare wait_polls.simps [simp del]

definition waitUntilReady :: "'s docker_engine \<Rightarrow> DeploymentCommand \<Rightarrow> string \<Rightarrow> ('s, unit) dop" where
  "waitUntilReady eng d containerID =
     op_bind (op_read (\<lambda>s. Inr (de_polls eng s)))
       (wait_polls eng (spec_HealthCheck (dc_RuntimeSpec d) \<noteq> None) containerID)"

definition managed_network_ok :: "engine_error + network_info \<Rightarrow> bool" where
  "managed_network_ok r \<longleftrightarrow>
     (case r of
        Inl _ \<Rightarrow> False
      | Inr n \<Rightarrow> net_Name n = ManagedIngressNetwork \<and> net_Driver n = ''bridge'' \<and> net_Scope n = ''local'' \<and>
          \<not> net_Ingress n \<and> \<not> net_ConfigOnly n)"

definition require_network :: "'s docker_engine \<Rightarrow> DeploymentCommand \<Rightarrow> ('s, unit) dop" where
  "require_network eng d =
     (if dc_ManagedIngress d
      then op_bind (op_try (de_network eng ManagedIngressNetwork)) (\<lambda>r.
        if managed_network_ok r then op_return () else coded ''ingress_unavailable'')
      else op_return ())"

text \<open>A failed start or wait removes the candidate again.\<close>

definition or_remove :: "'s docker_engine \<Rightarrow> DeploymentCommand \<Rightarrow> string \<Rightarrow> 'x + 'a \<Rightarrow> ('s, 'a) dop" where
  "or_remove eng d containerID r =
     (case r of
        Inl _ \<Rightarrow> op_bind (removeOwnedContainer eng d containerID) (\<lambda>_. coded ''runtime_error'')
      | Inr x \<Rightarrow> op_return x)"

definition start_candidate :: "'s docker_engine \<Rightarrow> DeploymentCommand \<Rightarrow> string \<Rightarrow> ('s, unit) dop" where
  "start_candidate eng d containerID =
     op_bind (inspectContainer eng containerID) (\<lambda>inspected_result.
     op_bind (or_remove eng d containerID inspected_result) (\<lambda>c.
     op_bind (case ct_State c of
         Some st \<Rightarrow> if cst_Running st then op_return ()
           else op_bind (op_try (de_start eng containerID)) (or_remove eng d containerID)
       | None \<Rightarrow> op_bind (op_try (de_start eng containerID)) (or_remove eng d containerID)) (\<lambda>_.
     op_bind (op_try (waitUntilReady eng d containerID)) (or_remove eng d containerID))))"

definition stage_candidate :: "'s docker_engine \<Rightarrow> DeploymentCommand \<Rightarrow> ('s, unit) dop" where
  "stage_candidate eng d =
     op_bind (inspectContainer eng (candidateContainerName d)) (\<lambda>candidate. case candidate of
       Inr c \<Rightarrow>
         if hasNewerFence c d then coded ''stale_execution''
         else if ownsExecution c d then start_candidate eng d (ct_ID c)
         else coded ''runtime_conflict''
     | Inl EngineFailed \<Rightarrow> coded ''runtime_error''
     | Inl EngineNotFound \<Rightarrow>
         op_bind (op_try (de_create eng (dockerCreateOptions d (candidateContainerName d)))) (\<lambda>created. case created of
           Inl _ \<Rightarrow> coded ''runtime_error''
         | Inr containerID \<Rightarrow> start_candidate eng d containerID))"

definition stageDeployment :: "'s docker_engine \<Rightarrow> DeploymentCommand \<Rightarrow> ('s, unit) dop" where
  "stageDeployment eng d =
     op_bind (require_network eng d) (\<lambda>_.
     op_bind (inspectContainer eng (dc_ContainerName d)) (\<lambda>current. case current of
       Inr c \<Rightarrow>
         if hasNewerFence c d then op_bind (removeNamedOwnedCandidate eng d) (\<lambda>_. coded ''stale_execution'')
         else if ownsExecution c d then waitUntilReady eng d (ct_ID c)
         else stage_candidate eng d
     | Inl EngineFailed \<Rightarrow> coded ''runtime_error''
     | Inl EngineNotFound \<Rightarrow> stage_candidate eng d))"

section \<open>Activating\<close>

definition candidate_ready :: "inspected \<Rightarrow> bool" where
  "candidate_ready c \<longleftrightarrow>
     (case ct_State c of
        None \<Rightarrow> False
      | Some st \<Rightarrow> cst_Running st \<and> (case cst_Health st of None \<Rightarrow> True | Some h \<Rightarrow> h = ''healthy''))"

text \<open>The live container, if there is one, moves to the previous name; its ID, empty for none.\<close>

definition set_aside :: "'s docker_engine \<Rightarrow> DeploymentCommand \<Rightarrow> inspected option \<Rightarrow> ('s, string) dop" where
  "set_aside eng d current =
     (case current of
        Some c \<Rightarrow>
          if \<not> managedContainer c then coded ''runtime_conflict''
          else op_bind (removeManagedContainerStrict eng (previousContainerName d)) (\<lambda>_.
            op_bind (op_try (de_rename eng (ct_ID c) (previousContainerName d))) (\<lambda>renamed. case renamed of
              Inl _ \<Rightarrow> coded ''runtime_error''
            | Inr _ \<Rightarrow> op_return (ct_ID c)))
      | None \<Rightarrow>
          op_bind (inspectContainer eng (previousContainerName d)) (\<lambda>previous. case previous of
            Inr p \<Rightarrow> if managedContainer p then op_return (ct_ID p) else coded ''runtime_conflict''
          | Inl EngineNotFound \<Rightarrow> op_return []
          | Inl EngineFailed \<Rightarrow> coded ''runtime_error''))"

definition switch_to :: "'s docker_engine \<Rightarrow> DeploymentCommand \<Rightarrow> inspected \<Rightarrow> string \<Rightarrow> ('s, unit) dop" where
  "switch_to eng d candidate previousID =
     op_bind (op_try (de_rename eng (ct_ID candidate) (dc_ContainerName d))) (\<lambda>renamed. case renamed of
       Inr _ \<Rightarrow> op_return ()
     | Inl _ \<Rightarrow>
         op_bind (restorePrevious eng d previousID) (\<lambda>_.
         op_bind (removeOwnedContainer eng d (ct_ID candidate)) (\<lambda>_. coded ''runtime_error'')))"

definition activate_candidate :: "'s docker_engine \<Rightarrow> DeploymentCommand \<Rightarrow> inspected option \<Rightarrow> ('s, unit) dop" where
  "activate_candidate eng d current =
     op_bind (inspectContainer eng (candidateContainerName d)) (\<lambda>candidate. case candidate of
       Inl EngineNotFound \<Rightarrow> coded ''candidate_missing''
     | Inl EngineFailed \<Rightarrow> coded ''runtime_error''
     | Inr c \<Rightarrow>
         if hasNewerFence c d then coded ''stale_execution''
         else if \<not> ownsExecution c d then coded ''runtime_conflict''
         else if \<not> candidate_ready c then coded ''candidate_not_ready''
         else op_bind (set_aside eng d current) (switch_to eng d c))"

definition activateDeployment :: "'s docker_engine \<Rightarrow> DeploymentCommand \<Rightarrow> ('s, unit) dop" where
  "activateDeployment eng d =
     op_bind (inspectContainer eng (dc_ContainerName d)) (\<lambda>current. case current of
       Inr c \<Rightarrow>
         if hasNewerFence c d then op_bind (removeNamedOwnedCandidate eng d) (\<lambda>_. coded ''stale_execution'')
         else if ownsExecution c d then removeNamedOwnedCandidate eng d
         else activate_candidate eng d (Some c)
     | Inl EngineFailed \<Rightarrow> coded ''runtime_error''
     | Inl EngineNotFound \<Rightarrow> activate_candidate eng d None)"

section \<open>Retiring and cancelling\<close>

definition retirePreviousDeployment :: "'s docker_engine \<Rightarrow> DeploymentCommand \<Rightarrow> ('s, unit) dop" where
  "retirePreviousDeployment eng d =
     op_bind (inspectContainer eng (dc_ContainerName d)) (\<lambda>current. case current of
       Inl EngineNotFound \<Rightarrow> coded ''candidate_missing''
     | Inl EngineFailed \<Rightarrow> coded ''runtime_error''
     | Inr c \<Rightarrow>
         if hasNewerFence c d then coded ''stale_execution''
         else if \<not> ownsExecution c d then coded ''runtime_conflict''
         else removeManagedContainerStrict eng (previousContainerName d))"

definition cancel_candidate :: "'s docker_engine \<Rightarrow> DeploymentCommand \<Rightarrow> ('s, unit) dop" where
  "cancel_candidate eng d =
     op_bind (inspectContainer eng (candidateContainerName d)) (\<lambda>candidate. case candidate of
       Inr c \<Rightarrow> if ownsExecution c d then removeOwnedContainerStrict eng d c else op_return ()
     | Inl EngineNotFound \<Rightarrow> op_return ()
     | Inl EngineFailed \<Rightarrow> coded ''runtime_error'')"

text \<open>A container or none; any error but a missing container ends the command.\<close>

definition inspect_optional :: "'s docker_engine \<Rightarrow> string \<Rightarrow> ('s, inspected option) dop" where
  "inspect_optional eng name =
     op_bind (inspectContainer eng name) (\<lambda>r. case r of
       Inr c \<Rightarrow> op_return (Some c)
     | Inl EngineNotFound \<Rightarrow> op_return None
     | Inl EngineFailed \<Rightarrow> coded ''runtime_error'')"

definition owned_by :: "DeploymentCommand \<Rightarrow> inspected option \<Rightarrow> bool" where
  "owned_by d c \<longleftrightarrow> (case c of None \<Rightarrow> False | Some x \<Rightarrow> ownsExecution x d)"

definition restorable :: "DeploymentCommand \<Rightarrow> inspected option \<Rightarrow> bool" where
  "restorable d previous \<longleftrightarrow>
     (case previous of
        None \<Rightarrow> False
      | Some p \<Rightarrow> managedContainer p \<and> \<not> ownsExecution p d \<and> cutoverSequence p < dc_CutoverSequence d)"

text \<open>The end of a cancellation: restore the previous container, or remove it where it is the execution's own.\<close>

definition cancel_previous ::
  "'s docker_engine \<Rightarrow> DeploymentCommand \<Rightarrow> bool \<Rightarrow> inspected option \<Rightarrow> ('s, unit) dop" where
  "cancel_previous eng d currentMissing previous =
     (case previous of
        None \<Rightarrow> op_return ()
      | Some p \<Rightarrow>
          if currentMissing \<and> restorable d previous
          then op_bind (op_try (de_rename eng (ct_ID p) (dc_ContainerName d))) (\<lambda>renamed. case renamed of
              Inl _ \<Rightarrow> coded ''runtime_error''
            | Inr _ \<Rightarrow> op_return ())
          else if owned_by d previous then removeOwnedContainerStrict eng d p
          else op_return ())"

definition cancel_live ::
  "'s docker_engine \<Rightarrow> DeploymentCommand \<Rightarrow> inspected option \<Rightarrow> inspected option \<Rightarrow> ('s, bool) dop" where
  "cancel_live eng d current previous =
     (case current of
        None \<Rightarrow> op_return True
      | Some c \<Rightarrow>
          if \<not> ownsExecution c d then op_return False
          else if previous \<noteq> None \<and> \<not> owned_by d previous \<and> \<not> restorable d previous then coded ''runtime_conflict''
          else op_bind (removeOwnedContainerStrict eng d c) (\<lambda>_. op_return True))"

definition cancelDeployment :: "'s docker_engine \<Rightarrow> DeploymentCommand \<Rightarrow> ('s, unit) dop" where
  "cancelDeployment eng d =
     op_bind (cancel_candidate eng d) (\<lambda>_.
     op_bind (inspect_optional eng (dc_ContainerName d)) (\<lambda>current.
     op_bind (inspect_optional eng (previousContainerName d)) (\<lambda>previous.
     op_bind (cancel_live eng d current previous) (\<lambda>currentMissing.
       cancel_previous eng d currentMissing previous))))"

section \<open>The executor\<close>

record 's host =
  host_cutovers :: FileCutoverStore
  host_docker :: 's

text \<open>A dereferenced nil deployment is a panic of the agent; validated commands have one.\<close>

datatype agent_error =
    AgentProtocolError protocol_error
  | AgentContextError context_error
  | AgentCacheError cache_error
  | AgentPanic

definition on_docker :: "('s, 'e, 'a) op \<Rightarrow> ('s host, 'e, 'a) op" where
  "on_docker m = (\<lambda>h. case m (host_docker h) of (r, t) \<Rightarrow> (r, h\<lparr>host_docker := t\<rparr>))"

definition on_cutovers ::
  "(FileCutoverStore \<Rightarrow> (cut_error + 'a) \<times> FileCutoverStore) \<Rightarrow> ('s host, 'e, cut_error + 'a) op" where
  "on_cutovers m = (\<lambda>h. case m (host_cutovers h) of (r, t) \<Rightarrow> (Inr r, h\<lparr>host_cutovers := t\<rparr>))"

definition cutover_code :: "string \<Rightarrow> cut_error \<Rightarrow> string" where
  "cutover_code conflict e = (if e = ErrCutoverStoreConflict then conflict else ''runtime_configuration'')"

text \<open>The gate before any engine call: the code of a command that is turned away, or whether it is stale.\<close>

definition cutover_gate_step ::
  "write_outcome \<Rightarrow> AgentCommandKind \<Rightarrow> DeploymentCommand \<Rightarrow> ('s host, 'e, string + bool) op" where
  "cutover_gate_step io kind d =
     (if kind = AgentCommandDeploymentCancel
      then op_bind (on_cutovers (cs_Cancel io (dc_ContainerName d) (dc_DeploymentID d) (dc_CutoverSequence d))) (\<lambda>r.
        op_return (case r of Inl e \<Rightarrow> Inl (cutover_code ''stale_execution'' e) | Inr _ \<Rightarrow> Inr False))
      else op_bind (on_cutovers (cs_Observe io (dc_ContainerName d) (dc_DeploymentID d) (dc_CutoverSequence d))) (\<lambda>r.
        op_return (case r of
            Inl _ \<Rightarrow> Inl ''runtime_configuration''
          | Inr stale \<Rightarrow> if stale \<and> kind = AgentCommandDeploymentPrepare then Inl ''stale_execution'' else Inr stale)))"

definition run_deployment_kind ::
  "'s docker_engine \<Rightarrow> AgentCommandKind \<Rightarrow> DeploymentCommand \<Rightarrow> ('s, unit) dop option" where
  "run_deployment_kind eng kind d =
     (case kind of
        AgentCommandDeploymentPrepare \<Rightarrow> Some (prepareDeployment eng d)
      | AgentCommandDeploymentStage \<Rightarrow> Some (stageDeployment eng d)
      | AgentCommandDeploymentActivate \<Rightarrow> Some (activateDeployment eng d)
      | AgentCommandDeploymentRetire \<Rightarrow> Some (retirePreviousDeployment eng d)
      | AgentCommandDeploymentCancel \<Rightarrow> Some (cancelDeployment eng d)
      | _ \<Rightarrow> None)"

text \<open>The answer of a handler as a result; an ended context is the error of the call.\<close>

definition report_outcome ::
  "'s docker_engine \<Rightarrow> string \<Rightarrow> deploy_error + unit \<Rightarrow> ('s, agent_error, ('c, 'e) AgentCommandResult) op" where
  "report_outcome eng commandID r =
     (case r of
        Inr _ \<Rightarrow> op_return (deploymentResult commandID [])
      | Inl e \<Rightarrow>
          op_bind (op_read (\<lambda>s. Inr (de_ctx eng s))) (\<lambda>ended. case ended of
            Some x \<Rightarrow> op_fail (AgentContextError x)
          | None \<Rightarrow> op_return (deploymentResult commandID
              (case e of DeploymentError code \<Rightarrow> code | OtherDeployError \<Rightarrow> ''runtime_error''))))"

definition run_admitted ::
  "'s docker_engine \<Rightarrow> AgentCommand \<Rightarrow> DeploymentCommand \<Rightarrow> bool \<Rightarrow> ('s, agent_error, ('c, 'e) AgentCommandResult) op" where
  "run_admitted eng command d stale =
     op_bind (op_read (\<lambda>s. Inr (de_open eng s))) (\<lambda>opened.
       if \<not> opened then op_return (deploymentResult (cmd_ID command) ''runtime_configuration'')
       else if stale
       then op_bind (op_try (removeNamedOwnedCandidate eng d)) (\<lambda>_.
         op_return (deploymentResult (cmd_ID command) ''stale_execution''))
       else (case run_deployment_kind eng (cmd_Kind command) d of
           None \<Rightarrow> op_fail (AgentProtocolError ErrCommandInvalid)
         | Some handler \<Rightarrow> op_bind (op_try handler) (report_outcome eng (cmd_ID command))))"

definition executeDeployment ::
  "'s docker_engine \<Rightarrow> write_outcome \<Rightarrow> AgentCommand \<Rightarrow> ('s host, agent_error, ('c, 'e) AgentCommandResult) op" where
  "executeDeployment eng io command =
     (case cmd_Deployment command of
        None \<Rightarrow> op_fail AgentPanic
      | Some d \<Rightarrow>
          op_bind (cutover_gate_step io (cmd_Kind command) d) (\<lambda>admitted. case admitted of
            Inl code \<Rightarrow> op_return (deploymentResult (cmd_ID command) code)
          | Inr stale \<Rightarrow> on_docker (run_admitted eng command d stale)))"

section \<open>Removing a runtime\<close>

definition is_cutover_runtime :: "CutoverCommand \<Rightarrow> inspected \<Rightarrow> bool" where
  "is_cutover_runtime k c \<longleftrightarrow> managedContainer c \<and>
     container_label (ct_Labels c) deploymentLabel = cut_DeploymentID k \<and> cutoverSequence c = cut_CutoverSequence k"

definition remove_cutover_runtime ::
  "'s docker_engine \<Rightarrow> CutoverCommand \<Rightarrow> ('s, agent_error, string) op" where
  "remove_cutover_runtime eng k =
     op_bind (op_read (\<lambda>s. Inr (de_open eng s))) (\<lambda>opened.
       if \<not> opened then op_return ''runtime_configuration''
       else op_bind (op_try (de_inspect eng (cut_ContainerName k))) (\<lambda>current. case current of
           Inl EngineNotFound \<Rightarrow> op_return []
         | Inl EngineFailed \<Rightarrow> op_return ''runtime_error''
         | Inr c \<Rightarrow>
             if \<not> is_cutover_runtime k c then op_return ''cutover_conflict''
             else op_bind (op_try (de_remove eng (ct_ID c))) (\<lambda>removed.
               op_return (if removed = Inl EngineFailed then ''runtime_error'' else []))))"

definition removeRuntime ::
  "'s docker_engine \<Rightarrow> AgentCommand \<Rightarrow> ('s host, agent_error, ('c, 'e) AgentCommandResult) op" where
  "removeRuntime eng command =
     (case cmd_Cutover command of
        None \<Rightarrow> op_fail AgentPanic
      | Some k \<Rightarrow> (\<lambda>h.
          case cs_ProtectsRemoval (cut_ContainerName k) (cut_DeploymentID k) (cut_CutoverSequence k) (host_cutovers h) of
            Some e \<Rightarrow> (Inr (deploymentResult (cmd_ID command) (cutover_code ''cutover_conflict'' e)), h)
          | None \<Rightarrow> op_bind (on_docker (remove_cutover_runtime eng k))
              (\<lambda>code. op_return (deploymentResult (cmd_ID command) code)) h))"

definition releaseCutover ::
  "write_outcome \<Rightarrow> AgentCommand \<Rightarrow> ('s host, agent_error, ('c, 'e) AgentCommandResult) op" where
  "releaseCutover io command =
     (case cmd_Cutover command of
        None \<Rightarrow> op_fail AgentPanic
      | Some k \<Rightarrow>
          op_bind (on_cutovers (cs_Release io (cut_ContainerName k) (cut_DeploymentID k) (cut_CutoverSequence k))) (\<lambda>r.
            op_return (deploymentResult (cmd_ID command)
              (case r of Inl e \<Rightarrow> cutover_code ''cutover_conflict'' e | Inr _ \<Rightarrow> []))))"

end
