(* ===== verification/DockerSafety.thy ===== *)
theory DockerSafety
  imports DockerDeployment
begin

text \<open>
  The deployment executor against an engine that may answer anything: the state is the list of engine calls.
  What each handler may do to a container follows from what it was told about that container before, so an
  execution never touches a container that is not the agent's, nor one of a newer execution.
\<close>

section \<open>An arbitrary engine\<close>

datatype docker_event =
    DkPing "engine_error + unit"
  | DkImageInspect string "engine_error + unit"
  | DkImagePull string string "engine_error + unit"
  | DkInspect string "engine_error + inspected"
  | DkCreate create_options "engine_error + string"
  | DkStart string "engine_error + unit"
  | DkRemove string "engine_error + unit"
  | DkRename string string "engine_error + unit"
  | DkNetwork string "engine_error + network_info"

type_synonym docker_trace = "docker_event list"

record docker_oracle =
  dor_open :: "docker_trace \<Rightarrow> bool"
  dor_ping :: "docker_trace \<Rightarrow> engine_error + unit"
  dor_image_inspect :: "string \<Rightarrow> docker_trace \<Rightarrow> engine_error + unit"
  dor_image_pull :: "string \<Rightarrow> string \<Rightarrow> docker_trace \<Rightarrow> engine_error + unit"
  dor_inspect :: "string \<Rightarrow> docker_trace \<Rightarrow> engine_error + inspected"
  dor_create :: "create_options \<Rightarrow> docker_trace \<Rightarrow> engine_error + string"
  dor_start :: "string \<Rightarrow> docker_trace \<Rightarrow> engine_error + unit"
  dor_remove :: "string \<Rightarrow> docker_trace \<Rightarrow> engine_error + unit"
  dor_rename :: "string \<Rightarrow> string \<Rightarrow> docker_trace \<Rightarrow> engine_error + unit"
  dor_network :: "string \<Rightarrow> docker_trace \<Rightarrow> engine_error + network_info"
  dor_polls :: "docker_trace \<Rightarrow> nat"
  dor_ctx :: "docker_trace \<Rightarrow> context_error option"

definition traced :: "docker_oracle \<Rightarrow> docker_trace docker_engine" where
  "traced orc = \<lparr>de_open = dor_open orc, de_ping = ask_or_fail (dor_ping orc) DkPing,
     de_image_inspect = \<lambda>i. ask_or_fail (dor_image_inspect orc i) (DkImageInspect i),
     de_image_pull = \<lambda>i a. ask_or_fail (dor_image_pull orc i a) (DkImagePull i a),
     de_inspect = \<lambda>k. ask_or_fail (dor_inspect orc k) (DkInspect k),
     de_create = \<lambda>c. ask_or_fail (dor_create orc c) (DkCreate c),
     de_start = \<lambda>k. ask_or_fail (dor_start orc k) (DkStart k),
     de_remove = \<lambda>k. ask_or_fail (dor_remove orc k) (DkRemove k),
     de_rename = \<lambda>k n. ask_or_fail (dor_rename orc k n) (DkRename k n),
     de_network = \<lambda>n. ask_or_fail (dor_network orc n) (DkNetwork n),
     de_polls = dor_polls orc, de_ctx = dor_ctx orc\<rparr>"

section \<open>What an execution may do\<close>

text \<open>A container the engine reported under a name or ID.\<close>

definition reported :: "docker_event set \<Rightarrow> string \<Rightarrow> inspected \<Rightarrow> bool" where
  "reported K key c \<longleftrightarrow> DkInspect key (Inr c) \<in> K"

definition may_remove :: "bool \<Rightarrow> DeploymentCommand \<Rightarrow> docker_event set \<Rightarrow> string \<Rightarrow> bool" where
  "may_remove current d K k \<longleftrightarrow> (\<exists>key c. reported K key c \<and> (k = key \<or> k = ct_ID c) \<and>
     (ownsExecution c d \<or> current \<and> key = previousContainerName d \<and> managedContainer c))"

text \<open>What may get the live name: the ready candidate, or a container that is put back.\<close>

definition may_restore :: "DeploymentCommand \<Rightarrow> docker_event set \<Rightarrow> string \<Rightarrow> bool" where
  "may_restore d K i \<longleftrightarrow> (\<exists>c. i = ct_ID c \<and> managedContainer c \<and>
     (reported K (dc_ContainerName d) c \<and> \<not> hasNewerFence c d \<or> reported K (previousContainerName d) c))"

definition may_go_live :: "DeploymentCommand \<Rightarrow> docker_event set \<Rightarrow> string \<Rightarrow> bool" where
  "may_go_live d K i \<longleftrightarrow> (\<exists>c. reported K (candidateContainerName d) c \<and> i = ct_ID c \<and> ownsExecution c d \<and>
     candidate_ready c) \<or> may_restore d K i"

definition may_step_aside :: "DeploymentCommand \<Rightarrow> docker_event set \<Rightarrow> string \<Rightarrow> bool" where
  "may_step_aside d K i \<longleftrightarrow> (\<exists>c. reported K (dc_ContainerName d) c \<and> i = ct_ID c \<and> managedContainer c \<and>
     \<not> hasNewerFence c d \<and> \<not> ownsExecution c d)"

definition may_start :: "DeploymentCommand \<Rightarrow> docker_event set \<Rightarrow> string \<Rightarrow> bool" where
  "may_start d K i \<longleftrightarrow> (\<exists>r. DkCreate (dockerCreateOptions d (candidateContainerName d)) r \<in> K \<and> r = Inr i) \<or>
     (\<exists>c. reported K (candidateContainerName d) c \<and> i = ct_ID c \<and> ownsExecution c d)"

text \<open>An execution that is no longer current may only remove its own containers.\<close>

fun docker_allowed :: "bool \<Rightarrow> DeploymentCommand \<Rightarrow> docker_event set \<Rightarrow> docker_event \<Rightarrow> bool" where
  "docker_allowed current d K (DkCreate c r) \<longleftrightarrow> current \<and> c = dockerCreateOptions d (candidateContainerName d)"
| "docker_allowed current d K (DkStart i r) \<longleftrightarrow> current \<and> may_start d K i"
| "docker_allowed current d K (DkRemove k r) \<longleftrightarrow> may_remove current d K k"
| "docker_allowed current d K (DkRename i n r) \<longleftrightarrow> current \<and>
     (n = dc_ContainerName d \<and> may_go_live d K i \<or> n = previousContainerName d \<and> may_step_aside d K i)"
| "docker_allowed current d K _ \<longleftrightarrow> True"

lemma reported_mono: "reported A k c \<Longrightarrow> A \<subseteq> B \<Longrightarrow> reported B k c"
  by (auto simp: reported_def)

lemma may_mono:
  "may_remove b d A k \<Longrightarrow> A \<subseteq> B \<Longrightarrow> may_remove b d B k"
  "may_restore d A k \<Longrightarrow> A \<subseteq> B \<Longrightarrow> may_restore d B k"
  "may_go_live d A k \<Longrightarrow> A \<subseteq> B \<Longrightarrow> may_go_live d B k"
  "may_step_aside d A k \<Longrightarrow> A \<subseteq> B \<Longrightarrow> may_step_aside d B k"
  "may_start d A k \<Longrightarrow> A \<subseteq> B \<Longrightarrow> may_start d B k"
proof -
  show restore: "may_restore d A k \<Longrightarrow> A \<subseteq> B \<Longrightarrow> may_restore d B k"
    unfolding may_restore_def using reported_mono[of A _ _ B] by blast
  show "may_remove b d A k \<Longrightarrow> A \<subseteq> B \<Longrightarrow> may_remove b d B k"
    unfolding may_remove_def using reported_mono[of A _ _ B] by blast
  show "may_go_live d A k \<Longrightarrow> A \<subseteq> B \<Longrightarrow> may_go_live d B k"
    unfolding may_go_live_def using restore reported_mono[of A _ _ B] by blast
  show "may_step_aside d A k \<Longrightarrow> A \<subseteq> B \<Longrightarrow> may_step_aside d B k"
    unfolding may_step_aside_def using reported_mono[of A _ _ B] by blast
  show "may_start d A k \<Longrightarrow> A \<subseteq> B \<Longrightarrow> may_start d B k"
    unfolding may_start_def using reported_mono[of A _ _ B] by blast
qed

interpretation docker: trace_safety "docker_allowed b d" for b d
proof
  fix A B ev
  assume "docker_allowed b d A ev" "A \<subseteq> B"
  then show "docker_allowed b d B ev" by (cases ev) (auto intro: may_mono)
qed

section \<open>Rules\<close>

abbreviation (input) acts :: "bool \<Rightarrow> DeploymentCommand \<Rightarrow> docker_event set \<Rightarrow> (docker_trace, 'e, 'a) op \<Rightarrow> bool" where
  "acts b d F m \<equiv> docker.triple b d F m (\<lambda>_ _. True)"

lemma traced_try:
  "op_try (de_ping (traced orc)) = ask (dor_ping orc) DkPing"
  "op_try (de_image_inspect (traced orc) i) = ask (dor_image_inspect orc i) (DkImageInspect i)"
  "op_try (de_image_pull (traced orc) i a) = ask (dor_image_pull orc i a) (DkImagePull i a)"
  "op_try (de_inspect (traced orc) k) = ask (dor_inspect orc k) (DkInspect k)"
  "op_try (de_create (traced orc) c) = ask (dor_create orc c) (DkCreate c)"
  "op_try (de_start (traced orc) k) = ask (dor_start orc k) (DkStart k)"
  "op_try (de_remove (traced orc) k) = ask (dor_remove orc k) (DkRemove k)"
  "op_try (de_rename (traced orc) k n) = ask (dor_rename orc k n) (DkRename k n)"
  "op_try (de_network (traced orc) n) = ask (dor_network orc n) (DkNetwork n)"
  by (simp_all add: traced_def op_try_ask)

lemma acts_call:
  assumes "\<And>r. docker_allowed b d F (ev r)" "\<And>r G. F \<subseteq> G \<Longrightarrow> ev r \<in> G \<Longrightarrow> docker.triple b d G (f r) Q"
  shows "docker.triple b d F (op_bind (ask answer ev) f) Q"
  by (rule docker.triple_bind[OF docker.triple_ask]) (use assms in auto)

lemma acts_inspect:
  assumes "\<And>c G. F \<subseteq> G \<Longrightarrow> reported G k c \<Longrightarrow> docker.triple b d G (f (Inr c)) Q"
    and "\<And>G. F \<subseteq> G \<Longrightarrow> docker.triple b d G (f (Inl EngineNotFound)) Q"
    and "\<And>G. F \<subseteq> G \<Longrightarrow> docker.triple b d G (f (Inl EngineFailed)) Q"
  shows "docker.triple b d F (op_bind (inspectContainer (traced orc) k) f) Q"
  unfolding inspectContainer_def traced_try
proof (rule acts_call)
  fix r :: "engine_error + inspected" and G
  assume G: "F \<subseteq> G" "DkInspect k r \<in> G"
  show "docker.triple b d G (f r) Q"
  proof (cases r)
    case (Inl e)
    then show ?thesis using assms(2,3)[OF G(1)] by (cases e) simp_all
  qed (use assms(1)[OF G(1)] G(2) in \<open>simp add: reported_def\<close>)
qed simp

lemma acts_then:
  assumes "acts b d F m" "\<And>x G. F \<subseteq> G \<Longrightarrow> docker.triple b d G (f x) Q"
  shows "docker.triple b d F (op_bind m f) Q"
  by (rule docker.triple_bind[OF assms(1)]) (use assms(2) in auto)

lemma acts_simple [simp]:
  "acts b d F (op_return x)" "docker.triple b d F (op_fail e) Q" "acts b d F (op_read f)" "docker.triple b d F (coded code) Q"
  by (auto simp: docker.triple_fail coded_def intro: docker.triple_weaken[OF docker.triple_return]
      docker.triple_weaken[OF docker.triple_read])

lemma acts_try: "acts b d F m \<Longrightarrow> acts b d F (op_try m)"
  by (rule docker.triple_weaken[OF docker.triple_try])

lemma may_removeI:
  "reported K key c \<Longrightarrow> ownsExecution c d \<Longrightarrow> may_remove b d K key"
  "reported K key c \<Longrightarrow> ownsExecution c d \<Longrightarrow> may_remove b d K (ct_ID c)"
  "reported K (previousContainerName d) c \<Longrightarrow> managedContainer c \<Longrightarrow> may_remove True d K (ct_ID c)"
  unfolding may_remove_def by blast+

section \<open>The handlers\<close>

lemma removeOwnedContainer_acts: "acts b d F (removeOwnedContainer (traced orc) d k)"
  unfolding removeOwnedContainer_def
proof (rule acts_inspect)
  fix c G
  assume c: "reported G k c"
  show "acts b d G (case Inr c of Inl _ \<Rightarrow> op_return ()
     | Inr c \<Rightarrow> if \<not> ownsExecution c d then op_return ()
         else op_bind (op_try (de_remove (traced orc) k)) (\<lambda>_. op_return ()))"
    using c unfolding traced_try by (auto intro!: acts_call intro: may_removeI)
qed simp_all

lemma removeNamedOwnedCandidate_acts: "acts b d F (removeNamedOwnedCandidate (traced orc) d)"
  unfolding removeNamedOwnedCandidate_def by (rule acts_inspect) (simp_all add: removeOwnedContainer_acts)

lemma remove_strict_acts: "may_remove b d F k \<Longrightarrow> acts b d F (remove_strict (traced orc) k)"
  unfolding remove_strict_def traced_try by (auto intro!: acts_call)

lemma removeOwnedContainerStrict_acts:
  "reported F key c \<Longrightarrow> acts b d F (removeOwnedContainerStrict (traced orc) d c)"
  by (auto simp: removeOwnedContainerStrict_def intro!: remove_strict_acts intro: may_removeI)

lemma removeManagedContainerStrict_acts:
  "acts True d F (removeManagedContainerStrict (traced orc) (previousContainerName d))"
  unfolding removeManagedContainerStrict_def
  by (rule acts_inspect) (auto intro!: remove_strict_acts intro: may_removeI)

lemma prepareDeployment_acts: "acts True d F (prepareDeployment (traced orc) d)"
  unfolding prepareDeployment_def traced_try
  by (auto intro!: acts_call split: sum.split engine_error.split)

lemma wait_polls_acts: "acts True d F (wait_polls (traced orc) checked k n)"
proof (induction n arbitrary: F)
  case 0
  show ?case by (subst wait_polls.simps, rule acts_inspect) (auto split: option.split bool.split)
next
  case (Suc n)
  show ?case by (subst wait_polls.simps, rule acts_inspect) (auto simp: Suc.IH split: option.split bool.split)
qed

lemma waitUntilReady_acts: "acts True d F (waitUntilReady (traced orc) d k)"
  unfolding waitUntilReady_def by (rule acts_then[OF acts_simple(3)]) (rule wait_polls_acts)

lemma or_remove_acts: "acts True d F (or_remove (traced orc) d k r)"
  unfolding or_remove_def by (cases r) (auto intro: acts_then[OF removeOwnedContainer_acts])

lemma start_candidate_acts:
  assumes "may_start d F k"
  shows "acts True d F (start_candidate (traced orc) d k)"
proof -
  have start: "acts True d G (op_bind (op_try (de_start (traced orc) k)) (or_remove (traced orc) d k))" if "F \<subseteq> G" for G
    unfolding traced_try using may_mono(5)[OF assms that] by (auto intro!: acts_call or_remove_acts)
  have wait: "acts True d G (op_bind (op_try (waitUntilReady (traced orc) d k)) (or_remove (traced orc) d k))" for G
    by (rule acts_then[OF acts_try[OF waitUntilReady_acts]]) (rule or_remove_acts)
  have run: "acts True d G (op_bind (or_remove (traced orc) d k r) (\<lambda>c.
     op_bind (case ct_State c of
         Some st \<Rightarrow> if cst_Running st then op_return ()
           else op_bind (op_try (de_start (traced orc) k)) (or_remove (traced orc) d k)
       | None \<Rightarrow> op_bind (op_try (de_start (traced orc) k)) (or_remove (traced orc) d k)) (\<lambda>_.
     op_bind (op_try (waitUntilReady (traced orc) d k)) (or_remove (traced orc) d k))))" if "F \<subseteq> G" for G r
  proof (rule acts_then[OF or_remove_acts], rule acts_then[OF _ wait])
    fix c H
    assume "G \<subseteq> H"
    with that have "F \<subseteq> H" by simp
    then show "acts True d H (case ct_State c of
         Some st \<Rightarrow> if cst_Running st then op_return ()
           else op_bind (op_try (de_start (traced orc) k)) (or_remove (traced orc) d k)
       | None \<Rightarrow> op_bind (op_try (de_start (traced orc) k)) (or_remove (traced orc) d k))"
      using start[of H] by (simp split: option.split)
  qed
  show ?thesis unfolding start_candidate_def by (rule acts_inspect) (rule run, assumption)+
qed

lemma stage_candidate_acts: "acts True d F (stage_candidate (traced orc) d)"
  unfolding stage_candidate_def
proof (rule acts_inspect)
  fix c G
  assume c: "reported G (candidateContainerName d) c"
  then show "acts True d G (case Inr c of
       Inr c \<Rightarrow>
         if hasNewerFence c d then coded ''stale_execution''
         else if ownsExecution c d then start_candidate (traced orc) d (ct_ID c)
         else coded ''runtime_conflict''
     | Inl EngineFailed \<Rightarrow> coded ''runtime_error''
     | Inl EngineNotFound \<Rightarrow>
         op_bind (op_try (de_create (traced orc) (dockerCreateOptions d (candidateContainerName d)))) (\<lambda>created.
           case created of
             Inl _ \<Rightarrow> coded ''runtime_error''
           | Inr containerID \<Rightarrow> start_candidate (traced orc) d containerID))"
    by (auto simp: may_start_def intro!: start_candidate_acts)
next
  fix G
  show "acts True d G (case Inl EngineNotFound of
       Inr c \<Rightarrow>
         if hasNewerFence c d then coded ''stale_execution''
         else if ownsExecution c d then start_candidate (traced orc) d (ct_ID c)
         else coded ''runtime_conflict''
     | Inl EngineFailed \<Rightarrow> coded ''runtime_error''
     | Inl EngineNotFound \<Rightarrow>
         op_bind (op_try (de_create (traced orc) (dockerCreateOptions d (candidateContainerName d)))) (\<lambda>created.
           case created of
             Inl _ \<Rightarrow> coded ''runtime_error''
           | Inr containerID \<Rightarrow> start_candidate (traced orc) d containerID))"
    unfolding traced_try
    by (simp, rule acts_call) (auto simp: may_start_def intro!: start_candidate_acts split: sum.split)
qed simp

lemma stageDeployment_acts: "acts True d F (stageDeployment (traced orc) d)"
  unfolding stageDeployment_def
proof (rule acts_then)
  show "acts True d F (require_network (traced orc) d)"
    unfolding require_network_def traced_try by (auto intro!: acts_call)
  show "acts True d G (op_bind (inspectContainer (traced orc) (dc_ContainerName d)) (\<lambda>current. case current of
       Inr c \<Rightarrow>
         if hasNewerFence c d then op_bind (removeNamedOwnedCandidate (traced orc) d) (\<lambda>_. coded ''stale_execution'')
         else if ownsExecution c d then waitUntilReady (traced orc) d (ct_ID c)
         else stage_candidate (traced orc) d
     | Inl EngineFailed \<Rightarrow> coded ''runtime_error''
     | Inl EngineNotFound \<Rightarrow> stage_candidate (traced orc) d))" for G
    by (rule acts_inspect)
      (auto simp: stage_candidate_acts waitUntilReady_acts intro!: acts_then[OF removeNamedOwnedCandidate_acts])
qed

text \<open>The container that is set aside, or was before, may be put back.\<close>

lemma set_aside_acts:
  assumes "\<And>c. current = Some c \<Longrightarrow> reported F (dc_ContainerName d) c \<and> \<not> hasNewerFence c d \<and> \<not> ownsExecution c d"
  shows "docker.triple True d F (set_aside (traced orc) d current) (\<lambda>i G. i = [] \<or> may_restore d G i)"
proof (cases current)
  case None
  show ?thesis unfolding set_aside_def None option.case
    by (rule acts_inspect)
      (auto simp: may_restore_def intro!: docker.triple_conseq[OF docker.triple_return] intro: reported_mono)
next
  case (Some c)
  note c = assms[OF Some]
  show ?thesis
  proof (cases "managedContainer c")
    case True
    have "docker.triple True d G (op_bind (op_try (de_rename (traced orc) (ct_ID c) (previousContainerName d))) (\<lambda>renamed.
        case renamed of Inl _ \<Rightarrow> coded ''runtime_error'' | Inr _ \<Rightarrow> op_return (ct_ID c)))
        (\<lambda>i G. i = [] \<or> may_restore d G i)" if G: "F \<subseteq> G" for G
      unfolding traced_try
    proof (rule acts_call)
      show "docker_allowed True d G (DkRename (ct_ID c) (previousContainerName d) r)" for r
        using c True reported_mono[OF _ G] by (auto simp: may_step_aside_def)
      show "docker.triple True d H (case r of Inl _ \<Rightarrow> coded ''runtime_error'' | Inr _ \<Rightarrow> op_return (ct_ID c))
        (\<lambda>i G. i = [] \<or> may_restore d G i)" if "G \<subseteq> H" for r :: "engine_error + unit" and H
      proof -
        from G that have "F \<subseteq> H" by simp
        then have "may_restore d H (ct_ID c)" using c True reported_mono by (auto simp: may_restore_def)
        then show ?thesis
          by (cases r) (auto intro!: docker.triple_conseq[OF docker.triple_return] intro: may_mono)
      qed
    qed
    then show ?thesis unfolding set_aside_def Some option.case using True
      by (auto intro!: acts_then[OF removeManagedContainerStrict_acts])
  qed (simp add: set_aside_def Some)
qed

lemma switch_to_acts:
  assumes "reported F (candidateContainerName d) c" "ownsExecution c d" "candidate_ready c"
    and "i = [] \<or> may_restore d F i"
  shows "acts True d F (switch_to (traced orc) d c i)"
proof -
  have restore: "acts True d G (restorePrevious (traced orc) d i)" if "F \<subseteq> G" for G
    unfolding restorePrevious_def traced_try using assms(4) may_mono(2)[OF _ that]
    by (auto simp: may_go_live_def intro!: acts_call)
  show ?thesis unfolding switch_to_def traced_try
  proof (rule acts_call)
    show "docker_allowed True d F (DkRename (ct_ID c) (dc_ContainerName d) r)" for r
      using assms(1-3) by (auto simp: may_go_live_def)
    show "acts True d G (case r of Inr _ \<Rightarrow> op_return ()
       | Inl _ \<Rightarrow> op_bind (restorePrevious (traced orc) d i) (\<lambda>_.
           op_bind (removeOwnedContainer (traced orc) d (ct_ID c)) (\<lambda>_. coded ''runtime_error'')))"
      if "F \<subseteq> G" for r :: "engine_error + unit" and G
      by (cases r) (auto intro!: acts_then[OF restore[OF that]] acts_then[OF removeOwnedContainer_acts])
  qed
qed

lemma activate_candidate_acts:
  assumes "\<And>c. current = Some c \<Longrightarrow> reported F (dc_ContainerName d) c \<and> \<not> hasNewerFence c d \<and> \<not> ownsExecution c d"
  shows "acts True d F (activate_candidate (traced orc) d current)"
  unfolding activate_candidate_def
proof (rule acts_inspect)
  fix c G
  assume G: "F \<subseteq> G" and c: "reported G (candidateContainerName d) c"
  have "acts True d G (op_bind (set_aside (traced orc) d current) (switch_to (traced orc) d c))"
    if ready: "ownsExecution c d" "candidate_ready c"
  proof (rule docker.triple_bind[OF set_aside_acts])
    show "reported G (dc_ContainerName d) x \<and> \<not> hasNewerFence x d \<and> \<not> ownsExecution x d" if "current = Some x" for x
      using assms[OF that] reported_mono[OF _ G] by blast
    show "acts True d H (switch_to (traced orc) d c i)" if "G \<subseteq> H" "i = [] \<or> may_restore d H i" for i H
      by (rule switch_to_acts[OF reported_mono[OF c that(1)] ready that(2)])
  qed
  then show "acts True d G (case Inr c of
      Inl EngineNotFound \<Rightarrow> coded ''candidate_missing''
     | Inl EngineFailed \<Rightarrow> coded ''runtime_error''
     | Inr c \<Rightarrow>
         if hasNewerFence c d then coded ''stale_execution''
         else if \<not> ownsExecution c d then coded ''runtime_conflict''
         else if \<not> candidate_ready c then coded ''candidate_not_ready''
         else op_bind (set_aside (traced orc) d current) (switch_to (traced orc) d c))" by simp
qed simp_all

lemma activateDeployment_acts: "acts True d F (activateDeployment (traced orc) d)"
  unfolding activateDeployment_def
  by (rule acts_inspect)
    (auto intro!: acts_then[OF removeNamedOwnedCandidate_acts] activate_candidate_acts removeNamedOwnedCandidate_acts)

lemma retirePreviousDeployment_acts: "acts True d F (retirePreviousDeployment (traced orc) d)"
  unfolding retirePreviousDeployment_def
  by (rule acts_inspect) (auto simp: removeManagedContainerStrict_acts)

lemma inspect_optional_reports:
  "docker.triple True d F (inspect_optional (traced orc) k) (\<lambda>r G. \<forall>c. r = Some c \<longrightarrow> reported G k c)"
  unfolding inspect_optional_def
  by (rule acts_inspect) (auto intro!: docker.triple_conseq[OF docker.triple_return] intro: reported_mono)

lemma cancel_candidate_acts: "acts True d F (cancel_candidate (traced orc) d)"
  unfolding cancel_candidate_def
  by (rule acts_inspect) (auto intro: removeOwnedContainerStrict_acts)

lemma cancel_live_acts:
  assumes "\<And>c. current = Some c \<Longrightarrow> reported F (dc_ContainerName d) c"
  shows "acts True d F (cancel_live (traced orc) d current previous)"
  using assms by (cases current) (auto simp: cancel_live_def intro!: acts_then[OF removeOwnedContainerStrict_acts])

lemma cancel_previous_acts:
  assumes "\<And>c. previous = Some c \<Longrightarrow> reported F (previousContainerName d) c"
  shows "acts True d F (cancel_previous (traced orc) d missing previous)"
proof (cases previous)
  case (Some p)
  from assms[OF Some] have "docker_allowed True d F (DkRename (ct_ID p) (dc_ContainerName d) r)"
    if "restorable d previous" for r
    using that Some by (auto simp: may_go_live_def may_restore_def restorable_def)
  then show ?thesis using assms[OF Some] Some
    by (auto simp: cancel_previous_def traced_try intro!: acts_call removeOwnedContainerStrict_acts split: sum.split)
qed (simp add: cancel_previous_def)

lemma cancelDeployment_acts: "acts True d F (cancelDeployment (traced orc) d)"
  unfolding cancelDeployment_def
proof (rule acts_then[OF cancel_candidate_acts], rule docker.triple_bind[OF inspect_optional_reports],
    rule docker.triple_bind[OF inspect_optional_reports])
  fix G H I current previous
  assume "\<forall>c. current = Some c \<longrightarrow> reported H (dc_ContainerName d) c" "H \<subseteq> I"
    and p: "\<forall>c. previous = Some c \<longrightarrow> reported I (previousContainerName d) c"
  then have c: "reported I (dc_ContainerName d) c" if "current = Some c" for c using that reported_mono by blast
  show "acts True d I (op_bind (cancel_live (traced orc) d current previous)
      (\<lambda>missing. cancel_previous (traced orc) d missing previous))"
    by (rule acts_then[OF cancel_live_acts[OF c]], assumption, rule cancel_previous_acts)
      (use p reported_mono in blast)
qed

section \<open>The executor\<close>

lemma run_deployment_kind_acts: "run_deployment_kind (traced orc) kind d = Some m \<Longrightarrow> acts True d F m"
  by (auto simp: run_deployment_kind_def prepareDeployment_acts stageDeployment_acts activateDeployment_acts
      retirePreviousDeployment_acts cancelDeployment_acts split: AgentCommandKind.splits)

lemma report_outcome_acts: "acts b d F (report_outcome (traced orc) i r)"
  unfolding report_outcome_def
  by (cases r) (auto intro!: acts_then[OF acts_simple(3)] split: option.split)

lemma run_admitted_acts: "acts (\<not> stale) d F (run_admitted (traced orc) command d stale)"
proof -
  have "acts (\<not> stale) d G (case run_deployment_kind (traced orc) (cmd_Kind command) d of
           None \<Rightarrow> op_fail (AgentProtocolError ErrCommandInvalid)
         | Some handler \<Rightarrow> op_bind (op_try handler) (report_outcome (traced orc) (cmd_ID command)))"
    if "\<not> stale" for G
    using that by (auto simp: run_deployment_kind_acts intro!: acts_then[OF acts_try] report_outcome_acts split: option.split)
  then show ?thesis unfolding run_admitted_def
    by (intro acts_then[OF acts_simple(3)])
      (auto intro!: acts_then[OF acts_try] removeNamedOwnedCandidate_acts)
qed

text \<open>The gate lets a command act as current unless its watermark rejects it; a cancellation always acts.\<close>

definition current_command :: "FileCutoverStore \<Rightarrow> AgentCommandKind \<Rightarrow> DeploymentCommand \<Rightarrow> bool" where
  "current_command s kind d \<longleftrightarrow> kind = AgentCommandDeploymentCancel \<or>
     \<not> rejects (cs_entries s (dc_ContainerName d)) (dc_DeploymentID d) (dc_CutoverSequence d)"

lemma gate_decides:
  assumes "cutover_gate_step io kind d h = (Inr (Inr stale), k)"
  shows "stale = (\<not> current_command (host_cutovers h) kind d) \<and> host_docker k = host_docker h"
proof (cases "kind = AgentCommandDeploymentCancel")
  case True
  with assms show ?thesis
    by (auto simp: cutover_gate_step_def on_cutovers_def op_bind_def current_command_def split: prod.splits sum.splits)
next
  case False
  obtain r t where o: "cs_Observe io (dc_ContainerName d) (dc_DeploymentID d) (dc_CutoverSequence d) (host_cutovers h) = (r, t)"
    by fastforce
  from assms False o have r: "r = Inr stale" "host_docker k = host_docker h"
    by (auto simp: cutover_gate_step_def on_cutovers_def op_bind_def split: sum.splits if_splits)
  have "rejects (cs_entries (host_cutovers h) (dc_ContainerName d)) (dc_DeploymentID d) (dc_CutoverSequence d) = stale"
  proof (cases stale)
    case True
    with o r(1) show ?thesis using file_gate.observe_stale[of io "dc_ContainerName d"] by simp
  next
    case False
    then have "fst (cs_Observe io (dc_ContainerName d) (dc_DeploymentID d) (dc_CutoverSequence d) (host_cutovers h)) = Inr False"
      using o r(1) by simp
    then show ?thesis using file_gate.observe_rejected False by blast
  qed
  with r(2) False show ?thesis by (simp add: current_command_def)
qed

lemma executeDeployment_safe:
  assumes "executeDeployment (traced orc) io command h = (r, k)" "cmd_Deployment command = Some d" "host_docker h = []"
  shows "docker.safe (current_command (host_cutovers h) (cmd_Kind command) d) d (host_docker k)"
proof -
  obtain q j where q: "(cutover_gate_step io (cmd_Kind command) d :: (docker_trace host, agent_error, string + bool) op) h = (q, j)"
    by fastforce
  have docker_same: "host_docker j = []" "\<exists>x. q = Inr x" using q assms(3)
    by (auto simp: cutover_gate_step_def on_cutovers_def op_bind_def split: prod.splits if_splits)
  then obtain x where x: "q = Inr x" by blast
  show ?thesis
  proof (cases x)
    case (Inl code)
    with assms(1,2) q x docker_same show ?thesis by (auto simp: executeDeployment_def op_bind_def)
  next
    case (Inr stale)
    note gate = gate_decides[OF q[unfolded x Inr]]
    obtain z t where z: "(run_admitted (traced orc) command d stale ::
        (docker_trace, agent_error, ('a, 'b) AgentCommandResult) op) [] = (z, t)" by fastforce
    have "host_docker k = t" using assms(1,2) q x Inr z docker_same(1)
      by (auto simp: executeDeployment_def op_bind_def on_docker_def)
    moreover have "docker.safe (\<not> stale) d t"
      using docker.tripleD(1)[OF run_admitted_acts _ _ z] by simp
    ultimately show ?thesis using gate by simp
  qed
qed

end
