(* ===== verification/DockerDaemon.thy ===== *)
theory DockerDaemon
  imports DockerDeployment
begin

text \<open>
  The deployment executor on a Docker daemon that does what its interface documents: names and IDs are
  unique, a key finds a container by ID or else by name, a call that succeeds has happened, and one that reports
  an error has happened or not. The view of a daemon is its containers by name; what the handlers do to it is
  stated apart from their code.
\<close>

section \<open>Daemons\<close>

type_synonym daemon = "string \<rightharpoonup> string \<times> (string \<rightharpoonup> string) option"

definition found :: "daemon \<Rightarrow> string \<Rightarrow> string \<Rightarrow> bool" where
  "found m k n \<longleftrightarrow> (\<exists>l. m n = Some (k, l)) \<or> (n = k \<and> m k \<noteq> None \<and> (\<forall>a l. m a \<noteq> Some (k, l)))"

definition unique_ids :: "daemon \<Rightarrow> bool" where
  "unique_ids m \<longleftrightarrow> (\<forall>a b i l l'. m a = Some (i, l) \<longrightarrow> m b = Some (i, l') \<longrightarrow> a = b)"

definition inspects :: "'s docker_engine \<Rightarrow> ('s \<Rightarrow> daemon) \<Rightarrow> bool" where
  "inspects eng dk \<longleftrightarrow> (\<forall>k s r t. de_inspect eng k s = (r, t) \<longrightarrow> dk t = dk s \<and>
     (\<forall>c. r = Inr c \<longrightarrow> (\<exists>n. found (dk s) k n \<and> dk s n = Some (ct_ID c, ct_Labels c))) \<and>
     (r = Inl EngineNotFound \<longrightarrow> (\<forall>n. \<not> found (dk s) k n)))"

text \<open>A call that reports an error may have happened all the same.\<close>

definition renames :: "'s docker_engine \<Rightarrow> ('s \<Rightarrow> daemon) \<Rightarrow> bool" where
  "renames eng dk \<longleftrightarrow> (\<forall>k n s r t. de_rename eng k n s = (r, t) \<longrightarrow>
     (\<exists>old. found (dk s) k old \<and> dk s n = None \<and> dk t = (dk s)(old := None, n := dk s old)) \<or>
     (r \<noteq> Inr () \<and> dk t = dk s))"

definition removes :: "'s docker_engine \<Rightarrow> ('s \<Rightarrow> daemon) \<Rightarrow> bool" where
  "removes eng dk \<longleftrightarrow> (\<forall>k s r t. de_remove eng k s = (r, t) \<longrightarrow>
     (\<exists>old. found (dk s) k old \<and> dk t = (dk s)(old := None)) \<or>
     (r \<noteq> Inr () \<and> dk t = dk s \<and> (r = Inl EngineNotFound \<longrightarrow> (\<forall>n. \<not> found (dk s) k n))))"

definition creates :: "'s docker_engine \<Rightarrow> ('s \<Rightarrow> daemon) \<Rightarrow> bool" where
  "creates eng dk \<longleftrightarrow> (\<forall>c s r t. de_create eng c s = (r, t) \<longrightarrow>
     (\<exists>i. (\<forall>k. r = Inr k \<longrightarrow> k = i) \<and> dk s (co_Name c) = None \<and> (\<forall>n l. dk s n \<noteq> Some (i, l)) \<and>
        dk t = (dk s)(co_Name c \<mapsto> (i, Some (co_Labels c)))) \<or>
     (is_err r \<and> dk t = dk s))"

definition starts :: "'s docker_engine \<Rightarrow> ('s \<Rightarrow> daemon) \<Rightarrow> bool" where
  "starts eng dk \<longleftrightarrow> (\<forall>k s r t. de_start eng k s = (r, t) \<longrightarrow> dk t = dk s) \<and>
     (\<forall>k s r t. de_network eng k s = (r, t) \<longrightarrow> dk t = dk s)"

definition docker_daemon :: "'s docker_engine \<Rightarrow> ('s \<Rightarrow> daemon) \<Rightarrow> bool" where
  "docker_daemon eng dk \<longleftrightarrow>
     inspects eng dk \<and> renames eng dk \<and> removes eng dk \<and> creates eng dk \<and> starts eng dk"

section \<open>The slots of an execution\<close>

definition slots :: "DeploymentCommand \<Rightarrow> string set" where
  "slots d = {dc_ContainerName d, candidateContainerName d, previousContainerName d}"

text \<open>IDs are unique, and none is the name of a slot (an ID is 64 hexadecimal digits).\<close>

definition slots_ok :: "DeploymentCommand \<Rightarrow> daemon \<Rightarrow> bool" where
  "slots_ok d m \<longleftrightarrow> unique_ids m \<and> (\<forall>n i l. m n = Some (i, l) \<longrightarrow> i \<notin> slots d)"

definition as_container :: "string \<times> (string \<rightharpoonup> string) option \<Rightarrow> inspected" where
  "as_container x = \<lparr>ct_ID = fst x, ct_Labels = snd x, ct_State = None\<rparr>"

definition slot_holds :: "daemon \<Rightarrow> string \<Rightarrow> (inspected \<Rightarrow> bool) \<Rightarrow> bool" where
  "slot_holds m n P \<longleftrightarrow> (case m n of None \<Rightarrow> False | Some x \<Rightarrow> P (as_container x))"

abbreviation slot_owned :: "DeploymentCommand \<Rightarrow> daemon \<Rightarrow> string \<Rightarrow> bool" where
  "slot_owned d m n \<equiv> slot_holds m n (\<lambda>c. ownsExecution c d)"

abbreviation slot_restorable :: "DeploymentCommand \<Rightarrow> daemon \<Rightarrow> string \<Rightarrow> bool" where
  "slot_restorable d m n \<equiv> slot_holds m n (\<lambda>c. restorable d (Some c))"

lemma slots_distinct [simp]:
  "candidateContainerName d \<noteq> dc_ContainerName d" "previousContainerName d \<noteq> dc_ContainerName d"
  "candidateContainerName d \<noteq> previousContainerName d"
  "dc_ContainerName d \<noteq> candidateContainerName d" "dc_ContainerName d \<noteq> previousContainerName d"
  "previousContainerName d \<noteq> candidateContainerName d"
  by (simp_all add: candidateContainerName_def previousContainerName_def)

lemma container_of_labels:
  "ownsExecution (as_container (ct_ID c, ct_Labels c)) d = ownsExecution c d"
  "hasNewerFence (as_container (ct_ID c, ct_Labels c)) d = hasNewerFence c d"
  "managedContainer (as_container (ct_ID c, ct_Labels c)) = managedContainer c"
  "restorable d (Some (as_container (ct_ID c, ct_Labels c))) = restorable d (Some c)"
  by (simp_all add: as_container_def ownsExecution_def hasNewerFence_def managedContainer_def fencingToken_def
      cutoverSequence_def restorable_def)

lemma slots_ok_update:
  "slots_ok d m \<Longrightarrow> slots_ok d (m(n := None))"
  "slots_ok d m \<Longrightarrow> slots_ok d (m(old := None, n := m old))"
  by (auto simp: slots_ok_def unique_ids_def split: if_splits)

lemma found_slot: "slots_ok d m \<Longrightarrow> k \<in> slots d \<Longrightarrow> found m k n \<longleftrightarrow> n = k \<and> m k \<noteq> None"
  unfolding found_def slots_ok_def by (metis option.exhaust surj_pair)

lemma found_id: "slots_ok d m \<Longrightarrow> m a = Some (i, l) \<Longrightarrow> found m i n \<longleftrightarrow> n = a"
  unfolding found_def slots_ok_def unique_ids_def by blast

section \<open>Steps on a daemon\<close>

lemma inspect_key:
  assumes "docker_daemon eng dk" "inspectContainer eng k s = (q, t)"
  obtains r where "q = Inr r" "dk t = dk s"
    "\<And>c. r = Inr c \<Longrightarrow> \<exists>n. found (dk s) k n \<and> dk s n = Some (ct_ID c, ct_Labels c)"
    "r = Inl EngineNotFound \<Longrightarrow> \<forall>n. \<not> found (dk s) k n"
proof -
  from assms(2) obtain r where r: "q = Inr r" "de_inspect eng k s = (r, t)" by (auto simp: inspectContainer_def)
  with assms(1) show ?thesis by (intro that[of r]) (auto simp: docker_daemon_def inspects_def)
qed

lemma inspect_slot:
  assumes "docker_daemon eng dk" "slots_ok d (dk s)" "k \<in> slots d" "inspectContainer eng k s = (q, t)"
  obtains r where "q = Inr r" "dk t = dk s" "\<And>c. r = Inr c \<Longrightarrow> dk s k = Some (ct_ID c, ct_Labels c)"
    "r = Inl EngineNotFound \<Longrightarrow> dk s k = None"
proof -
  obtain r where r: "q = Inr r" "dk t = dk s"
    "\<And>c. r = Inr c \<Longrightarrow> \<exists>n. found (dk s) k n \<and> dk s n = Some (ct_ID c, ct_Labels c)"
    "r = Inl EngineNotFound \<Longrightarrow> \<forall>n. \<not> found (dk s) k n"
    by (rule inspect_key[OF assms(1,4)]) blast
  note slot = found_slot[OF assms(2,3)]
  show ?thesis
  proof (rule that[OF r(1,2)])
    show "dk s k = Some (ct_ID c, ct_Labels c)" if "r = Inr c" for c using r(3)[OF that] unfolding slot by blast
    show "dk s k = None" if "r = Inl EngineNotFound" using r(4)[OF that] unfolding slot by blast
  qed
qed

lemma rename_id:
  assumes "docker_daemon eng dk" "slots_ok d (dk s)" "dk s a = Some (i, l)" "de_rename eng i n s = (r, t)"
  shows "dk s n = None \<and> dk t = (dk s)(a := None, n \<mapsto> (i, l)) \<or> r \<noteq> Inr () \<and> dk t = dk s"
proof -
  from assms(1,4) have "(\<exists>old. found (dk s) i old \<and> dk s n = None \<and> dk t = (dk s)(old := None, n := dk s old)) \<or>
      r \<noteq> Inr () \<and> dk t = dk s"
    unfolding docker_daemon_def renames_def by blast
  then show ?thesis unfolding found_id[OF assms(2,3)] using assms(3) by auto
qed

lemma remove_id:
  assumes "docker_daemon eng dk" "slots_ok d (dk s)" "dk s a = Some (i, l)" "de_remove eng i s = (r, t)"
  shows "dk t = (dk s)(a := None) \<or> r = Inl EngineFailed \<and> dk t = dk s"
proof -
  from assms(1,4) have "(\<exists>old. found (dk s) i old \<and> dk t = (dk s)(old := None)) \<or>
     (r \<noteq> Inr () \<and> dk t = dk s \<and> (r = Inl EngineNotFound \<longrightarrow> (\<forall>n. \<not> found (dk s) i n)))"
    unfolding docker_daemon_def removes_def by blast
  then show ?thesis using found_id[OF assms(2,3)]
    by (cases r rule: sum.exhaust; cases "projl r"; auto)
qed

lemma remove_strict_effect:
  assumes "docker_daemon eng dk" "slots_ok d (dk s)" "dk s a = Some (i, l)" "remove_strict eng i s = (r, t)"
  shows "dk t = (dk s)(a := None) \<or> is_err r \<and> dk t = dk s"
proof -
  obtain x u where x: "de_remove eng i s = (x, u)" by fastforce
  from remove_id[OF assms(1-3) x] assms(4) x show ?thesis
    by (auto simp: remove_strict_def op_bind_def op_try_def coded_def op_fail_def op_return_def split: if_splits)
qed

text \<open>The three answers of an inspection of a slot.\<close>

lemma inspect_bind_slot:
  assumes "docker_daemon eng dk" "slots_ok d (dk s)" "k \<in> slots d" "op_bind (inspectContainer eng k) f s = (r, t)"
  obtains (container) c u where "dk u = dk s" "dk s k = Some (ct_ID c, ct_Labels c)" "f (Inr c) u = (r, t)"
    | (missing) u where "dk u = dk s" "dk s k = None" "f (Inl EngineNotFound) u = (r, t)"
    | (failed) u where "dk u = dk s" "f (Inl EngineFailed) u = (r, t)"
proof -
  obtain q u where q: "inspectContainer eng k s = (q, u)" by fastforce
  obtain x where x: "q = Inr x" "dk u = dk s" "\<And>c. x = Inr c \<Longrightarrow> dk s k = Some (ct_ID c, ct_Labels c)"
    "x = Inl EngineNotFound \<Longrightarrow> dk s k = None"
    by (rule inspect_slot[OF assms(1-3) q]) blast
  have f: "f x u = (r, t)" using assms(4) q x(1) by (simp add: op_bind_def)
  show ?thesis
  proof (cases x)
    case (Inl e)
    then show ?thesis using missing failed x f by (cases e) auto
  qed (use container x f in auto)
qed

lemma in_slots [simp]:
  "dc_ContainerName d \<in> slots d" "candidateContainerName d \<in> slots d" "previousContainerName d \<in> slots d"
  by (simp_all add: slots_def)

lemma removeOwnedContainer_effect:
  assumes "docker_daemon eng dk" "slots_ok d (dk s)" "dk s a = Some (i, l)" "removeOwnedContainer eng d i s = (r, t)"
  shows "r = Inr () \<and> (dk t = dk s \<or> dk t = (dk s)(a := None))"
proof -
  obtain q u where q: "inspectContainer eng i s = (q, u)" by fastforce
  obtain x where x: "q = Inr x" "dk u = dk s" by (rule inspect_key[OF assms(1) q]) blast
  have run: "(case x of Inl _ \<Rightarrow> op_return () | Inr c \<Rightarrow>
         if \<not> ownsExecution c d then op_return ()
         else op_bind (op_try (de_remove eng i)) (\<lambda>_. op_return ())) u = (r, t)"
    using assms(4) q x(1) by (simp add: removeOwnedContainer_def op_bind_def)
  show ?thesis
  proof (cases "\<exists>c. x = Inr c \<and> ownsExecution c d")
    case False
    with run have "r = Inr () \<and> t = u" by (cases x) auto
    with x(2) show ?thesis by simp
  next
    case True
    obtain y v where y: "de_remove eng i u = (y, v)" by fastforce
    from True run y have "r = Inr () \<and> t = v" by (auto simp: op_bind_def op_try_def)
    with remove_id[OF assms(1) _ _ y, of d a l] assms(2,3) x(2) show ?thesis by auto
  qed
qed

lemma removeNamedOwnedCandidate_effect:
  assumes "docker_daemon eng dk" "slots_ok d (dk s)" "removeNamedOwnedCandidate eng d s = (r, t)"
  shows "r = Inr () \<and> (dk t = dk s \<or> dk t = (dk s)(candidateContainerName d := None))"
  using assms(3) unfolding removeNamedOwnedCandidate_def
proof (rule inspect_bind_slot[OF assms(1,2) in_slots(2)])
  fix c u
  assume u: "dk u = dk s" "dk s (candidateContainerName d) = Some (ct_ID c, ct_Labels c)"
    and run: "(case Inr c of Inl _ \<Rightarrow> op_return ()
     | Inr c \<Rightarrow> if ownsExecution c d then removeOwnedContainer eng d (ct_ID c) else op_return ()) u = (r, t)"
  show ?thesis
  proof (cases "ownsExecution c d")
    case True
    with run have "removeOwnedContainer eng d (ct_ID c) u = (r, t)" by simp
    from removeOwnedContainer_effect[OF assms(1) _ _ this, of "candidateContainerName d" "ct_Labels c"]
    show ?thesis using u assms(2) by simp
  qed (use run u in auto)
qed auto

lemma removeManagedContainerStrict_effect:
  assumes "docker_daemon eng dk" "slots_ok d (dk s)" "k \<in> slots d" "removeManagedContainerStrict eng k s = (r, t)"
  shows "dk t = (dk s)(k := None) \<or> is_err r \<and> dk t = dk s"
  using assms(4) unfolding removeManagedContainerStrict_def
proof (rule inspect_bind_slot[OF assms(1-3)])
  fix c u
  assume u: "dk u = dk s" "dk s k = Some (ct_ID c, ct_Labels c)"
    and run: "(case Inr c of
       Inl EngineNotFound \<Rightarrow> op_return ()
     | Inl EngineFailed \<Rightarrow> coded ''runtime_error''
     | Inr c \<Rightarrow> if \<not> managedContainer c then coded ''runtime_conflict'' else remove_strict eng (ct_ID c)) u = (r, t)"
  show ?thesis
  proof (cases "managedContainer c")
    case True
    with run have "remove_strict eng (ct_ID c) u = (r, t)" by simp
    from remove_strict_effect[OF assms(1) _ _ this, of d k "ct_Labels c"] u assms(2) show ?thesis by simp
  qed (use run u in \<open>auto simp: coded_def\<close>)
next
  fix u
  assume "dk u = dk s" "dk s k = None" "(case Inl EngineNotFound of
       Inl EngineNotFound \<Rightarrow> op_return ()
     | Inl EngineFailed \<Rightarrow> coded ''runtime_error''
     | Inr c \<Rightarrow> if \<not> managedContainer c then coded ''runtime_conflict'' else remove_strict eng (ct_ID c)) u = (r, t)"
  then show ?thesis by (auto simp: fun_upd_idem)
qed (auto simp: coded_def)

section \<open>Activation\<close>

lemma set_aside_live:
  assumes "docker_daemon eng dk" "slots_ok d (dk s)" "dk s (dc_ContainerName d) = Some (ct_ID c, ct_Labels c)"
    and "set_aside eng d (Some c) s = (r, t)"
  shows "(\<exists>e. r = Inl e) \<and> (dk t = dk s \<or> dk t = (dk s)(previousContainerName d := None)) \<or>
     (r = Inr (ct_ID c) \<or> (\<exists>e. r = Inl e)) \<and>
       dk t = (dk s)(dc_ContainerName d := None, previousContainerName d \<mapsto> (ct_ID c, ct_Labels c))"
proof (cases "managedContainer c")
  case False
  with assms(4) show ?thesis by (auto simp: set_aside_def coded_def)
next
  case True
  obtain q u where q: "removeManagedContainerStrict eng (previousContainerName d) s = (q, u)" by fastforce
  from removeManagedContainerStrict_effect[OF assms(1,2) in_slots(3) q]
  have u: "dk u = (dk s)(previousContainerName d := None) \<or> is_err q \<and> dk u = dk s" .
  show ?thesis
  proof (cases q)
    case (Inl e)
    with assms(4) True q have "r = Inl e \<and> t = u" by (simp add: set_aside_def op_bind_def)
    with u show ?thesis by auto
  next
    case (Inr x)
    obtain y v where y: "de_rename eng (ct_ID c) (previousContainerName d) u = (y, v)" by fastforce
    from u Inr have u': "dk u = (dk s)(previousContainerName d := None)" by simp
    then have ok: "slots_ok d (dk u)" "dk u (dc_ContainerName d) = Some (ct_ID c, ct_Labels c)"
      using assms(2,3) slots_ok_update(1) by auto
    from assms(4) True q Inr y have "(y = Inr () \<and> r = Inr (ct_ID c) \<or> (\<exists>e. r = Inl e) \<and> is_err y) \<and> t = v"
      by (cases y) (auto simp: set_aside_def op_bind_def op_try_def coded_def)
    with rename_id[OF assms(1) ok y] u' show ?thesis by (cases y) (auto simp: fun_upd_twist)
  qed
qed

lemma set_aside_none:
  assumes "docker_daemon eng dk" "slots_ok d (dk s)" "set_aside eng d None s = (r, t)"
  shows "dk t = dk s \<and> (\<forall>i. r = Inr i \<longrightarrow> i = [] \<or> (\<exists>l. dk s (previousContainerName d) = Some (i, l)))"
  using assms(3) unfolding set_aside_def option.case
  by (rule inspect_bind_slot[OF assms(1,2) in_slots(3)]) (auto simp: coded_def split: if_splits)

text \<open>
  What is left where the switch fails: the container set aside is back under the live name or still kept, and
  the candidate is still there or gone.
\<close>

definition switch_failed :: "DeploymentCommand \<Rightarrow> daemon \<Rightarrow> daemon \<Rightarrow> bool" where
  "switch_failed d m w \<longleftrightarrow> w (previousContainerName d) = m (previousContainerName d) \<or>
     w (dc_ContainerName d) = m (previousContainerName d)"

lemma restorePrevious_effect:
  assumes "docker_daemon eng dk" "slots_ok d (dk s)" "i = [] \<or> (\<exists>l. dk s (previousContainerName d) = Some (i, l))"
    and "restorePrevious eng d i s = (r, t)"
  shows "r = Inr () \<and> (dk t = dk s \<or> dk s (dc_ContainerName d) = None \<and>
     dk t = (dk s)(previousContainerName d := None, dc_ContainerName d := dk s (previousContainerName d)))"
proof (cases "i = []")
  case False
  with assms(3) obtain l where l: "dk s (previousContainerName d) = Some (i, l)" by blast
  obtain y v where y: "de_rename eng i (dc_ContainerName d) s = (y, v)" by fastforce
  from assms(4) False y have "r = Inr () \<and> t = v" by (auto simp: restorePrevious_def op_bind_def op_try_def)
  with rename_id[OF assms(1,2) l y] l show ?thesis by auto
qed (use assms(4) in \<open>auto simp: restorePrevious_def\<close>)

lemma switch_to_effect:
  assumes "docker_daemon eng dk" "slots_ok d (dk s)" "dk s (candidateContainerName d) = Some (ct_ID c, ct_Labels c)"
    and "i = [] \<or> (\<exists>l. dk s (previousContainerName d) = Some (i, l))" "switch_to eng d c i s = (r, t)"
  shows "r = Inr () \<and> dk s (dc_ContainerName d) = None \<and>
       dk t = (dk s)(candidateContainerName d := None, dc_ContainerName d \<mapsto> (ct_ID c, ct_Labels c)) \<or>
     (\<exists>e. r = Inl e) \<and> switch_failed d (dk s) (dk t)"
proof -
  obtain y u where y: "de_rename eng (ct_ID c) (dc_ContainerName d) s = (y, u)" by fastforce
  note renamed = rename_id[OF assms(1-3) y]
  show ?thesis
  proof (cases y)
    case (Inr x)
    with assms(5) y have "r = Inr () \<and> t = u" by (auto simp: switch_to_def op_bind_def op_try_def)
    with renamed Inr show ?thesis by simp
  next
    case (Inl e)
    define a where "a = (if dk u = dk s then candidateContainerName d else dc_ContainerName d)"
    from renamed have u: "slots_ok d (dk u)" "dk u a = Some (ct_ID c, ct_Labels c)"
      "dk u (previousContainerName d) = dk s (previousContainerName d)" "a \<noteq> previousContainerName d"
      "dk u \<noteq> dk s \<Longrightarrow> dk u (dc_ContainerName d) \<noteq> None"
      using assms(2,3) slots_ok_update(2)[OF assms(2), of "candidateContainerName d" "dc_ContainerName d"]
      by (auto simp: a_def)
    obtain q v where q: "restorePrevious eng d i u = (q, v)" by fastforce
    have "i = [] \<or> (\<exists>l. dk u (previousContainerName d) = Some (i, l))" using assms(4) u(3) by simp
    note v = restorePrevious_effect[OF assms(1) u(1) this q]
    then have v_ok: "slots_ok d (dk v)" "dk v a = Some (ct_ID c, ct_Labels c)"
      and kept: "dk v (previousContainerName d) = dk s (previousContainerName d) \<or>
        a \<noteq> dc_ContainerName d \<and> dk v (dc_ContainerName d) = dk s (previousContainerName d)"
      using u slots_ok_update(2) by (auto simp: a_def split: if_splits)
    obtain z w where z: "removeOwnedContainer eng d (ct_ID c) v = (z, w)" by fastforce
    note w = removeOwnedContainer_effect[OF assms(1) v_ok z]
    from assms(5) y Inl q v z w have "(\<exists>e. r = Inl e) \<and> t = w"
      by (auto simp: switch_to_def op_bind_def op_try_def coded_def)
    moreover have "switch_failed d (dk s) (dk w)" unfolding switch_failed_def using w kept u(4) by auto
    ultimately show ?thesis by simp
  qed
qed

text \<open>What the live container of an execution becomes, and that a failure does not lose the one before it.\<close>

definition activation_outcome :: "DeploymentCommand \<Rightarrow> daemon \<Rightarrow> deploy_error + unit \<Rightarrow> daemon \<Rightarrow> bool" where
  "activation_outcome d m r w \<longleftrightarrow>
     (case r of
        Inr _ \<Rightarrow>
          if slot_owned d m (dc_ContainerName d) then w = m \<or> w = m(candidateContainerName d := None)
          else slot_owned d m (candidateContainerName d) \<and>
            w = m(candidateContainerName d := None,
              previousContainerName d := (if m (dc_ContainerName d) = None then m (previousContainerName d)
                else m (dc_ContainerName d)),
              dc_ContainerName d := m (candidateContainerName d))
      | Inl _ \<Rightarrow> \<forall>x. m (dc_ContainerName d) = Some x \<longrightarrow>
          w (dc_ContainerName d) = Some x \<or> w (previousContainerName d) = Some x)"

lemma slot_owned_iff [simp]:
  "m n = Some (ct_ID c, ct_Labels c) \<Longrightarrow> slot_owned d m n \<longleftrightarrow> ownsExecution c d"
  "m n = Some (ct_ID c, ct_Labels c) \<Longrightarrow> slot_restorable d m n \<longleftrightarrow> restorable d (Some c)"
  "m n = None \<Longrightarrow> \<not> slot_holds m n P"
  by (simp_all add: slot_holds_def container_of_labels)

lemma activate_candidate_outcome:
  assumes "docker_daemon eng dk" "slots_ok d (dk s)" "activate_candidate eng d current s = (r, t)"
    and "case current of None \<Rightarrow> dk s (dc_ContainerName d) = None
      | Some c \<Rightarrow> dk s (dc_ContainerName d) = Some (ct_ID c, ct_Labels c) \<and> \<not> ownsExecution c d"
  shows "activation_outcome d (dk s) r (dk t)"
  using assms(3) unfolding activate_candidate_def
proof (rule inspect_bind_slot[OF assms(1,2) in_slots(2)])
  fix c u
  assume u: "dk u = dk s" "dk s (candidateContainerName d) = Some (ct_ID c, ct_Labels c)"
    and run: "(case Inr c of
       Inl EngineNotFound \<Rightarrow> coded ''candidate_missing''
     | Inl EngineFailed \<Rightarrow> coded ''runtime_error''
     | Inr c \<Rightarrow>
         if hasNewerFence c d then coded ''stale_execution''
         else if \<not> ownsExecution c d then coded ''runtime_conflict''
         else if \<not> candidate_ready c then coded ''candidate_not_ready''
         else op_bind (set_aside eng d current) (switch_to eng d c)) u = (r, t)"
  show ?thesis
  proof (cases "ownsExecution c d \<and> candidate_ready c")
    case False
    with run u show ?thesis by (auto simp: coded_def activation_outcome_def split: if_splits)
  next
    case True
    with run owned_not_newer have run': "op_bind (set_aside eng d current) (switch_to eng d c) u = (r, t)" by simp
    obtain q v where q: "set_aside eng d current u = (q, v)" by fastforce
    show ?thesis
    proof (cases current)
      case None
      with assms(4) have live: "dk s (dc_ContainerName d) = None" by simp
      note aside = set_aside_none[OF assms(1) _ q[unfolded None], unfolded u(1), OF assms(2)]
      show ?thesis
      proof (cases q)
        case (Inr i)
        with run' q have switch: "switch_to eng d c i v = (r, t)" by (simp add: op_bind_def)
        from switch_to_effect[OF assms(1) _ _ _ switch] aside Inr assms(2) u(2)
        have "r = Inr () \<and>
            dk t = (dk s)(candidateContainerName d := None, dc_ContainerName d \<mapsto> (ct_ID c, ct_Labels c)) \<or> is_err r"
          by auto
        with live u(2) True show ?thesis by (cases r) (auto simp: activation_outcome_def fun_upd_idem fun_upd_twist)
      qed (use run' q live in \<open>auto simp: op_bind_def activation_outcome_def\<close>)
    next
      case (Some x)
      with assms(4) have live: "dk s (dc_ContainerName d) = Some (ct_ID x, ct_Labels x)" "\<not> ownsExecution x d" by simp_all
      note aside = set_aside_live[OF assms(1) _ _ q[unfolded Some], unfolded u(1), OF assms(2) live(1)]
      show ?thesis
      proof (cases q)
        case (Inl e)
        with run' q have "r = Inl e \<and> t = v" by (simp add: op_bind_def)
        with aside Inl live show ?thesis by (auto simp: activation_outcome_def)
      next
        case (Inr i)
        with aside have v: "i = ct_ID x"
          "dk v = (dk s)(dc_ContainerName d := None, previousContainerName d \<mapsto> (ct_ID x, ct_Labels x))" by auto
        from run' q Inr have switch: "switch_to eng d c i v = (r, t)" by (simp add: op_bind_def)
        have ok: "slots_ok d (dk v)" using slots_ok_update(2)[OF assms(2), of "dc_ContainerName d" "previousContainerName d"]
          live(1) v(2) by simp
        have "dk v (candidateContainerName d) = Some (ct_ID c, ct_Labels c)"
          "\<exists>l. dk v (previousContainerName d) = Some (i, l)" using u(2) v by simp_all
        then consider "r = Inr ()" "dk t = (dk v)(candidateContainerName d := None,
            dc_ContainerName d \<mapsto> (ct_ID c, ct_Labels c))"
          | e where "r = Inl e" "switch_failed d (dk v) (dk t)"
          using switch_to_effect[OF assms(1) ok _ _ switch] by blast
        then show ?thesis
        proof cases
          case 1
          with live u(2) v(2) True show ?thesis by (simp add: activation_outcome_def fun_upd_twist)
        next
          case 2
          with live(1) v(2) show ?thesis by (auto simp: activation_outcome_def switch_failed_def)
        qed
      qed
    qed
  qed
qed (use assms(4) in \<open>auto simp: coded_def activation_outcome_def\<close>)

lemma activate_outcome:
  assumes "docker_daemon eng dk" "slots_ok d (dk s)" "activateDeployment eng d s = (r, t)"
  shows "activation_outcome d (dk s) r (dk t)"
  using assms(3) unfolding activateDeployment_def
proof (rule inspect_bind_slot[OF assms(1,2) in_slots(1)])
  fix c u
  assume u: "dk u = dk s" "dk s (dc_ContainerName d) = Some (ct_ID c, ct_Labels c)"
    and run: "(case Inr c of
       Inr c \<Rightarrow>
         if hasNewerFence c d then op_bind (removeNamedOwnedCandidate eng d) (\<lambda>_. coded ''stale_execution'')
         else if ownsExecution c d then removeNamedOwnedCandidate eng d
         else activate_candidate eng d (Some c)
     | Inl EngineFailed \<Rightarrow> coded ''runtime_error''
     | Inl EngineNotFound \<Rightarrow> activate_candidate eng d None) u = (r, t)"
  obtain q v where q: "removeNamedOwnedCandidate eng d u = (q, v)" by fastforce
  note v = removeNamedOwnedCandidate_effect[OF assms(1) _ q, unfolded u(1), OF assms(2)]
  consider (newer) "hasNewerFence c d" | (own) "\<not> hasNewerFence c d" "ownsExecution c d"
    | (other) "\<not> hasNewerFence c d" "\<not> ownsExecution c d" by blast
  then show ?thesis
  proof cases
    case newer
    with run q v have "\<exists>e. r = Inl e \<and> t = v" by (auto simp: op_bind_def coded_def)
    with v u(2) show ?thesis by (auto simp: activation_outcome_def)
  next
    case own
    with run q v have "r = Inr () \<and> t = v" by auto
    with v u(2) own show ?thesis by (auto simp: activation_outcome_def)
  next
    case other
    with run have "activate_candidate eng d (Some c) u = (r, t)" by simp
    from activate_candidate_outcome[OF assms(1) _ this] u other assms(2) show ?thesis by simp
  qed
next
  fix u
  assume u: "dk u = dk s" "dk s (dc_ContainerName d) = None"
    and run: "(case Inl EngineNotFound of
       Inr c \<Rightarrow>
         if hasNewerFence c d then op_bind (removeNamedOwnedCandidate eng d) (\<lambda>_. coded ''stale_execution'')
         else if ownsExecution c d then removeNamedOwnedCandidate eng d
         else activate_candidate eng d (Some c)
     | Inl EngineFailed \<Rightarrow> coded ''runtime_error''
     | Inl EngineNotFound \<Rightarrow> activate_candidate eng d None) u = (r, t)"
  then have "activate_candidate eng d None u = (r, t)" by simp
  from activate_candidate_outcome[OF assms(1) _ this] u assms(2) show ?thesis by simp
qed (auto simp: coded_def activation_outcome_def)

section \<open>Cancellation\<close>

text \<open>What a cancellation leaves, slot by slot.\<close>

definition without_own :: "DeploymentCommand \<Rightarrow> string \<Rightarrow> daemon \<Rightarrow> daemon" where
  "without_own d n m = (if slot_owned d m n then m(n := None) else m)"

definition cancel_result :: "DeploymentCommand \<Rightarrow> daemon \<Rightarrow> daemon" where
  "cancel_result d m =
     (let w = without_own d (dc_ContainerName d) (without_own d (candidateContainerName d) m) in
      if w (dc_ContainerName d) = None \<and> slot_restorable d w (previousContainerName d)
      then w(previousContainerName d := None, dc_ContainerName d := w (previousContainerName d))
      else without_own d (previousContainerName d) w)"

lemma slots_ok_without_own: "slots_ok d m \<Longrightarrow> slots_ok d (without_own d n m)"
  by (simp add: without_own_def slots_ok_update)

lemma removeOwnedContainerStrict_effect:
  assumes "docker_daemon eng dk" "slots_ok d (dk s)" "dk s n = Some (ct_ID c, ct_Labels c)"
    and "removeOwnedContainerStrict eng d c s = (Inr (), t)"
  shows "dk t = (dk s)(n := None) \<and> ownsExecution c d"
  using assms(4) remove_strict_effect[OF assms(1-3)]
  by (auto simp: removeOwnedContainerStrict_def coded_def split: if_splits)

lemma cancel_candidate_effect:
  assumes "docker_daemon eng dk" "slots_ok d (dk s)" "cancel_candidate eng d s = (Inr (), t)"
  shows "dk t = without_own d (candidateContainerName d) (dk s)"
  using assms(3) unfolding cancel_candidate_def
proof (rule inspect_bind_slot[OF assms(1,2) in_slots(2)])
  fix c u
  assume u: "dk u = dk s" "dk s (candidateContainerName d) = Some (ct_ID c, ct_Labels c)"
    and run: "(case Inr c of
       Inr c \<Rightarrow> if ownsExecution c d then removeOwnedContainerStrict eng d c else op_return ()
     | Inl EngineNotFound \<Rightarrow> op_return ()
     | Inl EngineFailed \<Rightarrow> coded ''runtime_error'') u = (Inr (), t)"
  show ?thesis
  proof (cases "ownsExecution c d")
    case True
    with run have "removeOwnedContainerStrict eng d c u = (Inr (), t)" by simp
    from removeOwnedContainerStrict_effect[OF assms(1) _ _ this] u assms(2) True
    show ?thesis by (simp add: without_own_def)
  qed (use run u in \<open>simp add: without_own_def\<close>)
qed (auto simp: without_own_def coded_def)

lemma inspect_optional_effect:
  assumes "docker_daemon eng dk" "slots_ok d (dk s)" "k \<in> slots d" "inspect_optional eng k s = (Inr x, t)"
  shows "dk t = dk s \<and> dk s k = map_option (\<lambda>c. (ct_ID c, ct_Labels c)) x"
  using assms(4) unfolding inspect_optional_def
  by (rule inspect_bind_slot[OF assms(1-3)]) (auto simp: coded_def)

lemma cancel_live_effect:
  assumes "docker_daemon eng dk" "slots_ok d (dk s)"
    and "dk s (dc_ContainerName d) = map_option (\<lambda>c. (ct_ID c, ct_Labels c)) current"
    and "cancel_live eng d current previous s = (Inr missing, t)"
  shows "dk t = without_own d (dc_ContainerName d) (dk s) \<and> missing = (dk t (dc_ContainerName d) = None)"
proof (cases current)
  case (Some c)
  with assms(3) have c: "dk s (dc_ContainerName d) = Some (ct_ID c, ct_Labels c)" by simp
  show ?thesis
  proof (cases "ownsExecution c d")
    case True
    with assms(4) Some obtain u where "removeOwnedContainerStrict eng d c s = (Inr (), u)" "missing" "t = u"
      by (auto simp: cancel_live_def coded_def op_bind_Inr split: if_splits)
    with removeOwnedContainerStrict_effect[OF assms(1,2) c] c True show ?thesis by (simp add: without_own_def)
  qed (use assms(4) Some c in \<open>simp add: cancel_live_def without_own_def\<close>)
qed (use assms(3,4) in \<open>simp add: cancel_live_def without_own_def\<close>)

lemma cancel_previous_effect:
  assumes "docker_daemon eng dk" "slots_ok d (dk s)"
    and "dk s (previousContainerName d) = map_option (\<lambda>c. (ct_ID c, ct_Labels c)) previous"
    and "missing \<longleftrightarrow> dk s (dc_ContainerName d) = None"
    and "cancel_previous eng d missing previous s = (Inr (), t)"
  shows "dk t = (if dk s (dc_ContainerName d) = None \<and> slot_restorable d (dk s) (previousContainerName d)
      then (dk s)(previousContainerName d := None, dc_ContainerName d := dk s (previousContainerName d))
      else without_own d (previousContainerName d) (dk s))"
proof (cases previous)
  case (Some p)
  with assms(3) have p: "dk s (previousContainerName d) = Some (ct_ID p, ct_Labels p)" by simp
  show ?thesis
  proof (cases "missing \<and> restorable d previous")
    case True
    obtain y v where y: "de_rename eng (ct_ID p) (dc_ContainerName d) s = (y, v)" by fastforce
    from assms(5) True Some y have "y = Inr () \<and> t = v"
      by (cases y) (auto simp: cancel_previous_def op_bind_def op_try_def coded_def)
    with rename_id[OF assms(1,2) p y] True Some p assms(4) show ?thesis by simp
  next
    case False
    then have no: "\<not> (dk s (dc_ContainerName d) = None \<and> slot_restorable d (dk s) (previousContainerName d))"
      using assms(4) Some p by simp
    show ?thesis
    proof (cases "ownsExecution p d")
      case True
      with assms(5) False Some have "removeOwnedContainerStrict eng d p s = (Inr (), t)"
        by (simp add: cancel_previous_def owned_by_def restorable_def)
      with removeOwnedContainerStrict_effect[OF assms(1,2) p] True p show ?thesis
        unfolding if_not_P[OF no] by (simp add: without_own_def)
    qed (use assms(5) False Some no p in \<open>auto simp: cancel_previous_def owned_by_def without_own_def\<close>)
  qed
qed (use assms(3,5) in \<open>auto simp: cancel_previous_def without_own_def\<close>)

lemma cancel_effect:
  assumes "docker_daemon eng dk" "slots_ok d (dk s)" "cancelDeployment eng d s = (Inr (), t)"
  shows "dk t = cancel_result d (dk s)"
proof -
  from assms(3) obtain a b c e current previous missing where
    a: "cancel_candidate eng d s = (Inr (), a)"
    and b: "inspect_optional eng (dc_ContainerName d) a = (Inr current, b)"
    and c: "inspect_optional eng (previousContainerName d) b = (Inr previous, c)"
    and e: "cancel_live eng d current previous c = (Inr missing, e)"
    and f: "cancel_previous eng d missing previous e = (Inr (), t)"
    unfolding cancelDeployment_def by (auto elim!: op_bind_InrE)
  let ?a = "without_own d (candidateContainerName d) (dk s)" and ?live = "dc_ContainerName d"
  have dk_a: "dk a = ?a" by (rule cancel_candidate_effect[OF assms(1,2) a])
  have ok_a: "slots_ok d ?a" by (rule slots_ok_without_own[OF assms(2)])
  have dk_b: "dk b = ?a" "?a ?live = map_option (\<lambda>c. (ct_ID c, ct_Labels c)) current"
    using inspect_optional_effect[OF assms(1) _ _ b] ok_a dk_a by simp_all
  have dk_c: "dk c = ?a" "?a (previousContainerName d) = map_option (\<lambda>c. (ct_ID c, ct_Labels c)) previous"
    using inspect_optional_effect[OF assms(1) _ _ c] ok_a dk_b(1) by simp_all
  have dk_e: "dk e = without_own d ?live ?a" "missing = (dk e ?live = None)"
    using cancel_live_effect[OF assms(1) _ _ e] ok_a dk_b(2) dk_c(1) by simp_all
  have "dk e (previousContainerName d) = ?a (previousContainerName d)"
    unfolding dk_e(1) by (simp add: without_own_def)
  then show ?thesis
    using cancel_previous_effect[OF assms(1) _ _ dk_e(2) f] slots_ok_without_own[OF ok_a] dk_c(2)
    by (simp add: dk_e(1) cancel_result_def Let_def)
qed

text \<open>After a cancellation no slot holds a container of the execution.\<close>

lemma without_own_slot:
  "\<not> slot_owned d (without_own d n m) n"
  "k \<noteq> n \<Longrightarrow> without_own d n m k = m k"
  by (auto simp: without_own_def slot_holds_def)

lemma cancel_result_disowns: "n \<in> slots d \<Longrightarrow> \<not> slot_owned d (cancel_result d m) n"
proof -
  let ?w = "without_own d (dc_ContainerName d) (without_own d (candidateContainerName d) m)"
  have "\<not> slot_owned d ?w (dc_ContainerName d)" "\<not> slot_owned d ?w (candidateContainerName d)"
    using without_own_slot(1)[of d "candidateContainerName d" m] without_own_slot(1)
      without_own_slot(2)[of "candidateContainerName d" "dc_ContainerName d" d "without_own d (candidateContainerName d) m"]
    by (simp_all add: slot_holds_def)
  moreover have "\<not> slot_owned d (without_own d (previousContainerName d) ?w) (previousContainerName d)"
    by (rule without_own_slot(1))
  moreover have "\<not> slot_owned d ?w (previousContainerName d)" if "slot_restorable d ?w (previousContainerName d)"
    using that by (auto simp: slot_holds_def restorable_def split: option.splits)
  ultimately show "n \<in> slots d \<Longrightarrow> \<not> slot_owned d (cancel_result d m) n"
    by (auto simp: cancel_result_def Let_def slots_def slot_holds_def without_own_slot(2))
qed

text \<open>Cancelling an activation that has just happened puts the former live container back.\<close>

lemma cancel_after_activation:
  assumes "slot_owned d m (candidateContainerName d)" "slot_restorable d m (dc_ContainerName d)"
    and "w = m(candidateContainerName d := None, previousContainerName d := m (dc_ContainerName d),
      dc_ContainerName d := m (candidateContainerName d))"
  shows "cancel_result d w = m(candidateContainerName d := None, previousContainerName d := None)"
proof -
  have a: "without_own d (candidateContainerName d) w = w" by (simp add: without_own_def slot_holds_def assms(3))
  have b: "without_own d (dc_ContainerName d) w = w(dc_ContainerName d := None)"
    using assms(1) by (simp add: without_own_def slot_holds_def assms(3))
  have c: "slot_restorable d (w(dc_ContainerName d := None)) (previousContainerName d)"
    using assms(2) by (simp add: slot_holds_def assms(3))
  show ?thesis unfolding cancel_result_def Let_def a b using c by (simp add: assms(3) fun_eq_iff)
qed

end
