(* ===== verification/IngressStore.thy ===== *)
theory IngressStore
  imports IngressCommand CutoverStore
begin

text \<open>
  The agent's ingress fence store (\<open>internal/agent/runtime/ingress_store.go\<close>): the committed configuration of
  the gateway, the one that is prepared, and a watermark for every route that was ever committed, in memory and
  in one state file. Errors are lists: what \<open>errors.Is\<close> finds in the error that is returned.
\<close>

datatype ingress_failure =
    ErrIngressFenceStale | ErrIngressFenceConflict | ErrIngressStoreFull | ErrIngressPortConflict
  | ErrIngressCertificateUnavailable | ErrIngressBackendUnhealthy | ErrInvalidIngressStore | ErrIngressConfiguration
  | ErrIngressGatewayUnavailable | IngressFailureOther

type_synonym ingress_errors = "ingress_failure list"

datatype IngressPrepareState = IngressPrepareNew | IngressPreparePending | IngressPrepareCommitted

record ingressFence =
  fence_revision :: u64
  fence_deploymentID :: string
  fence_cutoverSequence :: u64
  fence_specDigest :: string
  fence_active :: bool

type_synonym ingress_fences = "string \<rightharpoonup> ingressFence"

record ingressRouteDocument =
  ird_RouteID :: string
  ird_Revision :: u64
  ird_DeploymentID :: string
  ird_CutoverSequence :: u64
  ird_RuntimeTargetID :: string
  ird_Hostname :: string
  ird_BackendAlias :: string
  ird_BackendPort :: port_number
  ird_TLSMode :: IngressTLSMode

record ingressConfigDocument =
  icd_HostRevision :: u64
  icd_ConfigDigest :: string
  icd_Routes :: "ingressRouteDocument list"
  icd_ProbeRouteIDs :: "string list"

record ingressStoreEntryDocument =
  ied_RouteID :: string
  ied_Revision :: u64
  ied_DeploymentID :: string
  ied_CutoverSequence :: u64
  ied_SpecDigest :: string
  ied_Active :: bool

record ingressStoreDocument =
  isd_Version :: int
  isd_Committed :: "ingressConfigDocument option"
  isd_Pending :: "ingressConfigDocument option"
  isd_Entries :: "ingressStoreEntryDocument list"

datatype ingress_file = IngressFileMissing | IngressFileRefused | IngressFileUndecodable
  | IngressFileDocument ingressStoreDocument

record FileIngressFenceStore =
  ifs_maximum :: nat
  ifs_committed :: "IngressCommand option"
  ifs_pending :: "IngressCommand option"
  ifs_entries :: ingress_fences
  ifs_file :: ingress_file

definition ingressStoreVersion :: int where
  "ingressStoreVersion = 2"

definition maximumIngressStoreBytes :: nat where
  "maximumIngressStoreBytes = 4 * 1024 * 1024"

section \<open>Checks\<close>

definition ingressStateDigest :: "string \<Rightarrow> bool" where
  "ingressStateDigest s \<longleftrightarrow> has_prefix s ''sha256:'' \<and> length (drop 7 s) = 64 \<and> list_all is_lower_hex_digit (drop 7 s)"

definition ingressStateIdentifier :: "string \<Rightarrow> bool" where
  "ingressStateIdentifier s = matches_id is_alnum deployment_id_tail 127 s"

definition sameIngressConfig :: "IngressCommand \<Rightarrow> IngressCommand \<Rightarrow> bool" where
  "sameIngressConfig l r \<longleftrightarrow> ing_HostRevision l = ing_HostRevision r \<and> ing_ConfigDigest l = ing_ConfigDigest r \<and>
     ing_ProbeRouteIDs l = ing_ProbeRouteIDs r"

definition same_as :: "IngressCommand option \<Rightarrow> IngressCommand \<Rightarrow> bool" where
  "same_as held c \<longleftrightarrow> (case held of None \<Rightarrow> False | Some h \<Rightarrow> sameIngressConfig h c)"

text \<open>The digest of a route's specification; its error is dropped, which leaves the empty text.\<close>

definition route_digest :: "IngressRoute \<Rightarrow> string" where
  "route_digest r = (case IngressRouteSpecDigest r of Inl _ \<Rightarrow> [] | Inr d \<Rightarrow> d)"

text \<open>The check of a route against its watermark, and of all routes with the number of new ones.\<close>

definition check_route :: "ingressFence \<Rightarrow> IngressRoute \<Rightarrow> ingress_failure option" where
  "check_route current r =
     (if route_Revision r < fence_revision current \<or> route_CutoverSequence r < fence_cutoverSequence current
      then Some ErrIngressFenceStale
      else if \<not> fence_active current \<and> route_Revision r = fence_revision current then Some ErrIngressFenceConflict
      else if route_Revision r = fence_revision current \<and> route_digest r \<noteq> fence_specDigest current \<or>
        route_CutoverSequence r = fence_cutoverSequence current \<and> route_DeploymentID r \<noteq> fence_deploymentID current
      then Some ErrIngressFenceConflict
      else None)"

fun check_routes :: "ingress_fences \<Rightarrow> IngressRoute list \<Rightarrow> ingress_failure + nat" where
  "check_routes entries [] = Inr 0"
| "check_routes entries (r # rs) =
     (case entries (route_ID r) of
        None \<Rightarrow> (case check_routes entries rs of Inl e \<Rightarrow> Inl e | Inr n \<Rightarrow> Inr (Suc n))
      | Some current \<Rightarrow> (case check_route current r of Some e \<Rightarrow> Inl e | None \<Rightarrow> check_routes entries rs))"

definition checkCandidateLocked :: "IngressCommand \<Rightarrow> FileIngressFenceStore \<Rightarrow> ingress_failure option" where
  "checkCandidateLocked c s =
     (let checked = (case check_routes (ifs_entries s) (ing_Routes c) of
          Inl e \<Rightarrow> Some e
        | Inr newEntries \<Rightarrow>
            if ifs_maximum s < card (dom (ifs_entries s)) + newEntries then Some ErrIngressStoreFull else None)
      in case ifs_committed s of
           None \<Rightarrow> checked
         | Some committed \<Rightarrow>
             if ing_HostRevision c < ing_HostRevision committed then Some ErrIngressFenceStale
             else if ing_HostRevision c = ing_HostRevision committed then Some ErrIngressFenceConflict
             else checked)"

section \<open>The document\<close>

definition route_document :: "IngressRoute \<Rightarrow> ingressRouteDocument" where
  "route_document r = \<lparr>ird_RouteID = route_ID r, ird_Revision = route_Revision r,
     ird_DeploymentID = route_DeploymentID r, ird_CutoverSequence = route_CutoverSequence r,
     ird_RuntimeTargetID = route_RuntimeTargetID r, ird_Hostname = route_Hostname r,
     ird_BackendAlias = route_BackendAlias r, ird_BackendPort = route_BackendPort r, ird_TLSMode = route_TLSMode r\<rparr>"

definition route_domain :: "ingressRouteDocument \<Rightarrow> IngressRoute" where
  "route_domain d = \<lparr>route_ID = ird_RouteID d, route_Revision = ird_Revision d,
     route_DeploymentID = ird_DeploymentID d, route_CutoverSequence = ird_CutoverSequence d,
     route_RuntimeTargetID = ird_RuntimeTargetID d, route_Hostname = ird_Hostname d,
     route_BackendAlias = ird_BackendAlias d, route_BackendPort = ird_BackendPort d, route_TLSMode = ird_TLSMode d\<rparr>"

definition ingressConfigDocumentFromDomain :: "IngressCommand option \<Rightarrow> ingressConfigDocument option" where
  "ingressConfigDocumentFromDomain v = map_option (\<lambda>c. \<lparr>icd_HostRevision = ing_HostRevision c,
     icd_ConfigDigest = ing_ConfigDigest c, icd_Routes = map route_document (ing_Routes c),
     icd_ProbeRouteIDs = ing_ProbeRouteIDs c\<rparr>) v"

definition config_domain :: "ingressConfigDocument option \<Rightarrow> ingress_errors + IngressCommand option" where
  "config_domain v =
     (case v of
        None \<Rightarrow> Inr None
      | Some d \<Rightarrow>
          (let c = \<lparr>ing_HostRevision = icd_HostRevision d, ing_ConfigDigest = icd_ConfigDigest d,
             ing_Routes = map route_domain (icd_Routes d), ing_ProbeRouteIDs = icd_ProbeRouteIDs d\<rparr>
           in if validIngressCommand c then Inr (Some c) else Inl [ErrInvalidIngressStore]))"

definition fence_document :: "string \<Rightarrow> ingressFence \<Rightarrow> ingressStoreEntryDocument" where
  "fence_document i f = \<lparr>ied_RouteID = i, ied_Revision = fence_revision f, ied_DeploymentID = fence_deploymentID f,
     ied_CutoverSequence = fence_cutoverSequence f, ied_SpecDigest = fence_specDigest f, ied_Active = fence_active f\<rparr>"

definition ingress_document :: "FileIngressFenceStore \<Rightarrow> ingressStoreDocument" where
  "ingress_document s = \<lparr>isd_Version = ingressStoreVersion,
     isd_Committed = ingressConfigDocumentFromDomain (ifs_committed s),
     isd_Pending = ingressConfigDocumentFromDomain (ifs_pending s),
     isd_Entries = map (\<lambda>i. fence_document i (the (ifs_entries s i))) (sorted_list_of_set (dom (ifs_entries s)))\<rparr>"

text \<open>The JSON text; what it holds is valid, so nothing is escaped. Empty probes and nil pointers are left out.\<close>

definition json_fields :: "(string \<times> string) list \<Rightarrow> string" where
  "json_fields fs = ''{'' @ comma_separated (map (\<lambda>(k, v). quoted k @ '':'' @ v) fs) @ ''}''"

definition json_array :: "string list \<Rightarrow> string" where
  "json_array vs = ''['' @ comma_separated vs @ '']''"

definition json_bool :: "bool \<Rightarrow> string" where
  "json_bool b = (if b then ''true'' else ''false'')"

definition json_route :: "ingressRouteDocument \<Rightarrow> string" where
  "json_route d = json_fields [(''route_id'', quoted (ird_RouteID d)), (''revision'', decimal (ird_Revision d)),
     (''deployment_id'', quoted (ird_DeploymentID d)), (''cutover_sequence'', decimal (ird_CutoverSequence d)),
     (''runtime_target_id'', quoted (ird_RuntimeTargetID d)), (''hostname'', quoted (ird_Hostname d)),
     (''backend_alias'', quoted (ird_BackendAlias d)), (''backend_port'', decimal (ucast (ird_BackendPort d))),
     (''tls_mode'', quoted (tls_text (ird_TLSMode d)))]"

definition json_config :: "ingressConfigDocument \<Rightarrow> string" where
  "json_config d = json_fields ([(''host_revision'', decimal (icd_HostRevision d)),
     (''config_digest'', quoted (icd_ConfigDigest d)), (''routes'', json_array (map json_route (icd_Routes d)))] @
     (if icd_ProbeRouteIDs d = [] then [] else [(''probe_route_ids'', json_array (map quoted (icd_ProbeRouteIDs d)))]))"

definition json_fence :: "ingressStoreEntryDocument \<Rightarrow> string" where
  "json_fence d = json_fields [(''route_id'', quoted (ied_RouteID d)), (''revision'', decimal (ied_Revision d)),
     (''deployment_id'', quoted (ied_DeploymentID d)), (''cutover_sequence'', decimal (ied_CutoverSequence d)),
     (''spec_digest'', quoted (ied_SpecDigest d)), (''active'', json_bool (ied_Active d))]"

definition json_ingress_store :: "ingressStoreDocument \<Rightarrow> string" where
  "json_ingress_store d = json_fields ([(''version'', ''2'')] @
     (case isd_Committed d of None \<Rightarrow> [] | Some c \<Rightarrow> [(''committed'', json_config c)]) @
     (case isd_Pending d of None \<Rightarrow> [] | Some c \<Rightarrow> [(''pending'', json_config c)]) @
     [(''entries'', json_array (map json_fence (isd_Entries d)))])"

section \<open>Loading\<close>

definition validIngressStoreEntry :: "ingressStoreEntryDocument \<Rightarrow> bool" where
  "validIngressStoreEntry e \<longleftrightarrow> ingressStateIdentifier (ied_RouteID e) \<and> 0 < ied_Revision e \<and>
     ingressStateIdentifier (ied_DeploymentID e) \<and> 0 < ied_CutoverSequence e \<and> ingressStateDigest (ied_SpecDigest e)"

definition fence_of :: "ingressStoreEntryDocument \<Rightarrow> ingressFence" where
  "fence_of e = \<lparr>fence_revision = ied_Revision e, fence_deploymentID = ied_DeploymentID e,
     fence_cutoverSequence = ied_CutoverSequence e, fence_specDigest = ied_SpecDigest e, fence_active = ied_Active e\<rparr>"

fun load_fences :: "ingressStoreEntryDocument list \<Rightarrow> ingress_fences \<Rightarrow> ingress_fences option" where
  "load_fences [] m = Some m"
| "load_fences (e # es) m =
     (if \<not> validIngressStoreEntry e then None
      else if m (ied_RouteID e) \<noteq> None then None
      else load_fences es (m(ied_RouteID e \<mapsto> fence_of e)))"

text \<open>The last route of an identifier wins, as in the map the code builds.\<close>

definition active_routes :: "IngressCommand option \<Rightarrow> string \<rightharpoonup> IngressRoute" where
  "active_routes committed =
     (case committed of None \<Rightarrow> Map.empty | Some c \<Rightarrow> map_of (map (\<lambda>r. (route_ID r, r)) (rev (ing_Routes c))))"

definition fence_matches :: "ingressFence \<Rightarrow> IngressRoute \<Rightarrow> bool" where
  "fence_matches f r \<longleftrightarrow> fence_revision f = route_Revision r \<and> fence_deploymentID f = route_DeploymentID r \<and>
     fence_cutoverSequence f = route_CutoverSequence r \<and> fence_specDigest f = route_digest r"

definition entries_match :: "ingress_fences \<Rightarrow> (string \<rightharpoonup> IngressRoute) \<Rightarrow> bool" where
  "entries_match entries active \<longleftrightarrow>
     (\<forall>i \<in> dom entries. case active i of
        None \<Rightarrow> \<not> fence_active (the (entries i))
      | Some r \<Rightarrow> fence_active (the (entries i)) \<and> fence_matches (the (entries i)) r) \<and>
     dom active \<subseteq> dom entries"

definition validLoadedState :: "FileIngressFenceStore \<Rightarrow> bool" where
  "validLoadedState s \<longleftrightarrow> entries_match (ifs_entries s) (active_routes (ifs_committed s)) \<and>
     (case ifs_pending s of
        None \<Rightarrow> True
      | Some p \<Rightarrow>
          (case ifs_committed s of None \<Rightarrow> True | Some c \<Rightarrow> ing_HostRevision c < ing_HostRevision p) \<and>
          checkCandidateLocked p s = None)"

definition load_ingress_document :: "nat \<Rightarrow> ingressStoreDocument \<Rightarrow> ingress_errors + FileIngressFenceStore" where
  "load_ingress_document maximum d =
     (if isd_Version d \<noteq> ingressStoreVersion \<or> maximum < length (isd_Entries d) then Inl [ErrInvalidIngressStore]
      else bind_result (config_domain (isd_Committed d)) (\<lambda>committed.
        bind_result (config_domain (isd_Pending d)) (\<lambda>pending.
          case load_fences (isd_Entries d) Map.empty of
            None \<Rightarrow> Inl [ErrInvalidIngressStore]
          | Some entries \<Rightarrow>
              (let s = \<lparr>ifs_maximum = maximum, ifs_committed = committed, ifs_pending = pending, ifs_entries = entries,
                 ifs_file = IngressFileDocument d\<rparr>
               in if validLoadedState s then Inr s else Inl [ErrInvalidIngressStore]))))"

definition ifs_load :: "nat \<Rightarrow> ingress_file \<Rightarrow> ingress_errors + FileIngressFenceStore" where
  "ifs_load maximum f =
     (case f of
        IngressFileMissing \<Rightarrow> Inr \<lparr>ifs_maximum = maximum, ifs_committed = None, ifs_pending = None,
          ifs_entries = Map.empty, ifs_file = IngressFileMissing\<rparr>
      | IngressFileRefused \<Rightarrow> Inl [IngressFailureOther]
      | IngressFileUndecodable \<Rightarrow> Inl [ErrInvalidIngressStore]
      | IngressFileDocument d \<Rightarrow>
          if maximumIngressStoreBytes < length (json_ingress_store d) then Inl [ErrInvalidIngressStore]
          else load_ingress_document maximum d)"

definition NewFileIngressFenceStore ::
  "ingress_errors option \<Rightarrow> nat \<Rightarrow> ingress_file \<Rightarrow> ingress_errors + FileIngressFenceStore" where
  "NewFileIngressFenceStore directory maximum f =
     (if maximum < 1 \<or> 65536 < maximum then Inl [ErrInvalidIngressStore]
      else (case directory of Some e \<Rightarrow> Inl e | None \<Rightarrow> ifs_load maximum f))"

section \<open>Operations\<close>

definition ifs_persistLocked ::
  "write_outcome \<Rightarrow> FileIngressFenceStore \<Rightarrow> ingress_errors option \<times> FileIngressFenceStore" where
  "ifs_persistLocked io s =
     (let d = ingress_document s in
      if maximumIngressStoreBytes < length (json_ingress_store d) then (Some [ErrIngressStoreFull], s)
      else (case io of
              WriteOk \<Rightarrow> (None, s\<lparr>ifs_file := IngressFileDocument d\<rparr>)
            | WriteFailed \<Rightarrow> (Some [IngressFailureOther], s)
            | WriteUnsynced \<Rightarrow> (Some [IngressFailureOther], s\<lparr>ifs_file := IngressFileDocument d\<rparr>)))"

text \<open>Write a changed store; after an error the memory is as before.\<close>

definition ifs_write ::
  "write_outcome \<Rightarrow> FileIngressFenceStore \<Rightarrow> FileIngressFenceStore \<Rightarrow> 'a \<Rightarrow>
     (ingress_errors + 'a) \<times> FileIngressFenceStore" where
  "ifs_write io s changed ok =
     (case ifs_persistLocked io changed of
        (None, t) \<Rightarrow> (Inr ok, t)
      | (Some e, t) \<Rightarrow> (Inl e, s\<lparr>ifs_file := ifs_file t\<rparr>))"

definition ifs_Begin ::
  "write_outcome \<Rightarrow> IngressCommand \<Rightarrow> FileIngressFenceStore \<Rightarrow>
     (ingress_errors + IngressPrepareState) \<times> FileIngressFenceStore" where
  "ifs_Begin io c s =
     (if \<not> validIngressCommand c then (Inl [ErrInvalidIngressStore], s)
      else (case ifs_pending s of
          Some p \<Rightarrow> if sameIngressConfig p c then (Inr IngressPreparePending, s) else (Inl [ErrIngressFenceConflict], s)
        | None \<Rightarrow>
            if same_as (ifs_committed s) c then (Inr IngressPrepareCommitted, s)
            else (case checkCandidateLocked c s of
                Some e \<Rightarrow> (Inl [e], s)
              | None \<Rightarrow> ifs_write io s (s\<lparr>ifs_pending := Some c\<rparr>) IngressPrepareNew)))"

definition ifs_CanCommit :: "IngressCommand \<Rightarrow> FileIngressFenceStore \<Rightarrow> ingress_errors + bool" where
  "ifs_CanCommit c s =
     (if \<not> validIngressCommand c then Inl [ErrInvalidIngressStore]
      else if same_as (ifs_committed s) c then Inr True
      else if \<not> same_as (ifs_pending s) c then Inl [ErrIngressFenceConflict]
      else Inr False)"

definition ifs_CanAbort :: "IngressCommand \<Rightarrow> FileIngressFenceStore \<Rightarrow> ingress_errors + bool" where
  "ifs_CanAbort c s =
     (if \<not> validIngressCommand c then Inl [ErrInvalidIngressStore]
      else if same_as (ifs_committed s) c then Inl [ErrIngressFenceConflict]
      else (case ifs_pending s of
          None \<Rightarrow>
            (case ifs_committed s of
               None \<Rightarrow> Inr True
             | Some h \<Rightarrow> if ing_HostRevision h < ing_HostRevision c then Inr True else Inl [ErrIngressFenceStale])
        | Some p \<Rightarrow> if \<not> sameIngressConfig p c then Inl [ErrIngressFenceConflict] else Inr False))"

definition fence_of_route :: "IngressRoute \<Rightarrow> ingressFence" where
  "fence_of_route r = \<lparr>fence_revision = route_Revision r, fence_deploymentID = route_DeploymentID r,
     fence_cutoverSequence = route_CutoverSequence r, fence_specDigest = route_digest r, fence_active = True\<rparr>"

fun put_fences :: "IngressRoute list \<Rightarrow> ingress_fences \<Rightarrow> ingress_fences" where
  "put_fences [] m = m"
| "put_fences (r # rs) m = put_fences rs (m(route_ID r \<mapsto> fence_of_route r))"

definition committed_fences :: "IngressCommand \<Rightarrow> ingress_fences \<Rightarrow> ingress_fences" where
  "committed_fences c entries =
     put_fences (ing_Routes c) (\<lambda>i. map_option (\<lambda>f. f\<lparr>fence_active := False\<rparr>) (entries i))"

definition ifs_Commit ::
  "write_outcome \<Rightarrow> IngressCommand \<Rightarrow> FileIngressFenceStore \<Rightarrow> (ingress_errors + unit) \<times> FileIngressFenceStore" where
  "ifs_Commit io c s =
     (if \<not> validIngressCommand c then (Inl [ErrInvalidIngressStore], s)
      else if same_as (ifs_committed s) c then (Inr (), s)
      else if \<not> same_as (ifs_pending s) c then (Inl [ErrIngressFenceConflict], s)
      else ifs_write io s (s\<lparr>ifs_committed := Some c, ifs_pending := None,
        ifs_entries := committed_fences c (ifs_entries s)\<rparr>) ())"

definition ifs_Abort ::
  "write_outcome \<Rightarrow> IngressCommand \<Rightarrow> FileIngressFenceStore \<Rightarrow> (ingress_errors + unit) \<times> FileIngressFenceStore" where
  "ifs_Abort io c s =
     (if \<not> validIngressCommand c then (Inl [ErrInvalidIngressStore], s)
      else if same_as (ifs_committed s) c then (Inl [ErrIngressFenceConflict], s)
      else (case ifs_pending s of
          None \<Rightarrow>
            (case ifs_committed s of
               None \<Rightarrow> (Inr (), s)
             | Some h \<Rightarrow>
                 if ing_HostRevision h < ing_HostRevision c then (Inr (), s) else (Inl [ErrIngressFenceStale], s))
        | Some p \<Rightarrow>
            if \<not> sameIngressConfig p c then (Inl [ErrIngressFenceConflict], s)
            else ifs_write io s (s\<lparr>ifs_pending := None\<rparr>) ()))"

end
