(* ===== verification/AgentExecutor.thy ===== *)
theory AgentExecutor
  imports DockerDeployment IngressStore
begin

text \<open>
  The agent's executor of commands (\<open>internal/agent/runtime/docker_probe.go\<close>): a command is validated,
  answered from the durable cache where its result is recorded, joined where it is being executed, and else
  executed by its kind, its result checked and recorded. The inventory and ingress executors, the recovery of
  terminals and what another execution of the same command ends with are arguments.
\<close>

text \<open>\<open>ax_waits\<close> is the outcome of another execution, or the end of the waiting context.\<close>

record ('s, 'c, 'e) agent_executor =
  ax_engine :: "'s docker_engine"
  ax_cache :: "('c, 'e) cache_env"
  ax_now :: "'s \<Rightarrow> time"
  ax_parent :: "'s \<Rightarrow> context_error option"
  ax_cutover_io :: "'s \<Rightarrow> write_outcome"
  ax_cache_io :: "'s \<Rightarrow> write_outcome"
  ax_probe_open :: "'s \<Rightarrow> bool"
  ax_recover :: "('s, unit, unit) op"
  ax_ingress :: "(AgentCommandKind \<Rightarrow> IngressCommand \<Rightarrow> ('s host, ingress_failure list, IngressResult) op) option"
  ax_inventory :: "AgentCommand \<Rightarrow> ('s host, agent_error, ('c, 'e) AgentCommandResult) op"
  ax_waits :: "string \<Rightarrow> agent_error + ('c, 'e) AgentCommandResult"

record ('s, 'c, 'e) agent =
  agent_host :: "'s host"
  agent_cache :: "('c, 'e) FileResultCache"
  agent_pending :: "string \<rightharpoonup> AgentCommand"

section \<open>Kinds\<close>

definition probe_result :: "string \<Rightarrow> RuntimeProbeStatus \<Rightarrow> ('c, 'e) AgentCommandResult" where
  "probe_result commandID status = (deploymentResult commandID [])\<lparr>res_RuntimeProbe := Some status\<rparr>"

text \<open>After a failed step: the error of an ended context, or the answer that the runtime is unreachable.\<close>

definition unreachable_unless_ended ::
  "('s, 'c, 'e) agent_executor \<Rightarrow> string \<Rightarrow> ('s, agent_error, ('c, 'e) AgentCommandResult) op" where
  "unreachable_unless_ended ax commandID =
     op_bind (op_read (\<lambda>s. Inr (de_ctx (ax_engine ax) s))) (\<lambda>ended. case ended of
       Some x \<Rightarrow> op_fail (AgentContextError x)
     | None \<Rightarrow> op_return (probe_result commandID RuntimeProbeUnreachable))"

definition probeRuntime ::
  "('s, 'c, 'e) agent_executor \<Rightarrow> AgentCommand \<Rightarrow> ('s, agent_error, ('c, 'e) AgentCommandResult) op" where
  "probeRuntime ax command =
     op_bind (op_read (\<lambda>s. Inr (ax_probe_open ax s))) (\<lambda>opened.
       if \<not> opened then op_return (deploymentResult (cmd_ID command) ''runtime_configuration'')
       else op_bind (op_try (de_ping (ax_engine ax))) (\<lambda>pinged. case pinged of
           Inl _ \<Rightarrow> unreachable_unless_ended ax (cmd_ID command)
         | Inr _ \<Rightarrow> op_bind (op_try (ax_recover ax)) (\<lambda>recovered. case recovered of
               Inl _ \<Rightarrow> unreachable_unless_ended ax (cmd_ID command)
             | Inr _ \<Rightarrow> op_return (probe_result (cmd_ID command) RuntimeProbeReady))))"

definition ingressExecutionErrorCode :: "ingress_failure list \<Rightarrow> string" where
  "ingressExecutionErrorCode e =
     (if ErrIngressFenceStale \<in> set e then ''ingress_fence_stale''
      else if ErrIngressFenceConflict \<in> set e then ''ingress_fence_conflict''
      else if ErrIngressStoreFull \<in> set e then ''ingress_state_full''
      else if ErrIngressPortConflict \<in> set e then ''ingress_port_conflict''
      else if ErrIngressCertificateUnavailable \<in> set e then ''ingress_certificate_unavailable''
      else if ErrIngressBackendUnhealthy \<in> set e then ''ingress_backend_unhealthy''
      else if ErrInvalidIngressStore \<in> set e \<or> ErrIngressConfiguration \<in> set e then ''ingress_configuration''
      else ''ingress_gateway_unavailable'')"

definition executeIngress ::
  "('s, 'c, 'e) agent_executor \<Rightarrow> AgentCommand \<Rightarrow> ('s host, agent_error, ('c, 'e) AgentCommandResult) op" where
  "executeIngress ax command =
     (case ax_ingress ax of
        None \<Rightarrow> op_return (deploymentResult (cmd_ID command) ''ingress_unavailable'')
      | Some executor \<Rightarrow>
          (case cmd_Ingress command of
             None \<Rightarrow> op_fail AgentPanic
           | Some c \<Rightarrow>
               op_bind (op_try (executor (cmd_Kind command) c)) (\<lambda>r. case r of
                 Inr observation \<Rightarrow> op_return ((deploymentResult (cmd_ID command) [])\<lparr>res_Ingress := Some observation\<rparr>)
               | Inl e \<Rightarrow> op_return (deploymentResult (cmd_ID command) (ingressExecutionErrorCode e)))))"

definition execute_kind ::
  "('s, 'c, 'e) agent_executor \<Rightarrow> AgentCommand \<Rightarrow> ('s host, agent_error, ('c, 'e) AgentCommandResult) op" where
  "execute_kind ax command =
     op_bind (op_read (\<lambda>h. Inr (ax_cutover_io ax (host_docker h)))) (\<lambda>io.
     case cmd_Kind command of
       AgentCommandRuntimeProbe \<Rightarrow> on_docker (probeRuntime ax command)
     | AgentCommandDeploymentPrepare \<Rightarrow> executeDeployment (ax_engine ax) io command
     | AgentCommandDeploymentStage \<Rightarrow> executeDeployment (ax_engine ax) io command
     | AgentCommandDeploymentActivate \<Rightarrow> executeDeployment (ax_engine ax) io command
     | AgentCommandDeploymentRetire \<Rightarrow> executeDeployment (ax_engine ax) io command
     | AgentCommandDeploymentCancel \<Rightarrow> executeDeployment (ax_engine ax) io command
     | AgentCommandRuntimeRemove \<Rightarrow> removeRuntime (ax_engine ax) command
     | AgentCommandCutoverRelease \<Rightarrow> releaseCutover io command
     | AgentCommandInventoryPrepare \<Rightarrow> ax_inventory ax command
     | AgentCommandInventoryChunk \<Rightarrow> ax_inventory ax command
     | AgentCommandInventoryRelease \<Rightarrow> ax_inventory ax command
     | AgentCommandInventoryEvents \<Rightarrow> ax_inventory ax command
     | AgentCommandIngressPrepare \<Rightarrow> executeIngress ax command
     | AgentCommandIngressCommit \<Rightarrow> executeIngress ax command
     | AgentCommandIngressAbort \<Rightarrow> executeIngress ax command
     | AgentCommandOther _ \<Rightarrow> op_fail (AgentProtocolError ErrCommandInvalid))"

section \<open>Executing\<close>

definition on_host :: "('s host, 'x, 'a) op \<Rightarrow> (('s, 'c, 'e) agent, 'x, 'a) op" where
  "on_host m = (\<lambda>a. case m (agent_host a) of (r, t) \<Rightarrow> (r, a\<lparr>agent_host := t\<rparr>))"

text \<open>An error of the recording hides the result.\<close>

definition store_result ::
  "('s, 'c, 'e) agent_executor \<Rightarrow> AgentCommand \<Rightarrow> ('c, 'e) AgentCommandResult \<Rightarrow>
     (('s, 'c, 'e) agent, agent_error, ('c, 'e) AgentCommandResult) op" where
  "store_result ax command result = (\<lambda>a.
     if \<not> DurableResult (cmd_Kind command) then (Inr result, a)
     else (case rc_Store (ax_cache ax) (ax_cache_io ax (host_docker (agent_host a))) command result (agent_cache a) of
         (Some e, c) \<Rightarrow> (Inl (AgentCacheError e), a\<lparr>agent_cache := c\<rparr>)
       | (None, c) \<Rightarrow> (Inr result, a\<lparr>agent_cache := c\<rparr>)))"

definition expired_result :: "AgentCommand \<Rightarrow> ('c, 'e) AgentCommandResult" where
  "expired_result command = deploymentResult (cmd_ID command) ''command_expired''"

text \<open>What a kind's outcome becomes: an ended parent context wins, a deadline is a result.\<close>

definition settle_outcome ::
  "('s, 'c, 'e) agent_executor \<Rightarrow> AgentCommand \<Rightarrow> agent_error + ('c, 'e) AgentCommandResult \<Rightarrow>
     ('s host, agent_error, ('c, 'e) AgentCommandResult) op" where
  "settle_outcome ax command outcome =
     (case outcome of
        Inr r \<Rightarrow> op_return r
      | Inl e \<Rightarrow>
          op_bind (op_read (\<lambda>h. Inr (ax_parent ax (host_docker h)))) (\<lambda>ended. case ended of
            Some x \<Rightarrow> op_fail (AgentContextError x)
          | None \<Rightarrow>
              if e = AgentContextError ContextDeadlineExceeded then op_return (expired_result command)
              else op_fail e))"

definition attempt_kind ::
  "('s, 'c, 'e) agent_executor \<Rightarrow> AgentCommand \<Rightarrow>
     (('s, 'c, 'e) agent, agent_error, agent_error + ('c, 'e) AgentCommandResult) op" where
  "attempt_kind ax command = on_host (op_try (execute_kind ax command))"

definition execute_owned ::
  "('s, 'c, 'e) agent_executor \<Rightarrow> AgentCommand \<Rightarrow> (('s, 'c, 'e) agent, agent_error, ('c, 'e) AgentCommandResult) op" where
  "execute_owned ax command =
     op_bind (op_read (\<lambda>a. Inr (ax_now ax (host_docker (agent_host a))))) (\<lambda>now.
       if \<not> after (cmd_Deadline command) now then store_result ax command (expired_result command)
       else
         op_bind (attempt_kind ax command) (\<lambda>outcome.
         op_bind (on_host (settle_outcome ax command outcome)) (\<lambda>result.
           case Result_Validate (ce_protocol (ax_cache ax)) (ce_checks (ax_cache ax)) command result of
             Some e \<Rightarrow> op_fail (AgentProtocolError e)
           | None \<Rightarrow> store_result ax command result)))"

text \<open>The command is pending while it is executed; \<open>finish\<close> takes it out whatever the outcome.\<close>

definition execute_pending ::
  "('s, 'c, 'e) agent_executor \<Rightarrow> AgentCommand \<Rightarrow> (('s, 'c, 'e) agent, agent_error, ('c, 'e) AgentCommandResult) op" where
  "execute_pending ax command = (\<lambda>a.
     case agent_pending a (cmd_ID command) of
       Some other \<Rightarrow>
         if \<not> AgentCommand_Equivalent (ce_protocol (ax_cache ax)) other command
         then (Inl (AgentProtocolError ErrCommandInvalid), a) else (ax_waits ax (cmd_ID command), a)
     | None \<Rightarrow>
         (case execute_owned ax command (a\<lparr>agent_pending := (agent_pending a)(cmd_ID command \<mapsto> command)\<rparr>) of
            (r, b) \<Rightarrow> (r, b\<lparr>agent_pending := (agent_pending b)(cmd_ID command := None)\<rparr>)))"

definition Execute ::
  "('s, 'c, 'e) agent_executor \<Rightarrow> AgentCommand \<Rightarrow> (('s, 'c, 'e) agent, agent_error, ('c, 'e) AgentCommandResult) op" where
  "Execute ax command = (\<lambda>a.
     case AgentCommand_Validate (ce_protocol (ax_cache ax)) command of
       Some e \<Rightarrow> (Inl (AgentProtocolError e), a)
     | None \<Rightarrow>
         if \<not> DurableResult (cmd_Kind command) then execute_pending ax command a
         else (case rc_Lookup (ax_cache ax) (agent_cache a) command of
             Inl e \<Rightarrow> (Inl (AgentCacheError e), a)
           | Inr (Some result) \<Rightarrow> (Inr result, a)
           | Inr None \<Rightarrow> execute_pending ax command a))"

section \<open>A recorded result answers the command\<close>

lemma Result_Equivalent_refl [simp]: "Result_Equivalent r r"
  by (simp add: Result_Equivalent_def split: option.split)

lemma on_host_cache:
  "on_host m a = (r, b) \<Longrightarrow> agent_cache b = agent_cache a \<and> agent_pending b = agent_pending a"
  by (auto simp: on_host_def split: prod.splits)

lemma store_result_recorded:
  assumes "cache_ok (ax_cache ax) (agent_cache a)" "DurableResult (cmd_Kind command)"
    and "store_result ax command result a = (Inr r, b)"
  shows "r = result \<and> (\<exists>recorded. rc_Lookup (ax_cache ax) (agent_cache b) command = Inr (Some recorded) \<and>
     Result_Equivalent recorded r)"
proof -
  obtain e c where s: "rc_Store (ax_cache ax) (ax_cache_io ax (host_docker (agent_host a))) command result (agent_cache a) = (e, c)"
    by fastforce
  with assms(2,3) have e: "e = None" "r = result" "agent_cache b = c"
    by (auto simp: store_result_def split: option.splits)
  show ?thesis using rc_Store_Lookup[OF s[unfolded e(1)] assms(1)] e by simp
qed

lemma execute_owned_recorded:
  assumes "cache_ok (ax_cache ax) (agent_cache a)" "DurableResult (cmd_Kind command)"
    and "execute_owned ax command a = (Inr r, b)"
  shows "\<exists>recorded. rc_Lookup (ax_cache ax) (agent_cache b) command = Inr (Some recorded) \<and> Result_Equivalent recorded r"
proof (cases "after (cmd_Deadline command) (ax_now ax (host_docker (agent_host a)))")
  case False
  with assms(3) have "store_result ax command (expired_result command) a = (Inr r, b)"
    by (simp add: execute_owned_def op_bind_def op_read_def)
  from store_result_recorded[OF assms(1,2) this] show ?thesis by blast
next
  case True
  with assms(3) obtain outcome u result v where
    u: "attempt_kind ax command a = (Inr outcome, u)"
    and v: "on_host (settle_outcome ax command outcome) u = (Inr result, v)"
    and rest: "(case Result_Validate (ce_protocol (ax_cache ax)) (ce_checks (ax_cache ax)) command result of
             Some e \<Rightarrow> op_fail (AgentProtocolError e)
           | None \<Rightarrow> store_result ax command result) v = (Inr r, b)"
    by (auto simp: execute_owned_def op_bind_Inr op_read_def)
  have "agent_cache v = agent_cache a" using on_host_cache[OF u[unfolded attempt_kind_def]] on_host_cache[OF v] by simp
  moreover from rest have "store_result ax command result v = (Inr r, b)" by (auto split: option.splits)
  ultimately show ?thesis using store_result_recorded[OF _ assms(2)] assms(1) by metis
qed

lemma Execute_recorded:
  assumes "cache_ok (ax_cache ax) (agent_cache a)" "DurableResult (cmd_Kind command)"
    and "agent_pending a (cmd_ID command) = None" "Execute ax command a = (Inr r, b)"
  shows "\<exists>recorded. rc_Lookup (ax_cache ax) (agent_cache b) command = Inr (Some recorded) \<and> Result_Equivalent recorded r"
proof -
  let ?a = "a\<lparr>agent_pending := (agent_pending a)(cmd_ID command \<mapsto> command)\<rparr>"
  have valid: "AgentCommand_Validate (ce_protocol (ax_cache ax)) command = None"
    using assms(4) by (auto simp: Execute_def split: option.splits)
  show ?thesis
  proof (cases "rc_Lookup (ax_cache ax) (agent_cache a) command")
    case (Inl e)
    with assms(2,4) valid show ?thesis by (simp add: Execute_def)
  next
    case (Inr found)
    show ?thesis
    proof (cases found)
      case (Some result)
      with assms(2,4) valid Inr show ?thesis by (auto simp: Execute_def)
    next
      case None
      obtain q c where c: "execute_owned ax command ?a = (q, c)" by fastforce
      with assms(2-4) valid Inr None have q: "q = Inr r" "agent_cache b = agent_cache c"
        by (auto simp: Execute_def execute_pending_def)
      from execute_owned_recorded[of ax ?a command r c] c q assms(1,2) show ?thesis by simp
    qed
  qed
qed

end
