(* ===== verification/DockerProperties.thy ===== *)
theory DockerProperties
  imports DockerSafety DockerDaemon AgentExecutor AgentProperties ProtocolProperties
begin

text \<open>
  The properties of the agent's deployment executor: what it may do to containers whatever the engine
  answers, what it does to those of a daemon that keeps its word, and that a command is executed once.
\<close>

section \<open>Samples\<close>

definition sample_deployment :: DeploymentCommand where
  "sample_deployment = \<lparr>dc_DeploymentID = ''d2'', dc_WorkerID = ''w'', dc_FencingToken = 5, dc_CutoverSequence = 2,
     dc_RuntimeTargetID = ''t1'', dc_ContainerName = ''owndock-x'', dc_ProjectID = ''p'', dc_ApplicationID = ''a'',
     dc_EnvironmentID = ''e'', dc_ImageDigest = ''i'', dc_RegistryAuthorization = [],
     dc_RuntimeSpec = \<lparr>spec_Ports = [], spec_EnvironmentKeys = [], spec_Resources = \<lparr>CPUMilli = 500, MemoryBytes = 1\<rparr>,
       spec_HealthCheck = None\<rparr>, dc_Environment = [], dc_ManagedIngress = False\<rparr>"

definition sample_former :: DeploymentCommand where
  "sample_former = sample_deployment\<lparr>dc_DeploymentID := ''d1'', dc_FencingToken := 3, dc_CutoverSequence := 1\<rparr>"

text \<open>A daemon as a list of its containers, which all run; it creates none.\<close>

type_synonym sample_daemon = "(string \<times> string \<times> (string \<rightharpoonup> string) option) list"

definition has_id :: "sample_daemon \<Rightarrow> string \<Rightarrow> string \<times> 'x \<Rightarrow> bool" where
  "has_id s k e \<longleftrightarrow> map_option fst (map_of s (fst e)) = Some k"

definition key_of :: "sample_daemon \<Rightarrow> string \<Rightarrow> string option" where
  "key_of s k = (case find (has_id s k) s of
     Some e \<Rightarrow> Some (fst e)
   | None \<Rightarrow> if map_of s k = None then None else Some k)"

definition running_container :: "string \<times> (string \<rightharpoonup> string) option \<Rightarrow> inspected" where
  "running_container x = (as_container x)\<lparr>ct_State := Some \<lparr>cst_Running = True, cst_Dead = False,
     cst_Status = ''running'', cst_Health = None\<rparr>\<rparr>"

definition sample_engine :: "sample_daemon docker_engine" where
  "sample_engine = \<lparr>de_open = \<lambda>_. True, de_ping = op_return (), de_image_inspect = \<lambda>_. op_return (),
     de_image_pull = \<lambda>_ _. op_return (),
     de_inspect = \<lambda>k s. (case key_of s k of None \<Rightarrow> Inl EngineNotFound
       | Some n \<Rightarrow> Inr (running_container (the (map_of s n))), s),
     de_create = \<lambda>_. op_fail EngineFailed, de_start = \<lambda>_. op_return (),
     de_remove = \<lambda>k s. (case key_of s k of None \<Rightarrow> (Inl EngineNotFound, s)
       | Some n \<Rightarrow> (Inr (), filter (\<lambda>e. fst e \<noteq> n) s)),
     de_rename = \<lambda>k n s. (case key_of s k of None \<Rightarrow> (Inl EngineNotFound, s)
       | Some old \<Rightarrow> if map_of s n \<noteq> None then (Inl EngineFailed, s)
           else (Inr (), (n, the (map_of s old)) # filter (\<lambda>e. fst e \<noteq> old) s)),
     de_network = \<lambda>_. op_fail EngineNotFound, de_polls = \<lambda>_. 0, de_ctx = \<lambda>_. None\<rparr>"

lemma map_of_without: "map_of (filter (\<lambda>e. fst e \<noteq> n) s) = (map_of s)(n := None)"
  by (induction s) (auto simp: fun_eq_iff)

lemma no_id:
  assumes "find (has_id s k) s = None"
  shows "map_of s a \<noteq> Some (k, l)"
proof
  assume m: "map_of s a = Some (k, l)"
  then have "(a, k, l) \<in> set s" by (rule map_of_SomeD)
  with assms have "\<not> has_id s k (a, k, l)" by (meson find_None_iff)
  with m show False by (simp add: has_id_def)
qed

lemma key_of_found:
  "key_of s k = Some n \<Longrightarrow> found (map_of s) k n"
  "key_of s k = None \<Longrightarrow> \<not> found (map_of s) k n"
proof -
  assume n: "key_of s k = Some n"
  show "found (map_of s) k n"
  proof (cases "find (has_id s k) s")
    case (Some e)
    then have "has_id s k e" by (auto simp: find_Some_iff)
    moreover from Some n have "n = fst e" by (simp add: key_of_def)
    ultimately show ?thesis by (auto simp: has_id_def found_def)
  next
    case None
    with n have "n = k" "map_of s k \<noteq> None" by (auto simp: key_of_def split: if_splits)
    then show ?thesis unfolding found_def using no_id[OF None] by blast
  qed
next
  assume none: "key_of s k = None"
  then have f: "find (has_id s k) s = None" by (simp add: key_of_def split: option.splits)
  with none have "map_of s k = None" by (simp add: key_of_def split: if_splits)
  then show "\<not> found (map_of s) k n" unfolding found_def using no_id[OF f] by blast
qed

lemma found_present: "found m k n \<Longrightarrow> \<exists>x. m n = Some x"
  by (auto simp: found_def)

lemma sample_docker: "docker_daemon sample_engine map_of"
proof -
  have "inspects sample_engine map_of"
    unfolding inspects_def
  proof (intro allI impI)
    fix k s r t
    assume "de_inspect sample_engine k s = (r, t)"
    then have r: "r = (case key_of s k of None \<Rightarrow> Inl EngineNotFound
        | Some n \<Rightarrow> Inr (running_container (the (map_of s n))))" "t = s"
      by (auto simp: sample_engine_def)
    show "map_of t = map_of s \<and> (\<forall>c. r = Inr c \<longrightarrow> (\<exists>n. found (map_of s) k n \<and> map_of s n = Some (ct_ID c, ct_Labels c))) \<and>
       (r = Inl EngineNotFound \<longrightarrow> (\<forall>n. \<not> found (map_of s) k n))"
    proof (cases "key_of s k")
      case (Some n)
      note f = key_of_found(1)[OF Some]
      from found_present[OF f] obtain x where "map_of s n = Some x" by blast
      with f r Some show ?thesis by (auto simp: running_container_def as_container_def)
    qed (use r key_of_found(2) in auto)
  qed
  moreover have "renames sample_engine map_of"
    unfolding renames_def
  proof (intro allI impI)
    fix k n s r t
    assume run: "de_rename sample_engine k n s = (r, t)"
    show "(\<exists>old. found (map_of s) k old \<and> map_of s n = None \<and> map_of t = (map_of s)(old := None, n := map_of s old)) \<or>
      (r \<noteq> Inr () \<and> map_of t = map_of s)"
    proof (cases "key_of s k")
      case (Some old)
      note f = key_of_found(1)[OF Some]
      from found_present[OF f] obtain x where "map_of s old = Some x" by blast
      show ?thesis
      proof (cases "map_of s n")
        case None
        with run Some have "r = Inr ()" "map_of t = (map_of s)(old := None, n := Some x)"
          using \<open>map_of s old = Some x\<close> by (auto simp: sample_engine_def map_of_without)
        with None f \<open>map_of s old = Some x\<close> show ?thesis by auto
      qed (use run Some in \<open>auto simp: sample_engine_def\<close>)
    qed (use run in \<open>auto simp: sample_engine_def\<close>)
  qed
  moreover have "removes sample_engine map_of"
    unfolding removes_def
  proof (intro allI impI)
    fix k s r t
    assume run: "de_remove sample_engine k s = (r, t)"
    show "(\<exists>old. found (map_of s) k old \<and> map_of t = (map_of s)(old := None)) \<or>
       (r \<noteq> Inr () \<and> map_of t = map_of s \<and> (r = Inl EngineNotFound \<longrightarrow> (\<forall>n. \<not> found (map_of s) k n)))"
    proof (cases "key_of s k")
      case (Some old)
      from key_of_found(1)[OF Some] run Some show ?thesis by (auto simp: sample_engine_def map_of_without)
    qed (use run key_of_found(2) in \<open>auto simp: sample_engine_def\<close>)
  qed
  moreover have "creates sample_engine map_of" "starts sample_engine map_of"
    by (auto simp: creates_def starts_def sample_engine_def)
  ultimately show ?thesis by (simp add: docker_daemon_def)
qed

text \<open>A former deployment is live and the ready candidate of the next one waits.\<close>

definition sample_daemon_state :: sample_daemon where
  "sample_daemon_state = [(''owndock-x'', ''1'', Some (execution_labels sample_former)),
     (candidateContainerName sample_deployment, ''2'', Some (execution_labels sample_deployment))]"

definition sample_activated :: sample_daemon where
  "sample_activated = [(''owndock-x'', ''2'', Some (execution_labels sample_deployment)),
     (previousContainerName sample_deployment, ''1'', Some (execution_labels sample_former))]"

lemma sample_owner [simp]:
  "ownsExecution (running_container (''2'', Some (execution_labels sample_deployment))) sample_deployment"
  "\<not> ownsExecution (running_container (''1'', Some (execution_labels sample_former))) sample_deployment"
  "\<not> hasNewerFence (running_container (''1'', Some (execution_labels sample_former))) sample_deployment"
  "managedContainer (running_container (''1'', Some (execution_labels sample_former)))"
  "restorable sample_deployment (Some (running_container (''1'', Some (execution_labels sample_former))))"
  "candidate_ready (running_container (''2'', Some (execution_labels sample_deployment)))"
  by (simp_all add: running_container_def as_container_def ownsExecution_def hasNewerFence_def managedContainer_def
      managed_labels_def fencingToken_def cutoverSequence_def container_label_def execution_labels_def restorable_def
      candidate_ready_def sample_former_def sample_deployment_def deploymentLabel_def fencingLabel_def
      cutoverSequenceLabel_def projectLabel_def applicationLabel_def environmentLabel_def)

lemma sample_names [simp]:
  "dc_ContainerName sample_deployment = ''owndock-x''"
  "candidateContainerName sample_deployment \<noteq> ''owndock-x''" "''owndock-x'' \<noteq> candidateContainerName sample_deployment"
  "previousContainerName sample_deployment \<noteq> ''owndock-x''" "''owndock-x'' \<noteq> previousContainerName sample_deployment"
  using slots_distinct[of sample_deployment] by (simp_all add: sample_deployment_def)

lemma sample_names_not_ids [simp]:
  "candidateContainerName sample_deployment \<noteq> ''1''" "candidateContainerName sample_deployment \<noteq> ''2''"
  "previousContainerName sample_deployment \<noteq> ''1''" "previousContainerName sample_deployment \<noteq> ''2''"
  by (simp_all add: candidateContainerName_def previousContainerName_def sample_deployment_def)

lemma sample_slots_ok: "slots_ok sample_deployment (map_of sample_daemon_state)"
  using sample_names_not_ids[symmetric]
  by (auto simp: slots_ok_def unique_ids_def sample_daemon_state_def slots_def split: if_splits)

definition sample_aside :: sample_daemon where
  "sample_aside = [(previousContainerName sample_deployment, ''1'', Some (execution_labels sample_former)),
     (candidateContainerName sample_deployment, ''2'', Some (execution_labels sample_deployment))]"

lemma sample_keys [simp]:
  "key_of sample_daemon_state ''owndock-x'' = Some ''owndock-x''"
  "key_of sample_daemon_state (candidateContainerName sample_deployment) = Some (candidateContainerName sample_deployment)"
  "key_of sample_daemon_state (previousContainerName sample_deployment) = None"
  "key_of sample_daemon_state ''1'' = Some ''owndock-x''"
  "key_of sample_aside ''2'' = Some (candidateContainerName sample_deployment)"
  by (simp_all add: key_of_def has_id_def sample_daemon_state_def sample_aside_def sample_names_not_ids[symmetric]
      slots_distinct)

lemma sample_contents [simp]:
  "map_of sample_daemon_state ''owndock-x'' = Some (''1'', Some (execution_labels sample_former))"
  "map_of sample_daemon_state (candidateContainerName sample_deployment) = Some (''2'', Some (execution_labels sample_deployment))"
  "map_of sample_daemon_state (previousContainerName sample_deployment) = None"
  by (simp_all add: sample_daemon_state_def)

lemma sample_inspects:
  "inspectContainer sample_engine k s = (Inr (case key_of s k of None \<Rightarrow> Inl EngineNotFound
     | Some n \<Rightarrow> Inr (running_container (the (map_of s n)))), s)"
  by (simp add: inspectContainer_def sample_engine_def op_try_def)

lemma sample_renames:
  "de_rename sample_engine ''1'' (previousContainerName sample_deployment) sample_daemon_state = (Inr (), sample_aside)"
  "de_rename sample_engine ''2'' ''owndock-x'' sample_aside = (Inr (), sample_activated)"
  by (simp_all add: sample_engine_def)
    (simp_all add: sample_daemon_state_def sample_aside_def sample_activated_def)

lemma sample_activates: "activateDeployment sample_engine sample_deployment sample_daemon_state = (Inr (), sample_activated)"
proof -
  let ?live = "running_container (''1'', Some (execution_labels sample_former))"
    and ?next = "running_container (''2'', Some (execution_labels sample_deployment))"
  have id: "ct_ID (running_container x) = fst x" for x by (simp add: running_container_def as_container_def)
  have "removeManagedContainerStrict sample_engine (previousContainerName sample_deployment) sample_daemon_state =
    (Inr (), sample_daemon_state)"
    by (simp add: removeManagedContainerStrict_def sample_inspects op_bind_def)
  then have aside: "set_aside sample_engine sample_deployment (Some ?live) sample_daemon_state = (Inr ''1'', sample_aside)"
    by (simp add: set_aside_def sample_renames op_bind_def op_try_def id)
  have "switch_to sample_engine sample_deployment ?next ''1'' sample_aside = (Inr (), sample_activated)"
    by (simp add: switch_to_def sample_renames op_bind_def op_try_def id)
  with aside have "activate_candidate sample_engine sample_deployment (Some ?live) sample_daemon_state =
    (Inr (), sample_activated)"
    by (simp add: activate_candidate_def sample_inspects op_bind_def owned_not_newer)
  then show ?thesis by (simp add: activateDeployment_def sample_inspects op_bind_def)
qed

definition sample_restored :: sample_daemon where
  "sample_restored = [(''owndock-x'', ''1'', Some (execution_labels sample_former))]"

lemma sample_activated_keys [simp]:
  "key_of sample_activated ''owndock-x'' = Some ''owndock-x''"
  "key_of sample_activated (candidateContainerName sample_deployment) = None"
  "key_of sample_activated (previousContainerName sample_deployment) = Some (previousContainerName sample_deployment)"
  "key_of sample_activated ''2'' = Some ''owndock-x''"
  "key_of (tl sample_activated) ''1'' = Some (previousContainerName sample_deployment)"
  by (simp_all add: key_of_def has_id_def sample_activated_def sample_names_not_ids[symmetric])

lemma sample_activated_contents [simp]:
  "map_of sample_activated ''owndock-x'' = Some (''2'', Some (execution_labels sample_deployment))"
  "map_of sample_activated (previousContainerName sample_deployment) = Some (''1'', Some (execution_labels sample_former))"
  by (simp_all add: sample_activated_def)

lemma sample_cancels: "cancelDeployment sample_engine sample_deployment sample_activated = (Inr (), sample_restored)"
proof -
  let ?live = "running_container (''1'', Some (execution_labels sample_former))"
    and ?next = "running_container (''2'', Some (execution_labels sample_deployment))"
  have id: "ct_ID (running_container x) = fst x" for x by (simp add: running_container_def as_container_def)
  have "de_remove sample_engine ''2'' sample_activated = (Inr (), tl sample_activated)"
    by (simp add: sample_engine_def) (simp add: sample_activated_def)
  then have live: "cancel_live sample_engine sample_deployment (Some ?next) (Some ?live) sample_activated =
      (Inr True, tl sample_activated)"
    by (simp add: cancel_live_def removeOwnedContainerStrict_def remove_strict_def op_bind_def op_return_def op_try_def id)
  have "de_rename sample_engine ''1'' ''owndock-x'' (tl sample_activated) = (Inr (), sample_restored)"
    by (simp add: sample_engine_def) (simp add: sample_activated_def sample_restored_def)
  then have "cancel_previous sample_engine sample_deployment True (Some ?live) (tl sample_activated) =
      (Inr (), sample_restored)"
    by (simp add: cancel_previous_def op_bind_def op_try_def id)
  with live show ?thesis
    by (simp add: cancelDeployment_def cancel_candidate_def inspect_optional_def sample_inspects op_bind_def op_return_def)
qed

section \<open>On a daemon that keeps its word\<close>

text \<open>
  C14: whatever the outcome of an activation, on a Docker daemon that does what it documents: a container that
  was live is live still or kept under the previous name. No failure, at whatever call, loses it.
\<close>

theorem live_container_survives:
  assumes "docker_daemon eng dk" "slots_ok d (dk s)" "activateDeployment eng d s = (r, t)"
    and "dk s (dc_ContainerName d) = Some x"
  shows "dk t (dc_ContainerName d) = Some x \<or> dk t (previousContainerName d) = Some x"
  using activate_outcome[OF assms(1-3)] assms(4) by (auto simp: activation_outcome_def split: sum.splits if_splits)

theorem live_container_survives_witness:
  "map_of sample_activated ''owndock-x'' = Some (''1'', Some (execution_labels sample_former)) \<or>
   map_of sample_activated (previousContainerName sample_deployment) = Some (''1'', Some (execution_labels sample_former))"
  using live_container_survives[OF sample_docker sample_slots_ok sample_activates, of "(''1'', Some (execution_labels sample_former))"]
  by simp

text \<open>
  C15: an activation that succeeds leaves a container of this very execution live. Where it was live before, no
  container is touched but the candidate, which may be removed. Where it was not, the candidate of the execution
  was there and has taken the live name, the former live container is the one kept under the previous name,
  and no other container is touched.
\<close>

theorem activation_switches:
  assumes "docker_daemon eng dk" "slots_ok d (dk s)" "activateDeployment eng d s = (Inr (), t)"
  shows "slot_owned d (dk t) (dc_ContainerName d) \<and>
    (if slot_owned d (dk s) (dc_ContainerName d)
     then dk t = dk s \<or> dk t = (dk s)(candidateContainerName d := None)
     else slot_owned d (dk s) (candidateContainerName d) \<and>
       dk t = (dk s)(candidateContainerName d := None,
         previousContainerName d := (if dk s (dc_ContainerName d) = None then dk s (previousContainerName d)
           else dk s (dc_ContainerName d)),
         dc_ContainerName d := dk s (candidateContainerName d)))"
  using activate_outcome[OF assms]
  by (auto simp: activation_outcome_def slot_holds_def split: if_splits)

theorem activation_switches_witness:
  "slot_owned sample_deployment (map_of sample_activated) ''owndock-x'' \<and>
   map_of sample_activated = (map_of sample_daemon_state)(candidateContainerName sample_deployment := None,
     previousContainerName sample_deployment \<mapsto> (''1'', Some (execution_labels sample_former)),
     ''owndock-x'' \<mapsto> (''2'', Some (execution_labels sample_deployment)))"
proof -
  have "ownsExecution (as_container x) d = ownsExecution (running_container x) d" for x d
    by (simp add: running_container_def ownsExecution_def fencingToken_def cutoverSequence_def managedContainer_def)
  then have other: "\<not> slot_owned sample_deployment (map_of sample_daemon_state) ''owndock-x''"
    using sample_owner(2) by (simp add: slot_holds_def)
  note switched = activation_switches[OF sample_docker sample_slots_ok sample_activates,
      unfolded sample_names(1) sample_contents if_not_P[OF other]]
  have "map_of sample_activated = (map_of sample_daemon_state)(candidateContainerName sample_deployment := None,
     previousContainerName sample_deployment \<mapsto> (''1'', Some (execution_labels sample_former)),
     ''owndock-x'' \<mapsto> (''2'', Some (execution_labels sample_deployment)))"
    using conjunct2[OF conjunct2[OF switched]] by (simp only: option.distinct if_False)
  with switched show ?thesis by blast
qed

lemma slots_ok_activated:
  assumes "slots_ok d m"
  shows "slots_ok d (m(candidateContainerName d := None, previousContainerName d := m (dc_ContainerName d),
    dc_ContainerName d := m (candidateContainerName d)))"
proof -
  let ?aside = "m(dc_ContainerName d := None, previousContainerName d := m (dc_ContainerName d))"
  have "slots_ok d (?aside(candidateContainerName d := None, dc_ContainerName d := ?aside (candidateContainerName d)))"
    by (rule slots_ok_update(2)[OF slots_ok_update(2)[OF assms]])
  moreover have "?aside(candidateContainerName d := None, dc_ContainerName d := ?aside (candidateContainerName d)) =
    m(candidateContainerName d := None, previousContainerName d := m (dc_ContainerName d),
      dc_ContainerName d := m (candidateContainerName d))"
    by (simp add: fun_eq_iff)
  ultimately show ?thesis by simp
qed

text \<open>
  C16: a cancellation after an activation puts back what was live before, where that was a container of an older
  execution of the agent: exactly the candidate and the formerly kept container are gone, and no slot holds
  a container of the cancelled execution.
\<close>

theorem cancel_undoes_activation:
  assumes "docker_daemon eng dk" "slots_ok d (dk s)" "slot_restorable d (dk s) (dc_ContainerName d)"
    and "activateDeployment eng d s = (Inr (), t)" "dk u = dk t" "cancelDeployment eng d u = (Inr (), v)"
  shows "dk v = (dk s)(candidateContainerName d := None, previousContainerName d := None) \<and>
    (\<forall>n \<in> slots d. \<not> slot_owned d (dk v) n)"
proof -
  obtain x where x: "dk s (dc_ContainerName d) = Some x" "restorable d (Some (as_container x))"
    using assms(3) by (auto simp: slot_holds_def split: option.splits)
  then have "\<not> slot_owned d (dk s) (dc_ContainerName d)" by (simp add: slot_holds_def restorable_def)
  with activate_outcome[OF assms(1,2,4)] x(1) have t: "slot_owned d (dk s) (candidateContainerName d)"
    "dk t = (dk s)(candidateContainerName d := None, previousContainerName d := dk s (dc_ContainerName d),
      dc_ContainerName d := dk s (candidateContainerName d))"
    by (simp_all add: activation_outcome_def)
  have "slots_ok d (dk u)" unfolding assms(5) t(2) by (rule slots_ok_activated[OF assms(2)])
  note v = cancel_effect[OF assms(1) this assms(6)]
  have "dk v = (dk s)(candidateContainerName d := None, previousContainerName d := None)"
    unfolding v assms(5) by (rule cancel_after_activation[OF t(1) assms(3) t(2)])
  moreover have "\<forall>n \<in> slots d. \<not> slot_owned d (dk v) n" unfolding v using cancel_result_disowns by blast
  ultimately show ?thesis by blast
qed

theorem cancel_undoes_activation_witness:
  "map_of sample_restored = (map_of sample_daemon_state)(candidateContainerName sample_deployment := None,
     previousContainerName sample_deployment := None) \<and>
   \<not> slot_owned sample_deployment (map_of sample_restored) ''owndock-x''"
proof -
  have "slot_restorable sample_deployment (map_of sample_daemon_state) (dc_ContainerName sample_deployment)"
    using sample_owner(5) by (simp add: slot_holds_def restorable_def running_container_def managedContainer_def
        ownsExecution_def cutoverSequence_def fencingToken_def as_container_def)
  note undone = cancel_undoes_activation[OF sample_docker sample_slots_ok this sample_activates refl sample_cancels]
  have "''owndock-x'' \<in> slots sample_deployment" by (simp add: slots_def)
  with undone show ?thesis by blast
qed

section \<open>Whatever the engine answers\<close>

text \<open>
  C13: whatever the engine answers, an execution of a deployment command makes no call that what it was told
  before does not justify: it removes its own containers, and, while it is current, the retired one of the
  agent; it renames to the live name its own ready candidate or a container of the agent that is put back; it sets
  aside a container of the agent that is not newer; it creates and starts its own candidate only. An
  execution that the watermarks reject may only remove what is its own.
\<close>

theorem execution_touches_only_its_own:
  assumes "executeDeployment (traced orc) io command h = (r, k)" "cmd_Deployment command = Some d"
    and "host_docker h = []" "host_docker k = pre @ ev # post"
  shows "docker_allowed (current_command (host_cutovers h) (cmd_Kind command) d) d (set pre) ev"
  by (rule docker.safe_event[OF executeDeployment_safe[OF assms(1-3)] assms(4)])

definition sample_oracle :: docker_oracle where
  "sample_oracle = \<lparr>dor_open = \<lambda>_. True, dor_ping = \<lambda>_. Inr (), dor_image_inspect = \<lambda>_ _. Inr (),
     dor_image_pull = \<lambda>_ _ _. Inr (),
     dor_inspect = \<lambda>k _. if k = candidateContainerName sample_deployment
       then Inr (running_container (''2'', Some (execution_labels sample_deployment))) else Inl EngineNotFound,
     dor_create = \<lambda>_ _. Inl EngineFailed, dor_start = \<lambda>_ _. Inr (), dor_remove = \<lambda>_ _. Inr (),
     dor_rename = \<lambda>_ _ _. Inr (), dor_network = \<lambda>_ _. Inl EngineNotFound, dor_polls = \<lambda>_. 0, dor_ctx = \<lambda>_. None\<rparr>"

definition sample_cancel :: AgentCommand where
  "sample_cancel = sample_probe\<lparr>cmd_Kind := AgentCommandDeploymentCancel, cmd_RuntimeProbe := None,
     cmd_Deployment := Some sample_deployment\<rparr>"

definition sample_host :: "docker_trace host" where
  "sample_host = \<lparr>host_cutovers = sample_store, host_docker = []\<rparr>"

lemma sample_cancel_run:
  "\<exists>k r :: agent_error + (unit, unit) AgentCommandResult. executeDeployment (traced sample_oracle) WriteOk sample_cancel sample_host = (r, k) \<and>
     host_docker k = [DkInspect (candidateContainerName sample_deployment)
         (Inr (running_container (''2'', Some (execution_labels sample_deployment))))] @
       DkRemove ''2'' (Inr ()) # [DkInspect ''owndock-x'' (Inl EngineNotFound),
         DkInspect (previousContainerName sample_deployment) (Inl EngineNotFound)]"
proof -
  have id: "ct_ID (running_container x) = fst x" for x by (simp add: running_container_def as_container_def)
  have opened: "de_open (traced sample_oracle) tr" for tr by (simp add: traced_def sample_oracle_def)
  let ?i = "DkInspect (candidateContainerName sample_deployment)
         (Inr (running_container (''2'', Some (execution_labels sample_deployment))))"
  have "cancelDeployment (traced sample_oracle) sample_deployment [] = (Inr (), [?i, DkRemove ''2'' (Inr ()),
      DkInspect ''owndock-x'' (Inl EngineNotFound),
      DkInspect (previousContainerName sample_deployment) (Inl EngineNotFound)])"
    by (simp add: cancelDeployment_def cancel_candidate_def inspectContainer_def traced_try ask_def op_bind_def
        sample_oracle_def removeOwnedContainerStrict_def remove_strict_def inspect_optional_def cancel_live_def
        cancel_previous_def op_return_def id)
  then have run: "host_docker (snd (on_docker (run_admitted (traced sample_oracle) sample_cancel sample_deployment False ::
      (docker_trace, agent_error, (unit, unit) AgentCommandResult) op) h)) = [?i, DkRemove ''2'' (Inr ()),
      DkInspect ''owndock-x'' (Inl EngineNotFound),
      DkInspect (previousContainerName sample_deployment) (Inl EngineNotFound)]" if "host_docker h = []" for h
    using that by (simp add: on_docker_def run_admitted_def op_bind_def op_read_def op_try_def run_deployment_kind_def
        report_outcome_def sample_cancel_def opened op_return_def)
  have "\<exists>s. cs_Cancel WriteOk ''owndock-x'' ''d2'' 2 (host_cutovers sample_host) = (Inr (), s)"
    by (simp add: cs_Cancel_def sample_host_def sample_store_def entry_count_def write_through_def cs_persistLocked_def Let_def)
  then obtain s where s: "cs_Cancel WriteOk ''owndock-x'' ''d2'' 2 (host_cutovers sample_host) = (Inr (), s)" by blast
  have "(cutover_gate_step WriteOk AgentCommandDeploymentCancel sample_deployment ::
      (docker_trace host, agent_error, string + bool) op) sample_host = (Inr (Inr False), sample_host\<lparr>host_cutovers := s\<rparr>)"
    using s by (simp add: cutover_gate_step_def on_cutovers_def op_bind_def sample_deployment_def)
  then have whole: "(executeDeployment (traced sample_oracle) WriteOk sample_cancel ::
      (docker_trace host, agent_error, (unit, unit) AgentCommandResult) op) sample_host =
    on_docker (run_admitted (traced sample_oracle) sample_cancel sample_deployment False) (sample_host\<lparr>host_cutovers := s\<rparr>)"
    by (simp add: executeDeployment_def sample_cancel_def op_bind_def)
  show ?thesis
    by (intro exI, rule conjI[OF prod.collapse[symmetric]]) (unfold whole, simp add: run sample_host_def)
qed

theorem execution_touches_only_its_own_witness:
  "docker_allowed True sample_deployment {DkInspect (candidateContainerName sample_deployment)
     (Inr (running_container (''2'', Some (execution_labels sample_deployment))))} (DkRemove ''2'' (Inr ()))"
proof -
  obtain k r where run: "executeDeployment (traced sample_oracle) WriteOk sample_cancel sample_host =
      (r :: agent_error + (unit, unit) AgentCommandResult, k)"
    and k: "host_docker k = [DkInspect (candidateContainerName sample_deployment)
         (Inr (running_container (''2'', Some (execution_labels sample_deployment))))] @
       DkRemove ''2'' (Inr ()) # [DkInspect ''owndock-x'' (Inl EngineNotFound),
         DkInspect (previousContainerName sample_deployment) (Inl EngineNotFound)]"
    using sample_cancel_run by blast
  from execution_touches_only_its_own[OF run _ _ k, of sample_deployment]
  show ?thesis by (simp add: sample_cancel_def sample_host_def current_command_def)
qed

section \<open>A command that is delivered twice\<close>

lemma rc_Lookup_entry:
  "rc_entries c (cmd_ID command) = rc_entries c' (cmd_ID command) \<Longrightarrow> rc_Lookup env c command = rc_Lookup env c' command"
  by (auto simp: rc_Lookup_def split: sum.split)

text \<open>
  C17: a durable command that has been answered is not executed again while its record is in the cache: whatever has
  happened to the host since, and whatever the engine and the clock say now, a second delivery answers an equivalent
  result and changes nothing.
\<close>

theorem redelivered_command_not_repeated:
  assumes "cache_ok (ax_cache ax) (agent_cache a)" "DurableResult (cmd_Kind command)"
    and "agent_pending a (cmd_ID command) = None" "Execute ax command a = (Inr r, b)"
    and "ax_cache ay = ax_cache ax" "rc_entries (agent_cache c) (cmd_ID command) = rc_entries (agent_cache b) (cmd_ID command)"
  shows "\<exists>again. Execute ay command c = (Inr again, c) \<and> Result_Equivalent again r"
proof -
  obtain recorded where recorded: "rc_Lookup (ax_cache ax) (agent_cache b) command = Inr (Some recorded)"
    "Result_Equivalent recorded r"
    using Execute_recorded[OF assms(1-4)] by blast
  have valid: "AgentCommand_Validate (ce_protocol (ax_cache ax)) command = None"
    using assms(4) by (auto simp: Execute_def split: option.splits)
  have "rc_Lookup (ax_cache ax) (agent_cache c) command = Inr (Some recorded)"
    using rc_Lookup_entry[OF assms(6)] recorded(1) by simp
  then have "Execute ay command c = (Inr recorded, c)"
    unfolding Execute_def assms(5) valid using assms(2) by simp
  with recorded(2) show ?thesis by blast
qed

definition sample_executor :: "(sample_daemon, unit, unit) agent_executor" where
  "sample_executor = \<lparr>ax_engine = sample_engine, ax_cache = sample_cache_env, ax_now = \<lambda>_. 0, ax_parent = \<lambda>_. None,
     ax_cutover_io = \<lambda>_. WriteOk, ax_cache_io = \<lambda>_. WriteOk, ax_probe_open = \<lambda>_. True, ax_recover = op_return (),
     ax_ingress = None, ax_inventory = \<lambda>_. op_fail AgentPanic, ax_waits = \<lambda>_. Inl AgentPanic\<rparr>"

definition sample_agent :: "(sample_daemon, unit, unit) agent" where
  "sample_agent = \<lparr>agent_host = \<lparr>host_cutovers = sample_store, host_docker = []\<rparr>, agent_cache = sample_cache, agent_pending = Map.empty\<rparr>"

text \<open>The same agent after a restart of its host, with an executor whose engine cannot be opened.\<close>

definition sample_later :: "(sample_daemon, unit, unit) agent_executor" where
  "sample_later = sample_executor\<lparr>ax_probe_open := \<lambda>_. False\<rparr>"

lemma sample_executor_fields [simp]:
  "ax_engine sample_executor = sample_engine" "ax_cache sample_executor = sample_cache_env"
  "ax_now sample_executor = (\<lambda>_. 0)" "ax_cutover_io sample_executor = (\<lambda>_. WriteOk)"
  "ax_cache_io sample_executor = (\<lambda>_. WriteOk)" "ax_probe_open sample_executor = (\<lambda>_. True)"
  "ax_recover sample_executor = op_return ()"
  by (simp_all add: sample_executor_def)

lemma sample_execute: "\<exists>b. Execute sample_executor sample_probe sample_agent = (Inr sample_result, b)"
proof -
  obtain c where c: "rc_Store sample_cache_env WriteOk sample_probe sample_result sample_cache = (None, c)"
    using sample_stored by blast
  have probed: "execute_kind sample_executor sample_probe h = (Inr sample_result, h)" for h
    by (simp add: execute_kind_def sample_engine_def probeRuntime_def probe_result_def
        deploymentResult_def sample_result_def on_docker_def op_bind_def op_read_def op_try_def op_return_def)
  have missing: "rc_Lookup sample_cache_env sample_cache sample_probe = Inr None"
    using sample_store_fingerprint by (simp add: rc_Lookup_def)
  have valid: "AgentCommand_Validate (ce_protocol sample_cache_env) sample_probe = None"
    by (simp add: sample_cache_env_def)
  have stored: "store_result sample_executor sample_probe sample_result a =
      (Inr sample_result, a\<lparr>agent_cache := c\<rparr>)" if "agent_cache a = sample_cache" for a
    using that c by (simp add: store_result_def)
  have deadline: "cmd_Deadline sample_probe = 1000" by (simp add: sample_probe_def)
  have "execute_owned sample_executor sample_probe a = (Inr sample_result, a\<lparr>agent_cache := c\<rparr>)"
    if "agent_cache a = sample_cache" for a
    using that stored[OF that] probed sample_result_valid
    by (simp add: execute_owned_def attempt_kind_def settle_outcome_def on_host_def op_bind_def op_read_def op_try_def
        op_return_def deadline)
  then show ?thesis using missing
    by (simp add: Execute_def valid execute_pending_def sample_agent_def)
qed

theorem redelivered_command_not_repeated_witness:
  "\<exists>b again. Execute sample_executor sample_probe sample_agent = (Inr sample_result, b) \<and>
     Execute sample_later sample_probe b = (Inr again, b) \<and> Result_Equivalent again sample_result"
proof -
  obtain b where b: "Execute sample_executor sample_probe sample_agent = (Inr sample_result, b)"
    using sample_execute by blast
  have "cache_ok (ax_cache sample_executor) (agent_cache sample_agent)"
    using sample_cache_ok by (simp add: sample_agent_def)
  from redelivered_command_not_repeated[OF this _ _ b, of sample_later b] b show ?thesis
    by (auto simp: sample_agent_def sample_later_def)
qed

end
