(* ===== verification/IngressInvariant.thy ===== *)
theory IngressInvariant
  imports IngressStore
begin

text \<open>
  What every operation of the ingress fence store keeps: a state that can be loaded from its own document, and
  watermarks that never fall. A route's watermark also covers what was said of it before.
\<close>

section \<open>The same configuration\<close>

definition config_body :: "IngressCommand \<Rightarrow> string option" where
  "config_body c = config_content (ing_HostRevision c) (ing_Routes c)"

text \<open>No two different contents of these commands have the same SHA-256.\<close>

definition no_collision :: "IngressCommand set \<Rightarrow> bool" where
  "no_collision cs \<longleftrightarrow> (\<forall>c \<in> cs. \<forall>d \<in> cs. ing_HostRevision c = ing_HostRevision d \<longrightarrow>
     sha256_hex (the (config_body c)) = sha256_hex (the (config_body d)) \<longrightarrow> config_body c = config_body d)"

lemma valid_digest:
  assumes "validIngressCommand c"
  shows "config_body c \<noteq> None" "ing_ConfigDigest c = ''sha256:'' @ sha256_hex (the (config_body c))"
  using assms by (auto simp: validIngressCommand_def IngressConfigDigest_def config_body_def split: if_splits option.splits)

lemma valid_routes_sorted:
  assumes "validIngressCommand c"
  shows "sorted_wrt (<) (map route_ID (ing_Routes c))" "\<And>r. r \<in> set (ing_Routes c) \<Longrightarrow> validIngressRoute r"
    "length (ing_Routes c) \<le> MaxIngressRoutes"
  using valid_routes_distinct[of "ing_Routes c" "[]" "{}"] assms by (auto simp: validIngressCommand_def)

lemma valid_routes_distinct_ids: "validIngressCommand c \<Longrightarrow> distinct (map route_ID (ing_Routes c))"
  using valid_routes_sorted(1)[of c] strict_sorted_iff by blast

lemma valid_body:
  assumes "validIngressCommand c"
  shows "config_body c = Some (write_bytes ''owndock-ingress-config-v1'' @ write_uint64 (ing_HostRevision c) @
     write_list writeIngressRouteFingerprint (ing_Routes c))"
proof -
  have "sorted (map route_ID (ing_Routes c))" using valid_routes_sorted(1)[OF assms] strict_sorted_iff by blast
  then have "sort_key route_ID (ing_Routes c) = ing_Routes c" by (rule sort_key_id_if_sorted)
  moreover obtain body where "config_routes (ing_Routes c) {} = Some body"
    using valid_routes_sorted(2)[OF assms] valid_routes_distinct_ids[OF assms] config_routes_None[of "ing_Routes c" "{}"]
    by fastforce
  moreover from this have "body = concat (map writeIngressRouteFingerprint (ing_Routes c))"
    by (simp add: config_routes_Some)
  ultimately show ?thesis by (simp add: config_body_def config_content_def Let_def write_list_def)
qed

lemma valid_routes_sized: "validIngressCommand c \<Longrightarrow> list_ok route_sized (ing_Routes c)"
  using valid_routes_sorted(2,3)[of c] route_sized_valid
  by (auto simp: list_ok_def go_length_def MaxIngressRoutes_def list_all_iff)

lemma same_config_eq:
  assumes "validIngressCommand c" "validIngressCommand d" "no_collision {c, d}" "sameIngressConfig c d"
  shows "c = d"
proof -
  have h: "ing_HostRevision c = ing_HostRevision d" "ing_ConfigDigest c = ing_ConfigDigest d"
    "ing_ProbeRouteIDs c = ing_ProbeRouteIDs d" using assms(4) by (simp_all add: sameIngressConfig_def)
  from h(2) have "sha256_hex (the (config_body c)) = sha256_hex (the (config_body d))"
    unfolding valid_digest(2)[OF assms(1)] valid_digest(2)[OF assms(2)] by (rule same_append_eq[THEN iffD1])
  then have "config_body c = config_body d" using assms(3) h(1) unfolding no_collision_def by blast
  then have "write_list writeIngressRouteFingerprint (ing_Routes c) = write_list writeIngressRouteFingerprint (ing_Routes d)"
    unfolding valid_body[OF assms(1)] valid_body[OF assms(2)] h(1) by (simp only: option.inject same_append_eq)
  from enc_routes.enc_inject[OF valid_routes_sized[OF assms(1)] valid_routes_sized[OF assms(2)] this]
  show "c = d" using h by (intro IngressCommand.equality) simp_all
qed

lemma no_collision_subset: "no_collision cs \<Longrightarrow> ds \<subseteq> cs \<Longrightarrow> no_collision ds"
  by (auto simp: no_collision_def)

section \<open>The order of watermarks\<close>

definition fence_le :: "ingressFence option \<Rightarrow> ingressFence option \<Rightarrow> bool" where
  "fence_le v w \<longleftrightarrow> (case v of None \<Rightarrow> True | Some a \<Rightarrow> (case w of None \<Rightarrow> False | Some b \<Rightarrow>
     fence_revision a \<le> fence_revision b \<and> fence_cutoverSequence a \<le> fence_cutoverSequence b \<and>
     (fence_cutoverSequence a = fence_cutoverSequence b \<longrightarrow> fence_deploymentID a = fence_deploymentID b) \<and>
     (fence_revision a = fence_revision b \<longrightarrow> fence_specDigest a = fence_specDigest b \<and>
       (fence_active b \<longrightarrow> fence_active a))))"

lemma fence_le_refl [simp]: "fence_le v v"
  by (simp add: fence_le_def split: option.split)

lemma fence_le_trans: "fence_le u v \<Longrightarrow> fence_le v w \<Longrightarrow> fence_le u w"
  by (auto simp: fence_le_def split: option.splits)

lemma fence_le_inactive: "fence_le (Some f) (Some (f\<lparr>fence_active := False\<rparr>))"
  by (simp add: fence_le_def)

lemma check_route_le: "check_route f r = None \<Longrightarrow> fence_le (Some f) (Some (fence_of_route r))"
  by (auto simp: check_route_def fence_le_def fence_of_route_def split: if_splits)

lemma check_routes_Inr:
  "check_routes entries rs = Inr n \<Longrightarrow>
     (\<forall>r \<in> set rs. \<forall>f. entries (route_ID r) = Some f \<longrightarrow> check_route f r = None) \<and>
     n = length (filter (\<lambda>r. entries (route_ID r) = None) rs)"
  by (induction rs arbitrary: n) (auto split: option.splits sum.splits)

lemma put_fences_eq:
  "distinct (map route_ID rs) \<Longrightarrow>
     put_fences rs m = m ++ map_of (map (\<lambda>r. (route_ID r, fence_of_route r)) rs)"
proof (induction rs arbitrary: m)
  case (Cons r rs)
  let ?late = "map_of (map (\<lambda>r. (route_ID r, fence_of_route r)) rs)"
  have "route_ID r \<notin> dom ?late" using Cons.prems by (auto simp: dom_map_of_conv_image_fst image_image)
  then show ?case using Cons.IH Cons.prems
    by (auto simp: fun_eq_iff map_add_def split: option.split)
qed simp

lemma map_of_routes:
  "distinct (map route_ID rs) \<Longrightarrow> map_of (map (\<lambda>r. (route_ID r, f r)) rs) i = Some x \<longleftrightarrow>
     (\<exists>r \<in> set rs. route_ID r = i \<and> f r = x)"
  by (subst map_of_eq_Some_iff) (auto simp: image_iff comp_def)

lemma map_of_routes_None:
  "map_of (map (\<lambda>r. (route_ID r, f r)) rs) i = None \<longleftrightarrow> i \<notin> route_ID ` set rs"
  by (simp add: map_of_eq_None_iff image_image)

text \<open>The watermark of a route after a commit.\<close>

lemma committed_fences_route:
  assumes "validIngressCommand c" "r \<in> set (ing_Routes c)"
  shows "committed_fences c entries (route_ID r) = Some (fence_of_route r)"
proof -
  note d = valid_routes_distinct_ids[OF assms(1)]
  have "map_of (map (\<lambda>r. (route_ID r, fence_of_route r)) (ing_Routes c)) (route_ID r) = Some (fence_of_route r)"
    using map_of_routes[OF d, where f = fence_of_route] assms(2) by blast
  then show ?thesis by (simp add: committed_fences_def put_fences_eq[OF d] map_add_find_right)
qed

lemma committed_fences_other:
  assumes "validIngressCommand c" "i \<notin> route_ID ` set (ing_Routes c)"
  shows "committed_fences c entries i = map_option (\<lambda>f. f\<lparr>fence_active := False\<rparr>) (entries i)"
  using assms(2) map_of_routes_None[of fence_of_route "ing_Routes c" i]
  by (simp add: committed_fences_def put_fences_eq[OF valid_routes_distinct_ids[OF assms(1)]] map_add_def)

lemma committed_fences_dom:
  assumes "validIngressCommand c"
  shows "dom (committed_fences c entries) = dom entries \<union> route_ID ` set (ing_Routes c)"
proof (intro set_eqI)
  fix i
  show "i \<in> dom (committed_fences c entries) \<longleftrightarrow> i \<in> dom entries \<union> route_ID ` set (ing_Routes c)"
    using committed_fences_route[OF assms, of _ entries] committed_fences_other[OF assms, of i entries]
    by (cases "i \<in> route_ID ` set (ing_Routes c)") (auto simp: dom_def)
qed

lemma committed_fences_le:
  assumes "validIngressCommand c" "check_routes entries (ing_Routes c) = Inr n"
  shows "fence_le (entries i) (committed_fences c entries i)"
proof (cases "entries i")
  case (Some f)
  show ?thesis
  proof (cases "i \<in> route_ID ` set (ing_Routes c)")
    case True
    then obtain r where r: "r \<in> set (ing_Routes c)" "i = route_ID r" by blast
    with check_routes_Inr[OF assms(2)] Some have "check_route f r = None" by blast
    with check_route_le Some committed_fences_route[OF assms(1) r(1)] r(2) show ?thesis by simp
  qed (use Some committed_fences_other[OF assms(1)] fence_le_inactive in simp)
qed (simp add: fence_le_def)

section \<open>The invariant\<close>

definition istore_ok :: "FileIngressFenceStore \<Rightarrow> bool" where
  "istore_ok s \<longleftrightarrow> 1 \<le> ifs_maximum s \<and> ifs_maximum s \<le> 65536 \<and>
     (\<forall>c. ifs_committed s = Some c \<longrightarrow> validIngressCommand c) \<and>
     (\<forall>p. ifs_pending s = Some p \<longrightarrow> validIngressCommand p) \<and>
     finite (dom (ifs_entries s)) \<and> card (dom (ifs_entries s)) \<le> ifs_maximum s \<and> validLoadedState s"

definition fences_valid :: "ingress_fences \<Rightarrow> bool" where
  "fences_valid m \<longleftrightarrow> (\<forall>i f. m i = Some f \<longrightarrow> validIngressStoreEntry (fence_document i f))"

lemma checkCandidate_None:
  assumes "checkCandidateLocked c s = None"
  shows "\<exists>n. check_routes (ifs_entries s) (ing_Routes c) = Inr n \<and> card (dom (ifs_entries s)) + n \<le> ifs_maximum s"
    and "ifs_committed s = Some h \<Longrightarrow> ing_HostRevision h < ing_HostRevision c"
  using assms by (auto simp: checkCandidateLocked_def Let_def split: option.splits sum.splits if_splits)

lemma checkCandidate_cong:
  "ifs_entries s = ifs_entries t \<Longrightarrow> ifs_committed s = ifs_committed t \<Longrightarrow> ifs_maximum s = ifs_maximum t \<Longrightarrow>
     checkCandidateLocked c s = checkCandidateLocked c t"
  by (simp add: checkCandidateLocked_def Let_def cong: sum.case_cong option.case_cong)

lemma checkCandidate_updates [simp]:
  "checkCandidateLocked c (s\<lparr>ifs_pending := p\<rparr>) = checkCandidateLocked c s"
  "checkCandidateLocked c (s\<lparr>ifs_file := f\<rparr>) = checkCandidateLocked c s"
  by (rule checkCandidate_cong; simp)+

lemma active_routes_iff:
  assumes "validIngressCommand c"
  shows "active_routes (Some c) i = Some r \<longleftrightarrow> r \<in> set (ing_Routes c) \<and> route_ID r = i"
proof -
  have "distinct (map route_ID (rev (ing_Routes c)))"
    using valid_routes_distinct_ids[OF assms] by (simp flip: rev_map)
  from map_of_routes[OF this, where f = "\<lambda>r. r"] show ?thesis by (auto simp: active_routes_def)
qed

lemma fence_of_route_matches [simp]:
  "fence_matches (fence_of_route r) r" "fence_active (fence_of_route r)"
  by (simp_all add: fence_matches_def fence_of_route_def)

lemma committed_entries_match:
  assumes "validIngressCommand c"
  shows "entries_match (committed_fences c entries) (active_routes (Some c))"
  unfolding entries_match_def
proof (intro conjI ballI)
  show "dom (active_routes (Some c)) \<subseteq> dom (committed_fences c entries)"
  proof
    fix i
    assume "i \<in> dom (active_routes (Some c))"
    then obtain r where "active_routes (Some c) i = Some r" by blast
    then have "i \<in> route_ID ` set (ing_Routes c)" unfolding active_routes_iff[OF assms] by blast
    then show "i \<in> dom (committed_fences c entries)" unfolding committed_fences_dom[OF assms] by blast
  qed
next
  fix i
  assume i: "i \<in> dom (committed_fences c entries)"
  show "case active_routes (Some c) i of
        None \<Rightarrow> \<not> fence_active (the (committed_fences c entries i))
      | Some r \<Rightarrow> fence_active (the (committed_fences c entries i)) \<and> fence_matches (the (committed_fences c entries i)) r"
  proof (cases "active_routes (Some c) i")
    case None
    have "i \<notin> route_ID ` set (ing_Routes c)"
    proof
      assume "i \<in> route_ID ` set (ing_Routes c)"
      then obtain r where "active_routes (Some c) i = Some r" unfolding active_routes_iff[OF assms] by blast
      with None show False by simp
    qed
    from committed_fences_other[OF assms this, of entries] i None show ?thesis by (cases "entries i") auto
  next
    case (Some r)
    then have "r \<in> set (ing_Routes c)" "route_ID r = i" unfolding active_routes_iff[OF assms] by simp_all
    with Some committed_fences_route[OF assms, of r entries] show ?thesis by simp
  qed
qed

lemma new_routes_card:
  assumes "distinct (map route_ID rs)" "finite (dom entries)"
  shows "card (dom entries \<union> route_ID ` set rs) = card (dom entries) + length (filter (\<lambda>r. entries (route_ID r) = None) rs)"
proof -
  let ?new = "filter (\<lambda>r. entries (route_ID r) = None) rs"
  have "dom entries \<union> route_ID ` set rs = dom entries \<union> route_ID ` set ?new" by auto
  moreover have "dom entries \<inter> route_ID ` set ?new = {}" by auto
  moreover have "distinct (map route_ID ?new)" using assms(1) distinct_map_filter by blast
  then have "card (route_ID ` set ?new) = length ?new" using distinct_card[of "map route_ID ?new"] by simp
  ultimately show ?thesis using assms(2) by (simp add: card_Un_disjoint)
qed

lemma commit_ok_state:
  assumes "istore_ok s" "ifs_pending s = Some c"
  shows "istore_ok (s\<lparr>ifs_committed := Some c, ifs_pending := None, ifs_entries := committed_fences c (ifs_entries s)\<rparr>)"
proof -
  have v: "validIngressCommand c" using assms by (simp add: istore_ok_def)
  have "checkCandidateLocked c s = None" using assms by (auto simp: istore_ok_def validLoadedState_def)
  from checkCandidate_None(1)[OF this] obtain n where n: "check_routes (ifs_entries s) (ing_Routes c) = Inr n"
    "card (dom (ifs_entries s)) + n \<le> ifs_maximum s" by blast
  have fin: "finite (dom (ifs_entries s))" using assms(1) by (simp add: istore_ok_def)
  have "card (dom (committed_fences c (ifs_entries s))) \<le> ifs_maximum s"
    using n check_routes_Inr[OF n(1)] new_routes_card[OF valid_routes_distinct_ids[OF v] fin]
    by (simp add: committed_fences_dom[OF v])
  then show ?thesis using assms(1) v fin committed_entries_match[OF v]
    by (simp add: istore_ok_def validLoadedState_def committed_fences_dom[OF v])
qed

lemma begin_ok_state:
  assumes "istore_ok s" "validIngressCommand c" "checkCandidateLocked c s = None"
  shows "istore_ok (s\<lparr>ifs_pending := Some c\<rparr>)"
  using assms checkCandidate_None(2)[OF assms(3)]
  by (auto simp: istore_ok_def validLoadedState_def split: option.split)

lemma abort_ok_state: "istore_ok s \<Longrightarrow> istore_ok (s\<lparr>ifs_pending := None\<rparr>)"
  by (simp add: istore_ok_def validLoadedState_def)

lemma ok_file: "istore_ok (s\<lparr>ifs_file := f\<rparr>) = istore_ok s"
  by (simp add: istore_ok_def validLoadedState_def split: option.split)

section \<open>What an operation writes\<close>

definition ingress_synced :: "FileIngressFenceStore \<Rightarrow> bool" where
  "ingress_synced s \<longleftrightarrow> ifs_load (ifs_maximum s) (ifs_file s) = Inr s"

text \<open>A store whose document has just been written, and one whose memory is as before.\<close>

definition written_as :: "FileIngressFenceStore \<Rightarrow> FileIngressFenceStore \<Rightarrow> bool" where
  "written_as x t \<longleftrightarrow> t = x\<lparr>ifs_file := IngressFileDocument (ingress_document x)\<rparr> \<and>
     length (json_ingress_store (ingress_document x)) \<le> maximumIngressStoreBytes"

definition same_memory :: "write_outcome \<Rightarrow> FileIngressFenceStore \<Rightarrow> FileIngressFenceStore \<Rightarrow> bool" where
  "same_memory io s t \<longleftrightarrow> (\<exists>f. t = s\<lparr>ifs_file := f\<rparr>) \<and> (io \<noteq> WriteUnsynced \<longrightarrow> t = s)"

lemma own_file [simp]: "\<exists>f. s = s\<lparr>ifs_file := f\<rparr>"
  by (rule exI[of _ "ifs_file s"]) simp

lemma same_memory_refl [simp]: "same_memory io s s"
  by (simp add: same_memory_def)

lemma ifs_write_result:
  assumes "ifs_write io s changed ok = (r, t)" "ifs_file changed = ifs_file s"
  shows "if is_err r then same_memory io s t else r = Inr ok \<and> written_as changed t"
  using assms
  by (cases io) (auto simp: ifs_write_def ifs_persistLocked_def Let_def written_as_def same_memory_def split: if_splits)

lemma ifs_Begin_effect:
  assumes "ifs_Begin io c s = (r, t)"
  shows "same_memory io s t \<and> r \<noteq> Inr IngressPrepareNew \<or>
    r = Inr IngressPrepareNew \<and> validIngressCommand c \<and> ifs_pending s = None \<and> checkCandidateLocked c s = None \<and>
      written_as (s\<lparr>ifs_pending := Some c\<rparr>) t"
  using assms
  by (auto simp: ifs_Begin_def dest!: ifs_write_result split: if_splits option.splits)

lemma ifs_Commit_effect:
  assumes "ifs_Commit io c s = (r, t)"
  shows "same_memory io s t \<and> (r = Inr () \<longrightarrow> same_as (ifs_committed s) c \<and> t = s) \<or>
    r = Inr () \<and> validIngressCommand c \<and> same_as (ifs_pending s) c \<and>
      written_as (s\<lparr>ifs_committed := Some c, ifs_pending := None, ifs_entries := committed_fences c (ifs_entries s)\<rparr>) t"
  using assms by (auto simp: ifs_Commit_def dest!: ifs_write_result split: if_splits)

lemma ifs_Abort_effect:
  assumes "ifs_Abort io c s = (r, t)"
  shows "same_memory io s t \<and> (r = Inr () \<longrightarrow> ifs_pending s = None \<and> t = s) \<or>
    r = Inr () \<and> validIngressCommand c \<and> same_as (ifs_pending s) c \<and> written_as (s\<lparr>ifs_pending := None\<rparr>) t"
  using assms by (auto simp: ifs_Abort_def same_as_def dest!: ifs_write_result split: if_splits option.splits)

section \<open>Steps\<close>

inductive ingress_step :: "write_outcome set \<Rightarrow> IngressCommand set \<Rightarrow> FileIngressFenceStore \<Rightarrow> FileIngressFenceStore \<Rightarrow> bool"
  for ios cs where
  begun: "io \<in> ios \<Longrightarrow> c \<in> cs \<Longrightarrow> ifs_Begin io c s = (p, t) \<Longrightarrow> ingress_step ios cs s t"
| committed: "io \<in> ios \<Longrightarrow> c \<in> cs \<Longrightarrow> ifs_Commit io c s = (r, t) \<Longrightarrow> ingress_step ios cs s t"
| aborted: "io \<in> ios \<Longrightarrow> c \<in> cs \<Longrightarrow> ifs_Abort io c s = (r, t) \<Longrightarrow> ingress_step ios cs s t"

text \<open>What is prepared is one of the commands.\<close>

definition drawn_from :: "IngressCommand set \<Rightarrow> FileIngressFenceStore \<Rightarrow> bool" where
  "drawn_from cs s \<longleftrightarrow> (\<forall>p. ifs_pending s = Some p \<longrightarrow> p \<in> cs)"

text \<open>What a step changes in memory.\<close>

datatype ingress_change = Unchanged | Prepared IngressCommand | Promoted IngressCommand | Dropped

fun apply_change :: "ingress_change \<Rightarrow> FileIngressFenceStore \<Rightarrow> FileIngressFenceStore" where
  "apply_change Unchanged s = s"
| "apply_change (Prepared c) s = s\<lparr>ifs_pending := Some c\<rparr>"
| "apply_change (Promoted c) s =
     s\<lparr>ifs_committed := Some c, ifs_pending := None, ifs_entries := committed_fences c (ifs_entries s)\<rparr>"
| "apply_change Dropped s = s\<lparr>ifs_pending := None\<rparr>"

fun change_allowed :: "IngressCommand set \<Rightarrow> ingress_change \<Rightarrow> FileIngressFenceStore \<Rightarrow> bool" where
  "change_allowed cs Unchanged s \<longleftrightarrow> True"
| "change_allowed cs (Prepared c) s \<longleftrightarrow> c \<in> cs \<and> validIngressCommand c \<and> ifs_pending s = None \<and>
     checkCandidateLocked c s = None"
| "change_allowed cs (Promoted c) s \<longleftrightarrow> c \<in> cs \<and> ifs_pending s = Some c"
| "change_allowed cs Dropped s \<longleftrightarrow> True"

lemma same_pending:
  assumes "no_collision cs" "istore_ok s" "drawn_from cs s" "c \<in> cs" "validIngressCommand c" "same_as (ifs_pending s) c"
  shows "ifs_pending s = Some c"
proof -
  obtain p where p: "ifs_pending s = Some p" "sameIngressConfig p c"
    using assms(6) by (auto simp: same_as_def split: option.splits)
  then have "validIngressCommand p" "p \<in> cs" using assms(2,3) by (auto simp: istore_ok_def drawn_from_def)
  moreover from this have "no_collision {p, c}" using no_collision_subset[OF assms(1)] assms(4) by simp
  ultimately show ?thesis using same_config_eq[of p c] assms(5) p by simp
qed

lemma step_change:
  assumes "ingress_step ios cs s t" "no_collision cs" "istore_ok s" "drawn_from cs s"
  shows "(\<exists>io \<in> ios. same_memory io s t) \<or>
    (\<exists>ch. change_allowed cs ch s \<and> written_as (apply_change ch s) t)"
  using assms(1)
proof cases
  case (begun io c p)
  from ifs_Begin_effect[OF begun(3)] show ?thesis
  proof
    assume "p = Inr IngressPrepareNew \<and> validIngressCommand c \<and> ifs_pending s = None \<and> checkCandidateLocked c s = None \<and>
      written_as (s\<lparr>ifs_pending := Some c\<rparr>) t"
    with begun(2) show ?thesis by (intro disjI2 exI[of _ "Prepared c"]) simp
  qed (use begun(1) in blast)
next
  case (committed io c r)
  from ifs_Commit_effect[OF committed(3)] show ?thesis
  proof
    assume "r = Inr () \<and> validIngressCommand c \<and> same_as (ifs_pending s) c \<and>
      written_as (s\<lparr>ifs_committed := Some c, ifs_pending := None, ifs_entries := committed_fences c (ifs_entries s)\<rparr>) t"
    with same_pending[OF assms(2-4) committed(2)] committed(2) show ?thesis
      by (intro disjI2 exI[of _ "Promoted c"]) simp
  qed (use committed(1) in blast)
next
  case (aborted io c r)
  from ifs_Abort_effect[OF aborted(3)] show ?thesis
  proof
    assume "r = Inr () \<and> validIngressCommand c \<and> same_as (ifs_pending s) c \<and> written_as (s\<lparr>ifs_pending := None\<rparr>) t"
    then show ?thesis by (intro disjI2 exI[of _ Dropped]) simp
  qed (use aborted(1) in blast)
qed

section \<open>What steps keep\<close>

definition host_revision :: "FileIngressFenceStore \<Rightarrow> u64" where
  "host_revision s = (case ifs_committed s of None \<Rightarrow> 0 | Some c \<Rightarrow> ing_HostRevision c)"

lemma change_ok:
  assumes "change_allowed cs ch s" "istore_ok s" "drawn_from cs s"
  shows "istore_ok (apply_change ch s) \<and> drawn_from cs (apply_change ch s)"
  using assms commit_ok_state begin_ok_state abort_ok_state by (cases ch) (auto simp: drawn_from_def)

lemma pending_checked: "istore_ok s \<Longrightarrow> ifs_pending s = Some c \<Longrightarrow> checkCandidateLocked c s = None \<and> validIngressCommand c"
  by (auto simp: istore_ok_def validLoadedState_def)

lemma change_raises:
  assumes "change_allowed cs ch s" "istore_ok s"
  shows "fence_le (ifs_entries s i) (ifs_entries (apply_change ch s) i) \<and> host_revision s \<le> host_revision (apply_change ch s) \<and>
     (ifs_committed s \<noteq> None \<longrightarrow> ifs_committed (apply_change ch s) \<noteq> None)"
proof (cases ch)
  case (Promoted c)
  with assms have p: "ifs_pending s = Some c" by simp
  note c = pending_checked[OF assms(2) p]
  from c checkCandidate_None(1) obtain n where "check_routes (ifs_entries s) (ing_Routes c) = Inr n" by blast
  from committed_fences_le[OF _ this] c Promoted show ?thesis
    using checkCandidate_None(2)[of c s] by (auto simp: host_revision_def split: option.split intro: less_imp_le)
qed (simp_all add: host_revision_def)

lemma same_memory_keeps:
  assumes "same_memory io s t"
  shows "istore_ok t = istore_ok s" "drawn_from cs t = drawn_from cs s" "ifs_entries t = ifs_entries s"
    "ifs_committed t = ifs_committed s" "ifs_pending t = ifs_pending s" "ifs_maximum t = ifs_maximum s"
  using assms by (auto simp: same_memory_def ok_file drawn_from_def)

lemma written_as_keeps:
  assumes "written_as x t"
  shows "istore_ok t = istore_ok x" "drawn_from cs t = drawn_from cs x" "ifs_entries t = ifs_entries x"
    "ifs_committed t = ifs_committed x" "ifs_pending t = ifs_pending x" "ifs_maximum t = ifs_maximum x"
  using assms by (auto simp: written_as_def ok_file drawn_from_def)

lemma step_keeps:
  assumes "ingress_step ios cs s t" "no_collision cs" "istore_ok s" "drawn_from cs s"
  shows "istore_ok t \<and> drawn_from cs t \<and> fence_le (ifs_entries s i) (ifs_entries t i) \<and>
     host_revision s \<le> host_revision t \<and> (ifs_committed s \<noteq> None \<longrightarrow> ifs_committed t \<noteq> None) \<and> ifs_maximum t = ifs_maximum s"
  using step_change[OF assms]
proof
  assume "\<exists>io \<in> ios. same_memory io s t"
  then obtain io where "same_memory io s t" by blast
  from same_memory_keeps[OF this] assms(3,4) show ?thesis by (simp add: host_revision_def)
next
  assume "\<exists>ch. change_allowed cs ch s \<and> written_as (apply_change ch s) t"
  then obtain ch where ch: "change_allowed cs ch s" and w: "written_as (apply_change ch s) t" by blast
  have "ifs_maximum (apply_change ch s) = ifs_maximum s" by (cases ch) simp_all
  with change_ok[OF ch assms(3,4)] change_raises[OF ch assms(3), of i] written_as_keeps[OF w] show ?thesis
    by (simp add: host_revision_def)
qed

lemma steps_keep:
  assumes "(ingress_step ios cs)\<^sup>*\<^sup>* s t" "no_collision cs" "istore_ok s" "drawn_from cs s"
  shows "istore_ok t \<and> drawn_from cs t \<and> fence_le (ifs_entries s i) (ifs_entries t i) \<and>
     host_revision s \<le> host_revision t \<and> (ifs_committed s \<noteq> None \<longrightarrow> ifs_committed t \<noteq> None) \<and> ifs_maximum t = ifs_maximum s"
  using assms(1)
proof (induction rule: rtranclp_induct)
  case (step t u)
  then have ok: "istore_ok t" "drawn_from cs t" by blast+
  from step_keeps[OF step(2) assms(2) ok, of i] step(3) fence_le_trans show ?case by (metis order_trans)
qed (use assms in simp)

end
