(* ===== verification/IngressRestart.thy ===== *)
theory IngressRestart
  imports IngressInvariant
begin

text \<open>
  Loading the ingress fence store: its own document gives the store back, where the identifiers of routes and
  deployments start with a letter or digit; and every step of the store keeps that its file can be loaded.
\<close>

section \<open>Documents\<close>

lemma route_round_trip [simp]: "route_domain (route_document r) = r"
  by (simp add: route_domain_def route_document_def)

lemma config_round_trip:
  assumes "\<forall>c. v = Some c \<longrightarrow> validIngressCommand c"
  shows "config_domain (ingressConfigDocumentFromDomain v) = Inr v"
proof (cases v)
  case (Some c)
  have "map route_domain (map route_document (ing_Routes c)) = ing_Routes c" by (simp add: comp_def)
  moreover have "validIngressCommand c" using assms Some by simp
  moreover have "\<lparr>ing_HostRevision = ing_HostRevision c, ing_ConfigDigest = ing_ConfigDigest c,
    ing_Routes = ing_Routes c, ing_ProbeRouteIDs = ing_ProbeRouteIDs c\<rparr> = c" by simp
  ultimately show ?thesis by (simp only: Some config_domain_def ingressConfigDocumentFromDomain_def Let_def option.map option.case
        ingressConfigDocument.simps if_True)
qed (simp add: config_domain_def ingressConfigDocumentFromDomain_def)

lemma fence_round_trip [simp]: "fence_of (fence_document i f) = f"
  by (simp add: fence_of_def fence_document_def)

lemma fence_document_id [simp]: "ied_RouteID (fence_document i f) = i"
  by (simp add: fence_document_def)

lemma load_fence_documents:
  assumes "distinct ns" "set ns \<subseteq> dom m" "set ns \<inter> dom acc = {}" "fences_valid m"
  shows "load_fences (map (\<lambda>n. fence_document n (the (m n))) ns) acc = Some (acc ++ m |` set ns)"
  using assms(1-3)
proof (induction ns arbitrary: acc)
  case (Cons n ns)
  then obtain f where f: "m n = Some f" by auto
  have "load_fences (map (\<lambda>n. fence_document n (the (m n))) ns) (acc(n \<mapsto> f)) = Some (acc(n \<mapsto> f) ++ m |` set ns)"
    using Cons.prems by (intro Cons.IH) (auto split: if_splits)
  moreover have "acc(n \<mapsto> f) ++ m |` set ns = acc ++ m |` set (n # ns)"
    using f Cons.prems(1) by (auto simp: fun_eq_iff map_add_def restrict_map_def split: option.split)
  ultimately show ?case using Cons.prems f assms(4) by (auto simp: fences_valid_def)
qed simp

lemma fence_entries_round_trip:
  assumes "fences_valid m" "finite (dom m)"
  shows "load_fences (map (\<lambda>i. fence_document i (the (m i))) (sorted_list_of_set (dom m))) Map.empty = Some m"
proof -
  have "m |` set (sorted_list_of_set (dom m)) = m"
    using assms(2) by (auto simp: fun_eq_iff restrict_map_def domIff simp flip: not_None_eq)
  with load_fence_documents[of "sorted_list_of_set (dom m)" m Map.empty] assms show ?thesis by simp
qed

lemma validLoadedState_file [simp]: "validLoadedState (s\<lparr>ifs_file := f\<rparr>) = validLoadedState s"
  by (simp add: validLoadedState_def split: option.split)

lemma load_own_document:
  assumes "istore_ok s" "fences_valid (ifs_entries s)" "written_as s t"
  shows "ingress_synced t"
proof -
  have t: "t = s\<lparr>ifs_file := IngressFileDocument (ingress_document s)\<rparr>"
    "\<not> maximumIngressStoreBytes < length (json_ingress_store (ingress_document s))"
    using assms(3) by (simp_all add: written_as_def)
  have c: "config_domain (ingressConfigDocumentFromDomain (ifs_committed s)) = Inr (ifs_committed s)"
    "config_domain (ingressConfigDocumentFromDomain (ifs_pending s)) = Inr (ifs_pending s)"
    using assms(1) config_round_trip by (simp_all add: istore_ok_def)
  have fin: "finite (dom (ifs_entries s))" "card (dom (ifs_entries s)) \<le> ifs_maximum s"
    using assms(1) by (simp_all add: istore_ok_def)
  have e: "\<lparr>ifs_maximum = ifs_maximum s, ifs_committed = ifs_committed s, ifs_pending = ifs_pending s,
      ifs_entries = ifs_entries s, ifs_file = IngressFileDocument (ingress_document s)\<rparr> = t" by (simp add: t(1))
  have ok: "validLoadedState t" using assms(1) by (simp add: t(1) istore_ok_def)
  have "load_ingress_document (ifs_maximum s) (ingress_document s) = Inr t"
    unfolding load_ingress_document_def using fin ok
    by (simp add: ingress_document_def c fence_entries_round_trip[OF assms(2) fin(1)] length_sorted_list_of_set
        bind_result_def e[unfolded ingress_document_def])
  with t show ?thesis by (simp add: ingress_synced_def ifs_load_def)
qed

section \<open>Identifiers\<close>

text \<open>What the store asks of identifiers beyond the protocol.\<close>

definition state_identifiers :: "IngressCommand \<Rightarrow> bool" where
  "state_identifiers c \<longleftrightarrow>
     (\<forall>r \<in> set (ing_Routes c). ingressStateIdentifier (route_ID r) \<and> ingressStateIdentifier (route_DeploymentID r))"

lemma route_digest_valid:
  assumes "validIngressRoute r"
  shows "ingressStateDigest (route_digest r)"
  using assms by (simp add: route_digest_def IngressRouteSpecDigest_def ingressStateDigest_def has_prefix_def sha256_hex_lower)

lemma fences_valid_commit:
  assumes "fences_valid m" "validIngressCommand c" "state_identifiers c"
  shows "fences_valid (committed_fences c m)"
  unfolding fences_valid_def
proof (intro allI impI)
  fix i f
  assume f: "committed_fences c m i = Some f"
  show "validIngressStoreEntry (fence_document i f)"
  proof (cases "i \<in> route_ID ` set (ing_Routes c)")
    case True
    then obtain r where r: "r \<in> set (ing_Routes c)" "i = route_ID r" by blast
    with f committed_fences_route[OF assms(2) r(1)] have "f = fence_of_route r" by simp
    moreover have "validIngressRoute r" by (rule valid_routes_sorted(2)[OF assms(2) r(1)])
    ultimately show ?thesis using r assms(3) route_digest_valid[of r]
      by (simp add: validIngressStoreEntry_def fence_document_def fence_of_route_def state_identifiers_def validIngressRoute_def)
  next
    case False
    with f committed_fences_other[OF assms(2)] obtain g where "m i = Some g" "f = g\<lparr>fence_active := False\<rparr>" by auto
    with assms(1) show ?thesis by (auto simp: fences_valid_def validIngressStoreEntry_def fence_document_def)
  qed
qed

section \<open>Opening\<close>

lemma load_fences_valid: "load_fences es m = Some m' \<Longrightarrow> fences_valid m \<Longrightarrow> fences_valid m'"
proof (induction es arbitrary: m)
  case (Cons e es)
  then have e: "validIngressStoreEntry e" "load_fences es (m(ied_RouteID e \<mapsto> fence_of e)) = Some m'"
    by (auto split: if_splits)
  have "fence_document (ied_RouteID e) (fence_of e) = e" by (simp add: fence_document_def fence_of_def)
  with e(1) Cons.prems(2) have "fences_valid (m(ied_RouteID e \<mapsto> fence_of e))" by (simp add: fences_valid_def)
  with Cons.IH[OF e(2)] show ?case by blast
qed simp

lemma load_fences_card:
  "load_fences es m = Some m' \<Longrightarrow> finite (dom m) \<Longrightarrow> finite (dom m') \<and> card (dom m') = card (dom m) + length es"
proof (induction es arbitrary: m)
  case (Cons e es)
  then have e: "m (ied_RouteID e) = None" "load_fences es (m(ied_RouteID e \<mapsto> fence_of e)) = Some m'"
    by (auto split: if_splits)
  have n: "card (dom (m(ied_RouteID e \<mapsto> fence_of e))) = Suc (card (dom m))"
    using e(1) Cons.prems(2) by (simp add: domIff)
  have "finite (dom (m(ied_RouteID e \<mapsto> fence_of e)))" using Cons.prems(2) by simp
  from Cons.IH[OF e(2) this] show ?case unfolding n by simp
qed simp

lemma config_domain_valid: "config_domain v = Inr (Some c) \<Longrightarrow> validIngressCommand c"
  by (auto simp: config_domain_def Let_def split: option.splits if_splits)

lemma opened_ok:
  assumes "NewFileIngressFenceStore directory k f = Inr s"
  shows "istore_ok s \<and> fences_valid (ifs_entries s) \<and> ingress_synced s \<and> ifs_maximum s = k \<and> ifs_file s = f"
proof -
  from assms have k: "1 \<le> k" "k \<le> 65536" and l: "ifs_load k f = Inr s"
    by (auto simp: NewFileIngressFenceStore_def split: if_splits option.splits)
  show ?thesis
  proof (cases f)
    case IngressFileMissing
    with l have s: "s = \<lparr>ifs_maximum = k, ifs_committed = None, ifs_pending = None, ifs_entries = Map.empty, ifs_file = f\<rparr>"
      by (simp add: ifs_load_def)
    with k IngressFileMissing show ?thesis
      by (simp add: istore_ok_def fences_valid_def ingress_synced_def ifs_load_def validLoadedState_def entries_match_def
          active_routes_def)
  next
    case (IngressFileDocument d)
    with l have d: "load_ingress_document k d = Inr s" by (auto simp: ifs_load_def split: if_splits)
    then obtain committed pending entries where
      parts: "config_domain (isd_Committed d) = Inr committed" "config_domain (isd_Pending d) = Inr pending"
        "load_fences (isd_Entries d) Map.empty = Some entries" "length (isd_Entries d) \<le> k" "validLoadedState s"
      and s: "s = \<lparr>ifs_maximum = k, ifs_committed = committed, ifs_pending = pending, ifs_entries = entries, ifs_file = f\<rparr>"
      unfolding IngressFileDocument
      by (auto simp: load_ingress_document_def bind_result_def Let_def split: if_splits sum.splits option.splits)
    have "finite (dom entries) \<and> card (dom entries) \<le> k" using load_fences_card[OF parts(3)] parts(4) by simp
    moreover have "fences_valid entries" using load_fences_valid[OF parts(3)] by (simp add: fences_valid_def)
    moreover have "ingress_synced s" using l by (simp add: ingress_synced_def s)
    ultimately show ?thesis using k parts config_domain_valid by (auto simp: istore_ok_def s)
  qed (use l in \<open>auto simp: ifs_load_def\<close>)
qed

section \<open>Steps keep the file readable\<close>

lemma change_fences_valid:
  assumes "change_allowed cs ch s" "istore_ok s" "\<forall>c \<in> cs. state_identifiers c" "fences_valid (ifs_entries s)"
  shows "fences_valid (ifs_entries (apply_change ch s))"
  using assms pending_checked[OF assms(2)] fences_valid_commit by (cases ch) auto

lemma step_synced:
  assumes "ingress_step {WriteOk, WriteFailed} cs s t" "no_collision cs" "istore_ok s" "drawn_from cs s"
    and "\<forall>c \<in> cs. state_identifiers c" "fences_valid (ifs_entries s)" "ingress_synced s"
  shows "ingress_synced t \<and> fences_valid (ifs_entries t)"
  using step_change[OF assms(1-4)]
proof
  assume "\<exists>io \<in> {WriteOk, WriteFailed}. same_memory io s t"
  then have "t = s" by (auto simp: same_memory_def)
  with assms(6,7) show ?thesis by simp
next
  assume "\<exists>ch. change_allowed cs ch s \<and> written_as (apply_change ch s) t"
  then obtain ch where ch: "change_allowed cs ch s" and w: "written_as (apply_change ch s) t" by blast
  note fences = change_fences_valid[OF ch assms(3,5,6)]
  from load_own_document[OF _ fences w] change_ok[OF ch assms(3,4)] fences written_as_keeps(3)[OF w]
  show ?thesis by simp
qed

lemma steps_synced:
  assumes "(ingress_step {WriteOk, WriteFailed} cs)\<^sup>*\<^sup>* s t" "no_collision cs" "istore_ok s" "drawn_from cs s"
    and "\<forall>c \<in> cs. state_identifiers c" "fences_valid (ifs_entries s)" "ingress_synced s"
  shows "ingress_synced t \<and> fences_valid (ifs_entries t)"
  using assms(1)
proof (induction rule: rtranclp_induct)
  case (step t u)
  from steps_keep[OF step(1) assms(2-4)] have "istore_ok t" "drawn_from cs t" by blast+
  with step_synced[OF step(2) assms(2) _ _ assms(5)] step(3) show ?case by blast
qed (use assms in simp)

end
