(* ===== verification/IngressRuntime.thy ===== *)
theory IngressRuntime
  imports IngressInvariant AgentProtocol TraceSafety
begin

text \<open>
  The agent's ingress executor (\<open>internal/agent/runtime/ingress.go\<close>): prepare, commit and abort of a gateway
  configuration over the fence store and a gateway, which is an argument. What the gateway serves is at every
  moment the committed or the prepared configuration, where it does what it documents.
\<close>

section \<open>The executor\<close>

text \<open>\<open>gw_write\<close> is how the next replacement of the state file ends.\<close>

record 'w ingress_gateway =
  gw_apply :: "IngressCommand \<Rightarrow> ('w, ingress_errors, string) op"
  gw_probe :: "IngressCommand \<Rightarrow> ('w, ingress_errors, unit) op"
  gw_clear :: "('w, ingress_errors, unit) op"
  gw_write :: "'w \<Rightarrow> write_outcome \<times> 'w"

record 'w ingress_agent =
  ia_store :: FileIngressFenceStore
  ia_world :: 'w

type_synonym ('w, 'a) ingress_op = "('w ingress_agent, ingress_errors, 'a) op"

definition on_gateway :: "('w, ingress_errors, 'a) op \<Rightarrow> ('w, 'a) ingress_op" where
  "on_gateway m = (\<lambda>h. case m (ia_world h) of (r, w) \<Rightarrow> (r, h\<lparr>ia_world := w\<rparr>))"

definition on_fences ::
  "'w ingress_gateway \<Rightarrow>
     (write_outcome \<Rightarrow> FileIngressFenceStore \<Rightarrow> (ingress_errors + 'a) \<times> FileIngressFenceStore) \<Rightarrow> ('w, 'a) ingress_op" where
  "on_fences gw m = (\<lambda>h. case gw_write gw (ia_world h) of (io, w) \<Rightarrow>
     (case m io (ia_store h) of (r, s) \<Rightarrow> (r, \<lparr>ia_store = s, ia_world = w\<rparr>)))"

definition restoreCommitted :: "'w ingress_gateway \<Rightarrow> ('w, unit) ingress_op" where
  "restoreCommitted gw =
     op_bind (op_read (\<lambda>h. Inr (ifs_committed (ia_store h)))) (\<lambda>committed. case committed of
       None \<Rightarrow> on_gateway (gw_clear gw)
     | Some c \<Rightarrow>
         op_bind (on_gateway (gw_apply gw c)) (\<lambda>digest.
           if digest \<noteq> ing_ConfigDigest c then op_fail [ErrIngressConfiguration] else op_return ()))"

text \<open>Apply a configuration, compare its digest and probe it.\<close>

definition try_configuration :: "'w ingress_gateway \<Rightarrow> IngressCommand \<Rightarrow> ('w, unit) ingress_op" where
  "try_configuration gw c =
     op_bind (on_gateway (gw_apply gw c)) (\<lambda>digest.
       if digest \<noteq> ing_ConfigDigest c then op_fail [ErrIngressConfiguration] else on_gateway (gw_probe gw c))"

text \<open>A failed preparation is withdrawn once the committed configuration is back; these errors are dropped.\<close>

definition withdraw :: "'w ingress_gateway \<Rightarrow> IngressCommand \<Rightarrow> ('w, unit) ingress_op" where
  "withdraw gw c =
     op_bind (op_try (restoreCommitted gw)) (\<lambda>restored :: ingress_errors + unit. case restored of
       Inl _ \<Rightarrow> op_return ()
     | Inr _ \<Rightarrow> op_bind (op_try (on_fences gw (\<lambda>io. ifs_Abort io c))) (\<lambda>_ :: ingress_errors + unit. op_return ()))"

definition ingress_answer :: "IngressCommand \<Rightarrow> IngressResult" where
  "ingress_answer c = \<lparr>ingr_HostRevision = ing_HostRevision c, ingr_ConfigDigest = ing_ConfigDigest c\<rparr>"

definition ingress_Prepare :: "'w ingress_gateway \<Rightarrow> IngressCommand \<Rightarrow> ('w, IngressResult) ingress_op" where
  "ingress_Prepare gw c =
     (if \<not> validIngressCommand c then op_fail [ErrIngressConfiguration]
      else
        op_bind (on_fences gw (\<lambda>io. ifs_Begin io c)) (\<lambda>state.
        op_bind (op_try (try_configuration gw c)) (\<lambda>tried :: ingress_errors + unit. case tried of
          Inr _ \<Rightarrow> op_return (ingress_answer c)
        | Inl e \<Rightarrow>
            op_bind (if state \<noteq> IngressPrepareCommitted then withdraw gw c else op_return ()) (\<lambda>_. op_fail e))))"

definition ingress_Commit :: "'w ingress_gateway \<Rightarrow> IngressCommand \<Rightarrow> ('w, IngressResult) ingress_op" where
  "ingress_Commit gw c =
     (if \<not> validIngressCommand c then op_fail [ErrIngressConfiguration]
      else
        op_bind (op_read (\<lambda>h. ifs_CanCommit c (ia_store h))) (\<lambda>alreadyCommitted.
        op_bind (on_gateway (gw_apply gw c)) (\<lambda>digest.
          if digest \<noteq> ing_ConfigDigest c then op_fail [ErrIngressConfiguration]
          else
            op_bind (if \<not> alreadyCommitted then on_fences gw (\<lambda>io. ifs_Commit io c) else op_return ()) (\<lambda>_.
              op_return (ingress_answer c)))))"

definition ingress_Abort :: "'w ingress_gateway \<Rightarrow> IngressCommand \<Rightarrow> ('w, IngressResult) ingress_op" where
  "ingress_Abort gw c =
     (if \<not> validIngressCommand c then op_fail [ErrIngressConfiguration]
      else
        op_bind (op_read (\<lambda>h. ifs_CanAbort c (ia_store h))) (\<lambda>alreadyAborted.
        op_bind (if \<not> alreadyAborted
            then op_bind (restoreCommitted gw) (\<lambda>_. on_fences gw (\<lambda>io. ifs_Abort io c))
            else op_return ()) (\<lambda>_.
          op_return (ingress_answer c))))"

text \<open>By kind; \<open>None\<close> for a kind that is not the executor's.\<close>

definition ingress_by_kind ::
  "'w ingress_gateway \<Rightarrow> AgentCommandKind \<Rightarrow> (IngressCommand \<Rightarrow> ('w, IngressResult) ingress_op) option" where
  "ingress_by_kind gw kind =
     (case kind of
        AgentCommandIngressPrepare \<Rightarrow> Some (ingress_Prepare gw)
      | AgentCommandIngressCommit \<Rightarrow> Some (ingress_Commit gw)
      | AgentCommandIngressAbort \<Rightarrow> Some (ingress_Abort gw)
      | _ \<Rightarrow> None)"

section \<open>Outcomes\<close>

text \<open>From every state in \<open>P\<close>, a result ends in \<open>Q\<close> and an error in \<open>E\<close>.\<close>

definition outcome :: "('s \<Rightarrow> bool) \<Rightarrow> ('s, 'e, 'a) op \<Rightarrow> ('a \<Rightarrow> 's \<Rightarrow> bool) \<Rightarrow> ('s \<Rightarrow> bool) \<Rightarrow> bool" where
  "outcome P m Q E \<longleftrightarrow> (\<forall>s r t. P s \<longrightarrow> m s = (r, t) \<longrightarrow> (case r of Inl _ \<Rightarrow> E t | Inr x \<Rightarrow> Q x t))"

lemma outcomeD: "outcome P m Q E \<Longrightarrow> P s \<Longrightarrow> m s = (r, t) \<Longrightarrow> (case r of Inl _ \<Rightarrow> E t | Inr x \<Rightarrow> Q x t)"
  unfolding outcome_def by blast

lemma outcomeI: "(\<And>s r t. P s \<Longrightarrow> m s = (r, t) \<Longrightarrow> (case r of Inl _ \<Rightarrow> E t | Inr x \<Rightarrow> Q x t)) \<Longrightarrow> outcome P m Q E"
  unfolding outcome_def by blast

lemma outcome_bind:
  assumes "outcome P m R E" "\<And>x. outcome (R x) (f x) Q E"
  shows "outcome P (op_bind m f) Q E"
proof (rule outcomeI)
  fix s r u
  assume s: "P s" and run: "op_bind m f s = (r, u)"
  obtain q t where q: "m s = (q, t)" by fastforce
  note first = outcomeD[OF assms(1) s q]
  show "case r of Inl _ \<Rightarrow> E u | Inr x \<Rightarrow> Q x u"
  proof (cases q)
    case (Inr x)
    with run q have "f x t = (r, u)" by (simp add: op_bind_def)
    moreover from first Inr have "R x t" by simp
    ultimately show ?thesis using outcomeD[OF assms(2)] by blast
  qed (use run q first in \<open>auto simp: op_bind_def\<close>)
qed

lemma outcome_simple:
  "(\<And>s. P s \<Longrightarrow> Q x s) \<Longrightarrow> outcome P (op_return x) Q E"
  "(\<And>s. P s \<Longrightarrow> E s) \<Longrightarrow> outcome P (op_fail e) Q E"
  "(\<And>s. P s \<Longrightarrow> case f s of Inl _ \<Rightarrow> E s | Inr x \<Rightarrow> Q x s) \<Longrightarrow> outcome P (op_read f) Q E"
  by (auto simp: outcome_def)

lemma outcome_try:
  "outcome P m Q E \<Longrightarrow> outcome P (op_try m) (\<lambda>r t. case r of Inl _ \<Rightarrow> E t | Inr x \<Rightarrow> Q x t) F"
  by (auto simp: outcome_def)

lemma outcome_conseq:
  "outcome P m Q E \<Longrightarrow> (\<And>s. P' s \<Longrightarrow> P s) \<Longrightarrow> (\<And>x t. Q x t \<Longrightarrow> Q' x t) \<Longrightarrow> (\<And>t. E t \<Longrightarrow> E' t) \<Longrightarrow> outcome P' m Q' E'"
  unfolding outcome_def by (force split: sum.split)

lemma outcome_pre: "outcome P m Q E \<Longrightarrow> (\<And>s. P' s \<Longrightarrow> P s) \<Longrightarrow> outcome P' m Q E"
  by (rule outcome_conseq)

section \<open>A gateway that keeps its word\<close>

text \<open>A failed change may have happened; a probe and the file system change nothing that is served.\<close>

definition gateway_ok :: "'w ingress_gateway \<Rightarrow> ('w \<Rightarrow> IngressCommand option) \<Rightarrow> bool" where
  "gateway_ok gw serves \<longleftrightarrow>
     (\<forall>c w r v. gw_apply gw c w = (r, v) \<longrightarrow> serves v = Some c \<or> is_err r \<and> serves v = serves w) \<and>
     (\<forall>w r v. gw_clear gw w = (r, v) \<longrightarrow> serves v = None \<or> is_err r \<and> serves v = serves w) \<and>
     (\<forall>c w. serves (snd (gw_probe gw c w)) = serves w) \<and>
     (\<forall>w. serves (snd (gw_write gw w)) = serves w)"

text \<open>The same configuration, or none.\<close>

definition same_option :: "IngressCommand option \<Rightarrow> IngressCommand option \<Rightarrow> bool" where
  "same_option x y \<longleftrightarrow> (case x of None \<Rightarrow> y = None | Some c \<Rightarrow> same_as y c)"

definition serves_committed :: "('w \<Rightarrow> IngressCommand option) \<Rightarrow> 'w ingress_agent \<Rightarrow> bool" where
  "serves_committed serves h \<longleftrightarrow> same_option (serves (ia_world h)) (ifs_committed (ia_store h))"

definition serves_known :: "('w \<Rightarrow> IngressCommand option) \<Rightarrow> 'w ingress_agent \<Rightarrow> bool" where
  "serves_known serves h \<longleftrightarrow> serves_committed serves h \<or>
     (\<exists>p. ifs_pending (ia_store h) = Some p \<and> same_option (serves (ia_world h)) (Some p))"

text \<open>A configuration that may be served: the committed or the prepared one.\<close>

definition held :: "IngressCommand \<Rightarrow> FileIngressFenceStore \<Rightarrow> bool" where
  "held c s \<longleftrightarrow> same_as (ifs_committed s) c \<or> same_as (ifs_pending s) c"

lemma sameIngressConfig_refl [simp]: "sameIngressConfig c c"
  by (simp add: sameIngressConfig_def)

lemma sameIngressConfig_sym: "sameIngressConfig c d \<Longrightarrow> sameIngressConfig d c"
  by (simp add: sameIngressConfig_def)

lemma same_option_refl [simp]: "same_option x x"
  by (simp add: same_option_def same_as_def split: option.split)

lemma serves_held:
  "held c (ia_store h) \<Longrightarrow> serves (ia_world h) = Some c \<Longrightarrow> serves_known serves h"
  by (auto simp: held_def serves_known_def serves_committed_def same_option_def same_as_def split: option.splits)

lemma serves_known_cong:
  "ia_store h = ia_store k \<Longrightarrow> serves (ia_world h) = serves (ia_world k) \<Longrightarrow> serves_known serves h = serves_known serves k"
  by (simp add: serves_known_def serves_committed_def)

section \<open>Steps\<close>

abbreviation at_store :: "(FileIngressFenceStore \<Rightarrow> bool) \<Rightarrow> ('w \<Rightarrow> IngressCommand option) \<Rightarrow> 'w ingress_agent \<Rightarrow> bool" where
  "at_store P serves h \<equiv> P (ia_store h) \<and> serves_known serves h"

lemma outcome_apply:
  assumes "gateway_ok gw serves" "\<And>s. P s \<Longrightarrow> held c s"
  shows "outcome (at_store P serves) (on_gateway (gw_apply gw c))
    (\<lambda>_ h. at_store P serves h \<and> serves (ia_world h) = Some c) (at_store P serves)"
proof (rule outcomeI)
  fix s r t
  assume s: "at_store P serves s" and run: "on_gateway (gw_apply gw c) s = (r, t)"
  obtain q v where q: "gw_apply gw c (ia_world s) = (q, v)" by fastforce
  with run have t: "r = q" "t = s\<lparr>ia_world := v\<rparr>" by (simp_all add: on_gateway_def)
  from assms(1) q have "serves v = Some c \<or> is_err q \<and> serves v = serves (ia_world s)"
    unfolding gateway_ok_def by blast
  then consider "serves v = Some c" | e where "q = Inl e" "serves v = serves (ia_world s)" by (cases q) auto
  then show "case r of Inl _ \<Rightarrow> at_store P serves t | Inr _ \<Rightarrow> at_store P serves t \<and> serves (ia_world t) = Some c"
  proof cases
    case 1
    have "serves_known serves t" by (rule serves_held[of c]) (use s assms(2) 1 t in auto)
    with s 1 t show ?thesis by (simp split: sum.split)
  next
    case 2
    with s t serves_known_cong[of t s serves] show ?thesis by simp
  qed
qed

lemma outcome_restore:
  assumes "gateway_ok gw serves"
  shows "outcome (at_store P serves) (restoreCommitted gw) (\<lambda>_ h. at_store P serves h \<and> serves_committed serves h)
    (at_store P serves)"
proof (rule outcomeI)
  fix s r t
  assume s: "at_store P serves s" and run: "restoreCommitted gw s = (r, t)"
  show "case r of Inl _ \<Rightarrow> at_store P serves t | Inr _ \<Rightarrow> at_store P serves t \<and> serves_committed serves t"
  proof (cases "ifs_committed (ia_store s)")
    case None
    obtain q v where q: "gw_clear gw (ia_world s) = (q, v)" by fastforce
    with run None have t: "r = q" "t = s\<lparr>ia_world := v\<rparr>"
      by (simp_all add: restoreCommitted_def op_bind_def op_read_def on_gateway_def)
    from assms q have "serves v = None \<or> is_err q \<and> serves v = serves (ia_world s)" unfolding gateway_ok_def by blast
    with s t None serves_known_cong[of t s serves] show ?thesis
      by (cases q) (auto simp: serves_known_def serves_committed_def same_option_def)
  next
    case (Some c)
    let ?P = "\<lambda>x. P x \<and> ifs_committed x = Some c"
    obtain q u where q: "on_gateway (gw_apply gw c) s = (q, u)" by fastforce
    have "outcome (at_store ?P serves) (on_gateway (gw_apply gw c))
        (\<lambda>_ h. at_store ?P serves h \<and> serves (ia_world h) = Some c) (at_store ?P serves)"
      by (rule outcome_apply[OF assms]) (simp add: held_def same_as_def)
    from outcomeD[OF this _ q] s Some
    have u: "case q of Inl _ \<Rightarrow> at_store ?P serves u | Inr _ \<Rightarrow> at_store ?P serves u \<and> serves (ia_world u) = Some c"
      by simp
    from run q Some have "(\<exists>e. q = Inl e \<and> r = Inl e \<and> t = u) \<or> (\<exists>x. q = Inr x \<and> t = u \<and> (r = Inr () \<or> is_err r))"
      by (cases q) (auto simp: restoreCommitted_def op_bind_def op_read_def split: if_splits)
    with u show ?thesis by (cases r) (auto simp: serves_committed_def)
  qed
qed

text \<open>An operation of the store on a known world.\<close>

lemma outcome_fences:
  assumes "gateway_ok gw serves"
    and "\<And>io s r t w. P \<lparr>ia_store = s, ia_world = w\<rparr> \<Longrightarrow> m io s = (r, t) \<Longrightarrow>
      (\<And>v. serves v = serves w \<Longrightarrow> case r of Inl _ \<Rightarrow> E \<lparr>ia_store = t, ia_world = v\<rparr> | Inr x \<Rightarrow> Q x \<lparr>ia_store = t, ia_world = v\<rparr>)"
  shows "outcome P (on_fences gw m) Q E"
proof (rule outcomeI)
  fix s r t
  assume s: "P s" and run: "on_fences gw m s = (r, t)"
  obtain io w where w: "gw_write gw (ia_world s) = (io, w)" by fastforce
  obtain q u where q: "m io (ia_store s) = (q, u)" by fastforce
  from run w q have t: "r = q" "t = \<lparr>ia_store = u, ia_world = w\<rparr>" by (simp_all add: on_fences_def)
  have "serves w = serves (ia_world s)" using assms(1) w unfolding gateway_ok_def by (metis snd_conv)
  moreover have "P \<lparr>ia_store = ia_store s, ia_world = ia_world s\<rparr>" using s by (cases s) simp
  ultimately show "case r of Inl _ \<Rightarrow> E t | Inr x \<Rightarrow> Q x t" using assms(2) q unfolding t by blast
qed

section \<open>The three operations\<close>

lemma ifs_Begin_held:
  "ifs_Begin io c s = (Inr st, t) \<Longrightarrow> held c t \<and> (st \<noteq> IngressPrepareCommitted \<longrightarrow> same_as (ifs_pending t) c)"
  by (auto simp: ifs_Begin_def held_def same_as_def written_as_def dest!: ifs_write_result
      split: if_splits option.splits)

lemma ifs_Abort_keeps_committed: "ifs_Abort io c s = (r, t) \<Longrightarrow> ifs_committed t = ifs_committed s"
  using ifs_Abort_effect[of io c s r t] same_memory_keeps(4) written_as_keeps(4) by fastforce

lemma begin_known:
  assumes "gateway_ok gw serves"
  shows "outcome (serves_known serves) (on_fences gw (\<lambda>io. ifs_Begin io c))
    (\<lambda>st. at_store (held c) serves) (serves_known serves)"
proof (rule outcome_fences[OF assms])
  fix io s r t w v
  assume known: "serves_known serves \<lparr>ia_store = s, ia_world = w\<rparr>" and run: "ifs_Begin io c s = (r, t)"
    and v: "serves v = serves w"
  have "serves_known serves \<lparr>ia_store = t, ia_world = v\<rparr>"
    using ifs_Begin_effect[OF run]
  proof
    assume "same_memory io s t \<and> r \<noteq> Inr IngressPrepareNew"
    with same_memory_keeps(4,5)[of io s t] known v show ?thesis by (simp add: serves_known_def serves_committed_def)
  next
    assume n: "r = Inr IngressPrepareNew \<and> validIngressCommand c \<and> ifs_pending s = None \<and> checkCandidateLocked c s = None \<and>
      written_as (s\<lparr>ifs_pending := Some c\<rparr>) t"
    then have "ifs_committed t = ifs_committed s" using written_as_keeps(4) by fastforce
    with n known v show ?thesis by (simp add: serves_known_def serves_committed_def)
  qed
  with ifs_Begin_held[of io c s _ t] run
  show "case r of Inl _ \<Rightarrow> serves_known serves \<lparr>ia_store = t, ia_world = v\<rparr>
     | Inr st \<Rightarrow> at_store (held c) serves \<lparr>ia_store = t, ia_world = v\<rparr>"
    by (cases r) auto
qed

lemma try_known:
  assumes "gateway_ok gw serves"
  shows "outcome (at_store (held c) serves) (try_configuration gw c)
    (\<lambda>_ h. at_store (held c) serves h \<and> serves (ia_world h) = Some c) (serves_known serves)"
proof -
  let ?R = "\<lambda>h. at_store (held c) serves h \<and> serves (ia_world h) = Some c"
  have probe: "outcome ?R (on_gateway (gw_probe gw c)) (\<lambda>_. ?R) (serves_known serves)"
  proof (rule outcomeI)
    fix s r t
    assume s: "?R s" and run: "on_gateway (gw_probe gw c) s = (r, t)"
    obtain q v where q: "gw_probe gw c (ia_world s) = (q, v)" by fastforce
    have "serves v = serves (ia_world s)" using assms q unfolding gateway_ok_def by (metis snd_conv)
    with run q have t: "t = s\<lparr>ia_world := v\<rparr>" "serves (ia_world t) = serves (ia_world s)" "ia_store t = ia_store s"
      by (auto simp: on_gateway_def)
    with s serves_known_cong[of t s serves] show "case r of Inl _ \<Rightarrow> serves_known serves t | Inr _ \<Rightarrow> ?R t"
      by (simp split: sum.split)
  qed
  have branch: "outcome ?R (if digest \<noteq> ing_ConfigDigest c then op_fail [ErrIngressConfiguration] else on_gateway (gw_probe gw c))
      (\<lambda>_. ?R) (serves_known serves)" for digest
    using probe by (auto intro: outcome_simple)
  have "outcome (at_store (held c) serves) (on_gateway (gw_apply gw c)) (\<lambda>_. ?R) (serves_known serves)"
    by (rule outcome_conseq[OF outcome_apply[OF assms, of "held c" c]]) auto
  from outcome_bind[OF this branch] show ?thesis unfolding try_configuration_def .
qed

lemma withdraw_known:
  assumes "gateway_ok gw serves"
  shows "outcome (serves_known serves) (withdraw gw c) (\<lambda>_. serves_known serves) E"
  unfolding withdraw_def
proof (rule outcome_bind[OF outcome_pre[OF outcome_try[OF outcome_restore[OF assms, of "\<lambda>_. True"]]]])
  fix restored :: "ingress_errors + unit"
  let ?P = "\<lambda>h. case restored of Inl _ \<Rightarrow> at_store (\<lambda>_. True) serves h
    | Inr _ \<Rightarrow> at_store (\<lambda>_. True) serves h \<and> serves_committed serves h"
  have "outcome (serves_committed serves) (on_fences gw (\<lambda>io. ifs_Abort io c)) (\<lambda>_. serves_known serves) (serves_known serves)"
  proof (rule outcome_fences[OF assms])
    fix io s r t w v
    assume "serves_committed serves \<lparr>ia_store = s, ia_world = w\<rparr>" "ifs_Abort io c s = (r, t)" "serves v = serves w"
    then have "serves_committed serves \<lparr>ia_store = t, ia_world = v\<rparr>"
      using ifs_Abort_keeps_committed by (simp add: serves_committed_def)
    then show "case r of Inl _ \<Rightarrow> serves_known serves \<lparr>ia_store = t, ia_world = v\<rparr>
      | Inr _ \<Rightarrow> serves_known serves \<lparr>ia_store = t, ia_world = v\<rparr>"
      by (simp add: serves_known_def split: sum.split)
  qed
  from outcome_try[OF this] have dropped: "outcome (serves_committed serves) (op_try (on_fences gw (\<lambda>io. ifs_Abort io c)))
      (\<lambda>_ :: ingress_errors + unit. serves_known serves) E"
    by (rule outcome_conseq) (auto split: sum.splits)
  show "outcome ?P (case restored of Inl _ \<Rightarrow> op_return ()
       | Inr _ \<Rightarrow> op_bind (op_try (on_fences gw (\<lambda>io. ifs_Abort io c))) (\<lambda>_ :: ingress_errors + unit. op_return ()))
      (\<lambda>_. serves_known serves) E"
  proof (cases restored)
    case (Inr u)
    have "outcome (serves_committed serves) (op_bind (op_try (on_fences gw (\<lambda>io. ifs_Abort io c)))
        (\<lambda>_ :: ingress_errors + unit. op_return ())) (\<lambda>_. serves_known serves) E"
      by (rule outcome_bind[OF dropped]) (simp add: outcome_simple)
    then show ?thesis unfolding Inr sum.case by (rule outcome_pre) simp
  qed (auto intro: outcome_simple)
qed simp

theorem prepare_outcome:
  assumes "gateway_ok gw serves"
  shows "outcome (serves_known serves) (ingress_Prepare gw c)
    (\<lambda>_ h. at_store (held c) serves h \<and> serves (ia_world h) = Some c) (serves_known serves)"
proof (cases "validIngressCommand c")
  case True
  let ?Q = "\<lambda>h. at_store (held c) serves h \<and> serves (ia_world h) = Some c"
  have run: "outcome (at_store (held c) serves) (op_bind (op_try (try_configuration gw c)) (\<lambda>tried :: ingress_errors + unit.
      case tried of
          Inr _ \<Rightarrow> op_return (ingress_answer c)
        | Inl e \<Rightarrow> op_bind (if state \<noteq> IngressPrepareCommitted then withdraw gw c else op_return ()) (\<lambda>_. op_fail e)))
      (\<lambda>_. ?Q) (serves_known serves)" for state
  proof (rule outcome_bind[OF outcome_try[OF try_known[OF assms]]])
    fix tried :: "ingress_errors + unit"
    have "outcome (serves_known serves) (op_bind (if state \<noteq> IngressPrepareCommitted then withdraw gw c else op_return ())
        (\<lambda>_. op_fail e)) (\<lambda>_. ?Q) (serves_known serves)" for e
      by (rule outcome_bind[where R = "\<lambda>_. serves_known serves"])
        (auto intro: outcome_simple withdraw_known[OF assms])
    then show "outcome (\<lambda>t. case tried of Inl _ \<Rightarrow> serves_known serves t | Inr x \<Rightarrow> ?Q t)
        (case tried of
          Inr _ \<Rightarrow> op_return (ingress_answer c)
        | Inl e \<Rightarrow> op_bind (if state \<noteq> IngressPrepareCommitted then withdraw gw c else op_return ()) (\<lambda>_. op_fail e))
        (\<lambda>_. ?Q) (serves_known serves)"
      by (cases tried) (auto intro: outcome_simple)
  qed
  show ?thesis unfolding ingress_Prepare_def using True outcome_bind[OF begin_known[OF assms] run] by simp
qed (simp add: ingress_Prepare_def outcome_simple)

lemma ifs_Commit_known:
  assumes "ifs_Commit io c s = (r, t)" "held c s"
  shows "held c t \<and> (r = Inr () \<longrightarrow> same_as (ifs_committed t) c)"
  using ifs_Commit_effect[OF assms(1)]
proof
  assume m: "same_memory io s t \<and> (r = Inr () \<longrightarrow> same_as (ifs_committed s) c \<and> t = s)"
  with same_memory_keeps(4,5)[of io s t] assms(2) show ?thesis by (auto simp: held_def)
next
  assume w: "r = Inr () \<and> validIngressCommand c \<and> same_as (ifs_pending s) c \<and>
      written_as (s\<lparr>ifs_committed := Some c, ifs_pending := None, ifs_entries := committed_fences c (ifs_entries s)\<rparr>) t"
  then have "ifs_committed t = Some c" using written_as_keeps(4) by fastforce
  then show ?thesis by (simp add: held_def same_as_def)
qed

theorem commit_outcome:
  assumes "gateway_ok gw serves"
  shows "outcome (serves_known serves) (ingress_Commit gw c)
    (\<lambda>_ h. same_as (ifs_committed (ia_store h)) c \<and> serves (ia_world h) = Some c) (serves_known serves)"
proof (cases "validIngressCommand c")
  case True
  let ?Q = "\<lambda>h. same_as (ifs_committed (ia_store h)) c \<and> serves (ia_world h) = Some c"
  let ?C = "\<lambda>already s. held c s \<and> (already \<longrightarrow> same_as (ifs_committed s) c)"
  have can: "outcome (serves_known serves) (op_read (\<lambda>h. ifs_CanCommit c (ia_store h)))
      (\<lambda>already. at_store (?C already) serves) (serves_known serves)"
    by (rule outcome_simple) (auto simp: ifs_CanCommit_def held_def split: if_splits)
  have fences: "outcome (\<lambda>h. at_store (held c) serves h \<and> serves (ia_world h) = Some c)
      (on_fences gw (\<lambda>io. ifs_Commit io c)) (\<lambda>_. ?Q) (serves_known serves)"
  proof (rule outcome_fences[OF assms])
    fix io s r t w v
    assume s: "at_store (held c) serves \<lparr>ia_store = s, ia_world = w\<rparr> \<and> serves (ia_world \<lparr>ia_store = s, ia_world = w\<rparr>) = Some c"
      and run: "ifs_Commit io c s = (r, t)" and v: "serves v = serves w"
    from s have "held c s" by simp
    note t = ifs_Commit_known[OF run this]
    have "serves_known serves \<lparr>ia_store = t, ia_world = v\<rparr>" by (rule serves_held[of c]) (use t s v in auto)
    with t s v show "case r of Inl _ \<Rightarrow> serves_known serves \<lparr>ia_store = t, ia_world = v\<rparr> | Inr _ \<Rightarrow> ?Q \<lparr>ia_store = t, ia_world = v\<rparr>"
      by (cases r) auto
  qed
  have branch: "outcome (\<lambda>h. at_store (?C already) serves h \<and> serves (ia_world h) = Some c)
      (if digest \<noteq> ing_ConfigDigest c then op_fail [ErrIngressConfiguration]
       else op_bind (if \<not> already then on_fences gw (\<lambda>io. ifs_Commit io c) else op_return ()) (\<lambda>_. op_return (ingress_answer c)))
      (\<lambda>_. ?Q) (serves_known serves)" for already digest
  proof (cases "digest = ing_ConfigDigest c")
    case True
    have "outcome (\<lambda>h. at_store (?C already) serves h \<and> serves (ia_world h) = Some c)
        (if \<not> already then on_fences gw (\<lambda>io. ifs_Commit io c) else op_return ()) (\<lambda>_. ?Q) (serves_known serves)"
      using outcome_pre[OF fences] by (auto intro: outcome_simple)
    then show ?thesis unfolding True by (auto intro: outcome_bind outcome_simple)
  qed (auto intro: outcome_simple)
  have rest: "outcome (at_store (?C already) serves) (op_bind (on_gateway (gw_apply gw c)) (\<lambda>digest.
      if digest \<noteq> ing_ConfigDigest c then op_fail [ErrIngressConfiguration]
      else op_bind (if \<not> already then on_fences gw (\<lambda>io. ifs_Commit io c) else op_return ()) (\<lambda>_. op_return (ingress_answer c))))
      (\<lambda>_. ?Q) (serves_known serves)" for already
  proof -
    have "outcome (at_store (?C already) serves) (on_gateway (gw_apply gw c))
        (\<lambda>_ h. at_store (?C already) serves h \<and> serves (ia_world h) = Some c) (serves_known serves)"
      by (rule outcome_conseq[OF outcome_apply[OF assms, of "?C already" c]]) auto
    from outcome_bind[OF this branch] show ?thesis .
  qed
  show ?thesis unfolding ingress_Commit_def using True outcome_bind[OF can rest] by simp
qed (simp add: ingress_Commit_def outcome_simple)

theorem abort_outcome:
  assumes "gateway_ok gw serves"
  shows "outcome (serves_known serves) (ingress_Abort gw c)
    (\<lambda>_ h. ifs_pending (ia_store h) = None \<and> serves_committed serves h) (serves_known serves)"
proof (cases "validIngressCommand c")
  case True
  let ?Q = "\<lambda>h. ifs_pending (ia_store h) = None \<and> serves_committed serves h"
  have can: "outcome (serves_known serves) (op_read (\<lambda>h. ifs_CanAbort c (ia_store h)))
      (\<lambda>already. at_store (\<lambda>s. already \<longrightarrow> ifs_pending s = None) serves) (serves_known serves)"
    by (rule outcome_simple) (auto simp: ifs_CanAbort_def split: if_splits option.splits)
  have fences: "outcome (serves_committed serves) (on_fences gw (\<lambda>io. ifs_Abort io c)) (\<lambda>_. ?Q) (serves_known serves)"
  proof (rule outcome_fences[OF assms])
    fix io s r t w v
    assume s: "serves_committed serves \<lparr>ia_store = s, ia_world = w\<rparr>" and run: "ifs_Abort io c s = (r, t)"
      and v: "serves v = serves w"
    have t: "serves_committed serves \<lparr>ia_store = t, ia_world = v\<rparr>"
      using s v ifs_Abort_keeps_committed[OF run] by (simp add: serves_committed_def)
    moreover have "ifs_pending t = None" if "r = Inr ()"
      using ifs_Abort_effect[OF run] that written_as_keeps(5) by fastforce
    ultimately show "case r of Inl _ \<Rightarrow> serves_known serves \<lparr>ia_store = t, ia_world = v\<rparr>
      | Inr _ \<Rightarrow> ?Q \<lparr>ia_store = t, ia_world = v\<rparr>"
      by (cases r) (auto simp: serves_known_def)
  qed
  have "outcome (at_store (\<lambda>_. True) serves) (op_bind (restoreCommitted gw) (\<lambda>_. on_fences gw (\<lambda>io. ifs_Abort io c)))
      (\<lambda>_. ?Q) (serves_known serves)"
    by (rule outcome_bind[OF outcome_conseq[OF outcome_restore[OF assms, of "\<lambda>_. True"]] fences]) auto
  then have "outcome (at_store (\<lambda>s. already \<longrightarrow> ifs_pending s = None) serves)
      (if \<not> already then op_bind (restoreCommitted gw) (\<lambda>_. on_fences gw (\<lambda>io. ifs_Abort io c)) else op_return ())
      (\<lambda>_. ?Q) (serves_known serves)" for already
    by (auto intro: outcome_pre outcome_simple simp: serves_known_def)
  from outcome_bind[OF can outcome_bind[OF this outcome_simple(1)]] True show ?thesis by (simp add: ingress_Abort_def)
qed (simp add: ingress_Abort_def outcome_simple)

end
