(* ===== verification/IngressProperties.thy ===== *)
theory IngressProperties
  imports IngressRestart IngressRuntime ProtocolProperties
begin

text \<open>
  The properties of the agent's ingress runtime: what its gateway serves, what its answers mean, that routes never go
  back to an older deployment, and that the fence store survives a restart.
\<close>

section \<open>Samples\<close>

text \<open>A gateway that is what it serves, and a store with nothing committed.\<close>

definition sample_gateway :: "IngressCommand option ingress_gateway" where
  "sample_gateway = \<lparr>gw_apply = \<lambda>c _. (Inr (ing_ConfigDigest c), Some c), gw_probe = \<lambda>_. op_return (),
     gw_clear = \<lambda>_. (Inr (), None), gw_write = \<lambda>w. (WriteOk, w)\<rparr>"

lemma sample_gateway_ok: "gateway_ok sample_gateway (\<lambda>w. w)"
  by (auto simp: gateway_ok_def sample_gateway_def op_return_def)

definition sample_fences :: FileIngressFenceStore where
  "sample_fences = \<lparr>ifs_maximum = 4, ifs_committed = None, ifs_pending = None, ifs_entries = Map.empty,
     ifs_file = IngressFileMissing\<rparr>"

lemma sample_fences_opens: "NewFileIngressFenceStore None 4 IngressFileMissing = Inr sample_fences"
  by (simp add: NewFileIngressFenceStore_def ifs_load_def sample_fences_def)

definition stored :: "FileIngressFenceStore \<Rightarrow> FileIngressFenceStore" where
  "stored s = s\<lparr>ifs_file := IngressFileDocument (ingress_document s)\<rparr>"

lemma stored_write:
  "length (json_ingress_store (ingress_document x)) \<le> maximumIngressStoreBytes \<Longrightarrow>
     ifs_write WriteOk s x ok = (Inr ok, stored x)"
  by (simp add: ifs_write_def ifs_persistLocked_def Let_def stored_def)

definition sample_prepared :: FileIngressFenceStore where
  "sample_prepared = stored (sample_fences\<lparr>ifs_pending := Some sample_ingress\<rparr>)"

definition sample_committed :: FileIngressFenceStore where
  "sample_committed = stored (sample_fences\<lparr>ifs_committed := Some sample_ingress,
     ifs_entries := [''r1'' \<mapsto> fence_of_route (sample_route ''r1'' ''a.example.com'')]\<rparr>)"

lemma decimal_length: "length (decimal w) \<le> 20"
  by (simp add: decimal_def decimal_fuel_length)

text \<open>One route and its watermark fit the file with room to spare.\<close>

definition small_route :: "IngressRoute \<Rightarrow> bool" where
  "small_route r \<longleftrightarrow> length (route_ID r) \<le> 128 \<and> length (route_DeploymentID r) \<le> 128 \<and>
     length (route_RuntimeTargetID r) \<le> 128 \<and> length (route_Hostname r) \<le> 253 \<and> length (route_BackendAlias r) \<le> 128 \<and>
     length (tls_text (route_TLSMode r)) \<le> 9"

lemma validIdentifier_128: "validIdentifier s \<Longrightarrow> length s \<le> 128"
  by (simp add: validIdentifier_def)

lemma valid_route_small: "validIngressRoute r \<Longrightarrow> small_route r"
  using matches_id_length[of label_edge ingress_alias_tail 127 "route_BackendAlias r"] validIdentifier_128
  by (auto simp: validIngressRoute_def small_route_def validIngressHostname_def ingressBackendAlias_def)

lemma json_route_length: "small_route r \<Longrightarrow> length (json_route (route_document r)) \<le> 2000"
  using decimal_length[of "route_Revision r"] decimal_length[of "route_CutoverSequence r"]
    decimal_length[of "ucast (route_BackendPort r)"]
  by (simp add: json_route_def json_fields_def quoted_def route_document_def small_route_def)

definition one_route :: "IngressRoute \<Rightarrow> IngressCommand \<Rightarrow> bool" where
  "one_route r c \<longleftrightarrow> ing_Routes c = [r] \<and> length (ing_ConfigDigest c) = 71 \<and> ing_ProbeRouteIDs c = [route_ID r]"

lemma json_config_length:
  assumes "one_route r c" "small_route r"
  shows "length (json_config (the (ingressConfigDocumentFromDomain (Some c)))) \<le> 4000"
  using assms json_route_length[OF assms(2)] decimal_length[of "ing_HostRevision c"]
  by (simp add: json_config_def json_fields_def json_array_def quoted_def ingressConfigDocumentFromDomain_def one_route_def
      small_route_def)

lemma json_fence_length:
  assumes "length i \<le> 128" "length (fence_deploymentID f) \<le> 128" "length (fence_specDigest f) \<le> 71"
  shows "length (json_fence (fence_document i f)) \<le> 2000"
  using assms decimal_length[of "fence_revision f"] decimal_length[of "fence_cutoverSequence f"]
  by (simp add: json_fence_def json_fields_def json_bool_def quoted_def fence_document_def)

lemma route_digest_length: "validIngressRoute r \<Longrightarrow> length (route_digest r) = 71"
  by (simp add: route_digest_def IngressRouteSpecDigest_def)

lemma one_route_fits:
  assumes "one_route r c" "validIngressRoute r"
    and "ifs_committed s \<in> {None, Some c}" "ifs_pending s \<in> {None, Some c}"
    and "ifs_entries s \<in> {Map.empty, [route_ID r \<mapsto> fence_of_route r]}"
  shows "length (json_ingress_store (ingress_document s)) \<le> maximumIngressStoreBytes"
proof -
  note small = valid_route_small[OF assms(2)]
  have fence: "length (json_fence (fence_document (route_ID r) (fence_of_route r))) \<le> 2000"
    using small route_digest_length[OF assms(2)] by (intro json_fence_length) (simp_all add: small_route_def fence_of_route_def)
  have config: "length (json_config d) \<le> 4000" if "ingressConfigDocumentFromDomain x = Some d" "x \<in> {None, Some c}" for x d
    using that json_config_length[OF assms(1) small] by (auto simp: ingressConfigDocumentFromDomain_def)
  have entries: "length (json_array (map json_fence (isd_Entries (ingress_document s)))) \<le> 2100"
    using assms(5) fence by (auto simp: ingress_document_def json_array_def)
  show ?thesis
    using config[of "ifs_committed s"] config[of "ifs_pending s"] assms(3,4) entries
    by (auto simp: json_ingress_store_def json_fields_def quoted_def ingress_document_def maximumIngressStoreBytes_def
        split: option.split)
qed

lemma sample_one_route: "one_route (sample_route ''r1'' ''a.example.com'') sample_ingress"
  by (simp add: one_route_def sample_ingress_def sample_route_def)

lemma sample_begins:
  "ifs_Begin WriteOk sample_ingress sample_fences = (Inr IngressPrepareNew, sample_prepared)"
proof -
  have "length (json_ingress_store (ingress_document (sample_fences\<lparr>ifs_pending := Some sample_ingress\<rparr>))) \<le>
      maximumIngressStoreBytes"
    by (rule one_route_fits[OF sample_one_route sample_route_valid]) (simp_all add: sample_fences_def)
  moreover have "checkCandidateLocked sample_ingress sample_fences = None"
    by (simp add: checkCandidateLocked_def sample_fences_def sample_ingress_def)
  moreover have "ifs_pending sample_fences = None" "ifs_committed sample_fences = None"
    by (simp_all add: sample_fences_def)
  ultimately show ?thesis
    using sample_ingress_valid by (simp add: ifs_Begin_def same_as_def stored_write sample_prepared_def)
qed

lemma sample_commits: "ifs_Commit WriteOk sample_ingress sample_prepared = (Inr (), sample_committed)"
proof -
  let ?s = "sample_fences\<lparr>ifs_committed := Some sample_ingress,
     ifs_entries := [''r1'' \<mapsto> fence_of_route (sample_route ''r1'' ''a.example.com'')]\<rparr>"
  have id: "route_ID (sample_route ''r1'' ''a.example.com'') = ''r1''" by (simp add: sample_route_def)
  have fits: "length (json_ingress_store (ingress_document ?s)) \<le> maximumIngressStoreBytes"
    by (rule one_route_fits[OF sample_one_route sample_route_valid]) (simp_all add: sample_fences_def id)
  have "committed_fences sample_ingress Map.empty = [''r1'' \<mapsto> fence_of_route (sample_route ''r1'' ''a.example.com'')]"
    by (simp add: committed_fences_def sample_ingress_def id)
  then have "sample_prepared\<lparr>ifs_committed := Some sample_ingress, ifs_pending := None,
      ifs_entries := committed_fences sample_ingress (ifs_entries sample_prepared)\<rparr> = ?s\<lparr>ifs_file := ifs_file sample_prepared\<rparr>"
    by (simp add: sample_prepared_def stored_def sample_fences_def)
  moreover have "ingress_document (?s\<lparr>ifs_file := f\<rparr>) = ingress_document ?s" for f
    by (simp add: ingress_document_def)
  moreover have "same_as (ifs_pending sample_prepared) sample_ingress" "\<not> same_as (ifs_committed sample_prepared) sample_ingress"
    by (simp_all add: sample_prepared_def stored_def sample_fences_def same_as_def)
  ultimately show ?thesis using sample_ingress_valid fits
    by (simp add: ifs_Commit_def stored_write sample_committed_def) (simp add: stored_def)
qed

section \<open>The gateway\<close>

lemma by_kind_outcome:
  assumes "ingress_by_kind gw kind = Some run" "gateway_ok gw serves"
  shows "outcome (serves_known serves) (run c)
    (\<lambda>a h. serves_known serves h \<and>
      (kind = AgentCommandIngressPrepare \<longrightarrow> held c (ia_store h) \<and> serves (ia_world h) = Some c) \<and>
      (kind = AgentCommandIngressCommit \<longrightarrow> same_as (ifs_committed (ia_store h)) c \<and> serves (ia_world h) = Some c) \<and>
      (kind = AgentCommandIngressAbort \<longrightarrow> ifs_pending (ia_store h) = None \<and> serves_committed serves h))
    (serves_known serves)"
proof -
  consider "kind = AgentCommandIngressPrepare" "run = ingress_Prepare gw" | "kind = AgentCommandIngressCommit" "run = ingress_Commit gw"
    | "kind = AgentCommandIngressAbort" "run = ingress_Abort gw"
    using assms(1) by (auto simp: ingress_by_kind_def split: AgentCommandKind.splits)
  then show ?thesis
  proof cases
    case 1
    show ?thesis unfolding 1 by (rule outcome_conseq[OF prepare_outcome[OF assms(2)]]) auto
  next
    case 2
    show ?thesis unfolding 2
      by (rule outcome_conseq[OF commit_outcome[OF assms(2)]]) (auto simp: held_def intro: serves_held)
  next
    case 3
    show ?thesis unfolding 3 by (rule outcome_conseq[OF abort_outcome[OF assms(2)]]) (auto simp: serves_known_def)
  qed
qed

text \<open>
  C18: whatever an ingress command comes to, and at whatever call it fails, the gateway serves the configuration
  the store holds as committed or the one it holds as prepared; where none is prepared it serves the committed one.
\<close>

theorem gateway_serves_known_configuration:
  assumes "gateway_ok gw serves" "serves_known serves h" "ingress_by_kind gw kind = Some run" "run c h = (r, k)"
  shows "serves_known serves k \<and> (ifs_pending (ia_store k) = None \<longrightarrow>
    same_option (serves (ia_world k)) (ifs_committed (ia_store k)))"
proof -
  have "serves_known serves k"
    using outcomeD[OF by_kind_outcome[OF assms(3,1)] assms(2,4)] by (cases r) auto
  then show ?thesis by (auto simp: serves_known_def serves_committed_def)
qed

definition sample_ingress_agent :: "IngressCommand option ingress_agent" where
  "sample_ingress_agent = \<lparr>ia_store = sample_fences, ia_world = None\<rparr>"

lemma sample_known: "serves_known (\<lambda>w. w) sample_ingress_agent"
  by (simp add: serves_known_def serves_committed_def sample_ingress_agent_def sample_fences_def same_option_def)

lemma sample_prepares:
  "ingress_Prepare sample_gateway sample_ingress sample_ingress_agent =
    (Inr (ingress_answer sample_ingress), \<lparr>ia_store = sample_prepared, ia_world = Some sample_ingress\<rparr>)"
  using sample_ingress_valid sample_begins
  by (simp add: ingress_Prepare_def on_fences_def on_gateway_def try_configuration_def op_bind_def op_try_def op_return_def
      sample_gateway_def sample_ingress_agent_def)

lemma sample_ingress_commits:
  "ingress_Commit sample_gateway sample_ingress \<lparr>ia_store = sample_prepared, ia_world = Some sample_ingress\<rparr> =
    (Inr (ingress_answer sample_ingress), \<lparr>ia_store = sample_committed, ia_world = Some sample_ingress\<rparr>)"
proof -
  have "ifs_CanCommit sample_ingress sample_prepared = Inr False"
    using sample_ingress_valid
    by (simp add: ifs_CanCommit_def sample_prepared_def stored_def sample_fences_def same_as_def)
  then show ?thesis using sample_ingress_valid sample_commits
    by (simp add: ingress_Commit_def on_fences_def on_gateway_def op_bind_def op_read_def op_return_def sample_gateway_def)
qed

lemma sample_kinds:
  "ingress_by_kind gw AgentCommandIngressPrepare = Some (ingress_Prepare gw)"
  "ingress_by_kind gw AgentCommandIngressCommit = Some (ingress_Commit gw)"
  by (simp_all add: ingress_by_kind_def)

theorem gateway_serves_known_configuration_witness:
  "serves_known (\<lambda>w. w) \<lparr>ia_store = sample_prepared, ia_world = Some sample_ingress\<rparr>"
  using gateway_serves_known_configuration[OF sample_gateway_ok sample_known sample_kinds(1) sample_prepares] by blast

text \<open>
  C21: an ingress command that is answered with success has done what the server is told: after a preparation the
  configuration is served and held by the store, after a commit it is served and committed, after an abort
  nothing is prepared and the gateway is back at the committed configuration.
\<close>

theorem ingress_answer_is_true:
  assumes "gateway_ok gw serves" "serves_known serves h" "ingress_by_kind gw kind = Some run" "run c h = (Inr a, k)"
  shows "(kind = AgentCommandIngressPrepare \<longrightarrow> held c (ia_store k) \<and> serves (ia_world k) = Some c) \<and>
    (kind = AgentCommandIngressCommit \<longrightarrow> same_as (ifs_committed (ia_store k)) c \<and> serves (ia_world k) = Some c) \<and>
    (kind = AgentCommandIngressAbort \<longrightarrow> ifs_pending (ia_store k) = None \<and> serves_committed serves k)"
  using outcomeD[OF by_kind_outcome[OF assms(3,1)] assms(2,4)] by simp

theorem ingress_answer_is_true_witness:
  "same_as (ifs_committed sample_committed) sample_ingress"
proof -
  have "serves_known (\<lambda>w. w) \<lparr>ia_store = sample_prepared, ia_world = Some sample_ingress\<rparr>"
    by (rule serves_held[of sample_ingress])
      (simp_all add: held_def sample_prepared_def stored_def same_as_def)
  from ingress_answer_is_true[OF sample_gateway_ok this sample_kinds(2) sample_ingress_commits] show ?thesis by simp
qed

section \<open>Routes\<close>

lemma committed_watermark:
  assumes "istore_ok s" "ifs_committed s = Some a" "r \<in> set (ing_Routes a)"
  shows "\<exists>f. ifs_entries s (route_ID r) = Some f \<and> fence_matches f r"
proof -
  have v: "validIngressCommand a" and m: "entries_match (ifs_entries s) (active_routes (Some a))"
    using assms(1,2) by (auto simp: istore_ok_def validLoadedState_def)
  have r: "active_routes (Some a) (route_ID r) = Some r" using active_routes_iff[OF v] assms(3) by blast
  then have "route_ID r \<in> dom (ifs_entries s)" using m by (auto simp: entries_match_def)
  then obtain f where f: "ifs_entries s (route_ID r) = Some f" by blast
  with m r have "fence_matches f r" unfolding entries_match_def by (metis domI option.case(2) option.sel)
  with f show ?thesis by blast
qed

text \<open>
  C19: over any commands in any order, whatever the state file does, a route never goes back: of two configurations
  committed one after the other the later one has no lower revision of the host, and gives a route they share no lower
  revision and no older cutover; the same cutover is of the same deployment, the same revision of the same
  specification. This holds up to a collision of SHA-256 among the commands.
\<close>

theorem routes_never_go_back:
  assumes "istore_ok s" "drawn_from cs s" "no_collision cs" "(ingress_step ios cs)\<^sup>*\<^sup>* s t"
    and "ifs_committed s = Some a" "ifs_committed t = Some b"
    and "r \<in> set (ing_Routes a)" "q \<in> set (ing_Routes b)" "route_ID q = route_ID r"
  shows "ing_HostRevision a \<le> ing_HostRevision b \<and> route_Revision r \<le> route_Revision q \<and>
    route_CutoverSequence r \<le> route_CutoverSequence q \<and>
    (route_CutoverSequence r = route_CutoverSequence q \<longrightarrow> route_DeploymentID r = route_DeploymentID q) \<and>
    (route_Revision r = route_Revision q \<longrightarrow> route_digest r = route_digest q)"
proof -
  note kept = steps_keep[OF assms(4,3,1,2), of "route_ID r"]
  obtain f where f: "ifs_entries s (route_ID r) = Some f" "fence_matches f r"
    using committed_watermark[OF assms(1,5,7)] by blast
  from kept have "istore_ok t" by blast
  from committed_watermark[OF this assms(6,8)] obtain g where "ifs_entries t (route_ID r) = Some g" "fence_matches g q"
    unfolding assms(9) by blast
  with f kept assms(5,6) show ?thesis by (simp add: fence_le_def fence_matches_def host_revision_def)
qed

lemma sample_no_collision: "no_collision {sample_ingress}"
  by (simp add: no_collision_def)

lemma sample_steps: "(ingress_step {WriteOk, WriteFailed} {sample_ingress})\<^sup>*\<^sup>* sample_fences sample_committed"
proof -
  have "ingress_step {WriteOk, WriteFailed} {sample_ingress} sample_fences sample_prepared"
    by (rule begun[OF _ _ sample_begins]) simp_all
  moreover have "ingress_step {WriteOk, WriteFailed} {sample_ingress} sample_prepared sample_committed"
    by (rule committed[OF _ _ sample_commits]) simp_all
  ultimately show ?thesis by (meson rtranclp.rtrancl_into_rtrancl rtranclp.rtrancl_refl)
qed

lemma sample_drawn: "drawn_from {sample_ingress} sample_fences"
  by (simp add: drawn_from_def sample_fences_def)

theorem routes_never_go_back_witness:
  "ing_HostRevision sample_ingress \<le> ing_HostRevision sample_ingress"
proof -
  have ok: "istore_ok sample_committed"
    using steps_keep[OF sample_steps sample_no_collision _ sample_drawn] opened_ok[OF sample_fences_opens] by blast
  have "ifs_committed sample_committed = Some sample_ingress" "drawn_from {sample_ingress} sample_committed"
    by (simp_all add: sample_committed_def stored_def drawn_from_def sample_fences_def)
  moreover have "sample_route ''r1'' ''a.example.com'' \<in> set (ing_Routes sample_ingress)" by (simp add: sample_ingress_def)
  ultimately show ?thesis
    using routes_never_go_back[OF ok _ sample_no_collision rtranclp.rtrancl_refl] by blast
qed

section \<open>Restart\<close>

text \<open>
  C20: a store opened on a state file, used for any commands whose writes take effect or fail as a whole, is what a
  restarted agent opens on the file it left: the committed configuration, the prepared one and every watermark.
  The identifiers in the commands start with a letter or digit, which the protocol does not ask for.
\<close>

theorem ingress_store_survives_restart:
  assumes "NewFileIngressFenceStore directory k f = Inr s" "drawn_from cs s" "no_collision cs"
    and "\<forall>c \<in> cs. state_identifiers c" "(ingress_step {WriteOk, WriteFailed} cs)\<^sup>*\<^sup>* s t"
  shows "NewFileIngressFenceStore None k (ifs_file t) = Inr t"
proof -
  note s = opened_ok[OF assms(1)]
  from s have ok: "istore_ok s" "fences_valid (ifs_entries s)" "ingress_synced s" "ifs_maximum s = k" by blast+
  from steps_synced[OF assms(5,3) ok(1) assms(2,4) ok(2,3)] have "ingress_synced t" by blast
  moreover from steps_keep[OF assms(5,3) ok(1) assms(2)] ok(4) have "ifs_maximum t = k" by simp
  moreover have "1 \<le> k" "k \<le> 65536" using ok(1,4) by (auto simp: istore_ok_def)
  ultimately show ?thesis by (simp add: NewFileIngressFenceStore_def ingress_synced_def)
qed

theorem ingress_store_survives_restart_witness:
  "NewFileIngressFenceStore None 4 (ifs_file sample_committed) = Inr sample_committed"
proof -
  have "ingressStateIdentifier ''r1''" "ingressStateIdentifier ''d1''" by code_simp+
  then have "\<forall>c \<in> {sample_ingress}. state_identifiers c"
    by (simp add: state_identifiers_def sample_ingress_def sample_route_def)
  from ingress_store_survives_restart[OF sample_fences_opens sample_drawn sample_no_collision this sample_steps]
  show ?thesis .
qed

text \<open>
  The protocol lets an identifier start with an underscore: such a route is prepared and committed, and its watermark
  is written to the file, which no restarted agent accepts any more.
\<close>

lemma underscore_identifier:
  "validIdentifier ''_r1'' \<and> \<not> ingressStateIdentifier ''_r1''"
  by code_simp

lemma refused_watermark_refuses_file:
  assumes "ifs_entries s i = Some f" "finite (dom (ifs_entries s))" "\<not> ingressStateIdentifier i"
  shows "load_fences (isd_Entries (ingress_document s)) Map.empty = None"
proof -
  let ?e = "fence_document i f"
  have "?e \<in> set (isd_Entries (ingress_document s))"
    using assms(1,2) by (force simp: ingress_document_def)
  moreover have "\<not> validIngressStoreEntry ?e" using assms(3) by (simp add: validIngressStoreEntry_def)
  moreover have "?e \<in> set es \<Longrightarrow> load_fences es m = None" if "\<not> validIngressStoreEntry ?e" for es m
    using that by (induction es arbitrary: m) auto
  ultimately show ?thesis by blast
qed

lemma underscore_route_blocks_restart:
  assumes "istore_ok s" "ifs_committed s = Some c" "r \<in> set (ing_Routes c)" "\<not> ingressStateIdentifier (route_ID r)"
    and "ifs_file s = IngressFileDocument (ingress_document s)"
  shows "is_err (NewFileIngressFenceStore None k (ifs_file s))"
proof -
  obtain f where "ifs_entries s (route_ID r) = Some f" using committed_watermark[OF assms(1-3)] by blast
  moreover have "finite (dom (ifs_entries s))" using assms(1) by (simp add: istore_ok_def)
  ultimately have "load_fences (isd_Entries (ingress_document s)) Map.empty = None"
    using refused_watermark_refuses_file assms(4) by blast
  then show ?thesis unfolding assms(5)
    by (auto simp: NewFileIngressFenceStore_def ifs_load_def load_ingress_document_def bind_result_def split: sum.split)
qed

end
