(* ===== verification/AppRoute.thy ===== *)
theory AppRoute
  imports DeploymentTypes IngressCommand RuntimeSpec
begin

text \<open>
  Application routes (\<open>internal/modules/applicationroute/biz/route.go\<close>): the route record, the rules
  \<open>NewApplicationRoute\<close> checks and the life-cycle operations. A route is desired by its owner under a
  revision and observed by the controller; every operation raises the version the repository fences on.
\<close>

section \<open>Types\<close>

text \<open>
  The sentinel errors of the module. \<open>ErrRouteDeployment\<close> embeds an error of the deployment module or of
  a collaborator behind an interface.
\<close>

datatype route_error =
    ErrInvalidRoute
  | ErrRouteConflict
  | ErrRouteNotFound
  | ErrReferenceNotFound
  | ErrUnsupportedTarget
  | ErrRouteLimitExceeded
  | ErrRouteUnavailable
  | ErrRouteRetirementUnavailable
  | ErrRouteRetirementPending
  | ErrRouteRetirementConflict
  | ErrReconciliationUnavailable
  | ErrReconciliationPending
  | ErrReconciliationConflict
  | ErrReconciliationConfiguration
  | ErrHostOperationPending
  | ErrRouteCutoverUnavailable
  | ErrRouteCutoverConflict
  | ErrRouteCutoverAmbiguous
  | ErrGatewayUnavailable
  | ErrGatewayFenceStale
  | ErrGatewayFenceConflict
  | ErrGatewayConfiguration
  | ErrGatewayStateFull
  | ErrGatewayPortConflict
  | ErrGatewayCertificateUnavailable
  | ErrGatewayBackendUnhealthy
  | ErrManagedIngressUnavailable
  | ErrInvalidIngressDrain
  | ErrMissingExecutionResolver
  | ErrMissingCredentialResolver
  | ErrMissingRuntimeGateway
  | ErrRegistryResolverRequired
  | ErrConfigurationResolverRequired
  | ErrLimitOutOfRange
  | ErrRouteSecurity security_error
  | ErrRouteDeployment dep_error

datatype TLSMode = TLSModeAutomatic | TLSModeDisabled | TLSModeOther string

fun TLSMode_Valid :: "TLSMode \<Rightarrow> bool" where
  "TLSMode_Valid (TLSModeOther _) = False"
| "TLSMode_Valid _ = True"

datatype RouteStatus =
    RoutePending
  | RouteProvisioning
  | RouteReady
  | RouteDegraded
  | RouteRetiring
  | RouteRetired
  | RouteStatusOther string

fun RouteStatus_Valid :: "RouteStatus \<Rightarrow> bool" where
  "RouteStatus_Valid (RouteStatusOther _) = False"
| "RouteStatus_Valid _ = True"

datatype CertificateStatus =
    CertificatePending
  | CertificateReady
  | CertificateFailed
  | CertificateNotApplicable
  | CertificateOther string

fun CertificateStatus_Valid :: "CertificateStatus \<Rightarrow> bool" where
  "CertificateStatus_Valid (CertificateOther _) = False"
| "CertificateStatus_Valid _ = True"

text \<open>The empty code of a route that is not degraded is \<open>RouteFailureOther []\<close>.\<close>

datatype FailureCode =
    RouteFailureGatewayUnavailable
  | RouteFailureRuntimeUnavailable
  | RouteFailurePortConflict
  | RouteFailureCertificateUnavailable
  | RouteFailureBackendUnhealthy
  | RouteFailureFenceConflict
  | RouteFailureStateFull
  | RouteFailureConfiguration
  | RouteFailureCanceled
  | RouteFailureUnknown
  | RouteFailureOther string

fun FailureCode_Valid :: "FailureCode \<Rightarrow> bool" where
  "FailureCode_Valid (RouteFailureOther _) = False"
| "FailureCode_Valid _ = True"

abbreviation NoRouteFailure :: FailureCode where
  "NoRouteFailure \<equiv> RouteFailureOther []"

record RouteObservation =
  ro_Revision :: u64
  ro_DeploymentID :: string
  ro_CutoverSequence :: u64
  ro_ConfigDigest :: string
  ro_CertificateStatus :: CertificateStatus
  ro_ObservedAt :: time

record Retirement =
  ret_ActorID :: string
  ret_RequestID :: string
  ret_StartedAt :: time

text \<open>\<open>Input\<close> has the fields of \<open>ApplicationRoute\<close>: one record models both.\<close>

record ApplicationRoute =
  ar_ID :: string
  ar_OrganizationID :: string
  ar_ProjectID :: string
  ar_ApplicationID :: string
  ar_EnvironmentID :: string
  ar_RuntimeTargetID :: string
  ar_Hostname :: string
  ar_PortName :: string
  ar_TLSMode :: TLSMode
  ar_Status :: RouteStatus
  ar_Revision :: u64
  ar_Version :: u64
  ar_Observation :: "RouteObservation option"
  ar_Retirement :: "Retirement option"
  ar_FailureCode :: FailureCode
  ar_CreatedBy :: string
  ar_UpdatedBy :: string
  ar_CreatedAt :: time
  ar_UpdatedAt :: time

section \<open>Rules of the fields\<close>

definition route_id_tail :: "char \<Rightarrow> bool" where
  "route_id_tail c \<longleftrightarrow> is_alnum c \<or> c \<in> set ''._:-''"

definition validRouteID :: "string \<Rightarrow> bool" where
  "validRouteID value = matches_id is_alnum route_id_tail 127 value"

definition routePortName :: "string \<Rightarrow> bool" where
  "routePortName s = matches_id is_lower port_name_tail 31 s"

definition routeDigest :: "string \<Rightarrow> bool" where
  "routeDigest s \<longleftrightarrow> has_prefix s ''sha256:'' \<and> length (drop 7 s) = 64 \<and> list_all is_lower_hex_digit (drop 7 s)"

text \<open>
  \<open>strings.ToLower\<close> as far as a host name can show it: the ASCII letters, and the two characters beyond
  ASCII with an ASCII lower case, the Kelvin sign and the dotted capital I. Every other character beyond ASCII
  stays beyond ASCII and is refused by the label pattern.
\<close>

fun lower_text :: "string \<Rightarrow> string" where
  "lower_text [] = []"
| "lower_text (c # cs) =
     (if has_prefix (c # cs) [CHR 0xE2, CHR 0x84, CHR 0xAA] then CHR ''k'' # lower_text (drop 2 cs)
      else if has_prefix (c # cs) [CHR 0xC4, CHR 0xB0] then CHR ''i'' # lower_text (drop 1 cs)
      else lower_char c # lower_text cs)"

definition normalizeHostname :: "string \<Rightarrow> string" where
  "normalizeHostname value = lower_text (trim_space value)"

definition validHostname :: "string \<Rightarrow> TLSMode \<Rightarrow> bool" where
  "validHostname value tlsMode \<longleftrightarrow>
     \<not> (value = [] \<or> 253 < length value \<or> has_suffix value ''.'' \<or> CHR '':'' \<in> set value \<or>
        parses_as_ipv4 value) \<and>
     (let labels = split_char CHR ''.'' value in
      list_all ingressHostnameLabel labels \<and>
      \<not> (tlsMode = TLSModeAutomatic \<and> (length labels < 2 \<or> value = ''localhost'' \<or>
         has_suffix value ''.localhost'' \<or> has_suffix value ''.local'' \<or> has_suffix value ''.internal'' \<or>
         has_suffix value ''.home.arpa'')))"

definition cloneObservation :: "RouteObservation option \<Rightarrow> RouteObservation option" where
  "cloneObservation = map_option (\<lambda>ob. ob\<lparr>ro_DeploymentID := trim_space (ro_DeploymentID ob),
     ro_ConfigDigest := trim_space (ro_ConfigDigest ob), ro_ObservedAt := utc (ro_ObservedAt ob)\<rparr>)"

definition cloneRetirement :: "Retirement option \<Rightarrow> Retirement option" where
  "cloneRetirement = map_option (\<lambda>x. x\<lparr>ret_ActorID := trim_space (ret_ActorID x),
     ret_RequestID := trim_space (ret_RequestID x), ret_StartedAt := utc (ret_StartedAt x)\<rparr>)"

definition validRetirement :: "ApplicationRoute \<Rightarrow> bool" where
  "validRetirement r \<longleftrightarrow>
     (if ar_Status r \<noteq> RouteRetiring then ar_Retirement r = None
      else (case ar_Retirement r of
        None \<Rightarrow> False
      | Some x \<Rightarrow> validRouteID (ret_ActorID x) \<and> \<not> is_zero (ret_StartedAt x) \<and>
          \<not> ret_StartedAt x < ar_CreatedAt r \<and> \<not> after (ret_StartedAt x) (ar_UpdatedAt r)))"

definition validObservation :: "ApplicationRoute \<Rightarrow> bool" where
  "validObservation r =
     (case ar_Observation r of
        None \<Rightarrow> ar_Status r \<noteq> RouteReady
      | Some ob \<Rightarrow>
          if ro_Revision ob = 0 \<or> ar_Revision r < ro_Revision ob \<or> \<not> validRouteID (ro_DeploymentID ob) \<or>
             ro_CutoverSequence ob = 0 \<or> \<not> routeDigest (ro_ConfigDigest ob) \<or>
             \<not> CertificateStatus_Valid (ro_CertificateStatus ob) \<or> is_zero (ro_ObservedAt ob)
          then False
          else if ar_Status r = RouteReady then
            if ro_Revision ob \<noteq> ar_Revision r then False
            else ar_TLSMode r = TLSModeAutomatic \<and> ro_CertificateStatus ob = CertificateReady \<or>
                 ar_TLSMode r = TLSModeDisabled \<and> ro_CertificateStatus ob = CertificateNotApplicable
          else True)"

section \<open>NewApplicationRoute\<close>

definition normalized_route :: "ApplicationRoute \<Rightarrow> ApplicationRoute" where
  "normalized_route i =
     \<lparr>ar_ID = trim_space (ar_ID i), ar_OrganizationID = trim_space (ar_OrganizationID i),
       ar_ProjectID = trim_space (ar_ProjectID i), ar_ApplicationID = trim_space (ar_ApplicationID i),
       ar_EnvironmentID = trim_space (ar_EnvironmentID i), ar_RuntimeTargetID = trim_space (ar_RuntimeTargetID i),
       ar_Hostname = normalizeHostname (ar_Hostname i), ar_PortName = trim_space (ar_PortName i),
       ar_TLSMode = ar_TLSMode i, ar_Status = ar_Status i, ar_Revision = ar_Revision i, ar_Version = ar_Version i,
       ar_Observation = cloneObservation (ar_Observation i), ar_Retirement = cloneRetirement (ar_Retirement i),
       ar_FailureCode = ar_FailureCode i, ar_CreatedBy = trim_space (ar_CreatedBy i),
       ar_UpdatedBy = trim_space (ar_UpdatedBy i), ar_CreatedAt = utc (ar_CreatedAt i),
       ar_UpdatedAt = utc (ar_UpdatedAt i)\<rparr>"

definition valid_route_fields :: "ApplicationRoute \<Rightarrow> bool" where
  "valid_route_fields r \<longleftrightarrow>
     validRouteID (ar_ID r) \<and> validRouteID (ar_OrganizationID r) \<and> validRouteID (ar_ProjectID r) \<and>
     validRouteID (ar_ApplicationID r) \<and> validRouteID (ar_EnvironmentID r) \<and> validRouteID (ar_RuntimeTargetID r) \<and>
     validHostname (ar_Hostname r) (ar_TLSMode r) \<and> routePortName (ar_PortName r) \<and>
     TLSMode_Valid (ar_TLSMode r) \<and> RouteStatus_Valid (ar_Status r) \<and> ar_Revision r \<noteq> 0 \<and>
     ar_Version r \<noteq> 0 \<and> \<not> ar_Version r < ar_Revision r \<and>
     validRouteID (ar_CreatedBy r) \<and> validRouteID (ar_UpdatedBy r) \<and> \<not> is_zero (ar_CreatedAt r) \<and>
     \<not> is_zero (ar_UpdatedAt r) \<and> \<not> ar_UpdatedAt r < ar_CreatedAt r"

definition valid_failure_code :: "ApplicationRoute \<Rightarrow> bool" where
  "valid_failure_code r \<longleftrightarrow>
     \<not> (ar_Status r = RouteDegraded \<and> \<not> FailureCode_Valid (ar_FailureCode r) \<or>
        ar_Status r \<noteq> RouteDegraded \<and> ar_FailureCode r \<noteq> NoRouteFailure)"

definition NewApplicationRoute :: "ApplicationRoute \<Rightarrow> route_error + ApplicationRoute" where
  "NewApplicationRoute input =
     (let r = normalized_route input in
      if \<not> valid_route_fields r then Inl ErrInvalidRoute
      else if \<not> validObservation r then Inl ErrInvalidRoute
      else if \<not> validRetirement r then Inl ErrInvalidRoute
      else if \<not> valid_failure_code r then Inl ErrInvalidRoute
      else Inr r)"

section \<open>The life cycle\<close>

fun validTransition :: "RouteStatus \<Rightarrow> RouteStatus \<Rightarrow> bool" where
  "validTransition RoutePending n \<longleftrightarrow> n = RouteProvisioning \<or> n = RouteRetiring"
| "validTransition RouteProvisioning n \<longleftrightarrow> n = RouteDegraded \<or> n = RouteRetiring"
| "validTransition RouteReady n \<longleftrightarrow>
     n = RoutePending \<or> n = RouteProvisioning \<or> n = RouteDegraded \<or> n = RouteRetiring"
| "validTransition RouteDegraded n \<longleftrightarrow> n = RoutePending \<or> n = RouteProvisioning \<or> n = RouteRetiring"
| "validTransition RouteRetiring n \<longleftrightarrow> n = RouteRetired"
| "validTransition _ n \<longleftrightarrow> False"

text \<open>The fields every life-cycle operation sets: the status, the version, who and when.\<close>

definition moved_to :: "RouteStatus \<Rightarrow> string \<Rightarrow> time \<Rightarrow> ApplicationRoute \<Rightarrow> ApplicationRoute" where
  "moved_to s actorID now r = r\<lparr>ar_Status := s, ar_Version := ar_Version r + 1, ar_UpdatedBy := actorID,
     ar_UpdatedAt := utc now\<rparr>"

definition Route_Degrade :: "ApplicationRoute \<Rightarrow> FailureCode \<Rightarrow> string \<Rightarrow> time \<Rightarrow> route_error + ApplicationRoute" where
  "Route_Degrade r failure actor now =
     (let actorID = trim_space actor in
      if \<not> FailureCode_Valid failure \<or> \<not> validRouteID actorID \<or> is_zero now \<or>
         \<not> validTransition (ar_Status r) RouteDegraded
      then Inl ErrRouteConflict
      else NewApplicationRoute ((moved_to RouteDegraded actorID now r)\<lparr>ar_FailureCode := failure\<rparr>))"

definition Route_Transition :: "ApplicationRoute \<Rightarrow> RouteStatus \<Rightarrow> string \<Rightarrow> time \<Rightarrow> route_error + ApplicationRoute" where
  "Route_Transition r n actor now =
     (let actorID = trim_space actor in
      if \<not> validRouteID actorID \<or> is_zero now \<or> n = RouteRetiring \<or> \<not> validTransition (ar_Status r) n
      then Inl ErrRouteConflict
      else if n = RouteDegraded then Route_Degrade r RouteFailureUnknown actorID now
      else NewApplicationRoute ((moved_to n actorID now r)\<lparr>ar_FailureCode := NoRouteFailure\<rparr>))"

definition BeginRetirement :: "ApplicationRoute \<Rightarrow> string \<Rightarrow> string \<Rightarrow> time \<Rightarrow> route_error + ApplicationRoute" where
  "BeginRetirement r actor request now =
     (let actorID = trim_space actor; requestID = trim_space request in
      if \<not> validRouteID actorID \<or> is_zero now \<or> \<not> validTransition (ar_Status r) RouteRetiring
      then Inl ErrRouteConflict
      else NewApplicationRoute ((moved_to RouteRetiring actorID now r)
        \<lparr>ar_Retirement := Some \<lparr>ret_ActorID = actorID, ret_RequestID = requestID, ret_StartedAt = utc now\<rparr>,
          ar_FailureCode := NoRouteFailure\<rparr>))"

definition CompleteRetirement :: "ApplicationRoute \<Rightarrow> string \<Rightarrow> time \<Rightarrow> route_error + ApplicationRoute" where
  "CompleteRetirement r actor now =
     (let actorID = trim_space actor in
      if \<not> validRouteID actorID \<or> is_zero now \<or> ar_Retirement r = None \<or>
         \<not> validTransition (ar_Status r) RouteRetired
      then Inl ErrRouteConflict
      else NewApplicationRoute ((moved_to RouteRetired actorID now r)
        \<lparr>ar_Retirement := None, ar_FailureCode := NoRouteFailure\<rparr>))"

definition ObserveReady :: "ApplicationRoute \<Rightarrow> RouteObservation \<Rightarrow> string \<Rightarrow> time \<Rightarrow> route_error + ApplicationRoute" where
  "ObserveReady r observation actor now =
     (let actorID = trim_space actor in
      if \<not> validRouteID actorID \<or> is_zero now \<or> ar_Status r \<noteq> RouteProvisioning \<or>
         ro_Revision observation \<noteq> ar_Revision r
      then Inl ErrRouteConflict
      else NewApplicationRoute ((moved_to RouteReady actorID now r)
        \<lparr>ar_Observation := cloneObservation (Some observation), ar_FailureCode := NoRouteFailure\<rparr>))"

text \<open>What \<open>UseCase.Create\<close> and \<open>UseCase.Update\<close> set of the input before they call the constructor.\<close>

definition created_route :: "ApplicationRoute \<Rightarrow> string \<Rightarrow> string \<Rightarrow> string \<Rightarrow> string \<Rightarrow> time \<Rightarrow> ApplicationRoute" where
  "created_route input routeID organizationID projectID userID now =
     input\<lparr>ar_ID := routeID, ar_OrganizationID := organizationID, ar_ProjectID := projectID,
       ar_Status := RoutePending, ar_Revision := 1, ar_Version := 1, ar_Observation := None,
       ar_FailureCode := NoRouteFailure, ar_CreatedBy := userID, ar_UpdatedBy := userID,
       ar_CreatedAt := now, ar_UpdatedAt := now\<rparr>"

definition updated_route :: "ApplicationRoute \<Rightarrow> ApplicationRoute \<Rightarrow> string \<Rightarrow> time \<Rightarrow> ApplicationRoute" where
  "updated_route current input userID now =
     input\<lparr>ar_ID := ar_ID current, ar_OrganizationID := ar_OrganizationID current,
       ar_ProjectID := ar_ProjectID current, ar_Status := RoutePending, ar_Revision := ar_Revision current + 1,
       ar_Version := ar_Version current + 1, ar_Observation := ar_Observation current,
       ar_FailureCode := NoRouteFailure, ar_CreatedBy := ar_CreatedBy current, ar_UpdatedBy := userID,
       ar_CreatedAt := ar_CreatedAt current, ar_UpdatedAt := utc now\<rparr>"

text \<open>The guards of \<open>UseCase.Update\<close> on the route it read.\<close>

definition route_editable :: "ApplicationRoute \<Rightarrow> u64 \<Rightarrow> bool" where
  "route_editable current expectedVersion \<longleftrightarrow>
     \<not> (ar_Version current \<noteq> expectedVersion \<or> ar_Status current = RouteProvisioning \<or>
        ar_Status current = RouteRetiring \<or> ar_Status current = RouteRetired)"

definition same_slot_input :: "ApplicationRoute \<Rightarrow> ApplicationRoute \<Rightarrow> bool" where
  "same_slot_input current input \<longleftrightarrow>
     \<not> (trim_space (ar_ApplicationID input) \<noteq> ar_ApplicationID current \<or>
        trim_space (ar_EnvironmentID input) \<noteq> ar_EnvironmentID current \<or>
        trim_space (ar_RuntimeTargetID input) \<noteq> ar_RuntimeTargetID current)"

section \<open>Create and update\<close>

text \<open>The collaborators of the use case: the lookup of references, the identifiers and the clock.\<close>

record References =
  ref_EnvironmentStage :: string
  ref_AgentTarget :: bool

record route_env =
  re_resolve :: "string \<Rightarrow> string \<Rightarrow> string \<Rightarrow> string \<Rightarrow> string \<Rightarrow> route_error + References"
  re_newID :: "route_error + string"
  re_now :: time

definition validateReferences :: "route_env \<Rightarrow> string \<Rightarrow> string \<Rightarrow> ApplicationRoute \<Rightarrow> route_error option" where
  "validateReferences env organizationID projectID input =
     (case re_resolve env organizationID projectID (ar_ApplicationID input) (ar_EnvironmentID input)
         (ar_RuntimeTargetID input) of
        Inl e \<Rightarrow> Some e
      | Inr refs \<Rightarrow>
          if \<not> ref_AgentTarget refs then Some ErrUnsupportedTarget
          else if ar_TLSMode input = TLSModeDisabled \<and> ref_EnvironmentStage refs \<noteq> ''development''
          then Some ErrInvalidRoute
          else None)"

text \<open>The route that \<open>UseCase.Create\<close> and \<open>UseCase.Update\<close> hand to the repository, or their error.\<close>

definition Route_Create :: "route_env \<Rightarrow> Principal \<Rightarrow> string \<Rightarrow> ApplicationRoute \<Rightarrow> route_error + ApplicationRoute" where
  "Route_Create env p project input =
     (case Principal_Require p PermissionApplicationRouteWrite of
        Some e \<Rightarrow> Inl (ErrRouteSecurity e)
      | None \<Rightarrow>
          let projectID = trim_space project;
              trimmed = input\<lparr>ar_ApplicationID := trim_space (ar_ApplicationID input),
                ar_EnvironmentID := trim_space (ar_EnvironmentID input),
                ar_RuntimeTargetID := trim_space (ar_RuntimeTargetID input)\<rparr>
          in if \<not> validRouteID projectID then Inl ErrInvalidRoute
             else (case validateReferences env (OrganizationID p) projectID trimmed of
                 Some e \<Rightarrow> Inl e
               | None \<Rightarrow> (case re_newID env of
                   Inl e \<Rightarrow> Inl e
                 | Inr routeID \<Rightarrow> NewApplicationRoute (created_route trimmed routeID (OrganizationID p) projectID
                     (UserID p) (utc (re_now env))))))"

text \<open>\<open>get\<close> answers for the route as the repository has it.\<close>

definition Route_Update ::
  "route_env \<Rightarrow> (string \<Rightarrow> string \<Rightarrow> string \<Rightarrow> route_error + ApplicationRoute) \<Rightarrow> Principal \<Rightarrow> string \<Rightarrow> string \<Rightarrow>
     u64 \<Rightarrow> ApplicationRoute \<Rightarrow> route_error + ApplicationRoute" where
  "Route_Update env get p project route expectedVersion input =
     (case Principal_Require p PermissionApplicationRouteWrite of
        Some e \<Rightarrow> Inl (ErrRouteSecurity e)
      | None \<Rightarrow>
          let projectID = trim_space project; routeID = trim_space route in
          if \<not> validRouteID projectID \<or> \<not> validRouteID routeID \<or> expectedVersion = 0 then Inl ErrInvalidRoute
          else (case get (OrganizationID p) projectID routeID of
              Inl e \<Rightarrow> Inl e
            | Inr current \<Rightarrow>
                if \<not> route_editable current expectedVersion then Inl ErrRouteConflict
                else if \<not> same_slot_input current input then Inl ErrRouteConflict
                else (case validateReferences env (OrganizationID p) projectID input of
                    Some e \<Rightarrow> Inl e
                  | None \<Rightarrow> NewApplicationRoute (updated_route current input (UserID p) (utc (re_now env))))))"

end
