(* ===== verification/AppRouteCycle.thy ===== *)
theory AppRouteCycle
  imports AppRoute
begin

text \<open>
  The life cycle of an application route: every operation yields a canonical route with a higher version, keeps
  the slot the route belongs to and follows the edges of the state machine.
\<close>

section \<open>Host names are canonical\<close>

definition visible :: "char \<Rightarrow> bool" where
  "visible c \<longleftrightarrow> in_range CHR 0x21 CHR 0x7E c"

lemma leading_length_visible:
  "list_all visible s \<Longrightarrow> \<forall>e \<in> set encs. e \<noteq> [] \<longrightarrow> \<not> visible (hd e) \<Longrightarrow> leading_length encs s = 0"
proof (induction encs)
  case (Cons e es)
  have "take (length e) s \<noteq> e" if e: "e \<noteq> []"
  proof
    assume take: "take (length e) s = e"
    with e have "s \<noteq> []" by auto
    moreover from take e have "hd e = hd s" by (metis hd_take length_greater_0_conv)
    ultimately show False using Cons.prems e by (cases s) auto
  qed
  with Cons show ?case by auto
qed simp

lemma visible_spaces:
  "\<forall>e \<in> set space_encodings. e \<noteq> [] \<longrightarrow> \<not> visible (hd e)"
  "\<forall>e \<in> set (map rev space_encodings). e \<noteq> [] \<longrightarrow> \<not> visible (hd e)"
  by (simp_all add: space_encodings_def visible_def in_range_def)

lemma trim_space_visible: "list_all visible s \<Longrightarrow> trim_space s = s"
  using leading_length_visible[of s, OF _ visible_spaces(1)] leading_length_visible[of "rev s", OF _ visible_spaces(2)]
  by (simp add: trim_space_def trim_left_def trim_right_def strip_leading_fixed list_all_iff)

lemma lower_text_plain:
  "list_all (\<lambda>c. visible c \<and> \<not> is_upper c) s \<Longrightarrow> lower_text s = s"
proof (induction s rule: lower_text.induct)
  case (2 c cs)
  then show ?case by (auto simp: has_prefix_def lower_char_def visible_def in_range_def)
qed simp

definition host_char :: "char \<Rightarrow> bool" where
  "host_char c \<longleftrightarrow> label_edge c \<or> c = CHR ''-'' \<or> c = CHR ''.''"

lemma host_char_plain: "host_char c \<Longrightarrow> visible c \<and> \<not> is_upper c"
  by (auto simp: host_char_def label_edge_def is_lower_def is_digit_def is_upper_def visible_def in_range_def)

lemma join_char_all:
  "\<forall>w \<in> set ws. list_all P w \<Longrightarrow> P c \<Longrightarrow> list_all P (join_char c ws)"
  by (induction c ws rule: join_char.induct) auto

lemma validHostname_chars:
  assumes "validHostname v m"
  shows "list_all host_char v"
proof -
  have "\<forall>w \<in> set (split_char CHR ''.'' v). list_all host_char w"
    using assms by (auto simp: validHostname_def Let_def ingressHostnameLabel_def list_all_iff host_char_def)
  then have "list_all host_char (join_char CHR ''.'' (split_char CHR ''.'' v))"
    by (rule join_char_all) (simp add: host_char_def)
  then show ?thesis by (simp add: join_split)
qed

lemma normalizeHostname_valid:
  assumes "validHostname v m"
  shows "normalizeHostname v = v"
proof -
  have plain: "list_all (\<lambda>c. visible c \<and> \<not> is_upper c) v"
    using validHostname_chars[OF assms] host_char_plain by (simp add: list_all_iff)
  then have "trim_space v = v" by (intro trim_space_visible) (simp add: list_all_iff)
  with lower_text_plain[OF plain] show ?thesis by (simp add: normalizeHostname_def)
qed

section \<open>Canonical routes\<close>

definition wf_route :: "ApplicationRoute \<Rightarrow> bool" where
  "wf_route r \<longleftrightarrow> NewApplicationRoute r = Inr r"

lemma NewApplicationRoute_Inr:
  "NewApplicationRoute i = Inr r \<longleftrightarrow> r = normalized_route i \<and> valid_route_fields r \<and> validObservation r \<and>
     validRetirement r \<and> valid_failure_code r"
  by (auto simp: NewApplicationRoute_def Let_def)

lemma clone_idem [simp]:
  "cloneObservation (cloneObservation x) = cloneObservation x"
  "cloneRetirement (cloneRetirement y) = cloneRetirement y"
  by (cases x, simp_all add: cloneObservation_def) (cases y, simp_all add: cloneRetirement_def)

lemma normalized_route_idem:
  assumes "valid_route_fields (normalized_route i)"
  shows "normalized_route (normalized_route i) = normalized_route i"
  using assms normalizeHostname_valid[of "normalizeHostname (ar_Hostname i)" "ar_TLSMode i"]
  by (simp add: normalized_route_def valid_route_fields_def)

lemma new_route_wf: "NewApplicationRoute i = Inr r \<Longrightarrow> wf_route r"
  using normalized_route_idem[of i] unfolding wf_route_def NewApplicationRoute_Inr by metis

lemma wf_routeD:
  assumes "wf_route r"
  shows "normalized_route r = r" "valid_route_fields r" "validObservation r" "validRetirement r" "valid_failure_code r"
  using assms by (simp_all add: wf_route_def NewApplicationRoute_Inr)

lemma wf_route_trimmed:
  assumes "wf_route r"
  shows "trim_space (ar_ID r) = ar_ID r" "trim_space (ar_OrganizationID r) = ar_OrganizationID r"
    "trim_space (ar_ProjectID r) = ar_ProjectID r" "trim_space (ar_ApplicationID r) = ar_ApplicationID r"
    "trim_space (ar_EnvironmentID r) = ar_EnvironmentID r" "trim_space (ar_RuntimeTargetID r) = ar_RuntimeTargetID r"
    "normalizeHostname (ar_Hostname r) = ar_Hostname r" "trim_space (ar_PortName r) = ar_PortName r"
    "trim_space (ar_CreatedBy r) = ar_CreatedBy r" "cloneObservation (ar_Observation r) = ar_Observation r"
proof -
  have r: "r = normalized_route r" using wf_routeD(1)[OF assms] by simp
  show "trim_space (ar_ID r) = ar_ID r" "trim_space (ar_OrganizationID r) = ar_OrganizationID r"
    "trim_space (ar_ProjectID r) = ar_ProjectID r" "trim_space (ar_ApplicationID r) = ar_ApplicationID r"
    "trim_space (ar_EnvironmentID r) = ar_EnvironmentID r" "trim_space (ar_RuntimeTargetID r) = ar_RuntimeTargetID r"
    "normalizeHostname (ar_Hostname r) = ar_Hostname r" "trim_space (ar_PortName r) = ar_PortName r"
    "trim_space (ar_CreatedBy r) = ar_CreatedBy r" "cloneObservation (ar_Observation r) = ar_Observation r"
    by (subst (2) r, simp add: normalized_route_def)+
qed

section \<open>Steps\<close>

text \<open>
  The life-cycle operations of the controller and the owner's edit, under the guards of \<open>UseCase.Update\<close>.
\<close>

inductive route_step :: "ApplicationRoute \<Rightarrow> ApplicationRoute \<Rightarrow> bool" where
  rs_transition: "Route_Transition r n actor now = Inr s \<Longrightarrow> route_step r s"
| rs_degrade: "Route_Degrade r failure actor now = Inr s \<Longrightarrow> route_step r s"
| rs_begin: "BeginRetirement r actor request now = Inr s \<Longrightarrow> route_step r s"
| rs_complete: "CompleteRetirement r actor now = Inr s \<Longrightarrow> route_step r s"
| rs_ready: "ObserveReady r observation actor now = Inr s \<Longrightarrow> route_step r s"
| rs_update: "route_editable r expectedVersion \<Longrightarrow> same_slot_input r input \<Longrightarrow>
     NewApplicationRoute (updated_route r input user now) = Inr s \<Longrightarrow> route_step r s"

lemma Route_Update_step:
  assumes "Route_Update env get p project route expectedVersion input = Inr s"
  shows "\<exists>r. get (OrganizationID p) (trim_space project) (trim_space route) = Inr r \<and> ar_Version r = expectedVersion \<and>
    route_step r s"
proof -
  from assms obtain r where "get (OrganizationID p) (trim_space project) (trim_space route) = Inr r"
    "route_editable r expectedVersion" "same_slot_input r input"
    "NewApplicationRoute (updated_route r input (UserID p) (utc (re_now env))) = Inr s"
    by (auto simp: Route_Update_def Let_def split: option.splits if_splits sum.splits)
  then show ?thesis by (auto simp: route_editable_def intro: rs_update)
qed

text \<open>A new route is canonical and pending; without TLS it belongs to a development environment.\<close>

lemma Route_Create_new:
  assumes "Route_Create env p project input = Inr s"
  shows "wf_route s \<and> ar_Status s = RoutePending \<and> ar_Revision s = 1 \<and> ar_Version s = 1 \<and>
    ar_OrganizationID s = trim_space (OrganizationID p) \<and> Principal_Require p PermissionApplicationRouteWrite = None"
    "ar_TLSMode s = TLSModeDisabled \<Longrightarrow> \<exists>refs. re_resolve env (OrganizationID p) (trim_space project)
       (ar_ApplicationID s) (ar_EnvironmentID s) (ar_RuntimeTargetID s) = Inr refs \<and> ref_EnvironmentStage refs = ''development''"
proof -
  from assms obtain i where "NewApplicationRoute i = Inr s"
    by (auto simp: Route_Create_def Let_def split: option.splits if_splits sum.splits)
  from new_route_wf[OF this] show "wf_route s \<and> ar_Status s = RoutePending \<and> ar_Revision s = 1 \<and> ar_Version s = 1 \<and>
      ar_OrganizationID s = trim_space (OrganizationID p) \<and> Principal_Require p PermissionApplicationRouteWrite = None"
    using assms by (auto simp: Route_Create_def Let_def NewApplicationRoute_Inr normalized_route_def created_route_def
        split: option.splits if_splits sum.splits)
  show "\<exists>refs. re_resolve env (OrganizationID p) (trim_space project) (ar_ApplicationID s) (ar_EnvironmentID s)
      (ar_RuntimeTargetID s) = Inr refs \<and> ref_EnvironmentStage refs = ''development''" if "ar_TLSMode s = TLSModeDisabled"
    using assms that by (auto simp: Route_Create_def Let_def NewApplicationRoute_Inr normalized_route_def
        created_route_def validateReferences_def split: option.splits if_splits sum.splits)
qed

text \<open>The slot a route belongs to and its origin, which nothing changes.\<close>

definition route_origin where
  "route_origin r = (ar_ID r, ar_OrganizationID r, ar_ProjectID r, ar_ApplicationID r, ar_EnvironmentID r,
     ar_RuntimeTargetID r, ar_CreatedBy r, ar_CreatedAt r)"

text \<open>An edge of the state machine: the controller moves the status, the owner makes a new revision.\<close>

definition controller_edge :: "ApplicationRoute \<Rightarrow> ApplicationRoute \<Rightarrow> bool" where
  "controller_edge r s \<longleftrightarrow>
     ar_Revision s = ar_Revision r \<and> ar_Hostname s = ar_Hostname r \<and> ar_PortName s = ar_PortName r \<and>
     ar_TLSMode s = ar_TLSMode r \<and>
     (validTransition (ar_Status r) (ar_Status s) \<or> ar_Status r = RouteProvisioning \<and> ar_Status s = RouteReady)"

definition owner_edge :: "ApplicationRoute \<Rightarrow> ApplicationRoute \<Rightarrow> bool" where
  "owner_edge r s \<longleftrightarrow> ar_Revision s = ar_Revision r + 1 \<and> ar_Status s = RoutePending \<and>
     ar_Status r \<notin> {RouteProvisioning, RouteRetiring, RouteRetired}"

lemmas route_operations = Route_Transition_def Route_Degrade_def BeginRetirement_def CompleteRetirement_def
  ObserveReady_def moved_to_def Let_def

lemma route_step_edge:
  assumes wf: "wf_route r" and step: "route_step r s"
  shows "wf_route s" "ar_Version s = ar_Version r + 1" "route_origin s = route_origin r"
    "controller_edge r s \<or> owner_edge r s"
proof -
  note t = wf_route_trimmed[OF wf]
  show "wf_route s"
    using step by cases (auto simp: route_operations intro: new_route_wf split: if_splits)
  show "ar_Version s = ar_Version r + 1"
    using step by cases (auto simp: route_operations NewApplicationRoute_Inr normalized_route_def updated_route_def
        split: if_splits)
  show "route_origin s = route_origin r"
    using step by cases (auto simp: route_operations NewApplicationRoute_Inr normalized_route_def updated_route_def
        same_slot_input_def route_origin_def t split: if_splits)
  show "controller_edge r s \<or> owner_edge r s"
    using step by cases (auto simp: route_operations NewApplicationRoute_Inr normalized_route_def updated_route_def
        route_editable_def controller_edge_def owner_edge_def t split: if_splits)
qed

text \<open>The constructor refuses the version zero, so versions and revisions never wrap around.\<close>

lemma route_step_grows:
  assumes wf: "wf_route r" and step: "route_step r s"
  shows "ar_Version r < ar_Version s" "ar_Revision r \<le> ar_Revision s"
proof -
  have s: "ar_Version s \<noteq> 0" "ar_Revision s \<noteq> 0"
    using wf_routeD(2)[OF route_step_edge(1)[OF assms]] by (simp_all add: valid_route_fields_def)
  have "ar_Version r \<noteq> -1" using s(1) route_step_edge(2)[OF assms] by auto
  then show "ar_Version r < ar_Version s" using route_step_edge(2)[OF assms] by (simp add: u64_less_add_one)
  show "ar_Revision r \<le> ar_Revision s"
    using route_step_edge(4)[OF assms] s(2)
    by (auto simp: controller_edge_def owner_edge_def intro!: u64_le_add_one)
qed

lemma retired_is_final: "wf_route r \<Longrightarrow> route_step r s \<Longrightarrow> ar_Status r \<noteq> RouteRetired"
  using route_step_edge(4) by (fastforce simp: controller_edge_def owner_edge_def)

lemma retiring_only_retires:
  assumes "wf_route r" "route_step r s" "ar_Status r = RouteRetiring"
  shows "ar_Status s = RouteRetired \<and> ar_Revision s = ar_Revision r"
  using route_step_edge(4)[OF assms(1,2)] assms(3) by (auto simp: controller_edge_def owner_edge_def)

section \<open>Runs\<close>

text \<open>What holds of any later state \<open>s\<close> of a route that once was \<open>r\<close>.\<close>

definition later_route :: "ApplicationRoute \<Rightarrow> ApplicationRoute \<Rightarrow> bool" where
  "later_route r s \<longleftrightarrow> wf_route s \<and> route_origin s = route_origin r \<and> ar_Version r \<le> ar_Version s \<and>
     ar_Revision r \<le> ar_Revision s \<and> (ar_Status r = RouteRetired \<longrightarrow> s = r) \<and>
     (ar_Status r = RouteRetiring \<longrightarrow> ar_Status s \<in> {RouteRetiring, RouteRetired} \<and> ar_Revision s = ar_Revision r)"

lemma later_route_refl: "wf_route r \<Longrightarrow> later_route r r"
  by (simp add: later_route_def)

lemma later_route_step:
  assumes "later_route r s" "route_step s t"
  shows "later_route r t"
proof -
  have s: "wf_route s" using assms(1) by (simp add: later_route_def)
  show ?thesis
    using assms(1) route_step_edge[OF s assms(2)] route_step_grows[OF s assms(2)] retired_is_final[OF s assms(2)]
      retiring_only_retires[OF s assms(2)]
    by (auto simp: later_route_def)
qed

lemma later_route_run: "route_step\<^sup>*\<^sup>* r s \<Longrightarrow> wf_route r \<Longrightarrow> later_route r s"
  by (induction rule: rtranclp_induct) (auto intro: later_route_refl later_route_step)

lemma ready_is_observed:
  assumes "wf_route s" "ar_Status s = RouteReady"
  shows "\<exists>ob. ar_Observation s = Some ob \<and> ro_Revision ob = ar_Revision s \<and>
    ro_CertificateStatus ob = (if ar_TLSMode s = TLSModeAutomatic then CertificateReady else CertificateNotApplicable)"
  using wf_routeD(3)[OF assms(1)] assms(2)
  by (auto simp: validObservation_def split: option.splits if_splits)

end
