(* ===== verification/RouteGateway.thy ===== *)
theory RouteGateway
  imports AppRouteCycle AgentProtocol "HOL-Library.AList"
begin

text \<open>
  The gateway of application routes: what the server wants a host to serve
  (\<open>internal/modules/applicationroute/biz/gateway.go\<close>, \<open>buildDesiredConfig\<close> of \<open>data/cutover_mongo.go\<close>) and the
  adapter that sends it to the host's agent (\<open>data/agent_gateway.go\<close>). The dispatcher of agent commands is an
  argument.
\<close>

section \<open>Errors\<close>

text \<open>
  A Go error as the tree \<open>errors.Is\<close> and \<open>errors.As\<close> walk: a sentinel, an \<open>ExecutionError\<close> with its cause, or
  errors joined or wrapped together.
\<close>

datatype go_error = Sentinel route_error | ExecutionFailure FailureCategory "go_error list" | Joined "go_error list"

fun error_walk :: "go_error \<Rightarrow> go_error list" where
  "error_walk (Sentinel e) = [Sentinel e]"
| "error_walk (ExecutionFailure c es) = ExecutionFailure c es # concat (map error_walk es)"
| "error_walk (Joined es) = Joined es # concat (map error_walk es)"

definition errors_Is :: "go_error \<Rightarrow> route_error \<Rightarrow> bool" where
  "errors_Is e x \<longleftrightarrow> Sentinel x \<in> set (error_walk e)"

fun is_execution_failure :: "go_error \<Rightarrow> bool" where
  "is_execution_failure (ExecutionFailure c es) = True"
| "is_execution_failure _ = False"

definition errors_As_execution :: "go_error \<Rightarrow> go_error option" where
  "errors_As_execution e = List.find is_execution_failure (error_walk e)"

text \<open>The same error as the deployment worker sees it; an error of the route module is one of a collaborator.\<close>

fun worker_link :: "go_error \<Rightarrow> error_link option" where
  "worker_link (Sentinel (ErrRouteDeployment d)) = Some (LinkError d)"
| "worker_link (Sentinel _) = Some (LinkError (ErrExternal ''application route''))"
| "worker_link (ExecutionFailure c es) = Some (LinkExecution c)"
| "worker_link (Joined es) = None"

definition worker_chain :: "go_error \<Rightarrow> error_chain" where
  "worker_chain e = List.map_filter worker_link (error_walk e)"

abbreviation retryable_error :: route_error where
  "retryable_error \<equiv> ErrRouteDeployment ErrExecutionRetryable"

lemma worker_link_retryable:
  "worker_link x = Some (LinkError ErrExecutionRetryable) \<longleftrightarrow> x = Sentinel retryable_error"
  by (cases x rule: worker_link.cases) auto

lemma worker_chain_retryable: "error_is (worker_chain e) ErrExecutionRetryable \<longleftrightarrow> errors_Is e retryable_error"
  by (force simp: error_is_def worker_chain_def errors_Is_def List.map_filter_def image_iff worker_link_retryable)

section \<open>Desired configuration\<close>

record GatewayRoute =
  gr_RouteID :: string
  gr_Revision :: u64
  gr_DeploymentID :: string
  gr_CutoverSequence :: u64
  gr_RuntimeTargetID :: string
  gr_Hostname :: string
  gr_BackendAlias :: string
  gr_BackendPort :: u16
  gr_TLSMode :: TLSMode

record HostDesiredConfig =
  hd_ManagedHostID :: string
  hd_HostRevision :: u64
  hd_Routes :: "GatewayRoute list"
  hd_ProbeRouteIDs :: "string list"

record GatewayObservation =
  go_HostRevision :: u64
  go_ConfigDigest :: string

definition FailureCodeFromError :: "go_error \<Rightarrow> FailureCode" where
  "FailureCodeFromError e =
     (if errors_Is e ErrGatewayPortConflict then RouteFailurePortConflict
      else if errors_Is e ErrGatewayCertificateUnavailable then RouteFailureCertificateUnavailable
      else if errors_Is e ErrGatewayBackendUnhealthy then RouteFailureBackendUnhealthy
      else if errors_Is e ErrGatewayFenceStale \<or> errors_Is e ErrGatewayFenceConflict \<or>
        errors_Is e ErrRouteCutoverConflict then RouteFailureFenceConflict
      else if errors_Is e ErrGatewayStateFull then RouteFailureStateFull
      else if errors_Is e ErrGatewayConfiguration \<or> errors_Is e ErrRouteCutoverUnavailable
        then RouteFailureConfiguration
      else if errors_Is e ErrGatewayUnavailable \<or> errors_Is e ErrRouteCutoverAmbiguous
        then RouteFailureGatewayUnavailable
      else RouteFailureUnknown)"

text \<open>A Go map from port names to ports is an association list with distinct keys.\<close>

record CutoverRequest =
  cr_OrganizationID :: string
  cr_ProjectID :: string
  cr_ApplicationID :: string
  cr_EnvironmentID :: string
  cr_RuntimeTargetID :: string
  cr_ManagedHostID :: string
  cr_DeploymentID :: string
  cr_WorkerID :: string
  cr_ContainerName :: string
  cr_FencingToken :: u64
  cr_CutoverSequence :: u64
  cr_Ports :: "(string \<times> u16) list"

definition CutoverRequest_Validate :: "CutoverRequest \<Rightarrow> route_error option" where
  "CutoverRequest_Validate r =
     (if \<not> list_all (\<lambda>i. validRouteID (trim_space i)) [cr_OrganizationID r, cr_ProjectID r, cr_ApplicationID r,
          cr_EnvironmentID r, cr_RuntimeTargetID r, cr_ManagedHostID r, cr_DeploymentID r, cr_WorkerID r,
          cr_ContainerName r]
      then Some ErrRouteCutoverUnavailable
      else if cr_FencingToken r = 0 \<or> cr_CutoverSequence r = 0 \<or> 16 < length (cr_Ports r)
      then Some ErrRouteCutoverUnavailable
      else if \<not> list_all (\<lambda>(name, port). routePortName (trim_space name) \<and> port \<noteq> 0) (cr_Ports r)
      then Some ErrRouteCutoverUnavailable
      else None)"

text \<open>\<open>maps.Equal\<close>: as many entries, and every entry of the one is in the other.\<close>

definition maps_Equal :: "(string \<times> u16) list \<Rightarrow> (string \<times> u16) list \<Rightarrow> bool" where
  "maps_Equal xs ys \<longleftrightarrow> length xs = length ys \<and> list_all (\<lambda>(k, v). map_of ys k = Some v) xs"

definition SameCutover :: "CutoverRequest \<Rightarrow> CutoverRequest \<Rightarrow> bool" where
  "SameCutover r other \<longleftrightarrow>
     cr_OrganizationID r = cr_OrganizationID other \<and> cr_ProjectID r = cr_ProjectID other \<and>
     cr_ApplicationID r = cr_ApplicationID other \<and> cr_EnvironmentID r = cr_EnvironmentID other \<and>
     cr_RuntimeTargetID r = cr_RuntimeTargetID other \<and> cr_ManagedHostID r = cr_ManagedHostID other \<and>
     cr_DeploymentID r = cr_DeploymentID other \<and> cr_ContainerName r = cr_ContainerName other \<and>
     cr_CutoverSequence r = cr_CutoverSequence other \<and> maps_Equal (cr_Ports r) (cr_Ports other)"

record CutoverTransaction =
  ct_Request :: CutoverRequest
  ct_Desired :: HostDesiredConfig
  ct_ControlPlaneCommitted :: bool

text \<open>
  \<open>buildDesiredConfig\<close>: the committed routes of the host, with the slot's routes pointing to the new deployment.
  Of the host's document it uses the revision and the committed routes; a port of a route that is not exposed
  ends the loop.
\<close>

definition cutover_route :: "CutoverRequest \<Rightarrow> string \<Rightarrow> ApplicationRoute \<Rightarrow> u16 \<Rightarrow> GatewayRoute" where
  "cutover_route request alias route port =
     \<lparr>gr_RouteID = ar_ID route, gr_Revision = ar_Revision route, gr_DeploymentID = cr_DeploymentID request,
       gr_CutoverSequence = cr_CutoverSequence request, gr_RuntimeTargetID = cr_RuntimeTargetID request,
       gr_Hostname = ar_Hostname route, gr_BackendAlias = alias, gr_BackendPort = port,
       gr_TLSMode = ar_TLSMode route\<rparr>"

fun add_cutover_routes ::
  "CutoverRequest \<Rightarrow> string \<Rightarrow> ApplicationRoute list \<Rightarrow> (string \<times> GatewayRoute) list \<Rightarrow>
     route_error + (string \<times> GatewayRoute) list" where
  "add_cutover_routes request alias [] byID = Inr byID"
| "add_cutover_routes request alias (r # rs) byID =
     (case map_of (cr_Ports request) (ar_PortName r) of
        None \<Rightarrow> Inl ErrRouteCutoverConflict
      | Some port \<Rightarrow> add_cutover_routes request alias rs
          (AList.update (ar_ID r) (cutover_route request alias r port) byID))"

definition buildDesiredConfig ::
  "u64 \<Rightarrow> GatewayRoute list \<Rightarrow> CutoverRequest \<Rightarrow> ApplicationRoute list \<Rightarrow> route_error + HostDesiredConfig" where
  "buildDesiredConfig revision committed request routes =
     (let byID = fold (\<lambda>r. AList.update (gr_RouteID r) r) committed [] in
      case DeploymentBackendAlias (cr_DeploymentID request) of
        Inl _ \<Rightarrow> Inl ErrRouteCutoverUnavailable
      | Inr alias \<Rightarrow> (case add_cutover_routes request alias routes byID of
          Inl e \<Rightarrow> Inl e
        | Inr all \<Rightarrow>
            if MaxIngressRoutes < length all then Inl ErrRouteCutoverConflict
            else Inr \<lparr>hd_ManagedHostID = cr_ManagedHostID request, hd_HostRevision = revision + 1,
              hd_Routes = map snd (sort_key fst all), hd_ProbeRouteIDs = sort (map ar_ID routes)\<rparr>))"

section \<open>The agent's gateway\<close>

fun ingress_tls :: "TLSMode \<Rightarrow> IngressTLSMode" where
  "ingress_tls TLSModeAutomatic = IngressTLSAutomatic"
| "ingress_tls TLSModeDisabled = IngressTLSDisabled"
| "ingress_tls (TLSModeOther s) = IngressTLSOther s"

definition ingress_route :: "GatewayRoute \<Rightarrow> IngressRoute" where
  "ingress_route r = \<lparr>route_ID = gr_RouteID r, route_Revision = gr_Revision r,
     route_DeploymentID = gr_DeploymentID r, route_CutoverSequence = gr_CutoverSequence r,
     route_RuntimeTargetID = gr_RuntimeTargetID r, route_Hostname = gr_Hostname r,
     route_BackendAlias = gr_BackendAlias r, route_BackendPort = gr_BackendPort r,
     route_TLSMode = ingress_tls (gr_TLSMode r)\<rparr>"

text \<open>The typed command of a configuration, \<open>None\<close> where \<open>execute\<close> answers \<open>ErrGatewayConfiguration\<close>.\<close>

definition ingress_command_of :: "HostDesiredConfig \<Rightarrow> IngressCommand option" where
  "ingress_command_of desired =
     (if trim_space (hd_ManagedHostID desired) = [] \<or> hd_HostRevision desired = 0 \<or>
         MaxIngressRoutes < length (hd_Routes desired) then None
      else
        let routes = sort_key route_ID (map ingress_route (hd_Routes desired));
            probes = sort (hd_ProbeRouteIDs desired)
        in case IngressConfigDigest (hd_HostRevision desired) routes of
             Inl _ \<Rightarrow> None
           | Inr digest \<Rightarrow>
               let ingress = \<lparr>ing_HostRevision = hd_HostRevision desired, ing_ConfigDigest = digest,
                    ing_Routes = routes, ing_ProbeRouteIDs = probes\<rparr>
               in if validIngressCommand ingress then Some ingress else None)"

definition mapAgentIngressResultError :: "string \<Rightarrow> route_error" where
  "mapAgentIngressResultError code =
     (if code = ''ingress_fence_stale'' then ErrGatewayFenceStale
      else if code = ''ingress_fence_conflict'' then ErrGatewayFenceConflict
      else if code = ''ingress_state_full'' then ErrGatewayStateFull
      else if code = ''ingress_port_conflict'' then ErrGatewayPortConflict
      else if code = ''ingress_certificate_unavailable'' then ErrGatewayCertificateUnavailable
      else if code = ''ingress_backend_unhealthy'' then ErrGatewayBackendUnhealthy
      else if code = ''ingress_configuration'' then ErrGatewayConfiguration
      else ErrGatewayUnavailable)"

text \<open>
  What one execution finds around it: the generated identifier, the clock, the caller's deadline and the
  dispatcher.
\<close>

record ('c, 'e) dispatch_env =
  de_protocol :: protocol_env
  de_checks :: "('c, 'e) inventory_checks"
  de_timeout :: int
  de_newID :: "string option"
  de_now :: time
  de_deadline :: "time option"
  de_dispatch :: "string \<Rightarrow> AgentCommand \<Rightarrow> ('c, 'e) AgentCommandResult option"

text \<open>The constructor: which collaborators there are, and the timeout of a command.\<close>

definition NewAgentGateway :: "bool \<Rightarrow> bool \<Rightarrow> bool \<Rightarrow> int \<Rightarrow> route_error option" where
  "NewAgentGateway dispatcher newID clock timeout =
     (if \<not> dispatcher \<or> \<not> newID \<or> \<not> clock \<or> timeout \<le> 0 \<or> 5 * 60 * 1000000000 < timeout
      then Some ErrGatewayUnavailable else None)"

definition ingress_deadline :: "('c, 'e) dispatch_env \<Rightarrow> time" where
  "ingress_deadline env =
     (let deadline = utc (de_now env) + de_timeout env in
      case de_deadline env of
        Some context_deadline \<Rightarrow> if context_deadline < deadline then utc context_deadline else deadline
      | None \<Rightarrow> deadline)"

definition agent_gateway_execute ::
  "('c, 'e) dispatch_env \<Rightarrow> HostDesiredConfig \<Rightarrow> AgentCommandKind \<Rightarrow> route_error + GatewayObservation" where
  "agent_gateway_execute env desired kind =
     (case ingress_command_of desired of
        None \<Rightarrow> Inl ErrGatewayConfiguration
      | Some ingress \<Rightarrow> (case de_newID env of
          None \<Rightarrow> Inl ErrGatewayUnavailable
        | Some commandID \<Rightarrow>
            let command = \<lparr>cmd_ID = commandID, cmd_Kind = kind, cmd_Deadline = ingress_deadline env,
                 cmd_RuntimeProbe = None, cmd_Deployment = None, cmd_Cutover = None, cmd_Inventory = None,
                 cmd_Ingress = Some ingress\<rparr>
            in case de_dispatch env (trim_space (hd_ManagedHostID desired)) command of
                 None \<Rightarrow> Inl ErrGatewayUnavailable
               | Some result \<Rightarrow>
                   if Result_Validate (de_protocol env) (de_checks env) command result \<noteq> None
                   then Inl ErrGatewayUnavailable
                   else if res_Status result \<noteq> AgentCommandSucceeded
                   then Inl (mapAgentIngressResultError (res_ErrorCode result))
                   else (case res_Ingress result of
                       Some x \<Rightarrow> Inr \<lparr>go_HostRevision = ingr_HostRevision x, go_ConfigDigest = ingr_ConfigDigest x\<rparr>
                     | None \<Rightarrow> Inl ErrGatewayUnavailable)))"

text \<open>The last branch is never taken: a valid success of an ingress command has an ingress result.\<close>

lemma agent_gateway_observation:
  assumes "agent_gateway_execute env desired kind = Inr ob"
  shows "\<exists>c. ingress_command_of desired = Some c \<and> go_HostRevision ob = hd_HostRevision desired \<and>
    go_ConfigDigest ob = ing_ConfigDigest c"
proof -
  obtain c i r x where c: "ingress_command_of desired = Some c"
    and r: "Result_Validate (de_protocol env) (de_checks env) i r = None" "cmd_Ingress i = Some c"
      "res_Status r = AgentCommandSucceeded" "res_Ingress r = Some x"
    and ob: "ob = \<lparr>go_HostRevision = ingr_HostRevision x, go_ConfigDigest = ingr_ConfigDigest x\<rparr>"
    using assms by (auto simp: agent_gateway_execute_def Let_def split: option.splits if_splits)
  have "result_matches (de_checks env) i r"
    using r(1,3) by (auto simp: Result_Validate_def split: if_splits option.splits)
  with r(2,4) have "ingr_HostRevision x = ing_HostRevision c" "ingr_ConfigDigest x = ing_ConfigDigest c"
    by (simp_all add: result_matches_def)
  moreover have "ing_HostRevision c = hd_HostRevision desired"
    using c by (auto simp: ingress_command_of_def Let_def split: if_splits sum.splits)
  ultimately show ?thesis using c ob by simp
qed

section \<open>Host names of one label\<close>

text \<open>
  The agent protocol refuses a route whose host name is one label, whatever its TLS mode, while
  \<open>NewApplicationRoute\<close> accepts such a name for a route without TLS.
\<close>

lemma one_label_refused:
  assumes "r \<in> set (hd_Routes desired)" "CHR ''.'' \<notin> set (gr_Hostname r)"
  shows "ingress_command_of desired = None"
proof -
  have "\<not> validIngressHostname (gr_Hostname r)"
    using assms(2) by (simp add: validIngressHostname_def Let_def split_char_free)
  then have "\<not> validIngressRoute (ingress_route r)" by (simp add: validIngressRoute_def ingress_route_def)
  with assms(1) have "config_routes (sort_key route_ID (sort_key route_ID (map ingress_route (hd_Routes desired)))) {} = None"
    by (auto simp: config_routes_None)
  then have "\<exists>e. IngressConfigDigest (hd_HostRevision desired)
      (sort_key route_ID (map ingress_route (hd_Routes desired))) = Inl e"
    by (simp add: IngressConfigDigest_def config_content_def Let_def)
  then show ?thesis by (auto simp: ingress_command_of_def Let_def)
qed

lemma one_label_unavailable:
  assumes "r \<in> set (hd_Routes desired)" "CHR ''.'' \<notin> set (gr_Hostname r)"
  shows "agent_gateway_execute env desired kind = Inl ErrGatewayConfiguration"
  using one_label_refused[OF assms] by (simp add: agent_gateway_execute_def)

definition local_route :: ApplicationRoute where
  "local_route = \<lparr>ar_ID = ''r'', ar_OrganizationID = ''o'', ar_ProjectID = ''p'', ar_ApplicationID = ''a'',
     ar_EnvironmentID = ''e'', ar_RuntimeTargetID = ''t'', ar_Hostname = ''localhost'', ar_PortName = ''http'',
     ar_TLSMode = TLSModeDisabled, ar_Status = RoutePending, ar_Revision = 1, ar_Version = 1,
     ar_Observation = None, ar_Retirement = None, ar_FailureCode = NoRouteFailure, ar_CreatedBy = ''u'',
     ar_UpdatedBy = ''u'', ar_CreatedAt = 1, ar_UpdatedAt = 1\<rparr>"

lemma local_route_accepted: "NewApplicationRoute local_route = Inr local_route"
  by code_simp

end
