(* ===== verification/TraceOutcome.thy ===== *)
theory TraceOutcome
  imports TraceSafety
begin

text \<open>
  Rules for programs over an arbitrary environment whose errors matter: what is known when a program fails,
  beside what is known when it succeeds.
\<close>

text \<open>The error of a program is handled; what it did before it failed stays done.\<close>

definition op_catch :: "('s, 'e, 'a) op \<Rightarrow> ('e \<Rightarrow> ('s, 'f, 'a) op) \<Rightarrow> ('s, 'f, 'a) op" where
  "op_catch m h = (\<lambda>s. case m s of (Inl e, t) \<Rightarrow> h e t | (Inr x, t) \<Rightarrow> (Inr x, t))"

lemma op_catch_cases:
  assumes "op_catch m h s = (r, u)"
  obtains (error) e t where "m s = (Inl e, t)" "h e t = (r, u)"
  | (returns) x where "m s = (Inr x, u)" "r = Inr x"
  using assms by (auto simp: op_catch_def split: prod.splits sum.splits)

lemma adds_catch:
  assumes "adds P m" "\<And>e. adds P (h e)"
  shows "adds P (op_catch m h)"
  unfolding adds_def
proof
  fix tr
  obtain r t where m: "m tr = (r, t)" by fastforce
  from addsD[OF assms(1) m] obtain new where new: "t = tr @ new" "list_all P new" by blast
  show "\<exists>new. snd (op_catch m h tr) = tr @ new \<and> list_all P new"
  proof (cases r)
    case (Inl e)
    obtain more where "snd (h e t) = t @ more" "list_all P more" using assms(2) by (auto simp: adds_def)
    with m new Inl show ?thesis by (intro exI[of _ "new @ more"]) (simp add: op_catch_def)
  qed (use m new in \<open>simp add: op_catch_def\<close>)
qed

context trace_safety
begin

definition outcome ::
  "'ev set \<Rightarrow> ('ev list, 'e, 'a) op \<Rightarrow> ('a \<Rightarrow> 'ev set \<Rightarrow> bool) \<Rightarrow> ('e \<Rightarrow> 'ev set \<Rightarrow> bool) \<Rightarrow> bool" where
  "outcome F m Q E \<longleftrightarrow> (\<forall>tr r t. safe tr \<longrightarrow> F \<subseteq> set tr \<longrightarrow> m tr = (r, t) \<longrightarrow>
     safe t \<and> F \<subseteq> set t \<and> (\<forall>x. r = Inr x \<longrightarrow> Q x (set t)) \<and> (\<forall>e. r = Inl e \<longrightarrow> E e (set t)))"

lemma outcome_dest:
  assumes "outcome F m Q E" "safe tr" "F \<subseteq> set tr" "m tr = (r, t)"
  shows "safe t" "F \<subseteq> set t" "r = Inr x \<Longrightarrow> Q x (set t)" "r = Inl e \<Longrightarrow> E e (set t)"
  using assms unfolding outcome_def by blast+

lemma outcome_run:
  assumes "outcome {} m Q E" "m [] = (r, tr)"
  shows "safe tr" "r = Inr x \<Longrightarrow> Q x (set tr)" "r = Inl e \<Longrightarrow> E e (set tr)"
  using outcome_dest[OF assms(1) _ _ assms(2)] by simp_all

lemma outcome_weaken:
  assumes "outcome F m Q E" "\<And>x G. F \<subseteq> G \<Longrightarrow> Q x G \<Longrightarrow> Q' x G" "\<And>e G. F \<subseteq> G \<Longrightarrow> E e G \<Longrightarrow> E' e G"
  shows "outcome F m Q' E'"
  unfolding outcome_def
proof (intro allI impI)
  fix tr r t
  assume "safe tr" "F \<subseteq> set tr" "m tr = (r, t)"
  note run = outcome_dest[OF assms(1) this]
  show "safe t \<and> F \<subseteq> set t \<and> (\<forall>x. r = Inr x \<longrightarrow> Q' x (set t)) \<and> (\<forall>e. r = Inl e \<longrightarrow> E' e (set t))"
    using run(1,2) assms(2)[OF run(2) run(3)] assms(3)[OF run(2) run(4)] by simp
qed

lemma outcome_step:
  assumes "outcome F m Q E'" "\<And>x G. F \<subseteq> G \<Longrightarrow> Q x G \<Longrightarrow> outcome G (f x) R E"
    "\<And>e G. F \<subseteq> G \<Longrightarrow> E' e G \<Longrightarrow> E e G"
  shows "outcome F (op_bind m f) R E"
  unfolding outcome_def
proof (intro allI impI)
  fix tr r u
  assume tr: "safe tr" "F \<subseteq> set tr" and run: "op_bind m f tr = (r, u)"
  obtain q t where m: "m tr = (q, t)" by fastforce
  note first = outcome_dest[OF assms(1) tr m]
  show "safe u \<and> F \<subseteq> set u \<and> (\<forall>x. r = Inr x \<longrightarrow> R x (set u)) \<and> (\<forall>e. r = Inl e \<longrightarrow> E e (set u))"
  proof (cases q)
    case (Inl e)
    with run m have "r = Inl e" "u = t" by (simp_all add: op_bind_def)
    with first(1,2) assms(3)[OF first(2) first(4)[OF Inl]] show ?thesis by simp
  next
    case (Inr x)
    with run m have f: "f x t = (r, u)" by (simp add: op_bind_def)
    note second = outcome_dest[OF assms(2)[OF first(2) first(3)[OF Inr]] first(1) subset_refl f]
    from second first(2) show ?thesis by blast
  qed
qed

lemma outcome_catch:
  assumes "outcome F m Q E'" "\<And>e G. F \<subseteq> G \<Longrightarrow> E' e G \<Longrightarrow> outcome G (h e) R E"
    "\<And>x G. F \<subseteq> G \<Longrightarrow> Q x G \<Longrightarrow> R x G"
  shows "outcome F (op_catch m h) R E"
  unfolding outcome_def
proof (intro allI impI)
  fix tr r u
  assume tr: "safe tr" "F \<subseteq> set tr" and run: "op_catch m h tr = (r, u)"
  from run show "safe u \<and> F \<subseteq> set u \<and> (\<forall>x. r = Inr x \<longrightarrow> R x (set u)) \<and> (\<forall>e. r = Inl e \<longrightarrow> E e (set u))"
  proof (cases rule: op_catch_cases)
    case (error e t)
    note first = outcome_dest[OF assms(1) tr error(1)]
    note second = outcome_dest[OF assms(2)[OF first(2) first(4)[OF refl]] first(1) subset_refl error(2)]
    from second first(2) show ?thesis by blast
  next
    case (returns x)
    note first = outcome_dest[OF assms(1) tr returns(1)]
    with assms(3)[OF first(2) first(3)[OF refl]] returns(2) show ?thesis by simp
  qed
qed

lemma outcome_handle:
  fixes E' :: "'h \<Rightarrow> 'ev set \<Rightarrow> bool"
  assumes "outcome F m Q E" "\<And>x G. F \<subseteq> G \<Longrightarrow> Q x G \<Longrightarrow> R (Inr x) G" "\<And>e G. F \<subseteq> G \<Longrightarrow> E e G \<Longrightarrow> R (Inl e) G"
  shows "outcome F (op_try m) R E'"
  unfolding outcome_def
proof (intro allI impI)
  fix tr :: "'ev list" and r :: "'h + _" and t
  assume tr: "safe tr" "F \<subseteq> set tr" and run: "op_try m tr = (r, t)"
  from run obtain q where q: "r = Inr q" "m tr = (q, t)" by auto
  note known = outcome_dest[OF assms(1) tr q(2)]
  show "safe t \<and> F \<subseteq> set t \<and> (\<forall>x. r = Inr x \<longrightarrow> R x (set t)) \<and> (\<forall>e. r = Inl e \<longrightarrow> E' e (set t))"
    using known assms(2,3)[OF known(2)] q(1) by (cases q) auto
qed

lemma outcome_return: "(\<And>G. F \<subseteq> G \<Longrightarrow> Q x G) \<Longrightarrow> outcome F (op_return x) Q E"
  by (simp add: outcome_def)

lemma outcome_fail: "(\<And>G. F \<subseteq> G \<Longrightarrow> E e G) \<Longrightarrow> outcome F (op_fail e) Q E"
  by (simp add: outcome_def)

lemma outcome_ask:
  assumes "\<And>r. allowed F (ev r)"
  shows "outcome F (ask_or_fail answer ev) (\<lambda>x G. ev (Inr x) \<in> G) (\<lambda>e G. ev (Inl e) \<in> G)"
  unfolding outcome_def ask_or_fail_def
  by (auto simp: op_bind_def ask_def op_lift_def safe_snoc intro: allowed_mono[OF assms] split: sum.splits)

end

end
