(* ===== verification/RouteCoordination.thy ===== *)
theory RouteCoordination
  imports RouteGateway DeploymentWorker TraceOutcome
begin

text \<open>
  The coordinators between the server's durable transactions, the gateway of a host and the runtime
  (\<open>internal/modules/applicationroute/biz/{cutover,retirement,reconciliation}.go\<close>), and the calls the deployment
  executor makes beside theirs. Stores, gateways and resolvers are interfaces: each call is an event of the
  trace with the answer the environment gave, which may be any.
\<close>

section \<open>Plans and credentials\<close>

datatype ConnectionMode = ModeDirectDocker | ModeAgent | ModeOther string

record DirectDocker =
  dd_Endpoint :: string
  dd_TLSServerName :: string
  dd_CredentialRef :: string

record Connection =
  con_Mode :: ConnectionMode
  con_ManagedHostID :: string
  con_DirectDocker :: "DirectDocker option"

definition Connection_Validate :: "Connection \<Rightarrow> bool" where
  "Connection_Validate c \<longleftrightarrow>
     (case con_Mode c of
        ModeDirectDocker \<Rightarrow> (case con_DirectDocker c of
            None \<Rightarrow> False
          | Some d \<Rightarrow> trim_space (dd_Endpoint d) \<noteq> [] \<and> trim_space (dd_TLSServerName d) \<noteq> [] \<and>
              trim_space (dd_CredentialRef d) \<noteq> [])
      | ModeAgent \<Rightarrow> trim_space (con_ManagedHostID c) \<noteq> [] \<and> con_DirectDocker c = None
      | ModeOther _ \<Rightarrow> False)"

record ExecutionPlan =
  ep_DeploymentID :: string
  ep_WorkerID :: string
  ep_FencingToken :: u64
  ep_CutoverSequence :: u64
  ep_ProjectID :: string
  ep_ApplicationID :: string
  ep_EnvironmentID :: string
  ep_RuntimeTargetID :: string
  ep_ImageDigest :: string
  ep_TargetConnection :: Connection
  ep_RegistryServer :: string
  ep_RegistryUsername :: string
  ep_RegistryPasswordRef :: string
  ep_RuntimeSpec :: Spec
  ep_EnvironmentBindings :: "(string \<times> string) list"
  ep_Environment :: "string list"
  ep_ContainerName :: string
  ep_ManagedIngress :: bool

record DirectDockerCredential =
  ddc_CACertificate :: string
  ddc_ClientCertificate :: string
  ddc_ClientKey :: string

record RuntimeCredential =
  rc_DirectDocker :: "DirectDockerCredential option"
  rc_RegistryAuthorization :: string

section \<open>Transactions of the other coordinators\<close>

record ActiveBackend =
  ab_OrganizationID :: string
  ab_ProjectID :: string
  ab_ApplicationID :: string
  ab_EnvironmentID :: string
  ab_RuntimeTargetID :: string
  ab_ManagedHostID :: string
  ab_DeploymentID :: string
  ab_CutoverSequence :: u64
  ab_Port :: u16

record RouteRetirementTransaction =
  rrt_RouteID :: string
  rrt_OrganizationID :: string
  rrt_Desired :: HostDesiredConfig
  rrt_Prepared :: bool
  rrt_GatewayCommitted :: bool

record RouteReconciliationTransaction =
  rct_RouteID :: string
  rct_RouteRevision :: u64
  rct_OrganizationID :: string
  rct_Backend :: ActiveBackend
  rct_Desired :: HostDesiredConfig
  rct_Prepared :: bool

section \<open>Calls\<close>

text \<open>The calls that answer with an error or nothing, and the gateway's three operations.\<close>

datatype unit_call =
    StorePrepared CutoverTransaction GatewayObservation
  | StoreMarkCommitted CutoverRequest
  | StoreComplete CutoverTransaction GatewayObservation
  | StoreFinish CutoverTransaction
  | StoreAbort CutoverTransaction FailureCode
  | RetireMarkPrepared RouteRetirementTransaction GatewayObservation
  | RetireMarkCommitted RouteRetirementTransaction GatewayObservation
  | RetireFinish RouteRetirementTransaction
  | ReconcileMarkPrepared RouteReconciliationTransaction GatewayObservation
  | ReconcileComplete RouteReconciliationTransaction GatewayObservation
  | ReconcileAbort RouteReconciliationTransaction FailureCode
  | ReconcileDegrade ApplicationRoute FailureCode
  | RuntimePrepare ExecutionPlan RuntimeCredential
  | RuntimeDeploy ExecutionPlan RuntimeCredential
  | RuntimeCancel ExecutionPlan RuntimeCredential
  | RuntimeStage ExecutionPlan RuntimeCredential
  | RuntimeActivatePrepared ExecutionPlan ExecutionPlan
  | RuntimeCancelPrepared ExecutionPlan ExecutionPlan
  | RuntimeRetire ExecutionPlan
  | IngressDrain int

datatype gateway_call =
    GatewayPrepare HostDesiredConfig
  | GatewayCommit HostDesiredConfig
  | GatewayAbort HostDesiredConfig

type_synonym 'a go_answer = "go_error + 'a"

datatype server_event =
    EvDo unit_call "unit go_answer"
  | EvGateway gateway_call "GatewayObservation go_answer"
  | EvRequired CutoverRequest "bool go_answer"
  | EvBegin CutoverRequest "CutoverTransaction go_answer"
  | EvGet string "CutoverTransaction option go_answer"
  | EvRetireBegin string "(RouteRetirementTransaction \<times> bool) go_answer"
  | EvBackend ApplicationRoute "ActiveBackend option go_answer"
  | EvReconcileBegin ApplicationRoute ActiveBackend "(RouteReconciliationTransaction \<times> bool) go_answer"
  | EvResolve bool Deployment "ExecutionPlan go_answer"
  | EvCredential Connection "RuntimeCredential go_answer"
  | EvRegistry string string string "string go_answer"
  | EvConfiguration string "string go_answer"

type_synonym server_trace = "server_event list"

record server_env =
  se_do :: "unit_call \<Rightarrow> server_trace \<Rightarrow> unit go_answer"
  se_gateway :: "gateway_call \<Rightarrow> server_trace \<Rightarrow> GatewayObservation go_answer"
  se_required :: "CutoverRequest \<Rightarrow> server_trace \<Rightarrow> bool go_answer"
  se_begin :: "CutoverRequest \<Rightarrow> server_trace \<Rightarrow> CutoverTransaction go_answer"
  se_get :: "string \<Rightarrow> server_trace \<Rightarrow> CutoverTransaction option go_answer"
  se_retire_begin :: "string \<Rightarrow> server_trace \<Rightarrow> (RouteRetirementTransaction \<times> bool) go_answer"
  se_backend :: "ApplicationRoute \<Rightarrow> server_trace \<Rightarrow> ActiveBackend option go_answer"
  se_reconcile_begin :: "ApplicationRoute \<Rightarrow> ActiveBackend \<Rightarrow> server_trace \<Rightarrow>
     (RouteReconciliationTransaction \<times> bool) go_answer"
  se_resolve :: "bool \<Rightarrow> Deployment \<Rightarrow> server_trace \<Rightarrow> ExecutionPlan go_answer"
  se_credential :: "Connection \<Rightarrow> server_trace \<Rightarrow> RuntimeCredential go_answer"
  se_registry :: "string \<Rightarrow> string \<Rightarrow> string \<Rightarrow> server_trace \<Rightarrow> string go_answer"
  se_configuration :: "string \<Rightarrow> server_trace \<Rightarrow> string go_answer"

type_synonym 'a sop = "(server_trace, go_error, 'a) op"

definition do_call :: "server_env \<Rightarrow> unit_call \<Rightarrow> unit sop" where
  "do_call env c = ask_or_fail (se_do env c) (EvDo c)"

definition gateway_do :: "server_env \<Rightarrow> gateway_call \<Rightarrow> GatewayObservation sop" where
  "gateway_do env c = ask_or_fail (se_gateway env c) (EvGateway c)"

definition store_Get :: "server_env \<Rightarrow> string \<Rightarrow> CutoverTransaction option sop" where
  "store_Get env i = ask_or_fail (se_get env (trim_space i)) (EvGet (trim_space i))"

abbreviation fail_with :: "route_error \<Rightarrow> 'a sop" where
  "fail_with e \<equiv> op_fail (Sentinel e)"

section \<open>Cutover\<close>

definition cutover_Required :: "server_env \<Rightarrow> CutoverRequest \<Rightarrow> bool sop" where
  "cutover_Required env request =
     (if CutoverRequest_Validate request \<noteq> None then fail_with ErrRouteCutoverUnavailable
      else ask_or_fail (se_required env request) (EvRequired request))"

definition cutover_Begin :: "server_env \<Rightarrow> CutoverRequest \<Rightarrow> CutoverRequest sop" where
  "cutover_Begin env request =
     (if CutoverRequest_Validate request \<noteq> None then fail_with ErrRouteCutoverUnavailable
      else op_bind (ask_or_fail (se_begin env request) (EvBegin request)) (\<lambda>tx.
        if CutoverRequest_Validate (ct_Request tx) \<noteq> None \<or> \<not> SameCutover request (ct_Request tx)
        then fail_with ErrRouteCutoverConflict
        else op_return (ct_Request tx)))"

text \<open>
  After a failed preparation the gateway is put back: where that fails too, the outcome is ambiguous.
\<close>

definition abort_preparation :: "server_env \<Rightarrow> CutoverTransaction \<Rightarrow> go_error \<Rightarrow> unit sop" where
  "abort_preparation env tx e =
     op_bind (op_catch (gateway_do env (GatewayAbort (ct_Desired tx)))
         (\<lambda>abortErr. op_fail (Joined [Sentinel ErrRouteCutoverAmbiguous, e, abortErr])))
       (\<lambda>_. op_fail e)"

definition cutover_Prepare :: "server_env \<Rightarrow> string \<Rightarrow> unit sop" where
  "cutover_Prepare env deploymentID =
     op_bind (store_Get env deploymentID) (\<lambda>found. case found of
         None \<Rightarrow> fail_with ErrRouteCutoverConflict
       | Some tx \<Rightarrow>
           if ct_ControlPlaneCommitted tx then fail_with ErrRouteCutoverConflict
           else op_catch
             (op_bind (gateway_do env (GatewayPrepare (ct_Desired tx))) (\<lambda>observation.
                do_call env (StorePrepared tx observation)))
             (abort_preparation env tx))"

definition cutover_MarkControlPlaneCommitted :: "server_env \<Rightarrow> CutoverRequest \<Rightarrow> unit sop" where
  "cutover_MarkControlPlaneCommitted env request =
     (if CutoverRequest_Validate request \<noteq> None then fail_with ErrRouteCutoverUnavailable
      else do_call env (StoreMarkCommitted request))"

definition cutover_Pending :: "server_env \<Rightarrow> string \<Rightarrow> CutoverRequest option sop" where
  "cutover_Pending env deploymentID =
     op_bind (store_Get env deploymentID) (\<lambda>found. case found of
         None \<Rightarrow> op_return None
       | Some tx \<Rightarrow>
           if CutoverRequest_Validate (ct_Request tx) \<noteq> None then fail_with ErrRouteCutoverConflict
           else op_return (Some (ct_Request tx)))"

definition cutover_Commit :: "server_env \<Rightarrow> string \<Rightarrow> CutoverRequest option sop" where
  "cutover_Commit env deploymentID =
     op_bind (store_Get env deploymentID) (\<lambda>found. case found of
         None \<Rightarrow> op_return None
       | Some tx \<Rightarrow>
           if \<not> ct_ControlPlaneCommitted tx then fail_with ErrRouteCutoverConflict
           else
             op_bind (gateway_do env (GatewayCommit (ct_Desired tx))) (\<lambda>observation.
             op_bind (do_call env (StoreComplete tx observation)) (\<lambda>_.
               op_return (Some (ct_Request tx)))))"

definition cutover_Restore :: "server_env \<Rightarrow> string \<Rightarrow> unit sop" where
  "cutover_Restore env deploymentID =
     op_bind (store_Get env deploymentID) (\<lambda>found. case found of
         None \<Rightarrow> op_return ()
       | Some tx \<Rightarrow> op_bind (gateway_do env (GatewayAbort (ct_Desired tx))) (\<lambda>_. op_return ()))"

definition cutover_FinalizeAbort :: "server_env \<Rightarrow> string \<Rightarrow> FailureCode \<Rightarrow> unit sop" where
  "cutover_FinalizeAbort env deploymentID failure =
     (if \<not> FailureCode_Valid failure then fail_with ErrRouteCutoverUnavailable
      else op_bind (store_Get env deploymentID) (\<lambda>found. case found of
          None \<Rightarrow> op_return ()
        | Some tx \<Rightarrow> do_call env (StoreAbort tx failure)))"

definition cutover_Abort :: "server_env \<Rightarrow> string \<Rightarrow> unit sop" where
  "cutover_Abort env deploymentID =
     op_bind (cutover_Restore env deploymentID) (\<lambda>_. cutover_FinalizeAbort env deploymentID RouteFailureCanceled)"

definition cutover_Finish :: "server_env \<Rightarrow> string \<Rightarrow> unit sop" where
  "cutover_Finish env deploymentID =
     op_bind (store_Get env deploymentID) (\<lambda>found. case found of
         None \<Rightarrow> op_return ()
       | Some tx \<Rightarrow> do_call env (StoreFinish tx))"

section \<open>Retirement\<close>

text \<open>Each part runs where the transaction has not recorded it; the record is kept up to date.\<close>

definition retire_prepare :: "server_env \<Rightarrow> RouteRetirementTransaction \<Rightarrow> RouteRetirementTransaction sop" where
  "retire_prepare env tx =
     (if rrt_Prepared tx then op_return tx
      else
        op_bind (gateway_do env (GatewayPrepare (rrt_Desired tx))) (\<lambda>observation.
        op_bind (do_call env (RetireMarkPrepared tx observation)) (\<lambda>_.
          op_return (tx\<lparr>rrt_Prepared := True\<rparr>))))"

definition retire_commit :: "server_env \<Rightarrow> RouteRetirementTransaction \<Rightarrow> RouteRetirementTransaction sop" where
  "retire_commit env tx =
     (if rrt_GatewayCommitted tx then op_return tx
      else
        op_bind (gateway_do env (GatewayCommit (rrt_Desired tx))) (\<lambda>observation.
        op_bind (do_call env (RetireMarkCommitted tx observation)) (\<lambda>_.
          op_return (tx\<lparr>rrt_GatewayCommitted := True\<rparr>))))"

definition coordinator_Retire :: "server_env \<Rightarrow> string \<Rightarrow> bool sop" where
  "coordinator_Retire env route =
     (let routeID = trim_space route in
      if \<not> validRouteID routeID then fail_with ErrRouteRetirementUnavailable
      else op_bind (ask_or_fail (se_retire_begin env routeID) (EvRetireBegin routeID)) (\<lambda>(tx, completed).
        if completed then op_return True
        else
          op_bind (retire_prepare env tx) (\<lambda>prepared.
          op_bind (retire_commit env prepared) (\<lambda>committed.
          op_bind (do_call env (RetireFinish committed)) (\<lambda>_.
            op_return True)))))"

section \<open>Reconciliation\<close>

definition backend_validFor :: "ActiveBackend \<Rightarrow> ApplicationRoute \<Rightarrow> bool" where
  "backend_validFor b route \<longleftrightarrow>
     list_all (\<lambda>i. validRouteID (trim_space i)) [ab_OrganizationID b, ab_ProjectID b, ab_ApplicationID b,
       ab_EnvironmentID b, ab_RuntimeTargetID b, ab_ManagedHostID b, ab_DeploymentID b] \<and>
     0 < ab_CutoverSequence b \<and> 0 < ab_Port b \<and>
     ab_OrganizationID b = ar_OrganizationID route \<and> ab_ProjectID b = ar_ProjectID route \<and>
     ab_ApplicationID b = ar_ApplicationID route \<and> ab_EnvironmentID b = ar_EnvironmentID route \<and>
     ab_RuntimeTargetID b = ar_RuntimeTargetID route"

definition reconcile_degrade :: "server_env \<Rightarrow> ApplicationRoute \<Rightarrow> bool sop" where
  "reconcile_degrade env route =
     op_bind (do_call env (ReconcileDegrade route RouteFailureConfiguration)) (\<lambda>_. op_return True)"

text \<open>A refused preparation: the gateway is put back and the transaction aborted, unless the gateway is away.\<close>

definition reconcile_refused ::
  "server_env \<Rightarrow> RouteReconciliationTransaction \<Rightarrow> go_error \<Rightarrow> bool sop" where
  "reconcile_refused env tx e =
     (if errors_Is e ErrGatewayUnavailable then op_return False
      else
        op_bind (op_catch (gateway_do env (GatewayAbort (rct_Desired tx)))
            (\<lambda>abortErr. op_fail (Joined [Sentinel ErrReconciliationPending, e, abortErr]))) (\<lambda>_.
        op_bind (do_call env (ReconcileAbort tx (FailureCodeFromError e))) (\<lambda>_.
          op_return True)))"

definition reconcile_commit :: "server_env \<Rightarrow> RouteReconciliationTransaction \<Rightarrow> bool sop" where
  "reconcile_commit env tx =
     op_bind (op_try (gateway_do env (GatewayCommit (rct_Desired tx)))) (\<lambda>r. case r of
         Inl (_ :: go_error) \<Rightarrow> op_return False
       | Inr observation \<Rightarrow> op_bind (do_call env (ReconcileComplete tx observation)) (\<lambda>_. op_return True))"

definition reconcile_transaction :: "server_env \<Rightarrow> RouteReconciliationTransaction \<Rightarrow> bool sop" where
  "reconcile_transaction env tx =
     (if rct_Prepared tx then reconcile_commit env tx
      else op_bind (op_try (gateway_do env (GatewayPrepare (rct_Desired tx)))) (\<lambda>r. case r of
          Inl e \<Rightarrow> reconcile_refused env tx e
        | Inr observation \<Rightarrow>
            op_bind (do_call env (ReconcileMarkPrepared tx observation)) (\<lambda>_.
              reconcile_commit env (tx\<lparr>rct_Prepared := True\<rparr>))))"

definition reconcile_backend :: "server_env \<Rightarrow> ApplicationRoute \<Rightarrow> ActiveBackend \<Rightarrow> bool sop" where
  "reconcile_backend env route backend =
     (if \<not> backend_validFor backend route then reconcile_degrade env route
      else op_bind (op_try (ask_or_fail (se_reconcile_begin env route backend) (EvReconcileBegin route backend)))
        (\<lambda>r. case r of
          Inl e \<Rightarrow>
            if errors_Is e ErrReconciliationPending \<or> errors_Is e ErrHostOperationPending then op_return False
            else op_fail e
        | Inr (tx, settled) \<Rightarrow> if settled then op_return True else reconcile_transaction env tx))"

definition coordinator_Reconcile :: "server_env \<Rightarrow> ApplicationRoute \<Rightarrow> bool sop" where
  "coordinator_Reconcile env route =
     op_bind (op_try (ask_or_fail (se_backend env route) (EvBackend route))) (\<lambda>r. case r of
         Inl e \<Rightarrow> if errors_Is e ErrReconciliationConfiguration then reconcile_degrade env route else op_fail e
       | Inr None \<Rightarrow> op_return False
       | Inr (Some backend) \<Rightarrow> reconcile_backend env route backend)"

end
