(* ===== verification/ServerExecutor.thy ===== *)
theory ServerExecutor
  imports RouteCoordination
begin

text \<open>
  The deployment executor of the server (\<open>internal/modules/deployment/worker/runtime_executor.go\<close>): it resolves
  the plan and the secrets of a deployment before each call and drives the managed cutover of runtime and routes.
  What it observes for metrics, and the clearing of the credential's bytes, is left out.
\<close>

section \<open>The executor\<close>

text \<open>
  Which collaborators are configured: \<open>sx_managed\<close> says that the gateway has the recoverable phases,
  \<open>sx_cancellation\<close> that the resolver has a resolution of its own for cancellations.
\<close>

record server_executor =
  sx_registries :: bool
  sx_configuration :: bool
  sx_cancellation :: bool
  sx_managed :: bool
  sx_ingress :: bool
  sx_ingressDrain :: int

definition NewRuntimeExecutor :: "bool \<Rightarrow> bool \<Rightarrow> bool \<Rightarrow> server_executor \<Rightarrow> route_error + server_executor" where
  "NewRuntimeExecutor executions credentials gateway sx =
     (if \<not> executions then Inl ErrMissingExecutionResolver
      else if \<not> credentials then Inl ErrMissingCredentialResolver
      else if \<not> gateway then Inl ErrMissingRuntimeGateway
      else Inr (sx\<lparr>sx_registries := False, sx_configuration := False, sx_ingress := False, sx_ingressDrain := 0\<rparr>))"

definition WithManagedIngress :: "bool \<Rightarrow> int \<Rightarrow> server_executor \<Rightarrow> route_error + server_executor" where
  "WithManagedIngress coordinator drain sx =
     (if \<not> coordinator \<or> drain < 0 \<or> 60 * 1000000000 < drain then Inl ErrInvalidIngressDrain
      else Inr (sx\<lparr>sx_ingress := True, sx_ingressDrain := drain\<rparr>))"

definition WithConfiguration :: "bool \<Rightarrow> server_executor \<Rightarrow> server_executor" where
  "WithConfiguration resolver sx = sx\<lparr>sx_configuration := resolver\<rparr>"

definition WithRegistryCredentials :: "bool \<Rightarrow> server_executor \<Rightarrow> server_executor" where
  "WithRegistryCredentials resolver sx = sx\<lparr>sx_registries := resolver\<rparr>"

section \<open>The cutover request\<close>

text \<open>The TCP ports of the runtime specification by name; a later port of the same name replaces an earlier one.\<close>

definition cutover_ports :: "Port list \<Rightarrow> (string \<times> u16) list" where
  "cutover_ports ports = fold (\<lambda>p acc.
     if port_Protocol p \<noteq> [] \<and> port_Protocol p \<noteq> ''tcp'' then acc
     else AList.update (port_Name p) (port_ContainerPort p) acc) ports []"

definition plan_request :: "Deployment \<Rightarrow> ExecutionPlan \<Rightarrow> CutoverRequest" where
  "plan_request d plan =
     \<lparr>cr_OrganizationID = dep_OrganizationID d, cr_ProjectID = ep_ProjectID plan,
       cr_ApplicationID = ep_ApplicationID plan, cr_EnvironmentID = ep_EnvironmentID plan,
       cr_RuntimeTargetID = ep_RuntimeTargetID plan, cr_ManagedHostID = con_ManagedHostID (ep_TargetConnection plan),
       cr_DeploymentID = ep_DeploymentID plan, cr_WorkerID = ep_WorkerID plan,
       cr_ContainerName = ep_ContainerName plan, cr_FencingToken = ep_FencingToken plan,
       cr_CutoverSequence = ep_CutoverSequence plan, cr_Ports = cutover_ports (spec_Ports (ep_RuntimeSpec plan))\<rparr>"

definition managedIngressCutoverRequest :: "Deployment \<Rightarrow> ExecutionPlan \<Rightarrow> CutoverRequest sop" where
  "managedIngressCutoverRequest d plan =
     (case CutoverRequest_Validate (plan_request d plan) of
        Some e \<Rightarrow> fail_with e
      | None \<Rightarrow> op_return (plan_request d plan))"

text \<open>The plan under the identity the cutover was begun with.\<close>

definition execution_plan :: "ExecutionPlan \<Rightarrow> CutoverRequest \<Rightarrow> ExecutionPlan" where
  "execution_plan plan original = plan\<lparr>ep_WorkerID := cr_WorkerID original,
     ep_FencingToken := cr_FencingToken original, ep_ManagedIngress := True\<rparr>"

definition retry_later :: "go_error list \<Rightarrow> 'a sop" where
  "retry_later es = op_fail (Joined (Sentinel retryable_error # es))"

definition target_unreachable :: "go_error \<Rightarrow> bool" where
  "target_unreachable e \<longleftrightarrow> CategorizeExecutionError (worker_chain e) FailureUnknown = FailureTargetUnreachable"

definition managedIngressFailureCode :: "go_error \<Rightarrow> FailureCode" where
  "managedIngressFailureCode e =
     (let code = FailureCodeFromError e in
      if code \<noteq> RouteFailureUnknown then code
      else (case CategorizeExecutionError (worker_chain e) FailureUnknown of
          FailureConfiguration \<Rightarrow> RouteFailureConfiguration
        | FailureCredential \<Rightarrow> RouteFailureConfiguration
        | FailureUnsupportedTarget \<Rightarrow> RouteFailureConfiguration
        | FailureTargetUnreachable \<Rightarrow> RouteFailureRuntimeUnavailable
        | FailureImagePull \<Rightarrow> RouteFailureRuntimeUnavailable
        | FailureRuntime \<Rightarrow> RouteFailureRuntimeUnavailable
        | _ \<Rightarrow> RouteFailureUnknown))"

section \<open>Undoing a cutover\<close>

text \<open>
  The route is restored, then the candidate cancelled, then the transaction aborted; a part that fails leaves
  the rest for the next attempt. The cause is joined where there is one.
\<close>

definition undo_cutover ::
  "server_env \<Rightarrow> string \<Rightarrow> ExecutionPlan \<Rightarrow> ExecutionPlan \<Rightarrow> FailureCode \<Rightarrow> go_error list \<Rightarrow> unit sop" where
  "undo_cutover env deploymentID authorization execution code cause =
     op_bind (op_catch (cutover_Restore env deploymentID) (\<lambda>e. retry_later (cause @ [e]))) (\<lambda>_.
     op_bind (op_catch (do_call env (RuntimeCancelPrepared authorization execution))
         (\<lambda>e. retry_later (cause @ [e]))) (\<lambda>_.
       op_catch (cutover_FinalizeAbort env deploymentID code) (\<lambda>e. retry_later (cause @ [e]))))"

definition abortManagedCutover ::
  "server_env \<Rightarrow> string \<Rightarrow> ExecutionPlan \<Rightarrow> ExecutionPlan \<Rightarrow> go_error \<Rightarrow> unit sop" where
  "abortManagedCutover env deploymentID authorization execution cause =
     op_bind (undo_cutover env deploymentID authorization execution (managedIngressFailureCode cause) [cause])
       (\<lambda>_. op_fail cause)"

section \<open>Deploy\<close>

text \<open>The error of a phase: ambiguous ones are retried, others undo the cutover.\<close>

definition phase_failed ::
  "server_env \<Rightarrow> Deployment \<Rightarrow> ExecutionPlan \<Rightarrow> ExecutionPlan \<Rightarrow> (go_error \<Rightarrow> bool) \<Rightarrow> go_error \<Rightarrow> unit sop" where
  "phase_failed env d plan execution ambiguous e =
     (if ambiguous e then retry_later [e] else abortManagedCutover env (dep_ID d) plan execution e)"

definition managed_phases ::
  "server_env \<Rightarrow> Deployment \<Rightarrow> ExecutionPlan \<Rightarrow> ExecutionPlan \<Rightarrow> RuntimeCredential \<Rightarrow> unit sop" where
  "managed_phases env d plan execution credential =
     op_bind (op_catch (do_call env (RuntimeStage execution credential))
         (phase_failed env d plan execution target_unreachable)) (\<lambda>_.
     op_bind (op_catch (cutover_Prepare env (dep_ID d))
         (phase_failed env d plan execution (\<lambda>e. errors_Is e ErrRouteCutoverAmbiguous))) (\<lambda>_.
       op_catch (do_call env (RuntimeActivatePrepared plan execution))
         (phase_failed env d plan execution target_unreachable)))"

definition begin_failed :: "go_error \<Rightarrow> CutoverRequest sop" where
  "begin_failed e = (if errors_Is e ErrHostOperationPending then retry_later [e] else op_fail e)"

definition managed_ingress_plan :: "server_executor \<Rightarrow> ExecutionPlan \<Rightarrow> bool" where
  "managed_ingress_plan sx plan \<longleftrightarrow> \<not> (\<not> sx_ingress sx \<or> con_Mode (ep_TargetConnection plan) \<noteq> ModeAgent)"

definition deploy_plan ::
  "server_executor \<Rightarrow> server_env \<Rightarrow> Deployment \<Rightarrow> ExecutionPlan \<Rightarrow> RuntimeCredential \<Rightarrow> unit sop" where
  "deploy_plan sx env d plan credential =
     (if \<not> managed_ingress_plan sx plan then do_call env (RuntimeDeploy plan credential)
      else
        op_bind (managedIngressCutoverRequest d plan) (\<lambda>request.
        op_bind (cutover_Required env request) (\<lambda>required.
          if \<not> required then do_call env (RuntimeDeploy plan credential)
          else if \<not> sx_managed sx then fail_with ErrManagedIngressUnavailable
          else
            op_bind (op_catch (cutover_Begin env request) begin_failed) (\<lambda>original.
              managed_phases env d plan (execution_plan plan original) credential))))"

section \<open>Commit and cancellation\<close>

definition executor_MarkControlPlaneCommitted :: "server_executor \<Rightarrow> server_env \<Rightarrow> Deployment \<Rightarrow> unit sop" where
  "executor_MarkControlPlaneCommitted sx env d =
     (if \<not> sx_ingress sx then op_return ()
      else op_bind (ask_or_fail (se_resolve env False d) (EvResolve False d)) (\<lambda>plan.
        if con_Mode (ep_TargetConnection plan) \<noteq> ModeAgent then op_return ()
        else op_bind (managedIngressCutoverRequest d plan) (cutover_MarkControlPlaneCommitted env)))"

definition retire_backend :: "server_executor \<Rightarrow> server_env \<Rightarrow> Deployment \<Rightarrow> CutoverRequest \<Rightarrow> unit sop" where
  "retire_backend sx env d request =
     op_bind (if 0 < sx_ingressDrain sx then do_call env (IngressDrain (sx_ingressDrain sx)) else op_return ()) (\<lambda>_.
     op_bind (ask_or_fail (se_resolve env False d) (EvResolve False d)) (\<lambda>plan.
       if \<not> sx_managed sx then fail_with ErrManagedIngressUnavailable
       else
         op_bind (do_call env (RuntimeRetire (execution_plan plan request))) (\<lambda>_.
           cutover_Finish env (dep_ID d))))"

definition executor_Commit :: "server_executor \<Rightarrow> server_env \<Rightarrow> Deployment \<Rightarrow> unit sop" where
  "executor_Commit sx env d =
     (if \<not> sx_ingress sx then op_return ()
      else op_bind (cutover_Commit env (dep_ID d)) (\<lambda>found. case found of
          None \<Rightarrow> op_return ()
        | Some request \<Rightarrow> retire_backend sx env d request))"

definition cancel_plan ::
  "server_executor \<Rightarrow> server_env \<Rightarrow> Deployment \<Rightarrow> ExecutionPlan \<Rightarrow> RuntimeCredential \<Rightarrow> unit sop" where
  "cancel_plan sx env d plan credential =
     (if \<not> managed_ingress_plan sx plan then do_call env (RuntimeCancel plan credential)
      else op_bind (cutover_Pending env (dep_ID d)) (\<lambda>found. case found of
          None \<Rightarrow> do_call env (RuntimeCancel plan credential)
        | Some original \<Rightarrow>
            if \<not> sx_managed sx then fail_with ErrManagedIngressUnavailable
            else undo_cutover env (dep_ID d) plan (execution_plan plan original) RouteFailureCanceled []))"

section \<open>Resolution\<close>

definition execution_failure :: "FailureCategory \<Rightarrow> go_error \<Rightarrow> 'a sop" where
  "execution_failure c e = op_fail (ExecutionFailure c [e])"

definition resolve_registry ::
  "server_executor \<Rightarrow> server_env \<Rightarrow> ExecutionPlan \<Rightarrow> RuntimeCredential \<Rightarrow> RuntimeCredential sop" where
  "resolve_registry sx env plan credential =
     (if ep_RegistryPasswordRef plan = [] then op_return credential
      else if \<not> sx_registries sx then execution_failure FailureConfiguration (Sentinel ErrRegistryResolverRequired)
      else
        op_bind (op_catch (ask_or_fail
            (se_registry env (ep_RegistryServer plan) (ep_RegistryUsername plan) (ep_RegistryPasswordRef plan))
            (EvRegistry (ep_RegistryServer plan) (ep_RegistryUsername plan) (ep_RegistryPasswordRef plan)))
            (execution_failure FailureCredential)) (\<lambda>authorization.
          op_return (credential\<lparr>rc_RegistryAuthorization := authorization\<rparr>)))"

text \<open>The bindings in the order of their names; the values are appended to what was resolved so far.\<close>

fun resolve_values :: "server_env \<Rightarrow> (string \<times> string) list \<Rightarrow> string list \<Rightarrow> string list sop" where
  "resolve_values env [] environment = op_return environment"
| "resolve_values env ((name, reference) # rest) environment =
     op_bind (op_catch (ask_or_fail (se_configuration env reference) (EvConfiguration reference))
         (execution_failure FailureCredential)) (\<lambda>v.
       resolve_values env rest (environment @ [name @ ''='' @ v]))"

definition resolve_environment :: "server_executor \<Rightarrow> server_env \<Rightarrow> ExecutionPlan \<Rightarrow> ExecutionPlan sop" where
  "resolve_environment sx env plan =
     (if ep_EnvironmentBindings plan = [] then op_return plan
      else if \<not> sx_configuration sx
      then execution_failure FailureConfiguration (Sentinel ErrConfigurationResolverRequired)
      else
        op_bind (resolve_values env (sort_key fst (ep_EnvironmentBindings plan)) []) (\<lambda>values.
          op_return (plan\<lparr>ep_Environment := values\<rparr>)))"

text \<open>The error of the run itself: kept where it is retryable or categorised, else a failure of the runtime.\<close>

definition run_failed :: "go_error \<Rightarrow> unit sop" where
  "run_failed e =
     (if errors_Is e retryable_error then op_fail e
      else (case errors_As_execution e of
          Some x \<Rightarrow> op_fail x
        | None \<Rightarrow> execution_failure FailureRuntime e))"

definition executeWithResolver ::
  "server_executor \<Rightarrow> server_env \<Rightarrow> Deployment \<Rightarrow> bool \<Rightarrow> (ExecutionPlan \<Rightarrow> RuntimeCredential \<Rightarrow> unit sop) \<Rightarrow> unit sop" where
  "executeWithResolver sx env d cancellation run =
     op_bind (op_catch (ask_or_fail (se_resolve env cancellation d) (EvResolve cancellation d))
         (execution_failure FailureConfiguration)) (\<lambda>plan.
       if \<not> Connection_Validate (ep_TargetConnection plan)
       then execution_failure FailureConfiguration (Sentinel (ErrRouteDeployment (ErrExternal ''connection'')))
       else
         op_bind (op_catch (ask_or_fail (se_credential env (ep_TargetConnection plan))
             (EvCredential (ep_TargetConnection plan))) (execution_failure FailureCredential)) (\<lambda>resolved.
         op_bind (resolve_registry sx env plan resolved) (\<lambda>credential.
         op_bind (resolve_environment sx env plan) (\<lambda>bound.
           op_catch (run bound credential) run_failed))))"

definition executor_Prepare :: "server_executor \<Rightarrow> server_env \<Rightarrow> Deployment \<Rightarrow> unit sop" where
  "executor_Prepare sx env d =
     executeWithResolver sx env d False (\<lambda>plan credential. do_call env (RuntimePrepare plan credential))"

definition executor_Deploy :: "server_executor \<Rightarrow> server_env \<Rightarrow> Deployment \<Rightarrow> unit sop" where
  "executor_Deploy sx env d = executeWithResolver sx env d False (deploy_plan sx env d)"

definition executor_Cancel :: "server_executor \<Rightarrow> server_env \<Rightarrow> Deployment \<Rightarrow> unit sop" where
  "executor_Cancel sx env d = executeWithResolver sx env d (sx_cancellation sx) (cancel_plan sx env d)"

text \<open>The executor's operation of a phase of the deployment worker.\<close>

fun executor_call :: "server_executor \<Rightarrow> server_env \<Rightarrow> phase \<Rightarrow> Deployment \<Rightarrow> unit sop" where
  "executor_call sx env PhasePrepare d = executor_Prepare sx env d"
| "executor_call sx env PhaseDeploy d = executor_Deploy sx env d"
| "executor_call sx env PhaseCommit d = executor_Commit sx env d"
| "executor_call sx env PhaseCancel d = executor_Cancel sx env d"

end
