(* ===== verification/ServerSafety.thy ===== *)
theory ServerSafety
  imports ServerExecutor
begin

text \<open>
  What the server's executor never does, whatever its collaborators answer: the phases of a managed cutover are
  taken in order, each only after the one before it was acknowledged, and a cutover is undone from the route
  back to the runtime.
\<close>

section \<open>What is known\<close>

text \<open>\<open>i\<close> is the identifier the transactions of a deployment are stored under.\<close>

definition acked :: "unit_call \<Rightarrow> server_event set \<Rightarrow> bool" where
  "acked c A \<longleftrightarrow> EvDo c (Inr ()) \<in> A"

definition stored_tx :: "string \<Rightarrow> CutoverTransaction \<Rightarrow> server_event set \<Rightarrow> bool" where
  "stored_tx i tx A \<longleftrightarrow> EvGet i (Inr (Some tx)) \<in> A"

definition nothing_stored :: "string \<Rightarrow> server_event set \<Rightarrow> bool" where
  "nothing_stored i A \<longleftrightarrow> EvGet i (Inr None) \<in> A"

text \<open>A plan carries the identity under which its cutover was begun.\<close>

definition begun :: "ExecutionPlan \<Rightarrow> server_event set \<Rightarrow> bool" where
  "begun x A \<longleftrightarrow> ep_ManagedIngress x \<and> (\<exists>request tx. EvBegin request (Inr tx) \<in> A \<and>
     SameCutover request (ct_Request tx) \<and> cr_DeploymentID request = ep_DeploymentID x \<and>
     ep_WorkerID x = cr_WorkerID (ct_Request tx) \<and> ep_FencingToken x = cr_FencingToken (ct_Request tx))"

definition staged :: "ExecutionPlan \<Rightarrow> server_event set \<Rightarrow> bool" where
  "staged x A \<longleftrightarrow> (\<exists>credential. acked (RuntimeStage x credential) A)"

definition prepared :: "string \<Rightarrow> server_event set \<Rightarrow> bool" where
  "prepared i A \<longleftrightarrow> (\<exists>tx observation. stored_tx i tx A \<and> acked (StorePrepared tx observation) A)"

text \<open>The gateway serves its committed configuration again, or no cutover was stored.\<close>

definition restored :: "string \<Rightarrow> server_event set \<Rightarrow> bool" where
  "restored i A \<longleftrightarrow> nothing_stored i A \<or>
     (\<exists>tx observation. stored_tx i tx A \<and> EvGateway (GatewayAbort (ct_Desired tx)) (Inr observation) \<in> A)"

definition candidate_canceled :: "server_event set \<Rightarrow> bool" where
  "candidate_canceled A \<longleftrightarrow> (\<exists>authorization execution. acked (RuntimeCancelPrepared authorization execution) A)"

definition undone :: "string \<Rightarrow> server_event set \<Rightarrow> bool" where
  "undone i A \<longleftrightarrow> restored i A \<and> candidate_canceled A \<and>
     (nothing_stored i A \<or> (\<exists>tx code. acked (StoreAbort tx code) A))"

text \<open>The route switched: the gateway committed the configuration of a cutover the control plane has committed.\<close>

definition switched :: "string \<Rightarrow> ExecutionPlan \<Rightarrow> server_event set \<Rightarrow> bool" where
  "switched i x A \<longleftrightarrow> (\<exists>tx observation. stored_tx i tx A \<and> ct_ControlPlaneCommitted tx \<and>
     EvGateway (GatewayCommit (ct_Desired tx)) (Inr observation) \<in> A \<and> acked (StoreComplete tx observation) A \<and>
     ep_WorkerID x = cr_WorkerID (ct_Request tx) \<and> ep_FencingToken x = cr_FencingToken (ct_Request tx))"

section \<open>Allowed calls\<close>

fun call_allowed :: "server_executor \<Rightarrow> string \<Rightarrow> server_event set \<Rightarrow> unit_call \<Rightarrow> bool" where
  "call_allowed sx i A (RuntimeStage x credential) \<longleftrightarrow> begun x A"
| "call_allowed sx i A (StorePrepared tx observation) \<longleftrightarrow>
     stored_tx i tx A \<and> EvGateway (GatewayPrepare (ct_Desired tx)) (Inr observation) \<in> A"
| "call_allowed sx i A (RuntimeActivatePrepared authorization x) \<longleftrightarrow> staged x A \<and> prepared i A"
| "call_allowed sx i A (RuntimeCancelPrepared authorization x) \<longleftrightarrow> restored i A"
| "call_allowed sx i A (StoreAbort tx code) \<longleftrightarrow> stored_tx i tx A \<and> restored i A \<and> candidate_canceled A"
| "call_allowed sx i A (StoreComplete tx observation) \<longleftrightarrow> stored_tx i tx A \<and> ct_ControlPlaneCommitted tx \<and>
     EvGateway (GatewayCommit (ct_Desired tx)) (Inr observation) \<in> A"
| "call_allowed sx i A (RuntimeRetire x) \<longleftrightarrow> switched i x A"
| "call_allowed sx i A (StoreFinish tx) \<longleftrightarrow> stored_tx i tx A \<and> (\<exists>x. acked (RuntimeRetire x) A)"
| "call_allowed sx i A (RuntimeDeploy x credential) \<longleftrightarrow>
     (managed_ingress_plan sx x \<longrightarrow> (\<exists>request. EvRequired request (Inr False) \<in> A \<and> cr_DeploymentID request = ep_DeploymentID x))"
| "call_allowed sx i A (RuntimeCancel x credential) \<longleftrightarrow> (managed_ingress_plan sx x \<longrightarrow> nothing_stored i A)"
| "call_allowed sx i A _ \<longleftrightarrow> True"

fun gateway_allowed :: "string \<Rightarrow> server_event set \<Rightarrow> gateway_call \<Rightarrow> bool" where
  "gateway_allowed i A (GatewayPrepare c) \<longleftrightarrow>
     (\<exists>tx. stored_tx i tx A \<and> c = ct_Desired tx \<and> \<not> ct_ControlPlaneCommitted tx) \<and> (\<exists>x. staged x A)"
| "gateway_allowed i A (GatewayCommit c) \<longleftrightarrow> (\<exists>tx. stored_tx i tx A \<and> c = ct_Desired tx \<and> ct_ControlPlaneCommitted tx)"
| "gateway_allowed i A (GatewayAbort c) \<longleftrightarrow> (\<exists>tx. stored_tx i tx A \<and> c = ct_Desired tx)"

fun cutover_allowed :: "server_executor \<Rightarrow> string \<Rightarrow> server_event set \<Rightarrow> server_event \<Rightarrow> bool" where
  "cutover_allowed sx i A (EvDo c r) \<longleftrightarrow> call_allowed sx i A c"
| "cutover_allowed sx i A (EvGateway c r) \<longleftrightarrow> gateway_allowed i A c"
| "cutover_allowed sx i A _ \<longleftrightarrow> True"

lemma known_mono:
  assumes "A \<subseteq> B"
  shows "acked c A \<Longrightarrow> acked c B" "stored_tx i tx A \<Longrightarrow> stored_tx i tx B" "nothing_stored i A \<Longrightarrow> nothing_stored i B"
    "begun x A \<Longrightarrow> begun x B" "staged x A \<Longrightarrow> staged x B" "prepared i A \<Longrightarrow> prepared i B" "restored i A \<Longrightarrow> restored i B"
    "candidate_canceled A \<Longrightarrow> candidate_canceled B" "switched i x A \<Longrightarrow> switched i x B"
proof -
  show acked: "acked c A \<Longrightarrow> acked c B" for c using assms by (auto simp: acked_def)
  show stored: "stored_tx i tx A \<Longrightarrow> stored_tx i tx B" for tx using assms by (auto simp: stored_tx_def)
  show absent: "nothing_stored i A \<Longrightarrow> nothing_stored i B" using assms by (auto simp: nothing_stored_def)
  show "begun x A \<Longrightarrow> begun x B" using assms unfolding begun_def by blast
  show "staged x A \<Longrightarrow> staged x B" unfolding staged_def using acked by blast
  show "prepared i A \<Longrightarrow> prepared i B" unfolding prepared_def using stored acked by blast
  show "restored i A \<Longrightarrow> restored i B" unfolding restored_def using stored absent assms by (meson subsetD)
  show "candidate_canceled A \<Longrightarrow> candidate_canceled B" unfolding candidate_canceled_def using acked by blast
  show "switched i x A \<Longrightarrow> switched i x B" unfolding switched_def using stored acked assms by (meson subsetD)
qed

lemma undone_mono: "undone i A \<Longrightarrow> A \<subseteq> B \<Longrightarrow> undone i B"
  unfolding undone_def using known_mono[of A B] by blast

lemma call_allowed_mono:
  assumes "call_allowed sx i A c" "A \<subseteq> B"
  shows "call_allowed sx i B c"
  using assms known_mono[OF assms(2)] by (cases c) (simp_all, blast+)

lemma gateway_allowed_mono:
  assumes "gateway_allowed i A c" "A \<subseteq> B"
  shows "gateway_allowed i B c"
  using assms(1) known_mono(2,5)[OF assms(2)] by (cases c) (simp_all, blast+)

interpretation server: trace_safety "cutover_allowed sx i" for sx i
proof
  fix A B ev
  assume "cutover_allowed sx i A ev" "A \<subseteq> B"
  then show "cutover_allowed sx i B ev" by (cases ev) (auto intro: call_allowed_mono gateway_allowed_mono)
qed

abbreviation (input) any_error :: "go_error \<Rightarrow> server_event set \<Rightarrow> bool" where
  "any_error \<equiv> \<lambda>_ _. True"

section \<open>Calls\<close>

lemma do_outcome:
  assumes "call_allowed sx i F c"
  shows "server.outcome sx i F (do_call env c) (\<lambda>_ G. acked c G) any_error"
  unfolding do_call_def
  by (rule server.outcome_weaken[OF server.outcome_ask]) (use assms in \<open>auto simp: acked_def\<close>)

lemma do_then:
  assumes "call_allowed sx i F c" "\<And>G. F \<subseteq> G \<Longrightarrow> acked c G \<Longrightarrow> Q () G"
  shows "server.outcome sx i F (do_call env c) Q any_error"
  by (rule server.outcome_weaken[OF do_outcome[OF assms(1)]]) (use assms(2) in auto)

lemma gateway_outcome:
  assumes "gateway_allowed i F c"
  shows "server.outcome sx i F (gateway_do env c) (\<lambda>ob G. EvGateway c (Inr ob) \<in> G) any_error"
  unfolding gateway_do_def
  by (rule server.outcome_weaken[OF server.outcome_ask]) (use assms in auto)

lemma get_outcome:
  "trim_space k = i \<Longrightarrow> server.outcome sx i F (store_Get env k)
     (\<lambda>found G. case found of None \<Rightarrow> nothing_stored i G | Some tx \<Rightarrow> stored_tx i tx G) any_error"
  unfolding store_Get_def
  by (rule server.outcome_weaken[OF server.outcome_ask]) (auto simp: stored_tx_def nothing_stored_def split: option.splits)

lemma fail_outcome: "server.outcome sx i F (op_fail e) Q any_error"
  by (rule server.outcome_fail) simp

text \<open>A program that asks the store for the deployment's transaction first.\<close>

lemma get_then:
  assumes "trim_space k = i" "\<And>G. F \<subseteq> G \<Longrightarrow> nothing_stored i G \<Longrightarrow> server.outcome sx i G (f None) Q any_error"
    "\<And>tx G. F \<subseteq> G \<Longrightarrow> stored_tx i tx G \<Longrightarrow> server.outcome sx i G (f (Some tx)) Q any_error"
  shows "server.outcome sx i F (op_bind (store_Get env k) f) Q any_error"
  by (rule server.outcome_step[OF get_outcome]) (use assms in \<open>auto split: option.splits\<close>)

section \<open>Coordinator\<close>

lemma restored_abort:
  assumes "stored_tx i tx F" "F \<subseteq> G" "EvGateway (GatewayAbort (ct_Desired tx)) (Inr ob) \<in> G"
  shows "restored i G"
  using assms known_mono(2)[OF assms(2,1)] by (auto simp: restored_def)

lemma restore_outcome:
  assumes "trim_space k = i"
  shows "server.outcome sx i F (cutover_Restore env k) (\<lambda>_ G. restored i G) any_error"
  unfolding cutover_Restore_def
proof (rule get_then[OF assms], unfold option.case)
  fix G
  assume "nothing_stored i G"
  then show "server.outcome sx i G (op_return ()) (\<lambda>_ G. restored i G) any_error"
    by (intro server.outcome_return) (auto simp: restored_def intro: known_mono(3))
next
  fix tx G
  assume tx: "stored_tx i tx G"
  show "server.outcome sx i G (op_bind (gateway_do env (GatewayAbort (ct_Desired tx))) (\<lambda>_. op_return ()))
      (\<lambda>_ G. restored i G) any_error"
  proof (rule server.outcome_step[OF gateway_outcome])
    show "gateway_allowed i G (GatewayAbort (ct_Desired tx))" using tx by auto
    fix ob H
    assume "G \<subseteq> H" "EvGateway (GatewayAbort (ct_Desired tx)) (Inr ob) \<in> H"
    from restored_abort[OF tx this] show "server.outcome sx i H (op_return ()) (\<lambda>_ G. restored i G) any_error"
      by (intro server.outcome_return) (rule known_mono(7))
  qed simp
qed

text \<open>The transaction is gone from the store, or was never there.\<close>

definition discarded :: "string \<Rightarrow> server_event set \<Rightarrow> bool" where
  "discarded i A \<longleftrightarrow> nothing_stored i A \<or> (\<exists>tx code. acked (StoreAbort tx code) A)"

lemma finalize_outcome:
  assumes "trim_space k = i" "restored i F" "candidate_canceled F"
  shows "server.outcome sx i F (cutover_FinalizeAbort env k code) (\<lambda>_ G. discarded i G) any_error"
proof (cases "FailureCode_Valid code")
  case True
  have "server.outcome sx i F (op_bind (store_Get env k) (case_option (op_return ()) (\<lambda>tx. do_call env (StoreAbort tx code))))
      (\<lambda>_ G. discarded i G) any_error"
  proof (rule get_then[OF assms(1)], unfold option.case)
    fix G
    assume "nothing_stored i G"
    then show "server.outcome sx i G (op_return ()) (\<lambda>_ G. discarded i G) any_error"
      by (intro server.outcome_return) (auto simp: discarded_def intro: known_mono(3))
  next
    fix tx G
    assume "F \<subseteq> G" "stored_tx i tx G"
    then have "call_allowed sx i G (StoreAbort tx code)"
      using known_mono(7)[OF _ assms(2)] known_mono(8)[OF _ assms(3)] by simp
    then show "server.outcome sx i G (do_call env (StoreAbort tx code)) (\<lambda>_ G. discarded i G) any_error"
      by (rule do_then) (auto simp: discarded_def)
  qed
  with True show ?thesis by (simp add: cutover_FinalizeAbort_def)
qed (simp add: cutover_FinalizeAbort_def fail_outcome)

lemma abort_preparation_outcome:
  assumes "stored_tx i tx F"
  shows "server.outcome sx i F (abort_preparation env tx e) Q any_error"
  unfolding abort_preparation_def
proof (rule server.outcome_step[OF server.outcome_catch[OF gateway_outcome]])
  show "gateway_allowed i F (GatewayAbort (ct_Desired tx))" using assms by auto
qed (auto intro: fail_outcome)

lemma cutover_prepare_outcome:
  assumes "trim_space k = i" "staged x F"
  shows "server.outcome sx i F (cutover_Prepare env k) (\<lambda>_ G. prepared i G) any_error"
  unfolding cutover_Prepare_def
proof (rule get_then[OF assms(1)], unfold option.case)
  fix tx G
  assume G: "F \<subseteq> G" and tx: "stored_tx i tx G"
  have body: "server.outcome sx i G (op_bind (gateway_do env (GatewayPrepare (ct_Desired tx)))
      (\<lambda>ob. do_call env (StorePrepared tx ob))) (\<lambda>_ G. prepared i G) any_error" if "\<not> ct_ControlPlaneCommitted tx"
  proof (rule server.outcome_step[OF gateway_outcome])
    show "gateway_allowed i G (GatewayPrepare (ct_Desired tx))"
      using that tx known_mono(5)[OF G assms(2)] by auto
    fix ob H
    assume H: "G \<subseteq> H" "EvGateway (GatewayPrepare (ct_Desired tx)) (Inr ob) \<in> H"
    then have "call_allowed sx i H (StorePrepared tx ob)" using known_mono(2)[OF H(1) tx] by simp
    then show "server.outcome sx i H (do_call env (StorePrepared tx ob)) (\<lambda>_ G. prepared i G) any_error"
      by (rule do_then) (use known_mono(2)[OF _ known_mono(2)[OF H(1) tx]] in \<open>auto simp: prepared_def\<close>)
  qed simp
  have abort: "server.outcome sx i H (abort_preparation env tx e) (\<lambda>_ G. prepared i G) any_error" if "G \<subseteq> H" for e H
    using abort_preparation_outcome known_mono(2)[OF that tx] by blast
  show "server.outcome sx i G (if ct_ControlPlaneCommitted tx then fail_with ErrRouteCutoverConflict
      else op_catch (op_bind (gateway_do env (GatewayPrepare (ct_Desired tx))) (\<lambda>ob. do_call env (StorePrepared tx ob)))
        (abort_preparation env tx)) (\<lambda>_ G. prepared i G) any_error"
    using server.outcome_catch[OF body abort] by (simp add: fail_outcome)
qed (rule fail_outcome)

section \<open>Undoing\<close>

lemma retry_outcome: "server.outcome sx i F (retry_later es) Q (\<lambda>e _. errors_Is e retryable_error)"
  unfolding retry_later_def by (rule server.outcome_fail) (simp add: errors_Is_def)

lemma undo_outcome:
  assumes "trim_space k = i"
  shows "server.outcome sx i F (undo_cutover env k authorization execution code cause) (\<lambda>_ G. undone i G)
    (\<lambda>e _. errors_Is e retryable_error)"
  unfolding undo_cutover_def
proof (rule server.outcome_step[OF server.outcome_catch[OF restore_outcome[OF assms] retry_outcome]])
  fix u G
  assume restored: "restored i G"
  show "server.outcome sx i G (op_bind (op_catch (do_call env (RuntimeCancelPrepared authorization execution))
      (\<lambda>e. retry_later (cause @ [e]))) (\<lambda>_. op_catch (cutover_FinalizeAbort env k code) (\<lambda>e. retry_later (cause @ [e]))))
      (\<lambda>_ G. undone i G) (\<lambda>e _. errors_Is e retryable_error)"
  proof (rule server.outcome_step[OF server.outcome_catch[OF do_outcome retry_outcome]])
    show "call_allowed sx i G (RuntimeCancelPrepared authorization execution)" using restored by simp
    show "G \<subseteq> H \<Longrightarrow> acked (RuntimeCancelPrepared authorization execution) H \<Longrightarrow>
        restored i H \<and> candidate_canceled H" for H
      using known_mono(7)[OF _ restored] by (auto simp: candidate_canceled_def)
  next
    fix v H
    assume H: "restored i H \<and> candidate_canceled H"
    show "server.outcome sx i H (op_catch (cutover_FinalizeAbort env k code) (\<lambda>e. retry_later (cause @ [e])))
        (\<lambda>_ G. undone i G) (\<lambda>e _. errors_Is e retryable_error)"
    proof (rule server.outcome_catch[OF finalize_outcome[OF assms] retry_outcome])
      show "H \<subseteq> K \<Longrightarrow> discarded i K \<Longrightarrow> undone i K" for K
        using H known_mono(7)[of H K i] known_mono(8)[of H K] by (simp add: undone_def discarded_def)
    qed (use H in auto)
  qed
qed auto

lemma cutover_abort_outcome:
  assumes "trim_space (dep_ID d) = i"
  shows "server.outcome sx i F (phase_failed env d plan execution ambiguous e) (\<lambda>_ _. False)
    (\<lambda>e G. errors_Is e retryable_error \<or> undone i G)"
proof -
  have abort: "server.outcome sx i F (abortManagedCutover env (dep_ID d) plan execution e) (\<lambda>_ _. False)
      (\<lambda>e G. errors_Is e retryable_error \<or> undone i G)"
    unfolding abortManagedCutover_def
    by (rule server.outcome_step[OF undo_outcome[OF assms]]) (auto intro!: server.outcome_fail intro: undone_mono)
  show ?thesis
    by (auto simp: phase_failed_def intro: abort server.outcome_weaken[OF retry_outcome])
qed

text \<open>A phase that reached its end, or whose failure is retried or undone.\<close>

lemma phase_then:
  assumes "server.outcome sx i F m Q any_error" "trim_space (dep_ID d) = i"
    "\<And>u G. F \<subseteq> G \<Longrightarrow> Q u G \<Longrightarrow> R u G"
  shows "server.outcome sx i F (op_catch m (phase_failed env d plan execution ambiguous)) R
    (\<lambda>e G. errors_Is e retryable_error \<or> undone i G)"
  by (rule server.outcome_catch[OF assms(1)])
    (rule server.outcome_weaken[OF cutover_abort_outcome[OF assms(2)]], use assms(3) in auto)

section \<open>Deploy\<close>

lemma phases_outcome:
  assumes "trim_space (dep_ID d) = i" "begun x F"
  shows "server.outcome sx i F (managed_phases env d plan x credential)
    (\<lambda>_ G. acked (RuntimeActivatePrepared plan x) G) (\<lambda>e G. errors_Is e retryable_error \<or> undone i G)"
  unfolding managed_phases_def
proof (rule server.outcome_step)
  show "server.outcome sx i F (op_catch (do_call env (RuntimeStage x credential))
      (phase_failed env d plan x target_unreachable)) (\<lambda>_ G. staged x G) (\<lambda>e G. errors_Is e retryable_error \<or> undone i G)"
    by (rule phase_then[OF do_outcome assms(1)]) (use assms(2) in \<open>auto simp: staged_def\<close>)
  fix u G
  assume staged: "staged x G"
  show "server.outcome sx i G (op_bind (op_catch (cutover_Prepare env (dep_ID d))
        (phase_failed env d plan x (\<lambda>e. errors_Is e ErrRouteCutoverAmbiguous)))
        (\<lambda>_. op_catch (do_call env (RuntimeActivatePrepared plan x)) (phase_failed env d plan x target_unreachable)))
      (\<lambda>_ G. acked (RuntimeActivatePrepared plan x) G) (\<lambda>e G. errors_Is e retryable_error \<or> undone i G)"
  proof (rule server.outcome_step)
    show "server.outcome sx i G (op_catch (cutover_Prepare env (dep_ID d))
        (phase_failed env d plan x (\<lambda>e. errors_Is e ErrRouteCutoverAmbiguous)))
      (\<lambda>_ G. staged x G \<and> prepared i G) (\<lambda>e G. errors_Is e retryable_error \<or> undone i G)"
      by (rule phase_then[OF cutover_prepare_outcome[OF assms(1) staged] assms(1)]) (auto intro: known_mono(5)[OF _ staged])
    fix v H
    assume "staged x H \<and> prepared i H"
    then show "server.outcome sx i H (op_catch (do_call env (RuntimeActivatePrepared plan x))
        (phase_failed env d plan x target_unreachable))
      (\<lambda>_ G. acked (RuntimeActivatePrepared plan x) G) (\<lambda>e G. errors_Is e retryable_error \<or> undone i G)"
      by (intro phase_then[OF do_outcome assms(1)]) auto
  qed
qed

lemma request_outcome:
  "server.outcome sx i F (managedIngressCutoverRequest d plan) (\<lambda>request _. request = plan_request d plan) any_error"
  unfolding managedIngressCutoverRequest_def
  by (auto split: option.split intro: fail_outcome server.outcome_return)

lemma required_outcome:
  "server.outcome sx i F (cutover_Required env request) (\<lambda>b G. EvRequired request (Inr b) \<in> G) any_error"
  unfolding cutover_Required_def
  by (auto intro: fail_outcome server.outcome_weaken[OF server.outcome_ask])

lemma begin_outcome:
  assumes "cr_DeploymentID request = ep_DeploymentID plan"
  shows "server.outcome sx i F (cutover_Begin env request) (\<lambda>original G. begun (execution_plan plan original) G) any_error"
proof (cases "CutoverRequest_Validate request")
  case None
  have "server.outcome sx i F (op_bind (ask_or_fail (se_begin env request) (EvBegin request)) (\<lambda>tx.
        if CutoverRequest_Validate (ct_Request tx) \<noteq> None \<or> \<not> SameCutover request (ct_Request tx)
        then fail_with ErrRouteCutoverConflict else op_return (ct_Request tx)))
      (\<lambda>original G. begun (execution_plan plan original) G) any_error"
  proof (rule server.outcome_step[OF server.outcome_ask])
    fix tx G
    assume "EvBegin request (Inr tx) \<in> G"
    then have "begun (execution_plan plan (ct_Request tx)) G" if "SameCutover request (ct_Request tx)"
      using assms that by (auto simp: begun_def execution_plan_def)
    then show "server.outcome sx i G (if CutoverRequest_Validate (ct_Request tx) \<noteq> None \<or> \<not> SameCutover request (ct_Request tx)
        then fail_with ErrRouteCutoverConflict else op_return (ct_Request tx))
      (\<lambda>original G. begun (execution_plan plan original) G) any_error"
      by (auto intro!: fail_outcome server.outcome_return intro: known_mono(4))
  qed auto
  with None show ?thesis by (simp add: cutover_Begin_def)
qed (simp add: cutover_Begin_def fail_outcome)

lemma deploy_outcome:
  assumes "trim_space (dep_ID d) = i"
  shows "server.outcome sx i F (deploy_plan sx env d plan credential) (\<lambda>_ _. True) any_error"
proof (cases "managed_ingress_plan sx plan")
  case True
  have "server.outcome sx i G (do_call env (RuntimeDeploy plan credential)) (\<lambda>_ _. True) any_error"
    if "EvRequired (plan_request d plan) (Inr False) \<in> G" for G
    by (rule do_then) (use that in \<open>auto simp: plan_request_def intro!: exI[of _ "plan_request d plan"]\<close>)
  moreover have "server.outcome sx i G (op_bind (op_catch (cutover_Begin env (plan_request d plan)) begin_failed)
      (\<lambda>original. managed_phases env d plan (execution_plan plan original) credential)) (\<lambda>_ _. True) any_error" for G
  proof (rule server.outcome_step[OF server.outcome_catch[OF begin_outcome]])
    show "cr_DeploymentID (plan_request d plan) = ep_DeploymentID plan" by (simp add: plan_request_def)
    show "server.outcome sx i H (begin_failed e) (\<lambda>original G. begun (execution_plan plan original) G) any_error" for e H
      by (auto simp: begin_failed_def intro: fail_outcome server.outcome_weaken[OF retry_outcome])
    show "begun (execution_plan plan original) H \<Longrightarrow>
        server.outcome sx i H (managed_phases env d plan (execution_plan plan original) credential) (\<lambda>_ _. True) any_error"
      for original H by (rule server.outcome_weaken[OF phases_outcome[OF assms]]) auto
  qed auto
  ultimately show ?thesis
    using True unfolding deploy_plan_def
    by (auto intro!: server.outcome_step[OF request_outcome] server.outcome_step[OF required_outcome] fail_outcome)
next
  case False
  then show ?thesis unfolding deploy_plan_def by (auto intro: do_then)
qed

section \<open>Commit and cancellation\<close>

lemma finish_outcome:
  assumes "trim_space k = i" "acked (RuntimeRetire x) F"
  shows "server.outcome sx i F (cutover_Finish env k) (\<lambda>_ G. nothing_stored i G \<or> (\<exists>tx. acked (StoreFinish tx) G)) any_error"
  unfolding cutover_Finish_def
proof (rule get_then[OF assms(1)], unfold option.case)
  fix G
  assume "nothing_stored i G"
  then show "server.outcome sx i G (op_return ()) (\<lambda>_ G. nothing_stored i G \<or> (\<exists>tx. acked (StoreFinish tx) G)) any_error"
    by (intro server.outcome_return) (auto intro: known_mono(3))
next
  fix tx G
  assume "F \<subseteq> G" "stored_tx i tx G"
  then have "call_allowed sx i G (StoreFinish tx)" using known_mono(1)[OF _ assms(2)] by auto
  then show "server.outcome sx i G (do_call env (StoreFinish tx))
      (\<lambda>_ G. nothing_stored i G \<or> (\<exists>tx. acked (StoreFinish tx) G)) any_error"
    by (rule do_then) auto
qed

lemma resolve_outcome:
  "server.outcome sx i F (ask_or_fail (se_resolve env b d) (EvResolve b d)) (\<lambda>_ _. True) any_error"
  by (rule server.outcome_weaken[OF server.outcome_ask]) auto

lemma retire_backend_outcome:
  assumes "trim_space (dep_ID d) = i" "\<And>plan G. F \<subseteq> G \<Longrightarrow> switched i (execution_plan plan request) G"
  shows "server.outcome sx i F (retire_backend sx env d request)
    (\<lambda>_ G. nothing_stored i G \<or> (\<exists>tx. acked (StoreFinish tx) G)) any_error"
  unfolding retire_backend_def
proof (rule server.outcome_step)
  show "server.outcome sx i F (if 0 < sx_ingressDrain sx then do_call env (IngressDrain (sx_ingressDrain sx))
      else op_return ()) (\<lambda>_ _. True) any_error"
    by (auto intro: do_then server.outcome_return)
  fix u G
  assume G: "F \<subseteq> G"
  show "server.outcome sx i G (op_bind (ask_or_fail (se_resolve env False d) (EvResolve False d)) (\<lambda>plan.
      if \<not> sx_managed sx then fail_with ErrManagedIngressUnavailable
      else op_bind (do_call env (RuntimeRetire (execution_plan plan request))) (\<lambda>_. cutover_Finish env (dep_ID d))))
    (\<lambda>_ G. nothing_stored i G \<or> (\<exists>tx. acked (StoreFinish tx) G)) any_error"
  proof (rule server.outcome_step[OF resolve_outcome])
    fix plan H
    assume "G \<subseteq> H"
    with G have "call_allowed sx i H (RuntimeRetire (execution_plan plan request))" using assms(2) by simp
    then have "server.outcome sx i H (op_bind (do_call env (RuntimeRetire (execution_plan plan request)))
        (\<lambda>_. cutover_Finish env (dep_ID d))) (\<lambda>_ G. nothing_stored i G \<or> (\<exists>tx. acked (StoreFinish tx) G)) any_error"
      by (rule server.outcome_step[OF do_outcome finish_outcome[OF assms(1)]]) auto
    then show "server.outcome sx i H (if \<not> sx_managed sx then fail_with ErrManagedIngressUnavailable
      else op_bind (do_call env (RuntimeRetire (execution_plan plan request))) (\<lambda>_. cutover_Finish env (dep_ID d)))
      (\<lambda>_ G. nothing_stored i G \<or> (\<exists>tx. acked (StoreFinish tx) G)) any_error"
      by (simp add: fail_outcome)
  qed simp
qed simp

lemma cutover_commit_outcome:
  assumes "trim_space (dep_ID d) = i" "sx_ingress sx"
  shows "server.outcome sx i F (executor_Commit sx env d)
    (\<lambda>_ G. nothing_stored i G \<or> (\<exists>tx. acked (StoreFinish tx) G)) any_error"
proof -
  define K where "K = (\<lambda>found G. case found of None \<Rightarrow> nothing_stored i G
    | Some request \<Rightarrow> \<forall>plan. switched i (execution_plan plan request) G)"
  have commit: "server.outcome sx i F (cutover_Commit env (dep_ID d)) K any_error"
    unfolding cutover_Commit_def
  proof (rule get_then[OF assms(1)], unfold option.case)
    fix G
    assume "nothing_stored i G"
    then show "server.outcome sx i G (op_return None) K any_error"
      by (intro server.outcome_return) (auto simp: K_def intro: known_mono(3))
  next
    fix tx G
    assume tx: "stored_tx i tx G"
    show "server.outcome sx i G (if \<not> ct_ControlPlaneCommitted tx then fail_with ErrRouteCutoverConflict
        else op_bind (gateway_do env (GatewayCommit (ct_Desired tx))) (\<lambda>ob.
          op_bind (do_call env (StoreComplete tx ob)) (\<lambda>_. op_return (Some (ct_Request tx))))) K any_error"
    proof (cases "ct_ControlPlaneCommitted tx")
      case True
      have "server.outcome sx i G (op_bind (gateway_do env (GatewayCommit (ct_Desired tx))) (\<lambda>ob.
          op_bind (do_call env (StoreComplete tx ob)) (\<lambda>_. op_return (Some (ct_Request tx))))) K any_error"
      proof (rule server.outcome_step[OF gateway_outcome])
        show "gateway_allowed i G (GatewayCommit (ct_Desired tx))" using tx True by auto
        fix ob H
        assume H: "G \<subseteq> H" "EvGateway (GatewayCommit (ct_Desired tx)) (Inr ob) \<in> H"
        have allowed: "call_allowed sx i H (StoreComplete tx ob)" using known_mono(2)[OF H(1) tx] True H(2) by simp
        show "server.outcome sx i H (op_bind (do_call env (StoreComplete tx ob)) (\<lambda>_. op_return (Some (ct_Request tx))))
            K any_error"
        proof (rule server.outcome_step[OF do_outcome[OF allowed]])
          fix u L
          assume L: "H \<subseteq> L" "acked (StoreComplete tx ob) L"
          have "switched i (execution_plan plan (ct_Request tx)) L" for plan
            unfolding switched_def
            by (rule exI[of _ tx], rule exI[of _ ob])
              (use known_mono(2)[OF subset_trans[OF H(1) L(1)] tx] True subsetD[OF L(1) H(2)] L(2) in
                \<open>simp add: execution_plan_def\<close>)
          then show "server.outcome sx i L (op_return (Some (ct_Request tx))) K any_error"
            by (intro server.outcome_return) (auto simp: K_def intro: known_mono(9))
        qed simp
      qed simp
      with True show ?thesis by simp
    qed (simp add: fail_outcome)
  qed
  have "server.outcome sx i F (op_bind (cutover_Commit env (dep_ID d)) (\<lambda>found. case found of
      None \<Rightarrow> op_return () | Some request \<Rightarrow> retire_backend sx env d request))
    (\<lambda>_ G. nothing_stored i G \<or> (\<exists>tx. acked (StoreFinish tx) G)) any_error"
  proof (rule server.outcome_step[OF commit])
    fix found G
    assume K: "K found G"
    show "server.outcome sx i G (case found of None \<Rightarrow> op_return () | Some request \<Rightarrow> retire_backend sx env d request)
        (\<lambda>_ G. nothing_stored i G \<or> (\<exists>tx. acked (StoreFinish tx) G)) any_error"
    proof (cases found)
      case None
      with K have "nothing_stored i H" if "G \<subseteq> H" for H using known_mono(3)[OF that] by (simp add: K_def)
      with None show ?thesis by (simp add: server.outcome_return)
    next
      case (Some request)
      with K have "switched i (execution_plan plan request) H" if "G \<subseteq> H" for plan H
        using known_mono(9)[OF that] by (simp add: K_def)
      with Some show ?thesis by (simp add: retire_backend_outcome[OF assms(1)])
    qed
  qed simp
  with assms(2) show ?thesis by (simp add: executor_Commit_def)
qed

lemma cancel_outcome_plan:
  assumes "trim_space (dep_ID d) = i"
  shows "server.outcome sx i F (cancel_plan sx env d plan credential)
    (\<lambda>_ G. (\<exists>p c. acked (RuntimeCancel p c) G) \<or> undone i G) any_error"
proof (cases "managed_ingress_plan sx plan")
  case True
  define K where "K = (\<lambda>found :: CutoverRequest option. \<lambda>G. found = None \<longrightarrow> nothing_stored i G)"
  have pending: "server.outcome sx i F (cutover_Pending env (dep_ID d)) K any_error"
    unfolding cutover_Pending_def
    by (rule get_then[OF assms]) (auto simp: K_def intro!: server.outcome_return fail_outcome intro: known_mono(3))
  have undo: "server.outcome sx i G (undo_cutover env (dep_ID d) plan x code [])
      (\<lambda>_ G. (\<exists>p c. acked (RuntimeCancel p c) G) \<or> undone i G) any_error" for x code G
    by (rule server.outcome_weaken[OF undo_outcome[OF assms]]) auto
  have direct: "server.outcome sx i G (do_call env (RuntimeCancel plan credential))
      (\<lambda>_ G. (\<exists>p c. acked (RuntimeCancel p c) G) \<or> undone i G) any_error" if "nothing_stored i G" for G
    by (rule do_then) (use that in auto)
  show ?thesis
    unfolding cancel_plan_def
    by (simp add: True, rule server.outcome_step[OF pending])
      (auto simp: K_def split: option.split intro: undo direct fail_outcome)
next
  case False
  have "server.outcome sx i F (do_call env (RuntimeCancel plan credential))
      (\<lambda>_ G. (\<exists>p c. acked (RuntimeCancel p c) G) \<or> undone i G) any_error"
    by (rule do_then) (use False in auto)
  with False show ?thesis by (simp add: cancel_plan_def)
qed

section \<open>Any call of the executor\<close>

lemma failure_outcome: "server.outcome sx i F (execution_failure c e) Q any_error"
  by (simp add: execution_failure_def fail_outcome)

lemma answered:
  assumes "\<And>r. cutover_allowed sx i F (ev r)" "\<And>x G. F \<subseteq> G \<Longrightarrow> server.outcome sx i G (f x) Q any_error"
  shows "server.outcome sx i F (op_bind (op_catch (ask_or_fail answer ev) (execution_failure c)) f) Q any_error"
  by (rule server.outcome_step[OF server.outcome_catch[OF server.outcome_ask failure_outcome]]) (use assms in auto)

lemma registry_outcome: "server.outcome sx i F (resolve_registry sx env plan credential) (\<lambda>_ _. True) any_error"
  unfolding resolve_registry_def
  by (auto intro!: answered intro: failure_outcome server.outcome_return)

lemma values_outcome: "server.outcome sx i F (resolve_values env bindings vs) (\<lambda>_ _. True) any_error"
proof (induction env bindings vs arbitrary: F rule: resolve_values.induct)
  case (2 env name reference rest vs)
  show ?case
    unfolding resolve_values.simps by (rule answered) (simp, rule "2.IH")
qed (simp add: server.outcome_return)

lemma environment_outcome: "server.outcome sx i F (resolve_environment sx env plan) (\<lambda>_ _. True) any_error"
  unfolding resolve_environment_def
  by (auto intro!: server.outcome_step[OF values_outcome] intro: failure_outcome server.outcome_return)

lemma run_failed_outcome: "server.outcome sx i F (run_failed e) Q any_error"
  by (auto simp: run_failed_def split: option.split intro: fail_outcome failure_outcome)

lemma execute_outcome:
  assumes "\<And>plan credential G. server.outcome sx i G (run plan credential) Q any_error"
  shows "server.outcome sx i F (executeWithResolver sx env d b run) Q any_error"
  unfolding executeWithResolver_def
proof (rule answered)
  fix plan G
  have run: "server.outcome sx i H (op_catch (run p c) run_failed) Q any_error" for p c H
    by (rule server.outcome_catch[OF assms run_failed_outcome])
  show "server.outcome sx i G (if \<not> Connection_Validate (ep_TargetConnection plan)
      then execution_failure FailureConfiguration (Sentinel (ErrRouteDeployment (ErrExternal ''connection'')))
      else op_bind (op_catch (ask_or_fail (se_credential env (ep_TargetConnection plan))
          (EvCredential (ep_TargetConnection plan))) (execution_failure FailureCredential)) (\<lambda>resolved.
        op_bind (resolve_registry sx env plan resolved) (\<lambda>credential.
        op_bind (resolve_environment sx env plan) (\<lambda>bound. op_catch (run bound credential) run_failed)))) Q any_error"
    by (auto intro!: answered server.outcome_step[OF registry_outcome] server.outcome_step[OF environment_outcome]
        intro: failure_outcome run)
qed simp

lemma executor_outcome:
  "server.outcome sx (trim_space (dep_ID d)) F (executor_call sx env p d) (\<lambda>_ _. True) any_error"
proof (cases p)
  case PhasePrepare
  then show ?thesis by (auto simp: executor_Prepare_def intro!: execute_outcome do_then)
next
  case PhaseDeploy
  then show ?thesis by (auto simp: executor_Deploy_def intro!: execute_outcome deploy_outcome)
next
  case PhaseCommit
  show ?thesis
  proof (cases "sx_ingress sx")
    case True
    from server.outcome_weaken[OF cutover_commit_outcome[OF refl True]] PhaseCommit show ?thesis by simp
  next
    case False
    with PhaseCommit show ?thesis by (simp add: executor_Commit_def server.outcome_return)
  qed
next
  case PhaseCancel
  then show ?thesis
    by (auto simp: executor_Cancel_def intro!: execute_outcome server.outcome_weaken[OF cancel_outcome_plan])
qed

end
