(* ===== verification/ServerOutcome.thy ===== *)
theory ServerOutcome
  imports ServerSafety
begin

text \<open>
  How a managed deployment ends: once the cutover has begun, it is activated, left for a retry, or undone.
\<close>

section \<open>Programs before the cutover begins\<close>

text \<open>The store answered with a transaction of this very cutover.\<close>

fun is_begin :: "server_event \<Rightarrow> bool" where
  "is_begin (EvBegin request (Inr tx)) \<longleftrightarrow>
     CutoverRequest_Validate (ct_Request tx) = None \<and> SameCutover request (ct_Request tx)"
| "is_begin _ \<longleftrightarrow> False"

abbreviation (input) begins_nothing :: "'a sop \<Rightarrow> bool" where
  "begins_nothing m \<equiv> adds (\<lambda>ev. \<not> is_begin ev) m"

lemma nothing_begun [simp]:
  "begins_nothing (do_call env c)" "begins_nothing (ask_or_fail (se_resolve env b d) (EvResolve b d))"
  "begins_nothing (ask_or_fail (se_credential env k) (EvCredential k))"
  "begins_nothing (ask_or_fail (se_registry env u v w) (EvRegistry u v w))"
  "begins_nothing (ask_or_fail (se_configuration env v) (EvConfiguration v))"
  "begins_nothing (ask_or_fail (se_required env q) (EvRequired q))"
  "begins_nothing (execution_failure category e)" "begins_nothing (run_failed e)"
  "begins_nothing (managedIngressCutoverRequest d plan)"
  by (auto simp: do_call_def execution_failure_def run_failed_def managedIngressCutoverRequest_def
      intro: adds_ask_or_fail split: option.split)

lemma resolution_begins_nothing [simp]:
  "begins_nothing (resolve_registry sx env plan credential)" "begins_nothing (resolve_values env bindings vs)"
  "begins_nothing (resolve_environment sx env plan)" "begins_nothing (cutover_Required env request)"
proof -
  show "begins_nothing (resolve_registry sx env plan credential)"
    unfolding resolve_registry_def by (auto intro!: adds_bind adds_catch)
  show "begins_nothing (resolve_values env bs us)" for bs us
  proof (induction env bs us rule: resolve_values.induct)
    case (2 env name reference rest us)
    then show ?case unfolding resolve_values.simps by (intro adds_bind adds_catch) simp_all
  qed simp
  then show "begins_nothing (resolve_environment sx env plan)"
    unfolding resolve_environment_def by (auto intro!: adds_bind)
  show "begins_nothing (cutover_Required env request)"
    unfolding cutover_Required_def by simp
qed

section \<open>Settled outcomes\<close>

fun verdict :: "string \<Rightarrow> go_error + unit \<Rightarrow> server_event set \<Rightarrow> bool" where
  "verdict i (Inl e) A \<longleftrightarrow> errors_Is e retryable_error \<or> undone i A"
| "verdict i (Inr u) A \<longleftrightarrow> (\<exists>plan x. acked (RuntimeActivatePrepared plan x) A)"

definition settles :: "server_executor \<Rightarrow> string \<Rightarrow> unit sop \<Rightarrow> bool" where
  "settles sx i m \<longleftrightarrow> (\<forall>tr r t. server.safe sx i tr \<longrightarrow> m tr = (r, t) \<longrightarrow>
     (\<exists>new. t = tr @ new \<and> (list_ex is_begin new \<longrightarrow> verdict i r (set t))))"

lemma settlesI:
  assumes "\<And>tr r t. server.safe sx i tr \<Longrightarrow> m tr = (r, t) \<Longrightarrow>
    \<exists>new. t = tr @ new \<and> (list_ex is_begin new \<longrightarrow> verdict i r (set t))"
  shows "settles sx i m"
  using assms by (auto simp: settles_def)

lemma settles_nothing: "begins_nothing m \<Longrightarrow> settles sx i m"
  by (rule settlesI) (use addsD in \<open>fastforce simp: list_all_iff list_ex_iff\<close>)

lemma settles_bind:
  assumes "begins_nothing m" "server.outcome sx i {} m Q E" "\<And>x. settles sx i (f x)"
  shows "settles sx i (op_bind m f)"
proof (rule settlesI)
  fix tr r t
  assume safe: "server.safe sx i tr" and run: "op_bind m f tr = (r, t)"
  obtain q u where m: "m tr = (q, u)" by fastforce
  obtain new where new: "u = tr @ new" "list_all (\<lambda>ev. \<not> is_begin ev) new" using addsD[OF assms(1) m] by blast
  show "\<exists>new. t = tr @ new \<and> (list_ex is_begin new \<longrightarrow> verdict i r (set t))"
  proof (cases q)
    case (Inl e)
    with run m have "t = u" by (simp add: op_bind_def)
    with new show ?thesis by (auto simp: list_all_iff list_ex_iff)
  next
    case (Inr x)
    with run m have f: "f x u = (r, t)" by (simp add: op_bind_def)
    have "server.safe sx i u" using server.outcome_dest(1)[OF assms(2) safe _ m] by simp
    with f assms(3) obtain more where "t = u @ more" "list_ex is_begin more \<longrightarrow> verdict i r (set t)"
      unfolding settles_def by blast
    with new show ?thesis by (intro exI[of _ "new @ more"]) (auto simp: list_all_iff list_ex_iff)
  qed
qed

text \<open>What \<open>executeWithResolver\<close> makes of an error stays retryable where it was.\<close>

lemma run_failed_eq: "run_failed e tr = (r, t) \<Longrightarrow> t = tr \<and> (\<exists>x. r = Inl x \<and> (errors_Is e retryable_error \<longrightarrow> x = e))"
  by (auto simp: run_failed_def execution_failure_def split: if_splits option.splits)

lemma settles_run: "settles sx i m \<Longrightarrow> settles sx i (op_catch m run_failed)"
proof (rule settlesI)
  fix tr r t
  assume m: "settles sx i m" and safe: "server.safe sx i tr" and run: "op_catch m run_failed tr = (r, t)"
  from run show "\<exists>new. t = tr @ new \<and> (list_ex is_begin new \<longrightarrow> verdict i r (set t))"
  proof (cases rule: op_catch_cases)
    case (error e u)
    with m safe obtain new where "u = tr @ new" "list_ex is_begin new \<longrightarrow> verdict i (Inl e) (set u)"
      unfolding settles_def by blast
    with run_failed_eq[OF error(2)] show ?thesis by (intro exI[of _ new]) auto
  next
    case (returns x)
    with m safe show ?thesis unfolding settles_def by blast
  qed
qed

section \<open>Deploy\<close>

text \<open>The answer of the store is one event; a cutover that is begun is known to be.\<close>

lemma begin_run:
  assumes "cutover_Begin env request tr = (r, t)"
  shows "\<exists>new. t = tr @ new \<and> (list_ex is_begin new \<longrightarrow> (\<exists>original. r = Inr original))"
  using assms
  by (auto simp: cutover_Begin_def op_bind_def ask_or_fail_def ask_def op_lift_def split: if_splits sum.splits)

lemma begin_failed_eq: "begin_failed e tr = (r, t) \<Longrightarrow> t = tr \<and> (\<exists>x. r = Inl x)"
  by (auto simp: begin_failed_def retry_later_def split: if_splits)

lemma adds_any: "\<exists>new. snd (m tr) = tr @ new \<Longrightarrow> m tr = (r, t) \<Longrightarrow> \<exists>new. t = tr @ new"
  by (metis snd_conv)

lemma grows_simple [simp]:
  "adds (\<lambda>_. True) (do_call env c)" "adds (\<lambda>_. True) (gateway_do env g)" "adds (\<lambda>_. True) (store_Get env k)"
  "adds (\<lambda>_. True) (retry_later es)"
  by (simp_all add: do_call_def gateway_do_def store_Get_def adds_ask_or_fail retry_later_def)

lemma phases_grow: "adds (\<lambda>_. True) (managed_phases env d plan x credential)"
proof -
  have restore: "adds (\<lambda>_. True) (cutover_Restore env k)" for k
    unfolding cutover_Restore_def by (auto intro!: adds_bind split: option.split)
  have finalize: "adds (\<lambda>_. True) (cutover_FinalizeAbort env k c)" for k c
    unfolding cutover_FinalizeAbort_def by (auto intro!: adds_bind split: option.split)
  have failed: "adds (\<lambda>_. True) (phase_failed env d plan x b e)" for b e
    unfolding phase_failed_def abortManagedCutover_def undo_cutover_def
    by (auto intro!: adds_bind adds_catch restore finalize)
  have prepare: "adds (\<lambda>_. True) (cutover_Prepare env k)" for k
    unfolding cutover_Prepare_def abort_preparation_def
    by (auto intro!: adds_bind adds_catch split: option.split)
  show ?thesis
    unfolding managed_phases_def by (intro adds_bind adds_catch failed prepare grows_simple)
qed

lemma managed_settles:
  assumes "trim_space (dep_ID d) = i" "cr_DeploymentID request = ep_DeploymentID plan"
  shows "settles sx i (op_bind (op_catch (cutover_Begin env request) begin_failed)
    (\<lambda>original. managed_phases env d plan (execution_plan plan original) credential))"
proof (rule settlesI)
  fix tr r t
  assume safe: "server.safe sx i tr" and run: "op_bind (op_catch (cutover_Begin env request) begin_failed)
    (\<lambda>original. managed_phases env d plan (execution_plan plan original) credential) tr = (r, t)"
  obtain q u where m: "cutover_Begin env request tr = (q, u)" by fastforce
  obtain new where new: "u = tr @ new" "list_ex is_begin new \<longrightarrow> (\<exists>original. q = Inr original)"
    using begin_run[OF m] by blast
  show "\<exists>new. t = tr @ new \<and> (list_ex is_begin new \<longrightarrow> verdict i r (set t))"
  proof (cases q)
    case (Inl e)
    with run m begin_failed_eq[of e u] new show ?thesis
      by (auto simp: op_bind_def op_catch_def split: prod.splits)
  next
    case (Inr original)
    with run m have phases: "managed_phases env d plan (execution_plan plan original) credential u = (r, t)"
      by (simp add: op_bind_def op_catch_def)
    note begun = server.outcome_dest[OF begin_outcome[OF assms(2)] safe _ m, of "{}"]
    have "begun (execution_plan plan original) (set u)" using begun(3) Inr by simp
    note ended = server.outcome_dest[OF phases_outcome[OF assms(1) this] _ subset_refl phases]
    have "verdict i r (set t)" using begun(1) ended(3,4) by (cases r) auto
    moreover obtain more where "t = u @ more" using addsD[OF phases_grow phases] by blast
    ultimately show ?thesis using new(1) by simp
  qed
qed

lemma deploy_settles:
  assumes "trim_space (dep_ID d) = i"
  shows "settles sx i (deploy_plan sx env d plan credential)"
proof -
  have request: "managedIngressCutoverRequest d plan = op_return (plan_request d plan) \<or>
      (\<exists>e. managedIngressCutoverRequest d plan = fail_with e)"
    by (auto simp: managedIngressCutoverRequest_def split: option.split)
  have return_bind: "op_bind (op_return x) f = f x" "op_bind (op_fail e) f = op_fail e" for x e and f :: "_ \<Rightarrow> unit sop"
    by (auto simp: op_bind_def op_return_def op_fail_def)
  have "settles sx i (op_bind (cutover_Required env (plan_request d plan)) (\<lambda>required.
      if \<not> required then do_call env (RuntimeDeploy plan credential)
      else if \<not> sx_managed sx then fail_with ErrManagedIngressUnavailable
      else op_bind (op_catch (cutover_Begin env (plan_request d plan)) begin_failed) (\<lambda>original.
        managed_phases env d plan (execution_plan plan original) credential)))"
    by (rule settles_bind[OF _ required_outcome])
      (auto intro!: settles_nothing managed_settles[OF assms] simp: plan_request_def)
  with request show ?thesis
    unfolding deploy_plan_def by (auto simp: return_bind intro: settles_nothing)
qed

lemma executor_settles: "settles sx (trim_space (dep_ID d)) (executor_Deploy sx env d)"
proof -
  have step: "settles sx i (op_bind (op_catch (ask_or_fail answer ev) (execution_failure c)) f)"
    if "begins_nothing (ask_or_fail answer ev)" "\<And>r F. cutover_allowed sx i F (ev r)" "\<And>x. settles sx i (f x)"
    for i c f and answer :: "server_trace \<Rightarrow> 'a go_answer" and ev
    by (rule settles_bind[OF adds_catch[OF that(1)] server.outcome_catch[OF server.outcome_ask failure_outcome], OF _ that(2) _ that(3)])
      auto
  have failure: "settles sx i (execution_failure c e)" for i c e by (simp add: settles_nothing)
  show ?thesis
    unfolding executor_Deploy_def executeWithResolver_def
    by (auto intro!: step settles_bind[OF _ registry_outcome] settles_bind[OF _ environment_outcome] settles_run
        deploy_settles failure)
qed

end
