(* ===== verification/Spec2Isabelle.thy ===== *)
theory Spec2Isabelle
  imports DeploymentProperties AdmissionProperties AgentProperties ProtocolProperties WorkerProperties
    BuildProperties InventoryProperties SupplyProperties EvidenceProperties DockerProperties
    IngressProperties ServerOutcome
begin

text \<open>
  OwnDock: a control plane that deploys applications to runtime targets, and the agent that carries
  its commands out on a host. This library models the program's core and proves what makes it correct.

  The parts and how they interact. A user or a finished build asks for a deployment; the use cases
  (\<open>internal/modules/deployment/biz/usecase.go\<close>) check permissions and references, evaluate the
  admission policy and store a deployment with its audit event in one transaction. A worker
  (\<open>internal/modules/deployment/worker/runner.go\<close>) claims the deployment under a lease with a
  generation, runs the executor's steps while it renews the lease, and saves every status with its
  audit event. Side effects carry a fence (worker, generation, cutover sequence), which the repository
  validates on the server and the agent's cutover store validates on the host. There the agent's executor
  stages a candidate container, switches it to the live name and retires or restores the former one. It
  prepares and commits the configuration of the host's ingress gateway, and answers a command that is
  delivered twice from its durable result cache, by the fingerprint of the command. On the server
  side of the worker, the runtime executor of a deployment (\<open>internal/modules/deployment/worker/runtime_executor.go\<close>)
  runs these phases through the runtime gateway, and moves the routes of the application with them
  (\<open>internal/modules/applicationroute\<close>): it prepares a route before the switch and commits it after.
  Images come from builds (\<open>internal/modules/build\<close>): a configuration in canonical form is frozen into
  a build, whose worker runs it under a lease as well. What a host runs is reported by collectors as
  snapshots in chunks (\<open>internal/shared/runtimeinventory\<close>), which the server projects onto its own
  resources (\<open>internal/modules/runtimeinventory\<close>). The admission of a deployment is decided from the
  policies of its project and the evidence, signatures and vulnerabilities of its artifact
  (\<open>internal/modules/supplychain\<close>); that evidence is made by the jobs of the evidence worker, which
  publishes a document or a verification under the lease of its job.

  Theories, in the order of their dependencies.
  \<^item> \<open>Prelude\<close>, \<open>GoText\<close>, \<open>Effects\<close>, \<open>Sha256\<close>: errors as sums, times as integers (zero is Go's zero
    time), \<open>uint64\<close> as 64 bit words, Go's string functions on ASCII text, state passing with failure,
    transactions, and SHA-256 as the standard defines it.
  \<^item> \<open>Security\<close> (\<open>internal/shared/security\<close>): roles, permissions, \<open>Require\<close>.
  \<^item> \<open>DeploymentTypes\<close>, \<open>Admission\<close>, \<open>LeaseContract\<close>, \<open>Deployment\<close>
    (\<open>internal/modules/deployment/biz\<close>): the record and its life cycle, the sealed admission snapshot,
    and the contract of a leased work item as a locale.
  \<^item> \<open>DeploymentRepository\<close>, \<open>DeploymentQueue\<close> (\<open>internal/modules/deployment/data/memory.go\<close>): every
    method of the repository, its invariant, the store contract as a locale, and the interleavings of
    users and workers as the step relation \<open>repo_step\<close>.
  \<^item> \<open>DeploymentUseCase\<close>, \<open>DeploymentAudit\<close>, \<open>DeploymentSamples\<close>, \<open>DeploymentProperties\<close>: the use
    cases over the repository and the audit log, and the properties of repository and use cases.
  \<^item> \<open>AdmissionProperties\<close>: sealing, canonical order, severity counts, the role hierarchy.
  \<^item> \<open>DeploymentWorker\<close>, \<open>WorkerProperties\<close>: one run of the worker with arbitrary other processes
    between its accesses (a rely condition), proved against \<open>repo_step\<close>; undisturbed runs finish.
  \<^item> \<open>StateFile\<close>, \<open>CutoverStore\<close>, \<open>AgentProperties\<close> (\<open>internal/agent/runtime\<close>): the agent's
    watermarks of admitted executions, their file and its failures, and restarts.
  \<^item> \<open>RuntimeSpec\<close>, \<open>WireEncoding\<close>, \<open>IngressCommand\<close>, \<open>AgentProtocol\<close>, \<open>AgentFingerprint\<close>
    (\<open>internal/shared/runtimespec\<close>, \<open>internal/shared/agentprotocol\<close>): what the server sends, its
    validity, canonical forms and fingerprints; the encoders are self-delimiting (a locale).
  \<^item> \<open>ResultCache\<close>, \<open>ProtocolProperties\<close> (\<open>internal/agent/runtime/result_cache.go\<close>): the durable cache.
  \<^item> \<open>DockerEngine\<close>, \<open>DockerDeployment\<close>, \<open>AgentExecutor\<close>
    (\<open>internal/agent/runtime/docker_deployment.go\<close>, \<open>docker_probe.go\<close>): the Docker engine as an argument, the
    handlers of deployment and cutover commands over it, and a command from its validation to its record.
  \<^item> \<open>DockerSafety\<close>, \<open>DockerDaemon\<close>, \<open>DockerProperties\<close>: the handlers over the trace of their engine calls,
    which an engine may answer in any way (\<open>docker_allowed\<close>), and on a daemon that does what it documents,
    as a map from names to containers (\<open>docker_daemon\<close>, \<open>activation_outcome\<close>, \<open>cancel_result\<close>).
  \<^item> \<open>IngressStore\<close>, \<open>IngressInvariant\<close>, \<open>IngressRestart\<close>, \<open>IngressRuntime\<close>, \<open>IngressProperties\<close>
    (\<open>internal/agent/runtime/ingress_store.go\<close>, \<open>ingress.go\<close>): the committed and the prepared configuration of
    the host's gateway and the watermarks of its routes, the commands that change them as steps
    (\<open>ingress_step\<close>), their order (\<open>fence_le\<close>), restarts, and what the gateway serves (\<open>gateway_ok\<close>).
  \<^item> \<open>TextRules\<close>, \<open>BuildRules\<close>, \<open>BuildConfiguration\<close>, \<open>Build\<close>, \<open>BuildSource\<close>, \<open>BuildTriggers\<close>,
    \<open>BuildArtifact\<close>, \<open>BuildProperties\<close> (\<open>internal/modules/build/biz\<close>): configurations and the rules of
    their fields, the life cycle of a build, sources and execution requests, triggers, webhooks and logs,
    artifacts and releases; what holds of a build over any steps (\<open>build_step\<close>).
  \<^item> \<open>InventoryTransport\<close>, \<open>InventoryDomain\<close>, \<open>InventoryProperties\<close>: the split of a snapshot into
    bounded chunks, the server's resources and chunks, and their delivery end to end.
  \<^item> \<open>SupplyRules\<close>, \<open>VulnerabilityReport\<close>, \<open>SupplyPolicy\<close>, \<open>SupplyTrust\<close>
    (\<open>internal/modules/supplychain/biz\<close>, \<open>data/trivy_report.go\<close>): evidence, reports and observations,
    deployment policies and waivers, signature trust and signing.
  \<^item> \<open>DeploymentAdmission\<close>, \<open>PolicyEnforcement\<close>, \<open>SupplyProperties\<close>
    (\<open>internal/modules/supplychain/data/deployment_admission.go\<close>): the evaluator the use cases call, what
    a policy demands stated apart from it, and that it decides by these demands alone.
  \<^item> \<open>EvidenceJob\<close>, \<open>TraceSafety\<close>, \<open>EvidenceWorker\<close>, \<open>EvidenceSafety\<close>, \<open>Provenance\<close>,
    \<open>EvidenceProperties\<close> (\<open>internal/modules/supplychain/worker\<close>, \<open>data/provenance.go\<close>): the jobs that make
    evidence and their leases, one run of their worker as a program over the trace of its calls, what it may
    call when (a logic of triples over traces, a locale) and in which phases, and the provenance document.
  \<^item> \<open>AppRoute\<close>, \<open>AppRouteCycle\<close>, \<open>RouteGateway\<close> (\<open>internal/modules/applicationroute/biz\<close>,
    \<open>data/agent_gateway.go\<close>):
    the route of an application, its use cases and its life cycle as a step relation (\<open>route_step\<close>), what a
    host is to serve, and the adapter from a route to the commands of the agent.
  \<^item> \<open>TraceOutcome\<close>, \<open>RouteCoordination\<close>, \<open>ServerExecutor\<close>, \<open>ServerSafety\<close>, \<open>ServerOutcome\<close>: the coordinators
    of a route and the worker's runtime executor as programs over the trace of their calls, the order of
    the phases of a managed cutover (\<open>cutover_allowed\<close>), and how a deployment ends (\<open>settles\<close>).

  Correspondence. A struct is a record with its fields prefixed, an enumeration a datatype with a
  constructor for any other text, a method with a pointer receiver a function to the updated record, an
  \<open>error\<close> a sum or an option. A mutex makes a method one step. Collaborators behind interfaces
  (lookups, generators, clocks, the recorder, the executor) are fields of an environment that the
  operations take; counters in the state let successive calls answer differently.

  Bounds. The repository's theorems assume that a lease generation or a cutover counter has not
  reached \<open>2 ^ 64 - 1\<close>; the worker's rely condition says that other writers give a deployment they
  write another version, which a step of the repository does (\<open>repo_step_versions\<close>). Numbers print in at
  most twenty digits, the fuel of \<open>decimal_fuel\<close>, which every \<open>uint64\<close> fits. Fingerprints identify a
  command up to a collision of SHA-256, which the theorems state explicitly.

  Failures. A write of a state file takes effect, fails as a whole, or replaces the file and then fails to
  sync its directory (\<open>write_outcome\<close>); the properties of restarts exclude the last, and lemmas beside them
  show what it loses. A call of the Docker daemon that reports an error may have happened. A commit of the database
  that reports an error has not (\<open>Client_WithinTransaction\<close>).

  A wait for a container polls as often as the context allows, a number the engine gives; an execution of
  the agent is one step of it, and what another execution of the same command answers is an argument.

  Not modelled: the MongoDB repositories, the gateways of the server to its runtimes, managed
  hosts, identity and terminal sessions, HTTP handlers and command line programs, the Docker daemon itself,
  BuildKit, Git, Caddy, Cosign and Trivy gateways, TLS and certificates, tracing and metrics (input and output
  around other programs); the JSON decoder of the state files (their content is the decoded document);
  a step of the executor or an operation of the evidence worker that never returns; non-ASCII case folding.
\<close>

end
